(* ===== verification/Prelude.thy ===== *)
theory Prelude
  imports Complex_Main "HOL-Library.Word" "HOL-Library.List_Lexorder" "HOL-Library.Char_ord"
begin

text \<open>
  Shared vocabulary of the development: bytes, results with errors as values, Rust's
  string operations, and the sorted association lists that stand for \<^verbatim>\<open>BTreeMap\<close>.

  A Rust string is a list of \<^typ>\<open>char\<close>; each \<^typ>\<open>char\<close> is one Unicode scalar value in
  the range U+0000 to U+00FF. On that range the operations below (white space, case
  folding, alphanumeric, UTF-8 length, debug escaping) are exactly Rust's. Rust orders
  strings by their UTF-8 bytes, which is the lexicographic order of the scalar values,
  the order that \<open>List_Lexorder\<close> and \<open>Char_ord\<close> put on strings.
\<close>

section \<open>Collections, bytes and results\<close>

named_theorems result_simps "unfolding of results with errors as values"
named_theorems string_simps "evaluation of Rust string operations"

type_synonym byte = "8 word"
type_synonym bytes = "8 word list"

text \<open>Rust's \<^verbatim>\<open>?\<close> operator: an error is returned at once.\<close>

definition and_then :: "'e + 'a \<Rightarrow> ('a \<Rightarrow> 'e + 'b) \<Rightarrow> 'e + 'b" where
  "and_then r f = (case r of Inl e \<Rightarrow> Inl e | Inr x \<Rightarrow> f x)"

lemma and_then_Inl [simp]: "and_then (Inl e) f = Inl e"
  by (simp add: and_then_def)

lemma and_then_Inr [simp]: "and_then (Inr x) f = f x"
  by (simp add: and_then_def)

lemma and_then_eq_Inr [result_simps]:
  "and_then r f = Inr y \<longleftrightarrow> (\<exists>x. r = Inr x \<and> f x = Inr y)"
  by (cases r) auto

lemma and_then_eq_Inl [result_simps]:
  "and_then r f = Inl e \<longleftrightarrow> r = Inl e \<or> (\<exists>x. r = Inr x \<and> f x = Inl e)"
  by (cases r) auto

definition ok_or :: "'e \<Rightarrow> 'a option \<Rightarrow> 'e + 'a" where
  "ok_or e x = (case x of None \<Rightarrow> Inl e | Some y \<Rightarrow> Inr y)"

lemma ok_or_simps [simp]: "ok_or e None = Inl e" "ok_or e (Some y) = Inr y"
  by (simp_all add: ok_or_def)

lemma ok_or_eq [result_simps]:
  "ok_or e x = Inr y \<longleftrightarrow> x = Some y"
  "ok_or e x = Inl d \<longleftrightarrow> x = None \<and> d = e"
  by (auto simp: ok_or_def split: option.splits)

definition is_ok :: "'e + 'a \<Rightarrow> bool" where
  "is_ok r = (case r of Inl _ \<Rightarrow> False | Inr _ \<Rightarrow> True)"

lemma is_ok_simps [simp]: "\<not> is_ok (Inl e)" "is_ok (Inr x)"
  by (simp_all add: is_ok_def)

lemma is_okE: "is_ok r \<Longrightarrow> (\<And>x. r = Inr x \<Longrightarrow> P) \<Longrightarrow> P"
  by (cases r) auto

text \<open>A fallible map over a list: the first error wins, as \<^verbatim>\<open>collect::<Result<_>>\<close> does.\<close>

fun map_res :: "('a \<Rightarrow> 'e + 'b) \<Rightarrow> 'a list \<Rightarrow> 'e + 'b list" where
  "map_res f [] = Inr []"
| "map_res f (x # xs) = and_then (f x) (\<lambda>y. and_then (map_res f xs) (\<lambda>ys. Inr (y # ys)))"

lemma map_res_Inr_iff:
  "map_res f xs = Inr ys \<longleftrightarrow> list_all2 (\<lambda>x y. f x = Inr y) xs ys"
proof (induction xs arbitrary: ys)
  case (Cons x xs)
  then show ?case by (cases ys) (auto simp: result_simps)
qed auto

lemma find_SomeD: "find P xs = Some x \<Longrightarrow> x \<in> set xs \<and> P x"
  by (induction xs) (auto split: if_splits)

lemma find_None_iff_ball: "find P xs = None \<longleftrightarrow> (\<forall>x \<in> set xs. \<not> P x)"
  by (auto simp: find_None_iff)

section \<open>Characters\<close>

definition code_of :: "char \<Rightarrow> nat" where
  "code_of c = of_char c"

definition is_ascii_digit :: "char \<Rightarrow> bool" where
  "is_ascii_digit c = (48 \<le> code_of c \<and> code_of c \<le> 57)"

definition is_ascii_upper :: "char \<Rightarrow> bool" where
  "is_ascii_upper c = (65 \<le> code_of c \<and> code_of c \<le> 90)"

definition is_ascii_lower :: "char \<Rightarrow> bool" where
  "is_ascii_lower c = (97 \<le> code_of c \<and> code_of c \<le> 122)"

definition is_ascii_alphanumeric :: "char \<Rightarrow> bool" where
  "is_ascii_alphanumeric c = (is_ascii_digit c \<or> is_ascii_upper c \<or> is_ascii_lower c)"

definition is_ascii_hexdigit :: "char \<Rightarrow> bool" where
  "is_ascii_hexdigit c =
     (is_ascii_digit c \<or> (65 \<le> code_of c \<and> code_of c \<le> 70) \<or> (97 \<le> code_of c \<and> code_of c \<le> 102))"

text \<open>\<^verbatim>\<open>char::is_whitespace\<close>: the \<open>White_Space\<close> property on U+0000 to U+00FF.\<close>

definition is_whitespace :: "char \<Rightarrow> bool" where
  "is_whitespace c =
     ((9 \<le> code_of c \<and> code_of c \<le> 13) \<or> code_of c = 32 \<or> code_of c = 133 \<or> code_of c = 160)"

text \<open>\<^verbatim>\<open>char::to_lowercase\<close>: the two ranges of capitals of Latin-1, without U+00D7.\<close>

definition lower_char :: "char \<Rightarrow> char" where
  "lower_char c =
     (if is_ascii_upper c \<or> (192 \<le> code_of c \<and> code_of c \<le> 222 \<and> code_of c \<noteq> 215)
      then char_of (code_of c + 32) else c)"

definition ascii_lower_char :: "char \<Rightarrow> char" where
  "ascii_lower_char c = (if is_ascii_upper c then char_of (code_of c + 32) else c)"

definition ascii_upper_char :: "char \<Rightarrow> char" where
  "ascii_upper_char c = (if is_ascii_lower c then char_of (code_of c - 32) else c)"

text \<open>\<^verbatim>\<open>char::is_alphanumeric\<close>: \<open>Alphabetic\<close> or \<open>Numeric\<close> on U+0000 to U+00FF.\<close>

definition is_alphanumeric :: "char \<Rightarrow> bool" where
  "is_alphanumeric c =
     (is_ascii_alphanumeric c \<or> code_of c \<in> {170, 178, 179, 181, 185, 186, 188, 189, 190}
      \<or> (192 \<le> code_of c \<and> code_of c \<noteq> 215 \<and> code_of c \<noteq> 247))"

lemma code_of_less [simp]: "code_of c < 256"
  by (simp add: code_of_def)

lemma char_of_code_of [simp]: "char_of (code_of c) = c"
  by (simp add: code_of_def)

lemma code_of_char_of [simp]: "code_of (char_of n) = n mod 256"
  by (simp add: code_of_def of_char_of)

section \<open>Strings\<close>

definition trim_start :: "string \<Rightarrow> string" where
  "trim_start s = dropWhile is_whitespace s"

definition trim_end :: "string \<Rightarrow> string" where
  "trim_end s = rev (dropWhile is_whitespace (rev s))"

definition trim :: "string \<Rightarrow> string" where
  "trim s = trim_end (trim_start s)"

definition to_lowercase :: "string \<Rightarrow> string" where
  "to_lowercase s = map lower_char s"

definition to_ascii_uppercase :: "string \<Rightarrow> string" where
  "to_ascii_uppercase s = map ascii_upper_char s"

definition eq_ignore_ascii_case :: "string \<Rightarrow> string \<Rightarrow> bool" where
  "eq_ignore_ascii_case a b = (map ascii_lower_char a = map ascii_lower_char b)"

fun starts_with :: "'a list \<Rightarrow> 'a list \<Rightarrow> bool" where
  "starts_with s [] = True"
| "starts_with [] (p # ps) = False"
| "starts_with (c # cs) (p # ps) = (c = p \<and> starts_with cs ps)"

lemma starts_with_append [simp]: "starts_with (p @ s) p"
  by (induction p) auto

lemma starts_withD: "starts_with s p \<Longrightarrow> \<exists>t. s = p @ t"
  by (induction s p rule: starts_with.induct) auto

text \<open>\<^verbatim>\<open>str::split\<close> on a character predicate: always at least one piece.\<close>

fun split_on :: "('a \<Rightarrow> bool) \<Rightarrow> 'a list \<Rightarrow> 'a list list" where
  "split_on P [] = [[]]"
| "split_on P (c # cs) =
     (if P c then [] # split_on P cs
      else (case split_on P cs of [] \<Rightarrow> [[c]] | w # ws \<Rightarrow> (c # w) # ws))"

lemma split_on_neq_Nil [simp]: "split_on P s \<noteq> []"
  by (cases s) (auto split: list.splits)

lemma split_on_no_sep: "w \<in> set (split_on P s) \<Longrightarrow> c \<in> set w \<Longrightarrow> \<not> P c"
proof (induction s arbitrary: w)
  case (Cons d s)
  obtain v vs where sp: "split_on P s = v # vs"
    by (cases "split_on P s") auto
  from Cons.prems sp consider "w = []" | "w = d # v" "\<not> P d" | "w \<in> set (split_on P s)"
    by (auto split: if_splits)
  then show ?case
    using Cons.prems(2) Cons.IH sp by cases auto
qed auto

text \<open>\<^verbatim>\<open>[..].join(sep)\<close>.\<close>

fun join :: "'a list \<Rightarrow> 'a list list \<Rightarrow> 'a list" where
  "join sep [] = []"
| "join sep [w] = w"
| "join sep (w # ws) = w @ sep @ join sep ws"

lemma split_on_append:
  "(\<And>c. c \<in> set w \<Longrightarrow> \<not> P c) \<Longrightarrow> split_on P (w @ s) =
     (case split_on P s of [] \<Rightarrow> [w] | v # vs \<Rightarrow> (w @ v) # vs)"
  by (induction w) (auto split: list.splits)

lemma split_on_join:
  assumes "ws \<noteq> []" and "\<And>w c. w \<in> set ws \<Longrightarrow> c \<in> set w \<Longrightarrow> c \<noteq> d"
  shows "split_on (\<lambda>c. c = d) (join [d] ws) = ws"
  using assms
proof (induction "[d]" ws rule: join.induct)
  case (2 w)
  then show ?case by (simp add: split_on_append [where s = "[]", simplified])
next
  case (3 w v vs)
  then have "split_on (\<lambda>c. c = d) (join [d] (v # vs)) = v # vs" by auto
  moreover have "split_on (\<lambda>c. c = d) (w @ d # join [d] (v # vs)) =
      w # split_on (\<lambda>c. c = d) (join [d] (v # vs))"
    using "3.prems" by (subst split_on_append) auto
  ultimately show ?case by simp
qed auto

text \<open>\<^verbatim>\<open>str::split_once(pat)\<close>: the first occurrence of the pattern, if any.\<close>

fun split_once :: "'a list \<Rightarrow> 'a list \<Rightarrow> ('a list \<times> 'a list) option" where
  "split_once pat [] = (if pat = [] then Some ([], []) else None)"
| "split_once pat (c # cs) =
     (if starts_with (c # cs) pat then Some ([], drop (length pat) (c # cs))
      else (case split_once pat cs of None \<Rightarrow> None | Some (a, b) \<Rightarrow> Some (c # a, b)))"

lemma split_once_Some: "split_once pat s = Some (a, b) \<Longrightarrow> s = a @ pat @ b"
proof (induction pat s arbitrary: a rule: split_once.induct)
  case (2 pat c cs)
  then show ?case
    by (auto split: if_splits option.splits dest!: starts_withD)
qed (auto split: if_splits)

text \<open>\<^verbatim>\<open>str::lines\<close>: pieces between newlines, a trailing \<^verbatim>\<open>\r\<close> dropped, no empty last piece.\<close>

definition strip_cr :: "string \<Rightarrow> string" where
  "strip_cr l = (if l \<noteq> [] \<and> last l = CHR 0x0D then butlast l else l)"

definition lines :: "string \<Rightarrow> string list" where
  "lines s =
     (let ps = split_on (\<lambda>c. c = CHR 0x0A) s;
          body = map strip_cr (butlast ps)
      in body @ (if last ps = [] then [] else [last ps]))"

definition words_ws :: "string \<Rightarrow> string list" where
  "words_ws s = filter (\<lambda>w. w \<noteq> []) (split_on is_whitespace s)"

text \<open>Decimal rendering of unsigned and signed integers (\<^verbatim>\<open>{}\<close> in a format string).\<close>

definition digit_char :: "nat \<Rightarrow> char" where
  "digit_char d = char_of (48 + d)"

fun nat_str :: "nat \<Rightarrow> string" where
  "nat_str n = (if n < 10 then [digit_char n] else nat_str (n div 10) @ [digit_char (n mod 10)])"

declare nat_str.simps [simp del]

definition int_str :: "int \<Rightarrow> string" where
  "int_str i = (if i < 0 then CHR ''-'' # nat_str (nat (- i)) else nat_str (nat i))"

text \<open>Lowercase hexadecimal digit and rendering (\<^verbatim>\<open>{:x}\<close>).\<close>

definition hex_digit :: "nat \<Rightarrow> char" where
  "hex_digit d = (if d < 10 then char_of (48 + d) else char_of (87 + d))"

fun hex_str :: "nat \<Rightarrow> string" where
  "hex_str n = (if n < 16 then [hex_digit n] else hex_str (n div 16) @ [hex_digit (n mod 16)])"

declare hex_str.simps [simp del]

text \<open>
  \<^verbatim>\<open>{:?}\<close> of a string: quotes around, backslash escapes, and \<^verbatim>\<open>\u{..}\<close> for what is not
  printable (controls, U+00A0 and U+00AD on this range).
\<close>

definition esc_char :: "char \<Rightarrow> string" where
  "esc_char c =
     (if c = CHR 0x00 then [CHR 0x5C, CHR ''0'']
      else if c = CHR 0x09 then [CHR 0x5C, CHR ''t'']
      else if c = CHR 0x0A then [CHR 0x5C, CHR ''n'']
      else if c = CHR 0x0D then [CHR 0x5C, CHR ''r'']
      else if c = CHR 0x22 then [CHR 0x5C, CHR 0x22]
      else if c = CHR 0x5C then [CHR 0x5C, CHR 0x5C]
      else if code_of c < 32 \<or> (127 \<le> code_of c \<and> code_of c \<le> 160) \<or> code_of c = 173
      then [CHR 0x5C, CHR ''u'', CHR 0x7B] @ hex_str (code_of c) @ [CHR 0x7D]
      else [c])"

definition debug_str :: "string \<Rightarrow> string" where
  "debug_str s = [CHR 0x22] @ concat (map esc_char s) @ [CHR 0x22]"

text \<open>UTF-8 bytes of a string: what \<^verbatim>\<open>as_bytes\<close> and \<^verbatim>\<open>len\<close> see.\<close>

definition utf8_char :: "char \<Rightarrow> bytes" where
  "utf8_char c =
     (let n = code_of c in
      if n < 128 then [word_of_nat n]
      else [word_of_nat (192 + n div 64), word_of_nat (128 + n mod 64)])"

definition utf8 :: "string \<Rightarrow> bytes" where
  "utf8 s = concat (map utf8_char s)"

lemma trim_idem_start [simp]: "dropWhile is_whitespace (trim_start s) = trim_start s"
  by (simp add: trim_start_def)

lemma trim_id:
  assumes "s \<noteq> []" and "\<not> is_whitespace (hd s)" and "\<not> is_whitespace (last s)"
  shows "trim s = s"
proof -
  from assms(1,2) have "dropWhile is_whitespace s = s" by (cases s) auto
  moreover from assms(1,3) have "dropWhile is_whitespace (rev s) = rev s"
    by (cases s rule: rev_cases) auto
  ultimately show ?thesis by (simp add: trim_def trim_start_def trim_end_def)
qed

section \<open>Integer division and bounds\<close>

text \<open>Rust's \<^verbatim>\<open>/\<close> on signed integers truncates towards zero.\<close>

definition tdiv :: "int \<Rightarrow> int \<Rightarrow> int" where
  "tdiv a b = sgn a * sgn b * (\<bar>a\<bar> div \<bar>b\<bar>)"

lemma tdiv_nonneg: "0 \<le> a \<Longrightarrow> 0 < b \<Longrightarrow> tdiv a b = a div b"
  by (cases "a = 0") (auto simp: tdiv_def)

lemma tdiv_nonpos: "a \<le> 0 \<Longrightarrow> 0 < b \<Longrightarrow> tdiv a b \<le> 0"
  by (cases "a = 0") (auto simp: tdiv_def pos_imp_zdiv_nonneg_iff)

definition i64_max :: int where "i64_max = 9223372036854775807"
definition i64_min :: int where "i64_min = - 9223372036854775808"

text \<open>\<^verbatim>\<open>i64::saturating_mul\<close>.\<close>

definition saturating_mul_i64 :: "int \<Rightarrow> int \<Rightarrow> int" where
  "saturating_mul_i64 a b = max i64_min (min i64_max (a * b))"

section \<open>Wire codecs\<close>

text \<open>
  The contract between an enumeration and its wire form: what is written can be read
  back, and nothing else reads as that value.
\<close>

locale wire_codec =
  fixes enc :: "'a \<Rightarrow> 'w"
    and dec :: "'w \<Rightarrow> 'a option"
  assumes dec_enc: "dec (enc a) = Some a"
    and enc_dec: "dec w = Some a \<Longrightarrow> enc a = w"
begin

lemma enc_inj: "inj enc"
  by (rule injI) (metis dec_enc option.inject)

lemma dec_iff: "dec w = Some a \<longleftrightarrow> w = enc a"
  using dec_enc enc_dec by auto

lemma dec_None_iff: "dec w = None \<longleftrightarrow> w \<notin> range enc"
  by (metis dec_enc enc_dec not_None_eq option.distinct(1) rangeE rangeI)

end

section \<open>Ordered maps\<close>

text \<open>
  The contract of an ordered map (Rust's \<^verbatim>\<open>BTreeMap\<close>): lookup after insertion and
  removal, and iteration in key order with no key twice.
\<close>

locale ordered_map =
  fixes empty :: "'m"
    and insert :: "'k::linorder \<Rightarrow> 'v \<Rightarrow> 'm \<Rightarrow> 'm"
    and remove :: "'k \<Rightarrow> 'm \<Rightarrow> 'm"
    and get :: "'m \<Rightarrow> 'k \<Rightarrow> 'v option"
    and entries :: "'m \<Rightarrow> ('k \<times> 'v) list"
    and wf :: "'m \<Rightarrow> bool"
  assumes wf_empty: "wf empty"
    and wf_insert: "wf m \<Longrightarrow> wf (insert k v m)"
    and wf_remove: "wf m \<Longrightarrow> wf (remove k m)"
    and get_empty: "get empty k = None"
    and get_insert: "wf m \<Longrightarrow> get (insert k v m) j = (if j = k then Some v else get m j)"
    and get_remove: "wf m \<Longrightarrow> get (remove k m) j = (if j = k then None else get m j)"
    and get_entries: "wf m \<Longrightarrow> get m k = map_of (entries m) k"
    and entries_sorted: "wf m \<Longrightarrow> sorted_wrt (<) (map fst (entries m))"
begin

lemma entries_distinct: "wf m \<Longrightarrow> distinct (map fst (entries m))"
  using entries_sorted by (auto simp: strict_sorted_iff)

lemma get_Some_iff: "wf m \<Longrightarrow> get m k = Some v \<longleftrightarrow> (k, v) \<in> set (entries m)"
  by (metis entries_distinct get_entries map_of_eq_Some_iff)

text \<open>Two maps with the same lookups iterate over the same entries: a \<^verbatim>\<open>BTreeMap\<close> is canonical.\<close>

lemma entries_canonical:
  assumes "wf m" and "wf n" and "\<And>k. get m k = get n k"
  shows "entries m = entries n"
proof -
  have same: "set (entries m) = set (entries n)"
    using assms get_Some_iff by (metis equalityI subrelI)
  have "map fst (entries m) = map fst (entries n)"
    by (rule strict_sorted_equal)
      (use same assms(1,2) in \<open>auto simp: entries_sorted\<close>)
  moreover have "inj_on fst (set (entries m) \<union> set (entries n))"
    using same entries_distinct [OF assms(1)] by (simp add: distinct_map)
  ultimately show ?thesis by (rule map_inj_on)
qed

end

text \<open>The sorted association list that models it.\<close>

fun bt_insert :: "'k::linorder \<Rightarrow> 'v \<Rightarrow> ('k \<times> 'v) list \<Rightarrow> ('k \<times> 'v) list" where
  "bt_insert k v [] = [(k, v)]"
| "bt_insert k v ((j, w) # m) =
     (if k < j then (k, v) # (j, w) # m
      else if k = j then (k, v) # m
      else (j, w) # bt_insert k v m)"

definition bt_remove :: "'k \<Rightarrow> ('k \<times> 'v) list \<Rightarrow> ('k \<times> 'v) list" where
  "bt_remove k m = filter (\<lambda>e. fst e \<noteq> k) m"

abbreviation bt_get :: "('k \<times> 'v) list \<Rightarrow> 'k \<Rightarrow> 'v option" where
  "bt_get \<equiv> map_of"

definition bt_wf :: "('k::linorder \<times> 'v) list \<Rightarrow> bool" where
  "bt_wf m = sorted_wrt (<) (map fst m)"

definition bt_has :: "('k \<times> 'v) list \<Rightarrow> 'k \<Rightarrow> bool" where
  "bt_has m k = (map_of m k \<noteq> None)"

lemma bt_insert_get [simp]: "map_of (bt_insert k v m) = (map_of m)(k \<mapsto> v)"
  by (induction k v m rule: bt_insert.induct) (auto simp: fun_upd_twist)

lemma bt_insert_keys [simp]: "fst ` set (bt_insert k v m) = insert k (fst ` set m)"
  by (induction k v m rule: bt_insert.induct) auto

lemma bt_wf_Nil [simp]: "bt_wf []"
  by (simp add: bt_wf_def)

lemma bt_wf_insert [simp]: "bt_wf m \<Longrightarrow> bt_wf (bt_insert k v m)"
proof (induction k v m rule: bt_insert.induct)
  case (2 k v j w m)
  have keys: "set (map fst (bt_insert k v m)) = insert k (set (map fst m))"
    by simp
  from 2 show ?case by (auto simp: bt_wf_def simp flip: keys)
qed (simp add: bt_wf_def)

lemma bt_wf_remove [simp]: "bt_wf m \<Longrightarrow> bt_wf (bt_remove k m)"
  unfolding bt_wf_def bt_remove_def
  by (induction m) (auto simp: image_iff)

lemma bt_remove_get [simp]: "map_of (bt_remove k m) j = (if j = k then None else map_of m j)"
  by (induction m) (auto simp: bt_remove_def)

interpretation bt: ordered_map "[]" bt_insert bt_remove map_of "\<lambda>m. m" bt_wf
  by unfold_locales (auto simp: bt_wf_def [symmetric])

text \<open>A \<^verbatim>\<open>BTreeMap\<close> filled by one insertion after the other.\<close>

definition bt_fill :: "('k::linorder \<times> 'v) list \<Rightarrow> ('k \<times> 'v) list \<Rightarrow> ('k \<times> 'v) list" where
  "bt_fill es acc = fold (\<lambda>(k, v). bt_insert k v) es acc"

lemma bt_fill_simps [simp]:
  "bt_fill [] acc = acc" "bt_fill ((k, v) # es) acc = bt_fill es (bt_insert k v acc)"
  by (simp_all add: bt_fill_def)

lemma bt_wf_fill [simp]: "bt_wf acc \<Longrightarrow> bt_wf (bt_fill es acc)"
  by (induction es arbitrary: acc) auto

lemma map_of_bt_fill:
  "distinct (map fst es) \<Longrightarrow> map_of (bt_fill es acc) = map_of acc ++ map_of es"
proof (induction es arbitrary: acc)
  case (Cons e es)
  obtain a b where e: "e = (a, b)" by (cases e)
  with Cons.prems have "a \<notin> dom (map_of es)" by (simp add: dom_map_of_conv_image_fst)
  then have "(map_of acc)(a \<mapsto> b) ++ map_of es = (map_of acc ++ map_of es)(a \<mapsto> b)"
    by (rule map_add_upd_left)
  also have "\<dots> = map_of acc ++ map_of ((a, b) # es)"
    by (simp add: fun_eq_iff map_add_def)
  finally have step: "(map_of acc)(a \<mapsto> b) ++ map_of es = map_of acc ++ map_of ((a, b) # es)" .
  have "distinct (map fst es)" using Cons.prems by simp
  note IH = Cons.IH [OF this, of "bt_insert a b acc", unfolded bt_insert_get]
  show ?case unfolding e bt_fill_simps IH by (rule step)
qed simp

lemma set_bt_fill: "distinct (map fst es) \<Longrightarrow> set (bt_fill es []) = set es"
proof -
  assume *: "distinct (map fst es)"
  have "(k, v) \<in> set (bt_fill es []) \<longleftrightarrow> (k, v) \<in> set es" for k v
    using bt.get_Some_iff [of "bt_fill es []" k v] map_of_bt_fill [OF *, of "[]"] *
    by simp
  then show ?thesis by auto
qed

lemma bt_wf_set_eq: "bt_wf m \<Longrightarrow> bt_wf n \<Longrightarrow> set m = set n \<Longrightarrow> m = n"
proof (rule bt.entries_canonical)
  fix k assume *: "bt_wf m" "bt_wf n" "set m = set n"
  have "map_of m k = Some v \<longleftrightarrow> map_of n k = Some v" for v
    using bt.get_Some_iff [OF *(1)] bt.get_Some_iff [OF *(2)] *(3) by simp
  then show "map_of m k = map_of n k" by (metis not_Some_eq)
qed auto

text \<open>
  Writing a map under other keys and reading it back gives the map, whenever the reading
  of a key undoes its writing on the keys of the map.
\<close>

lemma bt_fill_roundtrip:
  assumes "bt_wf m" and "\<And>k v. (k, v) \<in> set m \<Longrightarrow> e (c k) = k \<and> g (h v) = v"
  shows "bt_fill (map (\<lambda>(r, v). (e r, g v)) (bt_fill (map (\<lambda>(k, v). (c k, h v)) m) [])) [] = m"
    (is "bt_fill (map ?r ?S) [] = m")
proof -
  have m: "distinct (map fst m)" using assms(1) bt.entries_distinct by blast
  have "inj_on c (fst ` set m)"
    using assms(2) by (intro inj_on_inverseI [of _ e]) auto
  then have "distinct (map fst (map (\<lambda>(k, v). (c k, h v)) m))"
    using m by (simp add: distinct_map case_prod_unfold inj_on_def)
  then have S: "set ?S = (\<lambda>(k, v). (c k, h v)) ` set m" by (simp add: set_bt_fill)
  have dS: "distinct (map fst ?S)" using bt.entries_distinct [of ?S] by simp
  have "inj_on e (fst ` set ?S)"
    using assms(2) unfolding S by (intro inj_on_inverseI [of _ c]) auto
  then have "distinct (map fst (map ?r ?S))"
    using dS by (simp add: distinct_map case_prod_unfold inj_on_def)
  moreover have "set (map ?r ?S) = set m"
    unfolding set_map S image_image using assms(2) by (force simp: image_iff)
  ultimately have "set (bt_fill (map ?r ?S) []) = set m" by (simp add: set_bt_fill)
  then show ?thesis using assms(1) by (intro bt_wf_set_eq) auto
qed

end
