(* ===== verification/Core_Error.thy ===== *)
theory Core_Error
  imports Prelude
begin

text \<open>
  \<^verbatim>\<open>crates/dejadb-core/src/error.rs\<close>: the content address \<^verbatim>\<open>Hash\<close>, the error enum of the
  core crates with its stable codes, and the messages that lead with them. The hex crate
  is a parameter: \<open>hex_encode\<close> and \<open>hex_decode\<close> are arguments of what calls them.
\<close>

section \<open>Content addresses\<close>

datatype hash = Hash (as_bytes: bytes)

text \<open>Addresses are compared by their bytes (\<^verbatim>\<open>as_bytes().as_slice()\<close>, SQL blob order).\<close>

instantiation hash :: linorder
begin

definition less_eq_hash :: "hash \<Rightarrow> hash \<Rightarrow> bool" where
  "less_eq_hash a b = (as_bytes a \<le> as_bytes b)"

definition less_hash :: "hash \<Rightarrow> hash \<Rightarrow> bool" where
  "less_hash a b = (as_bytes a < as_bytes b)"

instance
  by standard (auto simp: less_eq_hash_def less_hash_def hash.expand)

end

datatype deja_error =
    NotFound hash
  | Format string
  | Validation string
  | Serialization string
  | ToolRenderUnsupported string
  | Storage string
  | StoreBusy string
  | SupersessionConflict hash
  | CryptoError string
  | AccumulateRetryExhausted
  | AccumulateInternal string
  | AccumulateBackpressureRejected
  | InternalError string
  | AuthzDenied string
  | AuthzUnknownPrincipal string
  | AuthzConfigInvalid string
  | AuthzTokenUnrecognized

definition hash_from_bytes :: "bytes \<Rightarrow> hash" where
  "hash_from_bytes bs = Hash bs"

definition hash_try_from_bytes :: "bytes \<Rightarrow> deja_error + hash" where
  "hash_try_from_bytes bs =
     (if length bs < 32
      then Inl (Format (''hash requires 32 bytes, got '' @ nat_str (length bs)))
      else Inr (Hash (take 32 bs)))"

definition hash_from_hex :: "(string \<Rightarrow> string + bytes) \<Rightarrow> string \<Rightarrow> deja_error + hash" where
  "hash_from_hex hex_decode s =
     (case hex_decode s of
        Inl e \<Rightarrow> Inl (Format (''invalid hex hash: '' @ e))
      | Inr bs \<Rightarrow>
          if length bs \<noteq> 32
          then Inl (Format (''hash must be 32 bytes, got '' @ nat_str (length bs)))
          else Inr (hash_from_bytes bs))"

definition hash_to_hex :: "(bytes \<Rightarrow> string) \<Rightarrow> hash \<Rightarrow> string" where
  "hash_to_hex hex_encode h = hex_encode (as_bytes h)"

definition hash_debug :: "(bytes \<Rightarrow> string) \<Rightarrow> hash \<Rightarrow> string" where
  "hash_debug hex_encode h = ''Hash('' @ take 16 (hash_to_hex hex_encode h) @ '')''"

section \<open>Codes and messages\<close>

fun error_code :: "deja_error \<Rightarrow> string" where
  "error_code (NotFound _) = ''MEM-E001''"
| "error_code (SupersessionConflict _) = ''MEM-E002''"
| "error_code (ToolRenderUnsupported _) = ''MEM-E110''"
| "error_code (Format _) = ''FMT-E001''"
| "error_code (Serialization _) = ''FMT-E002''"
| "error_code (Validation _) = ''VAL-E001''"
| "error_code (Storage _) = ''STO-E001''"
| "error_code (StoreBusy _) = ''STO-E002''"
| "error_code (CryptoError _) = ''CRY-E001''"
| "error_code AccumulateRetryExhausted = ''CAL-E083''"
| "error_code (AccumulateInternal _) = ''CAL-E084''"
| "error_code AccumulateBackpressureRejected = ''CAL-E085''"
| "error_code (InternalError _) = ''SYS-E001''"
| "error_code (AuthzDenied _) = ''AUT-E001''"
| "error_code (AuthzUnknownPrincipal _) = ''AUT-E002''"
| "error_code (AuthzConfigInvalid _) = ''AUT-E003''"
| "error_code AuthzTokenUnrecognized = ''AUT-E004''"

fun error_display :: "(bytes \<Rightarrow> string) \<Rightarrow> deja_error \<Rightarrow> string" where
  "error_display hx (NotFound h) = ''MEM-E001: grain not found: '' @ hash_to_hex hx h"
| "error_display hx (SupersessionConflict h) =
     ''MEM-E002: already superseded: '' @ hash_to_hex hx h"
| "error_display hx (ToolRenderUnsupported m) = ''MEM-E110: tool render unsupported: '' @ m"
| "error_display hx (Format m) = ''FMT-E001: format error: '' @ m"
| "error_display hx (Serialization m) = ''FMT-E002: serialization error: '' @ m"
| "error_display hx (Validation m) = ''VAL-E001: validation error: '' @ m"
| "error_display hx (Storage m) = ''STO-E001: storage error: '' @ m"
| "error_display hx (StoreBusy m) = ''STO-E002: store busy: '' @ m"
| "error_display hx (CryptoError m) = ''CRY-E001: crypto error: '' @ m"
| "error_display hx AccumulateRetryExhausted =
     ''CAL-E083: ACCUMULATE retry budget exhausted''"
| "error_display hx (AccumulateInternal m) = ''CAL-E084: ACCUMULATE internal failure: '' @ m"
| "error_display hx AccumulateBackpressureRejected =
     ''CAL-E085: ACCUMULATE backpressure: inflight cap exceeded''"
| "error_display hx (InternalError m) = ''SYS-E001: internal error: '' @ m"
| "error_display hx (AuthzDenied m) = ''AUT-E001: authorization denied: '' @ m"
| "error_display hx (AuthzUnknownPrincipal p) = ''AUT-E002: unknown principal: '' @ p"
| "error_display hx (AuthzConfigInvalid m) = ''AUT-E003: '' @ m"
| "error_display hx AuthzTokenUnrecognized = ''AUT-E004: token not recognized''"

section \<open>Properties\<close>

lemma hash_try_from_bytes_Inr:
  "hash_try_from_bytes bs = Inr h \<longleftrightarrow> 32 \<le> length bs \<and> h = Hash (take 32 bs)"
  by (auto simp: hash_try_from_bytes_def)

lemma hash_try_from_bytes_exact: "length bs = 32 \<Longrightarrow> hash_try_from_bytes bs = Inr (Hash bs)"
  by (simp add: hash_try_from_bytes_def)

text \<open>
  The code of every core error is the leading token of its message, followed by a colon: for
  every variant and payload, a user who reports the first token of the message points
  at the variant.
\<close>

theorem error_display_leads_with_code:
  "starts_with (error_display hx e) (error_code e @ '': '')"
  by (cases e) simp_all

text \<open>The variants of the error enum, payloads dropped.\<close>

lemma error_code_shape:
  "length (error_code e) = 8 \<and> take 2 (drop 3 (error_code e)) = ''-E''
   \<and> (\<forall>c \<in> set (take 3 (error_code e)). is_ascii_upper c)
   \<and> (\<forall>c \<in> set (drop 5 (error_code e)). is_ascii_digit c)"
  by (cases e) (simp_all add: is_ascii_upper_def is_ascii_digit_def code_of_def)

end
