(* ===== verification/Grain_Registry.thy ===== *)
theory Grain_Registry
  imports Core_Error
begin

text \<open>
  \<^verbatim>\<open>crates/dejadb-core/src/types/registry.rs\<close> and the grain type of
  \<^verbatim>\<open>crates/dejadb-core/src/types/grain.rs\<close>: one metadata row per grain type, the lookups
  over the table, and the two wire codecs (header byte, canonical name) it gives.
\<close>

section \<open>Grain types\<close>

text \<open>The order of the constructors is the ordinal the store writes in its \<^verbatim>\<open>gtype\<close> column.\<close>

datatype grain_type =
    GFact | GEvent | GState | GWorkflow | GTool | GObservation | GGoal | GReasoning
  | GConsensus | GConsent | GSkill | GRecommendation

record grain_type_meta =
  ty :: grain_type
  byte_of :: byte
  grain_name :: string
  plural :: string
  add_via_set :: bool
  host_addable :: bool
  required_add_fields :: "string list"
  queryable_fields :: "string list"
  toon_columns :: "string list"

section \<open>The table\<close>

definition GRAIN_TYPES_first :: "grain_type_meta list" where
  "GRAIN_TYPES_first = [
     \<lparr> ty = GFact, byte_of = 0x01, grain_name = ''fact'', plural = ''facts'',
       add_via_set = True, host_addable = True,
       required_add_fields = [''subject'', ''relation'', ''object''],
       queryable_fields = [''subject'', ''relation'', ''object'', ''confidence''],
       toon_columns = [''subject'', ''content'', ''confidence''] \<rparr>,
     \<lparr> ty = GEvent, byte_of = 0x02, grain_name = ''event'', plural = ''events'',
       add_via_set = False, host_addable = True,
       required_add_fields = [''content''],
       queryable_fields = [''role'', ''session_id'', ''parent_message_id'', ''model_id'', ''content'',
         ''created_at'', ''stop_reason'', ''run_id''],
       toon_columns = [''role'', ''time'', ''content''] \<rparr>,
     \<lparr> ty = GState, byte_of = 0x03, grain_name = ''state'', plural = ''states'',
       add_via_set = False, host_addable = True,
       required_add_fields = [],
       queryable_fields = [''context'', ''plan'', ''history''],
       toon_columns = [''context'', ''content''] \<rparr>,
     \<lparr> ty = GWorkflow, byte_of = 0x04, grain_name = ''workflow'', plural = ''workflows'',
       add_via_set = False, host_addable = True,
       required_add_fields = [''nodes''],
       queryable_fields = [''trigger'', ''node'', ''binding'', ''nodes'', ''edges'', ''bindings'',
         ''name'', ''retries''],
       toon_columns = [''trigger'', ''content''] \<rparr>,
     \<lparr> ty = GTool, byte_of = 0x05, grain_name = ''tool'', plural = ''tools'',
       add_via_set = False, host_addable = True,
       required_add_fields = [''tool_name''],
       queryable_fields = [''tool_name'', ''tool_phase'', ''is_error'', ''tool_call_id'', ''tool'',
         ''input'', ''duration_ms''],
       toon_columns = [''tool'', ''phase'', ''content''] \<rparr>,
     \<lparr> ty = GObservation, byte_of = 0x06, grain_name = ''observation'', plural = ''observations'',
       add_via_set = True, host_addable = True,
       required_add_fields = [''observer_id'', ''observer_type''],
       queryable_fields = [''observer_id'', ''observer_type'', ''sensor'', ''value'', ''unit''],
       toon_columns = [''observer'', ''content''] \<rparr>,
     \<lparr> ty = GGoal, byte_of = 0x07, grain_name = ''goal'', plural = ''goals'',
       add_via_set = True, host_addable = True,
       required_add_fields = [''description''],
       queryable_fields = [''goal_state'', ''assigned_agent'', ''deadline'', ''depends_on'', ''title'',
         ''description'', ''parent_hash''],
       toon_columns = [''subject'', ''content'', ''state''] \<rparr>
   ]"

definition GRAIN_TYPES_rest :: "grain_type_meta list" where
  "GRAIN_TYPES_rest = [
     \<lparr> ty = GReasoning, byte_of = 0x08, grain_name = ''reasoning'', plural = ''reasonings'',
       add_via_set = False, host_addable = True,
       required_add_fields = [],
       queryable_fields = [''reasoning_type'', ''premises'', ''conclusion''],
       toon_columns = [''type'', ''content''] \<rparr>,
     \<lparr> ty = GConsensus, byte_of = 0x09, grain_name = ''consensus'', plural = ''consensuses'',
       add_via_set = False, host_addable = True,
       required_add_fields = [],
       queryable_fields = [''threshold'', ''agreement_count'', ''participating_observers''],
       toon_columns = [''threshold'', ''count'', ''content''] \<rparr>,
     \<lparr> ty = GConsent, byte_of = 0x0A, grain_name = ''consent'', plural = ''consents'',
       add_via_set = False, host_addable = True,
       required_add_fields = [''subject_did''],
       queryable_fields = [''consent_action'', ''purpose'', ''grantor_did'', ''grantee_did'',
         ''expires_at'', ''granted'', ''subject_did''],
       toon_columns = [''grantor'', ''grantee'', ''action'', ''content''] \<rparr>,
     \<lparr> ty = GSkill, byte_of = 0x0B, grain_name = ''skill'', plural = ''skills'',
       add_via_set = True, host_addable = True,
       required_add_fields = [''name'', ''description''],
       queryable_fields = [''name'', ''version'', ''domain'', ''holder_did'', ''proficiency'',
         ''transferable'', ''practice_count'', ''last_practiced_at''],
       toon_columns = [''name'', ''domain'', ''proficiency''] \<rparr>,
     \<lparr> ty = GRecommendation, byte_of = 0x0C, grain_name = ''recommendation'',
       plural = ''recommendations'',
       add_via_set = False, host_addable = False,
       required_add_fields = [''target_ref'', ''analyzer'', ''summary'', ''dedup_key''],
       queryable_fields = [''target_ref'', ''analyzer'', ''severity'', ''dedup_key'', ''rec_status''],
       toon_columns = [''target_ref'', ''severity'', ''content''] \<rparr>
   ]"

definition GRAIN_TYPES :: "grain_type_meta list" where
  "GRAIN_TYPES = GRAIN_TYPES_first @ GRAIN_TYPES_rest"

text \<open>
  The lookups. \<open>meta\<close> panics on a missing row, which is \<open>None\<close> here; the accessors below
  are total because no row is missing.
\<close>

definition meta_opt :: "grain_type \<Rightarrow> grain_type_meta option" where
  "meta_opt t = find (\<lambda>m. ty m = t) GRAIN_TYPES"

definition meta :: "grain_type \<Rightarrow> grain_type_meta" where
  "meta t = the (meta_opt t)"

definition from_byte :: "byte \<Rightarrow> grain_type option" where
  "from_byte b = map_option ty (find (\<lambda>m. byte_of m = b) GRAIN_TYPES)"

definition from_str :: "string \<Rightarrow> grain_type option" where
  "from_str s = map_option ty (find (\<lambda>m. grain_name m = s) GRAIN_TYPES)"

definition add_via_set_names :: "string list" where
  "add_via_set_names = map grain_name (filter add_via_set GRAIN_TYPES)"

definition host_addable_names :: "string list" where
  "host_addable_names = map grain_name (filter host_addable GRAIN_TYPES)"

definition type_byte :: "grain_type \<Rightarrow> byte" where
  "type_byte t = byte_of (meta t)"

definition grain_as_str :: "grain_type \<Rightarrow> string" where
  "grain_as_str t = grain_name (meta t)"

text \<open>The ordinal of a variant (\<^verbatim>\<open>as usize\<close>), as the store's \<^verbatim>\<open>gtype\<close> column keeps it.\<close>

fun gtype_ordinal :: "grain_type \<Rightarrow> nat" where
  "gtype_ordinal GFact = 0"
| "gtype_ordinal GEvent = 1"
| "gtype_ordinal GState = 2"
| "gtype_ordinal GWorkflow = 3"
| "gtype_ordinal GTool = 4"
| "gtype_ordinal GObservation = 5"
| "gtype_ordinal GGoal = 6"
| "gtype_ordinal GReasoning = 7"
| "gtype_ordinal GConsensus = 8"
| "gtype_ordinal GConsent = 9"
| "gtype_ordinal GSkill = 10"
| "gtype_ordinal GRecommendation = 11"

section \<open>Properties\<close>

named_theorems registry_eval "evaluation of the registry's lookups"

lemmas registry_table = GRAIN_TYPES_def GRAIN_TYPES_first_def GRAIN_TYPES_rest_def

lemma meta_opt_total: "\<exists>m. meta_opt t = Some m \<and> ty m = t"
  by (cases t) (simp_all add: meta_opt_def registry_table)

lemma ty_meta [simp]: "ty (meta t) = t"
  using meta_opt_total [of t] by (auto simp: meta_def)

lemma type_byte_eval [registry_eval]:
  "type_byte GFact = 1" "type_byte GEvent = 2" "type_byte GState = 3"
  "type_byte GWorkflow = 4" "type_byte GTool = 5" "type_byte GObservation = 6"
  "type_byte GGoal = 7" "type_byte GReasoning = 8" "type_byte GConsensus = 9"
  "type_byte GConsent = 10" "type_byte GSkill = 11" "type_byte GRecommendation = 12"
  by (simp_all add: type_byte_def meta_def meta_opt_def registry_table)

lemma type_byte_ordinal: "unat (type_byte t) = Suc (gtype_ordinal t)"
  by (cases t) (simp_all add: registry_eval)

lemma gtype_ordinal_inj: "gtype_ordinal a = gtype_ordinal b \<Longrightarrow> a = b"
  by (cases a; cases b) simp_all

lemma meta_in_table: "meta t \<in> set GRAIN_TYPES"
  using meta_opt_total [of t]
  by (metis find_SomeD meta_def meta_opt_def option.sel)

text \<open>The columns that identify a row are keys of the table.\<close>

lemma registry_keys:
  "distinct (map ty GRAIN_TYPES)" "distinct (map byte_of GRAIN_TYPES)"
  "distinct (map grain_name GRAIN_TYPES)" "distinct (map plural GRAIN_TYPES)"
  by (simp_all add: registry_table)

lemma row_is_meta: "m \<in> set GRAIN_TYPES \<Longrightarrow> m = meta (ty m)"
  using registry_keys(1) meta_in_table [of "ty m"]
  by (metis distinct_map inj_on_contraD ty_meta)

text \<open>Looking a row up by a column that is a key gives back that row's type.\<close>

lemma find_by_key:
  assumes "distinct (map f xs)" and "x \<in> set xs"
  shows "find (\<lambda>m. f m = f x) xs = Some x"
  using assms by (induction xs) (auto simp: image_iff)

lemma find_key_Some: "map_option g (find P xs) = Some t \<Longrightarrow> \<exists>x \<in> set xs. P x \<and> g x = t"
  by (auto dest!: find_SomeD)

lemma from_byte_type_byte: "from_byte (type_byte t) = Some t"
  using find_by_key [OF registry_keys(2) meta_in_table]
  by (simp add: from_byte_def type_byte_def)

lemma from_byte_Some: "from_byte b = Some t \<Longrightarrow> type_byte t = b"
  unfolding from_byte_def type_byte_def
  by (drule find_key_Some) (metis row_is_meta)

lemma from_str_as_str: "from_str (grain_as_str t) = Some t"
  using find_by_key [OF registry_keys(3) meta_in_table]
  by (simp add: from_str_def grain_as_str_def)

lemma from_str_Some: "from_str s = Some t \<Longrightarrow> grain_as_str t = s"
  unfolding from_str_def grain_as_str_def
  by (drule find_key_Some) (metis row_is_meta)

interpretation type_byte_codec: wire_codec type_byte from_byte
  by unfold_locales (simp_all add: from_byte_type_byte from_byte_Some)

interpretation type_name_codec: wire_codec grain_as_str from_str
  by unfold_locales (simp_all add: from_str_as_str from_str_Some)

text \<open>
  The registry is one codec for both wire forms: a byte and a name read back to the type
  that wrote them and only to it, every other byte and name is refused, and the table
  has one row for every type.
\<close>

theorem registry_codecs:
  "(\<exists>m \<in> set GRAIN_TYPES. meta_opt t = Some m \<and> ty m = t)
   \<and> (from_byte b = Some t \<longleftrightarrow> b = type_byte t)
   \<and> (from_str s = Some t \<longleftrightarrow> s = grain_as_str t)
   \<and> (from_byte b = None \<longleftrightarrow> b = 0 \<or> 12 < b)"
proof -
  have "from_byte b = None \<longleftrightarrow> b \<notin> byte_of ` set GRAIN_TYPES"
    by (auto simp: from_byte_def find_None_iff_ball)
  also have "byte_of ` set GRAIN_TYPES = {1, 2, 3, 4, 5, 6, 7, 8, 9, 10, 11, 12}"
    by (simp add: registry_table)
  also have "b \<notin> {1, 2, 3, 4, 5, 6, 7, 8, 9, 10, 11, 12} \<longleftrightarrow> b = 0 \<or> 12 < b"
    by (simp, unat_arith)
  finally show ?thesis
    using meta_opt_total [of t] meta_in_table [of t] type_byte_codec.dec_iff
      type_name_codec.dec_iff by (auto simp: meta_def)
qed

text \<open>
  The one type a host may not author is Recommendation; the four that flat \<^verbatim>\<open>SET\<close> pairs
  can build are a subset of the host-addable ones.
\<close>

lemma host_addable_iff: "host_addable (meta t) \<longleftrightarrow> t \<noteq> GRecommendation"
  by (cases t) (simp_all add: meta_def meta_opt_def registry_table)

lemma add_via_set_names_eq:
  "add_via_set_names = [''fact'', ''observation'', ''goal'', ''skill'']"
  by (simp add: add_via_set_names_def registry_table)

lemma add_via_set_host_addable: "set add_via_set_names \<subseteq> set host_addable_names"
  by (simp add: add_via_set_names_def host_addable_names_def registry_table)

end
