(* ===== verification/Mg_Header.thy ===== *)
theory Mg_Header
  imports Grain_Registry
begin

text \<open>
  \<^verbatim>\<open>crates/dejadb-core/src/format/header.rs\<close>: the 9-byte header in front of every
  \<^verbatim>\<open>.mg\<close> blob, its flag bits and its big-endian wire form. SHA-256 is a parameter, an
  argument \<open>sha256\<close> of the definitions that hash.
\<close>

unbundle bit_operations_syntax

section \<open>Big-endian words\<close>

definition u16_to_be_bytes :: "16 word \<Rightarrow> bytes" where
  "u16_to_be_bytes w = [ucast (drop_bit 8 w), ucast w]"

definition u16_from_be_bytes :: "byte \<Rightarrow> byte \<Rightarrow> 16 word" where
  "u16_from_be_bytes a b = push_bit 8 (ucast a) OR ucast b"

definition u32_to_be_bytes :: "32 word \<Rightarrow> bytes" where
  "u32_to_be_bytes w = [ucast (drop_bit 24 w), ucast (drop_bit 16 w), ucast (drop_bit 8 w), ucast w]"

definition u32_from_be_bytes :: "byte \<Rightarrow> byte \<Rightarrow> byte \<Rightarrow> byte \<Rightarrow> 32 word" where
  "u32_from_be_bytes a b c d =
     push_bit 24 (ucast a) OR push_bit 16 (ucast b) OR push_bit 8 (ucast c) OR ucast d"

lemma byte_high_bit [simp]: "8 \<le> n \<Longrightarrow> \<not> bit (b :: byte) n"
  using bit_imp_le_length [of b n] by auto

lemma u16_from_to: "u16_from_be_bytes (ucast (drop_bit 8 w)) (ucast w) = w"
  unfolding u16_from_be_bytes_def by (auto intro!: bit_eqI simp: bit_simps)

lemma u32_from_to:
  "u32_from_be_bytes (ucast (drop_bit 24 w)) (ucast (drop_bit 16 w)) (ucast (drop_bit 8 w))
     (ucast w) = w" (is "?lhs = w")
proof (rule bit_eqI)
  fix n assume "possible_bit TYPE(32 word) n"
  then consider "n < 8" | "8 \<le> n" "n < 16" | "16 \<le> n" "n < 24" | "24 \<le> n" "n < 32"
    by fastforce
  then show "bit ?lhs n = bit w n"
    unfolding u32_from_be_bytes_def by cases (auto simp: bit_simps)
qed

lemma u16_to_from: "u16_to_be_bytes (u16_from_be_bytes a b) = [a, b]"
  unfolding u16_to_be_bytes_def u16_from_be_bytes_def
  by (auto intro!: bit_eqI simp: bit_simps)

lemma u32_to_from: "u32_to_be_bytes (u32_from_be_bytes a b c d) = [a, b, c, d]"
  unfolding u32_to_be_bytes_def u32_from_be_bytes_def
  by (auto intro!: bit_eqI simp: bit_simps)

section \<open>The header\<close>

record mg_header =
  version :: byte
  flags :: byte
  hdr_grain_type :: byte
  ns_hash :: "16 word"
  created_at_sec :: "32 word"

definition clamp_u32 :: "int \<Rightarrow> 32 word" where
  "clamp_u32 secs =
     (if secs < 0 then 0 else if secs \<le> 4294967295 then word_of_int secs else 0xFFFFFFFF)"

definition header_new ::
  "(bytes \<Rightarrow> bytes) \<Rightarrow> grain_type \<Rightarrow> string option \<Rightarrow> int \<Rightarrow> mg_header" where
  "header_new sha256 gt ns created_at_ms =
     (let nh = (case ns of
            Some n \<Rightarrow> if n \<noteq> []
              then (let h = sha256 (utf8 n) in u16_from_be_bytes (h ! 0) (h ! 1))
              else 0
          | None \<Rightarrow> 0);
          epoch_secs = tdiv created_at_ms 1000
      in \<lparr> version = 0x01, flags = 0x00, hdr_grain_type = type_byte gt,
           ns_hash = nh, created_at_sec = clamp_u32 epoch_secs \<rparr>)"

definition set_flag :: "byte \<Rightarrow> bool \<Rightarrow> mg_header \<Rightarrow> mg_header" where
  "set_flag m on h =
     (if on then h\<lparr>flags := flags h OR m\<rparr> else h\<lparr>flags := flags h AND NOT m\<rparr>)"

definition set_is_signed :: "bool \<Rightarrow> mg_header \<Rightarrow> mg_header" where
  "set_is_signed = set_flag 0x01"

definition set_has_content_refs :: "bool \<Rightarrow> mg_header \<Rightarrow> mg_header" where
  "set_has_content_refs = set_flag 0x08"

definition set_has_embedding_refs :: "bool \<Rightarrow> mg_header \<Rightarrow> mg_header" where
  "set_has_embedding_refs = set_flag 0x10"

definition set_ai_generated :: "bool \<Rightarrow> mg_header \<Rightarrow> mg_header" where
  "set_ai_generated = set_flag 0x20"

definition set_sensitivity :: "byte \<Rightarrow> mg_header \<Rightarrow> mg_header" where
  "set_sensitivity level h =
     h\<lparr>flags := (flags h AND 0x3F) OR push_bit 6 (level AND 0x03)\<rparr>"

definition flag_set :: "byte \<Rightarrow> mg_header \<Rightarrow> bool" where
  "flag_set m h = (flags h AND m \<noteq> 0)"

definition is_signed :: "mg_header \<Rightarrow> bool" where "is_signed = flag_set 0x01"
definition is_encrypted :: "mg_header \<Rightarrow> bool" where "is_encrypted = flag_set 0x02"
definition is_compressed :: "mg_header \<Rightarrow> bool" where "is_compressed = flag_set 0x04"
definition has_content_refs :: "mg_header \<Rightarrow> bool" where "has_content_refs = flag_set 0x08"
definition has_embedding_refs :: "mg_header \<Rightarrow> bool" where "has_embedding_refs = flag_set 0x10"
definition is_ai_generated :: "mg_header \<Rightarrow> bool" where "is_ai_generated = flag_set 0x20"

definition sensitivity :: "mg_header \<Rightarrow> byte" where
  "sensitivity h = drop_bit 6 (flags h) AND 0x03"

definition header_to_bytes :: "mg_header \<Rightarrow> bytes" where
  "header_to_bytes h =
     [version h, flags h, hdr_grain_type h]
     @ u16_to_be_bytes (ns_hash h) @ u32_to_be_bytes (created_at_sec h)"

definition header_from_bytes :: "bytes \<Rightarrow> deja_error + mg_header" where
  "header_from_bytes bs =
     (if length bs < 9 then Inl (Format ''header must be at least 9 bytes'')
      else if bs ! 0 \<noteq> 0x01
      then Inl (Format (''unsupported version: 0x'' @ hex_str (unat (bs ! 0))))
      else Inr \<lparr> version = bs ! 0, flags = bs ! 1, hdr_grain_type = bs ! 2,
                 ns_hash = u16_from_be_bytes (bs ! 3) (bs ! 4),
                 created_at_sec = u32_from_be_bytes (bs ! 5) (bs ! 6) (bs ! 7) (bs ! 8) \<rparr>)"

definition content_address :: "(bytes \<Rightarrow> bytes) \<Rightarrow> bytes \<Rightarrow> hash" where
  "content_address sha256 blob = hash_from_bytes (sha256 blob)"

section \<open>Properties\<close>

lemma header_read_written:
  "version h = 1 \<Longrightarrow> header_from_bytes (header_to_bytes h @ payload) = Inr h"
  by (simp add: header_from_bytes_def header_to_bytes_def u16_to_be_bytes_def
      u32_to_be_bytes_def u16_from_to u32_from_to)

lemma header_from_bytes_InrD:
  assumes "header_from_bytes bs = Inr k"
  shows "9 \<le> length bs \<and> take 9 bs = header_to_bytes k \<and> version k = 1"
proof -
  from assms have "9 \<le> length bs" by (auto simp: header_from_bytes_def split: if_splits)
  then obtain b0 b1 b2 b3 b4 b5 b6 b7 b8 r where bs: "bs = [b0,b1,b2,b3,b4,b5,b6,b7,b8] @ r"
    by (auto simp: numeral_eq_Suc Suc_le_length_iff)
  with assms show ?thesis
    by (auto simp: header_from_bytes_def header_to_bytes_def u16_to_from u32_to_from split: if_splits)
qed
text \<open>
  A header survives its wire form: a read succeeds exactly on the nine bytes that some
  version-1 header writes, whatever payload follows, and it gives that header back.
\<close>

theorem header_wire_roundtrip:
  "header_from_bytes bs = Inr h \<longleftrightarrow>
     version h = 1 \<and> (\<exists>payload. bs = header_to_bytes h @ payload)"
  using header_read_written header_from_bytes_InrD by (metis append_take_drop_id)

lemma length_header [simp]: "length (header_to_bytes h) = 9"
  by (simp add: header_to_bytes_def u16_to_be_bytes_def u32_to_be_bytes_def)

lemma unat_word_of_int:
  "0 \<le> k \<Longrightarrow> k < 2 ^ LENGTH('a::len) \<Longrightarrow> unat (word_of_int k :: 'a word) = nat k"
  by (simp add: unat_eq_nat_uint uint_word_of_int_eq take_bit_int_eq_self)

lemma created_at_sec_new:
  "unat (created_at_sec (header_new sha256 gt ns ms)) =
     nat (max 0 (min 4294967295 (ms div 1000)))"
proof (cases "ms < 0")
  case True
  then have "tdiv ms 1000 \<le> 0" "ms div 1000 < 0" using tdiv_nonpos [of ms 1000] by auto
  moreover from this have "clamp_u32 (tdiv ms 1000) = 0" by (auto simp: clamp_u32_def)
  ultimately show ?thesis by (simp add: header_new_def Let_def)
next
  case False
  then show ?thesis
    by (auto simp: header_new_def Let_def clamp_u32_def tdiv_nonneg unat_word_of_int)
qed

text \<open>
  A new header carries the type's registry byte, version 1, no flags, and the creation
  second clamped to an unsigned 32-bit integer (0 before the epoch, the maximum when it
  would overflow), and its bytes read back as it, so the type is recoverable from them.
\<close>

theorem header_new_recoverable:
  "\<exists>h. header_from_bytes (header_to_bytes (header_new sha256 gt ns ms) @ payload) = Inr h
     \<and> from_byte (hdr_grain_type h) = Some gt \<and> flags h = 0
     \<and> unat (created_at_sec h) = nat (max 0 (min 4294967295 (ms div 1000)))
     \<and> (ns_hash h = 0 \<or> (\<exists>n. ns = Some n \<and> n \<noteq> []))"
proof -
  let ?h = "header_new sha256 gt ns ms"
  have "version ?h = 1" "flags ?h = 0" "hdr_grain_type ?h = type_byte gt"
    and "ns_hash ?h = 0 \<or> (\<exists>n. ns = Some n \<and> n \<noteq> [])"
    by (simp_all add: header_new_def Let_def split: option.splits)
  then show ?thesis
    using header_read_written [of ?h payload] created_at_sec_new
    by (simp add: from_byte_type_byte)
qed

text \<open>The flag byte bit by bit.\<close>

named_theorems flag_bits "bits of the flag byte after a setter"

lemma flag_set_bit: "flag_set (2 ^ n) h = bit (flags h) n"
  by (simp add: flag_set_def and_exp_eq_0_iff_not_bit)

lemma bit_set_flag:
  "n < 8 \<Longrightarrow>
     bit (flags (set_flag (2 ^ n) on h)) j = (if j = n then on else bit (flags h) j)"
  by (auto simp: set_flag_def bit_simps dest: bit_imp_le_length)

lemma flag_accessor_bits [flag_bits]:
  "is_signed h = bit (flags h) 0" "is_encrypted h = bit (flags h) 1"
  "is_compressed h = bit (flags h) 2" "has_content_refs h = bit (flags h) 3"
  "has_embedding_refs h = bit (flags h) 4" "is_ai_generated h = bit (flags h) 5"
  using flag_set_bit [of 0 h] flag_set_bit [of 1 h] flag_set_bit [of 2 h]
    flag_set_bit [of 3 h] flag_set_bit [of 4 h] flag_set_bit [of 5 h]
  by (simp_all add: is_signed_def is_encrypted_def is_compressed_def
      has_content_refs_def has_embedding_refs_def is_ai_generated_def)

lemma flag_setter_bits [flag_bits]:
  "bit (flags (set_is_signed on h)) j = (if j = 0 then on else bit (flags h) j)"
  "bit (flags (set_has_content_refs on h)) j = (if j = 3 then on else bit (flags h) j)"
  "bit (flags (set_has_embedding_refs on h)) j = (if j = 4 then on else bit (flags h) j)"
  "bit (flags (set_ai_generated on h)) j = (if j = 5 then on else bit (flags h) j)"
  using bit_set_flag [of 0 on h j] bit_set_flag [of 3 on h j]
    bit_set_flag [of 4 on h j] bit_set_flag [of 5 on h j]
  by (simp_all add: set_is_signed_def set_has_content_refs_def
      set_has_embedding_refs_def set_ai_generated_def)

lemma bit_set_sensitivity [flag_bits]:
  "bit (flags (set_sensitivity l h)) j =
     (if j < 6 then bit (flags h) j else j < 8 \<and> bit l (j - 6))"
proof (cases "j < 8")
  case True
  then have "j \<in> {0, 1, 2, 3, 4, 5, 6, 7}" by auto
  then show ?thesis by (auto simp: set_sensitivity_def bit_simps)
qed (auto dest: bit_imp_le_length)

lemma bit_sensitivity: "bit (sensitivity h) j = (j < 2 \<and> bit (flags h) (j + 6))"
proof -
  consider "j = 0" | "j = 1" | "2 \<le> j" by linarith
  then show ?thesis by cases (auto simp: sensitivity_def bit_simps)
qed

lemma sensitivity_eqI:
  "(\<And>j. j < 2 \<Longrightarrow> bit (flags h) (j + 6) = bit l j) \<Longrightarrow> sensitivity h = l AND 3"
proof (rule bit_eqI)
  fix j assume *: "\<And>j. j < 2 \<Longrightarrow> bit (flags h) (j + 6) = bit l j"
  have "bit (mask 2 :: byte) j \<longleftrightarrow> j < 2"
    by (auto simp: bit_simps)
  with * show "bit (sensitivity h) j = bit (l AND 3) j"
    by (auto simp: bit_sensitivity bit_and_iff mask_eq_exp_minus_1)
qed

text \<open>
  The flag setters do not disturb each other: after setting all of them, each accessor
  reads the value its setter was given (the sensitivity its low two bits), and the
  encrypted and compressed bits and every other field are as before.
\<close>

theorem flag_setters_independent:
  "let k = set_is_signed s (set_has_content_refs c (set_has_embedding_refs e
             (set_ai_generated a (set_sensitivity l h))))
   in is_signed k = s \<and> has_content_refs k = c \<and> has_embedding_refs k = e
    \<and> is_ai_generated k = a \<and> sensitivity k = l AND 3
    \<and> is_encrypted k = is_encrypted h \<and> is_compressed k = is_compressed h
    \<and> k\<lparr>flags := flags h\<rparr> = h"
proof -
  let ?k = "set_is_signed s (set_has_content_refs c (set_has_embedding_refs e
             (set_ai_generated a (set_sensitivity l h))))"
  have "sensitivity ?k = l AND 3"
    by (rule sensitivity_eqI) (simp add: flag_bits)
  moreover have "?k\<lparr>flags := flags h\<rparr> = h"
    by (simp add: set_is_signed_def set_has_content_refs_def set_has_embedding_refs_def
        set_ai_generated_def set_sensitivity_def set_flag_def)
  ultimately show ?thesis
    by (simp add: Let_def flag_bits)
qed

end
