(* ===== verification/Field_Map.thy ===== *)
theory Field_Map
  imports Prelude
begin

text \<open>
  \<^verbatim>\<open>crates/dejadb-core/src/format/field_map.rs\<close>: the tables that compact OMS field names to
  the short names of the wire, and their reversal. Each table is a list of
  (long, short) pairs in the source's order; a lookup is a lookup in the \<^verbatim>\<open>HashMap\<close>
  the source fills from it.
\<close>

section \<open>Tables of field names\<close>

definition compact_in :: "(string \<times> string) list \<Rightarrow> string \<Rightarrow> string" where
  "compact_in tbl n = (case map_of tbl n of Some s \<Rightarrow> s | None \<Rightarrow> n)"

definition reverse_table :: "(string \<times> string) list \<Rightarrow> (string \<times> string) list" where
  "reverse_table tbl = map (\<lambda>(l, s). (s, l)) tbl"

definition expand_in :: "(string \<times> string) list \<Rightarrow> string \<Rightarrow> string" where
  "expand_in tbl s = (case map_of (reverse_table tbl) s of Some l \<Rightarrow> l | None \<Rightarrow> s)"

text \<open>
  The contract of a field table: no long name and no short name twice (so the order in
  which the \<^verbatim>\<open>HashMap\<close> iterates cannot matter), and no long name that is the short name
  of another one.
\<close>

locale field_table =
  fixes tbl :: "(string \<times> string) list"
  assumes longs: "distinct (map fst tbl)"
    and shorts: "distinct (map snd tbl)"
    and apart: "(l, s) \<in> set tbl \<Longrightarrow> (s, l') \<in> set tbl \<Longrightarrow> l = s"
begin

lemma compact_Some: "(l, s) \<in> set tbl \<Longrightarrow> compact_in tbl l = s"
  using longs by (simp add: compact_in_def)

lemma compact_other: "l \<notin> fst ` set tbl \<Longrightarrow> compact_in tbl l = l"
  by (auto simp: compact_in_def dest: map_of_SomeD split: option.splits)
    (metis fst_conv image_eqI map_of_SomeD)

lemma reverse_distinct: "distinct (map fst (reverse_table tbl))"
  using shorts by (simp add: reverse_table_def comp_def case_prod_unfold)

lemma reverse_set: "(s, l) \<in> set (reverse_table tbl) \<longleftrightarrow> (l, s) \<in> set tbl"
  by (auto simp: reverse_table_def)

lemma expand_Some: "(l, s) \<in> set tbl \<Longrightarrow> expand_in tbl s = l"
  using reverse_distinct by (simp add: expand_in_def reverse_set flip: map_of_eq_Some_iff)

lemma expand_other: "s \<notin> snd ` set tbl \<Longrightarrow> expand_in tbl s = s"
  by (auto simp: expand_in_def split: option.splits dest!: map_of_SomeD)
    (metis image_eqI reverse_set snd_conv)

text \<open>
  A name survives compaction and expansion unless it is an unmapped name that is spelt
  like a short code, which is the case that user-controlled keys can hit.
\<close>

lemma expand_compact_iff:
  "expand_in tbl (compact_in tbl n) = n \<longleftrightarrow> n \<in> fst ` set tbl \<or> n \<notin> snd ` set tbl"
proof (cases "n \<in> fst ` set tbl")
  case True
  then obtain s where "(n, s) \<in> set tbl" by auto
  then show ?thesis using compact_Some expand_Some True by auto
next
  case False
  then have "compact_in tbl n = n" by (rule compact_other)
  then show ?thesis
    using False expand_other expand_Some by (metis (no_types, lifting) fst_conv image_iff prod.collapse)
qed

lemma compact_expand: "s \<notin> fst ` set tbl \<Longrightarrow> compact_in tbl (expand_in tbl s) = s"
proof (cases "s \<in> snd ` set tbl")
  case True
  then obtain l where "(l, s) \<in> set tbl" by auto
  then show ?thesis using expand_Some compact_Some by simp
qed (simp add: expand_other compact_other)

lemma compact_inj_on: "inj_on (compact_in tbl) {n. n \<in> fst ` set tbl \<or> n \<notin> snd ` set tbl}"
  by (rule inj_on_inverseI [of _ "expand_in tbl"]) (simp add: expand_compact_iff)

end

text \<open>
  One check for the whole contract: the long names together with the short names that
  differ from their long one are pairwise distinct.
\<close>

definition table_names :: "(string \<times> string) list \<Rightarrow> string list" where
  "table_names tbl = map fst tbl @ map snd (filter (\<lambda>(l, s). l \<noteq> s) tbl)"

lemma table_names_Cons:
  "distinct (table_names ((l, s) # tbl)) \<longleftrightarrow>
     distinct (table_names tbl) \<and> l \<notin> set (table_names tbl)
     \<and> (l = s \<or> s \<notin> insert l (set (table_names tbl)))"
  by (auto simp: table_names_def)

lemma shorts_in_names: "(l, s) \<in> set tbl \<Longrightarrow> s \<in> set (table_names tbl)"
  by (cases "l = s") (force simp: table_names_def)+

lemma distinct_shorts: "distinct (table_names tbl) \<Longrightarrow> distinct (map snd tbl)"
proof (induction tbl)
  case (Cons e tbl)
  obtain l s where e: "e = (l, s)" by (cases e)
  with Cons.prems have "s \<notin> set (table_names tbl)" by (auto simp: table_names_Cons)
  with Cons e show ?case by (auto simp: table_names_Cons dest: shorts_in_names)
qed simp

lemma names_apart:
  "distinct (table_names tbl) \<Longrightarrow> (l, s) \<in> set tbl \<Longrightarrow> s \<in> fst ` set tbl \<Longrightarrow> l = s"
  unfolding table_names_def by (rule ccontr) (auto simp: disjoint_iff image_iff; blast)

lemma field_tableI:
  assumes "distinct (table_names tbl)"
  shows "field_table tbl"
proof
  show "distinct (map fst tbl)" using assms by (simp add: table_names_def)
  show "distinct (map snd tbl)" using assms by (rule distinct_shorts)
  show "l = s" if "(l, s) \<in> set tbl" "(s, l') \<in> set tbl" for l s l'
    using names_apart [OF assms that(1)] that(2) by force
qed

lemma table_names_append:
  "distinct (table_names (a @ b)) \<longleftrightarrow>
     distinct (table_names a) \<and> distinct (table_names b)
     \<and> set (table_names a) \<inter> set (table_names b) = {}"
  by (auto simp: table_names_def)

lemma set_table_names_append [simp]:
  "set (table_names (a @ b)) = set (table_names a) \<union> set (table_names b)"
  by (auto simp: table_names_def)

text \<open>
  Distinctness of a long list in blocks is checked by splitting every block on the bits of
  the first and last letters of its strings.
\<close>

fun distinct_by :: "('a \<Rightarrow> bool) list \<Rightarrow> 'a list list \<Rightarrow> bool" where
  "distinct_by [] xss = distinct (concat xss)"
| "distinct_by (P # Ps) xss =
     (distinct_by Ps (map (filter P) xss) \<and> distinct_by Ps (map (filter (\<lambda>x. \<not> P x)) xss))"

lemma distinct_filters:
  "distinct (filter P xs) \<Longrightarrow> distinct (filter (\<lambda>x. \<not> P x) xs) \<Longrightarrow> distinct xs"
proof (induction xs)
  case (Cons x xs)
  then show ?case by (cases "P x") auto
qed simp

lemma distinct_by_concat: "distinct_by Ps xss \<Longrightarrow> distinct (concat xss)"
  by (induction Ps xss rule: distinct_by.induct)
     (auto intro: distinct_filters simp flip: filter_concat)

lemma set_table_names_concat:
  "set (table_names (concat tbls)) = (\<Union>t \<in> set tbls. set (table_names t))"
  by (induction tbls) (auto simp: table_names_def)

lemma distinct_table_names_concat:
  "distinct (concat (map table_names tbls)) \<Longrightarrow> distinct (table_names (concat tbls))"
proof (induction tbls)
  case (Cons t tbls)
  then show ?case
    by (auto simp: table_names_append set_table_names_concat)
qed (simp add: table_names_def)

definition letter_bits :: "(string \<Rightarrow> bool) list" where
  "letter_bits =
     [\<lambda>s. digit0 (hd s), \<lambda>s. digit1 (hd s), \<lambda>s. digit2 (hd s), \<lambda>s. digit3 (hd s),
      \<lambda>s. digit4 (hd s), \<lambda>s. digit0 (last s), \<lambda>s. digit1 (last s), \<lambda>s. digit2 (last s)]"

lemma field_table_by_bits:
  assumes "distinct_by letter_bits (map table_names tbls)"
  shows "field_table (concat tbls)"
  using assms by (intro field_tableI distinct_table_names_concat distinct_by_concat)

section \<open>The OMS tables\<close>

definition FIELD_MAP_common :: "(string \<times> string) list" where
  "FIELD_MAP_common = [
    (''type'', ''t''), (''subject'', ''s''), (''relation'', ''r''), (''object'', ''o''),
    (''confidence'', ''c''), (''source_type'', ''st''), (''created_at'', ''ca''),
    (''temporal_type'', ''tt''), (''valid_from'', ''vf''), (''valid_to'', ''vt''),
    (''system_valid_from'', ''svf''), (''system_valid_to'', ''svt''), (''context'', ''ctx''),
    (''common_context'', ''cctx''), (''superseded_by'', ''sb''), (''importance'', ''im''),
    (''author_did'', ''adid''), (''namespace'', ''ns''), (''user_id'', ''user''),
    (''structural_tags'', ''tags''), (''derived_from'', ''df''),
    (''consolidation_level'', ''cl''), (''success_count'', ''sc''), (''failure_count'', ''fc''),
    (''provenance_chain'', ''pc''), (''origin_did'', ''odid''), (''origin_namespace'', ''ons''),
    (''content_refs'', ''cr''), (''embedding_refs'', ''er''), (''related_to'', ''rt''),
    (''_elided'', ''_e''), (''_disclosure_of'', ''_do''), (''invalidation_policy'', ''ip''),
    (''supersession_justification'', ''sj''), (''supersession_auth'', ''sa''),
    (''verification_status'', ''vstatus''), (''owner'', ''own''), (''category'', ''cat''),
    (''run_id'', ''rid''), (''role'', ''role''), (''access_count'', ''ac''),
    (''last_accessed_at'', ''laa''), (''timestamp_ms'', ''tms''), (''observer_did'', ''obsdid''),
    (''subject_did'', ''sdid''), (''session_id'', ''sid2''), (''entity_id'', ''eid''),
    (''epistemic_status'', ''epstat''), (''requires_human_review'', ''rhr''),
    (''processing_basis'', ''pbasis''), (''identity_state'', ''idst''), (''license'', ''lic''),
    (''trusted_timestamp'', ''tts''), (''invalidation_type'', ''itype''),
    (''invalidation_reason'', ''ireason''), (''invalidation_initiator'', ''iinit''),
    (''retention_policy'', ''rpol''), (''recall_priority'', ''rpri'')]"

definition FIELD_MAP_tool :: "(string \<times> string) list" where
  "FIELD_MAP_tool = [
    (''tool_name'', ''tn''), (''input'', ''inp''), (''tool_content'', ''cnt''),
    (''is_error'', ''iserr''), (''error'', ''err''), (''duration_ms'', ''dur''),
    (''parent_task_id'', ''ptid''), (''tool_phase'', ''aphase''), (''tool_call_id'', ''tcid''),
    (''call_batch_id'', ''cbid''), (''tool_type'', ''ttype''), (''tool_version'', ''tver''),
    (''execution_mode'', ''emode''), (''code'', ''code''), (''stdout'', ''stdout''),
    (''stderr'', ''stderr''), (''exit_code'', ''xcode''), (''interpreter_id'', ''iid''),
    (''error_type'', ''etype''), (''tool_description'', ''tdesc''),
    (''input_schema'', ''ischema''), (''strict'', ''strict''), (''async_mode'', ''amode''),
    (''output_schema'', ''osch''), (''kind'', ''aknd''), (''executor_uri'', ''axu''),
    (''locked_params'', ''lprm''), (''examples'', ''exmp''), (''annotations'', ''anno''),
    (''spec_hash'', ''shsh''), (''executor_kind'', ''exk''), (''status'', ''ast''),
    (''correlation_id'', ''acid''), (''expires_at_sec'', ''axp''),
    (''transient_definition_hash'', ''tdh''), (''failure_cause'', ''afc''),
    (''failure_detail'', ''afd''), (''actor_execution_environment'', ''aex'')]"

definition FIELD_MAP_integration :: "(string \<times> string) list" where
  "FIELD_MAP_integration = [
    (''int:base_url'', ''ib''), (''int:http_method'', ''ihm''), (''int:http_path'', ''ihp''),
    (''int:path_params'', ''ipp''), (''int:query_params'', ''iqp''),
    (''int:body_params'', ''ibp''), (''int:response_mapping'', ''irm''),
    (''int:auth_type'', ''iat''), (''int:auth_scopes'', ''ias''), (''int:read_only'', ''iro''),
    (''int:connector'', ''ic''), (''int:docs_url'', ''idu''), (''int:rate_limit'', ''irl''),
    (''int:category'', ''icat''), (''int:sunset_date'', ''isd''),
    (''int:content_type'', ''ict''), (''int:poll_interval_secs'', ''ipis''),
    (''int:cursor_field'', ''icf''), (''int:cursor_type'', ''icft''),
    (''int:webhook_path'', ''iwp''), (''int:webhook_secret_header'', ''iwsh''),
    (''int:cron_expression'', ''icron''), (''int:timezone'', ''itz''),
    (''int:config_schema'', ''icfg''), (''int:event_schema'', ''ievt'')]"

definition FIELD_MAP_observation :: "(string \<times> string) list" where
  "FIELD_MAP_observation = [
    (''observer_id'', ''oid''), (''observer_type'', ''otype''), (''frame_id'', ''fid''),
    (''sync_group'', ''sg''), (''observation_mode'', ''omode''),
    (''observation_scope'', ''oscope''), (''observer_model'', ''omdl''),
    (''compression_ratio'', ''ocmp'')]"

definition FIELD_MAP_goal :: "(string \<times> string) list" where
  "FIELD_MAP_goal = [
    (''description'', ''desc''), (''goal_state'', ''gs''), (''criteria'', ''crit''),
    (''criteria_structured'', ''crs''), (''priority'', ''pri''), (''parent_goals'', ''pgs''),
    (''state_reason'', ''sr''), (''satisfaction_evidence'', ''se''), (''progress'', ''prog''),
    (''delegate_to'', ''dto''), (''delegate_from'', ''dfo''), (''expiry_policy'', ''ep''),
    (''recurrence'', ''rec''), (''evidence_required'', ''evreq''),
    (''rollback_on_failure'', ''rof''), (''allowed_transitions'', ''atr''),
    (''target_ref'', ''tref''), (''analyzer'', ''anlz''), (''summary'', ''summ''),
    (''dedup_key'', ''ddk''), (''proposal_cal'', ''pcal''), (''proposal_edit'', ''pedit''),
    (''proposal_data'', ''pdata''), (''severity'', ''sev''), (''metric_snapshot'', ''msnap''),
    (''evidence_query'', ''evq''), (''rec_status'', ''rstat''), (''depends_on'', ''depg''),
    (''assigned_agent'', ''asgn''), (''expected_output'', ''expout''),
    (''output_grain'', ''outg''), (''deadline'', ''dline'')]"

definition FIELD_MAP_thought :: "(string \<times> string) list" where
  "FIELD_MAP_thought = [
    (''content_blocks'', ''cblocks''), (''model_id'', ''mdl''), (''stop_reason'', ''stopr''),
    (''token_usage'', ''toku''), (''parent_message_id'', ''pmid''), (''premises'', ''prem''),
    (''conclusion'', ''conc''), (''inference_method'', ''imethod''),
    (''alternatives_considered'', ''altc''), (''thinking_content'', ''think''),
    (''thinking_redacted'', ''tredact''), (''statistical_context'', ''statctx''),
    (''software_environment'', ''swenv''), (''parameter_set'', ''params''),
    (''random_seed'', ''rseed''), (''participating_observers'', ''pobs''),
    (''threshold'', ''thr''), (''agreement_count'', ''agrc''), (''dissent_count'', ''disc''),
    (''dissent_grains'', ''dgrains''), (''agreed_content'', ''acnt''),
    (''grantee_did'', ''gdid''), (''scope'', ''scope''), (''is_withdrawal'', ''isw''),
    (''basis'', ''basis''), (''jurisdiction'', ''jur''), (''prior_consent'', ''pcon''),
    (''witness_dids'', ''wdids'')]"

definition FIELD_MAP_skill :: "(string \<times> string) list" where
  "FIELD_MAP_skill = [
    (''name'', ''skname''), (''instructions'', ''instr''), (''when_to_use'', ''wtu''),
    (''version'', ''sver''), (''allowed_tools'', ''atls''), (''resources'', ''res''),
    (''dependencies'', ''deps''), (''input_modalities'', ''imod''),
    (''output_modalities'', ''omod''), (''domain'', ''dom''), (''holder_did'', ''hdid''),
    (''proficiency'', ''prof''), (''practice_count'', ''prcnt''),
    (''last_practiced_at'', ''lpa''), (''strategies'', ''strat''), (''transferable'', ''xfer''),
    (''embedding_text'', ''et''), (''scope_path'', ''scp''), (''scope_depth'', ''scd''),
    (''authorized_namespaces'', ''ans''), (''authorized_types'', ''atypes''),
    (''authorized_tools'', ''atools''), (''delegation_depth'', ''ddepth''),
    (''delegation_expiry'', ''dexp''), (''context_grains'', ''cgrains''),
    (''return_to'', ''retdid''), (''bindings'', ''bind'')]"

definition FIELD_MAP_blocks :: "(string \<times> string) list list" where
  "FIELD_MAP_blocks =
     [FIELD_MAP_common, FIELD_MAP_tool, FIELD_MAP_integration, FIELD_MAP_observation,
      FIELD_MAP_goal, FIELD_MAP_thought, FIELD_MAP_skill]"

definition FIELD_MAP :: "(string \<times> string) list" where
  "FIELD_MAP = concat FIELD_MAP_blocks"

definition CONTENT_REF_FIELD_MAP :: "(string \<times> string) list" where
  "CONTENT_REF_FIELD_MAP = [
    (''uri'', ''u''), (''modality'', ''m''), (''mime_type'', ''mt''), (''size_bytes'', ''sz''),
    (''checksum'', ''ck''), (''metadata'', ''md'')]"

definition EMBEDDING_REF_FIELD_MAP :: "(string \<times> string) list" where
  "EMBEDDING_REF_FIELD_MAP = [
    (''vector_id'', ''vi''), (''model'', ''mo''), (''dimensions'', ''dm''),
    (''modality_source'', ''ms''), (''distance_metric'', ''di''), (''chunk_index'', ''ci''),
    (''chunk_text'', ''ct''), (''chunk_strategy'', ''cs''), (''chunk_overlap'', ''co'')]"

definition RELATED_TO_FIELD_MAP :: "(string \<times> string) list" where
  "RELATED_TO_FIELD_MAP = [(''hash'', ''h''), (''relation_type'', ''rl''), (''weight'', ''w'')]"

definition WORKFLOW_EDGE_FIELD_MAP :: "(string \<times> string) list" where
  "WORKFLOW_EDGE_FIELD_MAP = [(''max_cycles'', ''mxc'')]"

definition compact_field :: "string \<Rightarrow> string" where
  "compact_field n = compact_in FIELD_MAP n"

definition expand_field :: "string \<Rightarrow> string" where
  "expand_field s = expand_in FIELD_MAP s"

definition expand_context_field :: "string \<Rightarrow> string" where
  "expand_context_field s =
     (case map_of (reverse_table FIELD_MAP) s of
        Some l \<Rightarrow> if starts_with l ''int:'' then l else s
      | None \<Rightarrow> s)"

definition compact_content_ref_field :: "string \<Rightarrow> string" where
  "compact_content_ref_field n = compact_in CONTENT_REF_FIELD_MAP n"

definition compact_embedding_ref_field :: "string \<Rightarrow> string" where
  "compact_embedding_ref_field n = compact_in EMBEDDING_REF_FIELD_MAP n"

definition compact_related_to_field :: "string \<Rightarrow> string" where
  "compact_related_to_field n = compact_in RELATED_TO_FIELD_MAP n"

definition compact_workflow_edge_field :: "string \<Rightarrow> string" where
  "compact_workflow_edge_field n = compact_in WORKFLOW_EDGE_FIELD_MAP n"

definition expand_related_to_field :: "string \<Rightarrow> string" where
  "expand_related_to_field s =
     (if s = ''h'' then ''hash'' else if s = ''rl'' then ''relation_type''
      else if s = ''w'' then ''weight'' else s)"

definition expand_workflow_edge_field :: "string \<Rightarrow> string" where
  "expand_workflow_edge_field s = (if s = ''mxc'' then ''max_cycles'' else s)"

section \<open>Properties\<close>

lemma FIELD_MAP_distinct: "distinct_by letter_bits (map table_names FIELD_MAP_blocks)"
  by code_simp

interpretation fields: field_table FIELD_MAP
  unfolding FIELD_MAP_def by (rule field_table_by_bits [OF FIELD_MAP_distinct])

interpretation content_refs: field_table CONTENT_REF_FIELD_MAP
  by (rule field_tableI) (simp add: table_names_def CONTENT_REF_FIELD_MAP_def)

interpretation embedding_refs: field_table EMBEDDING_REF_FIELD_MAP
  by (rule field_tableI) (simp add: table_names_def EMBEDDING_REF_FIELD_MAP_def)

interpretation related_to: field_table RELATED_TO_FIELD_MAP
  by (rule field_tableI) (simp add: table_names_def RELATED_TO_FIELD_MAP_def)

interpretation workflow_edge: field_table WORKFLOW_EDGE_FIELD_MAP
  by (rule field_tableI) (simp add: table_names_def WORKFLOW_EDGE_FIELD_MAP_def)

lemma expand_related_to_is_reverse:
  "expand_related_to_field s = expand_in RELATED_TO_FIELD_MAP s"
  by (simp add: expand_related_to_field_def expand_in_def reverse_table_def
      RELATED_TO_FIELD_MAP_def)

lemma expand_workflow_edge_is_reverse:
  "expand_workflow_edge_field s = expand_in WORKFLOW_EDGE_FIELD_MAP s"
  by (simp add: expand_workflow_edge_field_def expand_in_def reverse_table_def
      WORKFLOW_EDGE_FIELD_MAP_def)

text \<open>
  Compaction loses nothing of an OMS field name: every name of a table expands back to
  itself, for the grain fields and for the two nested tables that are reversed, and a name
  outside the table does too unless it is spelt like a short code.
\<close>

theorem field_names_roundtrip:
  "(expand_field (compact_field n) = n \<longleftrightarrow>
      n \<notin> snd ` set FIELD_MAP - fst ` set FIELD_MAP)
   \<and> (expand_related_to_field (compact_related_to_field n) = n \<longleftrightarrow> n \<notin> {''h'', ''rl'', ''w''})
   \<and> (expand_workflow_edge_field (compact_workflow_edge_field n) = n \<longleftrightarrow> n \<noteq> ''mxc'')"
proof -
  have "expand_related_to_field (compact_related_to_field n) = n \<longleftrightarrow> n \<notin> {''h'', ''rl'', ''w''}"
    unfolding expand_related_to_is_reverse compact_related_to_field_def
      related_to.expand_compact_iff by (auto simp: RELATED_TO_FIELD_MAP_def)
  moreover have "expand_workflow_edge_field (compact_workflow_edge_field n) = n \<longleftrightarrow> n \<noteq> ''mxc''"
    unfolding expand_workflow_edge_is_reverse compact_workflow_edge_field_def
      workflow_edge.expand_compact_iff by (auto simp: WORKFLOW_EDGE_FIELD_MAP_def)
  ultimately show ?thesis
    unfolding expand_field_def compact_field_def fields.expand_compact_iff by auto
qed

lemma reverse_lookup: "map_of (reverse_table FIELD_MAP) s = Some l \<longleftrightarrow> (l, s) \<in> set FIELD_MAP"
  using fields.reverse_distinct by (simp add: fields.reverse_set)

lemma int_name_survives:
  assumes n: "n \<in> fst ` set FIELD_MAP_integration"
  shows "expand_context_field (compact_field n) = n"
proof -
  from n obtain c where c: "(n, c) \<in> set FIELD_MAP_integration" by auto
  then have "(n, c) \<in> set FIELD_MAP" by (auto simp: FIELD_MAP_def FIELD_MAP_blocks_def)
  moreover have "starts_with n ''int:''"
    using c by (auto simp: FIELD_MAP_integration_def)
  ultimately show ?thesis
    by (simp add: expand_context_field_def compact_field_def fields.compact_Some
        flip: reverse_lookup)
qed

text \<open>
  Expanding a key of a context map touches nothing of the user's: it changes a key only
  to an \<^verbatim>\<open>int:\<close> name of the integration profile, and every such name survives compaction
  and this expansion.
\<close>

theorem context_expansion_only_int:
  "(expand_context_field s \<noteq> s \<longleftrightarrow>
      (\<exists>l. starts_with l ''int:'' \<and> l \<noteq> s \<and> (l, s) \<in> set FIELD_MAP))
   \<and> map (expand_context_field \<circ> compact_field) (map fst FIELD_MAP_integration) =
       map fst FIELD_MAP_integration"
proof -
  have "expand_context_field s \<noteq> s \<longleftrightarrow>
      (\<exists>l. starts_with l ''int:'' \<and> l \<noteq> s \<and> (l, s) \<in> set FIELD_MAP)"
    by (auto simp: expand_context_field_def simp flip: reverse_lookup split: option.splits)
  then show ?thesis using int_name_survives by (auto intro!: map_idI)
qed

end
