(* ===== verification/Msgpack_Guard.thy ===== *)
theory Msgpack_Guard
  imports Core_Error
begin

text \<open>
  \<^verbatim>\<open>guard_msgpack_shape\<close> of \<^verbatim>\<open>crates/dejadb-core/src/format/deserialize.rs\<close>: the iterative
  walk over the framing of an untrusted payload that runs before the recursive decoder,
  and the grammar of well-framed values that it decides. The stack of the source is a
  list whose head is the top.
\<close>

section \<open>The guard\<close>

definition MAX_GRAIN_BYTES :: nat where "MAX_GRAIN_BYTES = 16 * 1024 * 1024"

definition MAX_MSGPACK_DEPTH :: nat where "MAX_MSGPACK_DEPTH = 256"

definition truncated :: deja_error where
  "truncated = Format ''truncated msgpack payload''"

definition need_bytes :: "bytes \<Rightarrow> nat \<Rightarrow> nat \<Rightarrow> deja_error + unit" where
  "need_bytes buf pos n = (if pos + n \<le> length buf then Inr () else Inl truncated)"

definition read_be :: "bytes \<Rightarrow> nat \<Rightarrow> nat \<Rightarrow> nat" where
  "read_be buf pos n = foldl (\<lambda>v b. v * 256 + unat b) 0 (take n (drop pos buf))"

definition len_prefixed :: "bytes \<Rightarrow> nat \<Rightarrow> nat \<Rightarrow> deja_error + nat \<times> nat" where
  "len_prefixed buf pos n =
     and_then (need_bytes buf pos n) (\<lambda>_. Inr (read_be buf pos n, pos + n))"

definition skip :: "bytes \<Rightarrow> nat \<Rightarrow> nat \<Rightarrow> deja_error + nat" where
  "skip buf pos n = and_then (need_bytes buf pos n) (\<lambda>_. Inr (pos + n))"

definition push_container ::
  "nat list \<Rightarrow> bytes \<Rightarrow> nat \<Rightarrow> nat \<Rightarrow> deja_error + nat list" where
  "push_container stack buf pos count =
     (if MAX_MSGPACK_DEPTH \<le> length stack then Inl (Format ''msgpack nesting too deep'')
      else if length buf - pos < count
      then Inl (Format ''msgpack container length exceeds payload'')
      else Inr (count # stack))"

type_synonym cursor = "nat \<times> nat list"

definition skip_to :: "bytes \<Rightarrow> nat \<Rightarrow> nat list \<Rightarrow> nat \<Rightarrow> deja_error + cursor" where
  "skip_to buf pos stack n = and_then (skip buf pos n) (\<lambda>p. Inr (p, stack))"

definition skip_prefixed ::
  "bytes \<Rightarrow> nat \<Rightarrow> nat list \<Rightarrow> nat \<Rightarrow> nat \<Rightarrow> deja_error + cursor" where
  "skip_prefixed buf pos stack w extra =
     and_then (len_prefixed buf pos w) (\<lambda>(l, p). skip_to buf p stack (l + extra))"

definition push_prefixed ::
  "bytes \<Rightarrow> nat \<Rightarrow> nat list \<Rightarrow> nat \<Rightarrow> nat \<Rightarrow> deja_error + cursor" where
  "push_prefixed buf pos stack w per =
     and_then (len_prefixed buf pos w)
       (\<lambda>(c, p). and_then (push_container stack buf p (c * per)) (\<lambda>s. Inr (p, s)))"

text \<open>The \<^verbatim>\<open>match\<close> on the marker; \<open>pos\<close> is already past it.\<close>

definition guard_marker :: "bytes \<Rightarrow> nat \<Rightarrow> nat \<Rightarrow> nat list \<Rightarrow> deja_error + cursor" where
  "guard_marker buf m pos stack =
     (if m \<le> 0x7F \<or> (0xE0 \<le> m \<and> m \<le> 0xFF) \<or> m = 0xC0 \<or> m = 0xC2 \<or> m = 0xC3
      then Inr (pos, stack)
      else if m = 0xC1 then Inl (Format ''invalid msgpack marker 0xc1'')
      else if 0xA0 \<le> m \<and> m \<le> 0xBF then skip_to buf pos stack (m mod 32)
      else if 0x80 \<le> m \<and> m \<le> 0x9F
      then (let n = m mod 16; count = (if m < 0x90 then n * 2 else n)
            in and_then (push_container stack buf pos count) (\<lambda>s. Inr (pos, s)))
      else if m = 0xCC \<or> m = 0xD0 then skip_to buf pos stack 1
      else if m = 0xCD \<or> m = 0xD1 then skip_to buf pos stack 2
      else if m = 0xCA \<or> m = 0xCE \<or> m = 0xD2 then skip_to buf pos stack 4
      else if m = 0xCB \<or> m = 0xCF \<or> m = 0xD3 then skip_to buf pos stack 8
      else if m = 0xD9 \<or> m = 0xC4 then skip_prefixed buf pos stack 1 0
      else if m = 0xDA \<or> m = 0xC5 then skip_prefixed buf pos stack 2 0
      else if m = 0xDB \<or> m = 0xC6 then skip_prefixed buf pos stack 4 0
      else if m = 0xC7 then skip_prefixed buf pos stack 1 1
      else if m = 0xC8 then skip_prefixed buf pos stack 2 1
      else if m = 0xC9 then skip_prefixed buf pos stack 4 1
      else if m = 0xD4 then skip_to buf pos stack (1 + 1)
      else if m = 0xD5 then skip_to buf pos stack (1 + 2)
      else if m = 0xD6 then skip_to buf pos stack (1 + 4)
      else if m = 0xD7 then skip_to buf pos stack (1 + 8)
      else if m = 0xD8 then skip_to buf pos stack (1 + 16)
      else if m = 0xDC then push_prefixed buf pos stack 2 1
      else if m = 0xDD then push_prefixed buf pos stack 4 1
      else if m = 0xDE then push_prefixed buf pos stack 2 2
      else push_prefixed buf pos stack 4 2)"

definition guard_value :: "bytes \<Rightarrow> nat \<Rightarrow> nat list \<Rightarrow> deja_error + cursor" where
  "guard_value buf pos stack =
     and_then (need_bytes buf pos 1) (\<lambda>_. guard_marker buf (unat (buf ! pos)) (pos + 1) stack)"

lemma skip_to_pos: "skip_to buf pos st n = Inr (p, s) \<Longrightarrow> pos \<le> p \<and> p \<le> length buf"
  by (auto simp: skip_to_def skip_def need_bytes_def result_simps split: if_splits)

lemma skip_prefixed_pos:
  "skip_prefixed buf pos st w x = Inr (p, s) \<Longrightarrow> pos \<le> p \<and> p \<le> length buf"
  by (auto simp: skip_prefixed_def len_prefixed_def need_bytes_def result_simps
      split: if_splits dest!: skip_to_pos)

lemma push_prefixed_pos:
  "push_prefixed buf pos st w x = Inr (p, s) \<Longrightarrow> pos \<le> p \<and> p \<le> length buf"
  by (auto simp: push_prefixed_def len_prefixed_def need_bytes_def result_simps
      split: if_splits)

lemma guard_marker_pos:
  "guard_marker buf m pos st = Inr (p, s) \<Longrightarrow> pos \<le> length buf \<Longrightarrow> pos \<le> p \<and> p \<le> length buf"
  unfolding guard_marker_def
  by (auto simp: Let_def result_simps split: if_splits
      dest!: skip_to_pos skip_prefixed_pos push_prefixed_pos)

lemma guard_value_pos: "guard_value buf pos st = Inr (p, s) \<Longrightarrow> pos < p \<and> p \<le> length buf"
  unfolding guard_value_def
  by (auto simp: result_simps need_bytes_def split: if_splits dest!: guard_marker_pos)

text \<open>
  The walk. It ends because each round either drops an exhausted level or moves the
  position, which stays inside the buffer.
\<close>

function guard_loop :: "bytes \<Rightarrow> nat \<Rightarrow> nat list \<Rightarrow> deja_error + unit" where
  "guard_loop buf pos [] = Inr ()"
| "guard_loop buf pos (0 # stack) = guard_loop buf pos stack"
| "guard_loop buf pos (Suc n # stack) =
     (case guard_value buf pos (n # stack) of
        Inl e \<Rightarrow> Inl e
      | Inr (p, s) \<Rightarrow> guard_loop buf p s)"
  by pat_completeness auto

termination
  by (relation "measures [\<lambda>(buf, pos, _). length buf - pos, \<lambda>(_, _, s). length s]")
     (auto dest!: guard_value_pos)

definition guard_msgpack_shape :: "bytes \<Rightarrow> deja_error + unit" where
  "guard_msgpack_shape buf = guard_loop buf 0 [1]"

section \<open>The grammar of well-framed values\<close>

text \<open>
  Msgpack's framing as a grammar on its own: the first bytes of a value say either how
  long it is in all, or how long its header is and how many values follow.
\<close>

datatype shape = Leaf nat | Node nat nat

definition be_value :: "bytes \<Rightarrow> nat" where
  "be_value bs = foldl (\<lambda>v b. v * 256 + unat b) 0 bs"

text \<open>The width of the length prefix after a marker, and the shape that a length gives.\<close>

definition marker_shape :: "nat \<Rightarrow> (nat \<times> (nat \<Rightarrow> shape)) option" where
  "marker_shape m =
     (if m < 0x80 \<or> 0xE0 \<le> m then Some (0, \<lambda>_. Leaf 1)
      else if m < 0x90 then Some (0, \<lambda>_. Node 1 (2 * (m - 0x80)))
      else if m < 0xA0 then Some (0, \<lambda>_. Node 1 (m - 0x90))
      else if m < 0xC0 then Some (0, \<lambda>_. Leaf (1 + (m - 0xA0)))
      else if m \<in> {0xC0, 0xC2, 0xC3} then Some (0, \<lambda>_. Leaf 1)
      else if m \<in> {0xC4, 0xD9} then Some (1, \<lambda>l. Leaf (2 + l))
      else if m \<in> {0xC5, 0xDA} then Some (2, \<lambda>l. Leaf (3 + l))
      else if m \<in> {0xC6, 0xDB} then Some (4, \<lambda>l. Leaf (5 + l))
      else if m = 0xC7 then Some (1, \<lambda>l. Leaf (3 + l))
      else if m = 0xC8 then Some (2, \<lambda>l. Leaf (4 + l))
      else if m = 0xC9 then Some (4, \<lambda>l. Leaf (6 + l))
      else if m \<in> {0xCC, 0xD0} then Some (0, \<lambda>_. Leaf 2)
      else if m \<in> {0xCD, 0xD1, 0xD4} then Some (0, \<lambda>_. Leaf 3)
      else if m = 0xD5 then Some (0, \<lambda>_. Leaf 4)
      else if m \<in> {0xCA, 0xCE, 0xD2} then Some (0, \<lambda>_. Leaf 5)
      else if m = 0xD6 then Some (0, \<lambda>_. Leaf 6)
      else if m \<in> {0xCB, 0xCF, 0xD3} then Some (0, \<lambda>_. Leaf 9)
      else if m = 0xD7 then Some (0, \<lambda>_. Leaf 10)
      else if m = 0xD8 then Some (0, \<lambda>_. Leaf 18)
      else if m = 0xDC then Some (2, \<lambda>c. Node 3 c)
      else if m = 0xDD then Some (4, \<lambda>c. Node 5 c)
      else if m = 0xDE then Some (2, \<lambda>c. Node 3 (2 * c))
      else if m = 0xDF then Some (4, \<lambda>c. Node 5 (2 * c))
      else None)"

fun classify :: "bytes \<Rightarrow> shape option" where
  "classify [] = None"
| "classify (b # bs) =
     (case marker_shape (unat b) of
        None \<Rightarrow> None
      | Some (w, f) \<Rightarrow> if w \<le> length bs then Some (f (be_value (take w bs))) else None)"

text \<open>\<open>frame d v\<close>: \<open>v\<close> is exactly one value, its containers nested at most \<open>d\<close> deep.\<close>

inductive frame :: "nat \<Rightarrow> bytes \<Rightarrow> bool"
  and frames :: "nat \<Rightarrow> nat \<Rightarrow> bytes \<Rightarrow> bool" where
  leaf: "classify v = Some (Leaf k) \<Longrightarrow> length v = k \<Longrightarrow> frame d v"
| node: "classify v = Some (Node k c) \<Longrightarrow> k \<le> length v \<Longrightarrow> frames d c (drop k v) \<Longrightarrow>
    frame (Suc d) v"
| none: "frames d 0 []"
| more: "frame d u \<Longrightarrow> frames d n v \<Longrightarrow> frames d (Suc n) (u @ v)"

inductive_cases frameE: "frame d v"
inductive_cases frames_0E [elim!]: "frames d 0 v"
inductive_cases frames_SucE: "frames d (Suc n) v"

lemma classify_append: "classify v = Some x \<Longrightarrow> classify (v @ w) = Some x"
  by (cases v) (auto split: option.splits if_splits)

lemma marker_shape_pos:
  "marker_shape m = Some (w, f) \<Longrightarrow>
     (case f l of Leaf k \<Rightarrow> w < k | Node k c \<Rightarrow> k = Suc w)"
  unfolding marker_shape_def by (auto split: if_split_asm)

lemma marker_shape_Leaf: "marker_shape m = Some (w, f) \<Longrightarrow> f l = Leaf k \<Longrightarrow> w < k"
  using marker_shape_pos [of m w f l] by simp

lemma marker_shape_Node: "marker_shape m = Some (w, f) \<Longrightarrow> f l = Node k c \<Longrightarrow> k = Suc w"
  using marker_shape_pos [of m w f l] by simp

lemma classify_Cons:
  "classify (b # bs) = Some s \<longleftrightarrow>
     (\<exists>w f. marker_shape (unat b) = Some (w, f) \<and> w \<le> length bs \<and> s = f (be_value (take w bs)))"
  by (auto split: option.splits)

lemma classify_Leaf: "classify v = Some (Leaf k) \<Longrightarrow> 0 < k"
  by (cases v) (auto simp: classify_Cons simp del: classify.simps(2) dest!: marker_shape_Leaf [OF _ sym])

lemma classify_Node: "classify v = Some (Node k c) \<Longrightarrow> 0 < k \<and> k \<le> length v"
  by (cases v) (auto simp: classify_Cons simp del: classify.simps(2) dest!: marker_shape_Node [OF _ sym])

text \<open>The two readers of a length, and what the guard does with each shape.\<close>

lemma read_be_value: "read_be buf pos w = be_value (take w (drop pos buf))"
  by (simp add: read_be_def be_value_def)

definition guard_shape ::
  "bytes \<Rightarrow> nat \<Rightarrow> nat list \<Rightarrow> nat \<times> (nat \<Rightarrow> shape) \<Rightarrow> cursor \<Rightarrow> bool" where
  "guard_shape buf pos st x r =
     (case x of (w, f) \<Rightarrow> pos + w \<le> length buf \<and>
        (case f (be_value (take w (drop pos buf))) of
           Leaf k \<Rightarrow> pos + k \<le> Suc (length buf) \<and> r = (pos + k - 1, st)
         | Node k c \<Rightarrow> length st < 256 \<and> c \<le> length buf - (pos + k - 1) \<and> r = (pos + k - 1, c # st)))"

lemmas guard_ops = skip_to_def skip_def skip_prefixed_def push_prefixed_def len_prefixed_def
  need_bytes_def push_container_def MAX_MSGPACK_DEPTH_def read_be_value

lemma mod_offset:
  fixes m b k :: nat
  assumes "b mod k = 0" "b \<le> m" "m < b + k"
  shows "m mod k = m - b"
proof -
  obtain n where n: "m = b + n" using assms(2) by (auto simp: le_iff_add)
  have "(b + n) mod k = (b mod k + n) mod k" by (simp only: mod_add_left_eq)
  with n assms show ?thesis by simp
qed

lemma guard_marker_shape:
  assumes "m < 256" and "pos \<le> length buf"
  shows "guard_marker buf m pos st = Inr r \<longleftrightarrow>
    (\<exists>x. marker_shape m = Some x \<and> guard_shape buf pos st x r)"
proof -
  have "m \<in> set [192..<224] \<longleftrightarrow> 192 \<le> m \<and> m < 224" by (simp only: set_upt atLeastLessThan_iff)
  then consider "m \<le> 0x7F \<or> 0xE0 \<le> m" | "0x80 \<le> m" "m < 0x90" | "0x90 \<le> m" "m < 0xA0"
    | "0xA0 \<le> m" "m < 0xC0" | "m \<in> set [192..<224]"
    by linarith
  then show ?thesis
  proof cases
    case 1
    have "guard_marker buf m pos st = Inr (pos, st)"
      unfolding guard_marker_def by (insert 1 assms, subst if_P, presburger, rule refl)
    moreover have "marker_shape m = Some (0, \<lambda>_. Leaf 1)"
      unfolding marker_shape_def by (insert 1, subst if_P, presburger, rule refl)
    ultimately show ?thesis by (auto simp: guard_shape_def assms)
  next
    case 2
    have "guard_marker buf m pos st = and_then (push_container st buf pos (m mod 16 * 2)) (\<lambda>s. Inr (pos, s))"
      unfolding guard_marker_def Let_def
      by (insert 2, (subst if_not_P, presburger)+, (subst if_P, presburger)+, rule refl)
    moreover have "marker_shape m = Some (0, \<lambda>_. Node 1 (2 * (m - 0x80)))"
      unfolding marker_shape_def
      by (insert 2, (subst if_not_P, presburger)+, subst if_P, presburger, rule refl)
    moreover from 2 have "m mod 16 = m - 0x80" by (intro mod_offset) simp_all
    ultimately show ?thesis
      using assms(2) by (auto simp: guard_shape_def guard_ops result_simps)
  next
    case 3
    have "guard_marker buf m pos st = and_then (push_container st buf pos (m mod 16)) (\<lambda>s. Inr (pos, s))"
      unfolding guard_marker_def Let_def
      by (insert 3, (subst if_not_P, presburger)+, subst if_P, presburger, rule refl)
    moreover have "marker_shape m = Some (0, \<lambda>_. Node 1 (m - 0x90))"
      unfolding marker_shape_def
      by (insert 3, (subst if_not_P, presburger)+, subst if_P, presburger, rule refl)
    moreover from 3 have "m mod 16 = m - 0x90" by (intro mod_offset) simp_all
    ultimately show ?thesis
      using assms(2) by (auto simp: guard_shape_def guard_ops result_simps)
  next
    case 4
    have "guard_marker buf m pos st = skip_to buf pos st (m mod 32)"
      unfolding guard_marker_def Let_def
      by (insert 4, (subst if_not_P, presburger)+, subst if_P, presburger, rule refl)
    moreover have "marker_shape m = Some (0, \<lambda>_. Leaf (1 + (m - 0xA0)))"
      unfolding marker_shape_def
      by (insert 4, (subst if_not_P, presburger)+, subst if_P, presburger, rule refl)
    moreover from 4 have "m mod 32 = m - 0xA0" by (intro mod_offset) simp_all
    ultimately show ?thesis
      using assms(2) by (auto simp: guard_shape_def guard_ops result_simps)
  next
    case 5
    then have "m = 192 \<or> m = 193 \<or> m = 194 \<or> m = 195 \<or> m = 196 \<or> m = 197 \<or> m = 198 \<or> m = 199
      \<or> m = 200 \<or> m = 201 \<or> m = 202 \<or> m = 203 \<or> m = 204 \<or> m = 205 \<or> m = 206 \<or> m = 207
      \<or> m = 208 \<or> m = 209 \<or> m = 210 \<or> m = 211 \<or> m = 212 \<or> m = 213 \<or> m = 214 \<or> m = 215
      \<or> m = 216 \<or> m = 217 \<or> m = 218 \<or> m = 219 \<or> m = 220 \<or> m = 221 \<or> m = 222 \<or> m = 223"
      by (simp add: upt_rec)
    then show ?thesis using assms(2)
      by (elim disjE) (auto simp: guard_marker_def marker_shape_def guard_shape_def guard_ops
          result_simps split: if_splits)
  qed
qed


lemma guard_value_frame:
  assumes "pos \<le> length buf"
  shows "guard_value buf pos st = Inr r \<longleftrightarrow>
    (\<exists>k. classify (drop pos buf) = Some (Leaf k) \<and> pos + k \<le> length buf \<and> r = (pos + k, st))
    \<or> (\<exists>k c. classify (drop pos buf) = Some (Node k c) \<and> length st < 256
         \<and> c \<le> length buf - (pos + k) \<and> r = (pos + k, c # st))"
proof (cases "drop pos buf")
  case Nil
  with assms show ?thesis by (simp add: guard_value_def need_bytes_def)
next
  case (Cons b bs)
  then have pos: "pos < length buf" "buf ! pos = b" and bs: "drop (Suc pos) buf = bs"
    by (auto simp: nth_via_drop drop_Suc drop_tl intro: ccontr)
  then have len: "length buf = Suc (pos + length bs)" using pos(1) by auto
  have "guard_value buf pos st = Inr r \<longleftrightarrow> guard_marker buf (unat b) (Suc pos) st = Inr r"
    using pos by (simp add: guard_value_def need_bytes_def)
  also have "\<dots> \<longleftrightarrow> (\<exists>x. marker_shape (unat b) = Some x \<and> guard_shape buf (Suc pos) st x r)"
    using pos unsigned_less [of b] by (intro guard_marker_shape) auto
  also have "\<dots> \<longleftrightarrow>
    (\<exists>k. classify (b # bs) = Some (Leaf k) \<and> pos + k \<le> length buf \<and> r = (pos + k, st))
    \<or> (\<exists>k c. classify (b # bs) = Some (Node k c) \<and> length st < 256
         \<and> c \<le> length buf - (pos + k) \<and> r = (pos + k, c # st))"
  proof (cases "marker_shape (unat b)")
    case (Some x)
    obtain w f where x: "x = (w, f)" by (cases x)
    show ?thesis
    proof (cases "f (be_value (take w bs))")
      case (Leaf k)
      then have "w < k" using marker_shape_Leaf Some x by blast
      with Some x Leaf show ?thesis by (auto simp: guard_shape_def bs len)
    next
      case (Node k c)
      then have "k = Suc w" using marker_shape_Node Some x by blast
      with Some x Node show ?thesis by (auto simp: guard_shape_def bs len)
    qed
  qed simp
  finally show ?thesis by (simp only: Cons)
qed

text \<open>
  What a stack stands for: the values still to read at each level, each level one deeper
  than the one below it.
\<close>

fun pending :: "nat list \<Rightarrow> bytes \<Rightarrow> bool" where
  "pending [] bs = True"
| "pending (n # st) bs =
     (\<exists>u v. bs = u @ v \<and> frames (255 - length st) n u \<and> pending st v)"

lemma frame_pos: "frame d v \<Longrightarrow> 0 < length v"
  by (erule frameE) (auto dest: classify_Leaf classify_Node)

lemma frames_length: "frames d n v \<Longrightarrow> n \<le> length v"
proof (induction n arbitrary: v)
  case (Suc n)
  then obtain u w where "v = u @ w" "frame d u" "frames d n w" by (auto elim: frames_SucE)
  moreover have "Suc n \<le> length u + length w"
    using calculation Suc.IH [of w] frame_pos [of d u] by linarith
  ultimately show ?case by simp
qed simp

lemma classify_take_Cons:
  assumes "classify (b # bs) = Some s" and "marker_shape (unat b) = Some (w, f)" and "w \<le> j"
  shows "classify (b # take j bs) = Some s"
  using assms by (auto simp: min_def split: if_splits)

lemma classify_take:
  "classify v = Some (Leaf k) \<Longrightarrow> k \<le> length v \<Longrightarrow> classify (take k v) = Some (Leaf k)"
  "classify v = Some (Node k c) \<Longrightarrow> classify (take k v) = Some (Node k c)"
proof -
  have *: "classify (take k v) = Some s"
    if v: "v = b # bs" and s: "classify v = Some s" and m: "marker_shape (unat b) = Some (w, f)"
      and "w < k" for b bs w f s
  proof -
    from \<open>w < k\<close> obtain j where "k = Suc j" "w \<le> j" by (cases k) auto
    with classify_take_Cons [OF s [unfolded v] m, of j] v show ?thesis by simp
  qed
  show "classify (take k v) = Some (Leaf k)" if c: "classify v = Some (Leaf k)"
  proof -
    from c obtain b bs w f where "v = b # bs" "marker_shape (unat b) = Some (w, f)"
        "f (be_value (take w bs)) = Leaf k"
      by (cases v) (auto simp: classify_Cons simp del: classify.simps(2))
    then show ?thesis using * [OF _ c] marker_shape_Leaf by blast
  qed
  show "classify (take k v) = Some (Node k c)" if c: "classify v = Some (Node k c)"
  proof -
    from c obtain b bs w f where "v = b # bs" "marker_shape (unat b) = Some (w, f)"
        "f (be_value (take w bs)) = Node k c"
      by (cases v) (auto simp: classify_Cons simp del: classify.simps(2))
    then show ?thesis using * [OF _ c] marker_shape_Node by blast
  qed
qed

lemma frame_classify: "frame d v \<Longrightarrow> classify v \<noteq> None"
  by (erule frameE) auto

lemma pending_0: "pending (0 # st) bs \<longleftrightarrow> pending st bs"
  by (auto intro: frame_frames.none)

lemma pending_Suc:
  "pending (Suc n # st) bs \<longleftrightarrow>
     (\<exists>u v. bs = u @ v \<and> frame (255 - length st) u \<and> pending (n # st) v)"
proof
  assume "pending (Suc n # st) bs"
  then obtain u v where "bs = u @ v" "frames (255 - length st) (Suc n) u" "pending st v"
    by auto
  moreover from this(2) obtain x y where "u = x @ y" "frame (255 - length st) x"
      "frames (255 - length st) n y"
    by (auto elim: frames_SucE)
  ultimately show "\<exists>u v. bs = u @ v \<and> frame (255 - length st) u \<and> pending (n # st) v"
    by (metis append.assoc pending.simps(2))
next
  assume "\<exists>u v. bs = u @ v \<and> frame (255 - length st) u \<and> pending (n # st) v"
  then obtain u x v where "bs = u @ x @ v" "frame (255 - length st) u"
      "frames (255 - length st) n x" "pending st v"
    by auto
  then show "pending (Suc n # st) bs"
    by (metis append.assoc frame_frames.more pending.simps(2))
qed

lemma pending_Leaf:
  assumes "classify bs = Some (Leaf k)"
  shows "pending (Suc n # st) bs \<longleftrightarrow> k \<le> length bs \<and> pending (n # st) (drop k bs)"
proof
  assume "pending (Suc n # st) bs"
  then obtain u v where u: "bs = u @ v" "frame (255 - length st) u" "pending (n # st) v"
    unfolding pending_Suc by blast
  from u(2) have "length u = k"
    by (rule frameE) (use assms u(1) classify_append [of u _ v] in auto)
  with u show "k \<le> length bs \<and> pending (n # st) (drop k bs)"
    by (simp del: pending.simps)
next
  assume *: "k \<le> length bs \<and> pending (n # st) (drop k bs)"
  then have "frame (255 - length st) (take k bs)"
    using classify_take(1) [OF assms] by (intro frame_frames.leaf) auto
  with * show "pending (Suc n # st) bs"
    unfolding pending_Suc by (metis append_take_drop_id)
qed

lemma pending_Node:
  assumes "classify bs = Some (Node k c)"
  shows "pending (Suc n # st) bs \<longleftrightarrow>
     length (n # st) < 256 \<and> pending (c # n # st) (drop k bs)"
proof
  assume "pending (Suc n # st) bs"
  then obtain u v where u: "bs = u @ v" "frame (255 - length st) u" "pending (n # st) v"
    unfolding pending_Suc by blast
  from u(2) obtain d where d: "255 - length st = Suc d" "k \<le> length u" "frames d c (drop k u)"
    by (rule frameE) (use assms u(1) classify_append [of u _ v] in auto)
  then have "d = 255 - length (n # st)" by simp
  with d u show "length (n # st) < 256 \<and> pending (c # n # st) (drop k bs)"
    unfolding pending.simps(2) [of c] by (intro conjI exI [of _ "drop k u"] exI [of _ v]) auto
next
  assume *: "length (n # st) < 256 \<and> pending (c # n # st) (drop k bs)"
  then obtain x y where x: "drop k bs = x @ y" "frames (255 - length (n # st)) c x"
      "pending (n # st) y"
    by (auto simp: pending.simps(2) [of c] simp del: pending.simps)
  have k: "length (take k bs) = k" using classify_Node [OF assms] by simp
  have "frame (Suc (255 - length (n # st))) (take k bs @ x)"
    using classify_append [OF classify_take(2) [OF assms], of x] x(2) k
    by (intro frame_frames.node) auto
  moreover have "Suc (255 - length (n # st)) = 255 - length st" using * by auto
  moreover have "bs = (take k bs @ x) @ y" by (metis append.assoc append_take_drop_id x(1))
  ultimately show "pending (Suc n # st) bs"
    unfolding pending_Suc using x(3) by metis
qed

lemma pending_None: "classify bs = None \<Longrightarrow> \<not> pending (Suc n # st) bs"
  unfolding pending_Suc using frame_classify classify_append by fastforce

lemma pending_fits: "pending (c # st) bs \<Longrightarrow> c \<le> length bs"
  by (auto dest: frames_length)

lemma guard_loop_pending:
  "pos \<le> length buf \<Longrightarrow> length stack \<le> 256 \<Longrightarrow>
     guard_loop buf pos stack = Inr () \<longleftrightarrow> pending stack (drop pos buf)"
proof (induction buf pos stack rule: guard_loop.induct)
  case (3 buf pos n st)
  note step = guard_value_frame [OF "3.prems"(1), of "n # st"]
  show ?case
  proof (cases "guard_value buf pos (n # st)")
    case (Inl e)
    then have no: "\<not> (guard_value buf pos (n # st) = Inr r)" for r by simp
    have "\<not> pending (Suc n # st) (drop pos buf)"
    proof (cases "classify (drop pos buf)")
      case (Some s)
      show ?thesis
      proof (cases s)
        case (Leaf k)
        then show ?thesis
          using no [unfolded step, of "(pos + k, n # st)"] Some "3.prems"
          by (auto simp: pending_Leaf simp del: pending.simps)
      next
        case (Node k c)
        then show ?thesis
          using no [unfolded step, of "(pos + k, c # n # st)"] Some "3.prems"
          by (auto simp: pending_Node simp del: pending.simps dest!: pending_fits)
      qed
    qed (rule pending_None)
    with Inl show ?thesis by simp
  next
    case (Inr r)
    obtain p s where r: "r = (p, s)" by (cases r)
    from Inr have "p \<le> length buf" "length s \<le> 256"
      using "3.prems" guard_value_pos r by (fastforce simp: step)+
    then have "guard_loop buf p s = Inr () \<longleftrightarrow> pending s (drop p buf)"
      using "3.IH" [OF Inr] r by simp
    moreover from Inr have "pending (Suc n # st) (drop pos buf) \<longleftrightarrow> pending s (drop p buf)"
      unfolding step r
      by (auto simp: pending_Leaf pending_Node add.commute simp del: pending.simps)
    ultimately show ?thesis using Inr r by simp
  qed
qed (simp_all add: pending_0 del: pending.simps(2))

lemma guard_loop_error: "guard_loop buf pos st = Inl e \<Longrightarrow> \<exists>m. e = Format m"
proof (induction buf pos st rule: guard_loop.induct)
  case (3 buf pos n st)
  show ?case
  proof (cases "guard_value buf pos (n # st)")
    case (Inl d)
    with "3.prems" have "d = e" by simp
    with Inl show ?thesis
      unfolding guard_value_def guard_marker_def
      by (auto simp: Let_def guard_ops truncated_def result_simps split: if_split_asm)
  next
    case (Inr r)
    with "3.IH" [of r "fst r" "snd r"] "3.prems" show ?thesis by (cases r) auto
  qed
qed simp_all

lemma guard_error: "guard_msgpack_shape buf = Inr () \<or> (\<exists>m. guard_msgpack_shape buf = Inl (Format m))"
  unfolding guard_msgpack_shape_def
  by (cases "guard_loop buf 0 [1]") (auto simp del: guard_loop.simps dest: guard_loop_error)

lemma guard_accepts:
  "guard_msgpack_shape buf = Inr () \<longleftrightarrow> (\<exists>v rest. buf = v @ rest \<and> frame 255 v)"
proof -
  have "guard_msgpack_shape buf = Inr () \<longleftrightarrow> pending [1] buf"
    unfolding guard_msgpack_shape_def by (subst guard_loop_pending) simp_all
  also have "\<dots> \<longleftrightarrow> (\<exists>v rest. buf = v @ rest \<and> frame 255 v)"
    by (simp only: One_nat_def pending_Suc pending_0) simp
  finally show ?thesis .
qed

lemma frame_nested: "n \<le> d \<Longrightarrow> frame d (replicate n 0x91 @ [0xC0])"
proof (induction n arbitrary: d)
  case 0
  then show ?case
    by (auto intro!: frame_frames.leaf simp: marker_shape_def be_value_def)
next
  case (Suc n)
  then obtain e where "d = Suc e" "n \<le> e" by (metis Suc_le_D Suc_le_mono)
  moreover have "frames e 1 (replicate n 0x91 @ [0xC0])"
    using frame_frames.more [OF Suc.IH frame_frames.none] \<open>n \<le> e\<close> by simp
  ultimately show ?case
    by (auto intro!: frame_frames.node [where k = 1 and c = 1] simp: marker_shape_def be_value_def)
qed

lemma frame_nested_depth: "frame d u \<Longrightarrow> u @ v = replicate n 0x91 @ xs \<Longrightarrow> n \<le> d"
proof (induction n arbitrary: d u)
  case (Suc n)
  have "classify (replicate (Suc n) 0x91 @ xs) = Some (Node 1 1)"
    by (simp add: marker_shape_def be_value_def)
  moreover obtain s where "classify u = Some s" using frame_classify [OF Suc.prems(1)] by blast
  ultimately have "classify u = Some (Node 1 1)"
    using classify_append [of u s v] Suc.prems(2) by simp
  with Suc.prems(1) obtain e where e: "d = Suc e" "1 \<le> length u" "frames e (Suc 0) (drop 1 u)"
    by (auto elim!: frameE)
  from e(3) have "frame e (drop 1 u)" by (auto elim!: frames_SucE)
  moreover have "drop 1 u @ v = replicate n 0x91 @ xs"
    using Suc.prems(2) e(2) by (cases u) auto
  ultimately have "n \<le> e" by (rule Suc.IH)
  with e(1) show ?case by simp
qed simp

text \<open>
  C39. The guard is exactly the grammar: it accepts a buffer if and only if the buffer starts
  with one well-framed value whose containers nest at most 255 deep, and on every other
  buffer it returns a format error.
\<close>

theorem guard_iff_framed:
  "(guard_msgpack_shape buf = Inr () \<longleftrightarrow> (\<exists>v rest. buf = v @ rest \<and> frame 255 v))
   \<and> (guard_msgpack_shape buf = Inr () \<or> (\<exists>m. guard_msgpack_shape buf = Inl (Format m)))"
  using guard_accepts guard_error by blast

text \<open>
  The source's limit of 256 counts the top level: arrays nested \<open>n\<close> deep around a nil are
  accepted exactly up to \<open>n = 255\<close>.
\<close>

theorem guard_nested_limit:
  "guard_msgpack_shape (replicate n 0x91 @ [0xC0]) = Inr () \<longleftrightarrow> n \<le> 255"
proof
  assume "guard_msgpack_shape (replicate n 0x91 @ [0xC0]) = Inr ()"
  then show "n \<le> 255" unfolding guard_accepts by (metis frame_nested_depth)
next
  assume "n \<le> 255"
  then show "guard_msgpack_shape (replicate n 0x91 @ [0xC0]) = Inr ()"
    unfolding guard_accepts by (metis append_Nil2 frame_nested)
qed

end
