(* ===== verification/Json.thy ===== *)
theory Json
  imports Prelude
begin

text \<open>
  JSON values as \<^verbatim>\<open>serde_json::Value\<close> has them (objects are \<^verbatim>\<open>BTreeMap\<close>s, so sorted
  association lists), with the accessors the program uses.

  A 64-bit float is its real value or one of the three non-finite ones; the two zeros are
  not told apart.
\<close>

datatype f64 = Finite rat | PosInf | NegInf | NaN

definition f64_is_finite :: "f64 \<Rightarrow> bool" where
  "f64_is_finite x = (case x of Finite _ \<Rightarrow> True | _ \<Rightarrow> False)"

text \<open>Comparison of floats: false as soon as a \<^verbatim>\<open>NaN\<close> takes part.\<close>

fun f64_less :: "f64 \<Rightarrow> f64 \<Rightarrow> bool" where
  "f64_less (Finite a) (Finite b) = (a < b)"
| "f64_less NegInf (Finite _) = True"
| "f64_less NegInf PosInf = True"
| "f64_less (Finite _) PosInf = True"
| "f64_less _ _ = False"

definition f64_ge :: "f64 \<Rightarrow> f64 \<Rightarrow> bool" where
  "f64_ge a b = (f64_less b a \<or> (a = b \<and> a \<noteq> NaN))"

text \<open>A number is an integer between \<^verbatim>\<open>i64::MIN\<close> and \<^verbatim>\<open>u64::MAX\<close>, or a float.\<close>

datatype json =
    JNull
  | JBool bool
  | JInt int
  | JFloat f64
  | JStr string
  | JArr "json list"
  | JObj "(string \<times> json) list"

definition u64_max :: int where "u64_max = 18446744073709551615"

section \<open>Accessors\<close>

fun jget :: "string \<Rightarrow> json \<Rightarrow> json option" where
  "jget k (JObj m) = map_of m k"
| "jget k _ = None"

fun as_str :: "json \<Rightarrow> string option" where
  "as_str (JStr s) = Some s"
| "as_str _ = None"

fun as_bool :: "json \<Rightarrow> bool option" where
  "as_bool (JBool b) = Some b"
| "as_bool _ = None"

fun as_i64 :: "json \<Rightarrow> int option" where
  "as_i64 (JInt i) = (if i \<le> i64_max then Some i else None)"
| "as_i64 _ = None"

fun as_u64 :: "json \<Rightarrow> int option" where
  "as_u64 (JInt i) = (if 0 \<le> i then Some i else None)"
| "as_u64 _ = None"

text \<open>
  \<^verbatim>\<open>Value::as_f64\<close>: an integer is converted (exactly below \<open>2^53\<close>, which \<open>rnd\<close> rounds to
  above that), a float is itself.
\<close>

fun as_f64 :: "(int \<Rightarrow> rat) \<Rightarrow> json \<Rightarrow> f64 option" where
  "as_f64 rnd (JInt i) = Some (Finite (rnd i))"
| "as_f64 rnd (JFloat f) = Some f"
| "as_f64 rnd _ = None"

text \<open>The number of a float; what is not finite becomes \<^verbatim>\<open>null\<close>.\<close>

definition f64_json :: "f64 \<Rightarrow> json" where
  "f64_json x = (if f64_is_finite x then JFloat x else JNull)"

fun as_array :: "json \<Rightarrow> json list option" where
  "as_array (JArr xs) = Some xs"
| "as_array _ = None"

fun as_object :: "json \<Rightarrow> (string \<times> json) list option" where
  "as_object (JObj m) = Some m"
| "as_object _ = None"

text \<open>
  What every value the parser or a builder makes satisfies: integers in range, floats
  finite, objects sorted by key with no key twice.
\<close>

fun wf_json :: "json \<Rightarrow> bool" where
  "wf_json JNull = True"
| "wf_json (JBool _) = True"
| "wf_json (JInt i) = (i64_min \<le> i \<and> i \<le> u64_max)"
| "wf_json (JFloat f) = f64_is_finite f"
| "wf_json (JStr _) = True"
| "wf_json (JArr xs) = (\<forall>x \<in> set xs. wf_json x)"
| "wf_json (JObj m) = (bt_wf m \<and> (\<forall>e \<in> set m. wf_json (snd e)))"

text \<open>Some property of every string of a value, keys included.\<close>

fun all_strings :: "(string \<Rightarrow> bool) \<Rightarrow> json \<Rightarrow> bool" where
  "all_strings P (JStr s) = P s"
| "all_strings P (JArr xs) = (\<forall>x \<in> set xs. all_strings P x)"
| "all_strings P (JObj m) = (\<forall>e \<in> set m. P (fst e) \<and> all_strings P (snd e))"
| "all_strings P _ = True"

lemma wf_json_get: "wf_json j \<Longrightarrow> jget k j = Some v \<Longrightarrow> wf_json v"
  by (cases j) (force dest: map_of_SomeD)+

end
