(* ===== verification/Wire_Value.thy ===== *)
theory Wire_Value
  imports Json Mg_Header Field_Map Msgpack_Guard
begin

text \<open>
  The value layer of the \<^verbatim>\<open>.mg\<close> format: JSON to msgpack on the write side
  (\<^verbatim>\<open>crates/dejadb-core/src/format/serialize.rs\<close>), msgpack to JSON with expanded field
  names on the read side (\<^verbatim>\<open>format/deserialize.rs\<close>), the blob around them, and the
  accessors of a read grain.

  What is not under the repository is a field of the environment \<open>core_env\<close>: SHA-256, the
  hex crate, the msgpack encoder and decoder, Unicode NFC, and the COSE crate (\<open>None\<close> when
  the \<^verbatim>\<open>signing\<close> feature is off).
\<close>

section \<open>Msgpack values\<close>

text \<open>A msgpack string may hold bytes that are not UTF-8; then \<^verbatim>\<open>as_str\<close> is \<open>None\<close>.\<close>

datatype mp =
    MNil
  | MBool bool
  | MInt int
  | MF32 f64
  | MF64 f64
  | MStr "string option"
  | MBin bytes
  | MArr "mp list"
  | MMap "(mp \<times> mp) list"
  | MExt

record core_env =
  sha256 :: "bytes \<Rightarrow> bytes"
  hex_encode :: "bytes \<Rightarrow> string"
  hex_decode :: "string \<Rightarrow> string + bytes"
  write_value :: "mp \<Rightarrow> string + bytes"
  read_value :: "bytes \<Rightarrow> string + mp \<times> bytes"
  nfc :: "string \<Rightarrow> string"
  cose_payload :: "(bytes \<Rightarrow> string + bytes option) option"

section \<open>Writing\<close>

definition encode_value_to_vec :: "core_env \<Rightarrow> mp \<Rightarrow> deja_error + bytes" where
  "encode_value_to_vec E v =
     (case write_value E v of
        Inl e \<Rightarrow> Inl (Serialization (''msgpack encode error: '' @ e))
      | Inr bs \<Rightarrow> Inr bs)"

definition non_finite :: deja_error where
  "non_finite = Format ''non-finite float (NaN/Inf) cannot be serialized''"

fun reject_non_finite :: "mp \<Rightarrow> deja_error + unit"
  and reject_list :: "mp list \<Rightarrow> deja_error + unit"
  and reject_pairs :: "(mp \<times> mp) list \<Rightarrow> deja_error + unit" where
  "reject_non_finite (MF32 f) = (if f64_is_finite f then Inr () else Inl non_finite)"
| "reject_non_finite (MF64 f) = (if f64_is_finite f then Inr () else Inl non_finite)"
| "reject_non_finite (MArr xs) = reject_list xs"
| "reject_non_finite (MMap ps) = reject_pairs ps"
| "reject_non_finite _ = Inr ()"
| "reject_list [] = Inr ()"
| "reject_list (x # xs) = and_then (reject_non_finite x) (\<lambda>_. reject_list xs)"
| "reject_pairs [] = Inr ()"
| "reject_pairs ((k, v) # ps) = and_then (reject_non_finite v) (\<lambda>_. reject_pairs ps)"

definition detect_sensitivity :: "string list \<Rightarrow> byte" where
  "detect_sensitivity tags =
     (if list_ex (\<lambda>t. starts_with t ''phi:'') tags then 0x03
      else if list_ex (\<lambda>t. starts_with t ''pii:'' \<or> starts_with t ''sec:''
             \<or> starts_with t ''legal:'') tags then 0x02
      else if list_ex (\<lambda>t. starts_with t ''reg:'') tags then 0x01
      else 0x00)"

definition nfc_string :: "core_env \<Rightarrow> string \<Rightarrow> mp" where
  "nfc_string E s = MStr (Some (nfc E s))"

definition btree_to_msgpack_map :: "(string \<times> mp) list \<Rightarrow> mp" where
  "btree_to_msgpack_map m = MMap (map (\<lambda>(k, v). (MStr (Some k), v)) m)"

fun json_to_msgpack :: "core_env \<Rightarrow> json \<Rightarrow> mp"
  and json_entries :: "core_env \<Rightarrow> (string \<Rightarrow> string) \<Rightarrow> (string \<times> json) list \<Rightarrow>
         (string \<times> mp) list \<Rightarrow> (string \<times> mp) list" where
  "json_to_msgpack E JNull = MNil"
| "json_to_msgpack E (JBool b) = MBool b"
| "json_to_msgpack E (JInt i) = MInt i"
| "json_to_msgpack E (JFloat f) = MF64 f"
| "json_to_msgpack E (JStr s) = nfc_string E s"
| "json_to_msgpack E (JArr xs) = MArr (map (json_to_msgpack E) xs)"
| "json_to_msgpack E (JObj m) = btree_to_msgpack_map (json_entries E (\<lambda>k. k) m [])"
| "json_entries E f [] acc = acc"
| "json_entries E f ((k, v) # m) acc =
     json_entries E f m (bt_insert (f (nfc E k)) (json_to_msgpack E v) acc)"

definition json_to_msgpack_with_key_compaction :: "core_env \<Rightarrow> json \<Rightarrow> mp" where
  "json_to_msgpack_with_key_compaction E j =
     (case j of
        JObj m \<Rightarrow> btree_to_msgpack_map (json_entries E compact_field m [])
      | _ \<Rightarrow> json_to_msgpack E j)"

section \<open>Reading\<close>

datatype key_mode =
    OmsTop | ContextTop | Verbatim | WorkflowEdgeArray | WorkflowEdgeMap
  | RelatedToArray | RelatedToMap

definition array_child :: "key_mode \<Rightarrow> key_mode" where
  "array_child mode =
     (case mode of
        WorkflowEdgeArray \<Rightarrow> WorkflowEdgeMap
      | RelatedToArray \<Rightarrow> RelatedToMap
      | _ \<Rightarrow> Verbatim)"

definition map_key :: "key_mode \<Rightarrow> string \<Rightarrow> string \<times> key_mode" where
  "map_key mode raw =
     (case mode of
        OmsTop \<Rightarrow>
          (let expanded = expand_field raw in
           (expanded,
            if expanded = ''context'' \<or> expanded = ''common_context'' then ContextTop
            else if expanded = ''edges'' then WorkflowEdgeArray
            else if expanded = ''related_to'' then RelatedToArray
            else Verbatim))
      | ContextTop \<Rightarrow> (expand_context_field raw, Verbatim)
      | WorkflowEdgeMap \<Rightarrow> (expand_workflow_edge_field raw, Verbatim)
      | RelatedToMap \<Rightarrow> (expand_related_to_field raw, Verbatim)
      | _ \<Rightarrow> (raw, Verbatim))"

fun msgpack_to_json :: "core_env \<Rightarrow> key_mode \<Rightarrow> mp \<Rightarrow> deja_error + json"
  and msgpack_items :: "core_env \<Rightarrow> key_mode \<Rightarrow> mp list \<Rightarrow> deja_error + json list"
  and msgpack_entries :: "core_env \<Rightarrow> key_mode \<Rightarrow> (mp \<times> mp) list \<Rightarrow>
         (string \<times> json) list \<Rightarrow> deja_error + json" where
  "msgpack_to_json E mode MNil = Inr JNull"
| "msgpack_to_json E mode (MBool b) = Inr (JBool b)"
| "msgpack_to_json E mode (MInt i) =
     (if i64_min \<le> i \<and> i \<le> u64_max then Inr (JInt i)
      else Inl (Format ''integer out of range''))"
| "msgpack_to_json E mode (MF32 f) =
     (if f64_is_finite f then Inr (JFloat f) else Inl (Format ''invalid float''))"
| "msgpack_to_json E mode (MF64 f) =
     (if f64_is_finite f then Inr (JFloat f) else Inl (Format ''invalid float (NaN/Inf)''))"
| "msgpack_to_json E mode (MStr s) = Inr (JStr (case s of Some t \<Rightarrow> t | None \<Rightarrow> []))"
| "msgpack_to_json E mode (MBin b) = Inr (JStr (hex_encode E b))"
| "msgpack_to_json E mode (MArr xs) =
     and_then (msgpack_items E (array_child mode) xs) (\<lambda>ys. Inr (JArr ys))"
| "msgpack_to_json E mode (MMap ps) = msgpack_entries E mode ps []"
| "msgpack_to_json E mode MExt = Inl (Format ''ext type not supported'')"
| "msgpack_items E mode [] = Inr []"
| "msgpack_items E mode (x # xs) =
     and_then (msgpack_to_json E mode x)
       (\<lambda>y. and_then (msgpack_items E mode xs) (\<lambda>ys. Inr (y # ys)))"
| "msgpack_entries E mode [] acc = Inr (JObj acc)"
| "msgpack_entries E mode ((k, v) # ps) acc =
     (case k of
        MStr s \<Rightarrow>
          (let raw = (case s of Some t \<Rightarrow> t | None \<Rightarrow> []);
               kc = map_key mode raw
           in and_then (msgpack_to_json E (snd kc) v)
                (\<lambda>j. msgpack_entries E mode ps (bt_insert (fst kc) j acc)))
      | _ \<Rightarrow> Inl (Format ''map key must be string''))"

section \<open>The blob\<close>

text \<open>
  \<^verbatim>\<open>serialize_grain\<close> after the field map of the grain is built: \<open>fm\<close> is that map (the
  type field, the type's own fields and the common ones).
\<close>

record blob_meta =
  bm_type :: grain_type
  bm_namespace :: "string option"
  bm_created_at :: int
  bm_has_content_refs :: bool
  bm_has_embedding_refs :: bool
  bm_source_type :: "string option"
  bm_tags :: "string list"

definition ai_source :: "string option \<Rightarrow> bool" where
  "ai_source st =
     (case st of
        None \<Rightarrow> False
      | Some t \<Rightarrow> t = ''llm_generated'' \<or> t = ''consolidated'' \<or> t = ''inferred'' \<or> t = ''a2a_recalled'')"

definition blob_header :: "core_env \<Rightarrow> blob_meta \<Rightarrow> mg_header" where
  "blob_header E g =
     (let h = header_new (sha256 E) (bm_type g) (bm_namespace g) (bm_created_at g);
          h = (if bm_has_content_refs g then set_has_content_refs True h else h);
          h = (if bm_has_embedding_refs g then set_has_embedding_refs True h else h);
          h = (if ai_source (bm_source_type g) then set_ai_generated True h else h)
      in set_sensitivity (detect_sensitivity (bm_tags g)) h)"

definition too_large :: "nat \<Rightarrow> deja_error" where
  "too_large n = Format (''grain too large ('' @ nat_str n @ '' bytes, maximum ''
     @ nat_str MAX_GRAIN_BYTES @ '')'')"

definition serialize_fields ::
  "core_env \<Rightarrow> blob_meta \<Rightarrow> (string \<times> mp) list \<Rightarrow> deja_error + bytes \<times> hash" where
  "serialize_fields E g fm =
     (let v = btree_to_msgpack_map fm in
      and_then (reject_non_finite v) (\<lambda>_.
      and_then (encode_value_to_vec E v) (\<lambda>payload.
        let blob = header_to_bytes (blob_header E g) @ payload in
        if MAX_GRAIN_BYTES < length blob then Inl (too_large (length blob))
        else and_then (guard_msgpack_shape payload) (\<lambda>_.
          Inr (blob, content_address (sha256 E) blob)))))"

record deserialized_grain =
  dg_header :: mg_header
  dg_type :: grain_type
  dg_fields :: "(string \<times> json) list"
  dg_hash :: hash

definition unwrap_if_cose :: "core_env \<Rightarrow> bytes \<Rightarrow> deja_error + bytes option" where
  "unwrap_if_cose E raw =
     (if raw = [] \<or> hd raw \<noteq> 0x84 then Inr None
      else (case cose_payload E of
          None \<Rightarrow> Inl (Format
            ''blob is a COSE Sign1 envelope but the 'signing' feature is not enabled'')
        | Some from_slice \<Rightarrow>
            (case from_slice raw of
               Inl e \<Rightarrow> Inl (Format (''COSE Sign1 decode: '' @ e))
             | Inr None \<Rightarrow> Inl (Format ''COSE Sign1 envelope has no payload'')
             | Inr (Some inner) \<Rightarrow> Inr (Some inner))))"

definition trailing_bytes :: "nat \<Rightarrow> deja_error" where
  "trailing_bytes n = Format (''non-canonical blob: '' @ nat_str n
     @ '' trailing byte(s) after the grain payload'')"

definition decode_payload :: "core_env \<Rightarrow> bytes \<Rightarrow> deja_error + (string \<times> json) list" where
  "decode_payload E payload =
     and_then (guard_msgpack_shape payload) (\<lambda>_.
     case read_value E payload of
       Inl e \<Rightarrow> Inl (Serialization (''msgpack decode error: '' @ e))
     | Inr (v, rest) \<Rightarrow>
         if rest \<noteq> [] then Inl (trailing_bytes (length rest))
         else and_then (msgpack_to_json E OmsTop v) (\<lambda>j.
           case j of JObj m \<Rightarrow> Inr m | _ \<Rightarrow> Inl (Format ''payload must be a map'')))"

definition deserialize_blob :: "core_env \<Rightarrow> bytes \<Rightarrow> deja_error + deserialized_grain" where
  "deserialize_blob E blob =
     and_then (unwrap_if_cose E blob) (\<lambda>u.
     let inner = (case u of Some b \<Rightarrow> b | None \<Rightarrow> blob) in
     if length inner < 10 then Inl (Format ''blob too short (minimum 10 bytes)'')
     else if MAX_GRAIN_BYTES < length inner
     then Inl (Format (''blob too large ('' @ nat_str (length inner) @ '' bytes, maximum ''
       @ nat_str MAX_GRAIN_BYTES @ '')''))
     else and_then (header_from_bytes (take 9 inner)) (\<lambda>h.
       case from_byte (hdr_grain_type h) of
         None \<Rightarrow> Inl (Format (''unknown grain type byte: 0x'' @ hex_str (unat (hdr_grain_type h))))
       | Some gt \<Rightarrow>
           and_then (decode_payload E (drop 9 inner)) (\<lambda>fs.
             Inr \<lparr> dg_header = h, dg_type = gt, dg_fields = fs,
                   dg_hash = content_address (sha256 E) inner \<rparr>)))"

section \<open>Accessors of a read grain\<close>

definition dg_get :: "deserialized_grain \<Rightarrow> string \<Rightarrow> json option" where
  "dg_get g f = map_of (dg_fields g) f"

definition get_str :: "deserialized_grain \<Rightarrow> string \<Rightarrow> string option" where
  "get_str g f = Option.bind (dg_get g f) as_str"

definition get_i64 :: "deserialized_grain \<Rightarrow> string \<Rightarrow> int option" where
  "get_i64 g f = Option.bind (dg_get g f) as_i64"

definition get_bool :: "deserialized_grain \<Rightarrow> string \<Rightarrow> bool option" where
  "get_bool g f = Option.bind (dg_get g f) as_bool"

definition get_u64 :: "deserialized_grain \<Rightarrow> string \<Rightarrow> int option" where
  "get_u64 g f = Option.bind (dg_get g f) as_u64"

definition str_or_empty :: "string option \<Rightarrow> string" where
  "str_or_empty s = (case s of Some t \<Rightarrow> t | None \<Rightarrow> [])"

definition base_text_fields :: "string list" where
  "base_text_fields =
     [''content'', ''description'', ''title'', ''goal'', ''query'', ''result'', ''output'']"

fun first_text :: "deserialized_grain \<Rightarrow> string list \<Rightarrow> string option" where
  "first_text g [] = None"
| "first_text g (f # fs) =
     (case get_str g f of
        Some v \<Rightarrow> if trim v \<noteq> [] then Some v else first_text g fs
      | None \<Rightarrow> first_text g fs)"

definition base_text :: "deserialized_grain \<Rightarrow> string" where
  "base_text g =
     (case dg_type g of
        GFact \<Rightarrow>
          trim (str_or_empty (get_str g ''subject'') @ '' '' @ str_or_empty (get_str g ''relation'')
            @ '' '' @ str_or_empty (get_str g ''object''))
      | _ \<Rightarrow>
          (case first_text g base_text_fields of
             Some v \<Rightarrow> v
           | None \<Rightarrow> grain_as_str (dg_type g)))"

section \<open>Properties\<close>

lemma json_entries_fill:
  "json_entries E f m acc = bt_fill (map (\<lambda>(k, v). (f (nfc E k), json_to_msgpack E v)) m) acc"
  by (induction m arbitrary: acc) auto

lemma msgpack_items_map:
  "(\<And>x. x \<in> set xs \<Longrightarrow> msgpack_to_json E mode x = Inr (g x)) \<Longrightarrow>
     msgpack_items E mode xs = Inr (map g xs)"
  by (induction xs) auto

lemma msgpack_entries_fill:
  assumes "\<And>r v. (r, v) \<in> set S \<Longrightarrow> msgpack_to_json E (snd (map_key mode r)) v = Inr (g v)"
  shows "msgpack_entries E mode (map (\<lambda>(r, v). (MStr (Some r), v)) S) acc =
    Inr (JObj (bt_fill (map (\<lambda>(r, v). (fst (map_key mode r), g v)) S) acc))"
  using assms
proof (induction S arbitrary: acc)
  case (Cons e S)
  obtain r v where "e = (r, v)" by (cases e)
  with Cons show ?case by (simp add: Let_def)
qed simp

text \<open>
  The two halves for a map: if every value survives and the reader's key undoes the
  writer's key, the map survives.
\<close>

lemma map_roundtrip:
  assumes wf: "bt_wf m"
    and keys: "\<And>k v. (k, v) \<in> set m \<Longrightarrow> map_key mode (f (nfc E k)) = (k, child)"
    and vals: "\<And>k v. (k, v) \<in> set m \<Longrightarrow> msgpack_to_json E child (json_to_msgpack E v) = Inr v"
  shows "msgpack_to_json E mode (btree_to_msgpack_map (json_entries E f m [])) = Inr (JObj m)"
proof -
  let ?S = "bt_fill (map (\<lambda>(k, v). (f (nfc E k), json_to_msgpack E v)) m) []"
  let ?g = "\<lambda>v. projr (msgpack_to_json E child v)"
  have inj: "distinct (map fst (map (\<lambda>(k, v). (f (nfc E k), json_to_msgpack E v)) m))"
  proof -
    have "inj_on (\<lambda>k. f (nfc E k)) (fst ` set m)"
      using keys by (intro inj_on_inverseI [of _ "\<lambda>r. fst (map_key mode r)"]) auto
    moreover have "distinct (map fst m)" using wf bt.entries_distinct by blast
    ultimately show ?thesis by (simp add: distinct_map case_prod_unfold inj_on_def)
  qed
  then have S: "set ?S = (\<lambda>(k, v). (f (nfc E k), json_to_msgpack E v)) ` set m"
    by (simp add: set_bt_fill)
  have "msgpack_entries E mode (map (\<lambda>(r, v). (MStr (Some r), v)) ?S) [] =
      Inr (JObj (bt_fill (map (\<lambda>(r, v). (fst (map_key mode r), ?g v)) ?S) []))"
    by (rule msgpack_entries_fill) (use keys vals in \<open>auto simp: S\<close>)
  also have "bt_fill (map (\<lambda>(r, v). (fst (map_key mode r), ?g v)) ?S) [] = m"
    by (rule bt_fill_roundtrip [OF wf]) (use keys vals in auto)
  finally show ?thesis
    by (simp add: btree_to_msgpack_map_def json_entries_fill)
qed

lemma verbatim_roundtrip:
  "wf_json j \<Longrightarrow> all_strings (\<lambda>s. nfc E s = s) j \<Longrightarrow>
     msgpack_to_json E Verbatim (json_to_msgpack E j) = Inr j"
proof (induction j)
  case (JArr xs)
  then have "msgpack_items E Verbatim (map (json_to_msgpack E) xs) =
      Inr (map (\<lambda>v. projr (msgpack_to_json E Verbatim v)) (map (json_to_msgpack E) xs))"
    by (intro msgpack_items_map) auto
  also have "map (\<lambda>v. projr (msgpack_to_json E Verbatim v)) (map (json_to_msgpack E) xs) = xs"
    using JArr by (auto intro: map_idI)
  finally show ?case by (simp add: array_child_def)
next
  case (JObj m)
  have "msgpack_to_json E Verbatim (btree_to_msgpack_map (json_entries E (\<lambda>k. k) m [])) =
      Inr (JObj m)"
    by (rule map_roundtrip [where child = Verbatim])
      (use JObj in \<open>force simp: map_key_def\<close>)+
  then show ?case by simp
qed (auto simp: nfc_string_def)

text \<open>
  Nested user data survives the wire: a JSON value whose strings are in NFC is read back
  exactly as it was written, keys included, however its keys are spelt.
\<close>

theorem json_wire_roundtrip:
  assumes "wf_json j" and "all_strings (\<lambda>s. nfc E s = s) j"
  shows "msgpack_to_json E Verbatim (json_to_msgpack E j) = Inr j"
  using assms by (rule verbatim_roundtrip)

text \<open>The keys of a context map that survive: what the restricted expansion undoes.\<close>

lemma context_key_survives:
  "expand_context_field (compact_field k) = k \<Longrightarrow> nfc E k = k \<Longrightarrow>
     map_key ContextTop (compact_field (nfc E k)) = (k, Verbatim)"
  by (simp add: map_key_def)

text \<open>
  A context map survives the wire when each of its keys is one that the reader's expansion
  of \<^verbatim>\<open>int:\<close> keys restores after the writer's compaction.
\<close>

theorem context_wire_roundtrip:
  assumes "wf_json (JObj m)" and "all_strings (\<lambda>s. nfc E s = s) (JObj m)"
    and "\<forall>k \<in> fst ` set m. expand_context_field (compact_field k) = k"
  shows "msgpack_to_json E ContextTop (json_to_msgpack_with_key_compaction E (JObj m)) =
    Inr (JObj m)"
  unfolding json_to_msgpack_with_key_compaction_def json.case
  by (rule map_roundtrip [where child = Verbatim])
    (use assms verbatim_roundtrip context_key_survives in \<open>force+\<close>)

definition id_env :: "core_env \<Rightarrow> core_env" where
  "id_env E = E\<lparr>nfc := (\<lambda>s. s)\<rparr>"

lemma subject_entry: "(''subject'', ''s'') \<in> set FIELD_MAP"
  by (simp add: FIELD_MAP_def FIELD_MAP_blocks_def FIELD_MAP_common_def)

lemma compact_subject: "compact_field ''subject'' = ''s''" "compact_field ''s'' = ''s''"
proof -
  have "''s'' \<notin> fst ` set FIELD_MAP"
    using fields.apart [OF subject_entry] by auto
  then show "compact_field ''s'' = ''s''" "compact_field ''subject'' = ''s''"
    using fields.compact_Some [OF subject_entry]
    by (simp_all add: compact_field_def fields.compact_other)
qed

lemma expand_context_s: "expand_context_field ''s'' = ''s''"
proof -
  have "map_of (reverse_table FIELD_MAP) ''s'' = Some ''subject''"
    using subject_entry by (simp add: reverse_lookup)
  then show ?thesis by (simp add: expand_context_field_def)
qed

text \<open>
  The writer compacts every OMS name among the keys of a context map while the reader
  restores only the \<^verbatim>\<open>int:\<close> ones, so a context key spelt like an OMS field is read back
  under its short code, and two keys can collapse into one.
\<close>

theorem context_key_renamed:
  "msgpack_to_json (id_env E) ContextTop
     (json_to_msgpack_with_key_compaction (id_env E)
        (JObj [(''s'', JStr a), (''subject'', JStr b)])) =
   Inr (JObj [(''s'', JStr b)])"
  by (simp add: json_to_msgpack_with_key_compaction_def id_env_def compact_subject
      btree_to_msgpack_map_def nfc_string_def map_key_def expand_context_s Let_def)

text \<open>What the writer can put in a value: integers in range, string keys, no extension.\<close>

fun mp_ok :: "mp \<Rightarrow> bool" where
  "mp_ok (MInt i) = (i64_min \<le> i \<and> i \<le> u64_max)"
| "mp_ok (MArr xs) = (\<forall>x \<in> set xs. mp_ok x)"
| "mp_ok (MMap ps) = (\<forall>p \<in> set ps. (\<exists>s. fst p = MStr s) \<and> mp_ok (snd p))"
| "mp_ok MExt = False"
| "mp_ok _ = True"

lemma set_bt_insert: "set (bt_insert k v acc) \<subseteq> insert (k, v) (set acc)"
  by (induction k v acc rule: bt_insert.induct) auto

lemma json_to_msgpack_ok:
  "wf_json j \<Longrightarrow> mp_ok (json_to_msgpack E j)"
  "(\<forall>e \<in> set m. wf_json (snd e)) \<Longrightarrow> (\<forall>e \<in> set acc. mp_ok (snd e)) \<Longrightarrow>
     \<forall>e \<in> set (json_entries E f m acc). mp_ok (snd e)"
proof (induction E j and E f m acc rule: json_to_msgpack_json_entries.induct)
  case (7 E m)
  then show ?case by (auto simp: btree_to_msgpack_map_def)
next
  case (9 E f k v m acc)
  then have "\<forall>e \<in> set (bt_insert (f (nfc E k)) (json_to_msgpack E v) acc). mp_ok (snd e)"
    using set_bt_insert [of "f (nfc E k)" "json_to_msgpack E v" acc] by auto
  with 9 show ?case by auto
qed (auto simp: nfc_string_def)

lemma readable:
  "mp_ok v \<Longrightarrow> reject_non_finite v = Inr () \<Longrightarrow> \<exists>j. msgpack_to_json E mode v = Inr j"
  "\<forall>x \<in> set xs. mp_ok x \<Longrightarrow> reject_list xs = Inr () \<Longrightarrow> \<exists>ys. msgpack_items E mode xs = Inr ys"
  "\<forall>p \<in> set ps. (\<exists>s. fst p = MStr s) \<and> mp_ok (snd p) \<Longrightarrow> reject_pairs ps = Inr () \<Longrightarrow>
     \<exists>m. msgpack_entries E mode ps acc = Inr (JObj m)"
proof (induction E mode v and E mode xs and E mode ps acc
    rule: msgpack_to_json_msgpack_items_msgpack_entries.induct)
  case (14 E mode k v ps acc)
  then obtain s where k: "k = MStr s" "mp_ok v" "reject_non_finite v = Inr ()"
      "reject_pairs ps = Inr ()" "\<forall>p \<in> set ps. (\<exists>s. fst p = MStr s) \<and> mp_ok (snd p)"
    by (auto simp: result_simps)
  obtain j where j: "msgpack_to_json E (snd (map_key mode (case s of None \<Rightarrow> [] | Some t \<Rightarrow> t))) v = Inr j"
    using "14.IH"(1) [OF k(1) refl refl] k by auto
  moreover obtain m where "msgpack_entries E mode ps
      (bt_insert (fst (map_key mode (case s of None \<Rightarrow> [] | Some t \<Rightarrow> t))) j acc) = Inr (JObj m)"
    using "14.IH"(2) [OF k(1) refl refl] j k by auto
  ultimately show ?case using k(1) by (simp add: Let_def)
qed (auto simp: result_simps split: if_splits)

lemma version_blob_header: "version (blob_header E g) = 1"
  by (simp add: blob_header_def Let_def set_sensitivity_def set_ai_generated_def
      set_has_embedding_refs_def set_has_content_refs_def header_new_def set_flag_def)

lemma type_blob_header: "hdr_grain_type (blob_header E g) = type_byte (bm_type g)"
  by (simp add: blob_header_def Let_def set_sensitivity_def set_ai_generated_def
      set_has_embedding_refs_def set_has_content_refs_def header_new_def set_flag_def)

lemma guard_nonempty: "guard_msgpack_shape p = Inr () \<Longrightarrow> 0 < length p"
  using guard_accepts frame_pos by fastforce

text \<open>
  C38. A grain that can be written can be read: whenever the writer accepts a field map whose
  values it can make, the reader accepts the blob and gives back its header, type and content
  address. The hypothesis on the msgpack crate is that it decodes what it encoded.
\<close>

theorem serialize_then_deserialize:
  assumes "serialize_fields E g fm = Inr (blob, h)"
    and "\<forall>e \<in> set fm. mp_ok (snd e)"
    and "\<forall>v bs. write_value E v = Inr bs \<longrightarrow> read_value E bs = Inr (v, [])"
  shows "\<exists>d. deserialize_blob E blob = Inr d \<and> dg_hash d = h \<and> dg_type d = bm_type g
    \<and> dg_header d = blob_header E g
    \<and> msgpack_to_json E OmsTop (btree_to_msgpack_map fm) = Inr (JObj (dg_fields d))"
proof -
  let ?v = "btree_to_msgpack_map fm"
  from assms(1) obtain p where p: "reject_non_finite ?v = Inr ()" "write_value E ?v = Inr p"
      "guard_msgpack_shape p = Inr ()" "blob = header_to_bytes (blob_header E g) @ p"
      "length blob \<le> MAX_GRAIN_BYTES" "h = content_address (sha256 E) blob"
    by (auto simp: serialize_fields_def encode_value_to_vec_def Let_def result_simps
        split: sum.splits if_splits)
  have "\<exists>m. msgpack_to_json E OmsTop ?v = Inr (JObj m)"
    using readable(3) [of "map (\<lambda>(k, v). (MStr (Some k), v)) fm" E OmsTop "[]"] assms(2) p(1)
    by (force simp: btree_to_msgpack_map_def)
  then obtain m where m: "msgpack_to_json E OmsTop ?v = Inr (JObj m)" by blast
  have "unwrap_if_cose E blob = Inr None"
    by (simp add: p(4) unwrap_if_cose_def header_to_bytes_def version_blob_header)
  moreover have "decode_payload E p = Inr m"
    using assms(3) p(2,3) m by (simp add: decode_payload_def)
  moreover have "header_from_bytes (take 9 blob) = Inr (blob_header E g)"
    using header_read_written [OF version_blob_header, where payload = "[]"] by (simp add: p(4))
  moreover have "10 \<le> length blob" using guard_nonempty [OF p(3)] by (simp add: p(4) Suc_le_eq)
  ultimately have "deserialize_blob E blob = Inr \<lparr> dg_header = blob_header E g,
      dg_type = bm_type g, dg_fields = m, dg_hash = h \<rparr>"
    using p guard_nonempty [OF p(3)]
    by (simp add: deserialize_blob_def Let_def type_blob_header from_byte_type_byte)
  then show ?thesis using m by auto
qed

text \<open>
  An environment whose msgpack crate knows the empty map and nothing else, for concrete
  instances of the properties above.
\<close>

definition tiny_env :: core_env where
  "tiny_env = \<lparr> sha256 = (\<lambda>_. replicate 32 0), hex_encode = (\<lambda>_. []),
     hex_decode = (\<lambda>_. Inl []),
     write_value = (\<lambda>v. if v = MMap [] then Inr [0x80] else Inl ''unsupported''),
     read_value = (\<lambda>bs. if bs = [0x80] then Inr (MMap [], []) else Inl ''unsupported''),
     nfc = (\<lambda>s. s), cose_payload = None \<rparr>"

definition tiny_meta :: blob_meta where
  "tiny_meta = \<lparr> bm_type = GFact, bm_namespace = None, bm_created_at = 1768471200000,
     bm_has_content_refs = False, bm_has_embedding_refs = False,
     bm_source_type = None, bm_tags = [''phi:dx''] \<rparr>"

lemma tiny_codec: "write_value tiny_env v = Inr bs \<Longrightarrow> read_value tiny_env bs = Inr (v, [])"
  by (auto simp: tiny_env_def split: if_splits)

lemma guard_empty_map: "guard_msgpack_shape [0x80] = Inr ()"
proof -
  have "frames 254 0 []" by (rule frame_frames.none)
  then have "frame (Suc 254) [0x80]"
    by (intro frame_frames.node [where k = 1 and c = 0])
      (auto simp: marker_shape_def be_value_def)
  then show ?thesis
    unfolding guard_accepts by (intro exI [of _ "[0x80]"] exI [of _ "[]"]) simp
qed

lemma tiny_serialized:
  "\<exists>blob h. serialize_fields tiny_env tiny_meta [] = Inr (blob, h)"
  using guard_empty_map
  by (simp add: serialize_fields_def encode_value_to_vec_def btree_to_msgpack_map_def
      tiny_env_def MAX_GRAIN_BYTES_def Let_def)

theorem serialize_then_deserialize_witness:
  "\<exists>blob h d. serialize_fields tiny_env tiny_meta [] = Inr (blob, h)
     \<and> deserialize_blob tiny_env blob = Inr d \<and> dg_type d = GFact \<and> dg_fields d = []"
proof -
  obtain blob h where b: "serialize_fields tiny_env tiny_meta [] = Inr (blob, h)"
    using tiny_serialized by blast
  then show ?thesis
    using serialize_then_deserialize [OF b] tiny_codec
    by (fastforce simp: tiny_meta_def btree_to_msgpack_map_def)
qed

theorem json_wire_roundtrip_witness:
  "msgpack_to_json tiny_env Verbatim
     (json_to_msgpack tiny_env (JObj [(''o'', JArr [JInt 7, JNull]), (''s'', JStr ''x'')])) =
   Inr (JObj [(''o'', JArr [JInt 7, JNull]), (''s'', JStr ''x'')])"
  by (rule json_wire_roundtrip)
    (simp_all add: bt_wf_def tiny_env_def i64_min_def u64_max_def less_list_code less_char_def)

lemma base_url_survives:
  "expand_context_field (compact_field ''int:base_url'') = ''int:base_url''"
  by (rule int_name_survives) (simp add: FIELD_MAP_integration_def)

theorem context_wire_roundtrip_witness:
  "msgpack_to_json tiny_env ContextTop
     (json_to_msgpack_with_key_compaction tiny_env (JObj [(''int:base_url'', JStr ''u'')])) =
   Inr (JObj [(''int:base_url'', JStr ''u'')])"
  by (rule context_wire_roundtrip)
    (simp_all add: bt_wf_def tiny_env_def base_url_survives)

end
