(* ===== verification/Store_Db.thy ===== *)
theory Store_Db
  imports Core_Error "HOL-Library.Product_Lexorder"
begin

text \<open>
  The tables of \<^verbatim>\<open>crates/dejadb-store/src/lib.rs\<close> (\<^verbatim>\<open>SCHEMA\<close>) as lists of rows, with the SQL
  statements the write path runs over them. The backend is the embedded one of
  \<^verbatim>\<open>db.rs\<close>: a single writer, whose \<^verbatim>\<open>reserve_write\<close>, \<^verbatim>\<open>intern_term\<close> and \<^verbatim>\<open>lookup_term\<close> are the
  trait's defaults. An \<^verbatim>\<open>INSERT\<close> that violates a key is the storage error the engine reports;
  a transaction keeps the tables of a failed body as they were.
\<close>

section \<open>Rows\<close>

record grain_row =
  gr_seq :: int
  gr_hash :: hash
  gr_ns :: int
  gr_gtype :: int
  gr_created :: int
  gr_s :: "int option"
  gr_p :: "int option"
  gr_o :: "int option"
  gr_vf :: "int option"
  gr_vt :: "int option"
  gr_svf :: int
  gr_svt :: "int option"
  gr_superseded_by :: "hash option"
  gr_supersedes :: "hash option"
  gr_text :: "string option"
  gr_blob :: bytes

text \<open>\<^verbatim>\<open>triples\<close> and \<^verbatim>\<open>osp\<close> hold the same columns in another order.\<close>

record triple_row =
  tr_ns :: int
  tr_s :: int
  tr_p :: int
  tr_o :: int
  tr_seq :: int
  tr_cur :: bool

record latest_row =
  el_ns :: int
  el_s :: int
  el_p :: int
  el_o :: int
  el_seq :: int
  el_hash :: hash

record head_row =
  hd_ns :: int
  hd_s :: int
  hd_p :: int
  hd_seq :: int
  hd_hash :: hash
  hd_created :: int

record op_row =
  op_seq :: int
  op_hlc :: int
  op_kind :: int
  op_hash :: hash

text \<open>An embedding vector is kept as its JSON text, the argument of \<^verbatim>\<open>vector32\<close>.\<close>

record db =
  meta_kv :: "(string \<times> string) list"
  terms :: "(int \<times> string) list"
  grains :: "grain_row list"
  embeddings :: "(int \<times> string) list"
  vocab :: "(int \<times> string) list"
  fts_post :: "(int \<times> int \<times> int \<times> int) list"
  fts_doc :: "(int \<times> int) list"
  triples :: "triple_row list"
  osp :: "triple_row list"
  entity_latest :: "latest_row list"
  heads :: "head_row list"
  oplog :: "op_row list"
  thread_idx :: "(int \<times> int \<times> int) list"
  prov_idx :: "(int \<times> bytes \<times> int) list"
  run_idx :: "(int \<times> int \<times> int) list"
  corpus_idx :: "int list"

definition empty_db :: db where
  "empty_db = \<lparr> meta_kv = [], terms = [], grains = [], embeddings = [], vocab = [], fts_post = [], fts_doc = [],
     triples = [], osp = [], entity_latest = [], heads = [], oplog = [], thread_idx = [],
     prov_idx = [], run_idx = [], corpus_idx = [] \<rparr>"

section \<open>Statements\<close>

definition unique_violation :: "string \<Rightarrow> deja_error" where
  "unique_violation col = Storage (''UNIQUE constraint failed: '' @ col)"

definition insert_row :: "string \<Rightarrow> ('r \<Rightarrow> 'k) \<Rightarrow> 'r \<Rightarrow> 'r list \<Rightarrow> deja_error + 'r list" where
  "insert_row col key r rows =
     (if key r \<in> key ` set rows then Inl (unique_violation col) else Inr (rows @ [r]))"

definition upsert :: "('r \<Rightarrow> 'k) \<Rightarrow> 'r \<Rightarrow> 'r list \<Rightarrow> 'r list" where
  "upsert key r rows = filter (\<lambda>x. key x \<noteq> key r) rows @ [r]"

definition delete_where :: "('r \<Rightarrow> bool) \<Rightarrow> 'r list \<Rightarrow> 'r list" where
  "delete_where P rows = filter (\<lambda>r. \<not> P r) rows"

definition update_where :: "('r \<Rightarrow> bool) \<Rightarrow> ('r \<Rightarrow> 'r) \<Rightarrow> 'r list \<Rightarrow> 'r list" where
  "update_where P f rows = map (\<lambda>r. if P r then f r else r) rows"

definition head_key :: "head_row \<Rightarrow> int \<times> int \<times> int" where
  "head_key h = (hd_ns h, hd_s h, hd_p h)"

definition latest_key :: "latest_row \<Rightarrow> int \<times> int \<times> int" where
  "latest_key e = (el_ns e, el_s e, el_p e)"

text \<open>\<^verbatim>\<open>INSERT INTO grains\<close>: the primary key and the unique index on the hash.\<close>

definition insert_grain :: "grain_row \<Rightarrow> db \<Rightarrow> deja_error + db" where
  "insert_grain r d =
     (if gr_seq r \<in> gr_seq ` set (grains d) then Inl (unique_violation ''grains.seq'')
      else if gr_hash r \<in> gr_hash ` set (grains d) then Inl (unique_violation ''grains.hash'')
      else Inr (d\<lparr>grains := grains d @ [r]\<rparr>))"

definition insert_op :: "int \<Rightarrow> int \<Rightarrow> int \<Rightarrow> hash \<Rightarrow> db \<Rightarrow> deja_error + db" where
  "insert_op sq hlc kind h d =
     and_then (insert_row ''oplog.op_seq'' op_seq
        \<lparr> op_seq = sq, op_hlc = hlc, op_kind = kind, op_hash = h \<rparr> (oplog d))
       (\<lambda>rows. Inr (d\<lparr>oplog := rows\<rparr>))"

definition put_latest :: "latest_row \<Rightarrow> db \<Rightarrow> db" where
  "put_latest e d = d\<lparr>entity_latest := upsert latest_key e (entity_latest d)\<rparr>"

text \<open>\<^verbatim>\<open>INSERT OR REPLACE INTO heads\<close>: the primary key is the cell and the seq.\<close>

definition put_head :: "head_row \<Rightarrow> db \<Rightarrow> db" where
  "put_head h d = d\<lparr>heads := upsert (\<lambda>x. (head_key x, hd_seq x)) h (heads d)\<rparr>"

definition find_grain :: "hash \<Rightarrow> db \<Rightarrow> grain_row option" where
  "find_grain h d = find (\<lambda>r. gr_hash r = h) (grains d)"

text \<open>The tips of a cell, best first (\<^verbatim>\<open>ORDER BY created_at DESC, hash DESC\<close>).\<close>

definition head_rank :: "head_row \<Rightarrow> int \<times> hash" where
  "head_rank h = (hd_created h, hd_hash h)"

definition cell_heads :: "int \<times> int \<times> int \<Rightarrow> db \<Rightarrow> head_row list" where
  "cell_heads k d = rev (sort_key head_rank (filter (\<lambda>h. head_key h = k) (heads d)))"

text \<open>
  The join of a head with its triple, keyed on the cell and the seq, and the row it elects.
\<close>

definition head_object :: "head_row \<Rightarrow> db \<Rightarrow> int option" where
  "head_object h d =
     map_option tr_o (find (\<lambda>t. tr_seq t = hd_seq h \<and> tr_ns t = hd_ns h \<and> tr_s t = hd_s h
        \<and> tr_p t = hd_p h) (triples d))"

fun first_joined :: "db \<Rightarrow> head_row list \<Rightarrow> latest_row option" where
  "first_joined d [] = None"
| "first_joined d (h # hs) =
     (case head_object h d of
        None \<Rightarrow> first_joined d hs
      | Some ob \<Rightarrow> Some \<lparr> el_ns = hd_ns h, el_s = hd_s h, el_p = hd_p h, el_o = ob,
          el_seq = hd_seq h, el_hash = hd_hash h \<rparr>)"

definition elect :: "int \<times> int \<times> int \<Rightarrow> db \<Rightarrow> latest_row option" where
  "elect k d = first_joined d (cell_heads k d)"

text \<open>
  What \<^verbatim>\<open>supersede\<close> and \<^verbatim>\<open>forget\<close> do for a cell when a grain leaves it: drop its rows, then
  re-elect from the tips that are left.
\<close>

definition reconcile_cell :: "int \<times> int \<times> int \<Rightarrow> int \<Rightarrow> db \<Rightarrow> db" where
  "reconcile_cell k sq d =
     (let d = d\<lparr>heads := delete_where (\<lambda>h. head_key h = k \<and> hd_seq h = sq) (heads d),
               entity_latest := delete_where (\<lambda>e. latest_key e = k \<and> el_seq e = sq)
                 (entity_latest d)\<rparr>
      in (case elect k d of None \<Rightarrow> d | Some e \<Rightarrow> put_latest e d))"

section \<open>Statement lemmas\<close>

named_theorems db_simps "effect of a statement on the rows of a table"

lemma set_upsert [db_simps]: "set (upsert key r rows) = insert r {x \<in> set rows. key x \<noteq> key r}"
  by (auto simp: upsert_def)

lemma set_delete_where [db_simps]: "set (delete_where P rows) = {r \<in> set rows. \<not> P r}"
  by (auto simp: delete_where_def)

lemma set_update_where [db_simps]:
  "set (update_where P f rows) = {f r | r. r \<in> set rows \<and> P r} \<union> {r \<in> set rows. \<not> P r}"
  by (auto simp: update_where_def)

lemma map_update_where [db_simps]:
  "(\<And>r. g (f r) = g r) \<Longrightarrow> map g (update_where P f rows) = map g rows"
  by (auto simp: update_where_def)

lemma find_grain_Some: "find_grain h d = Some r \<Longrightarrow> r \<in> set (grains d) \<and> gr_hash r = h"
  unfolding find_grain_def by (rule find_SomeD)

lemma find_grain_None: "find_grain h d = None \<longleftrightarrow> h \<notin> gr_hash ` set (grains d)"
  unfolding find_grain_def by (auto simp: find_None_iff_ball)

lemma set_cell_heads [db_simps]: "set (cell_heads k d) = {h \<in> set (heads d). head_key h = k}"
  by (auto simp: cell_heads_def)

lemma cell_heads_sorted: "sorted (map head_rank (rev (cell_heads k d)))"
  by (simp add: cell_heads_def)

end
