(* ===== verification/Store_Prep.thy ===== *)
theory Store_Prep
  imports Store_Db Wire_Value
begin

text \<open>
  The half of a write that runs before the transaction
  (\<^verbatim>\<open>crates/dejadb-store/src/lib.rs\<close>): what the store extracts from a grain
  (\<^verbatim>\<open>extract_view\<close>), its text and tokens, the dictionary, the clock, and the prepared grain.

  A store operation is a function from the handle to a result and the handle after it; on
  an error the handle keeps what was done before the error, except inside a transaction.
  \<^verbatim>\<open>token_freqs\<close> lists a hash map, in an order the standard library leaves open; the
  model takes the order of first occurrence.
\<close>

section \<open>Extraction\<close>

record grain_view =
  gv_ns :: string
  gv_subject :: "string option"
  gv_relation :: "string option"
  gv_object :: "string option"
  gv_session :: "string option"
  gv_vf :: "int option"
  gv_vt :: "int option"
  gv_created :: int
  gv_gtype :: nat
  gv_links :: "(string \<times> string) list"
  gv_run :: "string option"
  gv_parent :: "string option"
  gv_corpus_export :: bool

definition link_of :: "json \<Rightarrow> (string \<times> string) option" where
  "link_of l =
     Option.bind (Option.bind (jget ''relation_type'' l) as_str) (\<lambda>r.
     Option.bind (Option.bind (jget ''hash'' l) as_str) (\<lambda>h. Some (r, h)))"

definition links_of :: "deserialized_grain \<Rightarrow> (string \<times> string) list" where
  "links_of g =
     (case Option.bind (dg_get g ''related_to'') as_array of
        None \<Rightarrow> []
      | Some xs \<Rightarrow> List.map_filter link_of xs)"

definition extract_view :: "int \<Rightarrow> deserialized_grain \<Rightarrow> grain_view" where
  "extract_view now g =
     \<lparr> gv_ns = (case get_str g ''namespace'' of Some n \<Rightarrow> n | None \<Rightarrow> ''shared''),
       gv_subject = get_str g ''subject'',
       gv_relation = get_str g ''relation'',
       gv_object = get_str g ''object'',
       gv_session = get_str g ''session_id'',
       gv_vf = get_i64 g ''valid_from'',
       gv_vt = get_i64 g ''valid_to'',
       gv_created = (case get_i64 g ''created_at'' of Some t \<Rightarrow> t | None \<Rightarrow> now),
       gv_gtype = gtype_ordinal (dg_type g),
       gv_links = links_of g,
       gv_run = get_str g ''run_id'',
       gv_parent = get_str g ''derived_from'',
       gv_corpus_export = (dg_type g = GObservation
         \<and> Option.bind (Option.bind (dg_get g ''context'') (jget ''corpus_export'')) as_bool
             = Some True) \<rparr>"

definition cas_prefix :: string where "cas_prefix = ''cas://sha256:''"

definition cas_hexes :: "deserialized_grain \<Rightarrow> string list" where
  "cas_hexes g =
     (case Option.bind (dg_get g ''content_refs'') as_array of
        None \<Rightarrow> []
      | Some refs \<Rightarrow> List.map_filter (\<lambda>r.
          Option.bind
            (case Option.bind (jget ''uri'' r) as_str of
               Some u \<Rightarrow> Some u
             | None \<Rightarrow> Option.bind (jget ''u'' r) as_str)
            (\<lambda>u. if starts_with u cas_prefix then Some (drop (length cas_prefix) u) else None)) refs)"

definition parse_hash :: "core_env \<Rightarrow> string \<Rightarrow> hash option" where
  "parse_hash E s = (case hash_from_hex (hex_decode E) s of Inl _ \<Rightarrow> None | Inr h \<Rightarrow> Some h)"

fun add_parents :: "core_env \<Rightarrow> json list \<Rightarrow> hash list \<Rightarrow> hash list" where
  "add_parents E [] out = out"
| "add_parents E (p # ps) out =
     (case Option.bind (as_str p) (parse_hash E) of
        None \<Rightarrow> add_parents E ps out
      | Some h \<Rightarrow> add_parents E ps (if h \<in> set out then out else out @ [h]))"

definition superseded_parents :: "core_env \<Rightarrow> deserialized_grain \<Rightarrow> hash list" where
  "superseded_parents E g =
     (let out = (case Option.bind (get_str g ''derived_from'') (parse_hash E) of
                   Some h \<Rightarrow> [h] | None \<Rightarrow> [])
      in (case Option.bind (Option.bind (dg_get g ''context'') (jget ''merge_parents'')) as_array of
            None \<Rightarrow> out
          | Some ps \<Rightarrow> add_parents E ps out))"

section \<open>Text and tokens\<close>

definition MAX_TOKEN_LEN :: nat where "MAX_TOKEN_LEN = 64"

definition tokenize :: "string \<Rightarrow> string list" where
  "tokenize text =
     map to_lowercase
       (filter (\<lambda>t. t \<noteq> [] \<and> length t \<le> MAX_TOKEN_LEN)
         (split_on (\<lambda>c. \<not> is_alphanumeric c) text))"

fun count_tokens :: "string list \<Rightarrow> (string \<times> int) list \<Rightarrow> (string \<times> int) list" where
  "count_tokens [] fs = fs"
| "count_tokens (t # ts) fs =
     count_tokens ts
       (if t \<in> fst ` set fs then map (\<lambda>(u, n). if u = t then (u, n + 1) else (u, n)) fs
        else fs @ [(t, 1)])"

definition token_freqs :: "string \<Rightarrow> (string \<times> int) list \<times> int" where
  "token_freqs text = (let ts = tokenize text in (count_tokens ts [], int (length ts)))"

definition projected_text :: "deserialized_grain \<Rightarrow> string option" where
  "projected_text g =
     (let parts =
            (case (get_str g ''subject'', get_str g ''relation'', get_str g ''object'') of
               (Some s, Some r, Some ob) \<Rightarrow> [s @ '' '' @ r @ '' '' @ ob]
             | _ \<Rightarrow> [])
            @ (case get_str g ''content'' of Some c \<Rightarrow> [c] | None \<Rightarrow> []);
          plain = (if parts = [] then None else Some (join '' '' parts))
      in (case get_str g ''embedding_text'' of
            Some et \<Rightarrow> if trim et \<noteq> [] then Some et else plain
          | None \<Rightarrow> plain))"

section \<open>The handle\<close>

record store =
  st_db :: db
  dict :: "(string \<times> int) list"
  next_term :: int
  next_seq :: int
  next_op :: int
  hlc_last :: int
  fts_docs :: int
  fts_total_len :: int
  index_text :: bool
  fts_deferred :: bool
  entity_rels :: "string list"
  needs_min_reader_stamp :: bool
  cas_files :: "string list"

text \<open>
  What a handle is given from outside: the core environment, the host's embedder, which
  renders a vector as its JSON text, and the package version of the build.
\<close>

record store_env =
  se_core :: core_env
  se_embed :: "(string \<Rightarrow> deja_error + string) option"
  se_version :: string

type_synonym 'a op = "store \<Rightarrow> (deja_error + 'a) \<times> store"

definition ret :: "'a \<Rightarrow> 'a op" where "ret x s = (Inr x, s)"

definition fail :: "deja_error \<Rightarrow> 'a op" where "fail e s = (Inl e, s)"

definition bind_op :: "'a op \<Rightarrow> ('a \<Rightarrow> 'b op) \<Rightarrow> 'b op" where
  "bind_op m f s = (case m s of (Inl e, s') \<Rightarrow> (Inl e, s') | (Inr x, s') \<Rightarrow> f x s')"

definition lift_res :: "deja_error + 'a \<Rightarrow> 'a op" where "lift_res r s = (r, s)"

text \<open>\<^verbatim>\<open>with_txn\<close>: the tables of a failed body are rolled back.\<close>

definition with_txn :: "(db \<Rightarrow> deja_error + 'a \<times> db) \<Rightarrow> 'a op" where
  "with_txn f s =
     (case f (st_db s) of
        Inl e \<Rightarrow> (Inl e, s)
      | Inr (x, d) \<Rightarrow> (Inr x, s\<lparr>st_db := d\<rparr>))"

named_theorems op_simps "evaluation of store operations"

lemma op_defs [op_simps]:
  "ret x s = (Inr x, s)" "fail e s = (Inl e, s)" "lift_res r s = (r, s)"
  "bind_op m f s = (case m s of (Inl e, s') \<Rightarrow> (Inl e, s') | (Inr x, s') \<Rightarrow> f x s')"
  by (simp_all add: ret_def fail_def lift_res_def bind_op_def)

section \<open>Clock and dictionary\<close>

definition next_hlc :: "int \<Rightarrow> store \<Rightarrow> int \<times> store" where
  "next_hlc now s =
     (let wall = now * 65536;
          h = (if hlc_last s < wall then wall else hlc_last s + 1)
      in (h, s\<lparr>hlc_last := h\<rparr>))"

definition insert_term :: "int \<Rightarrow> string \<Rightarrow> db \<Rightarrow> deja_error + db" where
  "insert_term i t d =
     (if i \<in> fst ` set (terms d) then Inl (unique_violation ''terms.id'')
      else if t \<in> snd ` set (terms d) then Inl (unique_violation ''terms.term'')
      else Inr (d\<lparr>terms := terms d @ [(i, t)]\<rparr>))"

definition term_id :: "string \<Rightarrow> int op" where
  "term_id t s =
     (case map_of (dict s) t of
        Some i \<Rightarrow> (Inr i, s)
      | None \<Rightarrow>
          (let i = next_term s; s = s\<lparr>next_term := i + 1\<rparr>
           in (case insert_term i t (st_db s) of
                 Inl e \<Rightarrow> (Inl e, s)
               | Inr d \<Rightarrow> (Inr i, s\<lparr>st_db := d, dict := (t, i) # dict s\<rparr>))))"

definition term_lookup :: "string \<Rightarrow> store \<Rightarrow> int option" where
  "term_lookup t s = map_of (dict s) t"

definition opt_term :: "string option \<Rightarrow> int option op" where
  "opt_term t =
     (case t of
        None \<Rightarrow> ret None
      | Some x \<Rightarrow> bind_op (term_id x) (\<lambda>i. ret (Some i)))"

text \<open>\<^verbatim>\<open>INSERT OR IGNORE INTO fts_vocab\<close> takes one more than the largest id.\<close>

definition fts_term_id :: "string \<Rightarrow> int op" where
  "fts_term_id t s =
     (case find (\<lambda>(i, u). u = t) (vocab (st_db s)) of
        Some (i, _) \<Rightarrow> (Inr i, s)
      | None \<Rightarrow>
          (let i = (if vocab (st_db s) = [] then 1 else Max (fst ` set (vocab (st_db s))) + 1)
           in (Inr i, s\<lparr>st_db := (st_db s)\<lparr>vocab := vocab (st_db s) @ [(i, t)]\<rparr>\<rparr>)))"

fun map_op :: "('a \<Rightarrow> 'b op) \<Rightarrow> 'a list \<Rightarrow> 'b list op" where
  "map_op f [] = ret []"
| "map_op f (x # xs) = bind_op (f x) (\<lambda>y. bind_op (map_op f xs) (\<lambda>ys. ret (y # ys)))"

section \<open>The prepared grain\<close>

record grain_prep =
  pp_blob :: bytes
  pp_hash :: hash
  pp_ns :: int
  pp_s :: "int option"
  pp_p :: "int option"
  pp_o :: "int option"
  pp_osp :: bool
  pp_session :: "int option"
  pp_vf :: "int option"
  pp_vt :: "int option"
  pp_created :: int
  pp_gtype :: int
  pp_text :: "string option"
  pp_embedding :: "string option"
  pp_tokens :: "(int \<times> int) list"
  pp_doc_len :: int
  pp_links :: "(int \<times> int \<times> int) list"
  pp_run :: "int option"
  pp_parent :: "bytes option"
  pp_corpus_export :: bool

definition prep_triple ::
  "grain_view \<Rightarrow> (int option \<times> int option \<times> int option \<times> bool) op" where
  "prep_triple gv s =
     (case (gv_subject gv, gv_relation gv, gv_object gv) of
        (Some sj, Some rl, Some ob) \<Rightarrow>
          bind_op (term_id sj) (\<lambda>i. bind_op (term_id rl) (\<lambda>j. bind_op (term_id ob) (\<lambda>k.
            ret (Some i, Some j, Some k, rl = ''mg:harness'' \<or> rl \<in> set (entity_rels s))))) s
      | _ \<Rightarrow> (Inr (None, None, None, False), s))"

definition prep_tokens :: "string option \<Rightarrow> ((int \<times> int) list \<times> int) op" where
  "prep_tokens text s =
     (case text of
        Some t \<Rightarrow>
          if fts_deferred s then (Inr ([], 0), s)
          else (case token_freqs t of (fs, len) \<Rightarrow>
            bind_op (map_op (\<lambda>(u, tf). bind_op (fts_term_id u) (\<lambda>i. ret (i, tf))) fs)
              (\<lambda>ids. ret (ids, len)) s)
      | None \<Rightarrow> (Inr ([], 0), s))"

definition prep_links :: "core_env \<Rightarrow> hash \<Rightarrow> (string \<times> string) list \<Rightarrow> (int \<times> int \<times> int) list op" where
  "prep_links E h links =
     (if links = [] then ret []
      else bind_op (term_id (hash_to_hex (hex_encode E) h)) (\<lambda>self.
        map_op (\<lambda>(rel, target). bind_op (term_id rel) (\<lambda>r.
          bind_op (term_id target) (\<lambda>t. ret (self, r, t)))) links))"

definition prep_embedding :: "store_env \<Rightarrow> string option \<Rightarrow> deja_error + string option" where
  "prep_embedding E text =
     (case (se_embed E, text) of
        (Some f, Some t) \<Rightarrow> and_then (f t) (\<lambda>v. Inr (Some v))
      | _ \<Rightarrow> Inr None)"

definition prep_from_blob :: "store_env \<Rightarrow> int \<Rightarrow> bytes \<Rightarrow> hash \<Rightarrow> grain_prep op" where
  "prep_from_blob E now blob h =
     bind_op (lift_res (deserialize_blob (se_core E) blob)) (\<lambda>view.
     let gv = extract_view now view in
     bind_op (term_id (gv_ns gv)) (\<lambda>ns.
     bind_op (prep_triple gv) (\<lambda>(s, p, ob, is_osp).
     bind_op (opt_term (gv_session gv)) (\<lambda>session.
     let projected = projected_text view in
     bind_op (\<lambda>st. ret (if index_text st then projected else None) st) (\<lambda>text.
     bind_op (prep_tokens text) (\<lambda>(tokens, doc_len).
     bind_op (lift_res (prep_embedding E projected)) (\<lambda>embedding.
     bind_op (prep_links (se_core E) h (gv_links gv)) (\<lambda>links.
     bind_op (opt_term (gv_run gv)) (\<lambda>run.
     ret \<lparr> pp_blob = blob, pp_hash = h, pp_ns = ns, pp_s = s, pp_p = p, pp_o = ob,
           pp_osp = is_osp, pp_session = session, pp_vf = gv_vf gv, pp_vt = gv_vt gv,
           pp_created = gv_created gv, pp_gtype = int (gv_gtype gv), pp_text = text,
           pp_embedding = embedding, pp_tokens = tokens, pp_doc_len = doc_len,
           pp_links = links, pp_run = run,
           pp_parent = map_option as_bytes (Option.bind (gv_parent gv) (parse_hash (se_core E))),
           pp_corpus_export = gv_corpus_export gv \<rparr>)))))))))"

end
