(* ===== verification/Store_Write.thy ===== *)
theory Store_Write
  imports Store_Prep
begin

text \<open>
  The write path of the store (\<^verbatim>\<open>crates/dejadb-store/src/lib.rs\<close>): add, supersede, forget,
  fork merging, and the point reads they are stated with. Timestamps are the readings of
  the wall clock that an operation takes, in order.
\<close>

definition OP_ADD :: int where "OP_ADD = 1"
definition OP_SUPERSEDE :: int where "OP_SUPERSEDE = 2"
definition OP_FORGET :: int where "OP_FORGET = 3"

section \<open>Inserting prepared grains\<close>

definition grain_of_prep :: "int \<Rightarrow> grain_prep \<Rightarrow> grain_row" where
  "grain_of_prep sq pr =
     \<lparr> gr_seq = sq, gr_hash = pp_hash pr, gr_ns = pp_ns pr, gr_gtype = pp_gtype pr,
       gr_created = pp_created pr, gr_s = pp_s pr, gr_p = pp_p pr, gr_o = pp_o pr,
       gr_vf = pp_vf pr, gr_vt = pp_vt pr, gr_svf = pp_created pr, gr_svt = None,
       gr_superseded_by = None, gr_supersedes = None, gr_text = pp_text pr,
       gr_blob = pp_blob pr \<rparr>"

definition prep_cell :: "grain_prep \<Rightarrow> (int \<times> int \<times> int \<times> int) option" where
  "prep_cell pr =
     (case (pp_s pr, pp_p pr, pp_o pr) of
        (Some s, Some p, Some ob) \<Rightarrow> Some (pp_ns pr, s, p, ob)
      | _ \<Rightarrow> None)"

definition triple_at :: "int \<Rightarrow> int \<times> int \<times> int \<times> int \<Rightarrow> triple_row" where
  "triple_at sq c = (case c of (ns, s, p, ob) \<Rightarrow>
     \<lparr> tr_ns = ns, tr_s = s, tr_p = p, tr_o = ob, tr_seq = sq, tr_cur = True \<rparr>)"

definition latest_at :: "int \<Rightarrow> hash \<Rightarrow> int \<times> int \<times> int \<times> int \<Rightarrow> latest_row" where
  "latest_at sq h c = (case c of (ns, s, p, ob) \<Rightarrow>
     \<lparr> el_ns = ns, el_s = s, el_p = p, el_o = ob, el_seq = sq, el_hash = h \<rparr>)"

definition head_at :: "int \<Rightarrow> hash \<Rightarrow> int \<Rightarrow> int \<times> int \<times> int \<times> int \<Rightarrow> head_row" where
  "head_at sq h created c = (case c of (ns, s, p, ob) \<Rightarrow>
     \<lparr> hd_ns = ns, hd_s = s, hd_p = p, hd_seq = sq, hd_hash = h, hd_created = created \<rparr>)"

definition insert_postings :: "grain_prep \<Rightarrow> int \<Rightarrow> db \<Rightarrow> db" where
  "insert_postings pr sq d =
     (if pp_tokens pr = [] then d
      else d\<lparr>fts_post := fts_post d @ map (\<lambda>(t, tf). (t, sq, pp_ns pr, tf)) (pp_tokens pr),
             fts_doc := upsert fst (sq, pp_doc_len pr) (fts_doc d)\<rparr>)"

definition insert_triple :: "grain_prep \<Rightarrow> int \<Rightarrow> db \<Rightarrow> db" where
  "insert_triple pr sq d =
     (case prep_cell pr of
        None \<Rightarrow> d
      | Some c \<Rightarrow>
          d\<lparr>triples := triples d @ [triple_at sq c],
            osp := (if pp_osp pr then osp d @ [triple_at sq c] else osp d)\<rparr>)"

text \<open>The local add: the new grain is the only tip of its cell.\<close>

definition claim_cell :: "grain_prep \<Rightarrow> int \<Rightarrow> db \<Rightarrow> db" where
  "claim_cell pr sq d =
     (case prep_cell pr of
        None \<Rightarrow> d
      | Some (ns, s, p, ob) \<Rightarrow>
          let c = (ns, s, p, ob);
              d = put_latest (latest_at sq (pp_hash pr) c) d
          in d\<lparr>heads := delete_where (\<lambda>h. head_key h = (ns, s, p)) (heads d)
                 @ [head_at sq (pp_hash pr) (pp_created pr) c]\<rparr>)"

definition insert_links :: "grain_prep \<Rightarrow> int \<Rightarrow> db \<Rightarrow> db" where
  "insert_links pr sq d =
     (let rows = map (\<lambda>(ls, lp, lo). triple_at sq (pp_ns pr, ls, lp, lo)) (pp_links pr)
      in d\<lparr>triples := triples d @ rows, osp := osp d @ rows\<rparr>)"

definition insert_thread :: "grain_prep \<Rightarrow> int \<Rightarrow> db \<Rightarrow> db" where
  "insert_thread pr sq d =
     (case pp_session pr of
        None \<Rightarrow> d
      | Some x \<Rightarrow> d\<lparr>thread_idx := thread_idx d @ [(pp_ns pr, x, sq)]\<rparr>)"

definition insert_run :: "grain_prep \<Rightarrow> int \<Rightarrow> db \<Rightarrow> db" where
  "insert_run pr sq d =
     (case pp_run pr of
        None \<Rightarrow> d
      | Some r \<Rightarrow> d\<lparr>run_idx := run_idx d @ [(pp_ns pr, r, sq)]\<rparr>)"

definition insert_corpus :: "grain_prep \<Rightarrow> int \<Rightarrow> db \<Rightarrow> deja_error + db" where
  "insert_corpus pr sq d =
     (if pp_corpus_export pr
      then and_then (insert_row ''corpus_idx.seq'' id sq (corpus_idx d))
             (\<lambda>rows. Inr (d\<lparr>corpus_idx := rows\<rparr>))
      else Inr d)"

definition insert_parent :: "grain_prep \<Rightarrow> int \<Rightarrow> db \<Rightarrow> db" where
  "insert_parent pr sq d =
     (case pp_parent pr of
        None \<Rightarrow> d
      | Some b \<Rightarrow> d\<lparr>prov_idx := prov_idx d @ [(pp_ns pr, b, sq)]\<rparr>)"

definition insert_embedding :: "grain_prep \<Rightarrow> int \<Rightarrow> db \<Rightarrow> deja_error + db" where
  "insert_embedding pr sq d =
     (case pp_embedding pr of
        None \<Rightarrow> Inr d
      | Some v \<Rightarrow> and_then (insert_row ''embeddings.seq'' fst (sq, v) (embeddings d))
          (\<lambda>rows. Inr (d\<lparr>embeddings := rows\<rparr>)))"

definition insert_aux :: "grain_prep \<Rightarrow> int \<Rightarrow> db \<Rightarrow> deja_error + db" where
  "insert_aux pr sq d =
     and_then (insert_corpus pr sq (insert_run pr sq (insert_thread pr sq d)))
       (\<lambda>d. insert_embedding pr sq (insert_parent pr sq d))"

definition insert_one :: "grain_prep \<Rightarrow> int \<Rightarrow> int \<Rightarrow> int \<Rightarrow> db \<Rightarrow> deja_error + db" where
  "insert_one pr sq op hlc d =
     and_then (insert_grain (grain_of_prep sq pr) d) (\<lambda>d.
     let d = insert_links pr sq (claim_cell pr sq (insert_triple pr sq (insert_postings pr sq d)))
     in and_then (insert_aux pr sq d) (\<lambda>d. insert_op op hlc OP_ADD (pp_hash pr) d))"

fun insert_prepped :: "grain_prep list \<Rightarrow> int \<Rightarrow> int \<Rightarrow> int \<Rightarrow> db \<Rightarrow> deja_error + db" where
  "insert_prepped [] sq op hlc d = Inr d"
| "insert_prepped (pr # prs) sq op hlc d =
     and_then (insert_one pr sq op hlc d) (insert_prepped prs (sq + 1) (op + 1) (hlc + 1))"

definition fts_delta :: "grain_prep list \<Rightarrow> int \<times> int" where
  "fts_delta prs =
     (int (length (filter (\<lambda>p. pp_tokens p \<noteq> []) prs)), sum_list (map pp_doc_len prs))"

definition bump_fts :: "int \<times> int \<Rightarrow> store \<Rightarrow> store" where
  "bump_fts dl s = s\<lparr>fts_docs := fts_docs s + fst dl, fts_total_len := fts_total_len s + snd dl\<rparr>"

section \<open>Add\<close>

text \<open>What \<^verbatim>\<open>serialize_dyn\<close> gave for a grain.\<close>

type_synonym addable = "deja_error + bytes \<times> hash"

definition has_grain :: "hash \<Rightarrow> store \<Rightarrow> bool" where
  "has_grain h s = (find_grain h (st_db s) \<noteq> None)"

fun prep_batch ::
  "store_env \<Rightarrow> int \<Rightarrow> addable list \<Rightarrow> hash set \<Rightarrow> (hash list \<times> grain_prep list) op" where
  "prep_batch E now [] seen = ret ([], [])"
| "prep_batch E now (g # gs) seen =
     (case g of
        Inl e \<Rightarrow> fail e
      | Inr (blob, h) \<Rightarrow> (\<lambda>s.
          if h \<in> seen \<or> has_grain h s
          then bind_op (prep_batch E now gs (insert h seen)) (\<lambda>(hs, prs). ret (h # hs, prs)) s
          else bind_op (prep_from_blob E now blob h) (\<lambda>pr.
               bind_op (prep_batch E now gs (insert h seen)) (\<lambda>(hs, prs).
                 ret (h # hs, pr # prs))) s))"

definition reserve_for :: "int \<Rightarrow> nat \<Rightarrow> (int \<times> int \<times> int) op" where
  "reserve_for now n s =
     (let sq = next_seq s; op = next_op s;
          s = s\<lparr>next_seq := sq + int n, next_op := op + int n\<rparr>
      in (case next_hlc now s of
            (h, s) \<Rightarrow> (Inr (sq, op, h), s\<lparr>hlc_last := h + int n - 1\<rparr>)))"

definition reserve_op :: "int \<Rightarrow> (int \<times> int) op" where
  "reserve_op now s =
     (let op = next_op s
      in (case next_hlc now (s\<lparr>next_op := op + 1\<rparr>) of (h, s) \<Rightarrow> (Inr (op, h), s)))"

definition LEGACY_MAX_GRAIN_BYTE :: byte where "LEGACY_MAX_GRAIN_BYTE = 0x0B"

definition stamp_min_reader :: "store_env \<Rightarrow> grain_prep list \<Rightarrow> store \<Rightarrow> store" where
  "stamp_min_reader E prs s =
     (if needs_min_reader_stamp s
         \<and> list_ex (\<lambda>p. 2 < length (pp_blob p) \<and> LEGACY_MAX_GRAIN_BYTE < pp_blob p ! 2) prs
      then s\<lparr>st_db := (st_db s)\<lparr>meta_kv :=
               upsert fst (''min_reader_version'', se_version E) (meta_kv (st_db s))\<rparr>,
             needs_min_reader_stamp := False\<rparr>
      else s)"

definition add_batch_inner :: "store_env \<Rightarrow> int \<Rightarrow> addable list \<Rightarrow> hash list op" where
  "add_batch_inner E now gs =
     bind_op (prep_batch E now gs {}) (\<lambda>(hs, prs).
     if prs = [] then ret hs
     else bind_op (reserve_for now (length prs)) (\<lambda>(sq, op, hlc) s.
       (case with_txn (\<lambda>d. and_then (insert_prepped prs sq op hlc d) (\<lambda>d. Inr ((), d)))
              (stamp_min_reader E prs s) of
          (Inl e, s) \<Rightarrow> (Inl e, s)
        | (Inr _, s) \<Rightarrow> (Inr hs, bump_fts (fts_delta prs) s))))"

definition add :: "store_env \<Rightarrow> int \<Rightarrow> addable \<Rightarrow> hash op" where
  "add E now g = bind_op (add_batch_inner E now [g]) (\<lambda>hs. ret (hd hs))"

section \<open>Reads\<close>

definition cell_of :: "string \<Rightarrow> string \<Rightarrow> string \<Rightarrow> store \<Rightarrow> (int \<times> int \<times> int) option" where
  "cell_of ns subject relation s =
     (case (term_lookup ns s, term_lookup subject s, term_lookup relation s) of
        (Some a, Some b, Some c) \<Rightarrow> Some (a, b, c)
      | _ \<Rightarrow> None)"

definition latest_row_of :: "int \<times> int \<times> int \<Rightarrow> db \<Rightarrow> latest_row option" where
  "latest_row_of k d = find (\<lambda>e. latest_key e = k) (entity_latest d)"

definition get_grain :: "store_env \<Rightarrow> hash \<Rightarrow> store \<Rightarrow> deja_error + deserialized_grain" where
  "get_grain E h s =
     (case find_grain h (st_db s) of
        None \<Rightarrow> Inl (NotFound h)
      | Some r \<Rightarrow> deserialize_blob (se_core E) (gr_blob r))"

definition latest ::
  "store_env \<Rightarrow> string \<Rightarrow> string \<Rightarrow> string \<Rightarrow> store \<Rightarrow> deja_error + deserialized_grain option" where
  "latest E ns subject relation s =
     (case cell_of ns subject relation s of
        None \<Rightarrow> Inr None
      | Some k \<Rightarrow>
          (case latest_row_of k (st_db s) of
             None \<Rightarrow> Inr None
           | Some e \<Rightarrow> and_then (get_grain E (el_hash e) s) (\<lambda>g. Inr (Some g))))"

definition heads_of :: "string \<Rightarrow> string \<Rightarrow> string \<Rightarrow> store \<Rightarrow> (hash \<times> int) list" where
  "heads_of ns subject relation s =
     (case cell_of ns subject relation s of
        None \<Rightarrow> []
      | Some k \<Rightarrow> map (\<lambda>h. (hd_hash h, hd_created h)) (cell_heads k (st_db s)))"

section \<open>Supersede\<close>

definition close_grain :: "int \<Rightarrow> hash \<Rightarrow> int \<Rightarrow> db \<Rightarrow> db" where
  "close_grain sq by now d =
     d\<lparr>grains := update_where (\<lambda>r. gr_seq r = sq)
          (\<lambda>r. r\<lparr>gr_superseded_by := Some by, gr_svt := Some now\<rparr>) (grains d),
       triples := update_where (\<lambda>t. tr_seq t = sq) (\<lambda>t. t\<lparr>tr_cur := False\<rparr>) (triples d),
       osp := update_where (\<lambda>t. tr_seq t = sq) (\<lambda>t. t\<lparr>tr_cur := False\<rparr>) (osp d)\<rparr>"

definition link_supersedes :: "hash \<Rightarrow> hash \<Rightarrow> db \<Rightarrow> db" where
  "link_supersedes new old d =
     d\<lparr>grains := update_where (\<lambda>r. gr_hash r = new) (\<lambda>r. r\<lparr>gr_supersedes := Some old\<rparr>)
          (grains d)\<rparr>"

definition row_cell :: "grain_row \<Rightarrow> (int \<times> int \<times> int) option" where
  "row_cell r =
     (case (gr_s r, gr_p r) of (Some s, Some p) \<Rightarrow> Some (gr_ns r, s, p) | _ \<Rightarrow> None)"

definition supersede_txn ::
  "hash \<Rightarrow> grain_prep \<Rightarrow> int \<times> int \<times> int \<Rightarrow> int \<times> int \<Rightarrow> int \<Rightarrow> db \<Rightarrow> deja_error + unit \<times> db" where
  "supersede_txn old pr ids op2 now d =
     (case find_grain old d of
        None \<Rightarrow> Inl (NotFound old)
      | Some r \<Rightarrow>
          if gr_svt r \<noteq> None then Inl (SupersessionConflict old)
          else (case ids of (sq, op, hlc) \<Rightarrow>
            and_then (insert_prepped [pr] sq op hlc d) (\<lambda>d.
            let d = close_grain (gr_seq r) (pp_hash pr) now d;
                d = link_supersedes (pp_hash pr) old d;
                d = (case row_cell r of None \<Rightarrow> d | Some k \<Rightarrow> reconcile_cell k (gr_seq r) d)
            in and_then (insert_op (fst op2) (snd op2) OP_SUPERSEDE (pp_hash pr) d)
                 (\<lambda>d. Inr ((), d)))))"

text \<open>\<open>new\<close> is the serialization of the new grain as a function of its \<^verbatim>\<open>derived_from\<close>.\<close>

definition supersede ::
  "store_env \<Rightarrow> (nat \<Rightarrow> int) \<Rightarrow> hash \<Rightarrow> (string \<Rightarrow> addable) \<Rightarrow> hash op" where
  "supersede E clk old new s =
     (case find_grain old (st_db s) of
        None \<Rightarrow> (Inl (NotFound old), s)
      | Some r \<Rightarrow>
          if gr_svt r \<noteq> None then (Inl (SupersessionConflict old), s)
          else (case new (hash_to_hex (hex_encode (se_core E)) old) of
                  Inl e \<Rightarrow> (Inl e, s)
                | Inr (blob, h) \<Rightarrow>
                    bind_op (prep_from_blob E (clk 0) blob h) (\<lambda>pr.
                    bind_op (reserve_for (clk 1) 1) (\<lambda>ids.
                    bind_op (reserve_op (clk 3)) (\<lambda>op2.
                    bind_op (with_txn (supersede_txn old pr ids op2 (clk 2))) (\<lambda>_ s.
                      (Inr h, bump_fts (fts_delta [pr]) s))))) s))"

section \<open>Forget\<close>

definition forget_rows :: "int \<Rightarrow> db \<Rightarrow> db" where
  "forget_rows sq d =
     d\<lparr>triples := delete_where (\<lambda>t. tr_seq t = sq) (triples d),
       osp := delete_where (\<lambda>t. tr_seq t = sq) (osp d),
       embeddings := delete_where (\<lambda>(q, _). q = sq) (embeddings d),
       thread_idx := delete_where (\<lambda>(_, _, q). q = sq) (thread_idx d),
       prov_idx := delete_where (\<lambda>(_, _, q). q = sq) (prov_idx d),
       run_idx := delete_where (\<lambda>(_, _, q). q = sq) (run_idx d),
       corpus_idx := delete_where (\<lambda>q. q = sq) (corpus_idx d),
       fts_post := delete_where (\<lambda>(_, q, _, _). q = sq) (fts_post d),
       fts_doc := delete_where (\<lambda>(q, _). q = sq) (fts_doc d),
       grains := delete_where (\<lambda>r. gr_seq r = sq) (grains d)\<rparr>"

definition forget_txn ::
  "hash \<Rightarrow> (int \<times> int \<times> int) option \<Rightarrow> int \<times> int \<Rightarrow> db \<Rightarrow> deja_error + int option \<times> db" where
  "forget_txn h k op d =
     (case find_grain h d of
        None \<Rightarrow> Inl (NotFound h)
      | Some r \<Rightarrow>
          let sq = gr_seq r;
              len = map_of (fts_doc d) sq;
              d = forget_rows sq d;
              d = (case k of None \<Rightarrow> d | Some k \<Rightarrow> reconcile_cell k sq d)
          in and_then (insert_op (fst op) (snd op) OP_FORGET h d) (\<lambda>d. Inr (len, d)))"

definition blob_cas :: "store_env \<Rightarrow> bytes \<Rightarrow> string list" where
  "blob_cas E b =
     (case deserialize_blob (se_core E) b of Inl _ \<Rightarrow> [] | Inr v \<Rightarrow> cas_hexes v)"

text \<open>
  The attachments of the forgotten grain that no remaining grain references; the scan runs
  in the transaction, the files go after it.
\<close>

definition unreferenced :: "store_env \<Rightarrow> string list \<Rightarrow> db \<Rightarrow> string list" where
  "unreferenced E cands d =
     filter (\<lambda>x. \<not> list_ex (\<lambda>r. x \<in> set (blob_cas E (gr_blob r))) (grains d)) cands"

definition drop_doc :: "int option \<Rightarrow> store \<Rightarrow> store" where
  "drop_doc len s =
     (case len of
        None \<Rightarrow> s
      | Some l \<Rightarrow> s\<lparr>fts_docs := max (fts_docs s - 1) 0,
                    fts_total_len := max (fts_total_len s - l) 0\<rparr>)"

definition forget :: "store_env \<Rightarrow> int \<Rightarrow> hash \<Rightarrow> unit op" where
  "forget E now h s =
     (case find_grain h (st_db s) of
        None \<Rightarrow> (Inl (NotFound h), s)
      | Some r \<Rightarrow>
          let cands = remdups (sort (blob_cas E (gr_blob r)))
          in bind_op (reserve_op now) (\<lambda>op.
             bind_op (with_txn (forget_txn h (row_cell r) op)) (\<lambda>len s.
               let gone = unreferenced E cands (st_db s)
               in (Inr (), drop_doc len
                     (s\<lparr>cas_files := filter (\<lambda>f. f \<notin> set gone) (cas_files s)\<rparr>)))) s)"

section \<open>Merging a fork\<close>

definition close_tip :: "hash \<Rightarrow> int \<Rightarrow> hash \<Rightarrow> db \<Rightarrow> db" where
  "close_tip merge now tip d =
     (case find_grain tip d of
        None \<Rightarrow> d
      | Some r \<Rightarrow> if gr_svt r = None then close_grain (gr_seq r) merge now d else d)"

definition merge_txn ::
  "hash list \<Rightarrow> grain_prep \<Rightarrow> int \<times> int \<times> int \<Rightarrow> int \<times> int \<Rightarrow> int \<Rightarrow> db \<Rightarrow> deja_error + unit \<times> db" where
  "merge_txn tips pr ids op2 now d =
     (case ids of (sq, op, hlc) \<Rightarrow>
        and_then (insert_prepped [pr] sq op hlc d) (\<lambda>d.
        let d = fold (close_tip (pp_hash pr) now) tips d
        in and_then (insert_op (fst op2) (snd op2) OP_SUPERSEDE (pp_hash pr) d)
             (\<lambda>d. Inr ((), d))))"

text \<open>\<open>merged\<close>: the serialization of the merge grain, from its parent and all merge parents.\<close>

definition merge_heads ::
  "store_env \<Rightarrow> (nat \<Rightarrow> int) \<Rightarrow> string \<Rightarrow> string \<Rightarrow> string \<Rightarrow>
     (string \<Rightarrow> string list \<Rightarrow> addable) \<Rightarrow> hash op" where
  "merge_heads E clk ns subject relation merged s =
     (let tips = map fst (heads_of ns subject relation s);
          hx = hash_to_hex (hex_encode (se_core E))
      in if length tips < 2
         then (Inl (Validation (''merge_heads needs an open fork; '' @ nat_str (length tips)
                @ '' head(s) present'')), s)
         else (case merged (hx (hd tips)) (map hx tips) of
                 Inl e \<Rightarrow> (Inl e, s)
               | Inr (blob, h) \<Rightarrow>
                   bind_op (prep_from_blob E (clk 0) blob h) (\<lambda>pr.
                   bind_op (reserve_for (clk 1) 1) (\<lambda>ids.
                   bind_op (reserve_op (clk 3)) (\<lambda>op2.
                   bind_op (with_txn (merge_txn tips pr ids op2 (clk 2))) (\<lambda>_ s.
                     (Inr h, bump_fts (fts_delta [pr]) s))))) s))"

end
