(* ===== verification/Store_Import.thy ===== *)
theory Store_Import
  imports Store_Write
begin

text \<open>
  Replication (\<^verbatim>\<open>crates/dejadb-store/src/lib.rs\<close>): inserting a grain that arrives in a bundle,
  applying a replicated supersession, and the replay of a bundle's records.
\<close>

section \<open>Inserting an imported grain\<close>

text \<open>The head that \<^verbatim>\<open>entity_latest\<close> names for a cell.\<close>

definition current_head :: "int \<times> int \<times> int \<Rightarrow> db \<Rightarrow> (int \<times> hash) option" where
  "current_head k d =
     (case find (\<lambda>h. head_key h = k \<and> (\<exists>e \<in> set (entity_latest d). latest_key e = k
              \<and> el_seq e = hd_seq h)) (heads d) of
        None \<Rightarrow> None
      | Some h \<Rightarrow> Some (head_rank h))"

definition wins_over :: "int \<Rightarrow> hash \<Rightarrow> (int \<times> hash) option \<Rightarrow> bool" where
  "wins_over created h cur = (case cur of None \<Rightarrow> True | Some c \<Rightarrow> c < (created, h))"

text \<open>The union of the imported tip with the tips of its cell, and the provisional election.\<close>

definition join_cell :: "int \<Rightarrow> hash \<Rightarrow> int \<Rightarrow> int \<times> int \<times> int \<times> int \<Rightarrow> db \<Rightarrow> db" where
  "join_cell sq h created c d =
     (case c of (ns, s, p, ob) \<Rightarrow>
        let d = put_head (head_at sq h created c) d
        in if wins_over created h (current_head (ns, s, p) d)
           then put_latest (latest_at sq h c) d else d)"

definition insert_blob_txn ::
  "grain_prep \<Rightarrow> int \<Rightarrow> int \<Rightarrow> int \<Rightarrow> int \<Rightarrow> db \<Rightarrow> deja_error + unit \<times> db" where
  "insert_blob_txn pr sq op kind hlc d =
     and_then (insert_grain (grain_of_prep sq pr) d) (\<lambda>d.
     let d = insert_triple pr sq d;
         d = (case prep_cell pr of None \<Rightarrow> d
              | Some c \<Rightarrow> join_cell sq (pp_hash pr) (pp_created pr) c d);
         d = insert_links pr sq d
     in and_then (insert_aux pr sq d) (\<lambda>d.
        and_then (insert_op op hlc kind (pp_hash pr) d) (\<lambda>d. Inr ((), d))))"

definition insert_blob :: "store_env \<Rightarrow> int \<Rightarrow> bytes \<Rightarrow> hash \<Rightarrow> int \<Rightarrow> int \<Rightarrow> unit op" where
  "insert_blob E now blob h kind hlc =
     bind_op (prep_from_blob E now blob h) (\<lambda>pr s.
       let sq = next_seq s; op = next_op s;
           s = s\<lparr>next_seq := sq + 1, next_op := op + 1, hlc_last := max (hlc_last s) hlc\<rparr>
       in with_txn (insert_blob_txn pr sq op kind hlc) s)"

section \<open>Applying a replicated supersession\<close>

definition zero_if_null :: "int option \<Rightarrow> int" where
  "zero_if_null x = (case x of None \<Rightarrow> 0 | Some i \<Rightarrow> i)"

text \<open>The old grain is already superseded by another one: both tips stay.\<close>

definition flip_fork :: "hash \<Rightarrow> db \<Rightarrow> bool \<times> db" where
  "flip_fork new d =
     (case find_grain new d of
        None \<Rightarrow> (False, d)
      | Some r \<Rightarrow>
          let c = (gr_ns r, zero_if_null (gr_s r), zero_if_null (gr_p r), zero_if_null (gr_o r))
          in (True, join_cell (gr_seq r) new (gr_created r) c d))"

definition flip_close :: "hash \<Rightarrow> hash \<Rightarrow> grain_row \<Rightarrow> int \<Rightarrow> db \<Rightarrow> db" where
  "flip_close old new r now d =
     (let d = link_supersedes new old (close_grain (gr_seq r) new now d)
      in (case row_cell r of
            None \<Rightarrow> d
          | Some k \<Rightarrow> d\<lparr>heads :=
              delete_where (\<lambda>h. head_key h = k \<and> hd_seq h = gr_seq r) (heads d)\<rparr>))"

definition flip :: "hash \<Rightarrow> hash \<Rightarrow> int \<Rightarrow> db \<Rightarrow> bool \<times> db" where
  "flip old new now d =
     (case find_grain old d of
        None \<Rightarrow> (False, d)
      | Some r \<Rightarrow>
          if gr_svt r \<noteq> None
          then (if gr_superseded_by r = Some new then (False, d) else flip_fork new d)
          else (True, flip_close old new r now d))"

definition apply_supersede_flip :: "int \<Rightarrow> hash \<Rightarrow> hash \<Rightarrow> bool op" where
  "apply_supersede_flip now old new = with_txn (\<lambda>d. Inr (flip old new now d))"

definition log_op :: "int \<Rightarrow> hash \<Rightarrow> int \<Rightarrow> unit op" where
  "log_op kind h hlc s =
     (let op = next_op s
      in with_txn (\<lambda>d. and_then (insert_op op hlc kind h d) (\<lambda>d. Inr ((), d)))
           (s\<lparr>next_op := op + 1\<rparr>))"

section \<open>Bundles\<close>

record import_stats =
  applied :: nat
  skipped :: nat

definition count_applied :: "import_stats \<Rightarrow> import_stats" where
  "count_applied st = st\<lparr>applied := applied st + 1\<rparr>"

definition count_skipped :: "import_stats \<Rightarrow> import_stats" where
  "count_skipped st = st\<lparr>skipped := skipped st + 1\<rparr>"

fun flip_all :: "int \<Rightarrow> hash list \<Rightarrow> hash \<Rightarrow> bool \<Rightarrow> bool op" where
  "flip_all now [] h changed = ret changed"
| "flip_all now (old # olds) h changed =
     bind_op (apply_supersede_flip now old h) (\<lambda>c. flip_all now olds h (changed \<or> c))"

definition import_supersede ::
  "store_env \<Rightarrow> int \<Rightarrow> hash \<Rightarrow> int \<Rightarrow> bytes \<Rightarrow> import_stats \<Rightarrow> import_stats op" where
  "import_supersede E now h hlc blob st s =
     (let existing = find_grain h (st_db s);
          src = (if blob \<noteq> [] then Some blob else map_option gr_blob existing);
          inserted = (existing = None)
      in (case src of
            None \<Rightarrow> (Inr (count_skipped st), s)
          | Some bb \<Rightarrow>
              bind_op (if inserted then insert_blob E now bb h OP_SUPERSEDE hlc else ret ()) (\<lambda>_.
              bind_op (case deserialize_blob (se_core E) bb of
                         Inl _ \<Rightarrow> ret inserted
                       | Inr view \<Rightarrow> flip_all now (superseded_parents (se_core E) view) h inserted)
                (\<lambda>changed.
              bind_op (if changed \<and> \<not> inserted then log_op OP_SUPERSEDE h hlc else ret ()) (\<lambda>_.
                ret (if changed then count_applied st else count_skipped st)))) s))"

definition import_record ::
  "store_env \<Rightarrow> int \<Rightarrow> int \<Rightarrow> int \<Rightarrow> hash \<Rightarrow> bytes \<Rightarrow> import_stats \<Rightarrow> import_stats op" where
  "import_record E now kind hlc h blob st s =
     (if kind = OP_ADD
      then (if has_grain h s \<or> blob = [] then (Inr (count_skipped st), s)
            else bind_op (insert_blob E now blob h kind hlc) (\<lambda>_. ret (count_applied st)) s)
      else if kind = OP_SUPERSEDE then import_supersede E now h hlc blob st s
      else if kind = OP_FORGET
      then (case forget E now h s of
              (Inr _, s) \<Rightarrow> (Inr (count_applied st), s)
            | (Inl (NotFound _), s) \<Rightarrow> (Inr (count_skipped st), s)
            | (Inl e, s) \<Rightarrow> (Inl e, s))
      else (Inl (Format (''unknown bundle op '' @ int_str kind)), s))"

text \<open>Little-endian numbers of the record header.\<close>

fun le_value :: "bytes \<Rightarrow> nat" where
  "le_value [] = 0"
| "le_value (b # bs) = unat b + 256 * le_value bs"

definition le_i64 :: "bytes \<Rightarrow> int" where
  "le_i64 bs =
     (let n = int (le_value bs) in if n < 9223372036854775808 then n else n - 18446744073709551616)"

definition BUNDLE_MAGIC :: bytes where "BUNDLE_MAGIC = [0x4D, 0x47, 0x42, 0x31]"

text \<open>The replay of the records; \<open>data\<close> is what is left of the file.\<close>

function import_loop ::
  "store_env \<Rightarrow> int \<Rightarrow> int option \<Rightarrow> bytes \<Rightarrow> import_stats \<Rightarrow> import_stats op" where
  "import_loop E now max_hlc data st s =
     (if data = [] then (Inr st, s)
      else if length data < 45 then (Inl (Format ''truncated bundle record''), s)
      else
        let kind = int (unat (hd data));
            hlc = le_i64 (take 8 (drop 1 data));
            h = Hash (take 32 (drop 9 data));
            len = le_value (take 4 (drop 41 data));
            body = drop 45 data
        in if length body < len then (Inl (Format ''truncated bundle blob''), s)
           else if (case max_hlc of None \<Rightarrow> False | Some t \<Rightarrow> t < hlc)
           then import_loop E now max_hlc (drop len body) (count_skipped st) s
           else (case import_record E now kind hlc h (take len body) st s of
                   (Inl e, s) \<Rightarrow> (Inl e, s)
                 | (Inr st, s) \<Rightarrow> import_loop E now max_hlc (drop len body) st s))"
  by pat_completeness auto

termination
  by (relation "measure (\<lambda>(_, _, _, data, _, _). length data)") auto

declare import_loop.simps [simp del]

definition import_bundle_until ::
  "store_env \<Rightarrow> int \<Rightarrow> bytes \<Rightarrow> int option \<Rightarrow> import_stats op" where
  "import_bundle_until E now data max_hlc s =
     (if length data < 4 \<or> take 4 data \<noteq> BUNDLE_MAGIC
      then (Inl (Format ''not a MGB1 bundle''), s)
      else import_loop E now max_hlc (drop 4 data) \<lparr> applied = 0, skipped = 0 \<rparr> s)"

definition import_bundle :: "store_env \<Rightarrow> int \<Rightarrow> bytes \<Rightarrow> import_stats op" where
  "import_bundle E now data = import_bundle_until E now data None"

end
