(* ===== verification/Store_Inv.thy ===== *)
theory Store_Inv
  imports Store_Import
begin

text \<open>
  The invariant of a store file and its preservation by the statements and the local
  operations of \<open>Store_Write\<close>.
\<close>

section \<open>The invariant\<close>

definition grain_seqs :: "db \<Rightarrow> int set" where
  "grain_seqs d = gr_seq ` set (grains d)"

text \<open>Seqs and content addresses are keys.\<close>

definition ok_keys :: "db \<Rightarrow> bool" where
  "ok_keys d = (distinct (map gr_seq (grains d)) \<and> distinct (map gr_hash (grains d)))"

text \<open>Every index row points at a stored grain.\<close>

definition index_seqs :: "db \<Rightarrow> int set" where
  "index_seqs d =
     tr_seq ` set (triples d) \<union> tr_seq ` set (osp d)
     \<union> fst ` set (embeddings d) \<union> (fst \<circ> snd) ` set (fts_post d) \<union> fst ` set (fts_doc d)
     \<union> (snd \<circ> snd) ` set (thread_idx d) \<union> (snd \<circ> snd) ` set (prov_idx d)
     \<union> (snd \<circ> snd) ` set (run_idx d) \<union> set (corpus_idx d)"

definition ok_refs :: "db \<Rightarrow> bool" where
  "ok_refs d = (index_seqs d \<subseteq> grain_seqs d)"

text \<open>A tip is a stored grain of its cell that nothing supersedes, with its triple.\<close>

definition good_head :: "db \<Rightarrow> head_row \<Rightarrow> bool" where
  "good_head d h =
     ((\<exists>r \<in> set (grains d). gr_seq r = hd_seq h \<and> gr_hash r = hd_hash h
         \<and> gr_created r = hd_created h \<and> row_cell r = Some (head_key h) \<and> gr_svt r = None)
      \<and> head_object h d \<noteq> None)"

definition ok_heads :: "db \<Rightarrow> bool" where
  "ok_heads d = (\<forall>h \<in> set (heads d). good_head d h)"

text \<open>The value head of a cell is its best tip.\<close>

definition best_head :: "int \<times> int \<times> int \<Rightarrow> db \<Rightarrow> (int \<times> hash) option" where
  "best_head k d =
     (case cell_heads k d of [] \<Rightarrow> None | h # _ \<Rightarrow> Some (hd_seq h, hd_hash h))"

definition latest_head :: "int \<times> int \<times> int \<Rightarrow> db \<Rightarrow> (int \<times> hash) option" where
  "latest_head k d = map_option (\<lambda>e. (el_seq e, el_hash e)) (latest_row_of k d)"

definition ok_latest :: "db \<Rightarrow> bool" where
  "ok_latest d =
     (distinct (map latest_key (entity_latest d)) \<and> (\<forall>k. latest_head k d = best_head k d))"

lemma ok_latestD:
  "ok_latest d \<Longrightarrow> latest_head k d = best_head k d"
  "ok_latest d \<Longrightarrow> distinct (map latest_key (entity_latest d))"
  unfolding ok_latest_def by blast+

lemma ok_latestI:
  "distinct (map latest_key (entity_latest d)) \<Longrightarrow> (\<And>k. latest_head k d = best_head k d) \<Longrightarrow>
     ok_latest d"
  unfolding ok_latest_def by blast

definition db_ok :: "db \<Rightarrow> bool" where
  "db_ok d = (ok_keys d \<and> ok_refs d \<and> ok_heads d \<and> ok_latest d)"

section \<open>The value head\<close>

lemma latest_row_of_upsert:
  "latest_row_of k (put_latest e d) =
     (if latest_key e = k then Some e else latest_row_of k d)"
proof -
  have "find (\<lambda>x. latest_key x = k) (filter (\<lambda>x. latest_key x \<noteq> latest_key e) xs @ [e]) =
      (if latest_key e = k then Some e else find (\<lambda>x. latest_key x = k) xs)" for xs
    by (induction xs) auto
  then show ?thesis by (simp add: latest_row_of_def put_latest_def upsert_def)
qed

lemma distinct_upsert: "distinct (map key rows) \<Longrightarrow> distinct (map key (upsert key r rows))"
  unfolding upsert_def by (induction rows) auto

lemma find_delete_where:
  assumes "distinct (map key rows)"
  shows "find (\<lambda>x. key x = k) (delete_where P rows) =
    (case find (\<lambda>x. key x = k) rows of None \<Rightarrow> None | Some x \<Rightarrow> if P x then None else Some x)"
  using assms
proof (induction rows)
  case (Cons x rows)
  have none: "find (\<lambda>y. key y = k) (delete_where P rows) = None" if "key x = k"
  proof -
    have "key x \<notin> key ` set rows" using Cons.prems by simp
    then have "\<forall>y \<in> set rows. key y \<noteq> k" using that by (metis imageI)
    then show ?thesis by (simp add: find_None_iff_ball delete_where_def)
  qed
  show ?case
    using Cons none by (auto simp: delete_where_def)
qed (simp add: delete_where_def)

lemma distinct_delete_where: "distinct (map key rows) \<Longrightarrow> distinct (map key (delete_where P rows))"
  by (simp add: delete_where_def distinct_map_filter)

lemma elect_good:
  assumes "\<forall>h \<in> set (cell_heads k d). head_object h d \<noteq> None"
  shows "map_option (\<lambda>e. (el_seq e, el_hash e)) (elect k d) = best_head k d"
    and "elect k d = Some e \<Longrightarrow> latest_key e = k"
proof -
  have key: "\<forall>h \<in> set (cell_heads k d). head_key h = k" by (simp add: set_cell_heads)
  show "map_option (\<lambda>e. (el_seq e, el_hash e)) (elect k d) = best_head k d"
    using assms by (cases "cell_heads k d") (auto simp: elect_def best_head_def)
  show "latest_key e = k" if "elect k d = Some e"
    using assms key that
    by (cases "cell_heads k d") (auto simp: elect_def latest_key_def head_key_def)
qed

text \<open>
  Reconciling a cell after one of its grains has left restores the two head invariants,
  provided that nothing else was wrong.
\<close>

lemma cell_heads_delete:
  "cell_heads j (d\<lparr>heads := delete_where P (heads d)\<rparr>) = filter (\<lambda>h. \<not> P h) (cell_heads j d)"
proof -
  have "filter (\<lambda>h. \<not> P h) (rev (sort_key head_rank xs)) =
      rev (sort_key head_rank (filter (\<lambda>h. \<not> P h) xs))" for xs
    by (simp only: rev_filter [symmetric] filter_sort)
  then show ?thesis by (simp add: cell_heads_def delete_where_def conj_commute)
qed

lemma head_object_cong:
  "triples d' = triples d \<Longrightarrow> head_object h d' = head_object h d"
  by (simp add: head_object_def)

lemma best_head_cong: "heads d' = heads d \<Longrightarrow> best_head k d' = best_head k d"
  by (simp add: best_head_def cell_heads_def)

lemma latest_head_cong: "entity_latest d' = entity_latest d \<Longrightarrow> latest_head k d' = latest_head k d"
  by (simp add: latest_head_def latest_row_of_def)

lemma good_head_cong:
  "grains d' = grains d \<Longrightarrow> triples d' = triples d \<Longrightarrow> good_head d' h = good_head d h"
  by (simp add: good_head_def head_object_def)

lemma latest_head_put:
  "latest_head j (put_latest e d) =
     (if latest_key e = j then Some (el_seq e, el_hash e) else latest_head j d)"
  by (simp add: latest_head_def latest_row_of_upsert)

lemma ok_latest_put:
  assumes "distinct (map latest_key (entity_latest d))"
    and "\<And>j. j \<noteq> latest_key e \<Longrightarrow> latest_head j d = best_head j d"
    and "best_head (latest_key e) d = Some (el_seq e, el_hash e)"
  shows "ok_latest (put_latest e d)"
proof -
  have "best_head j (put_latest e d) = best_head j d" for j
    by (rule best_head_cong) (simp add: put_latest_def)
  moreover have "distinct (map latest_key (entity_latest (put_latest e d)))"
    using assms(1) by (simp add: put_latest_def distinct_upsert)
  moreover have "latest_head j (put_latest e d) = best_head j d" for j
    using assms(2) [of j] assms(3) unfolding latest_head_put by (cases "latest_key e = j") auto
  ultimately show ?thesis by (intro ok_latestI) simp_all
qed

lemma best_head_mem:
  "best_head k d = Some (q, h) \<Longrightarrow> \<exists>x \<in> set (heads d). head_key x = k \<and> hd_seq x = q \<and> hd_hash x = h"
  using set_cell_heads [of k d] by (auto simp: best_head_def split: list.splits)

text \<open>The tables that a reconciliation does not touch.\<close>

lemma reconcile_other [simp]:
  "grains (reconcile_cell k q d) = grains d" "triples (reconcile_cell k q d) = triples d"
  "osp (reconcile_cell k q d) = osp d" "embeddings (reconcile_cell k q d) = embeddings d"
  "fts_post (reconcile_cell k q d) = fts_post d" "fts_doc (reconcile_cell k q d) = fts_doc d"
  "thread_idx (reconcile_cell k q d) = thread_idx d" "prov_idx (reconcile_cell k q d) = prov_idx d"
  "run_idx (reconcile_cell k q d) = run_idx d" "corpus_idx (reconcile_cell k q d) = corpus_idx d"
  "oplog (reconcile_cell k q d) = oplog d" "terms (reconcile_cell k q d) = terms d"
  "heads (reconcile_cell k q d) =
     delete_where (\<lambda>h. head_key h = k \<and> hd_seq h = q) (heads d)"
  by (auto simp: reconcile_cell_def Let_def put_latest_def split: option.splits)

lemma reconcile_heads:
  assumes "\<And>h. h \<in> set (heads d) \<Longrightarrow> hd_seq h \<noteq> q \<Longrightarrow> good_head d h"
    and "\<And>h. h \<in> set (heads d) \<Longrightarrow> hd_seq h = q \<Longrightarrow> head_key h = k"
  shows "ok_heads (reconcile_cell k q d)"
  using assms
  by (auto simp: ok_heads_def set_delete_where good_head_cong [of "reconcile_cell k q d" d])

lemma reconcile_latest:
  assumes ok: "ok_latest d"
    and others: "\<And>h. h \<in> set (heads d) \<Longrightarrow> hd_seq h \<noteq> q \<Longrightarrow> head_object h d \<noteq> None"
  shows "ok_latest (reconcile_cell k q d)"
proof -
  let ?P = "\<lambda>h. head_key h = k \<and> hd_seq h = q"
  let ?Q = "\<lambda>e. latest_key e = k \<and> el_seq e = q"
  let ?d1 = "d\<lparr>heads := delete_where ?P (heads d),
      entity_latest := delete_where ?Q (entity_latest d)\<rparr>"
  have dist: "distinct (map latest_key (entity_latest ?d1))"
    using ok_latestD(2) [OF ok] by (simp add: distinct_delete_where)
  have heads1: "cell_heads j ?d1 = filter (\<lambda>h. \<not> ?P h) (cell_heads j d)" for j
    using cell_heads_delete [where d = d and P = ?P and j = j] by (simp add: cell_heads_def)
  have other: "latest_head j ?d1 = best_head j ?d1" if "j \<noteq> k" for j
  proof -
    have "filter (\<lambda>h. \<not> ?P h) (cell_heads j d) = cell_heads j d"
      using that set_cell_heads [of j d] by (intro filter_True) auto
    then have "best_head j ?d1 = best_head j d" by (simp add: best_head_def heads1)
    moreover have "latest_head j ?d1 = latest_head j d"
      using ok_latestD(2) [OF ok] that find_delete_where [where key = latest_key and rows = "entity_latest d" and k = j and P = ?Q]
        find_SomeD [of "\<lambda>e. latest_key e = j" "entity_latest d"]
      by (auto simp: latest_head_def latest_row_of_def split: option.splits)
    ultimately show ?thesis using ok_latestD(1) [OF ok] by simp
  qed
  have joined: "\<forall>h \<in> set (cell_heads k ?d1). head_object h ?d1 \<noteq> None"
    using others unfolding heads1 by (auto simp: set_cell_heads head_object_def)
  show ?thesis
  proof (cases "elect k ?d1")
    case (Some e)
    have "latest_key e = k" using elect_good(2) [OF joined Some] .
    moreover have "best_head k ?d1 = Some (el_seq e, el_hash e)"
      using elect_good(1) [OF joined] Some by simp
    ultimately have "ok_latest (put_latest e ?d1)"
      using dist other by (intro ok_latest_put) auto
    then show ?thesis using Some by (simp add: reconcile_cell_def Let_def)
  next
    case None
    then have best: "best_head k ?d1 = None" using elect_good(1) [OF joined] by simp
    have "latest_head k ?d1 = None"
    proof (cases "latest_row_of k d")
      case (Some e)
      then have "latest_head k d = Some (el_seq e, el_hash e)" by (simp add: latest_head_def)
      then have "best_head k d = Some (el_seq e, el_hash e)" using ok_latestD(1) [OF ok] by simp
      then obtain x where x: "x \<in> set (heads d)" "head_key x = k" "hd_seq x = el_seq e"
        using best_head_mem by blast
      have "filter (\<lambda>h. \<not> ?P h) (cell_heads k d) = []"
        using best by (auto simp: best_head_def heads1 split: list.splits)
      then have "hd_seq x = q" using x set_cell_heads [of k d] by (auto simp: filter_empty_conv)
      moreover have "latest_key e = k"
        using Some find_SomeD by (fastforce simp: latest_row_of_def)
      ultimately show ?thesis
        using ok_latestD(2) [OF ok] Some x find_delete_where [where key = latest_key and rows = "entity_latest d" and k = k and P = ?Q]
        by (simp add: latest_head_def latest_row_of_def)
    next
      case None
      then show ?thesis
        using ok_latestD(2) [OF ok] find_delete_where [where key = latest_key and rows = "entity_latest d" and k = k and P = ?Q]
        by (simp add: latest_head_def latest_row_of_def)
    qed
    then have "latest_head j ?d1 = best_head j ?d1" for j
      using other best by (cases "j = k") simp_all
    then have "ok_latest ?d1" using dist by (intro ok_latestI)
    then show ?thesis using None by (simp add: reconcile_cell_def Let_def)
  qed
qed

section \<open>Inserting\<close>

text \<open>What a table update leaves alone.\<close>

definition same_core :: "db \<Rightarrow> db \<Rightarrow> bool" where
  "same_core d d' =
     (grains d' = grains d \<and> triples d' = triples d \<and> osp d' = osp d \<and> heads d' = heads d
      \<and> entity_latest d' = entity_latest d \<and> oplog d' = oplog d)"

lemma insert_row_Inr: "insert_row col key r rows = Inr rows' \<Longrightarrow> rows' = rows @ [r]"
  by (auto simp: insert_row_def split: if_splits)

text \<open>An index insert keeps the core tables and adds rows of the new seq only.\<close>

definition index_step :: "int \<Rightarrow> db \<Rightarrow> db \<Rightarrow> bool" where
  "index_step sq d d' = (same_core d d' \<and> index_seqs d' \<subseteq> insert sq (index_seqs d))"

lemma index_step_trans: "index_step sq d d' \<Longrightarrow> index_step sq d' d'' \<Longrightarrow> index_step sq d d''"
  by (auto simp: index_step_def same_core_def)

lemma index_steps:
  "index_step sq d (insert_thread pr sq d)"
  "index_step sq d (insert_run pr sq d)"
  "index_step sq d (insert_parent pr sq d)"
  "insert_corpus pr sq d = Inr d' \<Longrightarrow> index_step sq d d'"
  "insert_embedding pr sq d = Inr d' \<Longrightarrow> index_step sq d d'"
      apply (auto simp: index_step_def same_core_def index_seqs_def insert_thread_def
        split: option.splits)[1]
     apply (auto simp: index_step_def same_core_def index_seqs_def insert_run_def
        split: option.splits)[1]
    apply (auto simp: index_step_def same_core_def index_seqs_def insert_parent_def
        split: option.splits)[1]
   apply (auto simp: index_step_def same_core_def index_seqs_def insert_corpus_def result_simps
        split: if_splits dest!: insert_row_Inr)[1]
  apply (auto simp: index_step_def same_core_def index_seqs_def insert_embedding_def result_simps
        split: option.splits dest!: insert_row_Inr)[1]
  done

lemma insert_aux_step: "insert_aux pr sq d = Inr d' \<Longrightarrow> index_step sq d d'"
proof -
  let ?a = "insert_run pr sq (insert_thread pr sq d)"
  assume "insert_aux pr sq d = Inr d'"
  then obtain b where b: "insert_corpus pr sq ?a = Inr b"
      "insert_embedding pr sq (insert_parent pr sq b) = Inr d'"
    by (auto simp: insert_aux_def result_simps)
  have "index_step sq d ?a" using index_step_trans index_steps(1,2) by metis
  then have "index_step sq d b" using index_step_trans index_steps(4) [OF b(1)] by metis
  then have "index_step sq d (insert_parent pr sq b)"
    using index_step_trans index_steps(3) by metis
  then show ?thesis using index_step_trans index_steps(5) [OF b(2)] by metis
qed

lemma insert_postings_step: "index_step sq d (insert_postings pr sq d)"
  by (auto simp: index_step_def same_core_def insert_postings_def index_seqs_def set_upsert)

lemma insert_grain_Inr:
  "insert_grain r d = Inr d' \<longleftrightarrow>
     gr_seq r \<notin> grain_seqs d \<and> gr_hash r \<notin> gr_hash ` set (grains d)
     \<and> d' = d\<lparr>grains := grains d @ [r]\<rparr>"
  by (auto simp: insert_grain_def grain_seqs_def)

lemma insert_op_Inr:
  "insert_op q hlc k h d = Inr d' \<longleftrightarrow>
     q \<notin> op_seq ` set (oplog d)
     \<and> d' = d\<lparr>oplog := oplog d @ [\<lparr> op_seq = q, op_hlc = hlc, op_kind = k, op_hash = h \<rparr>]\<rparr>"
  by (auto simp: insert_op_def insert_row_def result_simps)

lemma insert_links_other [simp]:
  "grains (insert_links pr sq d) = grains d" "heads (insert_links pr sq d) = heads d"
  "entity_latest (insert_links pr sq d) = entity_latest d"
  "oplog (insert_links pr sq d) = oplog d"
  by (simp_all add: insert_links_def Let_def)

lemma tr_seq_triple_at [simp]: "tr_seq (triple_at sq c) = sq"
  by (simp add: triple_at_def split: prod.splits)

lemma insert_links_index: "index_seqs (insert_links pr sq d) \<subseteq> insert sq (index_seqs d)"
  by (auto simp: insert_links_def Let_def index_seqs_def)

lemma insert_triple_other [simp]:
  "grains (insert_triple pr sq d) = grains d" "heads (insert_triple pr sq d) = heads d"
  "entity_latest (insert_triple pr sq d) = entity_latest d"
  "oplog (insert_triple pr sq d) = oplog d"
  by (simp_all add: insert_triple_def split: option.splits)

lemma insert_triple_index: "index_seqs (insert_triple pr sq d) \<subseteq> insert sq (index_seqs d)"
  by (auto simp: insert_triple_def index_seqs_def split: option.splits)

lemma claim_cell_other [simp]:
  "grains (claim_cell pr sq d) = grains d" "triples (claim_cell pr sq d) = triples d"
  "osp (claim_cell pr sq d) = osp d" "oplog (claim_cell pr sq d) = oplog d"
  by (auto simp: claim_cell_def put_latest_def Let_def split: option.splits)

lemma claim_cell_index [simp]: "index_seqs (claim_cell pr sq d) = index_seqs d"
  by (auto simp: claim_cell_def put_latest_def Let_def index_seqs_def split: option.splits)

definition inserted_triples :: "grain_prep \<Rightarrow> int \<Rightarrow> triple_row list" where
  "inserted_triples pr sq =
     (case prep_cell pr of None \<Rightarrow> [] | Some c \<Rightarrow> [triple_at sq c])
     @ map (\<lambda>(ls, lp, lo). triple_at sq (pp_ns pr, ls, lp, lo)) (pp_links pr)"

lemma insert_one_effect:
  assumes "insert_one pr sq op hlc d = Inr d'"
  shows "sq \<notin> grain_seqs d" and "pp_hash pr \<notin> gr_hash ` set (grains d)"
    and "grains d' = grains d @ [grain_of_prep sq pr]"
    and "triples d' = triples d @ inserted_triples pr sq"
    and "heads d' = heads (claim_cell pr sq d)"
    and "entity_latest d' = entity_latest (claim_cell pr sq d)"
    and "op \<notin> op_seq ` set (oplog d)"
    and "oplog d' = oplog d
      @ [\<lparr> op_seq = op, op_hlc = hlc, op_kind = OP_ADD, op_hash = pp_hash pr \<rparr>]"
    and "index_seqs d' \<subseteq> insert sq (index_seqs d)"
proof -
  let ?d0 = "d\<lparr>grains := grains d @ [grain_of_prep sq pr]\<rparr>"
  let ?d1 = "insert_links pr sq (claim_cell pr sq (insert_triple pr sq (insert_postings pr sq ?d0)))"
  from assms obtain d2 where new: "sq \<notin> grain_seqs d" "pp_hash pr \<notin> gr_hash ` set (grains d)"
    and aux: "insert_aux pr sq ?d1 = Inr d2"
    and opr: "insert_op op hlc OP_ADD (pp_hash pr) d2 = Inr d'"
    by (auto simp: insert_one_def Let_def result_simps insert_grain_Inr grain_of_prep_def)
  note core = insert_aux_step [OF aux, unfolded index_step_def same_core_def]
    insert_postings_step [of sq ?d0 pr, unfolded index_step_def same_core_def]
  have d': "d' = d2\<lparr>oplog := oplog d2
      @ [\<lparr> op_seq = op, op_hlc = hlc, op_kind = OP_ADD, op_hash = pp_hash pr \<rparr>]\<rparr>"
    and fresh: "op \<notin> op_seq ` set (oplog d2)"
    using opr by (auto simp: insert_op_Inr)
  show "sq \<notin> grain_seqs d" "pp_hash pr \<notin> gr_hash ` set (grains d)" by (fact new)+
  show "grains d' = grains d @ [grain_of_prep sq pr]" using core by (simp add: d')
  show "triples d' = triples d @ inserted_triples pr sq"
    using core by (simp add: d' insert_links_def insert_triple_def inserted_triples_def Let_def
        split: option.splits)
  have claim: "heads ?d1 = heads (claim_cell pr sq d)"
    "entity_latest ?d1 = entity_latest (claim_cell pr sq d)"
    using core by (auto simp: claim_cell_def put_latest_def Let_def split: option.splits)
  show "heads d' = heads (claim_cell pr sq d)"
    "entity_latest d' = entity_latest (claim_cell pr sq d)"
    using core claim by (simp_all add: d')
  show "op \<notin> op_seq ` set (oplog d)" using fresh core by simp
  show "oplog d' = oplog d
      @ [\<lparr> op_seq = op, op_hlc = hlc, op_kind = OP_ADD, op_hash = pp_hash pr \<rparr>]"
    using core by (simp add: d')
  have "index_seqs d' = index_seqs d2" by (simp add: d' index_seqs_def)
  moreover have "index_seqs d2 \<subseteq> insert sq (index_seqs ?d1)" using core by blast
  moreover have "index_seqs ?d1 \<subseteq>
      insert sq (index_seqs (claim_cell pr sq (insert_triple pr sq (insert_postings pr sq ?d0))))"
    by (rule insert_links_index)
  moreover have "index_seqs (insert_triple pr sq (insert_postings pr sq ?d0)) \<subseteq>
      insert sq (index_seqs (insert_postings pr sq ?d0))"
    by (rule insert_triple_index)
  moreover have "index_seqs (insert_postings pr sq ?d0) \<subseteq> insert sq (index_seqs ?d0)"
    using core by blast
  moreover have "index_seqs ?d0 = index_seqs d" by (simp add: index_seqs_def)
  ultimately show "index_seqs d' \<subseteq> insert sq (index_seqs d)"
    unfolding claim_cell_index by blast
qed

lemma prep_cell_Some:
  "prep_cell pr = Some (ns, s, p, ob) \<longleftrightarrow>
     ns = pp_ns pr \<and> pp_s pr = Some s \<and> pp_p pr = Some p \<and> pp_o pr = Some ob"
  by (auto simp: prep_cell_def split: option.splits)

lemma head_at_sel [simp]:
  "head_key (head_at sq h c (ns, s, p, ob)) = (ns, s, p)"
  "hd_seq (head_at sq h c x) = sq" "hd_hash (head_at sq h c x) = h"
  "hd_created (head_at sq h c x) = c"
  by (cases x; simp add: head_at_def head_key_def)+

lemma latest_at_sel [simp]:
  "latest_key (latest_at sq h (ns, s, p, ob)) = (ns, s, p)"
  "el_seq (latest_at sq h x) = sq" "el_hash (latest_at sq h x) = h"
  by (cases x; simp add: latest_at_def latest_key_def)+

text \<open>Claiming a cell leaves the new grain as its only tip and its value head.\<close>

lemma cell_heads_claim:
  assumes "prep_cell pr = Some (ns, s, p, ob)"
  shows "cell_heads j (claim_cell pr sq d) =
    (if j = (ns, s, p) then [head_at sq (pp_hash pr) (pp_created pr) (ns, s, p, ob)]
     else cell_heads j d)"
proof -
  have "filter (\<lambda>h. head_key h = j) (delete_where (\<lambda>h. head_key h = (ns, s, p)) hs) =
      (if j = (ns, s, p) then [] else filter (\<lambda>h. head_key h = j) hs)" for hs
    by (induction hs) (auto simp: delete_where_def)
  then show ?thesis
    using assms by (simp add: cell_heads_def claim_cell_def put_latest_def Let_def)
qed

lemma claim_latest:
  assumes "ok_latest d"
  shows "ok_latest (claim_cell pr sq d)"
proof (cases "prep_cell pr")
  case None
  then show ?thesis using assms by (simp add: claim_cell_def)
next
  case (Some c)
  obtain ns s p ob where c: "prep_cell pr = Some (ns, s, p, ob)" using Some by (cases c) auto
  let ?e = "latest_at sq (pp_hash pr) (ns, s, p, ob)"
  have lat: "latest_head j (claim_cell pr sq d) = latest_head j (put_latest ?e d)" for j
    by (rule latest_head_cong) (simp add: claim_cell_def c Let_def)
  have el: "entity_latest (claim_cell pr sq d) = entity_latest (put_latest ?e d)"
    by (simp add: claim_cell_def c Let_def)
  show ?thesis
  proof (rule ok_latestI)
    show "distinct (map latest_key (entity_latest (claim_cell pr sq d)))"
      using ok_latestD(2) [OF assms] unfolding el by (simp add: put_latest_def distinct_upsert)
    show "latest_head j (claim_cell pr sq d) = best_head j (claim_cell pr sq d)" for j
      unfolding lat latest_head_put best_head_def cell_heads_claim [OF c]
      using ok_latestD(1) [OF assms, of j] by (auto simp: best_head_def)
  qed
qed

lemma head_object_None:
  "head_object h d = None \<longleftrightarrow>
     (\<forall>t \<in> set (triples d). \<not> (tr_seq t = hd_seq h \<and> tr_ns t = hd_ns h \<and> tr_s t = hd_s h
        \<and> tr_p t = hd_p h))"
  by (simp add: head_object_def find_None_iff_ball)

lemma head_object_append:
  assumes "head_object h d \<noteq> None" and "triples d' = triples d @ ts"
  shows "head_object h d' \<noteq> None"
  using assms unfolding head_object_def by (auto simp: find_None_iff)

lemma good_head_grow:
  assumes "good_head d h" and "grains d' = grains d @ gs" and "triples d' = triples d @ ts"
  shows "good_head d' h"
  using assms head_object_append [OF _ assms(3)] unfolding good_head_def by auto

lemma good_head_new:
  assumes c: "prep_cell pr = Some c"
    and g: "grains d' = gs @ [grain_of_prep sq pr]"
    and t: "triples d' = ts @ inserted_triples pr sq"
  shows "good_head d' (head_at sq (pp_hash pr) (pp_created pr) c)"
proof -
  obtain ns s p ob where c': "c = (ns, s, p, ob)" by (cases c)
  have "row_cell (grain_of_prep sq pr) = Some (ns, s, p)"
    using c by (auto simp: c' prep_cell_Some row_cell_def grain_of_prep_def)
  moreover have "triple_at sq c \<in> set (triples d')"
    using t c by (simp add: inserted_triples_def)
  then have "head_object (head_at sq (pp_hash pr) (pp_created pr) c) d' \<noteq> None"
    unfolding head_object_None c' by (force simp: triple_at_def head_at_def)
  ultimately show ?thesis
    by (auto simp: good_head_def g c' grain_of_prep_def)
qed

lemma claim_heads_mem:
  "h \<in> set (heads (claim_cell pr sq d)) \<Longrightarrow>
     h \<in> set (heads d)
     \<or> (\<exists>c. prep_cell pr = Some c \<and> h = head_at sq (pp_hash pr) (pp_created pr) c)"
  by (auto simp: claim_cell_def Let_def put_latest_def set_delete_where split: option.splits)

lemma insert_one_ok:
  assumes "insert_one pr sq op hlc d = Inr d'" and "db_ok d"
  shows "db_ok d'"
proof -
  note eff = insert_one_effect [OF assms(1)]
  have "ok_keys d'"
    using assms(2) eff(1,2)
    by (auto simp: db_ok_def ok_keys_def eff(3) grain_of_prep_def grain_seqs_def)
  moreover have "ok_refs d'"
    using assms(2) eff(9) by (auto simp: db_ok_def ok_refs_def grain_seqs_def eff(3) grain_of_prep_def)
  moreover have "ok_heads d'"
    unfolding ok_heads_def
  proof
    fix h assume "h \<in> set (heads d')"
    then consider "h \<in> set (heads d)"
      | c where "prep_cell pr = Some c" "h = head_at sq (pp_hash pr) (pp_created pr) c"
      unfolding eff(5) using claim_heads_mem by blast
    then show "good_head d' h"
    proof cases
      case 1
      then have "good_head d h" using assms(2) by (simp add: db_ok_def ok_heads_def)
      then show ?thesis by (rule good_head_grow [OF _ eff(3,4)])
    next
      case 2
      then show ?thesis using good_head_new [OF _ eff(3,4)] by simp
    qed
  qed
  moreover have "ok_latest d'"
  proof -
    have "ok_latest (claim_cell pr sq d)" using assms(2) claim_latest by (simp add: db_ok_def)
    then show ?thesis
      using ok_latestD latest_head_cong [OF eff(6)] best_head_cong [OF eff(5)]
      by (intro ok_latestI) (simp_all add: eff(6))
  qed
  ultimately show ?thesis by (simp add: db_ok_def)
qed

lemma insert_prepped_ok:
  "insert_prepped prs sq op hlc d = Inr d' \<Longrightarrow> db_ok d \<Longrightarrow> db_ok d'"
  by (induction prs arbitrary: sq op hlc d) (auto simp: result_simps dest: insert_one_ok)

section \<open>Closing a grain\<close>

lemma close_other [simp]:
  "heads (close_grain q h t d) = heads d" "entity_latest (close_grain q h t d) = entity_latest d"
  "oplog (close_grain q h t d) = oplog d"
  "heads (link_supersedes n ol d) = heads d"
  "entity_latest (link_supersedes n ol d) = entity_latest d"
  "triples (link_supersedes n ol d) = triples d" "oplog (link_supersedes n ol d) = oplog d"
  by (simp_all add: close_grain_def link_supersedes_def)

lemma close_keys [simp]:
  "map gr_seq (grains (close_grain q h t d)) = map gr_seq (grains d)"
  "map gr_hash (grains (close_grain q h t d)) = map gr_hash (grains d)"
  "map gr_seq (grains (link_supersedes n ol d)) = map gr_seq (grains d)"
  "map gr_hash (grains (link_supersedes n ol d)) = map gr_hash (grains d)"
  by (simp_all add: close_grain_def link_supersedes_def map_update_where)

lemma close_seqs [simp]:
  "grain_seqs (close_grain q h t d) = grain_seqs d" "index_seqs (close_grain q h t d) = index_seqs d"
  "grain_seqs (link_supersedes n ol d) = grain_seqs d"
  "index_seqs (link_supersedes n ol d) = index_seqs d"
proof -
  have tr: "tr_seq ` set (update_where P (\<lambda>t. t\<lparr>tr_cur := False\<rparr>) xs) = tr_seq ` set xs" for P xs
    using map_update_where [of tr_seq "\<lambda>t. t\<lparr>tr_cur := False\<rparr>" P xs]
    by (metis list.set_map triple_row.select_convs(5) triple_row.surjective
        triple_row.update_convs(6))
  show "grain_seqs (close_grain q h t d) = grain_seqs d"
    "grain_seqs (link_supersedes n ol d) = grain_seqs d"
    unfolding grain_seqs_def by (metis close_keys(1,3) list.set_map)+
  show "index_seqs (close_grain q h t d) = index_seqs d"
    by (simp add: close_grain_def index_seqs_def tr)
  show "index_seqs (link_supersedes n ol d) = index_seqs d"
    by (simp add: link_supersedes_def index_seqs_def)
qed

lemma find_update_where:
  "(\<And>r. P (f r) = P r) \<Longrightarrow>
     find P (update_where Q f xs) = map_option (\<lambda>r. if Q r then f r else r) (find P xs)"
  by (induction xs) (auto simp: update_where_def)

lemma head_object_close [simp]:
  "head_object x (close_grain q h t d) = head_object x d"
  "head_object x (link_supersedes n ol d) = head_object x d"
proof -
  show "head_object x (link_supersedes n ol d) = head_object x d" by (simp add: head_object_def)
  show "head_object x (close_grain q h t d) = head_object x d"
    by (simp add: head_object_def close_grain_def find_update_where option.map_comp comp_def
        if_distrib cong: if_cong)
qed

lemma good_head_close:
  "good_head d x \<Longrightarrow> hd_seq x \<noteq> q \<Longrightarrow> good_head (close_grain q h t d) x"
  unfolding good_head_def head_object_close
  by (auto simp: close_grain_def set_update_where)

lemma good_head_link: "good_head d x \<Longrightarrow> good_head (link_supersedes n ol d) x"
proof -
  let ?f = "\<lambda>r. if gr_hash r = n then r\<lparr>gr_supersedes := Some ol\<rparr> else r"
  assume "good_head d x"
  then obtain r where r: "r \<in> set (grains d)" "gr_seq r = hd_seq x" "gr_hash r = hd_hash x"
      "gr_created r = hd_created x" "row_cell r = Some (head_key x)" "gr_svt r = None"
      "head_object x d \<noteq> None"
    by (auto simp: good_head_def)
  have "?f r \<in> set (grains (link_supersedes n ol d))"
    using r(1) by (auto simp: link_supersedes_def update_where_def)
  moreover have "row_cell (?f r) = row_cell r"
    by (simp add: row_cell_def split: option.splits)
  ultimately show ?thesis
    unfolding good_head_def head_object_close using r by (intro conjI bexI [of _ "?f r"]) auto
qed

lemma ok_latest_cong:
  "heads d' = heads d \<Longrightarrow> entity_latest d' = entity_latest d \<Longrightarrow> ok_latest d' = ok_latest d"
  by (simp add: ok_latest_def best_head_def cell_heads_def latest_head_def latest_row_of_def)

text \<open>
  The step that \<^verbatim>\<open>supersede\<close> takes after its insert: close the old grain, link the new one,
  and reconcile the old cell.
\<close>

definition retire :: "hash \<Rightarrow> grain_row \<Rightarrow> hash \<Rightarrow> int \<Rightarrow> db \<Rightarrow> db" where
  "retire old r new now d =
     (let d = close_grain (gr_seq r) new now d;
          d = link_supersedes new old d
      in (case row_cell r of None \<Rightarrow> d | Some k \<Rightarrow> reconcile_cell k (gr_seq r) d))"

lemma seq_unique: "ok_keys d \<Longrightarrow> a \<in> set (grains d) \<Longrightarrow> b \<in> set (grains d) \<Longrightarrow>
    gr_seq a = gr_seq b \<Longrightarrow> a = b"
  unfolding ok_keys_def by (metis distinct_map inj_onD)

lemma hash_unique: "ok_keys d \<Longrightarrow> a \<in> set (grains d) \<Longrightarrow> b \<in> set (grains d) \<Longrightarrow>
    gr_hash a = gr_hash b \<Longrightarrow> a = b"
  unfolding ok_keys_def by (metis distinct_map inj_onD)

text \<open>A tip with the seq of a stored grain is a tip of that grain's cell.\<close>

lemma head_of_row:
  assumes "ok_keys d" "ok_heads d" "r \<in> set (grains d)" "h \<in> set (heads d)" "hd_seq h = gr_seq r"
  shows "row_cell r = Some (head_key h)" and "gr_svt r = None"
proof -
  obtain x where "x \<in> set (grains d)" "gr_seq x = hd_seq h" "row_cell x = Some (head_key h)"
      "gr_svt x = None"
    using assms(2,4) by (auto simp: ok_heads_def good_head_def)
  with seq_unique [OF assms(1), of x r] assms(3,5)
  show "row_cell r = Some (head_key h)" "gr_svt r = None" by auto
qed

lemma retire_ok:
  assumes "db_ok d" and r: "r \<in> set (grains d)"
  shows "db_ok (retire old r new now d)"
proof -
  let ?q = "gr_seq r"
  let ?d = "link_supersedes new old (close_grain ?q new now d)"
  have ok: "ok_keys d" "ok_refs d" "ok_heads d" "ok_latest d" using assms(1) by (simp_all add: db_ok_def)
  have keys: "ok_keys ?d" "ok_refs ?d" using ok(1,2) by (simp_all add: ok_keys_def ok_refs_def)
  have good: "good_head ?d h" if "h \<in> set (heads ?d)" "hd_seq h \<noteq> ?q" for h
    using that ok(3) by (intro good_head_link good_head_close) (auto simp: ok_heads_def)
  have key: "row_cell r = Some (head_key h)" if "h \<in> set (heads ?d)" "hd_seq h = ?q" for h
    using head_of_row(1) [OF ok(1,3) r, of h] that by simp
  have lat: "ok_latest ?d" using ok(4) by (simp add: ok_latest_cong [of ?d d])
  show ?thesis
  proof (cases "row_cell r")
    case None
    have "ok_heads ?d" unfolding ok_heads_def using good key None by fastforce
    then show ?thesis using keys lat None by (simp add: retire_def Let_def db_ok_def)
  next
    case (Some k)
    have "ok_heads (reconcile_cell k ?q ?d)"
      by (rule reconcile_heads) (use good key Some in auto)
    moreover have "ok_latest (reconcile_cell k ?q ?d)"
      by (rule reconcile_latest [OF lat]) (use good in \<open>auto simp: good_head_def\<close>)
    moreover have "ok_keys (reconcile_cell k ?q ?d)" "ok_refs (reconcile_cell k ?q ?d)"
      using keys by (simp_all add: ok_keys_def ok_refs_def index_seqs_def grain_seqs_def)
    ultimately show ?thesis using Some by (simp add: retire_def Let_def db_ok_def)
  qed
qed

lemma supersede_txn_cases:
  "supersede_txn old pr (sq, op, hlc) op2 now d = Inr (u, d') \<longleftrightarrow>
     (\<exists>r d1. find_grain old d = Some r \<and> gr_svt r = None
        \<and> insert_one pr sq op hlc d = Inr d1
        \<and> insert_op (fst op2) (snd op2) OP_SUPERSEDE (pp_hash pr)
            (retire old r (pp_hash pr) now d1) = Inr d')"
  by (auto simp: supersede_txn_def Let_def result_simps retire_def split: option.splits)

lemma db_ok_oplog: "db_ok (d\<lparr>oplog := x\<rparr>) = db_ok d"
proof -
  have "good_head (d\<lparr>oplog := x\<rparr>) h = good_head d h" for h by (rule good_head_cong) simp_all
  moreover have "ok_latest (d\<lparr>oplog := x\<rparr>) = ok_latest d" by (rule ok_latest_cong) simp_all
  ultimately show ?thesis
    by (simp add: db_ok_def ok_keys_def ok_refs_def ok_heads_def index_seqs_def grain_seqs_def)
qed

lemma insert_op_ok: "insert_op q hlc k h d = Inr d' \<Longrightarrow> db_ok d \<Longrightarrow> db_ok d'"
  by (auto simp: insert_op_Inr db_ok_oplog)

lemma supersede_txn_ok:
  assumes "supersede_txn old pr ids op2 now d = Inr (u, d')" and "db_ok d"
  shows "db_ok d'"
proof -
  obtain sq op hlc where ids: "ids = (sq, op, hlc)" by (cases ids)
  obtain r d1 where r: "find_grain old d = Some r" and d1: "insert_one pr sq op hlc d = Inr d1"
    and d': "insert_op (fst op2) (snd op2) OP_SUPERSEDE (pp_hash pr)
        (retire old r (pp_hash pr) now d1) = Inr d'"
    using assms(1) unfolding ids supersede_txn_cases by blast
  have "r \<in> set (grains d1)"
    using find_grain_Some [OF r] insert_one_effect(3) [OF d1] by simp
  then have "db_ok (retire old r (pp_hash pr) now d1)"
    using insert_one_ok [OF d1 assms(2)] by (intro retire_ok)
  then show ?thesis by (rule insert_op_ok [OF d'])
qed

section \<open>Forgetting\<close>

lemma forget_rows_index: "index_seqs (forget_rows q d) \<subseteq> index_seqs d - {q}"
  unfolding index_seqs_def forget_rows_def by (auto simp: set_delete_where)

lemma forget_rows_other [simp]:
  "heads (forget_rows q d) = heads d" "entity_latest (forget_rows q d) = entity_latest d"
  "oplog (forget_rows q d) = oplog d"
  "grains (forget_rows q d) = delete_where (\<lambda>r. gr_seq r = q) (grains d)"
  by (simp_all add: forget_rows_def)

lemma good_head_forget:
  assumes "good_head d h" and "hd_seq h \<noteq> q"
  shows "good_head (forget_rows q d) h"
proof -
  have "head_object h (forget_rows q d) \<noteq> None"
    using assms unfolding good_head_def head_object_None
    by (auto simp: forget_rows_def set_delete_where)
  with assms show ?thesis unfolding good_head_def by (auto simp: set_delete_where)
qed

definition erase :: "grain_row \<Rightarrow> db \<Rightarrow> db" where
  "erase r d =
     (case row_cell r of
        None \<Rightarrow> forget_rows (gr_seq r) d
      | Some k \<Rightarrow> reconcile_cell k (gr_seq r) (forget_rows (gr_seq r) d))"

lemma erase_ok:
  assumes "db_ok d" and r: "r \<in> set (grains d)"
  shows "db_ok (erase r d)"
proof -
  let ?q = "gr_seq r"
  let ?d = "forget_rows ?q d"
  have ok: "ok_keys d" "ok_refs d" "ok_heads d" "ok_latest d" using assms(1) by (simp_all add: db_ok_def)
  have keys: "ok_keys ?d" using ok(1) by (simp add: ok_keys_def distinct_delete_where)
  have refs: "ok_refs ?d"
    using ok(2) forget_rows_index [of ?q d] by (auto simp: ok_refs_def grain_seqs_def set_delete_where)
  have good: "good_head ?d h" if "h \<in> set (heads ?d)" "hd_seq h \<noteq> ?q" for h
    using that ok(3) by (intro good_head_forget) (auto simp: ok_heads_def)
  have key: "row_cell r = Some (head_key h)" if "h \<in> set (heads ?d)" "hd_seq h = ?q" for h
    using head_of_row(1) [OF ok(1,3) r, of h] that by simp
  have lat: "ok_latest ?d" using ok(4) by (simp add: ok_latest_cong [of ?d d])
  show ?thesis
  proof (cases "row_cell r")
    case None
    have "ok_heads ?d" unfolding ok_heads_def using good key None by fastforce
    then show ?thesis using keys refs lat None by (simp add: erase_def db_ok_def)
  next
    case (Some k)
    have "ok_heads (reconcile_cell k ?q ?d)"
      by (rule reconcile_heads) (use good key Some in auto)
    moreover have "ok_latest (reconcile_cell k ?q ?d)"
      by (rule reconcile_latest [OF lat]) (use good in \<open>auto simp: good_head_def\<close>)
    moreover have "ok_keys (reconcile_cell k ?q ?d)" "ok_refs (reconcile_cell k ?q ?d)"
      using keys refs by (simp_all add: ok_keys_def ok_refs_def index_seqs_def grain_seqs_def)
    ultimately show ?thesis using Some by (simp add: erase_def db_ok_def)
  qed
qed

lemma forget_txn_cases:
  "find_grain h d = Some r \<Longrightarrow>
     forget_txn h (row_cell r) op d = Inr (len, d') \<longleftrightarrow>
       len = map_of (fts_doc d) (gr_seq r)
       \<and> insert_op (fst op) (snd op) OP_FORGET h (erase r d) = Inr d'"
  by (auto simp: forget_txn_def Let_def result_simps erase_def split: option.splits)

lemma forget_txn_ok:
  assumes "forget_txn h (row_cell r) op d = Inr (len, d')" and "find_grain h d = Some r" and "db_ok d"
  shows "db_ok d'"
  using assms find_grain_Some [OF assms(2)]
  by (auto simp: forget_txn_cases intro: insert_op_ok erase_ok)

text \<open>Nothing of an erased grain is left in any table.\<close>

definition mentions :: "int \<Rightarrow> hash \<Rightarrow> db \<Rightarrow> bool" where
  "mentions q h d =
     (q \<in> grain_seqs d \<or> h \<in> gr_hash ` set (grains d) \<or> q \<in> index_seqs d
      \<or> q \<in> hd_seq ` set (heads d) \<or> q \<in> el_seq ` set (entity_latest d))"

lemma erase_gone:
  assumes "db_ok d" and r: "r \<in> set (grains d)"
  shows "\<not> mentions (gr_seq r) (gr_hash r) (erase r d)"
proof -
  let ?q = "gr_seq r"
  have ok': "db_ok (erase r d)" by (rule erase_ok [OF assms])
  have g: "grains (erase r d) = delete_where (\<lambda>x. gr_seq x = ?q) (grains d)"
    by (simp add: erase_def split: option.splits)
  then have a: "?q \<notin> grain_seqs (erase r d)" by (auto simp: grain_seqs_def set_delete_where)
  have b: "gr_hash r \<notin> gr_hash ` set (grains (erase r d))"
    using assms hash_unique [of d] unfolding g by (auto simp: set_delete_where db_ok_def)
  have c: "?q \<notin> index_seqs (erase r d)"
    using ok' a by (auto simp: db_ok_def ok_refs_def)
  have e: "?q \<notin> hd_seq ` set (heads (erase r d))"
  proof
    assume "?q \<in> hd_seq ` set (heads (erase r d))"
    then obtain h where "h \<in> set (heads (erase r d))" "hd_seq h = ?q" by auto
    moreover from this obtain x where "x \<in> set (grains (erase r d))" "gr_seq x = hd_seq h"
      using ok' by (auto simp: db_ok_def ok_heads_def good_head_def)
    ultimately have "?q \<in> grain_seqs (erase r d)" unfolding grain_seqs_def by (metis imageI)
    with a show False by simp
  qed
  have "?q \<notin> el_seq ` set (entity_latest (erase r d))"
  proof
    assume "?q \<in> el_seq ` set (entity_latest (erase r d))"
    then obtain x where x: "x \<in> set (entity_latest (erase r d))" "el_seq x = ?q" by auto
    have lat: "ok_latest (erase r d)" using ok' by (simp add: db_ok_def)
    have "latest_row_of (latest_key x) (erase r d) = Some x"
      unfolding latest_row_of_def by (rule find_by_key [OF ok_latestD(2) [OF lat] x(1)])
    then have "best_head (latest_key x) (erase r d) = Some (?q, el_hash x)"
      using ok_latestD(1) [OF lat, of "latest_key x"] x(2) by (simp add: latest_head_def)
    then show False using best_head_mem e by (metis imageI)
  qed
  with a b c e show ?thesis by (simp add: mentions_def)
qed

end
