(* ===== verification/Store_Frame.thy ===== *)
theory Store_Frame
  imports Store_Inv
begin

text \<open>
  What preparing a grain can change: the dictionary and the vocabulary, and nothing else; and
  what the prepared grain says of the grain it was made from.
\<close>

section \<open>The frame of a preparation\<close>

definition core_of :: "db \<Rightarrow> db" where
  "core_of d = d\<lparr>terms := [], vocab := []\<rparr>"

lemma core_of_simps [simp]:
  "core_of (d\<lparr>terms := t\<rparr>) = core_of d" "core_of (d\<lparr>vocab := v\<rparr>) = core_of d"
  by (simp_all add: core_of_def)

text \<open>The in-memory dictionary is the \<^verbatim>\<open>terms\<close> table, injective in both directions.\<close>

definition dict_ok :: "store \<Rightarrow> bool" where
  "dict_ok s =
     (distinct (map fst (dict s)) \<and> distinct (map snd (dict s))
      \<and> (\<forall>i \<in> snd ` set (dict s). i < next_term s)
      \<and> set (terms (st_db s)) = (\<lambda>(t, i). (i, t)) ` set (dict s))"

definition prep_frame :: "store \<Rightarrow> store \<Rightarrow> bool" where
  "prep_frame s s' =
     (core_of (st_db s') = core_of (st_db s)
      \<and> next_seq s' = next_seq s \<and> next_op s' = next_op s \<and> hlc_last s' = hlc_last s
      \<and> fts_docs s' = fts_docs s \<and> fts_total_len s' = fts_total_len s
      \<and> index_text s' = index_text s \<and> fts_deferred s' = fts_deferred s
      \<and> entity_rels s' = entity_rels s \<and> cas_files s' = cas_files s
      \<and> needs_min_reader_stamp s' = needs_min_reader_stamp s
      \<and> map_of (dict s) \<subseteq>\<^sub>m map_of (dict s') \<and> (dict_ok s \<longrightarrow> dict_ok s'))"

definition framed :: "'a op \<Rightarrow> bool" where
  "framed m = (\<forall>s. prep_frame s (snd (m s)))"

named_theorems frame_rules "operations that keep the frame"

lemma prep_frame_refl [simp]: "prep_frame s s"
  by (simp add: prep_frame_def)

lemma prep_frame_trans: "prep_frame s s' \<Longrightarrow> prep_frame s' s'' \<Longrightarrow> prep_frame s s''"
  unfolding prep_frame_def by (auto intro: map_le_trans)

lemma framed_ret [frame_rules]: "framed (ret x)"
  by (simp add: framed_def ret_def)

lemma framed_fail [frame_rules]: "framed (fail e)"
  by (simp add: framed_def fail_def)

lemma framed_lift [frame_rules]: "framed (lift_res r)"
  by (simp add: framed_def lift_res_def)

lemma framed_bind [frame_rules]:
  assumes "framed m" and "\<And>x. framed (f x)"
  shows "framed (bind_op m f)"
  unfolding framed_def
proof
  fix s
  have "prep_frame s (snd (m s))" using assms(1) by (simp add: framed_def)
  then show "prep_frame s (snd (bind_op m f s))"
    using assms(2) prep_frame_trans
    by (cases "m s") (auto simp: bind_op_def framed_def split: sum.splits)
qed

text \<open>With a sound dictionary, interning a term never fails.\<close>

lemma insert_term_fresh:
  assumes "dict_ok s" and "map_of (dict s) t = None"
  shows "insert_term (next_term s) t (st_db s)
    = Inr ((st_db s)\<lparr>terms := terms (st_db s) @ [(next_term s, t)]\<rparr>)"
proof -
  have terms: "set (terms (st_db s)) = (\<lambda>(t, i). (i, t)) ` set (dict s)"
    using assms(1) by (simp add: dict_ok_def)
  have "next_term s \<notin> snd ` set (dict s)" using assms(1) by (auto simp: dict_ok_def)
  then have "next_term s \<notin> fst ` set (terms (st_db s))" unfolding terms by force
  moreover have "t \<notin> fst ` set (dict s)" using assms(2) by (simp add: map_of_eq_None_iff)
  then have "t \<notin> snd ` set (terms (st_db s))" unfolding terms by force
  ultimately show ?thesis by (simp add: insert_term_def)
qed

lemma dict_ok_extend:
  assumes "dict_ok s" and "map_of (dict s) t = None"
    and "insert_term (next_term s) t (st_db s) = Inr d"
  shows "dict_ok (s\<lparr>next_term := next_term s + 1, st_db := d, dict := (t, next_term s) # dict s\<rparr>)"
proof -
  have "t \<notin> fst ` set (dict s)" using assms(2) by (simp add: map_of_eq_None_iff)
  moreover have "next_term s \<notin> snd ` set (dict s)" using assms(1) by (auto simp: dict_ok_def)
  moreover have "terms d = terms (st_db s) @ [(next_term s, t)]"
    using assms insert_term_fresh by auto
  ultimately show ?thesis using assms(1) by (auto simp: dict_ok_def)
qed

lemma framed_term_id [frame_rules]: "framed (term_id t)"
proof -
  have "prep_frame s (snd (term_id t s))" for s
  proof (cases "map_of (dict s) t")
    case None
    let ?i = "next_term s"
    show ?thesis
    proof (cases "insert_term ?i t (st_db s)")
      case (Inl e)
      then have "\<not> dict_ok s" using insert_term_fresh [OF _ None] by auto
      then show ?thesis using Inl by (simp add: term_id_def Let_def None prep_frame_def)
    next
      case (Inr d)
      then have "core_of d = core_of (st_db s)"
        by (auto simp: insert_term_def split: if_splits)
      moreover have "map_of (dict s) \<subseteq>\<^sub>m map_of ((t, ?i) # dict s)"
        using None by (auto simp: map_le_def)
      ultimately show ?thesis
        using Inr dict_ok_extend [OF _ None Inr] by (simp add: term_id_def Let_def None prep_frame_def)
    qed
  qed (simp add: term_id_def)
  then show ?thesis by (simp add: framed_def)
qed

lemma framed_opt_term [frame_rules]: "framed (opt_term t)"
proof (cases t)
  case None
  then show ?thesis by (simp add: opt_term_def framed_ret)
next
  case (Some x)
  have "framed (bind_op (term_id x) (\<lambda>i. ret (Some i)))"
    by (intro framed_bind framed_term_id framed_ret)
  then show ?thesis by (simp add: opt_term_def Some)
qed

lemma framed_fts_term [frame_rules]: "framed (fts_term_id t)"
proof -
  have "prep_frame s (snd (fts_term_id t s))" for s
    by (cases "find (\<lambda>(i, u). u = t) (vocab (st_db s))")
      (simp_all add: fts_term_id_def Let_def prep_frame_def split_beta dict_ok_def)
  then show ?thesis by (simp add: framed_def)
qed

lemma framed_map_op [frame_rules]:
  assumes "\<And>x. framed (f x)"
  shows "framed (map_op f xs)"
proof (induction xs)
  case Nil
  show ?case by (simp add: framed_ret)
next
  case (Cons x xs)
  then show ?case by (simp add: framed_bind framed_ret assms)
qed

lemma framed_at: "framed m \<Longrightarrow> prep_frame s (snd (m s))"
  by (simp add: framed_def)

lemma framedI: "(\<And>s. prep_frame s (snd (m s))) \<Longrightarrow> framed m"
  by (simp add: framed_def)

lemma framed_prep_triple [frame_rules]: "framed (prep_triple gv)"
proof (rule framedI)
  fix s
  show "prep_frame s (snd (prep_triple gv s))"
  proof (cases "\<exists>sj rl ob. gv_subject gv = Some sj \<and> gv_relation gv = Some rl \<and> gv_object gv = Some ob")
    case True
    then obtain sj rl ob where g: "gv_subject gv = Some sj" "gv_relation gv = Some rl"
        "gv_object gv = Some ob"
      by blast
    show ?thesis unfolding prep_triple_def g option.case prod.case
      by (intro framed_at framed_bind framed_term_id framed_ret)
  next
    case False
    then have "prep_triple gv s = (Inr (None, None, None, False), s)"
      by (auto simp: prep_triple_def split: option.splits)
    then show ?thesis by simp
  qed
qed

lemma framed_prep_tokens [frame_rules]: "framed (prep_tokens tx)"
proof (rule framedI)
  fix s
  show "prep_frame s (snd (prep_tokens tx s))"
  proof (cases tx)
    case None
    then show ?thesis by (simp add: prep_tokens_def)
  next
    case (Some t)
    obtain fs len where f: "token_freqs t = (fs, len)" by (cases "token_freqs t")
    have step: "framed (\<lambda>s. (case p of (u, tf) \<Rightarrow> bind_op (fts_term_id u) (\<lambda>i. ret (i, tf))) s)" for p
      by (cases p) (simp add: framed_bind framed_fts_term framed_ret)
    have "framed (bind_op (map_op (\<lambda>(u, tf). bind_op (fts_term_id u) (\<lambda>i. ret (i, tf))) fs)
        (\<lambda>ids. ret (ids, len)))"
      by (intro framed_bind framed_map_op framed_ret step)
    then show ?thesis by (simp add: prep_tokens_def Some f framed_at)
  qed
qed

lemma framed_prep_links [frame_rules]: "framed (prep_links E h links)"
proof (cases "links = []")
  case False
  have step: "framed (case l of (rel, target) \<Rightarrow> bind_op (term_id rel) (\<lambda>r.
      bind_op (term_id target) (\<lambda>t. ret (self, r, t))))" for l self
    by (cases l) (simp add: framed_bind framed_term_id framed_ret)
  show ?thesis unfolding prep_links_def using False
    by (simp add: framed_bind framed_term_id framed_map_op step)
qed (simp add: prep_links_def framed_ret)

lemma framed_text: "framed (\<lambda>st. ret (f st) st)"
  by (rule framedI) (simp add: ret_def)

lemma framed_split: "(\<And>a b. framed (f a b)) \<Longrightarrow> framed (case p of (a, b) \<Rightarrow> f a b)"
  by (cases p) simp

lemma framed_prep: "framed (prep_from_blob E now blob h)"
  unfolding prep_from_blob_def Let_def
  by (intro framed_bind framed_lift framed_term_id framed_prep_triple framed_split framed_opt_term
      framed_text framed_prep_tokens framed_prep_links framed_ret)

section \<open>What a prepared grain says\<close>

lemma bind_op_Inr:
  "bind_op m f s = (Inr y, s'') \<longleftrightarrow> (\<exists>x s'. m s = (Inr x, s') \<and> f x s' = (Inr y, s''))"
  by (auto simp: bind_op_def split: prod.splits sum.splits)

lemma ret_Inr: "ret x s = (Inr y, s') \<longleftrightarrow> y = x \<and> s' = s"
  by (auto simp: ret_def)

lemma lift_Inr: "lift_res r s = (Inr y, s') \<longleftrightarrow> r = Inr y \<and> s' = s"
  by (auto simp: lift_res_def)

lemma term_id_Inr: "term_id t s = (Inr i, s') \<Longrightarrow> map_of (dict s') t = Some i"
  by (auto simp: term_id_def Let_def split: option.splits sum.splits)

lemma framed_dict:
  assumes "framed m" and "m s = (x, s')" and "map_of (dict s) t = Some i"
  shows "map_of (dict s') t = Some i"
proof -
  have "map_of (dict s) \<subseteq>\<^sub>m map_of (dict s')"
    using framed_at [OF assms(1), of s] assms(2) by (simp add: prep_frame_def)
  then show ?thesis using assms(3) by (simp add: map_le_def dom_def)
qed

text \<open>An operation that cannot fail on a sound dictionary.\<close>

definition sure :: "'a op \<Rightarrow> bool" where
  "sure m = (\<forall>s. dict_ok s \<longrightarrow> is_ok (fst (m s)))"

lemma sure_bind:
  assumes "framed m" and "sure m" and "\<And>x. sure (f x)"
  shows "sure (bind_op m f)"
  unfolding sure_def
proof (intro allI impI)
  fix s assume ok: "dict_ok s"
  obtain r s' where ms: "m s = (r, s')" by (cases "m s")
  obtain x where r: "r = Inr x"
    using assms(2) ok ms is_okE unfolding sure_def by (metis fst_conv)
  have "dict_ok s'" using framed_at [OF assms(1), of s] ms ok by (simp add: prep_frame_def)
  then show "is_ok (fst (bind_op m f s))"
    using assms(3) by (simp add: bind_op_def ms r sure_def)
qed

lemma sure_ret: "sure (ret x)"
  by (simp add: sure_def ret_def)

lemma sure_term_id: "sure (term_id t)"
  by (auto simp: sure_def term_id_def Let_def insert_term_fresh split: option.splits)

lemma sure_opt_term: "sure (opt_term t)"
  by (cases t) (auto simp: opt_term_def sure_ret intro!: sure_bind framed_term_id sure_term_id)

lemma sure_fts_term: "sure (fts_term_id t)"
  by (auto simp: sure_def fts_term_id_def Let_def split: option.splits)

lemma sure_map_op: "(\<And>x. framed (f x)) \<Longrightarrow> (\<And>x. sure (f x)) \<Longrightarrow> sure (map_op f xs)"
  by (induction xs) (simp_all add: sure_ret sure_bind framed_map_op framed_bind framed_ret)

lemma sureI: "(\<And>s. dict_ok s \<Longrightarrow> is_ok (fst (m s))) \<Longrightarrow> sure m"
  by (simp add: sure_def)

lemma sure_at: "sure m \<Longrightarrow> dict_ok s \<Longrightarrow> is_ok (fst (m s))"
  by (simp add: sure_def)

lemma sure_split: "(\<And>a b. sure (f a b)) \<Longrightarrow> sure (case p of (a, b) \<Rightarrow> f a b)"
  by (cases p) simp

lemma sure_prep_triple: "sure (prep_triple gv)"
proof (rule sureI)
  fix s assume ok: "dict_ok s"
  show "is_ok (fst (prep_triple gv s))"
  proof (cases "\<exists>sj rl ob. gv_subject gv = Some sj \<and> gv_relation gv = Some rl \<and> gv_object gv = Some ob")
    case True
    then obtain sj rl ob where g: "gv_subject gv = Some sj" "gv_relation gv = Some rl"
        "gv_object gv = Some ob"
      by blast
    show ?thesis unfolding prep_triple_def g option.case prod.case
      by (intro sure_at [OF _ ok] sure_bind framed_term_id sure_term_id sure_ret)
  next
    case False
    then have "prep_triple gv s = (Inr (None, None, None, False), s)"
      by (auto simp: prep_triple_def split: option.splits)
    then show ?thesis by simp
  qed
qed

lemma sure_prep_tokens: "sure (prep_tokens tx)"
proof (rule sureI)
  fix s assume ok: "dict_ok s"
  show "is_ok (fst (prep_tokens tx s))"
  proof (cases tx)
    case (Some t)
    obtain fs len where f: "token_freqs t = (fs, len)" by (cases "token_freqs t")
    have "sure (bind_op (map_op (\<lambda>(u, tf). bind_op (fts_term_id u) (\<lambda>i. ret (i, tf))) fs)
        (\<lambda>ids. ret (ids, len)))"
      by (intro sure_bind framed_map_op framed_split framed_bind framed_fts_term framed_ret
          sure_map_op sure_split sure_fts_term sure_ret)
    then show ?thesis using ok by (simp add: prep_tokens_def Some f sure_at)
  qed (simp add: prep_tokens_def)
qed

lemma sure_prep_links: "sure (prep_links E h links)"
proof (cases "links = []")
  case False
  then show ?thesis unfolding prep_links_def if_not_P [OF False]
    by (intro sure_bind framed_map_op framed_split framed_bind framed_term_id framed_ret
          sure_map_op sure_split sure_term_id sure_ret)
qed (simp add: prep_links_def sure_ret)

text \<open>A blob that decodes, and that the embedder takes, can be prepared.\<close>

definition preparable :: "store_env \<Rightarrow> bytes \<Rightarrow> bool" where
  "preparable E blob =
     (case deserialize_blob (se_core E) blob of
        Inl _ \<Rightarrow> False
      | Inr view \<Rightarrow> is_ok (prep_embedding E (projected_text view)))"

lemma sure_prep: "preparable E blob \<Longrightarrow> sure (prep_from_blob E now blob h)"
proof -
  assume "preparable E blob"
  then obtain view where v: "deserialize_blob (se_core E) blob = Inr view"
      "is_ok (prep_embedding E (projected_text view))"
    by (auto simp: preparable_def split: sum.splits)
  then obtain emb where e: "prep_embedding E (projected_text view) = Inr emb"
    using is_okE by blast
  have lift: "bind_op (lift_res (Inr x)) f = f x" for x f
    by (rule ext) (simp add: bind_op_def lift_res_def)
  have tx: "sure (\<lambda>st. ret (f st) st)" for f
    by (simp add: sure_def ret_def)
  show ?thesis unfolding prep_from_blob_def Let_def v(1) lift e
    by (intro sure_bind sure_split sure_ret sure_term_id sure_opt_term sure_prep_triple tx
        sure_prep_tokens sure_prep_links framed_term_id framed_prep_triple framed_split
        framed_opt_term framed_text framed_prep_tokens framed_prep_links framed_bind framed_lift
        framed_ret)
qed

section \<open>What a prepared grain says\<close>

text \<open>The triple of a grain is there only when all three of its parts are.\<close>

definition view_triple :: "grain_view \<Rightarrow> (string \<times> string \<times> string) option" where
  "view_triple gv =
     (case (gv_subject gv, gv_relation gv, gv_object gv) of
        (Some a, Some b, Some c) \<Rightarrow> Some (a, b, c)
      | _ \<Rightarrow> None)"

definition prep_says :: "int \<Rightarrow> deserialized_grain \<Rightarrow> bytes \<Rightarrow> hash \<Rightarrow> store \<Rightarrow> grain_prep \<Rightarrow> bool" where
  "prep_says now view blob h s pr =
     (let gv = extract_view now view
      in pp_blob pr = blob \<and> pp_hash pr = h
         \<and> map_of (dict s) (gv_ns gv) = Some (pp_ns pr)
         \<and> pp_created pr = gv_created gv
         \<and> (case view_triple gv of
              None \<Rightarrow> pp_s pr = None \<and> pp_p pr = None \<and> pp_o pr = None
            | Some (a, b, c) \<Rightarrow> \<exists>i j k. pp_s pr = Some i \<and> pp_p pr = Some j \<and> pp_o pr = Some k
                \<and> map_of (dict s) a = Some i \<and> map_of (dict s) b = Some j
                \<and> map_of (dict s) c = Some k))"

lemma prep_triple_Inr:
  assumes "prep_triple gv s = (Inr (x, y, z, w), s')"
  shows "case view_triple gv of
      None \<Rightarrow> x = None \<and> y = None \<and> z = None
    | Some (a, b, c) \<Rightarrow> \<exists>i j k. x = Some i \<and> y = Some j \<and> z = Some k
        \<and> map_of (dict s') a = Some i \<and> map_of (dict s') b = Some j \<and> map_of (dict s') c = Some k"
proof (cases "view_triple gv")
  case None
  then have "prep_triple gv s = (Inr (None, None, None, False), s)"
    by (auto simp: view_triple_def prep_triple_def split: option.splits)
  then show ?thesis using assms None by simp
next
  case (Some t)
  obtain a b c where t: "t = (a, b, c)" by (cases t)
  have g: "gv_subject gv = Some a" "gv_relation gv = Some b" "gv_object gv = Some c"
    using Some by (auto simp: view_triple_def t split: option.splits)
  obtain i s1 j s2 k where
    "term_id a s = (Inr i, s1)" "term_id b s1 = (Inr j, s2)" "term_id c s2 = (Inr k, s')"
    and r: "x = Some i" "y = Some j" "z = Some k"
    using assms unfolding prep_triple_def g option.case prod.case
    unfolding bind_op_Inr ret_Inr prod.inject by blast
  then have "map_of (dict s') a = Some i" "map_of (dict s') b = Some j" "map_of (dict s') c = Some k"
    by (meson term_id_Inr framed_dict framed_term_id)+
  then show ?thesis using Some r by (simp add: t)
qed

lemma bind_lift_Inr: "bind_op (lift_res r) f s = (Inr y, s') \<longleftrightarrow> (\<exists>x. r = Inr x \<and> f x s = (Inr y, s'))"
  by (auto simp: bind_op_def lift_res_def split: sum.splits)

lemma prep_from_blob_Inr:
  assumes "prep_from_blob E now blob h s = (Inr pr, s')"
  shows "\<exists>view. deserialize_blob (se_core E) blob = Inr view \<and> prep_says now view blob h s' pr"
proof -
  obtain view where v: "deserialize_blob (se_core E) blob = Inr view"
    using assms unfolding prep_from_blob_def bind_lift_Inr by auto
  let ?gv = "extract_view now view"
  define rest where "rest ns x y z w = bind_op (opt_term (gv_session ?gv)) (\<lambda>session.
     let projected = projected_text view in
     bind_op (\<lambda>st. ret (if index_text st then projected else None) st) (\<lambda>text.
     bind_op (prep_tokens text) (\<lambda>(tokens, doc_len).
     bind_op (lift_res (prep_embedding E projected)) (\<lambda>embedding.
     bind_op (prep_links (se_core E) h (gv_links ?gv)) (\<lambda>links.
     bind_op (opt_term (gv_run ?gv)) (\<lambda>run.
     ret \<lparr> pp_blob = blob, pp_hash = h, pp_ns = ns, pp_s = x, pp_p = y, pp_o = z,
           pp_osp = w, pp_session = session, pp_vf = gv_vf ?gv, pp_vt = gv_vt ?gv,
           pp_created = gv_created ?gv, pp_gtype = int (gv_gtype ?gv), pp_text = text,
           pp_embedding = embedding, pp_tokens = tokens, pp_doc_len = doc_len,
           pp_links = links, pp_run = run,
           pp_parent = map_option as_bytes (Option.bind (gv_parent ?gv) (parse_hash (se_core E))),
           pp_corpus_export = gv_corpus_export ?gv \<rparr>))))))" for ns x y z w
  have framed_rest: "framed (rest ns x y z w)" for ns x y z w
    unfolding rest_def Let_def
    by (intro framed_bind framed_lift framed_split framed_opt_term
      framed_text framed_prep_tokens framed_prep_links framed_ret)
  have rest_Inr: "pp_blob pr = blob \<and> pp_hash pr = h \<and> pp_ns pr = ns \<and> pp_s pr = x
      \<and> pp_p pr = y \<and> pp_o pr = z \<and> pp_created pr = gv_created ?gv"
    if "rest ns x y z w s1 = (Inr pr, s')" for ns x y z w s1
    using that unfolding rest_def Let_def
    by (clarsimp simp: bind_op_Inr ret_Inr split: prod.splits)
  have whole: "prep_from_blob E now blob h s =
      bind_op (term_id (gv_ns ?gv)) (\<lambda>ns. bind_op (prep_triple ?gv) (\<lambda>(x, y, z, w). rest ns x y z w)) s"
    unfolding prep_from_blob_def rest_def Let_def v by (simp add: bind_op_def lift_res_def)
  obtain ns s1 x y z w s2 where t: "term_id (gv_ns ?gv) s = (Inr ns, s1)"
      "prep_triple ?gv s1 = (Inr (x, y, z, w), s2)" "rest ns x y z w s2 = (Inr pr, s')"
    using assms unfolding whole by (fastforce simp: bind_op_Inr)
  have keep: "map_of (dict s') u = Some i" if "map_of (dict s2) u = Some i" for u i
    using framed_dict [OF framed_rest t(3) that] .
  have "map_of (dict s') (gv_ns ?gv) = Some ns"
    using keep framed_dict [OF framed_prep_triple t(2) term_id_Inr [OF t(1)]] by blast
  moreover have "case view_triple ?gv of None \<Rightarrow> x = None \<and> y = None \<and> z = None
    | Some (a, b, c) \<Rightarrow> \<exists>i j k. x = Some i \<and> y = Some j \<and> z = Some k
        \<and> map_of (dict s') a = Some i \<and> map_of (dict s') b = Some j \<and> map_of (dict s') c = Some k"
    using prep_triple_Inr [OF t(2)] keep by (auto split: option.splits)
  ultimately have "prep_says now view blob h s' pr"
    using rest_Inr [OF t(3)] by (auto simp: prep_says_def Let_def split: option.splits)
  then show ?thesis using v by blast
qed

end
