(* ===== verification/Store_Ok.thy ===== *)
theory Store_Ok
  imports Store_Frame
begin

text \<open>
  The invariant of an open store and its preservation by every local operation, as an
  invariant of the states that local operations reach.
\<close>

section \<open>The invariant of a handle\<close>

text \<open>The log's sequence is strictly increasing and the handle's counters are ahead of it.\<close>

definition log_ok :: "db \<Rightarrow> int \<Rightarrow> int \<Rightarrow> bool" where
  "log_ok d n h =
     (sorted_wrt (<) (map op_seq (oplog d)) \<and> (\<forall>x \<in> set (oplog d). op_seq x < n \<and> op_hlc x \<le> h))"

definition seqs_below :: "db \<Rightarrow> int \<Rightarrow> bool" where
  "seqs_below d n = (\<forall>q \<in> grain_seqs d. q < n)"

definition store_ok :: "store \<Rightarrow> bool" where
  "store_ok s =
     (db_ok (st_db s) \<and> seqs_below (st_db s) (next_seq s)
      \<and> log_ok (st_db s) (next_op s) (hlc_last s) \<and> dict_ok s)"

lemma core_of_eq:
  assumes "core_of d' = core_of d"
  shows "grains d' = grains d" "triples d' = triples d" "osp d' = osp d" "heads d' = heads d"
    "entity_latest d' = entity_latest d" "oplog d' = oplog d" "index_seqs d' = index_seqs d"
    "grain_seqs d' = grain_seqs d" "fts_doc d' = fts_doc d"
proof -
  have sel: "grains (core_of x) = grains x" "triples (core_of x) = triples x"
    "osp (core_of x) = osp x" "heads (core_of x) = heads x"
    "entity_latest (core_of x) = entity_latest x" "oplog (core_of x) = oplog x"
    "index_seqs (core_of x) = index_seqs x" "grain_seqs (core_of x) = grain_seqs x"
    "fts_doc (core_of x) = fts_doc x" for x
    by (simp_all add: core_of_def index_seqs_def grain_seqs_def)
  show "grains d' = grains d" "triples d' = triples d" "osp d' = osp d" "heads d' = heads d"
    "entity_latest d' = entity_latest d" "oplog d' = oplog d" "index_seqs d' = index_seqs d"
    "grain_seqs d' = grain_seqs d" "fts_doc d' = fts_doc d"
    by (metis assms sel)+
qed

lemma db_ok_cong:
  assumes "grains d' = grains d" "triples d' = triples d" "heads d' = heads d"
    "entity_latest d' = entity_latest d" "index_seqs d' = index_seqs d"
  shows "db_ok d' = db_ok d"
  using assms good_head_cong [OF assms(1,2)] ok_latest_cong [OF assms(3,4)]
  by (simp add: db_ok_def ok_keys_def ok_refs_def ok_heads_def grain_seqs_def)

lemma store_ok_frame:
  assumes "prep_frame s s'" and "store_ok s"
  shows "store_ok s'"
proof -
  have "core_of (st_db s') = core_of (st_db s)" using assms(1) by (simp add: prep_frame_def)
  note eq = core_of_eq [OF this]
  show ?thesis
    using assms db_ok_cong [OF eq(1,2,4,5,7)] eq
    by (simp add: store_ok_def prep_frame_def log_ok_def seqs_below_def)
qed

lemma log_ok_mono: "log_ok d n h \<Longrightarrow> n \<le> n' \<Longrightarrow> h \<le> h' \<Longrightarrow> log_ok d n' h'"
  by (fastforce simp: log_ok_def)

lemma seqs_below_mono: "seqs_below d n \<Longrightarrow> n \<le> n' \<Longrightarrow> seqs_below d n'"
  by (fastforce simp: seqs_below_def)

lemma log_ok_append:
  assumes "log_ok d n h" and "oplog d' = oplog d @ [r]" and "n \<le> op_seq r" and "h < op_hlc r"
  shows "log_ok d' (op_seq r + 1) (op_hlc r)"
  using assms by (fastforce simp: log_ok_def sorted_wrt_append)

lemma next_hlc_Pair:
  "next_hlc now s = (h, s') \<Longrightarrow> hlc_last s < h \<and> s' = s\<lparr>hlc_last := h\<rparr> \<and> now * 65536 \<le> h"
  by (auto simp: next_hlc_def Let_def split: if_splits)

section \<open>Batches\<close>

lemma terms_index_inserts:
  "insert_corpus pr sq d = Inr d' \<Longrightarrow> terms d' = terms d"
  "insert_embedding pr sq d = Inr d' \<Longrightarrow> terms d' = terms d"
  "terms (insert_thread pr sq d) = terms d" "terms (insert_run pr sq d) = terms d"
  "terms (insert_parent pr sq d) = terms d" "terms (insert_postings pr sq d) = terms d"
  "terms (insert_triple pr sq d) = terms d" "terms (insert_links pr sq d) = terms d"
  "terms (claim_cell pr sq d) = terms d"
  by (auto simp: insert_corpus_def insert_embedding_def insert_thread_def insert_run_def
      insert_parent_def insert_postings_def insert_triple_def insert_links_def claim_cell_def
      put_latest_def Let_def result_simps split: option.splits if_splits)

lemma terms_insert_aux: "insert_aux pr sq d = Inr d' \<Longrightarrow> terms d' = terms d"
  by (auto simp: insert_aux_def result_simps terms_index_inserts dest!: terms_index_inserts(1,2))

lemma terms_insert_op: "insert_op q hlc k h d = Inr d' \<Longrightarrow> terms d' = terms d"
  by (auto simp: insert_op_Inr)

lemma terms_insert_one:
  assumes "insert_one pr sq op hlc d = Inr d'"
  shows "terms d' = terms d"
proof -
  let ?f = "\<lambda>d. insert_links pr sq (claim_cell pr sq (insert_triple pr sq (insert_postings pr sq d)))"
  obtain d1 d2 where "insert_grain (grain_of_prep sq pr) d = Inr d1"
    and aux: "insert_aux pr sq (?f d1) = Inr d2"
    and opr: "insert_op op hlc OP_ADD (pp_hash pr) d2 = Inr d'"
    using assms by (auto simp: insert_one_def Let_def result_simps)
  then have "terms d1 = terms d" by (auto simp: insert_grain_Inr)
  then show ?thesis
    using terms_insert_aux [OF aux] terms_insert_op [OF opr] by (simp add: terms_index_inserts)
qed

text \<open>What a batch adds to the grains and to the log.\<close>

fun batch_rows :: "grain_prep list \<Rightarrow> int \<Rightarrow> grain_row list" where
  "batch_rows [] sq = []"
| "batch_rows (pr # prs) sq = grain_of_prep sq pr # batch_rows prs (sq + 1)"

fun batch_log :: "grain_prep list \<Rightarrow> int \<Rightarrow> int \<Rightarrow> op_row list" where
  "batch_log [] op hlc = []"
| "batch_log (pr # prs) op hlc =
     \<lparr> op_seq = op, op_hlc = hlc, op_kind = OP_ADD, op_hash = pp_hash pr \<rparr>
     # batch_log prs (op + 1) (hlc + 1)"

lemma insert_prepped_effect:
  assumes "insert_prepped prs sq op hlc d = Inr d'"
  shows "grains d' = grains d @ batch_rows prs sq"
    and "oplog d' = oplog d @ batch_log prs op hlc"
    and "terms d' = terms d"
proof -
  have "grains d' = grains d @ batch_rows prs sq \<and> oplog d' = oplog d @ batch_log prs op hlc
      \<and> terms d' = terms d"
    using assms
  proof (induction prs arbitrary: sq op hlc d)
    case (Cons pr prs)
    obtain d1 where d1: "insert_one pr sq op hlc d = Inr d1"
        "insert_prepped prs (sq + 1) (op + 1) (hlc + 1) d1 = Inr d'"
      using Cons.prems by (auto simp: result_simps)
    show ?case
      using Cons.IH [OF d1(2)] insert_one_effect(3,8) [OF d1(1)] terms_insert_one [OF d1(1)] by simp
  qed simp
  then show "grains d' = grains d @ batch_rows prs sq" "oplog d' = oplog d @ batch_log prs op hlc"
    "terms d' = terms d"
    by blast+
qed

lemma insert_prepped_counters:
  assumes "insert_prepped prs sq op hlc d = Inr d'"
    and "log_ok d op (hlc - 1)" and "seqs_below d sq"
  shows "log_ok d' (op + int (length prs)) (hlc - 1 + int (length prs))"
    and "seqs_below d' (sq + int (length prs))"
proof -
  have "log_ok d' (op + int (length prs)) (hlc - 1 + int (length prs))
      \<and> seqs_below d' (sq + int (length prs))"
    using assms
  proof (induction prs arbitrary: sq op hlc d)
    case (Cons pr prs)
    obtain d1 where d1: "insert_one pr sq op hlc d = Inr d1"
        "insert_prepped prs (sq + 1) (op + 1) (hlc + 1) d1 = Inr d'"
      using Cons.prems(1) by (auto simp: result_simps)
    have "log_ok d1 (op + 1) (hlc + 1 - 1)"
      using log_ok_append [OF Cons.prems(2) insert_one_effect(8) [OF d1(1)]] by simp
    moreover have "seqs_below d1 (sq + 1)"
      using Cons.prems(3) insert_one_effect(3) [OF d1(1)]
      by (fastforce simp: seqs_below_def grain_seqs_def grain_of_prep_def)
    ultimately show ?case using Cons.IH [OF d1(2)] by (simp add: algebra_simps)
  qed simp
  then show "log_ok d' (op + int (length prs)) (hlc - 1 + int (length prs))"
    "seqs_below d' (sq + int (length prs))"
    by blast+
qed

text \<open>On a sound store, inserting a new grain under fresh numbers cannot fail.\<close>

lemma insert_one_total:
  assumes "db_ok d" and "sq \<notin> grain_seqs d" and "pp_hash pr \<notin> gr_hash ` set (grains d)"
    and "op \<notin> op_seq ` set (oplog d)"
  shows "\<exists>d'. insert_one pr sq op hlc d = Inr d'"
proof -
  let ?d0 = "d\<lparr>grains := grains d @ [grain_of_prep sq pr]\<rparr>"
  let ?d1 = "insert_links pr sq (claim_cell pr sq (insert_triple pr sq (insert_postings pr sq ?d0)))"
  let ?d2 = "insert_run pr sq (insert_thread pr sq ?d1)"
  have grain: "insert_grain (grain_of_prep sq pr) d = Inr ?d0"
    using assms(2,3) by (simp add: insert_grain_Inr grain_of_prep_def)
  have "sq \<notin> index_seqs d" using assms(1,2) by (auto simp: db_ok_def ok_refs_def)
  then have fresh: "sq \<notin> set (corpus_idx d)" "sq \<notin> fst ` set (embeddings d)"
    by (auto simp: index_seqs_def)
  have same: "corpus_idx ?d2 = corpus_idx d" "embeddings ?d2 = embeddings d"
    by (simp_all add: insert_run_def insert_thread_def insert_links_def claim_cell_def
        put_latest_def insert_triple_def insert_postings_def Let_def split: option.splits)
  have "\<exists>y. insert_corpus pr sq x = Inr y \<and> embeddings y = embeddings d"
    if "corpus_idx x = corpus_idx d" "embeddings x = embeddings d" for x
    using fresh that by (cases "pp_corpus_export pr") (auto simp: insert_corpus_def insert_row_def)
  then obtain d3 where d3: "insert_corpus pr sq ?d2 = Inr d3" "embeddings d3 = embeddings d"
    using same by blast
  moreover have "embeddings (insert_parent pr sq d3) = embeddings d"
    using d3 by (simp add: insert_parent_def split: option.splits)
  then have "\<exists>y. insert_embedding pr sq (insert_parent pr sq d3) = Inr y"
    using fresh by (cases "pp_embedding pr") (auto simp: insert_embedding_def insert_row_def)
  then obtain d4 where d4: "insert_embedding pr sq (insert_parent pr sq d3) = Inr d4" by blast
  ultimately have aux: "insert_aux pr sq ?d1 = Inr d4" by (simp add: insert_aux_def)
  have "oplog ?d1 = oplog d"
    using insert_postings_step [of sq ?d0 pr] by (simp add: index_step_def same_core_def)
  then have "oplog d4 = oplog d"
    using insert_aux_step [OF aux] by (simp add: index_step_def same_core_def)
  then show ?thesis
    using assms(4) grain aux by (auto simp: insert_one_def Let_def insert_op_def insert_row_def)
qed

section \<open>Adding\<close>

lemma framed_prep_batch: "framed (prep_batch E now gs seen)"
proof (induction gs arbitrary: seen)
  case Nil
  show ?case by (simp add: framed_ret)
next
  case (Cons g gs)
  show ?case
  proof (cases g)
    case (Inl e)
    then show ?thesis by (simp add: framed_fail)
  next
    case (Inr bh)
    obtain blob h where bh: "bh = (blob, h)" by (cases bh)
    have "prep_frame s (snd (prep_batch E now (g # gs) seen s))" for s
      by (cases "h \<in> seen \<or> has_grain h s")
        (auto simp: Inr bh intro!: framed_at framed_bind framed_split framed_prep framed_ret Cons.IH)
    then show ?thesis by (rule framedI)
  qed
qed

lemma reserve_for_effect:
  assumes "reserve_for now n s = (r, s')"
  shows "\<exists>hlc. r = Inr (next_seq s, next_op s, hlc) \<and> hlc_last s < hlc
    \<and> s' = s\<lparr>next_seq := next_seq s + int n, next_op := next_op s + int n,
              hlc_last := hlc + int n - 1\<rparr>"
  using assms by (auto simp: reserve_for_def Let_def dest: next_hlc_Pair split: prod.splits)

lemma reserve_op_effect:
  assumes "reserve_op now s = (r, s')"
  shows "\<exists>hlc. r = Inr (next_op s, hlc) \<and> hlc_last s < hlc
    \<and> s' = s\<lparr>next_op := next_op s + 1, hlc_last := hlc\<rparr>"
  using assms by (auto simp: reserve_op_def Let_def dest: next_hlc_Pair split: prod.splits)

lemma stamp_same [simp]:
  "next_seq (stamp_min_reader E prs s) = next_seq s" "next_op (stamp_min_reader E prs s) = next_op s"
  "hlc_last (stamp_min_reader E prs s) = hlc_last s" "dict (stamp_min_reader E prs s) = dict s"
  "next_term (stamp_min_reader E prs s) = next_term s"
  "grains (st_db (stamp_min_reader E prs s)) = grains (st_db s)"
  "triples (st_db (stamp_min_reader E prs s)) = triples (st_db s)"
  "heads (st_db (stamp_min_reader E prs s)) = heads (st_db s)"
  "entity_latest (st_db (stamp_min_reader E prs s)) = entity_latest (st_db s)"
  "oplog (st_db (stamp_min_reader E prs s)) = oplog (st_db s)"
  "terms (st_db (stamp_min_reader E prs s)) = terms (st_db s)"
  "index_seqs (st_db (stamp_min_reader E prs s)) = index_seqs (st_db s)"
  by (simp_all add: stamp_min_reader_def index_seqs_def)

lemma store_ok_cong:
  assumes "grains (st_db s') = grains (st_db s)" "triples (st_db s') = triples (st_db s)"
    "heads (st_db s') = heads (st_db s)" "entity_latest (st_db s') = entity_latest (st_db s)"
    "index_seqs (st_db s') = index_seqs (st_db s)" "oplog (st_db s') = oplog (st_db s)"
    "terms (st_db s') = terms (st_db s)" "dict s' = dict s" "next_term s' = next_term s"
    "next_seq s \<le> next_seq s'" "next_op s \<le> next_op s'" "hlc_last s \<le> hlc_last s'"
    "store_ok s"
  shows "store_ok s'"
  using assms db_ok_cong [OF assms(1-5)]
  by (fastforce simp: store_ok_def seqs_below_def log_ok_def dict_ok_def grain_seqs_def)

lemma store_ok_stamp: "store_ok s \<Longrightarrow> store_ok (stamp_min_reader E prs s)"
  by (rule store_ok_cong) simp_all

lemma store_ok_bump: "store_ok (bump_fts dl s) = store_ok s"
  by (simp add: bump_fts_def store_ok_def dict_ok_def)

text \<open>A transaction that inserts a batch under reserved numbers keeps the invariant.\<close>

lemma store_ok_insert:
  assumes ok: "store_ok s" and ins: "insert_prepped prs (next_seq s) (next_op s) hlc (st_db s) = Inr d"
    and hlc: "hlc_last s < hlc" and d': "grains d' = grains d" "triples d' = triples d"
      "heads d' = heads d" "entity_latest d' = entity_latest d" "index_seqs d' = index_seqs d"
      "oplog d' = oplog d" "terms d' = terms d"
    and s': "st_db s' = d'" "next_seq s' = next_seq s + int (length prs)"
      "next_op s' = next_op s + int (length prs)" "hlc_last s' = hlc + int (length prs) - 1"
      "dict s' = dict s" "next_term s' = next_term s"
  shows "store_ok s'"
proof -
  have "log_ok (st_db s) (next_op s) (hlc - 1)" "seqs_below (st_db s) (next_seq s)"
    using ok hlc log_ok_mono by (auto simp: store_ok_def)
  note c = insert_prepped_counters [OF ins this]
  have h': "hlc_last s' = hlc - 1 + int (length prs)" using s' by simp
  have "log_ok d' (next_op s') (hlc_last s')"
    using c(1) unfolding h' s'(3) log_ok_def d'(6) .
  moreover have "seqs_below d' (next_seq s')" using c(2) d' s' by (simp add: seqs_below_def grain_seqs_def)
  moreover have "db_ok d'"
    using insert_prepped_ok [OF ins] ok db_ok_cong [OF d'(1-5)] by (simp add: store_ok_def)
  moreover have "dict_ok s'"
    using ok insert_prepped_effect(3) [OF ins] d' s' by (simp add: store_ok_def dict_ok_def)
  ultimately show ?thesis using s'(1) by (simp add: store_ok_def)
qed

lemma add_batch_ok:
  assumes "store_ok s"
  shows "store_ok (snd (add_batch_inner E now gs s))"
proof (cases "prep_batch E now gs {} s")
  case (Pair r s1)
  have ok1: "store_ok s1"
    using store_ok_frame [OF _ assms] framed_at [OF framed_prep_batch, of s E now gs "{}"] Pair
    by simp
  show ?thesis
  proof (cases r)
    case (Inl e)
    then show ?thesis using Pair ok1 by (simp add: add_batch_inner_def bind_op_def)
  next
    case (Inr hp)
    obtain hs prs where hp: "hp = (hs, prs)" by (cases hp)
    show ?thesis
    proof (cases "prs = []")
      case True
      then show ?thesis using Pair Inr hp ok1 by (simp add: add_batch_inner_def bind_op_def ret_def)
    next
      case False
      obtain r2 s2 where res: "reserve_for now (length prs) s1 = (r2, s2)" by fastforce
      obtain hlc where hlc: "r2 = Inr (next_seq s1, next_op s1, hlc)" "hlc_last s1 < hlc"
        and s2: "s2 = s1\<lparr>next_seq := next_seq s1 + int (length prs),
          next_op := next_op s1 + int (length prs), hlc_last := hlc + int (length prs) - 1\<rparr>"
        using reserve_for_effect [OF res] by blast
      let ?s3 = "stamp_min_reader E prs s2"
      let ?ins = "insert_prepped prs (next_seq s1) (next_op s1) hlc (st_db ?s3)"
      have ok2: "store_ok s2" using ok1 hlc(2) s2 by (intro store_ok_cong [OF _ _ _ _ _ _ _ _ _ _ _ _ ok1]) auto
      let ?base = "?s3\<lparr>next_seq := next_seq s1, next_op := next_op s1, hlc_last := hlc_last s1\<rparr>"
      have base: "store_ok ?base"
        using s2 by (intro store_ok_cong [OF _ _ _ _ _ _ _ _ _ _ _ _ ok1]) auto
      have out: "add_batch_inner E now gs s =
          (case ?ins of Inl e \<Rightarrow> (Inl e, ?s3)
           | Inr d \<Rightarrow> (Inr hs, bump_fts (fts_delta prs) (?s3\<lparr>st_db := d\<rparr>)))"
        using Pair Inr hp False res hlc
        by (simp add: add_batch_inner_def bind_op_def with_txn_def split: sum.splits)
      show ?thesis
      proof (cases ?ins)
        case (Inl e)
        then show ?thesis using out ok2 by (simp add: store_ok_stamp)
      next
        case (Inr d)
        have "store_ok (?s3\<lparr>st_db := d\<rparr>)"
          by (rule store_ok_insert [where s = "?base" and prs = prs and hlc = hlc and d = d])
            (use base Inr hlc s2 in simp_all)
        then show ?thesis using out Inr by (simp add: store_ok_bump)
      qed
    qed
  qed
qed

section \<open>Superseding\<close>

text \<open>
  A transaction that changes the tables soundly, logging under the numbers that the two
  reservations of a supersession hand out.
\<close>

lemma terms_retire: "terms (retire old r new now d) = terms d"
  by (simp add: retire_def Let_def close_grain_def link_supersedes_def split: option.splits)

lemma oplog_retire: "oplog (retire old r new now d) = oplog d"
  by (simp add: retire_def Let_def split: option.splits)

lemma grain_seqs_retire: "grain_seqs (retire old r new now d) = grain_seqs d"
proof -
  have "grain_seqs (reconcile_cell k q x) = grain_seqs x" for k q x
    by (simp add: grain_seqs_def)
  then show ?thesis by (simp add: retire_def Let_def split: option.splits)
qed

lemma supersede_txn_effect:
  assumes "supersede_txn old pr (sq, op, hlc) (op2, hlc2) now d = Inr (u, d')"
  shows "terms d' = terms d"
    and "grain_seqs d' = insert sq (grain_seqs d)"
    and "oplog d' = oplog d @ [\<lparr> op_seq = op, op_hlc = hlc, op_kind = OP_ADD, op_hash = pp_hash pr \<rparr>,
      \<lparr> op_seq = op2, op_hlc = hlc2, op_kind = OP_SUPERSEDE, op_hash = pp_hash pr \<rparr>]"
proof -
  obtain r d1 where d1: "insert_one pr sq op hlc d = Inr d1"
    and d': "insert_op op2 hlc2 OP_SUPERSEDE (pp_hash pr) (retire old r (pp_hash pr) now d1) = Inr d'"
    using assms unfolding supersede_txn_cases fst_conv snd_conv by blast
  note eff = insert_one_effect [OF d1]
  show "terms d' = terms d"
    using terms_insert_op [OF d'] terms_insert_one [OF d1] by (simp add: terms_retire)
  have "grain_seqs d1 = insert sq (grain_seqs d)"
    using eff(3) by (auto simp: grain_seqs_def grain_of_prep_def)
  moreover have "grain_seqs d' = grain_seqs (retire old r (pp_hash pr) now d1)"
    using d' by (auto simp: insert_op_Inr grain_seqs_def)
  ultimately show "grain_seqs d' = insert sq (grain_seqs d)" by (simp add: grain_seqs_retire)
  show "oplog d' = oplog d @ [\<lparr> op_seq = op, op_hlc = hlc, op_kind = OP_ADD, op_hash = pp_hash pr \<rparr>,
      \<lparr> op_seq = op2, op_hlc = hlc2, op_kind = OP_SUPERSEDE, op_hash = pp_hash pr \<rparr>]"
    using d' eff(8) by (auto simp: insert_op_Inr oplog_retire)
qed

text \<open>The two reservations of an operation that adds one grain and logs twice.\<close>

definition reserve_two :: "(nat \<Rightarrow> int) \<Rightarrow> ((int \<times> int \<times> int) \<times> int \<times> int) op" where
  "reserve_two clk =
     bind_op (reserve_for (clk 1) 1) (\<lambda>ids. bind_op (reserve_op (clk 3)) (\<lambda>op2. ret (ids, op2)))"

lemma reserve_two_effect:
  "\<exists>hlc hlc2. reserve_two clk s =
     (Inr ((next_seq s, next_op s, hlc), (next_op s + 1, hlc2)),
      s\<lparr>next_seq := next_seq s + 1, next_op := next_op s + 2, hlc_last := hlc2\<rparr>)
     \<and> hlc_last s < hlc \<and> hlc < hlc2"
proof -
  obtain r1 s1 where a: "reserve_for (clk 1) 1 s = (r1, s1)" by fastforce
  obtain r2 s2 where b: "reserve_op (clk 3) s1 = (r2, s2)" by fastforce
  obtain hlc where hlc: "r1 = Inr (next_seq s, next_op s, hlc)" "hlc_last s < hlc"
    and s1: "s1 = s\<lparr>next_seq := next_seq s + int 1, next_op := next_op s + int 1,
       hlc_last := hlc + int 1 - 1\<rparr>"
    using reserve_for_effect [OF a] by blast
  obtain hlc2 where hlc2: "r2 = Inr (next_op s1, hlc2)" "hlc_last s1 < hlc2"
    and s2: "s2 = s1\<lparr>next_op := next_op s1 + 1, hlc_last := hlc2\<rparr>"
    using reserve_op_effect [OF b] by blast
  show ?thesis
    by (rule exI [of _ hlc], rule exI [of _ hlc2])
      (use a b hlc hlc2 s1 s2 in \<open>simp add: reserve_two_def bind_op_def ret_def\<close>)
qed

lemma two_log_ok:
  assumes "log_ok d n h" and "oplog d' = oplog d @ [a, b]"
    and "op_seq a = n" "op_seq b = n + 1" "h < op_hlc a" "op_hlc a < op_hlc b"
  shows "log_ok d' (n + 2) (op_hlc b)"
  using assms by (fastforce simp: log_ok_def sorted_wrt_append)

text \<open>The common end of \<^verbatim>\<open>supersede\<close> and \<^verbatim>\<open>merge_heads\<close>.\<close>

definition commit_two ::
  "(nat \<Rightarrow> int) \<Rightarrow> (int \<times> int \<times> int \<Rightarrow> int \<times> int \<Rightarrow> db \<Rightarrow> deja_error + unit \<times> db) \<Rightarrow>
     grain_prep \<Rightarrow> hash \<Rightarrow> hash op" where
  "commit_two clk txn pr h =
     bind_op (reserve_two clk) (\<lambda>(ids, op2).
     bind_op (with_txn (txn ids op2)) (\<lambda>_ s. (Inr h, bump_fts (fts_delta [pr]) s)))"

lemma commit_two_cases:
  obtains hlc hlc2 s1 where
    "s1 = s\<lparr>next_seq := next_seq s + 1, next_op := next_op s + 2, hlc_last := hlc2\<rparr>"
    "hlc_last s < hlc" "hlc < hlc2"
    "commit_two clk txn pr h s =
      (case txn (next_seq s, next_op s, hlc) (next_op s + 1, hlc2) (st_db s) of
         Inl e \<Rightarrow> (Inl e, s1)
       | Inr (_, d) \<Rightarrow> (Inr h, bump_fts (fts_delta [pr]) (s1\<lparr>st_db := d\<rparr>)))"
proof -
  obtain hlc hlc2 where "reserve_two clk s =
     (Inr ((next_seq s, next_op s, hlc), (next_op s + 1, hlc2)),
      s\<lparr>next_seq := next_seq s + 1, next_op := next_op s + 2, hlc_last := hlc2\<rparr>)"
    and "hlc_last s < hlc" "hlc < hlc2"
    using reserve_two_effect by blast
  then show thesis
    by (intro that [of _ hlc2 hlc]) (auto simp: commit_two_def bind_op_def with_txn_def split: sum.splits)
qed

lemma commit_two_ok:
  assumes ok: "store_ok s"
    and txn: "\<And>hlc hlc2 u d'. txn (next_seq s, next_op s, hlc) (next_op s + 1, hlc2) (st_db s) = Inr (u, d')
      \<Longrightarrow> db_ok d' \<and> terms d' = terms (st_db s) \<and> grain_seqs d' = insert (next_seq s) (grain_seqs (st_db s))
        \<and> (\<exists>h. oplog d' = oplog (st_db s)
          @ [\<lparr> op_seq = next_op s, op_hlc = hlc, op_kind = OP_ADD, op_hash = h \<rparr>,
             \<lparr> op_seq = next_op s + 1, op_hlc = hlc2, op_kind = OP_SUPERSEDE, op_hash = h \<rparr>])"
  shows "store_ok (snd (commit_two clk txn pr h s))"
proof -
  obtain hlc hlc2 s1 where
    s1: "s1 = s\<lparr>next_seq := next_seq s + 1, next_op := next_op s + 2, hlc_last := hlc2\<rparr>"
    and hlc: "hlc_last s < hlc" "hlc < hlc2"
    and run: "commit_two clk txn pr h s =
      (case txn (next_seq s, next_op s, hlc) (next_op s + 1, hlc2) (st_db s) of
         Inl e \<Rightarrow> (Inl e, s1)
       | Inr (_, d) \<Rightarrow> (Inr h, bump_fts (fts_delta [pr]) (s1\<lparr>st_db := d\<rparr>)))"
    by (rule commit_two_cases)
  show ?thesis
  proof (cases "txn (next_seq s, next_op s, hlc) (next_op s + 1, hlc2) (st_db s)")
    case (Inl e)
    have "store_ok s1" using ok hlc s1 by (intro store_ok_cong [OF _ _ _ _ _ _ _ _ _ _ _ _ ok]) auto
    then show ?thesis using run Inl by simp
  next
    case (Inr p)
    obtain u d where p: "p = (u, d)" by (cases p)
    obtain h' where d: "db_ok d" "terms d = terms (st_db s)"
        "grain_seqs d = insert (next_seq s) (grain_seqs (st_db s))"
      and log: "oplog d = oplog (st_db s)
          @ [\<lparr> op_seq = next_op s, op_hlc = hlc, op_kind = OP_ADD, op_hash = h' \<rparr>,
             \<lparr> op_seq = next_op s + 1, op_hlc = hlc2, op_kind = OP_SUPERSEDE, op_hash = h' \<rparr>]"
      using txn [OF Inr [unfolded p]] by blast
    have "log_ok (st_db s) (next_op s) (hlc_last s)" using ok by (simp add: store_ok_def)
    from two_log_ok [OF this log] have "log_ok d (next_op s + 2) hlc2" using hlc by simp
    moreover have "seqs_below d (next_seq s + 1)"
      using ok d(3) by (fastforce simp: store_ok_def seqs_below_def)
    moreover have "dict_ok (s1\<lparr>st_db := d\<rparr>)" using ok d(2) s1 by (simp add: store_ok_def dict_ok_def)
    ultimately have "store_ok (s1\<lparr>st_db := d\<rparr>)" using d(1) s1 by (simp add: store_ok_def)
    then show ?thesis using run Inr p by (simp add: store_ok_bump)
  qed
qed

lemma reserve_assoc:
  "bind_op (reserve_for (clk 1) 1) (\<lambda>ids. bind_op (reserve_op (clk 3)) (f ids)) =
     bind_op (reserve_two clk) (\<lambda>(ids, op2). f ids op2)"
  by (rule ext) (auto simp: reserve_two_def bind_op_def ret_def split: sum.splits prod.splits)

lemma supersede_unfold:
  assumes "find_grain old (st_db s) = Some r" and "gr_svt r = None"
    and "new (hash_to_hex (hex_encode (se_core E)) old) = Inr (blob, h)"
  shows "supersede E clk old new s =
    bind_op (prep_from_blob E (clk 0) blob h) (\<lambda>pr.
      commit_two clk (\<lambda>ids op2. supersede_txn old pr ids op2 (clk 2)) pr h) s"
  by (simp add: supersede_def commit_two_def assms reserve_assoc [of clk, unfolded One_nat_def])

lemma supersede_ok:
  assumes ok: "store_ok s"
  shows "store_ok (snd (supersede E clk old new s))"
proof (cases "find_grain old (st_db s)")
  case None
  then show ?thesis using ok by (simp add: supersede_def)
next
  case (Some r)
  show ?thesis
  proof (cases "gr_svt r")
    case svt: None
    show ?thesis
    proof (cases "new (hash_to_hex (hex_encode (se_core E)) old)")
      case (Inl e)
      then show ?thesis using Some svt ok by (simp add: supersede_def)
    next
      case (Inr bh)
      obtain blob h where bh: "bh = (blob, h)" by (cases bh)
      obtain x s1 where prep: "prep_from_blob E (clk 0) blob h s = (x, s1)" by fastforce
      have ok1: "store_ok s1"
        using store_ok_frame [OF framed_at [OF framed_prep] ok] prep by (metis snd_conv)
      show ?thesis
      proof (cases x)
        case (Inl e)
        then show ?thesis
          using supersede_unfold [where new = new and E = E and clk = clk, OF Some svt Inr [unfolded bh]] prep ok1 by (simp add: bind_op_def)
      next
        case xr: (Inr pr)
        have "store_ok (snd (commit_two clk (\<lambda>ids op2. supersede_txn old pr ids op2 (clk 2)) pr h s1))"
          using supersede_txn_ok supersede_txn_effect ok1
          by (intro commit_two_ok [OF ok1]) (fastforce simp: store_ok_def)
        then show ?thesis
          using supersede_unfold [where new = new and E = E and clk = clk, OF Some svt Inr [unfolded bh]] prep xr by (simp add: bind_op_def)
      qed
    qed
  next
    case svt: (Some t)
    then show ?thesis using Some ok by (simp add: supersede_def)
  qed
qed

section \<open>Forgetting\<close>

lemma forget_cases:
  assumes "find_grain h (st_db s) = Some r"
  obtains hlc s1 where "hlc_last s < hlc" "s1 = s\<lparr>next_op := next_op s + 1, hlc_last := hlc\<rparr>"
    "forget E now h s =
      (case insert_op (next_op s) hlc OP_FORGET h (erase r (st_db s)) of
         Inl e \<Rightarrow> (Inl e, s1)
       | Inr d \<Rightarrow> (Inr (), drop_doc (map_of (fts_doc (st_db s)) (gr_seq r))
           (s1\<lparr>st_db := d, cas_files := filter (\<lambda>f. f \<notin> set (unreferenced E
              (remdups (sort (blob_cas E (gr_blob r)))) d)) (cas_files s)\<rparr>)))"
proof -
  obtain x s1 where res: "reserve_op now s = (x, s1)" by fastforce
  obtain hlc where hlc: "x = Inr (next_op s, hlc)" "hlc_last s < hlc"
      "s1 = s\<lparr>next_op := next_op s + 1, hlc_last := hlc\<rparr>"
    using reserve_op_effect [OF res] by blast
  have txn: "forget_txn h (row_cell r) (next_op s, hlc) (st_db s) =
      and_then (insert_op (next_op s) hlc OP_FORGET h (erase r (st_db s)))
        (\<lambda>d. Inr (map_of (fts_doc (st_db s)) (gr_seq r), d))"
    using assms by (simp add: forget_txn_def Let_def erase_def split: option.splits)
  show thesis
    by (rule that [OF hlc(2,3)])
      (use assms res hlc in \<open>simp add: forget_def Let_def bind_op_def with_txn_def txn and_then_def
          split: sum.splits\<close>)
qed

lemma store_ok_drop_doc: "store_ok (drop_doc len s) = store_ok s"
  by (simp add: drop_doc_def store_ok_def dict_ok_def split: option.splits)

lemma erase_other:
  "terms (erase r d) = terms d" "oplog (erase r d) = oplog d"
  "grains (erase r d) = delete_where (\<lambda>x. gr_seq x = gr_seq r) (grains d)"
  by (simp_all add: erase_def forget_rows_def split: option.splits)

lemma forget_ok:
  assumes ok: "store_ok s"
  shows "store_ok (snd (forget E now h s))"
proof (cases "find_grain h (st_db s)")
  case None
  then show ?thesis using ok by (simp add: forget_def)
next
  case (Some r)
  then have r: "r \<in> set (grains (st_db s))" using find_grain_Some by blast
  obtain hlc s1 where hlc: "hlc_last s < hlc"
    and s1: "s1 = s\<lparr>next_op := next_op s + 1, hlc_last := hlc\<rparr>"
    and run: "forget E now h s =
      (case insert_op (next_op s) hlc OP_FORGET h (erase r (st_db s)) of
         Inl e \<Rightarrow> (Inl e, s1)
       | Inr d \<Rightarrow> (Inr (), drop_doc (map_of (fts_doc (st_db s)) (gr_seq r))
           (s1\<lparr>st_db := d, cas_files := filter (\<lambda>f. f \<notin> set (unreferenced E
              (remdups (sort (blob_cas E (gr_blob r)))) d)) (cas_files s)\<rparr>)))"
    by (rule forget_cases [OF Some])
  show ?thesis
  proof (cases "insert_op (next_op s) hlc OP_FORGET h (erase r (st_db s))")
    case (Inl e)
    have "store_ok s1" using ok hlc s1 by (intro store_ok_cong [OF _ _ _ _ _ _ _ _ _ _ _ _ ok]) auto
    then show ?thesis using run Inl by simp
  next
    case (Inr d)
    have d: "db_ok d"
      using insert_op_ok [OF Inr] erase_ok [OF _ r] ok by (simp add: store_ok_def)
    have rows: "oplog d = oplog (st_db s)
        @ [\<lparr> op_seq = next_op s, op_hlc = hlc, op_kind = OP_FORGET, op_hash = h \<rparr>]"
      "terms d = terms (st_db s)" "grains d = grains (erase r (st_db s))"
      using Inr by (auto simp: insert_op_Inr erase_other)
    have "log_ok (st_db s) (next_op s) (hlc_last s)" using ok by (simp add: store_ok_def)
    from log_ok_append [OF this rows(1)] have "log_ok d (next_op s + 1) hlc" using hlc by simp
    moreover have "seqs_below d (next_seq s)"
      using ok rows(3) by (auto simp: store_ok_def seqs_below_def grain_seqs_def erase_other set_delete_where)
    ultimately have "store_ok (s1\<lparr>st_db := d, cas_files := fs\<rparr>)" for fs
      using d ok rows(2) s1 by (simp add: store_ok_def dict_ok_def)
    then show ?thesis using run Inr by (simp add: store_ok_drop_doc)
  qed
qed

section \<open>Merging\<close>

text \<open>Closing tips of a cell that has other heads.\<close>

lemma close_tip_ok:
  assumes ok: "db_ok d" and away: "\<And>x. x \<in> set (heads d) \<Longrightarrow> hd_hash x \<noteq> tip"
  shows "db_ok (close_tip new now tip d)" "heads (close_tip new now tip d) = heads d"
proof -
  show hs: "heads (close_tip new now tip d) = heads d"
    by (simp add: close_tip_def split: option.splits)
  show "db_ok (close_tip new now tip d)"
  proof (cases "find_grain tip d")
    case None
    then show ?thesis using ok by (simp add: close_tip_def)
  next
    case (Some r)
    have r: "r \<in> set (grains d)" "gr_hash r = tip" using find_grain_Some [OF Some] by auto
    have keys: "ok_keys d" "ok_heads d" "ok_latest d" "ok_refs d" using ok by (simp_all add: db_ok_def)
    have ne: "hd_seq x \<noteq> gr_seq r" if x: "x \<in> set (heads d)" for x
    proof
      assume "hd_seq x = gr_seq r"
      moreover obtain y where "y \<in> set (grains d)" "gr_seq y = hd_seq x" "gr_hash y = hd_hash x"
        using keys(2) x by (auto simp: ok_heads_def good_head_def)
      ultimately have "hd_hash x = tip" using seq_unique [OF keys(1) _ r(1)] r(2) by metis
      then show False using away [OF x] by simp
    qed
    let ?d = "close_grain (gr_seq r) new now d"
    have "db_ok ?d"
      using keys ne good_head_close
      by (auto simp: db_ok_def ok_keys_def ok_refs_def ok_heads_def ok_latest_cong [of ?d d])
    then show ?thesis using Some ok by (simp add: close_tip_def)
  qed
qed

lemma close_tips_ok:
  assumes "db_ok d" and "\<And>x. x \<in> set (heads d) \<Longrightarrow> hd_hash x \<notin> set tips"
  shows "db_ok (fold (close_tip new now) tips d) \<and> heads (fold (close_tip new now) tips d) = heads d"
  using assms
proof (induction tips arbitrary: d)
  case (Cons tip tips)
  have a: "db_ok (close_tip new now tip d)" "heads (close_tip new now tip d) = heads d"
    using Cons.prems close_tip_ok [OF Cons.prems(1)] by auto
  have "hd_hash x \<notin> set tips" if "x \<in> set (heads (close_tip new now tip d))" for x
    using Cons.prems(2) that by (simp add: a(2))
  from Cons.IH [OF a(1) this] show ?case by (simp add: a(2))
qed simp

lemma close_tips_other:
  "terms (fold (close_tip new now) tips d) = terms d \<and> oplog (fold (close_tip new now) tips d) = oplog d
   \<and> grain_seqs (fold (close_tip new now) tips d) = grain_seqs d"
proof (induction tips arbitrary: d)
  case (Cons tip tips)
  have "terms (close_tip new now tip d) = terms d \<and> oplog (close_tip new now tip d) = oplog d
      \<and> grain_seqs (close_tip new now tip d) = grain_seqs d"
  proof (cases "find_grain tip d")
    case (Some r)
    moreover have "terms (close_grain q h t d) = terms d" for q h t by (simp add: close_grain_def)
    ultimately show ?thesis by (simp add: close_tip_def)
  qed (simp add: close_tip_def)
  then show ?case using Cons.IH by simp
qed simp

text \<open>The merged grain lies in the fork's cell.\<close>

definition prep_key :: "grain_prep \<Rightarrow> (int \<times> int \<times> int) option" where
  "prep_key pr = map_option (\<lambda>(ns, s, p, ob). (ns, s, p)) (prep_cell pr)"

lemma merge_txn_ok:
  assumes txn: "merge_txn tips pr (sq, op, hlc) (op2, hlc2) now d = Inr (u, d')" and ok: "db_ok d"
    and tips: "set tips = hd_hash ` set (cell_heads k d)" and key: "prep_key pr = Some k"
  shows "db_ok d'"
    and "cell_heads k d' = [head_at sq (pp_hash pr) (pp_created pr) (the (prep_cell pr))]"
proof -
  obtain d1 where d1: "insert_one pr sq op hlc d = Inr d1"
    and d': "insert_op op2 hlc2 OP_SUPERSEDE (pp_hash pr)
        (fold (close_tip (pp_hash pr) now) tips d1) = Inr d'"
    using txn by (auto simp: merge_txn_def result_simps Let_def)
  note eff = insert_one_effect [OF d1]
  obtain ns s p ob where c: "prep_cell pr = Some (ns, s, p, ob)" and k: "k = (ns, s, p)"
    using key by (auto simp: prep_key_def)
  have hs: "cell_heads j d1 = (if j = k then [head_at sq (pp_hash pr) (pp_created pr) (ns, s, p, ob)]
      else cell_heads j d)" for j
    using cell_heads_claim [OF c] eff(5) by (simp add: cell_heads_def k)
  have ok1: "db_ok d1" by (rule insert_one_ok [OF d1 ok])
  have away: "hd_hash x \<notin> set tips" if x: "x \<in> set (heads d1)" for x
  proof
    assume "hd_hash x \<in> set tips"
    then obtain y where y: "y \<in> set (heads d)" "head_key y = k" "hd_hash x = hd_hash y"
      unfolding tips by (auto simp: set_cell_heads)
    obtain gx gy where g: "gx \<in> set (grains d1)" "gr_hash gx = hd_hash x" "row_cell gx = Some (head_key x)"
        "gy \<in> set (grains d)" "gr_hash gy = hd_hash y" "row_cell gy = Some (head_key y)"
      using ok1 ok x y(1) by (fastforce simp: db_ok_def ok_heads_def good_head_def)
    have "gy \<in> set (grains d1)" using g(4) eff(3) by simp
    then have "gx = gy" using hash_unique [of d1 gx gy] ok1 g y(3) by (simp add: db_ok_def)
    then have "head_key x = k" using g y(2) by simp
    then have "x \<in> set (cell_heads k d1)" using x by (simp add: set_cell_heads)
    then have "hd_hash x = pp_hash pr" by (simp add: hs)
    moreover have "gr_hash gy \<noteq> pp_hash pr" using eff(2) g(4) by (metis imageI)
    ultimately show False using g(5) y(3) by simp
  qed
  note closed = close_tips_ok [OF ok1 away]
  show "db_ok d'" using insert_op_ok [OF d'] closed by blast
  have "heads d' = heads d1" using d' closed by (auto simp: insert_op_Inr)
  then have "cell_heads k d' = cell_heads k d1" by (simp add: cell_heads_def)
  then show "cell_heads k d' = [head_at sq (pp_hash pr) (pp_created pr) (the (prep_cell pr))]"
    by (simp add: hs c)
qed

lemma merge_txn_effect:
  assumes "merge_txn tips pr (sq, op, hlc) (op2, hlc2) now d = Inr (u, d')"
  shows "terms d' = terms d"
    and "grain_seqs d' = insert sq (grain_seqs d)"
    and "oplog d' = oplog d @ [\<lparr> op_seq = op, op_hlc = hlc, op_kind = OP_ADD, op_hash = pp_hash pr \<rparr>,
      \<lparr> op_seq = op2, op_hlc = hlc2, op_kind = OP_SUPERSEDE, op_hash = pp_hash pr \<rparr>]"
proof -
  obtain d1 where d1: "insert_one pr sq op hlc d = Inr d1"
    and d': "insert_op op2 hlc2 OP_SUPERSEDE (pp_hash pr)
        (fold (close_tip (pp_hash pr) now) tips d1) = Inr d'"
    using assms by (auto simp: merge_txn_def result_simps Let_def)
  note eff = insert_one_effect [OF d1] and oth = close_tips_other [of "pp_hash pr" now tips d1]
  show "terms d' = terms d"
    using terms_insert_op [OF d'] terms_insert_one [OF d1] oth by simp
  have "grain_seqs d1 = insert sq (grain_seqs d)"
    using eff(3) by (auto simp: grain_seqs_def grain_of_prep_def)
  moreover have "grain_seqs d' = grain_seqs (fold (close_tip (pp_hash pr) now) tips d1)"
    using d' by (auto simp: insert_op_Inr grain_seqs_def)
  ultimately show "grain_seqs d' = insert sq (grain_seqs d)" using oth by simp
  show "oplog d' = oplog d @ [\<lparr> op_seq = op, op_hlc = hlc, op_kind = OP_ADD, op_hash = pp_hash pr \<rparr>,
      \<lparr> op_seq = op2, op_hlc = hlc2, op_kind = OP_SUPERSEDE, op_hash = pp_hash pr \<rparr>]"
    using d' eff(8) oth by (auto simp: insert_op_Inr)
qed

lemma merge_unfold:
  assumes "tips = map fst (heads_of ns subject relation s)" and "2 \<le> length tips"
    and "merged (hash_to_hex (hex_encode (se_core E)) (hd tips))
      (map (hash_to_hex (hex_encode (se_core E))) tips) = Inr (blob, h)"
  shows "merge_heads E clk ns subject relation merged s =
    bind_op (prep_from_blob E (clk 0) blob h) (\<lambda>pr.
      commit_two clk (\<lambda>ids op2. merge_txn tips pr ids op2 (clk 2)) pr h) s"
  using assms(2,3) unfolding assms(1)
  by (simp add: merge_heads_def commit_two_def Let_def reserve_assoc [of clk, unfolded One_nat_def])

text \<open>The grain describes the value of the given cell.\<close>

definition grain_in_cell :: "int \<Rightarrow> string \<Rightarrow> string \<Rightarrow> string \<Rightarrow> deserialized_grain \<Rightarrow> bool" where
  "grain_in_cell now ns subject relation view =
     (let gv = extract_view now view
      in gv_ns gv = ns \<and> gv_subject gv = Some subject \<and> gv_relation gv = Some relation
         \<and> gv_object gv \<noteq> None)"

lemma prep_says_cell:
  assumes "prep_says now view blob h s pr" and "grain_in_cell now ns subject relation view"
  shows "prep_key pr = cell_of ns subject relation s" and "prep_key pr \<noteq> None"
proof -
  obtain ob where "view_triple (extract_view now view) = Some (subject, relation, ob)"
    using assms(2) by (auto simp: grain_in_cell_def view_triple_def Let_def)
  then obtain i j k where "pp_s pr = Some i" "pp_p pr = Some j" "pp_o pr = Some k"
      "map_of (dict s) subject = Some i" "map_of (dict s) relation = Some j"
      "map_of (dict s) ns = Some (pp_ns pr)"
    using assms by (auto simp: prep_says_def Let_def grain_in_cell_def)
  then show "prep_key pr = cell_of ns subject relation s" "prep_key pr \<noteq> None"
    by (simp_all add: prep_key_def prep_cell_def cell_of_def term_lookup_def)
qed

lemma cell_of_frame:
  assumes "prep_frame s s'" and "cell_of ns subject relation s = Some k"
  shows "cell_of ns subject relation s' = Some k"
proof -
  have "map_of (dict s) \<subseteq>\<^sub>m map_of (dict s')" using assms(1) by (simp add: prep_frame_def)
  then have "map_of (dict s') t = Some i" if "map_of (dict s) t = Some i" for t i
    using that by (simp add: map_le_def dom_def)
  then show ?thesis
    using assms(2) by (auto simp: cell_of_def term_lookup_def split: option.splits)
qed

lemma prep_frame_db:
  assumes "prep_frame s s'"
  shows "grains (st_db s') = grains (st_db s)" "triples (st_db s') = triples (st_db s)"
    "heads (st_db s') = heads (st_db s)" "entity_latest (st_db s') = entity_latest (st_db s)"
    "oplog (st_db s') = oplog (st_db s)" "cell_heads k (st_db s') = cell_heads k (st_db s)"
    "find_grain h (st_db s') = find_grain h (st_db s)"
    "grain_seqs (st_db s') = grain_seqs (st_db s)" "fts_doc (st_db s') = fts_doc (st_db s)"
proof -
  have c: "core_of (st_db s') = core_of (st_db s)" using assms by (simp add: prep_frame_def)
  show "grains (st_db s') = grains (st_db s)" "triples (st_db s') = triples (st_db s)"
    "heads (st_db s') = heads (st_db s)" "entity_latest (st_db s') = entity_latest (st_db s)"
    "oplog (st_db s') = oplog (st_db s)" "grain_seqs (st_db s') = grain_seqs (st_db s)"
    "fts_doc (st_db s') = fts_doc (st_db s)"
    using core_of_eq [OF c] by simp_all
  then show "cell_heads k (st_db s') = cell_heads k (st_db s)"
    "find_grain h (st_db s') = find_grain h (st_db s)"
    by (simp_all add: cell_heads_def find_grain_def)
qed

lemma merge_ok:
  assumes ok: "store_ok s"
    and cell: "\<And>px pxs blob h view. merged px pxs = Inr (blob, h) \<Longrightarrow>
      deserialize_blob (se_core E) blob = Inr view \<Longrightarrow> grain_in_cell (clk 0) ns subject relation view"
  shows "store_ok (snd (merge_heads E clk ns subject relation merged s))"
proof -
  define tips where "tips = map fst (heads_of ns subject relation s)"
  let ?hx = "hash_to_hex (hex_encode (se_core E))"
  show ?thesis
  proof (cases "2 \<le> length tips")
    case False
    then show ?thesis using ok by (simp add: merge_heads_def Let_def tips_def)
  next
    case two: True
    show ?thesis
    proof (cases "merged (?hx (hd tips)) (map ?hx tips)")
      case (Inl e)
      then show ?thesis using ok two by (simp add: merge_heads_def Let_def tips_def)
    next
      case (Inr bh)
      obtain blob h where bh: "bh = (blob, h)" by (cases bh)
      note run = merge_unfold [where merged = merged and E = E and clk = clk, OF tips_def two Inr [unfolded bh]]
      obtain x s1 where prep: "prep_from_blob E (clk 0) blob h s = (x, s1)" by fastforce
      have fr: "prep_frame s s1" using framed_at [OF framed_prep, of s E "clk 0" blob h] prep by simp
      have ok1: "store_ok s1" by (rule store_ok_frame [OF fr ok])
      show ?thesis
      proof (cases x)
        case (Inl e)
        then show ?thesis using run prep ok1 by (simp add: bind_op_def)
      next
        case xr: (Inr pr)
        obtain view where view: "deserialize_blob (se_core E) blob = Inr view"
            "prep_says (clk 0) view blob h s1 pr"
          using prep_from_blob_Inr prep xr by blast
        have inc: "grain_in_cell (clk 0) ns subject relation view"
          by (rule cell [OF Inr [unfolded bh] view(1)])
        obtain k where k: "cell_of ns subject relation s = Some k"
          using two by (cases "cell_of ns subject relation s") (auto simp: tips_def heads_of_def)
        have key: "prep_key pr = Some k"
          using prep_says_cell [OF view(2) inc] cell_of_frame [OF fr k] by simp
        have tips: "set tips = hd_hash ` set (cell_heads k (st_db s1))"
          using k by (simp add: tips_def heads_of_def prep_frame_db(6) [OF fr] image_image)
        have "store_ok (snd (commit_two clk (\<lambda>ids op2. merge_txn tips pr ids op2 (clk 2)) pr h s1))"
          using merge_txn_ok(1) [OF _ _ tips key] merge_txn_effect ok1
          by (intro commit_two_ok [OF ok1]) (fastforce simp: store_ok_def)
        then show ?thesis using run prep xr by (simp add: bind_op_def)
      qed
    qed
  qed
qed

section \<open>Reachable stores\<close>

text \<open>
  A local operation, successful or not. A merge is given a grain that describes the cell it
  merges; that is the caller's duty, as the store does not check it.
\<close>

inductive local_step :: "store_env \<Rightarrow> store \<Rightarrow> store \<Rightarrow> bool" for E where
  step_add: "add_batch_inner E now gs s = (r, s') \<Longrightarrow> local_step E s s'"
| step_supersede: "supersede E clk old new s = (r, s') \<Longrightarrow> local_step E s s'"
| step_forget: "forget E now h s = (r, s') \<Longrightarrow> local_step E s s'"
| step_merge: "merge_heads E clk ns subject relation merged s = (r, s') \<Longrightarrow>
    (\<And>px pxs blob h view. merged px pxs = Inr (blob, h) \<Longrightarrow>
      deserialize_blob (se_core E) blob = Inr view \<Longrightarrow>
      grain_in_cell (clk 0) ns subject relation view) \<Longrightarrow> local_step E s s'"

inductive reachable :: "store_env \<Rightarrow> store \<Rightarrow> store \<Rightarrow> bool" for E s0 where
  reach_start: "reachable E s0 s0"
| reach_step: "reachable E s0 s \<Longrightarrow> local_step E s s' \<Longrightarrow> reachable E s0 s'"

inductive_cases local_stepE: "local_step E s s'"

lemma local_step_ok: "local_step E s s' \<Longrightarrow> store_ok s \<Longrightarrow> store_ok s'"
  by (induction rule: local_step.induct)
    (metis add_batch_ok supersede_ok forget_ok snd_conv, metis supersede_ok snd_conv,
      metis forget_ok snd_conv, metis merge_ok snd_conv)

end
