(* ===== verification/Store_Demo.thy ===== *)
theory Store_Demo
  imports Store_Ok
begin

text \<open>
  A concrete instance of the external codec, four small grains of one cell, and the store
  that holds none of them: the inputs on which the store's theorems are exercised.
\<close>

definition demo_hash :: "bytes \<Rightarrow> bytes" where
  "demo_hash bs = replicate 31 7 @ [if bs = [] then 0 else last bs]"

definition demo_address :: "byte \<Rightarrow> hash" where
  "demo_address n = Hash (replicate 31 7 @ [n])"

definition demo_hex :: "byte \<Rightarrow> string" where
  "demo_hex n = map (\<lambda>b. char_of (unat b)) (replicate 31 7 @ [n])"

definition demo_fields :: "byte \<Rightarrow> (mp \<times> mp) list" where
  "demo_fields n =
     (let str = (\<lambda>s. MStr (Some s));
          triple = [(str ''s'', str ''bob''), (str ''r'', str ''city'')]
      in if n = 1 then triple @ [(str ''o'', str ''oslo''), (str ''ca'', MInt 10)]
         else if n = 2 then triple @ [(str ''o'', str ''rome''), (str ''ca'', MInt 20),
           (str ''df'', str (demo_hex 1))]
         else if n = 3 then triple @ [(str ''o'', str ''bern''), (str ''ca'', MInt 5),
           (str ''df'', str (demo_hex 1))]
         else if n = 4 then [(str ''s'', str ''bob''), (str ''r'', str ''town''),
           (str ''o'', str ''rome''), (str ''ca'', MInt 30),
           (str ''df'', str (demo_hex 1))]
         else [])"

definition demo_core :: core_env where
  "demo_core = \<lparr> sha256 = demo_hash, hex_encode = map (\<lambda>b. char_of (unat b)),
     hex_decode = (\<lambda>s. Inr (map (\<lambda>c. of_nat (code_of c)) s)),
     write_value = (\<lambda>v. Inl ''read only''),
     read_value = (\<lambda>bs. case bs of [n] \<Rightarrow> Inr (MMap (demo_fields n), []) | _ \<Rightarrow> Inl ''unsupported''),
     nfc = (\<lambda>s. s), cose_payload = None \<rparr>"

definition demo_env :: store_env where
  "demo_env = \<lparr> se_core = demo_core, se_embed = None, se_version = ''1.4.6'' \<rparr>"

definition demo_blob :: "byte \<Rightarrow> bytes" where
  "demo_blob n = [1, 0, 1, 0, 0, 0, 0, 0, 0, n]"

definition demo_store :: store where
  "demo_store = \<lparr> st_db = empty_db, dict = [], next_term = 1, next_seq = 1, next_op = 1,
     hlc_last = 0, fts_docs = 0, fts_total_len = 0, index_text = False, fts_deferred = False,
     entity_rels = [], needs_min_reader_stamp = True, cas_files = [] \<rparr>"

lemma demo_guard: "n < 0x80 \<Longrightarrow> guard_msgpack_shape [n] = Inr ()"
proof -
  assume "n < 0x80"
  then have "unat n < 128" by (simp add: word_less_nat_alt)
  then show ?thesis
    by (simp add: guard_msgpack_shape_def guard_value_def guard_marker_def need_bytes_def)
qed

lemma demo_names:
  "map_key OmsTop ''s'' = (''subject'', Verbatim)"
  "map_key OmsTop ''r'' = (''relation'', Verbatim)"
  "map_key OmsTop ''o'' = (''object'', Verbatim)"
  "map_key OmsTop ''ca'' = (''created_at'', Verbatim)"
  "map_key OmsTop ''df'' = (''derived_from'', Verbatim)"
proof -
  have common: "(l, x) \<in> set FIELD_MAP" if "(l, x) \<in> set FIELD_MAP_common" for l x
    using that by (simp add: FIELD_MAP_def FIELD_MAP_blocks_def)
  have names: "expand_field ''s'' = ''subject''" "expand_field ''r'' = ''relation''"
    "expand_field ''o'' = ''object''" "expand_field ''ca'' = ''created_at''"
    "expand_field ''df'' = ''derived_from''"
    unfolding expand_field_def
    by (rule fields.expand_Some, rule common, simp add: FIELD_MAP_common_def)+
  then show "map_key OmsTop ''s'' = (''subject'', Verbatim)"
    "map_key OmsTop ''r'' = (''relation'', Verbatim)"
    "map_key OmsTop ''o'' = (''object'', Verbatim)"
    "map_key OmsTop ''ca'' = (''created_at'', Verbatim)"
    "map_key OmsTop ''df'' = (''derived_from'', Verbatim)"
    by (simp_all add: map_key_def)
qed

definition demo_grain :: "byte \<Rightarrow> (string \<times> json) list \<Rightarrow> deserialized_grain" where
  "demo_grain n m =
     \<lparr> dg_header = \<lparr> version = 1, flags = 0, hdr_grain_type = 1, ns_hash = 0, created_at_sec = 0 \<rparr>,
       dg_type = GFact, dg_fields = m, dg_hash = demo_address n \<rparr>"

lemma demo_decode:
  assumes "n < 0x80" and "msgpack_to_json demo_core OmsTop (MMap (demo_fields n)) = Inr (JObj m)"
  shows "deserialize_blob demo_core (demo_blob n) = Inr (demo_grain n m)"
proof -
  have "decode_payload demo_core [n] = Inr m"
    using assms by (simp add: decode_payload_def demo_guard demo_core_def)
  moreover have "header_from_bytes (take 9 (demo_blob n)) =
      Inr \<lparr> version = 1, flags = 0, hdr_grain_type = 1, ns_hash = 0, created_at_sec = 0 \<rparr>"
    by (simp add: header_from_bytes_def demo_blob_def u16_from_be_bytes_def u32_from_be_bytes_def)
  moreover have "from_byte 1 = Some GFact" by code_simp
  ultimately show ?thesis
    by (simp add: deserialize_blob_def unwrap_if_cose_def demo_blob_def MAX_GRAIN_BYTES_def
        demo_grain_def demo_core_def demo_hash_def demo_address_def content_address_def
        hash_from_bytes_def)
qed

definition demo_json :: "string \<Rightarrow> string \<Rightarrow> int \<Rightarrow> bool \<Rightarrow> (string \<times> json) list" where
  "demo_json rel ob t old =
     (''created_at'', JInt t) # (if old then [(''derived_from'', JStr (demo_hex 1))] else [])
     @ [(''object'', JStr ob), (''relation'', JStr rel), (''subject'', JStr ''bob'')]"

lemma demo_read:
  "deserialize_blob demo_core (demo_blob 1) = Inr (demo_grain 1 (demo_json ''city'' ''oslo'' 10 False))"
  "deserialize_blob demo_core (demo_blob 2) = Inr (demo_grain 2 (demo_json ''city'' ''rome'' 20 True))"
  "deserialize_blob demo_core (demo_blob 3) = Inr (demo_grain 3 (demo_json ''city'' ''bern'' 5 True))"
  "deserialize_blob demo_core (demo_blob 4) = Inr (demo_grain 4 (demo_json ''town'' ''rome'' 30 True))"
  by (rule demo_decode; simp add: demo_fields_def Let_def demo_names i64_min_def u64_max_def
      demo_json_def less_list_code less_char_def)+

section \<open>Small stores\<close>

definition demo_row :: "int \<Rightarrow> byte \<Rightarrow> int \<Rightarrow> int \<Rightarrow> grain_row" where
  "demo_row sq n t ob =
     \<lparr> gr_seq = sq, gr_hash = demo_address n, gr_ns = 1, gr_gtype = 0, gr_created = t,
       gr_s = Some 2, gr_p = Some 3, gr_o = Some ob, gr_vf = None, gr_vt = None, gr_svf = t,
       gr_svt = None, gr_superseded_by = None, gr_supersedes = None, gr_text = None,
       gr_blob = demo_blob n \<rparr>"

definition demo_tables :: "(int \<times> byte \<times> int \<times> int) list \<Rightarrow> latest_row \<Rightarrow> db" where
  "demo_tables gs e =
     empty_db\<lparr> terms := [(1, ''shared''), (2, ''bob''), (3, ''city''), (4, ''oslo''), (5, ''rome''), (6, ''bern'')],
       grains := map (\<lambda>(q, n, t, ob). demo_row q n t ob) gs,
       triples := map (\<lambda>(q, n, t, ob). triple_at q (1, 2, 3, ob)) gs,
       heads := map (\<lambda>(q, n, t, ob). head_at q (demo_address n) t (1, 2, 3, ob)) gs,
       entity_latest := [e] \<rparr>"

definition demo_open :: "db \<Rightarrow> store" where
  "demo_open d = demo_store\<lparr> st_db := d,
     dict := [(''shared'', 1), (''bob'', 2), (''city'', 3), (''oslo'', 4), (''rome'', 5), (''bern'', 6)],
     next_term := 7, next_seq := 10 \<rparr>"

text \<open>One grain, and an open fork of two.\<close>

definition solo_store :: store where
  "solo_store = demo_open (demo_tables [(1, 1, 10, 4)] (latest_at 1 (demo_address 1) (1, 2, 3, 4)))"

definition fork_store :: store where
  "fork_store = demo_open (demo_tables [(2, 2, 20, 5), (3, 3, 5, 6)]
     (latest_at 2 (demo_address 2) (1, 2, 3, 5)))"

lemma demo_address_eq [simp]: "demo_address m = demo_address n \<longleftrightarrow> m = n"
  by (simp add: demo_address_def)

lemma demo_store_ok: "store_ok demo_store"
  by (simp add: store_ok_def demo_store_def empty_db_def db_ok_def ok_keys_def ok_refs_def
      index_seqs_def grain_seqs_def ok_heads_def ok_latest_def latest_head_def best_head_def
      latest_row_of_def cell_heads_def seqs_below_def log_ok_def dict_ok_def)

lemma demo_tables_ok:
  assumes "distinct (map fst gs)" and "distinct (map (fst \<circ> snd) gs)"
    and "\<forall>(q, n, t, ob) \<in> set gs. q < 10"
    and "\<And>k. latest_head k (demo_tables gs e) = best_head k (demo_tables gs e)"
  shows "store_ok (demo_open (demo_tables gs e))"
proof -
  let ?d = "demo_tables gs e"
  have sel: "grains ?d = map (\<lambda>(q, n, t, ob). demo_row q n t ob) gs"
    "triples ?d = map (\<lambda>(q, n, t, ob). triple_at q (1, 2, 3, ob)) gs"
    "heads ?d = map (\<lambda>(q, n, t, ob). head_at q (demo_address n) t (1, 2, 3, ob)) gs"
    "entity_latest ?d = [e]" "oplog ?d = []"
    by (simp_all add: demo_tables_def empty_db_def)
  have row: "gr_seq (demo_row q n t ob) = q" "gr_hash (demo_row q n t ob) = demo_address n"
    "gr_created (demo_row q n t ob) = t" "row_cell (demo_row q n t ob) = Some (1, 2, 3)"
    "gr_svt (demo_row q n t ob) = None" for q n t ob
    by (simp_all add: demo_row_def row_cell_def)
  have seqs: "map gr_seq (grains ?d) = map fst gs"
    by (auto simp: sel row)
  have "map gr_hash (grains ?d) = map demo_address (map (fst \<circ> snd) gs)" by (auto simp: sel row)
  then have keys: "ok_keys ?d"
    using assms(1,2) seqs by (simp add: ok_keys_def distinct_map inj_on_def)
  have "grain_seqs ?d = fst ` set gs" unfolding grain_seqs_def by (metis list.set_map seqs)
  moreover have "map tr_seq (triples ?d) = map fst gs" by (auto simp: sel)
  then have "tr_seq ` set (triples ?d) = fst ` set gs" by (metis list.set_map)
  then have "index_seqs ?d = fst ` set gs"
    by (simp add: index_seqs_def demo_tables_def empty_db_def)
  ultimately have refs: "ok_refs ?d" and below: "seqs_below ?d 10"
    using assms(3) by (auto simp: ok_refs_def seqs_below_def)
  have "good_head ?d h" if hh: "h \<in> set (heads ?d)" for h
  proof -
    obtain q n t ob where g: "(q, n, t, ob) \<in> set gs" and h: "h = head_at q (demo_address n) t (1, 2, 3, ob)"
      using hh by (auto simp: sel)
    have "demo_row q n t ob \<in> set (grains ?d)" "triple_at q (1, 2, 3, ob) \<in> set (triples ?d)"
      using g by (force simp: sel)+
    then show ?thesis
      unfolding good_head_def head_object_None h using row
      by (fastforce simp: triple_at_def head_at_def head_key_def)
  qed
  then have heads: "ok_heads ?d" by (simp add: ok_heads_def)
  have "ok_latest ?d" using assms(4) by (intro ok_latestI) (simp_all add: sel)
  then show ?thesis
    using keys refs heads below
    by (simp add: store_ok_def db_ok_def demo_open_def demo_store_def log_ok_def sel dict_ok_def)
      (simp add: demo_tables_def empty_db_def insert_commute)
qed

lemma solo_store_ok: "store_ok solo_store"
  unfolding solo_store_def
  by (rule demo_tables_ok)
    (auto simp: latest_head_def best_head_def latest_row_of_def cell_heads_def demo_tables_def
      empty_db_def)

lemma fork_store_ok: "store_ok fork_store"
  unfolding fork_store_def
  by (rule demo_tables_ok)
    (auto simp: latest_head_def best_head_def latest_row_of_def cell_heads_def demo_tables_def
      empty_db_def head_rank_def)

lemma demo_core_env [simp]: "se_core demo_env = demo_core"
  by (simp add: demo_env_def)

lemma demo_preparable:
  "preparable demo_env (demo_blob 1)" "preparable demo_env (demo_blob 2)"
  "preparable demo_env (demo_blob 3)" "preparable demo_env (demo_blob 4)"
  by (simp_all add: preparable_def demo_read prep_embedding_def demo_env_def)

lemma demo_in_cell:
  "grain_in_cell now ''shared'' ''bob'' rel (demo_grain n (demo_json rel ob t b))"
  by (simp add: grain_in_cell_def extract_view_def get_str_def dg_get_def demo_grain_def
      demo_json_def Let_def)

lemma demo_absent:
  "find_grain (demo_address n) (st_db demo_store) = None"
  "n \<noteq> 1 \<Longrightarrow> find_grain (demo_address n) (st_db solo_store) = None"
  "n \<noteq> 2 \<Longrightarrow> n \<noteq> 3 \<Longrightarrow> find_grain (demo_address n) (st_db fork_store) = None"
  by (simp_all add: find_grain_def demo_store_def empty_db_def solo_store_def fork_store_def
      demo_open_def demo_tables_def demo_row_def)

lemma solo_row: "find_grain (demo_address 1) (st_db solo_store) = Some (demo_row 1 1 10 4)"
  by (simp add: find_grain_def solo_store_def demo_open_def demo_tables_def demo_row_def)

lemma solo_row_open: "gr_svt (demo_row 1 1 10 4) = None" "gr_seq (demo_row 1 1 10 4) = 1"
  by (simp_all add: demo_row_def)

lemma fork_heads:
  "heads_of ''shared'' ''bob'' ''city'' fork_store = [(demo_address 2, 20), (demo_address 3, 5)]"
  by (simp add: heads_of_def cell_of_def term_lookup_def fork_store_def demo_open_def cell_heads_def
      demo_tables_def head_rank_def)

end
