(* ===== verification/Store_Props.thy ===== *)
theory Store_Props
  imports Store_Demo
begin

text \<open>
  What the local operations of the store promise: adding, superseding, forgetting and
  merging, on success and on failure, over any store that satisfies the invariant.
\<close>

section \<open>Finding rows\<close>

lemma find_grain_append:
  "find_grain h (d\<lparr>grains := xs\<rparr>) = find (\<lambda>r. gr_hash r = h) xs"
  by (simp add: find_grain_def)

lemma find_grain_cong: "grains d' = grains d \<Longrightarrow> find_grain h d' = find_grain h d"
  by (simp add: find_grain_def)

lemma find_append: "find P (xs @ ys) = (case find P xs of None \<Rightarrow> find P ys | Some x \<Rightarrow> Some x)"
  by (induction xs) auto

lemma find_grain_insert:
  assumes "insert_one pr sq op hlc d = Inr d'"
  shows "find_grain h d' = (if h = pp_hash pr then Some (grain_of_prep sq pr) else find_grain h d)"
proof -
  note eff = insert_one_effect [OF assms]
  have "find_grain (pp_hash pr) d = None" using eff(2) by (simp add: find_grain_None)
  then show ?thesis
    by (auto simp: find_grain_def eff(3) find_append grain_of_prep_def split: option.splits)
qed

text \<open>On a sound store the row of a grain is the one with its address.\<close>

lemma find_grain_row:
  assumes "ok_keys d" and "r \<in> set (grains d)"
  shows "find_grain (gr_hash r) d = Some r"
proof -
  have "\<exists>x. find_grain (gr_hash r) d = Some x"
    using assms(2) by (cases "find_grain (gr_hash r) d") (auto simp: find_grain_None)
  then obtain x where x: "find_grain (gr_hash r) d = Some x" by blast
  then have "x = r" using find_grain_Some [OF x] hash_unique [OF assms(1)] assms(2) by blast
  then show ?thesis using x by simp
qed

section \<open>Adding one grain\<close>

lemma latest_from_row:
  assumes "cell_of ns subject relation s = Some k" and "latest_row_of k (st_db s) = Some e"
    and "find_grain (el_hash e) (st_db s) = Some r"
    and "deserialize_blob (se_core E) (gr_blob r) = Inr view"
  shows "latest E ns subject relation s = Inr (Some view)"
  using assms by (simp add: latest_def get_grain_def)

lemma insert_one_claims:
  assumes "insert_one pr sq op hlc d = Inr d'" and "prep_cell pr = Some (ns, s, p, ob)"
  shows "cell_heads (ns, s, p) d' = [head_at sq (pp_hash pr) (pp_created pr) (ns, s, p, ob)]"
    and "latest_row_of (ns, s, p) d' = Some (latest_at sq (pp_hash pr) (ns, s, p, ob))"
proof -
  note eff = insert_one_effect [OF assms(1)]
  show "cell_heads (ns, s, p) d' = [head_at sq (pp_hash pr) (pp_created pr) (ns, s, p, ob)]"
    using cell_heads_claim [OF assms(2), of "(ns, s, p)" sq d] eff(5) by (simp add: cell_heads_def)
  have "latest_row_of (ns, s, p) d' = latest_row_of (ns, s, p) (claim_cell pr sq d)"
    by (simp add: latest_row_of_def eff(6))
  also have "\<dots> = latest_row_of (ns, s, p) (put_latest (latest_at sq (pp_hash pr) (ns, s, p, ob)) d)"
    by (simp add: latest_row_of_def claim_cell_def assms(2) Let_def)
  finally show "latest_row_of (ns, s, p) d' = Some (latest_at sq (pp_hash pr) (ns, s, p, ob))"
    by (simp add: latest_row_of_upsert)
qed

lemma prep_total:
  assumes "store_ok s" and "preparable E blob"
  obtains pr view s' where "prep_from_blob E now blob h s = (Inr pr, s')" "prep_frame s s'"
    "store_ok s'" "deserialize_blob (se_core E) blob = Inr view" "prep_says now view blob h s' pr"
proof -
  obtain x s' where run: "prep_from_blob E now blob h s = (x, s')" by fastforce
  have "dict_ok s" using assms(1) by (simp add: store_ok_def)
  then obtain pr where x: "x = Inr pr"
    using sure_at [OF sure_prep [OF assms(2)], of s now h] run is_okE by (metis fst_conv)
  have fr: "prep_frame s s'" using framed_at [OF framed_prep, of s E now blob h] run by simp
  show thesis
    using that run x fr store_ok_frame [OF fr assms(1)] prep_from_blob_Inr by blast
qed

lemma add_new:
  assumes ok: "store_ok s" and prep: "preparable E blob" and new: "find_grain h (st_db s) = None"
  obtains pr view s1 s' d' sq op hlc where
    "add E now (Inr (blob, h)) s = (Inr h, s')"
    "prep_frame s s1" "deserialize_blob (se_core E) blob = Inr view"
    "prep_says now view blob h s1 pr" "dict s' = dict s1"
    "st_db s' = d'" "insert_one pr sq op hlc (st_db (stamp_min_reader E [pr] s1)) = Inr d'"
proof -
  obtain pr view s1 where run: "prep_from_blob E now blob h s = (Inr pr, s1)"
    and fr: "prep_frame s s1" and ok1: "store_ok s1"
    and view: "deserialize_blob (se_core E) blob = Inr view" "prep_says now view blob h s1 pr"
    by (rule prep_total [OF ok prep])
  have hash: "pp_hash pr = h" using view(2) by (simp add: prep_says_def Let_def)
  obtain r2 s2 where res: "reserve_for now 1 s1 = (r2, s2)" by fastforce
  obtain hlc where hlc: "r2 = Inr (next_seq s1, next_op s1, hlc)" "hlc_last s1 < hlc"
    and s2: "s2 = s1\<lparr>next_seq := next_seq s1 + int 1, next_op := next_op s1 + int 1,
       hlc_last := hlc + int 1 - 1\<rparr>"
    using reserve_for_effect [OF res] by blast
  have stamp: "st_db (stamp_min_reader E [pr] s2) = st_db (stamp_min_reader E [pr] s1)"
    using s2 by (simp add: stamp_min_reader_def)
  let ?d = "st_db (stamp_min_reader E [pr] s1)"
  have "store_ok (stamp_min_reader E [pr] s1)" by (rule store_ok_stamp [OF ok1])
  then have "db_ok ?d" "next_seq s1 \<notin> grain_seqs ?d" "next_op s1 \<notin> op_seq ` set (oplog ?d)"
    by (auto simp: store_ok_def seqs_below_def log_ok_def)
  moreover have "find_grain h (st_db s1) = None" using new prep_frame_db(7) [OF fr] by simp
  then have "pp_hash pr \<notin> gr_hash ` set (grains ?d)" unfolding find_grain_None by (simp add: hash)
  ultimately obtain d' where ins: "insert_one pr (next_seq s1) (next_op s1) hlc ?d = Inr d'"
    using insert_one_total by blast
  have batch: "prep_batch E now [Inr (blob, h)] {} s = (Inr ([h], [pr]), s1)"
    using run new by (simp add: has_grain_def bind_op_def ret_def)
  show thesis
  proof (rule that [OF _ fr view _ _ ins])
    show "add E now (Inr (blob, h)) s =
        (Inr h, bump_fts (fts_delta [pr]) ((stamp_min_reader E [pr] s2)\<lparr>st_db := d'\<rparr>))"
      using batch res hlc ins
      by (simp add: add_def add_batch_inner_def bind_op_def with_txn_def stamp ret_def)
    show "dict (bump_fts (fts_delta [pr]) ((stamp_min_reader E [pr] s2)\<lparr>st_db := d'\<rparr>)) = dict s1"
      using s2 by (simp add: bump_fts_def)
    show "st_db (bump_fts (fts_delta [pr]) ((stamp_min_reader E [pr] s2)\<lparr>st_db := d'\<rparr>)) = d'"
      by (simp add: bump_fts_def)
  qed
qed

lemma prep_says_full_cell:
  assumes "prep_says now view blob h s pr" and "grain_in_cell now ns subject relation view"
    and "dict s' = dict s"
  obtains a b c ob where "prep_cell pr = Some (a, b, c, ob)"
    "cell_of ns subject relation s' = Some (a, b, c)"
proof -
  obtain k where k: "prep_key pr = Some k" "cell_of ns subject relation s = Some k"
    using prep_says_cell [OF assms(1,2)] by (cases "prep_key pr") auto
  then obtain a b c ob where "prep_cell pr = Some (a, b, c, ob)" "k = (a, b, c)"
    by (auto simp: prep_key_def)
  moreover have "cell_of ns subject relation s' = Some k"
    using k(2) assms(3) by (simp add: cell_of_def term_lookup_def)
  ultimately show thesis using that by blast
qed

text \<open>
  Adding a new grain makes it readable by its address, and if it states a relation of a
  subject, the value and the only tip of that cell, whatever the cell held before.
\<close>

theorem add_then_latest:
  assumes "store_ok s" and "deserialize_blob (se_core E) blob = Inr view"
    and "preparable E blob" and "find_grain h (st_db s) = None"
    and "grain_in_cell now ns subject relation view"
  shows "\<exists>s'. add E now (Inr (blob, h)) s = (Inr h, s')
     \<and> get_grain E h s' = Inr view
     \<and> latest E ns subject relation s' = Inr (Some view)
     \<and> heads_of ns subject relation s' = [(h, gv_created (extract_view now view))]"
proof -
  obtain pr v s1 s' d' sq op hlc where
    run: "add E now (Inr (blob, h)) s = (Inr h, s')"
    and v: "deserialize_blob (se_core E) blob = Inr v" "prep_says now v blob h s1 pr"
    and dict: "dict s' = dict s1" and d': "st_db s' = d'"
    and ins: "insert_one pr sq op hlc (st_db (stamp_min_reader E [pr] s1)) = Inr d'"
    by (rule add_new [OF assms(1,3,4)])
  have v_eq: "v = view" using v(1) assms(2) by simp
  have says: "pp_hash pr = h" "pp_blob pr = blob" "pp_created pr = gv_created (extract_view now view)"
    using v(2) by (simp_all add: prep_says_def Let_def v_eq)
  obtain a b c ob where cell: "prep_cell pr = Some (a, b, c, ob)"
      "cell_of ns subject relation s' = Some (a, b, c)"
    by (rule prep_says_full_cell [OF v(2) [unfolded v_eq] assms(5) dict])
  have row: "find_grain h (st_db s') = Some (grain_of_prep sq pr)"
    using find_grain_insert [OF ins] d' says by simp
  have "gr_blob (grain_of_prep sq pr) = blob" by (simp add: grain_of_prep_def says)
  then have "latest E ns subject relation s' = Inr (Some view)" "get_grain E h s' = Inr view"
    using latest_from_row [OF cell(2)] insert_one_claims(2) [OF ins cell(1)] row says assms(2) d'
    by (simp_all add: get_grain_def)
  moreover have "heads_of ns subject relation s' = [(h, gv_created (extract_view now view))]"
    using insert_one_claims(1) [OF ins cell(1)] cell(2) d' says by (simp add: heads_of_def)
  ultimately show ?thesis using run by blast
qed

section \<open>Superseding\<close>

lemma find_update:
  assumes "\<And>r. gr_hash (f r) = gr_hash r"
  shows "find_grain h (d\<lparr>grains := update_where Q f (grains d)\<rparr>) =
    map_option (\<lambda>r. if Q r then f r else r) (find_grain h d)"
  unfolding find_grain_def by (simp add: find_update_where assms)

lemma find_close:
  "find_grain h (close_grain q by t d) = map_option (\<lambda>r. if gr_seq r = q
     then r\<lparr>gr_superseded_by := Some by, gr_svt := Some t\<rparr> else r) (find_grain h d)"
proof -
  let ?f = "\<lambda>r. r\<lparr>gr_superseded_by := Some by, gr_svt := Some t\<rparr>"
  have "find_grain h (close_grain q by t d) =
      find_grain h (d\<lparr>grains := update_where (\<lambda>r. gr_seq r = q) ?f (grains d)\<rparr>)"
    by (rule find_grain_cong) (simp add: close_grain_def)
  then show ?thesis using find_update [of ?f] by simp
qed

lemma find_link:
  "find_grain h (link_supersedes new old d) = map_option (\<lambda>r. if gr_hash r = new
     then r\<lparr>gr_supersedes := Some old\<rparr> else r) (find_grain h d)"
  unfolding link_supersedes_def by (subst find_update) simp_all

lemma find_retire:
  "find_grain h (retire old r new now d) = find_grain h (link_supersedes new old
     (close_grain (gr_seq r) new now d))"
  by (rule find_grain_cong) (simp add: retire_def Let_def split: option.splits)

lemma cell_heads_reconcile:
  "cell_heads j (reconcile_cell k q d) =
     filter (\<lambda>h. \<not> (head_key h = k \<and> hd_seq h = q)) (cell_heads j d)"
proof -
  have "cell_heads j (reconcile_cell k q d) =
      cell_heads j (d\<lparr>heads := delete_where (\<lambda>h. head_key h = k \<and> hd_seq h = q) (heads d)\<rparr>)"
    by (simp add: cell_heads_def)
  then show ?thesis by (simp add: cell_heads_delete)
qed

lemma cell_heads_retire:
  "cell_heads j (retire old r new now d) =
     (case row_cell r of None \<Rightarrow> cell_heads j d
      | Some k \<Rightarrow> filter (\<lambda>h. \<not> (head_key h = k \<and> hd_seq h = gr_seq r)) (cell_heads j d))"
proof -
  have "cell_heads j (link_supersedes new old (close_grain (gr_seq r) new now d)) = cell_heads j d"
    by (simp add: cell_heads_def)
  then show ?thesis
    by (simp add: retire_def Let_def cell_heads_reconcile split: option.splits)
qed

lemma commit_two_total:
  assumes "\<And>hlc hlc2. hlc_last s < hlc \<Longrightarrow> hlc < hlc2 \<Longrightarrow>
    \<exists>d. txn (next_seq s, next_op s, hlc) (next_op s + 1, hlc2) (st_db s) = Inr ((), d) \<and> P d"
  shows "\<exists>s'. commit_two clk txn pr h s = (Inr h, s') \<and> P (st_db s') \<and> dict s' = dict s"
proof -
  obtain hlc hlc2 s1 where
    s1: "s1 = s\<lparr>next_seq := next_seq s + 1, next_op := next_op s + 2, hlc_last := hlc2\<rparr>"
    and hlc: "hlc_last s < hlc" "hlc < hlc2"
    and run: "commit_two clk txn pr h s =
      (case txn (next_seq s, next_op s, hlc) (next_op s + 1, hlc2) (st_db s) of
         Inl e \<Rightarrow> (Inl e, s1)
       | Inr (_, d) \<Rightarrow> (Inr h, bump_fts (fts_delta [pr]) (s1\<lparr>st_db := d\<rparr>)))"
    by (rule commit_two_cases)
  obtain d where "txn (next_seq s, next_op s, hlc) (next_op s + 1, hlc2) (st_db s) = Inr ((), d)" "P d"
    using assms [OF hlc] by blast
  then show ?thesis using run s1 by (simp add: bump_fts_def)
qed

text \<open>What a committed supersession leaves behind.\<close>

definition superseded_in ::
  "hash \<Rightarrow> grain_row \<Rightarrow> hash \<Rightarrow> bytes \<Rightarrow> int \<Rightarrow> db \<Rightarrow> bool" where
  "superseded_in old r h blob now d =
     (find_grain old d = Some (r\<lparr>gr_superseded_by := Some h, gr_svt := Some now\<rparr>)
      \<and> (\<exists>n. find_grain h d = Some n \<and> gr_supersedes n = Some old \<and> gr_svt n = None \<and> gr_blob n = blob)
      \<and> (\<forall>x \<in> set (heads d). hd_hash x \<noteq> old) \<and> (\<forall>e \<in> set (entity_latest d). el_hash e \<noteq> old))"

lemma latest_is_head:
  assumes "ok_latest d" and "e \<in> set (entity_latest d)"
  shows "\<exists>x \<in> set (heads d). hd_hash x = el_hash e \<and> head_key x = latest_key e"
proof -
  have "latest_row_of (latest_key e) d = Some e"
    unfolding latest_row_of_def by (rule find_by_key [OF ok_latestD(2) [OF assms(1)] assms(2)])
  then have "best_head (latest_key e) d = Some (el_seq e, el_hash e)"
    using ok_latestD(1) [OF assms(1), of "latest_key e"] by (simp add: latest_head_def)
  then show ?thesis using best_head_mem by blast
qed

lemma superseded_inI:
  assumes "db_ok d" and "find_grain old d = Some (r\<lparr>gr_superseded_by := Some h, gr_svt := Some now\<rparr>)"
    and "find_grain h d = Some n" "gr_supersedes n = Some old" "gr_svt n = None" "gr_blob n = blob"
  shows "superseded_in old r h blob now d"
proof -
  have ok: "ok_keys d" "ok_heads d" "ok_latest d" using assms(1) by (simp_all add: db_ok_def)
  have heads: "hd_hash x \<noteq> old" if x: "x \<in> set (heads d)" for x
  proof
    assume "hd_hash x = old"
    moreover obtain y where "y \<in> set (grains d)" "gr_hash y = hd_hash x" "gr_svt y = None"
      using ok(2) x by (auto simp: ok_heads_def good_head_def)
    ultimately show False
      using hash_unique [OF ok(1)] find_grain_Some [OF assms(2)] by force
  qed
  moreover have "el_hash e \<noteq> old" if "e \<in> set (entity_latest d)" for e
    using latest_is_head [OF ok(3) that] heads by metis
  ultimately show ?thesis using assms by (simp add: superseded_in_def)
qed

lemma supersede_txn_total:
  assumes ok: "db_ok d" and old: "find_grain old d = Some r" "gr_svt r = None"
    and fresh: "sq \<notin> grain_seqs d" "find_grain (pp_hash pr) d = None" "\<forall>x \<in> set (oplog d). op_seq x < op"
  shows "\<exists>d1 d'. insert_one pr sq op hlc d = Inr d1
     \<and> supersede_txn old pr (sq, op, hlc) (op + 1, hlc2) now d = Inr ((), d')
     \<and> superseded_in old r (pp_hash pr) (pp_blob pr) now d'
     \<and> (\<forall>k. cell_heads k d' = cell_heads k (retire old r (pp_hash pr) now d1))
     \<and> db_ok d'"
proof -
  have new: "pp_hash pr \<notin> gr_hash ` set (grains d)" using fresh(2) by (simp add: find_grain_None)
  have opn: "op \<notin> op_seq ` set (oplog d)" "op + 1 \<notin> op_seq ` set (oplog d)" using fresh(3) by fastforce+
  obtain d1 where d1: "insert_one pr sq op hlc d = Inr d1"
    using insert_one_total [OF ok fresh(1) new opn(1)] by blast
  note eff = insert_one_effect [OF d1]
  let ?d = "retire old r (pp_hash pr) now d1"
  have "op + 1 \<notin> op_seq ` set (oplog ?d)" using opn(2) eff(8) by (simp add: oplog_retire)
  then obtain d' where d': "insert_op (op + 1) hlc2 OP_SUPERSEDE (pp_hash pr) ?d = Inr d'"
    by (auto simp: insert_op_Inr)
  have txn: "supersede_txn old pr (sq, op, hlc) (op + 1, hlc2) now d = Inr ((), d')"
    using old d1 d' by (auto simp: supersede_txn_cases)
  have ok': "db_ok d'" by (rule supersede_txn_ok [OF txn ok])
  have same: "grains d' = grains ?d" "heads d' = heads ?d" using d' by (auto simp: insert_op_Inr)
  have find': "find_grain x d' = find_grain x ?d" for x by (rule find_grain_cong [OF same(1)])
  have r: "gr_hash r = old" "r \<in> set (grains d)" using find_grain_Some [OF old(1)] by auto
  have ne: "old \<noteq> pp_hash pr" "gr_seq r \<noteq> sq"
    using old(1) fresh(1,2) r(2) by (auto simp: grain_seqs_def)
  have "find_grain old d' = Some (r\<lparr>gr_superseded_by := Some (pp_hash pr), gr_svt := Some now\<rparr>)"
    using old(1) ne r(1) by (simp add: find' find_retire find_link find_close find_grain_insert [OF d1])
  moreover have "find_grain (pp_hash pr) d' = Some ((grain_of_prep sq pr)\<lparr>gr_supersedes := Some old\<rparr>)"
    using ne by (simp add: find' find_retire find_link find_close find_grain_insert [OF d1] grain_of_prep_def)
  ultimately have "superseded_in old r (pp_hash pr) (pp_blob pr) now d'"
    using superseded_inI [OF ok'] by (simp add: grain_of_prep_def)
  moreover have "cell_heads k d' = cell_heads k ?d" for k using same(2) by (simp add: cell_heads_def)
  ultimately show ?thesis using d1 txn ok' by blast
qed

text \<open>A cell with one tip has that tip's grain as its value.\<close>

lemma latest_of_single_head:
  assumes "db_ok (st_db s)" and "cell_of ns subject relation s = Some k"
    and "cell_heads k (st_db s) = [x]" and "find_grain (hd_hash x) (st_db s) = Some n"
    and "deserialize_blob (se_core E) (gr_blob n) = Inr view"
  shows "latest E ns subject relation s = Inr (Some view)"
proof -
  have "latest_head k (st_db s) = Some (hd_seq x, hd_hash x)"
    using assms(1,3) ok_latestD(1) [of "st_db s" k] by (simp add: db_ok_def best_head_def)
  then obtain e where "latest_row_of k (st_db s) = Some e" "el_hash e = hd_hash x"
    by (auto simp: latest_head_def)
  then show ?thesis using latest_from_row [OF assms(2) _ _ assms(5), of e] assms(4) by simp
qed

lemma supersede_new:
  assumes ok: "store_ok s" and old: "find_grain old (st_db s) = Some r" "gr_svt r = None"
    and new: "new (hash_to_hex (hex_encode (se_core E)) old) = Inr (blob, h)"
    and prep: "preparable E blob" and fresh: "find_grain h (st_db s) = None"
  obtains pr view s1 s' sq where
    "supersede E clk old new s = (Inr h, s')" "db_ok (st_db s')"
    "superseded_in old r h blob (clk 2) (st_db s')" "dict s' = dict s1"
    "deserialize_blob (se_core E) blob = Inr view" "prep_says (clk 0) view blob h s1 pr"
    "\<And>ns sj p ob. prep_cell pr = Some (ns, sj, p, ob) \<Longrightarrow> cell_heads (ns, sj, p) (st_db s') =
       [head_at sq (pp_hash pr) (pp_created pr) (ns, sj, p, ob)]"
proof -
  obtain pr view s1 where run: "prep_from_blob E (clk 0) blob h s = (Inr pr, s1)"
    and fr: "prep_frame s s1" and ok1: "store_ok s1"
    and view: "deserialize_blob (se_core E) blob = Inr view" "prep_says (clk 0) view blob h s1 pr"
    by (rule prep_total [OF ok prep])
  have hash: "pp_hash pr = h" "pp_blob pr = blob" using view(2) by (simp_all add: prep_says_def Let_def)
  have old1: "find_grain old (st_db s1) = Some r" "find_grain (pp_hash pr) (st_db s1) = None"
    using old(1) fresh prep_frame_db(7) [OF fr] hash by simp_all
  have nums: "db_ok (st_db s1)" "next_seq s1 \<notin> grain_seqs (st_db s1)"
      "\<forall>x \<in> set (oplog (st_db s1)). op_seq x < next_op s1"
    using ok1 by (auto simp: store_ok_def seqs_below_def log_ok_def)
  let ?P = "\<lambda>d. db_ok d \<and> superseded_in old r h blob (clk 2) d
     \<and> (\<forall>ns sj p ob. prep_cell pr = Some (ns, sj, p, ob) \<longrightarrow> cell_heads (ns, sj, p) d =
       [head_at (next_seq s1) (pp_hash pr) (pp_created pr) (ns, sj, p, ob)])"
  have rs: "gr_seq r \<noteq> next_seq s1"
    using find_grain_Some [OF old1(1)] nums(2) unfolding grain_seqs_def by (metis imageI)
  have "\<exists>d. supersede_txn old pr (next_seq s1, next_op s1, hlc) (next_op s1 + 1, hlc2) (clk 2)
      (st_db s1) = Inr ((), d) \<and> ?P d" for hlc hlc2
  proof -
    obtain d1 d where d1: "insert_one pr (next_seq s1) (next_op s1) hlc (st_db s1) = Inr d1"
      and d: "supersede_txn old pr (next_seq s1, next_op s1, hlc) (next_op s1 + 1, hlc2) (clk 2)
        (st_db s1) = Inr ((), d)" "superseded_in old r (pp_hash pr) (pp_blob pr) (clk 2) d"
        "\<forall>k. cell_heads k d = cell_heads k (retire old r (pp_hash pr) (clk 2) d1)" "db_ok d"
      using supersede_txn_total [OF nums(1) old1(1) old(2) nums(2) old1(2) nums(3)] by blast
    have "cell_heads (ns, sj, p) d =
        [head_at (next_seq s1) (pp_hash pr) (pp_created pr) (ns, sj, p, ob)]"
      if "prep_cell pr = Some (ns, sj, p, ob)" for ns sj p ob
      using d(3) insert_one_claims(1) [OF d1 that] rs
      by (auto simp: cell_heads_retire split: option.splits)
    then show ?thesis using d hash by auto
  qed
  from commit_two_total [of s1 "\<lambda>ids op2. supersede_txn old pr ids op2 (clk 2)" ?P, OF this]
  obtain s' where s': "commit_two clk (\<lambda>ids op2. supersede_txn old pr ids op2 (clk 2)) pr h s1 = (Inr h, s')"
      "?P (st_db s')" "dict s' = dict s1"
    by blast
  have "supersede E clk old new s = (Inr h, s')"
    using supersede_unfold [where new = new and E = E and clk = clk, OF old new] run s'(1)
    by (simp add: bind_op_def)
  then show thesis using that s' view by blast
qed

lemma supersede_outcome:
  assumes "store_ok s" and "find_grain old (st_db s) = Some r" and "gr_svt r = None"
    and "new (hash_to_hex (hex_encode (se_core E)) old) = Inr (blob, h)"
    and "preparable E blob" and "find_grain h (st_db s) = None"
    and "deserialize_blob (se_core E) blob = Inr view"
    and "grain_in_cell (clk 0) ns subject relation view"
  shows "\<exists>s'. supersede E clk old new s = (Inr h, s')
     \<and> superseded_in old r h blob (clk 2) (st_db s')
     \<and> latest E ns subject relation s' = Inr (Some view)
     \<and> heads_of ns subject relation s' = [(h, gv_created (extract_view (clk 0) view))]"
proof -
  obtain pr v s1 s' sq where run: "supersede E clk old new s = (Inr h, s')" "db_ok (st_db s')"
    "superseded_in old r h blob (clk 2) (st_db s')" "dict s' = dict s1"
    and v: "deserialize_blob (se_core E) blob = Inr v" "prep_says (clk 0) v blob h s1 pr"
    and heads: "\<And>ns sj p ob. prep_cell pr = Some (ns, sj, p, ob) \<Longrightarrow> cell_heads (ns, sj, p) (st_db s') =
       [head_at sq (pp_hash pr) (pp_created pr) (ns, sj, p, ob)]"
    by (rule supersede_new [where new = new and E = E and clk = clk, OF assms(1-6)]) blast
  have v_eq: "v = view" using v(1) assms(7) by simp
  have says: "pp_hash pr = h" "pp_created pr = gv_created (extract_view (clk 0) view)"
    using v(2) by (simp_all add: prep_says_def Let_def v_eq)
  obtain a b c ob where cell: "prep_cell pr = Some (a, b, c, ob)"
      "cell_of ns subject relation s' = Some (a, b, c)"
    by (rule prep_says_full_cell [OF v(2) [unfolded v_eq] assms(8) run(4)])
  obtain n where "find_grain h (st_db s') = Some n" "gr_blob n = blob"
    using run(3) by (auto simp: superseded_in_def)
  then have "latest E ns subject relation s' = Inr (Some view)"
    using latest_of_single_head [OF run(2) cell(2) heads [OF cell(1)]] says assms(7) by simp
  moreover have "heads_of ns subject relation s' = [(h, gv_created (extract_view (clk 0) view))]"
    using cell(2) heads [OF cell(1)] says by (simp add: heads_of_def)
  ultimately show ?thesis using run by blast
qed

text \<open>
  C2. Superseding an open grain of a sound store with a new decodable one succeeds: the old row
  is closed and points at the new one, which points back; the old grain is no tip and no
  value of any cell any more; and the new one is the value and the only tip of its cell.
\<close>

theorem supersede_replaces:
  assumes "store_ok s" and "find_grain old (st_db s) = Some r" and "gr_svt r = None"
    and "new (hash_to_hex (hex_encode (se_core E)) old) = Inr (blob, h)"
    and "preparable E blob" and "find_grain h (st_db s) = None"
    and "deserialize_blob (se_core E) blob = Inr view"
    and "grain_in_cell (clk 0) ns subject relation view"
  shows "\<exists>s'. supersede E clk old new s = (Inr h, s')
     \<and> superseded_in old r h blob (clk 2) (st_db s')
     \<and> latest E ns subject relation s' = Inr (Some view)
     \<and> heads_of ns subject relation s' = [(h, gv_created (extract_view (clk 0) view))]"
  using assms by (rule supersede_outcome)

text \<open>Inversion of a successful supersession.\<close>

lemma supersede_Inr:
  assumes "supersede E clk old new s = (Inr h, s')"
  obtains r blob pr ids op2 s1 u where
    "find_grain old (st_db s) = Some r" "gr_svt r = None"
    "new (hash_to_hex (hex_encode (se_core E)) old) = Inr (blob, h)" "prep_frame s s1"
    "supersede_txn old pr ids op2 (clk 2) (st_db s1) = Inr (u, st_db s')"
proof -
  obtain r where r: "find_grain old (st_db s) = Some r"
    using assms by (cases "find_grain old (st_db s)") (auto simp: supersede_def)
  have svt: "gr_svt r = None"
    using assms r by (cases "gr_svt r") (auto simp: supersede_def)
  obtain blob h0 where new: "new (hash_to_hex (hex_encode (se_core E)) old) = Inr (blob, h0)"
    using assms r svt by (cases "new (hash_to_hex (hex_encode (se_core E)) old)") (auto simp: supersede_def)
  note run = supersede_unfold [where new = new and E = E and clk = clk, OF r svt new]
  obtain x s1 where prep: "prep_from_blob E (clk 0) blob h0 s = (x, s1)" by fastforce
  have fr: "prep_frame s s1" using framed_at [OF framed_prep, of s E "clk 0" blob h0] prep by simp
  obtain pr where pr: "x = Inr pr" using assms run prep by (cases x) (auto simp: bind_op_def)
  let ?txn = "\<lambda>ids op2. supersede_txn old pr ids op2 (clk 2)"
  have commit: "commit_two clk ?txn pr h0 s1 = (Inr h, s')"
    using assms run prep pr by (simp add: bind_op_def)
  obtain hlc hlc2 s2 where
    c: "commit_two clk ?txn pr h0 s1 =
      (case ?txn (next_seq s1, next_op s1, hlc) (next_op s1 + 1, hlc2) (st_db s1) of
         Inl e \<Rightarrow> (Inl e, s2)
       | Inr (_, d) \<Rightarrow> (Inr h0, bump_fts (fts_delta [pr]) (s2\<lparr>st_db := d\<rparr>)))"
    by (rule commit_two_cases [where s = s1 and clk = clk and txn = ?txn and pr = pr and h = h0])
  then obtain u d where
    "?txn (next_seq s1, next_op s1, hlc) (next_op s1 + 1, hlc2) (st_db s1) = Inr (u, d)"
    "h = h0" "st_db s' = d"
    using commit by (auto simp: bump_fts_def split: sum.splits prod.splits)
  then show thesis using that r svt new fr by blast
qed

lemma supersede_closes:
  assumes "supersede E clk old new s = (Inr h, s')"
  shows "\<exists>r. find_grain old (st_db s') = Some r \<and> gr_svt r = Some (clk 2) \<and> gr_superseded_by r \<noteq> None"
proof -
  obtain r blob pr ids op2 s1 u where old: "find_grain old (st_db s) = Some r" and fr: "prep_frame s s1"
    and txn: "supersede_txn old pr ids op2 (clk 2) (st_db s1) = Inr (u, st_db s')"
    by (rule supersede_Inr [OF assms])
  obtain sq op hlc where ids: "ids = (sq, op, hlc)" by (cases ids)
  have old1: "find_grain old (st_db s1) = Some r" using old prep_frame_db(7) [OF fr] by simp
  then obtain d1 where d1: "insert_one pr sq op hlc (st_db s1) = Inr d1"
    and d': "insert_op (fst op2) (snd op2) OP_SUPERSEDE (pp_hash pr)
        (retire old r (pp_hash pr) (clk 2) d1) = Inr (st_db s')"
    using txn unfolding ids supersede_txn_cases by auto
  have "old \<noteq> pp_hash pr"
    using insert_one_effect(2) [OF d1] find_grain_None [of "pp_hash pr" "st_db s1"] old1 by auto
  moreover have "find_grain old (st_db s') = find_grain old (retire old r (pp_hash pr) (clk 2) d1)"
    using d' by (intro find_grain_cong) (auto simp: insert_op_Inr)
  ultimately show ?thesis
    using old1 by (simp add: find_retire find_link find_close find_grain_insert [OF d1])
qed

text \<open>
  A grain is superseded at most once: after a successful supersession of \<open>old\<close>, every other
  attempt is the typed conflict and changes nothing.
\<close>

theorem supersede_once:
  assumes "supersede E clk old new s = (Inr h, s')"
  shows "supersede E2 clk2 old new2 s' = (Inl (SupersessionConflict old), s')"
  using supersede_closes [OF assms] by (auto simp: supersede_def)

text \<open>
  A supersession that fails leaves every table but the dictionary and the vocabulary as it
  was.
\<close>

lemma supersede_fails:
  assumes "supersede E clk old new s = (Inl e, s')"
  shows "core_of (st_db s') = core_of (st_db s)"
proof (cases "\<exists>r blob h. find_grain old (st_db s) = Some r \<and> gr_svt r = None
      \<and> new (hash_to_hex (hex_encode (se_core E)) old) = Inr (blob, h)")
  case False
  then have "s' = s"
    using assms by (auto simp: supersede_def split: option.splits if_splits sum.splits)
  then show ?thesis by simp
next
  case True
  then obtain r blob h where ok: "find_grain old (st_db s) = Some r" "gr_svt r = None"
      "new (hash_to_hex (hex_encode (se_core E)) old) = Inr (blob, h)"
    by blast
  note run = supersede_unfold [where new = new and E = E and clk = clk, OF ok]
  obtain x s1 where prep: "prep_from_blob E (clk 0) blob h s = (x, s1)" by fastforce
  have fr: "core_of (st_db s1) = core_of (st_db s)"
    using framed_at [OF framed_prep, of s E "clk 0" blob h] prep by (simp add: prep_frame_def)
  show ?thesis
  proof (cases x)
    case (Inl e)
    then show ?thesis using assms run prep fr by (simp add: bind_op_def)
  next
    case (Inr pr)
    let ?txn = "\<lambda>ids op2. supersede_txn old pr ids op2 (clk 2)"
    have commit: "commit_two clk ?txn pr h s1 = (Inl e, s')"
      using assms run prep Inr by (simp add: bind_op_def)
    obtain hlc hlc2 s2 where
      s2: "s2 = s1\<lparr>next_seq := next_seq s1 + 1, next_op := next_op s1 + 2, hlc_last := hlc2\<rparr>"
      and c: "commit_two clk ?txn pr h s1 =
      (case ?txn (next_seq s1, next_op s1, hlc) (next_op s1 + 1, hlc2) (st_db s1) of
         Inl e \<Rightarrow> (Inl e, s2)
       | Inr (_, d) \<Rightarrow> (Inr h, bump_fts (fts_delta [pr]) (s2\<lparr>st_db := d\<rparr>)))"
      by (rule commit_two_cases [where s = s1 and clk = clk and txn = ?txn and pr = pr and h = h])
    then have "s' = s2" using commit by (auto split: sum.splits prod.splits)
    then show ?thesis using s2 fr by simp
  qed
qed

section \<open>Forgetting\<close>

text \<open>
  C3. Forgetting a stored grain succeeds, leaves no trace of it in any table, its cells or its
  indexes, and a second attempt is \<^verbatim>\<open>NotFound\<close>.
\<close>

theorem forget_erases:
  assumes "store_ok s" and "find_grain h (st_db s) = Some r"
  shows "\<exists>s'. forget E now h s = (Inr (), s')
     \<and> \<not> mentions (gr_seq r) h (st_db s')
     \<and> grains (st_db s') = delete_where (\<lambda>x. gr_seq x = gr_seq r) (grains (st_db s))
     \<and> get_grain E h s' = Inl (NotFound h)
     \<and> forget E now2 h s' = (Inl (NotFound h), s')"
proof -
  have r: "r \<in> set (grains (st_db s))" "gr_hash r = h" using find_grain_Some [OF assms(2)] by auto
  obtain hlc s1 where s1: "s1 = s\<lparr>next_op := next_op s + 1, hlc_last := hlc\<rparr>"
    and run: "forget E now h s =
      (case insert_op (next_op s) hlc OP_FORGET h (erase r (st_db s)) of
         Inl e \<Rightarrow> (Inl e, s1)
       | Inr d \<Rightarrow> (Inr (), drop_doc (map_of (fts_doc (st_db s)) (gr_seq r))
           (s1\<lparr>st_db := d, cas_files := filter (\<lambda>f. f \<notin> set (unreferenced E
              (remdups (sort (blob_cas E (gr_blob r)))) d)) (cas_files s)\<rparr>)))"
    by (rule forget_cases [OF assms(2)])
  have "next_op s \<notin> op_seq ` set (oplog (erase r (st_db s)))"
    using assms(1) by (fastforce simp: store_ok_def log_ok_def erase_other)
  then obtain d where d: "insert_op (next_op s) hlc OP_FORGET h (erase r (st_db s)) = Inr d"
    by (auto simp: insert_op_Inr)
  then obtain s' where s': "forget E now h s = (Inr (), s')" "st_db s' = d"
    using run by (auto simp: drop_doc_def split: option.splits)
  have same: "grains d = grains (erase r (st_db s))" "index_seqs d = index_seqs (erase r (st_db s))"
    "heads d = heads (erase r (st_db s))" "entity_latest d = entity_latest (erase r (st_db s))"
    using d by (auto simp: insert_op_Inr index_seqs_def)
  have gone: "\<not> mentions (gr_seq r) h d"
    using erase_gone [OF _ r(1)] assms(1) r(2)
    by (simp add: store_ok_def mentions_def grain_seqs_def same)
  then have "find_grain h d = None" by (simp add: mentions_def find_grain_None)
  then have "forget E now2 h s' = (Inl (NotFound h), s')" "get_grain E h s' = Inl (NotFound h)"
    using s'(2) by (simp_all add: forget_def get_grain_def)
  moreover have "grains (st_db s') = delete_where (\<lambda>x. gr_seq x = gr_seq r) (grains (st_db s))"
    using s'(2) same(1) by (simp add: erase_other)
  ultimately show ?thesis using s' gone by blast
qed

section \<open>Batches\<close>

lemma prep_batch_total:
  assumes "store_ok s" and "\<forall>g \<in> set gs. preparable E (fst g)"
  shows "\<exists>prs s'. prep_batch E now (map Inr gs) seen s = (Inr (map snd gs, prs), s')
     \<and> prep_frame s s' \<and> distinct (map pp_hash prs)
     \<and> pp_hash ` set prs = snd ` set gs - seen - gr_hash ` set (grains (st_db s))
     \<and> (prs = [] \<longrightarrow> s' = s)"
  using assms
proof (induction gs arbitrary: s seen)
  case Nil
  then show ?case by (simp add: ret_def)
next
  case (Cons g gs)
  obtain blob h where g: "g = (blob, h)" by (cases g)
  let ?stored = "gr_hash ` set (grains (st_db s))"
  have prep: "\<forall>x \<in> set gs. preparable E (fst x)" using Cons.prems(2) by simp
  show ?case
  proof (cases "h \<in> seen \<or> h \<in> ?stored")
    case True
    obtain prs s' where run: "prep_batch E now (map Inr gs) (insert h seen) s = (Inr (map snd gs, prs), s')"
      and r: "prep_frame s s'" "distinct (map pp_hash prs)"
        "pp_hash ` set prs = snd ` set gs - insert h seen - ?stored" "prs = [] \<longrightarrow> s' = s"
      using Cons.IH [where seen = "insert h seen", OF Cons.prems(1) prep] by blast
    have "prep_batch E now (map Inr (g # gs)) seen s = (Inr (map snd (g # gs), prs), s')"
      using True run by (auto simp: g has_grain_def find_grain_None bind_op_def ret_def)
    moreover have "pp_hash ` set prs = snd ` set (g # gs) - seen - ?stored"
      using r(3) True by (auto simp: g)
    ultimately show ?thesis using r by blast
  next
    case False
    have "preparable E blob" using Cons.prems(2) g by simp
    then obtain pr view s1 where p: "prep_from_blob E now blob h s = (Inr pr, s1)" "prep_frame s s1"
        "store_ok s1" "prep_says now view blob h s1 pr"
      using prep_total [OF Cons.prems(1)] by metis
    have hash: "pp_hash pr = h" using p(4) by (simp add: prep_says_def Let_def)
    have same: "gr_hash ` set (grains (st_db s1)) = ?stored" using prep_frame_db(1) [OF p(2)] by simp
    obtain prs s' where run: "prep_batch E now (map Inr gs) (insert h seen) s1 = (Inr (map snd gs, prs), s')"
      and r: "prep_frame s1 s'" "distinct (map pp_hash prs)"
        "pp_hash ` set prs = snd ` set gs - insert h seen - ?stored"
      using Cons.IH [where seen = "insert h seen", OF p(3) prep] unfolding same by blast
    have "prep_batch E now (map Inr (g # gs)) seen s = (Inr (map snd (g # gs), pr # prs), s')"
      using False run p(1) by (auto simp: g has_grain_def find_grain_None bind_op_def ret_def)
    moreover have "pp_hash ` set (pr # prs) = snd ` set (g # gs) - seen - ?stored"
      using r(3) False by (auto simp: g hash)
    moreover have "distinct (map pp_hash (pr # prs))" using r(2,3) hash by auto
    ultimately show ?thesis using prep_frame_trans [OF p(2) r(1)] by blast
  qed
qed

lemma insert_prepped_total:
  assumes "db_ok d" and "seqs_below d sq" and "\<forall>x \<in> set (oplog d). op_seq x < op"
    and "distinct (map pp_hash prs)" and "pp_hash ` set prs \<inter> gr_hash ` set (grains d) = {}"
  shows "\<exists>d'. insert_prepped prs sq op hlc d = Inr d'"
  using assms
proof (induction prs arbitrary: sq op hlc d)
  case (Cons pr prs)
  have "sq \<notin> grain_seqs d" "op \<notin> op_seq ` set (oplog d)" "pp_hash pr \<notin> gr_hash ` set (grains d)"
    using Cons.prems by (auto simp: seqs_below_def)
  then obtain d1 where d1: "insert_one pr sq op hlc d = Inr d1"
    using insert_one_total [OF Cons.prems(1)] by metis
  note eff = insert_one_effect [OF d1]
  have "seqs_below d1 (sq + 1)"
    using Cons.prems(2) by (fastforce simp: seqs_below_def grain_seqs_def eff(3) grain_of_prep_def)
  moreover have "\<forall>x \<in> set (oplog d1). op_seq x < op + 1" using Cons.prems(3) by (fastforce simp: eff(8))
  moreover have "pp_hash ` set prs \<inter> gr_hash ` set (grains d1) = {}"
    using Cons.prems(4,5) by (auto simp: eff(3) grain_of_prep_def)
  ultimately obtain d' where "insert_prepped prs (sq + 1) (op + 1) (hlc + 1) d1 = Inr d'"
    using Cons.IH [OF insert_one_ok [OF d1 Cons.prems(1)]] Cons.prems(4) by (metis distinct.simps(2) list.simps(9))
  then show ?case using d1 by simp
qed simp

lemma batch_rows_hashes: "map gr_hash (batch_rows prs sq) = map pp_hash prs"
  by (induction prs arbitrary: sq) (simp_all add: grain_of_prep_def)

text \<open>
  C4. A batch of decodable grains is always stored, all of it: the answers are the addresses in
  order, duplicates included; the grains that were not there are appended once each and
  nothing stored before moves; and a batch with nothing new leaves the handle untouched.
\<close>

theorem add_batch_total:
  assumes "store_ok s" and "\<forall>g \<in> set gs. preparable E (fst g)"
  shows "\<exists>s' rows. add_batch_inner E now (map Inr gs) s = (Inr (map snd gs), s')
     \<and> store_ok s'
     \<and> grains (st_db s') = grains (st_db s) @ rows \<and> distinct (map gr_hash rows)
     \<and> gr_hash ` set rows = snd ` set gs - gr_hash ` set (grains (st_db s))
     \<and> (rows = [] \<longrightarrow> s' = s)"
proof -
  have ok': "store_ok (snd (add_batch_inner E now (map Inr gs) s))" by (rule add_batch_ok [OF assms(1)])
  obtain prs s1 where run: "prep_batch E now (map Inr gs) {} s = (Inr (map snd gs, prs), s1)"
    and fr: "prep_frame s s1" and prs: "distinct (map pp_hash prs)"
      "pp_hash ` set prs = snd ` set gs - gr_hash ` set (grains (st_db s))" "prs = [] \<longrightarrow> s1 = s"
    using prep_batch_total [of s gs E now "{}", OF assms] by auto
  show ?thesis
  proof (cases "prs = []")
    case True
    have out: "add_batch_inner E now (map Inr gs) s = (Inr (map snd gs), s)"
      using run True prs(3) by (simp add: add_batch_inner_def bind_op_def ret_def)
    show ?thesis
      by (rule exI [of _ s], rule exI [of _ "[]"]) (use out True prs(2) assms(1) in auto)
  next
    case False
    obtain r2 s2 where res: "reserve_for now (length prs) s1 = (r2, s2)" by fastforce
    obtain hlc where hlc: "r2 = Inr (next_seq s1, next_op s1, hlc)"
      and s2: "s2 = s1\<lparr>next_seq := next_seq s1 + int (length prs),
        next_op := next_op s1 + int (length prs), hlc_last := hlc + int (length prs) - 1\<rparr>"
      using reserve_for_effect [OF res] by blast
    let ?s3 = "stamp_min_reader E prs s2"
    have "store_ok (stamp_min_reader E prs s1)"
      by (rule store_ok_stamp [OF store_ok_frame [OF fr assms(1)]])
    moreover have db3: "st_db ?s3 = st_db (stamp_min_reader E prs s1)"
      using s2 by (simp add: stamp_min_reader_def)
    ultimately have "db_ok (st_db ?s3)" "seqs_below (st_db ?s3) (next_seq s1)"
        "\<forall>x \<in> set (oplog (st_db ?s3)). op_seq x < next_op s1"
      by (auto simp: store_ok_def log_ok_def)
    moreover have same: "grains (st_db ?s3) = grains (st_db s)"
      using db3 prep_frame_db(1) [OF fr] by simp
    then have "pp_hash ` set prs \<inter> gr_hash ` set (grains (st_db ?s3)) = {}" using prs(2) by auto
    ultimately obtain d where d: "insert_prepped prs (next_seq s1) (next_op s1) hlc (st_db ?s3) = Inr d"
      using insert_prepped_total prs(1) by blast
    have out: "add_batch_inner E now (map Inr gs) s =
        (Inr (map snd gs), bump_fts (fts_delta prs) (?s3\<lparr>st_db := d\<rparr>))"
      using run False res hlc d by (simp add: add_batch_inner_def bind_op_def with_txn_def)
    let ?rows = "batch_rows prs (next_seq s1)"
    have hashes: "map gr_hash ?rows = map pp_hash prs" by (rule batch_rows_hashes)
    have "grains d = grains (st_db s) @ ?rows" using insert_prepped_effect(1) [OF d] same by simp
    moreover have "gr_hash ` set ?rows = pp_hash ` set prs" using hashes by (metis list.set_map)
    moreover have "?rows \<noteq> []" using False by (cases prs) auto
    ultimately show ?thesis
      using out ok' hashes prs(1,2)
      by (intro exI [of _ "bump_fts (fts_delta prs) (?s3\<lparr>st_db := d\<rparr>)"] exI [of _ ?rows])
        (simp add: bump_fts_def)
  qed
qed

text \<open>A batch that fails, at whichever grain, stores none of it.\<close>

lemma add_batch_fails:
  assumes "add_batch_inner E now gs s = (Inl e, s')"
  shows "grains (st_db s') = grains (st_db s) \<and> oplog (st_db s') = oplog (st_db s)
     \<and> heads (st_db s') = heads (st_db s) \<and> entity_latest (st_db s') = entity_latest (st_db s)"
proof -
  obtain x s1 where prep: "prep_batch E now gs {} s = (x, s1)" by fastforce
  have fr: "prep_frame s s1" using framed_at [OF framed_prep_batch, of s E now gs "{}"] prep by simp
  note same = prep_frame_db [OF fr]
  show ?thesis
  proof (cases x)
    case (Inl e')
    then show ?thesis using assms prep same by (simp add: add_batch_inner_def bind_op_def)
  next
    case (Inr hp)
    obtain hs prs where hp: "hp = (hs, prs)" by (cases hp)
    have ne: "prs \<noteq> []" using assms prep Inr hp by (auto simp: add_batch_inner_def bind_op_def ret_def)
    obtain r2 s2 where res: "reserve_for now (length prs) s1 = (r2, s2)" by fastforce
    obtain hlc where hlc: "r2 = Inr (next_seq s1, next_op s1, hlc)"
      and s2: "s2 = s1\<lparr>next_seq := next_seq s1 + int (length prs),
        next_op := next_op s1 + int (length prs), hlc_last := hlc + int (length prs) - 1\<rparr>"
      using reserve_for_effect [OF res] by blast
    have "s' = stamp_min_reader E prs s2"
      using assms prep Inr hp ne res hlc
      by (auto simp: add_batch_inner_def bind_op_def with_txn_def split: sum.splits)
    then show ?thesis using s2 same by simp
  qed
qed

section \<open>Merging\<close>

text \<open>Closing a tip: the row it had, closed by the merge.\<close>

lemma find_close_tip:
  assumes "ok_keys d"
  shows "find_grain h (close_tip new now tip d) =
    (if h = tip then map_option (\<lambda>r. if gr_svt r = None
        then r\<lparr>gr_superseded_by := Some new, gr_svt := Some now\<rparr> else r) (find_grain h d)
     else find_grain h d)"
proof (cases "find_grain tip d")
  case None
  then show ?thesis by (auto simp: close_tip_def)
next
  case (Some r)
  have r: "r \<in> set (grains d)" "gr_hash r = tip" using find_grain_Some [OF Some] by auto
  have "gr_seq x \<noteq> gr_seq r" if "find_grain h d = Some x" "h \<noteq> tip" for x
    using find_grain_Some [OF that(1)] seq_unique [OF assms _ r(1)] r(2) that(2) by blast
  then show ?thesis
    using Some by (auto simp: close_tip_def find_close map_option_case split: option.splits)
qed

lemma close_tip_keys: "ok_keys (close_tip new now tip d) = ok_keys d"
  by (simp add: close_tip_def ok_keys_def split: option.splits)

definition closed_by :: "hash \<Rightarrow> hash \<Rightarrow> db \<Rightarrow> bool" where
  "closed_by new h d =
     (case find_grain h d of
        None \<Rightarrow> False
      | Some r \<Rightarrow> gr_svt r \<noteq> None \<and> gr_superseded_by r = Some new)"

lemma close_tips_closed:
  assumes "ok_keys d" and "h \<in> set tips" and "find_grain h d = Some r" and "gr_svt r = None"
  shows "closed_by new h (fold (close_tip new now) tips d)"
proof -
  have stays: "closed_by new h (fold (close_tip new now) tips d)" if "closed_by new h d" "ok_keys d" for tips d
    using that
  proof (induction tips arbitrary: d)
    case (Cons t tips)
    have "closed_by new h (close_tip new now t d)"
      using Cons.prems by (auto simp: closed_by_def find_close_tip split: option.splits)
    then show ?case using Cons.IH Cons.prems(2) by (simp add: close_tip_keys)
  qed simp
  show ?thesis
    using assms
  proof (induction tips arbitrary: d)
    case (Cons t tips)
    show ?case
    proof (cases "h = t")
      case True
      then have "closed_by new h (close_tip new now t d)"
        using Cons.prems by (simp add: closed_by_def find_close_tip)
      then show ?thesis using stays Cons.prems(1) by (simp add: close_tip_keys)
    next
      case False
      then show ?thesis
        using Cons.IH [of "close_tip new now t d"] Cons.prems by (simp add: find_close_tip close_tip_keys)
    qed
  qed simp
qed

text \<open>The tips of a cell are stored grains that nothing closes.\<close>

lemma head_row:
  assumes "db_ok d" and "x \<in> set (heads d)"
  obtains r where "find_grain (hd_hash x) d = Some r" "gr_svt r = None" "gr_created r = hd_created x"
proof -
  have ok: "ok_keys d" "ok_heads d" using assms(1) by (simp_all add: db_ok_def)
  obtain r where "r \<in> set (grains d)" "gr_hash r = hd_hash x" "gr_svt r = None"
      "gr_created r = hd_created x"
    using ok(2) assms(2) by (auto simp: ok_heads_def good_head_def)
  then show thesis using find_grain_row [OF ok(1)] that by metis
qed

lemma merge_txn_total:
  assumes ok: "db_ok d0" and sq: "sq \<notin> grain_seqs d0" and ops: "\<forall>x \<in> set (oplog d0). op_seq x < op"
    and fresh: "find_grain (pp_hash pr) d0 = None"
    and tips: "set tips = hd_hash ` set (cell_heads k d0)" and key: "prep_key pr = Some k"
  shows "\<exists>d. merge_txn tips pr (sq, op, hlc) (op + 1, hlc2) now d0 = Inr ((), d) \<and> db_ok d
     \<and> cell_heads k d = [head_at sq (pp_hash pr) (pp_created pr) (the (prep_cell pr))]
     \<and> find_grain (pp_hash pr) d = Some (grain_of_prep sq pr)
     \<and> list_all (\<lambda>t. closed_by (pp_hash pr) t d) tips"
proof -
  have new: "pp_hash pr \<notin> gr_hash ` set (grains d0)" using fresh by (simp add: find_grain_None)
  have opn: "op \<notin> op_seq ` set (oplog d0)" using ops by auto
  obtain d1 where d1: "insert_one pr sq op hlc d0 = Inr d1"
    using insert_one_total [OF ok sq new opn] by blast
  note eff = insert_one_effect [OF d1]
  let ?d = "fold (close_tip (pp_hash pr) now) tips d1"
  have log: "oplog ?d = oplog d1" using close_tips_other by blast
  have "op + 1 \<notin> op_seq ` set (oplog ?d)" using ops by (fastforce simp: log eff(8))
  then obtain d where d: "insert_op (op + 1) hlc2 OP_SUPERSEDE (pp_hash pr) ?d = Inr d"
    by (auto simp: insert_op_Inr)
  have txn: "merge_txn tips pr (sq, op, hlc) (op + 1, hlc2) now d0 = Inr ((), d)"
    using d1 d by (simp add: merge_txn_def Let_def)
  have find: "find_grain x d = find_grain x ?d" for x
    using d by (intro find_grain_cong) (auto simp: insert_op_Inr)
  have keys: "ok_keys d1" using insert_one_ok [OF d1 ok] by (simp add: db_ok_def)
  have row: "\<exists>r. find_grain t d0 = Some r \<and> gr_svt r = None" if "t \<in> set tips" for t
    using that tips head_row [OF ok] by (auto simp: set_cell_heads) metis
  have closed: "closed_by (pp_hash pr) t d" if t: "t \<in> set tips" for t
  proof -
    obtain r where r: "find_grain t d0 = Some r" "gr_svt r = None" using row [OF t] by blast
    then have "find_grain t d1 = Some r" using fresh by (auto simp: find_grain_insert [OF d1])
    from close_tips_closed [OF keys t this r(2)] show ?thesis by (simp add: closed_by_def find)
  qed
  have away: "pp_hash pr \<notin> set tips" using row fresh by (metis option.distinct(1))
  have skip: "find_grain h (fold (close_tip n t) ts x) = find_grain h x"
    if "h \<notin> set ts" "ok_keys x" for h n t ts x
    using that by (induction ts arbitrary: x) (simp_all add: find_close_tip close_tip_keys)
  have "find_grain (pp_hash pr) d = Some (grain_of_prep sq pr)"
    by (simp add: find skip [OF away keys] find_grain_insert [OF d1])
  then show ?thesis using txn merge_txn_ok [OF txn ok tips key] closed by (auto simp: list_all_iff)
qed

text \<open>
  C5. Merging an open fork with a new grain of its cell: the merge is the cell's value and its
  only tip, and every tip of the fork is closed by it.
\<close>

theorem merge_closes_fork:
  assumes ok: "store_ok s" and tips: "tips = map fst (heads_of ns subject relation s)" "2 \<le> length tips"
    and merged: "merged (hash_to_hex (hex_encode (se_core E)) (hd tips))
      (map (hash_to_hex (hex_encode (se_core E))) tips) = Inr (blob, h)"
    and prep: "preparable E blob" and fresh: "find_grain h (st_db s) = None"
    and view: "deserialize_blob (se_core E) blob = Inr view"
    and inc: "grain_in_cell (clk 0) ns subject relation view"
  shows "\<exists>s'. merge_heads E clk ns subject relation merged s = (Inr h, s')
     \<and> heads_of ns subject relation s' = [(h, gv_created (extract_view (clk 0) view))]
     \<and> latest E ns subject relation s' = Inr (Some view)
     \<and> list_all (\<lambda>t. closed_by h t (st_db s')) tips"
proof -
  obtain pr v s1 where run: "prep_from_blob E (clk 0) blob h s = (Inr pr, s1)"
    and fr: "prep_frame s s1" and ok1: "store_ok s1"
    and v: "deserialize_blob (se_core E) blob = Inr v" "prep_says (clk 0) v blob h s1 pr"
    by (rule prep_total [OF ok prep])
  have says: "pp_hash pr = h" "pp_blob pr = blob" "pp_created pr = gv_created (extract_view (clk 0) view)"
    and v2: "prep_says (clk 0) view blob h s1 pr"
    using v view by (simp_all add: prep_says_def Let_def)
  obtain k where k: "cell_of ns subject relation s = Some k"
    using tips by (cases "cell_of ns subject relation s") (auto simp: heads_of_def)
  have key: "prep_key pr = Some k"
    using prep_says_cell [OF v2 inc] cell_of_frame [OF fr k] by simp
  have set_tips: "set tips = hd_hash ` set (cell_heads k (st_db s1))"
    using k tips(1) by (simp add: heads_of_def prep_frame_db(6) [OF fr] image_image)
  have nums: "db_ok (st_db s1)" "next_seq s1 \<notin> grain_seqs (st_db s1)"
      "\<forall>x \<in> set (oplog (st_db s1)). op_seq x < next_op s1"
    using ok1 by (auto simp: store_ok_def seqs_below_def log_ok_def)
  have new: "find_grain (pp_hash pr) (st_db s1) = None"
    using fresh prep_frame_db(7) [OF fr] says(1) by simp
  let ?P = "\<lambda>d. db_ok d
     \<and> cell_heads k d = [head_at (next_seq s1) (pp_hash pr) (pp_created pr) (the (prep_cell pr))]
     \<and> find_grain (pp_hash pr) d = Some (grain_of_prep (next_seq s1) pr)
     \<and> list_all (\<lambda>t. closed_by (pp_hash pr) t d) tips"
  obtain s' where s': "commit_two clk (\<lambda>ids op2. merge_txn tips pr ids op2 (clk 2)) pr h s1 = (Inr h, s')"
      "?P (st_db s')" "dict s' = dict s1"
    using commit_two_total [of s1 "\<lambda>ids op2. merge_txn tips pr ids op2 (clk 2)" ?P,
        OF merge_txn_total [OF nums new set_tips key]]
    by blast
  have out: "merge_heads E clk ns subject relation merged s = (Inr h, s')"
    using merge_unfold [where merged = merged and E = E and clk = clk, OF tips merged] run s'(1)
    by (simp add: bind_op_def)
  have cell': "cell_of ns subject relation s' = Some k"
    using cell_of_frame [OF fr k] s'(3) by (simp add: cell_of_def term_lookup_def)
  have "gr_blob (grain_of_prep (next_seq s1) pr) = blob" by (simp add: grain_of_prep_def says(2))
  then have "latest E ns subject relation s' = Inr (Some view)"
    using s'(2) view by (intro latest_of_single_head [OF _ cell']) auto
  moreover have "heads_of ns subject relation s' = [(h, gv_created (extract_view (clk 0) view))]"
    using s'(2) says cell' by (simp add: heads_of_def)
  ultimately show ?thesis using out s'(2) says(1) by auto
qed

section \<open>Reachable stores\<close>

text \<open>
  C1. Whatever local operations run, in whatever order and with whatever outcome, seqs and
  addresses stay keys, every index row points at a stored grain, the tips of a cell are stored
  and not superseded, the value of a cell is its best tip, the log is strictly ordered and
  behind the handle's counters, and the dictionary is injective.
\<close>

theorem local_history_ok:
  assumes "reachable E s0 s" and "store_ok s0"
  shows "store_ok s"
  using assms by (induction rule: reachable.induct) (simp_all add: local_step_ok)

section \<open>The properties at concrete inputs\<close>

theorem add_then_latest_witness:
  "\<exists>s'. add demo_env 0 (Inr (demo_blob 1, demo_address 1)) demo_store = (Inr (demo_address 1), s')
     \<and> latest demo_env ''shared'' ''bob'' ''city'' s'
       = Inr (Some (demo_grain 1 (demo_json ''city'' ''oslo'' 10 False)))"
  using add_then_latest [of demo_store demo_env "demo_blob 1", OF demo_store_ok _
      demo_preparable(1) demo_absent(1) demo_in_cell] demo_read(1)
  by fastforce

theorem add_batch_total_witness:
  "\<exists>s' rows. add_batch_inner demo_env 0
       (map Inr [(demo_blob 1, demo_address 1), (demo_blob 2, demo_address 2), (demo_blob 1, demo_address 1)])
       solo_store
     = (Inr [demo_address 1, demo_address 2, demo_address 1], s')
     \<and> gr_hash ` set rows = {demo_address 2} \<and> grains (st_db s') = grains (st_db solo_store) @ rows"
proof -
  let ?gs = "[(demo_blob 1, demo_address 1), (demo_blob 2, demo_address 2), (demo_blob 1, demo_address 1)]"
  have prep: "\<forall>g \<in> set ?gs. preparable demo_env (fst g)" by (simp add: demo_preparable)
  have stored: "gr_hash ` set (grains (st_db solo_store)) = {demo_address 1}"
    by (simp add: solo_store_def demo_open_def demo_tables_def demo_row_def)
  obtain s' rows where
    "add_batch_inner demo_env 0 (map Inr ?gs) solo_store = (Inr (map snd ?gs), s')"
    "grains (st_db s') = grains (st_db solo_store) @ rows"
    "gr_hash ` set rows = snd ` set ?gs - gr_hash ` set (grains (st_db solo_store))"
    using add_batch_total [OF solo_store_ok prep, of 0] by blast
  moreover have "snd ` set ?gs - {demo_address 1} = {demo_address 2}" by auto
  ultimately show ?thesis unfolding stored by auto
qed

theorem supersede_replaces_witness:
  "\<exists>s'. supersede demo_env (\<lambda>n. int n) (demo_address 1) (\<lambda>_. Inr (demo_blob 2, demo_address 2)) solo_store
     = (Inr (demo_address 2), s')
     \<and> heads_of ''shared'' ''bob'' ''city'' s' = [(demo_address 2, 20)]"
proof -
  have "deserialize_blob (se_core demo_env) (demo_blob 2)
      = Inr (demo_grain 2 (demo_json ''city'' ''rome'' 20 True))"
    by (simp add: demo_read)
  from supersede_replaces [of solo_store "demo_address 1" _ "\<lambda>_. Inr (demo_blob 2, demo_address 2)",
      OF solo_store_ok solo_row solo_row_open(1) refl demo_preparable(2) _ this demo_in_cell]
  obtain s' where "supersede demo_env (\<lambda>n. int n) (demo_address 1)
      (\<lambda>_. Inr (demo_blob 2, demo_address 2)) solo_store = (Inr (demo_address 2), s')"
    "heads_of ''shared'' ''bob'' ''city'' s' = [(demo_address 2, gv_created (extract_view 0
      (demo_grain 2 (demo_json ''city'' ''rome'' 20 True))))]"
    using demo_absent(2) [of 2] by fastforce
  then show ?thesis
    by (auto simp: extract_view_def get_i64_def dg_get_def demo_grain_def demo_json_def i64_max_def
        i64_min_def)
qed

theorem supersede_once_witness:
  "\<exists>s'. fst (supersede demo_env int (demo_address 1) (\<lambda>_. Inr (demo_blob 2, demo_address 2)) solo_store)
       = Inr (demo_address 2)
     \<and> supersede demo_env int (demo_address 1) (\<lambda>_. Inr (demo_blob 3, demo_address 3)) s'
       = (Inl (SupersessionConflict (demo_address 1)), s')"
proof -
  have fresh: "find_grain (demo_address 2) (st_db solo_store) = None" by (simp add: demo_absent)
  obtain s' where s': "supersede demo_env int (demo_address 1)
      (\<lambda>_. Inr (demo_blob 2, demo_address 2)) solo_store = (Inr (demo_address 2), s')"
    by (rule supersede_new [where new = "\<lambda>_. Inr (demo_blob 2, demo_address 2)" and E = demo_env and clk = int,
        OF solo_store_ok solo_row solo_row_open(1) refl demo_preparable(2) fresh])
  show ?thesis using s' supersede_once [OF s'] by auto
qed

theorem forget_erases_witness:
  "\<exists>s'. forget demo_env 0 (demo_address 1) solo_store = (Inr (), s')
     \<and> \<not> mentions 1 (demo_address 1) (st_db s')"
  using forget_erases [OF solo_store_ok solo_row] solo_row_open(2) by metis

theorem merge_closes_fork_witness:
  "\<exists>s'. merge_heads demo_env int ''shared'' ''bob'' ''city''
       (\<lambda>_ _. Inr (demo_blob 1, demo_address 1)) fork_store = (Inr (demo_address 1), s')
     \<and> list_all (\<lambda>t. closed_by (demo_address 1) t (st_db s')) [demo_address 2, demo_address 3]"
proof -
  have tips: "[demo_address 2, demo_address 3] = map fst (heads_of ''shared'' ''bob'' ''city'' fork_store)"
    by (simp add: fork_heads)
  have view: "deserialize_blob (se_core demo_env) (demo_blob 1)
      = Inr (demo_grain 1 (demo_json ''city'' ''oslo'' 10 False))"
    by (simp add: demo_read)
  have fresh: "find_grain (demo_address 1) (st_db fork_store) = None" by (simp add: demo_absent)
  show ?thesis
    using merge_closes_fork [where merged = "\<lambda>_ _. Inr (demo_blob 1, demo_address 1)" and clk = int,
        OF fork_store_ok tips _ refl demo_preparable(1) fresh view demo_in_cell]
    by auto
qed

theorem local_history_ok_witness:
  "store_ok (snd (forget demo_env 1 (demo_address 1) (snd (add_batch_inner demo_env 0
     (map Inr [(demo_blob 1, demo_address 1)]) demo_store))))"
proof -
  have "reachable demo_env demo_store (snd (forget demo_env 1 (demo_address 1) (snd (add_batch_inner demo_env 0
     (map Inr [(demo_blob 1, demo_address 1)]) demo_store))))"
    by (intro reach_step [OF reach_step [OF reach_start step_add [OF surjective_pairing]]
          step_forget [OF surjective_pairing]])
  then show ?thesis using local_history_ok demo_store_ok by blast
qed

end
