(* ===== verification/Store_Replica.thy ===== *)
theory Store_Replica
  imports Store_Props
begin

text \<open>
  The value of a cell as a function of its tips, and the import of a grain, which keeps the
  invariant of the tables.
\<close>

section \<open>The value of a cell\<close>

text \<open>The tips of a cell as the replicas exchange them: creation time and address.\<close>

definition tip_ranks :: "int \<times> int \<times> int \<Rightarrow> db \<Rightarrow> (int \<times> hash) set" where
  "tip_ranks k d = head_rank ` {h \<in> set (heads d). head_key h = k}"

lemma tip_ranks_code: "tip_ranks k d = head_rank ` set (filter (\<lambda>h. head_key h = k) (heads d))"
  by (simp add: tip_ranks_def)

lemma last_sort_key_max:
  assumes "xs \<noteq> []"
  shows "last (sort_key f xs) \<in> set xs" and "x \<in> set xs \<Longrightarrow> f x \<le> f (last (sort_key f xs))"
proof -
  have ne: "sort_key f xs \<noteq> []" using assms by (metis length_sort length_0_conv)
  then show "last (sort_key f xs) \<in> set xs" using last_in_set by fastforce
  assume "x \<in> set xs"
  then have x: "x \<in> set (sort_key f xs)" by simp
  obtain ys where ys: "sort_key f xs = ys @ [last (sort_key f xs)]" using ne append_butlast_last_id by metis
  have "sorted (map f (ys @ [last (sort_key f xs)]))" using ys sorted_sort_key by metis
  then show "f x \<le> f (last (sort_key f xs))"
    using x by (subst (asm) ys) (auto simp: sorted_append)
qed

lemma best_head_max:
  assumes "best_head k d = Some (q, h)"
  shows "\<exists>x \<in> set (heads d). head_key x = k \<and> hd_seq x = q \<and> hd_hash x = h
    \<and> (\<forall>y \<in> set (heads d). head_key y = k \<longrightarrow> head_rank y \<le> head_rank x)"
proof -
  let ?xs = "filter (\<lambda>h. head_key h = k) (heads d)"
  have ne: "?xs \<noteq> []" using assms by (auto simp: best_head_def cell_heads_def split: list.splits)
  let ?x = "last (sort_key head_rank ?xs)"
  have "sort_key head_rank ?xs \<noteq> []" using ne by (metis length_sort length_0_conv)
  then have "cell_heads k d = ?x # tl (cell_heads k d)"
    by (metis cell_heads_def hd_rev list.collapse rev_is_Nil_conv)
  then have "hd_seq ?x = q" "hd_hash ?x = h" using assms by (auto simp: best_head_def split: list.splits)
  then show ?thesis
    using last_sort_key_max [OF ne, where f = head_rank] by (intro bexI [of _ ?x]) auto
qed

lemma best_head_None: "best_head k d = None \<longleftrightarrow> (\<forall>h \<in> set (heads d). head_key h \<noteq> k)"
proof -
  have "best_head k d = None \<longleftrightarrow> set (cell_heads k d) = {}" by (auto simp: best_head_def split: list.splits)
  then show ?thesis by (auto simp: set_cell_heads)
qed

lemma fresh_store_ok: "st_db s = empty_db \<Longrightarrow> dict s = [] \<Longrightarrow> store_ok s"
  by (simp add: store_ok_def empty_db_def db_ok_def ok_keys_def ok_refs_def index_seqs_def grain_seqs_def
      ok_heads_def ok_latest_def latest_head_def best_head_def latest_row_of_def cell_heads_def
      seqs_below_def log_ok_def dict_ok_def)

lemma reachable_store_ok: "reachable E s0 s \<Longrightarrow> store_ok s0 \<Longrightarrow> store_ok s"
  by (induction rule: reachable.induct) (simp_all add: local_step_ok)

lemma cell_heads_best:
  assumes "cell_heads k d = x # xs" and "y \<in> set xs"
  shows "head_rank y \<le> head_rank x"
  using cell_heads_sorted [of k d] assms by (auto simp: sorted_append)



section \<open>An imported grain keeps the invariant\<close>

lemma head_stored:
  "ok_heads d \<Longrightarrow> y \<in> set (heads d) \<Longrightarrow>
     \<exists>r \<in> set (grains d). gr_seq r = hd_seq y \<and> gr_hash r = hd_hash y \<and> gr_created r = hd_created y"
  unfolding ok_heads_def good_head_def by blast

lemma current_head_best:
  assumes heads: "ok_keys d" "ok_heads d" "ok_latest d"
    and x: "\<forall>y \<in> set (heads d'). y \<in> set (heads d) \<or> hd_seq y \<notin> grain_seqs d"
    and sub: "set (heads d) \<subseteq> set (heads d')" and el: "entity_latest d' = entity_latest d"
  shows "current_head k d' = (if tip_ranks k d = {} then None else Some (Max (tip_ranks k d)))"
proof (cases "best_head k d")
  case None
  then have none: "latest_row_of k d = None" using ok_latestD(1) [OF heads(3), of k] by (simp add: latest_head_def)
  then have "\<forall>e \<in> set (entity_latest d). latest_key e \<noteq> k" by (simp add: latest_row_of_def find_None_iff_ball)
  then have "current_head k d' = None" by (auto simp: current_head_def el find_None_iff split: option.splits)
  moreover have "tip_ranks k d = {}" using None by (auto simp: best_head_None tip_ranks_def)
  ultimately show ?thesis by simp
next
  case (Some p)
  obtain q h where p: "p = (q, h)" by (cases p)
  obtain x where x0: "x \<in> set (heads d)" "head_key x = k" "hd_seq x = q"
    and max: "\<forall>y \<in> set (heads d). head_key y = k \<longrightarrow> head_rank y \<le> head_rank x"
    using best_head_max [OF Some [unfolded p]] by blast
  have Max: "Max (tip_ranks k d) = head_rank x" "tip_ranks k d \<noteq> {}"
    using x0 max by (auto simp: tip_ranks_def intro!: Max_eqI)
  have lat: "latest_head k d = Some (q, h)" using Some p ok_latestD(1) [OF heads(3)] by simp
  then obtain e where e: "latest_row_of k d = Some e" "el_seq e = q" by (auto simp: latest_head_def)
  have ek: "e \<in> set (entity_latest d)" "latest_key e = k"
    using find_SomeD e(1) by (fastforce simp: latest_row_of_def)+
  have only: "e' = e" if "e' \<in> set (entity_latest d)" "latest_key e' = k" for e'
    using that ek ok_latestD(2) [OF heads(3)] by (metis distinct_map inj_onD)
  let ?P = "\<lambda>h. head_key h = k \<and> (\<exists>e \<in> set (entity_latest d'). latest_key e = k \<and> el_seq e = hd_seq h)"
  have row: "\<exists>r \<in> set (grains d). gr_seq r = hd_seq y \<and> gr_hash r = hd_hash y \<and> gr_created r = hd_created y"
    if "y \<in> set (heads d)" for y
    using head_stored [OF heads(2) that] .
  have xs: "hd_seq x \<in> grain_seqs d" using row [OF x0(1)] unfolding grain_seqs_def by (metis imageI)
  have rank: "head_rank y = head_rank x" if "y \<in> set (heads d')" "?P y" for y
  proof -
    have seq: "hd_seq y = hd_seq x" using that(2) only e(2) x0(3) el by metis
    then have y: "y \<in> set (heads d)" using x that(1) xs by metis
    show ?thesis using row [OF y] row [OF x0(1)] seq seq_unique [OF heads(1)]
      unfolding head_rank_def by metis
  qed
  have "?P x" using x0(2,3) ek e(2) el by auto
  moreover have "x \<in> set (heads d')" using x0(1) sub by blast
  ultimately have "find ?P (heads d') \<noteq> None" unfolding find_None_iff_ball by blast
  then obtain y where y: "find ?P (heads d') = Some y" by blast
  then have "head_rank y = head_rank x" using rank find_SomeD [OF y] by blast
  then show ?thesis using y Max by (simp add: current_head_def)
qed

lemma heads_put:
  assumes "hd_seq n \<notin> hd_seq ` set (heads d)"
  shows "heads (put_head n d) = heads d @ [n]"
proof -
  have "filter (\<lambda>x. (head_key x, hd_seq x) \<noteq> (head_key n, hd_seq n)) (heads d) = heads d"
    using assms by (intro filter_True) (metis (mono_tags) imageI prod.inject)
  then show ?thesis by (simp add: put_head_def upsert_def)
qed

lemma heads_join:
  assumes "sq \<notin> hd_seq ` set (heads d)"
  shows "heads (join_cell sq h created (ns, s, p, ob) d) =
    heads d @ [head_at sq h created (ns, s, p, ob)]"
  using heads_put [of "head_at sq h created (ns, s, p, ob)" d] assms
  by (simp add: join_cell_def Let_def put_latest_def)

lemma join_other [simp]:
  "grains (join_cell sq h created c d) = grains d" "triples (join_cell sq h created c d) = triples d"
  "index_seqs (join_cell sq h created c d) = index_seqs d" "oplog (join_cell sq h created c d) = oplog d"
  "osp (join_cell sq h created c d) = osp d" "terms (join_cell sq h created c d) = terms d"
  by (auto simp: join_cell_def put_head_def put_latest_def Let_def index_seqs_def split: prod.splits)

text \<open>
  The election of an import: the tip with the greatest rank of the union is the value, if the
  cell's value was that before.
\<close>

lemma best_head_unique:
  assumes "x \<in> set (heads d)" "head_key x = k"
    and "\<forall>y \<in> set (heads d). head_key y = k \<longrightarrow> head_rank y \<le> head_rank x"
    and "\<forall>y \<in> set (heads d). head_key y = k \<longrightarrow> head_rank y = head_rank x \<longrightarrow> hd_seq y = hd_seq x"
  shows "best_head k d = Some (hd_seq x, hd_hash x)"
proof -
  have "best_head k d \<noteq> None" using assms(1,2) by (auto simp: best_head_None)
  then obtain q h where b: "best_head k d = Some (q, h)" by auto
  obtain y where y: "y \<in> set (heads d)" "head_key y = k" "hd_seq y = q" "hd_hash y = h"
    and max: "\<forall>z \<in> set (heads d). head_key z = k \<longrightarrow> head_rank z \<le> head_rank y"
    using best_head_max [OF b] by blast
  have "head_rank y = head_rank x" using assms(1-3) y(1,2) max by (metis order_antisym)
  then have "q = hd_seq x" "h = hd_hash x" using assms(4) y by (auto simp: head_rank_def)
  then show ?thesis using b by simp
qed

lemma head_rank_seq:
  assumes "ok_keys d" "ok_heads d" "x \<in> set (heads d)" "y \<in> set (heads d)" "head_rank x = head_rank y"
  shows "hd_seq x = hd_seq y"
proof -
  obtain r where r: "r \<in> set (grains d)" "gr_seq r = hd_seq x" "gr_hash r = hd_hash x"
    using head_stored [OF assms(2,3)] by blast
  obtain t where t: "t \<in> set (grains d)" "gr_seq t = hd_seq y" "gr_hash t = hd_hash y"
    using head_stored [OF assms(2,4)] by blast
  have "hd_hash x = hd_hash y" using assms(5) by (simp add: head_rank_def)
  then have "r = t" using hash_unique [OF assms(1) r(1) t(1)] r(3) t(3) by simp
  then show ?thesis using r(2) t(2) by simp
qed

lemma join_latest:
  assumes ok: "ok_keys d" "ok_heads d" "ok_latest d" and sq: "sq \<notin> grain_seqs d"
    and h: "h \<notin> gr_hash ` set (grains d)"
  shows "ok_latest (join_cell sq h created (ns, s, p, ob) d)"
proof -
  let ?k = "(ns, s, p)" and ?n = "head_at sq h created (ns, s, p, ob)"
  let ?d1 = "put_head ?n d"
  have row: "\<exists>r \<in> set (grains d). gr_seq r = hd_seq y \<and> gr_hash r = hd_hash y"
    if "y \<in> set (heads d)" for y
    using head_stored [OF ok(2) that] by blast
  have fresh: "sq \<notin> hd_seq ` set (heads d)" using row sq by (fastforce simp: grain_seqs_def image_iff)
  have hfresh: "h \<notin> hd_hash ` set (heads d)" using row h by (fastforce simp: image_iff)
  have heads1: "heads ?d1 = heads d @ [?n]"
    using heads_put fresh by simp
  have el1: "entity_latest ?d1 = entity_latest d" by (simp add: put_head_def)
  have cur: "current_head ?k ?d1 = (if tip_ranks ?k d = {} then None else Some (Max (tip_ranks ?k d)))"
    by (rule current_head_best [OF ok]) (use sq in \<open>auto simp: heads1 el1\<close>)
  have other: "latest_head j ?d1 = best_head j ?d1" if "j \<noteq> ?k" for j
  proof -
    have "cell_heads j ?d1 = cell_heads j d" using that by (simp add: cell_heads_def heads1)
    then show ?thesis using ok_latestD(1) [OF ok(3), of j]
      by (simp add: best_head_def latest_head_cong [OF el1])
  qed
  have seqs: "hd_seq y = hd_seq x" if "x \<in> set (heads ?d1)" "y \<in> set (heads ?d1)"
      "head_rank y = head_rank x" for x y
    using that head_rank_seq [OF ok(1,2), of y x] hfresh by (auto simp: heads1 head_rank_def)
  have ranks: "tip_ranks ?k d = head_rank ` {y \<in> set (heads d). head_key y = ?k}" by (simp add: tip_ranks_def)
  show ?thesis
  proof (cases "wins_over created h (current_head ?k ?d1)")
    case True
    have le: "head_rank y \<le> head_rank ?n" if "y \<in> set (heads ?d1)" "head_key y = ?k" for y
    proof (cases "y = ?n")
      case False
      then have y: "head_rank y \<in> tip_ranks ?k d" using that by (auto simp: ranks heads1)
      then have "head_rank y \<le> Max (tip_ranks ?k d)" by (intro Max_ge) (auto simp: tip_ranks_def)
      moreover have "tip_ranks ?k d \<noteq> {}" using y by blast
      then have "Max (tip_ranks ?k d) < (created, h)" using True cur by (simp add: wins_over_def)
      ultimately have "head_rank y \<le> (created, h)" by simp
      then show ?thesis by (simp add: head_rank_def)
    qed simp
    have nin: "?n \<in> set (heads ?d1)" by (simp add: heads1)
    have "best_head ?k ?d1 = Some (hd_seq ?n, hd_hash ?n)"
      by (rule best_head_unique [OF nin head_at_sel(1)]) (use le seqs [OF nin] in blast)+
    then have "ok_latest (put_latest (latest_at sq h (ns, s, p, ob)) ?d1)"
      using other ok_latestD(2) [OF ok(3)] by (intro ok_latest_put) (auto simp: el1)
    then show ?thesis using True by (simp add: join_cell_def Let_def)
  next
    case False
    then have ne: "tip_ranks ?k d \<noteq> {}" and lt: "\<not> Max (tip_ranks ?k d) < (created, h)"
      using cur by (auto simp: wins_over_def split: if_splits)
    have "Max (tip_ranks ?k d) \<in> tip_ranks ?k d" using ne by (intro Max_in) (auto simp: tip_ranks_def)
    then obtain x where x: "x \<in> set (heads d)" "head_key x = ?k" "head_rank x = Max (tip_ranks ?k d)"
      by (auto simp: ranks)
    have max: "head_rank y \<le> head_rank x" if "y \<in> set (heads d)" "head_key y = ?k" for y
      unfolding x(3) using that by (intro Max_ge) (auto simp: tip_ranks_def)
    have "(created, h) \<le> head_rank x" using lt unfolding x(3) by (simp only: not_less)
    then have "head_rank ?n \<le> head_rank x" by (simp add: head_rank_def)
    then have le: "head_rank y \<le> head_rank x" if "y \<in> set (heads ?d1)" "head_key y = ?k" for y
      using max that unfolding heads1 by auto
    have xin: "x \<in> set (heads ?d1)" using x(1) by (simp add: heads1)
    have "best_head ?k ?d1 = Some (hd_seq x, hd_hash x)"
      by (rule best_head_unique [OF xin x(2)]) (use le seqs [OF xin] in blast)+
    moreover have "best_head ?k d = Some (hd_seq x, hd_hash x)"
      by (rule best_head_unique [OF x(1,2)]) (use max head_rank_seq [OF ok(1,2) _ x(1)] x(1) in blast)+
    then have "latest_head ?k ?d1 = Some (hd_seq x, hd_hash x)"
      using ok_latestD(1) [OF ok(3)] by (simp add: latest_head_cong [OF el1])
    ultimately have "latest_head j ?d1 = best_head j ?d1" for j using other by (cases "j = ?k") simp_all
    then have "ok_latest ?d1" using ok_latestD(2) [OF ok(3)] by (intro ok_latestI) (simp_all add: el1)
    then show ?thesis using False by (simp add: join_cell_def Let_def)
  qed
qed

text \<open>The tables after an import: the row and its triples are appended, the tip is joined.\<close>

definition join_prep :: "grain_prep \<Rightarrow> int \<Rightarrow> db \<Rightarrow> db" where
  "join_prep pr sq d =
     (case prep_cell pr of None \<Rightarrow> d
      | Some c \<Rightarrow> join_cell sq (pp_hash pr) (pp_created pr) c d)"

lemma join_prep_other [simp]:
  "grains (join_prep pr sq d) = grains d" "triples (join_prep pr sq d) = triples d"
  "index_seqs (join_prep pr sq d) = index_seqs d" "oplog (join_prep pr sq d) = oplog d"
  by (simp_all add: join_prep_def split: option.splits)

lemma join_prep_cong:
  "heads d' = heads d \<Longrightarrow> entity_latest d' = entity_latest d \<Longrightarrow>
     heads (join_prep pr sq d') = heads (join_prep pr sq d)
     \<and> entity_latest (join_prep pr sq d') = entity_latest (join_prep pr sq d)"
  by (simp add: join_prep_def join_cell_def put_head_def put_latest_def current_head_def Let_def
      split: option.splits prod.splits)

lemma insert_blob_txn_effect:
  assumes "insert_blob_txn pr sq op kind hlc d = Inr (u, d')"
  shows "sq \<notin> grain_seqs d" and "pp_hash pr \<notin> gr_hash ` set (grains d)"
    and "grains d' = grains d @ [grain_of_prep sq pr]"
    and "triples d' = triples d @ inserted_triples pr sq"
    and "heads d' = heads (join_prep pr sq d)"
    and "entity_latest d' = entity_latest (join_prep pr sq d)"
    and "index_seqs d' \<subseteq> insert sq (index_seqs d)"
proof -
  let ?d0 = "d\<lparr>grains := grains d @ [grain_of_prep sq pr]\<rparr>"
  let ?d1 = "join_prep pr sq (insert_triple pr sq ?d0)"
  let ?d2 = "insert_links pr sq ?d1"
  from assms obtain d3 where new: "sq \<notin> grain_seqs d" "pp_hash pr \<notin> gr_hash ` set (grains d)"
    and aux: "insert_aux pr sq ?d2 = Inr d3" and opr: "insert_op op hlc kind (pp_hash pr) d3 = Inr d'"
    by (auto simp: insert_blob_txn_def Let_def result_simps insert_grain_Inr grain_of_prep_def
        join_prep_def)
  note core = insert_aux_step [OF aux, unfolded index_step_def same_core_def]
  have d': "d' = d3\<lparr>oplog := oplog d'\<rparr>" using opr by (auto simp: insert_op_Inr)
  show "sq \<notin> grain_seqs d" "pp_hash pr \<notin> gr_hash ` set (grains d)" by (fact new)+
  show "grains d' = grains d @ [grain_of_prep sq pr]" using core by (subst d') simp
  have "triples d3 = triples d @ inserted_triples pr sq"
    using core by (simp add: insert_links_def insert_triple_def inserted_triples_def Let_def
        split: option.splits)
  then show "triples d' = triples d @ inserted_triples pr sq" by (subst d') simp
  have jc: "heads ?d1 = heads (join_prep pr sq d) \<and> entity_latest ?d1 = entity_latest (join_prep pr sq d)"
    by (rule join_prep_cong) simp_all
  show "heads d' = heads (join_prep pr sq d)" using core jc by (subst d') simp
  show "entity_latest d' = entity_latest (join_prep pr sq d)" using core jc by (subst d') simp
  have "index_seqs d' = index_seqs d3" by (subst d') (simp add: index_seqs_def)
  moreover have "index_seqs d3 \<subseteq> insert sq (index_seqs ?d2)" using core by blast
  moreover have "index_seqs ?d2 \<subseteq> insert sq (index_seqs (insert_triple pr sq ?d0))"
    using insert_links_index [of pr sq ?d1] by simp
  moreover have "index_seqs (insert_triple pr sq ?d0) \<subseteq> insert sq (index_seqs ?d0)"
    by (rule insert_triple_index)
  moreover have "index_seqs ?d0 = index_seqs d" by (simp add: index_seqs_def)
  ultimately show "index_seqs d' \<subseteq> insert sq (index_seqs d)" by blast
qed

lemma insert_blob_txn_ok:
  assumes ins: "insert_blob_txn pr sq op kind hlc d = Inr (u, d')" and ok: "db_ok d"
  shows "db_ok d'"
proof -
  note eff = insert_blob_txn_effect [OF ins]
  have parts: "ok_keys d" "ok_refs d" "ok_heads d" "ok_latest d" using ok by (simp_all add: db_ok_def)
  have "ok_keys d'"
    using parts(1) eff(1,2) by (auto simp: ok_keys_def eff(3) grain_of_prep_def grain_seqs_def)
  moreover have "ok_refs d'"
    using parts(2) eff(7) by (auto simp: ok_refs_def grain_seqs_def eff(3) grain_of_prep_def)
  moreover have "good_head d' h" if h: "h \<in> set (heads d')" for h
  proof -
    have fresh: "sq \<notin> hd_seq ` set (heads d)"
      using head_stored [OF parts(3)] eff(1) by (fastforce simp: grain_seqs_def image_iff)
    have "h \<in> set (heads d) \<or> (\<exists>c. prep_cell pr = Some c
        \<and> h = head_at sq (pp_hash pr) (pp_created pr) c)"
      using h heads_join [OF fresh] by (auto simp: eff(5) join_prep_def split: option.splits)
    then show ?thesis
    proof (elim disjE exE conjE)
      assume "h \<in> set (heads d)"
      then have "good_head d h" using parts(3) by (simp add: ok_heads_def)
      then show ?thesis by (rule good_head_grow [OF _ eff(3,4)])
    next
      fix c assume "prep_cell pr = Some c" "h = head_at sq (pp_hash pr) (pp_created pr) c"
      then show ?thesis using good_head_new [OF _ eff(3,4)] by simp
    qed
  qed
  then have "ok_heads d'" by (simp add: ok_heads_def)
  moreover have "ok_latest (join_prep pr sq d)"
    using parts join_latest [OF parts(1,3,4) eff(1,2)]
    by (auto simp: join_prep_def split: option.splits)
  then have "ok_latest d'" using ok_latest_cong [OF eff(5,6)] by simp
  ultimately show ?thesis by (simp add: db_ok_def)
qed

text \<open>
  Importing a grain keeps the invariant of the tables, whatever the log's kind and time of
  the operation, and the imported tip joins those of its cell.
\<close>

theorem import_keeps_invariant:
  assumes "store_ok s" and "insert_blob E now blob h kind hlc s = (r, s')"
  shows "db_ok (st_db s')"
proof -
  obtain x s1 where prep: "prep_from_blob E now blob h s = (x, s1)" by fastforce
  have ok1: "store_ok s1"
    using store_ok_frame [OF framed_at [OF framed_prep] assms(1)] prep by (metis snd_conv)
  show ?thesis
  proof (cases x)
    case (Inl e)
    then show ?thesis using assms(2) prep ok1 by (simp add: insert_blob_def bind_op_def store_ok_def)
  next
    case (Inr pr)
    let ?t = "insert_blob_txn pr (next_seq s1) (next_op s1) kind hlc (st_db s1)"
    have "st_db s' = (case ?t of Inl e \<Rightarrow> st_db s1 | Inr (u, d) \<Rightarrow> d)"
      using assms(2) prep Inr
      by (auto simp: insert_blob_def bind_op_def with_txn_def Let_def split: sum.splits)
    then show ?thesis
      using ok1 insert_blob_txn_ok by (auto simp: store_ok_def split: sum.splits)
  qed
qed

theorem import_keeps_invariant_witness:
  "db_ok (st_db (snd (insert_blob demo_env 0 (demo_blob 3) (demo_address 3) OP_ADD 100 solo_store)))"
  by (rule import_keeps_invariant [OF solo_store_ok surjective_pairing])

end
