(* ===== verification/Store_Diverge.thy ===== *)
theory Store_Diverge
  imports Store_Replica
begin

text \<open>
  Where replicas of the store come apart: the supersession flip of the import path leaves the
  value of a cell behind, and it registers a fork again each time it is replayed.
\<close>

section \<open>A replicated supersession, on concrete stores\<close>

lemma demo_hash_of_hex: "parse_hash demo_core (demo_hex n) = Some (demo_address n)"
proof -
  have "unat n < 256" using unsigned_less [of n] by simp
  then have "word_of_nat (unat n mod 256) = n" by simp
  then show ?thesis
    by (simp add: parse_hash_def hash_from_hex_def demo_core_def demo_hex_def demo_address_def
        hash_from_bytes_def hash_try_from_bytes_def code_of_def)
qed

definition prep_3 :: grain_prep where
  "prep_3 = \<lparr> pp_blob = demo_blob 3, pp_hash = demo_address 3, pp_ns = 1, pp_s = Some 2,
     pp_p = Some 3, pp_o = Some 6, pp_osp = False, pp_session = None, pp_vf = None, pp_vt = None,
     pp_created = 5, pp_gtype = 0, pp_text = None, pp_embedding = None, pp_tokens = [],
     pp_doc_len = 0, pp_links = [], pp_run = None,
     pp_parent = Some (as_bytes (demo_address 1)), pp_corpus_export = False \<rparr>"

lemma prep_3_run:
  "prep_from_blob demo_env 0 (demo_blob 3) (demo_address 3) solo_store = (Inr prep_3, solo_store)"
  by (simp add: prep_from_blob_def bind_op_def lift_res_def demo_read ret_def demo_grain_def
     demo_json_def extract_view_def get_str_def get_i64_def dg_get_def links_of_def i64_max_def
     i64_min_def term_id_def solo_store_def demo_open_def demo_store_def prep_triple_def
     opt_term_def prep_tokens_def prep_embedding_def demo_env_def prep_links_def demo_hash_of_hex
     prep_3_def)

text \<open>The replica after the import: the new grain is the tip, the old one is closed.\<close>

definition replica_db :: db where
  "replica_db = (st_db solo_store)\<lparr>
     grains := [(demo_row 1 1 10 4)\<lparr>gr_superseded_by := Some (demo_address 3), gr_svt := Some 0\<rparr>,
       (demo_row 10 3 5 6)\<lparr>gr_supersedes := Some (demo_address 1)\<rparr>],
     triples := [(triple_at 1 (1, 2, 3, 4))\<lparr>tr_cur := False\<rparr>, triple_at 10 (1, 2, 3, 6)],
     heads := [head_at 10 (demo_address 3) 5 (1, 2, 3, 6)],
     prov_idx := [(1, as_bytes (demo_address 1), 10)],
     oplog := [\<lparr> op_seq = 1, op_hlc = 100, op_kind = OP_SUPERSEDE, op_hash = demo_address 3 \<rparr>] \<rparr>"

lemma insert_3_run:
  "\<exists>s1. insert_blob demo_env 0 (demo_blob 3) (demo_address 3) OP_SUPERSEDE 100 solo_store = (Inr (), s1)
     \<and> flip (demo_address 1) (demo_address 3) 0 (st_db s1) = (True, replica_db)
     \<and> dict s1 = dict solo_store"
  by (simp add: insert_blob_def bind_op_def prep_3_run Let_def with_txn_def insert_blob_txn_def)
    (simp add: insert_grain_def grain_of_prep_def prep_3_def insert_triple_def prep_cell_def
     join_cell_def insert_links_def insert_aux_def insert_thread_def insert_run_def insert_corpus_def
     insert_parent_def insert_embedding_def insert_op_def insert_row_def Let_def
     solo_store_def demo_open_def demo_tables_def empty_db_def demo_row_def demo_store_def
     put_head_def put_latest_def upsert_def current_head_def wins_over_def head_rank_def
     flip_def find_grain_def flip_close_def close_grain_def link_supersedes_def update_where_def
     delete_where_def row_cell_def replica_db_def triple_at_def)

lemma replica_reads:
  assumes "dict s = dict solo_store" and "st_db s = replica_db"
  shows "heads_of ''shared'' ''bob'' ''city'' s = [(demo_address 3, 5)]"
    and "latest demo_env ''shared'' ''bob'' ''city'' s
      = Inr (Some (demo_grain 1 (demo_json ''city'' ''oslo'' 10 False)))"
proof -
  have cell: "cell_of ''shared'' ''bob'' ''city'' s = Some (1, 2, 3)"
    by (simp add: cell_of_def term_lookup_def assms solo_store_def demo_open_def)
  have "cell_heads (1, 2, 3) replica_db = [head_at 10 (demo_address 3) 5 (1, 2, 3, 6)]"
    by (simp add: cell_heads_def replica_db_def)
  then show "heads_of ''shared'' ''bob'' ''city'' s = [(demo_address 3, 5)]"
    by (simp add: heads_of_def cell assms)
  show "latest demo_env ''shared'' ''bob'' ''city'' s
      = Inr (Some (demo_grain 1 (demo_json ''city'' ''oslo'' 10 False)))"
    by (rule latest_from_row [OF cell, where e = "latest_at 1 (demo_address 1) (1, 2, 3, 4)"])
      (auto simp: latest_row_of_def replica_db_def solo_store_def demo_open_def demo_tables_def
        find_grain_def demo_row_def demo_read assms)
qed

lemma origin_reads:
  "\<exists>s'. supersede demo_env (\<lambda>_. 0) (demo_address 1) (\<lambda>_. Inr (demo_blob 3, demo_address 3)) solo_store
      = (Inr (demo_address 3), s')
    \<and> heads_of ''shared'' ''bob'' ''city'' s' = [(demo_address 3, 5)]
    \<and> latest demo_env ''shared'' ''bob'' ''city'' s'
      = Inr (Some (demo_grain 3 (demo_json ''city'' ''bern'' 5 True)))"
proof -
  have new: "find_grain (demo_address 3) (st_db solo_store) = None" by (simp add: demo_absent)
  have view: "deserialize_blob (se_core demo_env) (demo_blob 3)
      = Inr (demo_grain 3 (demo_json ''city'' ''bern'' 5 True))" by (simp add: demo_read)
  have "gv_created (extract_view 0 (demo_grain 3 (demo_json ''city'' ''bern'' 5 True))) = 5"
    by (simp add: extract_view_def get_i64_def dg_get_def demo_grain_def demo_json_def i64_max_def
        i64_min_def)
  then show ?thesis
    using supersede_outcome [where new = "\<lambda>_. Inr (demo_blob 3, demo_address 3)" and clk = "\<lambda>_. 0",
        OF solo_store_ok solo_row solo_row_open(1) refl demo_preparable(3) new view demo_in_cell]
    by auto
qed

text \<open>
  C37. The replica and the origin disagree: after the origin's supersession of a grain by one that
  was created earlier, the origin's value of the cell is the new grain, while the replica
  that imports the same operation still answers with the superseded one, which is no longer
  among its heads.
\<close>

theorem replica_keeps_superseded_value:
  "let r = import_supersede demo_env 0 (demo_address 3) 100 (demo_blob 3)
             \<lparr> applied = 0, skipped = 0 \<rparr> solo_store;
       loc = supersede demo_env (\<lambda>_. 0) (demo_address 1) (\<lambda>_. Inr (demo_blob 3, demo_address 3)) solo_store;
       old = demo_grain 1 (demo_json ''city'' ''oslo'' 10 False);
       new = demo_grain 3 (demo_json ''city'' ''bern'' 5 True)
   in fst r = Inr \<lparr> applied = 1, skipped = 0 \<rparr>
      \<and> heads_of ''shared'' ''bob'' ''city'' (snd r) = [(demo_address 3, 5)]
      \<and> latest demo_env ''shared'' ''bob'' ''city'' (snd r) = Inr (Some old)
      \<and> heads_of ''shared'' ''bob'' ''city'' (snd loc) = [(demo_address 3, 5)]
      \<and> latest demo_env ''shared'' ''bob'' ''city'' (snd loc) = Inr (Some new)"
proof -
  have new: "find_grain (demo_address 3) (st_db solo_store) = None" by (simp add: demo_absent)
  obtain s1 where ins: "insert_blob demo_env 0 (demo_blob 3) (demo_address 3) OP_SUPERSEDE 100 solo_store
      = (Inr (), s1)"
    and fl: "flip (demo_address 1) (demo_address 3) 0 (st_db s1) = (True, replica_db)"
    and dict: "dict s1 = dict solo_store"
    using insert_3_run by blast
  have parents: "superseded_parents demo_core (demo_grain 3 (demo_json ''city'' ''bern'' 5 True)) = [demo_address 1]"
    by (simp add: superseded_parents_def get_str_def dg_get_def demo_grain_def demo_json_def
        demo_hash_of_hex Let_def)
  have imp: "import_supersede demo_env 0 (demo_address 3) 100 (demo_blob 3)
        \<lparr> applied = 0, skipped = 0 \<rparr> solo_store =
      (Inr \<lparr> applied = 1, skipped = 0 \<rparr>, s1\<lparr>st_db := replica_db\<rparr>)"
    using ins fl by (simp add: import_supersede_def new Let_def bind_op_def demo_read parents
        apply_supersede_flip_def with_txn_def ret_def count_applied_def) (simp add: demo_blob_def)
  show ?thesis
    using replica_reads [of "s1\<lparr>st_db := replica_db\<rparr>"] origin_reads dict by (auto simp: imp)
qed

section \<open>Replaying a fork\<close>

text \<open>
  A supersession of a grain that another one already supersedes is registered as a fork. Its
  replay is not the idempotent no-op the import promises: each replay counts as applied, logs
  the operation once more and puts the incoming grain back among the tips, even when that
  grain has itself been superseded since.
\<close>

theorem fork_replay_not_idempotent:
  assumes "find_grain h (st_db s) = Some n" and "deserialize_blob (se_core E) (gr_blob n) = Inr view"
    and "superseded_parents (se_core E) view = [old]"
    and "find_grain old (st_db s) = Some r" and "gr_svt r \<noteq> None" and "gr_superseded_by r \<noteq> Some h"
    and "next_op s \<notin> op_seq ` set (oplog (st_db s))"
  shows "\<exists>s'. import_supersede E now h hlc [] st s = (Inr (count_applied st), s')
     \<and> h \<in> hd_hash ` set (heads (st_db s'))
     \<and> oplog (st_db s') = oplog (st_db s)
       @ [\<lparr> op_seq = next_op s, op_hlc = hlc, op_kind = OP_SUPERSEDE, op_hash = h \<rparr>]"
proof -
  let ?c = "(gr_ns n, zero_if_null (gr_s n), zero_if_null (gr_p n), zero_if_null (gr_o n))"
  let ?d = "join_cell (gr_seq n) h (gr_created n) ?c (st_db s)"
  have fl: "flip old h now (st_db s) = (True, ?d)"
    using assms(1,4-6) by (auto simp: flip_def flip_fork_def Let_def)
  have head: "head_at (gr_seq n) h (gr_created n) ?c \<in> set (heads ?d)"
    by (auto simp: join_cell_def put_head_def put_latest_def Let_def set_upsert)
  let ?row = "\<lparr> op_seq = next_op s, op_hlc = hlc, op_kind = OP_SUPERSEDE, op_hash = h \<rparr>"
  have log: "insert_op (next_op s) hlc OP_SUPERSEDE h ?d = Inr (?d\<lparr>oplog := oplog (st_db s) @ [?row]\<rparr>)"
    using assms(7) by (simp add: insert_op_Inr)
  have "import_supersede E now h hlc [] st s =
      (Inr (count_applied st), s\<lparr>st_db := ?d\<lparr>oplog := oplog (st_db s) @ [?row]\<rparr>, next_op := next_op s + 1\<rparr>)"
    using assms(1-3) fl log
    by (simp add: import_supersede_def Let_def bind_op_def ret_def apply_supersede_flip_def
        with_txn_def log_op_def)
  then show ?thesis using head by (auto simp: image_iff intro!: bexI [of _ "head_at (gr_seq n) h (gr_created n) ?c"])
qed

text \<open>Both grains closed: the first one by a grain that is not here, the second one by another.\<close>

definition settled_row :: "int \<Rightarrow> byte \<Rightarrow> byte \<Rightarrow> grain_row" where
  "settled_row q n by =
     (demo_row q n 5 6)\<lparr>gr_superseded_by := Some (demo_address by), gr_svt := Some 0\<rparr>"

definition settled_store :: store where
  "settled_store = solo_store\<lparr>st_db := empty_db\<lparr>grains := [settled_row 1 1 2, settled_row 2 3 4]\<rparr>\<rparr>"

lemma settled_rows:
  "find_grain (demo_address 1) (st_db settled_store) = Some (settled_row 1 1 2)"
  "find_grain (demo_address 3) (st_db settled_store) = Some (settled_row 2 3 4)"
  "gr_svt (settled_row q n by) = Some 0" "gr_superseded_by (settled_row q n by) = Some (demo_address by)"
  "gr_blob (settled_row q n by) = demo_blob n" "oplog (st_db settled_store) = []"
  by (simp_all add: settled_store_def find_grain_def settled_row_def demo_row_def empty_db_def)

theorem fork_replay_not_idempotent_witness:
  "\<exists>s'. import_supersede demo_env 0 (demo_address 3) 100 [] \<lparr> applied = 0, skipped = 0 \<rparr> settled_store
      = (Inr \<lparr> applied = 1, skipped = 0 \<rparr>, s')
     \<and> demo_address 3 \<in> hd_hash ` set (heads (st_db s'))"
proof -
  have view: "deserialize_blob (se_core demo_env) (gr_blob (settled_row 2 3 4))
      = Inr (demo_grain 3 (demo_json ''city'' ''bern'' 5 True))"
    by (simp add: settled_rows demo_read)
  have parents: "superseded_parents (se_core demo_env) (demo_grain 3 (demo_json ''city'' ''bern'' 5 True))
      = [demo_address 1]"
    by (simp add: superseded_parents_def get_str_def dg_get_def demo_grain_def demo_json_def
        demo_hash_of_hex Let_def)
  have "\<exists>s'. import_supersede demo_env 0 (demo_address 3) 100 [] \<lparr> applied = 0, skipped = 0 \<rparr> settled_store
      = (Inr (count_applied \<lparr> applied = 0, skipped = 0 \<rparr>), s')
     \<and> demo_address 3 \<in> hd_hash ` set (heads (st_db s'))
     \<and> oplog (st_db s') = oplog (st_db settled_store)
       @ [\<lparr> op_seq = next_op settled_store, op_hlc = 100, op_kind = OP_SUPERSEDE, op_hash = demo_address 3 \<rparr>]"
    by (rule fork_replay_not_idempotent [OF settled_rows(2) view parents settled_rows(1)])
      (simp_all add: settled_rows)
  then show ?thesis by (auto simp: count_applied_def)
qed

end
