(* ===== verification/Authz.thy ===== *)
theory Authz
  imports Wire_Value
begin

text \<open>
  Authorization (\<^verbatim>\<open>crates/dejadb-core/src/authz.rs\<close>): verbs, grants and their canonical object
  strings, the resolved rights of a session, the audit record of an erasure, and the
  host-side map from bearer tokens to principals. SHA-256 and hexadecimal rendering of
  digests are those of the environment; parsing the credential map's JSON into its struct is
  serde's, so the model starts from the parsed map. The em dash of a message is written as a hyphen.
\<close>

section \<open>Verbs\<close>

datatype verb = VRead | VWrite | VSupersede | VDelete | VErase | VLoopRun | VLoopReview
  | VLoopApply | VAdmin

definition ALL_VERBS :: "verb list" where
  "ALL_VERBS = [VRead, VWrite, VSupersede, VDelete, VErase, VLoopRun, VLoopReview, VLoopApply, VAdmin]"

fun verb_as_str :: "verb \<Rightarrow> string" where
  "verb_as_str VRead = ''read''"
| "verb_as_str VWrite = ''write''"
| "verb_as_str VSupersede = ''supersede''"
| "verb_as_str VDelete = ''delete''"
| "verb_as_str VErase = ''erase''"
| "verb_as_str VLoopRun = ''loop.run''"
| "verb_as_str VLoopReview = ''loop.review''"
| "verb_as_str VLoopApply = ''loop.apply''"
| "verb_as_str VAdmin = ''admin''"

definition verb_of :: "string \<Rightarrow> verb option" where
  "verb_of s =
     (if s = ''read'' then Some VRead else if s = ''write'' then Some VWrite
      else if s = ''supersede'' then Some VSupersede else if s = ''delete'' then Some VDelete
      else if s = ''erase'' then Some VErase else if s = ''loop.run'' then Some VLoopRun
      else if s = ''loop.review'' then Some VLoopReview else if s = ''loop.apply'' then Some VLoopApply
      else if s = ''admin'' then Some VAdmin else None)"

definition verb_parse :: "string \<Rightarrow> deja_error + verb" where
  "verb_parse s =
     ok_or (Validation (''unknown verb '' @ debug_str s @ '' - one of: read, write, supersede, delete, erase, ''
       @ ''loop.run, loop.review, loop.apply, admin'')) (verb_of s)"

section \<open>Grants\<close>

record grant =
  g_verbs :: "verb list"
  g_namespaces :: "string list"

definition covers :: "grant \<Rightarrow> verb \<Rightarrow> string \<Rightarrow> bool" where
  "covers g v ns =
     (v \<in> set (g_verbs g)
      \<and> (g_namespaces g = [] \<or> list_ex (\<lambda>n. n = ''*'' \<or> n = ns) (g_namespaces g)))"

text \<open>Sorted with adjacent duplicates dropped: \<^verbatim>\<open>sort_unstable\<close> and \<^verbatim>\<open>dedup\<close>.\<close>

definition sort_dedup :: "string list \<Rightarrow> string list" where
  "sort_dedup xs = remdups_adj (sort xs)"

definition to_object_string :: "grant \<Rightarrow> string" where
  "to_object_string g =
     join '','' (sort_dedup (map verb_as_str (g_verbs g))) @ '' ON ''
     @ (if g_namespaces g = [] then ''*'' else join '','' (sort_dedup (g_namespaces g)))"

definition push_new :: "'a \<Rightarrow> 'a list \<Rightarrow> 'a list" where
  "push_new x xs = (if x \<in> set xs then xs else xs @ [x])"

fun parse_verbs :: "string list \<Rightarrow> verb list \<Rightarrow> deja_error + verb list" where
  "parse_verbs [] acc = Inr acc"
| "parse_verbs (w # ws) acc = and_then (verb_parse (trim w)) (\<lambda>v. parse_verbs ws (push_new v acc))"

fun parse_namespaces :: "string \<Rightarrow> string list \<Rightarrow> string list \<Rightarrow> deja_error + string list" where
  "parse_namespaces s [] acc = Inr acc"
| "parse_namespaces s (w # ws) acc =
     (if trim w = [] then Inl (Validation (''grant object '' @ debug_str s @ '' has an empty namespace''))
      else parse_namespaces s ws (push_new (trim w) acc))"

definition from_object_string :: "string \<Rightarrow> deja_error + grant" where
  "from_object_string s =
     (case split_once '' ON '' s of
        None \<Rightarrow> Inl (Validation (''malformed grant object '' @ debug_str s
          @ '' - expected '' @ debug_str ''<verbs> ON <namespaces>''))
      | Some (vp, np) \<Rightarrow>
          and_then (parse_verbs (split_on (\<lambda>c. c = CHR '','') vp) []) (\<lambda>vs.
          if vs = [] then Inl (Validation (''grant object '' @ debug_str s @ '' names no verbs''))
          else and_then (parse_namespaces s (split_on (\<lambda>c. c = CHR '','') np) []) (\<lambda>ns.
            Inr \<lparr> g_verbs = vs, g_namespaces = ns \<rparr>)))"

section \<open>Sessions\<close>

record authz_set =
  as_principal :: string
  as_owner :: bool
  as_grants :: "grant list"

definition owner :: "string \<Rightarrow> authz_set" where
  "owner p = \<lparr> as_principal = p, as_owner = True, as_grants = [] \<rparr>"

definition restricted :: "string \<Rightarrow> grant list \<Rightarrow> authz_set" where
  "restricted p gs = \<lparr> as_principal = p, as_owner = False, as_grants = gs \<rparr>"

definition allows :: "authz_set \<Rightarrow> verb \<Rightarrow> string \<Rightarrow> bool" where
  "allows a v ns = (as_owner a \<or> list_ex (\<lambda>g. covers g v ns) (as_grants a))"

definition check :: "authz_set \<Rightarrow> verb \<Rightarrow> string \<Rightarrow> deja_error + unit" where
  "check a v ns =
     (if allows a v ns then Inr ()
      else Inl (AuthzDenied (''principal '' @ as_principal a @ '' lacks '' @ verb_as_str v
        @ '' on namespace '' @ debug_str ns)))"

section \<open>Audit\<close>

definition observer_kind :: "string \<Rightarrow> string" where
  "observer_kind p =
     (if list_ex (starts_with p) [''agent:'', ''bot:'', ''job:'', ''svc:'', ''engine:'']
      then ''agent'' else ''human'')"

definition hex_lower :: "bytes \<Rightarrow> string" where
  "hex_lower bs =
     concat (map (\<lambda>b. [''0123456789abcdef'' ! unat (drop_bit 4 b), ''0123456789abcdef'' ! unat (and b 0x0F)]) bs)"

definition subject_fingerprint :: "core_env \<Rightarrow> string \<Rightarrow> string" where
  "subject_fingerprint E identity = hex_lower (take 8 (sha256 E (utf8 identity)))"

text \<open>The observation it builds; the process counter is passed in and handed back.\<close>

record audit_obs =
  ao_observer_id :: string
  ao_observer_type :: string
  ao_subject :: string
  ao_object :: string
  ao_frame_id :: string
  ao_namespace :: string
  ao_created_at :: int
  ao_context :: json

definition AUTHZ_NS :: string where "AUTHZ_NS = ''agent:authz''"

definition audit_observation ::
  "string \<Rightarrow> string \<Rightarrow> string \<Rightarrow> string option \<Rightarrow> nat \<Rightarrow> int \<Rightarrow> nat \<Rightarrow> audit_obs \<times> nat" where
  "audit_observation who v target because count now counter =
     (\<lparr> ao_observer_id = who, ao_observer_type = observer_kind who,
        ao_subject = target, ao_object = v,
        ao_frame_id = ''tier2:'' @ int_str now @ '':'' @ nat_str counter,
        ao_namespace = AUTHZ_NS, ao_created_at = now,
        ao_context = JObj [(''audit'', JStr ''tier2''),
          (''because'', JStr (case because of None \<Rightarrow> [] | Some b \<Rightarrow> b)),
          (''grains_erased'', JInt (int count)), (''subject_ref'', JStr ''sha256-64/hex''),
          (''target'', JStr target), (''verb'', JStr v)] \<rparr>,
      (counter + 1) mod 2 ^ 64)"

section \<open>Credentials\<close>

text \<open>Constant-time comparison: the differences are collected over all bytes.\<close>

fun ct_diff :: "byte \<Rightarrow> bytes \<Rightarrow> bytes \<Rightarrow> byte" where
  "ct_diff d (x # xs) (y # ys) = ct_diff (or d (xor x y)) xs ys"
| "ct_diff d _ _ = d"

definition ct_eq :: "bytes \<Rightarrow> bytes \<Rightarrow> bool" where
  "ct_eq a b = (if length a \<noteq> length b then False else ct_diff 0 a b = 0)"

record credential =
  cr_sha256 :: "string option"
  cr_env :: "string option"
  cr_principal :: string

record credential_map =
  cm_version :: int
  cm_tokens :: "credential list"

definition entry_error :: "nat \<Rightarrow> string \<Rightarrow> deja_error" where
  "entry_error i what = AuthzConfigInvalid (''credential map: entry '' @ nat_str i @ what)"

definition check_entry :: "nat \<Rightarrow> credential \<Rightarrow> deja_error + unit" where
  "check_entry i t =
     (if trim (cr_principal t) = [] then Inl (entry_error i '' has an empty principal'')
      else (case (cr_sha256 t, cr_env t) of
              (Some h, None) \<Rightarrow>
                if length (utf8 h) \<noteq> 64 \<or> \<not> list_all is_ascii_hexdigit h
                then Inl (entry_error i ('' ('' @ cr_principal t @ '') sha256 must be 64 hex chars''))
                else Inr ()
            | (None, Some v) \<Rightarrow>
                if trim v = []
                then Inl (entry_error i ('' ('' @ cr_principal t @ '') has an empty '' @ debug_str ''env''
                  @ '' variable name''))
                else Inr ()
            | _ \<Rightarrow> Inl (entry_error i ('' ('' @ cr_principal t @ '') must have exactly one of ''
                @ debug_str ''sha256'' @ '' or '' @ debug_str ''env''))))"

fun check_entries :: "nat \<Rightarrow> credential list \<Rightarrow> deja_error + unit" where
  "check_entries i [] = Inr ()"
| "check_entries i (t # ts) = and_then (check_entry i t) (\<lambda>_. check_entries (i + 1) ts)"

definition credentials_valid :: "credential_map \<Rightarrow> deja_error + credential_map" where
  "credentials_valid m =
     (if cm_version m \<noteq> 1
      then Inl (AuthzConfigInvalid (''credential map: unsupported version '' @ int_str (cm_version m)
        @ '' (expected 1)''))
      else and_then (check_entries 0 (cm_tokens m)) (\<lambda>_. Inr m))"

text \<open>\<open>getenv\<close> is the process environment: a variable that is set, to a string.\<close>

definition entry_matches :: "core_env \<Rightarrow> (string \<Rightarrow> string option) \<Rightarrow> string \<Rightarrow> credential \<Rightarrow> bool" where
  "entry_matches E getenv presented t =
     (case (cr_sha256 t, cr_env t) of
        (Some h, None) \<Rightarrow> eq_ignore_ascii_case h (hex_encode E (sha256 E (utf8 presented)))
      | (None, Some var) \<Rightarrow>
          (case getenv var of
             None \<Rightarrow> False
           | Some v \<Rightarrow> trim v \<noteq> [] \<and> ct_eq (utf8 v) (utf8 presented))
      | _ \<Rightarrow> False)"

definition resolve :: "core_env \<Rightarrow> (string \<Rightarrow> string option) \<Rightarrow> credential_map \<Rightarrow> string \<Rightarrow> deja_error + string" where
  "resolve E getenv m presented =
     (if presented = [] then Inl AuthzTokenUnrecognized
      else (case find (entry_matches E getenv presented) (cm_tokens m) of
              None \<Rightarrow> Inl AuthzTokenUnrecognized
            | Some t \<Rightarrow> Inr (cr_principal t)))"

definition knows_principal :: "credential_map \<Rightarrow> string \<Rightarrow> deja_error + unit" where
  "knows_principal m p =
     (if list_ex (\<lambda>t. cr_principal t = p) (cm_tokens m) then Inr ()
      else Inl (AuthzUnknownPrincipal p))"

section \<open>Verbs are a codec\<close>

interpretation verb_codec: wire_codec verb_as_str verb_of
proof
  show "verb_of (verb_as_str a) = Some a" for a by (cases a) (simp_all add: verb_of_def)
  show "verb_of w = Some a \<Longrightarrow> verb_as_str a = w" for w a
    by (auto simp: verb_of_def split: if_splits)
qed

lemma verb_parse_str [simp]: "verb_parse (verb_as_str v) = Inr v"
  by (simp add: verb_parse_def verb_codec.dec_enc)

lemma verb_parse_Inr: "verb_parse s = Inr v \<longleftrightarrow> s = verb_as_str v"
  by (simp add: verb_parse_def result_simps verb_codec.dec_iff)

section \<open>Canonical object strings\<close>

lemma set_sort_dedup [simp]: "set (sort_dedup xs) = set xs"
  by (simp add: sort_dedup_def)

lemma sort_dedup_strict: "sorted_wrt (<) (sort_dedup xs)"
proof -
  have "sorted ys \<Longrightarrow> sorted_wrt (<) (remdups_adj ys)" for ys :: "string list"
  proof (induction ys rule: remdups_adj.induct)
    case (3 x y ys)
    show ?case
    proof (cases "x = y")
      case False
      have le: "x \<le> y" "\<And>z. z \<in> set ys \<Longrightarrow> y \<le> z" "sorted (y # ys)" using "3.prems" by simp_all
      have "x < z" if "z \<in> set (y # ys)" for z
        using that le False by (metis order_le_less_trans order_less_le set_ConsD)
      then show ?thesis using "3.IH"(2) [OF False le(3)] False by simp
    qed (use 3 in simp)
  qed simp_all
  then show ?thesis by (simp add: sort_dedup_def)
qed

lemma sort_dedup_cong: "set xs = set ys \<Longrightarrow> sort_dedup xs = sort_dedup ys"
  using sort_dedup_strict set_sort_dedup by (intro strict_sorted_equal) auto

lemma split_once_prefix:
  "c \<notin> set pre \<Longrightarrow> split_once (c # pat) (pre @ (c # pat) @ rest) = Some (pre, rest)"
  by (induction pre) auto

text \<open>A grant that its object string can express.\<close>

definition plain_name :: "string \<Rightarrow> bool" where
  "plain_name n = (n \<noteq> [] \<and> trim n = n \<and> CHR '','' \<notin> set n)"

definition wf_grant :: "grant \<Rightarrow> bool" where
  "wf_grant g = (g_verbs g \<noteq> [] \<and> list_all plain_name (g_namespaces g))"

lemma parse_verbs_strs:
  "(\<And>w. w \<in> set ws \<Longrightarrow> \<exists>v. w = verb_as_str v) \<Longrightarrow>
     \<exists>vs. parse_verbs ws acc = Inr vs \<and> verb_as_str ` set vs = verb_as_str ` set acc \<union> set ws"
proof (induction ws arbitrary: acc)
  case (Cons w ws)
  obtain v where v: "w = verb_as_str v" using Cons.prems by auto
  have trim: "trim (verb_as_str v) = verb_as_str v"
    by (cases v) (simp_all add: trim_def trim_start_def trim_end_def is_whitespace_def code_of_def)
  obtain vs where "parse_verbs ws (push_new v acc) = Inr vs"
      "verb_as_str ` set vs = verb_as_str ` set (push_new v acc) \<union> set ws"
    using Cons.IH Cons.prems by (metis list.set_intros(2))
  then show ?case using v trim by (auto simp: push_new_def)
qed simp

lemma parse_namespaces_plain:
  "list_all plain_name ws \<Longrightarrow>
     \<exists>ns. parse_namespaces s ws acc = Inr ns \<and> set ns = set acc \<union> set ws"
proof (induction ws arbitrary: acc)
  case (Cons w ws)
  then have w: "trim w = w" "w \<noteq> []" by (simp_all add: plain_name_def)
  obtain ns where "parse_namespaces s ws (push_new w acc) = Inr ns" "set ns = set (push_new w acc) \<union> set ws"
    using Cons by auto
  then show ?case using w by (auto simp: push_new_def)
qed simp

lemma set_join: "set (join sep ws) \<subseteq> set sep \<union> (\<Union>w \<in> set ws. set w)"
  by (induction sep ws rule: join.induct) auto

lemma verb_str_chars: "c \<in> set (verb_as_str v) \<Longrightarrow> c \<noteq> CHR '' '' \<and> c \<noteq> CHR '',''"
  by (cases v) auto

lemma object_string_parts:
  assumes "wf_grant g"
  shows "\<exists>g'. from_object_string (to_object_string g) = Inr g'
    \<and> set (g_verbs g') = set (g_verbs g)
    \<and> set (g_namespaces g') = (if g_namespaces g = [] then {''*''} else set (g_namespaces g))
    \<and> g_verbs g' \<noteq> []"
proof -
  let ?vs = "sort_dedup (map verb_as_str (g_verbs g))"
  let ?ns = "if g_namespaces g = [] then [''*''] else sort_dedup (g_namespaces g)"
  have str: "to_object_string g = join '','' ?vs @ '' ON '' @ join '','' ?ns"
    by (simp add: to_object_string_def)
  have vs: "?vs \<noteq> []" "\<And>w. w \<in> set ?vs \<Longrightarrow> \<exists>v. w = verb_as_str v"
    using assms set_sort_dedup [of "map verb_as_str (g_verbs g)"]
    by (auto simp: wf_grant_def simp del: set_sort_dedup)
  have ns: "?ns \<noteq> []" "list_all plain_name ?ns"
    using assms set_sort_dedup [of "g_namespaces g"]
    by (auto simp: wf_grant_def list_all_iff plain_name_def trim_def trim_start_def trim_end_def
        is_whitespace_def code_of_def simp del: set_sort_dedup)
  have "CHR '' '' \<notin> set (join '','' ?vs)"
  proof
    assume "CHR '' '' \<in> set (join '','' ?vs)"
    then have "CHR '' '' \<in> set '','' \<union> (\<Union>w \<in> set ?vs. set w)" by (rule subsetD [OF set_join])
    moreover have "CHR '' '' \<notin> set '',''" by simp
    ultimately obtain w where "w \<in> set ?vs" "CHR '' '' \<in> set w" by blast
    then show False using vs(2) verb_str_chars by blast
  qed
  then have once: "split_once '' ON '' (to_object_string g) = Some (join '','' ?vs, join '','' ?ns)"
    unfolding str using split_once_prefix by metis
  have "split_on (\<lambda>c. c = CHR '','') (join '','' ?vs) = ?vs"
    by (rule split_on_join [OF vs(1)]) (use vs(2) verb_str_chars in blast)
  moreover have "split_on (\<lambda>c. c = CHR '','') (join '','' ?ns) = ?ns"
    by (rule split_on_join [OF ns(1)]) (use ns(2) in \<open>auto simp: list_all_iff plain_name_def\<close>)
  moreover obtain vs' where vs': "parse_verbs ?vs [] = Inr vs'" "verb_as_str ` set vs' = set ?vs"
    using parse_verbs_strs [of ?vs "[]"] vs(2) by auto
  moreover obtain ns' where ns': "parse_namespaces (to_object_string g) ?ns [] = Inr ns'" "set ns' = set ?ns"
    using parse_namespaces_plain [OF ns(2), of "to_object_string g" "[]"] by (metis Un_empty_left empty_set)
  moreover have ne: "vs' \<noteq> []" using vs'(2) vs(1) by (metis image_is_empty set_empty)
  ultimately have "from_object_string (to_object_string g) = Inr \<lparr> g_verbs = vs', g_namespaces = ns' \<rparr>"
    by (simp add: from_object_string_def once)
  moreover have "verb_as_str ` set vs' = verb_as_str ` set (g_verbs g)" using vs'(2) by simp
  then have "set vs' = set (g_verbs g)" using verb_codec.enc_inj by (simp add: inj_image_eq_iff)
  ultimately show ?thesis using ns'(2) ne by auto
qed

text \<open>
  A grant whose namespaces are non-empty, trimmed and free of commas survives its object
  string: reading the string back gives a grant that covers the same verbs on the same
  namespaces and writes the same string.
\<close>

theorem grant_object_roundtrip:
  assumes "wf_grant g"
  shows "\<exists>g'. from_object_string (to_object_string g) = Inr g'
     \<and> to_object_string g' = to_object_string g \<and> covers g' = covers g"
proof -
  obtain g' where p: "from_object_string (to_object_string g) = Inr g'
    \<and> set (g_verbs g') = set (g_verbs g)
    \<and> set (g_namespaces g') = (if g_namespaces g = [] then {''*''} else set (g_namespaces g))
    \<and> g_verbs g' \<noteq> []"
    using object_string_parts [OF assms] by (rule exE)
  note g' = conjunct1 [OF p] and vs = conjunct1 [OF conjunct2 [OF p]]
    and ns = conjunct1 [OF conjunct2 [OF conjunct2 [OF p]]]
  have ne: "g_namespaces g' \<noteq> []"
  proof
    assume "g_namespaces g' = []"
    then show False using ns by (cases "g_namespaces g = []") simp_all
  qed
  have "sort_dedup (map verb_as_str (g_verbs g')) = sort_dedup (map verb_as_str (g_verbs g))"
    by (rule sort_dedup_cong) (simp add: vs)
  moreover have "g_namespaces g \<noteq> [] \<Longrightarrow> sort_dedup (g_namespaces g') = sort_dedup (g_namespaces g)"
    by (rule sort_dedup_cong) (simp add: ns)
  moreover have "g_namespaces g = [] \<Longrightarrow> sort_dedup (g_namespaces g') = [''*'']"
    using ns by (subst sort_dedup_cong [of _ "[''*'']"]) (auto simp: sort_dedup_def)
  ultimately have "to_object_string g' = to_object_string g"
    using ne by (simp add: to_object_string_def)
  moreover have "covers g' v n = covers g v n" for v n
    using vs ns ne by (auto simp: covers_def list_ex_iff split: if_splits)
  ultimately show ?thesis using g' by blast
qed

text \<open>
  The object string is canonical: two such grants that name their namespaces have the same
  string, hence the same content address, exactly when they name the same verbs and
  namespaces, in whatever order and with whatever repetitions.
\<close>

theorem grant_object_canonical:
  assumes "wf_grant g" and "wf_grant h" and "g_namespaces g \<noteq> []" and "g_namespaces h \<noteq> []"
  shows "to_object_string g = to_object_string h \<longleftrightarrow>
    set (g_verbs g) = set (g_verbs h) \<and> set (g_namespaces g) = set (g_namespaces h)"
proof
  assume "to_object_string g = to_object_string h"
  then show "set (g_verbs g) = set (g_verbs h) \<and> set (g_namespaces g) = set (g_namespaces h)"
    using object_string_parts [OF assms(1)] object_string_parts [OF assms(2)] assms(3,4) by fastforce
next
  assume same: "set (g_verbs g) = set (g_verbs h) \<and> set (g_namespaces g) = set (g_namespaces h)"
  have "sort_dedup (map verb_as_str (g_verbs g)) = sort_dedup (map verb_as_str (g_verbs h))"
    "sort_dedup (g_namespaces g) = sort_dedup (g_namespaces h)"
    by (rule sort_dedup_cong, simp add: same)+
  then show "to_object_string g = to_object_string h" using assms(3,4) by (simp add: to_object_string_def)
qed

section \<open>Tokens\<close>

lemma or_eq_0: "or a b = 0 \<longleftrightarrow> a = 0 \<and> b = (0 :: byte)"
  by (rule or_eq_0_iff)

lemma ct_diff_zero: "length a = length b \<Longrightarrow> ct_diff d a b = 0 \<longleftrightarrow> d = 0 \<and> a = b"
proof (induction a b arbitrary: d rule: list_induct2)
  case (Cons x xs y ys)
  then have "ct_diff (or d (xor x y)) xs ys = 0 \<longleftrightarrow> or d (xor x y) = 0 \<and> xs = ys" by blast
  moreover have "xor x y = 0 \<longleftrightarrow> x = y" by (metis xor_self_eq xor.right_neutral xor.assoc)
  ultimately show ?case by (simp add: or_eq_0)
qed simp

lemma ct_eq_iff: "ct_eq a b \<longleftrightarrow> a = b"
  by (auto simp: ct_eq_def ct_diff_zero)

text \<open>What it takes for an entry to authenticate a token.\<close>

definition authenticates :: "core_env \<Rightarrow> (string \<Rightarrow> string option) \<Rightarrow> string \<Rightarrow> credential \<Rightarrow> bool" where
  "authenticates E getenv tok t =
     (case (cr_sha256 t, cr_env t) of
        (Some h, None) \<Rightarrow>
          map ascii_lower_char h = map ascii_lower_char (hex_encode E (sha256 E (utf8 tok)))
      | (None, Some var) \<Rightarrow> (\<exists>v. getenv var = Some v \<and> trim v \<noteq> [] \<and> utf8 v = utf8 tok)
      | _ \<Rightarrow> False)"

lemma entry_matches_iff: "entry_matches E getenv tok t = authenticates E getenv tok t"
  by (auto simp: entry_matches_def authenticates_def ct_eq_iff eq_ignore_ascii_case_def
      split: option.splits)

text \<open>
  C40. A token resolves to the principal of the first entry it matches; an empty token, and a
  token that only an unset or blank variable could match, authenticate nobody. On the byte
  level the constant-time comparison is equality.
\<close>

theorem resolve_iff_authenticated:
  "resolve E getenv m tok = Inr p \<longleftrightarrow>
     tok \<noteq> [] \<and> (\<exists>before t after. cm_tokens m = before @ t # after \<and> cr_principal t = p
       \<and> authenticates E getenv tok t \<and> list_all (\<lambda>u. authenticates E getenv tok u = False) before)"
proof -
  have first: "find P xs = Some t \<longleftrightarrow>
      (\<exists>ys zs. xs = ys @ t # zs \<and> P t \<and> list_all (\<lambda>u. P u = False) ys)" for P and t :: credential and xs
  proof (induction xs)
    case (Cons x xs)
    show ?case
    proof (cases "P x")
      case True
      then show ?thesis by (auto simp: Cons_eq_append_conv)
    next
      case False
      have "(\<exists>ys zs. x # xs = ys @ t # zs \<and> P t \<and> list_all (\<lambda>u. P u = False) ys) \<longleftrightarrow>
          (\<exists>ys zs. xs = ys @ t # zs \<and> P t \<and> list_all (\<lambda>u. P u = False) ys)" (is "?l = ?r")
      proof
        assume ?l
        then obtain ys zs where l: "x # xs = ys @ t # zs" "P t" "list_all (\<lambda>u. P u = False) ys" by blast
        then have "xs = tl ys @ t # zs" using False by (cases ys) auto
        moreover have "list_all (\<lambda>u. P u = False) (tl ys)" using l(3) by (cases ys) auto
        ultimately show ?r using l(2) by blast
      next
        assume ?r
        then obtain ys zs where "xs = ys @ t # zs" "P t" "list_all (\<lambda>u. P u = False) ys" by blast
        then have "x # xs = (x # ys) @ t # zs" "P t" "list_all (\<lambda>u. P u = False) (x # ys)"
          using False by simp_all
        then show ?l by blast
      qed
      then show ?thesis using Cons False by simp
    qed
  qed simp
  have "entry_matches E getenv tok = authenticates E getenv tok" by (rule ext) (rule entry_matches_iff)
  then have "resolve E getenv m tok = Inr p \<longleftrightarrow> tok \<noteq> []
      \<and> (\<exists>t. find (authenticates E getenv tok) (cm_tokens m) = Some t \<and> cr_principal t = p)"
    by (simp add: resolve_def split: option.splits)
  then show ?thesis unfolding first by blast
qed

section \<open>The properties at concrete inputs\<close>

definition demo_grant :: grant where
  "demo_grant = \<lparr> g_verbs = [VWrite, VRead, VWrite], g_namespaces = [''shared'', ''caller''] \<rparr>"

lemma demo_grant_wf: "wf_grant demo_grant"
  by (simp add: wf_grant_def demo_grant_def plain_name_def trim_def trim_start_def trim_end_def
      is_whitespace_def code_of_def)

theorem grant_object_roundtrip_witness:
  "\<exists>g'. from_object_string (to_object_string demo_grant) = Inr g' \<and> covers g' VRead ''caller''"
proof -
  obtain g' where "from_object_string (to_object_string demo_grant) = Inr g'" "covers g' = covers demo_grant"
    using grant_object_roundtrip [OF demo_grant_wf] by blast
  moreover have "covers demo_grant VRead ''caller''" by (simp add: covers_def demo_grant_def)
  ultimately show ?thesis by metis
qed

theorem grant_object_canonical_witness:
  "to_object_string demo_grant
     = to_object_string \<lparr> g_verbs = [VRead, VWrite], g_namespaces = [''caller'', ''shared''] \<rparr>"
  by (rule iffD2 [OF grant_object_canonical])
    (auto simp: demo_grant_wf wf_grant_def plain_name_def trim_def trim_start_def trim_end_def
      is_whitespace_def code_of_def demo_grant_def)

text \<open>A namespace with a comma is read back as two namespaces.\<close>

lemma comma_namespace_widens:
  "from_object_string (to_object_string \<lparr> g_verbs = [VErase], g_namespaces = [''a,b''] \<rparr>)
     = Inr \<lparr> g_verbs = [VErase], g_namespaces = [''a'', ''b''] \<rparr>"
  by (simp add: from_object_string_def to_object_string_def sort_dedup_def verb_parse_def verb_of_def
      push_new_def trim_def trim_start_def trim_end_def is_whitespace_def code_of_def)

end
