(* ===== verification/Loop_Model.thy ===== *)
theory Loop_Model
  imports Json
begin

text \<open>
  The data model of the self-improvement loop (\<^verbatim>\<open>deja-loop\<close>: \<^verbatim>\<open>error.rs\<close>,
  \<^verbatim>\<open>model.rs\<close>): its errors with their stable codes, the substrate-neutral grain record
  and its readers, severities, provenance, action kinds and typed target references.
\<close>

section \<open>Errors\<close>

datatype loop_error =
    LopSubstrate string
  | LopCalUnsupported string
  | LopInvalidTargetRef string
  | LopInvalidProposal string
  | LopInvalidRecommendation string
  | LopLifecycleViolation string
  | LopSelfApproval string
  | LopScopeDenied string
  | LopDestructiveGated string
  | LopAnalyzerFailed string string
  | LopParamInvalid string
  | LopCapabilityMissing string
  | LopLlmBackend string
  | LopNotFound string
  | LopInternal string

fun lop_code :: "loop_error \<Rightarrow> string" where
  "lop_code (LopSubstrate _) = ''LOP-E001''"
| "lop_code (LopCalUnsupported _) = ''LOP-E002''"
| "lop_code (LopInvalidTargetRef _) = ''LOP-E010''"
| "lop_code (LopInvalidProposal _) = ''LOP-E011''"
| "lop_code (LopInvalidRecommendation _) = ''LOP-E012''"
| "lop_code (LopLifecycleViolation _) = ''LOP-E020''"
| "lop_code (LopSelfApproval _) = ''LOP-E021''"
| "lop_code (LopScopeDenied _) = ''LOP-E022''"
| "lop_code (LopDestructiveGated _) = ''LOP-E023''"
| "lop_code (LopAnalyzerFailed _ _) = ''LOP-E030''"
| "lop_code (LopParamInvalid _) = ''LOP-E031''"
| "lop_code (LopCapabilityMissing _) = ''LOP-E032''"
| "lop_code (LopLlmBackend _) = ''LOP-E050''"
| "lop_code (LopNotFound _) = ''LOP-E040''"
| "lop_code (LopInternal _) = ''LOP-E099''"

fun lop_message :: "loop_error \<Rightarrow> string" where
  "lop_message (LopSubstrate m) = ''substrate call failed: '' @ m"
| "lop_message (LopCalUnsupported m) = ''CAL not supported by substrate: '' @ m"
| "lop_message (LopInvalidTargetRef m) = ''invalid target_ref: '' @ m"
| "lop_message (LopInvalidProposal m) = ''invalid proposal: '' @ m"
| "lop_message (LopInvalidRecommendation m) = ''invalid recommendation: '' @ m"
| "lop_message (LopLifecycleViolation m) = ''illegal lifecycle transition: '' @ m"
| "lop_message (LopSelfApproval m) = ''self-approval blocked: '' @ m"
| "lop_message (LopScopeDenied m) = ''scope denied: '' @ m"
| "lop_message (LopDestructiveGated m) = ''destructive apply gated: '' @ m"
| "lop_message (LopAnalyzerFailed i m) = ''analyzer '' @ i @ '' failed: '' @ m"
| "lop_message (LopParamInvalid m) = ''analyzer parameter invalid: '' @ m"
| "lop_message (LopCapabilityMissing m) = ''required capability missing: '' @ m"
| "lop_message (LopLlmBackend m) = ''LLM backend error: '' @ m"
| "lop_message (LopNotFound m) = ''recommendation not found: '' @ m"
| "lop_message (LopInternal m) = ''internal error: '' @ m"

definition lop_display :: "loop_error \<Rightarrow> string" where
  "lop_display e = lop_code e @ '' '' @ lop_message e"

section \<open>Grains\<close>

definition FACT :: string where "FACT = ''fact''"
definition EVENT :: string where "EVENT = ''event''"
definition TOOL :: string where "TOOL = ''tool''"
definition OBSERVATION :: string where "OBSERVATION = ''observation''"
definition SKILL :: string where "SKILL = ''skill''"
definition GOAL :: string where "GOAL = ''goal''"
definition RECOMMENDATION :: string where "RECOMMENDATION = ''recommendation''"

lemmas loop_types = FACT_def EVENT_def TOOL_def OBSERVATION_def SKILL_def GOAL_def RECOMMENDATION_def

type_synonym jmap = "(string \<times> json) list"

record loop_grain =
  lg_hash :: string
  lg_type :: string
  lg_ns :: string
  lg_created :: int
  lg_valid_to :: "int option"
  lg_superseded :: "string option"
  lg_fields :: jmap

definition is_live :: "loop_grain \<Rightarrow> bool" where
  "is_live g = (lg_superseded g = None)"

definition str_field :: "loop_grain \<Rightarrow> string \<Rightarrow> string option" where
  "str_field g k = Option.bind (map_of (lg_fields g) k) as_str"

definition bool_field :: "loop_grain \<Rightarrow> string \<Rightarrow> bool option" where
  "bool_field g k = Option.bind (map_of (lg_fields g) k) as_bool"

definition i64_field :: "loop_grain \<Rightarrow> string \<Rightarrow> int option" where
  "i64_field g k = Option.bind (map_of (lg_fields g) k) as_i64"

definition f64_field :: "(int \<Rightarrow> rat) \<Rightarrow> loop_grain \<Rightarrow> string \<Rightarrow> f64 option" where
  "f64_field rnd g k = Option.bind (map_of (lg_fields g) k) (as_f64 rnd)"

definition or_else :: "'a option \<Rightarrow> 'a option \<Rightarrow> 'a option" where
  "or_else a b = (case a of None \<Rightarrow> b | Some x \<Rightarrow> Some x)"

lemma or_else_simps [simp]: "or_else None b = b" "or_else (Some x) b = Some x"
  by (simp_all add: or_else_def)

definition unwrap_or :: "'a \<Rightarrow> 'a option \<Rightarrow> 'a" where
  "unwrap_or d a = (case a of None \<Rightarrow> d | Some x \<Rightarrow> x)"

lemma unwrap_or_simps [simp]: "unwrap_or d None = d" "unwrap_or d (Some x) = x"
  by (simp_all add: unwrap_or_def)

definition fact_subject :: "loop_grain \<Rightarrow> string option" where
  "fact_subject g = str_field g ''subject''"

definition fact_relation :: "loop_grain \<Rightarrow> string option" where
  "fact_relation g = str_field g ''relation''"

definition fact_object :: "loop_grain \<Rightarrow> string option" where
  "fact_object g = str_field g ''object''"

definition tool_name :: "loop_grain \<Rightarrow> string option" where
  "tool_name g = or_else (str_field g ''tool_name'') (str_field g ''name'')"

definition is_error :: "loop_grain \<Rightarrow> bool" where
  "is_error g = unwrap_or False (bool_field g ''is_error'')"

definition tool_content :: "loop_grain \<Rightarrow> string option" where
  "tool_content g = or_else (str_field g ''tool_content'') (or_else (str_field g ''content'')
     (or_else (str_field g ''result'') (or_else (str_field g ''error'') (str_field g ''body''))))"

definition skill_name :: "loop_grain \<Rightarrow> string option" where
  "skill_name g = or_else (str_field g ''name'') (str_field g ''skill_name'')"

definition skill_proficiency :: "(int \<Rightarrow> rat) \<Rightarrow> loop_grain \<Rightarrow> f64 option" where
  "skill_proficiency rnd g = or_else (f64_field rnd g ''proficiency'') (f64_field rnd g ''confidence'')"

definition skill_practice_count :: "loop_grain \<Rightarrow> int" where
  "skill_practice_count g = unwrap_or 0 (i64_field g ''practice_count'')"

definition goal_state :: "loop_grain \<Rightarrow> string option" where
  "goal_state g = or_else (str_field g ''goal_state'') (str_field g ''state'')"

definition goal_progress :: "(int \<Rightarrow> rat) \<Rightarrow> loop_grain \<Rightarrow> f64" where
  "goal_progress rnd g = unwrap_or (Finite 0) (f64_field rnd g ''progress'')"

section \<open>Severity\<close>

datatype severity = SInfo | SLow | SMedium | SHigh

primrec severity_rank :: "severity \<Rightarrow> nat" where
  "severity_rank SInfo = 0"
| "severity_rank SLow = 1"
| "severity_rank SMedium = 2"
| "severity_rank SHigh = 3"

lemma severity_rank_inj [simp]: "severity_rank a = severity_rank b \<longleftrightarrow> a = b"
  by (cases a; cases b) simp_all

text \<open>The derived order: the order of the declaration.\<close>

instantiation severity :: linorder
begin

definition less_eq_severity :: "severity \<Rightarrow> severity \<Rightarrow> bool" where
  "less_eq_severity a b = (severity_rank a \<le> severity_rank b)"

definition less_severity :: "severity \<Rightarrow> severity \<Rightarrow> bool" where
  "less_severity a b = (severity_rank a < severity_rank b)"

instance
  by standard (auto simp: less_eq_severity_def less_severity_def)

end

fun severity_str :: "severity \<Rightarrow> string" where
  "severity_str SInfo = ''info''"
| "severity_str SLow = ''low''"
| "severity_str SMedium = ''medium''"
| "severity_str SHigh = ''high''"

definition ALL_SEVERITIES :: "severity list" where
  "ALL_SEVERITIES = [SInfo, SLow, SMedium, SHigh]"

definition severity_of :: "string \<Rightarrow> severity option" where
  "severity_of s = find (\<lambda>v. severity_str v = s) ALL_SEVERITIES"

section \<open>Provenance and actions\<close>

datatype origin = OBuiltin | OCommand string | OLlm string

fun origin_auto_apply_eligible :: "origin \<Rightarrow> bool" where
  "origin_auto_apply_eligible OBuiltin = True"
| "origin_auto_apply_eligible _ = False"

datatype action_kind =
  AConsolidate | AFlagContradiction | AClusterFailure | AExpire | AMergeHeads | ARevert | AFlag

fun action_str :: "action_kind \<Rightarrow> string" where
  "action_str AConsolidate = ''consolidate''"
| "action_str AFlagContradiction = ''flag_contradiction''"
| "action_str AClusterFailure = ''cluster_failure''"
| "action_str AExpire = ''expire''"
| "action_str AMergeHeads = ''merge_heads''"
| "action_str ARevert = ''revert''"
| "action_str AFlag = ''flag''"

definition ALL_ACTIONS :: "action_kind list" where
  "ALL_ACTIONS = [AConsolidate, AFlagContradiction, AClusterFailure, AExpire, AMergeHeads,
     ARevert, AFlag]"

definition action_of :: "string \<Rightarrow> action_kind option" where
  "action_of s = find (\<lambda>v. action_str v = s) ALL_ACTIONS"

section \<open>Target references\<close>

record target_ref =
  tg_scheme :: string
  tg_opaque :: string

definition KNOWN_SCHEMES :: "string list" where
  "KNOWN_SCHEMES = [''grain'', ''entity'', ''query'', ''template'', ''doc'', ''host'']"

definition target_parse :: "string \<Rightarrow> loop_error + target_ref" where
  "target_parse s =
     (case split_once '':'' s of
        None \<Rightarrow> Inl (LopInvalidTargetRef (''missing scheme in '' @ debug_str s))
      | Some (scheme, opaq) \<Rightarrow>
          if scheme = [] \<or> opaq = []
          then Inl (LopInvalidTargetRef (''empty scheme or opaque in '' @ debug_str s))
          else if scheme \<notin> set KNOWN_SCHEMES
          then Inl (LopInvalidTargetRef (''unknown scheme '' @ debug_str scheme @ '' in '' @ debug_str s))
          else Inr \<lparr>tg_scheme = scheme, tg_opaque = opaq\<rparr>)"

definition auto_apply_eligible_class :: "target_ref \<Rightarrow> bool" where
  "auto_apply_eligible_class t =
     (tg_scheme t \<in> {''grain'', ''entity'', ''query'', ''template''})"

definition target_class :: "target_ref \<Rightarrow> string" where
  "target_class t =
     (if tg_scheme t \<in> {''grain'', ''entity''} then ''memory''
      else if tg_scheme t \<in> {''query'', ''template''} then ''query''
      else if tg_scheme t = ''doc'' then ''prompt''
      else ''host'')"

definition target_string :: "target_ref \<Rightarrow> string" where
  "target_string t = tg_scheme t @ '':'' @ tg_opaque t"

definition normalize_ident :: "string \<Rightarrow> string" where
  "normalize_ident s = to_lowercase (trim s)"

section \<open>Laws\<close>

interpretation severity_codec: wire_codec severity_str severity_of
proof
  show "severity_of (severity_str a) = Some a" for a
    by (cases a) (simp_all add: severity_of_def ALL_SEVERITIES_def)
  show "severity_of w = Some a \<Longrightarrow> severity_str a = w" for w a
    by (auto simp: severity_of_def ALL_SEVERITIES_def split: if_splits)
qed

interpretation action_codec: wire_codec action_str action_of
proof
  show "action_of (action_str a) = Some a" for a
    by (cases a) (simp_all add: action_of_def ALL_ACTIONS_def)
  show "action_of w = Some a \<Longrightarrow> action_str a = w" for w a
    by (auto simp: action_of_def ALL_ACTIONS_def split: if_splits)
qed

lemma lop_display_code: "starts_with (lop_display e) (lop_code e)"
  by (simp add: lop_display_def)


lemma known_scheme_no_colon: "s \<in> set KNOWN_SCHEMES \<Longrightarrow> c \<in> set s \<Longrightarrow> c \<noteq> CHR '':''"
  by (auto simp: KNOWN_SCHEMES_def)

lemma split_once_at:
  assumes "\<And>c. c \<in> set a \<Longrightarrow> c \<noteq> d"
  shows "split_once [d] (a @ d # b) = Some (a, b)"
  using assms by (induction a) auto

text \<open>What a reference parses to is the reference with a known scheme that it spells.\<close>

lemma target_parse_Inr:
  "target_parse s = Inr t \<longleftrightarrow>
     s = target_string t \<and> tg_scheme t \<in> set KNOWN_SCHEMES \<and> tg_opaque t \<noteq> []"
proof
  assume "target_parse s = Inr t"
  then show "s = target_string t \<and> tg_scheme t \<in> set KNOWN_SCHEMES \<and> tg_opaque t \<noteq> []"
    by (auto simp: target_parse_def target_string_def split: option.splits if_splits
        dest!: split_once_Some)
next
  assume t: "s = target_string t \<and> tg_scheme t \<in> set KNOWN_SCHEMES \<and> tg_opaque t \<noteq> []"
  then have "split_once '':'' s = Some (tg_scheme t, tg_opaque t)"
    using split_once_at [OF known_scheme_no_colon [of "tg_scheme t"]]
    by (simp add: target_string_def)
  moreover from t have "tg_scheme t \<noteq> []" by (auto simp: KNOWN_SCHEMES_def)
  ultimately show "target_parse s = Inr t"
    using t by (simp add: target_parse_def)
qed

lemma class_auto_eligible:
  "tg_scheme t \<in> set KNOWN_SCHEMES \<Longrightarrow>
     auto_apply_eligible_class t \<longleftrightarrow> target_class t \<in> {''memory'', ''query''}"
  by (auto simp: KNOWN_SCHEMES_def auto_apply_eligible_class_def target_class_def)

lemma lower_char_idem [simp]: "lower_char (lower_char c) = lower_char c"
  by (auto simp: lower_char_def is_ascii_upper_def)

lemma lower_char_ws [simp]: "is_whitespace (lower_char c) = is_whitespace c"
  by (auto simp: lower_char_def is_ascii_upper_def is_whitespace_def)

end
