(* ===== verification/Loop_Rec.thy ===== *)
theory Loop_Rec
  imports Loop_Model "HOL-Library.Monad_Syntax"
begin

text \<open>
  The recommendation of the loop (\<^verbatim>\<open>recommendation.rs\<close>): summaries rendered from fixed
  templates, metrics, proposals and drafts, the deduplication key, the lifecycle state
  machine, audit records, and the grain a recommendation is stored as.

  The symbols of the templates outside Latin-1 are written in ASCII (\<open>>=\<close>, \<open>->\<close>, \<open>-\<close>). What
  \<^verbatim>\<open>serde_json\<close> and \<^verbatim>\<open>core\<close> render or parse is a parameter, the record \<open>loop_env\<close>.
\<close>

record loop_env =
  le_json_text :: "json \<Rightarrow> string"
  le_json_parse :: "string \<Rightarrow> json option"
  le_parse_error :: "string \<Rightarrow> string"
  le_rnd :: "int \<Rightarrow> rat"
  le_add :: "rat \<Rightarrow> rat \<Rightarrow> rat"
  le_div :: "rat \<Rightarrow> rat \<Rightarrow> rat"
  le_f64_text :: "f64 \<Rightarrow> string"
  le_decode_error :: "json \<Rightarrow> string"

section \<open>Summaries\<close>

record summary =
  su_template :: string
  su_args :: jmap

definition quoted :: "string \<Rightarrow> string" where
  "quoted s = [CHR 0x22] @ s @ [CHR 0x22]"

definition TEMPLATES :: "(string \<times> string) list" where
  "TEMPLATES = [
    (''duplicate.exact'', ''Consolidate {count} exact-duplicate grains for '' @ quoted ''{subject}''),
    (''duplicate.near'', ''Consolidate {count} near-duplicate observations (similarity >= {threshold})''),
    (''contradiction.functional'', quoted ''{subject}''
       @ '' holds {count} live values for functional relation '' @ quoted ''{relation}''),
    (''tool_failure.cluster'', ''Tool '' @ quoted ''{tool}''
       @ '' failed {count} times ({rate}% of calls): {signature}''),
    (''staleness.expired'', ''Expire '' @ quoted ''{subject}''
       @ '': past its declared valid_to ({age_days}d ago)''),
    (''fork.multi_head'', ''Entity '' @ quoted ''{entity}'' @ '' has {count} competing heads''),
    (''skill.stall'', ''Skill '' @ quoted ''{skill}''
       @ '' isn't improving: practiced {practice_count}x but proficiency is still {proficiency}''),
    (''goal.stagnation'', ''Goal '' @ quoted ''{goal}''
       @ '' is stalled: active {age_days}d with {progress} progress''),
    (''cold.grain'', ''Cold memory: '' @ quoted ''{subject}''
       @ '' ({age_days}d old) has never been recalled - retire candidate''),
    (''coverage.gap'', ''Recurring question with no matching memory: '' @ quoted ''{query}''
       @ '' asked {count}x ({empty_rate}% empty)''),
    (''budget.pressure'', ''Assembly budget overflowed on {overflow_rate}% of {samples} recalls''
       @ '' - raise the budget or curate memory''),
    (''retention.overdue'', ''Retention: {count} grain(s) in '' @ quoted ''{namespace}''
       @ '' exceed the {max_age_days}d policy (oldest {oldest_days}d); {remaining} more await a later pass''),
    (''outcome.regression'', ''Applied recommendation regressed: {metric} moved {baseline} -> {current}''),
    (''llm.discover'', ''{text}''),
    (''command.finding'', ''{text}'')]"

definition builtin_template :: "string \<Rightarrow> string option" where
  "builtin_template i = map_of TEMPLATES i"

definition hole_value :: "loop_env \<Rightarrow> jmap \<Rightarrow> string \<Rightarrow> string \<Rightarrow> string" where
  "hole_value E args tid key =
     (if key = ''template_id'' then tid
      else (case map_of args key of
              Some (JStr s) \<Rightarrow> s
            | Some v \<Rightarrow> le_json_text E v
            | None \<Rightarrow> [CHR 0x7B] @ key @ [CHR 0x7D]))"

function interpolate :: "loop_env \<Rightarrow> jmap \<Rightarrow> string \<Rightarrow> string \<Rightarrow> string" where
  "interpolate E args tid [] = []"
| "interpolate E args tid (c # cs) =
     (if c = CHR 0x7B
      then hole_value E args tid (takeWhile (\<lambda>k. k \<noteq> CHR 0x7D) cs)
        @ interpolate E args tid (drop 1 (dropWhile (\<lambda>k. k \<noteq> CHR 0x7D) cs))
      else c # interpolate E args tid cs)"
  by pat_completeness auto
termination
  by (relation "measure (\<lambda>(_, _, _, s). length s)")
    (auto intro: le_imp_less_Suc order_trans [OF diff_le_self length_dropWhile_le])

definition summary_render :: "loop_env \<Rightarrow> summary \<Rightarrow> string" where
  "summary_render E s =
     interpolate E (su_args s) (su_template s)
       (unwrap_or ''{template_id}: {summary}'' (builtin_template (su_template s)))"

section \<open>Metrics, proposals and drafts\<close>

record metric =
  me_metric :: string
  me_baseline :: f64
  me_unit :: string
  me_n :: int
  me_window :: string
  me_subject :: "string option"
  me_ns :: "string option"
  me_relation :: "string option"
  me_query :: string
  me_review_after :: int
  me_horizons :: "int list"

definition horizons :: "metric \<Rightarrow> int list" where
  "horizons m = sort (if me_horizons m = [] then [me_review_after m] else me_horizons m)"

record outcome_result =
  or_rec :: string
  or_metric :: string
  or_baseline :: f64
  or_current :: f64
  or_verdict :: string
  or_horizon :: int
  or_measured :: int

datatype proposal =
    PCal string
  | PEdit string string string
  | PData jmap

record rec_draft =
  rd_target :: string
  rd_action :: action_kind
  rd_summary :: summary
  rd_severity :: severity
  rd_proposal :: proposal
  rd_evidence :: "string list"
  rd_evidence_query :: "string option"
  rd_metric :: "metric option"
  rd_confidence :: f64
  rd_importance :: f64

definition rec_draft_new :: "string \<Rightarrow> action_kind \<Rightarrow> summary \<Rightarrow> proposal \<Rightarrow> rec_draft" where
  "rec_draft_new t a s p = \<lparr>rd_target = t, rd_action = a, rd_summary = s, rd_severity = SLow,
     rd_proposal = p, rd_evidence = [], rd_evidence_query = None, rd_metric = None,
     rd_confidence = Finite (4/5), rd_importance = Finite (1/2)\<rparr>"

definition MAX_EVIDENCE :: nat where "MAX_EVIDENCE = 64"

definition unit_sep :: char where "unit_sep = CHR 0x1F"

definition dedup_key :: "string \<Rightarrow> string \<Rightarrow> action_kind \<Rightarrow> string" where
  "dedup_key family target action =
     normalize_ident family @ [unit_sep] @ normalize_ident target @ [unit_sep] @ action_str action"

section \<open>Lifecycle\<close>

datatype rec_status = StPending | StApproved | StRejected | StApplied | StRolledBack | StExpired

fun status_str :: "rec_status \<Rightarrow> string" where
  "status_str StPending = ''pending''"
| "status_str StApproved = ''approved''"
| "status_str StRejected = ''rejected''"
| "status_str StApplied = ''applied''"
| "status_str StRolledBack = ''rolled_back''"
| "status_str StExpired = ''expired''"

fun can_transition_to :: "rec_status \<Rightarrow> rec_status \<Rightarrow> bool \<Rightarrow> bool" where
  "can_transition_to StPending StApproved _ = True"
| "can_transition_to StPending StRejected _ = True"
| "can_transition_to StPending StApplied by_policy = by_policy"
| "can_transition_to StApproved StApplied _ = True"
| "can_transition_to StApplied StRolledBack _ = True"
| "can_transition_to StPending StExpired _ = True"
| "can_transition_to StApproved StExpired _ = True"
| "can_transition_to _ _ _ = False"

datatype observer_type = ObHuman | ObAgent | ObPolicy | ObSystem

fun observer_str :: "observer_type \<Rightarrow> string" where
  "observer_str ObHuman = ''human''"
| "observer_str ObAgent = ''agent''"
| "observer_str ObPolicy = ''policy''"
| "observer_str ObSystem = ''system''"

record grain_spec =
  gs_type :: string
  gs_ns :: string
  gs_fields :: jmap

definition grain_spec_new :: "string \<Rightarrow> string \<Rightarrow> grain_spec" where
  "grain_spec_new t ns = \<lparr>gs_type = t, gs_ns = ns, gs_fields = []\<rparr>"

definition with_field :: "string \<Rightarrow> json \<Rightarrow> grain_spec \<Rightarrow> grain_spec" where
  "with_field k v s = s\<lparr>gs_fields := bt_insert k v (gs_fields s)\<rparr>"

record audit_record =
  ar_rec :: string
  ar_from :: "rec_status option"
  ar_to :: rec_status
  ar_actor :: string
  ar_observer :: observer_type
  ar_because :: string
  ar_previous :: "string option"
  ar_at :: int

definition MAX_BECAUSE :: nat where "MAX_BECAUSE = 500"

definition audit_spec :: "audit_record \<Rightarrow> string \<Rightarrow> grain_spec" where
  "audit_spec a ns =
     (let derived = JStr (ar_rec a) # (case ar_previous a of None \<Rightarrow> [] | Some p \<Rightarrow> [JStr p]);
          s = fold (\<lambda>(k, v). with_field k v)
                [(''observation_kind'', JStr ''loop_audit''),
                 (''rec_hash'', JStr (ar_rec a)),
                 (''to_status'', JStr (status_str (ar_to a))),
                 (''actor'', JStr (ar_actor a)),
                 (''observer_type'', JStr (observer_str (ar_observer a))),
                 (''because'', JStr (ar_because a)),
                 (''at_ms'', JInt (ar_at a)),
                 (''derived_from'', JArr derived)]
                (grain_spec_new OBSERVATION ns)
      in (case ar_from a of
            None \<Rightarrow> s
          | Some f \<Rightarrow> with_field ''from_status'' (JStr (status_str f)) s))"

section \<open>Recommendations\<close>

record recommendation =
  rc_hash :: string
  rc_analyzer :: string
  rc_params :: jmap
  rc_origin :: origin
  rc_target :: string
  rc_action :: action_kind
  rc_dedup :: string
  rc_summary :: summary
  rc_severity :: severity
  rc_proposal :: proposal
  rc_destructive :: bool
  rc_rollbackable :: bool
  rc_evidence :: "string list"
  rc_evidence_query :: "string option"
  rc_metric :: "metric option"
  rc_confidence :: f64
  rc_importance :: f64
  rc_created :: int
  rc_guidance :: "string option"
  rc_status :: rec_status

text \<open>The derived \<^verbatim>\<open>Serialize\<close> and \<^verbatim>\<open>Deserialize\<close> with their attributes.\<close>

definition opt_entry :: "string \<Rightarrow> ('a \<Rightarrow> json) \<Rightarrow> 'a option \<Rightarrow> jmap" where
  "opt_entry k f x = (case x of None \<Rightarrow> [] | Some v \<Rightarrow> [(k, f v)])"

lemma opt_entry_simps [simp]: "opt_entry k f None = []" "opt_entry k f (Some v) = [(k, f v)]"
  by (simp_all add: opt_entry_def)

definition strs_json :: "string list \<Rightarrow> json" where
  "strs_json xs = JArr (map JStr xs)"

fun origin_fields :: "origin \<Rightarrow> jmap" where
  "origin_fields OBuiltin = [(''kind'', JStr ''builtin'')]"
| "origin_fields (OCommand i) = [(''id'', JStr i), (''kind'', JStr ''command'')]"
| "origin_fields (OLlm m) = [(''kind'', JStr ''llm''), (''model'', JStr m)]"

fun proposal_fields :: "proposal \<Rightarrow> jmap" where
  "proposal_fields (PCal c) = [(''proposal'', JStr ''cal''), (''cal'', JStr c)]"
| "proposal_fields (PEdit f b d) =
     [(''proposal'', JStr ''edit''), (''format'', JStr f), (''base_digest'', JStr b), (''diff'', JStr d)]"
| "proposal_fields (PData m) = [(''proposal'', JStr ''data''), (''data'', JObj m)]"

definition summary_json :: "summary \<Rightarrow> json" where
  "summary_json s = JObj [(''args'', JObj (su_args s)), (''template_id'', JStr (su_template s))]"

definition metric_entries :: "metric \<Rightarrow> jmap" where
  "metric_entries m =
     [(''metric'', JStr (me_metric m)), (''baseline'', f64_json (me_baseline m)),
       (''unit'', JStr (me_unit m)), (''n'', JInt (me_n m)), (''window'', JStr (me_window m))]
     @ opt_entry ''subject'' JStr (me_subject m)
     @ opt_entry ''namespace'' JStr (me_ns m)
     @ opt_entry ''relation'' JStr (me_relation m)
     @ [(''query'', JStr (me_query m)), (''review_after_ms'', JInt (me_review_after m))]
     @ (if me_horizons m = [] then [] else [(''horizons_ms'', JArr (map JInt (me_horizons m)))])"

definition metric_json :: "metric \<Rightarrow> json" where
  "metric_json m = JObj (bt_fill (metric_entries m) [])"

definition rec_entries :: "recommendation \<Rightarrow> jmap" where
  "rec_entries r =
     [(''analyzer'', JStr (rc_analyzer r)),
       (''params_snapshot'', JObj (rc_params r)),
       (''origin'', JObj (origin_fields (rc_origin r))),
       (''target_ref'', JStr (rc_target r)),
       (''action_kind'', JStr (action_str (rc_action r))),
       (''dedup_key'', JStr (rc_dedup r)),
       (''summary'', summary_json (rc_summary r)),
       (''severity'', JStr (severity_str (rc_severity r)))]
      @ proposal_fields (rc_proposal r)
      @ [(''destructive'', JBool (rc_destructive r)),
         (''rollbackable'', JBool (rc_rollbackable r)),
         (''evidence'', strs_json (rc_evidence r))]
      @ opt_entry ''evidence_query'' JStr (rc_evidence_query r)
      @ opt_entry ''metric'' metric_json (rc_metric r)
      @ [(''confidence'', f64_json (rc_confidence r)),
         (''importance'', f64_json (rc_importance r)),
         (''created_at_ms'', JInt (rc_created r))]
      @ opt_entry ''guidance'' JStr (rc_guidance r)"

definition rec_fields :: "recommendation \<Rightarrow> jmap" where
  "rec_fields r = bt_fill (rec_entries r) []"

definition rec_spec :: "recommendation \<Rightarrow> string \<Rightarrow> loop_error + grain_spec" where
  "rec_spec r ns = Inr \<lparr>gs_type = RECOMMENDATION, gs_ns = ns, gs_fields = rec_fields r\<rparr>"

text \<open>A required field, an optional one (absent or null), one with a default when absent.\<close>

definition req :: "jmap \<Rightarrow> string \<Rightarrow> (json \<Rightarrow> 'a option) \<Rightarrow> 'a option" where
  "req m k f = Option.bind (map_of m k) f"

definition opt_field :: "jmap \<Rightarrow> string \<Rightarrow> (json \<Rightarrow> 'a option) \<Rightarrow> 'a option option" where
  "opt_field m k f =
     (case map_of m k of
        None \<Rightarrow> Some None
      | Some v \<Rightarrow> if v = JNull then Some None else map_option Some (f v))"

definition field_or :: "'a \<Rightarrow> jmap \<Rightarrow> string \<Rightarrow> (json \<Rightarrow> 'a option) \<Rightarrow> 'a option" where
  "field_or d m k f = (case map_of m k of None \<Rightarrow> Some d | Some v \<Rightarrow> f v)"

fun map_opt :: "('a \<Rightarrow> 'b option) \<Rightarrow> 'a list \<Rightarrow> 'b list option" where
  "map_opt f [] = Some []"
| "map_opt f (x # xs) = do { y \<leftarrow> f x; ys \<leftarrow> map_opt f xs; Some (y # ys) }"

definition list_of :: "(json \<Rightarrow> 'a option) \<Rightarrow> json \<Rightarrow> 'a list option" where
  "list_of f v = Option.bind (as_array v) (map_opt f)"

definition origin_decode :: "json \<Rightarrow> origin option" where
  "origin_decode v = do {
     m \<leftarrow> as_object v;
     k \<leftarrow> req m ''kind'' as_str;
     (if k = ''builtin'' then Some OBuiltin
      else if k = ''command'' then map_option OCommand (req m ''id'' as_str)
      else if k = ''llm'' then map_option OLlm (req m ''model'' as_str)
      else None) }"

definition proposal_decode :: "jmap \<Rightarrow> proposal option" where
  "proposal_decode m = do {
     k \<leftarrow> req m ''proposal'' as_str;
     (if k = ''cal'' then map_option PCal (req m ''cal'' as_str)
      else if k = ''edit'' then do {
        f \<leftarrow> req m ''format'' as_str;
        b \<leftarrow> req m ''base_digest'' as_str;
        d \<leftarrow> req m ''diff'' as_str;
        Some (PEdit f b d) }
      else if k = ''data'' then map_option PData (req m ''data'' as_object)
      else None) }"

definition summary_decode :: "json \<Rightarrow> summary option" where
  "summary_decode v = do {
     m \<leftarrow> as_object v;
     t \<leftarrow> req m ''template_id'' as_str;
     a \<leftarrow> field_or [] m ''args'' as_object;
     Some \<lparr>su_template = t, su_args = a\<rparr> }"

definition metric_decode :: "loop_env \<Rightarrow> json \<Rightarrow> metric option" where
  "metric_decode E v = do {
     m \<leftarrow> as_object v;
     me \<leftarrow> req m ''metric'' as_str;
     ba \<leftarrow> req m ''baseline'' (as_f64 (le_rnd E));
     un \<leftarrow> req m ''unit'' as_str;
     n \<leftarrow> req m ''n'' as_u64;
     wi \<leftarrow> req m ''window'' as_str;
     su \<leftarrow> opt_field m ''subject'' as_str;
     ns \<leftarrow> opt_field m ''namespace'' as_str;
     re \<leftarrow> opt_field m ''relation'' as_str;
     qu \<leftarrow> req m ''query'' as_str;
     ra \<leftarrow> req m ''review_after_ms'' as_i64;
     ho \<leftarrow> field_or [] m ''horizons_ms'' (list_of as_i64);
     Some \<lparr>me_metric = me, me_baseline = ba, me_unit = un, me_n = n, me_window = wi,
       me_subject = su, me_ns = ns, me_relation = re, me_query = qu, me_review_after = ra,
       me_horizons = ho\<rparr> }"

definition rec_decode :: "loop_env \<Rightarrow> string \<Rightarrow> jmap \<Rightarrow> recommendation option" where
  "rec_decode E hash m = do {
     an \<leftarrow> req m ''analyzer'' as_str;
     ps \<leftarrow> req m ''params_snapshot'' as_object;
     og \<leftarrow> req m ''origin'' origin_decode;
     ta \<leftarrow> req m ''target_ref'' as_str;
     ac \<leftarrow> req m ''action_kind'' (\<lambda>v. Option.bind (as_str v) action_of);
     dk \<leftarrow> req m ''dedup_key'' as_str;
     su \<leftarrow> req m ''summary'' summary_decode;
     se \<leftarrow> req m ''severity'' (\<lambda>v. Option.bind (as_str v) severity_of);
     pr \<leftarrow> proposal_decode m;
     de \<leftarrow> req m ''destructive'' as_bool;
     rb \<leftarrow> req m ''rollbackable'' as_bool;
     ev \<leftarrow> field_or [] m ''evidence'' (list_of as_str);
     eq \<leftarrow> opt_field m ''evidence_query'' as_str;
     mt \<leftarrow> opt_field m ''metric'' (metric_decode E);
     co \<leftarrow> req m ''confidence'' (as_f64 (le_rnd E));
     im \<leftarrow> req m ''importance'' (as_f64 (le_rnd E));
     cr \<leftarrow> req m ''created_at_ms'' as_i64;
     gu \<leftarrow> opt_field m ''guidance'' as_str;
     Some \<lparr>rc_hash = hash, rc_analyzer = an, rc_params = ps, rc_origin = og, rc_target = ta,
       rc_action = ac, rc_dedup = dk, rc_summary = su, rc_severity = se, rc_proposal = pr,
       rc_destructive = de, rc_rollbackable = rb, rc_evidence = ev, rc_evidence_query = eq,
       rc_metric = mt, rc_confidence = co, rc_importance = im, rc_created = cr,
       rc_guidance = gu, rc_status = StPending\<rparr> }"

definition rec_from_fields :: "loop_env \<Rightarrow> string \<Rightarrow> jmap \<Rightarrow> loop_error + recommendation" where
  "rec_from_fields E hash m =
     ok_or (LopInvalidRecommendation (''decode '' @ hash @ '': '' @ le_decode_error E (JObj m)))
       (rec_decode E hash m)"

section \<open>Reading back what was stored\<close>

definition wf_metric :: "metric \<Rightarrow> bool" where
  "wf_metric m = (f64_is_finite (me_baseline m) \<and> 0 \<le> me_n m
     \<and> me_review_after m \<le> i64_max \<and> list_all (\<lambda>h. h \<le> i64_max) (me_horizons m))"

definition wf_rec :: "recommendation \<Rightarrow> bool" where
  "wf_rec r = (f64_is_finite (rc_confidence r) \<and> f64_is_finite (rc_importance r)
     \<and> rc_created r \<le> i64_max \<and> pred_option wf_metric (rc_metric r))"

lemma map_opt_map: "(\<And>x. x \<in> set xs \<Longrightarrow> f (g x) = Some x) \<Longrightarrow> map_opt f (map g xs) = Some xs"
  by (induction xs) auto

lemma list_of_strs [simp]: "list_of as_str (strs_json xs) = Some xs"
  by (simp add: list_of_def strs_json_def map_opt_map)

lemma opt_entry_keys: "set (map fst (opt_entry k f x)) \<subseteq> {k}"
  by (cases x) auto

lemma map_of_opt_entry [simp]:
  "map_of (opt_entry k f x) = (case x of None \<Rightarrow> Map.empty | Some v \<Rightarrow> [k \<mapsto> f v])"
  by (cases x) auto

lemma distinct_opt_entry [simp]: "distinct (map fst (opt_entry k f x))"
  by (cases x) auto

lemma finite_json: "f64_is_finite x \<Longrightarrow> as_f64 rnd (f64_json x) = Some x \<and> f64_json x \<noteq> JNull"
  by (simp add: f64_json_def)

lemma distinct_metric_entries: "distinct (map fst (metric_entries m))"
  unfolding metric_entries_def
  by (cases "me_subject m"; cases "me_ns m"; cases "me_relation m"; cases "me_horizons m") simp_all

lemma metric_lookup [simp]: "map_of (bt_fill (metric_entries m) []) = map_of (metric_entries m)"
  by (simp add: map_of_bt_fill distinct_metric_entries)

lemma metric_gets:
  "map_of (metric_entries m) ''metric'' = Some (JStr (me_metric m))"
  "map_of (metric_entries m) ''baseline'' = Some (f64_json (me_baseline m))"
  "map_of (metric_entries m) ''unit'' = Some (JStr (me_unit m))"
  "map_of (metric_entries m) ''n'' = Some (JInt (me_n m))"
  "map_of (metric_entries m) ''window'' = Some (JStr (me_window m))"
  "map_of (metric_entries m) ''subject'' = map_option JStr (me_subject m)"
  "map_of (metric_entries m) ''namespace'' = map_option JStr (me_ns m)"
  "map_of (metric_entries m) ''relation'' = map_option JStr (me_relation m)"
  "map_of (metric_entries m) ''query'' = Some (JStr (me_query m))"
  "map_of (metric_entries m) ''review_after_ms'' = Some (JInt (me_review_after m))"
  "map_of (metric_entries m) ''horizons_ms'' =
     (if me_horizons m = [] then None else Some (JArr (map JInt (me_horizons m))))"
  by (simp_all add: metric_entries_def map_add_def split: option.split)

lemma opt_field_str: "map_of m k = map_option JStr x \<Longrightarrow> opt_field m k as_str = Some x"
  by (cases x) (simp_all add: opt_field_def)

lemma req_get: "map_of m k = Some v \<Longrightarrow> req m k f = f v"
  by (simp add: req_def)

lemma map_opt_exact:
  "(\<And>x. x \<in> set xs \<Longrightarrow> f (g x) = (if P x then Some x else None)) \<Longrightarrow>
     map_opt f (map g xs) = (if list_all P xs then Some xs else None)"
  by (induction xs) auto

lemma ints_decode:
  "list_of as_i64 (JArr (map JInt hs)) = (if list_all (\<lambda>h. h \<le> i64_max) hs then Some hs else None)"
  by (simp add: list_of_def map_opt_exact [where P = "\<lambda>h. h \<le> i64_max"])

lemma metric_horizons:
  "field_or [] (bt_fill (metric_entries m) []) ''horizons_ms'' (list_of as_i64) =
     (if list_all (\<lambda>h. h \<le> i64_max) (me_horizons m) then Some (me_horizons m) else None)"
  by (simp add: field_or_def metric_gets ints_decode)

lemma float_decode: "as_f64 rnd (f64_json x) = (if f64_is_finite x then Some x else None)"
  by (simp add: f64_json_def)

text \<open>A metric is read back as it was written, or refused when a number does not fit.\<close>

lemma metric_exact: "metric_decode E (metric_json m) = (if wf_metric m then Some m else None)"
proof -
  let ?M = "bt_fill (metric_entries m) []"
  have opts: "opt_field ?M ''subject'' as_str = Some (me_subject m)"
    "opt_field ?M ''namespace'' as_str = Some (me_ns m)"
    "opt_field ?M ''relation'' as_str = Some (me_relation m)"
    by (simp_all add: opt_field_str metric_gets)
  show ?thesis
    unfolding metric_decode_def wf_metric_def metric_json_def
    by (simp add: req_def metric_gets opts float_decode metric_horizons)
qed

lemma look_append:
  "map_of (xs @ ys) k = (case map_of xs k of None \<Rightarrow> map_of ys k | Some v \<Rightarrow> Some v)"
  by (simp add: map_add_def split: option.split)

lemma look_opt: "map_of (opt_entry j f x) k = (if k = j then map_option f x else None)"
  by (cases x) simp_all

lemma case_option_id [simp]: "(case x of None \<Rightarrow> None | Some v \<Rightarrow> Some v) = x"
  by (cases x) simp_all

lemma distinct_rec_entries: "distinct (map fst (rec_entries r))"
  unfolding rec_entries_def
  by (cases "rc_proposal r"; cases "rc_evidence_query r"; cases "rc_metric r"; cases "rc_guidance r")
    simp_all

lemma rec_lookup [simp]: "map_of (rec_fields r) = map_of (rec_entries r)"
  unfolding rec_fields_def by (simp add: map_of_bt_fill distinct_rec_entries)

lemma proposal_keys:
  "k \<notin> {''proposal'', ''cal'', ''format'', ''base_digest'', ''diff'', ''data''} \<Longrightarrow>
     map_of (proposal_fields p) k = None"
  by (cases p) simp_all

lemma rec_gets:
  "map_of (rec_entries r) ''analyzer'' = Some (JStr (rc_analyzer r))"
  "map_of (rec_entries r) ''params_snapshot'' = Some (JObj (rc_params r))"
  "map_of (rec_entries r) ''origin'' = Some (JObj (origin_fields (rc_origin r)))"
  "map_of (rec_entries r) ''target_ref'' = Some (JStr (rc_target r))"
  "map_of (rec_entries r) ''action_kind'' = Some (JStr (action_str (rc_action r)))"
  "map_of (rec_entries r) ''dedup_key'' = Some (JStr (rc_dedup r))"
  "map_of (rec_entries r) ''summary'' = Some (summary_json (rc_summary r))"
  "map_of (rec_entries r) ''severity'' = Some (JStr (severity_str (rc_severity r)))"
  "map_of (rec_entries r) ''destructive'' = Some (JBool (rc_destructive r))"
  "map_of (rec_entries r) ''rollbackable'' = Some (JBool (rc_rollbackable r))"
  "map_of (rec_entries r) ''evidence'' = Some (strs_json (rc_evidence r))"
  "map_of (rec_entries r) ''evidence_query'' = map_option JStr (rc_evidence_query r)"
  "map_of (rec_entries r) ''metric'' = map_option metric_json (rc_metric r)"
  "map_of (rec_entries r) ''confidence'' = Some (f64_json (rc_confidence r))"
  "map_of (rec_entries r) ''importance'' = Some (f64_json (rc_importance r))"
  "map_of (rec_entries r) ''created_at_ms'' = Some (JInt (rc_created r))"
  "map_of (rec_entries r) ''guidance'' = map_option JStr (rc_guidance r)"
  by (simp_all add: rec_entries_def look_append look_opt proposal_keys
      del: map_of_append map_of_opt_entry split: option.split)

lemma proposal_gets:
  "map_of (rec_entries r) ''proposal'' = map_of (proposal_fields (rc_proposal r)) ''proposal''"
  "map_of (rec_entries r) ''cal'' = map_of (proposal_fields (rc_proposal r)) ''cal''"
  "map_of (rec_entries r) ''format'' = map_of (proposal_fields (rc_proposal r)) ''format''"
  "map_of (rec_entries r) ''base_digest'' = map_of (proposal_fields (rc_proposal r)) ''base_digest''"
  "map_of (rec_entries r) ''diff'' = map_of (proposal_fields (rc_proposal r)) ''diff''"
  "map_of (rec_entries r) ''data'' = map_of (proposal_fields (rc_proposal r)) ''data''"
  by (simp_all add: rec_entries_def look_append look_opt
      del: map_of_append map_of_opt_entry split: option.split)

lemma origin_roundtrip: "origin_decode (JObj (origin_fields x)) = Some x"
  by (cases x) (simp_all add: origin_decode_def req_def)

lemma summary_roundtrip: "summary_decode (summary_json x) = Some x"
  by (simp add: summary_decode_def summary_json_def req_def field_or_def)

lemma proposal_roundtrip: "proposal_decode (rec_fields r) = Some (rc_proposal r)"
  unfolding proposal_decode_def
  by (cases "rc_proposal r") (simp_all add: req_def proposal_gets)

lemma opt_metric:
  assumes "pred_option wf_metric x" and "map_of m k = map_option metric_json x"
  shows "opt_field m k (metric_decode E) = Some x"
proof (cases x)
  case (Some v)
  moreover have "metric_json v \<noteq> JNull" by (simp add: metric_json_def)
  ultimately show ?thesis using assms by (simp add: opt_field_def metric_exact)
qed (use assms in \<open>simp add: opt_field_def\<close>)

text \<open>
  A recommendation with finite numbers is read back from its grain as it was stored, under
  the address of the grain and with the status the index supplies later.
\<close>

lemma rec_fields_roundtrip:
  assumes "wf_rec r"
  shows "rec_from_fields E h (rec_fields r) = Inr (r\<lparr>rc_hash := h, rc_status := StPending\<rparr>)"
proof -
  let ?M = "rec_fields r"
  have "opt_field ?M ''metric'' (metric_decode E) = Some (rc_metric r)"
    using assms by (intro opt_metric) (simp_all add: wf_rec_def rec_gets)
  moreover have "opt_field ?M ''evidence_query'' as_str = Some (rc_evidence_query r)"
    "opt_field ?M ''guidance'' as_str = Some (rc_guidance r)"
    by (simp_all add: opt_field_str rec_gets)
  moreover have "field_or [] ?M ''evidence'' (list_of as_str) = Some (rc_evidence r)"
    by (simp add: field_or_def rec_gets)
  ultimately have "rec_decode E h ?M = Some (r\<lparr>rc_hash := h, rc_status := StPending\<rparr>)"
    using assms unfolding rec_decode_def wf_rec_def
    by (simp add: req_def rec_gets finite_json proposal_roundtrip origin_roundtrip summary_roundtrip
        action_codec.dec_enc severity_codec.dec_enc)
  then show ?thesis by (simp add: rec_from_fields_def)
qed

section \<open>Summaries substitute in one pass\<close>

datatype segment = Lit string | Hole string

fun seg_text :: "segment \<Rightarrow> string" where
  "seg_text (Lit s) = s"
| "seg_text (Hole k) = [CHR 0x7B] @ k @ [CHR 0x7D]"

fun seg_value :: "loop_env \<Rightarrow> jmap \<Rightarrow> string \<Rightarrow> segment \<Rightarrow> string" where
  "seg_value E args tid (Lit s) = s"
| "seg_value E args tid (Hole k) = hole_value E args tid k"

fun wf_segment :: "segment \<Rightarrow> bool" where
  "wf_segment (Lit s) = (CHR 0x7B \<notin> set s)"
| "wf_segment (Hole k) = (CHR 0x7D \<notin> set k)"

lemma interpolate_lit:
  "CHR 0x7B \<notin> set s \<Longrightarrow> interpolate E args tid (s @ t) = s @ interpolate E args tid t"
  by (induction s) auto

lemma interpolate_hole:
  assumes "CHR 0x7D \<notin> set k"
  shows "interpolate E args tid (CHR 0x7B # k @ CHR 0x7D # t) =
    hole_value E args tid k @ interpolate E args tid t"
proof -
  have "takeWhile (\<lambda>c. c \<noteq> CHR 0x7D) (k @ CHR 0x7D # t) = k"
    and "dropWhile (\<lambda>c. c \<noteq> CHR 0x7D) (k @ CHR 0x7D # t) = CHR 0x7D # t"
    using assms by (induction k) auto
  then show ?thesis by simp
qed

text \<open>
  Rendering replaces the holes of the template and nothing else: a value that holds braces
  is copied, not expanded again.
\<close>

theorem interpolate_segments:
  assumes "list_all wf_segment segs"
  shows "interpolate E args tid (concat (map seg_text segs)) =
    concat (map (seg_value E args tid) segs)"
  using assms
proof (induction segs)
  case (Cons g segs)
  then show ?case by (cases g) (simp_all add: interpolate_lit interpolate_hole del: interpolate.simps(2))
qed simp

section \<open>Deduplication keys\<close>

lemma trim_subset: "set (trim s) \<subseteq> set s"
  unfolding trim_def trim_start_def trim_end_def by (auto dest!: set_dropWhileD)

lemma lower_unit_sep: "lower_char c = unit_sep \<Longrightarrow> c = unit_sep"
  by (auto simp: lower_char_def unit_sep_def is_ascii_upper_def split: if_splits
      dest!: arg_cong [where f = code_of]) (auto simp: code_of_def)

lemma normalize_no_sep: "unit_sep \<notin> set s \<Longrightarrow> unit_sep \<notin> set (normalize_ident s)"
  using trim_subset [of s]
  by (auto simp: normalize_ident_def to_lowercase_def dest!: lower_unit_sep [OF sym])

lemma action_no_sep: "unit_sep \<notin> set (action_str a)"
  by (cases a) (simp_all add: unit_sep_def)

lemma sep_eq:
  "d \<notin> set a \<Longrightarrow> d \<notin> set b \<Longrightarrow> a @ d # x = b @ d # y \<longleftrightarrow> a = b \<and> x = y"
proof (induction a arbitrary: b)
  case Nil
  then show ?case by (cases b) auto
next
  case (Cons c a)
  then show ?case by (cases b) auto
qed

text \<open>
  Two findings share a deduplication key exactly when they agree, up to case and outer white
  space, on the analyzer family and the target, and on the action; the target may hold any
  character.
\<close>

theorem dedup_key_iff:
  assumes "unit_sep \<notin> set f" and "unit_sep \<notin> set g"
  shows "dedup_key f t a = dedup_key g u b \<longleftrightarrow>
    normalize_ident f = normalize_ident g \<and> normalize_ident t = normalize_ident u \<and> a = b"
proof
  assume "dedup_key f t a = dedup_key g u b"
  then have e: "normalize_ident f @ unit_sep # (normalize_ident t @ unit_sep # action_str a) =
      normalize_ident g @ unit_sep # (normalize_ident u @ unit_sep # action_str b)"
    by (simp add: dedup_key_def)
  then have f: "normalize_ident f = normalize_ident g"
    and r: "normalize_ident t @ unit_sep # action_str a = normalize_ident u @ unit_sep # action_str b"
    using assms by (simp_all add: sep_eq normalize_no_sep)
  have "rev (action_str a) @ unit_sep # rev (normalize_ident t) =
      rev (action_str b) @ unit_sep # rev (normalize_ident u)"
    using arg_cong [OF r, of rev] by simp
  then have "action_str a = action_str b" "normalize_ident t = normalize_ident u"
    by (simp_all add: sep_eq action_no_sep)
  then show "normalize_ident f = normalize_ident g \<and> normalize_ident t = normalize_ident u \<and> a = b"
    using f action_codec.enc_inj by (auto dest: injD)
qed (simp add: dedup_key_def)

lemma dedup_key_iff_witness:
  "dedup_key ''loop.a'' ''entity:b'' AFlag \<noteq> dedup_key ''loop.a'' ''entity:b'' AConsolidate"
  using dedup_key_iff [of "''loop.a''" "''loop.a''" "''entity:b''" AFlag "''entity:b''" AConsolidate]
  by (simp add: unit_sep_def)


end
