(* ===== verification/Loop_Policy.thy ===== *)
theory Loop_Policy
  imports Loop_Rec
begin

text \<open>
  What an analyzer declares and what the host allows (\<^verbatim>\<open>manifest.rs\<close>, \<^verbatim>\<open>policy.rs\<close>):
  typed parameters and their resolution, analyzer families, capabilities, and the policy
  that alone can grant auto-apply.
\<close>

section \<open>Manifests\<close>

datatype tier = T0 | T1 | T2
datatype cadence = CFast | CBatch | CSlow
datatype capability = CapForks | CapTelemetry | CapEmbeddings
datatype target_class = TMemory | TQuery | TPrompt | THost
datatype auto_apply_class = AutoNever | AutoStructuralCuration
datatype trust_class = TrustBuiltin | TrustCommand | TrustLlm

datatype param_spec =
    PBool string bool
  | PInt string int int int
  | PFloat string f64 f64 f64
  | PStr string string nat
  | PEnum string string "string list"
  | PDuration string int

fun param_name :: "param_spec \<Rightarrow> string" where
  "param_name (PBool n _) = n"
| "param_name (PInt n _ _ _) = n"
| "param_name (PFloat n _ _ _) = n"
| "param_name (PStr n _ _) = n"
| "param_name (PEnum n _ _) = n"
| "param_name (PDuration n _) = n"

fun default_value :: "param_spec \<Rightarrow> json" where
  "default_value (PBool _ d) = JBool d"
| "default_value (PInt _ d _ _) = JInt d"
| "default_value (PFloat _ d _ _) = f64_json d"
| "default_value (PStr _ d _) = JStr d"
| "default_value (PEnum _ d _) = JStr d"
| "default_value (PDuration _ d) = JInt d"

definition debug_strs :: "string list \<Rightarrow> string" where
  "debug_strs xs = ''['' @ join '', '' (map debug_str xs) @ '']''"

definition bad_param :: "param_spec \<Rightarrow> string \<Rightarrow> loop_error + unit" where
  "bad_param p m = Inl (LopParamInvalid (param_name p @ '': '' @ m))"

definition out_of_range :: "string \<Rightarrow> string \<Rightarrow> string \<Rightarrow> string" where
  "out_of_range n lo hi = n @ '' out of range ['' @ lo @ '', '' @ hi @ '']''"

definition param_validate :: "loop_env \<Rightarrow> param_spec \<Rightarrow> json \<Rightarrow> loop_error + unit" where
  "param_validate E p v =
     (case p of
        PBool _ _ \<Rightarrow>
          if as_bool v = None then bad_param p (''expected bool, got '' @ le_json_text E v) else Inr ()
      | PInt _ _ lo hi \<Rightarrow>
          (case as_i64 v of
             None \<Rightarrow> bad_param p (''expected integer, got '' @ le_json_text E v)
           | Some n \<Rightarrow>
               if n < lo \<or> hi < n then bad_param p (out_of_range (int_str n) (int_str lo) (int_str hi))
               else Inr ())
      | PFloat _ _ lo hi \<Rightarrow>
          (case as_f64 (le_rnd E) v of
             None \<Rightarrow> bad_param p (''expected number, got '' @ le_json_text E v)
           | Some n \<Rightarrow>
               if f64_less n lo \<or> f64_less hi n
               then bad_param p (out_of_range (le_f64_text E n) (le_f64_text E lo) (le_f64_text E hi))
               else Inr ())
      | PStr _ _ max_len \<Rightarrow>
          (case as_str v of
             None \<Rightarrow> bad_param p (''expected string, got '' @ le_json_text E v)
           | Some s \<Rightarrow>
               if max_len < length s
               then bad_param p (''length '' @ nat_str (length s) @ '' exceeds max '' @ nat_str max_len)
               else Inr ())
      | PEnum _ _ choices \<Rightarrow>
          (case as_str v of
             None \<Rightarrow> bad_param p (''expected string, got '' @ le_json_text E v)
           | Some s \<Rightarrow>
               if s \<notin> set choices then bad_param p (debug_str s @ '' not in '' @ debug_strs choices)
               else Inr ())
      | PDuration _ _ \<Rightarrow>
          (case as_i64 v of
             None \<Rightarrow> bad_param p (''expected integer seconds, got '' @ le_json_text E v)
           | Some n \<Rightarrow>
               if n < 0 then bad_param p (''duration '' @ int_str n @ '' must be non-negative'')
               else Inr ()))"

record manifest =
  mf_id :: string
  mf_title :: string
  mf_description :: string
  mf_tier :: tier
  mf_cadence :: cadence
  mf_requires :: "capability list"
  mf_target_classes :: "target_class list"
  mf_auto_apply :: auto_apply_class
  mf_trust :: trust_class
  mf_params :: "param_spec list"
  mf_default_on :: bool

definition analyzer_family :: "string \<Rightarrow> string" where
  "analyzer_family i = hd (split_on (\<lambda>c. c = CHR ''/'') i)"

definition family :: "manifest \<Rightarrow> string" where
  "family m = analyzer_family (mf_id m)"

fun resolve_specs :: "loop_env \<Rightarrow> param_spec list \<Rightarrow> jmap \<Rightarrow> jmap \<Rightarrow> loop_error + jmap" where
  "resolve_specs E [] overrides acc = Inr acc"
| "resolve_specs E (p # ps) overrides acc =
     (case map_of overrides (param_name p) of
        Some v \<Rightarrow> and_then (param_validate E p v) (\<lambda>_.
          resolve_specs E ps overrides (bt_insert (param_name p) v acc))
      | None \<Rightarrow> resolve_specs E ps overrides (bt_insert (param_name p) (default_value p) acc))"

definition resolve_params :: "loop_env \<Rightarrow> manifest \<Rightarrow> jmap \<Rightarrow> loop_error + jmap" where
  "resolve_params E m overrides =
     (case find (\<lambda>(k, _). \<not> list_ex (\<lambda>p. param_name p = k) (mf_params m)) overrides of
        Some (k, _) \<Rightarrow> Inl (LopParamInvalid (''unknown parameter '' @ debug_str k))
      | None \<Rightarrow> resolve_specs E (mf_params m) overrides [])"

definition params_int :: "jmap \<Rightarrow> string \<Rightarrow> int" where
  "params_int ps n = unwrap_or 0 (Option.bind (map_of ps n) as_i64)"

definition params_bool :: "jmap \<Rightarrow> string \<Rightarrow> bool" where
  "params_bool ps n = unwrap_or False (Option.bind (map_of ps n) as_bool)"

definition params_float :: "loop_env \<Rightarrow> jmap \<Rightarrow> string \<Rightarrow> f64" where
  "params_float E ps n = unwrap_or (Finite 0) (Option.bind (map_of ps n) (as_f64 (le_rnd E)))"

definition params_str :: "jmap \<Rightarrow> string \<Rightarrow> string" where
  "params_str ps n = unwrap_or [] (Option.bind (map_of ps n) as_str)"

definition params_duration :: "jmap \<Rightarrow> string \<Rightarrow> int" where
  "params_duration ps n = params_int ps n"

record capabilities =
  cap_forks :: bool
  cap_telemetry :: bool
  cap_embeddings :: bool

fun capability_missing :: "capabilities \<Rightarrow> capability \<Rightarrow> string option" where
  "capability_missing c CapForks = (if cap_forks c then None else Some ''forks'')"
| "capability_missing c CapTelemetry = (if cap_telemetry c then None else Some ''telemetry'')"
| "capability_missing c CapEmbeddings = (if cap_embeddings c then None else Some ''embeddings'')"

fun missing_capability :: "capability list \<Rightarrow> capabilities \<Rightarrow> string option" where
  "missing_capability [] c = None"
| "missing_capability (r # rs) c = or_else (capability_missing c r) (missing_capability rs c)"

section \<open>Policy\<close>

datatype telemetry_mode = TelOff | TelAggregate | TelFull

record auto_apply_grant =
  ag_analyzer :: string
  ag_targets :: "string list"
  ag_max_severity :: severity

record policy =
  po_enabled :: bool
  po_auto_apply :: "auto_apply_grant list"
  po_deny :: "string list"
  po_floors :: "(string \<times> severity) list"
  po_telemetry :: telemetry_mode

definition policy_default :: policy where
  "policy_default = \<lparr>po_enabled = False, po_auto_apply = [], po_deny = [], po_floors = [],
     po_telemetry = TelAggregate\<rparr>"

definition policy_denies :: "policy \<Rightarrow> string \<Rightarrow> bool" where
  "policy_denies p fam = list_ex (\<lambda>d. analyzer_family d = fam) (po_deny p)"

definition policy_floor :: "policy \<Rightarrow> string \<Rightarrow> severity option" where
  "policy_floor p fam = map_option snd (find (\<lambda>(k, _). analyzer_family k = fam) (po_floors p))"

definition grants_auto_apply :: "policy \<Rightarrow> string \<Rightarrow> string \<Rightarrow> severity \<Rightarrow> bool" where
  "grants_auto_apply p fam tclass sev =
     (if \<not> po_enabled p \<or> tclass \<notin> {''memory'', ''query''} then False
      else list_ex (\<lambda>g. analyzer_family (ag_analyzer g) = fam
             \<and> list_ex (\<lambda>t. t = tclass) (ag_targets g) \<and> sev \<le> ag_max_severity g) (po_auto_apply p))"

section \<open>Resolved parameters\<close>

text \<open>A parameter specification whose default satisfies its own bounds.\<close>

definition sound_spec :: "loop_env \<Rightarrow> param_spec \<Rightarrow> bool" where
  "sound_spec E p = (param_validate E p (default_value p) = Inr ())"

lemma resolve_specs_get:
  assumes "resolve_specs E ps ov acc = Inr m" and "distinct (map param_name ps)"
  shows "map_of m k = (case find (\<lambda>p. param_name p = k) ps of
      None \<Rightarrow> map_of acc k
    | Some p \<Rightarrow> Some (case map_of ov k of None \<Rightarrow> default_value p | Some v \<Rightarrow> v))"
  using assms
proof (induction ps arbitrary: acc)
  case (Cons p ps)
  obtain v where v: "v = (case map_of ov (param_name p) of None \<Rightarrow> default_value p | Some v \<Rightarrow> v)"
    and rest: "resolve_specs E ps ov (bt_insert (param_name p) v acc) = Inr m"
    using Cons.prems(1) by (auto simp: result_simps split: option.splits)
  have new: "param_name p = k \<Longrightarrow> find (\<lambda>q. param_name q = k) ps = None"
    using Cons.prems(2) by (auto simp: find_None_iff image_iff)
  show ?case
    using Cons.IH [OF rest] Cons.prems(2) new v by (auto split: option.splits)
qed simp

lemma resolve_specs_valid:
  assumes "resolve_specs E ps ov acc = Inr m" and "p \<in> set ps"
    and "map_of ov (param_name p) = Some v"
  shows "param_validate E p v = Inr ()"
  using assms by (induction ps arbitrary: acc) (auto simp: result_simps split: option.splits)

lemma resolve_specs_total:
  assumes "\<And>p v. p \<in> set ps \<Longrightarrow> map_of ov (param_name p) = Some v \<Longrightarrow> param_validate E p v = Inr ()"
  shows "\<exists>m. resolve_specs E ps ov acc = Inr m"
  using assms by (induction ps arbitrary: acc) (auto split: option.splits)

lemma resolve_specs_error:
  "resolve_specs E ps ov acc = Inl e \<Longrightarrow>
     \<exists>p \<in> set ps. \<exists>v. map_of ov (param_name p) = Some v \<and> param_validate E p v = Inl e"
  by (induction ps arbitrary: acc) (auto simp: result_simps split: option.splits)

lemma find_unique:
  "distinct (map f ps) \<Longrightarrow> p \<in> set ps \<Longrightarrow> find (\<lambda>q. f q = f p) ps = Some p"
  by (induction ps) (auto simp: rev_image_eqI)

lemma resolve_params_Inr:
  assumes "resolve_params E m ov = Inr ps" and "distinct (map param_name (mf_params m))"
    and "p \<in> set (mf_params m)"
  shows "map_of ps (param_name p) =
      Some (case map_of ov (param_name p) of None \<Rightarrow> default_value p | Some v \<Rightarrow> v)"
    and "map_of ov (param_name p) = Some v \<Longrightarrow> param_validate E p v = Inr ()"
  using assms resolve_specs_get [of E "mf_params m" ov "[]" ps "param_name p"]
    resolve_specs_valid [of E "mf_params m" ov "[]" ps p v] find_unique [of param_name "mf_params m" p]
  by (auto simp: resolve_params_def split: option.splits)

text \<open>What resolution accepts, and what it answers.\<close>

lemma resolve_params_facts:
  assumes "distinct (map param_name (mf_params m))" and "bt_wf ov"
  shows "is_ok (resolve_params E m ov) \<longleftrightarrow>
      list_all (\<lambda>(k, v). list_ex (\<lambda>p. param_name p = k \<and> param_validate E p v = Inr ()) (mf_params m)) ov"
    and "resolve_params E m ov = Inr ps \<Longrightarrow> list_all (sound_spec E) (mf_params m) \<Longrightarrow>
      map_of ps k = Some v \<Longrightarrow> \<exists>p \<in> set (mf_params m). param_name p = k \<and> param_validate E p v = Inr ()"
    and "resolve_params E m ov = Inr ps \<Longrightarrow> p \<in> set (mf_params m) \<Longrightarrow>
      map_of ps (param_name p) = Some (case map_of ov (param_name p) of None \<Rightarrow> default_value p | Some v \<Rightarrow> v)"
proof -
  have inj: "p = q" if "p \<in> set (mf_params m)" "q \<in> set (mf_params m)" "param_name p = param_name q" for p q
    using that assms(1) by (auto simp: distinct_map inj_on_def)
  have get: "map_of ov k = Some v \<longleftrightarrow> (k, v) \<in> set ov" for k v
    using bt.get_Some_iff [OF assms(2)] by simp
  show "is_ok (resolve_params E m ov) \<longleftrightarrow>
      list_all (\<lambda>(k, v). list_ex (\<lambda>p. param_name p = k \<and> param_validate E p v = Inr ()) (mf_params m)) ov"
    (is "_ \<longleftrightarrow> ?valid")
  proof
    assume "is_ok (resolve_params E m ov)"
    then obtain ps where ps: "resolve_params E m ov = Inr ps" by (auto elim: is_okE)
    then have known: "find (\<lambda>(k, _). \<not> list_ex (\<lambda>p. param_name p = k) (mf_params m)) ov = None"
      by (auto simp: resolve_params_def split: option.splits)
    show ?valid
      unfolding list_all_iff
    proof (clarify)
      fix k v assume kv: "(k, v) \<in> set ov"
      then obtain p where p: "p \<in> set (mf_params m)" "param_name p = k"
        using known by (fastforce simp: find_None_iff list_ex_iff)
      then have "param_validate E p v = Inr ()"
        using resolve_params_Inr(2) [OF ps assms(1) p(1)] kv get by simp
      then show "list_ex (\<lambda>p. param_name p = k \<and> param_validate E p v = Inr ()) (mf_params m)"
        using p by (auto simp: list_ex_iff)
    qed
  next
    assume v: ?valid
    then have "find (\<lambda>(k, _). \<not> list_ex (\<lambda>p. param_name p = k) (mf_params m)) ov = None"
      by (fastforce simp: find_None_iff list_ex_iff list_all_iff)
    moreover have "param_validate E p w = Inr ()"
      if "p \<in> set (mf_params m)" "map_of ov (param_name p) = Some w" for p w
      using v that get inj by (fastforce simp: list_all_iff list_ex_iff)
    then have "\<exists>r. resolve_specs E (mf_params m) ov [] = Inr r" by (rule resolve_specs_total)
    ultimately show "is_ok (resolve_params E m ov)" by (auto simp: resolve_params_def)
  qed
  show "map_of ps (param_name p) =
      Some (case map_of ov (param_name p) of None \<Rightarrow> default_value p | Some v \<Rightarrow> v)"
    if "resolve_params E m ov = Inr ps" and "p \<in> set (mf_params m)"
    using resolve_params_Inr(1) [OF that(1) assms(1) that(2)] .
  show "\<exists>p \<in> set (mf_params m). param_name p = k \<and> param_validate E p v = Inr ()"
    if ps: "resolve_params E m ov = Inr ps" and sound: "list_all (sound_spec E) (mf_params m)"
      and k: "map_of ps k = Some v"
  proof -
    have "resolve_specs E (mf_params m) ov [] = Inr ps"
      using ps by (auto simp: resolve_params_def split: option.splits)
    from resolve_specs_get [OF this assms(1), of k] k
    obtain p where p: "find (\<lambda>p. param_name p = k) (mf_params m) = Some p"
      and v: "v = (case map_of ov k of None \<Rightarrow> default_value p | Some v \<Rightarrow> v)"
      by (auto split: option.splits)
    then have "p \<in> set (mf_params m)" "param_name p = k" by (auto dest: find_SomeD)
    then show ?thesis
      using resolve_params_Inr(2) [OF ps assms(1)] sound v
      by (auto simp: list_all_iff sound_spec_def split: option.splits)
  qed
qed

text \<open>
  C14. Parameter resolution accepts exactly the overrides that name a declared parameter and pass
  its validation; the answer then holds, for every declared parameter, its override or its
  default.
\<close>

theorem resolve_params_spec:
  assumes "distinct (map param_name (mf_params m))" and "bt_wf ov"
  shows "if list_all (\<lambda>(k, v). list_ex (\<lambda>p. param_name p = k \<and> param_validate E p v = Inr ()) (mf_params m)) ov
    then \<exists>ps. resolve_params E m ov = Inr ps \<and> list_all (\<lambda>p. map_of ps (param_name p) =
      Some (case map_of ov (param_name p) of None \<Rightarrow> default_value p | Some v \<Rightarrow> v)) (mf_params m)
    else is_ok (resolve_params E m ov) = False"
  using resolve_params_facts(1) [OF assms, of E] resolve_params_facts(3) [OF assms, of E]
  by (auto simp: list_all_iff elim!: is_okE)

end
