(* ===== verification/Loop_Config.thy ===== *)
theory Loop_Config
  imports Loop_Policy
begin

text \<open>
  The persisted state of the loop (\<^verbatim>\<open>config.rs\<close>): analyzer overrides, the watermark, the
  status index, audit heads, creators, cooldowns, applied records and measured outcomes,
  and the JSON value they are stored as.
\<close>

section \<open>State\<close>

definition SCHEMA_VERSION :: int where "SCHEMA_VERSION = 1"

record analyzer_config =
  ac_enabled :: "bool option"
  ac_params :: jmap
  ac_floor :: "severity option"
  ac_namespaces :: "string list"

definition analyzer_config_default :: analyzer_config where
  "analyzer_config_default =
     \<lparr>ac_enabled = None, ac_params = [], ac_floor = None, ac_namespaces = []\<rparr>"

record config_update =
  cu_enabled :: "bool option"
  cu_floor :: "severity option"
  cu_clear_floor :: bool
  cu_params :: "jmap option"
  cu_namespaces :: "string list option"

record loop_state =
  ls_last_run :: "int option"
  ls_watermark :: "int option"

record applied_record =
  ap_at :: int
  ap_target :: string
  ap_rollbackable :: bool
  ap_created :: "string list"
  ap_metric :: "metric option"

record loop_persisted =
  lp_schema :: int
  lp_config :: "(string \<times> analyzer_config) list"
  lp_state :: loop_state
  lp_status :: "(string \<times> rec_status) list"
  lp_audit_heads :: "(string \<times> string) list"
  lp_creators :: "(string \<times> string) list"
  lp_co_creators :: "(string \<times> string) list"
  lp_cooldowns :: "(string \<times> int) list"
  lp_strikes :: "(string \<times> int) list"
  lp_applied :: "(string \<times> applied_record) list"
  lp_measured :: "(string \<times> int list) list"
  lp_outcomes :: "(string \<times> outcome_result list) list"

definition persisted_default :: loop_persisted where
  "persisted_default = \<lparr>lp_schema = SCHEMA_VERSION, lp_config = [],
     lp_state = \<lparr>ls_last_run = None, ls_watermark = None\<rparr>, lp_status = [], lp_audit_heads = [],
     lp_creators = [], lp_co_creators = [], lp_cooldowns = [], lp_strikes = [], lp_applied = [],
     lp_measured = [], lp_outcomes = []\<rparr>"

section \<open>Encoding\<close>

definition map_json :: "('a \<Rightarrow> json) \<Rightarrow> (string \<times> 'a) list \<Rightarrow> json" where
  "map_json f m = JObj (map (\<lambda>(k, v). (k, f v)) m)"

definition unless_empty :: "string \<Rightarrow> ('a list \<Rightarrow> json) \<Rightarrow> 'a list \<Rightarrow> jmap" where
  "unless_empty k f xs = (if xs = [] then [] else [(k, f xs)])"

definition status_json :: "rec_status \<Rightarrow> json" where
  "status_json s = JStr (status_str s)"

definition severity_json :: "severity \<Rightarrow> json" where
  "severity_json s = JStr (severity_str s)"

definition config_entries :: "analyzer_config \<Rightarrow> jmap" where
  "config_entries c =
     opt_entry ''enabled'' JBool (ac_enabled c) @ [(''params'', JObj (ac_params c))]
     @ opt_entry ''severity_floor'' severity_json (ac_floor c)
     @ unless_empty ''namespaces'' strs_json (ac_namespaces c)"

definition config_json :: "analyzer_config \<Rightarrow> json" where
  "config_json c = JObj (bt_fill (config_entries c) [])"

definition state_json :: "loop_state \<Rightarrow> json" where
  "state_json s = JObj (opt_entry ''last_run_ms'' JInt (ls_last_run s)
     @ opt_entry ''watermark_ms'' JInt (ls_watermark s))"

definition applied_entries :: "applied_record \<Rightarrow> jmap" where
  "applied_entries a =
     [(''applied_at_ms'', JInt (ap_at a)), (''target_ref'', JStr (ap_target a)),
      (''rollbackable'', JBool (ap_rollbackable a)), (''created_hashes'', strs_json (ap_created a))]
     @ opt_entry ''metric'' metric_json (ap_metric a)"

definition applied_json :: "applied_record \<Rightarrow> json" where
  "applied_json a = JObj (bt_fill (applied_entries a) [])"

definition outcome_json :: "outcome_result \<Rightarrow> json" where
  "outcome_json r = JObj (bt_fill
     [(''rec_hash'', JStr (or_rec r)), (''metric'', JStr (or_metric r)),
      (''baseline'', f64_json (or_baseline r)), (''current'', f64_json (or_current r)),
      (''verdict'', JStr (or_verdict r)), (''horizon_ms'', JInt (or_horizon r)),
      (''measured_at_ms'', JInt (or_measured r))] [])"

definition persisted_entries :: "loop_persisted \<Rightarrow> jmap" where
  "persisted_entries p =
     [(''schema_version'', JInt (lp_schema p)),
      (''config'', map_json config_json (lp_config p)),
      (''state'', state_json (lp_state p)),
      (''status_index'', map_json status_json (lp_status p)),
      (''audit_heads'', map_json JStr (lp_audit_heads p)),
      (''creators'', map_json JStr (lp_creators p))]
     @ unless_empty ''co_creators'' (map_json JStr) (lp_co_creators p)
     @ [(''cooldowns'', map_json JInt (lp_cooldowns p))]
     @ unless_empty ''cooldown_strikes'' (map_json JInt) (lp_strikes p)
     @ [(''applied'', map_json applied_json (lp_applied p)),
        (''measured'', map_json (\<lambda>hs. JArr (map JInt hs)) (lp_measured p)),
        (''outcomes'', map_json (\<lambda>rs. JArr (map outcome_json rs)) (lp_outcomes p))]"

definition to_value :: "loop_persisted \<Rightarrow> json" where
  "to_value p = JObj (bt_fill (persisted_entries p) [])"

section \<open>Decoding\<close>

definition map_decode :: "(json \<Rightarrow> 'a option) \<Rightarrow> json \<Rightarrow> (string \<times> 'a) list option" where
  "map_decode f v = Option.bind (as_object v) (map_opt (\<lambda>(k, w). map_option (Pair k) (f w)))"

definition ALL_STATUSES :: "rec_status list" where
  "ALL_STATUSES = [StPending, StApproved, StRejected, StApplied, StRolledBack, StExpired]"

definition status_of :: "string \<Rightarrow> rec_status option" where
  "status_of s = find (\<lambda>v. status_str v = s) ALL_STATUSES"

definition status_decode :: "json \<Rightarrow> rec_status option" where
  "status_decode v = Option.bind (as_str v) status_of"

definition severity_decode :: "json \<Rightarrow> severity option" where
  "severity_decode v = Option.bind (as_str v) severity_of"

definition as_u32 :: "json \<Rightarrow> int option" where
  "as_u32 v = Option.bind (as_u64 v) (\<lambda>i. if i < 4294967296 then Some i else None)"

definition config_decode :: "json \<Rightarrow> analyzer_config option" where
  "config_decode v = do {
     m \<leftarrow> as_object v;
     en \<leftarrow> opt_field m ''enabled'' as_bool;
     pa \<leftarrow> field_or [] m ''params'' as_object;
     fl \<leftarrow> opt_field m ''severity_floor'' severity_decode;
     ns \<leftarrow> field_or [] m ''namespaces'' (list_of as_str);
     Some \<lparr>ac_enabled = en, ac_params = pa, ac_floor = fl, ac_namespaces = ns\<rparr> }"

definition state_decode :: "json \<Rightarrow> loop_state option" where
  "state_decode v = do {
     m \<leftarrow> as_object v;
     lr \<leftarrow> opt_field m ''last_run_ms'' as_i64;
     wm \<leftarrow> opt_field m ''watermark_ms'' as_i64;
     Some \<lparr>ls_last_run = lr, ls_watermark = wm\<rparr> }"

definition applied_decode :: "loop_env \<Rightarrow> json \<Rightarrow> applied_record option" where
  "applied_decode E v = do {
     m \<leftarrow> as_object v;
     tm \<leftarrow> req m ''applied_at_ms'' as_i64;
     ta \<leftarrow> req m ''target_ref'' as_str;
     rb \<leftarrow> req m ''rollbackable'' as_bool;
     cr \<leftarrow> field_or [] m ''created_hashes'' (list_of as_str);
     me \<leftarrow> opt_field m ''metric'' (metric_decode E);
     Some \<lparr>ap_at = tm, ap_target = ta, ap_rollbackable = rb, ap_created = cr, ap_metric = me\<rparr> }"

definition outcome_decode :: "loop_env \<Rightarrow> json \<Rightarrow> outcome_result option" where
  "outcome_decode E v = do {
     m \<leftarrow> as_object v;
     rh \<leftarrow> req m ''rec_hash'' as_str;
     me \<leftarrow> req m ''metric'' as_str;
     ba \<leftarrow> req m ''baseline'' (as_f64 (le_rnd E));
     cu \<leftarrow> req m ''current'' (as_f64 (le_rnd E));
     ve \<leftarrow> req m ''verdict'' as_str;
     ho \<leftarrow> field_or 0 m ''horizon_ms'' as_i64;
     tm \<leftarrow> req m ''measured_at_ms'' as_i64;
     Some \<lparr>or_rec = rh, or_metric = me, or_baseline = ba, or_current = cu, or_verdict = ve,
       or_horizon = ho, or_measured = tm\<rparr> }"

definition persisted_decode :: "loop_env \<Rightarrow> json \<Rightarrow> loop_persisted option" where
  "persisted_decode E v = do {
     m \<leftarrow> as_object v;
     sv \<leftarrow> field_or SCHEMA_VERSION m ''schema_version'' as_u32;
     co \<leftarrow> field_or [] m ''config'' (map_decode config_decode);
     st \<leftarrow> field_or \<lparr>ls_last_run = None, ls_watermark = None\<rparr> m ''state'' state_decode;
     si \<leftarrow> field_or [] m ''status_index'' (map_decode status_decode);
     ah \<leftarrow> field_or [] m ''audit_heads'' (map_decode as_str);
     cr \<leftarrow> field_or [] m ''creators'' (map_decode as_str);
     cc \<leftarrow> field_or [] m ''co_creators'' (map_decode as_str);
     cd \<leftarrow> field_or [] m ''cooldowns'' (map_decode as_i64);
     cs \<leftarrow> field_or [] m ''cooldown_strikes'' (map_decode as_u32);
     ap \<leftarrow> field_or [] m ''applied'' (map_decode (applied_decode E));
     me \<leftarrow> field_or [] m ''measured'' (map_decode (list_of as_i64));
     ou \<leftarrow> field_or [] m ''outcomes'' (map_decode (list_of (outcome_decode E)));
     Some \<lparr>lp_schema = sv, lp_config = co, lp_state = st, lp_status = si, lp_audit_heads = ah,
       lp_creators = cr, lp_co_creators = cc, lp_cooldowns = cd, lp_strikes = cs, lp_applied = ap,
       lp_measured = me, lp_outcomes = ou\<rparr> }"

definition from_value :: "loop_env \<Rightarrow> json \<Rightarrow> loop_error + loop_persisted" where
  "from_value E v =
     (if v = JNull then Inr persisted_default
      else ok_or (LopInternal (''decode loop state: '' @ le_decode_error E v)) (persisted_decode E v))"

section \<open>Reading back the stored state\<close>

interpretation status_codec: wire_codec status_str status_of
proof
  show "status_of (status_str a) = Some a" for a
    by (cases a) (simp_all add: status_of_def ALL_STATUSES_def)
  show "status_of w = Some a \<Longrightarrow> status_str a = w" for w a
    by (auto simp: status_of_def ALL_STATUSES_def split: if_splits)
qed

definition fits :: "int \<Rightarrow> bool" where
  "fits i = (i \<le> i64_max)"

definition fits_u32 :: "int \<Rightarrow> bool" where
  "fits_u32 i = (0 \<le> i \<and> i < 4294967296)"

definition wf_applied :: "applied_record \<Rightarrow> bool" where
  "wf_applied a = (fits (ap_at a) \<and> pred_option wf_metric (ap_metric a))"

definition wf_outcome :: "outcome_result \<Rightarrow> bool" where
  "wf_outcome r = (f64_is_finite (or_baseline r) \<and> f64_is_finite (or_current r)
     \<and> fits (or_horizon r) \<and> fits (or_measured r))"

definition wf_loop_state :: "loop_state \<Rightarrow> bool" where
  "wf_loop_state s = (pred_option fits (ls_last_run s) \<and> pred_option fits (ls_watermark s))"

definition all_values :: "('a \<Rightarrow> bool) \<Rightarrow> (string \<times> 'a) list \<Rightarrow> bool" where
  "all_values P m = list_all (\<lambda>(_, v). P v) m"

text \<open>A state whose numbers fit their fields: what every run writes.\<close>

definition wf_persisted :: "loop_persisted \<Rightarrow> bool" where
  "wf_persisted p = (fits_u32 (lp_schema p) \<and> wf_loop_state (lp_state p)
     \<and> all_values fits (lp_cooldowns p) \<and> all_values fits_u32 (lp_strikes p)
     \<and> all_values wf_applied (lp_applied p) \<and> all_values (list_all fits) (lp_measured p)
     \<and> all_values (list_all wf_outcome) (lp_outcomes p))"

definition exact :: "('a \<Rightarrow> json) \<Rightarrow> (json \<Rightarrow> 'a option) \<Rightarrow> ('a \<Rightarrow> bool) \<Rightarrow> bool" where
  "exact f g P = (\<forall>x. g (f x) = (if P x then Some x else None))"

lemma exactD: "exact f g P \<Longrightarrow> g (f x) = (if P x then Some x else None)"
  by (simp add: exact_def)

lemma exact_map: "exact f g P \<Longrightarrow> exact (map_json f) (map_decode g) (all_values P)"
  unfolding exact_def map_json_def map_decode_def all_values_def
  by (auto simp: map_opt_exact [where P = "\<lambda>(_, v). P v"] split: prod.split)

lemma exact_list: "exact f g P \<Longrightarrow> exact (\<lambda>xs. JArr (map f xs)) (list_of g) (list_all P)"
  unfolding exact_def list_of_def by (simp add: map_opt_exact [where P = P])

lemma exact_str: "exact JStr as_str (\<lambda>_. True)"
  and exact_int: "exact JInt as_i64 fits"
  and exact_u32: "exact JInt as_u32 fits_u32"
  and exact_status: "exact status_json status_decode (\<lambda>_. True)"
  and exact_severity: "exact severity_json severity_decode (\<lambda>_. True)"
  and exact_metric: "exact metric_json (metric_decode E) wf_metric"
  by (simp_all add: exact_def fits_def as_u32_def fits_u32_def status_json_def status_decode_def
      severity_json_def severity_decode_def status_codec.dec_enc severity_codec.dec_enc metric_exact)

lemma opt_field_exact:
  assumes "exact f g P" and "\<And>x. f x \<noteq> JNull" and "map_of m k = map_option f x"
  shows "opt_field m k g = (if pred_option P x then Some x else None)"
  using assms by (cases x) (auto simp: opt_field_def exact_def)

lemma look_unless: "map_of (unless_empty j f xs) k = (if k = j \<and> xs \<noteq> [] then Some (f xs) else None)"
  by (simp add: unless_empty_def)

lemma fill_lookup: "distinct (map fst es) \<Longrightarrow> map_of (bt_fill es []) = map_of es"
  by (simp add: map_of_bt_fill)

lemma config_exact: "exact config_json config_decode (\<lambda>_. True)"
proof -
  have "config_decode (config_json c) = Some c" for c
  proof -
    let ?M = "bt_fill (config_entries c) []"
    have d: "distinct (map fst (config_entries c))"
      by (cases "ac_enabled c"; cases "ac_floor c") (simp_all add: config_entries_def unless_empty_def)
    have g: "map_of ?M ''enabled'' = map_option JBool (ac_enabled c)"
      "map_of ?M ''params'' = Some (JObj (ac_params c))"
      "map_of ?M ''severity_floor'' = map_option severity_json (ac_floor c)"
      "map_of ?M ''namespaces'' = (if ac_namespaces c = [] then None else Some (strs_json (ac_namespaces c)))"
      unfolding fill_lookup [OF d]
      by (simp_all add: config_entries_def look_append look_opt look_unless
          del: map_of_append map_of_opt_entry split: option.split)
    have "opt_field ?M ''enabled'' as_bool = Some (ac_enabled c)"
      "opt_field ?M ''severity_floor'' severity_decode = Some (ac_floor c)"
      using g(1,3) opt_field_exact [of JBool as_bool "\<lambda>_. True"]
        opt_field_exact [OF exact_severity, of ?M]
      by (auto simp: exact_def severity_json_def option.pred_True)
    then show ?thesis
      by (simp add: config_decode_def config_json_def field_or_def g)
  qed
  then show ?thesis by (simp add: exact_def)
qed

lemma state_exact: "exact state_json state_decode wf_loop_state"
proof -
  have "state_decode (state_json s) = (if wf_loop_state s then Some s else None)" for s
  proof -
    let ?M = "opt_entry ''last_run_ms'' JInt (ls_last_run s) @ opt_entry ''watermark_ms'' JInt (ls_watermark s)"
    have g: "map_of ?M ''last_run_ms'' = map_option JInt (ls_last_run s)"
      "map_of ?M ''watermark_ms'' = map_option JInt (ls_watermark s)"
      by (simp_all add: look_append look_opt del: map_of_append map_of_opt_entry split: option.split)
    note opt_field_exact [OF exact_int _ g(1)] opt_field_exact [OF exact_int _ g(2)]
    then show ?thesis
      by (simp add: state_decode_def state_json_def wf_loop_state_def)
  qed
  then show ?thesis by (simp add: exact_def)
qed

lemma applied_exact: "exact applied_json (applied_decode E) wf_applied"
proof -
  have "applied_decode E (applied_json a) = (if wf_applied a then Some a else None)" for a
  proof -
    let ?M = "bt_fill (applied_entries a) []"
    have d: "distinct (map fst (applied_entries a))"
      by (cases "ap_metric a") (simp_all add: applied_entries_def)
    have g: "map_of ?M ''applied_at_ms'' = Some (JInt (ap_at a))"
      "map_of ?M ''target_ref'' = Some (JStr (ap_target a))"
      "map_of ?M ''rollbackable'' = Some (JBool (ap_rollbackable a))"
      "map_of ?M ''created_hashes'' = Some (strs_json (ap_created a))"
      "map_of ?M ''metric'' = map_option metric_json (ap_metric a)"
      unfolding fill_lookup [OF d]
      by (simp_all add: applied_entries_def look_append look_opt
          del: map_of_append map_of_opt_entry split: option.split)
    have "metric_json x \<noteq> JNull" for x by (simp add: metric_json_def)
    note opt_field_exact [OF exact_metric this g(5), of E]
    then show ?thesis
      by (simp add: applied_decode_def applied_json_def wf_applied_def req_def field_or_def g fits_def)
  qed
  then show ?thesis by (simp add: exact_def)
qed

lemma outcome_exact: "exact outcome_json (outcome_decode E) wf_outcome"
proof -
  have "outcome_decode E (outcome_json r) = (if wf_outcome r then Some r else None)" for r
    by (simp add: outcome_decode_def outcome_json_def wf_outcome_def req_def field_or_def
        map_of_bt_fill float_decode fits_def)
  then show ?thesis by (simp add: exact_def)
qed

lemma field_exact:
  "exact f g P \<Longrightarrow> map_of m k = Some (f x) \<Longrightarrow> field_or d m k g = (if P x then Some x else None)"
  by (simp add: field_or_def exact_def)

lemma field_unless:
  assumes "exact f g P" and "map_of m k = (if xs = [] then None else Some (f xs))" and "P []"
  shows "field_or [] m k g = (if P xs then Some xs else None)"
  using assms by (auto simp: field_or_def exact_def)

lemma persisted_gets:
  fixes p :: loop_persisted
  defines "m \<equiv> bt_fill (persisted_entries p) []"
  shows "map_of m ''schema_version'' = Some (JInt (lp_schema p))"
    "map_of m ''config'' = Some (map_json config_json (lp_config p))"
    "map_of m ''state'' = Some (state_json (lp_state p))"
    "map_of m ''status_index'' = Some (map_json status_json (lp_status p))"
    "map_of m ''audit_heads'' = Some (map_json JStr (lp_audit_heads p))"
    "map_of m ''creators'' = Some (map_json JStr (lp_creators p))"
    "map_of m ''co_creators'' =
       (if lp_co_creators p = [] then None else Some (map_json JStr (lp_co_creators p)))"
    "map_of m ''cooldowns'' = Some (map_json JInt (lp_cooldowns p))"
    "map_of m ''cooldown_strikes'' =
       (if lp_strikes p = [] then None else Some (map_json JInt (lp_strikes p)))"
    "map_of m ''applied'' = Some (map_json applied_json (lp_applied p))"
    "map_of m ''measured'' = Some (map_json (\<lambda>hs. JArr (map JInt hs)) (lp_measured p))"
    "map_of m ''outcomes'' = Some (map_json (\<lambda>rs. JArr (map outcome_json rs)) (lp_outcomes p))"
proof -
  have d: "distinct (map fst (persisted_entries p))"
    by (cases "lp_co_creators p = []"; cases "lp_strikes p = []")
      (simp_all add: persisted_entries_def unless_empty_def)
  show "map_of m ''schema_version'' = Some (JInt (lp_schema p))"
    "map_of m ''config'' = Some (map_json config_json (lp_config p))"
    "map_of m ''state'' = Some (state_json (lp_state p))"
    "map_of m ''status_index'' = Some (map_json status_json (lp_status p))"
    "map_of m ''audit_heads'' = Some (map_json JStr (lp_audit_heads p))"
    "map_of m ''creators'' = Some (map_json JStr (lp_creators p))"
    "map_of m ''co_creators'' =
       (if lp_co_creators p = [] then None else Some (map_json JStr (lp_co_creators p)))"
    "map_of m ''cooldowns'' = Some (map_json JInt (lp_cooldowns p))"
    "map_of m ''cooldown_strikes'' =
       (if lp_strikes p = [] then None else Some (map_json JInt (lp_strikes p)))"
    "map_of m ''applied'' = Some (map_json applied_json (lp_applied p))"
    "map_of m ''measured'' = Some (map_json (\<lambda>hs. JArr (map JInt hs)) (lp_measured p))"
    "map_of m ''outcomes'' = Some (map_json (\<lambda>rs. JArr (map outcome_json rs)) (lp_outcomes p))"
    unfolding m_def fill_lookup [OF d]
    by (simp_all add: persisted_entries_def look_append look_unless
        del: map_of_append split: option.split)
qed

lemmas persisted_fields =
  field_exact [OF exact_u32 persisted_gets(1)]
  field_exact [OF exact_map [OF config_exact] persisted_gets(2)]
  field_exact [OF state_exact persisted_gets(3)]
  field_exact [OF exact_map [OF exact_status] persisted_gets(4)]
  field_exact [OF exact_map [OF exact_str] persisted_gets(5)]
  field_exact [OF exact_map [OF exact_str] persisted_gets(6)]
  field_exact [OF exact_map [OF exact_int] persisted_gets(8)]
  field_exact [OF exact_map [OF applied_exact] persisted_gets(10)]
  field_exact [OF exact_map [OF exact_list [OF exact_int]] persisted_gets(11)]
  field_exact [OF exact_map [OF exact_list [OF outcome_exact]] persisted_gets(12)]
  field_unless [OF exact_map [OF exact_str] persisted_gets(7)]
  field_unless [OF exact_map [OF exact_u32] persisted_gets(9)]

lemma all_values_True [simp]: "all_values (\<lambda>_. True) m" and all_values_Nil [simp]: "all_values P []"
  by (auto simp: all_values_def list_all_iff)

lemma persisted_exact:
  "persisted_decode E (to_value p) = (if wf_persisted p then Some p else None)"
  unfolding persisted_decode_def to_value_def wf_persisted_def
  by (simp add: persisted_fields)

text \<open>
  The state read back is the state written, or loading refuses it because a number does not
  fit; nothing else can change on the way through JSON.
\<close>

lemma loop_state_roundtrip:
  "from_value E (to_value p) =
     (if wf_persisted p then Inr p
      else Inl (LopInternal (''decode loop state: '' @ le_decode_error E (to_value p))))"
proof -
  have "to_value p \<noteq> JNull" by (simp add: to_value_def)
  then show ?thesis by (simp add: from_value_def persisted_exact)
qed

lemma loaded_is_stored: "from_value E (to_value p) = Inr q \<Longrightarrow> q = p \<and> wf_persisted p"
  by (auto simp: loop_state_roundtrip split: if_splits)

end
