(* ===== verification/Loop_Substrate.thy ===== *)
theory Loop_Substrate
  imports Loop_Config
begin

text \<open>
  The interface between the loop and a memory (\<^verbatim>\<open>substrate.rs\<close>) as a record of
  operations, the contract the engine relies on as locales, and the in-memory reference
  substrate (\<^verbatim>\<open>reference.rs\<close>) with its small CAL subset, on which the contract is discharged.
\<close>

section \<open>Actions on a state\<close>

type_synonym ('s, 'a) act = "'s \<Rightarrow> (loop_error + 'a) \<times> 's"

definition act_ret :: "'a \<Rightarrow> ('s, 'a) act" where
  "act_ret x s = (Inr x, s)"

definition act_lift :: "loop_error + 'a \<Rightarrow> ('s, 'a) act" where
  "act_lift r s = (r, s)"

definition act_read :: "('s \<Rightarrow> loop_error + 'a) \<Rightarrow> ('s, 'a) act" where
  "act_read f s = (f s, s)"

definition act_bind :: "('s, 'a) act \<Rightarrow> ('a \<Rightarrow> ('s, 'b) act) \<Rightarrow> ('s, 'b) act" where
  "act_bind m f s = (case m s of (Inl e, t) \<Rightarrow> (Inl e, t) | (Inr x, t) \<Rightarrow> f x t)"

lemma act_simps [simp]:
  "act_ret x s = (Inr x, s)" "act_lift r s = (r, s)" "act_read f s = (f s, s)"
  by (simp_all add: act_ret_def act_lift_def act_read_def)

lemma act_bind_Inr:
  "act_bind m f s = (Inr y, u) \<longleftrightarrow> (\<exists>x t. m s = (Inr x, t) \<and> f x t = (Inr y, u))"
  by (auto simp: act_bind_def split: prod.splits sum.splits)

lemma act_bind_Inl:
  "act_bind m f s = (Inl e, u) \<longleftrightarrow> m s = (Inl e, u) \<or> (\<exists>x t. m s = (Inr x, t) \<and> f x t = (Inl e, u))"
  by (auto simp: act_bind_def split: prod.splits sum.splits)

lemma act_bind_lift [simp]:
  "act_bind (act_lift (Inr x)) f s = f x s" "act_bind (act_lift (Inl e)) f s = (Inl e, s)"
  by (simp_all add: act_bind_def)

lemmas act_cases = act_bind_Inr act_bind_Inl

section \<open>The interface\<close>

record read_opts =
  ro_live :: bool
  ro_since :: "int option"

definition read_opts_default :: read_opts where
  "read_opts_default = \<lparr>ro_live = True, ro_since = None\<rparr>"

record head_group =
  hg_entity :: string
  hg_heads :: "string list"

record grain_access =
  ga_hash :: string
  ga_recalls :: int
  ga_last :: int

record query_usage =
  qu_sample :: string
  qu_runs :: int
  qu_empty :: int
  qu_results :: int
  qu_last :: int

record budget_usage =
  bu_samples :: int
  bu_overflows :: int

record telemetry_view =
  tv_access :: "grain_access list"
  tv_queries :: "query_usage list"
  tv_budget :: budget_usage

record 's substrate =
  sb_capabilities :: "'s \<Rightarrow> capabilities"
  sb_grains_of_type :: "'s \<Rightarrow> string \<Rightarrow> string option \<Rightarrow> read_opts \<Rightarrow> loop_error + loop_grain list"
  sb_grain :: "'s \<Rightarrow> string \<Rightarrow> loop_error + loop_grain option"
  sb_heads :: "'s \<Rightarrow> string option \<Rightarrow> loop_error + head_group list"
  sb_telemetry :: "'s \<Rightarrow> string option \<Rightarrow> loop_error + telemetry_view option"
  sb_put :: "grain_spec \<Rightarrow> ('s, string) act"
  sb_supersede :: "string \<Rightarrow> grain_spec \<Rightarrow> string \<Rightarrow> ('s, string) act"
  sb_retract :: "string \<Rightarrow> string \<Rightarrow> ('s, unit) act"
  sb_execute :: "string \<Rightarrow> ('s, json list) act"
  sb_validate :: "'s \<Rightarrow> string \<Rightarrow> loop_error + unit"
  sb_load :: "'s \<Rightarrow> loop_error + json"
  sb_store :: "json \<Rightarrow> ('s, unit) act"

section \<open>The contract\<close>

text \<open>
  What the engine needs of any substrate: what is stored is loaded, a failed store changes
  nothing, and no other operation touches the stored loop state.
\<close>

locale state_store =
  fixes S :: "'s substrate"
  assumes store_load: "sb_store S v s = (Inr u, t) \<Longrightarrow> sb_load S t = Inr v"
    and store_fail: "sb_store S v s = (Inl e, t) \<Longrightarrow> sb_load S t = sb_load S s"
    and put_load: "sb_put S spec s = (r, t) \<Longrightarrow> sb_load S t = sb_load S s"
    and retract_load: "sb_retract S h why s = (ru, t) \<Longrightarrow> sb_load S t = sb_load S s"
    and execute_load: "sb_execute S cal s = (rj, t) \<Longrightarrow> sb_load S t = sb_load S s"

text \<open>
  A substrate that keeps what it is given: a grain put is read back under its address with
  its type and fields, and storing the loop state or putting a grain loses no grain.
\<close>

locale grain_store = state_store S for S :: "'s substrate" +
  fixes ok :: "'s \<Rightarrow> bool"
  assumes ok_put: "ok s \<Longrightarrow> sb_put S spec s = (r, t) \<Longrightarrow> ok t"
    and ok_store: "ok s \<Longrightarrow> sb_store S v s = (ru, t) \<Longrightarrow> ok t"
    and put_grain: "ok s \<Longrightarrow> sb_put S spec s = (Inr h, t) \<Longrightarrow>
      \<exists>g. sb_grain S t h = Inr (Some g) \<and> lg_type g = gs_type spec \<and> lg_fields g = gs_fields spec"
    and put_keeps: "ok s \<Longrightarrow> sb_put S spec s = (r, t) \<Longrightarrow> sb_grain S s k = Inr (Some g) \<Longrightarrow>
      sb_grain S t k = Inr (Some g)"
    and store_keeps: "ok s \<Longrightarrow> sb_store S v s = (ru, t) \<Longrightarrow> sb_grain S t k = sb_grain S s k"

section \<open>The reference substrate\<close>

record ref_sub =
  rs_grains :: "loop_grain list"
  rs_by_hash :: "string \<Rightarrow> nat option"
  rs_caps :: capabilities
  rs_state :: json
  rs_next :: nat
  rs_clock :: int
  rs_heads :: "(string \<times> string list) list"
  rs_telemetry :: "telemetry_view option"

definition ref_new :: ref_sub where
  "ref_new = \<lparr>rs_grains = [], rs_by_hash = Map.empty,
     rs_caps = \<lparr>cap_forks = False, cap_telemetry = False, cap_embeddings = False\<rparr>,
     rs_state = JNull, rs_next = 0, rs_clock = 0, rs_heads = [], rs_telemetry = None\<rparr>"

definition set_capabilities :: "capabilities \<Rightarrow> ref_sub \<Rightarrow> ref_sub" where
  "set_capabilities c s = s\<lparr>rs_caps := c\<rparr>"

definition register_fork :: "string \<Rightarrow> string list \<Rightarrow> ref_sub \<Rightarrow> ref_sub" where
  "register_fork entity hs s =
     s\<lparr>rs_caps := (rs_caps s)\<lparr>cap_forks := True\<rparr>, rs_heads := bt_insert entity hs (rs_heads s)\<rparr>"

definition set_telemetry :: "telemetry_view \<Rightarrow> ref_sub \<Rightarrow> ref_sub" where
  "set_telemetry v s = s\<lparr>rs_caps := (rs_caps s)\<lparr>cap_telemetry := True\<rparr>, rs_telemetry := Some v\<rparr>"

definition pad8 :: "nat \<Rightarrow> string" where
  "pad8 n = replicate (8 - length (nat_str n)) (CHR ''0'') @ nat_str n"

definition mint_hash :: "ref_sub \<Rightarrow> string \<times> ref_sub" where
  "mint_hash s = (''ref-'' @ pad8 (rs_next s), s\<lparr>rs_next := rs_next s + 1\<rparr>)"

definition ref_insert :: "loop_grain \<Rightarrow> ref_sub \<Rightarrow> string \<times> ref_sub" where
  "ref_insert r s =
     (let (h, s) = (if lg_hash r = [] then mint_hash s else (lg_hash r, s));
          idx = length (rs_grains s)
      in (h, s\<lparr>rs_by_hash := (rs_by_hash s)(h \<mapsto> idx),
             rs_grains := rs_grains s @ [r\<lparr>lg_hash := h\<rparr>]\<rparr>))"

definition record_from_spec :: "grain_spec \<Rightarrow> ref_sub \<Rightarrow> loop_grain \<times> ref_sub" where
  "record_from_spec spec s =
     (let s = s\<lparr>rs_clock := rs_clock s + 1\<rparr>
      in (\<lparr>lg_hash = [], lg_type = gs_type spec,
           lg_ns = unwrap_or (gs_ns spec) (Option.bind (map_of (gs_fields spec) ''namespace'') as_str),
           lg_created = rs_clock s,
           lg_valid_to = Option.bind (map_of (gs_fields spec) ''valid_to_ms'') as_i64,
           lg_superseded = None, lg_fields = gs_fields spec\<rparr>, s))"

definition ref_grain_at :: "ref_sub \<Rightarrow> string \<Rightarrow> loop_grain option" where
  "ref_grain_at s h = map_option (\<lambda>i. rs_grains s ! i) (rs_by_hash s h)"

definition ref_grains_of_type ::
  "ref_sub \<Rightarrow> string \<Rightarrow> string option \<Rightarrow> read_opts \<Rightarrow> loop_error + loop_grain list" where
  "ref_grains_of_type s t ns o1 = Inr (filter (\<lambda>g. lg_type g = t
     \<and> (case ns of None \<Rightarrow> True | Some n \<Rightarrow> lg_ns g = n)
     \<and> (\<not> ro_live o1 \<or> is_live g)
     \<and> (case ro_since o1 of None \<Rightarrow> True | Some m \<Rightarrow> m \<le> lg_created g)) (rs_grains s))"

definition ref_heads :: "ref_sub \<Rightarrow> string option \<Rightarrow> loop_error + head_group list" where
  "ref_heads s ns =
     (if \<not> cap_forks (rs_caps s) then Inl (LopCapabilityMissing ''forks'')
      else Inr (map (\<lambda>(e, hs). \<lparr>hg_entity = e, hg_heads = hs\<rparr>) (rs_heads s)))"

definition ref_put :: "grain_spec \<Rightarrow> (ref_sub, string) act" where
  "ref_put spec s =
     (let (r, s) = record_from_spec spec s; (h, s) = ref_insert r s in (Inr h, s))"

definition mark_superseded :: "nat \<Rightarrow> string \<Rightarrow> ref_sub \<Rightarrow> ref_sub" where
  "mark_superseded i h s =
     s\<lparr>rs_grains := (rs_grains s)[i := (rs_grains s ! i)\<lparr>lg_superseded := Some h\<rparr>]\<rparr>"

definition ref_supersede :: "string \<Rightarrow> grain_spec \<Rightarrow> string \<Rightarrow> (ref_sub, string) act" where
  "ref_supersede target spec why s =
     (let (r, s) = record_from_spec spec s; (h, s) = ref_insert r s
      in (case rs_by_hash s target of
            None \<Rightarrow> (Inl (LopSubstrate (''supersede target '' @ target @ '' not found'')), s)
          | Some i \<Rightarrow> (Inr h, mark_superseded i h s)))"

definition ref_retract :: "string \<Rightarrow> string \<Rightarrow> (ref_sub, unit) act" where
  "ref_retract h reason s =
     (case rs_by_hash s h of
        None \<Rightarrow> (Inl (LopSubstrate (''retract target '' @ h @ '' not found'')), s)
      | Some i \<Rightarrow>
          let s = mark_superseded i ''retracted'' s;
              g = rs_grains s ! i;
              g = g\<lparr>lg_fields := bt_insert ''retract_reason'' (JStr reason)
                    (bt_insert ''verification_status'' (JStr ''retracted'') (lg_fields g))\<rparr>
          in (Inr (), s\<lparr>rs_grains := (rs_grains s)[i := g]\<rparr>))"

subsection \<open>Its CAL subset\<close>

text \<open>\<^verbatim>\<open>split_once\<close> at the first character of a kind.\<close>

definition split_at :: "(char \<Rightarrow> bool) \<Rightarrow> string \<Rightarrow> (string \<times> string) option" where
  "split_at P s =
     (if list_ex P s then Some (takeWhile (\<lambda>c. \<not> P c) s, drop 1 (dropWhile (\<lambda>c. \<not> P c) s)) else None)"

definition split_keyword :: "string \<Rightarrow> string \<times> string" where
  "split_keyword line =
     (case split_at is_whitespace line of
        Some (k, rest) \<Rightarrow> (k, trim_start rest)
      | None \<Rightarrow> (line, []))"

definition parse_type_and_json :: "loop_env \<Rightarrow> string \<Rightarrow> loop_error + string \<times> jmap" where
  "parse_type_and_json E s =
     (let before = takeWhile (\<lambda>c. c \<noteq> CHR 0x7B) s;
          after = dropWhile (\<lambda>c. c \<noteq> CHR 0x7B) s;
          gtype = trim before
      in if after = [] then Inl (LopCalUnsupported (''missing JSON object in '' @ debug_str s))
         else if gtype = [] then Inl (LopCalUnsupported (''missing grain type in '' @ debug_str s))
         else (case le_json_parse E (trim after) of
                 None \<Rightarrow> Inl (LopCalUnsupported (''bad JSON in '' @ debug_str s @ '': ''
                     @ le_parse_error E (trim after)))
               | Some v \<Rightarrow>
                   (case as_object v of
                      None \<Rightarrow> Inl (LopCalUnsupported (''JSON not an object in '' @ debug_str s))
                    | Some m \<Rightarrow> Inr (gtype, m))))"

definition hash_row :: "string \<Rightarrow> json list" where
  "hash_row h = [JObj [(''hash'', JStr h)]]"

definition spec_of :: "string \<times> jmap \<Rightarrow> grain_spec" where
  "spec_of tm = \<lparr>gs_type = fst tm, gs_ns = [], gs_fields = snd tm\<rparr>"

definition READ_VERBS :: "string list" where
  "READ_VERBS = [''RECALL'', ''ASSEMBLE'', ''EXPLAIN'', ''HISTORY'']"

definition ref_exec_line :: "loop_env \<Rightarrow> string \<Rightarrow> (ref_sub, json list) act" where
  "ref_exec_line E line =
     (let (keyword, rest) = split_keyword line; kw = to_ascii_uppercase keyword
      in if kw = ''FORGET'' then
           (\<lambda>s. (Inr [], case rs_by_hash s (trim rest) of
                           None \<Rightarrow> s
                         | Some i \<Rightarrow> mark_superseded i ''forgotten'' s))
         else if kw = ''RETRACT'' then
           act_bind (ref_retract (trim rest) ''cal retract'') (\<lambda>_. act_ret [])
         else if kw = ''ADD'' then
           act_bind (act_lift (parse_type_and_json E rest)) (\<lambda>tm.
           act_bind (ref_put (spec_of tm)) (\<lambda>h. act_ret (hash_row h)))
         else if kw = ''SUPERSEDE'' then
           (case split_once '' WITH '' rest of
              None \<Rightarrow> act_lift (Inl (LopCalUnsupported (''malformed SUPERSEDE: '' @ line)))
            | Some (target, after_with) \<Rightarrow>
                act_bind (act_lift (parse_type_and_json E after_with)) (\<lambda>tm.
                act_bind (ref_supersede (trim target) (spec_of tm) ''cal supersede'') (\<lambda>h.
                act_ret (hash_row h))))
         else if kw \<in> set READ_VERBS then act_ret []
         else act_lift (Inl (LopCalUnsupported (''unknown statement '' @ debug_str kw))))"

definition cal_lines :: "string \<Rightarrow> string list" where
  "cal_lines cal = filter (\<lambda>l. l \<noteq> []) (map trim (lines cal))"

fun ref_exec_lines :: "loop_env \<Rightarrow> string list \<Rightarrow> (ref_sub, json list) act" where
  "ref_exec_lines E [] = act_ret []"
| "ref_exec_lines E (l # ls) =
     act_bind (ref_exec_line E l) (\<lambda>r. act_bind (ref_exec_lines E ls) (\<lambda>rs. act_ret (r @ rs)))"

definition ref_execute :: "loop_env \<Rightarrow> string \<Rightarrow> (ref_sub, json list) act" where
  "ref_execute E cal = ref_exec_lines E (cal_lines cal)"

definition known_statement :: "string \<Rightarrow> loop_error + unit" where
  "known_statement line =
     (let kw = to_ascii_uppercase (fst (split_keyword line))
      in if kw \<in> set ([''ADD'', ''SUPERSEDE'', ''FORGET'', ''RETRACT''] @ READ_VERBS) then Inr ()
         else Inl (LopCalUnsupported (''unknown statement '' @ debug_str kw)))"

definition ref_validate :: "ref_sub \<Rightarrow> string \<Rightarrow> loop_error + unit" where
  "ref_validate s cal = and_then (map_res known_statement (cal_lines cal)) (\<lambda>_. Inr ())"

definition reference :: "loop_env \<Rightarrow> ref_sub substrate" where
  "reference E = \<lparr>sb_capabilities = rs_caps, sb_grains_of_type = ref_grains_of_type,
     sb_grain = (\<lambda>s h. Inr (ref_grain_at s h)), sb_heads = ref_heads,
     sb_telemetry = (\<lambda>s ns. Inr (rs_telemetry s)),
     sb_put = ref_put, sb_supersede = ref_supersede, sb_retract = ref_retract,
     sb_execute = ref_execute E, sb_validate = ref_validate,
     sb_load = (\<lambda>s. Inr (rs_state s)), sb_store = (\<lambda>v s. (Inr (), s\<lparr>rs_state := v\<rparr>))\<rparr>"

lemma reference_simps [simp]:
  "sb_capabilities (reference E) = rs_caps"
  "sb_grains_of_type (reference E) = ref_grains_of_type"
  "sb_grain (reference E) s h = Inr (ref_grain_at s h)"
  "sb_heads (reference E) = ref_heads"
  "sb_telemetry (reference E) s ns = Inr (rs_telemetry s)"
  "sb_put (reference E) = ref_put"
  "sb_supersede (reference E) = ref_supersede"
  "sb_retract (reference E) = ref_retract"
  "sb_execute (reference E) = ref_execute E"
  "sb_validate (reference E) = ref_validate"
  "sb_load (reference E) s = Inr (rs_state s)"
  "sb_store (reference E) v s = (Inr (), s\<lparr>rs_state := v\<rparr>)"
  by (simp_all add: reference_def)

section \<open>The reference substrate keeps the contract\<close>

definition decimal :: "string \<Rightarrow> nat" where
  "decimal s = foldl (\<lambda>n c. 10 * n + (code_of c - 48)) 0 s"

lemma decimal_snoc [simp]: "decimal (s @ [c]) = 10 * decimal s + (code_of c - 48)"
  by (simp add: decimal_def)

lemma digit_value: "d < 10 \<Longrightarrow> code_of (digit_char d) - 48 = d"
  by (simp add: digit_char_def)

lemma decimal_nat_str [simp]: "decimal (nat_str n) = n"
proof (induction n rule: nat_str.induct)
  case (1 n)
  then show ?case
    by (subst nat_str.simps) (auto simp: digit_value decimal_def [of "[_]"])
qed

lemma decimal_zeros [simp]: "decimal (replicate k (CHR ''0'') @ s) = decimal s"
proof -
  have "foldl (\<lambda>n c. 10 * n + (code_of c - 48)) 0 (replicate k (CHR ''0'')) = 0"
    by (induction k) (simp_all add: code_of_def)
  then show ?thesis by (simp add: decimal_def)
qed

lemma pad8_inj: "pad8 m = pad8 n \<Longrightarrow> m = n"
  by (metis decimal_nat_str decimal_zeros pad8_def)

text \<open>Addresses point into the grain list and were minted here.\<close>

definition ref_ok :: "ref_sub \<Rightarrow> bool" where
  "ref_ok s = (\<forall>k i. rs_by_hash s k = Some i \<longrightarrow>
     i < length (rs_grains s) \<and> (\<exists>n < rs_next s. k = ''ref-'' @ pad8 n))"

lemma ref_put_unfold:
  obtains r where "ref_put spec s = (Inr (''ref-'' @ pad8 (rs_next s)),
      s\<lparr>rs_clock := rs_clock s + 1, rs_next := rs_next s + 1,
        rs_by_hash := (rs_by_hash s)(''ref-'' @ pad8 (rs_next s) \<mapsto> length (rs_grains s)),
        rs_grains := rs_grains s @ [r]\<rparr>)"
    and "lg_type r = gs_type spec" and "lg_fields r = gs_fields spec"
    and "lg_hash r = ''ref-'' @ pad8 (rs_next s)" and "lg_superseded r = None"
  by (simp add: ref_put_def record_from_spec_def ref_insert_def mint_hash_def Let_def)

lemma ref_put_state: "rs_state (snd (ref_put spec s)) = rs_state s"
  by (simp add: ref_put_def record_from_spec_def ref_insert_def mint_hash_def Let_def)

lemma ref_put_grain:
  "ref_put spec s = (Inr h, t) \<Longrightarrow>
     \<exists>g. ref_grain_at t h = Some g \<and> lg_type g = gs_type spec \<and> lg_fields g = gs_fields spec"
  by (rule ref_put_unfold [of spec s]) (auto simp: ref_grain_at_def nth_append)

lemma ref_put_ok: "ref_ok s \<Longrightarrow> ref_ok (snd (ref_put spec s))"
  by (rule ref_put_unfold [of spec s]) (fastforce simp: ref_ok_def less_Suc_eq)

lemma ref_put_keeps:
  assumes "ref_ok s" and "ref_grain_at s k = Some g"
  shows "ref_grain_at (snd (ref_put spec s)) k = Some g"
proof (rule ref_put_unfold [of spec s])
  fix r assume put: "ref_put spec s = (Inr (''ref-'' @ pad8 (rs_next s)),
      s\<lparr>rs_clock := rs_clock s + 1, rs_next := rs_next s + 1,
        rs_by_hash := (rs_by_hash s)(''ref-'' @ pad8 (rs_next s) \<mapsto> length (rs_grains s)),
        rs_grains := rs_grains s @ [r]\<rparr>)"
  obtain i where i: "rs_by_hash s k = Some i" using assms(2) by (auto simp: ref_grain_at_def)
  then obtain n where "n < rs_next s" "k = ''ref-'' @ pad8 n" "i < length (rs_grains s)"
    using assms(1) by (auto simp: ref_ok_def)
  moreover from this have "k \<noteq> ''ref-'' @ pad8 (rs_next s)" using pad8_inj [of n "rs_next s"] by auto
  ultimately show ?thesis using put i assms(2) by (simp add: ref_grain_at_def nth_append)
qed

lemma ref_retract_state: "rs_state (snd (ref_retract h why s)) = rs_state s"
  by (simp add: ref_retract_def mark_superseded_def Let_def split: option.split)

lemma ref_supersede_state: "rs_state (snd (ref_supersede h spec why s)) = rs_state s"
  by (simp add: ref_supersede_def record_from_spec_def ref_insert_def mint_hash_def mark_superseded_def
      Let_def split: option.split)

text \<open>An action that leaves the stored loop state alone.\<close>

definition keeps_state :: "(ref_sub, 'a) act \<Rightarrow> bool" where
  "keeps_state m = (\<forall>s. rs_state (snd (m s)) = rs_state s)"

lemma keeps_bind: "keeps_state m \<Longrightarrow> (\<And>x. keeps_state (f x)) \<Longrightarrow> keeps_state (act_bind m f)"
  unfolding keeps_state_def act_bind_def by (auto split: prod.split sum.split) (metis snd_conv)+

lemma keeps_ret: "keeps_state (act_ret x)" and keeps_lift: "keeps_state (act_lift r)"
  and keeps_Pair: "keeps_state (Pair r)"
  and keeps_put: "keeps_state (ref_put spec)"
  and keeps_retract: "keeps_state (ref_retract h why)"
  and keeps_supersede: "keeps_state (ref_supersede h spec why)"
  by (simp_all add: keeps_state_def ref_put_state ref_retract_state ref_supersede_state)

lemmas keeps = keeps_bind keeps_ret keeps_lift keeps_Pair keeps_put keeps_retract keeps_supersede

lemma keeps_exec_line: "keeps_state (ref_exec_line E l)"
proof -
  have "keeps_state (\<lambda>s. (Inr [], case rs_by_hash s k of None \<Rightarrow> s
      | Some i \<Rightarrow> mark_superseded i ''forgotten'' s))" for k
    by (simp add: keeps_state_def mark_superseded_def split: option.split)
  then show ?thesis
    by (auto simp: ref_exec_line_def Let_def keeps split: prod.split option.split
        intro!: keeps_bind)
qed

lemma keeps_exec_lines: "keeps_state (ref_exec_lines E ls)"
  by (induction ls) (auto intro!: keeps keeps_exec_line)

interpretation reference: grain_store "reference E" ref_ok for E :: loop_env
proof
  show "sb_store (reference E) v s = (Inr u, t) \<Longrightarrow> sb_load (reference E) t = Inr v" for v s u t
    by (auto simp: reference_def)
  show "sb_store (reference E) v s = (Inl e, t) \<Longrightarrow> sb_load (reference E) t = sb_load (reference E) s" for v s e t
    by (auto simp: reference_def)
  show "sb_put (reference E) spec s = (r, t) \<Longrightarrow> sb_load (reference E) t = sb_load (reference E) s" for spec s r t
    using ref_put_state [of spec s] by (auto simp: reference_def)
  show "sb_retract (reference E) h why s = (ru, t) \<Longrightarrow> sb_load (reference E) t = sb_load (reference E) s" for h why s ru t
    using ref_retract_state [of h why s] by (auto simp: reference_def)
  show "sb_execute (reference E) cal s = (rj, t) \<Longrightarrow> sb_load (reference E) t = sb_load (reference E) s" for cal s rj t
    using keeps_exec_lines [of E "cal_lines cal"] by (auto simp: reference_def ref_execute_def keeps_state_def) (metis snd_conv)
  show "ref_ok s \<Longrightarrow> sb_put (reference E) spec s = (r, t) \<Longrightarrow> ref_ok t" for s spec r t
    using ref_put_ok [of s spec] by (auto simp: reference_def)
  show "ref_ok s \<Longrightarrow> sb_store (reference E) v s = (ru, t) \<Longrightarrow> ref_ok t" for s v ru t
    by (auto simp: reference_def ref_ok_def)
  show "ref_ok s \<Longrightarrow> sb_put (reference E) spec s = (Inr h, t) \<Longrightarrow>
      \<exists>g. sb_grain (reference E) t h = Inr (Some g) \<and> lg_type g = gs_type spec \<and> lg_fields g = gs_fields spec" for s spec h t
    using ref_put_grain [of spec s h t] by (auto simp: reference_def)
  show "ref_ok s \<Longrightarrow> sb_put (reference E) spec s = (r, t) \<Longrightarrow> sb_grain (reference E) s k = Inr (Some g) \<Longrightarrow>
      sb_grain (reference E) t k = Inr (Some g)" for s spec r t k g
    using ref_put_keeps [of s k g spec] by (auto simp: reference_def)
  show "ref_ok s \<Longrightarrow> sb_store (reference E) v s = (ru, t) \<Longrightarrow>
      sb_grain (reference E) t k = sb_grain (reference E) s k" for s v ru t k
    by (auto simp: reference_def ref_grain_at_def)
qed

end
