(* ===== verification/Loop_Cal.thy ===== *)
theory Loop_Cal
  imports Loop_Substrate
begin

text \<open>
  The CAL writer of the loop and its engine-side checks (\<^verbatim>\<open>cal.rs\<close>): the statements the
  analyzers emit, the strict inverse of the supersede writer, and the destructive-statement
  test that the apply gate keys off.
\<close>

section \<open>Writing\<close>

definition cal_forget :: "string \<Rightarrow> string" where
  "cal_forget h = ''FORGET '' @ h"

definition cal_add :: "loop_env \<Rightarrow> string \<Rightarrow> jmap \<Rightarrow> string" where
  "cal_add E t fs = ''ADD '' @ t @ '' '' @ le_json_text E (JObj fs)"

definition cal_supersede :: "loop_env \<Rightarrow> string \<Rightarrow> string \<Rightarrow> jmap \<Rightarrow> string" where
  "cal_supersede E target t fs =
     ''SUPERSEDE '' @ target @ '' WITH '' @ t @ '' '' @ le_json_text E (JObj fs)"

definition cal_batch :: "string list \<Rightarrow> string" where
  "cal_batch ss = join [CHR 0x0A] ss"

section \<open>Reading back a supersession\<close>

definition strip_prefix :: "string \<Rightarrow> string \<Rightarrow> string option" where
  "strip_prefix p s = (if starts_with s p then Some (drop (length p) s) else None)"

definition parse_own_supersede :: "loop_env \<Rightarrow> string \<Rightarrow> (string \<times> string \<times> jmap) option" where
  "parse_own_supersede E line = do {
     rest \<leftarrow> strip_prefix ''SUPERSEDE '' (trim line);
     (target, after) \<leftarrow> split_once '' WITH '' rest;
     (t, json_text) \<leftarrow> split_once '' '' (trim after);
     v \<leftarrow> le_json_parse E (trim json_text);
     fs \<leftarrow> as_object v;
     Some (trim target, t, fs) }"

section \<open>Destructive statements\<close>

definition leading_keyword :: "string \<Rightarrow> string" where
  "leading_keyword l =
     hd (split_on (\<lambda>c. \<not> is_ascii_alphanumeric c \<and> c \<noteq> CHR ''_'') (trim_start l))"

definition any_line_keyword :: "string \<Rightarrow> string list \<Rightarrow> bool" where
  "any_line_keyword cal keywords =
     list_ex (\<lambda>l. list_ex (\<lambda>k. eq_ignore_ascii_case (leading_keyword l) k) keywords) (lines cal)"

definition contains_forget :: "string \<Rightarrow> bool" where
  "contains_forget cal = any_line_keyword cal [''FORGET'']"

definition contains_destructive :: "string \<Rightarrow> bool" where
  "contains_destructive cal = any_line_keyword cal [''FORGET'', ''PURGE'']"

lemma forget_is_destructive: "contains_forget cal \<Longrightarrow> contains_destructive cal"
  by (auto simp: contains_forget_def contains_destructive_def any_line_keyword_def list_ex_iff)

section \<open>The check covers what the reference substrate forgets\<close>

lemma takeWhile_imp:
  "(\<And>c. c \<in> set (takeWhile Q s) \<Longrightarrow> P c) \<Longrightarrow> takeWhile P (takeWhile Q s) = takeWhile Q s"
  by (simp add: takeWhile_eq_all_conv)

lemma hd_split_on: "hd (split_on P s) = takeWhile (\<lambda>c. \<not> P c) s"
  by (induction s) (auto split: list.splits)

lemma split_keyword_fst: "fst (split_keyword l) = takeWhile (\<lambda>c. \<not> is_whitespace c) l"
proof (cases "list_ex is_whitespace l")
  case False
  then have "fst (split_keyword l) = l" by (simp add: split_keyword_def split_at_def)
  also have "l = takeWhile (\<lambda>c. \<not> is_whitespace c) l"
    using False by (metis list_ex_iff takeWhile_eq_all_conv)
  finally show ?thesis .
qed (simp add: split_keyword_def split_at_def)

lemma upper_char_forget:
  "ascii_upper_char c \<in> set ''FORGET'' \<Longrightarrow> is_ascii_alphanumeric c"
  by (auto simp: ascii_upper_char_def is_ascii_alphanumeric_def is_ascii_upper_def code_of_def split: if_splits)

lemma upper_lower_eq: "ascii_upper_char c = ascii_upper_char d \<Longrightarrow> ascii_lower_char c = ascii_lower_char d"
proof -
  assume u: "ascii_upper_char c = ascii_upper_char d"
  have "ascii_lower_char (ascii_upper_char x) = ascii_lower_char x" for x
    by (auto simp: ascii_upper_char_def ascii_lower_char_def is_ascii_upper_def is_ascii_lower_def)
  from this [of c] this [of d] u show ?thesis by simp
qed

lemma upper_eq_ignore_case:
  "to_ascii_uppercase a = to_ascii_uppercase b \<Longrightarrow> eq_ignore_ascii_case a b"
  unfolding to_ascii_uppercase_def eq_ignore_ascii_case_def
proof (induction a arbitrary: b)
  case (Cons c a)
  then obtain d b' where b: "b = d # b'" by (cases b) simp_all
  have "ascii_lower_char c = ascii_lower_char d"
    by (rule upper_lower_eq) (use Cons.prems b in simp)
  moreover have "map ascii_lower_char a = map ascii_lower_char b'"
    by (rule Cons.IH) (use Cons.prems b in simp)
  ultimately show ?case unfolding b list.map by simp
qed simp

lemma trim_start_split: "\<exists>w. trim_start l = trim l @ w \<and> (\<forall>c \<in> set w. is_whitespace c)"
proof -
  let ?r = "rev (trim_start l)"
  have "rev ?r = rev (dropWhile is_whitespace ?r) @ rev (takeWhile is_whitespace ?r)"
    by (metis rev_append takeWhile_dropWhile_id)
  moreover have "\<forall>c \<in> set (takeWhile is_whitespace ?r). is_whitespace c"
    by (auto dest: set_takeWhileD)
  ultimately show ?thesis by (auto simp: trim_def trim_end_def)
qed

lemma whitespace_no_word: "is_whitespace c \<Longrightarrow> \<not> is_ascii_alphanumeric c \<and> c \<noteq> CHR ''_''"
  by (auto simp: is_whitespace_def is_ascii_alphanumeric_def is_ascii_digit_def is_ascii_upper_def
      is_ascii_lower_def code_of_def)

lemma leading_keyword_word:
  assumes "\<And>c. c \<in> set (fst (split_keyword (trim l))) \<Longrightarrow> is_ascii_alphanumeric c"
  shows "leading_keyword l = fst (split_keyword (trim l))"
proof -
  let ?P = "\<lambda>c. \<not> (\<not> is_ascii_alphanumeric c \<and> c \<noteq> CHR ''_'')"
  let ?W = "\<lambda>c. \<not> is_whitespace c"
  obtain w where w: "trim_start l = trim l @ w" "\<forall>c \<in> set w. is_whitespace c"
    using trim_start_split by blast
  define word where "word = takeWhile ?W (trim l)"
  have word: "\<And>c. c \<in> set word \<Longrightarrow> is_ascii_alphanumeric c"
    using assms by (simp add: word_def split_keyword_fst)
  obtain r where r: "trim_start l = word @ r" "r = [] \<or> is_whitespace (hd r)"
  proof -
    define rest where "rest = dropWhile ?W (trim l)"
    have "trim_start l = word @ rest @ w" using w by (simp add: word_def rest_def)
    moreover have "rest = [] \<or> is_whitespace (hd rest)"
      using hd_dropWhile [of ?W "trim l"] by (auto simp only: rest_def)
    then have "rest @ w = [] \<or> is_whitespace (hd (rest @ w))"
      using w(2) by (cases rest; cases w) auto
    ultimately show ?thesis using that by blast
  qed
  have "takeWhile ?P (word @ r) = word @ takeWhile ?P r"
    using word by (intro takeWhile_append2) auto
  also have "takeWhile ?P r = []"
    using r(2) whitespace_no_word by (cases r) auto
  finally show ?thesis
    using r(1) by (simp add: leading_keyword_def hd_split_on split_keyword_fst word_def)
qed

text \<open>
  C15. A statement the reference substrate would execute as \<^verbatim>\<open>FORGET\<close> is always flagged.\<close>

theorem forget_flagged:
  assumes "\<not> contains_destructive cal" and "l \<in> set (cal_lines cal)"
  shows "to_ascii_uppercase (fst (split_keyword l)) \<noteq> ''FORGET''"
proof
  assume f: "to_ascii_uppercase (fst (split_keyword l)) = ''FORGET''"
  obtain k where k: "k \<in> set (lines cal)" "l = trim k"
    using assms(2) by (auto simp: cal_lines_def)
  have "is_ascii_alphanumeric c" if "c \<in> set (fst (split_keyword (trim k)))" for c
  proof (rule upper_char_forget)
    have "ascii_upper_char c \<in> set (to_ascii_uppercase (fst (split_keyword (trim k))))"
      using that by (simp add: to_ascii_uppercase_def)
    then show "ascii_upper_char c \<in> set ''FORGET''" using f k(2) by simp
  qed
  then have "leading_keyword k = fst (split_keyword l)"
    using leading_keyword_word k(2) by blast
  moreover have "eq_ignore_ascii_case (fst (split_keyword l)) ''FORGET''"
  proof (rule upper_eq_ignore_case)
    have "to_ascii_uppercase ''FORGET'' = ''FORGET''"
      by (simp add: to_ascii_uppercase_def ascii_upper_char_def is_ascii_lower_def code_of_def)
    then show "to_ascii_uppercase (fst (split_keyword l)) = to_ascii_uppercase ''FORGET''"
      using f by simp
  qed
  ultimately have "contains_destructive cal"
    using k(1) by (auto simp: contains_destructive_def any_line_keyword_def list_ex_iff intro!: bexI [of _ k])
  with assms(1) show False ..
qed

text \<open>What the writer emits, its inverse reads back.\<close>

lemma split_once_first:
  assumes "\<And>c. c \<in> set a \<Longrightarrow> c \<noteq> d"
  shows "split_once (d # ds) (a @ d # ds @ b) = Some (a, b)"
  using assms
proof (induction a)
  case Nil
  have "starts_with (ds @ b) ds" by simp
  then show ?case by simp
qed simp

theorem own_supersede_roundtrip:
  assumes parse: "le_json_parse E (le_json_text E (JObj m)) = Some (JObj m)"
    and tx: "le_json_text E (JObj m) \<noteq> []" "\<not> is_whitespace (hd (le_json_text E (JObj m)))"
      "\<not> is_whitespace (last (le_json_text E (JObj m)))"
    and h: "h \<noteq> []" "\<And>c. c \<in> set h \<Longrightarrow> \<not> is_whitespace c"
    and t: "t \<noteq> []" "\<And>c. c \<in> set t \<Longrightarrow> \<not> is_whitespace c"
  shows "parse_own_supersede E (cal_supersede E h t m) = Some (h, t, m)"
proof -
  let ?j = "le_json_text E (JObj m)"
  have space: "is_whitespace (CHR '' '')" by (simp add: is_whitespace_def code_of_def)
  have hn: "\<And>c. c \<in> set h \<Longrightarrow> c \<noteq> CHR '' ''" and tn: "\<And>c. c \<in> set t \<Longrightarrow> c \<noteq> CHR '' ''"
    using h(2) t(2) space by auto
  have S: "\<not> is_whitespace (CHR ''S'')" by (simp add: is_whitespace_def code_of_def)
  have trims: "trim (cal_supersede E h t m) = cal_supersede E h t m"
    "trim (t @ '' '' @ ?j) = t @ '' '' @ ?j" "trim ?j = ?j" "trim h = h"
  proof -
    show "trim (cal_supersede E h t m) = cal_supersede E h t m"
      by (rule trim_id) (use tx S in \<open>simp_all add: cal_supersede_def\<close>)
    show "trim (t @ '' '' @ ?j) = t @ '' '' @ ?j"
      by (rule trim_id) (use tx t in \<open>auto simp: hd_append\<close>)
    show "trim ?j = ?j" by (rule trim_id [OF tx])
    show "trim h = h" by (rule trim_id) (use h in auto)
  qed
  have "split_once '' WITH '' (h @ '' WITH '' @ t @ '' '' @ ?j) = Some (h, t @ '' '' @ ?j)"
    using split_once_first [of h "CHR '' ''" "''WITH ''" "t @ '' '' @ ?j"] hn by simp
  moreover have "split_once '' '' (t @ '' '' @ ?j) = Some (t, ?j)"
    using split_once_first [of t "CHR '' ''" "[]" ?j] tn by simp
  moreover have "strip_prefix ''SUPERSEDE '' (cal_supersede E h t m) = Some (h @ '' WITH '' @ t @ '' '' @ ?j)"
    by (simp add: strip_prefix_def cal_supersede_def)
  ultimately show ?thesis
    by (simp only: parse_own_supersede_def trims bind.simps prod.case parse as_object.simps)
qed

end
