(* ===== verification/Loop_Queue.thy ===== *)
theory Loop_Queue
  imports Loop_Cal "HOL-Library.Product_Lexorder"
begin

text \<open>
  The read side of the engine (\<^verbatim>\<open>engine.rs\<close>): loading and listing recommendations, the open
  deduplication keys, the run gate, and the re-measurement of applied recommendations.

  Counters are unbounded integers, differences of clock readings do not wrap.
\<close>

definition LOOP_NS :: string where "LOOP_NS = ''deja-loop''"

definition loaded :: "loop_env \<Rightarrow> 's substrate \<Rightarrow> 's \<Rightarrow> loop_error + loop_persisted" where
  "loaded E S s = and_then (sb_load S s) (from_value E)"

definition load_rec :: "loop_env \<Rightarrow> 's substrate \<Rightarrow> 's \<Rightarrow> string \<Rightarrow> loop_error + recommendation" where
  "load_rec E S s h =
     and_then (sb_grain S s h) (\<lambda>g. and_then (ok_or (LopNotFound h) g) (\<lambda>g.
       rec_from_fields E h (lg_fields g)))"

definition read_all :: read_opts where
  "read_all = \<lparr>ro_live = False, ro_since = None\<rparr>"

definition status_at :: "loop_persisted \<Rightarrow> string \<Rightarrow> rec_status" where
  "status_at p h = unwrap_or StPending (map_of (lp_status p) h)"

section \<open>The queue\<close>

definition queue_key :: "recommendation \<Rightarrow> nat \<times> int \<times> string \<times> string" where
  "queue_key r = (3 - severity_rank (rc_severity r), rc_created r, rc_dedup r, rc_hash r)"

definition listed :: "loop_persisted \<Rightarrow> rec_status option \<Rightarrow> recommendation list \<Rightarrow> recommendation list" where
  "listed p flt rs =
     filter (\<lambda>r. case flt of None \<Rightarrow> True | Some f \<Rightarrow> rc_status r = f)
       (map (\<lambda>r. r\<lparr>rc_status := status_at p (rc_hash r)\<rparr>) rs)"

definition recommendations ::
  "loop_env \<Rightarrow> 's substrate \<Rightarrow> 's \<Rightarrow> rec_status option \<Rightarrow> loop_error + recommendation list" where
  "recommendations E S s flt =
     and_then (loaded E S s) (\<lambda>p.
     and_then (sb_grains_of_type S s RECOMMENDATION (Some LOOP_NS) read_all) (\<lambda>gs.
     and_then (map_res (\<lambda>g. rec_from_fields E (lg_hash g) (lg_fields g)) gs) (\<lambda>rs.
     Inr (sort_key queue_key (listed p flt rs)))))"

definition existing_dedup_keys ::
  "'s substrate \<Rightarrow> 's \<Rightarrow> loop_persisted \<Rightarrow> loop_error + string list" where
  "existing_dedup_keys S s p =
     and_then (sb_grains_of_type S s RECOMMENDATION (Some LOOP_NS) read_all) (\<lambda>gs.
     Inr (concat (map (\<lambda>g.
       if status_at p (lg_hash g) \<in> {StPending, StApproved, StApplied}
       then (case str_field g ''dedup_key'' of None \<Rightarrow> [] | Some k \<Rightarrow> [k]) else []) gs)))"

section \<open>Gating\<close>

record run_options =
  op_min_new :: "int option"
  op_min_errors :: "int option"
  op_stale :: "int option"
  op_namespaces :: "string list"
  op_full_sweep :: bool
  op_trigger :: "string option"

datatype skip_reason = MinNewNotMet | NotStale | LockHeld

definition gate :: "run_options \<Rightarrow> loop_persisted \<Rightarrow> int \<Rightarrow> int \<Rightarrow> int \<Rightarrow> skip_reason option" where
  "gate o1 p new_grains new_errors now =
     (let any = op_min_new o1 \<noteq> None \<or> op_min_errors o1 \<noteq> None \<or> op_stale o1 \<noteq> None;
          min_new_ok = (case op_min_new o1 of None \<Rightarrow> False | Some m \<Rightarrow> m \<le> new_grains);
          min_err_ok = (case op_min_errors o1 of None \<Rightarrow> False | Some m \<Rightarrow> m \<le> new_errors);
          stale_ok = (case op_stale o1 of None \<Rightarrow> False | Some d \<Rightarrow>
                        (case ls_last_run (lp_state p) of None \<Rightarrow> True | Some prev \<Rightarrow> d \<le> now - prev))
      in if \<not> any then None
         else if min_new_ok \<or> min_err_ok \<or> stale_ok then None
         else if op_stale o1 \<noteq> None \<and> op_min_new o1 = None \<and> op_min_errors o1 = None
         then Some NotStale
         else Some MinNewNotMet)"

fun count_types ::
  "'s substrate \<Rightarrow> 's \<Rightarrow> read_opts \<Rightarrow> string list \<Rightarrow> int \<times> int \<Rightarrow> loop_error + int \<times> int" where
  "count_types S s o1 [] acc = Inr acc"
| "count_types S s o1 (t # ts) (n, e) =
     and_then (sb_grains_of_type S s t None o1) (\<lambda>gs.
       count_types S s o1 ts (n + int (length gs),
         if t = TOOL then e + int (length (filter is_error gs)) else e))"

definition count_new :: "'s substrate \<Rightarrow> 's \<Rightarrow> int option \<Rightarrow> loop_error + int \<times> int" where
  "count_new S s watermark =
     count_types S s \<lparr>ro_live = False, ro_since = map_option (\<lambda>w. w + 1) watermark\<rparr>
       [FACT, EVENT, TOOL, OBSERVATION] (0, 0)"

section \<open>Outcomes\<close>

fun f64_add :: "loop_env \<Rightarrow> f64 \<Rightarrow> f64 \<Rightarrow> f64" where
  "f64_add E (Finite a) (Finite b) = Finite (le_add E a b)"
| "f64_add E (Finite _) y = y"
| "f64_add E x (Finite _) = x"
| "f64_add E PosInf PosInf = PosInf"
| "f64_add E NegInf NegInf = NegInf"
| "f64_add E _ _ = NaN"

definition f64_epsilon :: f64 where "f64_epsilon = Finite (1 / 4503599627370496)"

definition of_count :: "loop_env \<Rightarrow> nat \<Rightarrow> f64" where
  "of_count E n = Finite (le_rnd E (int n))"

definition normalize_token :: "string \<Rightarrow> string" where
  "normalize_token token =
     (if CHR ''/'' \<in> set token \<or> CHR 0x5C \<in> set token then ''<path>''
      else fst (fold (\<lambda>c (out, prev_digit).
             if is_ascii_digit c then (if prev_digit then out else out @ ''#'', True)
             else (out @ [c], False)) token ([], False)))"

definition normalize_signature :: "string \<Rightarrow> string" where
  "normalize_signature content =
     fold (\<lambda>token out. (if out \<noteq> [] then out @ '' '' else out) @ normalize_token token)
       (words_ws (take 80 (to_lowercase (trim content)))) []"

definition scoped_live_facts ::
  "'s substrate \<Rightarrow> 's \<Rightarrow> string option \<Rightarrow> string \<Rightarrow> loop_error + loop_grain list" where
  "scoped_live_facts S s ns subject =
     and_then (sb_grains_of_type S s FACT None read_opts_default) (\<lambda>gs.
     Inr (filter (\<lambda>f. (case ns of None \<Rightarrow> True | Some n \<Rightarrow> normalize_ident (lg_ns f) = n)
       \<and> (case fact_subject f of None \<Rightarrow> False | Some x \<Rightarrow> normalize_ident x = subject)) gs))"

definition tool_recurrence ::
  "loop_env \<Rightarrow> 's substrate \<Rightarrow> 's \<Rightarrow> metric \<Rightarrow> string \<Rightarrow> int \<Rightarrow> loop_error + f64" where
  "tool_recurrence E S s m tool since =
     and_then (sb_grains_of_type S s TOOL None \<lparr>ro_live = True, ro_since = Some since\<rparr>) (\<lambda>gs.
     Inr (of_count E (length (filter (\<lambda>t. tool_name t = Some tool \<and> is_error t
       \<and> (case me_relation m of None \<Rightarrow> True
           | Some sig \<Rightarrow> normalize_signature (unwrap_or [] (tool_content t)) = sig)) gs))))"

definition contradiction_recurrence ::
  "loop_env \<Rightarrow> 's substrate \<Rightarrow> 's \<Rightarrow> metric \<Rightarrow> string \<Rightarrow> string \<Rightarrow> loop_error + f64" where
  "contradiction_recurrence E S s m subject relation =
     and_then (scoped_live_facts S s (me_ns m) subject) (\<lambda>fs.
     Inr (of_count E (length (remdups (List.map_filter (\<lambda>f.
       case fact_relation f of
         None \<Rightarrow> None
       | Some r \<Rightarrow> if normalize_ident r = relation then map_option normalize_ident (fact_object f)
                   else None) fs)) - 1)))"

definition measure_metric ::
  "loop_env \<Rightarrow> 's substrate \<Rightarrow> 's \<Rightarrow> metric \<Rightarrow> int \<Rightarrow> loop_error + f64 option" where
  "measure_metric E S s m since =
     (if me_metric m = ''tool_error_recurrence'' then
        (case me_subject m of
           None \<Rightarrow> Inr None
         | Some tool \<Rightarrow> and_then (tool_recurrence E S s m tool since) (\<lambda>n. Inr (Some n)))
      else if me_metric m = ''contradiction_recurrence'' then
        (case (me_subject m, me_relation m) of
           (Some subject, Some relation) \<Rightarrow>
             and_then (contradiction_recurrence E S s m subject relation) (\<lambda>n. Inr (Some n))
         | _ \<Rightarrow> Inr None)
      else Inr None)"

record outcome_input =
  oi_rec :: string
  oi_target :: string
  oi_metric :: string
  oi_baseline :: f64
  oi_current :: f64
  oi_unit :: string

text \<open>The checkpoints of applied recommendations that are past due and not yet measured.\<close>

definition due_horizons :: "loop_persisted \<Rightarrow> int \<Rightarrow> string \<Rightarrow> applied_record \<Rightarrow> int list" where
  "due_horizons p now h a =
     (if map_of (lp_status p) h \<noteq> Some StApplied then []
      else (case ap_metric a of
              None \<Rightarrow> []
            | Some m \<Rightarrow> filter (\<lambda>z. z \<le> now - ap_at a \<and> z \<notin> set (unwrap_or [] (map_of (lp_measured p) h)))
                (horizons m)))"

definition due_checkpoints ::
  "loop_persisted \<Rightarrow> int \<Rightarrow> (string \<times> applied_record \<times> metric \<times> int) list" where
  "due_checkpoints p now = concat (map (\<lambda>(h, a).
     (case ap_metric a of
        None \<Rightarrow> []
      | Some m \<Rightarrow> map (\<lambda>z. (h, a, m, z)) (due_horizons p now h a))) (lp_applied p))"

definition push_at :: "string \<Rightarrow> 'a \<Rightarrow> (string \<times> 'a list) list \<Rightarrow> (string \<times> 'a list) list" where
  "push_at k x m = bt_insert k (unwrap_or [] (map_of m k) @ [x]) m"

fun measure_due ::
  "loop_env \<Rightarrow> 's substrate \<Rightarrow> 's \<Rightarrow> int \<Rightarrow> (string \<times> applied_record \<times> metric \<times> int) list \<Rightarrow>
     loop_persisted \<times> outcome_input list \<Rightarrow> loop_error + loop_persisted \<times> outcome_input list" where
  "measure_due E S s now [] acc = Inr acc"
| "measure_due E S s now ((h, a, m, z) # due) (p, out) =
     and_then (measure_metric E S s m (ap_at a)) (\<lambda>c.
       case c of
         None \<Rightarrow> measure_due E S s now due (p, out)
       | Some current \<Rightarrow>
           let regressed = f64_less (f64_add E (me_baseline m) f64_epsilon) current;
               result = \<lparr>or_rec = h, or_metric = me_metric m, or_baseline = me_baseline m,
                 or_current = current, or_verdict = (if regressed then ''regressed'' else ''held''),
                 or_horizon = z, or_measured = now\<rparr>;
               p = p\<lparr>lp_outcomes := push_at h result (lp_outcomes p),
                    lp_measured := push_at h z (lp_measured p)\<rparr>;
               input = \<lparr>oi_rec = h, oi_target = ap_target a, oi_metric = me_metric m,
                 oi_baseline = me_baseline m, oi_current = current, oi_unit = me_unit m\<rparr>
           in measure_due E S s now due (p, if regressed then out @ [input] else out))"

definition measure_outcomes ::
  "loop_env \<Rightarrow> 's substrate \<Rightarrow> 's \<Rightarrow> loop_persisted \<Rightarrow> int \<Rightarrow>
     loop_error + loop_persisted \<times> outcome_input list" where
  "measure_outcomes E S s p now = measure_due E S s now (due_checkpoints p now) (p, [])"

definition outcome_key :: "outcome_result \<Rightarrow> int \<times> int \<times> string \<times> string" where
  "outcome_key r = (or_measured r, or_horizon r, or_metric r, or_rec r)"

definition outcomes :: "loop_env \<Rightarrow> 's substrate \<Rightarrow> 's \<Rightarrow> loop_error + outcome_result list" where
  "outcomes E S s = and_then (loaded E S s) (\<lambda>p.
     Inr (sort_key outcome_key (concat (map snd (lp_outcomes p)))))"

section \<open>Health and metrics\<close>

record health =
  he_last_run :: "int option"
  he_grains :: int
  he_errors :: int
  he_pending :: nat
  he_applied :: nat
  he_total :: nat
  he_stale :: bool

definition health_of :: "loop_env \<Rightarrow> 's substrate \<Rightarrow> 's \<Rightarrow> int \<Rightarrow> loop_error + health" where
  "health_of E S s now =
     and_then (loaded E S s) (\<lambda>p.
     and_then (count_new S s (ls_watermark (lp_state p))) (\<lambda>(grains, errors).
     and_then (recommendations E S s None) (\<lambda>recs.
     Inr \<lparr>he_last_run = ls_last_run (lp_state p), he_grains = grains, he_errors = errors,
        he_pending = length (filter (\<lambda>r. rc_status r = StPending) recs),
        he_applied = length (filter (\<lambda>r. rc_status r = StApplied) recs),
        he_total = length recs,
        he_stale = (case ls_last_run (lp_state p) of
                      None \<Rightarrow> True
                    | Some prev \<Rightarrow> 7 * 86400000 \<le> now - prev \<or> 100 \<le> grains)\<rparr>)))"

record llm_metrics =
  lm_proposed :: nat
  lm_pending :: nat
  lm_approved :: nat
  lm_rejected :: nat
  lm_rate :: "f64 option"

definition is_llm :: "recommendation \<Rightarrow> bool" where
  "is_llm r = (case rc_origin r of OLlm _ \<Rightarrow> True | _ \<Rightarrow> False)"

definition llm_metrics_of :: "loop_env \<Rightarrow> 's substrate \<Rightarrow> 's \<Rightarrow> loop_error + llm_metrics" where
  "llm_metrics_of E S s =
     and_then (recommendations E S s None) (\<lambda>recs.
       let rs = filter is_llm recs;
           cnt = (\<lambda>X. length (filter (\<lambda>r. rc_status r \<in> X) rs));
           approved = cnt {StApproved, StApplied, StRolledBack};
           rejected = cnt {StRejected};
           decided = approved + rejected
       in Inr \<lparr>lm_proposed = length rs, lm_pending = cnt {StPending}, lm_approved = approved,
            lm_rejected = rejected,
            lm_rate = (if 0 < decided
               then Some (Finite (le_div E (le_rnd E (int approved)) (le_rnd E (int decided))))
               else None)\<rparr>)"

section \<open>Laws\<close>

text \<open>The gate lets a run through exactly when no option is set or one of them is met.\<close>

lemma gate_None_iff:
  "gate o1 p n e now = None \<longleftrightarrow>
     (op_min_new o1 = None \<and> op_min_errors o1 = None \<and> op_stale o1 = None)
     \<or> (\<exists>m. op_min_new o1 = Some m \<and> m \<le> n) \<or> (\<exists>m. op_min_errors o1 = Some m \<and> m \<le> e)
     \<or> (\<exists>d. op_stale o1 = Some d \<and>
          (ls_last_run (lp_state p) = None \<or> d \<le> now - the (ls_last_run (lp_state p))))"
  by (auto simp: gate_def Let_def split: option.splits if_splits)

lemma due_measured:
  "(h, a, m, z) \<in> set (due_checkpoints p now) \<Longrightarrow>
     (h, a) \<in> set (lp_applied p) \<and> ap_metric a = Some m \<and> map_of (lp_status p) h = Some StApplied
     \<and> z \<in> set (horizons m) \<and> z \<le> now - ap_at a \<and> z \<notin> set (unwrap_or [] (map_of (lp_measured p) h))"
  by (auto simp: due_checkpoints_def due_horizons_def split: option.splits if_splits)

lemma measured_push [simp]:
  "map_of (push_at k x m) j = (if j = k then Some (unwrap_or [] (map_of m k) @ [x]) else map_of m j)"
  by (simp add: push_at_def)

end
