(* ===== verification/Loop_Llm.thy ===== *)
theory Loop_Llm
  imports Loop_Queue
begin

text \<open>
  The optional model stages (\<^verbatim>\<open>llm.rs\<close> and the discover, ground, verify and enrich stages of
  \<^verbatim>\<open>engine.rs\<close>). A backend is a function from requests to responses; what \<^verbatim>\<open>serde_json\<close>
  makes of requests and responses is the record \<open>llm_wire\<close>.
\<close>

section \<open>Requests and responses\<close>

definition MAX_LLM_DRAFTS :: nat where "MAX_LLM_DRAFTS = 8"
definition MAX_GUIDANCE_LEN :: nat where "MAX_GUIDANCE_LEN = 600"
definition MAX_SUMMARY_LEN :: nat where "MAX_SUMMARY_LEN = 200"

record finding_brief =
  fb_analyzer :: string
  fb_summary :: string
  fb_target :: string
  fb_severity :: string

record evidence_item =
  ei_hash :: string
  ei_type :: string
  ei_text :: string

record llm_request =
  lr_loop :: int
  lr_op :: string
  lr_instructions :: string
  lr_findings :: "finding_brief list"
  lr_evidence :: "evidence_item list"
  lr_rejected :: "string list"
  lr_approved :: "string list"

record llm_draft =
  ld_summary :: string
  ld_target :: string
  ld_guidance :: string
  ld_evidence :: "string list"
  ld_confidence :: f64

record enrich_note =
  en_target :: string
  en_guidance :: string

record ground_item =
  gi_id :: nat
  gi_claim :: string
  gi_evidence :: "evidence_item list"

record ground_request =
  gr_loop :: int
  gr_op :: string
  gr_instructions :: string
  gr_claims :: "ground_item list"

record ground_result =
  go_id :: nat
  go_supported :: bool
  go_reason :: string

record verify_item =
  vi_id :: nat
  vi_summary :: string
  vi_target :: string
  vi_evidence :: "evidence_item list"

record verify_request =
  vr_loop :: int
  vr_op :: string
  vr_instructions :: string
  vr_findings :: "verify_item list"

record verify_result =
  vo_id :: nat
  vo_keep :: bool
  vo_confidence :: f64
  vo_reason :: string

record llm_wire =
  lw_request :: "llm_request \<Rightarrow> string option"
  lw_ground_request :: "ground_request \<Rightarrow> string option"
  lw_verify_request :: "verify_request \<Rightarrow> string option"
  lw_discover :: "string \<Rightarrow> llm_draft list option"
  lw_enrich :: "string \<Rightarrow> enrich_note list option"
  lw_ground :: "string \<Rightarrow> ground_result list option"
  lw_verify :: "string \<Rightarrow> verify_result list option"

record llm_backend =
  lb_model :: string
  lb_complete :: "string \<Rightarrow> loop_error + string"

definition parse_discover :: "llm_wire \<Rightarrow> string \<Rightarrow> llm_draft list" where
  "parse_discover W raw = unwrap_or [] (lw_discover W (trim raw))"

definition parse_enrich :: "llm_wire \<Rightarrow> string \<Rightarrow> enrich_note list" where
  "parse_enrich W raw = unwrap_or [] (lw_enrich W (trim raw))"

definition parse_ground :: "llm_wire \<Rightarrow> string \<Rightarrow> ground_result list" where
  "parse_ground W raw = unwrap_or [] (lw_ground W (trim raw))"

definition parse_verify :: "llm_wire \<Rightarrow> string \<Rightarrow> verify_result list" where
  "parse_verify W raw = unwrap_or [] (lw_verify W (trim raw))"

definition cap :: "string \<Rightarrow> nat \<Rightarrow> string" where
  "cap s m = (if length s \<le> m then s else take m s)"

text \<open>A call that cannot be rendered or that the backend refuses gives nothing.\<close>

definition complete :: "llm_backend \<Rightarrow> string option \<Rightarrow> string option" where
  "complete B body =
     (case body of
        None \<Rightarrow> None
      | Some b \<Rightarrow> (case lb_complete B b of Inl _ \<Rightarrow> None | Inr raw \<Rightarrow> Some raw))"

section \<open>Instructions\<close>

definition DISCOVER_INSTRUCTIONS :: string where
  "DISCOVER_INSTRUCTIONS =
     ''You review an agent's memory for quality. Given deterministic findings and the ''
     @ ''evidence they cite, propose ADDITIONAL findings the deterministic checks would miss ''
     @ ''(e.g. a semantic contradiction, a stale assumption, a duplicated meaning). SCORING: ''
     @ ''propose a finding ONLY if you are more than 0.75 confident it is BOTH correct AND ''
     @ ''materially useful. A correct, useful finding earns 1; a wrong or trivial one is ''
     @ ''penalized 2; returning nothing earns 0. When in doubt, propose nothing - an empty ''
     @ ''list is the correct answer when there is nothing worth flagging. The 'approved' and ''
     @ '''rejected' lists, when present, show findings this reviewer recently accepted or ''
     @ ''rejected - prefer the kind they accept and avoid the kind they reject. Every ''
     @ ''proposal MUST cite one or more evidence hashes from the bundle, target a memory ''
     @ ''entity, and include your confidence 0.0-1.0. Return JSON: ''
     @ ''{'' @ [CHR 0x22] @ ''recommendations'' @ [CHR 0x22] @ '':[{'' @ [CHR 0x22] @ ''summary'' @ [CHR 0x22] @ '':'' @ [CHR 0x22] @ ''...'' @ [CHR 0x22] @ '','' @ [CHR 0x22] @ ''target'' @ [CHR 0x22] @ '':'' @ [CHR 0x22] @ ''entity:<ns>/<subject>'' @ [CHR 0x22] @ '','' @ [CHR 0x22] @ ''guidance'' @ [CHR 0x22] @ '':'' @ [CHR 0x22] @ ''...'' @ [CHR 0x22] @ '','' @ [CHR 0x22] @ ''evidence'' @ [CHR 0x22] @ '':['' @ [CHR 0x22] @ ''<hash>'' @ [CHR 0x22] @ ''],'' @ [CHR 0x22] @ ''confidence'' @ [CHR 0x22] @ '':0.0}]}.''
     @ '' Propose nothing you cannot ground in the evidence.''"

definition GROUND_INSTRUCTIONS :: string where
  "GROUND_INSTRUCTIONS =
     ''You are a grounding checker guarding against fabrication. A finding may draw an ''
     @ ''INFERENCE from facts - your job is to confirm the facts it relies on are actually ''
     @ ''present in the cited evidence, NOT that its conclusion is stated verbatim. Decompose ''
     @ ''the finding into the factual claims it depends on. Mark supported=true when those ''
     @ ''facts are present in the evidence (even if the finding reasons beyond them). Mark ''
     @ ''supported=false ONLY if it relies on a fact that is NOT in the evidence (a ''
     @ ''fabrication) or cites evidence about a different subject. Return JSON: ''
     @ ''{'' @ [CHR 0x22] @ ''results'' @ [CHR 0x22] @ '':[{'' @ [CHR 0x22] @ ''id'' @ [CHR 0x22] @ '':0,'' @ [CHR 0x22] @ ''supported'' @ [CHR 0x22] @ '':true,'' @ [CHR 0x22] @ ''reason'' @ [CHR 0x22] @ '':'' @ [CHR 0x22] @ ''...'' @ [CHR 0x22] @ ''}]}.''"

definition VERIFY_INSTRUCTIONS :: string where
  "VERIFY_INSTRUCTIONS =
     ''You are an adversarial reviewer stress-testing each finding for SOUNDNESS - reject ''
     @ ''unsound findings, but only for real reasons, never invented ones. For each finding, ''
     @ ''ask: (1) Reality - is there a genuine, SPECIFIC problem, or is it vague/speculative? ''
     @ ''Reject hedged 'potential' or 'possible' findings with no concrete defect, and reject ''
     @ ''any claimed inconsistency or contradiction that is not backed by at least two ''
     @ ''actually conflicting facts in the cited evidence. (2) Context - does the finding ''
     @ ''correctly read its cited evidence, or misinterpret what the grains say? Keep a ''
     @ ''finding when it names a genuine, specific problem grounded in its evidence and ''
     @ ''materially useful to a human reviewer; otherwise reject it, and default to ''
     @ ''keep=false when uncertain. Do NOT reject a finding for being 'already known', ''
     @ ''redundant, or a 'common type of error' - duplication is handled elsewhere, and a ''
     @ ''grounded cross-fact inconsistency with two conflicting facts is exactly what to ''
     @ ''KEEP. Give a calibrated confidence 0.0-1.0. Return JSON: ''
     @ ''{'' @ [CHR 0x22] @ ''results'' @ [CHR 0x22] @ '':[{'' @ [CHR 0x22] @ ''id'' @ [CHR 0x22] @ '':0,'' @ [CHR 0x22] @ ''keep'' @ [CHR 0x22] @ '':true,'' @ [CHR 0x22] @ ''confidence'' @ [CHR 0x22] @ '':0.0,'' @ [CHR 0x22] @ ''reason'' @ [CHR 0x22] @ '':'' @ [CHR 0x22] @ ''...'' @ [CHR 0x22] @ ''}]}.''"

definition ENRICH_INSTRUCTIONS :: string where
  "ENRICH_INSTRUCTIONS =
     ''For each finding, optionally add a one-sentence guidance note to help a human ''
     @ ''reviewer decide. Do not restate the finding. Return JSON: ''
     @ ''{'' @ [CHR 0x22] @ ''notes'' @ [CHR 0x22] @ '':[{'' @ [CHR 0x22] @ ''target'' @ [CHR 0x22] @ '':'' @ [CHR 0x22] @ ''<target_ref>'' @ [CHR 0x22] @ '','' @ [CHR 0x22] @ ''guidance'' @ [CHR 0x22] @ '':'' @ [CHR 0x22] @ ''...'' @ [CHR 0x22] @ ''}]}.''"

section \<open>Evidence\<close>

fun f64_clamp01 :: "f64 \<Rightarrow> f64" where
  "f64_clamp01 NaN = NaN"
| "f64_clamp01 x =
     (if f64_less x (Finite 0) then Finite 0 else if f64_less (Finite 1) x then Finite 1 else x)"

definition MIN_LLM_CONFIDENCE :: f64 where "MIN_LLM_CONFIDENCE = Finite (3/4)"

definition grain_brief :: "loop_grain \<Rightarrow> string" where
  "grain_brief g =
     (case (fact_subject g, fact_relation g, fact_object g) of
        (Some s, Some r, Some ob) \<Rightarrow> s @ '' '' @ r @ '' '' @ ob
      | _ \<Rightarrow>
          (case find (\<lambda>k. case str_field g k of None \<Rightarrow> False | Some v \<Rightarrow> v \<noteq> [])
                  [''content'', ''body'', ''text'', ''summary''] of
             None \<Rightarrow> []
           | Some k \<Rightarrow> unwrap_or [] (str_field g k)))"

type_synonym ev_bundle = "evidence_item list \<times> string list"

definition push_evidence :: "loop_grain \<Rightarrow> ev_bundle \<Rightarrow> ev_bundle" where
  "push_evidence g b =
     (case b of (evidence, hashes) \<Rightarrow>
       if length evidence < 64 \<and> lg_hash g \<notin> set hashes
       then (evidence @ [\<lparr>ei_hash = lg_hash g, ei_type = lg_type g, ei_text = cap (grain_brief g) 400\<rparr>],
             hashes @ [lg_hash g])
       else b)"

definition cite :: "'s substrate \<Rightarrow> 's \<Rightarrow> string \<Rightarrow> ev_bundle \<Rightarrow> ev_bundle" where
  "cite S s h b =
     (if h \<in> set (snd b) then b
      else (case sb_grain S s h of Inr (Some g) \<Rightarrow> push_evidence g b | _ \<Rightarrow> b))"

text \<open>The recent grains of one type and namespace; a full bundle takes no more.\<close>

definition seed :: "'s substrate \<Rightarrow> 's \<Rightarrow> int option \<Rightarrow> string \<times> string option \<Rightarrow> ev_bundle \<Rightarrow> ev_bundle" where
  "seed S s watermark tn b =
     (case sb_grains_of_type S s (fst tn) (snd tn) \<lparr>ro_live = True, ro_since = watermark\<rparr> of
        Inl _ \<Rightarrow> b
      | Inr recent \<Rightarrow> fold push_evidence recent b)"

definition evidence_bundle ::
  "'s substrate \<Rightarrow> 's \<Rightarrow> recommendation list \<Rightarrow> int option \<Rightarrow> string list \<Rightarrow> ev_bundle" where
  "evidence_bundle S s candidates watermark namespaces =
     (let b = fold (\<lambda>c. fold (cite S s) (rc_evidence c)) candidates ([], []);
          scan_ns = (if namespaces = [] then [None] else map Some namespaces)
      in fold (seed S s watermark) (List.product [FACT, OBSERVATION] scan_ns) b)"

section \<open>Stages\<close>

definition brief :: "loop_env \<Rightarrow> recommendation \<Rightarrow> finding_brief" where
  "brief E r = \<lparr>fb_analyzer = rc_analyzer r, fb_summary = summary_render E (rc_summary r),
     fb_target = rc_target r, fb_severity = severity_str (rc_severity r)\<rparr>"

definition llm_history :: "loop_env \<Rightarrow> 's substrate \<Rightarrow> 's \<Rightarrow> string list \<times> string list" where
  "llm_history E S s =
     (case recommendations E S s None of
        Inl _ \<Rightarrow> ([], [])
      | Inr recs \<Rightarrow>
          let rs = sort_key (\<lambda>r. - rc_created r) (filter is_llm recs);
              pick = (\<lambda>X. take 20 (map (\<lambda>r. summary_render E (rc_summary r)) (filter (\<lambda>r. rc_status r \<in> X) rs)))
          in (pick {StApproved, StApplied, StRolledBack}, pick {StRejected}))"

definition stamp_llm :: "string \<Rightarrow> llm_draft \<Rightarrow> string \<Rightarrow> string list \<Rightarrow> f64 \<Rightarrow> int \<Rightarrow> recommendation" where
  "stamp_llm model d target cited confidence now =
     \<lparr>rc_hash = [], rc_analyzer = ''loop.llm/1'', rc_params = [], rc_origin = OLlm model,
      rc_target = target, rc_action = AFlag, rc_dedup = dedup_key ''llm'' target AFlag,
      rc_summary = \<lparr>su_template = ''llm.discover'',
        su_args = [(''text'', JStr (cap (ld_summary d) MAX_SUMMARY_LEN))]\<rparr>,
      rc_severity = SLow, rc_proposal = PData [(''source'', JStr ''llm'')],
      rc_destructive = False, rc_rollbackable = False, rc_evidence = cited,
      rc_evidence_query = None, rc_metric = None, rc_confidence = f64_clamp01 confidence,
      rc_importance = Finite (3/10), rc_created = now,
      rc_guidance = (if trim (ld_guidance d) = [] then None
                     else Some (cap (ld_guidance d) MAX_GUIDANCE_LEN)),
      rc_status = StPending\<rparr>"

type_synonym valid_draft = "llm_draft \<times> string \<times> string list"

definition evidence_for :: "evidence_item list \<Rightarrow> string list \<Rightarrow> evidence_item list" where
  "evidence_for evidence cited =
     List.map_filter (\<lambda>h. map_of (rev (map (\<lambda>e. (ei_hash e, e)) evidence)) h) cited"

definition ground_ids ::
  "llm_wire \<Rightarrow> llm_backend \<Rightarrow> valid_draft list \<Rightarrow> evidence_item list \<Rightarrow> nat list option" where
  "ground_ids W B validated evidence =
     (let claims = map (\<lambda>(i, d, t, cited). \<lparr>gi_id = i, gi_claim = cap (ld_summary d) MAX_SUMMARY_LEN,
            gi_evidence = evidence_for evidence cited\<rparr>) (enumerate 0 validated);
          body = lw_ground_request W \<lparr>gr_loop = 1, gr_op = ''ground'',
            gr_instructions = GROUND_INSTRUCTIONS, gr_claims = claims\<rparr>
      in map_option (\<lambda>raw. map go_id (filter go_supported (parse_ground W raw))) (complete B body))"

definition verify_confidences ::
  "llm_wire \<Rightarrow> llm_backend \<Rightarrow> valid_draft list \<Rightarrow> evidence_item list \<Rightarrow> nat list \<Rightarrow>
     (nat \<times> f64) list option" where
  "verify_confidences W B validated evidence grounded =
     (let items = map (\<lambda>(i, d, t, cited). \<lparr>vi_id = i, vi_summary = cap (ld_summary d) MAX_SUMMARY_LEN,
            vi_target = t, vi_evidence = evidence_for evidence cited\<rparr>)
            (filter (\<lambda>(i, _). i \<in> set grounded) (enumerate 0 validated));
          body = lw_verify_request W \<lparr>vr_loop = 1, vr_op = ''verify'',
            vr_instructions = VERIFY_INSTRUCTIONS, vr_findings = items\<rparr>
      in map_option (\<lambda>raw. map (\<lambda>r. (vo_id r, f64_clamp01 (vo_confidence r)))
           (filter vo_keep (parse_verify W raw))) (complete B body))"

definition route ::
  "llm_backend \<Rightarrow> valid_draft list \<Rightarrow> (nat \<times> f64) list \<Rightarrow> int \<Rightarrow> recommendation list" where
  "route B validated verdicts now = List.map_filter (\<lambda>(i, d, t, cited).
     case map_of (rev verdicts) i of
       None \<Rightarrow> None
     | Some c \<Rightarrow>
         if f64_ge c MIN_LLM_CONFIDENCE then Some (stamp_llm (lb_model B) d t cited c now) else None)
     (enumerate 0 validated)"

definition verify_drafts ::
  "llm_wire \<Rightarrow> llm_backend \<Rightarrow> llm_backend \<Rightarrow> valid_draft list \<Rightarrow> evidence_item list \<Rightarrow> int \<Rightarrow>
     recommendation list" where
  "verify_drafts W B G validated evidence now =
     (case ground_ids W G validated evidence of
        None \<Rightarrow> []
      | Some grounded \<Rightarrow>
          if grounded = [] then []
          else (case verify_confidences W B validated evidence grounded of
                  None \<Rightarrow> []
                | Some verdicts \<Rightarrow> route B validated verdicts now))"

text \<open>The structural checks: the draft cites evidence of the bundle and targets memory or a query.\<close>

definition validate_draft :: "string list \<Rightarrow> llm_draft \<Rightarrow> valid_draft option" where
  "validate_draft bundle d =
     (let cited = filter (\<lambda>h. h \<in> set bundle) (ld_evidence d)
      in if cited = [] then None
         else (case target_parse (ld_target d) of
                 Inl _ \<Rightarrow> None
               | Inr t \<Rightarrow>
                   if target_class t \<noteq> ''memory'' \<and> target_class t \<noteq> ''query'' then None
                   else Some (d, target_string t, cited)))"

definition discover_request ::
  "loop_env \<Rightarrow> 's substrate \<Rightarrow> 's \<Rightarrow> recommendation list \<Rightarrow> evidence_item list \<Rightarrow> llm_request" where
  "discover_request E S s candidates evidence =
     (case llm_history E S s of (approved, rejected) \<Rightarrow>
       \<lparr>lr_loop = 1, lr_op = ''discover'', lr_instructions = DISCOVER_INSTRUCTIONS,
        lr_findings = map (brief E) (take 32 candidates), lr_evidence = evidence,
        lr_rejected = rejected, lr_approved = approved\<rparr>)"

definition discover ::
  "loop_env \<Rightarrow> llm_wire \<Rightarrow> llm_backend option \<Rightarrow> llm_backend option \<Rightarrow> 's substrate \<Rightarrow> 's \<Rightarrow>
     recommendation list \<Rightarrow> int option \<Rightarrow> string list \<Rightarrow> int \<Rightarrow> recommendation list" where
  "discover E W llm ground S s candidates watermark namespaces now =
     (case llm of
        None \<Rightarrow> []
      | Some B \<Rightarrow>
          (case evidence_bundle S s candidates watermark namespaces of (evidence, bundle) \<Rightarrow>
            if evidence = [] then []
            else (case complete B (lw_request W (discover_request E S s candidates evidence)) of
                    None \<Rightarrow> []
                  | Some raw \<Rightarrow>
                      let validated = List.map_filter (validate_draft bundle)
                            (take MAX_LLM_DRAFTS (parse_discover W raw))
                      in if validated = [] then []
                         else verify_drafts W B (unwrap_or B ground) validated evidence now)))"

fun set_guidance :: "enrich_note \<Rightarrow> recommendation list \<Rightarrow> recommendation list" where
  "set_guidance n [] = []"
| "set_guidance n (r # rs) =
     (if rc_target r = en_target n \<and> rc_guidance r = None
      then r\<lparr>rc_guidance := Some (cap (en_guidance n) MAX_GUIDANCE_LEN)\<rparr> # rs
      else r # set_guidance n rs)"

definition enrich_request :: "loop_env \<Rightarrow> recommendation list \<Rightarrow> llm_request" where
  "enrich_request E rs = \<lparr>lr_loop = 1, lr_op = ''enrich'', lr_instructions = ENRICH_INSTRUCTIONS,
     lr_findings = map (brief E) rs, lr_evidence = [], lr_rejected = [], lr_approved = []\<rparr>"

definition enrich ::
  "loop_env \<Rightarrow> llm_wire \<Rightarrow> llm_backend option \<Rightarrow> recommendation list \<Rightarrow> recommendation list" where
  "enrich E W llm survivors =
     (case llm of
        None \<Rightarrow> survivors
      | Some B \<Rightarrow>
          if survivors = [] then survivors
          else (case complete B (lw_request W (enrich_request E survivors)) of
                  None \<Rightarrow> survivors
                | Some raw \<Rightarrow>
                    fold set_guidance (filter (\<lambda>n. trim (en_guidance n) \<noteq> []) (parse_enrich W raw))
                      survivors))"

section \<open>What a model can contribute\<close>

text \<open>A recommendation as every accepted draft becomes one.\<close>

definition llm_shaped :: "string list \<Rightarrow> recommendation \<Rightarrow> bool" where
  "llm_shaped bundle r \<longleftrightarrow>
     is_llm r \<and> rc_action r = AFlag \<and> rc_proposal r = PData [(''source'', JStr ''llm'')]
     \<and> rc_destructive r = False \<and> rc_severity r = SLow \<and> rc_evidence r \<noteq> []
     \<and> set (rc_evidence r) \<subseteq> set bundle \<and> f64_ge (rc_confidence r) (Finite (3/4))
     \<and> (\<exists>t. target_parse (rc_target r) = Inr t \<and> target_class t \<in> {''memory'', ''query''})"

lemma clamp_ge: "f64_ge c MIN_LLM_CONFIDENCE \<Longrightarrow> f64_ge (f64_clamp01 c) (Finite (3/4))"
  by (cases c) (auto simp: f64_ge_def MIN_LLM_CONFIDENCE_def)

lemma validate_shape:
  assumes "validate_draft bundle d = Some (e, t, cited)" and "f64_ge c MIN_LLM_CONFIDENCE"
  shows "llm_shaped bundle (stamp_llm m e t cited c now)"
proof -
  have "\<exists>u. target_parse (ld_target d) = Inr u \<and> target_class u \<in> {''memory'', ''query''}
      \<and> t = target_string u \<and> cited \<noteq> [] \<and> set cited \<subseteq> set bundle"
    using assms(1) by (auto simp: validate_draft_def Let_def split: sum.splits if_splits)
  then obtain u where u: "target_parse (ld_target d) = Inr u" "target_class u \<in> {''memory'', ''query''}"
    and t: "t = target_string u" and ne: "cited \<noteq> []" "set cited \<subseteq> set bundle"
    by blast
  have "target_parse t = Inr u" using u(1) t by (simp add: target_parse_Inr)
  then show ?thesis
    using u(2) ne clamp_ge [OF assms(2)] by (auto simp: llm_shaped_def stamp_llm_def is_llm_def)
qed

lemma map_filter_mem: "y \<in> set (List.map_filter f xs) \<longleftrightarrow> (\<exists>x \<in> set xs. f x = Some y)"
  by (force simp: List.map_filter_def image_iff)

lemma route_mem:
  assumes "r \<in> set (route B validated verdicts now)"
  obtains d t cited c where "(d, t, cited) \<in> set validated" and "f64_ge c MIN_LLM_CONFIDENCE"
    and "r = stamp_llm (lb_model B) d t cited c now"
proof -
  obtain i d t cited where "(i, d, t, cited) \<in> set (enumerate 0 validated)"
    and "(case map_of (rev verdicts) i of None \<Rightarrow> None
      | Some c \<Rightarrow> if f64_ge c MIN_LLM_CONFIDENCE then Some (stamp_llm (lb_model B) d t cited c now)
        else None) = Some r"
    using assms by (auto simp: route_def map_filter_mem)
  then show ?thesis
    using that by (auto simp: in_set_enumerate_eq nth_mem split: option.splits if_splits) (metis nth_mem)
qed

lemma verify_cases:
  "verify_drafts W B G v ev now = [] \<or> (\<exists>verdicts. verify_drafts W B G v ev now = route B v verdicts now)"
  by (auto simp: verify_drafts_def split: option.split)

lemma discover_cases:
  "discover E W llm ground S s candidates watermark namespaces now = [] \<or>
     (\<exists>B raw verdicts. discover E W llm ground S s candidates watermark namespaces now =
       route B (List.map_filter (validate_draft (snd (evidence_bundle S s candidates watermark namespaces)))
        (take MAX_LLM_DRAFTS (parse_discover W raw))) verdicts now)"
proof (cases llm)
  case (Some B)
  obtain evidence hs where b: "evidence_bundle S s candidates watermark namespaces = (evidence, hs)"
    by (cases "evidence_bundle S s candidates watermark namespaces")
  show ?thesis
  proof (cases "complete B (lw_request W (discover_request E S s candidates evidence))")
    case raw: (Some raw)
    let ?v = "List.map_filter (validate_draft hs) (take MAX_LLM_DRAFTS (parse_discover W raw))"
    from verify_cases [of W B "unwrap_or B ground" ?v evidence now] show ?thesis
    proof
      assume "\<exists>verdicts. verify_drafts W B (unwrap_or B ground) ?v evidence now = route B ?v verdicts now"
      then obtain verdicts where "verify_drafts W B (unwrap_or B ground) ?v evidence now = route B ?v verdicts now" ..
      then show ?thesis using Some b raw by (simp add: discover_def Let_def) blast
    qed (simp add: discover_def Some b raw Let_def)
  qed (simp add: discover_def Some b)
qed (simp add: discover_def)

lemma fold_push_bundle:
  "map ei_hash (fst b) = snd b \<Longrightarrow> length (fst b) \<le> 64 \<Longrightarrow>
     map ei_hash (fst (push_evidence g b)) = snd (push_evidence g b) \<and> length (fst (push_evidence g b)) \<le> 64"
  by (auto simp: push_evidence_def split: prod.splits)

text \<open>
  C13. Whatever the backends answer, a discovered recommendation is an advisory flag of model
  origin with nothing executable in it: it cites only grains of the evidence bundle shown to
  the model, at least one, targets memory or a query, is never destructive, and carries the
  confidence of the verifier, at least 3/4. At most eight come out of one pass.
\<close>

theorem discover_shapes:
  "list_all (llm_shaped (snd (evidence_bundle S s candidates watermark namespaces)))
       (discover E W llm ground S s candidates watermark namespaces now)
     \<and> length (discover E W llm ground S s candidates watermark namespaces now) \<le> 8"
proof -
  let ?b = "evidence_bundle S s candidates watermark namespaces"
  let ?out = "discover E W llm ground S s candidates watermark namespaces now"
  have mf: "length (List.map_filter f xs) \<le> length xs" for f :: "'x \<Rightarrow> 'y option" and xs
    by (simp add: List.map_filter_def)
  show ?thesis
    using discover_cases [of E W llm ground S s candidates watermark namespaces now]
  proof (elim disjE exE)
    fix B raw verdicts
    assume out: "?out = route B (List.map_filter (validate_draft (snd ?b))
        (take MAX_LLM_DRAFTS (parse_discover W raw))) verdicts now"
    let ?v = "List.map_filter (validate_draft (snd ?b)) (take MAX_LLM_DRAFTS (parse_discover W raw))"
    have "llm_shaped (snd ?b) r" if r: "r \<in> set ?out" for r
    proof -
      obtain d t cited c where "(d, t, cited) \<in> set ?v" "f64_ge c MIN_LLM_CONFIDENCE"
        "r = stamp_llm (lb_model B) d t cited c now"
        by (rule route_mem [OF r [unfolded out]])
      then show ?thesis by (auto simp: map_filter_mem intro: validate_shape)
    qed
    moreover have "length ?out \<le> 8"
    proof -
      have "length ?out \<le> length ?v" unfolding out route_def by (rule order_trans [OF mf]) simp
      also have "\<dots> \<le> length (take MAX_LLM_DRAFTS (parse_discover W raw))" by (rule mf)
      finally show ?thesis by (simp add: MAX_LLM_DRAFTS_def)
    qed
    ultimately show ?thesis by (simp add: list_all_iff)
  qed simp_all
qed

lemma set_guidance_only:
  "map (\<lambda>r. r\<lparr>rc_guidance := None\<rparr>) (set_guidance n rs) = map (\<lambda>r. r\<lparr>rc_guidance := None\<rparr>) rs"
  by (induction rs) auto

text \<open>Enrichment writes guidance notes and nothing else.\<close>

lemma enrich_only_guidance:
  "map (\<lambda>r. r\<lparr>rc_guidance := None\<rparr>) (enrich E W llm rs) = map (\<lambda>r. r\<lparr>rc_guidance := None\<rparr>) rs"
proof -
  have "map (\<lambda>r. r\<lparr>rc_guidance := None\<rparr>) (fold set_guidance ns rs) = map (\<lambda>r. r\<lparr>rc_guidance := None\<rparr>) rs" for ns
    by (induction ns arbitrary: rs) (simp_all add: set_guidance_only)
  then show ?thesis by (simp add: enrich_def split: option.split)
qed

end
