(* ===== verification/Loop_Engine.thy ===== *)
theory Loop_Engine
  imports Loop_Llm
begin

text \<open>
  The engine of the loop (\<^verbatim>\<open>engine.rs\<close>, \<^verbatim>\<open>analyzer.rs\<close>): scopes, analyzers and their
  context, stamping, the analysis pass, the run, and the governed lifecycle of a
  recommendation (review, apply, rollback, auto-apply, analyzer configuration).
\<close>

section \<open>Authority\<close>

datatype scope = ScRead | ScWrite | ScReview | ScApply | ScAdmin

type_synonym scope_set = "scope list"

definition scope_all :: scope_set where "scope_all = [ScAdmin]"

definition has_scope :: "scope_set \<Rightarrow> scope \<Rightarrow> bool" where
  "has_scope sc x = (ScAdmin \<in> set sc \<or> x \<in> set sc)"

datatype decision = Approve | Reject

definition validate_because :: "string \<Rightarrow> loop_error + string" where
  "validate_because because =
     (let trimmed = trim because
      in if trimmed = [] then Inl (LopInvalidProposal ''a BECAUSE reason is required'')
         else if MAX_BECAUSE < length trimmed
         then Inl (LopInvalidProposal (''BECAUSE exceeds '' @ nat_str MAX_BECAUSE @ '' chars''))
         else Inr trimmed)"

section \<open>Analyzers\<close>

record 's analyze_ctx =
  cx_sub :: "'s substrate"
  cx_state :: 's
  cx_params :: jmap
  cx_namespaces :: "string list"
  cx_watermark :: "int option"
  cx_now :: int
  cx_outcomes :: "outcome_input list"

text \<open>All grains of a type across the configured namespaces, or all of them.\<close>

definition ctx_grains :: "'s analyze_ctx \<Rightarrow> string \<Rightarrow> read_opts \<Rightarrow> loop_error + loop_grain list" where
  "ctx_grains c t o1 =
     (if cx_namespaces c = [] then sb_grains_of_type (cx_sub c) (cx_state c) t None o1
      else and_then (map_res (\<lambda>ns. sb_grains_of_type (cx_sub c) (cx_state c) t (Some ns) o1) (cx_namespaces c))
             (\<lambda>gss. Inr (concat gss)))"

definition ctx_tools_since :: "'s analyze_ctx \<Rightarrow> int option \<Rightarrow> loop_error + loop_grain list" where
  "ctx_tools_since c since = ctx_grains c TOOL \<lparr>ro_live = True, ro_since = since\<rparr>"

definition single_ns :: "'s analyze_ctx \<Rightarrow> string option" where
  "single_ns c = (case cx_namespaces c of [ns] \<Rightarrow> Some ns | _ \<Rightarrow> None)"

definition ctx_heads :: "'s analyze_ctx \<Rightarrow> loop_error + head_group list" where
  "ctx_heads c = sb_heads (cx_sub c) (cx_state c) (single_ns c)"

definition ctx_telemetry :: "'s analyze_ctx \<Rightarrow> loop_error + telemetry_view option" where
  "ctx_telemetry c = sb_telemetry (cx_sub c) (cx_state c) (single_ns c)"

record 's analyzer =
  an_manifest :: manifest
  an_analyze :: "'s analyze_ctx \<Rightarrow> loop_error + rec_draft list"

record 's engine =
  en_analyzers :: "'s analyzer list"
  en_policy :: policy
  en_llm :: "llm_backend option"
  en_ground :: "llm_backend option"

section \<open>Stamping\<close>

definition stamp :: "manifest \<Rightarrow> jmap \<Rightarrow> rec_draft \<Rightarrow> int \<Rightarrow> loop_error + recommendation" where
  "stamp m params d now =
     and_then (target_parse (rd_target d)) (\<lambda>target.
       let destructive = (case rd_proposal d of PCal cal \<Rightarrow> contains_destructive cal | _ \<Rightarrow> False);
           rollbackable = (case rd_proposal d of PCal _ \<Rightarrow> \<not> destructive | _ \<Rightarrow> False);
           og = (case mf_trust m of TrustCommand \<Rightarrow> OCommand (mf_id m) | _ \<Rightarrow> OBuiltin)
       in Inr \<lparr>rc_hash = [], rc_analyzer = mf_id m, rc_params = params, rc_origin = og,
            rc_target = target_string target, rc_action = rd_action d,
            rc_dedup = dedup_key (family m) (rd_target d) (rd_action d),
            rc_summary = rd_summary d, rc_severity = rd_severity d, rc_proposal = rd_proposal d,
            rc_destructive = destructive, rc_rollbackable = rollbackable,
            rc_evidence = take MAX_EVIDENCE (rd_evidence d),
            rc_evidence_query = rd_evidence_query d, rc_metric = rd_metric d,
            rc_confidence = rd_confidence d, rc_importance = rd_importance d, rc_created = now,
            rc_guidance = None, rc_status = StPending\<rparr>)"

section \<open>The analysis pass\<close>

type_synonym skip = "string \<times> string"
type_synonym pass_acc = "string list \<times> skip list \<times> recommendation list"

fun stamp_drafts ::
  "manifest \<Rightarrow> jmap \<Rightarrow> int \<Rightarrow> rec_draft list \<Rightarrow> skip list \<times> recommendation list \<Rightarrow>
     skip list \<times> recommendation list" where
  "stamp_drafts m params now [] acc = acc"
| "stamp_drafts m params now (d # ds) (skips, cands) =
     (case stamp m params d now of
        Inr r \<Rightarrow> stamp_drafts m params now ds (skips, cands @ [r])
      | Inl e \<Rightarrow> stamp_drafts m params now ds (skips @ [(mf_id m, lop_display e)], cands))"

definition analyzer_enabled :: "loop_persisted \<Rightarrow> manifest \<Rightarrow> bool" where
  "analyzer_enabled p m =
     unwrap_or (mf_default_on m) (Option.bind (map_of (lp_config p) (mf_id m)) ac_enabled)"

definition param_overrides :: "loop_persisted \<Rightarrow> (string \<times> jmap) list \<Rightarrow> manifest \<Rightarrow> jmap" where
  "param_overrides p external m =
     fold (\<lambda>(k, v). bt_insert k v) (unwrap_or [] (map_of external (mf_id m)))
       (unwrap_or [] (map_option ac_params (map_of (lp_config p) (mf_id m))))"

definition analyzer_namespaces :: "loop_persisted \<Rightarrow> run_options \<Rightarrow> manifest \<Rightarrow> string list" where
  "analyzer_namespaces p o1 m =
     (let owned = unwrap_or [] (map_option ac_namespaces (map_of (lp_config p) (mf_id m)))
      in if owned = [] then op_namespaces o1 else owned)"

definition run_analyzer ::
  "loop_env \<Rightarrow> 's engine \<Rightarrow> 's substrate \<Rightarrow> 's \<Rightarrow> loop_persisted \<Rightarrow> run_options \<Rightarrow>
     (string \<times> jmap) list \<Rightarrow> int option \<Rightarrow> int \<Rightarrow> outcome_input list \<Rightarrow> 's analyzer \<Rightarrow> pass_acc \<Rightarrow> pass_acc" where
  "run_analyzer E eng S s p o1 external watermark now inputs a acc =
     (case acc of (rans, skips, cands) \<Rightarrow>
       let m = an_manifest a; skip = (\<lambda>why. (rans, skips @ [(mf_id m, why)], cands))
       in if \<not> analyzer_enabled p m then skip ''disabled''
          else if policy_denies (en_policy eng) (family m) then skip ''denied by host policy''
          else (case missing_capability (mf_requires m) (sb_capabilities S s) of
            Some missing \<Rightarrow> skip (''missing capability: '' @ missing)
          | None \<Rightarrow>
            (case resolve_params E m (param_overrides p external m) of
               Inl e \<Rightarrow> skip (lop_display e)
             | Inr params \<Rightarrow>
               (case an_analyze a \<lparr>cx_sub = S, cx_state = s, cx_params = params,
                       cx_namespaces = analyzer_namespaces p o1 m, cx_watermark = watermark,
                       cx_now = now, cx_outcomes = inputs\<rparr> of
                  Inl e \<Rightarrow> skip (lop_display e)
                | Inr drafts \<Rightarrow>
                    (case stamp_drafts m params now drafts (skips, cands) of (skips, cands) \<Rightarrow>
                      (rans @ [mf_id m], skips, cands))))))"

definition floor_of :: "'s engine \<Rightarrow> loop_persisted \<Rightarrow> recommendation \<Rightarrow> severity option" where
  "floor_of eng p r =
     (case (Option.bind (map_of (lp_config p) (rc_analyzer r)) ac_floor,
            policy_floor (en_policy eng) (analyzer_family (rc_analyzer r))) of
        (Some a, Some b) \<Rightarrow> Some (max a b)
      | (Some a, None) \<Rightarrow> Some a
      | (None, x) \<Rightarrow> x)"

definition below_floor :: "'s engine \<Rightarrow> loop_persisted \<Rightarrow> recommendation \<Rightarrow> bool" where
  "below_floor eng p r = (case floor_of eng p r of None \<Rightarrow> False | Some f \<Rightarrow> rc_severity r < f)"

definition cooling :: "loop_persisted \<Rightarrow> int \<Rightarrow> string \<Rightarrow> bool" where
  "cooling p now k = (case map_of (lp_cooldowns p) k of None \<Rightarrow> False | Some until \<Rightarrow> now < until)"

fun keep_novel ::
  "'s engine \<Rightarrow> loop_persisted \<Rightarrow> string list \<Rightarrow> int \<Rightarrow> recommendation list \<Rightarrow> string list \<Rightarrow> recommendation list" where
  "keep_novel eng p existing now [] seen = []"
| "keep_novel eng p existing now (r # rs) seen =
     (if below_floor eng p r then keep_novel eng p existing now rs seen
      else if rc_dedup r \<in> set seen then keep_novel eng p existing now rs seen
      else if rc_dedup r \<in> set existing \<or> cooling p now (rc_dedup r)
      then keep_novel eng p existing now rs (rc_dedup r # seen)
      else r # keep_novel eng p existing now rs (rc_dedup r # seen))"

record pass =
  ps_survivors :: "recommendation list"
  ps_proposed :: nat
  ps_deduped :: nat
  ps_ran :: "string list"
  ps_skipped :: "skip list"

definition analysis_pass ::
  "loop_env \<Rightarrow> llm_wire \<Rightarrow> 's engine \<Rightarrow> 's substrate \<Rightarrow> 's \<Rightarrow> loop_persisted \<Rightarrow> run_options \<Rightarrow>
     (string \<times> jmap) list \<Rightarrow> int option \<Rightarrow> int \<Rightarrow> outcome_input list \<Rightarrow> loop_error + pass" where
  "analysis_pass E W eng S s p o1 external watermark now inputs =
     and_then (existing_dedup_keys S s p) (\<lambda>existing.
       case fold (run_analyzer E eng S s p o1 external watermark now inputs) (en_analyzers eng) ([], [], [])
       of (rans, skips, cands) \<Rightarrow>
         let cands = cands @ discover E W (en_llm eng) (en_ground eng) S s cands watermark
               (op_namespaces o1) now;
             novel = keep_novel eng p existing now cands []
         in Inr \<lparr>ps_survivors = enrich E W (en_llm eng) novel, ps_proposed = length cands,
              ps_deduped = length cands - length novel, ps_ran = rans, ps_skipped = skips\<rparr>)"

definition analysis_watermark :: "run_options \<Rightarrow> loop_persisted \<Rightarrow> int option" where
  "analysis_watermark o1 p = (if op_full_sweep o1 then None else ls_watermark (lp_state p))"

definition analyze_only ::
  "loop_env \<Rightarrow> llm_wire \<Rightarrow> 's engine \<Rightarrow> 's substrate \<Rightarrow> 's \<Rightarrow> run_options \<Rightarrow> (string \<times> jmap) list \<Rightarrow>
     int \<Rightarrow> loop_error + recommendation list" where
  "analyze_only E W eng S s o1 overrides now =
     and_then (loaded E S s) (\<lambda>p.
     and_then (analysis_pass E W eng S s p o1 overrides (analysis_watermark o1 p) now []) (\<lambda>a.
     Inr (ps_survivors a)))"

section \<open>Auto-apply\<close>

definition field_identical :: "loop_grain \<Rightarrow> string \<times> json \<Rightarrow> bool" where
  "field_identical g kv =
     (case kv of (k, v) \<Rightarrow>
       if k = ''namespace'' then
         (case as_str v of None \<Rightarrow> False | Some x \<Rightarrow> normalize_ident x = normalize_ident (lg_ns g))
       else (case map_of (lg_fields g) k of
               None \<Rightarrow> False
             | Some w \<Rightarrow>
                 (case (v, w) of
                    (JStr a, JStr b) \<Rightarrow> normalize_ident a = normalize_ident b
                  | _ \<Rightarrow> v = w)))"

definition supersede_is_value_identical :: "loop_env \<Rightarrow> 's substrate \<Rightarrow> 's \<Rightarrow> string \<Rightarrow> bool" where
  "supersede_is_value_identical E S s line =
     (case parse_own_supersede E line of
        None \<Rightarrow> False
      | Some (target, t, fs) \<Rightarrow>
          if fs = [] then False
          else (case sb_grain S s target of
                  Inr (Some g) \<Rightarrow> lg_valid_to g = None \<and> list_all (field_identical g) fs
                | _ \<Rightarrow> False))"

definition can_auto_apply :: "loop_env \<Rightarrow> 's engine \<Rightarrow> 's substrate \<Rightarrow> 's \<Rightarrow> recommendation \<Rightarrow> bool" where
  "can_auto_apply E eng S s r =
     (if \<not> origin_auto_apply_eligible (rc_origin r) \<or> rc_destructive r then False
      else if \<not> (case find (\<lambda>m. mf_id m = rc_analyzer r) (map an_manifest (en_analyzers eng)) of
                    None \<Rightarrow> False
                  | Some m \<Rightarrow> mf_auto_apply m = AutoStructuralCuration) then False
      else (case target_parse (rc_target r) of
              Inl _ \<Rightarrow> False
            | Inr target \<Rightarrow>
                if \<not> grants_auto_apply (en_policy eng) (analyzer_family (rc_analyzer r))
                     (target_class target) (rc_severity r) then False
                else (case rc_proposal r of
                        PCal cal \<Rightarrow> list_all (supersede_is_value_identical E S s) (cal_lines cal)
                      | _ \<Rightarrow> False)))"

definition created_hashes :: "json list \<Rightarrow> string list" where
  "created_hashes rows = List.map_filter (\<lambda>r. Option.bind (jget ''hash'' r) as_str) rows"

definition put_audit :: "'s substrate \<Rightarrow> audit_record \<Rightarrow> ('s, string) act" where
  "put_audit S a = sb_put S (audit_spec a LOOP_NS)"

text \<open>The index entries of a transition: the new audit head and the new status.\<close>

definition index_transition :: "string \<Rightarrow> string \<Rightarrow> rec_status \<Rightarrow> loop_persisted \<Rightarrow> loop_persisted" where
  "index_transition h audit_hash to p =
     p\<lparr>lp_audit_heads := bt_insert h audit_hash (lp_audit_heads p),
       lp_status := bt_insert h to (lp_status p)\<rparr>"

definition applied_of :: "recommendation \<Rightarrow> string list \<Rightarrow> int \<Rightarrow> applied_record" where
  "applied_of r created now = \<lparr>ap_at = now, ap_target = rc_target r,
     ap_rollbackable = rc_rollbackable r, ap_created = created, ap_metric = rc_metric r\<rparr>"

definition auto_apply ::
  "'s substrate \<Rightarrow> loop_persisted \<Rightarrow> recommendation \<Rightarrow> int \<Rightarrow> ('s, loop_persisted) act" where
  "auto_apply S p r now =
     act_bind (case rc_proposal r of PCal cal \<Rightarrow> sb_execute S cal | _ \<Rightarrow> act_ret []) (\<lambda>rows.
     act_bind (put_audit S \<lparr>ar_rec = rc_hash r, ar_from = Some StPending, ar_to = StApplied,
         ar_actor = ''policy:auto'', ar_observer = ObPolicy,
         ar_because = ''auto-applied per host policy'',
         ar_previous = map_of (lp_audit_heads p) (rc_hash r), ar_at = now\<rparr>) (\<lambda>ah.
     act_ret (index_transition (rc_hash r) ah StApplied
       (p\<lparr>lp_applied := bt_insert (rc_hash r) (applied_of r (created_hashes rows) now) (lp_applied p)\<rparr>))))"

section \<open>The run\<close>

definition engine_actor :: "recommendation \<Rightarrow> string" where
  "engine_actor r = ''engine:'' @ rc_analyzer r"

definition co_creator :: "run_options \<Rightarrow> recommendation \<Rightarrow> string option" where
  "co_creator o1 r = (if rc_origin r \<noteq> OBuiltin then op_trigger o1 else None)"

definition store_survivor ::
  "'s substrate \<Rightarrow> run_options \<Rightarrow> int \<Rightarrow> loop_persisted \<Rightarrow> recommendation \<Rightarrow>
     ('s, recommendation \<times> loop_persisted) act" where
  "store_survivor S o1 now p r =
     act_bind (act_lift (rec_spec r LOOP_NS)) (\<lambda>spec.
     act_bind (sb_put S spec) (\<lambda>h.
     act_bind (put_audit S \<lparr>ar_rec = h, ar_from = None, ar_to = StPending, ar_actor = engine_actor r,
         ar_observer = ObSystem, ar_because = ''analyzer proposed'', ar_previous = None,
         ar_at = now\<rparr>) (\<lambda>ah.
     act_ret (r\<lparr>rc_hash := h\<rparr>,
       p\<lparr>lp_status := bt_insert h StPending (lp_status p),
         lp_creators := bt_insert h (engine_actor r) (lp_creators p),
         lp_co_creators := (case co_creator o1 r of
             None \<Rightarrow> lp_co_creators p
           | Some t \<Rightarrow> bt_insert h t (lp_co_creators p)),
         lp_audit_heads := bt_insert h ah (lp_audit_heads p)\<rparr>))))"

fun store_survivors ::
  "loop_env \<Rightarrow> 's engine \<Rightarrow> 's substrate \<Rightarrow> run_options \<Rightarrow> int \<Rightarrow> recommendation list \<Rightarrow>
     loop_persisted \<times> nat \<times> nat \<Rightarrow> ('s, loop_persisted \<times> nat \<times> nat) act" where
  "store_survivors E eng S o1 now [] acc = act_ret acc"
| "store_survivors E eng S o1 now (r # rs) (p, stored, auto_applied) =
     act_bind (store_survivor S o1 now p r) (\<lambda>(r, p).
     act_bind (act_read (\<lambda>s. Inr (can_auto_apply E eng S s r))) (\<lambda>auto_ok.
       if auto_ok
       then act_bind (auto_apply S p r now) (\<lambda>p.
              store_survivors E eng S o1 now rs (p, stored + 1, auto_applied + 1))
       else store_survivors E eng S o1 now rs (p, stored + 1, auto_applied)))"

record run_result =
  rr_ran :: bool
  rr_skip :: "skip_reason option"
  rr_new :: int
  rr_errors :: int
  rr_proposed :: nat
  rr_deduped :: nat
  rr_stored :: nat
  rr_auto_applied :: nat
  rr_analyzers :: "string list"
  rr_skipped :: "skip list"

definition run_skipped :: "skip_reason \<Rightarrow> int \<Rightarrow> int \<Rightarrow> run_result" where
  "run_skipped why n e = \<lparr>rr_ran = False, rr_skip = Some why, rr_new = n, rr_errors = e,
     rr_proposed = 0, rr_deduped = 0, rr_stored = 0, rr_auto_applied = 0, rr_analyzers = [],
     rr_skipped = []\<rparr>"

definition save :: "'s substrate \<Rightarrow> loop_persisted \<Rightarrow> ('s, unit) act" where
  "save S p = sb_store S (to_value p)"

definition run ::
  "loop_env \<Rightarrow> llm_wire \<Rightarrow> 's engine \<Rightarrow> 's substrate \<Rightarrow> run_options \<Rightarrow> int \<Rightarrow> ('s, run_result) act" where
  "run E W eng S o1 now =
     act_bind (act_read (loaded E S)) (\<lambda>p.
     act_bind (act_read (\<lambda>s. count_new S s (ls_watermark (lp_state p)))) (\<lambda>(n, e).
       case gate o1 p n e now of
         Some why \<Rightarrow> act_ret (run_skipped why n e)
       | None \<Rightarrow>
           act_bind (act_read (\<lambda>s. measure_outcomes E S s p now)) (\<lambda>(q, inputs).
           act_bind (act_read (\<lambda>s. analysis_pass E W eng S s q o1 [] (analysis_watermark o1 p) now inputs)) (\<lambda>a.
           act_bind (store_survivors E eng S o1 now (ps_survivors a) (q, 0, 0)) (\<lambda>(q, stored, auto_applied).
           act_bind (save S (q\<lparr>lp_state := \<lparr>ls_last_run = Some now, ls_watermark = Some now\<rparr>\<rparr>)) (\<lambda>_.
           act_ret \<lparr>rr_ran = True, rr_skip = None, rr_new = n, rr_errors = e,
             rr_proposed = ps_proposed a, rr_deduped = ps_deduped a, rr_stored = stored,
             rr_auto_applied = auto_applied, rr_analyzers = ps_ran a, rr_skipped = ps_skipped a\<rparr>))))))"

section \<open>Review\<close>

definition BASE_MS :: int where "BASE_MS = 7 * 86400000"
definition CAP_MS :: int where "CAP_MS = 90 * 86400000"

definition cooldown_interval :: "int \<Rightarrow> int" where
  "cooldown_interval strikes = min (saturating_mul_i64 BASE_MS (2 ^ nat (min strikes 31))) CAP_MS"

definition strike :: "string \<Rightarrow> int \<Rightarrow> loop_persisted \<Rightarrow> loop_persisted" where
  "strike k now p =
     (let strikes = unwrap_or 0 (map_of (lp_strikes p) k)
      in p\<lparr>lp_strikes := bt_insert k (min (strikes + 1) 4294967295) (lp_strikes p),
           lp_cooldowns := bt_insert k (now + cooldown_interval strikes) (lp_cooldowns p)\<rparr>)"

fun target_status :: "decision \<Rightarrow> rec_status" where
  "target_status Approve = StApproved"
| "target_status Reject = StRejected"

definition self_approval :: "loop_persisted \<Rightarrow> string \<Rightarrow> string \<Rightarrow> loop_error + unit" where
  "self_approval p h actor =
     (if map_of (lp_creators p) h = Some actor
      then Inl (LopSelfApproval (actor @ '' created this recommendation''))
      else if map_of (lp_co_creators p) h = Some actor
      then Inl (LopSelfApproval (actor @ '' triggered the run that authored this recommendation''))
      else Inr ())"

definition status_entry :: "loop_persisted \<Rightarrow> string \<Rightarrow> loop_error + rec_status" where
  "status_entry p h = ok_or (LopNotFound h) (map_of (lp_status p) h)"

definition guard_that :: "bool \<Rightarrow> loop_error \<Rightarrow> loop_error + unit" where
  "guard_that b e = (if b then Inr () else Inl e)"

lemma guard_that_eq [simp]:
  "guard_that b e = Inr u \<longleftrightarrow> b" "guard_that b e = Inl d \<longleftrightarrow> \<not> b \<and> d = e"
  by (auto simp: guard_that_def)

text \<open>What a review refuses before it writes anything; it answers the state, the status and the reason.\<close>

definition review_checks ::
  "loop_env \<Rightarrow> 's substrate \<Rightarrow> 's \<Rightarrow> string \<Rightarrow> decision \<Rightarrow> string \<Rightarrow> scope_set \<Rightarrow> string \<Rightarrow>
     loop_error + loop_persisted \<times> rec_status \<times> string" where
  "review_checks E S s h d actor sc because =
     and_then (guard_that (has_scope sc ScReview) (LopScopeDenied ''review'')) (\<lambda>_.
     and_then (validate_because because) (\<lambda>because.
     and_then (loaded E S s) (\<lambda>p.
     and_then (status_entry p h) (\<lambda>status.
     and_then (guard_that (can_transition_to status (target_status d) False)
         (LopLifecycleViolation (status_str status @ '' -> '' @ status_str (target_status d)))) (\<lambda>_.
     and_then (if target_status d = StApproved then self_approval p h actor else Inr ()) (\<lambda>_.
     Inr (p, status, because)))))))"

definition review ::
  "loop_env \<Rightarrow> 's substrate \<Rightarrow> string \<Rightarrow> decision \<Rightarrow> string \<Rightarrow> observer_type \<Rightarrow> scope_set \<Rightarrow> string \<Rightarrow>
     int \<Rightarrow> ('s, unit) act" where
  "review E S h d actor observer sc because now =
     act_bind (act_read (\<lambda>s. review_checks E S s h d actor sc because)) (\<lambda>(p, status, because).
     act_bind (put_audit S \<lparr>ar_rec = h, ar_from = Some status, ar_to = target_status d,
         ar_actor = actor, ar_observer = observer, ar_because = because,
         ar_previous = map_of (lp_audit_heads p) h, ar_at = now\<rparr>) (\<lambda>ah.
     act_bind (act_read (\<lambda>s. Inr (load_rec E S s h))) (\<lambda>lr.
       let p = index_transition h ah (target_status d) p;
           p = (if target_status d = StRejected
                then (case lr of Inl _ \<Rightarrow> p | Inr r \<Rightarrow> strike (rc_dedup r) now p) else p)
       in save S p)))"

section \<open>Apply and rollback\<close>

definition advice :: "string \<Rightarrow> string" where
  "advice s = s @ '' Dismiss it with REJECT ... BECAUSE while it is still pending, or approve it to acknowledge it and let it expire.''"

definition ADVISORY_EDIT :: string where
  "ADVISORY_EDIT = advice ''This recommendation is advisory: the engine cannot execute this edit. Make the change in the host.''"

definition ADVISORY_DATA :: string where
  "ADVISORY_DATA = advice ''This finding is advisory: the engine cannot execute it. Act on its guidance.''"

fun ensure_executable :: "proposal \<Rightarrow> loop_error + unit" where
  "ensure_executable (PCal _) = Inr ()"
| "ensure_executable (PEdit _ _ _) = Inl (LopInvalidProposal ADVISORY_EDIT)"
| "ensure_executable (PData m) =
     (if Option.bind (map_of m ''revert_of'') as_str \<noteq> None then Inr ()
      else Inl (LopInvalidProposal ADVISORY_DATA))"

definition destructive_gate :: "recommendation \<Rightarrow> scope_set \<Rightarrow> bool \<Rightarrow> loop_error + unit" where
  "destructive_gate r sc allow =
     guard_that (\<not> (rc_destructive r \<and> (\<not> has_scope sc ScAdmin \<or> \<not> allow)))
       (LopDestructiveGated ''destructive apply requires admin scope + allow_destructive'')"

definition preflight_apply ::
  "loop_env \<Rightarrow> 's substrate \<Rightarrow> 's \<Rightarrow> string \<Rightarrow> scope_set \<Rightarrow> bool \<Rightarrow> loop_error + unit" where
  "preflight_apply E S s h sc allow =
     and_then (guard_that (has_scope sc ScApply) (LopScopeDenied ''apply'')) (\<lambda>_.
     and_then (load_rec E S s h) (\<lambda>r.
     and_then (destructive_gate r sc allow) (\<lambda>_. ensure_executable (rc_proposal r))))"

fun retract_all :: "'s substrate \<Rightarrow> string \<Rightarrow> string list \<Rightarrow> ('s, unit) act" where
  "retract_all S why [] = act_ret ()"
| "retract_all S why (h # hs) = act_bind (sb_retract S h why) (\<lambda>_. retract_all S why hs)"

definition rollback_checks ::
  "loop_env \<Rightarrow> 's substrate \<Rightarrow> 's \<Rightarrow> string \<Rightarrow> scope_set \<Rightarrow> string \<Rightarrow>
     loop_error + loop_persisted \<times> rec_status \<times> string \<times> applied_record" where
  "rollback_checks E S s h sc because =
     and_then (guard_that (has_scope sc ScApply) (LopScopeDenied ''apply'')) (\<lambda>_.
     and_then (validate_because because) (\<lambda>because.
     and_then (loaded E S s) (\<lambda>p.
     and_then (status_entry p h) (\<lambda>status.
     and_then (guard_that (can_transition_to status StRolledBack False)
         (LopLifecycleViolation (status_str status @ '' -> rolled_back''))) (\<lambda>_.
     and_then (ok_or (LopNotFound (''no applied record for '' @ h)) (map_of (lp_applied p) h)) (\<lambda>a.
     and_then (guard_that (ap_rollbackable a)
         (LopLifecycleViolation ''recommendation is non-rollbackable (FORGET has no inverse)'')) (\<lambda>_.
     Inr (p, status, because, a))))))))"

definition rollback ::
  "loop_env \<Rightarrow> 's substrate \<Rightarrow> string \<Rightarrow> string \<Rightarrow> observer_type \<Rightarrow> scope_set \<Rightarrow> string \<Rightarrow> int \<Rightarrow>
     ('s, unit) act" where
  "rollback E S h actor observer sc because now =
     act_bind (act_read (\<lambda>s. rollback_checks E S s h sc because)) (\<lambda>(p, status, because, a).
     act_bind (retract_all S (''rollback of '' @ h) (ap_created a)) (\<lambda>_.
     act_bind (put_audit S \<lparr>ar_rec = h, ar_from = Some status, ar_to = StRolledBack,
         ar_actor = actor, ar_observer = observer, ar_because = because,
         ar_previous = map_of (lp_audit_heads p) h, ar_at = now\<rparr>) (\<lambda>ah.
     save S (index_transition h ah StRolledBack p))))"

definition apply_checks ::
  "loop_env \<Rightarrow> 's substrate \<Rightarrow> 's \<Rightarrow> string \<Rightarrow> scope_set \<Rightarrow> string \<Rightarrow> bool \<Rightarrow>
     loop_error + loop_persisted \<times> rec_status \<times> string \<times> recommendation" where
  "apply_checks E S s h sc because allow =
     and_then (guard_that (has_scope sc ScApply) (LopScopeDenied ''apply'')) (\<lambda>_.
     and_then (validate_because because) (\<lambda>because.
     and_then (loaded E S s) (\<lambda>p.
     and_then (status_entry p h) (\<lambda>status.
     and_then (guard_that (can_transition_to status StApplied False)
         (LopLifecycleViolation (status_str status @ '' -> applied (approve first)''))) (\<lambda>_.
     and_then (load_rec E S s h) (\<lambda>r.
     and_then (destructive_gate r sc allow) (\<lambda>_.
     Inr (p, status, because, r))))))))"

text \<open>Executing the proposal: the created addresses and the state to continue with.\<close>

definition execute_proposal ::
  "loop_env \<Rightarrow> 's substrate \<Rightarrow> proposal \<Rightarrow> string \<Rightarrow> observer_type \<Rightarrow> scope_set \<Rightarrow> string \<Rightarrow> int \<Rightarrow>
     loop_persisted \<Rightarrow> ('s, string list \<times> loop_persisted) act" where
  "execute_proposal E S pr actor observer sc because now p =
     (case pr of
        PCal cal \<Rightarrow> act_bind (sb_execute S cal) (\<lambda>rows. act_ret (created_hashes rows, p))
      | PEdit _ _ _ \<Rightarrow> act_lift (Inl (LopInvalidProposal ADVISORY_EDIT))
      | PData m \<Rightarrow>
          (case Option.bind (map_of m ''revert_of'') as_str of
             None \<Rightarrow> act_lift (Inl (LopInvalidProposal ADVISORY_DATA))
           | Some revert_of \<Rightarrow>
               act_bind (rollback E S revert_of actor observer sc because now) (\<lambda>_.
               act_bind (act_read (loaded E S)) (\<lambda>p. act_ret ([], p)))))"

definition apply_rec ::
  "loop_env \<Rightarrow> 's substrate \<Rightarrow> string \<Rightarrow> string \<Rightarrow> observer_type \<Rightarrow> scope_set \<Rightarrow> string \<Rightarrow> bool \<Rightarrow> int \<Rightarrow>
     ('s, applied_record) act" where
  "apply_rec E S h actor observer sc because allow now =
     act_bind (act_read (\<lambda>s. apply_checks E S s h sc because allow)) (\<lambda>(p, status, because, r).
     act_bind (execute_proposal E S (rc_proposal r) actor observer sc because now p) (\<lambda>(created, p).
     act_bind (put_audit S \<lparr>ar_rec = h, ar_from = Some status, ar_to = StApplied,
         ar_actor = actor, ar_observer = observer, ar_because = because,
         ar_previous = map_of (lp_audit_heads p) h, ar_at = now\<rparr>) (\<lambda>ah.
       let a = applied_of r created now
       in act_bind (save S (index_transition h ah StApplied
            (p\<lparr>lp_applied := bt_insert h a (lp_applied p)\<rparr>))) (\<lambda>_. act_ret a))))"

section \<open>Configuration\<close>

definition update_config :: "config_update \<Rightarrow> analyzer_config \<Rightarrow> analyzer_config" where
  "update_config u c =
     \<lparr>ac_enabled = or_else (cu_enabled u) (ac_enabled c),
      ac_params = unwrap_or (ac_params c) (cu_params u),
      ac_floor = (if cu_clear_floor u then None else or_else (cu_floor u) (ac_floor c)),
      ac_namespaces = unwrap_or (ac_namespaces c) (cu_namespaces u)\<rparr>"

definition config_checks ::
  "loop_env \<Rightarrow> 's engine \<Rightarrow> string \<Rightarrow> config_update \<Rightarrow> scope_set \<Rightarrow> loop_error + unit" where
  "config_checks E eng i u sc =
     and_then (guard_that (has_scope sc ScAdmin) (LopScopeDenied ''admin'')) (\<lambda>_.
     and_then (ok_or (LopNotFound (''unknown analyzer '' @ debug_str i))
         (find (\<lambda>m. mf_id m = i) (map an_manifest (en_analyzers eng)))) (\<lambda>m.
     case cu_params u of
       None \<Rightarrow> Inr ()
     | Some ps \<Rightarrow> and_then (resolve_params E m ps) (\<lambda>_. Inr ())))"

definition set_analyzer_config ::
  "loop_env \<Rightarrow> 's engine \<Rightarrow> 's substrate \<Rightarrow> string \<Rightarrow> config_update \<Rightarrow> scope_set \<Rightarrow>
     ('s, analyzer_config) act" where
  "set_analyzer_config E eng S i u sc =
     act_bind (act_lift (config_checks E eng i u sc)) (\<lambda>_.
     act_bind (act_read (loaded E S)) (\<lambda>p.
       let c = update_config u (unwrap_or analyzer_config_default (map_of (lp_config p) i))
       in act_bind (save S (p\<lparr>lp_config := bt_insert i c (lp_config p)\<rparr>)) (\<lambda>_. act_ret c)))"

end
