(* ===== verification/Loop_Life.thy ===== *)
theory Loop_Life
  imports Loop_Engine
begin

text \<open>
  The lifecycle of a recommendation over any history of runs, reviews, applies, rollbacks
  and configuration changes, on any substrate that keeps the stored loop state.
\<close>

section \<open>One operation on the stored state\<close>

lemma act_readD:
  assumes "act_read f s = (r, u)"
  shows "f s = r" and "u = s"
  using assms by (auto simp: act_read_def)

lemma act_bindE:
  assumes "act_bind m f s = (r, t)"
  obtains (err) e where "m s = (Inl e, t)" and "r = Inl e"
  | (ok) x u where "m s = (Inr x, u)" and "f x u = (r, t)"
  using assms by (auto simp: act_bind_def split: prod.splits sum.splits)

lemma index_transition_simps [simp]:
  "map_of (lp_status (index_transition h a st p)) = (map_of (lp_status p))(h \<mapsto> st)"
  "map_of (lp_audit_heads (index_transition h a st p)) = (map_of (lp_audit_heads p))(h \<mapsto> a)"
  "lp_creators (index_transition h a st p) = lp_creators p"
  "lp_co_creators (index_transition h a st p) = lp_co_creators p"
  "lp_applied (index_transition h a st p) = lp_applied p"
  "lp_cooldowns (index_transition h a st p) = lp_cooldowns p"
  by (simp_all add: index_transition_def)

lemma strike_simps [simp]:
  "lp_status (strike k now p) = lp_status p" "lp_audit_heads (strike k now p) = lp_audit_heads p"
  "lp_creators (strike k now p) = lp_creators p" "lp_co_creators (strike k now p) = lp_co_creators p"
  "lp_applied (strike k now p) = lp_applied p"
  by (simp_all add: strike_def Let_def)

lemma strike_cooldowns: "map_of (lp_cooldowns (strike k now p)) =
    (map_of (lp_cooldowns p))(k \<mapsto> now + cooldown_interval (unwrap_or 0 (map_of (lp_strikes p) k)))"
  by (simp add: strike_def Let_def)

text \<open>The state a successful review writes.\<close>

definition reviewed ::
  "string \<Rightarrow> decision \<Rightarrow> string \<Rightarrow> loop_error + recommendation \<Rightarrow> int \<Rightarrow> loop_persisted \<Rightarrow> loop_persisted" where
  "reviewed h d ah lr now p =
     (let p = index_transition h ah (target_status d) p
      in if target_status d = StRejected
         then (case lr of Inl _ \<Rightarrow> p | Inr r \<Rightarrow> strike (rc_dedup r) now p) else p)"

lemma reviewed_simps [simp]:
  "map_of (lp_status (reviewed h d ah lr now p)) = (map_of (lp_status p))(h \<mapsto> target_status d)"
  "map_of (lp_audit_heads (reviewed h d ah lr now p)) = (map_of (lp_audit_heads p))(h \<mapsto> ah)"
  "lp_creators (reviewed h d ah lr now p) = lp_creators p"
  "lp_co_creators (reviewed h d ah lr now p) = lp_co_creators p"
  "lp_applied (reviewed h d ah lr now p) = lp_applied p"
  by (simp_all add: reviewed_def Let_def split: sum.split)

text \<open>The state a passed rollback stores.\<close>

definition rolled :: "loop_env \<Rightarrow> 's substrate \<Rightarrow> 's \<Rightarrow> scope_set \<Rightarrow> loop_persisted \<Rightarrow> bool" where
  "rolled E S s sc q \<longleftrightarrow> (\<exists>k v p st why a ah. rollback_checks E S s k sc v = Inr (p, st, why, a)
     \<and> q = index_transition k ah StRolledBack p)"

context state_store
begin

lemma loaded_cong: "sb_load S t = sb_load S s \<Longrightarrow> loaded E S t = loaded E S s"
  by (simp add: loaded_def)

lemma save_result:
  assumes "save S p s = (r, t)"
  shows "(r = Inr () \<and> loaded E S t = from_value E (to_value p)) \<or>
    (\<exists>e. r = Inl e \<and> loaded E S t = loaded E S s)"
proof (cases r)
  case (Inl e)
  then show ?thesis using assms store_fail by (auto simp: save_def intro!: loaded_cong)
next
  case (Inr u)
  then show ?thesis using assms store_load by (auto simp: save_def loaded_def)
qed

lemma audit_loaded: "put_audit S a s = (r, t) \<Longrightarrow> loaded E S t = loaded E S s"
  using put_load by (auto simp: put_audit_def intro!: loaded_cong)

lemma put_loaded: "sb_put S spec s = (r, t) \<Longrightarrow> loaded E S t = loaded E S s"
  using put_load by (auto intro!: loaded_cong)

lemma execute_loaded: "sb_execute S cal s = (r, t) \<Longrightarrow> loaded E S t = loaded E S s"
  using execute_load by (auto intro!: loaded_cong)

lemma retract_all_loaded: "retract_all S why hs s = (r, t) \<Longrightarrow> loaded E S t = loaded E S s"
proof (induction hs arbitrary: s)
  case (Cons h hs)
  then show ?case
    by (cases "sb_retract S h why s")
      (auto simp: act_bind_def split: sum.splits dest!: retract_load [THEN loaded_cong])
qed simp

text \<open>
  Every operation either leaves the stored state as it was, or passed its checks and stored
  one new state.
\<close>

lemma review_result:
  assumes "review E S h d actor observer sc because now s = (r, t)"
  shows "(\<exists>e. r = Inl e \<and> loaded E S t = loaded E S s) \<or>
    (r = Inr () \<and> (\<exists>p st why ah lr. review_checks E S s h d actor sc because = Inr (p, st, why)
       \<and> loaded E S t = from_value E (to_value (reviewed h d ah lr now p))))"
  using assms unfolding review_def
proof (cases rule: act_bindE)
  case (ok x u)
  have "review_checks E S s h d actor sc because = Inr x" and u: "u = s"
    by (rule act_readD [OF ok(1)])+
  moreover obtain p st why where x: "x = (p, st, why)" by (cases x)
  ultimately have checks: "review_checks E S s h d actor sc because = Inr (p, st, why)" by simp
  from ok(2) [unfolded x prod.case u] show ?thesis
  proof (cases rule: act_bindE)
    case (ok ah v)
    have v: "loaded E S v = loaded E S s" by (rule audit_loaded [OF ok(1)])
    have "save S (reviewed h d ah (load_rec E S v h) now p) v = (r, t)"
      using ok(2) by (simp add: act_bind_def reviewed_def Let_def)
    from save_result [OF this, of E] show ?thesis
    proof
      assume "r = Inr () \<and> loaded E S t = from_value E (to_value (reviewed h d ah (load_rec E S v h) now p))"
      then show ?thesis using checks by blast
    next
      assume "\<exists>e. r = Inl e \<and> loaded E S t = loaded E S v"
      then show ?thesis unfolding v by blast
    qed
  qed (use audit_loaded in blast)
qed auto

lemma rollback_result:
  assumes "rollback E S h actor observer sc because now s = (r, t)"
  shows "(\<exists>e. r = Inl e \<and> loaded E S t = loaded E S s) \<or>
    (r = Inr () \<and> (\<exists>p st why a ah. rollback_checks E S s h sc because = Inr (p, st, why, a)
       \<and> loaded E S t = from_value E (to_value (index_transition h ah StRolledBack p))))"
  using assms unfolding rollback_def
proof (cases rule: act_bindE)
  case (ok x u)
  have "rollback_checks E S s h sc because = Inr x" and u: "u = s"
    by (rule act_readD [OF ok(1)])+
  moreover obtain p st why a where x: "x = (p, st, why, a)" by (cases x)
  ultimately have checks: "rollback_checks E S s h sc because = Inr (p, st, why, a)" by simp
  from ok(2) [unfolded x prod.case u] show ?thesis
  proof (cases rule: act_bindE)
    case (ok k v)
    have v: "loaded E S v = loaded E S s" by (rule retract_all_loaded [OF ok(1)])
    from ok(2) show ?thesis
    proof (cases rule: act_bindE)
      case (ok ah w)
      have w: "loaded E S w = loaded E S s" using audit_loaded [OF ok(1)] v by (rule trans)
      from save_result [OF ok(2), of E] show ?thesis
      proof
        assume "r = Inr () \<and> loaded E S t = from_value E (to_value (index_transition h ah StRolledBack p))"
        then show ?thesis using checks by blast
      next
        assume "\<exists>e. r = Inl e \<and> loaded E S t = loaded E S w"
        then show ?thesis unfolding w by blast
      qed
    next
      case (err e)
      then have "loaded E S t = loaded E S s" using audit_loaded [OF err(1)] v by simp
      then show ?thesis using err(2) by blast
    qed
  qed (use retract_all_loaded in blast)
qed auto

lemma apply_result:
  assumes "apply_rec E S h actor observer sc because allow now s = (r, t)"
  shows "(\<exists>e. r = Inl e \<and> loaded E S t = loaded E S s)
    \<or> (\<exists>e q. r = Inl e \<and> rolled E S s sc q \<and> loaded E S t = from_value E (to_value q))
    \<or> (\<exists>p st why rc a ah q. r = Inr a \<and> apply_checks E S s h sc because allow = Inr (p, st, why, rc)
        \<and> (q = p \<or> rolled E S s sc q)
        \<and> loaded E S t = from_value E (to_value (index_transition h ah StApplied
             (q\<lparr>lp_applied := bt_insert h a (lp_applied q)\<rparr>))))"
    (is "?same \<or> ?half \<or> ?done")
  using assms unfolding apply_rec_def
proof (cases rule: act_bindE)
  case (ok x u)
  have "apply_checks E S s h sc because allow = Inr x" and u: "u = s"
    by (rule act_readD [OF ok(1)])+
  moreover obtain p st why rc where x: "x = (p, st, why, rc)" by (cases x)
  ultimately have checks: "apply_checks E S s h sc because allow = Inr (p, st, why, rc)" by simp
  from ok(2) [unfolded x prod.case u] show ?thesis
  proof (cases rule: act_bindE)
    case (err e)
    have "loaded E S t = loaded E S s \<or> (\<exists>q. rolled E S s sc q \<and> loaded E S t = from_value E (to_value q))"
    proof (cases "rc_proposal rc")
      case (PCal cal)
      have "sb_execute S cal s = (Inl e, t)"
        using err(1) by (simp add: execute_proposal_def PCal act_bind_def split: prod.splits sum.splits)
      then show ?thesis using execute_loaded by blast
    next
      case (PEdit f b d)
      then show ?thesis using err by (auto simp: execute_proposal_def)
    next
      case (PData m)
      show ?thesis
      proof (cases "Option.bind (map_of m ''revert_of'') as_str")
        case None
        then show ?thesis using err PData by (auto simp: execute_proposal_def)
      next
        case (Some k)
        obtain rr v where rb: "rollback E S k actor observer sc why now s = (rr, v)"
          by (cases "rollback E S k actor observer sc why now s")
        then have "v = t" using err PData Some
          by (auto simp: execute_proposal_def act_bind_def split: sum.splits prod.splits)
        with rollback_result [OF rb] show ?thesis unfolding rolled_def by blast
      qed
    qed
    then show ?thesis using err by blast
  next
    case (ok cq v)
    obtain created q where cq: "cq = (created, q)" by (cases cq)
    have v: "(q = p \<and> loaded E S v = loaded E S s) \<or> (rolled E S s sc q \<and> loaded E S v = from_value E (to_value q))"
    proof (cases "rc_proposal rc")
      case (PCal cal)
      obtain rows where ex: "sb_execute S cal s = (Inr rows, v)" and q: "q = p"
        using ok(1) unfolding cq
        by (auto simp: execute_proposal_def PCal act_bind_def split: prod.splits sum.splits)
      then show ?thesis using execute_loaded [OF ex] by blast
    next
      case (PEdit f b d)
      then show ?thesis using ok(1) by (auto simp: execute_proposal_def)
    next
      case (PData m)
      then obtain k where rb: "rollback E S k actor observer sc why now s = (Inr (), v)"
        and q: "loaded E S v = Inr q"
        using ok(1) cq by (auto simp: execute_proposal_def act_cases split: option.splits)
      from rollback_result [OF rb] obtain p' st' why' a' ah'
        where rc: "rollback_checks E S s k sc why = Inr (p', st', why', a')"
          and l: "loaded E S v = from_value E (to_value (index_transition k ah' StRolledBack p'))"
        by auto
      from l q have "q = index_transition k ah' StRolledBack p'" using loaded_is_stored by metis
      then show ?thesis using rc l unfolding rolled_def by blast
    qed
    from ok(2) [unfolded cq prod.case] show ?thesis
    proof (cases rule: act_bindE)
      case (err e)
      then have "loaded E S t = loaded E S v" using audit_loaded by blast
      then show ?thesis using v err(2) by auto
    next
      case (ok ah w)
      let ?a = "applied_of rc created now"
      let ?q = "index_transition h ah StApplied (q\<lparr>lp_applied := bt_insert h ?a (lp_applied q)\<rparr>)"
      obtain rs where sv: "save S ?q w = (rs, t)" and rs: "r = map_sum id (\<lambda>_. ?a) rs"
        using ok(2) by (auto simp: act_bind_def Let_def split: prod.splits sum.splits)
      have w: "loaded E S w = loaded E S v" by (rule audit_loaded [OF ok(1)])
      from save_result [OF sv, of E] show ?thesis
      proof
        assume l: "rs = Inr () \<and> loaded E S t = from_value E (to_value ?q)"
        then have "r = Inr ?a" using rs by simp
        then show ?thesis using checks v l by blast
      next
        assume "\<exists>e. rs = Inl e \<and> loaded E S t = loaded E S w"
        then obtain e where "r = Inl e" "loaded E S t = loaded E S v" using rs w by auto
        then show ?thesis using v by auto
      qed
    qed
  qed
qed auto

end

section \<open>What a run does to the queue\<close>

text \<open>
  Only two changes: a new recommendation is stored as pending with its creators, and, if the
  policy allows auto-apply at all, a stored one becomes applied with its record.
\<close>

definition pending_entry ::
  "string \<Rightarrow> string \<Rightarrow> string option \<Rightarrow> string \<Rightarrow> loop_persisted \<Rightarrow> loop_persisted" where
  "pending_entry h x y ah q =
     q\<lparr>lp_status := bt_insert h StPending (lp_status q), lp_creators := bt_insert h x (lp_creators q),
       lp_co_creators := (case y of None \<Rightarrow> lp_co_creators q | Some z \<Rightarrow> bt_insert h z (lp_co_creators q)),
       lp_audit_heads := bt_insert h ah (lp_audit_heads q)\<rparr>"

definition applied_entry ::
  "string \<Rightarrow> string \<Rightarrow> applied_record \<Rightarrow> loop_persisted \<Rightarrow> loop_persisted" where
  "applied_entry h ah a q =
     index_transition h ah StApplied (q\<lparr>lp_applied := bt_insert h a (lp_applied q)\<rparr>)"

definition same_queue :: "loop_persisted \<Rightarrow> loop_persisted \<Rightarrow> bool" where
  "same_queue p q \<longleftrightarrow> lp_status q = lp_status p \<and> lp_audit_heads q = lp_audit_heads p \<and>
     lp_creators q = lp_creators p \<and> lp_co_creators q = lp_co_creators p \<and> lp_applied q = lp_applied p \<and>
     lp_cooldowns q = lp_cooldowns p"

inductive grows :: "bool \<Rightarrow> loop_persisted \<Rightarrow> loop_persisted \<Rightarrow> bool" for auto p where
  same: "same_queue p q \<Longrightarrow> grows auto p q"
| stored: "grows auto p q \<Longrightarrow> grows auto p (pending_entry h x y ah q)"
| applied: "auto \<Longrightarrow> grows auto p q \<Longrightarrow> map_of (lp_status q) h = Some StPending \<Longrightarrow>
    grows auto p (applied_entry h ah a q)"
| saved: "grows auto p q \<Longrightarrow> grows auto p (q\<lparr>lp_state := st\<rparr>)"

lemma measure_queue: "measure_due E S s now due (p, out) = Inr (q, ins) \<Longrightarrow> same_queue p q"
proof (induction due arbitrary: p out)
  case (Cons d due)
  obtain h a m z where d: "d = (h, a, m, z)" by (cases d)
  from Cons.prems d obtain c where c: "measure_metric E S s m (ap_at a) = Inr c"
    by (auto simp: result_simps)
  show ?case
  proof (cases c)
    case None
    then show ?thesis using Cons.prems d c by (auto intro: Cons.IH)
  next
    case (Some current)
    then obtain p' out' where "measure_due E S s now due (p', out') = Inr (q, ins)"
      and "same_queue p p'"
      using Cons.prems d c by (auto simp: Let_def same_queue_def)
    then show ?thesis using Cons.IH [of p' out'] by (simp add: same_queue_def)
  qed
qed (simp add: same_queue_def)

lemma grows_cooldowns: "grows auto p q \<Longrightarrow> lp_cooldowns q = lp_cooldowns p"
  by (induction rule: grows.induct) (simp_all add: same_queue_def pending_entry_def applied_entry_def)

lemma can_auto_apply_enabled: "can_auto_apply E eng S s r \<Longrightarrow> po_enabled (en_policy eng)"
  by (auto simp: can_auto_apply_def grants_auto_apply_def split: if_splits sum.splits)

context state_store
begin

lemma store_survivor_result:
  assumes "store_survivor S o1 now p r s = (x, t)"
  shows "loaded E S t = loaded E S s"
    and "x = Inr (r', q) \<Longrightarrow> \<exists>h ah. r' = r\<lparr>rc_hash := h\<rparr>
      \<and> q = pending_entry h (engine_actor r) (co_creator o1 r) ah p"
proof -
  from assms have "act_bind (sb_put S \<lparr>gs_type = RECOMMENDATION, gs_ns = LOOP_NS, gs_fields = rec_fields r\<rparr>)
      (\<lambda>h. act_bind (put_audit S \<lparr>ar_rec = h, ar_from = None, ar_to = StPending, ar_actor = engine_actor r,
         ar_observer = ObSystem, ar_because = ''analyzer proposed'', ar_previous = None, ar_at = now\<rparr>) (\<lambda>ah.
       act_ret (r\<lparr>rc_hash := h\<rparr>, pending_entry h (engine_actor r) (co_creator o1 r) ah p))) s = (x, t)"
    unfolding store_survivor_def rec_spec_def act_bind_lift pending_entry_def .
  then have "loaded E S t = loaded E S s \<and> (x = Inr (r', q) \<longrightarrow>
      (\<exists>h ah. r' = r\<lparr>rc_hash := h\<rparr> \<and> q = pending_entry h (engine_actor r) (co_creator o1 r) ah p))"
  proof (cases rule: act_bindE)
    case (ok h u)
    have u: "loaded E S u = loaded E S s" by (rule put_loaded [OF ok(1)])
    from ok(2) show ?thesis
    proof (cases rule: act_bindE)
      case (ok ah v)
      then show ?thesis using audit_loaded [OF ok(1), of E] u by auto
    next
      case (err e)
      then show ?thesis using audit_loaded [OF err(1), of E] u by auto
    qed
  next
    case (err e)
    then show ?thesis using put_loaded [OF err(1), of E] by auto
  qed
  then show "loaded E S t = loaded E S s"
    and "x = Inr (r', q) \<Longrightarrow> \<exists>h ah. r' = r\<lparr>rc_hash := h\<rparr>
      \<and> q = pending_entry h (engine_actor r) (co_creator o1 r) ah p"
    by blast+
qed

lemma auto_apply_result:
  assumes "auto_apply S p r now s = (x, t)"
  shows "loaded E S t = loaded E S s" and "x = Inr q \<Longrightarrow> \<exists>ah a. q = applied_entry (rc_hash r) ah a p"
proof -
  have "loaded E S t = loaded E S s \<and> (x = Inr q \<longrightarrow> (\<exists>ah a. q = applied_entry (rc_hash r) ah a p))"
    using assms unfolding auto_apply_def
  proof (cases rule: act_bindE)
    case (err e)
    then show ?thesis by (cases "rc_proposal r") (auto dest: execute_loaded [of _ _ _ _ E])
  next
    case (ok rows u)
    have u: "loaded E S u = loaded E S s"
      using ok(1) by (cases "rc_proposal r") (auto dest: execute_loaded [of _ _ _ _ E])
    from ok(2) show ?thesis
    proof (cases rule: act_bindE)
      case (ok ah v)
      then show ?thesis using audit_loaded [OF ok(1), of E] u by (auto simp: applied_entry_def)
    next
      case (err e)
      then show ?thesis using audit_loaded [OF err(1), of E] u by auto
    qed
  qed
  then show "loaded E S t = loaded E S s" and "x = Inr q \<Longrightarrow> \<exists>ah a. q = applied_entry (rc_hash r) ah a p"
    by blast+
qed

lemma store_survivors_result:
  assumes "store_survivors E eng S o1 now rs (p, n, m) s = (x, t)"
    and "grows (po_enabled (en_policy eng)) p0 p"
  shows "loaded E S t = loaded E S s \<and>
    (\<forall>q n' m'. x = Inr (q, n', m') \<longrightarrow> grows (po_enabled (en_policy eng)) p0 q)"
  using assms
proof (induction rs arbitrary: p n m s)
  case Nil
  then show ?case by auto
next
  case (Cons r rs)
  from Cons.prems(1) [unfolded store_survivors.simps] show ?case
  proof (cases rule: act_bindE)
    case (err e)
    then show ?thesis using store_survivor_result(1) [OF err(1), of E] by simp
  next
    case (ok y u)
    obtain r' p' where y: "y = (r', p')" by (cases y)
    have u: "loaded E S u = loaded E S s" by (rule store_survivor_result(1) [OF ok(1)])
    from store_survivor_result(2) [OF ok(1), of r' p'] y
    have p': "grows (po_enabled (en_policy eng)) p0 p'"
      and pend: "map_of (lp_status p') (rc_hash r') = Some StPending"
      using Cons.prems(2) by (auto intro: grows.stored) (auto simp: pending_entry_def)
    from ok(2) [unfolded y prod.case] show ?thesis
    proof (cases rule: act_bindE)
      case (ok b v)
      have b: "b = can_auto_apply E eng S u r'" and v: "v = u"
        using act_readD [OF ok(1)] by simp_all
      show ?thesis
      proof (cases b)
        case False
        with ok(2) have "store_survivors E eng S o1 now rs (p', n + 1, m) u = (x, t)" by (simp add: v)
        from Cons.IH [OF this p'] u show ?thesis by simp
      next
        case True
        have on: "po_enabled (en_policy eng)" using True b can_auto_apply_enabled by simp
        from True ok(2) have "act_bind (auto_apply S p' r' now) (\<lambda>p.
            store_survivors E eng S o1 now rs (p, n + 1, m + 1)) u = (x, t)" by (simp add: v)
        then show ?thesis
        proof (cases rule: act_bindE)
          case (err e)
          then show ?thesis using auto_apply_result(1) [OF err(1), of E] u by simp
        next
          case (ok q w)
          from auto_apply_result(2) [OF ok(1), of q] have "grows (po_enabled (en_policy eng)) p0 q"
            using p' on pend by (auto intro: grows.applied)
          from Cons.IH [OF ok(2) this] auto_apply_result(1) [OF ok(1), of E] u show ?thesis by simp
        qed
      qed
    qed (auto dest: act_readD)
  qed
qed

lemma run_result:
  assumes "run E W eng S o1 now s = (r, t)"
  shows "loaded E S t = loaded E S s \<or> (\<exists>p q. loaded E S s = Inr p
    \<and> grows (po_enabled (en_policy eng)) p q \<and> loaded E S t = from_value E (to_value q))"
  using assms unfolding run_def
proof (cases rule: act_bindE)
  case (ok p u)
  have p: "loaded E S s = Inr p" and u: "u = s" using act_readD [OF ok(1)] by simp_all
  from ok(2) show ?thesis
  proof (cases rule: act_bindE)
    case (ok ne v)
    obtain n e where ne: "ne = (n, e)" by (cases ne)
    have v: "v = s" using act_readD(2) [OF ok(1)] u by simp
    show ?thesis
    proof (cases "gate o1 p n e now")
      case (Some why)
      then show ?thesis using ok(2) ne v by auto
    next
      case None
      from ok(2) [unfolded ne prod.case None option.case v] show ?thesis
      proof (cases rule: act_bindE)
        case (ok qi v)
        obtain q ins where qi: "qi = (q, ins)" by (cases qi)
        have q: "measure_outcomes E S s p now = Inr (q, ins)" and v: "v = s"
          using act_readD [OF ok(1)] qi by simp_all
        have g: "grows (po_enabled (en_policy eng)) p q"
          by (rule grows.same [OF measure_queue [OF q [unfolded measure_outcomes_def]]])
        from ok(2) [unfolded qi prod.case v] show ?thesis
        proof (cases rule: act_bindE)
          case (ok a v)
          have v: "v = s" using act_readD(2) [OF ok(1)] .
          from ok(2) [unfolded v] show ?thesis
          proof (cases rule: act_bindE)
            case (err e)
            then show ?thesis using store_survivors_result [OF err(1) g] by simp
          next
            case (ok y w)
            obtain q' n' m' where y: "y = (q', n', m')" by (cases y)
            have w: "loaded E S w = loaded E S s" and g': "grows (po_enabled (en_policy eng)) p q'"
              using store_survivors_result [OF ok(1) g] y by simp_all
            let ?f = "q'\<lparr>lp_state := \<lparr>ls_last_run = Some now, ls_watermark = Some now\<rparr>\<rparr>"
            obtain rs where "save S ?f w = (rs, t)"
              using ok(2) y by (auto simp: act_bind_def split: prod.splits sum.splits)
            from save_result [OF this, of E] w p grows.saved [OF g'] show ?thesis by metis
          qed
        qed (auto dest: act_readD)
      qed (auto dest: act_readD)
    qed
  qed (use u in \<open>auto dest: act_readD\<close>)
qed (auto dest: act_readD)

lemma config_result:
  assumes "set_analyzer_config E eng S i u sc s = (r, t)"
  shows "loaded E S t = loaded E S s \<or>
    (\<exists>p q. loaded E S s = Inr p \<and> same_queue p q \<and> loaded E S t = from_value E (to_value q))"
  using assms unfolding set_analyzer_config_def
proof (cases rule: act_bindE)
  case (ok x v)
  have v: "v = s" using ok(1) by simp
  from ok(2) [unfolded v] show ?thesis
  proof (cases rule: act_bindE)
    case (ok p w)
    have p: "loaded E S s = Inr p" and w: "w = s" using act_readD [OF ok(1)] by simp_all
    define q where "q = p\<lparr>lp_config := bt_insert i (update_config u (unwrap_or analyzer_config_default
        (map_of (lp_config p) i))) (lp_config p)\<rparr>"
    obtain rs where "save S q s = (rs, t)"
      using ok(2) by (auto simp: w act_bind_def Let_def q_def split: prod.splits sum.splits)
    moreover have "same_queue p q" by (simp add: same_queue_def q_def)
    ultimately show ?thesis using save_result [of q s rs t E] p by metis
  qed (auto dest: act_readD)
qed auto

end

end
