(* ===== verification/Loop_History.thy ===== *)
theory Loop_History
  imports Loop_Life
begin

text \<open>
  Histories of the loop on one substrate, and what holds of the queue after any of them.
  A history records the approvals that were granted, with their reviewer, and whether any
  run so far had a policy with auto-apply enabled.
\<close>

section \<open>Histories\<close>

type_synonym approvals = "(string \<times> string) list"

text \<open>
  Every operation counts with its result, refused and failed ones included; the host may put
  grains and execute CAL of its own in between, and may change engine and policy.
\<close>

inductive history ::
  "loop_env \<Rightarrow> llm_wire \<Rightarrow> 's substrate \<Rightarrow> approvals \<Rightarrow> bool \<Rightarrow> 's \<Rightarrow> bool" for E W S where
  start: "loaded E S s = Inr p \<Longrightarrow> lp_status p = [] \<Longrightarrow> history E W S [] False s"
| ran: "history E W S ev auto s \<Longrightarrow> run E W eng S o1 now s = (r, t) \<Longrightarrow>
    history E W S ev (auto \<or> po_enabled (en_policy eng)) t"
| approved: "history E W S ev auto s \<Longrightarrow>
    review E S h Approve actor ob sc because now s = (Inr (), t) \<Longrightarrow>
    history E W S ((h, actor) # ev) auto t"
| refused: "history E W S ev auto s \<Longrightarrow>
    review E S h Approve actor ob sc because now s = (Inl e, t) \<Longrightarrow> history E W S ev auto t"
| rejected: "history E W S ev auto s \<Longrightarrow>
    review E S h Reject actor ob sc because now s = (ru, t) \<Longrightarrow> history E W S ev auto t"
| applied: "history E W S ev auto s \<Longrightarrow>
    apply_rec E S h actor ob sc because allow now s = (ra, t) \<Longrightarrow> history E W S ev auto t"
| rolled_back: "history E W S ev auto s \<Longrightarrow>
    rollback E S h actor ob sc because now s = (ru, t) \<Longrightarrow> history E W S ev auto t"
| configured: "history E W S ev auto s \<Longrightarrow>
    set_analyzer_config E eng S i u sc s = (rc, t) \<Longrightarrow> history E W S ev auto t"
| put: "history E W S ev auto s \<Longrightarrow> sb_put S spec s = (rs, t) \<Longrightarrow> history E W S ev auto t"
| executed: "history E W S ev auto s \<Longrightarrow> sb_execute S cal s = (rj, t) \<Longrightarrow> history E W S ev auto t"

section \<open>The invariant\<close>

text \<open>
  A recommendation beyond pending was approved by someone who neither created it nor
  triggered the model that wrote it, or was applied by a policy that had auto-apply on; an
  applied one has its record; every listed one has a creator and an audit chain.
\<close>

definition vouched :: "approvals \<Rightarrow> loop_persisted \<Rightarrow> string \<Rightarrow> bool" where
  "vouched ev p h \<longleftrightarrow> (\<exists>actor. (h, actor) \<in> set ev \<and>
     map_of (lp_creators p) h \<noteq> Some actor \<and> map_of (lp_co_creators p) h \<noteq> Some actor)"

definition entry_ok :: "approvals \<Rightarrow> bool \<Rightarrow> loop_persisted \<Rightarrow> string \<Rightarrow> rec_status \<Rightarrow> bool" where
  "entry_ok ev auto p h st \<longleftrightarrow>
     map_of (lp_audit_heads p) h \<noteq> None \<and> map_of (lp_creators p) h \<noteq> None
     \<and> (st = StApplied \<longrightarrow> map_of (lp_applied p) h \<noteq> None)
     \<and> (st = StApproved \<longrightarrow> vouched ev p h)
     \<and> (st \<in> {StApplied, StRolledBack} \<longrightarrow> vouched ev p h \<or> auto)"

definition queue_ok :: "approvals \<Rightarrow> bool \<Rightarrow> loop_persisted \<Rightarrow> bool" where
  "queue_ok ev auto p \<longleftrightarrow> (\<forall>h st. map_of (lp_status p) h = Some st \<longrightarrow> entry_ok ev auto p h st)"

lemma queue_ok_same: "same_queue p q \<Longrightarrow> queue_ok ev auto p \<Longrightarrow> queue_ok ev auto q"
  by (simp add: same_queue_def queue_ok_def entry_ok_def vouched_def)

lemma queue_ok_mono: "queue_ok ev auto p \<Longrightarrow> set ev \<subseteq> set fv \<Longrightarrow> (auto \<Longrightarrow> b) \<Longrightarrow> queue_ok fv b p"
  unfolding queue_ok_def entry_ok_def vouched_def by blast

lemma queue_ok_pending: "queue_ok ev auto p \<Longrightarrow> queue_ok ev auto (pending_entry h x y ah p)"
  by (cases y) (auto simp: queue_ok_def entry_ok_def vouched_def pending_entry_def)

lemma queue_ok_applied:
  assumes "queue_ok ev auto p" and "map_of (lp_creators p) h \<noteq> None" and "vouched ev p h \<or> auto"
  shows "queue_ok ev auto (applied_entry h ah a p)"
  using assms by (auto simp: queue_ok_def entry_ok_def vouched_def applied_entry_def)

lemma queue_ok_rolled:
  assumes "queue_ok ev auto p" and "map_of (lp_status p) h = Some StApplied"
  shows "queue_ok ev auto (index_transition h ah StRolledBack p)"
  using assms by (auto simp: queue_ok_def entry_ok_def vouched_def)

lemma queue_ok_reviewed:
  assumes "queue_ok ev auto p" and "map_of (lp_status p) h = Some st"
    and "target_status d = StApproved \<Longrightarrow> vouched ev p h"
  shows "queue_ok ev auto (reviewed h d ah lr now p)"
  using assms by (cases d) (auto simp: queue_ok_def entry_ok_def vouched_def)

lemma queue_ok_grows:
  assumes "grows auto p q" and "queue_ok ev b p" and "auto \<Longrightarrow> b"
  shows "queue_ok ev b q"
  using assms
proof (induction rule: grows.induct)
  case (same q)
  then show ?case by (blast intro: queue_ok_same)
next
  case (stored q h x y ah)
  then show ?case by (blast intro: queue_ok_pending)
next
  case (applied q h ah a)
  then have q: "queue_ok ev b q" and b: b by blast+
  from q applied.hyps(3) have "map_of (lp_creators q) h \<noteq> None" by (auto simp: queue_ok_def entry_ok_def)
  with q b show ?case by (blast intro: queue_ok_applied)
next
  case (saved q st)
  then show ?case by (auto intro!: queue_ok_same [of q] simp: same_queue_def)
qed

context state_store
begin

text \<open>Where the stored state can be read, it satisfies the invariant.\<close>

lemma keep_loaded:
  assumes "loaded E S t = loaded E S s" and "loaded E S t = Inr q"
    and "\<And>p. loaded E S s = Inr p \<Longrightarrow> queue_ok ev auto p" and "auto \<Longrightarrow> b"
  shows "queue_ok ev b q"
proof (rule queue_ok_mono)
  show "queue_ok ev auto q" using assms(1,2) by (intro assms(3)) simp
qed (use assms(4) in auto)

lemma keep_stored:
  assumes "loaded E S t = from_value E (to_value p)" and "queue_ok ev auto p" and "loaded E S t = Inr q"
  shows "queue_ok ev auto q"
  using assms loaded_is_stored [of E p q] by simp

lemma review_checks_Inr:
  assumes "review_checks E S s h d actor sc because = Inr (p, st, why)"
  shows "loaded E S s = Inr p" and "map_of (lp_status p) h = Some st" and "has_scope sc ScReview"
    and "validate_because because = Inr why" and "can_transition_to st (target_status d) False"
    and "target_status d = StApproved \<Longrightarrow>
      map_of (lp_creators p) h \<noteq> Some actor \<and> map_of (lp_co_creators p) h \<noteq> Some actor"
  using assms
  by (auto simp: review_checks_def result_simps status_entry_def self_approval_def split: if_splits)

lemma rollback_checks_Inr:
  assumes "rollback_checks E S s h sc because = Inr (p, st, why, a)"
  shows "loaded E S s = Inr p" and "map_of (lp_status p) h = Some StApplied"
  using assms
  by (auto simp: rollback_checks_def result_simps status_entry_def elim: can_transition_to.elims)

lemma apply_checks_Inr:
  assumes "apply_checks E S s h sc because allow = Inr (p, st, why, r)"
  shows "loaded E S s = Inr p" and "map_of (lp_status p) h = Some StApproved"
    and "load_rec E S s h = Inr r" and "has_scope sc ScApply"
    and "rc_destructive r \<Longrightarrow> has_scope sc ScAdmin \<and> allow"
  using assms
  by (auto simp: apply_checks_def result_simps status_entry_def destructive_gate_def
      elim: can_transition_to.elims)

lemma rolled_ok:
  assumes "rolled E S s sc q" and "\<And>p. loaded E S s = Inr p \<Longrightarrow> queue_ok ev auto p"
  shows "queue_ok ev auto q" and "loaded E S s = Inr p \<Longrightarrow> lp_creators q = lp_creators p
    \<and> lp_co_creators q = lp_co_creators p"
proof -
  obtain k v p' st why a ah where c: "rollback_checks E S s k sc v = Inr (p', st, why, a)"
    and q: "q = index_transition k ah StRolledBack p'"
    using assms(1) unfolding rolled_def by blast
  note cs = rollback_checks_Inr [OF c]
  show "queue_ok ev auto q" unfolding q by (rule queue_ok_rolled [OF assms(2) [OF cs(1)] cs(2)])
  show "lp_creators q = lp_creators p \<and> lp_co_creators q = lp_co_creators p" if "loaded E S s = Inr p"
    using that cs(1) q by simp
qed

lemma history_ok:
  assumes "history E W S ev auto s" and "loaded E S s = Inr p"
  shows "queue_ok ev auto p"
  using assms
proof (induction arbitrary: p rule: history.induct)
  case (start s q)
  then show ?case by (simp add: queue_ok_def)
next
  case (ran ev auto s eng o1 now r t)
  from run_result [OF ran.hyps(2)] show ?case
  proof (elim disjE exE conjE)
    assume "loaded E S t = loaded E S s"
    from this ran.prems show ?thesis by (rule keep_loaded [where auto = auto]) (auto intro: ran.IH)
  next
    fix p' q
    assume p': "loaded E S s = Inr p'" and g: "grows (po_enabled (en_policy eng)) p' q"
      and t: "loaded E S t = from_value E (to_value q)"
    have "queue_ok ev (auto \<or> po_enabled (en_policy eng)) p'"
      by (rule queue_ok_mono [OF ran.IH [OF p']]) auto
    with g have "queue_ok ev (auto \<or> po_enabled (en_policy eng)) q" by (rule queue_ok_grows) blast
    with t show ?thesis using ran.prems by (rule keep_stored)
  qed
next
  case (approved ev auto s h actor ob sc because now t)
  from review_result [OF approved.hyps(2)] obtain q st why ah lr
    where c: "review_checks E S s h Approve actor sc because = Inr (q, st, why)"
      and t: "loaded E S t = from_value E (to_value (reviewed h Approve ah lr now q))"
    by auto
  note cs = review_checks_Inr [OF c]
  have "queue_ok ((h, actor) # ev) auto q"
    by (rule queue_ok_mono [OF approved.IH [OF cs(1)]]) auto
  moreover have "vouched ((h, actor) # ev) q h" using cs(6) by (auto simp: vouched_def)
  ultimately have "queue_ok ((h, actor) # ev) auto (reviewed h Approve ah lr now q)"
    using cs(2) by (intro queue_ok_reviewed) auto
  with t show ?case using approved.prems by (rule keep_stored)
next
  case (refused ev auto s h actor ob sc because now e t)
  from review_result [OF refused.hyps(2)] have "loaded E S t = loaded E S s" by auto
  from this refused.prems show ?case by (rule keep_loaded) (auto intro: refused.IH)
next
  case (rejected ev auto s h actor ob sc because now ru t)
  from review_result [OF rejected.hyps(2)] show ?case
  proof (elim disjE exE conjE)
    assume "loaded E S t = loaded E S s"
    from this rejected.prems show ?thesis by (rule keep_loaded) (auto intro: rejected.IH)
  next
    fix q st why ah lr
    assume c: "review_checks E S s h Reject actor sc because = Inr (q, st, why)"
      and t: "loaded E S t = from_value E (to_value (reviewed h Reject ah lr now q))"
    note cs = review_checks_Inr [OF c]
    have "queue_ok ev auto (reviewed h Reject ah lr now q)"
      using rejected.IH [OF cs(1)] cs(2) by (intro queue_ok_reviewed) auto
    with t show ?thesis using rejected.prems by (rule keep_stored)
  qed
next
  case (applied ev auto s h actor ob sc because allow now ra t)
  from apply_result [OF applied.hyps(2)] show ?case
  proof (elim disjE exE conjE)
    assume "loaded E S t = loaded E S s"
    from this applied.prems show ?thesis by (rule keep_loaded) (auto intro: applied.IH)
  next
    fix q assume q: "rolled E S s sc q" and t: "loaded E S t = from_value E (to_value q)"
    from t rolled_ok(1) [OF q applied.IH] applied.prems show ?thesis by (rule keep_stored)
  next
    fix p' st why rc a ah q
    assume c: "apply_checks E S s h sc because allow = Inr (p', st, why, rc)"
      and t: "loaded E S t = from_value E (to_value (index_transition h ah StApplied
             (q\<lparr>lp_applied := bt_insert h a (lp_applied q)\<rparr>)))"
      and q: "q = p'"
    note cs = apply_checks_Inr [OF c]
    from applied.IH [OF cs(1)] cs(2) q have "queue_ok ev auto q"
      and "map_of (lp_creators q) h \<noteq> None" and "vouched ev q h \<or> auto"
      by (auto simp: queue_ok_def entry_ok_def)
    then have "queue_ok ev auto (applied_entry h ah a q)" by (rule queue_ok_applied)
    with t applied.prems show ?thesis by (simp add: applied_entry_def keep_stored)
  next
    fix p' st why rc a ah q
    assume c: "apply_checks E S s h sc because allow = Inr (p', st, why, rc)"
      and t: "loaded E S t = from_value E (to_value (index_transition h ah StApplied
             (q\<lparr>lp_applied := bt_insert h a (lp_applied q)\<rparr>)))"
      and q: "rolled E S s sc q"
    note cs = apply_checks_Inr [OF c]
    from rolled_ok(2) [OF q applied.IH cs(1)]
    have same: "lp_creators q = lp_creators p'" "lp_co_creators q = lp_co_creators p'" by auto
    from applied.IH [OF cs(1)] cs(2)
    have "map_of (lp_creators q) h \<noteq> None" and "vouched ev q h \<or> auto"
      by (auto simp: queue_ok_def entry_ok_def vouched_def same)
    with rolled_ok(1) [OF q applied.IH] have "queue_ok ev auto (applied_entry h ah a q)"
      by (intro queue_ok_applied)
    with t applied.prems show ?thesis by (simp add: applied_entry_def keep_stored)
  qed
next
  case (rolled_back ev auto s h actor ob sc because now ru t)
  from rollback_result [OF rolled_back.hyps(2)] show ?case
  proof (elim disjE exE conjE)
    assume "loaded E S t = loaded E S s"
    from this rolled_back.prems show ?thesis by (rule keep_loaded) (auto intro: rolled_back.IH)
  next
    fix q st why a ah
    assume c: "rollback_checks E S s h sc because = Inr (q, st, why, a)"
      and t: "loaded E S t = from_value E (to_value (index_transition h ah StRolledBack q))"
    have "queue_ok ev auto (index_transition h ah StRolledBack q)"
      using rolled_back.IH rollback_checks_Inr [OF c] by (intro queue_ok_rolled) auto
    with t show ?thesis using rolled_back.prems by (rule keep_stored)
  qed
next
  case (configured ev auto s eng i u sc rc t)
  from config_result [OF configured.hyps(2)] show ?case
  proof (elim disjE exE conjE)
    assume "loaded E S t = loaded E S s"
    from this configured.prems show ?thesis by (rule keep_loaded) (auto intro: configured.IH)
  next
    fix p' q assume "loaded E S s = Inr p'" "same_queue p' q"
      and t: "loaded E S t = from_value E (to_value q)"
    then have "queue_ok ev auto q" using configured.IH queue_ok_same by blast
    with t show ?thesis using configured.prems by (rule keep_stored)
  qed
next
  case (put ev auto s spec rs t)
  from put_loaded [OF put.hyps(2)] put.prems show ?case by (rule keep_loaded) (auto intro: put.IH)
next
  case (executed ev auto s cal rj t)
  from execute_loaded [OF executed.hyps(2)] executed.prems show ?case by (rule keep_loaded) (auto intro: executed.IH)
qed

end

end
