(* ===== verification/Loop_Cooldown.thy ===== *)
theory Loop_Cooldown
  imports Loop_History
begin

text \<open>
  The cooldown of a rejected finding over whatever happens afterwards: the interval, the
  continuations of a state, and the invariant that the entry stays.
\<close>

section \<open>The interval\<close>

lemma saturating_no_effect:
  "saturating_mul_i64 BASE_MS (2 ^ nat (min k 31)) = BASE_MS * 2 ^ nat (min k 31)"
proof -
  have "(2::int) ^ nat (min k 31) \<le> 2 ^ 31" by (rule power_increasing) simp_all
  then have "BASE_MS * 2 ^ nat (min k 31) \<le> BASE_MS * 2 ^ 31" by (simp add: BASE_MS_def)
  also have "BASE_MS * 2 ^ 31 \<le> i64_max" by (simp add: BASE_MS_def i64_max_def)
  finally have "BASE_MS * 2 ^ nat (min k 31) \<le> i64_max" .
  moreover have "0 \<le> BASE_MS * 2 ^ nat (min k 31)" by (simp add: BASE_MS_def)
  then have "i64_min \<le> BASE_MS * 2 ^ nat (min k 31)" by (simp add: i64_min_def)
  ultimately show ?thesis by (simp add: saturating_mul_i64_def)
qed

lemma cooldown_min: "cooldown_interval k = min (BASE_MS * 2 ^ nat (min k 31)) CAP_MS"
  using saturating_no_effect by (simp add: cooldown_interval_def)

lemma cooldown_bounds:
  "7 * 86400000 \<le> cooldown_interval k \<and> cooldown_interval k \<le> 90 * 86400000"
proof -
  have "(1::int) \<le> 2 ^ nat (min k 31)" by simp
  then have "BASE_MS \<le> BASE_MS * 2 ^ nat (min k 31)" by (simp add: BASE_MS_def)
  then show ?thesis using cooldown_min [of k] by (simp add: BASE_MS_def CAP_MS_def)
qed

section \<open>What can happen afterwards\<close>

text \<open>
  Any operations after a point in time, in any order, with any engine and policy, refused and
  failed ones included; the host may put, retract and execute between them. Only the clock of
  a review matters: it is the one operation that writes a cooldown.
\<close>

inductive afterwards :: "loop_env \<Rightarrow> llm_wire \<Rightarrow> 's substrate \<Rightarrow> int \<Rightarrow> 's \<Rightarrow> 's \<Rightarrow> bool" for E W S since s where
  here: "afterwards E W S since s s"
| ran: "afterwards E W S since s t \<Longrightarrow> run E W eng S o1 clk t = (r, u) \<Longrightarrow> afterwards E W S since s u"
| reviewed: "afterwards E W S since s t \<Longrightarrow> since \<le> clk \<Longrightarrow>
    review E S h d actor ob sc because clk t = (ru, u) \<Longrightarrow> afterwards E W S since s u"
| applied: "afterwards E W S since s t \<Longrightarrow>
    apply_rec E S h actor ob sc because allow clk t = (ra, u) \<Longrightarrow> afterwards E W S since s u"
| rolled_back: "afterwards E W S since s t \<Longrightarrow>
    rollback E S h actor ob sc because clk t = (ru, u) \<Longrightarrow> afterwards E W S since s u"
| configured: "afterwards E W S since s t \<Longrightarrow>
    set_analyzer_config E eng S i up sc t = (rc, u) \<Longrightarrow> afterwards E W S since s u"
| put: "afterwards E W S since s t \<Longrightarrow> sb_put S spec t = (rs, u) \<Longrightarrow> afterwards E W S since s u"
| retracted: "afterwards E W S since s t \<Longrightarrow> sb_retract S k why t = (ru, u) \<Longrightarrow> afterwards E W S since s u"
| executed: "afterwards E W S since s t \<Longrightarrow> sb_execute S cal t = (rj, u) \<Longrightarrow> afterwards E W S since s u"

definition cools_until :: "int \<Rightarrow> string \<Rightarrow> loop_persisted \<Rightarrow> bool" where
  "cools_until n k p \<longleftrightarrow> (\<exists>end_of. map_of (lp_cooldowns p) k = Some end_of \<and> n \<le> end_of)"

lemma cools_until_same: "lp_cooldowns q = lp_cooldowns p \<Longrightarrow> cools_until n k q = cools_until n k p"
  by (simp add: cools_until_def)

lemma cools_until_cooling: "cools_until n k p \<Longrightarrow> now < n \<Longrightarrow> cooling p now k"
  by (auto simp: cools_until_def cooling_def)

lemma strike_cools: "cools_until (now + 7 * 86400000) k (strike k now p)"
  using cooldown_bounds by (simp add: cools_until_def strike_cooldowns)

lemma reviewed_cools:
  assumes "cools_until (since + 7 * 86400000) k p" and "since \<le> now"
  shows "cools_until (since + 7 * 86400000) k (reviewed h d ah lr now p)"
proof -
  have "since + 7 * 86400000 \<le> now + cooldown_interval n" for n
    using cooldown_bounds [of n] assms(2) by simp
  with assms(1) show ?thesis
    by (auto simp: cools_until_def reviewed_def Let_def strike_cooldowns split: sum.split)
qed

section \<open>The entry stays\<close>

definition cooled :: "loop_env \<Rightarrow> 's substrate \<Rightarrow> int \<Rightarrow> string \<Rightarrow> 's \<Rightarrow> bool" where
  "cooled E S n k s \<longleftrightarrow> (\<forall>p. loaded E S s = Inr p \<longrightarrow> cools_until n k p)"

lemma cooledD: "cooled E S n k s \<Longrightarrow> loaded E S s = Inr p \<Longrightarrow> cools_until n k p"
  by (simp add: cooled_def)

lemma cooled_same: "cooled E S n k s \<Longrightarrow> loaded E S t = loaded E S s \<Longrightarrow> cooled E S n k t"
  by (simp add: cooled_def)

lemma cooled_stored: "loaded E S t = from_value E (to_value p) \<Longrightarrow> cools_until n k p \<Longrightarrow> cooled E S n k t"
  using loaded_is_stored by (fastforce simp: cooled_def)

context state_store
begin

lemma rolled_cools:
  assumes "rolled E S s sc q" and "cooled E S n k s"
  shows "cools_until n k q"
proof -
  obtain h v p st why a ah where c: "rollback_checks E S s h sc v = Inr (p, st, why, a)"
    and q: "q = index_transition h ah StRolledBack p"
    using assms(1) unfolding rolled_def by blast
  from cooledD [OF assms(2) rollback_checks_Inr(1) [OF c]] show ?thesis by (simp add: q cools_until_def)
qed

lemma afterwards_cooled:
  assumes "afterwards E W S since s t" and "cooled E S (since + 7 * 86400000) k s"
  shows "cooled E S (since + 7 * 86400000) k t"
  using assms
proof (induction rule: afterwards.induct)
  case (ran t eng o1 clk r u)
  then have c: "cooled E S (since + 7 * 86400000) k t" by blast
  from run_result [OF ran.hyps(2)] show ?case
  proof (elim disjE exE conjE)
    fix p q assume p: "loaded E S t = Inr p" and g: "grows (po_enabled (en_policy eng)) p q"
      and l: "loaded E S u = from_value E (to_value q)"
    from cooledD [OF c p] have "cools_until (since + 7 * 86400000) k q"
      by (simp add: cools_until_def grows_cooldowns [OF g])
    with l show ?thesis by (rule cooled_stored)
  qed (rule cooled_same [OF c])
next
  case (reviewed t clk h d actor ob sc because ru u)
  then have c: "cooled E S (since + 7 * 86400000) k t" by blast
  from review_result [OF reviewed.hyps(3)] show ?case
  proof (elim disjE exE conjE)
    fix p st why ah lr assume p: "review_checks E S t h d actor sc because = Inr (p, st, why)"
      and l: "loaded E S u = from_value E (to_value (reviewed h d ah lr clk p))"
    from cooledD [OF c review_checks_Inr(1) [OF p]] reviewed.hyps(2)
    have "cools_until (since + 7 * 86400000) k (reviewed h d ah lr clk p)" by (rule reviewed_cools)
    with l show ?thesis by (rule cooled_stored)
  qed (rule cooled_same [OF c])
next
  case (applied t h actor ob sc because allow clk ra u)
  then have c: "cooled E S (since + 7 * 86400000) k t" by blast
  have half: "cools_until (since + 7 * 86400000) k q" if "rolled E S t sc q" for q
    using that c by (rule rolled_cools)
  from apply_result [OF applied.hyps(2)] show ?case
  proof (elim disjE exE conjE)
    fix q assume "rolled E S t sc q" and l: "loaded E S u = from_value E (to_value q)"
    from l half [OF this(1)] show ?thesis by (rule cooled_stored)
  next
    fix p st why rc a ah q
    assume p: "apply_checks E S t h sc because allow = Inr (p, st, why, rc)" and "q = p"
      and l: "loaded E S u = from_value E (to_value (index_transition h ah StApplied
             (q\<lparr>lp_applied := bt_insert h a (lp_applied q)\<rparr>)))"
    with cooledD [OF c apply_checks_Inr(1) [OF p]] show ?thesis
      by (intro cooled_stored [OF l]) (simp add: cools_until_def)
  next
    fix p st why rc a ah q
    assume "rolled E S t sc q" and l: "loaded E S u = from_value E (to_value (index_transition h ah StApplied
             (q\<lparr>lp_applied := bt_insert h a (lp_applied q)\<rparr>)))"
    with half show ?thesis by (intro cooled_stored [OF l]) (simp add: cools_until_def)
  qed (rule cooled_same [OF c])
next
  case (rolled_back t h actor ob sc because clk ru u)
  then have c: "cooled E S (since + 7 * 86400000) k t" by blast
  from rollback_result [OF rolled_back.hyps(2)] show ?case
  proof (elim disjE exE conjE)
    fix p st why a ah assume p: "rollback_checks E S t h sc because = Inr (p, st, why, a)"
      and l: "loaded E S u = from_value E (to_value (index_transition h ah StRolledBack p))"
    from cooledD [OF c rollback_checks_Inr(1) [OF p]] show ?thesis
      by (intro cooled_stored [OF l]) (simp add: cools_until_def)
  qed (rule cooled_same [OF c])
next
  case (configured t eng i up sc rc u)
  then have c: "cooled E S (since + 7 * 86400000) k t" by blast
  from config_result [OF configured.hyps(2)] show ?case
  proof (elim disjE exE conjE)
    fix p q assume p: "loaded E S t = Inr p" and q: "same_queue p q"
      and l: "loaded E S u = from_value E (to_value q)"
    from cooledD [OF c p] q show ?thesis
      by (intro cooled_stored [OF l]) (simp add: cools_until_def same_queue_def)
  qed (rule cooled_same [OF c])
next
  case (put t spec rs u)
  then show ?case using cooled_same [OF _ put_loaded] by blast
next
  case (retracted t k' why ru u)
  then show ?case using cooled_same [OF _ loaded_cong [OF retract_load]] by blast
next
  case (executed t cal rj u)
  then show ?case using cooled_same [OF _ execute_loaded] by blast
qed

end

section \<open>The rejection\<close>

context grain_store
begin

lemma load_rec_kept:
  assumes "ok s" and "sb_put S spec s = (r, t)" and "load_rec E S s h = Inr x"
  shows "load_rec E S t h = Inr x"
proof -
  from assms(3) obtain g where g: "sb_grain S s h = Inr (Some g)" "rec_from_fields E h (lg_fields g) = Inr x"
    by (auto simp: load_rec_def result_simps ok_or_def split: option.splits)
  from put_keeps [OF assms(1,2) g(1)] g(2) show ?thesis by (simp add: load_rec_def result_simps ok_or_def)
qed

lemma rejection_cools:
  assumes "ok s" and "load_rec E S s h = Inr x"
    and "review E S h Reject actor ob sc because now s = (Inr (), t)"
  shows "cooled E S (now + 7 * 86400000) (rc_dedup x) t"
  using assms(3) unfolding review_def
proof (cases rule: act_bindE)
  case (ok c u)
  obtain p st why where c: "c = (p, st, why)" by (cases c)
  have u: "u = s" by (rule act_readD(2) [OF ok(1)])
  from ok(2) [unfolded c prod.case u] show ?thesis
  proof (cases rule: act_bindE)
    case (ok ah v)
    have lr: "load_rec E S v h = Inr x"
      by (rule load_rec_kept [OF assms(1) ok(1) [unfolded put_audit_def] assms(2)])
    let ?q = "strike (rc_dedup x) now (index_transition h ah StRejected p)"
    have "save S ?q v = (Inr (), t)" using ok(2) by (simp add: act_bind_def Let_def lr)
    from save_result [OF this, of E] have "loaded E S t = from_value E (to_value ?q)" by simp
    then show ?thesis using strike_cools by (rule cooled_stored)
  qed simp
qed simp

lemma rejection_stays:
  assumes "ok s" and "load_rec E S s h = Inr x"
    and "review E S h Reject actor ob sc because now s = (Inr (), t)"
    and "afterwards E W S now t u" and "loaded E S u = Inr p"
    and "measure_outcomes E S u p clk = Inr (q, ins)" and "clk < now + 7 * 86400000"
  shows "cooling q clk (rc_dedup x)"
proof -
  have "cooled E S (now + 7 * 86400000) (rc_dedup x) u"
    by (rule afterwards_cooled [OF assms(4) rejection_cools [OF assms(1-3)]])
  from cooledD [OF this assms(5)] have "cools_until (now + 7 * 86400000) (rc_dedup x) q"
    using measure_queue [OF assms(6) [unfolded measure_outcomes_def]]
    by (simp add: same_queue_def cools_until_def)
  then show ?thesis using assms(7) by (rule cools_until_cooling)
qed

end

end
