(* ===== verification/Loop_Demo.thy ===== *)
theory Loop_Demo
  imports Loop_Cooldown
begin

text \<open>
  A small concrete loop on the reference substrate: one analyzer that always proposes one
  flag, run once and reviewed, on which the properties are instantiated.
\<close>

definition loop_env0 :: loop_env where
  "loop_env0 = \<lparr>le_json_text = (\<lambda>_. ''{}''), le_json_parse = (\<lambda>s. if s = ''{}'' then Some (JObj []) else None), le_parse_error = (\<lambda>_. []),
     le_rnd = of_int, le_add = (+), le_div = (/), le_f64_text = (\<lambda>_. []), le_decode_error = (\<lambda>_. [])\<rparr>"

definition llm_wire0 :: llm_wire where
  "llm_wire0 = \<lparr>lw_request = (\<lambda>_. None), lw_ground_request = (\<lambda>_. None), lw_verify_request = (\<lambda>_. None),
     lw_discover = (\<lambda>_. None), lw_enrich = (\<lambda>_. None), lw_ground = (\<lambda>_. None), lw_verify = (\<lambda>_. None)\<rparr>"

definition demo_manifest :: manifest where
  "demo_manifest = \<lparr>mf_id = ''loop.demo/1'', mf_title = [], mf_description = [], mf_tier = T0,
     mf_cadence = CFast, mf_requires = [], mf_target_classes = [TMemory],
     mf_auto_apply = AutoNever, mf_trust = TrustBuiltin, mf_params = [PBool ''deep'' False],
     mf_default_on = True\<rparr>"

definition demo_draft :: rec_draft where
  "demo_draft = rec_draft_new ''entity:a'' AFlag \<lparr>su_template = ''t'', su_args = []\<rparr>
     (PCal ''ADD fact {}'')"

definition demo_engine :: "ref_sub engine" where
  "demo_engine = \<lparr>en_analyzers = [\<lparr>an_manifest = demo_manifest, an_analyze = (\<lambda>_. Inr [demo_draft])\<rparr>],
     en_policy = policy_default, en_llm = None, en_ground = None\<rparr>"

definition demo_options :: run_options where
  "demo_options = \<lparr>op_min_new = None, op_min_errors = None, op_stale = None, op_namespaces = [],
     op_full_sweep = False, op_trigger = None\<rparr>"

abbreviation ref0 :: "ref_sub substrate" where "ref0 \<equiv> reference loop_env0"

definition demo_rec :: recommendation where
  "demo_rec = \<lparr>rc_hash = [], rc_analyzer = ''loop.demo/1'', rc_params = [(''deep'', JBool False)],
     rc_origin = OBuiltin, rc_target = ''entity:a'', rc_action = AFlag,
     rc_dedup = dedup_key ''loop.demo'' ''entity:a'' AFlag,
     rc_summary = \<lparr>su_template = ''t'', su_args = []\<rparr>, rc_severity = SLow,
     rc_proposal = PCal ''ADD fact {}'', rc_destructive = False, rc_rollbackable = True,
     rc_evidence = [], rc_evidence_query = None, rc_metric = None, rc_confidence = Finite (4/5),
     rc_importance = Finite (1/2), rc_created = 1000, rc_guidance = None, rc_status = StPending\<rparr>"

lemma demo_not_destructive: "contains_destructive ''ADD fact {}'' = False"
  by code_simp

lemma demo_stamp: "stamp demo_manifest [(''deep'', JBool False)] demo_draft 1000 = Inr demo_rec"
  by (simp add: stamp_def demo_draft_def rec_draft_new_def target_parse_def KNOWN_SCHEMES_def
      demo_manifest_def family_def analyzer_family_def demo_not_destructive demo_rec_def
      target_string_def Let_def)

definition demo_loop1 :: ref_sub where
  "demo_loop1 = snd (run loop_env0 llm_wire0 demo_engine ref0 demo_options 1000 ref_new)"

lemma demo_pass:
  "analysis_pass loop_env0 llm_wire0 demo_engine ref0 ref_new persisted_default demo_options [] None 1000 []
     = Inr \<lparr>ps_survivors = [demo_rec], ps_proposed = 1, ps_deduped = 0, ps_ran = [''loop.demo/1''], ps_skipped = []\<rparr>"
proof -
  have run1: "run_analyzer loop_env0 demo_engine ref0 ref_new persisted_default demo_options [] None 1000 []
      \<lparr>an_manifest = demo_manifest, an_analyze = (\<lambda>_. Inr [demo_draft])\<rparr> ([], [], [])
      = ([''loop.demo/1''], [], [demo_rec])"
  proof -
    have "analyzer_enabled persisted_default demo_manifest"
      by (simp add: analyzer_enabled_def persisted_default_def demo_manifest_def)
    moreover have "policy_denies (en_policy demo_engine) (family demo_manifest) = False"
      by (simp add: policy_denies_def demo_engine_def policy_default_def)
    moreover have "resolve_params loop_env0 demo_manifest (param_overrides persisted_default [] demo_manifest)
        = Inr [(''deep'', JBool False)]"
      by (simp add: resolve_params_def param_overrides_def persisted_default_def demo_manifest_def)
    moreover have "missing_capability (mf_requires demo_manifest) c = None" for c
      by (simp add: demo_manifest_def)
    ultimately show ?thesis
      by (simp add: run_analyzer_def Let_def demo_stamp) (simp add: demo_manifest_def)
  qed
  have "existing_dedup_keys ref0 ref_new persisted_default = Inr []"
    by (simp add: existing_dedup_keys_def ref_grains_of_type_def ref_new_def)
  moreover have "keep_novel demo_engine persisted_default [] 1000 [demo_rec] [] = [demo_rec]"
    by (simp add: below_floor_def floor_of_def persisted_default_def demo_engine_def policy_floor_def
        policy_default_def cooling_def)
  moreover have "fold (run_analyzer loop_env0 demo_engine ref0 ref_new persisted_default demo_options [] None 1000 [])
      (en_analyzers demo_engine) ([], [], []) = ([''loop.demo/1''], [], [demo_rec])"
    using run1 by (simp add: demo_engine_def)
  moreover have "en_llm demo_engine = None" by (simp add: demo_engine_def)
  ultimately show ?thesis
    by (simp add: analysis_pass_def discover_def enrich_def)
qed

lemma pad8_0: "pad8 0 = ''00000000''" and pad8_1: "pad8 (Suc 0) = ''00000001''"
  by (code_simp)+

definition demo_p1 :: loop_persisted where
  "demo_p1 = persisted_default
     \<lparr>lp_state := \<lparr>ls_last_run = Some 1000, ls_watermark = Some 1000\<rparr>,
      lp_status := [(''ref-00000000'', StPending)],
      lp_audit_heads := [(''ref-00000000'', ''ref-00000001'')],
      lp_creators := [(''ref-00000000'', ''engine:loop.demo/1'')]\<rparr>"

lemma demo_run:
  "\<exists>r. run loop_env0 llm_wire0 demo_engine ref0 demo_options 1000 ref_new = (Inr r, demo_loop1) \<and> rr_ran r
     \<and> rs_state demo_loop1 = to_value demo_p1
     \<and> map_option lg_fields (ref_grain_at demo_loop1 ''ref-00000000'') = Some (rec_fields demo_rec) \<and> ref_ok demo_loop1"
proof -
  have l: "loaded loop_env0 ref0 ref_new = Inr persisted_default"
    by (simp add: loaded_def ref_new_def from_value_def)
  have n: "count_new ref0 ref_new None = Inr (0, 0)"
    by (simp add: count_new_def ref_grains_of_type_def ref_new_def)
  have m: "measure_outcomes loop_env0 ref0 ref_new persisted_default 1000 = Inr (persisted_default, [])"
    by (simp add: measure_outcomes_def due_checkpoints_def persisted_default_def)
  have w: "ls_watermark (lp_state persisted_default) = None" "analysis_watermark demo_options persisted_default = None"
    by (simp_all add: persisted_default_def analysis_watermark_def demo_options_def)
  have g: "gate demo_options persisted_default 0 0 1000 = None"
    by (simp add: gate_def demo_options_def Let_def)
  have a: "can_auto_apply loop_env0 demo_engine ref0 s (demo_rec\<lparr>rc_hash := h\<rparr>) = False" for s h
    by (simp add: can_auto_apply_def demo_rec_def demo_engine_def demo_manifest_def)
  let ?h = "''ref-00000000''" and ?a = "''ref-00000001''"
  define q where "q = persisted_default\<lparr>lp_status := [(?h, StPending)],
      lp_creators := [(?h, ''engine:loop.demo/1'')], lp_audit_heads := [(?h, ?a)]\<rparr>"
  have st: "\<exists>t. store_survivors loop_env0 demo_engine ref0 demo_options 1000 [demo_rec]
      (persisted_default, 0, 0) ref_new = (Inr (q, 1, 0), t)
      \<and> map_option lg_fields (ref_grain_at t ?h) = Some (rec_fields demo_rec) \<and> ref_ok t"
    by (simp add: store_survivor_def rec_spec_def a put_audit_def act_bind_def
      ref_put_def record_from_spec_def ref_insert_def mint_hash_def Let_def ref_new_def pad8_0 pad8_1
      co_creator_def demo_options_def ref_grain_at_def ref_ok_def)
      (auto simp add: q_def persisted_default_def engine_actor_def demo_rec_def pad8_0 pad8_1
        intro: exI [of _ 0] exI [of _ "Suc 0"] split: if_splits)
  then obtain t where st: "store_survivors loop_env0 demo_engine ref0 demo_options 1000 [demo_rec]
      (persisted_default, 0, 0) ref_new = (Inr (q, 1, 0), t)"
    and fs: "map_option lg_fields (ref_grain_at t ?h) = Some (rec_fields demo_rec)" and ok: "ref_ok t" by blast
  have q: "q\<lparr>lp_state := \<lparr>ls_last_run = Some 1000, ls_watermark = Some 1000\<rparr>\<rparr> = demo_p1"
    by (simp add: q_def demo_p1_def)
  have "\<exists>r t. run loop_env0 llm_wire0 demo_engine ref0 demo_options 1000 ref_new = (Inr r, t) \<and> rr_ran r
     \<and> rs_state t = to_value demo_p1 \<and> map_option lg_fields (ref_grain_at t ?h) = Some (rec_fields demo_rec) \<and> ref_ok t"
    using fs ok by (simp add: run_def act_bind_def l n m w g demo_pass st save_def q ref_grain_at_def ref_ok_def del: store_survivors.simps)
  then show ?thesis by (auto simp: demo_loop1_def)
qed

lemma demo_loaded1: "loaded loop_env0 ref0 demo_loop1 = Inr demo_p1"
proof -
  have "wf_persisted demo_p1"
    by (simp add: wf_persisted_def demo_p1_def persisted_default_def fits_u32_def SCHEMA_VERSION_def
        wf_loop_state_def fits_def i64_max_def)
  then show ?thesis using demo_run by (auto simp: loaded_def loop_state_roundtrip)
qed

end
