(* ===== verification/Loop_Props.thy ===== *)
theory Loop_Props
  imports Loop_Demo
begin

text \<open>
  The properties of the loop: separation of duties over histories, what a review, an apply
  and a rollback do, which findings survive a pass, cooldowns, and outcome checkpoints.
\<close>

section \<open>Histories\<close>

text \<open>
  C6. After any history on any substrate that keeps the loop state, a recommendation that is
  approved has been approved by somebody who neither created it nor triggered the model that
  wrote it; one that is applied or rolled back has been, too, unless some run had a policy
  with auto-apply switched on; an applied one has the record a rollback needs; and every
  entry has a creator and an audit chain.
\<close>

theorem applied_was_vouched:
  assumes "state_store S" and "history E W S ev auto s" and "loaded E S s = Inr p"
    and "map_of (lp_status p) h = Some st"
  shows "map_of (lp_audit_heads p) h \<noteq> None \<and> map_of (lp_creators p) h \<noteq> None
     \<and> (st = StApplied \<longrightarrow> map_of (lp_applied p) h \<noteq> None)
     \<and> (st = StApproved \<or> (st \<in> {StApplied, StRolledBack} \<and> auto = False) \<longrightarrow>
          (\<exists>actor. (h, actor) \<in> set ev \<and> map_of (lp_creators p) h \<noteq> Some actor
             \<and> map_of (lp_co_creators p) h \<noteq> Some actor))"
  using state_store.history_ok [OF assms(1-3)] assms(4)
  by (auto simp: queue_ok_def entry_ok_def vouched_def)

section \<open>Review\<close>

lemma ref_put_audit:
  obtains g u where "put_audit (reference E) a s = (Inr (''ref-'' @ pad8 (rs_next s)), u)"
    and "ref_grain_at u (''ref-'' @ pad8 (rs_next s)) = Some g"
    and "lg_fields g = gs_fields (audit_spec a LOOP_NS)" and "rs_state u = rs_state s"
    and "ref_ok s \<Longrightarrow> ref_ok u" and "\<And>k g. ref_ok s \<Longrightarrow> ref_grain_at s k = Some g \<Longrightarrow> ref_grain_at u k = Some g"
proof -
  obtain u where u: "ref_put (audit_spec a LOOP_NS) s = (Inr (''ref-'' @ pad8 (rs_next s)), u)"
    by (rule ref_put_unfold [of "audit_spec a LOOP_NS" s]) blast
  from ref_put_grain [OF u] obtain g where "ref_grain_at u (''ref-'' @ pad8 (rs_next s)) = Some g"
    "lg_fields g = gs_fields (audit_spec a LOOP_NS)" by blast
  with that u show ?thesis
    using ref_put_state [of "audit_spec a LOOP_NS" s] ref_put_ok [of s "audit_spec a LOOP_NS"]
      ref_put_keeps [of s _ _ "audit_spec a LOOP_NS"]
    by (auto simp: put_audit_def)
qed

lemma audit_fields:
  "map_of (gs_fields (audit_spec a ns)) ''actor'' = Some (JStr (ar_actor a))"
  "map_of (gs_fields (audit_spec a ns)) ''to_status'' = Some (JStr (status_str (ar_to a)))"
  "map_of (gs_fields (audit_spec a ns)) ''from_status'' = map_option (\<lambda>f. JStr (status_str f)) (ar_from a)"
  "map_of (gs_fields (audit_spec a ns)) ''because'' = Some (JStr (ar_because a))"
  "map_of (gs_fields (audit_spec a ns)) ''derived_from'' = Some (JArr (JStr (ar_rec a)
     # (case ar_previous a of None \<Rightarrow> [] | Some p \<Rightarrow> [JStr p])))"
  by (simp_all add: audit_spec_def Let_def with_field_def grain_spec_new_def split: option.split)

lemma review_checks_iff:
  assumes "loaded E S s = Inr p"
  shows "(\<exists>x. review_checks E S s h d actor sc because = Inr x) \<longleftrightarrow>
      has_scope sc ScReview \<and> trim because \<noteq> [] \<and> length (trim because) \<le> MAX_BECAUSE
      \<and> map_of (lp_status p) h = Some StPending
      \<and> (d = Approve \<longrightarrow> map_of (lp_creators p) h \<noteq> Some actor \<and> map_of (lp_co_creators p) h \<noteq> Some actor)"
  using assms
  by (cases d)
    (auto simp: review_checks_def result_simps status_entry_def self_approval_def validate_because_def Let_def
      elim: can_transition_to.elims split: if_splits)

lemma review_checks_reason:
  "review_checks E S s h d actor sc because = Inr (p, st, why) \<Longrightarrow>
     why = trim because \<and> st = StPending \<and> loaded E S s = Inr p"
  by (cases d)
    (auto simp: review_checks_def result_simps status_entry_def validate_because_def Let_def
      elim: can_transition_to.elims split: if_splits)

text \<open>What a stored audit grain says of the review that wrote it.\<close>

definition audits :: "string \<Rightarrow> decision \<Rightarrow> string \<Rightarrow> string \<Rightarrow> string option \<Rightarrow> loop_grain \<Rightarrow> bool" where
  "audits h d actor because prev g \<longleftrightarrow>
     map_of (lg_fields g) ''to_status'' = Some (JStr (status_str (target_status d)))
     \<and> map_of (lg_fields g) ''actor'' = Some (JStr actor)
     \<and> map_of (lg_fields g) ''because'' = Some (JStr because)
     \<and> map_of (lg_fields g) ''derived_from'' = Some (JArr (JStr h
          # (case prev of None \<Rightarrow> [] | Some k \<Rightarrow> [JStr k])))"

lemma review_refused:
  "review_checks E S s h d actor sc because = Inl e \<Longrightarrow>
     review E S h d actor ob sc because now s = (Inl e, s)"
  by (simp add: review_def act_bind_def)

lemma review_granted:
  assumes c: "review_checks E (reference E) s h d actor sc because = Inr (p, st, why)"
  obtains ah lr g t where "review E (reference E) h d actor ob sc because now s = (Inr (), t)"
    and "rs_state t = to_value (reviewed h d ah lr now p)" and "ref_grain_at t ah = Some g"
    and "audits h d actor why (map_of (lp_audit_heads p) h) g"
    and "\<And>k g. ref_ok s \<Longrightarrow> ref_grain_at s k = Some g \<Longrightarrow> ref_grain_at t k = Some g"
    and "ref_ok s \<Longrightarrow> ref_ok t"
    and "\<And>r. ref_ok s \<Longrightarrow> load_rec E (reference E) s h = Inr r \<Longrightarrow> lr = Inr r"
proof -
  define a where "a = \<lparr>ar_rec = h, ar_from = Some st, ar_to = target_status d,
      ar_actor = actor, ar_observer = ob, ar_because = why,
      ar_previous = map_of (lp_audit_heads p) h, ar_at = now\<rparr>"
  let ?ah = "''ref-'' @ pad8 (rs_next s)"
  obtain g u where u: "put_audit (reference E) a s = (Inr ?ah, u)" "ref_grain_at u ?ah = Some g"
      "lg_fields g = gs_fields (audit_spec a LOOP_NS)" "ref_ok s \<Longrightarrow> ref_ok u"
      "\<And>k g. ref_ok s \<Longrightarrow> ref_grain_at s k = Some g \<Longrightarrow> ref_grain_at u k = Some g"
    by (rule ref_put_audit [of E a s]) blast
  let ?lr = "load_rec E (reference E) u h"
  let ?t = "u\<lparr>rs_state := to_value (reviewed h d ?ah ?lr now p)\<rparr>"
  have "review E (reference E) h d actor ob sc because now s = (Inr (), ?t)"
    by (simp add: review_def act_bind_def reviewed_def Let_def c u(1) save_def flip: a_def)
  moreover have "audits h d actor why (map_of (lp_audit_heads p) h) g"
    by (simp add: audits_def u(3) audit_fields a_def)
  moreover have "?lr = Inr r" if ok: "ref_ok s" and ld: "load_rec E (reference E) s h = Inr r" for r
  proof -
    obtain x where "ref_grain_at s h = Some x" "rec_from_fields E h (lg_fields x) = Inr r"
      using ld by (auto simp: load_rec_def result_simps split: option.splits)
    then show ?thesis using u(5) [OF ok, of h x] by (simp add: load_rec_def)
  qed
  ultimately show ?thesis
    using u by (intro that [of ?t ?ah ?lr g]) (simp_all add: ref_grain_at_def ref_ok_def)
qed

text \<open>
  C7. On the reference substrate a review succeeds exactly with the review scope, a reason of 1
  to 500 characters, a pending recommendation and, to approve, an actor that neither created
  nor triggered it; it then stores the new status and an audit grain chained to the previous
  one. A refused review changes nothing at all.
\<close>

theorem review_exact:
  assumes "loaded E (reference E) s = Inr p"
    and "review E (reference E) h d actor ob sc because now s = (r, t)"
  shows "if has_scope sc ScReview \<and> trim because \<noteq> [] \<and> length (trim because) \<le> 500
      \<and> map_of (lp_status p) h = Some StPending
      \<and> (d = Reject \<or> (map_of (lp_creators p) h \<noteq> Some actor \<and> map_of (lp_co_creators p) h \<noteq> Some actor))
    then r = Inr () \<and> (\<exists>ah lr g. rs_state t = to_value (reviewed h d ah lr now p)
      \<and> ref_grain_at t ah = Some g
      \<and> audits h d actor (trim because) (map_of (lp_audit_heads p) h) g)
    else is_ok r = False \<and> t = s"
proof -
  have dec: "d = Reject \<longleftrightarrow> d \<noteq> Approve" by (cases d) simp_all
  let ?c = "review_checks E (reference E) s h d actor sc because"
  have cond: "(\<exists>x. ?c = Inr x) \<longleftrightarrow> has_scope sc ScReview \<and> trim because \<noteq> [] \<and> length (trim because) \<le> 500
      \<and> map_of (lp_status p) h = Some StPending
      \<and> (d = Reject \<or> (map_of (lp_creators p) h \<noteq> Some actor \<and> map_of (lp_co_creators p) h \<noteq> Some actor))"
    using review_checks_iff [OF assms(1), of h d actor sc because] by (auto simp: dec MAX_BECAUSE_def)
  show ?thesis unfolding cond [symmetric]
  proof (cases ?c)
    case (Inl e)
    then show "if \<exists>x. ?c = Inr x then r = Inr () \<and> (\<exists>ah lr g. rs_state t = to_value (reviewed h d ah lr now p)
      \<and> ref_grain_at t ah = Some g \<and> audits h d actor (trim because) (map_of (lp_audit_heads p) h) g)
      else is_ok r = False \<and> t = s"
      using assms(2) review_refused [OF Inl, of ob now] by auto
  next
    case (Inr x)
    obtain p' st why where x: "x = (p', st, why)" by (cases x)
    have f: "why = trim because" "p' = p"
      using review_checks_reason [of E "reference E" s h d actor sc because p' st why] Inr x assms(1) by auto
    then have c: "?c = Inr (p, st, trim because)" using Inr x by simp
    show "if \<exists>x. ?c = Inr x then r = Inr () \<and> (\<exists>ah lr g. rs_state t = to_value (reviewed h d ah lr now p)
      \<and> ref_grain_at t ah = Some g \<and> audits h d actor (trim because) (map_of (lp_audit_heads p) h) g)
      else is_ok r = False \<and> t = s"
      using review_granted [OF c, of ob now] assms(2) Inr by (metis prod.inject)
  qed
qed

section \<open>Apply\<close>

lemma guard_that_simps [simp]: "guard_that True e = Inr ()" "guard_that False e = Inl e"
  by (simp_all add: guard_that_def)

lemma apply_checks_preflight:
  assumes "apply_checks E S s h sc because allow = Inr (p, st, why, r)"
  shows "preflight_apply E S s h sc allow = ensure_executable (rc_proposal r)"
  using assms by (auto simp: apply_checks_def preflight_apply_def result_simps)

lemma execute_refused:
  assumes "ensure_executable pr = Inl e"
  shows "execute_proposal E S pr actor ob sc why now p s = (Inl e, s)"
  using assms by (cases pr) (auto simp: execute_proposal_def split: if_splits)

text \<open>
  C8. An apply that succeeds had the apply scope, an approved recommendation, a proposal the
  engine can execute and, for a destructive one, the admin scope and the explicit
  permission, all of which the preflight answers. One that fails, and that the preflight
  refused, has changed nothing.
\<close>

theorem preflight_sound:
  assumes "apply_rec E S h actor ob sc because allow now s = (r, t)"
  shows "if is_ok r then preflight_apply E S s h sc allow = Inr () \<and> has_scope sc ScApply \<and>
      (\<exists>p x. loaded E S s = Inr p \<and> map_of (lp_status p) h = Some StApproved
        \<and> load_rec E S s h = Inr x \<and> ensure_executable (rc_proposal x) = Inr ()
        \<and> (rc_destructive x = False \<or> (has_scope sc ScAdmin \<and> allow)))
    else t = s \<or> is_ok (preflight_apply E S s h sc allow)"
proof (cases "apply_checks E S s h sc because allow")
  case (Inl e)
  then have "r = Inl e \<and> t = s" using assms by (auto simp: apply_rec_def act_bind_def)
  then show ?thesis by simp
next
  case (Inr y)
  obtain p st why x where y: "y = (p, st, why, x)" by (cases y)
  have c: "apply_checks E S s h sc because allow = Inr (p, st, why, x)" using Inr y by simp
  have facts: "loaded E S s = Inr p" "map_of (lp_status p) h = Some StApproved"
    "load_rec E S s h = Inr x" "has_scope sc ScApply" "rc_destructive x \<longrightarrow> has_scope sc ScAdmin \<and> allow"
    using c by (auto simp: apply_checks_def result_simps status_entry_def destructive_gate_def
        elim: can_transition_to.elims)
  show ?thesis
  proof (cases "ensure_executable (rc_proposal x)")
    case (Inl e)
    then have "r = Inl e \<and> t = s"
      using assms by (simp add: apply_rec_def act_bind_def c execute_refused [OF Inl])
    then show ?thesis by simp
  next
    case (Inr u)
    then show ?thesis using facts apply_checks_preflight [OF c] by auto
  qed
qed

section \<open>The analysis pass\<close>

lemma keep_novel_sound:
  "r \<in> set (keep_novel eng p ex now rs seen) \<Longrightarrow> r \<in> set rs \<and> rc_dedup r \<notin> set seen \<and>
     rc_dedup r \<notin> set ex \<and> cooling p now (rc_dedup r) = False \<and> below_floor eng p r = False"
proof (induction rs arbitrary: seen)
  case (Cons x rs)
  let ?s = "rc_dedup x # seen"
  from Cons.prems consider "r = x" "rc_dedup x \<notin> set seen" "rc_dedup x \<notin> set ex"
      "cooling p now (rc_dedup x) = False" "below_floor eng p x = False"
    | "r \<in> set (keep_novel eng p ex now rs seen)" | "r \<in> set (keep_novel eng p ex now rs ?s)"
    by (auto split: if_splits)
  then show ?case using Cons.IH [of seen] Cons.IH [of ?s] by cases auto
qed simp

lemma keep_novel_distinct: "distinct (map rc_dedup (keep_novel eng p ex now rs seen))"
proof (induction rs arbitrary: seen)
  case (Cons r rs)
  have "rc_dedup r \<notin> rc_dedup ` set (keep_novel eng p ex now rs (rc_dedup r # seen))"
    using keep_novel_sound [of _ eng p ex now rs "rc_dedup r # seen"] by fastforce
  with Cons.IH show ?case by simp
qed simp

lemma keep_novel_complete:
  "r \<in> set rs \<Longrightarrow> below_floor eng p r \<or> rc_dedup r \<in> set seen \<or> rc_dedup r \<in> set ex
     \<or> cooling p now (rc_dedup r) \<or> rc_dedup r \<in> rc_dedup ` set (keep_novel eng p ex now rs seen)"
proof (induction rs arbitrary: seen)
  case (Cons x rs)
  show ?case
  proof (cases "r = x")
    case True
    then show ?thesis by auto
  next
    case False
    then have "r \<in> set rs" using Cons.prems by simp
    from Cons.IH [OF this, of seen] Cons.IH [OF this, of "rc_dedup x # seen"] show ?thesis
      by (auto split: if_splits)
  qed
qed simp

lemma keep_novel_length: "length (keep_novel eng p ex now rs seen) \<le> length rs"
  by (induction rs arbitrary: seen) (auto intro: le_SucI)

lemma enrich_map:
  assumes "\<And>r g. f (r\<lparr>rc_guidance := g\<rparr>) = f r"
  shows "map f (enrich E W llm rs) = map f rs"
proof -
  have "map f (map (\<lambda>r. r\<lparr>rc_guidance := None\<rparr>) (enrich E W llm rs)) = map f (map (\<lambda>r. r\<lparr>rc_guidance := None\<rparr>) rs)"
    by (simp only: enrich_only_guidance)
  then show ?thesis by (simp add: assms comp_def)
qed

lemma enrich_mem:
  assumes "r \<in> set (enrich E W llm rs)" and "\<And>r g. f (r\<lparr>rc_guidance := g\<rparr>) = f r"
  shows "\<exists>x \<in> set rs. f x = f r"
proof -
  have "f ` set (enrich E W llm rs) = f ` set rs"
    using arg_cong [OF enrich_map [of f E W llm rs, OF assms(2)], of set] by simp
  with assms(1) have "f r \<in> f ` set rs" by blast
  then show ?thesis by force
qed

lemma survivors_kept:
  assumes "analysis_pass E W eng S s p o1 external watermark now inputs = Inr a"
    and "existing_dedup_keys S s p = Inr ex"
  shows "distinct (map rc_dedup (ps_survivors a)) \<and> ps_proposed a = ps_deduped a + length (ps_survivors a) \<and>
    list_all (\<lambda>r. rc_dedup r \<notin> set ex \<and> cooling p now (rc_dedup r) = False \<and> below_floor eng p r = False)
      (ps_survivors a)"
proof -
  obtain cands where sv: "ps_survivors a = enrich E W (en_llm eng) (keep_novel eng p ex now cands [])"
    and n: "ps_proposed a = length cands" "ps_deduped a = length cands - length (keep_novel eng p ex now cands [])"
    using assms by (auto simp: analysis_pass_def Let_def split: prod.splits)
  let ?k = "keep_novel eng p ex now cands []"
  have g: "rc_dedup (r\<lparr>rc_guidance := y\<rparr>) = rc_dedup r" "below_floor eng p (r\<lparr>rc_guidance := y\<rparr>) = below_floor eng p r" for r y
    by (simp_all add: below_floor_def floor_of_def split: option.split)
  have "map rc_dedup (ps_survivors a) = map rc_dedup ?k" unfolding sv by (rule enrich_map) simp
  then have 1: "distinct (map rc_dedup (ps_survivors a))" "length (ps_survivors a) = length ?k"
    using keep_novel_distinct map_eq_imp_length_eq by (metis, metis)
  have 2: "rc_dedup r \<notin> set ex \<and> cooling p now (rc_dedup r) = False \<and> below_floor eng p r = False"
    if r: "r \<in> set (ps_survivors a)" for r
  proof -
    obtain x where "x \<in> set ?k" "(rc_dedup x, below_floor eng p x) = (rc_dedup r, below_floor eng p r)"
      using enrich_mem [OF r [unfolded sv], of "\<lambda>r. (rc_dedup r, below_floor eng p r)"] g by auto
    then show ?thesis using keep_novel_sound [of x eng p ex now cands "[]"] by auto
  qed
  show ?thesis using 1 2 n keep_novel_length [of eng p ex now cands "[]"] by (simp add: list_all_iff)
qed

text \<open>
  C9. What survives an analysis pass is new: no two survivors share a deduplication key, none
  has the key of an open or applied recommendation, none is cooling down after a rejection,
  none is below a severity floor; and the pass counts every other candidate as dropped.
\<close>

theorem survivors_novel:
  assumes "analysis_pass E W eng S s p o1 external watermark now inputs = Inr a"
    and "existing_dedup_keys S s p = Inr ex"
  shows "distinct (map rc_dedup (ps_survivors a)) \<and> ps_proposed a = ps_deduped a + length (ps_survivors a) \<and>
    list_all (\<lambda>r. rc_dedup r \<notin> set ex \<and> cooling p now (rc_dedup r) = False \<and> below_floor eng p r = False)
      (ps_survivors a)"
  using survivors_kept [OF assms] .

section \<open>Cooldowns\<close>

text \<open>
  The cooldown after a rejection starts at seven days, doubles with every strike until it is
  capped at ninety days, and never overflows, whatever the strike counter.
\<close>

theorem cooldown_doubles:
  "cooldown_interval 0 = 7 * 86400000
     \<and> cooldown_interval (int k + 1) = min (2 * cooldown_interval (int k)) (90 * 86400000)
     \<and> 7 * 86400000 \<le> cooldown_interval (int k) \<and> cooldown_interval (int k) \<le> 90 * 86400000"
proof (intro conjI)
  show "cooldown_interval 0 = 7 * 86400000"
    by (simp add: cooldown_interval_def saturating_mul_i64_def BASE_MS_def CAP_MS_def i64_max_def i64_min_def)
  show "cooldown_interval (int k + 1) = min (2 * cooldown_interval (int k)) (90 * 86400000)"
  proof (cases "int k < 31")
    case True
    then have "nat (min (int k + 1) 31) = Suc (nat (min (int k) 31))" by (simp add: min_def)
    then show ?thesis by (simp add: cooldown_min CAP_MS_def min_def)
  next
    case False
    then show ?thesis by (simp add: cooldown_min CAP_MS_def BASE_MS_def)
  qed
qed (use cooldown_bounds [of "int k"] in simp_all)

text \<open>
  C10. A finding that was rejected does not come back for at least seven days. On any
  substrate that keeps grains and the loop state: after a review rejected it, and after any
  further runs, reviews of any recommendation (none of them before that one), applies,
  rollbacks, configuration changes and host operations, with any engines and policies, no
  analysis pass that starts within seven days lets its key survive, whatever the analyzers,
  the model and the memory.
\<close>

theorem rejected_stays_away:
  assumes "grain_store S ok" and "ok s" and "load_rec E S s h = Inr r"
    and "review E S h Reject actor ob sc because now s = (Inr (), t)"
    and "afterwards E W S now t u" and "loaded E S u = Inr p"
    and "measure_outcomes E S u p later = Inr (q, inputs)"
    and "analysis_pass E V eng S u q o1 external watermark later inputs = Inr a"
    and "later < now + 7 * 86400000"
  shows "rc_dedup r \<notin> set (map rc_dedup (ps_survivors a))"
proof -
  have cool: "cooling q later (rc_dedup r)" by (rule grain_store.rejection_stays [OF assms(1-7,9)])
  obtain ex where ex: "existing_dedup_keys S u q = Inr ex"
    using assms(8) by (auto simp: analysis_pass_def result_simps)
  have "cooling q later (rc_dedup x) = False" if "x \<in> set (ps_survivors a)" for x
    using survivors_kept [OF assms(8) ex] that by (auto simp: list_all_iff)
  then show ?thesis using cool by force
qed

section \<open>Outcome checkpoints\<close>

text \<open>
  The ledger of the verify gate: for every recommendation the recorded outcomes are exactly
  the measured horizons, in order, and no horizon was measured twice.
\<close>

definition ledger_ok :: "loop_persisted \<Rightarrow> bool" where
  "ledger_ok p \<longleftrightarrow> (\<forall>h. map or_horizon (unwrap_or [] (map_of (lp_outcomes p) h)) = unwrap_or [] (map_of (lp_measured p) h)
     \<and> distinct (unwrap_or [] (map_of (lp_measured p) h)))"

definition schedules_ok :: "loop_persisted \<Rightarrow> bool" where
  "schedules_ok p \<longleftrightarrow> distinct (map fst (lp_applied p)) \<and>
     (\<forall>(h, a) \<in> set (lp_applied p). \<forall>m. ap_metric a = Some m \<longrightarrow> distinct (me_horizons m))"

definition due_key :: "string \<times> applied_record \<times> metric \<times> int \<Rightarrow> string \<times> int" where
  "due_key d = (case d of (h, a, m, z) \<Rightarrow> (h, z))"

lemma measure_due_ledger:
  assumes "measure_due E S s now due (p, out) = Inr (q, ins)" and "ledger_ok p"
    and "distinct (map due_key due)"
    and "\<And>h a m z. (h, a, m, z) \<in> set due \<Longrightarrow> z \<notin> set (unwrap_or [] (map_of (lp_measured p) h))"
  shows "ledger_ok q"
  using assms
proof (induction due arbitrary: p out)
  case (Cons d due)
  obtain h a m z where d: "d = (h, a, m, z)" by (cases d)
  from Cons.prems(1) d obtain c where c: "measure_metric E S s m (ap_at a) = Inr c"
    by (auto simp: result_simps)
  show ?case
  proof (cases c)
    case None
    have "measure_due E S s now due (p, out) = Inr (q, ins)" using Cons.prems(1) d c None by simp
    from Cons.IH [OF this Cons.prems(2)] Cons.prems(3,4) show ?thesis by auto
  next
    case (Some current)
    obtain rs out' where run: "measure_due E S s now due
        (p\<lparr>lp_outcomes := push_at h rs (lp_outcomes p), lp_measured := push_at h z (lp_measured p)\<rparr>, out') = Inr (q, ins)"
      and rs: "or_horizon rs = z"
      using Cons.prems(1) d c Some by (auto simp: Let_def)
    have z: "z \<notin> set (unwrap_or [] (map_of (lp_measured p) h))" using Cons.prems(4) d by auto
    show ?thesis
    proof (rule Cons.IH [OF run])
      show "ledger_ok (p\<lparr>lp_outcomes := push_at h rs (lp_outcomes p), lp_measured := push_at h z (lp_measured p)\<rparr>)"
        using Cons.prems(2) z rs by (auto simp: ledger_ok_def)
      show "distinct (map due_key due)" using Cons.prems(3) by simp
      fix h' a' m' z' assume mem: "(h', a', m', z') \<in> set due"
      then have "(h', z') \<in> due_key ` set due" by (force simp: due_key_def)
      moreover have "(h, z) \<notin> due_key ` set due" using Cons.prems(3) d by (simp add: due_key_def)
      ultimately have "(h', z') \<noteq> (h, z)" by metis
      moreover have "z' \<notin> set (unwrap_or [] (map_of (lp_measured p) h'))"
        using Cons.prems(4) mem by auto
      ultimately show "z' \<notin> set (unwrap_or [] (map_of (lp_measured
          (p\<lparr>lp_outcomes := push_at h rs (lp_outcomes p), lp_measured := push_at h z (lp_measured p)\<rparr>)) h'))"
        by auto
    qed
  qed
qed simp

lemma distinct_concat_keys:
  assumes "distinct (map fst xs)"
    and "\<And>x. x \<in> set xs \<Longrightarrow> distinct (map k (g x))"
    and "\<And>x d. x \<in> set xs \<Longrightarrow> d \<in> set (g x) \<Longrightarrow> fst (k d) = fst x"
  shows "distinct (map k (concat (map g xs)))"
  using assms
proof (induction xs)
  case (Cons x xs)
  have "set (map k (g x)) \<inter> set (map k (concat (map g xs))) = {}"
  proof (rule ccontr)
    assume "set (map k (g x)) \<inter> set (map k (concat (map g xs))) \<noteq> {}"
    then obtain j where "j \<in> k ` set (g x)" "j \<in> k ` set (concat (map g xs))" by auto
    then obtain d e where d: "d \<in> set (g x)" "k d = k e" and e: "e \<in> set (concat (map g xs))"
      by (metis imageE)
    from e obtain y where "y \<in> set xs" "e \<in> set (g y)" by auto
    note d this
    then have "fst x = fst y" using Cons.prems(3) [of x d] Cons.prems(3) [of y e] by simp
    with \<open>y \<in> set xs\<close> Cons.prems(1) show False by auto
  qed
  then show ?case using Cons by simp
qed simp

lemma due_distinct:
  assumes "schedules_ok p"
  shows "distinct (map due_key (due_checkpoints p now))"
  unfolding due_checkpoints_def
proof (rule distinct_concat_keys)
  show "distinct (map fst (lp_applied p))" using assms by (simp add: schedules_ok_def)
next
  fix x assume x: "x \<in> set (lp_applied p)"
  obtain h a where ha: "x = (h, a)" by (cases x)
  have "distinct (due_horizons p now h a)"
    using assms x ha by (auto simp: schedules_ok_def due_horizons_def horizons_def split: option.splits)
  then show "distinct (map due_key (case x of (h, a) \<Rightarrow> case ap_metric a of None \<Rightarrow> []
      | Some m \<Rightarrow> map (\<lambda>z. (h, a, m, z)) (due_horizons p now h a)))"
    by (auto simp: ha distinct_map inj_on_def due_key_def comp_def split: option.split)
next
  fix x d assume "d \<in> set (case x of (h, a) \<Rightarrow> case ap_metric a of None \<Rightarrow> []
      | Some m \<Rightarrow> map (\<lambda>z. (h, a, m, z)) (due_horizons p now h a))"
  then show "fst (due_key d) = fst x"
    by (cases x) (auto simp: due_key_def split: option.splits)
qed

text \<open>
  C11. A sweep over metrics whose horizons are distinct, with one record for every applied
  recommendation, keeps the ledger: the recorded outcomes are exactly the measured horizons
  and no horizon is measured twice. (The code does not deduplicate horizons, so a metric that
  repeats one is measured twice; the condition is needed.)
\<close>

theorem measured_once:
  assumes "measure_outcomes E S s p now = Inr (q, ins)" and "schedules_ok p" and "ledger_ok p"
  shows "ledger_ok q \<and> schedules_ok q"
proof -
  have "measure_due E S s now (due_checkpoints p now) (p, []) = Inr (q, ins)"
    using assms(1) by (simp add: measure_outcomes_def)
  from measure_due_ledger [OF this assms(3) due_distinct [OF assms(2)]] due_measured [of _ _ _ _ p now]
    measure_queue [OF this] assms(2)
  show ?thesis by (fastforce simp: same_queue_def schedules_ok_def)
qed

section \<open>The demonstration\<close>

abbreviation demo_h :: string where "demo_h \<equiv> ''ref-00000000''"

definition demo_loop2 :: ref_sub where
  "demo_loop2 = snd (review loop_env0 ref0 demo_h Approve ''user:alice'' ObHuman [ScReview] ''fine'' 2000 demo_loop1)"

definition demo_loop3 :: ref_sub where
  "demo_loop3 = snd (review loop_env0 ref0 demo_h Reject ''user:alice'' ObHuman [ScReview] ''no'' 2000 demo_loop1)"

lemma demo_checks:
  "review_checks loop_env0 ref0 demo_loop1 demo_h Approve ''user:alice'' [ScReview] ''fine'' = Inr (demo_p1, StPending, ''fine'')"
  "review_checks loop_env0 ref0 demo_loop1 demo_h Reject ''user:alice'' [ScReview] ''no'' = Inr (demo_p1, StPending, ''no'')"
proof -
  have t: "trim ''fine'' = ''fine''" "trim ''no'' = ''no''" by code_simp+
  show "review_checks loop_env0 ref0 demo_loop1 demo_h Approve ''user:alice'' [ScReview] ''fine'' = Inr (demo_p1, StPending, ''fine'')"
    and "review_checks loop_env0 ref0 demo_loop1 demo_h Reject ''user:alice'' [ScReview] ''no'' = Inr (demo_p1, StPending, ''no'')"
    by (simp_all add: review_checks_def demo_loaded1 has_scope_def validate_because_def t MAX_BECAUSE_def
        status_entry_def self_approval_def demo_p1_def persisted_default_def guard_that_def Let_def)
qed

text \<open>Reading the recommendation back from any later state that still has its grain.\<close>

lemma demo_load:
  assumes "map_option lg_fields (ref_grain_at s demo_h) = Some (rec_fields demo_rec)"
  shows "load_rec loop_env0 ref0 s demo_h = Inr (demo_rec\<lparr>rc_hash := demo_h\<rparr>)"
proof -
  have "wf_rec demo_rec" by (simp add: wf_rec_def demo_rec_def i64_max_def f64_is_finite_def)
  then have "rec_from_fields loop_env0 demo_h (rec_fields demo_rec) = Inr (demo_rec\<lparr>rc_hash := demo_h\<rparr>)"
    using rec_fields_roundtrip [of demo_rec loop_env0 demo_h] by (simp add: demo_rec_def)
  moreover obtain g where "ref_grain_at s demo_h = Some g" "lg_fields g = rec_fields demo_rec"
    using assms by auto
  ultimately show ?thesis by (simp add: load_rec_def)
qed

lemma wf_demo1: "wf_persisted demo_p1"
  by (simp add: wf_persisted_def demo_p1_def persisted_default_def fits_u32_def SCHEMA_VERSION_def
      wf_loop_state_def fits_def i64_max_def)

lemma demo_approved:
  "\<exists>ah lr. review loop_env0 ref0 demo_h Approve ''user:alice'' ObHuman [ScReview] ''fine'' 2000 demo_loop1
      = (Inr (), demo_loop2)
    \<and> loaded loop_env0 ref0 demo_loop2 = Inr (reviewed demo_h Approve ah lr 2000 demo_p1)
    \<and> load_rec loop_env0 ref0 demo_loop2 demo_h = Inr (demo_rec\<lparr>rc_hash := demo_h\<rparr>) \<and> ref_ok demo_loop2"
proof -
  obtain ah lr g t where t: "review loop_env0 ref0 demo_h Approve ''user:alice'' ObHuman [ScReview] ''fine'' 2000 demo_loop1 = (Inr (), t)"
      "rs_state t = to_value (reviewed demo_h Approve ah lr 2000 demo_p1)"
    and keep: "\<And>k g. ref_ok demo_loop1 \<Longrightarrow> ref_grain_at demo_loop1 k = Some g \<Longrightarrow> ref_grain_at t k = Some g"
      "ref_ok demo_loop1 \<Longrightarrow> ref_ok t"
    by (rule review_granted [OF demo_checks(1), of ObHuman 2000]) blast
  have t2: "t = demo_loop2" using t(1) by (simp add: demo_loop2_def)
  have "wf_persisted (reviewed demo_h Approve ah lr 2000 demo_p1)"
    using wf_demo1 by (simp add: wf_persisted_def reviewed_def index_transition_def)
  then have "loaded loop_env0 ref0 demo_loop2 = Inr (reviewed demo_h Approve ah lr 2000 demo_p1)"
    using t(2) t2 by (simp add: loaded_def loop_state_roundtrip)
  moreover have "map_option lg_fields (ref_grain_at demo_loop2 demo_h) = Some (rec_fields demo_rec)"
    using demo_run keep t2 by fastforce
  ultimately show ?thesis using t(1) t2 demo_load keep(2) demo_run by auto
qed


section \<open>What the index knows of a stored survivor\<close>

context grain_store
begin

lemma survivor_facts:
  assumes "ok s" and "wf_rec r" and "store_survivor S o1 now p r s = (Inr (x, q), t)"
  shows "load_rec E S t (rc_hash x) = Inr (r\<lparr>rc_hash := rc_hash x, rc_status := StPending\<rparr>)"
    and "loaded E S t = loaded E S s"
    and "x = r\<lparr>rc_hash := rc_hash x\<rparr> \<and> map_of (lp_status q) (rc_hash x) = Some StPending
      \<and> map_of (lp_creators q) (rc_hash x) = Some (engine_actor r)"
proof -
  obtain h ah u where put: "sb_put S \<lparr>gs_type = RECOMMENDATION, gs_ns = LOOP_NS, gs_fields = rec_fields r\<rparr> s = (Inr h, u)"
    and aud: "sb_put S (audit_spec \<lparr>ar_rec = h, ar_from = None, ar_to = StPending, ar_actor = engine_actor r,
         ar_observer = ObSystem, ar_because = ''analyzer proposed'', ar_previous = None, ar_at = now\<rparr> LOOP_NS) u = (Inr ah, t)"
    and x: "x = r\<lparr>rc_hash := h\<rparr>" and q: "map_of (lp_status q) h = Some StPending" "map_of (lp_creators q) h = Some (engine_actor r)"
    using assms(3) by (auto simp: store_survivor_def rec_spec_def act_bind_Inr put_audit_def)
  have u: "ok u" using ok_put [OF assms(1) put] .
  from put_grain [OF assms(1) put] obtain g where g: "sb_grain S u h = Inr (Some g)" "lg_fields g = rec_fields r" by auto
  have "sb_grain S t h = Inr (Some g)" using put_keeps [OF u aud g(1)] .
  then show "load_rec E S t (rc_hash x) = Inr (r\<lparr>rc_hash := rc_hash x, rc_status := StPending\<rparr>)"
    using g(2) by (simp add: load_rec_def x rec_fields_roundtrip [OF assms(2)])
  show "loaded E S t = loaded E S s"
    using put_load [OF put] put_load [OF aud] by (simp add: loaded_def)
  show "x = r\<lparr>rc_hash := rc_hash x\<rparr> \<and> map_of (lp_status q) (rc_hash x) = Some StPending
      \<and> map_of (lp_creators q) (rc_hash x) = Some (engine_actor r)"
    using x q by simp
qed

end

lemma review_unknown:
  assumes "loaded E S s = Inr p" and "map_of (lp_status p) h = None"
    and "has_scope sc ScReview" and "validate_because because = Inr why"
  shows "review E S h d actor ob sc because now s = (Inl (LopNotFound h), s)"
  by (rule review_refused) (simp add: review_checks_def assms status_entry_def guard_that_def)

text \<open>
  Storing a survivor writes its grain, which reads back as the very recommendation, pending,
  and enters it in the index the run carries; the stored index changes only with the run's
  final save. A run that fails in between leaves a recommendation that is listed and blocks
  its deduplication key, but that no review can find.
\<close>

theorem survivor_before_save:
  assumes "ref_ok s" and "wf_rec r" and "loaded E (reference E) s = Inr p"
    and "store_survivor (reference E) o1 now p r s = (Inr (x, q), t)"
    and "map_of (lp_status p) (rc_hash x) = None"
    and "has_scope sc ScReview" and "validate_because because = Inr why"
  shows "load_rec E (reference E) t (rc_hash x) = Inr (r\<lparr>rc_hash := rc_hash x, rc_status := StPending\<rparr>)
    \<and> map_of (lp_status q) (rc_hash x) = Some StPending \<and> status_at p (rc_hash x) = StPending
    \<and> loaded E (reference E) t = Inr p
    \<and> review E (reference E) (rc_hash x) d actor ob sc because later t = (Inl (LopNotFound (rc_hash x)), t)"
  using reference.survivor_facts [OF assms(1,2,4)] assms(3,5)
    review_unknown [OF _ assms(5-7), of E "reference E" t d actor ob later]
  by (simp add: status_at_def)

text \<open>
  C12. What a run saves is what the next operation loads, number for number, on every substrate
  that keeps the loop state; a number that does not fit its field is refused on loading.
\<close>

theorem saved_state_loads:
  assumes "state_store S" and "save S p s = (Inr (), t)"
  shows "loaded E S t = (if wf_persisted p then Inr p
    else Inl (LopInternal (''decode loop state: '' @ le_decode_error E (to_value p))))"
  using state_store.store_load [OF assms(1) assms(2) [unfolded save_def]]
  by (simp add: loaded_def loop_state_roundtrip)

lemma demo_analysis:
  assumes "lp_config q = []"
  shows "\<exists>a. analysis_pass loop_env0 llm_wire0 demo_engine ref0 u q demo_options [] None now [] = Inr a
     \<and> ps_proposed a = 1"
proof -
  have st: "stamp demo_manifest [(''deep'', JBool False)] demo_draft now = Inr (demo_rec\<lparr>rc_created := now\<rparr>)"
    using demo_stamp by (simp add: stamp_def Let_def demo_rec_def result_simps)
  have "run_analyzer loop_env0 demo_engine ref0 u q demo_options [] None now []
      \<lparr>an_manifest = demo_manifest, an_analyze = (\<lambda>_. Inr [demo_draft])\<rparr> ([], [], [])
      = ([''loop.demo/1''], [], [demo_rec\<lparr>rc_created := now\<rparr>])"
  proof -
    have "analyzer_enabled q demo_manifest"
      by (simp add: analyzer_enabled_def assms demo_manifest_def)
    moreover have "policy_denies (en_policy demo_engine) (family demo_manifest) = False"
      by (simp add: policy_denies_def demo_engine_def policy_default_def)
    moreover have "resolve_params loop_env0 demo_manifest (param_overrides q [] demo_manifest)
        = Inr [(''deep'', JBool False)]"
      by (simp add: resolve_params_def param_overrides_def assms demo_manifest_def)
    moreover have "missing_capability (mf_requires demo_manifest) c = None" for c
      by (simp add: demo_manifest_def)
    ultimately show ?thesis
      by (simp add: run_analyzer_def Let_def st) (simp add: demo_manifest_def)
  qed
  moreover obtain ex where "existing_dedup_keys ref0 u q = Inr ex"
    by (simp add: existing_dedup_keys_def ref_grains_of_type_def)
  moreover have "en_llm demo_engine = None" "en_analyzers demo_engine =
      [\<lparr>an_manifest = demo_manifest, an_analyze = (\<lambda>_. Inr [demo_draft])\<rparr>]"
    by (simp_all add: demo_engine_def)
  ultimately show ?thesis
    by (simp add: analysis_pass_def discover_def)
qed

section \<open>The properties on the demonstration\<close>

lemma review_exact_witness:
  "\<exists>ah lr g. rs_state demo_loop2 = to_value (reviewed demo_h Approve ah lr 2000 demo_p1)
      \<and> ref_grain_at demo_loop2 ah = Some g
      \<and> audits demo_h Approve ''user:alice'' (trim ''fine'') (Some ''ref-00000001'') g"
proof -
  obtain ah lr where r: "review loop_env0 ref0 demo_h Approve ''user:alice'' ObHuman [ScReview] ''fine'' 2000 demo_loop1
      = (Inr (), demo_loop2)" using demo_approved by blast
  have t: "trim ''fine'' = ''fine''" by code_simp
  show ?thesis using review_exact [OF demo_loaded1 r]
    by (simp add: t has_scope_def demo_p1_def persisted_default_def)
qed

lemma demo_history2: "history loop_env0 llm_wire0 ref0 [(demo_h, ''user:alice'')] False demo_loop2"
proof -
  have "loaded loop_env0 ref0 ref_new = Inr persisted_default"
    by (simp add: loaded_def ref_new_def from_value_def)
  then have "history loop_env0 llm_wire0 ref0 [] False ref_new"
    by (rule history.start) (simp add: persisted_default_def)
  moreover obtain r where "run loop_env0 llm_wire0 demo_engine ref0 demo_options 1000 ref_new = (Inr r, demo_loop1)"
    using demo_run by blast
  ultimately have "history loop_env0 llm_wire0 ref0 [] (False \<or> po_enabled (en_policy demo_engine)) demo_loop1"
    by (rule history.ran)
  then have "history loop_env0 llm_wire0 ref0 [] False demo_loop1"
    by (simp add: demo_engine_def policy_default_def)
  then show ?thesis using demo_approved by (blast intro: history.approved)
qed

lemma applied_was_vouched_witness:
  "\<exists>p. loaded loop_env0 ref0 demo_loop2 = Inr p \<and> map_of (lp_status p) demo_h = Some StApproved
    \<and> (\<exists>actor. (demo_h, actor) \<in> set [(demo_h, ''user:alice'')] \<and> map_of (lp_creators p) demo_h \<noteq> Some actor
        \<and> map_of (lp_co_creators p) demo_h \<noteq> Some actor)"
proof -
  obtain ah lr where l: "loaded loop_env0 ref0 demo_loop2 = Inr (reviewed demo_h Approve ah lr 2000 demo_p1)"
    using demo_approved by blast
  have st: "map_of (lp_status (reviewed demo_h Approve ah lr 2000 demo_p1)) demo_h = Some StApproved" by simp
  show ?thesis
    using applied_was_vouched [OF reference.state_store_axioms demo_history2 l st] l st by blast
qed

lemma demo_execute:
  "\<exists>u h. ref_execute loop_env0 ''ADD fact {}'' s = (Inr (hash_row h), u) \<and> rs_state u = rs_state s"
proof -
  have c: "cal_lines ''ADD fact {}'' = [''ADD fact {}'']" "split_keyword ''ADD fact {}'' = (''ADD'', ''fact {}'')"
    "to_ascii_uppercase ''ADD'' = ''ADD''" "trim ''fact '' = ''fact''" "trim ''{}'' = ''{}''" by code_simp+
  have "parse_type_and_json loop_env0 ''fact {}'' = Inr (''fact'', [])"
    by (simp add: parse_type_and_json_def Let_def c loop_env0_def)
  moreover obtain h u where "ref_put (spec_of (''fact'', [])) s = (Inr h, u)" "rs_state u = rs_state s"
    by (rule ref_put_unfold [of "spec_of (''fact'', [])" s]) auto
  ultimately show ?thesis
    by (auto simp: ref_execute_def ref_exec_line_def Let_def c act_bind_def)
qed

lemma preflight_sound_witness:
  "\<exists>a t. apply_rec loop_env0 ref0 demo_h ''user:bob'' ObHuman [ScApply] ''go'' False 3000 demo_loop2 = (Inr a, t)
    \<and> preflight_apply loop_env0 ref0 demo_loop2 demo_h [ScApply] False = Inr ()"
proof -
  obtain ah lr where l: "loaded loop_env0 ref0 demo_loop2 = Inr (reviewed demo_h Approve ah lr 2000 demo_p1)"
      "load_rec loop_env0 ref0 demo_loop2 demo_h = Inr (demo_rec\<lparr>rc_hash := demo_h\<rparr>)"
    using demo_approved by blast
  let ?p = "reviewed demo_h Approve ah lr 2000 demo_p1" and ?r = "demo_rec\<lparr>rc_hash := demo_h\<rparr>"
  have t: "trim ''go'' = ''go''" by code_simp
  have c: "apply_checks loop_env0 ref0 demo_loop2 demo_h [ScApply] ''go'' False = Inr (?p, StApproved, ''go'', ?r)"
    by (simp add: apply_checks_def l has_scope_def validate_because_def t MAX_BECAUSE_def status_entry_def
        destructive_gate_def demo_rec_def Let_def)
  obtain u h where u: "ref_execute loop_env0 ''ADD fact {}'' demo_loop2 = (Inr (hash_row h), u)"
    using demo_execute by blast
  have "\<exists>a t. apply_rec loop_env0 ref0 demo_h ''user:bob'' ObHuman [ScApply] ''go'' False 3000 demo_loop2 = (Inr a, t)"
    by (simp add: apply_rec_def act_bind_def c execute_proposal_def demo_rec_def u put_audit_def save_def Let_def
        ref_put_def record_from_spec_def ref_insert_def mint_hash_def)
  then obtain a t where r: "apply_rec loop_env0 ref0 demo_h ''user:bob'' ObHuman [ScApply] ''go'' False 3000 demo_loop2 = (Inr a, t)"
    by blast
  show ?thesis using preflight_sound [OF r] r by simp
qed

lemma survivors_novel_witness: "distinct (map rc_dedup [demo_rec])
    \<and> list_all (\<lambda>r. cooling persisted_default 1000 (rc_dedup r) = False) [demo_rec]"
proof -
  have "existing_dedup_keys ref0 ref_new persisted_default = Inr []"
    by (simp add: existing_dedup_keys_def ref_grains_of_type_def ref_new_def)
  from survivors_novel [OF demo_pass this] show ?thesis by simp
qed

lemma survivor_before_save_witness:
  "\<exists>x q t. store_survivor ref0 demo_options 1000 persisted_default demo_rec ref_new = (Inr (x, q), t)
    \<and> review loop_env0 ref0 (rc_hash x) Reject ''user:alice'' ObHuman [ScReview] ''no'' 2000 t
       = (Inl (LopNotFound (rc_hash x)), t)"
proof -
  have "\<exists>x q t. store_survivor ref0 demo_options 1000 persisted_default demo_rec ref_new = (Inr (x, q), t)"
    by (simp add: store_survivor_def rec_spec_def act_bind_def put_audit_def ref_put_def record_from_spec_def
        ref_insert_def mint_hash_def Let_def)
  then obtain x q t where s: "store_survivor ref0 demo_options 1000 persisted_default demo_rec ref_new = (Inr (x, q), t)"
    by blast
  have l: "loaded loop_env0 ref0 ref_new = Inr persisted_default"
    by (simp add: loaded_def ref_new_def from_value_def)
  have w: "wf_rec demo_rec" by (simp add: wf_rec_def demo_rec_def i64_max_def f64_is_finite_def)
  have ok: "ref_ok ref_new" by (simp add: ref_ok_def ref_new_def)
  have b: "validate_because ''no'' = Inr ''no''"
  proof -
    have "trim ''no'' = ''no''" by code_simp
    then show ?thesis by (simp add: validate_because_def MAX_BECAUSE_def)
  qed
  have n: "map_of (lp_status persisted_default) (rc_hash x) = None" by (simp add: persisted_default_def)
  have sc: "has_scope [ScReview] ScReview" by (simp add: has_scope_def)
  show ?thesis using survivor_before_save [OF ok w l s n sc b] s by blast
qed

lemma saved_state_loads_witness:
  "loaded loop_env0 ref0 (snd (save ref0 demo_p1 ref_new)) = Inr demo_p1"
proof -
  have "save ref0 demo_p1 ref_new = (Inr (), snd (save ref0 demo_p1 ref_new))" by (simp add: save_def)
  from saved_state_loads [OF reference.state_store_axioms this, of loop_env0] wf_demo1 show ?thesis by simp
qed

lemma resolve_params_spec_witness:
  "\<exists>ps. resolve_params loop_env0 demo_manifest [(''deep'', JBool True)] = Inr ps
     \<and> map_of ps ''deep'' = Some (JBool True)"
proof -
  have m: "mf_params demo_manifest = [PBool ''deep'' False]" by (simp add: demo_manifest_def)
  have v: "param_validate loop_env0 (PBool ''deep'' False) (JBool True) = Inr ()"
    by (simp add: param_validate_def)
  show ?thesis
    using resolve_params_spec [of demo_manifest "[(''deep'', JBool True)]" loop_env0]
    by (auto simp: m v bt_wf_def)
qed

lemma forget_flagged_witness: "to_ascii_uppercase (fst (split_keyword ''ADD fact {}'')) \<noteq> ''FORGET''"
proof -
  have "\<not> contains_destructive ''ADD fact {}''" "''ADD fact {}'' \<in> set (cal_lines ''ADD fact {}'')" by code_simp+
  then show ?thesis by (rule forget_flagged)
qed

lemma demo_rejected:
  "\<exists>ah. review loop_env0 ref0 demo_h Reject ''user:alice'' ObHuman [ScReview] ''no'' 2000 demo_loop1
      = (Inr (), demo_loop3)
    \<and> loaded loop_env0 ref0 demo_loop3
      = Inr (reviewed demo_h Reject ah (Inr (demo_rec\<lparr>rc_hash := demo_h\<rparr>)) 2000 demo_p1)"
proof -
  have ok: "ref_ok demo_loop1" and ld: "load_rec loop_env0 ref0 demo_loop1 demo_h = Inr (demo_rec\<lparr>rc_hash := demo_h\<rparr>)"
    using demo_run demo_load by auto
  obtain ah lr t where t: "review loop_env0 ref0 demo_h Reject ''user:alice'' ObHuman [ScReview] ''no'' 2000 demo_loop1 = (Inr (), t)"
      "rs_state t = to_value (reviewed demo_h Reject ah lr 2000 demo_p1)"
    and lr: "\<And>r. ref_ok demo_loop1 \<Longrightarrow> load_rec loop_env0 ref0 demo_loop1 demo_h = Inr r \<Longrightarrow> lr = Inr r"
    by (rule review_granted [OF demo_checks(2), of ObHuman 2000]) blast
  have t3: "t = demo_loop3" using t(1) by (simp add: demo_loop3_def)
  have "lp_strikes demo_p1 = []" "lp_cooldowns demo_p1 = []"
    by (simp_all add: demo_p1_def persisted_default_def)
  moreover have "fits (2000 + cooldown_interval 0)"
    by (simp add: cooldown_interval_def saturating_mul_i64_def BASE_MS_def CAP_MS_def fits_def i64_max_def i64_min_def)
  ultimately have "wf_persisted (reviewed demo_h Reject ah (Inr x) 2000 demo_p1)" for x
    using wf_demo1 by (simp add: wf_persisted_def reviewed_def strike_def index_transition_def all_values_def fits_u32_def)
  then show ?thesis
    using t t3 lr [OF ok ld] by (auto simp: loaded_def loop_state_roundtrip)
qed

lemma rejected_stays_away_witness:
  "\<exists>u q a. sb_put ref0 \<lparr>gs_type = ''fact'', gs_ns = ''n'', gs_fields = []\<rparr> demo_loop3 = (Inr u, q)
    \<and> (\<exists>p. loaded loop_env0 ref0 q = Inr p
    \<and> analysis_pass loop_env0 llm_wire0 demo_engine ref0 q p demo_options [] None 3000 [] = Inr a)
    \<and> ps_proposed a = 1 \<and> rc_dedup demo_rec \<notin> set (map rc_dedup (ps_survivors a))"
proof -
  let ?spec = "\<lparr>gs_type = ''fact'', gs_ns = ''n'', gs_fields = []\<rparr>"
  obtain ah where rv: "review loop_env0 ref0 demo_h Reject ''user:alice'' ObHuman [ScReview] ''no'' 2000 demo_loop1
      = (Inr (), demo_loop3)"
    and l3: "loaded loop_env0 ref0 demo_loop3
      = Inr (reviewed demo_h Reject ah (Inr (demo_rec\<lparr>rc_hash := demo_h\<rparr>)) 2000 demo_p1)"
    using demo_rejected by blast
  let ?q = "reviewed demo_h Reject ah (Inr (demo_rec\<lparr>rc_hash := demo_h\<rparr>)) 2000 demo_p1"
  obtain k u where u: "sb_put ref0 ?spec demo_loop3 = (Inr k, u)"
    by (rule ref_put_unfold [of ?spec demo_loop3]) simp
  have lu: "loaded loop_env0 ref0 u = Inr ?q" using reference.put_loaded [OF u] l3 by simp
  have af: "afterwards loop_env0 llm_wire0 ref0 2000 demo_loop3 u"
    by (rule afterwards.put [OF afterwards.here u])
  have c: "lp_config ?q = []" "lp_applied ?q = []"
    by (simp_all add: reviewed_def strike_def index_transition_def demo_p1_def persisted_default_def Let_def)
  from c(2) have mo: "measure_outcomes loop_env0 ref0 u ?q 3000 = Inr (?q, [])"
    by (simp add: measure_outcomes_def due_checkpoints_def)
  from demo_analysis [OF c(1)] obtain a where
      a: "analysis_pass loop_env0 llm_wire0 demo_engine ref0 u ?q demo_options [] None 3000 [] = Inr a"
    and n: "ps_proposed a = 1" by blast
  have ok: "ref_ok demo_loop1" and ld: "load_rec loop_env0 ref0 demo_loop1 demo_h = Inr (demo_rec\<lparr>rc_hash := demo_h\<rparr>)"
    using demo_run demo_load by auto
  show ?thesis
    using rejected_stays_away [OF reference.grain_store_axioms ok ld rv af lu mo a] u lu a n by auto
qed

definition demo_metric :: metric where
  "demo_metric = \<lparr>me_metric = ''tool_error_recurrence'', me_baseline = Finite 1, me_unit = [], me_n = 1,
     me_window = [], me_subject = Some ''fetch'', me_ns = None, me_relation = None, me_query = [],
     me_review_after = 1000, me_horizons = [1000, 5000]\<rparr>"

definition demo_due :: loop_persisted where
  "demo_due = persisted_default\<lparr>lp_status := [(demo_h, StApplied)],
     lp_applied := [(demo_h, \<lparr>ap_at = 0, ap_target = ''entity:a'', ap_rollbackable = True, ap_created = [],
       ap_metric = Some demo_metric\<rparr>)]\<rparr>"

lemma measured_once_witness:
  "\<exists>q ins. measure_outcomes loop_env0 ref0 ref_new demo_due 2000 = Inr (q, ins)
     \<and> map_of (lp_measured q) demo_h = Some [1000] \<and> ledger_ok q \<and> schedules_ok q"
proof -
  have ok: "schedules_ok demo_due" "ledger_ok demo_due"
    by (simp_all add: schedules_ok_def ledger_ok_def demo_due_def demo_metric_def persisted_default_def)
  have "due_horizons demo_due 2000 demo_h \<lparr>ap_at = 0, ap_target = ''entity:a'', ap_rollbackable = True,
      ap_created = [], ap_metric = Some demo_metric\<rparr> = [1000]"
    by (simp add: due_horizons_def horizons_def demo_due_def demo_metric_def persisted_default_def)
  then have due: "due_checkpoints demo_due 2000 = [(demo_h, \<lparr>ap_at = 0, ap_target = ''entity:a'', ap_rollbackable = True,
      ap_created = [], ap_metric = Some demo_metric\<rparr>, demo_metric, 1000)]"
    by (simp add: due_checkpoints_def) (simp add: demo_due_def)
  have "\<exists>c. measure_metric loop_env0 ref0 ref_new demo_metric 0 = Inr (Some c)"
    by (simp add: measure_metric_def demo_metric_def tool_recurrence_def ref_grains_of_type_def ref_new_def)
  then obtain q ins where q: "measure_outcomes loop_env0 ref0 ref_new demo_due 2000 = Inr (q, ins)"
    and m: "map_of (lp_measured q) demo_h = Some [1000]"
    by (auto simp: measure_outcomes_def due Let_def) (simp add: demo_due_def persisted_default_def)
  then show ?thesis using measured_once [OF q ok] by blast
qed

end
