(* ===== verification/Cal_Error.thy ===== *)
theory Cal_Error
  imports Json Core_Error
begin

text \<open>
  Errors, warnings and source spans of CAL, the query language (\<^verbatim>\<open>dejadb-cal/src/errors.rs\<close>):
  every variant with its code, its message, its span and suggestion, and what a client may
  see of it. Dashes outside Latin-1 in the messages are written in ASCII.
\<close>

section \<open>Spans\<close>

text \<open>Byte offsets into the source, line and column from 1.\<close>

record span =
  sp_start :: nat
  sp_end :: nat
  sp_line :: nat
  sp_col :: nat

definition mk_span :: "nat \<Rightarrow> nat \<Rightarrow> nat \<Rightarrow> nat \<Rightarrow> span" where
  "mk_span s e l c = \<lparr>sp_start = s, sp_end = e, sp_line = l, sp_col = c\<rparr>"

definition span_zero :: span where
  "span_zero = mk_span 0 0 1 1"

definition span_display :: "span \<Rightarrow> string" where
  "span_display s = nat_str (sp_line s) @ '':'' @ nat_str (sp_col s)"

section \<open>Errors\<close>

datatype (plugins only: size code) exec_error =
    XeUnknownField string "span option" "string option"
  | XeUnboundParameter string "span option"
  | XeDuplicateParameter string "span option"
  | XeInvalidHash string "span option"
  | XeUnknownEvolveField string "span option" "string option"
  | XeIncompatibleTypes string string "span option" "string option"
  | XePipelineTypeMismatch string string string "span option"
  | XeExtractorRequiresFacts string string "span option"
  | XeBudgetExceeded string "span option"
  | XeQueryTimeout nat nat "span option"
  | XeInvalidQuery string "span option"
  | XeCryptoError string "span option"
  | XeHashNotFound string "span option"
  | XeTooManyLetBindings nat nat "span option"
  | XeLetCircularReference string "span option"
  | XeLetDepthExceeded nat nat "span option"
  | XeAssembleTimeout nat nat "span option"
  | XeTemplateNestingTooDeep nat "span option"
  | XeTooManyTemplates nat nat "span option"
  | XeCannotExtendData string "span option"
  | XeInvalidJsonCal string "span option"
  | XeNotAuthorized string "span option"
  | XeAccumulateNonNumericField string string "span option"
  | XeAccumulateTipNotFound string string "span option"
  | XeAccumulateRetryExhausted string string "span option"
  | XeAccumulateInternal "span option"
  | XeAccumulateBackpressureRejected string string "span option"
  | XeTemplateTooLarge nat nat "span option"
  | XeTemplateNestedEach "span option"
  | XeTemplateUnknownVariable string "span option" "string option"
  | XeTemplateUnknownFilter string "span option"
  | XeTier1NotEnabled string "span option"
  | XeTemplateNotFound string "span option"
  | XeTemplateBuiltinImmutable string "span option"
  | XeTemplateParentNotFound string string "span option"
  | XeTemplateInheritanceDepth string "span option"
  | XeRenderOutputTooLarge nat nat "span option"
  | XeQueryNotFound string "span option"
  | XeDuplicateQueryName string "span option"
  | XeTooManyQueries nat nat "span option"
  | XeMissingQueryParam string string "span option"
  | XeInsufficientScope string string
  | XeLlmFeatureUnavailable string

text \<open>The variants of lexing and parsing, and the others.\<close>

datatype (plugins only: size code) cal_error =
    CeQueryTooLong nat nat "span option"
  | CeUnexpectedToken string string "span option" "string option"
  | CeUnknownGrainType string "span option" "string option"
  | CeUnterminatedString "span option"
  | CeInvalidNumber string "span option"
  | CeNestingTooDeep nat nat "span option"
  | CeLimitExceeded nat nat "span option"
  | CeInSetTooLarge nat nat "span option"
  | CeTooManyPipelineStages nat nat "span option"
  | CeTooManySetOperands nat nat "span option"
  | CeEmptyQuery "span option"
  | CeReasonTooLong nat nat "span option"
  | CeMissingReason "span option"
  | CeMissingSetClause "span option"
  | CeFieldNotOnGrainType string string "span option" "string option"
  | CeAssembleTooManySources nat nat "span option"
  | CeAssembleBudgetExceeded nat nat string "span option"
  | CeAssembleDuplicateLabel string "span option"
  | CeAssemblePriorityMismatch string "span option"
  | CeCoalesceTooManyBranches nat nat "span option"
  | CeInvalidUtf8 string "span option"
  | CeMissingAccumulateOps "span option"
  | CeTemplateInvalidName string "span option"
  | CeTemplateSyntaxError string "span option"
  | CeQueryBodyTooLarge nat nat "span option"
  | CeTooManyQueryParams nat nat "span option"
  | CeRecursiveQuery "span option"
  | CeWriteInQueryBody string "span option"
  | CeInvalidQueryBody string "span option"
  | CeUnsupportedVersion nat "span option"
  | CeTooManyFormats nat nat "span option"
  | CeTooManyUserVars nat nat "span option"
  | CeUserVarTooLarge string nat nat "span option"
  | CeDuplicateFormatKey string "span option"
  | CeRun exec_error
  | CePanic string
  | CeStuck

text \<open>
  \<^verbatim>\<open>CePanic\<close> stands for a Rust panic, which is no error value of the code, and \<^verbatim>\<open>CeStuck\<close> for
  a loop or recursion of the model that has not come to an end.
\<close>

definition dq :: "string \<Rightarrow> string" where
  "dq s = [CHR 0x22] @ s @ [CHR 0x22]"

text \<open>The stable codes and the messages of the variants.\<close>

primrec exec_code :: "exec_error \<Rightarrow> string" where
  "exec_code (XeUnknownField _ _ _) = ''CAL-E004''"
| "exec_code (XeUnboundParameter _ _) = ''CAL-E008''"
| "exec_code (XeDuplicateParameter _ _) = ''CAL-E009''"
| "exec_code (XeInvalidHash _ _) = ''CAL-E015''"
| "exec_code (XeUnknownEvolveField _ _ _) = ''CAL-E017''"
| "exec_code (XeIncompatibleTypes _ _ _ _) = ''CAL-E020''"
| "exec_code (XePipelineTypeMismatch _ _ _ _) = ''CAL-E021''"
| "exec_code (XeExtractorRequiresFacts _ _ _) = ''CAL-E022''"
| "exec_code (XeBudgetExceeded _ _) = ''CAL-E030''"
| "exec_code (XeQueryTimeout _ _ _) = ''CAL-E031''"
| "exec_code (XeInvalidQuery _ _) = ''CAL-E092''"
| "exec_code (XeCryptoError _ _) = ''CAL-E090''"
| "exec_code (XeHashNotFound _ _) = ''CAL-E091''"
| "exec_code (XeTooManyLetBindings _ _ _) = ''CAL-E036''"
| "exec_code (XeLetCircularReference _ _) = ''CAL-E037''"
| "exec_code (XeLetDepthExceeded _ _ _) = ''CAL-E038''"
| "exec_code (XeAssembleTimeout _ _ _) = ''CAL-E071''"
| "exec_code (XeTemplateNestingTooDeep _ _) = ''CAL-E117''"
| "exec_code (XeTooManyTemplates _ _ _) = ''CAL-E118''"
| "exec_code (XeCannotExtendData _ _) = ''CAL-E119''"
| "exec_code (XeInvalidJsonCal _ _) = ''CAL-E120''"
| "exec_code (XeNotAuthorized _ _) = ''CAL-E121''"
| "exec_code (XeAccumulateNonNumericField _ _ _) = ''CAL-E081''"
| "exec_code (XeAccumulateTipNotFound _ _ _) = ''CAL-E082''"
| "exec_code (XeAccumulateRetryExhausted _ _ _) = ''CAL-E083''"
| "exec_code (XeAccumulateInternal _) = ''CAL-E084''"
| "exec_code (XeAccumulateBackpressureRejected _ _ _) = ''CAL-E085''"
| "exec_code (XeTemplateTooLarge _ _ _) = ''CAL-E040''"
| "exec_code (XeTemplateNestedEach _) = ''CAL-E041''"
| "exec_code (XeTemplateUnknownVariable _ _ _) = ''CAL-E042''"
| "exec_code (XeTemplateUnknownFilter _ _) = ''CAL-E043''"
| "exec_code (XeTier1NotEnabled _ _) = ''CAL-E044''"
| "exec_code (XeTemplateNotFound _ _) = ''CAL-E045''"
| "exec_code (XeTemplateBuiltinImmutable _ _) = ''CAL-E046''"
| "exec_code (XeTemplateParentNotFound _ _ _) = ''CAL-E047''"
| "exec_code (XeTemplateInheritanceDepth _ _) = ''CAL-E048''"
| "exec_code (XeRenderOutputTooLarge _ _ _) = ''CAL-E050''"
| "exec_code (XeQueryNotFound _ _) = ''CAL-E051''"
| "exec_code (XeDuplicateQueryName _ _) = ''CAL-E052''"
| "exec_code (XeTooManyQueries _ _ _) = ''CAL-E053''"
| "exec_code (XeMissingQueryParam _ _ _) = ''CAL-E056''"
| "exec_code (XeInsufficientScope _ _) = ''CAL-E114''"
| "exec_code (XeLlmFeatureUnavailable _) = ''CAL-E116''"

primrec cal_code :: "cal_error \<Rightarrow> string" where
  "cal_code (CeQueryTooLong _ _ _) = ''CAL-E001''"
| "cal_code (CeUnexpectedToken _ _ _ _) = ''CAL-E002''"
| "cal_code (CeUnknownGrainType _ _ _) = ''CAL-E003''"
| "cal_code (CeUnterminatedString _) = ''CAL-E005''"
| "cal_code (CeInvalidNumber _ _) = ''CAL-E006''"
| "cal_code (CeNestingTooDeep _ _ _) = ''CAL-E007''"
| "cal_code (CeLimitExceeded _ _ _) = ''CAL-E010''"
| "cal_code (CeInSetTooLarge _ _ _) = ''CAL-E011''"
| "cal_code (CeTooManyPipelineStages _ _ _) = ''CAL-E012''"
| "cal_code (CeTooManySetOperands _ _ _) = ''CAL-E013''"
| "cal_code (CeEmptyQuery _) = ''CAL-E014''"
| "cal_code (CeReasonTooLong _ _ _) = ''CAL-E016''"
| "cal_code (CeMissingReason _) = ''CAL-E018''"
| "cal_code (CeMissingSetClause _) = ''CAL-E019''"
| "cal_code (CeFieldNotOnGrainType _ _ _ _) = ''CAL-E060''"
| "cal_code (CeAssembleTooManySources _ _ _) = ''CAL-E032''"
| "cal_code (CeAssembleBudgetExceeded _ _ _ _) = ''CAL-E033''"
| "cal_code (CeAssembleDuplicateLabel _ _) = ''CAL-E034''"
| "cal_code (CeAssemblePriorityMismatch _ _) = ''CAL-E035''"
| "cal_code (CeCoalesceTooManyBranches _ _ _) = ''CAL-E039''"
| "cal_code (CeInvalidUtf8 _ _) = ''CAL-E070''"
| "cal_code (CeMissingAccumulateOps _) = ''CAL-E080''"
| "cal_code (CeTemplateInvalidName _ _) = ''CAL-E115''"
| "cal_code (CeTemplateSyntaxError _ _) = ''CAL-E049''"
| "cal_code (CeQueryBodyTooLarge _ _ _) = ''CAL-E054''"
| "cal_code (CeTooManyQueryParams _ _ _) = ''CAL-E055''"
| "cal_code (CeRecursiveQuery _) = ''CAL-E057''"
| "cal_code (CeWriteInQueryBody _ _) = ''CAL-E058''"
| "cal_code (CeInvalidQueryBody _ _) = ''CAL-E059''"
| "cal_code (CeUnsupportedVersion _ _) = ''CAL-E100''"
| "cal_code (CeTooManyFormats _ _ _) = ''CAL-E110''"
| "cal_code (CeTooManyUserVars _ _ _) = ''CAL-E111''"
| "cal_code (CeUserVarTooLarge _ _ _ _) = ''CAL-E112''"
| "cal_code (CeDuplicateFormatKey _ _) = ''CAL-E113''"
| "cal_code (CeRun e) = exec_code e"
| "cal_code (CePanic _) = ''CAL-E000''"
| "cal_code CeStuck = ''CAL-E000''"

primrec exec_message :: "exec_error \<Rightarrow> string" where
  "exec_message (XeUnknownField f _ _) = ''Unknown field '' @ dq f"
| "exec_message (XeUnboundParameter k _) = ''Unbound parameter '' @ dq (''$'' @ k)"
| "exec_message (XeDuplicateParameter k _) = ''Duplicate parameter '' @ dq (''$'' @ k)"
| "exec_message (XeInvalidHash f _) = ''Invalid hash '' @ dq f"
| "exec_message (XeUnknownEvolveField f _ _) = ''Unknown EVOLVE field '' @ dq f"
| "exec_message (XeIncompatibleTypes l r _ _) = ''Incompatible types: '' @ l @ '' vs '' @ r"
| "exec_message (XePipelineTypeMismatch g e f _) = ''Pipeline type mismatch: stage '' @ dq g @ '' expected '' @ e @ '', got '' @ f"
| "exec_message (XeExtractorRequiresFacts x f _) = ''Extractor '' @ dq x @ '' requires facts, got '' @ f"
| "exec_message (XeBudgetExceeded d _) = ''Budget exceeded: '' @ d"
| "exec_message (XeQueryTimeout n m _) = ''Query timeout after '' @ nat_str n @ ''ms (limit '' @ nat_str m @ ''ms)''"
| "exec_message (XeInvalidQuery d _) = ''Invalid query: '' @ d"
| "exec_message (XeCryptoError d _) = ''Crypto error during query execution: '' @ d"
| "exec_message (XeHashNotFound h _) = ''Grain not found for hash '' @ dq h"
| "exec_message (XeTooManyLetBindings n m _) = ''Too many LET bindings ('' @ nat_str n @ '', max '' @ nat_str m @ '')''"
| "exec_message (XeLetCircularReference k _) = ''Circular reference in LET binding '' @ dq (''$'' @ k)"
| "exec_message (XeLetDepthExceeded n m _) = ''LET chain depth exceeded ('' @ nat_str n @ '', max '' @ nat_str m @ '')''"
| "exec_message (XeAssembleTimeout n m _) = ''ASSEMBLE timeout after '' @ nat_str n @ ''ms (limit '' @ nat_str m @ ''ms)''"
| "exec_message (XeTemplateNestingTooDeep m _) = ''Template nesting too deep (max '' @ nat_str m @ '' levels)''"
| "exec_message (XeTooManyTemplates n m _) = ''Too many templates ('' @ nat_str n @ '', max '' @ nat_str m @ '')''"
| "exec_message (XeCannotExtendData k _) = ''Template '' @ dq k @ '' cannot extend the '' @ [CHR 0x27] @ ''data'' @ [CHR 0x27] @ '' preset''"
| "exec_message (XeInvalidJsonCal d _) = ''Invalid JSON+CAL: '' @ d"
| "exec_message (XeNotAuthorized d _) = ''Not authorized: '' @ d"
| "exec_message (XeAccumulateNonNumericField f c _) = ''ADD delta applied to non-numeric field '' @ dq f @ '' (current value: '' @ c @ '')''"
| "exec_message (XeAccumulateTipNotFound j r _) = ''No grain found for ACCUMULATE target (subject='' @ dq j @ '', relation='' @ dq r @ '')''"
| "exec_message (XeAccumulateRetryExhausted j r _) = ''ACCUMULATE retry budget exhausted (subject='' @ dq j @ '', relation='' @ dq r @ '')''"
| "exec_message (XeAccumulateInternal _) = ''ACCUMULATE internal failure''"
| "exec_message (XeAccumulateBackpressureRejected j r _) = ''ACCUMULATE backpressure: per-key inflight cap exceeded (subject='' @ dq j @ '', relation='' @ dq r @ '')''"
| "exec_message (XeTemplateTooLarge n m _) = ''Template too large ('' @ nat_str n @ '' bytes, max '' @ nat_str m @ '')''"
| "exec_message (XeTemplateNestedEach _) = ''Nested {{#each}} blocks are not allowed''"
| "exec_message (XeTemplateUnknownVariable k _ _) = ''Unknown template variable '' @ dq k"
| "exec_message (XeTemplateUnknownFilter k _) = ''Unknown template filter '' @ dq k"
| "exec_message (XeTier1NotEnabled t _) = ''Tier 1 (Evolve) is not enabled: '' @ t"
| "exec_message (XeTemplateNotFound k _) = ''Template '' @ dq k @ '' not found''"
| "exec_message (XeTemplateBuiltinImmutable k _) = ''Built-in template '' @ dq k @ '' cannot be modified''"
| "exec_message (XeTemplateParentNotFound k q _) = ''Template '' @ dq k @ '' extends unknown parent '' @ dq q"
| "exec_message (XeTemplateInheritanceDepth k _) = ''Template '' @ dq k @ '' exceeds maximum inheritance depth (1 level)''"
| "exec_message (XeRenderOutputTooLarge n m _) = ''Rendered output too large ('' @ nat_str n @ '' bytes, max '' @ nat_str m @ '')''"
| "exec_message (XeQueryNotFound k _) = ''Saved query '' @ dq k @ '' not found''"
| "exec_message (XeDuplicateQueryName k _) = ''Saved query '' @ dq k @ '' already exists''"
| "exec_message (XeTooManyQueries n m _) = ''Too many saved queries ('' @ nat_str n @ '', max '' @ nat_str m @ '')''"
| "exec_message (XeMissingQueryParam k q _) = ''Missing required parameter '' @ dq (''$'' @ k) @ '' for query '' @ dq q"
| "exec_message (XeInsufficientScope r t) = ''insufficient scope: '' @ [CHR 0x27] @ t @ [CHR 0x27] @ '' requires '' @ [CHR 0x27] @ r @ [CHR 0x27] @ '' scope''"
| "exec_message (XeLlmFeatureUnavailable f) = ''WITH '' @ f @ '' needs an external LLM and is not implemented in DejaDB -- the engine takes no LLM dependency by design (these belong in your agent loop). Want it built in? Open a feature request at https://github.com/AreevAI/dejadb/issues -- we'' @ [CHR 0x27] @ ''ll build it if there'' @ [CHR 0x27] @ ''s demand.''"

primrec cal_message :: "cal_error \<Rightarrow> string" where
  "cal_message (CeQueryTooLong n m _) = ''Query exceeds maximum length ('' @ nat_str n @ '' bytes, max '' @ nat_str m @ '')''"
| "cal_message (CeUnexpectedToken e f _ _) = ''Unexpected token: expected '' @ e @ '', found '' @ f"
| "cal_message (CeUnknownGrainType f _ _) = ''Unknown grain type '' @ dq f"
| "cal_message (CeUnterminatedString _) = ''Unterminated string literal''"
| "cal_message (CeInvalidNumber f _) = ''Invalid number '' @ dq f"
| "cal_message (CeNestingTooDeep n m _) = ''Nesting too deep ('' @ nat_str n @ '' levels, max '' @ nat_str m @ '')''"
| "cal_message (CeLimitExceeded n m _) = ''Limit '' @ nat_str n @ '' exceeds maximum allowed ('' @ nat_str m @ '')''"
| "cal_message (CeInSetTooLarge n m _) = ''IN set too large ('' @ nat_str n @ '' elements, max '' @ nat_str m @ '')''"
| "cal_message (CeTooManyPipelineStages n m _) = ''Too many pipeline stages ('' @ nat_str n @ '', max '' @ nat_str m @ '')''"
| "cal_message (CeTooManySetOperands n m _) = ''Too many set operands ('' @ nat_str n @ '', max '' @ nat_str m @ '')''"
| "cal_message (CeEmptyQuery _) = ''Empty query''"
| "cal_message (CeReasonTooLong n m _) = ''Reason too long ('' @ nat_str n @ '' chars, max '' @ nat_str m @ '')''"
| "cal_message (CeMissingReason _) = ''Missing BECAUSE reason clause''"
| "cal_message (CeMissingSetClause _) = ''Missing SET clause''"
| "cal_message (CeFieldNotOnGrainType f g _ _) = ''Field '' @ dq f @ '' is not available on grain type '' @ dq g"
| "cal_message (CeAssembleTooManySources n m _) = ''Too many ASSEMBLE sources ('' @ nat_str n @ '', max '' @ nat_str m @ '')''"
| "cal_message (CeAssembleBudgetExceeded n m u _) = ''ASSEMBLE budget exceeded ('' @ nat_str n @ '' '' @ u @ '', max '' @ nat_str m @ '')''"
| "cal_message (CeAssembleDuplicateLabel l _) = ''Duplicate ASSEMBLE source label '' @ dq l"
| "cal_message (CeAssemblePriorityMismatch l _) = ''PRIORITY references unknown source label '' @ dq l"
| "cal_message (CeCoalesceTooManyBranches n m _) = ''Too many COALESCE branches ('' @ nat_str n @ '', max '' @ nat_str m @ '')''"
| "cal_message (CeInvalidUtf8 d _) = ''Invalid UTF-8 or unsafe character in query: '' @ d"
| "cal_message (CeMissingAccumulateOps _) = ''ACCUMULATE requires at least one ADD operation''"
| "cal_message (CeTemplateInvalidName k _) = ''Invalid template name '' @ dq k"
| "cal_message (CeTemplateSyntaxError d _) = ''Template syntax error: '' @ d"
| "cal_message (CeQueryBodyTooLarge n m _) = ''Query body too large ('' @ nat_str n @ '' bytes, max '' @ nat_str m @ '')''"
| "cal_message (CeTooManyQueryParams n m _) = ''Too many query parameters ('' @ nat_str n @ '', max '' @ nat_str m @ '')''"
| "cal_message (CeRecursiveQuery _) = ''RUN is not allowed inside DEFINE QUERY body''"
| "cal_message (CeWriteInQueryBody t _) = ''Write statement '' @ dq t @ '' not allowed in DEFINE QUERY body''"
| "cal_message (CeInvalidQueryBody d _) = ''Invalid query body: '' @ d"
| "cal_message (CeUnsupportedVersion n _) = ''Unsupported CAL version '' @ nat_str n"
| "cal_message (CeTooManyFormats n m _) = ''Too many formats in multi-format list ('' @ nat_str n @ '', max '' @ nat_str m @ '')''"
| "cal_message (CeTooManyUserVars n m _) = ''Too many user variables ('' @ nat_str n @ '', max '' @ nat_str m @ '')''"
| "cal_message (CeUserVarTooLarge k n m _) = ''User variable '' @ dq k @ '' too large ('' @ nat_str n @ '' bytes, max '' @ nat_str m @ '')''"
| "cal_message (CeDuplicateFormatKey k _) = ''Duplicate format key '' @ dq k @ '' in multi-format list''"
| "cal_message (CeRun e) = exec_message e"
| "cal_message (CePanic w) = ''panic: '' @ w"
| "cal_message CeStuck = ''no progress''"

definition cal_display :: "cal_error \<Rightarrow> string" where
  "cal_display e = cal_code e @ '': '' @ cal_message e"

section \<open>Location and suggestion\<close>

primrec exec_span :: "exec_error \<Rightarrow> span option" where
  "exec_span (XeUnknownField _ sp _) = sp"
| "exec_span (XeUnboundParameter _ sp) = sp"
| "exec_span (XeDuplicateParameter _ sp) = sp"
| "exec_span (XeInvalidHash _ sp) = sp"
| "exec_span (XeUnknownEvolveField _ sp _) = sp"
| "exec_span (XeIncompatibleTypes _ _ sp _) = sp"
| "exec_span (XePipelineTypeMismatch _ _ _ sp) = sp"
| "exec_span (XeExtractorRequiresFacts _ _ sp) = sp"
| "exec_span (XeBudgetExceeded _ sp) = sp"
| "exec_span (XeQueryTimeout _ _ sp) = sp"
| "exec_span (XeInvalidQuery _ sp) = sp"
| "exec_span (XeCryptoError _ sp) = sp"
| "exec_span (XeHashNotFound _ sp) = sp"
| "exec_span (XeTooManyLetBindings _ _ sp) = sp"
| "exec_span (XeLetCircularReference _ sp) = sp"
| "exec_span (XeLetDepthExceeded _ _ sp) = sp"
| "exec_span (XeAssembleTimeout _ _ sp) = sp"
| "exec_span (XeTemplateNestingTooDeep _ sp) = sp"
| "exec_span (XeTooManyTemplates _ _ sp) = sp"
| "exec_span (XeCannotExtendData _ sp) = sp"
| "exec_span (XeInvalidJsonCal _ sp) = sp"
| "exec_span (XeNotAuthorized _ sp) = sp"
| "exec_span (XeAccumulateNonNumericField _ _ sp) = sp"
| "exec_span (XeAccumulateTipNotFound _ _ sp) = sp"
| "exec_span (XeAccumulateRetryExhausted _ _ sp) = sp"
| "exec_span (XeAccumulateInternal sp) = sp"
| "exec_span (XeAccumulateBackpressureRejected _ _ sp) = sp"
| "exec_span (XeTemplateTooLarge _ _ sp) = sp"
| "exec_span (XeTemplateNestedEach sp) = sp"
| "exec_span (XeTemplateUnknownVariable _ sp _) = sp"
| "exec_span (XeTemplateUnknownFilter _ sp) = sp"
| "exec_span (XeTier1NotEnabled _ sp) = sp"
| "exec_span (XeTemplateNotFound _ sp) = sp"
| "exec_span (XeTemplateBuiltinImmutable _ sp) = sp"
| "exec_span (XeTemplateParentNotFound _ _ sp) = sp"
| "exec_span (XeTemplateInheritanceDepth _ sp) = sp"
| "exec_span (XeRenderOutputTooLarge _ _ sp) = sp"
| "exec_span (XeQueryNotFound _ sp) = sp"
| "exec_span (XeDuplicateQueryName _ sp) = sp"
| "exec_span (XeTooManyQueries _ _ sp) = sp"
| "exec_span (XeMissingQueryParam _ _ sp) = sp"
| "exec_span (XeInsufficientScope _ _) = None"
| "exec_span (XeLlmFeatureUnavailable _) = None"

primrec cal_span :: "cal_error \<Rightarrow> span option" where
  "cal_span (CeQueryTooLong _ _ sp) = sp"
| "cal_span (CeUnexpectedToken _ _ sp _) = sp"
| "cal_span (CeUnknownGrainType _ sp _) = sp"
| "cal_span (CeUnterminatedString sp) = sp"
| "cal_span (CeInvalidNumber _ sp) = sp"
| "cal_span (CeNestingTooDeep _ _ sp) = sp"
| "cal_span (CeLimitExceeded _ _ sp) = sp"
| "cal_span (CeInSetTooLarge _ _ sp) = sp"
| "cal_span (CeTooManyPipelineStages _ _ sp) = sp"
| "cal_span (CeTooManySetOperands _ _ sp) = sp"
| "cal_span (CeEmptyQuery sp) = sp"
| "cal_span (CeReasonTooLong _ _ sp) = sp"
| "cal_span (CeMissingReason sp) = sp"
| "cal_span (CeMissingSetClause sp) = sp"
| "cal_span (CeFieldNotOnGrainType _ _ sp _) = sp"
| "cal_span (CeAssembleTooManySources _ _ sp) = sp"
| "cal_span (CeAssembleBudgetExceeded _ _ _ sp) = sp"
| "cal_span (CeAssembleDuplicateLabel _ sp) = sp"
| "cal_span (CeAssemblePriorityMismatch _ sp) = sp"
| "cal_span (CeCoalesceTooManyBranches _ _ sp) = sp"
| "cal_span (CeInvalidUtf8 _ sp) = sp"
| "cal_span (CeMissingAccumulateOps sp) = sp"
| "cal_span (CeTemplateInvalidName _ sp) = sp"
| "cal_span (CeTemplateSyntaxError _ sp) = sp"
| "cal_span (CeQueryBodyTooLarge _ _ sp) = sp"
| "cal_span (CeTooManyQueryParams _ _ sp) = sp"
| "cal_span (CeRecursiveQuery sp) = sp"
| "cal_span (CeWriteInQueryBody _ sp) = sp"
| "cal_span (CeInvalidQueryBody _ sp) = sp"
| "cal_span (CeUnsupportedVersion _ sp) = sp"
| "cal_span (CeTooManyFormats _ _ sp) = sp"
| "cal_span (CeTooManyUserVars _ _ sp) = sp"
| "cal_span (CeUserVarTooLarge _ _ _ sp) = sp"
| "cal_span (CeDuplicateFormatKey _ sp) = sp"
| "cal_span (CeRun e) = exec_span e"
| "cal_span (CePanic _) = None"
| "cal_span CeStuck = None"

definition exec_suggestion :: "exec_error \<Rightarrow> string option" where
  "exec_suggestion err = (case err of
      XeUnknownField _ _ s \<Rightarrow> s
    | XeUnknownEvolveField _ _ s \<Rightarrow> s
    | XeIncompatibleTypes _ _ _ s \<Rightarrow> s
    | XeTemplateUnknownVariable _ _ s \<Rightarrow> s
    | _ \<Rightarrow> None)"

definition cal_suggestion :: "cal_error \<Rightarrow> string option" where
  "cal_suggestion err = (case err of
      CeUnexpectedToken _ _ _ s \<Rightarrow> s
    | CeUnknownGrainType _ _ s \<Rightarrow> s
    | CeFieldNotOnGrainType _ _ _ s \<Rightarrow> s
    | CeRun e \<Rightarrow> exec_suggestion e
    | _ \<Rightarrow> None)"

definition exec_with_suggestion :: "string \<Rightarrow> exec_error \<Rightarrow> exec_error" where
  "exec_with_suggestion hint err = (case err of
      XeUnknownField f sp _ \<Rightarrow> XeUnknownField f sp (Some hint)
    | XeUnknownEvolveField f sp _ \<Rightarrow> XeUnknownEvolveField f sp (Some hint)
    | XeIncompatibleTypes l r sp _ \<Rightarrow> XeIncompatibleTypes l r sp (Some hint)
    | XeTemplateUnknownVariable k sp _ \<Rightarrow> XeTemplateUnknownVariable k sp (Some hint)
    | e \<Rightarrow> e)"

definition with_suggestion :: "string \<Rightarrow> cal_error \<Rightarrow> cal_error" where
  "with_suggestion hint err = (case err of
      CeUnexpectedToken e f sp _ \<Rightarrow> CeUnexpectedToken e f sp (Some hint)
    | CeUnknownGrainType f sp _ \<Rightarrow> CeUnknownGrainType f sp (Some hint)
    | CeFieldNotOnGrainType f g sp _ \<Rightarrow> CeFieldNotOnGrainType f g sp (Some hint)
    | CeRun e \<Rightarrow> CeRun (exec_with_suggestion hint e)
    | e \<Rightarrow> e)"

definition exec_with_span :: "span \<Rightarrow> exec_error \<Rightarrow> exec_error" where
  "exec_with_span s0 err = (case err of
      XeUnknownField f _ s \<Rightarrow> XeUnknownField f (Some s0) s
    | XeUnboundParameter k _ \<Rightarrow> XeUnboundParameter k (Some s0)
    | XeDuplicateParameter k _ \<Rightarrow> XeDuplicateParameter k (Some s0)
    | XeInvalidHash f _ \<Rightarrow> XeInvalidHash f (Some s0)
    | XeUnknownEvolveField f _ s \<Rightarrow> XeUnknownEvolveField f (Some s0) s
    | XeIncompatibleTypes l r _ s \<Rightarrow> XeIncompatibleTypes l r (Some s0) s
    | XePipelineTypeMismatch g e f _ \<Rightarrow> XePipelineTypeMismatch g e f (Some s0)
    | XeExtractorRequiresFacts x f _ \<Rightarrow> XeExtractorRequiresFacts x f (Some s0)
    | XeBudgetExceeded d _ \<Rightarrow> XeBudgetExceeded d (Some s0)
    | XeQueryTimeout n m _ \<Rightarrow> XeQueryTimeout n m (Some s0)
    | XeInvalidQuery d _ \<Rightarrow> XeInvalidQuery d (Some s0)
    | XeCryptoError d _ \<Rightarrow> XeCryptoError d (Some s0)
    | XeHashNotFound h _ \<Rightarrow> XeHashNotFound h (Some s0)
    | XeTooManyLetBindings n m _ \<Rightarrow> XeTooManyLetBindings n m (Some s0)
    | XeLetCircularReference k _ \<Rightarrow> XeLetCircularReference k (Some s0)
    | XeLetDepthExceeded n m _ \<Rightarrow> XeLetDepthExceeded n m (Some s0)
    | XeAssembleTimeout n m _ \<Rightarrow> XeAssembleTimeout n m (Some s0)
    | XeTemplateNestingTooDeep m _ \<Rightarrow> XeTemplateNestingTooDeep m (Some s0)
    | XeTooManyTemplates n m _ \<Rightarrow> XeTooManyTemplates n m (Some s0)
    | XeCannotExtendData k _ \<Rightarrow> XeCannotExtendData k (Some s0)
    | XeInvalidJsonCal d _ \<Rightarrow> XeInvalidJsonCal d (Some s0)
    | XeNotAuthorized d _ \<Rightarrow> XeNotAuthorized d (Some s0)
    | XeAccumulateNonNumericField f c _ \<Rightarrow> XeAccumulateNonNumericField f c (Some s0)
    | XeAccumulateTipNotFound j r _ \<Rightarrow> XeAccumulateTipNotFound j r (Some s0)
    | XeAccumulateRetryExhausted j r _ \<Rightarrow> XeAccumulateRetryExhausted j r (Some s0)
    | XeAccumulateInternal _ \<Rightarrow> XeAccumulateInternal (Some s0)
    | XeAccumulateBackpressureRejected j r _ \<Rightarrow> XeAccumulateBackpressureRejected j r (Some s0)
    | XeTemplateTooLarge n m _ \<Rightarrow> XeTemplateTooLarge n m (Some s0)
    | XeTemplateNestedEach _ \<Rightarrow> XeTemplateNestedEach (Some s0)
    | XeTemplateUnknownVariable k _ s \<Rightarrow> XeTemplateUnknownVariable k (Some s0) s
    | XeTemplateUnknownFilter k _ \<Rightarrow> XeTemplateUnknownFilter k (Some s0)
    | XeTier1NotEnabled t _ \<Rightarrow> XeTier1NotEnabled t (Some s0)
    | XeTemplateNotFound k _ \<Rightarrow> XeTemplateNotFound k (Some s0)
    | XeTemplateBuiltinImmutable k _ \<Rightarrow> XeTemplateBuiltinImmutable k (Some s0)
    | XeTemplateParentNotFound k q _ \<Rightarrow> XeTemplateParentNotFound k q (Some s0)
    | XeTemplateInheritanceDepth k _ \<Rightarrow> XeTemplateInheritanceDepth k (Some s0)
    | XeRenderOutputTooLarge n m _ \<Rightarrow> XeRenderOutputTooLarge n m (Some s0)
    | XeQueryNotFound k _ \<Rightarrow> XeQueryNotFound k (Some s0)
    | XeDuplicateQueryName k _ \<Rightarrow> XeDuplicateQueryName k (Some s0)
    | XeTooManyQueries n m _ \<Rightarrow> XeTooManyQueries n m (Some s0)
    | XeMissingQueryParam k q _ \<Rightarrow> XeMissingQueryParam k q (Some s0)
    | e \<Rightarrow> e)"

definition with_span :: "span \<Rightarrow> cal_error \<Rightarrow> cal_error" where
  "with_span s0 err = (case err of
      CeQueryTooLong n m _ \<Rightarrow> CeQueryTooLong n m (Some s0)
    | CeUnexpectedToken e f _ s \<Rightarrow> CeUnexpectedToken e f (Some s0) s
    | CeUnknownGrainType f _ s \<Rightarrow> CeUnknownGrainType f (Some s0) s
    | CeUnterminatedString _ \<Rightarrow> CeUnterminatedString (Some s0)
    | CeInvalidNumber f _ \<Rightarrow> CeInvalidNumber f (Some s0)
    | CeNestingTooDeep n m _ \<Rightarrow> CeNestingTooDeep n m (Some s0)
    | CeLimitExceeded n m _ \<Rightarrow> CeLimitExceeded n m (Some s0)
    | CeInSetTooLarge n m _ \<Rightarrow> CeInSetTooLarge n m (Some s0)
    | CeTooManyPipelineStages n m _ \<Rightarrow> CeTooManyPipelineStages n m (Some s0)
    | CeTooManySetOperands n m _ \<Rightarrow> CeTooManySetOperands n m (Some s0)
    | CeEmptyQuery _ \<Rightarrow> CeEmptyQuery (Some s0)
    | CeReasonTooLong n m _ \<Rightarrow> CeReasonTooLong n m (Some s0)
    | CeMissingReason _ \<Rightarrow> CeMissingReason (Some s0)
    | CeMissingSetClause _ \<Rightarrow> CeMissingSetClause (Some s0)
    | CeFieldNotOnGrainType f g _ s \<Rightarrow> CeFieldNotOnGrainType f g (Some s0) s
    | CeAssembleTooManySources n m _ \<Rightarrow> CeAssembleTooManySources n m (Some s0)
    | CeAssembleBudgetExceeded n m u _ \<Rightarrow> CeAssembleBudgetExceeded n m u (Some s0)
    | CeAssembleDuplicateLabel l _ \<Rightarrow> CeAssembleDuplicateLabel l (Some s0)
    | CeAssemblePriorityMismatch l _ \<Rightarrow> CeAssemblePriorityMismatch l (Some s0)
    | CeCoalesceTooManyBranches n m _ \<Rightarrow> CeCoalesceTooManyBranches n m (Some s0)
    | CeInvalidUtf8 d _ \<Rightarrow> CeInvalidUtf8 d (Some s0)
    | CeMissingAccumulateOps _ \<Rightarrow> CeMissingAccumulateOps (Some s0)
    | CeTemplateInvalidName k _ \<Rightarrow> CeTemplateInvalidName k (Some s0)
    | CeTemplateSyntaxError d _ \<Rightarrow> CeTemplateSyntaxError d (Some s0)
    | CeQueryBodyTooLarge n m _ \<Rightarrow> CeQueryBodyTooLarge n m (Some s0)
    | CeTooManyQueryParams n m _ \<Rightarrow> CeTooManyQueryParams n m (Some s0)
    | CeRecursiveQuery _ \<Rightarrow> CeRecursiveQuery (Some s0)
    | CeWriteInQueryBody t _ \<Rightarrow> CeWriteInQueryBody t (Some s0)
    | CeInvalidQueryBody d _ \<Rightarrow> CeInvalidQueryBody d (Some s0)
    | CeUnsupportedVersion n _ \<Rightarrow> CeUnsupportedVersion n (Some s0)
    | CeTooManyFormats n m _ \<Rightarrow> CeTooManyFormats n m (Some s0)
    | CeTooManyUserVars n m _ \<Rightarrow> CeTooManyUserVars n m (Some s0)
    | CeUserVarTooLarge k n m _ \<Rightarrow> CeUserVarTooLarge k n m (Some s0)
    | CeDuplicateFormatKey k _ \<Rightarrow> CeDuplicateFormatKey k (Some s0)
    | CeRun e \<Rightarrow> CeRun (exec_with_span s0 e)
    | e \<Rightarrow> e)"

section \<open>What is shown\<close>

definition at_span :: "span option \<Rightarrow> string" where
  "at_span o' = (case o' of None \<Rightarrow> [] | Some s \<Rightarrow> '' at '' @ span_display s)"

definition diagnostic :: "cal_error \<Rightarrow> string" where
  "diagnostic e = cal_display e @ at_span (cal_span e)
     @ (case cal_suggestion e of None \<Rightarrow> [] | Some h \<Rightarrow> '' (hint: '' @ h @ '')'')"

text \<open>\<^verbatim>\<open>char::is_control\<close> in Latin-1; the bidirectional overrides are outside it.\<close>

definition is_control :: "char \<Rightarrow> bool" where
  "is_control c = (code_of c < 0x20 \<or> (0x7F \<le> code_of c \<and> code_of c < 0xA0))"

definition MAX_ECHO_LEN :: nat where "MAX_ECHO_LEN = 128"

definition sanitize_echo :: "string \<Rightarrow> string" where
  "sanitize_echo s = map (\<lambda>c. if is_control c then CHR ''?'' else c) (take MAX_ECHO_LEN s)"

definition exec_sanitize :: "exec_error \<Rightarrow> string option" where
  "exec_sanitize err = (case err of
      XeBudgetExceeded d sp \<Rightarrow> Some (''CAL-E030: budget exceeded'' @ at_span sp)
    | XeInvalidQuery d sp \<Rightarrow> Some (''CAL-E092: invalid query'' @ at_span sp)
    | XeCryptoError d sp \<Rightarrow> Some (''CAL-E090: crypto error during query execution'' @ at_span sp)
    | XeInvalidJsonCal d sp \<Rightarrow> Some (''CAL-E120: invalid JSON+CAL input'' @ at_span sp)
    | XeNotAuthorized d sp \<Rightarrow> Some (''CAL-E121: not authorized: '' @ d @ at_span sp)
    | XeAccumulateRetryExhausted j r sp \<Rightarrow> Some (
     ''CAL-E083: ACCUMULATE retry budget exhausted (subject='' @ dq (sanitize_echo j) @ '', relation=''
     @ dq (sanitize_echo r) @ '')'' @ at_span sp)
    | XeAccumulateInternal sp \<Rightarrow> Some (''CAL-E084: ACCUMULATE internal failure'' @ at_span sp)
    | XeAccumulateBackpressureRejected j r sp \<Rightarrow> Some (
     ''CAL-E085: ACCUMULATE backpressure: per-key inflight cap exceeded (subject='' @ dq (sanitize_echo j) @ '', relation=''
     @ dq (sanitize_echo r) @ '')'' @ at_span sp)
    | e \<Rightarrow> None)"

definition sanitize_for_client :: "cal_error \<Rightarrow> string" where
  "sanitize_for_client err = (case err of
      CeTemplateSyntaxError d sp \<Rightarrow> ''CAL-E049: template syntax error'' @ at_span sp
    | CeInvalidQueryBody d sp \<Rightarrow> ''CAL-E059: invalid query body'' @ at_span sp
    | CeRun e \<Rightarrow> (case exec_sanitize e of Some s \<Rightarrow> s | None \<Rightarrow> diagnostic (CeRun e))
    | e \<Rightarrow> diagnostic e)"

text \<open>The conversion to the error of the core crates.\<close>

definition cal_to_deja :: "cal_error \<Rightarrow> deja_error" where
  "cal_to_deja e = Validation (diagnostic e)"

section \<open>Warnings\<close>

datatype cal_warning =
    CwUnknownRelation string "span option"
  | CwDomainFieldWithoutTag string "span option"
  | CwUnknownDomainPrefix string "span option"
  | CwUnknownExtensionOption string "span option"
  | CwDuplicateSetField string "span option"
  | CwUnusedQueryParam string string "span option"
  | CwDeprecatedPipeOperator "span option"
  | CwIsCategoryOnNonRelation string string "span option"
  | CwAssembleUnscopedSource "string list" "span option"
  | CwUnrecognizedWhereField string "span option"
  | CwEachIterationCapped nat nat nat
  | CwContradictionScanBounded nat
  | CwWithOptionInert string string string

fun warning_code :: "cal_warning \<Rightarrow> string" where
  "warning_code (CwUnknownRelation _ _) = ''CAL-W001''"
| "warning_code (CwDomainFieldWithoutTag _ _) = ''CAL-W002''"
| "warning_code (CwUnknownDomainPrefix _ _) = ''CAL-W003''"
| "warning_code (CwUnknownExtensionOption _ _) = ''CAL-W004''"
| "warning_code (CwDuplicateSetField _ _) = ''CAL-W005''"
| "warning_code (CwUnusedQueryParam _ _ _) = ''CAL-W006''"
| "warning_code (CwDeprecatedPipeOperator _) = ''CAL-W007''"
| "warning_code (CwIsCategoryOnNonRelation _ _ _) = ''CAL-W008''"
| "warning_code (CwAssembleUnscopedSource _ _) = ''CAL-W009''"
| "warning_code (CwUnrecognizedWhereField _ _) = ''CAL-W010''"
| "warning_code (CwEachIterationCapped _ _ _) = ''CAL-W011''"
| "warning_code (CwContradictionScanBounded _) = ''CAL-W012''"
| "warning_code (CwWithOptionInert _ _ _) = ''CAL-W014''"

fun warning_span :: "cal_warning \<Rightarrow> span option" where
  "warning_span (CwUnknownRelation _ sp) = sp"
| "warning_span (CwDomainFieldWithoutTag _ sp) = sp"
| "warning_span (CwUnknownDomainPrefix _ sp) = sp"
| "warning_span (CwUnknownExtensionOption _ sp) = sp"
| "warning_span (CwDuplicateSetField _ sp) = sp"
| "warning_span (CwUnusedQueryParam _ _ sp) = sp"
| "warning_span (CwDeprecatedPipeOperator sp) = sp"
| "warning_span (CwIsCategoryOnNonRelation _ _ sp) = sp"
| "warning_span (CwAssembleUnscopedSource _ sp) = sp"
| "warning_span (CwUnrecognizedWhereField _ sp) = sp"
| "warning_span _ = None"

definition sq :: "string \<Rightarrow> string" where
  "sq s = [CHR 0x27] @ s @ [CHR 0x27]"

fun warning_message :: "cal_warning \<Rightarrow> string" where
  "warning_message (CwUnknownRelation r _) = ''Unknown relation '' @ dq r"
| "warning_message (CwDomainFieldWithoutTag f _) = ''Domain field '' @ dq f @ '' used without @tag''"
| "warning_message (CwUnknownDomainPrefix p _) = ''Unknown domain prefix '' @ dq p"
| "warning_message (CwUnknownExtensionOption x _) = ''Unknown extension option '' @ dq x @ '' (ignored)''"
| "warning_message (CwDuplicateSetField f _) = ''Duplicate SET field '' @ dq f @ '' -- only the last value is used''"
| "warning_message (CwUnusedQueryParam k q _) =
     ''Parameter '' @ dq (''$'' @ k) @ '' supplied but not referenced in query '' @ dq q"
| "warning_message (CwDeprecatedPipeOperator _) =
     ''Bare pipe operator `|` is deprecated (CAL 1.1). Use direct clause syntax instead, e.g. `RECALL facts ORDER BY confidence DESC LIMIT 10`''"
| "warning_message (CwIsCategoryOnNonRelation f c _) =
     ''IS '' @ c @ '' used on field '' @ sq f @ '' -- IS CATEGORY is only meaningful on the '' @ sq ''relation''
     @ '' field; this condition was ignored''"
| "warning_message (CwAssembleUnscopedSource ls _) =
     ''ASSEMBLE source(s) ['' @ join '', '' ls
     @ ''] have no subject filter while other sources do -- results may include data from unrelated subjects''"
| "warning_message (CwUnrecognizedWhereField f _) =
     ''WHERE field '' @ sq f @ '' is not a recognized structural filter and was ignored''"
| "warning_message (CwEachIterationCapped n t m) =
     ''{{#each}} rendered '' @ nat_str n @ '' of '' @ nat_str t @ '' grains (spec 10.8 caps iteration at '' @ nat_str m
     @ '') -- the result set is complete, this rendering is not''"
| "warning_message (CwContradictionScanBounded n) =
     ''CONTRADICTIONS examined the first '' @ nat_str n
     @ '' matching grains (the executor'' @ [CHR 0x27] @ ''s max_limit) -- grains past that were not checked, so this is not a complete all-clear. Narrow the query with WHERE/ABOUT/SINCE to be sure.''"
| "warning_message (CwWithOptionInert x t w) =
     ''WITH '' @ x @ '' has no effect on '' @ t @ '' -- '' @ w @ ''. The result is the same as without it.''"

definition warning_display :: "cal_warning \<Rightarrow> string" where
  "warning_display w = warning_code w @ '': '' @ warning_message w"

text \<open>A parser step: an error, or a value.\<close>

definition unexpected :: "string \<Rightarrow> string \<Rightarrow> span \<Rightarrow> cal_error" where
  "unexpected expected found sp = CeUnexpectedToken expected found (Some sp) None"

end
