(* ===== verification/Cal_Lexer.thy ===== *)
theory Cal_Lexer
  imports Cal_Error
begin

text \<open>
  The CAL lexer (\<^verbatim>\<open>dejadb-cal/src/lexer.rs\<close>): the two security checks on the input, the
  blocked words, the token rules, template section bodies, and the tokenizer with its
  positions. The rules are matched the way Logos documents it: the longest match, a literal
  before a pattern of the same length. The extent of an unrecognised token is Logos's own.
\<close>

section \<open>Raw text\<close>

text \<open>A list of Unicode scalar values.\<close>

type_synonym utext = "nat list"

definition scalar_len :: "nat \<Rightarrow> nat" where
  "scalar_len n = (if n < 128 then 1 else if n < 2048 then 2 else if n < 65536 then 3 else 4)"

definition utext_len :: "utext \<Rightarrow> nat" where
  "utext_len t = sum_list (map scalar_len t)"

definition byte_len :: "string \<Rightarrow> nat" where
  "byte_len s = sum_list (map (\<lambda>c. scalar_len (code_of c)) s)"

section \<open>Security checks\<close>

definition is_bidi :: "nat \<Rightarrow> bool" where
  "is_bidi cp = ((0x202A \<le> cp \<and> cp \<le> 0x202E) \<or> (0x2066 \<le> cp \<and> cp \<le> 0x2069))"

definition hex_upper_digit :: "nat \<Rightarrow> char" where
  "hex_upper_digit d = (if d < 10 then char_of (48 + d) else char_of (55 + d))"

definition hex4 :: "nat \<Rightarrow> string" where
  "hex4 n = map (\<lambda>k. hex_upper_digit (n div 16 ^ k mod 16)) [3, 2, 1, 0]"

definition bidi_error :: "nat \<Rightarrow> nat \<Rightarrow> cal_error" where
  "bidi_error off cp =
     CeInvalidUtf8 (''bidi override U+'' @ hex4 cp @ '' is not permitted (spec 3.1)'')
       (Some (mk_span off (off + scalar_len cp) 1 (off + 1)))"

fun check_bidi_from :: "nat \<Rightarrow> utext \<Rightarrow> cal_error + unit" where
  "check_bidi_from off [] = Inr ()"
| "check_bidi_from off (cp # t) =
     (if is_bidi cp then Inl (bidi_error off cp) else check_bidi_from (off + scalar_len cp) t)"

definition check_bidi :: "utext \<Rightarrow> cal_error + unit" where
  "check_bidi t = check_bidi_from 0 t"

definition DESTRUCTIVE_KEYWORDS :: "string list" where
  "DESTRUCTIVE_KEYWORDS = [''DELETE'', ''ERASE'', ''DESTROY'', ''TRUNCATE'', ''INSERT'', ''CREATE'',
      ''WRITE'', ''STORE'', ''KEY'', ''ENCRYPT'', ''DECRYPT'', ''ROTATE'', ''MASTER'', ''DEK'',
      ''SECRET'', ''POLICY'', ''SEAL'', ''UNSEAL'', ''TOKEN'', ''CONSENT'', ''RESTRICT'', ''SCHEMA'',
      ''PARTITION'', ''INDEX'', ''MIGRATION'']"

definition is_destructive_keyword :: "string \<Rightarrow> bool" where
  "is_destructive_keyword w = (to_ascii_uppercase w \<in> set DESTRUCTIVE_KEYWORDS)"

section \<open>Tokens\<close>

text \<open>
  The variants of the token enum: a keyword is \<^verbatim>\<open>Kw\<close> with its spelling in capitals, an
  operator or punctuation mark is \<^verbatim>\<open>Sym\<close> with its text, and both are members of the lists
  below; the six template sections carry their body.
\<close>

datatype section_body = Bare | Body string

datatype token =
    Kw string
  | Sect string section_body
  | Sym string
  | HashLiteral string
  | Parameter string
  | StringLiteral string
  | UnterminatedString
  | NumberLiteral f64
  | Ident string

section \<open>The environment\<close>

text \<open>
  What the lexer and the parser use of the libraries: \<^verbatim>\<open>ce_nfc\<close> is NFC normalization,
  \<^verbatim>\<open>ce_round\<close> rounds a decimal to the nearest double, \<^verbatim>\<open>ce_err_len\<close> is the number of
  characters Logos reports for input that no rule matches; \<^verbatim>\<open>ce_show\<close> and \<^verbatim>\<open>ce_parse\<close> are
  \<^verbatim>\<open>Display\<close> and \<^verbatim>\<open>FromStr\<close> of \<^verbatim>\<open>f64\<close>, \<^verbatim>\<open>ce_debug\<close> the derived \<^verbatim>\<open>Debug\<close> of a token.
\<close>

record cal_env =
  ce_nfc :: "utext \<Rightarrow> string"
  ce_round :: "rat \<Rightarrow> f64"
  ce_err_len :: "string \<Rightarrow> nat"
  ce_show :: "f64 \<Rightarrow> string"
  ce_parse :: "string \<Rightarrow> f64 option"
  ce_debug :: "token \<Rightarrow> string"

definition TIER0_QUERY :: "string list" where
  "TIER0_QUERY = [''CAL'', ''RECALL'', ''ASSEMBLE'', ''WHERE'', ''AND'', ''OR'', ''NOT'', ''IN'',
      ''BETWEEN'', ''LIMIT'', ''OFFSET'', ''ORDER'', ''BY'', ''ASC'', ''DESC'', ''WITH'',
      ''EXPLAIN'', ''SCOPE'', ''UNION'', ''INTERSECT'', ''EXCEPT'', ''SELECT'', ''COUNT'',
      ''FIRST'', ''GROUP'', ''SUBJECTS'', ''OBJECTS'', ''HASHES'', ''PROJECT'', ''INCLUDE'',
      ''EXCLUDE'', ''IS'', ''NULL'', ''TRUE'', ''FALSE'', ''EXISTS'', ''HISTORY'']"

definition TIER0_CLAUSES :: "string list" where
  "TIER0_CLAUSES = [''DESCRIBE'', ''BATCH'', ''COALESCE'', ''ABOUT'', ''RECENT'', ''SINCE'', ''UNTIL'', ''LIKE'', ''MY'',
      ''CONTRADICTIONS'', ''AS'', ''FOR'', ''FROM'', ''BUDGET'', ''PRIORITY'', ''FORMAT'',
      ''LET'', ''THREAD'', ''DIFF'', ''STREAM'', ''TEMPLATE'', ''DEFINE'', ''DROP'', ''QUERY'',
      ''RUN'', ''EXTENDS'', ''OF'']"

definition SECTION_KEYWORDS :: "string list" where
  "SECTION_KEYWORDS = [''HEADER'', ''ELEMENT'', ''ELEMENT_SUMMARY'', ''ELEMENT_OMIT'', ''SOURCE_BREAK'',
      ''FOOTER'']"

definition TIER1_KEYWORDS :: "string list" where
  "TIER1_KEYWORDS = [''ADD'', ''ACCUMULATE'', ''SUPERSEDE'', ''REVERT'']"

definition TIER2_KEYWORDS :: "string list" where
  "TIER2_KEYWORDS = [''REMEMBER'', ''ENTITY'', ''MERGE'', ''RELATED'', ''NOVELTY'', ''RUNS'', ''DERIVED'',
      ''APPROVE'', ''REJECT'', ''APPLY'', ''ROLLBACK'', ''GRANT'', ''REVOKE'', ''SHOW'', ''TO'',
      ''FORGET'', ''PURGE'', ''REPORT'', ''SET'', ''REASON'', ''BECAUSE'']"

definition CATEGORY_KEYWORDS :: "string list" where
  "CATEGORY_KEYWORDS = [''PREFERENCE'', ''KNOWLEDGE'', ''PERMISSION'', ''INTERACTION'', ''AGENCY'',
      ''LIFECYCLE'', ''OBSERVATION'']"

definition FORMAT_KEYWORDS :: "string list" where
  "FORMAT_KEYWORDS = [''MARKDOWN'', ''JSON'', ''YAML'', ''TEXT'', ''SML'', ''TOON'', ''TRIPLES'']"

definition PRESET_KEYWORDS :: "string list" where
  "PRESET_KEYWORDS = [''STRUCTURED'', ''READABLE'', ''COMPACT'', ''DATA'']"

definition STREAM_KEYWORDS :: "string list" where
  "STREAM_KEYWORDS = [''PROGRESS'', ''CHUNKS'', ''ALL'', ''CHUNK_SIZE'']"

definition WITH_KEYWORDS :: "string list" where
  "WITH_KEYWORDS = [''SUPERSEDED'', ''SCORE_BREAKDOWN'', ''EXPLANATION'', ''PROVENANCE'',
      ''CONTRADICTION_DETECTION'', ''DIVERSITY'', ''DEDUP'', ''PROGRESSIVE_DISCLOSURE'',
      ''CONSISTENCY'', ''LOCALE'', ''CACHE'', ''TTL'', ''RERANK'', ''LLM_RERANK'',
      ''QUERY_EXPANSION'', ''QUERY_DECOMPOSE'', ''HYDE'', ''CONFLICT_RESOLUTION'',
      ''INCLUDE_SOURCES'', ''ANNOTATE_RELATIVE_TIME'', ''RECENCY_WEIGHT'', ''MIN_SCORE'',
      ''MULTI_HOP'', ''SESSION_AFFINITY'', ''SUBJECT_AFFINITY'', ''SESSION_COVERAGE'',
      ''MAX_NAMESPACES'', ''EXHAUSTIVE'', ''SESSION_CENSUS'', ''AGGREGATION_INTENT'',
      ''PREFERENCE_ENRICHMENT'']"

definition ADD_WITH_KEYWORDS :: "string list" where
  "ADD_WITH_KEYWORDS = [''EXTRACT_EVENT_DATE'', ''AUTO_RELATE'', ''EXTRACT_MEMORIES'', ''SYNC'', ''VARS'']"

definition GRAPH_KEYWORDS :: "string list" where
  "GRAPH_KEYWORDS = [''ON'', ''WHEN'', ''BIND'']"

definition KEYWORDS :: "string list" where
  "KEYWORDS = TIER0_QUERY @ TIER0_CLAUSES @ TIER1_KEYWORDS @ TIER2_KEYWORDS @ CATEGORY_KEYWORDS @ FORMAT_KEYWORDS
      @ PRESET_KEYWORDS @ STREAM_KEYWORDS @ WITH_KEYWORDS @ ADD_WITH_KEYWORDS @ GRAPH_KEYWORDS"

definition SYMBOLS :: "string list" where
  "SYMBOLS = [''->'', ''!='', ''>='', ''<='', ''>'', ''<'', ''='', ''*'', ''('', '')'', ''['', '']'',
      ''{'', ''}'', '','', '';'', ''|'', ''/'', '':'', ''.'', ''$'', ''#'']"

text \<open>
  The description of a token in error messages; the text of a number is \<^verbatim>\<open>f64\<close>'s
  \<^verbatim>\<open>Display\<close>, given as a function.
\<close>

fun token_description :: "(f64 \<Rightarrow> string) \<Rightarrow> token \<Rightarrow> string" where
  "token_description sh (Kw k) = k"
| "token_description sh (Sect k _) = k"
| "token_description sh (Sym k) = k"
| "token_description sh (HashLiteral h) = ''sha256:'' @ h"
| "token_description sh (Parameter n) = CHR ''$'' # n"
| "token_description sh (StringLiteral s) = dq s"
| "token_description sh UnterminatedString = ''unterminated string''"
| "token_description sh (NumberLiteral n) = sh n"
| "token_description sh (Ident i) = i"

definition STATEMENT_STARTERS :: "string list" where
  "STATEMENT_STARTERS = [''RECALL'', ''ASSEMBLE'', ''EXISTS'', ''HISTORY'', ''EXPLAIN'', ''DESCRIBE'',
      ''BATCH'', ''COALESCE'', ''ADD'', ''ACCUMULATE'', ''SUPERSEDE'', ''REVERT'', ''FORGET'', ''PURGE'',
      ''REPORT'', ''DROP'', ''RUN'']"

fun is_statement_starter :: "token \<Rightarrow> bool" where
  "is_statement_starter (Kw k) = (k \<in> set STATEMENT_STARTERS)"
| "is_statement_starter _ = False"

record stoken =
  st_token :: token
  st_span :: span
  st_text :: string

section \<open>Template section bodies\<close>

definition is_layout :: "char \<Rightarrow> bool" where
  "is_layout c = (code_of c \<in> {32, 9, 13, 10})"

definition is_blank :: "char \<Rightarrow> bool" where
  "is_blank c = (code_of c \<in> {32, 9, 13})"

definition newline :: char where "newline = CHR 0x0A"

definition trim_section_text :: "string \<Rightarrow> string" where
  "trim_section_text raw =
     (let s = (case dropWhile is_blank raw of
                 [] \<Rightarrow> raw
               | c # rest \<Rightarrow> if c = newline then rest else raw);
          e = rev (dropWhile is_blank (rev s))
      in if e \<noteq> [] \<and> last e = newline then butlast e else s)"

text \<open>Scanning to the brace that closes the body; doubled braces are stepped over in pairs.\<close>

fun scan_body :: "nat \<Rightarrow> string \<Rightarrow> string \<Rightarrow> (string \<times> string) option" where
  "scan_body d acc [] = None"
| "scan_body d acc [c] =
     (if c = CHR 0x7D \<and> d = 1 then Some (rev acc, []) else None)"
| "scan_body d acc (c # c' # s) =
     (if c = CHR 0x7B \<and> c' = CHR 0x7B \<or> c = CHR 0x7D \<and> c' = CHR 0x7D then scan_body d (c' # c # acc) s
      else if c = CHR 0x7B then scan_body (d + 1) (c # acc) (c' # s)
      else if c = CHR 0x7D then
        (if d = 1 then Some (rev acc, c' # s) else scan_body (d - 1) (c # acc) (c' # s))
      else scan_body d (c # acc) (c' # s))"

text \<open>The body, and what remains of the input after it.\<close>

definition take_section :: "string \<Rightarrow> section_body \<times> string" where
  "take_section rest =
     (case dropWhile is_layout rest of
        [] \<Rightarrow> (Bare, rest)
      | c # r \<Rightarrow>
          if c \<noteq> CHR 0x7B then (Bare, rest)
          else (case scan_body 1 [] r of
                  None \<Rightarrow> (Bare, rest)
                | Some (raw, after) \<Rightarrow> (Body (trim_section_text raw), after)))"

section \<open>The rules\<close>

definition is_ident_start :: "char \<Rightarrow> bool" where
  "is_ident_start c = (is_ascii_upper c \<or> is_ascii_lower c \<or> c = CHR ''_'')"

definition is_ident_char :: "char \<Rightarrow> bool" where
  "is_ident_char c = (is_ident_start c \<or> is_ascii_digit c)"

text \<open>White space and comments, which the lexer skips.\<close>

function skip_layout :: "string \<Rightarrow> string" where
  "skip_layout s =
     (case s of
        [] \<Rightarrow> []
      | c # r \<Rightarrow>
          if is_layout c then skip_layout r
          else if c = CHR ''-'' \<and> take 1 r = ''-''
          then skip_layout (dropWhile (\<lambda>x. x \<noteq> newline) r)
          else s)"
  by pat_completeness auto
termination
  by (relation "measure length") (auto intro: le_imp_less_Suc length_dropWhile_le)

declare skip_layout.simps [simp del]

text \<open>The items of a string literal: what precedes the closing quote, and the rest.\<close>

fun scan_string :: "string \<Rightarrow> string \<times> string" where
  "scan_string [] = ([], [])"
| "scan_string [c] = (if c = CHR 0x22 \<or> c = CHR 0x5C then ([], [c]) else ([c], []))"
| "scan_string (c # c' # s) =
     (if c = CHR 0x22 then ([], c # c' # s)
      else if c = CHR 0x5C then
        (if c' = newline then ([], c # c' # s)
         else (let (xs, r) = scan_string s in (c # c' # xs, r)))
      else (let (xs, r) = scan_string (c' # s) in (c # xs, r)))"

fun unescape :: "string \<Rightarrow> string" where
  "unescape [] = []"
| "unescape [c] = [c]"
| "unescape (c # c' # s) =
     (if c = CHR 0x5C then
        (if c' = CHR 0x22 then CHR 0x22 # unescape s
         else if c' = CHR 0x5C then CHR 0x5C # unescape s
         else if c' = CHR ''n'' then CHR 0x0A # unescape s
         else if c' = CHR ''t'' then CHR 0x09 # unescape s
         else if c' = CHR ''r'' then CHR 0x0D # unescape s
         else CHR 0x5C # c' # unescape s)
      else c # unescape (c' # s))"

text \<open>Numbers: an optional sign, digits, an optional fraction, an optional exponent.\<close>

definition digits_of :: "string \<Rightarrow> string" where
  "digits_of s = takeWhile is_ascii_digit s"

definition scan_fraction :: "string \<Rightarrow> string" where
  "scan_fraction s =
     (if take 1 s = ''.'' \<and> digits_of (drop 1 s) \<noteq> [] then CHR ''.'' # digits_of (drop 1 s) else [])"

definition scan_exponent :: "string \<Rightarrow> string" where
  "scan_exponent s =
     (case s of
        [] \<Rightarrow> []
      | c # r \<Rightarrow>
          if c \<noteq> CHR ''e'' \<and> c \<noteq> CHR ''E'' then []
          else (let sg = (if take 1 r = ''+'' \<or> take 1 r = ''-'' then take 1 r else []);
                    ds = digits_of (drop (length sg) r)
                in if ds = [] then [] else c # sg @ ds))"

definition scan_number :: "string \<Rightarrow> string" where
  "scan_number s =
     (let sg = (if take 1 s = ''-'' then ''-'' else []);
          ds = digits_of (drop (length sg) s);
          fr = scan_fraction (drop (length (sg @ ds)) s);
          ex = scan_exponent (drop (length (sg @ ds @ fr)) s)
      in if ds = [] then [] else sg @ ds @ fr @ ex)"

definition decimal_nat :: "string \<Rightarrow> nat" where
  "decimal_nat s = foldl (\<lambda>n c. 10 * n + (code_of c - 48)) 0 s"

definition pow10 :: "int \<Rightarrow> rat" where
  "pow10 e = (if 0 \<le> e then 10 ^ nat e else 1 / 10 ^ nat (- e))"

text \<open>The exact value of a number's text; \<^verbatim>\<open>parse::<f64>\<close> rounds it.\<close>

definition number_value :: "string \<Rightarrow> rat" where
  "number_value s =
     (let neg = (take 1 s = ''-''); u = (if neg then drop 1 s else s);
          ds = digits_of u; fr = drop 1 (scan_fraction (drop (length ds) u));
          ex = drop 1 (scan_exponent (drop (length (ds @ scan_fraction (drop (length ds) u))) u));
          e = (case ex of
                 [] \<Rightarrow> 0
               | c # r \<Rightarrow> if c = CHR ''-'' then - int (decimal_nat r)
                          else if c = CHR ''+'' then int (decimal_nat r) else int (decimal_nat ex));
          v = of_nat (decimal_nat (ds @ fr)) * pow10 (e - int (length fr))
      in if neg then - v else v)"

definition hash_prefix :: "string \<Rightarrow> bool" where
  "hash_prefix s = (map ascii_lower_char (take 7 s) = ''sha256:'')"

definition hash_digits :: "string \<Rightarrow> string" where
  "hash_digits s = take 64 (takeWhile is_ascii_hexdigit (drop 7 s))"

text \<open>The rule that matches at a character, and the characters it consumes.\<close>

definition lex_word :: "string \<Rightarrow> token \<times> nat" where
  "lex_word s =
     (let w = takeWhile is_ident_char s; up = to_ascii_uppercase w; rest = drop (length w) s
      in if hash_prefix s \<and> 8 \<le> length (hash_digits s)
         then (HashLiteral (map ascii_lower_char (hash_digits s)), 7 + length (hash_digits s))
         else if up \<in> set SECTION_KEYWORDS
         then (case take_section rest of (b, after) \<Rightarrow> (Sect up b, length s - length after))
         else if up \<in> set KEYWORDS then (Kw up, length w)
         else (Ident w, length w))"

definition lex_string :: "string \<Rightarrow> token \<times> nat" where
  "lex_string s =
     (case scan_string (drop 1 s) of
        (inner, []) \<Rightarrow> (UnterminatedString, 1 + length inner)
      | (inner, c # _) \<Rightarrow>
          if c = CHR 0x22 then (StringLiteral (unescape inner), 2 + length inner)
          else (UnterminatedString, 1 + length inner))"

definition lex_symbol :: "string \<Rightarrow> (token \<times> nat) option" where
  "lex_symbol s =
     (if take 2 s \<in> set SYMBOLS \<and> length (take 2 s) = 2 then Some (Sym (take 2 s), 2)
      else if take 1 s \<in> set SYMBOLS then Some (Sym (take 1 s), 1) else None)"

definition lex_token :: "cal_env \<Rightarrow> string \<Rightarrow> (token \<times> nat) option" where
  "lex_token E s =
     (case s of
        [] \<Rightarrow> None
      | c # r \<Rightarrow>
          if is_ident_start c then Some (lex_word s)
          else if c = CHR 0x22 then Some (lex_string s)
          else if c = CHR ''$'' \<and> r \<noteq> [] \<and> is_ident_start (hd r)
          then (let w = takeWhile is_ident_char r in Some (Parameter w, 1 + length w))
          else if scan_number s \<noteq> []
          then Some (NumberLiteral (ce_round E (number_value (scan_number s))), length (scan_number s))
          else lex_symbol s)"

section \<open>The tokenizer\<close>

type_synonym lexpos = "nat \<times> nat \<times> nat"

text \<open>Line, offset of its start, and offset, after some text.\<close>

fun advance_pos :: "lexpos \<Rightarrow> string \<Rightarrow> lexpos" where
  "advance_pos p [] = p"
| "advance_pos (l, ls, off) (c # s) =
     (let off' = off + scalar_len (code_of c)
      in advance_pos (if c = newline then (l + 1, off', off') else (l, ls, off')) s)"

fun token_span :: "lexpos \<Rightarrow> string \<Rightarrow> span" where
  "token_span (l, ls, off) txt = mk_span off (off + byte_len txt) l (off - ls + 1)"

lemma dropWhile_shorter: "length (dropWhile P s) \<le> length s"
  by (induction s) auto

lemma scan_body_shorter: "scan_body d acc s = Some (b, after) \<Longrightarrow> length after < length s"
  by (induction d acc s rule: scan_body.induct) (auto split: if_splits)

lemma take_section_shorter: "take_section rest = (b, after) \<Longrightarrow> length after \<le> length rest"
proof -
  assume a: "take_section rest = (b, after)"
  show ?thesis
  proof (cases "dropWhile is_layout rest")
    case (Cons c r)
    then have "length r < length rest" using dropWhile_shorter [of is_layout rest] by simp
    then show ?thesis
      using a Cons scan_body_shorter [of 1 "[]" r]
      by (auto simp: take_section_def split: option.splits if_splits prod.splits)
  next
    case Nil
    then show ?thesis using a by (simp only: take_section_def list.case prod.inject)
  qed
qed

lemma lex_word_pos:
  assumes "s \<noteq> []" and "is_ident_start (hd s)"
  shows "0 < snd (lex_word s)"
proof -
  let ?w = "takeWhile is_ident_char s"
  obtain c r where s: "s = c # r" using assms(1) by (cases s) auto
  have c: "is_ident_char c" using assms(2) s by (simp add: is_ident_char_def)
  then have w: "0 < length ?w" "drop (length ?w) s = dropWhile is_ident_char r"
    by (simp_all add: s dropWhile_eq_drop [symmetric])
  then have "length (snd (take_section (drop (length ?w) s))) < length s"
    using take_section_shorter [of "drop (length ?w) s"] dropWhile_shorter [of is_ident_char r]
    by (metis s length_Cons le_imp_less_Suc order_trans prod.collapse)
  then show ?thesis using w(1) by (auto simp: lex_word_def Let_def split: prod.split)
qed

lemma lex_token_pos: "lex_token E s = Some (t, n) \<Longrightarrow> 0 < n"
  using lex_word_pos [of s]
  by (auto simp: lex_token_def lex_string_def lex_symbol_def Let_def split: list.splits if_splits prod.splits)

lemma skip_layout_shorter: "length (skip_layout s) \<le> length s"
proof (induction s rule: skip_layout.induct)
  case (1 s)
  show ?case
  proof (cases s)
    case (Cons c r)
    then show ?thesis
      using 1 [OF Cons] dropWhile_shorter [of "\<lambda>x. x \<noteq> newline" r] by (subst skip_layout.simps) auto
  qed (simp add: skip_layout.simps)
qed

function tokenize_from :: "cal_env \<Rightarrow> lexpos \<Rightarrow> string \<Rightarrow> cal_error + stoken list" where
  "tokenize_from E p src =
     (let s = skip_layout src; q = advance_pos p (take (length src - length s) src)
      in if s = [] then Inr []
         else (case lex_token E s of
                 None \<Rightarrow>
                   (let txt = take (ce_err_len E s) s
                    in Inl (unexpected ''a valid CAL token'' (debug_str txt) (token_span q txt)))
               | Some (t, n) \<Rightarrow>
                   (let txt = take n s; sp = token_span q txt
                    in if t = UnterminatedString then Inl (CeUnterminatedString (Some sp))
                       else and_then (tokenize_from E (advance_pos q txt) (drop n s)) (\<lambda>ts.
                              Inr (\<lparr>st_token = t, st_span = sp, st_text = txt\<rparr> # ts)))))"
  by pat_completeness auto
termination
proof (relation "measure (\<lambda>(E, p, s). length s)", goal_cases)
  case (2 E p src s q x t n u sp)
  then have "0 < n" "0 < length s" "length s \<le> length src"
    using lex_token_pos [of E s t n] skip_layout_shorter [of src] by auto
  then have "length s - n < length src" by linarith
  then show ?case by simp
qed simp

declare tokenize_from.simps [simp del]

text \<open>Checking, normalizing and tokenizing the input.\<close>

definition lexer_new :: "cal_env \<Rightarrow> utext \<Rightarrow> cal_error + string" where
  "lexer_new E input = and_then (check_bidi input) (\<lambda>_. Inr (ce_nfc E input))"

definition cal_tokenize :: "cal_env \<Rightarrow> utext \<Rightarrow> cal_error + stoken list" where
  "cal_tokenize E input = and_then (lexer_new E input) (tokenize_from E (1, 0, 0))"

end
