(* ===== verification/Cal_Lex_Props.thy ===== *)
theory Cal_Lex_Props
  imports Cal_Lexer
begin

text \<open>
  What holds of the token stream: its tokens are those of the enum, their spans are where
  their texts stand in the source, and printing tokens and lexing them again is the identity.
\<close>

section \<open>Well-formed tokens\<close>

definition is_ident :: "string \<Rightarrow> bool" where
  "is_ident w = (w \<noteq> [] \<and> is_ident_start (hd w) \<and> list_all is_ident_char w)"

definition is_lower_hex :: "char \<Rightarrow> bool" where
  "is_lower_hex c = (is_ascii_hexdigit c \<and> \<not> is_ascii_upper c)"

fun wf_token :: "token \<Rightarrow> bool" where
  "wf_token (Kw k) = (k \<in> set KEYWORDS)"
| "wf_token (Sect k b) = (k \<in> set SECTION_KEYWORDS)"
| "wf_token (Sym k) = (k \<in> set SYMBOLS)"
| "wf_token (HashLiteral h) = (8 \<le> length h \<and> length h \<le> 64 \<and> list_all is_lower_hex h)"
| "wf_token (Parameter n) = is_ident n"
| "wf_token (StringLiteral _) = True"
| "wf_token UnterminatedString = False"
| "wf_token (NumberLiteral _) = True"
| "wf_token (Ident i) = (is_ident i \<and> to_ascii_uppercase i \<notin> set (KEYWORDS @ SECTION_KEYWORDS))"

lemma takeWhile_all: "list_all P (takeWhile P s)"
  by (induction s) auto

lemma lower_hex: "is_ascii_hexdigit c \<Longrightarrow> is_lower_hex (ascii_lower_char c)"
  by (auto simp: is_lower_hex_def is_ascii_hexdigit_def ascii_lower_char_def is_ascii_upper_def
      is_ascii_digit_def code_of_def)

lemma word_ident:
  assumes "s \<noteq> []" and "is_ident_start (hd s)"
  shows "is_ident (takeWhile is_ident_char s)"
  using assms takeWhile_all [of is_ident_char s]
  by (cases s) (auto simp: is_ident_def is_ident_char_def)

lemma hash_digits_wf:
  assumes "8 \<le> length (hash_digits s)"
  shows "wf_token (HashLiteral (map ascii_lower_char (hash_digits s)))"
proof -
  have "is_lower_hex (ascii_lower_char c)" if c: "c \<in> set (hash_digits s)" for c
  proof (rule lower_hex)
    have "c \<in> set (takeWhile is_ascii_hexdigit (drop 7 s))"
      using c unfolding hash_digits_def by (rule in_set_takeD)
    then show "is_ascii_hexdigit c" by (rule set_takeWhileD [THEN conjunct2])
  qed
  moreover have "length (hash_digits s) \<le> 64" by (simp add: hash_digits_def)
  ultimately show ?thesis using assms by (simp add: list_all_iff)
qed

lemma lex_word_wf:
  assumes "s \<noteq> []" and "is_ident_start (hd s)"
  shows "wf_token (fst (lex_word s))"
proof -
  let ?w = "takeWhile is_ident_char s"
  consider (hash) "hash_prefix s \<and> 8 \<le> length (hash_digits s)"
    | (sect) "\<not> (hash_prefix s \<and> 8 \<le> length (hash_digits s))" "to_ascii_uppercase ?w \<in> set SECTION_KEYWORDS"
    | (word) "\<not> (hash_prefix s \<and> 8 \<le> length (hash_digits s))" "to_ascii_uppercase ?w \<notin> set SECTION_KEYWORDS"
    by blast
  then show ?thesis
  proof cases
    case hash
    then show ?thesis using hash_digits_wf [of s] by (simp add: lex_word_def)
  next
    case sect
    then have "fst (lex_word s) = Sect (to_ascii_uppercase ?w) (fst (take_section (drop (length ?w) s)))"
      unfolding lex_word_def Let_def by (simp only: if_False if_True fst_conv split: prod.split) simp
    then show ?thesis using sect by simp
  next
    case word
    then have "fst (lex_word s) = (if to_ascii_uppercase ?w \<in> set KEYWORDS then Kw (to_ascii_uppercase ?w) else Ident ?w)"
      unfolding lex_word_def Let_def by (simp only: if_False fst_conv split: if_split) simp
    then show ?thesis using word(2) word_ident [OF assms] by simp
  qed
qed

lemma lex_token_wf:
  assumes "lex_token E s = Some (t, n)" and "t \<noteq> UnterminatedString"
  shows "wf_token t"
proof -
  obtain c r where s: "s = c # r" using assms(1) by (cases s) (auto simp: lex_token_def)
  show ?thesis
  proof (cases "is_ident_start c")
    case True
    then show ?thesis using assms(1) s lex_word_wf [of s] by (simp add: lex_token_def)
  next
    case False
    then show ?thesis using assms s word_ident [of r]
      by (auto simp: lex_token_def lex_string_def lex_symbol_def Let_def split: if_splits prod.splits list.splits)
  qed
qed

lemma tokenize_from_Inr:
  assumes "tokenize_from E p src = Inr ts"
  obtains "skip_layout src = []" "ts = []"
  | t n us where "skip_layout src \<noteq> []" "lex_token E (skip_layout src) = Some (t, n)" "t \<noteq> UnterminatedString"
    "tokenize_from E (advance_pos (advance_pos p (take (length src - length (skip_layout src)) src))
       (take n (skip_layout src))) (drop n (skip_layout src)) = Inr us"
    "ts = \<lparr>st_token = t, st_span = token_span (advance_pos p (take (length src - length (skip_layout src)) src))
       (take n (skip_layout src)), st_text = take n (skip_layout src)\<rparr> # us"
proof (cases "skip_layout src = []")
  case True
  then show thesis using assms that(1) by (simp add: tokenize_from.simps [of E p src] Let_def)
next
  case False
  then show thesis using assms that(2)
    by (auto simp: tokenize_from.simps [of E p src] Let_def result_simps split: option.splits prod.splits if_splits)
qed

text \<open>
  C34. Every token that the tokenizer produces is one of the enum: a listed keyword, section,
  operator or mark, a hash of 8 to 64 lower-case digits, a parameter or an identifier that
  is no keyword, a string or a number; never the unterminated string.
\<close>

theorem tokens_typed:
  "case cal_tokenize E input of Inl e \<Rightarrow> True | Inr ts \<Rightarrow> list_all (\<lambda>t. wf_token (st_token t) \<and> st_text t \<noteq> []) ts"
proof -
  have "list_all (\<lambda>t. wf_token (st_token t) \<and> st_text t \<noteq> []) ts" if "tokenize_from E p s = Inr ts" for p s ts
    using that
  proof (induction s arbitrary: p ts rule: measure_induct_rule [of length])
    case (less s)
    show ?case
    proof (rule tokenize_from_Inr [OF less.prems])
      fix t n us
      assume ne: "skip_layout s \<noteq> []" and lt: "lex_token E (skip_layout s) = Some (t, n)" and u: "t \<noteq> UnterminatedString"
        and rec: "tokenize_from E (advance_pos (advance_pos p (take (length s - length (skip_layout s)) s))
          (take n (skip_layout s))) (drop n (skip_layout s)) = Inr us"
        and ts: "ts = \<lparr>st_token = t, st_span = token_span (advance_pos p (take (length s - length (skip_layout s)) s))
          (take n (skip_layout s)), st_text = take n (skip_layout s)\<rparr> # us"
      have n: "0 < n" using lex_token_pos [OF lt] .
      then have "length (drop n (skip_layout s)) < length s"
        using ne skip_layout_shorter [of s] by (cases "skip_layout s") auto
      from less.IH [OF this rec] show ?thesis using ts n ne lex_token_wf [OF lt u] by simp
    qed simp
  qed
  then show ?thesis by (auto simp: cal_tokenize_def result_simps split: sum.split)
qed

section \<open>Positions\<close>

definition last_line :: "string \<Rightarrow> string" where
  "last_line s = rev (takeWhile (\<lambda>c. c \<noteq> newline) (rev s))"

definition newlines :: "string \<Rightarrow> nat" where
  "newlines s = length (filter (\<lambda>c. c = newline) s)"

definition pos_of :: "string \<Rightarrow> lexpos" where
  "pos_of pre = (1 + newlines pre, byte_len pre - byte_len (last_line pre), byte_len pre)"

lemma byte_len_append [simp]: "byte_len (a @ b) = byte_len a + byte_len b"
  by (simp add: byte_len_def)

lemma byte_len_Cons [simp]: "byte_len (c # s) = scalar_len (code_of c) + byte_len s" and byte_len_Nil [simp]: "byte_len [] = 0"
  by (simp_all add: byte_len_def)

lemma last_line_snoc [simp]: "last_line (s @ [c]) = (if c = newline then [] else last_line s @ [c])"
  by (simp add: last_line_def)

lemma last_line_le: "byte_len (last_line s) \<le> byte_len s"
proof (induction s rule: rev_induct)
  case (snoc c s)
  then show ?case by simp
qed (simp add: last_line_def)

lemma advance_append: "advance_pos p (a @ b) = advance_pos (advance_pos p a) b"
  by (induction p a rule: advance_pos.induct) (simp_all add: Let_def)

lemma advance_pos_of: "advance_pos (1, 0, 0) pre = pos_of pre"
proof (induction pre rule: rev_induct)
  case (snoc c s)
  then show ?case using last_line_le [of s]
    by (simp add: advance_append pos_of_def newlines_def Let_def)
qed (simp add: pos_of_def newlines_def last_line_def)

lemma span_pos_of: "token_span (pos_of pre) txt =
    mk_span (byte_len pre) (byte_len (pre @ txt)) (1 + newlines pre) (byte_len (last_line pre) + 1)"
  using last_line_le [of pre] by (simp add: pos_of_def)

lemma skip_layout_suffix: "\<exists>w. s = w @ skip_layout s"
proof (induction s rule: skip_layout.induct)
  case (1 s)
  show ?case
  proof (cases s)
    case (Cons c r)
    consider (l) "is_layout c" | (k) "\<not> is_layout c" "c = CHR ''-'' \<and> take 1 r = ''-''"
      | (n) "\<not> is_layout c" "\<not> (c = CHR ''-'' \<and> take 1 r = ''-'')" by blast
    then show ?thesis
    proof cases
      case l
      then have "skip_layout s = skip_layout r" by (subst skip_layout.simps) (simp add: Cons)
      then show ?thesis using 1(1) [OF Cons l] Cons by (metis append_Cons)
    next
      case k
      let ?d = "dropWhile (\<lambda>x. x \<noteq> newline) r"
      have "skip_layout s = skip_layout ?d" by (subst skip_layout.simps) (use k in \<open>simp add: Cons\<close>)
      moreover obtain w where "?d = w @ skip_layout ?d" using 1(2) [OF Cons k] by blast
      moreover have "s = c # takeWhile (\<lambda>x. x \<noteq> newline) r @ ?d" by (simp add: Cons)
      ultimately show ?thesis by (metis append_Cons append_assoc)
    next
      case n
      then have "skip_layout s = s" by (subst skip_layout.simps) (auto simp: Cons)
      then show ?thesis by simp
    qed
  qed (simp add: skip_layout.simps)
qed

lemma skipped_text: "take (length s - length (skip_layout s)) s @ skip_layout s = s"
proof -
  obtain w where "s = w @ skip_layout s" using skip_layout_suffix by blast
  then have "take (length s - length (skip_layout s)) s = w"
    by (metis add_diff_cancel_right' append_eq_conv_conj length_append)
  with \<open>s = w @ skip_layout s\<close> show ?thesis by simp
qed

definition placed :: "string \<Rightarrow> stoken \<Rightarrow> bool" where
  "placed src t \<longleftrightarrow> (\<exists>pre post. src = pre @ st_text t @ post \<and>
     st_span t = mk_span (byte_len pre) (byte_len (pre @ st_text t)) (1 + newlines pre) (byte_len (last_line pre) + 1))"

definition ends :: "stoken \<Rightarrow> nat list" where
  "ends t = [sp_start (st_span t), sp_end (st_span t)]"

text \<open>
  C35. Every token stands in the normalized source at the bytes of its span, on the line and at
  the column counted from the newlines before it; spans are in order and do not overlap.
\<close>

theorem spans_exact:
  "case cal_tokenize E input of Inl e \<Rightarrow> True
   | Inr ts \<Rightarrow> list_all (placed (ce_nfc E input)) ts \<and> sorted (concat (map ends ts))"
proof -
  have "list_all (placed (pre @ s)) ts \<and> sorted (byte_len pre # concat (map ends ts))"
    if "tokenize_from E (pos_of pre) s = Inr ts" for pre s ts
    using that
  proof (induction s arbitrary: pre ts rule: measure_induct_rule [of length])
    case (less s)
    let ?r = "skip_layout s" and ?g = "take (length s - length (skip_layout s)) s"
    have sfx: "?g @ ?r = s" by (rule skipped_text)
    have pg: "advance_pos (pos_of pre) ?g = pos_of (pre @ ?g)"
      by (simp add: advance_pos_of [symmetric] advance_append)
    show ?case
    proof (rule tokenize_from_Inr [OF less.prems])
      fix t n us
      assume ne: "?r \<noteq> []" and lt: "lex_token E ?r = Some (t, n)"
        and rec: "tokenize_from E (advance_pos (advance_pos (pos_of pre) ?g) (take n ?r)) (drop n ?r) = Inr us"
        and ts: "ts = \<lparr>st_token = t, st_span = token_span (advance_pos (pos_of pre) ?g) (take n ?r),
          st_text = take n ?r\<rparr> # us"
      let ?q = "pre @ ?g @ take n ?r"
      have "length (drop n ?r) < length s"
        using ne lex_token_pos [OF lt] skip_layout_shorter [of s] by (cases ?r) auto
      moreover have "tokenize_from E (pos_of ?q) (drop n ?r) = Inr us"
        using rec by (simp add: pg advance_pos_of [symmetric] advance_append)
      ultimately have us: "list_all (placed (?q @ drop n ?r)) us \<and> sorted (byte_len ?q # concat (map ends us))"
        by (rule less.IH)
      have src: "?q @ drop n ?r = pre @ s"
        using sfx by (metis append_assoc append_take_drop_id)
      have sp: "token_span (advance_pos (pos_of pre) ?g) (take n ?r) = mk_span (byte_len (pre @ ?g))
          (byte_len ((pre @ ?g) @ take n ?r)) (1 + newlines (pre @ ?g)) (byte_len (last_line (pre @ ?g)) + 1)"
        unfolding pg by (rule span_pos_of)
      have "placed (pre @ s) \<lparr>st_token = t, st_span = token_span (advance_pos (pos_of pre) ?g) (take n ?r),
          st_text = take n ?r\<rparr>"
        unfolding placed_def sp using src by (intro exI [of _ "pre @ ?g"] exI [of _ "drop n ?r"]) simp
      moreover have "concat (map ends ts) = byte_len (pre @ ?g) # byte_len ?q # concat (map ends us)"
        unfolding ts sp by (simp add: ends_def mk_span_def)
      moreover have "byte_len pre \<le> byte_len (pre @ ?g)" "byte_len (pre @ ?g) \<le> byte_len ?q" by simp_all
      ultimately show ?thesis using us src ts by (simp only: list.pred_inject sorted2)
    qed simp
  qed
  from this [of "[]"] have "list_all (placed s) ts \<and> sorted (concat (map ends ts))"
    if "tokenize_from E (1, 0, 0) s = Inr ts" for s ts
    using that by (auto simp: pos_of_def newlines_def last_line_def)
  then show ?thesis by (auto simp: cal_tokenize_def lexer_new_def result_simps split: sum.split)
qed

section \<open>Printing and lexing\<close>

definition escape :: "string \<Rightarrow> string" where
  "escape s = concat (map (\<lambda>c. if c = CHR 0x22 \<or> c = CHR 0x5C then [CHR 0x5C, c] else [c]) s)"

text \<open>The texts of a token; a number has many.\<close>

fun prints :: "cal_env \<Rightarrow> token \<Rightarrow> string \<Rightarrow> bool" where
  "prints E (Kw k) s = (s = k)"
| "prints E (Sym k) s = (s = k)"
| "prints E (HashLiteral h) s = (s = ''sha256:'' @ h)"
| "prints E (Parameter n) s = (s = CHR ''$'' # n)"
| "prints E (StringLiteral v) s = (s = [CHR 0x22] @ escape v @ [CHR 0x22])"
| "prints E (NumberLiteral x) s = (s \<noteq> [] \<and> scan_number s = s \<and> x = ce_round E (number_value s))"
| "prints E (Ident i) s = (s = i)"
| "prints E _ s = False"

lemma scan_escape: "scan_string (escape v @ CHR 0x22 # r) = (escape v, CHR 0x22 # r)"
proof (induction v)
  case Nil
  then show ?case by (cases r) (simp_all add: escape_def)
next
  case (Cons c v)
  show ?case
  proof (cases "c = CHR 0x22 \<or> c = CHR 0x5C")
    case True
    then have "escape (c # v) = CHR 0x5C # c # escape v" by (auto simp: escape_def)
    then show ?thesis using Cons True by (auto simp: newline_def)
  next
    case False
    then have e: "escape (c # v) = c # escape v" by (auto simp: escape_def)
    obtain y ys where y: "escape v @ CHR 0x22 # r = y # ys" by (cases "escape v @ CHR 0x22 # r") auto
    then have "scan_string (c # y # ys) = (let (xs, r) = scan_string (y # ys) in (c # xs, r))"
      using False by simp
    then show ?thesis using Cons y e by simp
  qed
qed

lemma unescape_escape [simp]: "unescape (escape v) = v"
proof (induction v)
  case (Cons c v)
  show ?case
  proof (cases "c = CHR 0x22 \<or> c = CHR 0x5C")
    case True
    then have "escape (c # v) = CHR 0x5C # c # escape v" by (auto simp: escape_def)
    then show ?thesis using Cons True by auto
  next
    case False
    then have e: "escape (c # v) = c # escape v" by (auto simp: escape_def)
    then show ?thesis using Cons False by (cases "escape v") auto
  qed
qed (simp add: escape_def)

abbreviation sp :: char where "sp \<equiv> CHR '' ''"

lemma sp_facts: "\<not> is_ident_char sp" "\<not> is_ascii_digit sp" "\<not> is_ascii_hexdigit sp" "is_layout sp"
  by code_simp+

lemma takeWhile_stop: "\<not> P x \<Longrightarrow> takeWhile P (s @ x # r) = takeWhile P s"
  by (induction s) auto

lemma digits_stop: "digits_of (s @ sp # r) = digits_of s"
  by (simp add: digits_of_def takeWhile_stop sp_facts)

lemma digits_le: "length (digits_of s) \<le> length s"
  by (simp add: digits_of_def length_takeWhile_le)

lemma fraction_stop: "scan_fraction (s @ sp # r) = scan_fraction s"
proof (cases s)
  case (Cons c t)
  then show ?thesis by (simp add: scan_fraction_def digits_stop)
qed (simp add: scan_fraction_def)

lemma exponent_stop: "scan_exponent (s @ sp # r) = scan_exponent s"
proof (cases s)
  case (Cons c t)
  then show ?thesis
  proof (cases t)
    case Nil
    then show ?thesis using Cons digits_stop [of "[]" r] by (simp add: scan_exponent_def)
  next
    case (Cons d u)
    then have s: "s = c # d # u" using \<open>s = c # t\<close> by simp
    have "digits_of (d # u @ sp # r) = digits_of (d # u)" using digits_stop [of "d # u" r] by simp
    then show ?thesis using digits_stop [of u r] by (simp add: s scan_exponent_def Let_def)
  qed
qed (simp add: scan_exponent_def)

lemma drop_stop: "n \<le> length s \<Longrightarrow> drop n (s @ sp # r) = drop n s @ sp # r"
  by simp

lemma fraction_le: "length (scan_fraction s) \<le> length s"
  using digits_le [of "drop 1 s"] by (cases s) (auto simp: scan_fraction_def)

lemma number_stop: "scan_number (s @ sp # r) = scan_number s"
proof -
  let ?sg = "if take 1 s = ''-'' then ''-'' else []"
  have sg: "(if take 1 (s @ sp # r) = ''-'' then ''-'' else []) = ?sg" by (cases s) auto
  have l: "length ?sg \<le> length s" by (cases s) auto
  let ?ds = "digits_of (drop (length ?sg) s)"
  have ds: "digits_of (drop (length ?sg) (s @ sp # r)) = ?ds" using l by (simp only: drop_stop digits_stop)
  have l2: "length (?sg @ ?ds) \<le> length s" using l digits_le [of "drop (length ?sg) s"] by simp
  let ?fr = "scan_fraction (drop (length (?sg @ ?ds)) s)"
  have fr: "scan_fraction (drop (length (?sg @ ?ds)) (s @ sp # r)) = ?fr" using l2 by (simp only: drop_stop fraction_stop)
  have l3: "length (?sg @ ?ds @ ?fr) \<le> length s" using l2 fraction_le [of "drop (length (?sg @ ?ds)) s"] by simp
  have ex: "scan_exponent (drop (length (?sg @ ?ds @ ?fr)) (s @ sp # r)) = scan_exponent (drop (length (?sg @ ?ds @ ?fr)) s)"
    using l3 by (simp only: drop_stop exponent_stop)
  show ?thesis unfolding scan_number_def Let_def sg ds fr ex ..
qed


definition keyword_shape :: "string \<Rightarrow> bool" where
  "keyword_shape k = (is_ident k \<and> to_ascii_uppercase k = k)"

definition symbol_shape :: "string \<Rightarrow> bool" where
  "symbol_shape k = (\<not> is_ident_start (hd k) \<and> hd k \<noteq> CHR 0x22 \<and> \<not> is_ascii_digit (hd k) \<and> \<not> is_layout (hd k)
     \<and> k @ '' '' \<notin> set SYMBOLS \<and> (length k = 1 \<or> length k = 2) \<and> (hd k = CHR ''-'' \<longrightarrow> k = ''->'')
     \<and> (hd k = CHR ''$'' \<longrightarrow> k = ''$''))"

lemmas keyword_lists = TIER0_QUERY_def TIER0_CLAUSES_def TIER1_KEYWORDS_def TIER2_KEYWORDS_def CATEGORY_KEYWORDS_def
  FORMAT_KEYWORDS_def PRESET_KEYWORDS_def STREAM_KEYWORDS_def WITH_KEYWORDS_def ADD_WITH_KEYWORDS_def GRAPH_KEYWORDS_def

lemmas letter_tests = is_ident_def is_ident_start_def is_ident_char_def to_ascii_uppercase_def ascii_upper_char_def
  is_ascii_upper_def is_ascii_lower_def is_ascii_digit_def code_of_def

lemma keyword_shapes: "list_all keyword_shape KEYWORDS" and section_shapes: "list_all keyword_shape SECTION_KEYWORDS"
  by (simp_all add: KEYWORDS_def keyword_lists SECTION_KEYWORDS_def keyword_shape_def letter_tests)

lemma symbol_shapes: "list_all symbol_shape SYMBOLS"
  by code_simp

lemma keyword_no_section: "k \<in> set KEYWORDS \<Longrightarrow> k \<notin> set SECTION_KEYWORDS"
proof -
  have "list_all (\<lambda>k. k \<notin> set KEYWORDS) SECTION_KEYWORDS"
    by (simp add: KEYWORDS_def keyword_lists SECTION_KEYWORDS_def)
  then show "k \<in> set KEYWORDS \<Longrightarrow> k \<notin> set SECTION_KEYWORDS" by (metis list_all_iff)
qed

lemma ident_word: "is_ident w \<Longrightarrow> takeWhile is_ident_char (w @ sp # r) = w"
  by (simp add: is_ident_def takeWhile_append2 list_all_iff sp_facts)

lemma lower_ident: "is_ident_char (ascii_lower_char c) = is_ident_char c"
  by (auto simp: ascii_lower_char_def is_ident_char_def is_ident_start_def is_ascii_lower_def is_ascii_upper_def
      code_of_def)

lemma hash_len: "hash_prefix s \<Longrightarrow> 7 \<le> length s"
proof -
  assume "hash_prefix s"
  then have "length (map ascii_lower_char (take 7 s)) = length ''sha256:''" by (simp only: hash_prefix_def)
  then show ?thesis by simp
qed

lemma hash_word:
  assumes "hash_prefix s"
  shows "takeWhile is_ident_char s = take 6 s \<and> ascii_lower_char (s ! 6) = CHR '':''"
proof -
  have m: "map ascii_lower_char (take 7 s) = ''sha256:''" using assms by (simp add: hash_prefix_def)
  have len: "7 \<le> length s" by (rule hash_len [OF assms])
  have at7: "ascii_lower_char (s ! k) = ''sha256:'' ! k" if "k < 7" for k
    using m that len by (metis length_map length_take min.absorb2 nth_map nth_take)
  have "takeWhile is_ident_char s = take 6 s"
  proof (rule takeWhile_eq_take_P_nth)
    fix k assume "k < (6::nat)"
    then have "k \<in> {0, 1, 2, 3, 4, 5}" by auto
    moreover have "list_all is_ident_char ''sha256''" by code_simp
    ultimately have "is_ident_char (''sha256:'' ! k)" by auto
    then show "is_ident_char (s ! k)" using at7 [of k] \<open>k < 6\<close> lower_ident [of "s ! k"] by simp
  next
    have "\<not> is_ident_char (CHR '':'')" by code_simp
    then show "\<not> is_ident_char (s ! 6)" using at7 [of 6] lower_ident [of "s ! 6"] by simp
  qed
  then show ?thesis using at7 [of 6] by simp
qed

lemma ident_no_hash:
  assumes "is_ident w"
  shows "\<not> hash_prefix (w @ sp # r)"
proof
  assume h: "hash_prefix (w @ sp # r)"
  from hash_word [OF h] ident_word [OF assms, of r]
  have w: "w = take 6 (w @ sp # r)" and c: "ascii_lower_char ((w @ sp # r) ! 6) = CHR '':''" by simp_all
  have "7 \<le> length (w @ sp # r)" by (rule hash_len [OF h])
  then have "length (take 6 (w @ sp # r)) = 6" by simp
  then have "length w = 6" by (simp only: w [symmetric])
  then have "(w @ sp # r) ! 6 = sp" by (metis nth_append_length)
  moreover have "ascii_lower_char sp \<noteq> CHR '':''" by code_simp
  ultimately show False using c by simp
qed

lemma lex_word_ident:
  assumes "is_ident w"
  shows "lex_word (w @ sp # r) =
    (if to_ascii_uppercase w \<in> set SECTION_KEYWORDS
     then (case take_section (sp # r) of (b, after) \<Rightarrow> (Sect (to_ascii_uppercase w) b, length (w @ sp # r) - length after))
     else if to_ascii_uppercase w \<in> set KEYWORDS then (Kw (to_ascii_uppercase w), length w)
     else (Ident w, length w))"
  using ident_no_hash [OF assms] ident_word [OF assms] by (simp add: lex_word_def Let_def)

lemma ident_start: "is_ident w \<Longrightarrow> w \<noteq> [] \<and> is_ident_start (hd w)"
  by (simp add: is_ident_def)

lemma lex_token_ident:
  assumes "is_ident w"
  shows "lex_token E (w @ sp # r) = Some (lex_word (w @ sp # r))"
  using ident_start [OF assms] by (cases w) (simp_all add: lex_token_def)

lemma lex_hash:
  assumes "wf_token (HashLiteral h)"
  shows "lex_token E ((''sha256:'' @ h) @ sp # r) = Some (HashLiteral h, length (''sha256:'' @ h))"
proof -
  have hx: "\<And>c. c \<in> set h \<Longrightarrow> is_ascii_hexdigit c" and lo: "map ascii_lower_char h = h"
    using assms by (auto simp: list_all_iff is_lower_hex_def ascii_lower_char_def intro!: map_idI)
  have "takeWhile is_ascii_hexdigit (h @ sp # r) = h" using hx by (simp add: takeWhile_append2 sp_facts)
  then have d: "hash_digits ((''sha256:'' @ h) @ sp # r) = h" using assms by (simp add: hash_digits_def)
  have p: "hash_prefix ((''sha256:'' @ h) @ sp # r)"
  proof -
    have "map ascii_lower_char ''sha256:'' = ''sha256:''" by code_simp
    then show ?thesis by (simp add: hash_prefix_def)
  qed
  have "is_ident_start (CHR ''s'')" by code_simp
  then show ?thesis using assms d p lo by (simp add: lex_token_def lex_word_def Let_def)
qed

lemma lex_sym:
  assumes "k \<in> set SYMBOLS"
  shows "lex_token E (k @ sp # r) = Some (Sym k, length k)"
proof -
  have "symbol_shape k" using symbol_shapes assms by (simp only: list_all_iff)
  then have k: "\<not> is_ident_start (hd k)" "hd k \<noteq> CHR 0x22" "\<not> is_ascii_digit (hd k)"
    "k @ '' '' \<notin> set SYMBOLS" "length k = 1 \<or> length k = 2" "hd k = CHR ''-'' \<longrightarrow> k = ''->''" "hd k = CHR ''$'' \<longrightarrow> k = ''$''"
    unfolding symbol_shape_def by simp_all
  then obtain c t where c: "k = c # t" by (cases k) simp_all
  have gt: "\<not> is_ascii_digit (CHR ''>'')" by code_simp
  have n: "scan_number (k @ sp # r) = []"
    unfolding number_stop using k(3,6) c gt
    by (cases "c = CHR ''-''") (simp_all add: scan_number_def Let_def digits_of_def)
  have sy: "lex_symbol (k @ sp # r) = Some (Sym k, length k)"
    using k(5)
  proof
    assume l: "length k = 1"
    then have "take 2 (k @ sp # r) = k @ '' ''" "take 1 (k @ sp # r) = k" by simp_all
    then show ?thesis using k(4) assms l unfolding lex_symbol_def by (simp only: if_False simp_thms if_True)
  next
    assume l: "length k = 2"
    then have "take 2 (k @ sp # r) = k" by simp
    then show ?thesis using assms l unfolding lex_symbol_def by (simp only: simp_thms if_True)
  qed
  have d: "\<not> (c = CHR ''$'' \<and> t @ sp # r \<noteq> [] \<and> is_ident_start (hd (t @ sp # r)))"
  proof -
    have "\<not> is_ident_start sp" by code_simp
    then show ?thesis using k(7) c by auto
  qed
  have l: "lex_token E (c # (t @ sp # r)) = lex_symbol (c # (t @ sp # r))"
    using k(1,2) n d c unfolding lex_token_def by (simp only: list.case list.sel append_Cons simp_thms if_False)
  then show ?thesis using sy c by simp
qed

lemma lex_number:
  assumes "s \<noteq> []" and "scan_number s = s"
  shows "lex_token E (s @ sp # r) = Some (NumberLiteral (ce_round E (number_value s)), length s)
    \<and> \<not> is_layout (hd s) \<and> \<not> (hd s = CHR ''-'' \<and> take 1 (tl s @ sp # r) = ''-'')"
proof -
  obtain c t where s: "s = c # t" using assms(1) by (cases s) auto
  have f: "\<not> is_ident_start (CHR ''-'')" "\<not> is_layout (CHR ''-'')" "\<not> is_ascii_digit (CHR ''-'')" by code_simp+
  have digit: "is_ascii_digit c \<or> (c = CHR ''-'' \<and> digits_of t \<noteq> [])"
    using assms s by (cases "c = CHR ''-''") (auto simp: scan_number_def Let_def digits_of_def split: if_splits)
  have dg: "is_ascii_digit x \<Longrightarrow> \<not> is_ident_start x \<and> x \<noteq> CHR 0x22 \<and> x \<noteq> CHR ''$'' \<and> \<not> is_layout x \<and> x \<noteq> CHR ''-''" for x
    by (auto simp: is_ascii_digit_def is_ident_start_def is_ascii_upper_def is_ascii_lower_def is_layout_def code_of_def)
  have c: "\<not> is_ident_start c" "c \<noteq> CHR 0x22" "c \<noteq> CHR ''$''" "\<not> is_layout c"
    using digit dg [of c] f by auto
  have n: "scan_number (c # (t @ sp # r)) = s" using number_stop [of s r] assms(2) s by simp
  have "lex_token E (c # (t @ sp # r)) = Some (NumberLiteral (ce_round E (number_value s)), length s)"
    unfolding lex_token_def using c n assms(1) by (simp only: list.case simp_thms if_False if_True n)
  moreover have "\<not> (c = CHR ''-'' \<and> take 1 (t @ sp # r) = ''-'')"
  proof
    assume m: "c = CHR ''-'' \<and> take 1 (t @ sp # r) = ''-''"
    then have "digits_of t \<noteq> []" using digit f(3) by auto
    then obtain x u where "t = x # u" "is_ascii_digit x" by (cases t) (auto simp: digits_of_def split: if_splits)
    with m dg [of x] show False by simp
  qed
  ultimately show ?thesis using c s by simp
qed

lemma ident_first:
  assumes "is_ident w"
  shows "\<not> is_layout (hd w) \<and> hd w \<noteq> CHR ''-''"
  using assms
  by (auto simp: is_ident_def is_ident_start_def is_ascii_upper_def is_ascii_lower_def is_layout_def code_of_def)

text \<open>A printed token before a space is lexed as itself, and is not skipped.\<close>

lemma lex_printed:
  assumes "wf_token t" and "prints E t s"
  shows "s \<noteq> [] \<and> lex_token E (s @ sp # r) = Some (t, length s) \<and> skip_layout (s @ sp # r) = s @ sp # r"
proof -
  have start: "skip_layout (s @ sp # r) = s @ sp # r"
    if "s \<noteq> []" "\<not> is_layout (hd s)" "\<not> (hd s = CHR ''-'' \<and> take 1 (tl s @ sp # r) = ''-'')"
    using that by (subst skip_layout.simps) (cases s, auto)
  show ?thesis
  proof (cases t)
    case (Kw k)
    then have k: "is_ident k" "to_ascii_uppercase k = k" "s = k" "k \<in> set KEYWORDS"
      using assms keyword_shapes by (auto simp: list_all_iff keyword_shape_def)
    then show ?thesis using start lex_token_ident [of k E r] lex_word_ident [of k r] keyword_no_section [of k]
        ident_first [of k] Kw by (simp add: is_ident_def)
  next
    case (Ident w)
    then have w: "is_ident w" "s = w" "to_ascii_uppercase w \<notin> set KEYWORDS" "to_ascii_uppercase w \<notin> set SECTION_KEYWORDS"
      using assms by simp_all
    then show ?thesis using start lex_token_ident [of w E r] lex_word_ident [of w r] ident_first [of w] Ident
      by (simp add: is_ident_def)
  next
    case (Sym k)
    then have k: "k \<in> set SYMBOLS" "s = k" using assms by simp_all
    have "symbol_shape k" using symbol_shapes k(1) by (simp only: list_all_iff)
    then have "k \<noteq> []" "\<not> is_layout (hd k)" "hd k = CHR ''-'' \<longrightarrow> k = ''->''"
      by (auto simp: symbol_shape_def)
    then show ?thesis using start lex_sym [OF k(1), of E r] k(2) Sym by auto
  next
    case (HashLiteral h)
    have "\<not> is_layout (CHR ''s'')" by code_simp
    then show ?thesis using assms HashLiteral start lex_hash [of h E r] by simp
  next
    case (Parameter n)
    have f: "\<not> is_layout (CHR ''$'')" "\<not> is_ident_start (CHR ''$'')" by code_simp+
    have n: "is_ident n" "s = CHR ''$'' # n" using assms Parameter by simp_all
    then have "lex_token E (s @ sp # r) = Some (Parameter n, length s)"
      using f ident_word [OF n(1), of r] ident_start [OF n(1)] by (simp add: lex_token_def Let_def)
    then show ?thesis using start n f Parameter by simp
  next
    case (StringLiteral v)
    have f: "\<not> is_layout (CHR 0x22)" "\<not> is_ident_start (CHR 0x22)" by code_simp+
    have s: "s = CHR 0x22 # (escape v @ [CHR 0x22])" using assms StringLiteral by simp
    have "lex_string (s @ sp # r) = (StringLiteral v, length s)"
      using scan_escape [of v "sp # r"] by (simp add: s lex_string_def)
    then have "lex_token E (s @ sp # r) = Some (StringLiteral v, length s)"
      using f by (simp add: s lex_token_def)
    then show ?thesis using start s f StringLiteral by simp
  next
    case (NumberLiteral x)
    then show ?thesis using assms lex_number [of s E r] start by auto
  qed (use assms in simp_all)
qed

definition unlex :: "string list \<Rightarrow> string" where
  "unlex ss = concat (map (\<lambda>s. s @ '' '') ss)"

lemma layout_cons: "skip_layout (sp # r) = skip_layout r"
  by (subst skip_layout.simps) (simp add: sp_facts)

text \<open>The same input behind one space gives the same tokens and texts.\<close>

definition lexed :: "cal_error + stoken list \<Rightarrow> token list \<Rightarrow> string list \<Rightarrow> bool" where
  "lexed r ts ss \<longleftrightarrow> (\<exists>us. r = Inr us \<and> map st_token us = ts \<and> map st_text us = ss)"

lemma unlex_tokens:
  assumes "list_all2 (\<lambda>t s. wf_token t \<and> prints E t s) ts ss"
  shows "lexed (tokenize_from E p (sp # unlex ss)) ts ss"
  using assms
proof (induction ts ss arbitrary: p rule: list_all2_induct)
  case Nil
  then show ?case
    by (simp add: lexed_def unlex_def tokenize_from.simps [of E p] layout_cons) (simp add: skip_layout.simps)
next
  case (Cons t ts s ss)
  let ?r = "unlex ss"
  have l: "s \<noteq> []" "lex_token E (s @ sp # ?r) = Some (t, length s)" "skip_layout (s @ sp # ?r) = s @ sp # ?r"
    using lex_printed [of t E s ?r] Cons.hyps(1) by auto
  have u: "unlex (s # ss) = s @ sp # ?r" by (simp add: unlex_def)
  have t: "t \<noteq> UnterminatedString" using Cons.hyps(1) by auto
  from Cons.IH obtain us where "tokenize_from E q (sp # ?r) = Inr (us q) \<and> map st_token (us q) = ts \<and> map st_text (us q) = ss" for q
    unfolding lexed_def by metis
  then show ?case
    using l t by (simp add: lexed_def u tokenize_from.simps [of E p] layout_cons Let_def)
qed

text \<open>
  Printing a list of tokens of the enum, sections apart, each before a space, and lexing the
  text gives the tokens back, with the printed pieces as their texts; strings are escaped,
  and any text of a number that the number rule consumes whole will do.
\<close>

theorem lex_print_roundtrip:
  assumes "list_all2 (\<lambda>t s. wf_token t \<and> prints E t s) ts ss"
    and "check_bidi input = Inr ()" and "ce_nfc E input = sp # unlex ss"
  shows "\<exists>us. cal_tokenize E input = Inr us \<and> map st_token us = ts \<and> map st_text us = ss"
  using unlex_tokens [OF assms(1), of "(1, 0, 0)"] assms(2,3)
  by (simp add: lexed_def cal_tokenize_def lexer_new_def)

definition cal_env0 :: cal_env where
  "cal_env0 = \<lparr>ce_nfc = map char_of, ce_round = Finite, ce_err_len = (\<lambda>_. 1),
     ce_show = (\<lambda>_. ''1''), ce_parse = (\<lambda>_. None),
     ce_debug = (\<lambda>_. ''token'')\<rparr>"

definition utext_of :: "string \<Rightarrow> utext" where
  "utext_of s = map of_char s"

lemma utext_of_nfc [simp]: "ce_nfc cal_env0 (utext_of s) = s"
  by (simp add: cal_env0_def utext_of_def comp_def)

lemma utext_of_bidi [simp]: "check_bidi (utext_of s) = Inr ()"
proof -
  have "check_bidi_from off (utext_of s) = Inr ()" for off
  proof (induction s arbitrary: off)
    case (Cons c s)
    have "(of_char c :: nat) < 256" by simp
    then have "\<not> is_bidi (of_char c)" unfolding is_bidi_def by linarith
    then show ?case using Cons by (simp add: utext_of_def)
  qed (simp add: utext_of_def)
  then show ?thesis by (simp add: check_bidi_def)
qed

lemma lex_print_roundtrip_witness:
  "\<exists>us. cal_tokenize cal_env0 (utext_of (sp # unlex [''RECALL'', ''facts'', ''='', ''-1.5''])) = Inr us
     \<and> map st_token us = [Kw ''RECALL'', Ident ''facts'', Sym ''='', NumberLiteral (Finite (- 3 / 2))]
     \<and> map st_text us = [''RECALL'', ''facts'', ''='', ''-1.5'']"
proof (rule lex_print_roundtrip)
  have n: "scan_number ''-1.5'' = ''-1.5''" "number_value ''-1.5'' = - 3 / 2" by code_simp+
  have "wf_token (Kw ''RECALL'')" "wf_token (Ident ''facts'')" "wf_token (Sym ''='')" by code_simp+
  then show "list_all2 (\<lambda>t s. wf_token t \<and> prints cal_env0 t s)
      [Kw ''RECALL'', Ident ''facts'', Sym ''='', NumberLiteral (Finite (- 3 / 2))] [''RECALL'', ''facts'', ''='', ''-1.5'']"
    by (simp add: n cal_env0_def)
qed simp_all

end
