(* ===== verification/Cal_Ast.thy ===== *)
theory Cal_Ast
  imports Cal_Lexer Grain_Registry
begin

text \<open>
  The syntax trees of CAL (\<^verbatim>\<open>dejadb-cal/src/ast.rs\<close>): values, conditions, pipeline stages,
  options and formats, and the statements.
\<close>

section \<open>Values and conditions\<close>

datatype cval =
    CvString string
  | CvNumber f64
  | CvBoolean bool
  | CvArray "cval list"
  | CvHash string
  | CvParameter string

fun type_name :: "cval \<Rightarrow> string" where
  "type_name (CvString _) = ''string''"
| "type_name (CvNumber _) = ''number''"
| "type_name (CvBoolean _) = ''boolean''"
| "type_name (CvArray _) = ''array''"
| "type_name (CvHash _) = ''hash''"
| "type_name (CvParameter _) = ''parameter''"

datatype comparator = CmpEq | CmpNotEq | CmpGte | CmpLte | CmpGt | CmpLt

fun comparator_str :: "comparator \<Rightarrow> string" where
  "comparator_str CmpEq = ''=''"
| "comparator_str CmpNotEq = ''!=''"
| "comparator_str CmpGte = ''>=''"
| "comparator_str CmpLte = ''<=''"
| "comparator_str CmpGt = ''>''"
| "comparator_str CmpLt = ''<''"

datatype condition =
    Comparison string comparator cval "span option"
  | CondIn string "cval list" "span option"
  | CondNotIn string "cval list" "span option"
  | CondIsNull string "span option"
  | CondIsNotNull string "span option"
  | CondContains string string "span option"
  | CondStartsWith string string "span option"
  | CondAnd condition condition "span option"
  | CondOr condition condition "span option"
  | CondNot condition "span option"
  | CondIsCategory string string "span option"

record where_clause =
  wh_condition :: condition
  wh_span :: "span option"

section \<open>Grain types\<close>

datatype gplural =
    Facts | Events | States | Workflows | Tools | Observations | Goals | Reasonings | Consensuses
  | Consents | Skills | Recommendations | AllGrains

definition PLURAL_NAMES :: "(string list \<times> gplural) list" where
  "PLURAL_NAMES =
     [([''facts'', ''fact''], Facts), ([''events'', ''event''], Events), ([''states'', ''state''], States),
      ([''workflows'', ''workflow''], Workflows), ([''tools'', ''tool''], Tools),
      ([''observations'', ''observation''], Observations), ([''goals'', ''goal''], Goals),
      ([''reasonings'', ''reasoning''], Reasonings), ([''consensuses'', ''consensus''], Consensuses),
      ([''consents'', ''consent''], Consents), ([''skills'', ''skill''], Skills),
      ([''recommendations'', ''recommendation''], Recommendations), ([''*'', ''grains'', ''all''], AllGrains)]"

definition plural_parse :: "string \<Rightarrow> gplural option" where
  "plural_parse s = map_option snd (find (\<lambda>(ns, _). map ascii_lower_char s \<in> set ns) PLURAL_NAMES)"

fun plural_str :: "gplural \<Rightarrow> string" where
  "plural_str Facts = ''facts''"
| "plural_str Events = ''events''"
| "plural_str States = ''states''"
| "plural_str Workflows = ''workflows''"
| "plural_str Tools = ''tools''"
| "plural_str Observations = ''observations''"
| "plural_str Goals = ''goals''"
| "plural_str Reasonings = ''reasonings''"
| "plural_str Consensuses = ''consensuses''"
| "plural_str Consents = ''consents''"
| "plural_str Skills = ''skills''"
| "plural_str Recommendations = ''recommendations''"
| "plural_str AllGrains = ''*''"

datatype gsingular =
    SgFact | SgEvent | SgState | SgWorkflow | SgTool | SgObservation | SgGoal | SgReasoning
  | SgConsensus | SgConsent | SgSkill | SgRecommendation

fun singular_str :: "gsingular \<Rightarrow> string" where
  "singular_str SgFact = ''fact''"
| "singular_str SgEvent = ''event''"
| "singular_str SgState = ''state''"
| "singular_str SgWorkflow = ''workflow''"
| "singular_str SgTool = ''tool''"
| "singular_str SgObservation = ''observation''"
| "singular_str SgGoal = ''goal''"
| "singular_str SgReasoning = ''reasoning''"
| "singular_str SgConsensus = ''consensus''"
| "singular_str SgConsent = ''consent''"
| "singular_str SgSkill = ''skill''"
| "singular_str SgRecommendation = ''recommendation''"

definition ALL_SINGULARS :: "gsingular list" where
  "ALL_SINGULARS = [SgFact, SgEvent, SgState, SgWorkflow, SgTool, SgObservation, SgGoal, SgReasoning,
     SgConsensus, SgConsent, SgSkill, SgRecommendation]"

definition singular_parse :: "string \<Rightarrow> gsingular option" where
  "singular_parse s = find (\<lambda>g. singular_str g = map ascii_lower_char s) ALL_SINGULARS"

fun to_plural :: "gsingular \<Rightarrow> gplural" where
  "to_plural SgFact = Facts"
| "to_plural SgEvent = Events"
| "to_plural SgState = States"
| "to_plural SgWorkflow = Workflows"
| "to_plural SgTool = Tools"
| "to_plural SgObservation = Observations"
| "to_plural SgGoal = Goals"
| "to_plural SgReasoning = Reasonings"
| "to_plural SgConsensus = Consensuses"
| "to_plural SgConsent = Consents"
| "to_plural SgSkill = Skills"
| "to_plural SgRecommendation = Recommendations"

section \<open>Pipeline, options, formats\<close>

record project_field =
  pf_field :: string
  pf_alias :: "string option"

datatype pipeline_stage =
    StSelect "string list" "span option"
  | StOrderBy string bool "span option"
  | StLimit nat "span option"
  | StOffset nat "span option"
  | StCount "span option"
  | StFirst "span option"
  | StSubjects "span option"
  | StObjects "span option"
  | StHashes "span option"
  | StGroupBy string "span option"
  | StProject "project_field list" "span option"
  | StFilter condition "span option"

datatype with_option =
    WoSuperseded | WoScoreBreakdown | WoExplanation | WoProvenance | WoContradictionDetection
  | WoDiversity "f64 option"
  | WoDedup "string option"
  | WoProgressiveDisclosure "string option"
  | WoConsistency "string option"
  | WoLocale string
  | WoCache nat
  | WoRerank "string option"
  | WoLlmRerank "string option"
  | WoQueryExpansion | WoQueryDecompose | WoHyde | WoConflictResolution | WoIncludeSources
  | WoAnnotateRelativeTime
  | WoRecencyWeight f64
  | WoMinScore f64
  | WoMultiHop nat
  | WoSessionAffinity f64
  | WoSubjectAffinity f64
  | WoSessionCoverage nat
  | WoMaxNamespaces nat
  | WoExhaustive "nat option"
  | WoSessionCensus "nat option" "f64 option"
  | WoAggregationIntent | WoPreferenceEnrichment

datatype add_with_option = AwExtractEventDate | AwAutoRelate | AwExtractMemories | AwSync | AwOccurrence

record template_sections =
  ts_header :: "string option"
  ts_element :: "string option"
  ts_element_summary :: "string option"
  ts_element_omit :: "string option"
  ts_source_break :: "string option"
  ts_footer :: "string option"

definition sections_empty :: "template_sections \<Rightarrow> bool" where
  "sections_empty t = (ts_header t = None \<and> ts_element t = None \<and> ts_element_summary t = None
     \<and> ts_element_omit t = None \<and> ts_source_break t = None \<and> ts_footer t = None)"

definition section_source :: "string \<Rightarrow> string option \<Rightarrow> string" where
  "section_source kw b =
     (case b of None \<Rightarrow> [] | Some body \<Rightarrow> kw @ '' {'' @ [newline] @ body @ [newline] @ ''}'' @ [newline])"

definition sections_source :: "template_sections \<Rightarrow> string" where
  "sections_source t =
     section_source ''HEADER'' (ts_header t) @ section_source ''ELEMENT'' (ts_element t)
     @ section_source ''ELEMENT_SUMMARY'' (ts_element_summary t)
     @ section_source ''ELEMENT_OMIT'' (ts_element_omit t)
     @ section_source ''SOURCE_BREAK'' (ts_source_break t) @ section_source ''FOOTER'' (ts_footer t)"

datatype format_spec =
    FsSml | FsToon | FsMarkdown | FsJson | FsYaml | FsText | FsTriples | FsCsv | FsTable
  | FsPreset string
  | FsTemplate string
  | FsTemplateRef string
  | FsTemplateInline template_sections

fun canonical_key :: "format_spec \<Rightarrow> string" where
  "canonical_key FsJson = ''json''"
| "canonical_key FsMarkdown = ''markdown''"
| "canonical_key FsYaml = ''yaml''"
| "canonical_key FsText = ''text''"
| "canonical_key FsSml = ''sml''"
| "canonical_key FsToon = ''toon''"
| "canonical_key FsTriples = ''triples''"
| "canonical_key FsCsv = ''csv''"
| "canonical_key FsTable = ''table''"
| "canonical_key (FsPreset n) = n"
| "canonical_key (FsTemplateRef n) = n"
| "canonical_key (FsTemplate _) = ''template''"
| "canonical_key (FsTemplateInline _) = ''template''"

record aliased_format =
  af_spec :: format_spec
  af_alias :: "string option"

datatype format_clause = FmtSingle format_spec | FmtMulti "aliased_format list"


section \<open>Clauses\<close>

record about_clause =
  ab_text :: string
  ab_span :: "span option"

record like_clause =
  lk_text :: string
  lk_span :: "span option"

record since_clause =
  si_expression :: string
  si_span :: "span option"

record until_clause =
  un_expression :: string
  un_span :: "span option"

record between_clause =
  bw_start :: string
  bw_end :: string
  bw_span :: "span option"

record recent_clause =
  rn_count :: nat
  rn_span :: "span option"

datatype budget_unit = BuTokens | BuGrains

record budget_spec =
  bg_tokens :: nat
  bg_unit :: budget_unit
  bg_span :: "span option"

record priority_spec =
  pr_label :: string
  pr_weight :: f64
  pr_span :: "span option"

record assemble_with =
  aw_dedup :: "string option"

record field_assignment =
  fa_field :: string
  fa_value :: cval
  fa_span :: "span option"

record graph_edge =
  ge_src :: string
  ge_dst :: string
  ge_cond :: "string option"
  ge_repeat :: "nat option"

record bind_clause =
  bc_node :: string
  bc_hash :: string

record delta_op =
  dl_field :: string
  dl_delta :: f64
  dl_span :: "span option"

record query_param =
  qp_name :: string
  qp_default :: "cval option"

section \<open>Statements without sub-statements\<close>

record exists_stmt =
  ex_grain_type :: gplural
  ex_where :: "where_clause option"
  ex_about :: "about_clause option"
  ex_span :: "span option"

record history_stmt =
  hy_hash :: string
  hy_where :: "where_clause option"
  hy_diff :: "string option"
  hy_span :: "span option"

datatype describe_target =
    DtGrainType gplural | DtSchema | DtCapabilities | DtServer | DtFields "gplural option"
  | DtTemplates | DtGrammar | DtQueries | DtQuery string | DtPrincipal string | DtLoop | DtAnalyzers
  | DtOutcomes | DtLoopPolicy | DtStats | DtIntegrity

record describe_stmt =
  ds_target :: describe_target
  ds_span :: "span option"

record add_stmt =
  ad_grain_type :: gsingular
  ad_fields :: "field_assignment list"
  ad_reason :: string
  ad_with :: "add_with_option list"
  ad_span :: "span option"

record add_workflow_stmt =
  ak_name :: string
  ak_trigger :: "string option"
  ak_nodes :: "string list"
  ak_edges :: "graph_edge list"
  ak_bindings :: "bind_clause list"
  ak_reason :: string
  ak_with :: "add_with_option list"
  ak_span :: "span option"

record supersede_workflow_stmt =
  sk_hash :: string
  sk_trigger :: "string option"
  sk_nodes :: "string list"
  sk_edges :: "graph_edge list"
  sk_bindings :: "bind_clause list"
  sk_reason :: string
  sk_span :: "span option"

record supersede_stmt =
  su_hash :: string
  su_set :: "field_assignment list"
  su_reason :: string
  su_span :: "span option"

datatype accumulate_target =
    TipResolved string string "string option"
  | TargetHash string

record accumulate_stmt =
  ac_grain_type :: gsingular
  ac_target :: accumulate_target
  ac_add_ops :: "delta_op list"
  ac_set_ops :: "field_assignment list"
  ac_reason :: string
  ac_span :: "span option"

record revert_stmt =
  rv_hash :: string
  rv_reason :: string
  rv_span :: "span option"

datatype forget_target = FgHash string | FgUser string | FgScope string

record forget_stmt =
  fg_target :: forget_target
  fg_reason :: "string option"
  fg_text_mentions :: bool
  fg_span :: "span option"

record purge_stmt =
  pg_min_age_days :: "f64 option"
  pg_namespace :: "string option"
  pg_limit :: "nat option"
  pg_grain_type :: "string option"
  pg_reason :: "string option"
  pg_span :: "span option"

record report_subject_stmt =
  rj_subject_id :: string
  rj_text_mentions :: bool
  rj_span :: "span option"

record entity_at_stmt =
  ea_subject :: string
  ea_relation :: string
  ea_at_ms :: int
  ea_axis :: "string option"
  ea_span :: "span option"

record run_trace_stmt =
  rt_run_id :: string
  rt_limit :: "nat option"
  rt_span :: "span option"

record runs_touching_stmt =
  ru_hash :: string
  ru_depth :: "nat option"
  ru_span :: "span option"

record derived_from_stmt =
  df_hash :: string
  df_span :: "span option"

record merge_stmt =
  mr_subject :: string
  mr_relation :: string
  mr_object :: string
  mr_confidence :: "f64 option"
  mr_reason :: string
  mr_span :: "span option"

record related_stmt =
  rl_start :: string
  rl_relations :: string
  rl_direction :: "string option"
  rl_depth :: "nat option"
  rl_limit :: "nat option"
  rl_span :: "span option"

record novelty_stmt =
  nv_text :: string
  nv_subject :: "string option"
  nv_relation :: "string option"
  nv_limit :: "nat option"
  nv_span :: "span option"

record show_forks_stmt =
  sf_span :: "span option"

record remember_stmt =
  rm_content :: string
  rm_session_id :: "string option"
  rm_role :: "string option"
  rm_run_id :: "string option"
  rm_span :: "span option"

record governance_stmt =
  gv_hash :: string
  gv_reason :: string
  gv_span :: "span option"

record run_loop_stmt =
  rp_full_sweep :: bool
  rp_min_new :: "nat option"
  rp_if_stale_ms :: "int option"
  rp_span :: "span option"

text \<open>\<^verbatim>\<open>GrantStmt\<close> and \<^verbatim>\<open>RevokeStmt\<close> have the same fields.\<close>

record dcl_stmt =
  dc_verbs :: "string list"
  dc_namespaces :: "string list"
  dc_principal :: string
  dc_reason :: "string option"
  dc_span :: "span option"

record show_grants_stmt =
  sg_principal :: "string option"
  sg_span :: "span option"

record define_template_stmt =
  dt_name :: string
  dt_description :: "string option"
  dt_parent :: "string option"
  dt_grain_types :: "string list"
  dt_source :: string
  dt_sections :: "template_sections option"
  dt_span :: "span option"

record drop_stmt =
  dp_name :: string
  dp_span :: "span option"

record define_query_stmt =
  dq_name :: string
  dq_description :: "string option"
  dq_params :: "query_param list"
  dq_body :: utext
  dq_span :: "span option"

record run_query_stmt =
  rq_name :: string
  rq_bindings :: "(string \<times> cval) list"
  rq_span :: "span option"

section \<open>Statements with sub-statements\<close>

text \<open>
  The structs that hold statements are parametric in the statement type, which the enum
  closes: \<^verbatim>\<open>CONTRADICTIONS OF (...)\<close> puts one inside a \<^verbatim>\<open>RECALL\<close>.
\<close>

datatype 's contradictions_clause =
  ContradictionsClause (cc_inner: "'s option") (cc_span: "span option")

datatype 's recall_stmt =
  RecallStmt (rs_grain_type: gplural) (rs_about: "about_clause option")
    (rs_where: "where_clause option") (rs_recent: "recent_clause option")
    (rs_since: "since_clause option") (rs_until: "until_clause option")
    (rs_like: "like_clause option") (rs_between: "between_clause option")
    (rs_contradictions: "'s contradictions_clause option") (rs_limit: "nat option")
    (rs_as_format: "format_clause option") (rs_span: "span option")

datatype set_op = SoUnion | SoIntersect | SoExcept

datatype 's named_source =
  NamedSource (ns_label: string) (ns_query: 's) (ns_with: "with_option list") (ns_span: "span option")

datatype 's asm_source =
    SrcQuery "'s recall_stmt"
  | SrcParameter string
  | SrcHashes "string list"

datatype 's assemble_stmt =
  AssembleStmt (as_topic: string) (as_from: "'s asm_source") (as_where: "where_clause option")
    (as_context_name: "string option") (as_sources: "'s named_source list option")
    (as_budget: "budget_spec option") (as_priority: "priority_spec list option")
    (as_format: "format_clause option") (as_for_whom: "string option")
    (as_assemble_with: "assemble_with list") (as_with_options: "with_option list")
    (as_streaming: bool) (as_span: "span option")

datatype 's batch_entry =
  BatchEntry (be_statement: 's) (be_pipeline: "pipeline_stage list") (be_with: "with_option list")
    (be_format: "format_clause option") (be_user_vars: "(string \<times> string) list")

datatype 's batch_stmt =
  BatchStmt (bs_statements: "'s batch_entry list") (bs_labeled: "(string \<times> 's batch_entry) list option")
    (bs_span: "span option")

datatype 's coalesce_branch = CoalesceBranch (cb_query: 's) (cb_span: "span option")

datatype 's coalesce_stmt =
  CoalesceStmt (cs_grain_type: gplural) (cs_where: "where_clause option")
    (cs_branches: "'s coalesce_branch list") (cs_else: "'s option") (cs_span: "span option")

datatype (plugins only: size code) statement =
    SRecall "statement recall_stmt"
  | SSetOp set_op "statement list" "span option"
  | SExists exists_stmt
  | SAssemble "statement assemble_stmt"
  | SHistory history_stmt
  | SExplain statement "span option"
  | SDescribe describe_stmt
  | SBatch "statement batch_stmt"
  | SCoalesce "statement coalesce_stmt"
  | SAdd add_stmt
  | SAddWorkflow add_workflow_stmt
  | SSupersede supersede_stmt
  | SSupersedeWorkflow supersede_workflow_stmt
  | SAccumulate accumulate_stmt
  | SRevert revert_stmt
  | SReportSubject report_subject_stmt
  | SForget forget_stmt
  | SPurge purge_stmt
  | SGrant dcl_stmt
  | SRevoke dcl_stmt
  | SShowGrants show_grants_stmt
  | SApprove governance_stmt
  | SReject governance_stmt
  | SApplyRec governance_stmt
  | SRollbackRec governance_stmt
  | SRunLoop run_loop_stmt
  | SRemember remember_stmt
  | SEntityAt entity_at_stmt
  | SRunTrace run_trace_stmt
  | SRunsTouching runs_touching_stmt
  | SDerivedFrom derived_from_stmt
  | SShowForks show_forks_stmt
  | SMerge merge_stmt
  | SRelated related_stmt
  | SNovelty novelty_stmt
  | SDefineTemplate define_template_stmt
  | SDropTemplate drop_stmt
  | SDefineQuery define_query_stmt
  | SDropQuery drop_stmt
  | SRunQuery run_query_stmt

datatype extractor = ExSubjects | ExObjects | ExHashes

record let_binding =
  lb_name :: string
  lb_extractor :: extractor
  lb_source :: statement
  lb_span :: "span option"

record cal_query =
  cq_version :: nat
  cq_statement :: statement
  cq_pipeline :: "pipeline_stage list"
  cq_with :: "with_option list"
  cq_format :: "format_clause option"
  cq_let :: "let_binding list"
  cq_user_vars :: "(string \<times> string) list"
  cq_let_values :: "(string \<times> string list) list"
  cq_warnings :: "cal_warning list"

end
