(* ===== verification/Cal_Parse.thy ===== *)
theory Cal_Parse
  imports Cal_Ast
begin

text \<open>
  The machinery of the CAL parser (\<^verbatim>\<open>dejadb-cal/src/parser.rs\<close>): its state, the steps that
  read and consume tokens, the nesting guard, loops, and the logic that shows that every
  parser stays inside the query, restores the nesting depth and comes to an end.

  A parser takes the environment and the state of the parser and returns an error or a value
  with the new state. The \<^verbatim>\<open>?\<close> operator is \<open>seq\<close>, a \<^verbatim>\<open>return Err(e)\<close> is \<open>raise\<close>, \<open>ask\<close> reads
  the state, and \<open>on_peek\<close> and \<open>if_tok\<close> branch on the current token. A \<^verbatim>\<open>while\<close> or \<^verbatim>\<open>loop\<close> is
  \<open>repeat\<close>: its body answers \<open>Inl\<close> to go on and \<open>Inr\<close> to stop. It is unrolled as often as
  tokens are left, and once more; a loop that does not consume tokens would end in
  \<open>CeStuck\<close>, which is no error of the code and is shown never to occur.
\<close>

section \<open>State and steps\<close>

record parser =
  ps_tokens :: "stoken list"
  ps_pos :: nat
  ps_warnings :: "cal_warning list"
  ps_nesting :: nat
  ps_input :: utext

definition parser_new :: "stoken list \<Rightarrow> utext \<Rightarrow> parser" where
  "parser_new ts input =
     \<lparr>ps_tokens = ts, ps_pos = 0, ps_warnings = [], ps_nesting = 0, ps_input = input\<rparr>"

type_synonym 'a parse = "cal_env \<Rightarrow> parser \<Rightarrow> cal_error + 'a \<times> parser"

definition ret :: "'a \<Rightarrow> 'a parse" where
  "ret x = (\<lambda>E p. Inr (x, p))"

definition raise :: "cal_error \<Rightarrow> 'a parse" where
  "raise e = (\<lambda>E p. Inl e)"

definition seq :: "'a parse \<Rightarrow> ('a \<Rightarrow> 'b parse) \<Rightarrow> 'b parse" where
  "seq m f = (\<lambda>E p. case m E p of Inl e \<Rightarrow> Inl e | Inr (x, q) \<Rightarrow> f x E q)"

definition ask :: "(parser \<Rightarrow> 'a) \<Rightarrow> ('a \<Rightarrow> 'b parse) \<Rightarrow> 'b parse" where
  "ask g f = (\<lambda>E p. f (g p) E p)"

definition ask_env :: "(cal_env \<Rightarrow> 'a parse) \<Rightarrow> 'a parse" where
  "ask_env f = (\<lambda>E p. f E E p)"

section \<open>The cursor\<close>

definition peek_ahead :: "nat \<Rightarrow> parser \<Rightarrow> stoken option" where
  "peek_ahead n p = (let i = ps_pos p + n in if i < length (ps_tokens p) then Some (ps_tokens p ! i) else None)"

definition peek :: "parser \<Rightarrow> stoken option" where
  "peek p = peek_ahead 0 p"

definition peek_token :: "nat \<Rightarrow> parser \<Rightarrow> token option" where
  "peek_token n p = map_option st_token (peek_ahead n p)"

definition at_end :: "parser \<Rightarrow> bool" where
  "at_end p = (length (ps_tokens p) \<le> ps_pos p)"

definition advance :: "stoken option parse" where
  "advance = (\<lambda>E p.
     if ps_pos p < length (ps_tokens p)
     then Inr (Some (ps_tokens p ! ps_pos p), p\<lparr>ps_pos := ps_pos p + 1\<rparr>)
     else Inr (None, p))"

definition current_span :: "parser \<Rightarrow> span" where
  "current_span p = (case peek p of Some st \<Rightarrow> st_span st | None \<Rightarrow> span_zero)"

definition prev_span :: "parser \<Rightarrow> span" where
  "prev_span p =
     (if ps_pos p = 0 then span_zero
      else if ps_pos p - 1 < length (ps_tokens p) then st_span (ps_tokens p ! (ps_pos p - 1))
      else span_zero)"

text \<open>The span of a node, from its first token to the last one consumed.\<close>

definition span_to :: "span \<Rightarrow> span \<Rightarrow> span" where
  "span_to s e = mk_span (sp_start s) (sp_end e) (sp_line s) (sp_col s)"

definition since_span :: "span \<Rightarrow> (span option \<Rightarrow> 'a) \<Rightarrow> 'a parse" where
  "since_span s k = ask prev_span (\<lambda>e. ret (k (Some (span_to s e))))"

definition on_peek :: "(stoken option \<Rightarrow> 'a parse) \<Rightarrow> 'a parse" where
  "on_peek f = (\<lambda>E p. f (peek p) E p)"

definition if_tok :: "(token \<Rightarrow> bool) \<Rightarrow> 'a parse \<Rightarrow> 'a parse \<Rightarrow> 'a parse" where
  "if_tok P m n = (\<lambda>E p. (case peek p of Some st \<Rightarrow> if P (st_token st) then m else n | None \<Rightarrow> n) E p)"

abbreviation if_at :: "token \<Rightarrow> 'a parse \<Rightarrow> 'a parse \<Rightarrow> 'a parse" where
  "if_at t \<equiv> if_tok (\<lambda>x. x = t)"

text \<open>Consuming the token when it is there, and the branches that follow \<^verbatim>\<open>eat_exact\<close>.\<close>

definition then_advance :: "'a parse \<Rightarrow> 'a parse" where
  "then_advance m = seq advance (\<lambda>_. m)"

definition if_eat :: "token \<Rightarrow> 'a parse \<Rightarrow> 'a parse \<Rightarrow> 'a parse" where
  "if_eat t m n = if_at t (then_advance m) n"

definition eat_exact :: "token \<Rightarrow> bool parse" where
  "eat_exact t = if_eat t (ret True) (ret False)"

definition warn :: "cal_warning \<Rightarrow> 'a parse \<Rightarrow> 'a parse" where
  "warn w m = (\<lambda>E p. m E (p\<lparr>ps_warnings := ps_warnings p @ [w]\<rparr>))"

section \<open>Errors\<close>

definition sq :: "string \<Rightarrow> string" where
  "sq s = [CHR 0x27] @ s @ [CHR 0x27]"

definition describe :: "cal_env \<Rightarrow> token \<Rightarrow> string" where
  "describe E t = token_description (ce_show E) t"

definition unexpected_at :: "string \<Rightarrow> stoken \<Rightarrow> string option \<Rightarrow> 'a parse" where
  "unexpected_at expected st hint = (\<lambda>E p.
     Inl (CeUnexpectedToken expected (describe E (st_token st)) (Some (st_span st)) hint))"

definition unexpected_end :: "string \<Rightarrow> 'a parse" where
  "unexpected_end expected = raise (CeUnexpectedToken expected ''<end of query>'' None None)"

text \<open>The current token is not the one expected; at the end of the query the message may differ.\<close>

definition no_match :: "string \<Rightarrow> string \<Rightarrow> string option \<Rightarrow> 'a parse" where
  "no_match expected at_the_end hint =
     on_peek (\<lambda>o'. case o' of Some st \<Rightarrow> unexpected_at expected st hint | None \<Rightarrow> unexpected_end at_the_end)"

text \<open>The form of the newer statements, with a suggestion in both cases.\<close>

definition not_found :: "string \<Rightarrow> string option \<Rightarrow> 'a parse" where
  "not_found expected hint =
     on_peek (\<lambda>o'. case o' of
        Some st \<Rightarrow> unexpected_at expected st hint
      | None \<Rightarrow> raise (CeUnexpectedToken expected ''end of input'' None hint))"

definition expect_exact :: "token \<Rightarrow> unit parse" where
  "expect_exact t =
     if_eat t (ret ()) (ask_env (\<lambda>E. no_match (describe E t) (describe E t) None))"

section \<open>Nesting\<close>

definition MAX_NESTING_DEPTH :: nat where "MAX_NESTING_DEPTH = 8"

definition enter_nesting :: "unit parse" where
  "enter_nesting = (\<lambda>E p.
     let d = ps_nesting p + 1 in
     if MAX_NESTING_DEPTH < d then Inl (CeNestingTooDeep d MAX_NESTING_DEPTH (Some (current_span p)))
     else Inr ((), p\<lparr>ps_nesting := d\<rparr>))"

definition leave_nesting :: "unit parse" where
  "leave_nesting = (\<lambda>E p. Inr ((), p\<lparr>ps_nesting := ps_nesting p - 1\<rparr>))"

definition nested :: "'a parse \<Rightarrow> 'a parse" where
  "nested m = seq enter_nesting (\<lambda>_. seq m (\<lambda>x. seq leave_nesting (\<lambda>_. ret x)))"

section \<open>Loops\<close>

definition remaining :: "parser \<Rightarrow> nat" where
  "remaining p = length (ps_tokens p) - ps_pos p"

primrec loop :: "nat \<Rightarrow> ('a \<Rightarrow> ('a + 'b) parse) \<Rightarrow> 'a \<Rightarrow> 'b parse" where
  "loop 0 body x = raise CeStuck"
| "loop (Suc n) body x = seq (body x) (\<lambda>r. case r of Inl y \<Rightarrow> loop n body y | Inr z \<Rightarrow> ret z)"

definition repeat :: "('a \<Rightarrow> ('a + 'b) parse) \<Rightarrow> 'a \<Rightarrow> 'b parse" where
  "repeat body x = (\<lambda>E p. loop (Suc (remaining p)) body x E p)"

text \<open>A recursion is unrolled in the same way.\<close>

definition fuelled :: "(nat \<Rightarrow> 'a parse) \<Rightarrow> 'a parse" where
  "fuelled f = (\<lambda>E p. f (Suc (remaining p)) E p)"

text \<open>One item, and more after each comma.\<close>

definition comma_list :: "'a parse \<Rightarrow> 'a list parse" where
  "comma_list item =
     repeat (\<lambda>xs. seq item (\<lambda>x. if_eat (Sym '','') (ret (Inl (xs @ [x]))) (ret (Inr (xs @ [x]))))) []"

definition optional :: "token \<Rightarrow> 'a parse \<Rightarrow> 'a option parse" where
  "optional t m = if_eat t (seq m (\<lambda>x. ret (Some x))) (ret None)"

section \<open>Progress\<close>

text \<open>
  \<open>safe n b m\<close>: started with at most \<open>n\<close> tokens left (and, if \<open>b\<close>, at least one), \<open>m\<close> never
  ends in \<open>CeStuck\<close>, and where it succeeds it leaves the tokens, the input and the nesting
  depth as they were, moves on inside the query and only adds warnings. \<open>strict\<close> parsers
  moreover consume a token; \<open>prog\<close> is for loop bodies, which consume one when they go on.
  Only the first token may start at byte 0.
\<close>

definition spans_apart :: "stoken list \<Rightarrow> bool" where
  "spans_apart ts = (\<forall>i. 0 < i \<and> i < length ts \<longrightarrow> 0 < sp_start (st_span (ts ! i)))"

definition ps_ok :: "parser \<Rightarrow> bool" where
  "ps_ok p = (ps_pos p \<le> length (ps_tokens p) \<and> ps_nesting p \<le> MAX_NESTING_DEPTH \<and> spans_apart (ps_tokens p))"

definition ps_step :: "parser \<Rightarrow> parser \<Rightarrow> bool" where
  "ps_step p q =
     (ps_tokens q = ps_tokens p \<and> ps_input q = ps_input p \<and> ps_nesting q = ps_nesting p
      \<and> ps_pos p \<le> ps_pos q \<and> ps_pos q \<le> length (ps_tokens p)
      \<and> (\<exists>ws. ps_warnings q = ps_warnings p @ ws))"

definition parses :: "nat \<Rightarrow> bool \<Rightarrow> ('a \<Rightarrow> bool) \<Rightarrow> 'a parse \<Rightarrow> bool" where
  "parses n b K m =
     (\<forall>E p. ps_ok p \<and> remaining p \<le> n \<and> (b \<longrightarrow> 0 < remaining p) \<longrightarrow>
        (case m E p of
           Inl e \<Rightarrow> e \<noteq> CeStuck
         | Inr (x, q) \<Rightarrow> ps_step p q \<and> (K x \<longrightarrow> remaining q < remaining p)))"

definition safe :: "nat \<Rightarrow> bool \<Rightarrow> 'a parse \<Rightarrow> bool" where
  "safe n b m = parses n b (\<lambda>_. False) m"

definition strict :: "nat \<Rightarrow> bool \<Rightarrow> 'a parse \<Rightarrow> bool" where
  "strict n b m = parses n b (\<lambda>_. True) m"

definition prog :: "nat \<Rightarrow> bool \<Rightarrow> ('a + 'b) parse \<Rightarrow> bool" where
  "prog n b m = parses n b isl m"


lemmas logic_defs = safe_def strict_def prog_def parses_def

lemma ps_step_refl [simp]: "ps_ok p \<Longrightarrow> ps_step p p"
  by (simp add: ps_step_def ps_ok_def)

lemma ps_step_trans: "ps_step p q \<Longrightarrow> ps_step q r \<Longrightarrow> ps_step p r"
  by (auto simp: ps_step_def)

lemma ps_step_ok: "ps_step p q \<Longrightarrow> ps_ok p \<Longrightarrow> ps_ok q"
  by (simp add: ps_step_def ps_ok_def)

lemma ps_step_remaining: "ps_step p q \<Longrightarrow> remaining q \<le> remaining p"
  by (simp add: ps_step_def remaining_def diff_le_mono2)

lemma parsesI:
  assumes "\<And>E p e. ps_ok p \<Longrightarrow> remaining p \<le> n \<Longrightarrow> b \<longrightarrow> 0 < remaining p \<Longrightarrow> m E p = Inl e \<Longrightarrow> e \<noteq> CeStuck"
    and "\<And>E p x q. ps_ok p \<Longrightarrow> remaining p \<le> n \<Longrightarrow> b \<longrightarrow> 0 < remaining p \<Longrightarrow> m E p = Inr (x, q)
      \<Longrightarrow> ps_step p q \<and> (K x \<longrightarrow> remaining q < remaining p)"
  shows "parses n b K m"
  unfolding parses_def using assms by (auto split: sum.split)

lemma parses_Inl:
  assumes "parses n b K m" and "ps_ok p" and "remaining p \<le> n" and "b \<longrightarrow> 0 < remaining p"
    and "m E p = Inl e"
  shows "e \<noteq> CeStuck"
  using assms(1) [unfolded parses_def, rule_format, of p E] assms(2-) by auto

lemma parses_Inr:
  assumes "parses n b K m" and "ps_ok p" and "remaining p \<le> n" and "b \<longrightarrow> 0 < remaining p"
    and "m E p = Inr (x, q)"
  shows "ps_step p q" and "K x \<Longrightarrow> remaining q < remaining p"
  using assms(1) [unfolded parses_def, rule_format, of p E] assms(2-) by auto

lemma parses_mono:
  assumes m: "parses n b K m" and "k \<le> n" and L: "\<And>x. L x \<Longrightarrow> K x" and "b \<Longrightarrow> c"
  shows "parses k c L m"
proof (rule parsesI)
  fix E p e assume "ps_ok p" "remaining p \<le> k" "c \<longrightarrow> 0 < remaining p" "m E p = Inl e"
  then show "e \<noteq> CeStuck" using assms(2,4) by (intro parses_Inl [OF m]) auto
next
  fix E p x q assume a: "ps_ok p" "remaining p \<le> k" "c \<longrightarrow> 0 < remaining p" "m E p = Inr (x, q)"
  then have n: "remaining p \<le> n" "b \<longrightarrow> 0 < remaining p" using assms(2,4) by auto
  show "ps_step p q \<and> (L x \<longrightarrow> remaining q < remaining p)"
    using parses_Inr [OF m a(1) n a(4)] L by blast
qed

text \<open>The rules, for the three forms at once.\<close>

lemma parses_seq:
  assumes m: "parses n b J m" and f: "\<And>x. J x \<Longrightarrow> parses (n - 1) False (\<lambda>_. False) (f x)"
    and g: "\<And>x. \<not> J x \<Longrightarrow> parses n False K (f x)"
  shows "parses n b K (seq m f)"
proof (rule parsesI)
  fix E p e assume a: "ps_ok p" "remaining p \<le> n" "b \<longrightarrow> 0 < remaining p" and e: "seq m f E p = Inl e"
  show "e \<noteq> CeStuck"
  proof (cases "m E p")
    case (Inl e')
    then show ?thesis using e parses_Inl [OF m a] by (simp add: seq_def)
  next
    case (Inr y)
    obtain x q where y: "y = (x, q)" by (cases y)
    note s = parses_Inr [OF m a Inr [unfolded y]]
    have q: "ps_ok q" "remaining q \<le> remaining p" using s(1) a(1) by (auto intro: ps_step_ok ps_step_remaining)
    have e': "f x E q = Inl e" using e Inr y by (simp add: seq_def)
    show ?thesis
      using parses_Inl [OF f _ _ _ e'] parses_Inl [OF g _ _ _ e'] s(2) q a(2) by (cases "J x") auto
  qed
next
  fix E p x' r assume a: "ps_ok p" "remaining p \<le> n" "b \<longrightarrow> 0 < remaining p" and r: "seq m f E p = Inr (x', r)"
  then obtain x q where q: "m E p = Inr (x, q)" and f': "f x E q = Inr (x', r)"
    by (auto simp: seq_def split: sum.splits)
  note s = parses_Inr [OF m a q]
  have o: "ps_ok q" "remaining q \<le> remaining p" using s(1) a(1) by (auto intro: ps_step_ok ps_step_remaining)
  show "ps_step p r \<and> (K x' \<longrightarrow> remaining r < remaining p)"
  proof (cases "J x")
    case True
    have n: "remaining q \<le> n - 1" using s(2) [OF True] a(2) by simp
    have "ps_step q r" using parses_Inr(1) [OF f [OF True] o(1) n _ f'] by simp
    then show ?thesis using s ps_step_remaining [of q r] True by (auto intro: ps_step_trans)
  next
    case False
    have n: "remaining q \<le> n" using o(2) a(2) by simp
    have "ps_step q r" "K x' \<Longrightarrow> remaining r < remaining q"
      using parses_Inr [OF g [OF False] o(1) n _ f'] by simp_all
    then show ?thesis using s(1) o(2) by (auto intro: ps_step_trans)
  qed
qed

lemma parses_advance: "parses n b (\<lambda>_. False) advance" "parses n True (\<lambda>_. True) advance"
  by (auto simp: parses_def advance_def ps_step_def ps_ok_def remaining_def split: sum.split)

lemma safe_advance [simp]: "safe n b advance"
  and strict_advance [simp]: "strict n True advance"
  using parses_advance by (simp_all add: safe_def strict_def)

lemma parses_on_peek:
  assumes "parses n b K (f None)" and "\<And>st. parses n True K (f (Some st))"
  shows "parses n b K (on_peek f)"
  using assms unfolding parses_def on_peek_def peek_def peek_ahead_def remaining_def Let_def by simp

lemma parses_if_tok:
  assumes "parses n True K m" and "parses n b K m'"
  shows "parses n b K (if_tok P m m')"
  using assms unfolding parses_def if_tok_def peek_def peek_ahead_def remaining_def Let_def by simp

lemma parses_ask: "(\<And>v. parses n b K (f v)) \<Longrightarrow> parses n b K (ask g f)"
  unfolding parses_def ask_def by simp

lemma parses_ask_ok: "(\<And>p. ps_ok p \<Longrightarrow> parses n b K (f (g p))) \<Longrightarrow> parses n b K (ask g f)"
  unfolding parses_def ask_def by simp

lemma parses_ask_env: "(\<And>E. parses n b K (f E)) \<Longrightarrow> parses n b K (ask_env f)"
  unfolding parses_def ask_env_def by simp

lemma parses_warn:
  assumes m: "parses n b K m" shows "parses n b K (warn w m)"
proof (rule parsesI)
  fix E p e assume "ps_ok p" "remaining p \<le> n" "b \<longrightarrow> 0 < remaining p" "warn w m E p = Inl e"
  then show "e \<noteq> CeStuck"
    by (intro parses_Inl [OF m, of "p\<lparr>ps_warnings := ps_warnings p @ [w]\<rparr>" E])
      (simp_all add: warn_def ps_ok_def remaining_def)
next
  fix E p x q assume a: "ps_ok p" "remaining p \<le> n" "b \<longrightarrow> 0 < remaining p" "warn w m E p = Inr (x, q)"
  let ?p = "p\<lparr>ps_warnings := ps_warnings p @ [w]\<rparr>"
  have o: "ps_ok ?p" "remaining ?p \<le> n" "b \<longrightarrow> 0 < remaining ?p" "m E ?p = Inr (x, q)"
    using a by (simp_all add: warn_def ps_ok_def remaining_def)
  show "ps_step p q \<and> (K x \<longrightarrow> remaining q < remaining p)"
    using parses_Inr [OF m o] by (auto simp: ps_step_def remaining_def)
qed

lemma parses_nested:
  assumes m: "parses n b K m" shows "parses n b K (nested m)"
proof (rule parsesI)
  fix E p e assume a: "ps_ok p" "remaining p \<le> n" "b \<longrightarrow> 0 < remaining p" and e: "nested m E p = Inl e"
  let ?q = "p\<lparr>ps_nesting := Suc (ps_nesting p)\<rparr>"
  show "e \<noteq> CeStuck"
  proof (cases "MAX_NESTING_DEPTH < Suc (ps_nesting p)")
    case True then show ?thesis using e by (auto simp: nested_def seq_def enter_nesting_def Let_def)
  next
    case False
    then have "ps_ok ?q" "remaining ?q \<le> n" "b \<longrightarrow> 0 < remaining ?q"
      using a by (simp_all add: ps_ok_def remaining_def)
    moreover have "m E ?q = Inl e"
      using e False by (auto simp: nested_def seq_def enter_nesting_def leave_nesting_def ret_def Let_def split: sum.splits)
    ultimately show ?thesis using parses_Inl [OF m] by blast
  qed
next
  fix E p x r assume a: "ps_ok p" "remaining p \<le> n" "b \<longrightarrow> 0 < remaining p" and r: "nested m E p = Inr (x, r)"
  let ?q = "p\<lparr>ps_nesting := Suc (ps_nesting p)\<rparr>"
  have d: "\<not> MAX_NESTING_DEPTH < Suc (ps_nesting p)"
    using r by (auto simp: nested_def seq_def enter_nesting_def Let_def)
  then have q: "ps_ok ?q" "remaining ?q \<le> n" "b \<longrightarrow> 0 < remaining ?q"
    using a by (simp_all add: ps_ok_def remaining_def)
  obtain s where s: "m E ?q = Inr (x, s)" "r = s\<lparr>ps_nesting := ps_nesting s - 1\<rparr>"
    using r d by (auto simp: nested_def seq_def enter_nesting_def leave_nesting_def ret_def Let_def split: sum.splits)
  show "ps_step p r \<and> (K x \<longrightarrow> remaining r < remaining p)"
    using parses_Inr [OF m q s(1)] s(2) by (auto simp: ps_step_def remaining_def)
qed

lemma loop_result:
  assumes body: "\<And>x. parses n False isl (body x)"
    and "ps_ok p" "remaining p \<le> k" "remaining p \<le> n"
  shows "case loop (Suc k) body y E p of Inl e \<Rightarrow> e \<noteq> CeStuck | Inr (x, q) \<Rightarrow> ps_step p q"
  using assms(2-)
proof (induction k arbitrary: y p)
  case (0 y p)
  show ?case
  proof (cases "body y E p")
    case (Inl e)
    then show ?thesis using parses_Inl [OF body 0(1,3) _ Inl] by (simp add: seq_def)
  next
    case (Inr c)
    obtain r q where c: "c = (r, q)" by (cases c)
    note s = parses_Inr [OF body 0(1,3) _ Inr [unfolded c]]
    have "\<not> isl r" using s(2) 0(2) by auto
    then show ?thesis using Inr c s(1) by (cases r) (simp_all add: seq_def ret_def)
  qed
next
  case (Suc k y p)
  show ?case
  proof (cases "body y E p")
    case (Inl e)
    then show ?thesis using parses_Inl [OF body Suc.prems(1,3) _ Inl] by (simp add: seq_def)
  next
    case (Inr c)
    obtain r q where c: "c = (r, q)" by (cases c)
    note s = parses_Inr [OF body Suc.prems(1,3) _ Inr [unfolded c]]
    show ?thesis
    proof (cases r)
      case (Inr z) then show ?thesis using \<open>body y E p = Inr c\<close> c s(1) by (simp add: seq_def ret_def)
    next
      case (Inl y')
      have "remaining q < remaining p" using s(2) Inl by simp
      then have "case loop (Suc k) body y' E q of Inl e \<Rightarrow> e \<noteq> CeStuck | Inr (x, r) \<Rightarrow> ps_step q r"
        using Suc.prems s(1) by (intro Suc.IH) (auto intro: ps_step_ok)
      then show ?thesis
        using \<open>body y E p = Inr c\<close> c Inl s(1)
        by (simp only: loop.simps(2) [of "Suc k"] seq_def) (auto split: sum.splits intro: ps_step_trans)
    qed
  qed
qed

lemma safe_repeat:
  assumes "\<And>x. prog n False (body x)" shows "safe n b (repeat body x)"
  unfolding safe_def parses_def
proof (intro allI impI)
  fix E p assume "ps_ok p \<and> remaining p \<le> n \<and> (b \<longrightarrow> 0 < remaining p)"
  then have "case loop (Suc (remaining p)) body x E p of Inl e \<Rightarrow> e \<noteq> CeStuck | Inr (x, q) \<Rightarrow> ps_step p q"
    by (intro loop_result [OF assms [unfolded prog_def]]) auto
  then show "case repeat body x E p of Inl e \<Rightarrow> e \<noteq> CeStuck
      | Inr (x, q) \<Rightarrow> ps_step p q \<and> (False \<longrightarrow> remaining q < remaining p)"
    by (auto simp: repeat_def simp del: loop.simps split: sum.splits)
qed

lemma strict_repeat:
  assumes body: "\<And>x. prog n False (body x)" and first: "strict n b (body x)"
  shows "strict n b (repeat body x)"
  unfolding strict_def parses_def
proof (intro allI impI)
  fix E p assume p: "ps_ok p \<and> remaining p \<le> n \<and> (b \<longrightarrow> 0 < remaining p)"
  show "case repeat body x E p of Inl e \<Rightarrow> e \<noteq> CeStuck
      | Inr (x, q) \<Rightarrow> ps_step p q \<and> (True \<longrightarrow> remaining q < remaining p)"
  proof (cases "body x E p")
    case (Inl e)
    then show ?thesis using parses_Inl [OF first [unfolded strict_def] _ _ _ Inl] p by (simp add: repeat_def seq_def)
  next
    case (Inr c)
    obtain r q where c: "c = (r, q)" by (cases c)
    have s: "ps_step p q" "remaining q < remaining p"
      using parses_Inr [OF first [unfolded strict_def] _ _ _ Inr [unfolded c]] p by auto
    show ?thesis
    proof (cases r)
      case (Inr z) then show ?thesis using \<open>body x E p = Inr c\<close> c s by (simp add: repeat_def seq_def ret_def)
    next
      case (Inl y)
      obtain k where k: "remaining p = Suc k" using s(2) by (cases "remaining p") auto
      have "case loop (Suc k) body y E q of Inl e \<Rightarrow> e \<noteq> CeStuck | Inr (x, r) \<Rightarrow> ps_step q r"
        using p s k by (intro loop_result [OF body [unfolded prog_def]]) (auto intro: ps_step_ok)
      then show ?thesis
        using \<open>body x E p = Inr c\<close> c Inl s k ps_step_remaining [of q]
        by (simp only: repeat_def loop.simps(2) [of "Suc k"] seq_def k)
          (auto split: sum.splits intro: ps_step_trans le_less_trans)
    qed
  qed
qed

section \<open>The rules for the simplifier\<close>

named_theorems parse_simps "progress of parsers"

lemma parse_mono:
  "safe n b m \<Longrightarrow> k \<le> n \<Longrightarrow> safe k c m" if "b \<Longrightarrow> c" for b c m
  using that unfolding safe_def by (blast intro: parses_mono)

lemma strict_safe: "strict n b m \<Longrightarrow> safe n b m"
  unfolding safe_def strict_def by (rule parses_mono) auto

lemma ret_rules [parse_simps]:
  "safe n b (ret x)" "prog n b (ret (Inr z))"
  by (auto simp: logic_defs ret_def ps_step_def ps_ok_def)

lemma raise_rules [parse_simps]:
  "e \<noteq> CeStuck \<Longrightarrow> safe n b (raise e)" "e \<noteq> CeStuck \<Longrightarrow> strict n b (raise e)" "e \<noteq> CeStuck \<Longrightarrow> prog n b (raise e)"
  by (simp_all add: logic_defs raise_def)

lemma seq_strict_rules:
  "strict n b m \<Longrightarrow> (\<And>x. safe (n - Suc 0) False (f x)) \<Longrightarrow> strict n b (seq m f)"
  "strict n b m \<Longrightarrow> (\<And>x. safe (n - Suc 0) False (f x)) \<Longrightarrow> safe n b (seq m f)"
  "strict n b m \<Longrightarrow> (\<And>x. safe (n - Suc 0) False (g x)) \<Longrightarrow> prog n b (seq m g)"
  unfolding safe_def strict_def prog_def by (rule parses_seq [where J = "\<lambda>_. True"]; simp)+

lemma seq_safe_rules:
  "safe n b m \<Longrightarrow> (\<And>x. strict n False (f x)) \<Longrightarrow> strict n b (seq m f)"
  "safe n b m \<Longrightarrow> (\<And>x. safe n False (f x)) \<Longrightarrow> safe n b (seq m f)"
  "safe n b m \<Longrightarrow> (\<And>x. prog n False (g x)) \<Longrightarrow> prog n b (seq m g)"
  unfolding safe_def strict_def prog_def by (rule parses_seq [where J = "\<lambda>_. False"]; simp)+

declare seq_safe_rules [parse_simps] seq_strict_rules [parse_simps]

lemma on_peek_rules [parse_simps]:
  "safe n b (f None) \<Longrightarrow> (\<And>st. safe n True (f (Some st))) \<Longrightarrow> safe n b (on_peek f)"
  "strict n b (f None) \<Longrightarrow> (\<And>st. strict n True (f (Some st))) \<Longrightarrow> strict n b (on_peek f)"
  "prog n b (g None) \<Longrightarrow> (\<And>st. prog n True (g (Some st))) \<Longrightarrow> prog n b (on_peek g)"
  unfolding safe_def strict_def prog_def by (rule parses_on_peek; simp)+

lemma if_tok_rules [parse_simps]:
  "safe n True m \<Longrightarrow> safe n b m' \<Longrightarrow> safe n b (if_tok P m m')"
  "strict n True m \<Longrightarrow> strict n b m' \<Longrightarrow> strict n b (if_tok P m m')"
  "prog n True k \<Longrightarrow> prog n b k' \<Longrightarrow> prog n b (if_tok P k k')"
  unfolding safe_def strict_def prog_def by (rule parses_if_tok; simp)+

lemma ask_rules [parse_simps]:
  "(\<And>v. safe n b (f v)) \<Longrightarrow> safe n b (ask g f)"
  "(\<And>v. strict n b (f v)) \<Longrightarrow> strict n b (ask g f)"
  "(\<And>v. prog n b (f' v)) \<Longrightarrow> prog n b (ask g f')"
  "(\<And>E. safe n b (h E)) \<Longrightarrow> safe n b (ask_env h)"
  "(\<And>E. strict n b (h E)) \<Longrightarrow> strict n b (ask_env h)"
  "(\<And>E. prog n b (h' E)) \<Longrightarrow> prog n b (ask_env h')"
  unfolding safe_def strict_def prog_def by (rule parses_ask parses_ask_env; simp)+

lemma warn_rules [parse_simps]:
  "safe n b m \<Longrightarrow> safe n b (warn w m)" "strict n b m \<Longrightarrow> strict n b (warn w m)" "prog n b k \<Longrightarrow> prog n b (warn w k)"
  unfolding safe_def strict_def prog_def by (rule parses_warn; simp)+

lemma nested_rules [parse_simps]:
  "safe n b m \<Longrightarrow> safe n b (nested m)" "strict n b m \<Longrightarrow> strict n b (nested m)"
  unfolding safe_def strict_def by (rule parses_nested; simp)+

lemma then_advance_rules [parse_simps]:
  "safe (n - Suc 0) False m \<Longrightarrow> safe n True (then_advance m)"
  "safe (n - Suc 0) False m \<Longrightarrow> strict n True (then_advance m)"
  "safe (n - Suc 0) False k \<Longrightarrow> prog n True (then_advance k)"
  unfolding then_advance_def by (simp_all add: seq_strict_rules)

lemma if_eat_rules [parse_simps]:
  "safe (n - Suc 0) False m \<Longrightarrow> safe n b m' \<Longrightarrow> safe n b (if_eat t m m')"
  "safe (n - Suc 0) False m \<Longrightarrow> strict n b m' \<Longrightarrow> strict n b (if_eat t m m')"
  "safe (n - Suc 0) False k \<Longrightarrow> prog n b k' \<Longrightarrow> prog n b (if_eat t k k')"
  unfolding if_eat_def by (auto intro: if_tok_rules then_advance_rules)

declare safe_repeat [parse_simps] strict_repeat [parse_simps]

lemma case_rules [parse_simps]:
  "(o' = None \<Longrightarrow> safe n b m) \<Longrightarrow> (\<And>x. o' = Some x \<Longrightarrow> safe n b (f x)) \<Longrightarrow> safe n b (case o' of None \<Rightarrow> m | Some x \<Rightarrow> f x)"
  "(o' = None \<Longrightarrow> strict n b m) \<Longrightarrow> (\<And>x. o' = Some x \<Longrightarrow> strict n b (f x)) \<Longrightarrow> strict n b (case o' of None \<Rightarrow> m | Some x \<Rightarrow> f x)"
  "(o' = None \<Longrightarrow> prog n b k) \<Longrightarrow> (\<And>x. o' = Some x \<Longrightarrow> prog n b (g x)) \<Longrightarrow> prog n b (case o' of None \<Rightarrow> k | Some x \<Rightarrow> g x)"
  by (cases o'; simp)+

lemma case_prod_rules [parse_simps]:
  "(\<And>x y. safe n b (h x y)) \<Longrightarrow> safe n b (case w of (x, y) \<Rightarrow> h x y)"
  "(\<And>x y. strict n b (h x y)) \<Longrightarrow> strict n b (case w of (x, y) \<Rightarrow> h x y)"
  "(\<And>x y. prog n b (h' x y)) \<Longrightarrow> prog n b (case w of (x, y) \<Rightarrow> h' x y)"
  by (cases w; simp)+

lemma if_rules [parse_simps]:
  "(c \<Longrightarrow> safe n b m) \<Longrightarrow> (\<not> c \<Longrightarrow> safe n b m') \<Longrightarrow> safe n b (if c then m else m')"
  "(c \<Longrightarrow> strict n b m) \<Longrightarrow> (\<not> c \<Longrightarrow> strict n b m') \<Longrightarrow> strict n b (if c then m else m')"
  "(c \<Longrightarrow> prog n b k) \<Longrightarrow> (\<not> c \<Longrightarrow> prog n b k') \<Longrightarrow> prog n b (if c then k else k')"
  by auto

lemma no_tokens [parse_simps]: "safe 0 True m" "strict 0 True m" "prog 0 True k"
  by (auto simp: logic_defs)

lemma since_span_rules [parse_simps]: "safe n b (since_span s k)"
  by (simp add: since_span_def parse_simps)

lemma unexpected_rules [parse_simps]:
  "safe n b (unexpected_at s st h)" "strict n b (unexpected_at s st h)" "prog n b (unexpected_at s st h)"
  "safe n b (unexpected_end s)" "strict n b (unexpected_end s)" "prog n b (unexpected_end s)"
  by (simp_all add: unexpected_at_def unexpected_end_def logic_defs raise_def)

lemma no_match_rules [parse_simps]:
  "safe n b (no_match s t h)" "strict n b (no_match s t h)" "prog n b (no_match s t h)"
  "safe n b (not_found s h)" "strict n b (not_found s h)" "prog n b (not_found s h)"
  by (simp_all add: no_match_def not_found_def parse_simps)

lemma eat_exact_rules [parse_simps]: "safe n b (eat_exact t)"
  by (simp add: eat_exact_def parse_simps)

lemma expect_exact_rules [parse_simps]: "safe n b (expect_exact t)" "strict n b (expect_exact t)"
  by (simp_all add: expect_exact_def parse_simps)

lemma fuelled_parses:
  assumes "\<And>n. parses n False K (f (Suc n))" shows "parses n b K (fuelled f)"
  using assms unfolding parses_def fuelled_def by auto

lemma fuelled_rules:
  "(\<And>n. safe n False (f (Suc n))) \<Longrightarrow> safe n b (fuelled f)"
  "(\<And>n. strict n False (f (Suc n))) \<Longrightarrow> strict n b (fuelled f)"
  unfolding safe_def strict_def by (rule fuelled_parses; simp)+

lemma comma_list_rules [parse_simps]:
  assumes "\<And>b. strict n b item" shows "safe n b (comma_list item)" "strict n b (comma_list item)"
  using assms by (simp_all add: comma_list_def parse_simps)

lemma optional_rules [parse_simps]:
  "safe (n - Suc 0) False m \<Longrightarrow> safe n b (optional t m)"
  by (simp add: optional_def parse_simps)

text \<open>A strict parser fails at the end of the query, whatever follows it.\<close>

lemma parses_zero:
  assumes m: "parses 0 b (\<lambda>_. True) m" shows "parses 0 b K (seq m f)"
proof (rule parsesI)
  fix E p e assume a: "ps_ok p" "remaining p \<le> 0" "b \<longrightarrow> 0 < remaining p" and e: "seq m f E p = Inl e"
  show "e \<noteq> CeStuck"
  proof (cases "m E p")
    case (Inl e') then show ?thesis using parses_Inl [OF m a] e by (simp add: seq_def)
  next
    case (Inr y) then show ?thesis using parses_Inr(2) [OF m a, of E "fst y" "snd y"] a(2) by simp
  qed
next
  fix E p x q assume a: "ps_ok p" "remaining p \<le> 0" "b \<longrightarrow> 0 < remaining p" and r: "seq m f E p = Inr (x, q)"
  then obtain y s where "m E p = Inr (y, s)" by (auto simp: seq_def split: sum.splits)
  then show "ps_step p q \<and> (K x \<longrightarrow> remaining q < remaining p)"
    using parses_Inr(2) [OF m a] a(2) by auto
qed

lemma zero_rules [parse_simps]:
  "strict 0 b m \<Longrightarrow> strict 0 b (seq m f)" "strict 0 b m \<Longrightarrow> safe 0 b (seq m f)"
  unfolding safe_def strict_def by (rule parses_zero; assumption)+

end
