(* ===== verification/Cal_Cond.thy ===== *)
theory Cal_Cond
  imports Cal_Parse
begin

text \<open>
  Literals, identifiers, grain type names, values and \<^verbatim>\<open>WHERE\<close> conditions
  (\<^verbatim>\<open>dejadb-cal/src/parser.rs\<close>, with the relation vocabulary of \<^verbatim>\<open>relations.rs\<close>).
\<close>

section \<open>Literals\<close>

definition parse_string_literal :: "string parse" where
  "parse_string_literal = on_peek (\<lambda>o'. case o' of
      None \<Rightarrow> unexpected_end ''string literal''
    | Some st \<Rightarrow> (case st_token st of
        StringLiteral s \<Rightarrow> then_advance (ret s)
      | _ \<Rightarrow> unexpected_at ''string literal'' st (Some ''string values must be enclosed in double quotes'')))"

definition parse_number :: "f64 parse" where
  "parse_number = on_peek (\<lambda>o'. case o' of
      None \<Rightarrow> unexpected_end ''number literal''
    | Some st \<Rightarrow> (case st_token st of
        NumberLiteral x \<Rightarrow> then_advance (ret x)
      | _ \<Rightarrow> unexpected_at ''number literal'' st None))"

text \<open>The casts of a float to an unsigned integer saturate.\<close>

definition u64_max :: nat where "u64_max = 18446744073709551615"
definition u32_max :: nat where "u32_max = 4294967295"

fun f64_as_uint :: "nat \<Rightarrow> f64 \<Rightarrow> nat" where
  "f64_as_uint hi (Finite q) = min hi (nat \<lfloor>q\<rfloor>)"
| "f64_as_uint hi PosInf = hi"
| "f64_as_uint hi NegInf = 0"
| "f64_as_uint hi NaN = 0"

fun is_integral :: "f64 \<Rightarrow> bool" where
  "is_integral (Finite q) = (of_int \<lfloor>q\<rfloor> = q)"
| "is_integral _ = False"

definition parse_u64 :: "nat parse" where
  "parse_u64 = ask current_span (\<lambda>sp. seq parse_number (\<lambda>x.
     if f64_less x (Finite 0) \<or> \<not> is_integral x
     then ask_env (\<lambda>E. raise (CeInvalidNumber (ce_show E x) (Some sp)))
     else ret (f64_as_uint u64_max x)))"

definition parse_hash_literal :: "string parse" where
  "parse_hash_literal = on_peek (\<lambda>o'. case o' of
      None \<Rightarrow> unexpected_end ''hash literal (sha256:...)''
    | Some st \<Rightarrow> (case st_token st of
        HashLiteral h \<Rightarrow> then_advance (ret h)
      | _ \<Rightarrow> unexpected_at ''hash literal (sha256:...)'' st
               (Some ''hash literals use the format sha256:<hex digits>'')))"

definition parse_parameter :: "string parse" where
  "parse_parameter = on_peek (\<lambda>o'. case o' of
      None \<Rightarrow> unexpected_end ''$parameter''
    | Some st \<Rightarrow> (case st_token st of
        Parameter x \<Rightarrow> then_advance (ret x)
      | _ \<Rightarrow> unexpected_at ''$parameter'' st None))"

fun is_string_literal :: "token \<Rightarrow> bool" where
  "is_string_literal (StringLiteral _) = True" | "is_string_literal _ = False"

fun is_hash_literal :: "token \<Rightarrow> bool" where
  "is_hash_literal (HashLiteral _) = True" | "is_hash_literal _ = False"

fun is_parameter :: "token \<Rightarrow> bool" where
  "is_parameter (Parameter _) = True" | "is_parameter _ = False"

text \<open>A bare word, compared without regard to case.\<close>

fun is_word :: "string \<Rightarrow> token \<Rightarrow> bool" where
  "is_word w (Ident i) = eq_ignore_ascii_case i w" | "is_word w _ = False"

section \<open>Identifiers and labels\<close>

definition CANNOT_DESTROY :: string where
  "CANNOT_DESTROY = ''CAL cannot destroy data in bulk. The only destructive CAL statement is FORGET <hash>; erasure, key rotation, and schema changes are host-level operations.''"

definition FIELD_KEYWORDS :: "token list" where
  "FIELD_KEYWORDS = [Kw ''ON'', Kw ''WHEN'', Kw ''BIND'', Kw ''PRIORITY'', Kw ''SCOPE'']"

definition parse_identifier :: "string parse" where
  "parse_identifier = on_peek (\<lambda>o'. case o' of
      None \<Rightarrow> unexpected_end ''identifier''
    | Some st \<Rightarrow> (case st_token st of
        Ident s \<Rightarrow> then_advance (
          if is_destructive_keyword s
          then ask prev_span (\<lambda>sp. raise (CeUnexpectedToken ''a field name or grain type'' s (Some sp) (Some CANNOT_DESTROY)))
          else ret s)
      | t \<Rightarrow> if t \<in> set FIELD_KEYWORDS
             then then_advance (ask_env (\<lambda>E. ret (map ascii_lower_char (describe E t))))
             else unexpected_at ''identifier'' st None))"

text \<open>\<^verbatim>\<open>is_word_token\<close>: all but the listed symbols and the literals.\<close>

definition NOT_WORD_SYMBOLS :: "string list" where
  "NOT_WORD_SYMBOLS = [''='', ''!='', ''>='', ''<='', ''>'', ''<'', ''('', '')'', ''['', '']'', ''{'', ''}'',
     ''|'', '','', '':'', ''.'', ''/'']"

fun is_word_token :: "token \<Rightarrow> bool" where
  "is_word_token (Sym s) = (s \<notin> set NOT_WORD_SYMBOLS)"
| "is_word_token (NumberLiteral _) = False"
| "is_word_token (StringLiteral _) = False"
| "is_word_token (HashLiteral _) = False"
| "is_word_token (Parameter _) = False"
| "is_word_token _ = True"

definition parse_label :: "string parse" where
  "parse_label = on_peek (\<lambda>o'. case o' of
      None \<Rightarrow> unexpected_end ''label name''
    | Some st \<Rightarrow> (case st_token st of
        Ident s \<Rightarrow> then_advance (ret s)
      | t \<Rightarrow> if is_word_token t
             then then_advance (ask_env (\<lambda>E. ret (map ascii_lower_char (describe E t))))
             else unexpected_at ''label name'' st None))"

definition parse_field_name :: "string parse" where
  "parse_field_name = seq parse_identifier (\<lambda>first.
     if_at (Sym ''.'') (then_advance (seq parse_identifier (\<lambda>second. ret (first @ ''.'' @ second)))) (ret first))"

section \<open>Grain types\<close>

definition suggest_grain_type_plural :: "string \<Rightarrow> string option" where
  "suggest_grain_type_plural s =
     (let l = map ascii_lower_char s in
      if l \<in> {''beliefs'', ''belief''} then Some (''did you mean '' @ dq ''facts'' @ ''?'')
      else if l \<in> {''episodes'', ''episode''} then Some (''did you mean '' @ dq ''events'' @ ''?'')
      else if l \<in> {''checkpoints'', ''checkpoint''} then Some (''did you mean '' @ dq ''states'' @ ''?'')
      else if l \<in> {''actions'', ''action'', ''toolcalls'', ''tool_calls'', ''tool_call''}
      then Some (''did you mean '' @ dq ''tools'' @ ''?'') else None)"

definition suggest_grain_type_singular :: "string \<Rightarrow> string option" where
  "suggest_grain_type_singular s =
     (let l = map ascii_lower_char s in
      if l = ''belief'' then Some (''did you mean '' @ dq ''fact'' @ ''?'')
      else if l = ''episode'' then Some (''did you mean '' @ dq ''event'' @ ''?'')
      else if l = ''checkpoint'' then Some (''did you mean '' @ dq ''state'' @ ''?'')
      else if l \<in> {''toolcall'', ''tool_call''} then Some (''did you mean '' @ dq ''tool'' @ ''?'') else None)"

definition parse_grain_type_plural_opt :: "gplural option parse" where
  "parse_grain_type_plural_opt =
     (let all = if_at (Kw ''ALL'') (then_advance (ret (Some AllGrains))) (ret None) in
      on_peek (\<lambda>o'. case o' of
        None \<Rightarrow> all
      | Some st \<Rightarrow> (case st_token st of
          Ident s \<Rightarrow>
            (case plural_parse s of
               Some g \<Rightarrow> then_advance (ret (Some g))
             | None \<Rightarrow>
                 if suggest_grain_type_plural s \<noteq> None
                 then raise (CeUnknownGrainType s (Some (st_span st)) (suggest_grain_type_plural s))
                 else all)
        | _ \<Rightarrow> all)))"

text \<open>The singular forms that \<^verbatim>\<open>RECALL\<close> position refuses; \<^verbatim>\<open>skill\<close> and \<^verbatim>\<open>recommendation\<close> are not among them.\<close>

definition SINGULAR_PLURALS :: "(string \<times> string) list" where
  "SINGULAR_PLURALS = [(''fact'', ''facts''), (''event'', ''events''), (''state'', ''states''),
     (''workflow'', ''workflows''), (''tool'', ''tools''), (''observation'', ''observations''),
     (''goal'', ''goals''), (''reasoning'', ''reasonings''), (''consensus'', ''consensuses''),
     (''consent'', ''consents'')]"

definition VALID_GRAIN_TYPES :: string where
  "VALID_GRAIN_TYPES = ''valid grain types: facts, events, states, workflows, tools, observations, goals, reasonings, consensuses, consents, skills, *''"

definition parse_grain_type_plural :: "gplural parse" where
  "parse_grain_type_plural = on_peek (\<lambda>o'. case o' of
      None \<Rightarrow> unexpected_end ''grain type''
    | Some st \<Rightarrow> (case st_token st of
        Ident s \<Rightarrow>
          (case map_of SINGULAR_PLURALS (map ascii_lower_char s) of
             Some pl \<Rightarrow> raise (CeUnknownGrainType s (Some (st_span st))
                 (Some (''did you mean '' @ dq pl @ ''? RECALL requires the plural form.'')))
           | None \<Rightarrow>
               (case plural_parse s of
                  Some g \<Rightarrow> then_advance (ret g)
                | None \<Rightarrow> raise (CeUnknownGrainType s (Some (st_span st)) (suggest_grain_type_plural s))))
      | t \<Rightarrow> if t = Kw ''ALL'' then then_advance (ret AllGrains)
             else unexpected_at ''grain type (facts, events, states, ...)'' st (Some VALID_GRAIN_TYPES)))"

definition parse_grain_type_singular :: "gsingular parse" where
  "parse_grain_type_singular = on_peek (\<lambda>o'. case o' of
      None \<Rightarrow> unexpected_end ''grain type''
    | Some st \<Rightarrow> (case st_token st of
        Ident s \<Rightarrow>
          (case singular_parse s of
             Some g \<Rightarrow> then_advance (ret g)
           | None \<Rightarrow> raise (CeUnknownGrainType s (Some (st_span st)) (suggest_grain_type_singular s)))
      | t \<Rightarrow> if t = Kw ''OBSERVATION'' then then_advance (ret SgObservation)
             else unexpected_at ''grain type (fact, event, state, ...)'' st None))"

section \<open>Values\<close>

definition MAX_IN_SET_SIZE :: nat where "MAX_IN_SET_SIZE = 100"

text \<open>The items of a bracketed list, up to the closing token or the end of the query.\<close>

definition items_until :: "token \<Rightarrow> 'a parse \<Rightarrow> 'a list parse" where
  "items_until close item = repeat (\<lambda>vs.
     if_tok (\<lambda>t. t \<noteq> close)
       (seq item (\<lambda>v. if_eat (Sym '','') (ret (Inl (vs @ [v]))) (ret (Inr (vs @ [v])))))
       (ret (Inr vs))) []"

definition value_step :: "cval parse \<Rightarrow> cval parse" where
  "value_step rec = on_peek (\<lambda>o'. case o' of
      None \<Rightarrow> unexpected_end ''a value''
    | Some st \<Rightarrow> (case st_token st of
        StringLiteral _ \<Rightarrow> seq parse_string_literal (\<lambda>s. ret (CvString s))
      | NumberLiteral _ \<Rightarrow> seq parse_number (\<lambda>x. ret (CvNumber x))
      | HashLiteral _ \<Rightarrow> seq parse_hash_literal (\<lambda>h. ret (CvHash h))
      | Parameter _ \<Rightarrow> seq parse_parameter (\<lambda>x. ret (CvParameter x))
      | t \<Rightarrow>
          if t = Kw ''TRUE'' then then_advance (ret (CvBoolean True))
          else if t = Kw ''FALSE'' then then_advance (ret (CvBoolean False))
          else if t = Sym ''['' then then_advance (
            seq (nested (items_until (Sym '']'') rec)) (\<lambda>vs.
            seq (expect_exact (Sym '']'')) (\<lambda>_. ret (CvArray vs))))
          else unexpected_at ''a value (string, number, boolean, hash, $parameter, or [array])'' st None))"

primrec parse_value_n :: "nat \<Rightarrow> cval parse" where
  "parse_value_n 0 = raise CeStuck"
| "parse_value_n (Suc n) = value_step (parse_value_n n)"

definition parse_value :: "cval parse" where
  "parse_value = fuelled parse_value_n"

definition parse_value_list :: "cval list parse" where
  "parse_value_list =
     seq (expect_exact (Sym ''('')) (\<lambda>_.
     seq (nested (items_until (Sym '')'')
            (if_tok is_parameter (seq parse_parameter (\<lambda>x. ret (CvParameter x))) parse_value))) (\<lambda>vs.
     seq (expect_exact (Sym '')'')) (\<lambda>_.
     ask prev_span (\<lambda>sp.
       if vs = [] then raise (CeUnexpectedToken ''at least one value inside IN ( ... )'' ''empty IN list'' (Some sp)
                               (Some ''IN requires one or more values.''))
       else if MAX_IN_SET_SIZE < length vs then raise (CeInSetTooLarge (length vs) MAX_IN_SET_SIZE (Some sp))
       else ret vs))))"

section \<open>Relations\<close>

datatype relation_category =
    RcPreference | RcKnowledge | RcPermission | RcInteraction | RcAgency | RcLifecycle | RcObservation
  | RcConsensus | RcWorkflow

definition CATEGORY_NAMES :: "(string \<times> relation_category) list" where
  "CATEGORY_NAMES = [(''preference'', RcPreference), (''knowledge'', RcKnowledge), (''permission'', RcPermission),
     (''interaction'', RcInteraction), (''agency'', RcAgency), (''lifecycle'', RcLifecycle),
     (''observation'', RcObservation), (''consensus'', RcConsensus), (''workflow'', RcWorkflow)]"

definition category_parse :: "string \<Rightarrow> relation_category option" where
  "category_parse s = map_of CATEGORY_NAMES (map ascii_lower_char s)"

definition MG_RELATIONS :: "(string \<times> relation_category) list" where
  "MG_RELATIONS =
     [(''mg:perceives'', RcObservation), (''mg:state_at'', RcObservation),
      (''mg:knows'', RcKnowledge), (''mg:infers'', RcKnowledge), (''mg:learned'', RcKnowledge),
      (''mg:owned_by'', RcKnowledge),
      (''mg:said'', RcInteraction), (''mg:did'', RcInteraction), (''mg:handed_off_to'', RcInteraction),
      (''mg:agrees_with'', RcConsensus), (''mg:requires_steps'', RcWorkflow),
      (''mg:intends'', RcLifecycle), (''mg:depends_on'', RcLifecycle),
      (''mg:permits'', RcPermission), (''mg:revokes'', RcPermission), (''mg:prohibits'', RcPermission),
      (''mg:requires'', RcPreference), (''mg:prefers'', RcPreference), (''mg:avoids'', RcPreference),
      (''mg:dislikes'', RcPreference),
      (''mg:delegates_to'', RcAgency), (''mg:has_capability'', RcAgency), (''mg:assigned_to'', RcAgency),
      (''mg:capable_of'', RcAgency)]"

definition expand_category_enum :: "relation_category \<Rightarrow> string list" where
  "expand_category_enum c =
     concat (map (\<lambda>(r, k). if k = c then r # (if starts_with r ''mg:'' then [drop 3 r] else []) else []) MG_RELATIONS)"

definition expand_category :: "string \<Rightarrow> string list" where
  "expand_category s = (case category_parse s of None \<Rightarrow> [] | Some c \<Rightarrow> expand_category_enum c)"

definition step_action_node :: "string \<Rightarrow> string option" where
  "step_action_node r =
     (if starts_with r ''mg:step_action:'' \<and> drop 15 r \<noteq> [] then Some (drop 15 r) else None)"

definition is_known_relation :: "string \<Rightarrow> bool" where
  "is_known_relation r = (list_ex (\<lambda>(n, _). n = r) MG_RELATIONS \<or> step_action_node r \<noteq> None)"

definition validate_relation :: "string \<Rightarrow> cal_warning option" where
  "validate_relation r =
     (if \<not> starts_with r ''mg:'' \<or> is_known_relation r then None else Some (CwUnknownRelation r None))"

definition relation_category_of :: "string \<Rightarrow> relation_category option" where
  "relation_category_of r = map_option snd (find (\<lambda>(n, _). n = r) MG_RELATIONS)"

text \<open>\<^verbatim>\<open>IS PREFERENCE\<close> and the like: the category, if the current token names one.\<close>

fun category_of_token :: "token \<Rightarrow> string option" where
  "category_of_token (Kw k) =
     (if k \<in> {''PREFERENCE'', ''KNOWLEDGE'', ''PERMISSION'', ''INTERACTION'', ''AGENCY'', ''LIFECYCLE'', ''OBSERVATION''}
      then Some (map ascii_lower_char k) else None)"
| "category_of_token (Ident i) =
     (if eq_ignore_ascii_case i ''WORKFLOW'' then Some ''workflow''
      else if eq_ignore_ascii_case i ''CONSENSUS'' then Some ''consensus''
      else if eq_ignore_ascii_case i ''GOVERNANCE'' then Some ''governance'' else None)"
| "category_of_token _ = None"

definition try_parse_relation_category :: "string option parse" where
  "try_parse_relation_category = on_peek (\<lambda>o'. case o' of
      None \<Rightarrow> ret None
    | Some st \<Rightarrow> (case category_of_token (st_token st) of
        Some c \<Rightarrow> then_advance (ret (Some c))
      | None \<Rightarrow> ret None))"

section \<open>Conditions\<close>

fun comparator_of :: "token \<Rightarrow> comparator option" where
  "comparator_of (Sym s) =
     (if s = ''='' then Some CmpEq else if s = ''!='' then Some CmpNotEq else if s = ''>='' then Some CmpGte
      else if s = ''<='' then Some CmpLte else if s = ''>'' then Some CmpGt else if s = ''<'' then Some CmpLt
      else None)"
| "comparator_of _ = None"

definition check_relation :: "string \<Rightarrow> cval \<Rightarrow> 'a parse \<Rightarrow> 'a parse" where
  "check_relation field v m =
     (case v of
        CvString s \<Rightarrow> if field = ''relation'' then (case validate_relation s of Some w \<Rightarrow> warn w m | None \<Rightarrow> m) else m
      | _ \<Rightarrow> m)"

text \<open>The argument of \<^verbatim>\<open>INCLUDE\<close> and \<^verbatim>\<open>EXCLUDE\<close>: an array, or a parameter that stands for one.\<close>

definition array_operand :: "string \<Rightarrow> string \<Rightarrow> cval list parse" where
  "array_operand kw eg = ask current_span (\<lambda>sp. seq parse_value (\<lambda>v.
     case v of
       CvArray vs \<Rightarrow> ret vs
     | CvParameter _ \<Rightarrow> ret [v]
     | _ \<Rightarrow> raise (CeUnexpectedToken (''array literal `[...]` after '' @ kw) (type_name v) (Some sp)
              (Some (''tags '' @ kw @ '' requires an array, e.g. tags '' @ kw @ '' '' @ eg)))))"

definition is_condition :: "span \<Rightarrow> string \<Rightarrow> condition parse" where
  "is_condition start field =
     seq (eat_exact (Kw ''NOT'')) (\<lambda>neg.
     seq (if neg then ret None else try_parse_relation_category) (\<lambda>cat.
     case cat of
       Some c \<Rightarrow> since_span start (CondIsCategory field c)
     | None \<Rightarrow> seq (expect_exact (Kw ''NULL'')) (\<lambda>_.
         since_span start (if neg then CondIsNotNull field else CondIsNull field))))"

definition in_condition :: "span \<Rightarrow> string \<Rightarrow> condition parse" where
  "in_condition start field =
     if_tok is_parameter
       (seq parse_parameter (\<lambda>x. since_span start (CondIn field [CvParameter x])))
       (seq parse_value_list (\<lambda>vs. since_span start (CondIn field vs)))"

definition starts_condition :: "span \<Rightarrow> string \<Rightarrow> condition parse" where
  "starts_condition start field =
     seq (if_tok (\<lambda>t. t = Kw ''WITH'' \<or> is_word ''WITH'' t) advance (ret None)) (\<lambda>_.
     seq parse_string_literal (\<lambda>v. since_span start (CondStartsWith field v)))"

definition field_condition :: "span \<Rightarrow> string \<Rightarrow> condition parse" where
  "field_condition start field = ask (peek_token 1) (\<lambda>next. on_peek (\<lambda>o'. case o' of
      None \<Rightarrow> unexpected_end ''comparison operator''
    | Some st \<Rightarrow>
        (let t = st_token st in
         case comparator_of t of
           Some c \<Rightarrow> then_advance (seq parse_value (\<lambda>v. check_relation field v (since_span start (Comparison field c v))))
         | None \<Rightarrow>
             if t = Kw ''IN'' then then_advance (in_condition start field)
             else if t = Kw ''NOT'' \<and> next = Some (Kw ''IN'')
             then then_advance (seq advance (\<lambda>_. seq parse_value_list (\<lambda>vs. since_span start (CondNotIn field vs))))
             else if t = Kw ''IS'' then then_advance (is_condition start field)
             else if t = Kw ''INCLUDE''
             then then_advance (seq (array_operand ''INCLUDE'' (''['' @ dq ''tag1'' @ '', '' @ dq ''tag2'' @ '']''))
                    (\<lambda>vs. since_span start (CondIn field vs)))
             else if t = Kw ''EXCLUDE''
             then then_advance (seq (array_operand ''EXCLUDE'' (''['' @ dq ''tag1'' @ '']''))
                    (\<lambda>vs. since_span start (CondNotIn field vs)))
             else if is_word ''CONTAINS'' t
             then then_advance (seq parse_string_literal (\<lambda>v. since_span start (CondContains field v)))
             else if is_word ''STARTS'' t then then_advance (starts_condition start field)
             else unexpected_at ''comparison operator (=, !=, >=, <=, >, <), IN, IS, CONTAINS, STARTS WITH, INCLUDE, or EXCLUDE'' st None)))"

definition condition_primary :: "condition parse \<Rightarrow> condition parse" where
  "condition_primary rec =
     if_at (Sym ''('')
       (then_advance (seq (nested rec) (\<lambda>c. seq (expect_exact (Sym '')'')) (\<lambda>_. ret c))))
       (ask current_span (\<lambda>start. seq parse_field_name (field_condition start)))"

definition condition_unary :: "condition parse \<Rightarrow> condition parse" where
  "condition_unary prim =
     ask current_span (\<lambda>sp. if_eat (Kw ''NOT'') (seq prim (\<lambda>c. ret (CondNot c (Some sp)))) prim)"

text \<open>A left-associative chain of one connective.\<close>

definition chain :: "token \<Rightarrow> (condition \<Rightarrow> condition \<Rightarrow> span option \<Rightarrow> condition) \<Rightarrow> condition parse \<Rightarrow> condition parse" where
  "chain op con item = ask current_span (\<lambda>start. seq item (\<lambda>first.
     repeat (\<lambda>l. if_eat op (seq item (\<lambda>r. since_span start (\<lambda>sp. Inl (con l r sp)))) (ret (Inr l))) first))"

definition condition_and :: "condition parse \<Rightarrow> condition parse" where
  "condition_and prim = chain (Kw ''AND'') CondAnd (condition_unary prim)"

definition condition_or :: "condition parse \<Rightarrow> condition parse" where
  "condition_or prim = chain (Kw ''OR'') CondOr (condition_and prim)"

primrec parse_condition_n :: "nat \<Rightarrow> condition parse" where
  "parse_condition_n 0 = raise CeStuck"
| "parse_condition_n (Suc n) = condition_or (condition_primary (parse_condition_n n))"

definition parse_condition :: "condition parse" where
  "parse_condition = fuelled parse_condition_n"

definition parse_where_clause :: "where_clause option parse" where
  "parse_where_clause = ask current_span (\<lambda>sp. if_eat (Kw ''WHERE'')
     (seq parse_condition (\<lambda>c. ret (Some \<lparr>wh_condition = c, wh_span = Some sp\<rparr>))) (ret None))"

section \<open>Progress\<close>

lemma case_token_rules [parse_simps]:
  assumes "\<And>x. safe n b (f1 x)" "\<And>x y. safe n b (f2 x y)" "\<And>x. safe n b (f3 x)" "\<And>x. safe n b (f4 x)"
    "\<And>x. safe n b (f5 x)" "\<And>x. safe n b (f6 x)" "safe n b f7" "\<And>x. safe n b (f8 x)" "\<And>x. safe n b (f9 x)"
  shows "safe n b (case t of Kw x \<Rightarrow> f1 x | Sect x y \<Rightarrow> f2 x y | Sym x \<Rightarrow> f3 x | HashLiteral x \<Rightarrow> f4 x
      | Parameter x \<Rightarrow> f5 x | StringLiteral x \<Rightarrow> f6 x | UnterminatedString \<Rightarrow> f7 | NumberLiteral x \<Rightarrow> f8 x | Ident x \<Rightarrow> f9 x)"
  using assms by (cases t) simp_all

lemma case_token_strict [parse_simps]:
  assumes "\<And>x. strict n b (f1 x)" "\<And>x y. strict n b (f2 x y)" "\<And>x. strict n b (f3 x)" "\<And>x. strict n b (f4 x)"
    "\<And>x. strict n b (f5 x)" "\<And>x. strict n b (f6 x)" "strict n b f7" "\<And>x. strict n b (f8 x)" "\<And>x. strict n b (f9 x)"
  shows "strict n b (case t of Kw x \<Rightarrow> f1 x | Sect x y \<Rightarrow> f2 x y | Sym x \<Rightarrow> f3 x | HashLiteral x \<Rightarrow> f4 x
      | Parameter x \<Rightarrow> f5 x | StringLiteral x \<Rightarrow> f6 x | UnterminatedString \<Rightarrow> f7 | NumberLiteral x \<Rightarrow> f8 x | Ident x \<Rightarrow> f9 x)"
  using assms by (cases t) simp_all

lemma case_token_prog [parse_simps]:
  assumes "\<And>x. prog n b (f1 x)" "\<And>x y. prog n b (f2 x y)" "\<And>x. prog n b (f3 x)" "\<And>x. prog n b (f4 x)"
    "\<And>x. prog n b (f5 x)" "\<And>x. prog n b (f6 x)" "prog n b f7" "\<And>x. prog n b (f8 x)" "\<And>x. prog n b (f9 x)"
  shows "prog n b (case t of Kw x \<Rightarrow> f1 x | Sect x y \<Rightarrow> f2 x y | Sym x \<Rightarrow> f3 x | HashLiteral x \<Rightarrow> f4 x
      | Parameter x \<Rightarrow> f5 x | StringLiteral x \<Rightarrow> f6 x | UnterminatedString \<Rightarrow> f7 | NumberLiteral x \<Rightarrow> f8 x | Ident x \<Rightarrow> f9 x)"
  using assms by (cases t) simp_all

lemma literal_rules [parse_simps]:
  "safe n b parse_string_literal" "strict n b parse_string_literal"
  "safe n b parse_number" "strict n b parse_number"
  "safe n b parse_hash_literal" "strict n b parse_hash_literal"
  "safe n b parse_parameter" "strict n b parse_parameter"
  by (simp_all add: parse_string_literal_def parse_number_def parse_hash_literal_def parse_parameter_def parse_simps)

lemma parse_u64_rules [parse_simps]: "safe n b parse_u64" "strict n b parse_u64"
  by (simp_all add: parse_u64_def parse_simps)

lemma name_rules [parse_simps]:
  "safe n b parse_identifier" "strict n b parse_identifier"
  "safe n b parse_label" "strict n b parse_label"
  by (simp_all add: parse_identifier_def parse_label_def parse_simps)

lemma parse_field_name_rules [parse_simps]: "safe n b parse_field_name" "strict n b parse_field_name"
  by (simp_all add: parse_field_name_def parse_simps)

lemma grain_type_rules [parse_simps]:
  "safe n b parse_grain_type_plural_opt"
  "safe n b parse_grain_type_plural" "strict n b parse_grain_type_plural"
  "safe n b parse_grain_type_singular" "strict n b parse_grain_type_singular"
  by (simp_all add: parse_grain_type_plural_opt_def parse_grain_type_plural_def parse_grain_type_singular_def
      Let_def parse_simps)

lemma items_until_rules [parse_simps]:
  "strict n True item \<Longrightarrow> safe n b (items_until close item)"
  by (simp add: items_until_def parse_simps)

lemma value_n_strict: "n < k \<Longrightarrow> strict n b (parse_value_n k)"
proof (induction k arbitrary: n b)
  case (Suc k)
  show ?case
  proof (cases n)
    case 0 then show ?thesis by (simp add: value_step_def parse_simps)
  next
    case (Suc m) then show ?thesis using Suc.IH Suc.prems by (simp add: value_step_def parse_simps)
  qed
qed simp

lemma value_rules [parse_simps]: "safe n b parse_value" "strict n b parse_value"
  unfolding parse_value_def by (auto intro!: fuelled_rules strict_safe value_n_strict)

lemma value_list_rules [parse_simps]: "safe n b parse_value_list" "strict n b parse_value_list"
  by (simp_all add: parse_value_list_def parse_simps)

lemma field_condition_rules [parse_simps]: "safe n b (field_condition start f)"
  by (simp add: field_condition_def in_condition_def is_condition_def starts_condition_def array_operand_def
      check_relation_def try_parse_relation_category_def Let_def parse_simps split: cval.split)

text \<open>Conditions: the recursion is through the parenthesis, after a token.\<close>

lemma primary_strict:
  assumes "\<And>m c. m < n \<Longrightarrow> strict m c rec" shows "strict n b (condition_primary rec)"
proof (cases n)
  case 0 then show ?thesis by (simp add: condition_primary_def parse_simps)
next
  case (Suc m)
  then have "strict m False rec" using assms by simp
  then show ?thesis using Suc by (simp add: condition_primary_def parse_simps strict_safe)
qed

lemma unary_strict:
  assumes "\<And>m c. m \<le> n \<Longrightarrow> strict m c prim" shows "strict n b (condition_unary prim)"
  using assms by (simp add: condition_unary_def parse_simps strict_safe)

lemma chain_strict:
  assumes "\<And>m c. m \<le> n \<Longrightarrow> strict m c item" shows "strict n b (chain op con item)"
  using assms by (simp add: chain_def parse_simps strict_safe)

lemma condition_n_strict: "n < k \<Longrightarrow> strict n b (parse_condition_n k)"
proof (induction k arbitrary: n b)
  case (Suc k)
  have "strict m c (condition_primary (parse_condition_n k))" if "m \<le> n" for m c
    using that Suc by (intro primary_strict) auto
  then show ?case
    unfolding parse_condition_n.simps condition_or_def condition_and_def
    by (intro chain_strict unary_strict) auto
qed simp

lemma condition_rules [parse_simps]: "safe n b parse_condition" "strict n b parse_condition"
  unfolding parse_condition_def by (auto intro!: fuelled_rules strict_safe condition_n_strict)

lemma where_clause_rules [parse_simps]: "safe n b parse_where_clause"
  by (simp add: parse_where_clause_def parse_simps)

end
