(* ===== verification/Cal_Clauses.thy ===== *)
theory Cal_Clauses
  imports Cal_Cond
begin

text \<open>
  The clauses that statements share (\<^verbatim>\<open>dejadb-cal/src/parser.rs\<close>): the search clauses of
  \<^verbatim>\<open>RECALL\<close>, pipeline stages, \<^verbatim>\<open>WITH\<close> options, formats and templates, and user variables.
\<close>

section \<open>Search clauses\<close>

text \<open>A keyword and its argument, with the span of the keyword.\<close>

definition clause :: "token \<Rightarrow> 'a parse \<Rightarrow> ('a \<Rightarrow> span option \<Rightarrow> 'b) \<Rightarrow> 'b option parse" where
  "clause kw arg con = ask current_span (\<lambda>sp. if_eat kw (seq arg (\<lambda>x. ret (Some (con x (Some sp))))) (ret None))"

definition parse_about_clause :: "about_clause option parse" where
  "parse_about_clause = clause (Kw ''ABOUT'') parse_string_literal (\<lambda>t sp. \<lparr>ab_text = t, ab_span = sp\<rparr>)"

definition parse_like_clause :: "like_clause option parse" where
  "parse_like_clause = clause (Kw ''LIKE'') parse_string_literal (\<lambda>t sp. \<lparr>lk_text = t, lk_span = sp\<rparr>)"

definition parse_since_clause :: "since_clause option parse" where
  "parse_since_clause = clause (Kw ''SINCE'') parse_string_literal (\<lambda>t sp. \<lparr>si_expression = t, si_span = sp\<rparr>)"

definition parse_until_clause :: "until_clause option parse" where
  "parse_until_clause = clause (Kw ''UNTIL'') parse_string_literal (\<lambda>t sp. \<lparr>un_expression = t, un_span = sp\<rparr>)"

definition parse_between_clause :: "between_clause option parse" where
  "parse_between_clause = clause (Kw ''BETWEEN'')
     (seq parse_string_literal (\<lambda>s. seq (expect_exact (Kw ''AND'')) (\<lambda>_. seq parse_string_literal (\<lambda>e. ret (s, e)))))
     (\<lambda>(s, e) sp. \<lparr>bw_start = s, bw_end = e, bw_span = sp\<rparr>)"

definition parse_recent_clause :: "recent_clause option parse" where
  "parse_recent_clause = clause (Kw ''RECENT'') parse_u64 (\<lambda>n sp. \<lparr>rn_count = n, rn_span = sp\<rparr>)"

section \<open>Pipeline\<close>

definition MAX_LIMIT_VALUE :: nat where "MAX_LIMIT_VALUE = 1000"
definition MAX_PIPELINE_STAGES :: nat where "MAX_PIPELINE_STAGES = 5"

text \<open>The argument of \<^verbatim>\<open>LIMIT\<close>.\<close>

definition limit_value :: "nat parse" where
  "limit_value = ask current_span (\<lambda>sp. seq parse_u64 (\<lambda>v.
     if v = 0 \<or> MAX_LIMIT_VALUE < v then raise (CeLimitExceeded v MAX_LIMIT_VALUE (Some sp)) else ret v))"

definition STAGE_KEYWORDS :: "string list" where
  "STAGE_KEYWORDS = [''SELECT'', ''ORDER'', ''LIMIT'', ''OFFSET'', ''COUNT'', ''FIRST'', ''SUBJECTS'', ''OBJECTS'',
     ''HASHES'', ''GROUP'', ''PROJECT'']"

fun at_pipeline_stage :: "token \<Rightarrow> bool" where
  "at_pipeline_stage (Kw k) = (k \<in> set STAGE_KEYWORDS)"
| "at_pipeline_stage t = is_word ''SORT'' t"

definition sort_direction :: "bool parse" where
  "sort_direction = if_eat (Kw ''DESC'') (ret True) (seq (eat_exact (Kw ''ASC'')) (\<lambda>_. ret False))"

definition order_stage :: "span \<Rightarrow> pipeline_stage parse" where
  "order_stage sp = seq parse_identifier (\<lambda>f. seq sort_direction (\<lambda>d. ret (StOrderBy f d (Some sp))))"

definition parse_project_field :: "project_field parse" where
  "parse_project_field = seq parse_identifier (\<lambda>f. seq (optional (Kw ''AS'') parse_identifier) (\<lambda>a.
     ret \<lparr>pf_field = f, pf_alias = a\<rparr>))"

definition parse_pipeline_stage :: "pipeline_stage parse" where
  "parse_pipeline_stage = ask current_span (\<lambda>sp. on_peek (\<lambda>o'. case o' of
      None \<Rightarrow> unexpected_end ''pipeline stage''
    | Some st \<Rightarrow>
        (let t = st_token st in
         if t = Kw ''SELECT'' then then_advance (seq (comma_list parse_identifier) (\<lambda>fs. ret (StSelect fs (Some sp))))
         else if t = Kw ''ORDER'' then then_advance (seq (expect_exact (Kw ''BY'')) (\<lambda>_. order_stage sp))
         else if t = Kw ''LIMIT'' then then_advance (seq limit_value (\<lambda>v. ret (StLimit v (Some sp))))
         else if t = Kw ''OFFSET'' then then_advance (seq parse_u64 (\<lambda>v. ret (StOffset v (Some sp))))
         else if t = Kw ''COUNT'' then then_advance (ret (StCount (Some sp)))
         else if t = Kw ''FIRST'' then then_advance (ret (StFirst (Some sp)))
         else if t = Kw ''SUBJECTS'' then then_advance (ret (StSubjects (Some sp)))
         else if t = Kw ''OBJECTS'' then then_advance (ret (StObjects (Some sp)))
         else if t = Kw ''HASHES'' then then_advance (ret (StHashes (Some sp)))
         else if t = Kw ''GROUP''
         then then_advance (seq (expect_exact (Kw ''BY'')) (\<lambda>_. seq parse_identifier (\<lambda>f. ret (StGroupBy f (Some sp)))))
         else if t = Kw ''PROJECT''
         then then_advance (seq (comma_list parse_project_field) (\<lambda>fs. ret (StProject fs (Some sp))))
         else if is_word ''SORT'' t then then_advance (order_stage sp)
         else unexpected_at ''pipeline stage (SELECT, ORDER BY, LIMIT, OFFSET, COUNT, FIRST, SUBJECTS, OBJECTS, HASHES, GROUP BY, PROJECT)'' st None)))"

definition eat_pipe :: "unit parse" where
  "eat_pipe = if_eat (Sym ''|'')
     (ask current_span (\<lambda>sp. warn (CwDeprecatedPipeOperator (Some sp)) (ret ()))) (ret ())"

definition parse_pipeline :: "pipeline_stage list parse" where
  "parse_pipeline = repeat (\<lambda>ss.
     if_tok (\<lambda>t. t = Sym ''|'' \<or> at_pipeline_stage t)
       (if MAX_PIPELINE_STAGES \<le> length ss
        then ask current_span (\<lambda>sp. raise (CeTooManyPipelineStages (length ss + 1) MAX_PIPELINE_STAGES (Some sp)))
        else seq eat_pipe (\<lambda>_. seq parse_pipeline_stage (\<lambda>s. ret (Inl (ss @ [s])))))
       (ret (Inr ss))) []"

section \<open>WITH options\<close>

definition paren_arg :: "'a parse \<Rightarrow> 'a parse" where
  "paren_arg m = seq (expect_exact (Sym ''('')) (\<lambda>_. seq m (\<lambda>x. seq (expect_exact (Sym '')'')) (\<lambda>_. ret x)))"

definition opt_paren_arg :: "'a parse \<Rightarrow> 'a option parse" where
  "opt_paren_arg m = if_eat (Sym ''('')
     (seq m (\<lambda>x. seq (expect_exact (Sym '')'')) (\<lambda>_. ret (Some x)))) (ret None)"

text \<open>The options without an argument.\<close>

definition PLAIN_OPTIONS :: "(string \<times> with_option) list" where
  "PLAIN_OPTIONS = [(''SUPERSEDED'', WoSuperseded), (''SCORE_BREAKDOWN'', WoScoreBreakdown),
     (''EXPLANATION'', WoExplanation), (''PROVENANCE'', WoProvenance),
     (''CONTRADICTION_DETECTION'', WoContradictionDetection), (''QUERY_EXPANSION'', WoQueryExpansion),
     (''QUERY_DECOMPOSE'', WoQueryDecompose), (''HYDE'', WoHyde), (''CONFLICT_RESOLUTION'', WoConflictResolution),
     (''INCLUDE_SOURCES'', WoIncludeSources), (''ANNOTATE_RELATIVE_TIME'', WoAnnotateRelativeTime),
     (''AGGREGATION_INTENT'', WoAggregationIntent), (''PREFERENCE_ENRICHMENT'', WoPreferenceEnrichment)]"

text \<open>A level that must be one of a few words, in lower case.\<close>

definition level_word :: "string list \<Rightarrow> string \<Rightarrow> string \<Rightarrow> string parse" where
  "level_word ok expected hint = seq parse_identifier (\<lambda>w.
     if map ascii_lower_char w \<in> set ok then ret (map ascii_lower_char w)
     else ask prev_span (\<lambda>sp. raise (CeUnexpectedToken expected w (Some sp) (Some hint))))"

definition no_op_option :: "string \<Rightarrow> span \<Rightarrow> 'a \<Rightarrow> 'a option parse" where
  "no_op_option name sp x =
     warn (CwUnknownExtensionOption (name @ '' (parsed but executor no-op)'') (Some sp)) (ret (Some x))"

definition session_census_args :: "(nat option \<times> f64 option) parse" where
  "session_census_args = if_eat (Sym ''('')
     (seq parse_u64 (\<lambda>n. seq (optional (Sym '','') parse_number) (\<lambda>x.
      seq (expect_exact (Sym '')'')) (\<lambda>_. ret (Some n, x))))) (ret (None, None))"

text \<open>What follows an option keyword; \<^verbatim>\<open>None\<close> for a keyword that is no option.\<close>

definition cache_ttl :: "nat parse" where
  "cache_ttl = seq (if_eat (Kw ''TTL'') (expect_exact (Sym ''='')) (ret ())) (\<lambda>_. parse_u64)"

definition DISCLOSURE_LEVELS :: "string list" where
  "DISCLOSURE_LEVELS = [''summary'', ''headlines'', ''full'']"

definition CONSISTENCY_LEVELS :: "string list" where
  "CONSISTENCY_LEVELS = [''eventual'', ''bounded'', ''linearizable'']"

definition keyword_option :: "string \<Rightarrow> span \<Rightarrow> with_option option parse option" where
  "keyword_option k sp =
     (let with_arg = (\<lambda>con m. Some (seq (paren_arg m) (\<lambda>x. ret (Some (con x)))));
          with_opt = (\<lambda>con m. Some (seq (opt_paren_arg m) (\<lambda>x. ret (Some (con x)))))
      in case map_of PLAIN_OPTIONS k of
        Some w \<Rightarrow> Some (ret (Some w))
      | None \<Rightarrow>
         if k = ''DIVERSITY'' then Some (seq (opt_paren_arg parse_number) (\<lambda>x. ret (Some (WoDiversity x))))
         else if k = ''DEDUP'' then Some (seq (opt_paren_arg parse_field_name) (\<lambda>x. ret (Some (WoDedup x))))
         else if k = ''PROGRESSIVE_DISCLOSURE''
         then Some (seq (opt_paren_arg (level_word DISCLOSURE_LEVELS ''one of: summary, headlines, full''
                 ''progressive_disclosure level must be summary | headlines | full (spec 4).''))
               (\<lambda>x. no_op_option ''progressive_disclosure'' sp (WoProgressiveDisclosure x)))
         else if k = ''CONSISTENCY''
         then Some (seq (paren_arg (level_word CONSISTENCY_LEVELS ''one of: eventual, bounded, linearizable''
                 ''consistency level must be eventual | bounded | linearizable (spec 4).''))
               (\<lambda>x. no_op_option ''consistency'' sp (WoConsistency (Some x))))
         else if k = ''LOCALE''
         then Some (seq (paren_arg parse_string_literal) (\<lambda>x. no_op_option ''locale'' sp (WoLocale x)))
         else if k = ''CACHE'' then Some (seq (paren_arg cache_ttl) (\<lambda>x. no_op_option ''cache'' sp (WoCache x)))
         else if k = ''RERANK'' then with_opt WoRerank parse_string_literal
         else if k = ''LLM_RERANK'' then with_opt WoLlmRerank parse_string_literal
         else if k = ''RECENCY_WEIGHT'' then Some (seq (paren_arg parse_number) (\<lambda>x. ret (Some (WoRecencyWeight x))))
         else if k = ''MIN_SCORE'' then Some (seq (paren_arg parse_number) (\<lambda>x. ret (Some (WoMinScore x))))
         else if k = ''SESSION_AFFINITY'' then Some (seq (paren_arg parse_number) (\<lambda>x. ret (Some (WoSessionAffinity x))))
         else if k = ''SUBJECT_AFFINITY'' then Some (seq (paren_arg parse_number) (\<lambda>x. ret (Some (WoSubjectAffinity x))))
         else if k = ''MULTI_HOP'' then with_arg WoMultiHop parse_u64
         else if k = ''SESSION_COVERAGE'' then with_arg WoSessionCoverage parse_u64
         else if k = ''MAX_NAMESPACES'' then with_arg WoMaxNamespaces parse_u64
         else if k = ''EXHAUSTIVE'' then Some (seq (opt_paren_arg parse_u64) (\<lambda>x. ret (Some (WoExhaustive x))))
         else if k = ''SESSION_CENSUS'' then Some (seq session_census_args (\<lambda>(n, x). ret (Some (WoSessionCensus n x))))
         else None)"

text \<open>An unknown option is skipped with a warning.\<close>

definition unknown_option :: "stoken \<Rightarrow> 'a option parse" where
  "unknown_option st = ask_env (\<lambda>E.
     warn (CwUnknownExtensionOption (describe E (st_token st)) (Some (st_span st))) (then_advance (ret None)))"

definition parse_with_option :: "with_option option parse" where
  "parse_with_option = on_peek (\<lambda>o'. case o' of
      None \<Rightarrow> unexpected_end ''WITH option''
    | Some st \<Rightarrow>
        (case (case st_token st of Kw k \<Rightarrow> keyword_option k (st_span st) | _ \<Rightarrow> None) of
           Some m \<Rightarrow> then_advance m
         | None \<Rightarrow> unknown_option st))"

definition parse_with_clause :: "with_option list parse" where
  "parse_with_clause = seq (expect_exact (Kw ''WITH'')) (\<lambda>_. repeat (\<lambda>os.
     seq parse_with_option (\<lambda>x.
     let os' = os @ (case x of Some w \<Rightarrow> [w] | None \<Rightarrow> []) in
     if_eat (Sym '','')
       (if_tok (\<lambda>t. t \<noteq> Sym ''|'' \<and> t \<noteq> Kw ''FORMAT'') (ret (Inl os')) (ret (Inr os')))
       (ret (Inr os')))) [])"

section \<open>Templates\<close>

definition sections_none :: template_sections where
  "sections_none = \<lparr>ts_header = None, ts_element = None, ts_element_summary = None, ts_element_omit = None,
     ts_source_break = None, ts_footer = None\<rparr>"

definition get_section :: "string \<Rightarrow> template_sections \<Rightarrow> string option" where
  "get_section k t =
     (if k = ''HEADER'' then ts_header t else if k = ''ELEMENT'' then ts_element t
      else if k = ''ELEMENT_SUMMARY'' then ts_element_summary t else if k = ''ELEMENT_OMIT'' then ts_element_omit t
      else if k = ''SOURCE_BREAK'' then ts_source_break t else ts_footer t)"

definition put_section :: "string \<Rightarrow> string \<Rightarrow> template_sections \<Rightarrow> template_sections" where
  "put_section k b t =
     (if k = ''HEADER'' then t\<lparr>ts_header := Some b\<rparr> else if k = ''ELEMENT'' then t\<lparr>ts_element := Some b\<rparr>
      else if k = ''ELEMENT_SUMMARY'' then t\<lparr>ts_element_summary := Some b\<rparr>
      else if k = ''ELEMENT_OMIT'' then t\<lparr>ts_element_omit := Some b\<rparr>
      else if k = ''SOURCE_BREAK'' then t\<lparr>ts_source_break := Some b\<rparr> else t\<lparr>ts_footer := Some b\<rparr>)"

definition parse_template_sections :: "template_sections parse" where
  "parse_template_sections = repeat (\<lambda>out. on_peek (\<lambda>o'. case o' of
      None \<Rightarrow> ret (Inr out)
    | Some st \<Rightarrow> (case st_token st of
        Sect k b \<Rightarrow>
          (case b of
             Bare \<Rightarrow> ret (Inr out)
           | Body txt \<Rightarrow> then_advance (
               if get_section k out \<noteq> None
               then raise (CeTemplateSyntaxError (''section '' @ k @ '' is defined twice'') (Some (st_span st)))
               else ret (Inl (put_section k txt out))))
      | _ \<Rightarrow> ret (Inr out)))) sections_none"

definition parse_template_name :: "string parse" where
  "parse_template_name = if_tok is_string_literal parse_string_literal
     (ask current_span (\<lambda>sp. if_at (Kw ''AS'')
        (raise (CeUnexpectedToken ''a template name'' ''AS'' (Some sp)
           (Some (''Name the template: DEFINE TEMPLATE <name> AS '' @ dq ''...''))))
        (seq parse_label (\<lambda>n.
           if is_destructive_keyword n
           then raise (CeUnexpectedToken ''a template name'' n (Some sp)
                  (Some ''Choose a different name - CAL keeps destructive words out of its grammar entirely.''))
           else ret n))))"

section \<open>Formats\<close>

definition MAX_MULTI_FORMATS :: nat where "MAX_MULTI_FORMATS = 5"

definition FORMAT_NAMES :: "(string \<times> format_spec) list" where
  "FORMAT_NAMES = [(''JSON'', FsJson), (''YAML'', FsYaml), (''MARKDOWN'', FsMarkdown), (''TEXT'', FsText),
     (''SML'', FsSml), (''TOON'', FsToon), (''TRIPLES'', FsTriples), (''STRUCTURED'', FsSml),
     (''READABLE'', FsMarkdown), (''COMPACT'', FsText), (''DATA'', FsJson)]"

definition template_spec :: "format_spec parse" where
  "template_spec = if_tok is_word_token (seq parse_template_name (\<lambda>n. ret (FsTemplateRef n)))
     (if_eat (Sym ''{'')
        (seq parse_template_sections (\<lambda>ts. seq (expect_exact (Sym ''}'')) (\<lambda>_.
           if sections_empty ts
           then ask current_span (\<lambda>sp. raise (CeTemplateSyntaxError ''inline TEMPLATE must define at least one section'' (Some sp)))
           else ret (FsTemplateInline ts))))
        (seq parse_string_literal (\<lambda>t. ret (FsTemplate t))))"

definition preset_spec :: "format_spec parse" where
  "preset_spec = seq (if_eat (Sym ''('')
       (seq parse_string_literal (\<lambda>x. seq (expect_exact (Sym '')'')) (\<lambda>_. ret x))) parse_string_literal)
     (\<lambda>x. ret (FsPreset x))"

definition VALID_FORMATS :: string where
  "VALID_FORMATS = ''Valid formats: json, yaml, markdown, text, sml, toon, triples, csv, table, template '' @ dq ''...''
     @ '', preset('' @ dq ''...'' @ '')''"

definition parse_single_format_spec :: "format_spec parse" where
  "parse_single_format_spec = on_peek (\<lambda>o'. case o' of
      None \<Rightarrow> unexpected_end ''format type''
    | Some st \<Rightarrow>
        (let other = unexpected_at ''format type (json, yaml, markdown, text, sml, toon, triples, or preset name)'' st None in
         case st_token st of
           Kw k \<Rightarrow>
             (case map_of FORMAT_NAMES k of
                Some f \<Rightarrow> then_advance (ret f)
              | None \<Rightarrow> if k = ''TEMPLATE'' then then_advance template_spec else other)
         | Ident i \<Rightarrow>
             if eq_ignore_ascii_case i ''preset'' then then_advance preset_spec
             else if eq_ignore_ascii_case i ''csv'' then then_advance (ret FsCsv)
             else if eq_ignore_ascii_case i ''table'' then then_advance (ret FsTable)
             else raise (CeUnexpectedToken ''format type (json, yaml, markdown, text, sml, toon, triples, csv, table, template, or preset)''
                    i (Some (st_span st)) (Some VALID_FORMATS))
         | _ \<Rightarrow> other))"

definition format_alias :: "string parse" where
  "format_alias = ask current_span (\<lambda>sp. seq parse_label (\<lambda>n.
     if is_destructive_keyword n
     then raise (CeUnexpectedToken ''an output name'' n (Some sp)
            (Some ''Choose a different alias - CAL keeps destructive words out of its grammar entirely.''))
     else ret n))"

definition format_key :: "format_spec \<Rightarrow> string option \<Rightarrow> string" where
  "format_key f a = (case a of Some x \<Rightarrow> x | None \<Rightarrow> canonical_key f)"

text \<open>One entry of a bracketed list: the entries and the keys seen so far.\<close>

definition format_entry :: "aliased_format list \<times> string list \<Rightarrow> (aliased_format list \<times> string list) parse" where
  "format_entry acc = seq parse_single_format_spec (\<lambda>f. seq (optional (Kw ''AS'') format_alias) (\<lambda>a.
     let key = format_key f a in
     if key \<in> set (snd acc)
     then (if a \<noteq> None then ask current_span (\<lambda>sp. raise (CeDuplicateFormatKey key (Some sp))) else ret acc)
     else ret (fst acc @ [\<lparr>af_spec = f, af_alias = a\<rparr>], snd acc @ [key])))"

definition parse_format_list :: "format_clause parse" where
  "parse_format_list = ask current_span (\<lambda>start. seq (expect_exact (Sym ''['')) (\<lambda>_.
     if_at (Sym '']'')
       (raise (CeUnexpectedToken ''at least one format type in format list'' '']'' (Some start)
          (Some ''FORMAT [json] or FORMAT [markdown, json]'')))
       (seq (repeat (\<lambda>acc. seq (format_entry acc) (\<lambda>acc'.
               if_eat (Sym '','') (ret (Inl acc')) (ret (Inr (fst acc'))))) ([], [])) (\<lambda>es.
        seq (expect_exact (Sym '']'')) (\<lambda>_.
          if MAX_MULTI_FORMATS < length es
          then raise (CeTooManyFormats (length es) MAX_MULTI_FORMATS (Some start))
          else ret (FmtMulti es))))))"

text \<open>The unbracketed list, which drops repetitions.\<close>

definition format_tail :: "aliased_format list \<Rightarrow> aliased_format list parse" where
  "format_tail es = repeat (\<lambda>es. if_eat (Sym '','')
       (seq parse_single_format_spec (\<lambda>f.
          ret (Inl (if list_ex (\<lambda>e. af_spec e = f) es then es else es @ [\<lparr>af_spec = f, af_alias = None\<rparr>]))))
       (ret (Inr es))) es"

definition parse_format_value :: "format_clause parse" where
  "parse_format_value = if_at (Sym ''['') parse_format_list
     (seq parse_single_format_spec (\<lambda>f. if_at (Sym '','')
        (seq (format_tail [\<lparr>af_spec = f, af_alias = None\<rparr>]) (\<lambda>es.
           if MAX_MULTI_FORMATS < length es
           then ask current_span (\<lambda>sp. raise (CeTooManyFormats (length es) MAX_MULTI_FORMATS (Some sp)))
           else ret (FmtMulti es)))
        (ret (FmtSingle f))))"

definition parse_format :: "format_clause parse" where
  "parse_format = seq (expect_exact (Kw ''FORMAT'')) (\<lambda>_. parse_format_value)"

definition parse_as_format :: "format_clause parse" where
  "parse_as_format = seq (expect_exact (Kw ''AS'')) (\<lambda>_. parse_format_value)"

section \<open>User variables\<close>

definition MAX_USER_VARS :: nat where "MAX_USER_VARS = 10"
definition MAX_USER_VAR_SIZE :: nat where "MAX_USER_VAR_SIZE = 1024"

definition peek_next_is_of :: "parser \<Rightarrow> bool" where
  "peek_next_is_of p = (peek_token 1 p = Some (Kw ''OF''))"

definition peek_next_is_vars :: "parser \<Rightarrow> bool" where
  "peek_next_is_vars p = (peek_token 0 p = Some (Kw ''WITH'') \<and> peek_token 1 p = Some (Kw ''VARS''))"

definition check_var_name :: "span \<Rightarrow> string \<Rightarrow> unit parse" where
  "check_var_name sp key =
     (let bad = (\<lambda>e. raise (CeUnexpectedToken e key (Some sp) (Some ''variable names must match [a-zA-Z_][a-zA-Z0-9_]*''))) in
      if key = [] \<or> \<not> is_ident_start (hd key)
      then bad ''valid variable name (must start with a letter or underscore)''
      else if \<not> list_all is_ident_char key
      then bad ''valid variable name (alphanumeric and underscores only)''
      else ret ())"

definition user_var :: "span \<Rightarrow> (string \<times> string) list \<Rightarrow> (string \<times> string) list parse" where
  "user_var sp vars = seq parse_string_literal (\<lambda>key. seq (check_var_name sp key) (\<lambda>_.
     seq (expect_exact (Sym '':'')) (\<lambda>_. seq parse_string_literal (\<lambda>v.
     if MAX_USER_VAR_SIZE < byte_len v
     then raise (CeUserVarTooLarge key (byte_len v) MAX_USER_VAR_SIZE (Some sp))
     else (let vars' = bt_insert key v vars in
       if MAX_USER_VARS < length vars' then raise (CeTooManyUserVars (length vars') MAX_USER_VARS (Some sp))
       else ret vars')))))"

definition parse_user_vars :: "(string \<times> string) list parse" where
  "parse_user_vars = ask current_span (\<lambda>sp. seq (expect_exact (Kw ''WITH'')) (\<lambda>_.
     seq (expect_exact (Kw ''VARS'')) (\<lambda>_. seq (expect_exact (Sym ''{'')) (\<lambda>_.
     if_eat (Sym ''}'') (ret [])
       (seq (repeat (\<lambda>vs. seq (user_var sp vs) (\<lambda>vs'.
               if_eat (Sym '','') (if_at (Sym ''}'') (ret (Inr vs')) (ret (Inl vs'))) (ret (Inr vs')))) [])
          (\<lambda>vs. seq (expect_exact (Sym ''}'')) (\<lambda>_. ret vs)))))))"

section \<open>Progress\<close>

lemma clause_rules [parse_simps]:
  "safe (n - Suc 0) False m \<Longrightarrow> safe n b (clause t m con)"
  by (simp add: clause_def parse_simps)

lemma search_clause_rules [parse_simps]:
  "safe n b parse_about_clause" "safe n b parse_like_clause" "safe n b parse_since_clause"
  "safe n b parse_until_clause" "safe n b parse_between_clause" "safe n b parse_recent_clause"
  by (simp_all add: parse_about_clause_def parse_like_clause_def parse_since_clause_def parse_until_clause_def
      parse_between_clause_def parse_recent_clause_def parse_simps)

lemma limit_value_rules [parse_simps]: "safe n b limit_value" "strict n b limit_value"
  by (simp_all add: limit_value_def parse_simps)

lemma pipeline_stage_rules [parse_simps]: "strict n b parse_pipeline_stage"
  by (simp add: parse_pipeline_stage_def order_stage_def sort_direction_def parse_project_field_def Let_def parse_simps)

lemma pipeline_rules [parse_simps]: "safe n b parse_pipeline"
  by (simp add: parse_pipeline_def eat_pipe_def parse_simps)

lemma arg_rules [parse_simps]:
  "safe (n - Suc 0) False m \<Longrightarrow> safe n b (paren_arg m)"
  "safe (n - Suc 0) False m \<Longrightarrow> safe n b (opt_paren_arg m)"
  by (simp_all add: paren_arg_def opt_paren_arg_def parse_simps)

lemma level_word_rules [parse_simps]: "safe n b (level_word ok e h)"
  by (simp add: level_word_def parse_simps)

lemma no_op_rules [parse_simps]: "safe n b (no_op_option k sp x)"
  by (simp add: no_op_option_def parse_simps)

lemma keyword_option_safe: "keyword_option k sp = Some m \<Longrightarrow> safe n b m"
  by (auto simp: keyword_option_def cache_ttl_def session_census_args_def Let_def parse_simps
      split: option.splits if_splits)

lemma unknown_option_rules [parse_simps]: "strict n True (unknown_option st)" "safe n True (unknown_option st)"
  by (simp_all add: unknown_option_def parse_simps)

lemma with_option_rules [parse_simps]: "strict n b parse_with_option"
  unfolding parse_with_option_def
  by (auto simp: parse_simps keyword_option_safe split: token.splits)

lemma with_clause_rules [parse_simps]: "safe n b parse_with_clause" "strict n b parse_with_clause"
  by (simp_all add: parse_with_clause_def Let_def parse_simps)

lemma template_rules [parse_simps]:
  "safe n b parse_template_sections" "safe n b parse_template_name" "strict n b parse_template_name"
  by (simp_all add: parse_template_sections_def parse_template_name_def parse_simps split: section_body.split)

lemma format_spec_rules [parse_simps]: "safe n b parse_single_format_spec" "strict n b parse_single_format_spec"
  by (simp_all add: parse_single_format_spec_def template_spec_def preset_spec_def Let_def parse_simps)

lemma format_entry_rules [parse_simps]: "strict n b (format_entry acc)"
  by (simp add: format_entry_def format_alias_def Let_def parse_simps)

lemma format_value_rules [parse_simps]: "safe n b parse_format_value"
  by (simp add: parse_format_value_def parse_format_list_def format_tail_def parse_simps)

lemma format_rules [parse_simps]:
  "safe n b parse_format" "strict n b parse_format" "safe n b parse_as_format" "strict n b parse_as_format"
  by (simp_all add: parse_format_def parse_as_format_def parse_simps)

lemma user_var_rules [parse_simps]: "strict n b (user_var sp vs)"
  by (simp add: user_var_def check_var_name_def Let_def parse_simps)

lemma user_vars_rules [parse_simps]: "strict n b parse_user_vars"
  by (simp add: parse_user_vars_def parse_simps)

end
