(* ===== verification/Cal_Recall.thy ===== *)
theory Cal_Recall
  imports Cal_Clauses
begin

text \<open>
  \<^verbatim>\<open>RECALL\<close>, set operations, \<^verbatim>\<open>ASSEMBLE\<close> and the statements that combine others
  (\<^verbatim>\<open>dejadb-cal/src/parser.rs\<close>). The parser of statements is the argument \<open>rec\<close>; the
  dispatch, which closes the recursion, is in \<^verbatim>\<open>Cal_Query\<close>.
\<close>

section \<open>RECALL\<close>

text \<open>The walk over a condition tree, with an explicit stack.\<close>

function refers_to :: "string \<Rightarrow> condition list \<Rightarrow> bool" where
  "refers_to f stack =
     (case stack of
        [] \<Rightarrow> False
      | c # st \<Rightarrow>
          (case c of
             Comparison g _ _ _ \<Rightarrow> if g = f then True else refers_to f st
           | CondIn g _ _ \<Rightarrow> if g = f then True else refers_to f st
           | CondNotIn g _ _ \<Rightarrow> if g = f then True else refers_to f st
           | CondAnd l r _ \<Rightarrow> refers_to f (r # l # st)
           | CondOr l r _ \<Rightarrow> refers_to f (r # l # st)
           | CondNot d _ \<Rightarrow> refers_to f (d # st)
           | _ \<Rightarrow> refers_to f st))"
  by pat_completeness auto
termination by (relation "measure (\<lambda>(f, st). sum_list (map (\<lambda>c. 2 * size c + 1) st))") auto

declare refers_to.simps [simp del]

definition where_refers_to :: "where_clause option \<Rightarrow> string \<Rightarrow> bool" where
  "where_refers_to w f = (case w of None \<Rightarrow> False | Some c \<Rightarrow> refers_to f [wh_condition c])"

definition parse_paren_statement :: "'s parse \<Rightarrow> 's parse" where
  "parse_paren_statement rec = seq (expect_exact (Sym ''('')) (\<lambda>_. seq (nested rec) (\<lambda>s.
     seq (expect_exact (Sym '')'')) (\<lambda>_. ret s)))"

definition parse_contradictions_clause :: "'s parse \<Rightarrow> 's contradictions_clause option parse" where
  "parse_contradictions_clause rec = ask current_span (\<lambda>sp. if_eat (Kw ''CONTRADICTIONS'')
     (seq (eat_exact (Kw ''OF'')) (\<lambda>_.
      if_at (Sym ''('')
        (seq (parse_paren_statement rec) (\<lambda>s. ret (Some (ContradictionsClause (Some s) (Some sp)))))
        (ret (Some (ContradictionsClause None (Some sp))))))
     (ret None))"

text \<open>Where the grain type is left out, any type is meant.\<close>

definition CLAUSE_STARTS :: "token list" where
  "CLAUSE_STARTS = [Kw ''WHERE'', Kw ''RECENT'', Kw ''SINCE'', Kw ''UNTIL'', Kw ''BETWEEN'', Kw ''ABOUT'', Kw ''LIKE'',
     Kw ''LIMIT'', Sym ''|'']"

definition recall_grain_type :: "gplural parse" where
  "recall_grain_type = if_eat (Sym ''*'') (ret AllGrains)
     (if_tok (\<lambda>t. t \<in> set CLAUSE_STARTS) (ret AllGrains) parse_grain_type_plural)"

definition MY_WARNING :: string where
  "MY_WARNING = ''MY (shorthand - will be desugared at execution time)''"

definition recall_my :: "bool parse" where
  "recall_my = if_eat (Kw ''MY'') (ask prev_span (\<lambda>sp. warn (CwUnknownRelation MY_WARNING (Some sp)) (ret True)))
     (ret False)"

definition recall_where :: "where_clause option parse" where
  "recall_where = seq parse_where_clause (\<lambda>w. case w of
      Some c \<Rightarrow> ret (Some c)
    | None \<Rightarrow> ask current_span (\<lambda>sp. if_eat (Kw ''AND'')
        (seq parse_condition (\<lambda>c. ret (Some \<lparr>wh_condition = c, wh_span = Some sp\<rparr>))) (ret None)))"

definition if_none :: "'a option \<Rightarrow> 'a option parse \<Rightarrow> 'a option parse" where
  "if_none x m = (case x of None \<Rightarrow> m | Some _ \<Rightarrow> ret x)"

definition recall_limit :: "nat option parse" where
  "recall_limit = optional (Kw ''LIMIT'') limit_value"

text \<open>Pairs of clauses whose combination is ambiguous.\<close>

definition conflict :: "span \<Rightarrow> string \<Rightarrow> string \<Rightarrow> string \<Rightarrow> cal_error" where
  "conflict sp a b hint = CeFieldNotOnGrainType (a @ '' + '' @ b) ''RECALL'' (Some sp)
     (Some (''Combination ambiguous per spec 9.8: '' @ a @ '' with '' @ b @ ''. '' @ hint))"

definition recall_conflict :: "span \<Rightarrow> bool \<Rightarrow> 's recall_stmt \<Rightarrow> cal_error option" where
  "recall_conflict sp my r =
     (if rs_about r \<noteq> None \<and> rs_like r \<noteq> None
      then Some (conflict sp ''ABOUT'' ''LIKE'' ''use ABOUT for semantic search or LIKE for textual similarity, not both.'')
      else if rs_recent r \<noteq> None \<and> rs_limit r \<noteq> None
      then Some (conflict sp ''RECENT'' ''LIMIT'' ''RECENT N already caps the result count; remove LIMIT.'')
      else if rs_since r \<noteq> None \<and> where_refers_to (rs_where r) ''time''
      then Some (conflict sp ''SINCE'' ''WHERE time'' ''SINCE is shorthand for WHERE time - pick one.'')
      else if rs_since r \<noteq> None \<and> rs_between r \<noteq> None
      then Some (conflict sp ''SINCE'' ''BETWEEN'' ''SINCE sets a lower bound; BETWEEN gives an explicit range - pick one.'')
      else if my \<and> where_refers_to (rs_where r) ''user_id''
      then Some (conflict sp ''MY'' ''WHERE user_id''
             ''MY desugars to `WHERE user_id = $current_user_id` - remove the explicit clause.'')
      else None)"

definition parse_recall_stmt :: "'s parse \<Rightarrow> 's recall_stmt parse" where
  "parse_recall_stmt rec = ask current_span (\<lambda>start. seq (expect_exact (Kw ''RECALL'')) (\<lambda>_.
     seq recall_my (\<lambda>my. seq recall_grain_type (\<lambda>g.
     seq parse_about_clause (\<lambda>about. seq parse_like_clause (\<lambda>like. seq parse_since_clause (\<lambda>since1.
     seq parse_until_clause (\<lambda>until1. seq parse_between_clause (\<lambda>between. seq recall_where (\<lambda>wh.
     seq (if_none since1 parse_since_clause) (\<lambda>since. seq (if_none until1 parse_until_clause) (\<lambda>until.
     seq parse_recent_clause (\<lambda>recent. seq recall_limit (\<lambda>limit.
     seq (parse_contradictions_clause rec) (\<lambda>contra. ask prev_span (\<lambda>e.
     let r = RecallStmt g about wh recent since until like between contra limit None (Some (span_to start e))
     in case recall_conflict start my r of Some err \<Rightarrow> raise err | None \<Rightarrow> ret r))))))))))))))))"

section \<open>Set operations\<close>

definition MAX_SET_OPERANDS :: nat where "MAX_SET_OPERANDS = 4"

fun set_op_of :: "token \<Rightarrow> set_op option" where
  "set_op_of (Kw k) =
     (if k = ''UNION'' then Some SoUnion else if k = ''INTERSECT'' then Some SoIntersect
      else if k = ''EXCEPT'' then Some SoExcept else None)"
| "set_op_of _ = None"

definition set_operand :: "statement parse \<Rightarrow> statement parse" where
  "set_operand rec = if_at (Sym ''('') (parse_paren_statement rec)
     (seq (parse_recall_stmt rec) (\<lambda>r. ret (SRecall r)))"

text \<open>Every further operator continues the chain, whichever of the three it is.\<close>

definition set_operands :: "statement parse \<Rightarrow> statement list \<Rightarrow> statement list parse" where
  "set_operands rec ops = repeat (\<lambda>ops. if_tok (\<lambda>t. set_op_of t \<noteq> None)
     (if MAX_SET_OPERANDS \<le> length ops
      then ask current_span (\<lambda>sp. raise (CeTooManySetOperands (length ops + 1) MAX_SET_OPERANDS (Some sp)))
      else then_advance (seq (set_operand rec) (\<lambda>s. ret (Inl (ops @ [s])))))
     (ret (Inr ops))) ops"

definition parse_set_op_tail :: "statement parse \<Rightarrow> statement \<Rightarrow> statement parse" where
  "parse_set_op_tail rec first = ask current_span (\<lambda>start. on_peek (\<lambda>o'. case o' of
      None \<Rightarrow> ret first
    | Some st \<Rightarrow> (case set_op_of (st_token st) of
        None \<Rightarrow> ret first
      | Some op \<Rightarrow> then_advance (seq (set_operand rec) (\<lambda>s.
          seq (set_operands rec [first, s]) (\<lambda>ops. since_span start (SSetOp op ops)))))))"

section \<open>ASSEMBLE\<close>

definition MAX_CONTEXT_NAME_LEN :: nat where "MAX_CONTEXT_NAME_LEN = 64"
definition MAX_FOR_LEN :: nat where "MAX_FOR_LEN = 256"
definition MAX_SOURCES :: nat where "MAX_SOURCES = 8"
definition MAX_BUDGET :: nat where "MAX_BUDGET = 16000"

definition assemble_topic :: "span \<Rightarrow> string parse" where
  "assemble_topic start =
     seq (on_peek (\<lambda>o'. case o' of
        None \<Rightarrow> ret []
      | Some st \<Rightarrow> (case st_token st of
          StringLiteral _ \<Rightarrow> parse_string_literal
        | Ident w \<Rightarrow> then_advance (ret w)
        | _ \<Rightarrow> ret []))) (\<lambda>w.
     if MAX_CONTEXT_NAME_LEN < length w
     then raise (CeUnexpectedToken (''context name <= '' @ nat_str MAX_CONTEXT_NAME_LEN @ '' characters'')
            (nat_str (length w) @ ''-character context name'') (Some start)
            (Some (''Shorten the ASSEMBLE context name (spec 8.2: max '' @ nat_str MAX_CONTEXT_NAME_LEN @ '' chars).'')))
     else ret w)"

definition assemble_for :: "span \<Rightarrow> string option parse" where
  "assemble_for start = optional (Kw ''FOR'') (seq parse_string_literal (\<lambda>s.
     if MAX_FOR_LEN < length s
     then raise (CeUnexpectedToken (''FOR string <= '' @ nat_str MAX_FOR_LEN @ '' characters'')
            (nat_str (length s) @ ''-character FOR clause'') (Some start)
            (Some (''Shorten the ASSEMBLE FOR string (spec 8.2: max '' @ nat_str MAX_FOR_LEN @ '' chars).'')))
     else ret s))"

definition with_not_vars :: "with_option list parse" where
  "with_not_vars = ask peek_next_is_vars (\<lambda>vars.
     if_tok (\<lambda>t. t = Kw ''WITH'' \<and> \<not> vars) parse_with_clause (ret []))"

definition parse_assemble_source_query :: "statement parse \<Rightarrow> (statement \<times> with_option list) parse" where
  "parse_assemble_source_query rec = if_at (Sym ''('')
     (seq (expect_exact (Sym ''('')) (\<lambda>_. seq (nested rec) (\<lambda>s. seq with_not_vars (\<lambda>ws.
        seq (expect_exact (Sym '')'')) (\<lambda>_. ret (s, ws))))))
     (seq (parse_recall_stmt rec) (\<lambda>r. ret (SRecall r, [])))"

definition named_source :: "statement parse \<Rightarrow> statement named_source parse" where
  "named_source rec = ask current_span (\<lambda>sp. seq parse_label (\<lambda>l. seq (expect_exact (Sym '':'')) (\<lambda>_.
     seq (parse_assemble_source_query rec) (\<lambda>(s, ws). seq with_not_vars (\<lambda>ws'.
     ret (NamedSource l s (ws @ ws') (Some sp)))))))"

definition hash_list :: "string list parse" where
  "hash_list = repeat (\<lambda>hs. if_tok is_hash_literal
     (seq parse_hash_literal (\<lambda>h. if_eat (Sym '','') (ret (Inl (hs @ [h]))) (ret (Inr (hs @ [h])))))
     (ret (Inr hs))) []"

text \<open>A bare grain type stands for a \<^verbatim>\<open>RECALL\<close> of it.\<close>

definition implicit_recall :: "span \<Rightarrow> gplural \<Rightarrow> 's recall_stmt parse" where
  "implicit_recall sp g = seq parse_where_clause (\<lambda>w. seq parse_recent_clause (\<lambda>n.
     ret (RecallStmt g None w n None None None None None None None (Some sp))))"

definition parse_assemble_source :: "'s parse \<Rightarrow> 's asm_source parse" where
  "parse_assemble_source rec = on_peek (\<lambda>o'. case o' of
      None \<Rightarrow> unexpected_end ''FROM source''
    | Some st \<Rightarrow>
        (let other = unexpected_at ''source (RECALL ..., $parameter, sha256:..., grain type, or (RECALL ...))'' st None in
         case st_token st of
           Parameter _ \<Rightarrow> seq parse_parameter (\<lambda>x. ret (SrcParameter x))
         | HashLiteral _ \<Rightarrow> seq hash_list (\<lambda>hs. ret (SrcHashes hs))
         | Ident i \<Rightarrow>
             (case plural_parse i of
                Some g \<Rightarrow> then_advance (seq (implicit_recall (st_span st) g) (\<lambda>r. ret (SrcQuery r)))
              | None \<Rightarrow> other)
         | t \<Rightarrow>
             if t = Sym ''('' then then_advance (seq (nested (parse_recall_stmt rec)) (\<lambda>r.
               seq (expect_exact (Sym '')'')) (\<lambda>_. ret (SrcQuery r))))
             else if t = Kw ''RECALL'' then seq (parse_recall_stmt rec) (\<lambda>r. ret (SrcQuery r))
             else other))"

text \<open>A label followed by a colon starts a list of named sources.\<close>

definition parse_assemble_from_clause ::
  "statement parse \<Rightarrow> (statement asm_source \<times> statement named_source list option) parse" where
  "parse_assemble_from_clause rec = ask (peek_token 1) (\<lambda>next.
     if_tok (\<lambda>t. next = Some (Sym '':'') \<and> is_word_token t)
       (seq (comma_list (named_source rec)) (\<lambda>ss. ret (SrcParameter ''_multi_source'', Some ss)))
       (seq (parse_assemble_source rec) (\<lambda>s. ret (s, None))))"

fun first_repeated :: "string list \<Rightarrow> 's named_source list \<Rightarrow> 's named_source option" where
  "first_repeated seen [] = None"
| "first_repeated seen (s # ss) =
     (if ns_label s \<in> set seen then Some s else first_repeated (ns_label s # seen) ss)"

definition check_sources :: "span \<Rightarrow> 's named_source list option \<Rightarrow> unit parse" where
  "check_sources start o' = (case o' of
      None \<Rightarrow> ret ()
    | Some ss \<Rightarrow>
        if MAX_SOURCES < length ss then raise (CeAssembleTooManySources (length ss) MAX_SOURCES (Some start))
        else (case first_repeated [] ss of
            Some s \<Rightarrow> raise (CeAssembleDuplicateLabel (ns_label s) (ns_span s))
          | None \<Rightarrow> ret ()))"

fun budget_unit_of :: "token \<Rightarrow> budget_unit option" where
  "budget_unit_of (Ident i) =
     (if map ascii_lower_char i = ''tokens'' then Some BuTokens
      else if map ascii_lower_char i = ''grains'' then Some BuGrains else None)"
| "budget_unit_of _ = None"

definition unit_name :: "budget_unit \<Rightarrow> string" where
  "unit_name u = (case u of BuTokens \<Rightarrow> ''tokens'' | BuGrains \<Rightarrow> ''grains'')"

definition assemble_budget :: "budget_spec option parse" where
  "assemble_budget = optional (Kw ''BUDGET'') (ask current_span (\<lambda>sp. seq parse_u64 (\<lambda>raw.
     if u32_max < raw then raise (CeAssembleBudgetExceeded raw MAX_BUDGET ''tokens'' (Some sp))
     else seq (on_peek (\<lambda>o'. case o' of
            None \<Rightarrow> ret BuTokens
          | Some st \<Rightarrow> (case budget_unit_of (st_token st) of
              Some u \<Rightarrow> then_advance (ret u)
            | None \<Rightarrow> ret BuTokens))) (\<lambda>u.
          if raw = 0 \<or> MAX_BUDGET < raw
          then raise (CeAssembleBudgetExceeded raw MAX_BUDGET (unit_name u) (Some sp))
          else ret \<lparr>bg_tokens = raw, bg_unit = u, bg_span = Some sp\<rparr>))))"

text \<open>\<^verbatim>\<open>PRIORITY a > b > c\<close> gives evenly spaced weights, rounded to doubles.\<close>

definition ordered_weight :: "cal_env \<Rightarrow> nat \<Rightarrow> nat \<Rightarrow> f64" where
  "ordered_weight E n i = ce_round E ((of_nat n - of_nat i) / of_nat n)"

definition priority_order :: "priority_spec list parse" where
  "priority_order = seq (repeat (\<lambda>ls. ask current_span (\<lambda>sp. seq parse_label (\<lambda>l.
       if_eat (Sym ''>'') (ret (Inl (ls @ [(l, sp)]))) (ret (Inr (ls @ [(l, sp)])))))) []) (\<lambda>ls.
     ask_env (\<lambda>E. ret (map (\<lambda>(i, (l, sp)).
       \<lparr>pr_label = l, pr_weight = ordered_weight E (length ls) i, pr_span = Some sp\<rparr>) (enumerate 0 ls))))"

definition unit_interval :: "f64 \<Rightarrow> bool" where
  "unit_interval x = (f64_ge x (Finite 0) \<and> f64_ge (Finite 1) x)"

definition priority_weight :: "priority_spec parse" where
  "priority_weight = ask current_span (\<lambda>sp. seq parse_label (\<lambda>l. seq (expect_exact (Sym '':'')) (\<lambda>_.
     seq parse_number (\<lambda>w.
       if \<not> unit_interval w
       then ask_env (\<lambda>E. raise (CeUnexpectedToken ''weight between 0.0 and 1.0'' (ce_show E w) (Some sp)
              (Some ''PRIORITY weights must be in the range 0.0 to 1.0'')))
       else ret \<lparr>pr_label = l, pr_weight = w, pr_span = Some sp\<rparr>))))"

definition assemble_priority :: "priority_spec list option parse" where
  "assemble_priority = optional (Kw ''PRIORITY'') (ask (peek_token 1) (\<lambda>next.
     if next = Some (Sym '':'') then comma_list priority_weight else priority_order))"

definition check_priority :: "priority_spec list option \<Rightarrow> 's named_source list option \<Rightarrow> unit parse" where
  "check_priority ps ss = (case (ps, ss) of
      (Some specs, Some srcs) \<Rightarrow>
        (case find (\<lambda>s. pr_label s \<notin> ns_label ` set srcs) specs of
           Some s \<Rightarrow> raise (CeAssemblePriorityMismatch (pr_label s) (pr_span s))
         | None \<Rightarrow> ret ())
    | _ \<Rightarrow> ret ())"

fun dedup_options :: "with_option list \<Rightarrow> assemble_with list" where
  "dedup_options [] = []"
| "dedup_options (WoDedup f # os) = \<lparr>aw_dedup = f\<rparr> # dedup_options os"
| "dedup_options (_ # os) = dedup_options os"

fun is_dedup :: "with_option \<Rightarrow> bool" where
  "is_dedup (WoDedup _) = True" | "is_dedup _ = False"

definition assemble_with_clause :: "(assemble_with list \<times> with_option list) parse" where
  "assemble_with_clause = ask (peek_token 1) (\<lambda>next.
     if_tok (\<lambda>t. t = Kw ''WITH'' \<and> next = Some (Kw ''DEDUP''))
       (seq parse_with_clause (\<lambda>os. ret (dedup_options os, filter (\<lambda>x. \<not> is_dedup x) os)))
       (ret ([], [])))"

definition check_assemble_where :: "'s named_source list option \<Rightarrow> where_clause option \<Rightarrow> unit parse" where
  "check_assemble_where ss w = (case (ss, w) of
      (Some _, Some c) \<Rightarrow> raise (CeUnexpectedToken ''BUDGET, PRIORITY, FORMAT, or WITH'' ''WHERE'' (wh_span c)
         (Some ''WHERE is not supported with multi-source ASSEMBLE - apply WHERE inside each source's RECALL instead''))
    | _ \<Rightarrow> ret ())"

definition parse_assemble :: "statement parse \<Rightarrow> statement assemble_stmt parse" where
  "parse_assemble rec = ask current_span (\<lambda>start. seq (expect_exact (Kw ''ASSEMBLE'')) (\<lambda>_.
     seq (assemble_topic start) (\<lambda>topic. seq (assemble_for start) (\<lambda>for_whom.
     seq (expect_exact (Kw ''FROM'')) (\<lambda>_. seq (parse_assemble_from_clause rec) (\<lambda>(from, sources).
     seq (check_sources start sources) (\<lambda>_. seq parse_where_clause (\<lambda>w.
     seq (check_assemble_where sources w) (\<lambda>_. seq assemble_budget (\<lambda>budget.
     seq assemble_priority (\<lambda>priority. seq (check_priority priority sources) (\<lambda>_.
     seq (if_at (Kw ''FORMAT'') (seq parse_format (\<lambda>f. ret (Some f))) (ret None)) (\<lambda>fmt.
     seq assemble_with_clause (\<lambda>(aw, os).
     since_span start (AssembleStmt topic from w (if topic = [] then None else Some topic) sources budget priority
       fmt for_whom aw os False)))))))))))))))"

definition set_streaming :: "'s assemble_stmt \<Rightarrow> 's assemble_stmt" where
  "set_streaming a = AssembleStmt (as_topic a) (as_from a) (as_where a) (as_context_name a) (as_sources a)
     (as_budget a) (as_priority a) (as_format a) (as_for_whom a) (as_assemble_with a) (as_with_options a) True
     (as_span a)"

definition parse_stream_assemble :: "statement parse \<Rightarrow> statement parse" where
  "parse_stream_assemble rec = seq (expect_exact (Kw ''STREAM'')) (\<lambda>_. seq (parse_assemble rec) (\<lambda>a.
     ret (SAssemble (set_streaming a))))"

section \<open>EXISTS, HISTORY, EXPLAIN, DESCRIBE\<close>

definition hash_equals :: "cval \<Rightarrow> where_clause" where
  "hash_equals v = \<lparr>wh_condition = Comparison ''hash'' CmpEq v None, wh_span = None\<rparr>"

definition parse_exists :: "statement parse" where
  "parse_exists = ask current_span (\<lambda>start. seq (expect_exact (Kw ''EXISTS'')) (\<lambda>_.
     if_tok is_hash_literal
       (seq parse_hash_literal (\<lambda>h. since_span start (\<lambda>sp.
          SExists \<lparr>ex_grain_type = AllGrains, ex_where = Some (hash_equals (CvHash h)), ex_about = None, ex_span = sp\<rparr>)))
       (if_tok is_parameter
         (seq parse_parameter (\<lambda>x. since_span start (\<lambda>sp.
            SExists \<lparr>ex_grain_type = AllGrains, ex_where = Some (hash_equals (CvParameter x)), ex_about = None,
              ex_span = sp\<rparr>)))
         (seq parse_grain_type_plural (\<lambda>g. seq parse_about_clause (\<lambda>a. seq parse_where_clause (\<lambda>w.
            since_span start (\<lambda>sp. SExists \<lparr>ex_grain_type = g, ex_where = w, ex_about = a, ex_span = sp\<rparr>))))))))"

definition diff_target :: "string option parse" where
  "diff_target = optional (Kw ''DIFF'') parse_hash_literal"

definition parse_history :: "statement parse" where
  "parse_history = ask current_span (\<lambda>start. seq (expect_exact (Kw ''HISTORY'')) (\<lambda>_.
     seq (eat_exact (Kw ''OF'')) (\<lambda>_.
     if_at (Kw ''WHERE'')
       (seq parse_where_clause (\<lambda>w. seq diff_target (\<lambda>d. since_span start (\<lambda>sp.
          SHistory \<lparr>hy_hash = [], hy_where = w, hy_diff = d, hy_span = sp\<rparr>))))
       (seq parse_hash_literal (\<lambda>h. seq diff_target (\<lambda>d. since_span start (\<lambda>sp.
          SHistory \<lparr>hy_hash = h, hy_where = None, hy_diff = d, hy_span = sp\<rparr>)))))))"

fun no_plan_name :: "statement \<Rightarrow> string option" where
  "no_plan_name (SDescribe _) = Some ''DESCRIBE''"
| "no_plan_name (SDefineTemplate _) = Some ''DEFINE TEMPLATE''"
| "no_plan_name (SDropTemplate _) = Some ''DROP TEMPLATE''"
| "no_plan_name (SDefineQuery _) = Some ''DEFINE QUERY''"
| "no_plan_name (SDropQuery _) = Some ''DROP QUERY''"
| "no_plan_name _ = None"

definition parse_explain :: "statement parse \<Rightarrow> statement parse" where
  "parse_explain rec = ask current_span (\<lambda>start. seq (expect_exact (Kw ''EXPLAIN'')) (\<lambda>_. seq rec (\<lambda>s.
     case no_plan_name s of
       Some n \<Rightarrow> raise (CeUnexpectedToken ''RECALL, ASSEMBLE, set operation, ADD, SUPERSEDE, REVERT, BATCH, or COALESCE''
          (n @ '' statement'') (Some start)
          (Some ''EXPLAIN may only wrap statements that produce an execution plan (spec 8.5).''))
     | None \<Rightarrow> since_span start (SExplain s))))"

text \<open>The targets named by a bare word; an unknown word means the schema.\<close>

definition DESCRIBE_WORDS :: "(string \<times> describe_target) list" where
  "DESCRIBE_WORDS = [(''schema'', DtSchema), (''capabilities'', DtCapabilities), (''server'', DtServer),
     (''templates'', DtTemplates), (''grammar'', DtGrammar), (''queries'', DtQueries), (''loop'', DtLoop),
     (''analyzers'', DtAnalyzers), (''outcomes'', DtOutcomes), (''policy'', DtLoopPolicy), (''stats'', DtStats),
     (''integrity'', DtIntegrity)]"

definition describe_word :: "string \<Rightarrow> describe_target parse" where
  "describe_word s =
     (case plural_parse s of
        Some g \<Rightarrow> ret (DtGrainType g)
      | None \<Rightarrow>
          if eq_ignore_ascii_case s ''fields'' then seq parse_grain_type_plural_opt (\<lambda>g. ret (DtFields g))
          else if eq_ignore_ascii_case s ''principal'' then seq parse_string_literal (\<lambda>x. ret (DtPrincipal x))
          else (case find (\<lambda>(w, _). eq_ignore_ascii_case s w) DESCRIBE_WORDS of
              Some (_, d) \<Rightarrow> ret d
            | None \<Rightarrow> ret DtSchema))"

definition describe_target :: "describe_target parse" where
  "describe_target = on_peek (\<lambda>o'. case o' of
      None \<Rightarrow> ret DtSchema
    | Some st \<Rightarrow> (case st_token st of
        Ident s \<Rightarrow> then_advance (describe_word s)
      | t \<Rightarrow> if t = Kw ''QUERY'' then then_advance (seq parse_string_literal (\<lambda>x. ret (DtQuery x))) else ret DtSchema))"

definition parse_describe :: "statement parse" where
  "parse_describe = ask current_span (\<lambda>start. seq (expect_exact (Kw ''DESCRIBE'')) (\<lambda>_. seq describe_target (\<lambda>d.
     since_span start (\<lambda>sp. SDescribe \<lparr>ds_target = d, ds_span = sp\<rparr>))))"

section \<open>BATCH and COALESCE\<close>

definition MAX_BATCH_ENTRIES :: nat where "MAX_BATCH_ENTRIES = 10"
definition COALESCE_MIN :: nat where "COALESCE_MIN = 2"
definition COALESCE_MAX :: nat where "COALESCE_MAX = 5"

type_synonym full_statement =
  "statement \<times> pipeline_stage list \<times> with_option list \<times> format_clause option \<times> (string \<times> string) list"

text \<open>The clauses after a statement, in any order.\<close>

definition trailing_clause ::
  "pipeline_stage list \<times> with_option list \<times> format_clause option \<times> (string \<times> string) list
   \<Rightarrow> (pipeline_stage list \<times> with_option list \<times> format_clause option \<times> (string \<times> string) list
       + pipeline_stage list \<times> with_option list \<times> format_clause option \<times> (string \<times> string) list) parse" where
  "trailing_clause acc = (case acc of (ss, ws, f, vs) \<Rightarrow>
     ask peek_next_is_of (\<lambda>next_of. ask peek_next_is_vars (\<lambda>next_vars.
     if_tok (\<lambda>t. t = Kw ''FORMAT'' \<and> f = None) (seq parse_format (\<lambda>x. ret (Inl (ss, ws, Some x, vs))))
     (if_tok (\<lambda>t. t = Kw ''AS'' \<and> f = None \<and> \<not> next_of) (seq parse_as_format (\<lambda>x. ret (Inl (ss, ws, Some x, vs))))
     (if_at (Kw ''WITH'')
        (if next_vars
         then (if vs = [] then seq parse_user_vars (\<lambda>x. ret (Inl (ss, ws, f, x))) else ret (Inr acc))
         else seq parse_with_clause (\<lambda>x. ret (Inl (ss, ws @ x, f, vs))))
     (ask current_span (\<lambda>sp. if_eat (Kw ''WHERE'')
        (seq parse_condition (\<lambda>c. ret (Inl (ss @ [StFilter c (Some sp)], ws, f, vs))))
        (ret (Inr acc)))))))))"

definition parse_statement_full :: "statement parse \<Rightarrow> full_statement parse" where
  "parse_statement_full rec = seq rec (\<lambda>s. seq parse_pipeline (\<lambda>ss.
     seq (repeat trailing_clause (ss, [], None, [])) (\<lambda>r. ret (s, r))))"

text \<open>A label before an entry is skipped.\<close>

definition skip_label :: "unit parse" where
  "skip_label = ask (peek_token 1) (\<lambda>next.
     if_tok (\<lambda>t. \<not> is_statement_starter t \<and> next = Some (Sym '':'')) (then_advance (seq advance (\<lambda>_. ret ()))) (ret ()))"

definition batch_entries :: "statement parse \<Rightarrow> statement batch_entry list parse" where
  "batch_entries rec = repeat (\<lambda>es. if_tok (\<lambda>t. t \<noteq> Sym ''}'')
     (if MAX_BATCH_ENTRIES \<le> length es
      then ask current_span (\<lambda>sp. raise (CeTooManyPipelineStages (length es + 1) MAX_BATCH_ENTRIES (Some sp)))
      else seq skip_label (\<lambda>_. seq (parse_statement_full rec) (\<lambda>(s, ss, ws, f, vs).
        seq (eat_exact (Sym '','')) (\<lambda>_. seq (eat_exact (Sym '';'')) (\<lambda>_.
        ret (Inl (es @ [BatchEntry s ss ws f vs])))))))
     (ret (Inr es))) []"

definition parse_batch :: "statement parse \<Rightarrow> statement parse" where
  "parse_batch rec = ask current_span (\<lambda>start. seq (expect_exact (Kw ''BATCH'')) (\<lambda>_.
     seq (expect_exact (Sym ''{'')) (\<lambda>_. seq (nested (batch_entries rec)) (\<lambda>es.
     seq (expect_exact (Sym ''}'')) (\<lambda>_.
       if es = [] then raise (CeUnexpectedToken ''at least one statement inside BATCH { ... }'' ''empty batch'' (Some start)
              (Some ''BATCH requires one or more statements (spec 8.7).''))
       else since_span start (\<lambda>sp. SBatch (BatchStmt es None sp)))))))"

definition parse_brace_statement :: "statement parse \<Rightarrow> statement parse" where
  "parse_brace_statement rec = seq (expect_exact (Sym ''{'')) (\<lambda>_. seq (nested rec) (\<lambda>s.
     seq (expect_exact (Sym ''}'')) (\<lambda>_. ret s)))"

definition brace_branch :: "statement parse \<Rightarrow> statement coalesce_branch parse" where
  "brace_branch rec = seq (parse_brace_statement rec) (\<lambda>s. ask prev_span (\<lambda>sp. ret (CoalesceBranch s (Some sp))))"

definition parse_coalesce_braces :: "statement parse \<Rightarrow> span \<Rightarrow> statement parse" where
  "parse_coalesce_braces rec start = seq (brace_branch rec) (\<lambda>b.
     seq (repeat (\<lambda>bs. if_eat (Kw ''OR'') (seq (brace_branch rec) (\<lambda>x. ret (Inl (bs @ [x])))) (ret (Inr bs))) [b]) (\<lambda>bs.
     seq (if_tok (is_word ''ELSE'') (then_advance (seq (parse_brace_statement rec) (\<lambda>s. ret (Some s)))) (ret None)) (\<lambda>els.
     since_span start (\<lambda>sp. SCoalesce (CoalesceStmt AllGrains None bs els sp)))))"

definition parse_coalesce :: "statement parse \<Rightarrow> statement parse" where
  "parse_coalesce rec = ask current_span (\<lambda>start. seq (expect_exact (Kw ''COALESCE'')) (\<lambda>_.
     if_at (Sym ''{'') (parse_coalesce_braces rec start)
       (seq (expect_exact (Sym ''('')) (\<lambda>_. seq (nested (items_until (Sym '')'') rec)) (\<lambda>ss.
        seq (expect_exact (Sym '')'')) (\<lambda>_.
          if length ss < COALESCE_MIN
          then raise (CeUnexpectedToken (''at least '' @ nat_str COALESCE_MIN @ '' branches in COALESCE(...)'')
                 (nat_str (length ss) @ '' branches'') (Some start)
                 (Some ''COALESCE requires 2-5 RECALL branches (spec 8.13).''))
          else if COALESCE_MAX < length ss
          then raise (CeCoalesceTooManyBranches (length ss) COALESCE_MAX (Some start))
          else since_span start (\<lambda>sp.
            SCoalesce (CoalesceStmt AllGrains None (map (\<lambda>s. CoalesceBranch s None) ss) None sp))))))))"

section \<open>Progress\<close>

text \<open>
  \<open>rec\<close> is assumed to make progress with fewer than \<open>n\<close> tokens left: a statement
  parser calls it after its own keyword.
\<close>

definition calls_below :: "nat \<Rightarrow> 'a parse \<Rightarrow> bool" where
  "calls_below n rec = (\<forall>m<n. \<forall>b. strict m b rec)"

lemma calls_below_strict: "calls_below (Suc n) rec \<Longrightarrow> strict (n - k) b rec"
  by (simp add: calls_below_def)

lemma calls_below_safe: "calls_below (Suc n) rec \<Longrightarrow> safe (n - k) b rec"
  by (simp add: calls_below_strict strict_safe)

lemma calls_below_less: "calls_below n rec \<Longrightarrow> calls_below (n - k) rec"
  by (simp add: calls_below_def)

lemma calls_below_Suc: "calls_below (Suc n) rec \<Longrightarrow> calls_below n rec"
  by (simp add: calls_below_def)

lemmas call_simps = calls_below_strict [where k = 0, simplified] calls_below_safe [where k = 0, simplified]
  calls_below_strict calls_below_safe calls_below_less calls_below_Suc

lemma paren_statement_rules [parse_simps]:
  assumes "calls_below n rec"
  shows "strict n b (parse_paren_statement rec)" "safe n b (parse_paren_statement rec)"
proof -
  show "strict n b (parse_paren_statement rec)"
    using assms by (cases n) (simp_all add: parse_paren_statement_def parse_simps call_simps)
  then show "safe n b (parse_paren_statement rec)" by (rule strict_safe)
qed

lemma contradictions_rules [parse_simps]:
  "calls_below n rec \<Longrightarrow> safe n b (parse_contradictions_clause rec)"
  by (simp add: parse_contradictions_clause_def parse_simps calls_below_less)

lemma recall_part_rules [parse_simps]:
  "safe n b recall_grain_type" "safe n b recall_my" "safe n b recall_where" "safe n b recall_limit"
  by (simp_all add: recall_grain_type_def recall_my_def recall_where_def recall_limit_def parse_simps)

lemma if_none_rules [parse_simps]: "safe n b m \<Longrightarrow> safe n b (if_none x m)"
  by (simp add: if_none_def parse_simps)

lemma recall_rules [parse_simps]:
  assumes "calls_below n rec" shows "strict n b (parse_recall_stmt rec)" "safe n b (parse_recall_stmt rec)"
proof -
  have "e \<noteq> CeStuck" if "recall_conflict sp my r = Some e" for sp my e and r :: "'a recall_stmt"
    using that by (auto simp: recall_conflict_def conflict_def split: if_splits)
  then show "strict n b (parse_recall_stmt rec)"
    using assms by (simp add: parse_recall_stmt_def Let_def parse_simps calls_below_less)
  then show "safe n b (parse_recall_stmt rec)" by (rule strict_safe)
qed

lemma set_operand_rules [parse_simps]: "calls_below n rec \<Longrightarrow> strict n b (set_operand rec)"
  "calls_below n rec \<Longrightarrow> safe n b (set_operand rec)"
  by (simp_all add: set_operand_def parse_simps calls_below_less)

lemma set_op_tail_rules [parse_simps]: "calls_below n rec \<Longrightarrow> safe n b (parse_set_op_tail rec s)"
  by (simp add: parse_set_op_tail_def set_operands_def parse_simps calls_below_less)

lemma with_not_vars_rules [parse_simps]: "safe n b with_not_vars"
  by (simp add: with_not_vars_def parse_simps)

lemma source_query_rules [parse_simps]:
  assumes "calls_below n rec" shows "strict n b (parse_assemble_source_query rec)"
  using assms by (cases n) (simp_all add: parse_assemble_source_query_def parse_simps call_simps)

lemma named_source_rules [parse_simps]: "calls_below n rec \<Longrightarrow> strict n b (named_source rec)"
  by (simp add: named_source_def parse_simps calls_below_less strict_safe)

lemma implicit_recall_rules [parse_simps]: "safe n b (implicit_recall sp g)"
  by (simp add: implicit_recall_def parse_simps)

lemma assemble_source_rules [parse_simps]: "calls_below n rec \<Longrightarrow> safe n b (parse_assemble_source rec)"
  by (simp add: parse_assemble_source_def hash_list_def Let_def parse_simps calls_below_less)

lemma assemble_part_rules [parse_simps]:
  "safe n b (assemble_topic sp)" "safe n b (assemble_for sp)" "safe n b assemble_budget"
  "safe n b assemble_with_clause" "safe n b (check_sources sp ss)" "safe n b (check_priority ps ss)"
  "safe n b (check_assemble_where ss w)"
  by (simp_all add: assemble_topic_def assemble_for_def assemble_budget_def assemble_with_clause_def
      check_sources_def check_priority_def check_assemble_where_def parse_simps)

lemma assemble_priority_rules [parse_simps]: "safe n b assemble_priority"
  by (simp add: assemble_priority_def priority_order_def priority_weight_def parse_simps)

lemma from_clause_rules [parse_simps]: "calls_below n rec \<Longrightarrow> safe n b (parse_assemble_from_clause rec)"
  by (simp add: parse_assemble_from_clause_def parse_simps)

lemma assemble_rules [parse_simps]:
  "calls_below n rec \<Longrightarrow> strict n b (parse_assemble rec)"
  "calls_below n rec \<Longrightarrow> strict n b (parse_stream_assemble rec)"
  by (simp_all add: parse_assemble_def parse_stream_assemble_def parse_simps calls_below_less strict_safe)

lemma read_rules [parse_simps]:
  "strict n b parse_exists" "strict n b parse_history" "strict n b parse_describe"
  by (simp_all add: parse_exists_def parse_history_def diff_target_def parse_describe_def describe_target_def
      describe_word_def parse_simps)

lemma explain_rules [parse_simps]:
  assumes "calls_below n rec" shows "strict n b (parse_explain rec)"
  using assms by (cases n) (simp_all add: parse_explain_def parse_simps call_simps)

lemma trailing_rules [parse_simps]: "prog n b (trailing_clause acc)"
  by (simp add: trailing_clause_def parse_simps)

lemma statement_full_rules [parse_simps]: "strict n b rec \<Longrightarrow> strict n b (parse_statement_full rec)"
  by (simp add: parse_statement_full_def parse_simps)

lemma batch_entries_rules [parse_simps]: "calls_below (Suc n) rec \<Longrightarrow> safe n b (batch_entries rec)"
  by (simp add: batch_entries_def skip_label_def parse_simps call_simps)

lemma batch_rules [parse_simps]:
  assumes "calls_below n rec" shows "strict n b (parse_batch rec)"
proof (cases n)
  case (Suc m)
  then have "calls_below (Suc (m - Suc 0)) rec" using assms by (simp add: calls_below_def)
  then show ?thesis using Suc by (simp add: parse_batch_def parse_simps)
qed (simp add: parse_batch_def parse_simps)

lemma brace_branch_rules [parse_simps]:
  assumes "calls_below n rec"
  shows "strict n b (parse_brace_statement rec)" "safe n b (parse_brace_statement rec)" "strict n b (brace_branch rec)"
proof -
  show s: "strict n b (parse_brace_statement rec)"
    using assms by (cases n) (simp_all add: parse_brace_statement_def parse_simps call_simps)
  then show "safe n b (parse_brace_statement rec)" by (rule strict_safe)
  show "strict n b (brace_branch rec)" using s by (simp add: brace_branch_def parse_simps)
qed

lemma coalesce_rules [parse_simps]:
  assumes "calls_below n rec" shows "strict n b (parse_coalesce rec)"
proof (cases n)
  case (Suc m)
  have c: "calls_below m rec" "strict (m - Suc 0) c rec" for c
    using assms Suc by (simp_all add: calls_below_def)
  then show ?thesis
    using Suc by (simp add: parse_coalesce_def parse_coalesce_braces_def parse_simps calls_below_less strict_safe)
qed (simp add: parse_coalesce_def parse_simps)

end
