(* ===== verification/Cal_Writes.thy ===== *)
theory Cal_Writes
  imports Cal_Recall
begin

text \<open>
  The statements that write, erase, grant or govern, and the newer reads
  (\<^verbatim>\<open>dejadb-cal/src/parser.rs\<close>). None of them contains another statement.
\<close>

section \<open>Reasons\<close>

definition MAX_REASON_LENGTH :: nat where "MAX_REASON_LENGTH = 500"

definition is_reason :: "token \<Rightarrow> bool" where
  "is_reason t = (t = Kw ''REASON'' \<or> t = Kw ''BECAUSE'')"

text \<open>A mandatory reason, and the one with a bound on its length.\<close>

definition mandatory_reason :: "string parse" where
  "mandatory_reason = if_tok is_reason (then_advance parse_string_literal)
     (ask current_span (\<lambda>sp. raise (CeMissingReason (Some sp))))"

definition parse_reason_clause :: "string parse" where
  "parse_reason_clause = if_tok is_reason
     (then_advance (ask current_span (\<lambda>sp. seq parse_string_literal (\<lambda>r.
        if MAX_REASON_LENGTH < byte_len r
        then raise (CeReasonTooLong (byte_len r) MAX_REASON_LENGTH (Some sp)) else ret r))))
     (ask current_span (\<lambda>sp. raise (CeMissingReason (Some sp))))"

section \<open>ADD\<close>

text \<open>One \<^verbatim>\<open>field = value\<close>, with the span of the field.\<close>

definition parse_assignment :: "field_assignment parse" where
  "parse_assignment = ask current_span (\<lambda>sp. seq parse_identifier (\<lambda>f. seq (expect_exact (Sym ''='')) (\<lambda>_.
     seq parse_value (\<lambda>v. ret \<lparr>fa_field = f, fa_value = v, fa_span = Some sp\<rparr>))))"

text \<open>A field set twice is kept twice, with a warning.\<close>

definition add_fields :: "field_assignment list parse" where
  "add_fields = repeat (\<lambda>fs. if_eat (Kw ''SET'')
     (seq parse_assignment (\<lambda>a.
        if fa_field a \<in> fa_field ` set fs
        then warn (CwDuplicateSetField (fa_field a) (fa_span a)) (ret (Inl (fs @ [a])))
        else ret (Inl (fs @ [a]))))
     (ret (Inr fs))) []"

definition ADD_OPTIONS :: "(string \<times> add_with_option) list" where
  "ADD_OPTIONS = [(''EXTRACT_EVENT_DATE'', AwExtractEventDate), (''AUTO_RELATE'', AwAutoRelate),
     (''EXTRACT_MEMORIES'', AwExtractMemories), (''SYNC'', AwSync)]"

fun add_option_of :: "token \<Rightarrow> add_with_option option" where
  "add_option_of (Kw k) = map_of ADD_OPTIONS k"
| "add_option_of (Ident w) = (if eq_ignore_ascii_case w ''occurrence'' then Some AwOccurrence else None)"
| "add_option_of _ = None"

definition parse_add_with_option :: "add_with_option option parse" where
  "parse_add_with_option = on_peek (\<lambda>o'. case o' of
      None \<Rightarrow> unexpected_end ''ADD WITH option (extract_event_date, auto_relate, extract_memories, sync)''
    | Some st \<Rightarrow> (case add_option_of (st_token st) of
        Some x \<Rightarrow> then_advance (ret (Some x))
      | None \<Rightarrow> unknown_option st))"

definition parse_add_with_clause :: "add_with_option list parse" where
  "parse_add_with_clause = seq (expect_exact (Kw ''WITH'')) (\<lambda>_. seq (comma_list parse_add_with_option) (\<lambda>os.
     ret (concat (map (\<lambda>x. case x of Some w \<Rightarrow> [w] | None \<Rightarrow> []) os))))"

definition opt_add_with :: "add_with_option list parse" where
  "opt_add_with = if_at (Kw ''WITH'') parse_add_with_clause (ret [])"

section \<open>Workflow graphs\<close>

definition NODE_KEYWORDS :: "string list" where
  "NODE_KEYWORDS = [''RUN'', ''QUERY'', ''APPROVE'', ''REJECT'', ''APPLY'', ''ROLLBACK'', ''GRANT'', ''REVOKE'',
     ''SHOW'', ''MERGE'', ''RELATED'', ''NOVELTY'', ''REMEMBER'', ''ENTITY'']"

definition node_hint :: "token \<Rightarrow> string" where
  "node_hint t =
     (if is_reason t
      then ''expected node name after '->' - the arrow is dangling. Add a target node: a -> b REASON '' @ dq ''...''
      else if t = Sym '')''
      then ''parallel group must contain at least one node - e.g.: (build, test)''
      else ''reserved words (ON, WHEN, BIND, REASON) must be quoted to use as node names'')"

definition parse_node_name :: "string parse" where
  "parse_node_name = on_peek (\<lambda>o'. case o' of
      None \<Rightarrow> raise (CeUnexpectedToken (''node name after '' @ sq ''->'') ''<end of query>'' None
                (Some ''the arrow is dangling - add a target node: a -> b''))
    | Some st \<Rightarrow>
        (let other = unexpected_at ''node name (identifier or quoted string)'' st (Some (node_hint (st_token st))) in
         case st_token st of
           Ident s \<Rightarrow> then_advance (ret s)
         | StringLiteral _ \<Rightarrow> parse_string_literal
         | Kw k \<Rightarrow> if k \<in> set NODE_KEYWORDS then then_advance (ret (map ascii_lower_char k)) else other
         | _ \<Rightarrow> other))"

text \<open>Errors that name the current token, or the end of the query, at the current span.\<close>

definition found_here :: "string \<Rightarrow> string \<Rightarrow> 'a parse" where
  "found_here expected hint = ask_env (\<lambda>E. ask (\<lambda>p. (peek_token 0 p, current_span p)) (\<lambda>(t, sp).
     raise (CeUnexpectedToken expected (case t of Some x \<Rightarrow> describe E x | None \<Rightarrow> ''<end of query>'') (Some sp) (Some hint))))"

definition parse_node_or_group :: "string list parse" where
  "parse_node_or_group = if_eat (Sym ''('')
     (seq (nested (seq parse_node_name (\<lambda>x. repeat (\<lambda>g. if_eat (Sym '','')
             (seq parse_node_name (\<lambda>y. ret (Inl (g @ [y])))) (ret (Inr g))) [x]))) (\<lambda>g.
      if_eat (Sym '')'') (ret g)
        (found_here (sq '')'' @ '' to close parallel group'') ''close the parallel group with ')' - e.g.: (build, test) -> deploy'')))
     (seq parse_node_name (\<lambda>x. ret [x]))"

fun is_graph_line_start :: "token \<Rightarrow> bool" where
  "is_graph_line_start (Ident _) = True"
| "is_graph_line_start (StringLiteral _) = True"
| "is_graph_line_start t = (t = Sym ''('' \<or> t = Kw ''RUN'' \<or> t = Kw ''QUERY'')"

definition ensure_nodes :: "string list \<Rightarrow> string list \<Rightarrow> string list" where
  "ensure_nodes new ns = foldl (\<lambda>ns x. if x \<in> set ns then ns else ns @ [x]) ns new"

definition edge_repeat :: "nat option parse" where
  "edge_repeat = if_eat (Sym ''*'')
     (if_tok (\<lambda>t. case t of NumberLiteral _ \<Rightarrow> True | _ \<Rightarrow> False)
        (seq parse_number (\<lambda>x. let n = f64_as_uint u32_max x in
           if n = 0
           then ask prev_span (\<lambda>sp. raise (CeUnexpectedToken ''repeat count >= 1'' ''0'' (Some sp)
                  (Some ''repeat count must be at least 1 - e.g.: a -> b * 1'')))
           else ret (Some n)))
        (found_here ''number after '*' for retry count'' ''* N sets the retry count - e.g.: a -> b * 3''))
     (ret None)"

type_synonym graph = "string list \<times> graph_edge list"

definition join_edges :: "string list \<Rightarrow> string list \<Rightarrow> string option \<Rightarrow> nat option \<Rightarrow> graph_edge list" where
  "join_edges ss ts c n =
     concat (map (\<lambda>s. map (\<lambda>t. \<lparr>ge_src = s, ge_dst = t, ge_cond = c, ge_repeat = n\<rparr>) ts) ss)"

text \<open>The arrows of one line: from the current sources to the next group, which become the sources.\<close>

definition graph_arrows :: "string list \<Rightarrow> graph \<Rightarrow> graph parse" where
  "graph_arrows ss g = repeat (\<lambda>(ss, ns, es). if_eat (Sym ''->'')
     (if_at (Sym ''->'')
        (ask current_span (\<lambda>sp. raise (CeUnexpectedToken (''node name after '' @ sq ''->'') (''another '' @ sq ''->'') (Some sp)
           (Some ''remove the extra '->' - chain nodes with single arrows: a -> b -> c''))))
        (seq parse_node_or_group (\<lambda>ts. seq (optional (Kw ''WHEN'') parse_string_literal) (\<lambda>c. seq edge_repeat (\<lambda>n.
           ret (Inl (ts, ensure_nodes ts ns, es @ join_edges ss ts c n)))))))
     (ret (Inr (ns, es)))) (ss, fst g, snd g)"

definition graph_lines :: "(bool \<times> graph) parse" where
  "graph_lines = repeat (\<lambda>(any, ns, es). if_tok is_graph_line_start
     (seq parse_node_or_group (\<lambda>ss. seq (graph_arrows ss (ensure_nodes ss ns, es)) (\<lambda>g. ret (Inl (True, g)))))
     (ret (Inr (any, ns, es)))) (False, [], [])"

definition parse_workflow_graph :: "graph parse" where
  "parse_workflow_graph = seq graph_lines (\<lambda>(any, g).
     if_at (Kw ''WHEN'')
       (ask current_span (\<lambda>sp. raise (CeUnexpectedToken (sq ''->'' @ '' edge before WHEN condition'') ''WHEN'' (Some sp)
          (Some (''WHEN must follow a -> edge, not a node - e.g.: a -> b WHEN '' @ dq ''condition'')))))
       (if_tok (\<lambda>t. t = Sym ''->'' \<and> any)
         (found_here (''node name after '' @ sq ''->'') (''expected a node name or parallel group after '' @ sq ''->''))
         (if \<not> any
          then found_here ''at least one node in workflow graph''
                 ''workflow body must contain node names and arrows, e.g.: build -> test -> deploy''
          else ret g)))"

definition parse_bind_clause :: "bind_clause parse" where
  "parse_bind_clause = seq (expect_exact (Kw ''BIND'')) (\<lambda>_. seq parse_node_name (\<lambda>n.
     seq (expect_exact (Sym ''='')) (\<lambda>_. seq parse_hash_literal (\<lambda>h. ret \<lparr>bc_node = n, bc_hash = h\<rparr>))))"

definition bind_clauses :: "bind_clause list parse" where
  "bind_clauses = repeat (\<lambda>bs. if_at (Kw ''BIND'') (seq parse_bind_clause (\<lambda>b. ret (Inl (bs @ [b])))) (ret (Inr bs))) []"

definition opt_trigger :: "string option parse" where
  "opt_trigger = optional (Kw ''ON'') parse_string_literal"

definition parse_add_workflow :: "span \<Rightarrow> statement parse" where
  "parse_add_workflow start = seq parse_string_literal (\<lambda>n. seq opt_trigger (\<lambda>tr.
     seq parse_workflow_graph (\<lambda>(ns, es). seq bind_clauses (\<lambda>bs. seq opt_add_with (\<lambda>ws. seq parse_reason_clause (\<lambda>r.
     since_span start (\<lambda>sp. SAddWorkflow \<lparr>ak_name = n, ak_trigger = tr, ak_nodes = ns, ak_edges = es,
       ak_bindings = bs, ak_reason = r, ak_with = ws, ak_span = sp\<rparr>)))))))"

definition parse_add :: "statement parse" where
  "parse_add = ask current_span (\<lambda>start. seq (expect_exact (Kw ''ADD'')) (\<lambda>_.
     if_tok (is_word ''workflow'') (then_advance (parse_add_workflow start))
       (seq parse_grain_type_singular (\<lambda>g. seq add_fields (\<lambda>fs.
          if fs = [] then ask current_span (\<lambda>sp. raise (CeMissingSetClause (Some sp)))
          else seq opt_add_with (\<lambda>ws. seq parse_reason_clause (\<lambda>r. since_span start (\<lambda>sp.
            SAdd \<lparr>ad_grain_type = g, ad_fields = fs, ad_reason = r, ad_with = ws, ad_span = sp\<rparr>)))))))) "

section \<open>ACCUMULATE, SUPERSEDE, REVERT\<close>

text \<open>The fields of \<^verbatim>\<open>ACCUMULATE WHERE\<close>; the last value of a field counts.\<close>

definition tip_fields :: "(string option \<times> string option \<times> string option) parse" where
  "tip_fields = repeat (\<lambda>(s, r, n). seq (eat_exact (Kw ''AND'')) (\<lambda>_.
     (let val = (\<lambda>k. then_advance (seq (expect_exact (Sym ''='')) (\<lambda>_. seq parse_string_literal (\<lambda>v. ret (Inl (k v)))))) in
      if_tok (is_word ''subject'') (val (\<lambda>v. (Some v, r, n)))
      (if_tok (is_word ''relation'') (val (\<lambda>v. (s, Some v, n)))
      (if_tok (is_word ''namespace'') (val (\<lambda>v. (s, r, Some v)))
        (ret (Inr (s, r, n)))))))) (None, None, None)"

definition debug_here :: "string \<Rightarrow> string \<Rightarrow> 'a parse" where
  "debug_here expected hint = ask_env (\<lambda>E. ask (\<lambda>p. (peek_token 0 p, current_span p)) (\<lambda>(t, sp).
     raise (CeUnexpectedToken expected (case t of Some x \<Rightarrow> ce_debug E x | None \<Rightarrow> ''<end of query>'') (Some sp) (Some hint))))"

definition accumulate_target :: "accumulate_target parse" where
  "accumulate_target = if_tok is_hash_literal (seq parse_hash_literal (\<lambda>h. ret (TargetHash h)))
     (if_eat (Kw ''WHERE'')
        (seq tip_fields (\<lambda>(s, r, n).
           case s of
             None \<Rightarrow> debug_here (''subject = '' @ dq ''...'' @ '' in WHERE clause'')
                       (''ACCUMULATE WHERE requires subject = '' @ dq ''...'')
           | Some s' \<Rightarrow>
               (case r of
                  None \<Rightarrow> debug_here (''relation = '' @ dq ''...'' @ '' in WHERE clause'')
                            (''ACCUMULATE WHERE requires relation = '' @ dq ''...'')
                | Some r' \<Rightarrow> ret (TipResolved s' r' n))))
        (debug_here ''hash literal or WHERE clause''
           ''ACCUMULATE requires either a hash or WHERE subject = ... relation = ...''))"

definition accumulate_ops :: "(delta_op list \<times> field_assignment list) parse" where
  "accumulate_ops = repeat (\<lambda>(ds, fs).
     if_eat (Kw ''ADD'')
       (ask current_span (\<lambda>sp. seq parse_identifier (\<lambda>f. seq (expect_exact (Sym ''='')) (\<lambda>_. seq parse_number (\<lambda>x.
          ret (Inl (ds @ [\<lparr>dl_field = f, dl_delta = x, dl_span = Some sp\<rparr>], fs)))))))
       (if_eat (Kw ''SET'') (seq parse_assignment (\<lambda>a. ret (Inl (ds, fs @ [a])))) (ret (Inr (ds, fs))))) ([], [])"

definition parse_accumulate :: "statement parse" where
  "parse_accumulate = ask current_span (\<lambda>start. seq (expect_exact (Kw ''ACCUMULATE'')) (\<lambda>_.
     seq parse_grain_type_singular (\<lambda>g. seq accumulate_target (\<lambda>t. seq accumulate_ops (\<lambda>(ds, fs).
     if ds = [] then ask current_span (\<lambda>sp. raise (CeMissingAccumulateOps (Some sp)))
     else seq parse_reason_clause (\<lambda>r. since_span start (\<lambda>sp.
       SAccumulate \<lparr>ac_grain_type = g, ac_target = t, ac_add_ops = ds, ac_set_ops = fs, ac_reason = r, ac_span = sp\<rparr>)))))))"

definition parse_supersede_workflow :: "span \<Rightarrow> string \<Rightarrow> statement parse" where
  "parse_supersede_workflow start h = seq opt_trigger (\<lambda>tr. seq parse_workflow_graph (\<lambda>(ns, es).
     seq bind_clauses (\<lambda>bs. seq parse_reason_clause (\<lambda>r. since_span start (\<lambda>sp.
     SSupersedeWorkflow \<lparr>sk_hash = h, sk_trigger = tr, sk_nodes = ns, sk_edges = es, sk_bindings = bs,
       sk_reason = r, sk_span = sp\<rparr>)))))"

definition set_clauses :: "field_assignment list parse" where
  "set_clauses = repeat (\<lambda>fs. if_eat (Kw ''SET'') (seq parse_assignment (\<lambda>a. ret (Inl (fs @ [a])))) (ret (Inr fs))) []"

definition parse_supersede :: "statement parse" where
  "parse_supersede = ask current_span (\<lambda>start. seq (expect_exact (Kw ''SUPERSEDE'')) (\<lambda>_.
     seq parse_hash_literal (\<lambda>h.
     if_tok (\<lambda>t. t = Kw ''ON'' \<or> is_graph_line_start t) (parse_supersede_workflow start h)
       (seq set_clauses (\<lambda>fs.
          if fs = [] then ask current_span (\<lambda>sp. raise (CeMissingSetClause (Some sp)))
          else seq parse_reason_clause (\<lambda>r. since_span start (\<lambda>sp.
            SSupersede \<lparr>su_hash = h, su_set = fs, su_reason = r, su_span = sp\<rparr>)))))))"

definition parse_revert :: "statement parse" where
  "parse_revert = ask current_span (\<lambda>start. seq (expect_exact (Kw ''REVERT'')) (\<lambda>_. seq parse_hash_literal (\<lambda>h.
     seq parse_reason_clause (\<lambda>r. since_span start (\<lambda>sp. SRevert \<lparr>rv_hash = h, rv_reason = r, rv_span = sp\<rparr>)))))"

section \<open>FORGET, PURGE, REPORT\<close>

text \<open>A bare word that must follow.\<close>

definition expect_word :: "string \<Rightarrow> string option \<Rightarrow> unit parse" where
  "expect_word w hint = if_tok (is_word w) (then_advance (ret ())) (not_found w hint)"

definition text_mentions_option :: "string \<Rightarrow> bool parse" where
  "text_mentions_option form = if_eat (Kw ''WITH'')
     (if_tok (is_word ''text_mentions'') (then_advance (ret True))
        (not_found ''text_mentions'' (Some (form @ '' supports exactly one option: WITH text_mentions''))))
     (ret False)"

definition forget_subject :: "span \<Rightarrow> statement parse" where
  "forget_subject start = seq parse_string_literal (\<lambda>u. seq (text_mentions_option ''FORGET SUBJECT'') (\<lambda>tm.
     seq mandatory_reason (\<lambda>r. since_span start (\<lambda>sp.
       SForget \<lparr>fg_target = FgUser u, fg_reason = Some r, fg_text_mentions = tm, fg_span = sp\<rparr>))))"

definition FORGET_HINT :: string where
  "FORGET_HINT = ''identity erasure is spelled FORGET SUBJECT '' @ dq ''<id>'' @ '' BECAUSE '' @ dq ''<why>''
     @ ''; scope erasure is not part of the text grammar''"

definition forget_hash :: "span \<Rightarrow> statement parse" where
  "forget_hash start = seq parse_hash_literal (\<lambda>h.
     seq (if_tok is_reason (then_advance (seq parse_string_literal (\<lambda>r. ret (Some r)))) (ret None)) (\<lambda>r.
     since_span start (\<lambda>sp. SForget \<lparr>fg_target = FgHash h, fg_reason = r, fg_text_mentions = False, fg_span = sp\<rparr>)))"

definition parse_forget :: "statement parse" where
  "parse_forget = ask current_span (\<lambda>start. seq (expect_exact (Kw ''FORGET'')) (\<lambda>_. on_peek (\<lambda>o'. case o' of
      None \<Rightarrow> forget_hash start
    | Some st \<Rightarrow> (case st_token st of
        Ident w \<Rightarrow>
          if to_ascii_uppercase w = ''SUBJECT'' then then_advance (forget_subject start)
          else if to_ascii_uppercase w \<in> {''USER'', ''SCOPE''}
          then raise (CeUnexpectedToken ''a grain hash or SUBJECT'' (to_ascii_uppercase w) (Some (st_span st)) (Some FORGET_HINT))
          else forget_hash start
      | _ \<Rightarrow> forget_hash start))))"

definition parse_report_subject :: "statement parse" where
  "parse_report_subject = ask current_span (\<lambda>start. seq (expect_exact (Kw ''REPORT'')) (\<lambda>_.
     seq (expect_word ''SUBJECT'' (Some (''the DSAR read is spelled REPORT SUBJECT '' @ dq ''<id>'' @ '' [WITH text_mentions]''))) (\<lambda>_.
     seq parse_string_literal (\<lambda>s. seq (text_mentions_option ''REPORT SUBJECT'') (\<lambda>tm. since_span start (\<lambda>sp.
     SReportSubject \<lparr>rj_subject_id = s, rj_text_mentions = tm, rj_span = sp\<rparr>))))))"

definition PURGE_FORM :: string where
  "PURGE_FORM = ''the retention sweep is spelled PURGE OLDER THAN <n><d|h|m> [TYPE <t>] [IN '' @ dq ''<ns>''
     @ ''] BECAUSE '' @ dq ''<why>''"

text \<open>A number that satisfies a condition.\<close>

definition number_where :: "(f64 \<Rightarrow> bool) \<Rightarrow> string \<Rightarrow> f64 parse" where
  "number_where P expected = on_peek (\<lambda>o'. case o' of
      None \<Rightarrow> not_found expected None
    | Some st \<Rightarrow> (case st_token st of
        NumberLiteral x \<Rightarrow> if P x then then_advance (ret x) else not_found expected None
      | _ \<Rightarrow> not_found expected None))"

text \<open>The age in days; the division is rounded.\<close>

definition f64_div_nat :: "cal_env \<Rightarrow> f64 \<Rightarrow> nat \<Rightarrow> f64" where
  "f64_div_nat E x n = (case x of Finite q \<Rightarrow> ce_round E (q / of_nat n) | _ \<Rightarrow> x)"

definition age_unit :: "f64 \<Rightarrow> f64 parse" where
  "age_unit x = on_peek (\<lambda>o'. case o' of
      None \<Rightarrow> not_found ''an age unit: d, h, or m'' (Some ''write the age as one word, e.g. 90d'')
    | Some st \<Rightarrow> (case st_token st of
        Ident u \<Rightarrow>
          (let l = map ascii_lower_char u in
           if l = ''d'' then then_advance (ret x)
           else if l = ''h'' then then_advance (ask_env (\<lambda>E. ret (f64_div_nat E x 24)))
           else if l = ''m'' then then_advance (ask_env (\<lambda>E. ret (f64_div_nat E x 1440)))
           else raise (CeUnexpectedToken ''an age unit: d, h, or m'' u (Some (st_span st)) None))
      | _ \<Rightarrow> not_found ''an age unit: d, h, or m'' (Some ''write the age as one word, e.g. 90d'')))"

definition usize_where :: "string \<Rightarrow> nat parse" where
  "usize_where expected = seq (number_where (\<lambda>x. f64_ge x (Finite 1)) expected) (\<lambda>x. ret (f64_as_uint u64_max x))"

definition purge_type :: "string parse" where
  "purge_type = on_peek (\<lambda>o'. case o' of
      None \<Rightarrow> not_found ''a grain type, e.g. event'' None
    | Some st \<Rightarrow> (case st_token st of
        Ident t \<Rightarrow> then_advance (ret (map ascii_lower_char t))
      | _ \<Rightarrow> not_found ''a grain type, e.g. event'' None))"

text \<open>\<^verbatim>\<open>TYPE\<close>, \<^verbatim>\<open>IN\<close> and \<^verbatim>\<open>LIMIT\<close> in any order, each at most once.\<close>

definition purge_clauses :: "(string option \<times> string option \<times> nat option) parse" where
  "purge_clauses = repeat (\<lambda>(g, n, l).
     if_tok (\<lambda>t. is_word ''TYPE'' t \<and> g = None) (then_advance (seq purge_type (\<lambda>x. ret (Inl (Some x, n, l)))))
     (if_tok (\<lambda>t. t = Kw ''IN'' \<and> n = None) (then_advance (seq parse_string_literal (\<lambda>x. ret (Inl (g, Some x, l)))))
     (if_tok (\<lambda>t. t = Kw ''LIMIT'' \<and> l = None)
        (then_advance (seq (usize_where ''a positive LIMIT'') (\<lambda>x. ret (Inl (g, n, Some x)))))
        (ret (Inr (g, n, l)))))) (None, None, None)"

definition parse_purge :: "statement parse" where
  "parse_purge = ask current_span (\<lambda>start. seq (expect_exact (Kw ''PURGE'')) (\<lambda>_.
     seq (expect_word ''OLDER'' (Some PURGE_FORM)) (\<lambda>_. seq (expect_word ''THAN'' (Some PURGE_FORM)) (\<lambda>_.
     seq (number_where (f64_less (Finite 0)) ''a positive age like 90d, 6h, or 30m'') (\<lambda>x. seq (age_unit x) (\<lambda>days.
     seq purge_clauses (\<lambda>(g, n, l). seq mandatory_reason (\<lambda>r. since_span start (\<lambda>sp.
     SPurge \<lparr>pg_min_age_days = Some days, pg_namespace = n, pg_limit = l, pg_grain_type = g, pg_reason = Some r,
       pg_span = sp\<rparr>)))))))))"

section \<open>GRANT, REVOKE, SHOW\<close>

definition DCL_VERBS :: string where
  "DCL_VERBS = ''a verb (read, write, supersede, delete, erase, loop.run, loop.review, loop.apply, admin)''"

definition lower_word :: "string \<Rightarrow> string parse" where
  "lower_word expected = on_peek (\<lambda>o'. case o' of
      None \<Rightarrow> not_found expected None
    | Some st \<Rightarrow> (case st_token st of
        Ident w \<Rightarrow> then_advance (ret (map ascii_lower_char w))
      | _ \<Rightarrow> not_found expected None))"

definition parse_dcl_verb :: "string parse" where
  "parse_dcl_verb = seq (lower_word DCL_VERBS) (\<lambda>w. if_eat (Sym ''.'')
     (seq (lower_word ''the dotted verb tail (run, review, apply)'') (\<lambda>v. ret (w @ ''.'' @ v))) (ret w))"

definition dcl_namespace :: "string parse" where
  "dcl_namespace = on_peek (\<lambda>o'. case o' of
      None \<Rightarrow> not_found ''a namespace or *'' None
    | Some st \<Rightarrow> (case st_token st of
        Ident n \<Rightarrow> then_advance (ret n)
      | StringLiteral n \<Rightarrow> then_advance (ret n)
      | t \<Rightarrow> if t = Sym ''*'' then then_advance (ret ''*'') else not_found ''a namespace or *'' None))"

definition dcl_reason :: "string option parse" where
  "dcl_reason = if_eat (Kw ''WITH'')
     (if_tok is_reason
        (then_advance (seq (paren_arg parse_string_literal) (\<lambda>r. ret (Some r))))
        (not_found (''because('' @ dq ''<why>'' @ '')'')
           (Some (''GRANT/REVOKE support exactly one option: WITH because('' @ dq ''<why>'' @ '')''))))
     (ret None)"

definition parse_dcl_body :: "token \<Rightarrow> (string list \<times> string list \<times> string \<times> string option) parse" where
  "parse_dcl_body recipient = seq (comma_list parse_dcl_verb) (\<lambda>vs. seq (expect_exact (Kw ''ON'')) (\<lambda>_.
     seq (comma_list dcl_namespace) (\<lambda>ns. seq (expect_exact recipient) (\<lambda>_. seq parse_string_literal (\<lambda>p.
     seq dcl_reason (\<lambda>r. ret (vs, ns, p, r)))))))"

definition dcl_of :: "string list \<times> string list \<times> string \<times> string option \<Rightarrow> span option \<Rightarrow> dcl_stmt" where
  "dcl_of b sp = (case b of (vs, ns, p, r) \<Rightarrow>
     \<lparr>dc_verbs = vs, dc_namespaces = ns, dc_principal = p, dc_reason = r, dc_span = sp\<rparr>)"

definition parse_grant :: "statement parse" where
  "parse_grant = ask current_span (\<lambda>start. seq (expect_exact (Kw ''GRANT'')) (\<lambda>_.
     seq (parse_dcl_body (Kw ''TO'')) (\<lambda>b. since_span start (\<lambda>sp. SGrant (dcl_of b sp)))))"

definition parse_revoke :: "statement parse" where
  "parse_revoke = ask current_span (\<lambda>start. seq (expect_exact (Kw ''REVOKE'')) (\<lambda>_.
     seq (parse_dcl_body (Kw ''FROM'')) (\<lambda>b. since_span start (\<lambda>sp. SRevoke (dcl_of b sp)))))"

definition parse_show_grants :: "statement parse" where
  "parse_show_grants = ask current_span (\<lambda>start. seq (expect_exact (Kw ''SHOW'')) (\<lambda>_.
     if_tok (is_word ''GRANTS'')
       (then_advance (seq (optional (Kw ''FOR'') parse_string_literal) (\<lambda>p. since_span start (\<lambda>sp.
          SShowGrants \<lparr>sg_principal = p, sg_span = sp\<rparr>))))
       (if_tok (is_word ''FORKS'') (then_advance (since_span start (\<lambda>sp. SShowForks \<lparr>sf_span = sp\<rparr>)))
         (not_found ''GRANTS or FORKS'' (Some (''SHOW GRANTS [FOR '' @ dq ''<principal>'' @ ''] | SHOW FORKS''))))))"

section \<open>Governance\<close>

definition parse_governance_body :: "token \<Rightarrow> governance_stmt parse" where
  "parse_governance_body kw = ask current_span (\<lambda>start. seq (expect_exact kw) (\<lambda>_. seq parse_hash_literal (\<lambda>h.
     seq mandatory_reason (\<lambda>r. since_span start (\<lambda>sp. \<lparr>gv_hash = h, gv_reason = r, gv_span = sp\<rparr>)))))"

text \<open>A duration such as \<^verbatim>\<open>6h\<close> in milliseconds; products are rounded, the cast saturates.\<close>

definition f64_mul_nat :: "cal_env \<Rightarrow> f64 \<Rightarrow> nat \<Rightarrow> f64" where
  "f64_mul_nat E x n = (case x of Finite q \<Rightarrow> ce_round E (q * of_nat n) | _ \<Rightarrow> x)"

fun f64_as_i64 :: "f64 \<Rightarrow> int" where
  "f64_as_i64 (Finite q) = max i64_min (min i64_max (if 0 \<le> q then \<lfloor>q\<rfloor> else \<lceil>q\<rceil>))"
| "f64_as_i64 PosInf = i64_max"
| "f64_as_i64 NegInf = i64_min"
| "f64_as_i64 NaN = 0"

definition UNIT_MS :: "(string \<times> nat) list" where
  "UNIT_MS = [(''s'', 1000), (''m'', 60000), (''h'', 3600000), (''d'', 86400000)]"

definition parse_stale_duration_ms :: "cal_env \<Rightarrow> string \<Rightarrow> cal_error + int option" where
  "parse_stale_duration_ms E s0 =
     (let s = trim s0 in
      if byte_len s < 2 then Inr None
      else if 128 \<le> code_of (last s) then Inl (CePanic ''byte index is not a char boundary'')
      else case ce_parse E (butlast s) of
          None \<Rightarrow> Inr None
        | Some x \<Rightarrow>
            if f64_less x (Finite 0) \<or> \<not> f64_is_finite x then Inr None
            else Inr (map_option (\<lambda>k. f64_as_i64 (f64_mul_nat E x k)) (map_of UNIT_MS [last s])))"

definition stale_option :: "int parse" where
  "stale_option = paren_arg (seq parse_string_literal (\<lambda>d. ask_env (\<lambda>E.
     case parse_stale_duration_ms E d of
       Inl e \<Rightarrow> raise e
     | Inr None \<Rightarrow> ask prev_span (\<lambda>sp. raise (CeUnexpectedToken
         (''a duration like '' @ dq ''6h'' @ '', '' @ dq ''90m'' @ '', or '' @ dq ''2d'') d (Some sp) None))
     | Inr (Some ms) \<Rightarrow> ret ms)))"

definition RUN_LOOP_HINT :: string where
  "RUN_LOOP_HINT = ''RUN LOOP supports WITH min_new(N), if_stale('' @ dq ''6h''
     @ '') - model and policy configuration is host-side, never statement text''"

definition run_loop_option :: "nat option \<times> int option \<Rightarrow> (nat option \<times> int option) parse" where
  "run_loop_option o' = (case o' of (n, ms) \<Rightarrow>
     if_tok (is_word ''min_new'')
       (then_advance (seq (paren_arg (number_where (\<lambda>x. f64_ge x (Finite 0)) ''a number'')) (\<lambda>x.
          ret (Some (f64_as_uint u64_max x), ms))))
       (if_tok (is_word ''if_stale'') (then_advance (seq stale_option (\<lambda>x. ret (n, Some x))))
          (not_found (''min_new(N) or if_stale('' @ dq ''<dur>'' @ '')'') (Some RUN_LOOP_HINT))))"

definition run_loop_options :: "(nat option \<times> int option) parse" where
  "run_loop_options = if_eat (Kw ''WITH'')
     (repeat (\<lambda>o'. seq (run_loop_option o') (\<lambda>x. if_eat (Sym '','') (ret (Inl x)) (ret (Inr x)))) (None, None))
     (ret (None, None))"

definition parse_run_loop :: "span \<Rightarrow> statement parse" where
  "parse_run_loop start = seq advance (\<lambda>_. seq (if_tok (is_word ''FULL'') (then_advance (ret True)) (ret False)) (\<lambda>full.
     seq run_loop_options (\<lambda>(n, ms). since_span start (\<lambda>sp.
     SRunLoop \<lparr>rp_full_sweep = full, rp_min_new = n, rp_if_stale_ms = ms, rp_span = sp\<rparr>))))"

section \<open>REMEMBER\<close>

type_synonym capture = "string option \<times> string option \<times> string option"

fun capture_option :: "token \<Rightarrow> string option" where
  "capture_option (Ident w) = Some (map ascii_lower_char w)"
| "capture_option t = (if t = Kw ''RUN'' then Some ''run'' else None)"

definition put_capture :: "string \<Rightarrow> string \<Rightarrow> capture \<Rightarrow> capture" where
  "put_capture k v c = (case c of (s, r, n) \<Rightarrow>
     if k = ''session'' then (Some v, r, n) else if k = ''role'' then (s, Some v, n) else (s, r, Some v))"

definition CAPTURE_FORM :: string where
  "CAPTURE_FORM = ''session('' @ dq ''<id>'' @ ''), role('' @ dq ''<r>'' @ ''), or run('' @ dq ''<id>'' @ '')''"

definition remember_option :: "capture \<Rightarrow> capture parse" where
  "remember_option c = on_peek (\<lambda>o'. case o' of
      None \<Rightarrow> not_found CAPTURE_FORM None
    | Some st \<Rightarrow> (case capture_option (st_token st) of
        None \<Rightarrow> not_found CAPTURE_FORM None
      | Some k \<Rightarrow>
          if k \<in> {''session'', ''role'', ''run''}
          then then_advance (seq (paren_arg parse_string_literal) (\<lambda>v. ret (put_capture k v c)))
          else raise (CeUnexpectedToken CAPTURE_FORM k (Some (st_span st))
                 (Some ''REMEMBER carries capture metadata only - fact extraction is host configuration (deja remember --model ...)''))))"

definition remember_options :: "capture parse" where
  "remember_options = if_eat (Kw ''WITH'')
     (repeat (\<lambda>c. seq (remember_option c) (\<lambda>x. if_eat (Sym '','') (ret (Inl x)) (ret (Inr x)))) (None, None, None))
     (ret (None, None, None))"

definition parse_remember :: "statement parse" where
  "parse_remember = ask current_span (\<lambda>start. seq (expect_exact (Kw ''REMEMBER'')) (\<lambda>_. seq parse_string_literal (\<lambda>c.
     seq remember_options (\<lambda>(s, r, n). since_span start (\<lambda>sp.
     SRemember \<lparr>rm_content = c, rm_session_id = s, rm_role = r, rm_run_id = n, rm_span = sp\<rparr>)))))"

section \<open>The newer reads, and MERGE\<close>

definition parse_word_number :: "string \<Rightarrow> nat option parse" where
  "parse_word_number w = if_tok (\<lambda>t. is_word w t \<or> t = Kw ''LIMIT'' \<and> eq_ignore_ascii_case w ''LIMIT'')
     (then_advance (seq (usize_where (''a positive number after '' @ w)) (\<lambda>n. ret (Some n)))) (ret None)"

definition MERGE_FORM :: string where
  "MERGE_FORM = ''a merge is spelled MERGE '' @ dq ''<subject>'' @ '' RELATION '' @ dq ''<relation>'' @ '' TO ''
     @ dq ''<object>'' @ '' [CONFIDENCE <n>] BECAUSE '' @ dq ''<why>''"

definition parse_merge :: "statement parse" where
  "parse_merge = ask current_span (\<lambda>start. seq (expect_exact (Kw ''MERGE'')) (\<lambda>_. seq parse_string_literal (\<lambda>s.
     seq (expect_word ''RELATION'' (Some MERGE_FORM)) (\<lambda>_. seq parse_string_literal (\<lambda>r.
     seq (expect_exact (Kw ''TO'')) (\<lambda>_. seq parse_string_literal (\<lambda>ob.
     seq (if_tok (is_word ''CONFIDENCE'')
            (then_advance (seq (number_where unit_interval ''a confidence between 0 and 1'') (\<lambda>x. ret (Some x))))
            (ret None)) (\<lambda>c.
     seq mandatory_reason (\<lambda>why. since_span start (\<lambda>sp.
     SMerge \<lparr>mr_subject = s, mr_relation = r, mr_object = ob, mr_confidence = c, mr_reason = why, mr_span = sp\<rparr>))))))))))"

definition RELATED_FORM :: string where
  "RELATED_FORM = ''the graph walk is spelled RELATED '' @ dq ''<start>'' @ '' VIA '' @ dq ''<r1,r2>''
     @ '' [DIRECTION out|in|both] [DEPTH <n>] [LIMIT <n>]''"

fun direction_of :: "token \<Rightarrow> string option" where
  "direction_of (Ident d) =
     (if map ascii_lower_char d \<in> {''out'', ''in'', ''both''} then Some (map ascii_lower_char d) else None)"
| "direction_of t = (if t = Kw ''IN'' then Some ''in'' else None)"

fun axis_of :: "token \<Rightarrow> string option" where
  "axis_of (Ident a) =
     (if map ascii_lower_char a \<in> {''world'', ''knowledge''} then Some (map ascii_lower_char a) else None)"
| "axis_of t = (if t = Kw ''KNOWLEDGE'' then Some ''knowledge'' else None)"

text \<open>An optional word and its argument, one of a few words.\<close>

definition word_choice :: "string \<Rightarrow> (token \<Rightarrow> string option) \<Rightarrow> string \<Rightarrow> string option parse" where
  "word_choice w choice expected = if_tok (is_word w)
     (then_advance (on_peek (\<lambda>o'. case o' of
         None \<Rightarrow> not_found expected None
       | Some st \<Rightarrow> (case choice (st_token st) of
           Some d \<Rightarrow> then_advance (ret (Some d))
         | None \<Rightarrow> not_found expected None))))
     (ret None)"

definition parse_related :: "statement parse" where
  "parse_related = ask current_span (\<lambda>start. seq (expect_exact (Kw ''RELATED'')) (\<lambda>_. seq parse_string_literal (\<lambda>s.
     seq (expect_word ''VIA'' (Some RELATED_FORM)) (\<lambda>_. seq parse_string_literal (\<lambda>rs.
     seq (word_choice ''DIRECTION'' direction_of ''out, in, or both'') (\<lambda>d. seq (parse_word_number ''DEPTH'') (\<lambda>n.
     seq (parse_word_number ''LIMIT'') (\<lambda>l. since_span start (\<lambda>sp.
     SRelated \<lparr>rl_start = s, rl_relations = rs, rl_direction = d, rl_depth = n, rl_limit = l, rl_span = sp\<rparr>)))))))))"

definition novelty_fields :: "(string option \<times> string option) parse" where
  "novelty_fields = repeat (\<lambda>(s, r).
     if_tok (\<lambda>t. is_word ''SUBJECT'' t \<and> s = None) (then_advance (seq parse_string_literal (\<lambda>x. ret (Inl (Some x, r)))))
     (if_tok (\<lambda>t. is_word ''RELATION'' t \<and> r = None) (then_advance (seq parse_string_literal (\<lambda>x. ret (Inl (s, Some x)))))
       (ret (Inr (s, r))))) (None, None)"

definition parse_novelty :: "statement parse" where
  "parse_novelty = ask current_span (\<lambda>start. seq (expect_exact (Kw ''NOVELTY'')) (\<lambda>_. seq parse_string_literal (\<lambda>t.
     seq novelty_fields (\<lambda>(s, r). seq (parse_word_number ''LIMIT'') (\<lambda>l. since_span start (\<lambda>sp.
     SNovelty \<lparr>nv_text = t, nv_subject = s, nv_relation = r, nv_limit = l, nv_span = sp\<rparr>))))))"

definition ENTITY_FORM :: string where
  "ENTITY_FORM = ''the as-of read is spelled ENTITY '' @ dq ''<subject>'' @ '' RELATION '' @ dq ''<relation>''
     @ '' AT <epoch-ms> [AXIS world|knowledge]''"

definition parse_entity_at :: "statement parse" where
  "parse_entity_at = ask current_span (\<lambda>start. seq (expect_exact (Kw ''ENTITY'')) (\<lambda>_. seq parse_string_literal (\<lambda>s.
     seq (expect_word ''RELATION'' (Some ENTITY_FORM)) (\<lambda>_. seq parse_string_literal (\<lambda>r.
     seq (expect_word ''AT'' None) (\<lambda>_.
     seq (number_where (\<lambda>x. f64_ge x (Finite 0)) ''a point in time (epoch milliseconds)'') (\<lambda>x.
     seq (word_choice ''AXIS'' axis_of ''world or knowledge'') (\<lambda>a. since_span start (\<lambda>sp.
     SEntityAt \<lparr>ea_subject = s, ea_relation = r, ea_at_ms = f64_as_i64 x, ea_axis = a, ea_span = sp\<rparr>)))))))))"

definition parse_run_trace :: "span \<Rightarrow> statement parse" where
  "parse_run_trace start = seq advance (\<lambda>_. seq parse_string_literal (\<lambda>r. seq (parse_word_number ''LIMIT'') (\<lambda>l.
     since_span start (\<lambda>sp. SRunTrace \<lparr>rt_run_id = r, rt_limit = l, rt_span = sp\<rparr>))))"

definition parse_runs_touching :: "statement parse" where
  "parse_runs_touching = ask current_span (\<lambda>start. seq (expect_exact (Kw ''RUNS'')) (\<lambda>_.
     seq (expect_word ''TOUCHING'' (Some ''the reverse join is spelled RUNS TOUCHING <hash> [DEPTH <n>]'')) (\<lambda>_.
     seq parse_hash_literal (\<lambda>h. seq (parse_word_number ''DEPTH'') (\<lambda>d. since_span start (\<lambda>sp.
     SRunsTouching \<lparr>ru_hash = h, ru_depth = d, ru_span = sp\<rparr>))))))"

definition parse_derived_from :: "statement parse" where
  "parse_derived_from = ask current_span (\<lambda>start. seq (expect_exact (Kw ''DERIVED'')) (\<lambda>_.
     seq (expect_exact (Kw ''FROM'')) (\<lambda>_. seq parse_hash_literal (\<lambda>h. since_span start (\<lambda>sp.
     SDerivedFrom \<lparr>df_hash = h, df_span = sp\<rparr>)))))"

section \<open>Templates and saved queries\<close>

definition parse_drop :: "statement parse" where
  "parse_drop = ask current_span (\<lambda>start. seq (expect_exact (Kw ''DROP'')) (\<lambda>_.
     if_eat (Kw ''TEMPLATE'') (seq parse_string_literal (\<lambda>n. since_span start (\<lambda>sp. SDropTemplate \<lparr>dp_name = n, dp_span = sp\<rparr>)))
     (if_eat (Kw ''QUERY'') (seq parse_string_literal (\<lambda>n. since_span start (\<lambda>sp. SDropQuery \<lparr>dp_name = n, dp_span = sp\<rparr>)))
       (ask_env (\<lambda>E. ask (\<lambda>p. (peek_token 0 p, current_span p)) (\<lambda>(t, sp).
          raise (CeUnexpectedToken ''TEMPLATE or QUERY after DROP''
            (case t of Some x \<Rightarrow> describe E x | None \<Rightarrow> ''end of input'') (Some sp)
            (Some (''Use DROP TEMPLATE '' @ dq ''name'' @ '' or DROP QUERY '' @ dq ''name'' @ ''.'')))))))))"

text \<open>The grain types after \<^verbatim>\<open>FOR\<close>; any token is taken by its description.\<close>

definition template_types :: "string list \<Rightarrow> string list parse" where
  "template_types gs = repeat (\<lambda>gs. on_peek (\<lambda>o'. case o' of
      None \<Rightarrow> ret (Inr gs)
    | Some st \<Rightarrow> then_advance (ask_env (\<lambda>E.
        let gs' = gs @ [to_lowercase (describe E (st_token st))] in
        if_eat (Sym '','') (ret (Inl gs')) (ret (Inr gs')))))) gs"

definition template_clauses :: "(string option \<times> string option \<times> string list) parse" where
  "template_clauses = repeat (\<lambda>(d, par, gs).
     if_tok (is_word ''DESCRIPTION'') (then_advance (seq parse_string_literal (\<lambda>x. ret (Inl (Some x, par, gs)))))
     (if_eat (Kw ''EXTENDS'') (seq parse_template_name (\<lambda>x. ret (Inl (d, Some x, gs))))
     (if_eat (Kw ''FOR'') (seq (template_types gs) (\<lambda>x. ret (Inl (d, par, x))))
       (ret (Inr (d, par, gs)))))) (None, None, [])"

fun contains_text :: "string \<Rightarrow> string \<Rightarrow> bool" where
  "contains_text pat [] = (pat = [])"
| "contains_text pat (c # s) = (starts_with (c # s) pat \<or> contains_text pat s)"

definition template_body :: "(string \<times> template_sections option) parse" where
  "template_body = if_eat (Kw ''AS'')
     (ask current_span (\<lambda>sp. seq parse_string_literal (\<lambda>src.
        if src = [] then raise (CeTemplateSyntaxError ''template source cannot be empty'' (Some sp))
        else if contains_text ''{{#each'' src then ret (src, None)
        else (let ts = sections_none\<lparr>ts_element := Some src\<rparr> in ret (sections_source ts, Some ts)))))
     (seq parse_template_sections (\<lambda>ts.
        if sections_empty ts
        then ask current_span (\<lambda>sp. raise (CeTemplateSyntaxError (''template body must be AS '' @ dq ''...''
               @ '' or at least one section (HEADER, ELEMENT, ELEMENT_SUMMARY, ELEMENT_OMIT, SOURCE_BREAK, FOOTER)'') (Some sp)))
        else ret (sections_source ts, Some ts)))"

definition parse_define_template :: "statement parse" where
  "parse_define_template = ask current_span (\<lambda>start. seq (expect_exact (Kw ''DEFINE'')) (\<lambda>_.
     seq (expect_exact (Kw ''TEMPLATE'')) (\<lambda>_. seq parse_template_name (\<lambda>n. seq template_clauses (\<lambda>(d, par, gs).
     seq template_body (\<lambda>(src, ts). since_span start (\<lambda>sp.
     SDefineTemplate \<lparr>dt_name = n, dt_description = d, dt_parent = par, dt_grain_types = gs, dt_source = src,
       dt_sections = ts, dt_span = sp\<rparr>)))))))"

text \<open>\<^verbatim>\<open>($name = value, ...)\<close>: the parameters of a saved query, and their bindings in a run.\<close>

definition query_param_name :: "string \<Rightarrow> string \<Rightarrow> string parse" where
  "query_param_name expected hint = on_peek (\<lambda>o'.
     case map_option st_token o' of
       Some (Parameter n) \<Rightarrow> then_advance (ret n)
     | _ \<Rightarrow> ask_env (\<lambda>E. ask current_span (\<lambda>sp. raise (CeUnexpectedToken expected
         (case o' of Some st \<Rightarrow> describe E (st_token st) | None \<Rightarrow> ''end of input'') (Some sp) (Some hint)))))"

definition paren_params :: "'a parse \<Rightarrow> 'a list parse" where
  "paren_params item = seq (expect_exact (Sym ''('')) (\<lambda>_. repeat (\<lambda>xs. if_eat (Sym '')'') (ret (Inr xs))
     (seq (if xs = [] then ret () else expect_exact (Sym '','')) (\<lambda>_. seq item (\<lambda>x. ret (Inl (xs @ [x])))))) [])"

definition query_param :: "query_param parse" where
  "query_param = seq (query_param_name ''parameter name ($name)''
      ''Parameter declarations use $name syntax, e.g. ($user, $limit = 10)'') (\<lambda>n.
     seq (optional (Sym ''='') parse_value) (\<lambda>d. ret \<lparr>qp_name = n, qp_default = d\<rparr>))"

definition parse_query_param_decls :: "query_param list parse" where
  "parse_query_param_decls = paren_params query_param"

definition query_binding :: "(string \<times> cval) parse" where
  "query_binding = seq (query_param_name ''parameter binding ($name = value)''
      (''Parameter bindings use $name = value syntax, e.g. ($user = '' @ dq ''john'' @ '')'')) (\<lambda>n.
     seq (expect_exact (Sym ''='')) (\<lambda>_. seq parse_value (\<lambda>v. ret (n, v))))"

definition parse_query_param_bindings :: "(string \<times> cval) list parse" where
  "parse_query_param_bindings = paren_params query_binding"

definition parse_run_query :: "statement parse" where
  "parse_run_query = ask current_span (\<lambda>start. seq (expect_exact (Kw ''RUN'')) (\<lambda>_.
     if_tok (is_word ''LOOP'') (parse_run_loop start)
     (if_tok (is_word ''TRACE'') (parse_run_trace start)
       (seq parse_string_literal (\<lambda>n. seq (if_at (Sym ''('') parse_query_param_bindings (ret [])) (\<lambda>bs.
        since_span start (\<lambda>sp. SRunQuery \<lparr>rq_name = n, rq_bindings = bs, rq_span = sp\<rparr>)))))))"

section \<open>Progress\<close>

lemma reason_rules [parse_simps]:
  "safe n b mandatory_reason" "safe n b parse_reason_clause"
  by (simp_all add: mandatory_reason_def parse_reason_clause_def parse_simps)

lemma assignment_rules [parse_simps]: "strict n b parse_assignment" "safe n b parse_assignment"
  by (simp_all add: parse_assignment_def parse_simps)

lemma add_part_rules [parse_simps]:
  "safe n b add_fields" "strict n b parse_add_with_option" "safe n b parse_add_with_clause" "safe n b opt_add_with"
proof -
  show "strict n b parse_add_with_option" for n b by (simp add: parse_add_with_option_def parse_simps)
  then show "safe n b parse_add_with_clause" for n b by (simp add: parse_add_with_clause_def parse_simps)
  then show "safe n b opt_add_with" by (simp add: opt_add_with_def parse_simps)
  show "safe n b add_fields" by (simp add: add_fields_def parse_simps)
qed

lemma here_rules [parse_simps]:
  "safe n b (found_here e h)" "strict n b (found_here e h)" "safe n b (debug_here e h)" "strict n b (debug_here e h)"
  by (simp_all add: found_here_def debug_here_def parse_simps)

lemma node_rules [parse_simps]: "strict n b parse_node_name" "safe n b parse_node_name"
  by (simp_all add: parse_node_name_def Let_def parse_simps)

lemma node_group_rules [parse_simps]: "strict n b parse_node_or_group" "safe n b parse_node_or_group"
  by (simp_all add: parse_node_or_group_def parse_simps)

lemma edge_repeat_rules [parse_simps]: "safe n b edge_repeat"
  by (simp add: edge_repeat_def Let_def parse_simps)

lemma graph_arrows_rules [parse_simps]: "safe n b (graph_arrows ss g)"
  by (simp add: graph_arrows_def parse_simps)

lemma graph_rules [parse_simps]: "safe n b parse_workflow_graph"
  by (simp add: parse_workflow_graph_def graph_lines_def parse_simps)

lemma bind_rules [parse_simps]: "strict n b parse_bind_clause" "safe n b bind_clauses" "safe n b opt_trigger"
  by (simp_all add: parse_bind_clause_def bind_clauses_def opt_trigger_def parse_simps)

lemma add_rules [parse_simps]: "strict n b parse_add"
  by (simp add: parse_add_def parse_add_workflow_def parse_simps)

lemma accumulate_part_rules [parse_simps]:
  "safe n b tip_fields" "safe n b accumulate_target" "safe n b accumulate_ops" "safe n b set_clauses"
proof -
  show "safe n b tip_fields" for n b by (simp add: tip_fields_def Let_def parse_simps)
  then show "safe n b accumulate_target" by (simp add: accumulate_target_def parse_simps)
qed (simp_all add: accumulate_ops_def set_clauses_def parse_simps)

lemma update_rules [parse_simps]:
  "strict n b parse_accumulate" "strict n b parse_supersede" "strict n b parse_revert"
  by (simp_all add: parse_accumulate_def parse_supersede_def parse_supersede_workflow_def parse_revert_def parse_simps)

lemma word_rules [parse_simps]:
  "safe n b (expect_word w h)" "safe n b (text_mentions_option w)" "safe n b (lower_word w)"
  "safe n b (number_where P w)" "safe n b (usize_where w)" "safe n b (parse_word_number w)"
  "safe n b (word_choice w ch e)" "safe n b (query_param_name w h')"
  by (simp_all add: expect_word_def text_mentions_option_def lower_word_def number_where_def usize_where_def
      parse_word_number_def word_choice_def query_param_name_def parse_simps split: token.split)

lemma strict_word_rules [parse_simps]:
  "strict n b (expect_word w h)" "strict n b (lower_word w)" "strict n b (number_where P w)"
  "strict n b (query_param_name w h')"
  by (simp_all add: expect_word_def lower_word_def number_where_def query_param_name_def parse_simps split: token.split)

lemma erase_rules [parse_simps]:
  "strict n b parse_forget" "strict n b parse_report_subject" "strict n b parse_purge"
  by (simp_all add: parse_forget_def forget_subject_def forget_hash_def parse_report_subject_def parse_purge_def
      age_unit_def purge_clauses_def purge_type_def Let_def parse_simps)

lemma dcl_part_rules [parse_simps]:
  "strict n b parse_dcl_verb" "strict n b dcl_namespace" "safe n b dcl_reason"
  by (simp_all add: parse_dcl_verb_def dcl_namespace_def dcl_reason_def parse_simps)

lemma dcl_rules [parse_simps]:
  "safe n b (parse_dcl_body t)" "strict n b parse_grant" "strict n b parse_revoke" "strict n b parse_show_grants"
proof -
  show "safe n b (parse_dcl_body t)" for n b t by (simp add: parse_dcl_body_def parse_simps)
  then show "strict n b parse_grant" "strict n b parse_revoke"
    by (simp_all add: parse_grant_def parse_revoke_def parse_simps)
  show "strict n b parse_show_grants" by (simp add: parse_show_grants_def parse_simps)
qed

lemma stale_not_stuck: "parse_stale_duration_ms E d = Inl e \<Longrightarrow> e \<noteq> CeStuck"
  by (auto simp: parse_stale_duration_ms_def Let_def split: if_splits option.splits)

text \<open>A result that was computed outside the parser.\<close>

lemma result_rules [parse_simps]:
  "(\<And>e. r = Inl e \<Longrightarrow> safe n b (f e)) \<Longrightarrow> (\<And>x. r = Inr x \<Longrightarrow> safe n b (g x))
     \<Longrightarrow> safe n b (case r of Inl e \<Rightarrow> f e | Inr x \<Rightarrow> g x)"
  "(\<And>e. r = Inl e \<Longrightarrow> strict n b (f e)) \<Longrightarrow> (\<And>x. r = Inr x \<Longrightarrow> strict n b (g x))
     \<Longrightarrow> strict n b (case r of Inl e \<Rightarrow> f e | Inr x \<Rightarrow> g x)"
  by (cases r; simp)+

lemma stale_rules [parse_simps]: "safe n b stale_option"
  by (simp add: stale_option_def paren_arg_def parse_simps stale_not_stuck)

lemma run_loop_rules [parse_simps]: "strict n b (run_loop_option o')" "safe n b (parse_run_loop sp)"
proof -
  show "strict n b (run_loop_option o')" for n b o' by (simp add: run_loop_option_def parse_simps)
  then show "safe n b (parse_run_loop sp)"
    by (simp add: parse_run_loop_def run_loop_options_def parse_simps)
qed

lemma governance_rules [parse_simps]: "strict n b (parse_governance_body t)"
  by (simp add: parse_governance_body_def parse_simps)

lemma remember_rules [parse_simps]: "strict n b (remember_option c)" "strict n b parse_remember"
proof -
  show "strict n b (remember_option c)" for n b c by (simp add: remember_option_def parse_simps)
  then show "strict n b parse_remember" by (simp add: parse_remember_def remember_options_def parse_simps)
qed

lemma newer_rules [parse_simps]:
  "strict n b parse_merge" "strict n b parse_related" "strict n b parse_novelty" "strict n b parse_entity_at"
  "strict n b parse_runs_touching" "strict n b parse_derived_from"
  by (simp_all add: parse_merge_def parse_related_def parse_novelty_def novelty_fields_def parse_entity_at_def
      parse_runs_touching_def parse_derived_from_def parse_simps)

lemma template_part_rules [parse_simps]:
  "safe n b (template_types gs)" "safe n b template_clauses" "safe n b template_body"
proof -
  show "safe n b (template_types gs)" for n b gs by (simp add: template_types_def Let_def parse_simps)
  then show "safe n b template_clauses" by (simp add: template_clauses_def parse_simps)
  show "safe n b template_body" by (simp add: template_body_def Let_def parse_simps)
qed

lemma paren_params_rules [parse_simps]: "(\<And>k c. strict k c item) \<Longrightarrow> safe n b (paren_params item)"
  by (simp add: paren_params_def parse_simps)

lemma query_params_rules [parse_simps]:
  "safe n b parse_query_param_decls" "safe n b parse_query_param_bindings"
  by (simp_all add: parse_query_param_decls_def query_param_def parse_query_param_bindings_def query_binding_def
      parse_simps)

lemma saved_rules [parse_simps]:
  "strict n b parse_drop" "strict n b parse_define_template" "strict n b parse_run_query"
  by (simp_all add: parse_drop_def parse_define_template_def parse_run_query_def parse_run_trace_def parse_simps)

end
