(* ===== verification/Cal_Classify.thy ===== *)
theory Cal_Classify
  imports Cal_Ast
begin

text \<open>
  What kind of statement a piece of CAL is: \<^verbatim>\<open>dejadb-cal/src/classify.rs\<close>, the read-only check
  of saved queries (\<^verbatim>\<open>check_read_only_statement\<close> in \<^verbatim>\<open>parser.rs\<close>) and the scope table of
  \<^verbatim>\<open>executor.rs\<close>; three tables over the same enum, and how they agree.
\<close>

section \<open>Classes\<close>

datatype statement_class = ClRead | ClEvolve | ClControl | ClDestructive

fun class_rank :: "statement_class \<Rightarrow> nat" where
  "class_rank ClRead = 0"
| "class_rank ClEvolve = 1"
| "class_rank ClControl = 2"
| "class_rank ClDestructive = 3"

text \<open>The order the enum derives: coarsest first.\<close>

instantiation statement_class :: linorder
begin

definition less_eq_statement_class :: "statement_class \<Rightarrow> statement_class \<Rightarrow> bool" where
  "less_eq_statement_class a b = (class_rank a \<le> class_rank b)"

definition less_statement_class :: "statement_class \<Rightarrow> statement_class \<Rightarrow> bool" where
  "less_statement_class a b = (class_rank a < class_rank b)"

instance
proof
  fix a b :: statement_class
  assume "a \<le> b" "b \<le> a"
  then show "a = b" by (cases a; cases b; simp add: less_eq_statement_class_def)
qed (auto simp: less_eq_statement_class_def less_statement_class_def)

end

lemmas class_order = less_eq_statement_class_def less_statement_class_def

section \<open>Batches\<close>

text \<open>The statements of a batch, first the positional, then the labelled ones.\<close>

definition batch_statements :: "'s batch_stmt \<Rightarrow> 's list" where
  "batch_statements b = map be_statement (bs_statements b)
     @ (case bs_labeled b of None \<Rightarrow> [] | Some es \<Rightarrow> map (\<lambda>(_, e). be_statement e) es)"

lemma batch_statement_size: "s \<in> set (batch_statements b) \<Longrightarrow> size s < size (SBatch b)"
proof -
  have e: "size (be_statement x) < size_batch_entry size x" for x :: "statement batch_entry" by (cases x) simp
  have l: "size (be_statement x) < size_list (size_batch_entry size) xs" if "x \<in> set xs" for x :: "statement batch_entry" and xs
    by (rule less_le_trans [OF e size_list_estimation' [OF that]]) simp
  have p: "size (be_statement (snd y)) < size_list (size_prod (\<lambda>_. 0) (size_batch_entry size)) ys" if "y \<in> set ys"
    for y :: "string \<times> statement batch_entry" and ys
    by (rule less_le_trans [OF e size_list_estimation' [OF that]]) (cases y; simp)
  obtain es o' sp where b: "b = BatchStmt es o' sp" by (cases b)
  assume "s \<in> set (batch_statements b)"
  then consider x where "x \<in> set es" "s = be_statement x"
    | ys y where "o' = Some ys" "y \<in> set ys" "s = be_statement (snd y)"
    by (auto simp: batch_statements_def b split: option.splits)
  then show ?thesis
    by cases (use l p in \<open>force simp: b\<close>)+
qed

section \<open>Classification\<close>

definition class_max :: "statement_class list \<Rightarrow> statement_class" where
  "class_max cs = foldl max ClRead cs"

function classify :: "statement \<Rightarrow> statement_class" where
  "classify (SRecall _) = ClRead"
| "classify (SSetOp _ _ _) = ClRead"
| "classify (SExists _) = ClRead"
| "classify (SAssemble _) = ClRead"
| "classify (SHistory _) = ClRead"
| "classify (SExplain _ _) = ClRead"
| "classify (SDescribe _) = ClRead"
| "classify (SCoalesce _) = ClRead"
| "classify (SRunQuery _) = ClRead"
| "classify (SEntityAt _) = ClRead"
| "classify (SRunTrace _) = ClRead"
| "classify (SRunsTouching _) = ClRead"
| "classify (SDerivedFrom _) = ClRead"
| "classify (SShowForks _) = ClRead"
| "classify (SRelated _) = ClRead"
| "classify (SNovelty _) = ClRead"
| "classify (SReportSubject _) = ClRead"
| "classify (SMerge _) = ClEvolve"
| "classify (SAdd _) = ClEvolve"
| "classify (SAddWorkflow _) = ClEvolve"
| "classify (SSupersede _) = ClEvolve"
| "classify (SSupersedeWorkflow _) = ClEvolve"
| "classify (SAccumulate _) = ClEvolve"
| "classify (SRevert _) = ClEvolve"
| "classify (SRemember _) = ClEvolve"
| "classify (SDefineTemplate _) = ClControl"
| "classify (SDropTemplate _) = ClControl"
| "classify (SDefineQuery _) = ClControl"
| "classify (SDropQuery _) = ClControl"
| "classify (SGrant _) = ClControl"
| "classify (SRevoke _) = ClControl"
| "classify (SShowGrants _) = ClRead"
| "classify (SApprove _) = ClControl"
| "classify (SReject _) = ClControl"
| "classify (SApplyRec _) = ClControl"
| "classify (SRollbackRec _) = ClControl"
| "classify (SRunLoop _) = ClControl"
| "classify (SForget _) = ClDestructive"
| "classify (SPurge _) = ClDestructive"
| "classify (SBatch b) = class_max (map classify (batch_statements b))"
  by pat_completeness auto
termination by (relation "measure size") (auto dest: batch_statement_size)

section \<open>The read-only check\<close>

definition write_error :: "string \<Rightarrow> span \<Rightarrow> cal_error + unit" where
  "write_error w sp = Inl (CeWriteInQueryBody w (Some sp))"

text \<open>The first error, in order.\<close>

primrec all_ok :: "('e + unit) list \<Rightarrow> 'e + unit" where
  "all_ok [] = Inr ()"
| "all_ok (r # rs) = and_then r (\<lambda>_. all_ok rs)"

function check_read_only_statement :: "span \<Rightarrow> statement \<Rightarrow> cal_error + unit" where
  "check_read_only_statement sp (SRecall _) = Inr ()"
| "check_read_only_statement sp (SSetOp _ _ _) = Inr ()"
| "check_read_only_statement sp (SExists _) = Inr ()"
| "check_read_only_statement sp (SAssemble _) = Inr ()"
| "check_read_only_statement sp (SHistory _) = Inr ()"
| "check_read_only_statement sp (SExplain _ _) = Inr ()"
| "check_read_only_statement sp (SDescribe _) = Inr ()"
| "check_read_only_statement sp (SCoalesce _) = Inr ()"
| "check_read_only_statement sp (SBatch b) = all_ok (map (check_read_only_statement sp) (batch_statements b))"
| "check_read_only_statement sp (SAdd _) = write_error ''ADD'' sp"
| "check_read_only_statement sp (SAddWorkflow _) = write_error ''ADD'' sp"
| "check_read_only_statement sp (SSupersede _) = write_error ''SUPERSEDE'' sp"
| "check_read_only_statement sp (SSupersedeWorkflow _) = write_error ''SUPERSEDE'' sp"
| "check_read_only_statement sp (SAccumulate _) = write_error ''ACCUMULATE'' sp"
| "check_read_only_statement sp (SRevert _) = write_error ''REVERT'' sp"
| "check_read_only_statement sp (SRemember _) = write_error ''REMEMBER'' sp"
| "check_read_only_statement sp (SEntityAt _) = Inr ()"
| "check_read_only_statement sp (SRunTrace _) = Inr ()"
| "check_read_only_statement sp (SRunsTouching _) = Inr ()"
| "check_read_only_statement sp (SDerivedFrom _) = Inr ()"
| "check_read_only_statement sp (SShowForks _) = Inr ()"
| "check_read_only_statement sp (SRelated _) = Inr ()"
| "check_read_only_statement sp (SNovelty _) = Inr ()"
| "check_read_only_statement sp (SReportSubject _) = Inr ()"
| "check_read_only_statement sp (SMerge _) = write_error ''MERGE'' sp"
| "check_read_only_statement sp (SForget _) = write_error ''FORGET'' sp"
| "check_read_only_statement sp (SPurge _) = write_error ''PURGE'' sp"
| "check_read_only_statement sp (SGrant _) = write_error ''GRANT'' sp"
| "check_read_only_statement sp (SRevoke _) = write_error ''REVOKE'' sp"
| "check_read_only_statement sp (SShowGrants _) = Inr ()"
| "check_read_only_statement sp (SApprove _) = write_error ''APPROVE'' sp"
| "check_read_only_statement sp (SReject _) = write_error ''REJECT'' sp"
| "check_read_only_statement sp (SApplyRec _) = write_error ''APPLY'' sp"
| "check_read_only_statement sp (SRollbackRec _) = write_error ''ROLLBACK'' sp"
| "check_read_only_statement sp (SRunLoop _) = write_error ''RUN LOOP'' sp"
| "check_read_only_statement sp (SDefineTemplate _) = write_error ''DEFINE TEMPLATE'' sp"
| "check_read_only_statement sp (SDropTemplate _) = write_error ''DROP TEMPLATE'' sp"
| "check_read_only_statement sp (SDefineQuery _) = write_error ''DEFINE QUERY'' sp"
| "check_read_only_statement sp (SDropQuery _) = write_error ''DROP QUERY'' sp"
| "check_read_only_statement sp (SRunQuery _) = Inl (CeRecursiveQuery (Some sp))"
  by pat_completeness auto
termination by (relation "measure (\<lambda>(sp, s). size s)") (auto dest: batch_statement_size)

section \<open>The scope of a statement\<close>

fun required_scope_for_statement :: "statement \<Rightarrow> string" where
  "required_scope_for_statement (SRecall _) = ''read''"
| "required_scope_for_statement (SSetOp _ _ _) = ''read''"
| "required_scope_for_statement (SExists _) = ''read''"
| "required_scope_for_statement (SAssemble _) = ''read''"
| "required_scope_for_statement (SHistory _) = ''read''"
| "required_scope_for_statement (SExplain _ _) = ''read''"
| "required_scope_for_statement (SDescribe _) = ''read''"
| "required_scope_for_statement (SBatch _) = ''read''"
| "required_scope_for_statement (SCoalesce _) = ''read''"
| "required_scope_for_statement (SRunQuery _) = ''read''"
| "required_scope_for_statement (SShowGrants _) = ''read''"
| "required_scope_for_statement (SEntityAt _) = ''read''"
| "required_scope_for_statement (SRunTrace _) = ''read''"
| "required_scope_for_statement (SRunsTouching _) = ''read''"
| "required_scope_for_statement (SDerivedFrom _) = ''read''"
| "required_scope_for_statement (SShowForks _) = ''read''"
| "required_scope_for_statement (SRelated _) = ''read''"
| "required_scope_for_statement (SNovelty _) = ''read''"
| "required_scope_for_statement (SReportSubject _) = ''read''"
| "required_scope_for_statement (SAdd _) = ''write''"
| "required_scope_for_statement (SAddWorkflow _) = ''write''"
| "required_scope_for_statement (SSupersede _) = ''write''"
| "required_scope_for_statement (SSupersedeWorkflow _) = ''write''"
| "required_scope_for_statement (SAccumulate _) = ''write''"
| "required_scope_for_statement (SRevert _) = ''write''"
| "required_scope_for_statement (SRemember _) = ''write''"
| "required_scope_for_statement (SMerge _) = ''write''"
| "required_scope_for_statement _ = ''admin''"

section \<open>The tables agree\<close>

fun is_batch :: "statement \<Rightarrow> bool" where
  "is_batch (SBatch _) = True"
| "is_batch _ = False"

fun runs_query :: "statement \<Rightarrow> bool" where
  "runs_query (SRunQuery _) = True"
| "runs_query _ = False"

lemma class_cases: "c = ClRead \<longleftrightarrow> c \<le> ClRead"
  by (cases c) (simp_all add: class_order)

lemma class_max_read: "class_max cs = ClRead \<longleftrightarrow> (\<forall>c\<in>set cs. c = ClRead)"
proof -
  have "foldl max a cs \<le> ClRead \<longleftrightarrow> a \<le> ClRead \<and> (\<forall>c\<in>set cs. c \<le> ClRead)" for a
    by (induction cs arbitrary: a) auto
  then show ?thesis by (simp add: class_max_def class_cases [symmetric])
qed

lemma all_ok_iff: "all_ok rs = Inr () \<longleftrightarrow> (\<forall>r\<in>set rs. r = Inr ())"
  by (induction rs) (auto simp: and_then_def split: sum.splits)

text \<open>The statements a statement runs as a batch, itself included.\<close>

function batch_leaves :: "statement \<Rightarrow> statement list" where
  "batch_leaves s = (case s of SBatch b \<Rightarrow> concat (map batch_leaves (batch_statements b)) | _ \<Rightarrow> [s])"
  by pat_completeness auto
termination by (relation "measure size") (auto dest: batch_statement_size)

declare batch_leaves.simps [simp del]

end
