(* ===== verification/Cal_Query.thy ===== *)
theory Cal_Query
  imports Cal_Writes Cal_Classify
begin

text \<open>
  Whole queries (\<^verbatim>\<open>dejadb-cal/src/parser.rs\<close>): the bodies of saved queries, the dispatch over
  all statements, and \<^verbatim>\<open>parse\<close>. The recursion of the statement parser is unrolled by the number
  of tokens; the parser of a saved query's body is the parser itself, on a shorter text.
\<close>

section \<open>Names of saved queries\<close>

definition MAX_QUERY_BODY_SIZE :: nat where "MAX_QUERY_BODY_SIZE = 8192"
definition MAX_QUERY_PARAMS :: nat where "MAX_QUERY_PARAMS = 10"

definition is_slug_char :: "char \<Rightarrow> bool" where
  "is_slug_char c = (is_ascii_lower c \<or> is_ascii_digit c \<or> c = CHR ''-'')"

definition is_valid_slug :: "string \<Rightarrow> bool" where
  "is_valid_slug s = (2 \<le> length s \<and> length s \<le> 64 \<and> hd s \<noteq> CHR ''-'' \<and> last s \<noteq> CHR ''-'' \<and> list_all is_slug_char s)"

definition is_valid_agent_query_name :: "string \<Rightarrow> bool" where
  "is_valid_agent_query_name name =
     (starts_with name ''agent/''
      \<and> (let rest = drop 6 name; slug = takeWhile (\<lambda>c. c \<noteq> CHR ''/'') rest; suffix = drop (length slug + 1) rest
         in CHR ''/'' \<in> set rest \<and> is_valid_slug slug \<and> suffix \<noteq> [] \<and> length suffix \<le> 16
            \<and> list_all (\<lambda>c. is_ascii_lower c \<or> c = CHR ''_'') suffix))"

text \<open>The regular expression \<^verbatim>\<open>^[a-zA-Z][a-zA-Z0-9 _-]{0,63}$\<close>.\<close>

definition is_query_name_char :: "char \<Rightarrow> bool" where
  "is_query_name_char c =
     (is_ascii_alphanumeric c \<or> c = CHR '' '' \<or> c = CHR ''_'' \<or> c = CHR ''-'')"

definition query_name_matches :: "string \<Rightarrow> bool" where
  "query_name_matches s = (case s of
      [] \<Rightarrow> False
    | c # r \<Rightarrow> (is_ascii_upper c \<or> is_ascii_lower c) \<and> length r \<le> 63 \<and> list_all is_query_name_char r)"

definition is_valid_name :: "string \<Rightarrow> bool" where
  "is_valid_name name =
     (name = trim name \<and> \<not> contains_text ''  '' name \<and> (query_name_matches name \<or> is_valid_agent_query_name name))"

section \<open>Slices of the input\<close>

definition is_white :: "nat \<Rightarrow> bool" where
  "is_white c = (9 \<le> c \<and> c \<le> 13 \<or> c = 0x20 \<or> c = 0x85 \<or> c = 0xA0 \<or> c = 0x1680 \<or> 0x2000 \<le> c \<and> c \<le> 0x200A
     \<or> c = 0x2028 \<or> c = 0x2029 \<or> c = 0x202F \<or> c = 0x205F \<or> c = 0x3000)"

definition utrim :: "utext \<Rightarrow> utext" where
  "utrim t = rev (dropWhile is_white (rev (dropWhile is_white t)))"

text \<open>Splitting at a byte offset: \<open>None\<close> past the end or inside a character, where Rust panics.\<close>

fun byte_split :: "nat \<Rightarrow> utext \<Rightarrow> (utext \<times> utext) option" where
  "byte_split 0 t = Some ([], t)"
| "byte_split (Suc n) [] = None"
| "byte_split (Suc n) (c # t) =
     (if scalar_len c \<le> Suc n
      then (case byte_split (Suc n - scalar_len c) t of None \<Rightarrow> None | Some (a, b) \<Rightarrow> Some (c # a, b))
      else None)"

definition byte_slice :: "nat \<Rightarrow> nat \<Rightarrow> utext \<Rightarrow> utext option" where
  "byte_slice from to t =
     (if to < from then None
      else (case byte_split to t of
              None \<Rightarrow> None
            | Some (a, _) \<Rightarrow> map_option snd (byte_split from a)))"

section \<open>The body of a saved query\<close>

definition is_body_word_char :: "nat \<Rightarrow> bool" where
  "is_body_word_char c = (c < 128 \<and> (is_ascii_alphanumeric (char_of c) \<or> c = 0x5F))"

fun body_words :: "string \<Rightarrow> utext \<Rightarrow> string list" where
  "body_words w [] = [w]"
| "body_words w (c # t) =
     (if is_body_word_char c then body_words (w @ [ascii_upper_char (char_of c)]) t else w # body_words [] t)"

definition BODY_WRITE_WORDS :: "string list" where
  "BODY_WRITE_WORDS = [''ADD'', ''SUPERSEDE'', ''ACCUMULATE'', ''REVERT'', ''FORGET'', ''PURGE'', ''DROP'', ''DEFINE'',
     ''DELETE'', ''ERASE'', ''TRUNCATE'', ''INSERT'', ''UPDATE'', ''CREATE'', ''GRANT'']"

fun check_body_words :: "span \<Rightarrow> string list \<Rightarrow> cal_error + unit" where
  "check_body_words sp [] = Inr ()"
| "check_body_words sp (w # ws) =
     (if w = ''RUN'' then Inl (CeRecursiveQuery (Some sp))
      else if w \<in> set BODY_WRITE_WORDS then Inl (CeWriteInQueryBody w (Some sp))
      else check_body_words sp ws)"

text \<open>A panic, or a parser that is stuck, is not an error that could be reported.\<close>

fun is_crash :: "cal_error \<Rightarrow> bool" where
  "is_crash (CePanic _) = True"
| "is_crash CeStuck = True"
| "is_crash _ = False"

definition validate_query_body ::
  "(cal_env \<Rightarrow> utext \<Rightarrow> cal_error + cal_query) \<Rightarrow> cal_env \<Rightarrow> utext \<Rightarrow> span \<Rightarrow> cal_error + unit" where
  "validate_query_body sub E body sp =
     (if 0x24 \<in> set body then check_body_words sp (body_words [] body)
      else (case sub E body of
              Inl e \<Rightarrow> if is_crash e then Inl e else Inl (CeInvalidQueryBody (cal_display e) (Some sp))
            | Inr q \<Rightarrow> check_read_only_statement sp (cq_statement q)))"

text \<open>To the closing brace of the body, which is not consumed.\<close>

definition find_close :: "unit parse" where
  "find_close = repeat (\<lambda>d. on_peek (\<lambda>o'.
     case map_option st_token o' of
       Some t \<Rightarrow>
         if t = Sym ''{'' then then_advance (ret (Inl (d + 1)))
         else if t = Sym ''}'' then (if d = 1 then ret (Inr ()) else then_advance (ret (Inl (d - 1))))
         else then_advance (ret (Inl d))
     | None \<Rightarrow> ask current_span (\<lambda>sp. raise (CeUnexpectedToken (''closing '' @ sq ''}'' @ '' for DEFINE QUERY body'')
                 ''end of input'' (Some sp) None)))) (1 :: nat)"

text \<open>
  The text between the spans of the first and the last token of the body. A body is shorter
  than the query around it, which is what the recursion of \<open>cal_parse\<close> rests on.
\<close>

definition reconstruct_body_text :: "nat \<Rightarrow> parser \<Rightarrow> cal_error + utext" where
  "reconstruct_body_text start p =
     (if ps_pos p \<le> start then Inr []
      else (case byte_slice (sp_start (st_span (ps_tokens p ! start))) (sp_end (st_span (ps_tokens p ! (ps_pos p - 1)))) (ps_input p) of
              None \<Rightarrow> Inl (CePanic ''str slice'')
            | Some t \<Rightarrow> if utext_len t < utext_len (ps_input p) then Inr (utrim t) else Inl CeStuck))"

definition define_description :: "string option parse" where
  "define_description = if_tok (is_word ''DESCRIPTION'')
     (then_advance (seq parse_string_literal (\<lambda>d. ret (Some d)))) (ret None)"

definition define_query_body :: "(cal_env \<Rightarrow> utext \<Rightarrow> cal_error + cal_query) \<Rightarrow> span \<Rightarrow> utext parse" where
  "define_query_body sub start = ask ps_pos (\<lambda>i. seq (expect_exact (Sym ''{'')) (\<lambda>_. seq find_close (\<lambda>_.
     ask (reconstruct_body_text (Suc i)) (\<lambda>r. case r of
        Inl e \<Rightarrow> raise e
      | Inr body \<Rightarrow>
          if MAX_QUERY_BODY_SIZE < utext_len body
          then raise (CeQueryBodyTooLarge (utext_len body) MAX_QUERY_BODY_SIZE (Some start))
          else ask_env (\<lambda>E. case validate_query_body sub E body start of
                  Inl e \<Rightarrow> raise e
                | Inr _ \<Rightarrow> seq advance (\<lambda>_. ret body))))))"

definition parse_define_query :: "(cal_env \<Rightarrow> utext \<Rightarrow> cal_error + cal_query) \<Rightarrow> statement parse" where
  "parse_define_query sub = ask current_span (\<lambda>start. seq (expect_exact (Kw ''DEFINE'')) (\<lambda>_.
     seq (expect_exact (Kw ''QUERY'')) (\<lambda>_. seq parse_string_literal (\<lambda>n.
     if \<not> is_valid_name n then ask current_span (\<lambda>sp. raise (CeTemplateInvalidName n (Some sp)))
     else seq (if_at (Sym ''('') parse_query_param_decls (ret [])) (\<lambda>ps.
     if MAX_QUERY_PARAMS < length ps
     then ask current_span (\<lambda>sp. raise (CeTooManyQueryParams (length ps) MAX_QUERY_PARAMS (Some sp)))
     else seq define_description (\<lambda>d. seq (expect_exact (Kw ''AS'')) (\<lambda>_.
     seq (define_query_body sub start) (\<lambda>body. since_span start (\<lambda>sp.
     SDefineQuery \<lparr>dq_name = n, dq_description = d, dq_params = ps, dq_body = body, dq_span = sp\<rparr>)))))))))"

definition parse_define :: "(cal_env \<Rightarrow> utext \<Rightarrow> cal_error + cal_query) \<Rightarrow> statement parse" where
  "parse_define sub = ask (peek_token 1) (\<lambda>next.
     if next = Some (Kw ''TEMPLATE'') then parse_define_template
     else if next = Some (Kw ''QUERY'') then parse_define_query sub
     else ask_env (\<lambda>E. ask current_span (\<lambda>sp. raise (CeUnexpectedToken ''TEMPLATE or QUERY after DEFINE''
        (case next of Some t \<Rightarrow> describe E t | None \<Rightarrow> ''end of input'') (Some sp)
        (Some ''Use DEFINE TEMPLATE or DEFINE QUERY.'')))))"

section \<open>All statements\<close>

definition STATEMENT_WORDS :: string where
  "STATEMENT_WORDS = ''RECALL, EXISTS, ASSEMBLE, HISTORY, EXPLAIN, DESCRIBE, BATCH, COALESCE, ADD, SUPERSEDE, REVERT, FORGET, DEFINE, DROP, or ''"

definition NO_BULK_DESTRUCTION :: string where
  "NO_BULK_DESTRUCTION = ''CAL cannot destroy data in bulk. The only destructive CAL statement is FORGET <hash>; erasure, key rotation, and schema changes are host-level operations.''"

definition statement_keyword ::
  "(cal_env \<Rightarrow> utext \<Rightarrow> cal_error + cal_query) \<Rightarrow> statement parse \<Rightarrow> string \<Rightarrow> statement parse option" where
  "statement_keyword sub rec k =
     (if k = ''EXPLAIN'' then Some (parse_explain rec)
      else if k = ''RECALL'' then Some (seq (parse_recall_stmt rec) (\<lambda>r. parse_set_op_tail rec (SRecall r)))
      else if k = ''ASSEMBLE'' then Some (seq (parse_assemble rec) (\<lambda>a. ret (SAssemble a)))
      else if k = ''EXISTS'' then Some parse_exists
      else if k = ''HISTORY'' then Some parse_history
      else if k = ''DESCRIBE'' then Some parse_describe
      else if k = ''BATCH'' then Some (parse_batch rec)
      else if k = ''COALESCE'' then Some (parse_coalesce rec)
      else if k = ''ADD'' then Some parse_add
      else if k = ''ACCUMULATE'' then Some parse_accumulate
      else if k = ''SUPERSEDE'' then Some parse_supersede
      else if k = ''REVERT'' then Some parse_revert
      else if k = ''FORGET'' then Some parse_forget
      else if k = ''PURGE'' then Some parse_purge
      else if k = ''REPORT'' then Some parse_report_subject
      else if k = ''APPROVE'' then Some (seq (parse_governance_body (Kw k)) (\<lambda>g. ret (SApprove g)))
      else if k = ''REJECT'' then Some (seq (parse_governance_body (Kw k)) (\<lambda>g. ret (SReject g)))
      else if k = ''APPLY'' then Some (seq (parse_governance_body (Kw k)) (\<lambda>g. ret (SApplyRec g)))
      else if k = ''ROLLBACK'' then Some (seq (parse_governance_body (Kw k)) (\<lambda>g. ret (SRollbackRec g)))
      else if k = ''GRANT'' then Some parse_grant
      else if k = ''REVOKE'' then Some parse_revoke
      else if k = ''SHOW'' then Some parse_show_grants
      else if k = ''REMEMBER'' then Some parse_remember
      else if k = ''ENTITY'' then Some parse_entity_at
      else if k = ''RUNS'' then Some parse_runs_touching
      else if k = ''DERIVED'' then Some parse_derived_from
      else if k = ''MERGE'' then Some parse_merge
      else if k = ''RELATED'' then Some parse_related
      else if k = ''NOVELTY'' then Some parse_novelty
      else if k = ''DEFINE'' then Some (parse_define sub)
      else if k = ''DROP'' then Some parse_drop
      else if k = ''RUN'' then Some parse_run_query
      else if k = ''STREAM'' then Some (parse_stream_assemble rec)
      else None)"

definition statement_step ::
  "(cal_env \<Rightarrow> utext \<Rightarrow> cal_error + cal_query) \<Rightarrow> statement parse \<Rightarrow> statement parse" where
  "statement_step sub rec = on_peek (\<lambda>o'. case o' of
      None \<Rightarrow> raise (CeEmptyQuery None)
    | Some st \<Rightarrow>
        (case st_token st of
           Ident w \<Rightarrow>
             if is_destructive_keyword w
             then raise (CeUnexpectedToken (STATEMENT_WORDS @ ''STREAM'') w (Some (st_span st)) (Some NO_BULK_DESTRUCTION))
             else unexpected_at (STATEMENT_WORDS @ ''RUN'') st None
         | Kw k \<Rightarrow>
             (case statement_keyword sub rec k of
                Some m \<Rightarrow> m
              | None \<Rightarrow> unexpected_at (STATEMENT_WORDS @ ''RUN'') st None)
         | t \<Rightarrow>
             if t = Sym ''('' then seq (parse_paren_statement rec) (parse_set_op_tail rec)
             else unexpected_at (STATEMENT_WORDS @ ''RUN'') st None))"

primrec parse_statement_n ::
  "(cal_env \<Rightarrow> utext \<Rightarrow> cal_error + cal_query) \<Rightarrow> nat \<Rightarrow> statement parse" where
  "parse_statement_n sub 0 = raise CeStuck"
| "parse_statement_n sub (Suc n) = statement_step sub (parse_statement_n sub n)"

definition parse_statement :: "(cal_env \<Rightarrow> utext \<Rightarrow> cal_error + cal_query) \<Rightarrow> statement parse" where
  "parse_statement sub = fuelled (parse_statement_n sub)"

section \<open>LET and the version\<close>

definition parse_version_prefix :: "nat parse" where
  "parse_version_prefix = if_at (Kw ''CAL'')
     (ask current_span (\<lambda>sp. then_advance (seq (expect_exact (Sym ''/'')) (\<lambda>_. seq parse_u64 (\<lambda>n.
        if n \<noteq> 1 then raise (CeUnsupportedVersion (n mod 2 ^ 32) (Some sp)) else ret n)))))
     (ret 1)"

definition EXTRACTORS :: "(string \<times> extractor) list" where
  "EXTRACTORS = [(''SUBJECTS'', ExSubjects), (''OBJECTS'', ExObjects), (''HASHES'', ExHashes)]"

fun extractor_of :: "token \<Rightarrow> extractor option" where
  "extractor_of (Kw k) = map_of EXTRACTORS k"
| "extractor_of _ = None"

definition parse_extractor :: "extractor parse" where
  "parse_extractor = on_peek (\<lambda>o'. case o' of
      None \<Rightarrow> unexpected_end ''SUBJECTS, OBJECTS, or HASHES''
    | Some st \<Rightarrow> (case extractor_of (st_token st) of
          Some x \<Rightarrow> then_advance (ret x)
        | None \<Rightarrow> unexpected_at ''SUBJECTS, OBJECTS, or HASHES'' st None))"

definition at_extractor :: "token \<Rightarrow> bool" where
  "at_extractor t = (extractor_of t \<noteq> None)"

text \<open>\<^verbatim>\<open>SUBJECTS OF (RECALL ...)\<close>, and \<^verbatim>\<open>RECALL ... SUBJECTS\<close>.\<close>

definition let_extract_first :: "statement parse \<Rightarrow> (statement recall_stmt \<times> extractor) parse" where
  "let_extract_first rec = seq parse_extractor (\<lambda>x.
     seq (if_tok (\<lambda>t. t = Kw ''OF'' \<or> is_word ''OF'' t) (then_advance (ret ())) (ret ())) (\<lambda>_.
     seq (if_eat (Sym ''('')
            (seq (nested (parse_recall_stmt rec)) (\<lambda>r. seq (expect_exact (Sym '')'')) (\<lambda>_. ret r)))
            (parse_recall_stmt rec)) (\<lambda>r. ret (r, x))))"

definition let_recall_first :: "statement parse \<Rightarrow> (statement recall_stmt \<times> extractor) parse" where
  "let_recall_first rec = seq (parse_recall_stmt rec) (\<lambda>r.
     if_tok (\<lambda>t. t = Sym ''|'' \<or> at_extractor t)
       (seq (if_eat (Sym ''|'') (ask current_span (\<lambda>sp. warn (CwDeprecatedPipeOperator (Some sp)) (ret ()))) (ret ())) (\<lambda>_.
        seq parse_extractor (\<lambda>x. ret (r, x))))
       (ret (r, ExHashes)))"

definition parse_let :: "statement parse \<Rightarrow> let_binding parse" where
  "parse_let rec = ask current_span (\<lambda>start. then_advance (seq parse_parameter (\<lambda>n. seq (expect_exact (Sym ''='')) (\<lambda>_.
     seq (if_tok at_extractor (let_extract_first rec) (let_recall_first rec)) (\<lambda>(r, x).
     seq (expect_exact (Sym '';'')) (\<lambda>_. since_span start (\<lambda>sp.
     \<lparr>lb_name = n, lb_extractor = x, lb_source = SRecall r, lb_span = sp\<rparr>)))))))"

definition parse_let_block :: "statement parse \<Rightarrow> let_binding list parse" where
  "parse_let_block rec = repeat (\<lambda>bs. if_at (Kw ''LET'')
     (seq (parse_let rec) (\<lambda>l. ret (Inl (bs @ [l])))) (ret (Inr bs))) []"

section \<open>Queries\<close>

definition skip_semicolons :: "unit parse" where
  "skip_semicolons = repeat (\<lambda>_. if_eat (Sym '';'') (ret (Inl ())) (ret (Inr ()))) ()"

definition expect_end :: "unit parse" where
  "expect_end = on_peek (\<lambda>o'. case o' of
      None \<Rightarrow> ret ()
    | Some st \<Rightarrow> unexpected_at ''end of query'' st
        (Some ''a query is one statement; use BATCH { stmt1 ; stmt2 } to run several''))"

definition parse_query :: "(cal_env \<Rightarrow> utext \<Rightarrow> cal_error + cal_query) \<Rightarrow> cal_query parse" where
  "parse_query sub = (let rec = parse_statement sub in
     seq parse_version_prefix (\<lambda>v. seq (parse_let_block rec) (\<lambda>ls.
     seq (parse_statement_full rec) (\<lambda>(s, ss, ws, f, vs).
     seq skip_semicolons (\<lambda>_. seq expect_end (\<lambda>_. ask ps_warnings (\<lambda>wn.
     ret \<lparr>cq_version = v, cq_statement = s, cq_pipeline = ss, cq_with = ws, cq_format = f, cq_let = ls,
          cq_user_vars = vs, cq_let_values = [], cq_warnings = wn\<rparr>)))))))"

definition MAX_QUERY_LENGTH :: nat where "MAX_QUERY_LENGTH = 65536"

definition parse_with :: "(cal_env \<Rightarrow> utext \<Rightarrow> cal_error + cal_query) \<Rightarrow> cal_env \<Rightarrow> utext \<Rightarrow> cal_error + cal_query" where
  "parse_with sub E input =
     (if MAX_QUERY_LENGTH < utext_len input then Inl (CeQueryTooLong (utext_len input) MAX_QUERY_LENGTH None)
      else if utrim input = [] then Inl (CeEmptyQuery None)
      else and_then (cal_tokenize E input) (\<lambda>ts.
        if ts = [] then Inl (CeEmptyQuery (Some span_zero))
        else map_sum id fst (parse_query sub E (parser_new ts input))))"

text \<open>
  \<^verbatim>\<open>parse\<close>. A body has been tested to be shorter before the parser is called on it; the test
  here makes the recursion evident.
\<close>

function cal_parse :: "cal_env \<Rightarrow> utext \<Rightarrow> cal_error + cal_query" where
  "cal_parse E input =
     parse_with (\<lambda>E' body. if utext_len body < utext_len input then cal_parse E' body
                            else Inl (CePanic ''unreachable'')) E input"
  by pat_completeness auto
termination by (relation "measure (\<lambda>(E, input). utext_len input)") auto

declare cal_parse.simps [simp del]

definition query_is_read_only :: "cal_env \<Rightarrow> utext \<Rightarrow> bool" where
  "query_is_read_only E input = (case cal_parse E input of Inr q \<Rightarrow> classify (cq_statement q) = ClRead | Inl _ \<Rightarrow> False)"

end
