(* ===== verification/Cal_Query_Props.thy ===== *)
theory Cal_Query_Props
  imports Cal_Query Cal_Lex_Props
begin

text \<open>
  What \<^verbatim>\<open>parse\<close> guarantees (\<^verbatim>\<open>dejadb-cal/src/parser.rs\<close>): it comes to an end on every input,
  and it consumes the whole query.
\<close>

section \<open>The body of a saved query is shorter\<close>

lemma scalar_len_pos: "0 < scalar_len c"
  by (simp add: scalar_len_def)

lemma utext_len_simps [simp]: "utext_len [] = 0" "utext_len (c # t) = scalar_len c + utext_len t"
  "utext_len (s @ t) = utext_len s + utext_len t"
  by (simp_all add: utext_len_def)

lemma byte_split_parts: "byte_split n t = Some (a, b) \<Longrightarrow> t = a @ b \<and> utext_len a = n"
  by (induction n t arbitrary: a b rule: byte_split.induct) (auto split: if_splits option.splits)

lemma byte_slice_parts:
  assumes "byte_slice from to t = Some u" shows "\<exists>a b. t = a @ u @ b \<and> utext_len a = from"
proof -
  obtain a b x where "byte_split to t = Some (a, b)" "byte_split from a = Some (x, u)"
    using assms by (auto simp: byte_slice_def split: if_splits option.splits)
  then have "t = x @ u @ b" "utext_len x = from" by (auto dest!: byte_split_parts)
  then show ?thesis by blast
qed

lemma reconstruct_not_stuck:
  assumes p: "ps_ok p" and i: "0 < i" shows "reconstruct_body_text i p \<noteq> Inl CeStuck"
proof (cases "ps_pos p \<le> i")
  case False
  then have s: "0 < sp_start (st_span (ps_tokens p ! i))"
    using p i by (simp add: ps_ok_def spans_apart_def)
  have "utext_len u < utext_len (ps_input p)"
    if u: "byte_slice (sp_start (st_span (ps_tokens p ! i))) m (ps_input p) = Some u" for m u
    using byte_slice_parts [OF u] s by auto
  then show ?thesis by (auto simp: reconstruct_body_text_def split: option.splits)
qed (simp add: reconstruct_body_text_def)

section \<open>Every statement parser makes progress\<close>

lemma check_words_not_stuck: "check_body_words sp' ws \<noteq> Inl CeStuck"
  by (induction ws) simp_all

lemma all_ok_error: "all_ok rs = Inl e \<Longrightarrow> Inl e \<in> set rs"
  by (induction rs) (auto simp: and_then_def split: sum.splits)

lemma read_only_not_stuck: "check_read_only_statement sp' s \<noteq> Inl CeStuck"
proof (induction s rule: check_read_only_statement.induct)
  case (9 sp' b)
  then show ?case by (auto dest!: all_ok_error) (metis)
qed (simp_all add: write_error_def)

lemma validate_not_stuck:
  assumes "\<And>E t. sub E t \<noteq> Inl CeStuck" shows "validate_query_body sub E body sp' \<noteq> Inl CeStuck"
  using assms check_words_not_stuck read_only_not_stuck
  by (auto simp: validate_query_body_def split: sum.split)

lemma find_close_rules [parse_simps]: "safe n b find_close"
  by (simp add: find_close_def parse_simps split: option.split)

lemma body_rules:
  assumes "\<And>E t. sub E t \<noteq> Inl CeStuck" shows "safe n b (define_query_body sub start)"
proof -
  let ?k = "\<lambda>r. case r of Inl e \<Rightarrow> raise e | Inr body \<Rightarrow>
      if MAX_QUERY_BODY_SIZE < utext_len body
      then raise (CeQueryBodyTooLarge (utext_len body) MAX_QUERY_BODY_SIZE (Some start))
      else ask_env (\<lambda>E. case validate_query_body sub E body start of Inl e \<Rightarrow> raise e | Inr _ \<Rightarrow> seq advance (\<lambda>_. ret body))"
  have v: "e \<noteq> CeStuck" if "validate_query_body sub E body sp' = Inl e" for E body sp' e
    using that validate_not_stuck [where sub = sub and E = E and body = body and sp' = sp'] assms by auto
  have adv: "safe m c advance" for m c
    by (auto simp: logic_defs advance_def ps_step_def ps_ok_def)
  have k: "safe m c (?k r)" if "r \<noteq> Inl CeStuck" for r m c
    using that v by (cases r) (auto simp: parse_simps adv)
  have "safe m c (ask (reconstruct_body_text (Suc i)) ?k)" for m c i
    unfolding safe_def
    by (rule parses_ask_ok) (use k reconstruct_not_stuck in \<open>simp add: safe_def\<close>)
  then show ?thesis by (simp add: define_query_body_def parse_simps)
qed

lemma define_rules:
  assumes "\<And>E t. sub E t \<noteq> Inl CeStuck" shows "strict n b (parse_define sub)"
  using body_rules [OF assms]
  by (simp add: parse_define_def parse_define_query_def define_description_def parse_simps)

lemma keyword_rules:
  assumes "\<And>E t. sub E t \<noteq> Inl CeStuck" and "calls_below n rec" and "statement_keyword sub rec k = Some m"
  shows "strict n b m"
  using assms(2,3) define_rules [OF assms(1)]
  by (auto simp: statement_keyword_def parse_simps strict_safe calls_below_less split: if_splits)

lemma statement_step_rules:
  assumes sub: "\<And>E t. sub E t \<noteq> Inl CeStuck" and c: "calls_below n rec"
  shows "strict n b (statement_step sub rec)"
proof -
  have "strict n True (case statement_keyword sub rec k of Some m \<Rightarrow> m | None \<Rightarrow> unexpected_at s st None)" for k s st
    using keyword_rules [OF sub c] by (simp add: parse_simps split: option.split)
  moreover have "strict n True (seq (parse_paren_statement rec) (parse_set_op_tail rec))"
    using c by (simp add: parse_simps calls_below_less)
  ultimately show ?thesis
    unfolding statement_step_def by (intro on_peek_rules) (auto simp: parse_simps split: token.split)
qed

lemma statement_n_strict:
  assumes sub: "\<And>E t. sub E t \<noteq> Inl CeStuck"
  shows "n < k \<Longrightarrow> strict n b (parse_statement_n sub k)"
proof (induction k arbitrary: n b)
  case (Suc k)
  then have "calls_below n (parse_statement_n sub k)" by (simp add: calls_below_def)
  then show ?case by (simp add: statement_step_rules [OF sub])
qed simp

lemma statement_rules:
  assumes sub: "\<And>E t. sub E t \<noteq> Inl CeStuck"
  shows "strict n b (parse_statement sub)" "calls_below n (parse_statement sub)"
proof -
  show s: "strict n b (parse_statement sub)" for n b
    unfolding parse_statement_def by (rule fuelled_rules) (simp only: statement_n_strict [OF sub])
  then show "calls_below n (parse_statement sub)" by (simp add: calls_below_def)
qed

section \<open>Queries\<close>

lemma extractor_rules [parse_simps]: "strict n b parse_extractor" "safe n b parse_extractor"
proof -
  show "strict n b parse_extractor" by (simp add: parse_extractor_def parse_simps)
  then show "safe n b parse_extractor" by (rule strict_safe)
qed

lemma version_rules [parse_simps]: "safe n b parse_version_prefix"
  by (simp add: parse_version_prefix_def parse_simps)

lemma let_rules:
  assumes "\<And>m. calls_below m rec" shows "safe n b (parse_let_block rec)"
proof -
  have "safe m c (let_extract_first rec)" "safe m c (let_recall_first rec)" for m c
    using assms by (simp_all add: let_extract_first_def let_recall_first_def parse_simps)
  then have "strict m True (parse_let rec)" for m
    by (simp add: parse_let_def parse_simps)
  then show ?thesis by (simp add: parse_let_block_def parse_simps)
qed

lemma end_rules [parse_simps]: "safe n b skip_semicolons" "safe n b expect_end"
  by (simp_all add: skip_semicolons_def expect_end_def parse_simps)

lemma query_rules:
  assumes sub: "\<And>E t. sub E t \<noteq> Inl CeStuck" shows "strict n b (parse_query sub)"
proof -
  note s = statement_rules [OF sub]
  have "safe m c (parse_let_block (parse_statement sub))" for m c by (rule let_rules [OF s(2)])
  then show ?thesis using s by (simp add: parse_query_def Let_def parse_simps)
qed

section \<open>The whole query\<close>

lemma advance_offset: "snd (snd (advance_pos p s)) = snd (snd p) + byte_len s"
proof (induction s arbitrary: p)
  case (Cons c s)
  obtain l ls off where "p = (l, ls, off)" by (cases p)
  then show ?case using Cons by (simp add: Let_def)
qed simp

text \<open>Only the first token starts at byte 0.\<close>

lemma tokens_from:
  "tokenize_from E (l, ls, off) s = Inr ts \<Longrightarrow>
     (\<forall>t\<in>set ts. off \<le> sp_start (st_span t)) \<and> (\<forall>t\<in>set (tl ts). 0 < sp_start (st_span t))"
proof (induction s arbitrary: l ls off ts rule: measure_induct_rule [of length])
  case (less s)
  show ?case
  proof (rule tokenize_from_Inr [OF less.prems])
    fix t n us
    let ?s = "skip_layout s" and ?w = "take (length s - length (skip_layout s)) s"
    obtain l1 ls1 off1 where q: "advance_pos (l, ls, off) ?w = (l1, ls1, off1)" by (cases "advance_pos (l, ls, off) ?w")
    obtain l2 ls2 off2 where r: "advance_pos (l1, ls1, off1) (take n ?s) = (l2, ls2, off2)"
      by (cases "advance_pos (l1, ls1, off1) (take n ?s)")
    assume ne: "?s \<noteq> []" and lt: "lex_token E ?s = Some (t, n)"
      and rec: "tokenize_from E (advance_pos (advance_pos (l, ls, off) ?w) (take n ?s)) (drop n ?s) = Inr us"
      and ts: "ts = \<lparr>st_token = t, st_span = token_span (advance_pos (l, ls, off) ?w) (take n ?s), st_text = take n ?s\<rparr> # us"
    have n: "0 < n" using lex_token_pos [OF lt] .
    then have "length (drop n ?s) < length s"
      using ne skip_layout_shorter [of s] by (cases ?s) auto
    from less.IH [OF this] have us: "\<forall>t\<in>set us. off2 \<le> sp_start (st_span t)" using rec q r by auto
    have off: "off1 = off + byte_len ?w" "off2 = off1 + byte_len (take n ?s)"
      using q r advance_offset [of "(l, ls, off)" ?w] advance_offset [of "(l1, ls1, off1)" "take n ?s"] by auto
    have "0 < byte_len (take n ?s)" using ne n by (cases ?s; cases n) (simp_all add: scalar_len_pos)
    then show ?thesis using ts q us off by (fastforce simp: mk_span_def)
  qed simp
qed

lemma tokens_apart:
  assumes "cal_tokenize E input = Inr ts" shows "ps_ok (parser_new ts input)"
proof -
  have "\<forall>t\<in>set (tl ts). 0 < sp_start (st_span t)"
    using assms tokens_from by (auto simp: cal_tokenize_def result_simps split: sum.splits)
  moreover have "ts ! i \<in> set (tl ts)" if "0 < i" "i < length ts" for i
    using that by (cases ts; cases i) auto
  ultimately show ?thesis by (simp add: ps_ok_def parser_new_def spans_apart_def)
qed

lemma check_bidi_not_stuck: "check_bidi_from k t = Inl e \<Longrightarrow> e \<noteq> CeStuck"
  by (induction k t rule: check_bidi_from.induct) (auto simp: bidi_error_def split: if_splits)

lemma tokenize_not_stuck: "cal_tokenize E input = Inl e \<Longrightarrow> e \<noteq> CeStuck"
proof -
  have t: "e \<noteq> CeStuck" if "tokenize_from E p s = Inl e" for p s
    using that
  proof (induction s arbitrary: p rule: measure_induct_rule [of length])
    case (less s)
    let ?s = "skip_layout s" and ?q = "advance_pos p (take (length s - length (skip_layout s)) s)"
    show ?case
    proof (cases "lex_token E ?s")
      case None
      then show ?thesis using less.prems
        by (auto simp: tokenize_from.simps [of E p s] Let_def unexpected_def split: if_splits)
    next
      case (Some y)
      obtain t n where y: "y = (t, n)" by (cases y)
      have n: "?s \<noteq> [] \<Longrightarrow> length (drop n ?s) < length s"
        using lex_token_pos [of E ?s t n] Some y skip_layout_shorter [of s] by (cases ?s) auto
      show ?thesis
      proof (cases "tokenize_from E (advance_pos ?q (take n ?s)) (drop n ?s)")
        case (Inl e')
        then have "e' = e \<Longrightarrow> ?s \<noteq> [] \<Longrightarrow> e \<noteq> CeStuck" using less.IH [OF n] by blast
        then show ?thesis using less.prems Some y Inl
          by (auto simp: tokenize_from.simps [of E p s] Let_def result_simps split: if_splits)
      next
        case (Inr us)
        then show ?thesis using less.prems Some y
          by (auto simp: tokenize_from.simps [of E p s] Let_def result_simps split: if_splits)
      qed
    qed
  qed
  assume "cal_tokenize E input = Inl e"
  then show ?thesis
    using t check_bidi_not_stuck [of 0 input e] by (auto simp: cal_tokenize_def lexer_new_def check_bidi_def result_simps split: sum.splits)
qed

lemma parse_with_not_stuck:
  assumes "\<And>E t. sub E t \<noteq> Inl CeStuck" shows "parse_with sub E input \<noteq> Inl CeStuck"
proof (cases "cal_tokenize E input")
  case (Inl e)
  then show ?thesis using tokenize_not_stuck [OF Inl] by (auto simp: parse_with_def result_simps)
next
  case (Inr ts)
  have "strict (remaining (parser_new ts input)) False (parse_query sub)" by (rule query_rules) (rule assms)
  then have "parse_query sub E (parser_new ts input) \<noteq> Inl CeStuck"
    using parses_Inl [of _ False "\<lambda>_. True" "parse_query sub"] tokens_apart [OF Inr] by (fastforce simp: strict_def)
  then show ?thesis using Inr
    by (cases "parse_query sub E (parser_new ts input)") (auto simp: parse_with_def result_simps)
qed

lemma no_stuck: "cal_parse E input \<noteq> Inl CeStuck"
proof (induction E input rule: cal_parse.induct)
  case (1 E input)
  then have "(if utext_len t < utext_len input then cal_parse E' t else Inl (CePanic ''unreachable'')) \<noteq> Inl CeStuck" for E' t
    by simp
  from parse_with_not_stuck [OF this] show ?case by (simp add: cal_parse.simps [of E input])
qed

text \<open>
  C30. Parsing terminates: on every input, of any length and shape, the parser returns a query
  or one of the errors of the code (or panics). No loop goes round without consuming a token,
  no recursion descends without one, and the body of a saved query, which is parsed by a
  recursive call, is shorter than the query around it.
\<close>

theorem parse_terminates: "cal_parse E input \<noteq> Inl CeStuck"
  by (rule no_stuck)

text \<open>
  A query is one statement, and it is parsed to its last token: where the parser
  succeeds, no token is left over, the depth of nesting is zero again and the input is as it
  was, so that nothing of what the caller sent is silently dropped.
\<close>

theorem parse_consumes_all:
  "case cal_tokenize E input of
     Inl e \<Rightarrow> True
   | Inr ts \<Rightarrow> (case parse_query cal_parse E (parser_new ts input) of
        Inl e \<Rightarrow> True
      | Inr (q, p) \<Rightarrow> ps_pos p = length ts \<and> ps_tokens p = ts \<and> ps_nesting p = 0 \<and> ps_input p = input)"
proof (cases "cal_tokenize E input")
  case (Inr ts)
  show ?thesis
  proof (cases "parse_query cal_parse E (parser_new ts input)")
    case (Inr y)
    obtain q p where y: "y = (q, p)" by (cases y)
    have "strict (remaining (parser_new ts input)) False (parse_query cal_parse)"
      by (rule query_rules) (rule no_stuck)
    then have "ps_step (parser_new ts input) p"
      using parses_Inr(1) [of _ False "\<lambda>_. True" "parse_query cal_parse"] tokens_apart [OF \<open>cal_tokenize E input = Inr ts\<close>] Inr y
      by (fastforce simp: strict_def)
    moreover have "at_end p"
      using Inr y
      by (auto simp: parse_query_def expect_end_def seq_def ask_def on_peek_def peek_def peek_ahead_def ret_def at_end_def
          unexpected_at_def Let_def split: sum.splits option.splits if_splits)
    ultimately show ?thesis
      using Inr y \<open>cal_tokenize E input = Inr ts\<close> by (simp add: ps_step_def at_end_def parser_new_def)
  qed (use Inr in simp)
qed simp

end
