(* ===== verification/Cal_Limits.thy ===== *)
theory Cal_Limits
  imports Cal_Query
begin

text \<open>
  The limits that the CAL parser enforces (\<^verbatim>\<open>dejadb-cal/src/parser.rs\<close>), as a property of what
  it returns: the statements inside a statement, the limits of one node, a logic for the
  results of parsers, and the proof that every query that parses is within the limits, at
  every depth.
\<close>

section \<open>Sub-statements\<close>

definition recall_subs :: "'s recall_stmt \<Rightarrow> 's list" where
  "recall_subs r = (case rs_contradictions r of
      None \<Rightarrow> []
    | Some c \<Rightarrow> (case cc_inner c of None \<Rightarrow> [] | Some s \<Rightarrow> [s]))"

definition source_subs :: "'s asm_source \<Rightarrow> 's list" where
  "source_subs x = (case x of SrcQuery r \<Rightarrow> recall_subs r | _ \<Rightarrow> [])"

definition assemble_subs :: "'s assemble_stmt \<Rightarrow> 's list" where
  "assemble_subs a = source_subs (as_from a)
     @ (case as_sources a of None \<Rightarrow> [] | Some ns \<Rightarrow> map ns_query ns)"

definition coalesce_subs :: "'s coalesce_stmt \<Rightarrow> 's list" where
  "coalesce_subs c = map cb_query (cs_branches c) @ (case cs_else c of None \<Rightarrow> [] | Some s \<Rightarrow> [s])"

fun sub_statements :: "statement \<Rightarrow> statement list" where
  "sub_statements (SRecall r) = recall_subs r"
| "sub_statements (SSetOp _ ss _) = ss"
| "sub_statements (SAssemble a) = assemble_subs a"
| "sub_statements (SExplain s _) = [s]"
| "sub_statements (SBatch b) = batch_statements b"
| "sub_statements (SCoalesce c) = coalesce_subs c"
| "sub_statements _ = []"

lemma recall_subs_size: "t \<in> set (recall_subs r) \<Longrightarrow> size t < size_recall_stmt size r"
proof (cases r)
  case (RecallStmt g ab wh re si un li be co lm fm sp')
  assume "t \<in> set (recall_subs r)"
  then obtain c where c: "co = Some c" "cc_inner c = Some t"
    by (auto simp: recall_subs_def RecallStmt split: option.splits)
  then show ?thesis by (cases c) (simp add: RecallStmt)
qed

lemma elem_size: "x \<in> set xs \<Longrightarrow> size (g x) < f x \<Longrightarrow> size (g x) < size_list f xs"
  using size_list_estimation' [of x xs "f x" f] by simp

lemma sub_statements_size: "t \<in> set (sub_statements s) \<Longrightarrow> size t < size s"
proof (cases s rule: sub_statements.cases)
  case (1 r)
  assume "t \<in> set (sub_statements s)"
  then show ?thesis using recall_subs_size [of t r] 1 by simp
next
  case (2 o' ss sp')
  assume "t \<in> set (sub_statements s)"
  then show ?thesis using 2 size_list_estimation' [of t ss "size t" size] by simp
next
  case (3 a)
  assume t: "t \<in> set (sub_statements s)"
  obtain tp x w cn so bu pr fm fw aw wo st sp' where a: "a = AssembleStmt tp x w cn so bu pr fm fw aw wo st sp'" by (cases a)
  have "size t < size_asm_source size x" if "t \<in> set (source_subs x)"
    using that by (cases x) (simp_all add: source_subs_def less_SucI [OF recall_subs_size])
  moreover have "size (ns_query n) < size_list (size_named_source size) ns" if "n \<in> set ns" for n ns
    by (rule elem_size [OF that]) (cases n; simp)
  ultimately show ?thesis
    using t 3 by (fastforce simp: a assemble_subs_def split: option.splits)
next
  case (4 x sp')
  assume "t \<in> set (sub_statements s)"
  then show ?thesis using 4 by simp
next
  case (5 b)
  assume "t \<in> set (sub_statements s)"
  then show ?thesis using batch_statement_size 5 by simp
next
  case (6 c)
  assume t: "t \<in> set (sub_statements s)"
  obtain g w bs el sp' where c: "c = CoalesceStmt g w bs el sp'" by (cases c)
  have "size (cb_query n) < size_list (size_coalesce_branch size) ns" if "n \<in> set ns" for n ns
    by (rule elem_size [OF that]) (cases n; simp)
  then show ?thesis
    using t 6 by (fastforce simp: c coalesce_subs_def split: option.splits)
qed simp_all

text \<open>A property of a statement and of all statements inside it.\<close>

function every :: "(statement \<Rightarrow> bool) \<Rightarrow> statement \<Rightarrow> bool" where
  "every P s = (P s \<and> list_all (every P) (sub_statements s))"
  by pat_completeness auto
termination by (relation "measure (\<lambda>(P, s). size s)") (auto dest: sub_statements_size)

declare every.simps [simp del]

section \<open>What a parser may return\<close>

text \<open>\<open>yields Q m\<close>: whenever \<open>m\<close> succeeds, its value satisfies \<open>Q\<close>.\<close>

definition yields :: "('a \<Rightarrow> bool) \<Rightarrow> 'a parse \<Rightarrow> bool" where
  "yields Q m = (\<forall>E p x q. m E p = Inr (x, q) \<longrightarrow> Q x)"

named_theorems yield_simps "values of parsers"

lemma yields_True [yield_simps]: "yields (\<lambda>_. True) m"
  by (simp add: yields_def)

lemma yieldsI: "(\<And>E p x q. m E p = Inr (x, q) \<Longrightarrow> Q x) \<Longrightarrow> yields Q m"
  by (simp add: yields_def)

lemma yieldsD: "yields Q m \<Longrightarrow> m E p = Inr (x, q) \<Longrightarrow> Q x"
  by (auto simp: yields_def)

lemma yields_mono: "yields P m \<Longrightarrow> (\<And>x. P x \<Longrightarrow> Q x) \<Longrightarrow> yields Q m"
  by (auto simp: yields_def)

lemma yields_ret [yield_simps]: "yields Q (ret x) = Q x"
  by (simp add: yields_def ret_def)

lemma yields_raise [yield_simps]: "yields Q (raise e)" "yields Q (unexpected_at a st h)" "yields Q (unexpected_end a)"
  "yields Q (no_match a b h)" "yields Q (not_found a h)"
  by (simp_all add: yields_def raise_def unexpected_at_def unexpected_end_def no_match_def not_found_def on_peek_def
      split: option.split)

text \<open>The value of the first parser is used where it is known, and forgotten elsewhere.\<close>

lemma yields_seq:
  assumes "yields P m" and "\<And>x. P x \<Longrightarrow> yields Q (f x)" shows "yields Q (seq m f)"
proof (rule yieldsI)
  fix E p y r assume "seq m f E p = Inr (y, r)"
  then obtain x q where "m E p = Inr (x, q)" "f x E q = Inr (y, r)" by (auto simp: seq_def split: sum.splits)
  then show "Q y" using yieldsD [OF assms(2)] yieldsD [OF assms(1)] by blast
qed

lemma yields_seq_any [yield_simps]: "(\<And>x. yields Q (f x)) \<Longrightarrow> yields Q (seq m f)"
  by (rule yields_seq [OF yields_True])

lemma yields_step [yield_simps]:
  "(\<And>v. yields Q (f v)) \<Longrightarrow> yields Q (ask g f)"
  "(\<And>E. yields Q (h E)) \<Longrightarrow> yields Q (ask_env h)"
  "(\<And>o'. yields Q (k o')) \<Longrightarrow> yields Q (on_peek k)"
  "yields Q m \<Longrightarrow> yields Q n \<Longrightarrow> yields Q (if_tok T m n)"
  "yields Q m \<Longrightarrow> yields Q (then_advance m)"
  "yields Q m \<Longrightarrow> yields Q (warn w m)"
  by (auto simp: yields_def ask_def ask_env_def on_peek_def if_tok_def then_advance_def seq_def advance_def warn_def
      split: option.splits if_splits)

lemma yields_branch [yield_simps]:
  "yields Q m \<Longrightarrow> yields Q n \<Longrightarrow> yields Q (if_eat t m n)"
  "(\<And>x. yields Q (f x)) \<Longrightarrow> yields Q n \<Longrightarrow> yields Q (case oo of None \<Rightarrow> n | Some x \<Rightarrow> f x)"
  "(\<And>x y. w = (x, y) \<Longrightarrow> yields Q (h x y)) \<Longrightarrow> yields Q (case w of (x, y) \<Rightarrow> h x y)"
  "(\<And>e. yields Q (l e)) \<Longrightarrow> (\<And>x. yields Q (r x)) \<Longrightarrow> yields Q (case z of Inl e \<Rightarrow> l e | Inr x \<Rightarrow> r x)"
  "(c \<Longrightarrow> yields Q m) \<Longrightarrow> (\<not> c \<Longrightarrow> yields Q n) \<Longrightarrow> yields Q (if c then m else n)"
  by (auto simp: if_eat_def yields_step split: option.split prod.split sum.split)

lemma yields_since [yield_simps]: "(\<And>sp'. Q (k sp')) \<Longrightarrow> yields Q (since_span s k)"
  by (simp add: since_span_def yield_simps)

lemma yields_nested: "yields Q m \<Longrightarrow> yields Q (nested m)"
  by (auto simp: yields_def nested_def seq_def enter_nesting_def leave_nesting_def ret_def Let_def split: sum.splits if_splits)

lemma yields_loop:
  assumes "\<And>x. I x \<Longrightarrow> yields (case_sum I Q) (body x)" shows "I x \<Longrightarrow> yields Q (loop n body x)"
proof (induction n arbitrary: x)
  case (Suc n)
  show ?case
    unfolding loop.simps
    by (rule yields_seq [OF assms [OF Suc.prems]]) (auto simp: yield_simps Suc.IH split: sum.splits)
qed (simp add: yield_simps)

lemma yields_repeat:
  assumes "\<And>x. I x \<Longrightarrow> yields (case_sum I Q) (body x)" and "I x" shows "yields Q (repeat body x)"
proof (rule yieldsI)
  fix E p y q assume "repeat body x E p = Inr (y, q)"
  then have "loop (Suc (remaining p)) body x E p = Inr (y, q)" by (simp only: repeat_def)
  moreover have "yields Q (loop (Suc (remaining p)) body x)"
    by (rule yields_loop [where I = I]) (erule assms(1), rule assms(2))
  ultimately show "Q y" by (rule yieldsD [rotated])
qed

lemma yields_fuelled: "(\<And>n. yields Q (f n)) \<Longrightarrow> yields Q (fuelled f)"
  by (auto simp: fuelled_def yields_def)

lemma yields_optional: "yields Q m \<Longrightarrow> yields (\<lambda>o'. case o' of None \<Rightarrow> True | Some x \<Rightarrow> Q x) (optional t m)"
  unfolding optional_def by (intro yields_branch yields_seq [where P = Q]) (simp_all add: yield_simps)

section \<open>The limits\<close>

definition inside :: "nat \<Rightarrow> nat \<Rightarrow> nat \<Rightarrow> bool" where
  "inside lo hi n = (lo \<le> n \<and> n \<le> hi)"

definition recall_ok :: "'s recall_stmt \<Rightarrow> bool" where
  "recall_ok r = (rs_limit r = None \<or> inside 1 MAX_LIMIT_VALUE (the (rs_limit r)))"

definition source_ok :: "'s asm_source \<Rightarrow> bool" where
  "source_ok x = (case x of SrcQuery r \<Rightarrow> recall_ok r | _ \<Rightarrow> True)"

definition assemble_ok :: "'s assemble_stmt \<Rightarrow> bool" where
  "assemble_ok a =
     (source_ok (as_from a)
      \<and> (as_budget a = None \<or> inside 1 MAX_BUDGET (bg_tokens (the (as_budget a))))
      \<and> (as_sources a = None \<or> inside 1 MAX_SOURCES (length (the (as_sources a)))
           \<and> distinct (map ns_label (the (as_sources a))))
      \<and> length (as_topic a) \<le> MAX_CONTEXT_NAME_LEN)"

text \<open>The brace form of \<^verbatim>\<open>COALESCE\<close> has no upper bound.\<close>

fun node_ok :: "statement \<Rightarrow> bool" where
  "node_ok (SRecall r) = recall_ok r"
| "node_ok (SSetOp _ ss _) = inside 2 MAX_SET_OPERANDS (length ss)"
| "node_ok (SAssemble a) = assemble_ok a"
| "node_ok (SBatch b) = (inside 1 MAX_BATCH_ENTRIES (length (bs_statements b)) \<and> bs_labeled b = None)"
| "node_ok (SCoalesce c) = (cs_branches c \<noteq> [])"
| "node_ok (SAdd a) = (ad_fields a \<noteq> [] \<and> byte_len (ad_reason a) \<le> MAX_REASON_LENGTH)"
| "node_ok (SSupersede u) = (su_set u \<noteq> [] \<and> byte_len (su_reason u) \<le> MAX_REASON_LENGTH)"
| "node_ok (SAccumulate a) = (ac_add_ops a \<noteq> [] \<and> byte_len (ac_reason a) \<le> MAX_REASON_LENGTH)"
| "node_ok (SRevert r) = (byte_len (rv_reason r) \<le> MAX_REASON_LENGTH)"
| "node_ok (SAddWorkflow k) = (byte_len (ak_reason k) \<le> MAX_REASON_LENGTH)"
| "node_ok (SSupersedeWorkflow k) = (byte_len (sk_reason k) \<le> MAX_REASON_LENGTH)"
| "node_ok (SForget f) = (case fg_target f of FgHash _ \<Rightarrow> True | FgUser _ \<Rightarrow> fg_reason f \<noteq> None | FgScope _ \<Rightarrow> False)"
| "node_ok (SPurge p) = (pg_reason p \<noteq> None \<and> pg_min_age_days p \<noteq> None)"
| "node_ok (SDefineQuery d) =
     (utext_len (dq_body d) \<le> MAX_QUERY_BODY_SIZE \<and> length (dq_params d) \<le> MAX_QUERY_PARAMS \<and> is_valid_name (dq_name d))"
| "node_ok _ = True"

section \<open>Every parser keeps to the limits\<close>

abbreviation limited :: "statement parse \<Rightarrow> bool" where
  "limited m \<equiv> yields (every node_ok) m"

lemma every_leaf: "sub_statements s = [] \<Longrightarrow> every P s = P s"
  by (subst every.simps) simp

text \<open>Statements without sub-statements and without limits.\<close>

lemma plain_statements [yield_simps]:
  "limited parse_exists" "limited parse_history" "limited parse_describe"
  "limited parse_grant" "limited parse_revoke" "limited parse_show_grants" "limited parse_remember"
  "limited parse_entity_at" "limited parse_runs_touching" "limited parse_derived_from" "limited parse_merge"
  "limited parse_related" "limited parse_novelty" "limited parse_drop" "limited parse_define_template"
  "limited (parse_run_loop s)" "limited (parse_run_trace s)"
  by (simp_all add: parse_exists_def parse_history_def parse_describe_def
      parse_grant_def parse_revoke_def parse_show_grants_def parse_remember_def
      parse_entity_at_def parse_runs_touching_def parse_derived_from_def parse_merge_def
      parse_related_def parse_novelty_def parse_drop_def parse_define_template_def
      parse_run_loop_def parse_run_trace_def every_leaf yield_simps Let_def)

lemma plain_erasures [yield_simps]: "limited parse_forget" "limited parse_purge" "limited parse_report_subject"
  by (auto simp: parse_forget_def forget_subject_def forget_hash_def parse_purge_def parse_report_subject_def every_leaf
      yield_simps Let_def split: token.split)

lemma run_query_limited [yield_simps]: "limited parse_run_query"
  by (simp add: parse_run_query_def every_leaf yield_simps)

text \<open>The reason of a write.\<close>

lemma reason_bound: "yields (\<lambda>r. byte_len r \<le> MAX_REASON_LENGTH) parse_reason_clause"
  by (simp add: parse_reason_clause_def yield_simps)

lemmas seq_reason [yield_simps] = yields_seq [OF reason_bound]

lemma write_statements [yield_simps]:
  "limited parse_add" "limited parse_supersede" "limited parse_accumulate" "limited parse_revert"
  by (simp_all add: parse_add_def parse_add_workflow_def parse_supersede_def parse_supersede_workflow_def
      parse_accumulate_def parse_revert_def every_leaf yield_simps)

text \<open>\<^verbatim>\<open>RECALL\<close>: its limit, and the statement inside \<^verbatim>\<open>CONTRADICTIONS OF (...)\<close>.\<close>

lemma limit_bound: "yields (inside 1 MAX_LIMIT_VALUE) limit_value"
  by (auto simp: limit_value_def inside_def yield_simps)

lemma recall_limit_bound: "yields (\<lambda>o'. o' = None \<or> inside 1 MAX_LIMIT_VALUE (the o')) recall_limit"
  unfolding recall_limit_def by (rule yields_mono [OF yields_optional [OF limit_bound]]) (auto split: option.splits)

lemmas seq_recall_limit [yield_simps] = yields_seq [OF recall_limit_bound]

lemma paren_limited: "limited rec \<Longrightarrow> limited (parse_paren_statement rec)"
  unfolding parse_paren_statement_def
  by (intro yields_seq_any yields_seq [OF yields_nested]) (simp_all add: yield_simps)

definition contradictions_subs :: "'s contradictions_clause option \<Rightarrow> 's list" where
  "contradictions_subs o' = (case o' of None \<Rightarrow> [] | Some c \<Rightarrow> (case cc_inner c of None \<Rightarrow> [] | Some s \<Rightarrow> [s]))"

lemma contradictions_limited:
  assumes "limited rec"
  shows "yields (\<lambda>c. list_all (every node_ok) (contradictions_subs c)) (parse_contradictions_clause rec)"
proof -
  have "yields (\<lambda>c. list_all (every node_ok) (contradictions_subs c))
      (seq (parse_paren_statement rec) (\<lambda>s. ret (Some (ContradictionsClause (Some s) (Some sp')))))" for sp'
    by (rule yields_seq [OF paren_limited [OF assms]]) (simp add: yield_simps contradictions_subs_def)
  then show ?thesis
    unfolding parse_contradictions_clause_def by (simp add: yield_simps contradictions_subs_def)
qed

definition recall_limited :: "statement recall_stmt \<Rightarrow> bool" where
  "recall_limited r = (recall_ok r \<and> list_all (every node_ok) (recall_subs r))"

lemma every_recall [simp]: "every node_ok (SRecall r) = recall_limited r"
  by (subst every.simps) (simp add: recall_limited_def)

lemma recall_yields: "limited rec \<Longrightarrow> yields recall_limited (parse_recall_stmt rec)"
proof -
  assume r: "limited rec"
  note c [yield_simps] = yields_seq [OF contradictions_limited [OF r]]
  have "yields recall_limited (case oo of None \<Rightarrow> ret (RecallStmt g about wh recent since until like between contra limit None sp')
      | Some e \<Rightarrow> raise e)"
    if "limit = None \<or> inside 1 MAX_LIMIT_VALUE (the limit)" "list_all (every node_ok) (contradictions_subs contra)"
    for oo g about wh recent since until like between contra limit sp'
    using that by (simp add: yield_simps recall_limited_def recall_ok_def recall_subs_def contradictions_subs_def)
  then show ?thesis
    unfolding parse_recall_stmt_def Let_def
    by (intro c seq_recall_limit yields_step(1) yields_seq_any) simp
qed

section \<open>Statements with sub-statements\<close>

lemma set_operand_limited:
  assumes "limited rec" shows "limited (set_operand rec)"
  unfolding set_operand_def
  by (intro yields_step(4) paren_limited [OF assms] yields_seq [OF recall_yields [OF assms]]) (simp add: yield_simps)

lemma set_tail_limited:
  assumes rec: "limited rec" and first: "every node_ok first" shows "limited (parse_set_op_tail rec first)"
proof -
  let ?I = "\<lambda>ss. 2 \<le> length ss \<and> length ss \<le> MAX_SET_OPERANDS \<and> list_all (every node_ok) ss"
  have "yields ?I (set_operands rec [first, s])" if "every node_ok s" for s
    unfolding set_operands_def
  proof (rule yields_repeat [where I = ?I])
    fix ops assume "?I ops"
    then show "yields (case_sum ?I ?I) (if_tok (\<lambda>t. set_op_of t \<noteq> None)
        (if MAX_SET_OPERANDS \<le> length ops
         then ask current_span (\<lambda>sp'. raise (CeTooManySetOperands (length ops + 1) MAX_SET_OPERANDS (Some sp')))
         else then_advance (seq (set_operand rec) (\<lambda>s. ret (Inl (ops @ [s]))))) (ret (Inr ops)))"
      by (auto simp: yield_simps intro!: yields_step(4,5) yields_seq [OF set_operand_limited [OF rec]])
  qed (use first that in \<open>simp add: MAX_SET_OPERANDS_def\<close>)
  note ops = yields_seq [OF this]
  have "limited (since_span st (SSetOp op' ss))" if "?I ss" for st op' ss
    using that by (simp add: yield_simps every.simps [of _ "SSetOp op' ss _"] inside_def)
  then have "limited (seq (set_operand rec) (\<lambda>s. seq (set_operands rec [first, s]) (\<lambda>ss. since_span st (SSetOp op' ss))))" for st op'
    by (intro yields_seq [OF set_operand_limited [OF rec]] ops)
  then show ?thesis using first by (simp add: parse_set_op_tail_def yield_simps)
qed

lemma source_query_limited:
  assumes "limited rec" shows "yields (\<lambda>(s, ws). every node_ok s) (parse_assemble_source_query rec)"
  unfolding parse_assemble_source_query_def
  by (intro yields_step(4) yields_seq [OF recall_yields [OF assms]] yields_seq [OF yields_nested [OF assms]] yields_seq_any)
    (simp_all add: yield_simps)

lemma named_source_limited:
  assumes "limited rec" shows "yields (\<lambda>n. every node_ok (ns_query n)) (named_source rec)"
  unfolding named_source_def
  by (intro yields_step(1) yields_seq_any yields_seq [OF source_query_limited [OF assms]]) (auto simp: yield_simps)

definition source_limited :: "statement asm_source \<Rightarrow> bool" where
  "source_limited x = (source_ok x \<and> list_all (every node_ok) (source_subs x))"

lemma source_limited:
  assumes "limited rec" shows "yields source_limited (parse_assemble_source rec)"
proof -
  have r: "yields source_limited (seq (parse_recall_stmt rec) (\<lambda>r. ret (SrcQuery r)))"
    "yields source_limited (seq (nested (parse_recall_stmt rec)) (\<lambda>r. seq (expect_exact t) (\<lambda>_. ret (SrcQuery r))))" for t
    by (intro yields_seq [OF recall_yields [OF assms]] yields_seq [OF yields_nested [OF recall_yields [OF assms]]] yields_seq_any;
        simp add: yield_simps source_limited_def source_ok_def source_subs_def recall_limited_def)+
  have i: "yields source_limited (seq (implicit_recall s g) (\<lambda>r. ret (SrcQuery r)))" for s g
    by (rule yields_seq [where P = "\<lambda>r. rs_limit r = None \<and> rs_contradictions r = None"])
      (simp_all add: implicit_recall_def yield_simps source_limited_def source_ok_def source_subs_def recall_ok_def recall_subs_def)
  show ?thesis
    unfolding parse_assemble_source_def Let_def
    by (intro yields_step(3)) (auto simp: yield_simps r i source_limited_def [of "SrcHashes _"] source_limited_def [of "SrcParameter _"]
        source_ok_def source_subs_def split: option.split token.split)
qed

lemma comma_list_all:
  assumes "yields P item" shows "yields (\<lambda>xs. xs \<noteq> [] \<and> list_all P xs) (comma_list item)"
  unfolding comma_list_def
  by (rule yields_repeat [where I = "list_all P"])
    (auto intro!: yields_seq [OF assms] simp: yield_simps)

definition sources_limited :: "statement named_source list option \<Rightarrow> bool" where
  "sources_limited o' = (case o' of None \<Rightarrow> True | Some ns \<Rightarrow> ns \<noteq> [] \<and> list_all (\<lambda>n. every node_ok (ns_query n)) ns)"

lemma from_clause_limited:
  assumes "limited rec"
  shows "yields (\<lambda>(x, o'). source_limited x \<and> sources_limited o') (parse_assemble_from_clause rec)"
  unfolding parse_assemble_from_clause_def
  by (intro yields_step(1,4) yields_seq [OF comma_list_all [OF named_source_limited [OF assms]]]
      yields_seq [OF source_limited [OF assms]])
    (auto simp: yield_simps source_limited_def source_ok_def source_subs_def sources_limited_def)

lemma first_repeated_None:
  "first_repeated seen ns = None \<Longrightarrow> distinct (map ns_label ns) \<and> set seen \<inter> ns_label ` set ns = {}"
  by (induction seen ns rule: first_repeated.induct) (auto split: if_splits)

lemma check_sources_ok:
  "yields (\<lambda>_. case o' of None \<Rightarrow> True | Some ns \<Rightarrow> length ns \<le> MAX_SOURCES \<and> distinct (map ns_label ns)) (check_sources start o')"
  by (auto simp: check_sources_def yield_simps dest: first_repeated_None split: option.split)

lemma budget_ok: "yields (\<lambda>o'. case o' of None \<Rightarrow> True | Some b \<Rightarrow> inside 1 MAX_BUDGET (bg_tokens b)) assemble_budget"
  unfolding assemble_budget_def
  by (rule yields_optional) (auto simp: yield_simps inside_def)

lemma topic_ok: "yields (\<lambda>w. length w \<le> MAX_CONTEXT_NAME_LEN) (assemble_topic start)"
  by (simp add: assemble_topic_def yield_simps)

definition assemble_limited :: "statement assemble_stmt \<Rightarrow> bool" where
  "assemble_limited a = (assemble_ok a \<and> list_all (every node_ok) (assemble_subs a))"

lemma every_assemble [simp]: "every node_ok (SAssemble a) = assemble_limited a"
  by (subst every.simps) (simp add: assemble_limited_def)

lemma assemble_limited:
  assumes "limited rec" shows "yields assemble_limited (parse_assemble rec)"
proof -
  have "assemble_limited (AssembleStmt topic src w cn sources budget pr fmt fw aw os st sp')"
    if "length topic \<le> MAX_CONTEXT_NAME_LEN" "source_limited src" "sources_limited sources"
      "case sources of None \<Rightarrow> True | Some ns \<Rightarrow> length ns \<le> MAX_SOURCES \<and> distinct (map ns_label ns)"
      "case budget of None \<Rightarrow> True | Some b \<Rightarrow> inside 1 MAX_BUDGET (bg_tokens b)"
    for topic src w cn sources budget pr fmt fw aw os st sp'
    using that by (auto simp: assemble_limited_def assemble_ok_def assemble_subs_def source_limited_def sources_limited_def
        inside_def list.pred_map comp_def Suc_le_eq split: option.splits)
  then show ?thesis
    unfolding parse_assemble_def
    by (intro yields_step(1) yields_seq [OF topic_ok] yields_seq [OF from_clause_limited [OF assms]]
        yields_seq [OF check_sources_ok] yields_seq [OF budget_ok] yields_seq_any yields_branch(3))
      (auto intro!: yields_seq [OF check_sources_ok] yields_seq [OF budget_ok] yields_seq_any simp: yield_simps)
qed

lemma streaming_limited [simp]: "assemble_limited (set_streaming a) = assemble_limited a"
  by (simp add: set_streaming_def assemble_limited_def assemble_ok_def assemble_subs_def)

text \<open>\<^verbatim>\<open>EXPLAIN\<close>, \<^verbatim>\<open>BATCH\<close> and \<^verbatim>\<open>COALESCE\<close>.\<close>

lemma explain_limited: "limited rec \<Longrightarrow> limited (parse_explain rec)"
  unfolding parse_explain_def
  by (intro yields_step(1), rule yields_seq_any, erule yields_seq) (auto simp: yield_simps every.simps [of _ "SExplain _ _"])

lemma full_limited: "limited rec \<Longrightarrow> yields (\<lambda>(s, r). every node_ok s) (parse_statement_full rec)"
  unfolding parse_statement_full_def by (erule yields_seq) (simp add: yield_simps)

lemma batch_entries_limited:
  assumes "limited rec"
  shows "yields (\<lambda>es. length es \<le> MAX_BATCH_ENTRIES \<and> list_all (\<lambda>e. every node_ok (be_statement e)) es) (batch_entries rec)"
    (is "yields ?I _")
  unfolding batch_entries_def
proof (rule yields_repeat [where I = ?I])
  fix es assume I: "?I es"
  show "yields (case_sum ?I ?I) (if_tok (\<lambda>t. t \<noteq> Sym ''}'')
     (if MAX_BATCH_ENTRIES \<le> length es
      then ask current_span (\<lambda>sp'. raise (CeTooManyPipelineStages (length es + 1) MAX_BATCH_ENTRIES (Some sp')))
      else seq skip_label (\<lambda>_. seq (parse_statement_full rec) (\<lambda>(s, ss, ws, f, vs).
        seq (eat_exact (Sym '','')) (\<lambda>_. seq (eat_exact (Sym '';'')) (\<lambda>_.
        ret (Inl (es @ [BatchEntry s ss ws f vs])))))))
     (ret (Inr es)))"
    using I by (intro yields_step(4) yields_branch(5) yields_seq_any yields_seq [OF full_limited [OF assms]])
      (auto simp: yield_simps)
qed (simp add: MAX_BATCH_ENTRIES_def)

lemma batch_limited:
  assumes "limited rec" shows "limited (parse_batch rec)"
proof -
  have e: "every node_ok (SBatch (BatchStmt es None sp'))"
    if "length es \<le> MAX_BATCH_ENTRIES \<and> list_all (\<lambda>e. every node_ok (be_statement e)) es" "es \<noteq> []" for es sp'
    using that by (subst every.simps) (auto simp: batch_statements_def inside_def list.pred_map comp_def Suc_le_eq)
  show ?thesis
    unfolding parse_batch_def
    by (intro yields_step(1) yields_seq_any yields_seq [OF yields_nested [OF batch_entries_limited [OF assms]]])
      (auto simp: yield_simps e)
qed

lemma every_coalesce: "cs_branches c \<noteq> [] \<Longrightarrow> list_all (every node_ok) (coalesce_subs c) \<Longrightarrow> every node_ok (SCoalesce c)"
  by (subst every.simps) simp

lemma brace_limited:
  assumes "limited rec"
  shows "limited (parse_brace_statement rec)" "yields (\<lambda>b. every node_ok (cb_query b)) (brace_branch rec)"
proof -
  show b: "limited (parse_brace_statement rec)"
    unfolding parse_brace_statement_def
    by (intro yields_seq_any yields_seq [OF yields_nested [OF assms]]) (simp_all add: yield_simps)
  show "yields (\<lambda>b. every node_ok (cb_query b)) (brace_branch rec)"
    unfolding brace_branch_def by (rule yields_seq [OF b]) (simp add: yield_simps)
qed

lemma coalesce_braces_limited:
  assumes rec: "limited rec" shows "limited (parse_coalesce_braces rec start)"
proof -
  let ?I = "\<lambda>bs. bs \<noteq> [] \<and> list_all (\<lambda>b. every node_ok (cb_query b)) bs"
  have l: "yields ?I (repeat (\<lambda>bs. if_eat (Kw ''OR'') (seq (brace_branch rec) (\<lambda>x. ret (Inl (bs @ [x])))) (ret (Inr bs))) [b])"
    if "every node_ok (cb_query b)" for b
    by (rule yields_repeat [where I = ?I])
      (use that in \<open>auto intro!: yields_branch(1) yields_seq [OF brace_limited(2) [OF rec]] simp: yield_simps\<close>)
  let ?E = "\<lambda>o'. case o' of None \<Rightarrow> True | Some s \<Rightarrow> every node_ok s"
  have e: "yields ?E (if_tok (is_word ''ELSE'') (then_advance (seq (parse_brace_statement rec) (\<lambda>s. ret (Some s)))) (ret None))"
    by (intro yields_step(4,5) yields_seq [OF brace_limited(1) [OF rec]]) (simp_all add: yield_simps)
  show ?thesis
    unfolding parse_coalesce_braces_def
    by (intro yields_seq [OF brace_limited(2) [OF rec]] yields_seq [OF l] yields_seq [OF e])
      (auto simp: yield_simps coalesce_subs_def list.pred_map comp_def intro!: yields_since every_coalesce split: option.splits)
qed

lemma items_all: "yields P item \<Longrightarrow> yields (list_all P) (items_until t item)"
  unfolding items_until_def
  by (rule yields_repeat [where I = "list_all P"])
    (auto intro!: yields_step(4) yields_seq [of P] simp: yield_simps)

lemma coalesce_limited:
  assumes rec: "limited rec" shows "limited (parse_coalesce rec)"
proof -
  have c: "every node_ok (SCoalesce (CoalesceStmt AllGrains None (map (\<lambda>s. CoalesceBranch s None) ss) None sp'))"
    if "list_all (every node_ok) ss" "\<not> length ss < COALESCE_MIN" for ss sp'
    using that by (intro every_coalesce) (auto simp: coalesce_subs_def COALESCE_MIN_def comp_def)
  show ?thesis
    unfolding parse_coalesce_def
    by (intro yields_step(1,4) coalesce_braces_limited [OF rec] yields_seq_any
        yields_seq [OF yields_nested [OF items_all [OF rec]]])
      (auto simp: yield_simps c)
qed

section \<open>Every query is within the limits\<close>

lemma body_bound: "yields (\<lambda>b. utext_len b \<le> MAX_QUERY_BODY_SIZE) (define_query_body sub start)"
  by (auto simp: define_query_body_def yield_simps)

lemma define_limited: "limited (parse_define sub)"
proof -
  have "limited (parse_define_query sub)"
    unfolding parse_define_query_def
    by (intro yields_step(1) yields_seq_any yields_branch(5) yields_seq [OF body_bound])
      (auto simp: yield_simps every_leaf intro!: yields_seq_any yields_seq [OF body_bound])
  then show ?thesis by (simp add: parse_define_def yield_simps)
qed

lemma keyword_limited:
  assumes rec: "limited rec" and k: "statement_keyword sub rec k = Some m" shows "limited m"
proof -
  have "limited (seq (parse_recall_stmt rec) (\<lambda>r. parse_set_op_tail rec (SRecall r)))"
    by (rule yields_seq [OF recall_yields [OF rec]]) (simp add: set_tail_limited [OF rec])
  moreover have "limited (seq (parse_assemble rec) (\<lambda>a. ret (SAssemble a)))" "limited (parse_stream_assemble rec)"
    unfolding parse_stream_assemble_def
    by (intro yields_seq_any yields_seq [OF assemble_limited [OF rec]]; simp add: yield_simps)+
  ultimately show ?thesis
    using k explain_limited [OF rec] batch_limited [OF rec] coalesce_limited [OF rec] define_limited [of sub]
    by (auto simp: statement_keyword_def yield_simps every_leaf split: if_splits)
qed

lemma statement_n_limited: "limited (parse_statement_n sub n)"
proof (induction n)
  case (Suc n)
  have p: "limited (seq (parse_paren_statement (parse_statement_n sub n)) (parse_set_op_tail (parse_statement_n sub n)))"
    by (rule yields_seq [OF paren_limited [OF Suc]]) (rule set_tail_limited [OF Suc])
  have k: "limited (case statement_keyword sub (parse_statement_n sub n) k of Some m \<Rightarrow> m | None \<Rightarrow> unexpected_at a st None)"
    for k a st
    using keyword_limited [OF Suc] by (simp add: yield_simps split: option.split)
  show ?case
    unfolding parse_statement_n.simps statement_step_def
    by (intro yields_step(3)) (auto simp: yield_simps p k split: option.split token.split)
qed (simp add: yield_simps)


end
