(* ===== verification/Cal_Read_Only.thy ===== *)
theory Cal_Read_Only
  imports Cal_Limits Cal_Query_Props
begin

text \<open>
  What counts as a read (\<^verbatim>\<open>classify.rs\<close>, \<^verbatim>\<open>parser.rs\<close>, \<^verbatim>\<open>executor.rs\<close> of \<^verbatim>\<open>dejadb-cal\<close>): how the
  three tables over the statements relate; none of them looks at the statements
  inside a \<^verbatim>\<open>COALESCE\<close>, a set operation, an \<^verbatim>\<open>ASSEMBLE\<close> source or a \<^verbatim>\<open>CONTRADICTIONS\<close> clause, where
  the grammar admits every statement; and \<^verbatim>\<open>EXPLAIN\<close> nests without a bound.
\<close>

section \<open>The tables agree\<close>

lemma leaves_batch: "batch_leaves (SBatch b) = concat (map batch_leaves (batch_statements b))"
  by (subst batch_leaves.simps) simp

lemma leaves_other: "\<not> is_batch s \<Longrightarrow> batch_leaves s = [s]"
  by (subst batch_leaves.simps) (cases s; simp)

lemma check_plain:
  "\<not> is_batch s \<Longrightarrow> check_read_only_statement sp' s = Inr () \<longleftrightarrow> classify s = ClRead \<and> \<not> runs_query s"
  by (cases s) (simp_all add: write_error_def)

lemma check_classify:
  "check_read_only_statement sp' s = Inr () \<longleftrightarrow> classify s = ClRead \<and> list_all (\<lambda>l. \<not> runs_query l) (batch_leaves s)"
proof (induction s rule: measure_induct_rule [of size])
  case (less s)
  show ?case
  proof (cases "is_batch s")
    case True
    then obtain b where s: "s = SBatch b" by (cases s) simp_all
    have "size t < size s" if "t \<in> set (batch_statements b)" for t
      using batch_statement_size [OF that] by (simp only: s)
    note sub = less.IH [OF this]
    show ?thesis
      by (auto simp: s sub leaves_batch all_ok_iff class_max_read list_all_iff)
  qed (simp add: check_plain leaves_other)
qed

text \<open>
  C32. How the three tables over the statements relate. The check of saved queries passes
  exactly the statements that the classification calls reads and that are no \<^verbatim>\<open>RUN\<close> and
  have none among the entries of a batch: \<^verbatim>\<open>RUN\<close> is classified as a read, and refused by the
  check. The scope table asks for \<^verbatim>\<open>read\<close> exactly for the reads and for every batch, also for
  one that writes; the entries of a batch are checked one by one when they run.
\<close>

theorem tables_agree:
  "(check_read_only_statement sp' s = Inr ()
      \<longleftrightarrow> classify s = ClRead \<and> list_all (\<lambda>l. \<not> runs_query l) (batch_leaves s))
   \<and> (required_scope_for_statement s = ''read'' \<longleftrightarrow> is_batch s \<or> classify s = ClRead)"
proof (rule conjI [OF check_classify])
  show "required_scope_for_statement s = ''read'' \<longleftrightarrow> is_batch s \<or> classify s = ClRead"
    by (cases s) simp_all
qed

section \<open>Running a parser on given tokens\<close>

text \<open>The equations of the steps, applied to a state, so that only what is reached is unfolded.\<close>

named_theorems run "running parsers"

lemma run_steps [run]:
  "ret x E p = Inr (x, p)"
  "raise e E p = Inl e"
  "seq m f E p = (case m E p of Inl e \<Rightarrow> Inl e | Inr (x, q) \<Rightarrow> f x E q)"
  "ask g h E p = h (g p) E p"
  "ask_env k E p = k E E p"
  "on_peek l E p = l (peek p) E p"
  "if_tok P a b E p = (case peek p of Some st \<Rightarrow> if P (st_token st) then a E p else b E p | None \<Rightarrow> b E p)"
  "then_advance a E p = (case advance E p of Inl e \<Rightarrow> Inl e | Inr (_, q) \<Rightarrow> a E q)"
  "if_eat t a b E p = if_tok (\<lambda>x. x = t) (then_advance a) b E p"
  "eat_exact t E p = if_eat t (ret True) (ret False) E p"
  "expect_exact t E p = if_eat t (ret ()) (ask_env (\<lambda>E. no_match (describe E t) (describe E t) None)) E p"
  "nested a E p = (case enter_nesting E p of Inl e \<Rightarrow> Inl e | Inr (_, q) \<Rightarrow>
     (case a E q of Inl e \<Rightarrow> Inl e | Inr (x, r) \<Rightarrow> Inr (x, r\<lparr>ps_nesting := ps_nesting r - 1\<rparr>)))"
  "repeat body y E p = loop (Suc (remaining p)) body y E p"
  "loop (Suc n) body y E p = (case body y E p of Inl e \<Rightarrow> Inl e | Inr (r, q) \<Rightarrow> (case r of Inl z \<Rightarrow> loop n body z E q | Inr z \<Rightarrow> Inr (z, q)))"
  "fuelled fl E p = fl (Suc (remaining p)) E p"
  "since_span s c E p = Inr (c (Some (span_to s (prev_span p))), p)"
  "optional t a E p = if_eat t (seq a (\<lambda>x. ret (Some x))) (ret None) E p"
  "parse_statement_n sub (Suc n) E p = statement_step sub (parse_statement_n sub n) E p"
  by (auto simp: ret_def raise_def seq_def ask_def ask_env_def on_peek_def if_tok_def then_advance_def if_eat_def eat_exact_def
      expect_exact_def nested_def leave_nesting_def repeat_def fuelled_def since_span_def optional_def
      split: sum.split option.split)

lemma run_state [run]:
  "peek p = (if ps_pos p < length (ps_tokens p) then Some (ps_tokens p ! ps_pos p) else None)"
  "advance E p = (if ps_pos p < length (ps_tokens p) then Inr (Some (ps_tokens p ! ps_pos p), p\<lparr>ps_pos := ps_pos p + 1\<rparr>)
     else Inr (None, p))"
  "enter_nesting E p = (if 8 < ps_nesting p + 1 then Inl (CeNestingTooDeep (ps_nesting p + 1) 8 (Some (current_span p)))
     else Inr ((), p\<lparr>ps_nesting := ps_nesting p + 1\<rparr>))"
  "remaining p = length (ps_tokens p) - ps_pos p"
  "peek_token k p = (if ps_pos p + k < length (ps_tokens p) then Some (st_token (ps_tokens p ! (ps_pos p + k))) else None)"
  by (simp_all add: peek_def peek_ahead_def advance_def enter_nesting_def MAX_NESTING_DEPTH_def remaining_def peek_token_def Let_def)

lemmas applied = fun_cong [THEN fun_cong]

lemmas run_parsers =
  parse_version_prefix_def [THEN applied] parse_let_block_def [THEN applied] parse_statement_full_def [THEN applied]
  parse_statement_def statement_step_def [THEN applied] items_until_def [THEN applied] parse_hash_literal_def [THEN applied]
  parse_pipeline_def [THEN applied] trailing_clause_def [THEN applied] skip_semicolons_def [THEN applied]
  expect_end_def [THEN applied] forget_hash_def [THEN applied] parse_forget_def [THEN applied]
  parse_coalesce_def [THEN applied]

lemmas run_data = parse_query_def Let_def statement_keyword_def is_reason_def COALESCE_MIN_def COALESCE_MAX_def coalesce_subs_def

section \<open>The classification is shallow\<close>

definition forget_of :: "string \<Rightarrow> span option \<Rightarrow> statement" where
  "forget_of h s = SForget \<lparr>fg_target = FgHash h, fg_reason = None, fg_text_mentions = False, fg_span = s\<rparr>"

lemma coalesce_tokens:
  assumes "map st_token us =
    [Kw ''COALESCE'', Sym ''('', Kw ''FORGET'', HashLiteral h, Sym '','', Kw ''FORGET'', HashLiteral k, Sym '')'']"
  shows "\<exists>q p s s'. parse_query sub E (parser_new us input) = Inr (q, p)
    \<and> sub_statements (cq_statement q) = [forget_of h s, forget_of k s'] \<and> (\<exists>c. cq_statement q = SCoalesce c)"
proof -
  obtain t1 t2 t3 t4 t5 t6 t7 t8 where us: "us = [t1, t2, t3, t4, t5, t6, t7, t8]"
    and t: "st_token t1 = Kw ''COALESCE''" "st_token t2 = Sym ''(''" "st_token t3 = Kw ''FORGET''" "st_token t4 = HashLiteral h"
     "st_token t5 = Sym '',''" "st_token t6 = Kw ''FORGET''" "st_token t7 = HashLiteral k" "st_token t8 = Sym '')''"
    using assms by auto
  show ?thesis
    by (simp add: us t parser_new_def run run_parsers run_data forget_of_def del: parse_statement_n.simps loop.simps)
qed

definition hidden_forgets :: utext where
  "hidden_forgets = utext_of (CHR '' '' # unlex [''COALESCE'', ''('', ''FORGET'', ''sha256:aaaaaaaa'', '','',
     ''FORGET'', ''sha256:bbbbbbbb'', '')''])"

lemma hidden_tokens:
  "\<exists>us. cal_tokenize cal_env0 hidden_forgets = Inr us \<and> map st_token us = [Kw ''COALESCE'', Sym ''('', Kw ''FORGET'',
     HashLiteral ''aaaaaaaa'', Sym '','', Kw ''FORGET'', HashLiteral ''bbbbbbbb'', Sym '')'']"
proof -
  let ?ts = "[Kw ''COALESCE'', Sym ''('', Kw ''FORGET'', HashLiteral ''aaaaaaaa'', Sym '','', Kw ''FORGET'',
     HashLiteral ''bbbbbbbb'', Sym '')'']"
  have "wf_token (Kw ''COALESCE'')" "wf_token (Sym ''('')" "wf_token (Kw ''FORGET'')" "wf_token (HashLiteral ''aaaaaaaa'')"
    "wf_token (Sym '','')" "wf_token (HashLiteral ''bbbbbbbb'')" "wf_token (Sym '')'')" by code_simp+
  then have "list_all2 (\<lambda>t s. wf_token t \<and> prints cal_env0 t s) ?ts [''COALESCE'', ''('', ''FORGET'', ''sha256:aaaaaaaa'', '','',
     ''FORGET'', ''sha256:bbbbbbbb'', '')'']" by simp
  from unlex_tokens [OF this, of "(1, 0, 0)"] show ?thesis
    by (auto simp: lexed_def cal_tokenize_def lexer_new_def hidden_forgets_def result_simps)
qed

text \<open>
  C33. A query that erases two grains passes as a read: \<^verbatim>\<open>COALESCE(FORGET ..., FORGET ...)\<close> parses,
  its branches are \<^verbatim>\<open>FORGET\<close> statements, which are destructive, and yet the text is read-only
  for the host's gate, passes the check of saved queries and needs the scope \<^verbatim>\<open>read\<close>.
\<close>

theorem hidden_forgets_pass_as_read:
  "query_is_read_only cal_env0 hidden_forgets
   \<and> (case cal_parse cal_env0 hidden_forgets of
        Inl e \<Rightarrow> False
      | Inr q \<Rightarrow> map classify (sub_statements (cq_statement q)) = [ClDestructive, ClDestructive]
          \<and> check_read_only_statement span_zero (cq_statement q) = Inr ()
          \<and> required_scope_for_statement (cq_statement q) = ''read'')"
proof -
  obtain us where us: "cal_tokenize cal_env0 hidden_forgets = Inr us" "map st_token us = [Kw ''COALESCE'', Sym ''('', Kw ''FORGET'',
     HashLiteral ''aaaaaaaa'', Sym '','', Kw ''FORGET'', HashLiteral ''bbbbbbbb'', Sym '')'']"
    using hidden_tokens by (elim exE conjE) (rule that)
  have short: "utext_len hidden_forgets \<le> MAX_QUERY_LENGTH" "utrim hidden_forgets \<noteq> []"
    by (simp_all add: hidden_forgets_def utext_of_def unlex_def utext_len_def scalar_len_def MAX_QUERY_LENGTH_def utrim_def is_white_def)
  let ?sub = "\<lambda>E' body. if utext_len body < utext_len hidden_forgets then cal_parse E' body else Inl (CePanic ''unreachable'')"
  obtain q p s s' c where q: "parse_query ?sub cal_env0 (parser_new us hidden_forgets) = Inr (q, p)"
    and sub: "sub_statements (cq_statement q) = [forget_of ''aaaaaaaa'' s, forget_of ''bbbbbbbb'' s']"
    and c: "cq_statement q = SCoalesce c"
    using coalesce_tokens [OF us(2), of ?sub cal_env0 hidden_forgets] by (elim exE conjE) (rule that)
  have "cal_parse cal_env0 hidden_forgets = parse_with ?sub cal_env0 hidden_forgets"
    by (rule cal_parse.simps)
  also have "\<dots> = Inr q"
    using short us q by (auto simp: parse_with_def)
  finally have "cal_parse cal_env0 hidden_forgets = Inr q" .
  with sub c show ?thesis
    by (auto simp: query_is_read_only_def forget_of_def)
qed

section \<open>EXPLAIN nests without a bound\<close>

fun explain_depth :: "statement \<Rightarrow> nat" where
  "explain_depth (SExplain s _) = Suc (explain_depth s)"
| "explain_depth _ = 0"

lemmas run_recall = parse_recall_stmt_def [THEN applied] recall_my_def [THEN applied] recall_grain_type_def [THEN applied]
  parse_about_clause_def parse_like_clause_def parse_since_clause_def parse_until_clause_def parse_between_clause_def
  parse_recent_clause_def clause_def [THEN applied] recall_where_def [THEN applied] parse_where_clause_def [THEN applied]
  if_none_def recall_limit_def parse_contradictions_clause_def [THEN applied]
  recall_conflict_def where_refers_to_def parse_set_op_tail_def [THEN applied] parse_explain_def [THEN applied]

definition statement_ends :: "stoken list \<Rightarrow> nat \<Rightarrow> bool" where
  "statement_ends ts i \<longleftrightarrow> length ts = i + 2 \<and> st_token (ts ! i) = Kw ''RECALL'' \<and> st_token (ts ! (i + 1)) = Sym ''*''"

lemma recall_all:
  assumes "statement_ends (ps_tokens p) (ps_pos p)"
  shows "\<exists>r. parse_statement_n sub (Suc k) E p = Inr (SRecall r, p\<lparr>ps_pos := ps_pos p + 2\<rparr>)"
  using assms
  by (simp add: statement_ends_def run run_parsers run_recall run_data del: parse_statement_n.simps loop.simps)

lemma explain_one:
  assumes "ps_pos p < length (ps_tokens p)" and "st_token (ps_tokens p ! ps_pos p) = Kw ''EXPLAIN''"
    and "parse_statement_n sub k E (p\<lparr>ps_pos := ps_pos p + 1\<rparr>) = Inr (s, q)" and "no_plan_name s = None"
  shows "\<exists>sp'. parse_statement_n sub (Suc k) E p = Inr (SExplain s sp', q)"
  using assms
  by (simp add: run run_parsers parse_explain_def [THEN applied] run_data del: parse_statement_n.simps loop.simps)

lemma explain_chain:
  assumes "statement_ends (ps_tokens p) (ps_pos p + d)" and "d < k"
    and "\<forall>j < d. st_token (ps_tokens p ! (ps_pos p + j)) = Kw ''EXPLAIN''"
  shows "\<exists>s. parse_statement_n sub k E p = Inr (s, p\<lparr>ps_pos := ps_pos p + d + 2\<rparr>) \<and> explain_depth s = d \<and> no_plan_name s = None"
  using assms
proof (induction d arbitrary: p k)
  case (0 p k)
  then obtain k' where "k = Suc k'" by (cases k) simp_all
  with recall_all [of p sub k' E] 0 show ?case by auto
next
  case (Suc d p k)
  then obtain k' where k: "k = Suc k'" by (cases k) simp_all
  let ?p = "p\<lparr>ps_pos := ps_pos p + 1\<rparr>"
  have "\<forall>j < d. st_token (ps_tokens ?p ! (ps_pos ?p + j)) = Kw ''EXPLAIN''"
    using Suc.prems(3) by (auto dest: spec [of _ "Suc _"])
  then obtain s where s: "parse_statement_n sub k' E ?p = Inr (s, p\<lparr>ps_pos := ps_pos p + Suc d + 2\<rparr>)"
    "explain_depth s = d" "no_plan_name s = None"
    using Suc.IH [of ?p k'] Suc.prems(1,2) by (auto simp: k)
  have "ps_pos p < length (ps_tokens p)" "st_token (ps_tokens p ! ps_pos p) = Kw ''EXPLAIN''"
    using Suc.prems(1,3) by (auto simp: statement_ends_def)
  from explain_one [OF this s(1,3)] show ?case by (auto simp: k s(2))
qed

lemma explain_query:
  assumes us: "map st_token us = replicate n (Kw ''EXPLAIN'') @ [Kw ''RECALL'', Sym ''*'']"
  shows "\<exists>q p. parse_query sub E (parser_new us input) = Inr (q, p) \<and> explain_depth (cq_statement q) = n"
proof -
  have len: "length us = n + 2" using arg_cong [OF us, of length] by simp
  have tok: "st_token (us ! j) = (replicate n (Kw ''EXPLAIN'') @ [Kw ''RECALL'', Sym ''*'']) ! j" if "j < n + 2" for j
    using that us len by (metis nth_map)
  have ends: "statement_ends us n" using tok [of n] tok [of "n + 1"] by (simp add: statement_ends_def len nth_append)
  have pre: "st_token (us ! j) = Kw ''EXPLAIN''" if "j < n" for j
    using tok [of j] that by (simp add: nth_append)
  let ?p = "parser_new us input"
  obtain s where s: "parse_statement_n sub (Suc (length us)) E ?p = Inr (s, ?p\<lparr>ps_pos := n + 2\<rparr>)" "explain_depth s = n"
    using explain_chain [of ?p n "Suc (length us)" sub E] ends pre by (auto simp: parser_new_def len)
  have first: "st_token (us ! 0) = (if n = 0 then Kw ''RECALL'' else Kw ''EXPLAIN'')"
    using tok [of 0] by (simp add: nth_append)
  show ?thesis
    using s first len
    by (simp add: run run_parsers run_data parser_new_def del: parse_statement_n.simps loop.simps split: if_splits)
qed

definition explain_tokens :: "nat \<Rightarrow> stoken list" where
  "explain_tokens n = map (\<lambda>t. \<lparr>st_token = t, st_span = span_zero, st_text = []\<rparr>)
     (replicate n (Kw ''EXPLAIN'') @ [Kw ''RECALL'', Sym ''*''])"

text \<open>
  Although the nesting of parentheses is bounded, \<^verbatim>\<open>EXPLAIN\<close> is not: \<open>n\<close> of them before a
  \<^verbatim>\<open>RECALL *\<close> parse to a statement \<open>n\<close> levels deep, for every \<open>n\<close>, so the depth of the
  recursion is bounded by the length of the query only.
\<close>

theorem explain_unbounded:
  "\<exists>q p. parse_query cal_parse E (parser_new (explain_tokens n) input) = Inr (q, p) \<and> explain_depth (cq_statement q) = n"
  by (rule explain_query) (simp add: explain_tokens_def)

end
