(* ===== verification/Cal_Grains.thy ===== *)
theory Cal_Grains
  imports Cal_Query Wire_Value
begin

text \<open>
  What the executor of CAL does with grains it has recalled (\<^verbatim>\<open>executor.rs\<close> of \<^verbatim>\<open>dejadb-cal\<close>):
  conditions on their fields, the order and the groups of \<^verbatim>\<open>ORDER BY\<close> and \<^verbatim>\<open>GROUP BY\<close>,
  projections, and the set operations. All of it is pure.
\<close>

section \<open>Grains in a result\<close>

text \<open>
  What is used of the libraries: \<open>xe_rnd\<close> converts an integer to the nearest double,
  \<open>xe_f32\<close> a double to the nearest single, \<open>xe_powi\<close> is \<^verbatim>\<open>f64::powi\<close>, \<open>xe_json\<close> is the compact text of a JSON value
  (\<^verbatim>\<open>Display\<close> of \<^verbatim>\<open>serde_json::Value\<close>), \<open>xe_debug\<close> the derived \<^verbatim>\<open>Debug\<close> of a value of CAL,
  and \<open>xe_iter\<close> the order in which a \<^verbatim>\<open>HashMap\<close> of strings is iterated.
\<close>

record exec_env =
  xe_core :: core_env
  xe_cal :: cal_env
  xe_rnd :: "int \<Rightarrow> rat"
  xe_f32 :: "f64 \<Rightarrow> f64"
  xe_powi :: "f64 \<Rightarrow> nat \<Rightarrow> f64"
  xe_json :: "json \<Rightarrow> string"
  xe_debug :: "cval \<Rightarrow> string"
  xe_iter :: "(string \<times> string) list \<Rightarrow> (string \<times> string) list"

abbreviation xe_hex :: "exec_env \<Rightarrow> bytes \<Rightarrow> string" where
  "xe_hex E \<equiv> hex_encode (xe_core E)"

record grain_result =
  cg_hash :: string
  cg_type :: string
  cg_score :: f64
  cg_fields :: json
  cg_breakdown :: "json option"
  cg_explanation :: "string option"
  cg_relative_time :: "string option"
  cg_deterministic :: bool
  cg_contested :: "string list option"

definition json_field :: "json \<Rightarrow> string \<Rightarrow> json option" where
  "json_field fs f = (case fs of JObj m \<Rightarrow> map_of m f | _ \<Rightarrow> None)"

definition str_field :: "grain_result \<Rightarrow> string \<Rightarrow> string option" where
  "str_field g f = Option.bind (json_field (cg_fields g) f) as_str"

fun project_into :: "(string \<times> json) list \<Rightarrow> json \<Rightarrow> string list \<Rightarrow> (string \<times> json) list" where
  "project_into out fs [] = out"
| "project_into out fs (k # ks) =
     project_into (case json_field fs k of None \<Rightarrow> out | Some v \<Rightarrow> bt_insert k v out) fs ks"

definition project_fields :: "json \<Rightarrow> string list \<Rightarrow> json" where
  "project_fields fs ks = JObj (project_into [] fs ks)"

text \<open>\<^verbatim>\<open>PROJECT\<close> may rename; two fields with one alias collide and the later one wins.\<close>

fun project_alias :: "(string \<times> json) list \<Rightarrow> json \<Rightarrow> project_field list \<Rightarrow> (string \<times> json) list" where
  "project_alias out fs [] = out"
| "project_alias out fs (p # ps) = project_alias
     (case json_field fs (pf_field p) of
        None \<Rightarrow> out
      | Some v \<Rightarrow> bt_insert (case pf_alias p of Some a \<Rightarrow> a | None \<Rightarrow> pf_field p) v out) fs ps"

section \<open>The order of JSON values\<close>

datatype ordering = OrdLess | OrdEqual | OrdGreater

definition ord_cmp :: "'a::linorder \<Rightarrow> 'a \<Rightarrow> ordering" where
  "ord_cmp a b = (if a < b then OrdLess else if a = b then OrdEqual else OrdGreater)"

fun ord_reverse :: "ordering \<Rightarrow> ordering" where
  "ord_reverse OrdLess = OrdGreater"
| "ord_reverse OrdEqual = OrdEqual"
| "ord_reverse OrdGreater = OrdLess"

definition f64_partial_cmp :: "f64 \<Rightarrow> f64 \<Rightarrow> ordering option" where
  "f64_partial_cmp a b =
     (if a = NaN \<or> b = NaN then None
      else Some (if f64_less a b then OrdLess else if f64_less b a then OrdGreater else OrdEqual))"

definition cmp_or_equal :: "ordering option \<Rightarrow> ordering" where
  "cmp_or_equal o' = (case o' of Some c \<Rightarrow> c | None \<Rightarrow> OrdEqual)"

definition json_cmp :: "exec_env \<Rightarrow> json \<Rightarrow> json \<Rightarrow> ordering" where
  "json_cmp E va vb =
     (case (as_f64 (xe_rnd E) va, as_f64 (xe_rnd E) vb) of
        (Some fa, Some fb) \<Rightarrow> cmp_or_equal (f64_partial_cmp fa fb)
      | _ \<Rightarrow> (case (as_str va, as_str vb) of
        (Some sa, Some sb) \<Rightarrow> ord_cmp sa sb
      | _ \<Rightarrow> (case (as_bool va, as_bool vb) of
        (Some ba, Some bb) \<Rightarrow> ord_cmp ba bb
      | _ \<Rightarrow> ord_cmp (xe_json E va) (xe_json E vb))))"

fun compare_json_values :: "exec_env \<Rightarrow> json option \<Rightarrow> json option \<Rightarrow> ordering" where
  "compare_json_values E None None = OrdEqual"
| "compare_json_values E None (Some _) = OrdLess"
| "compare_json_values E (Some _) None = OrdGreater"
| "compare_json_values E (Some va) (Some vb) = json_cmp E va vb"

text \<open>\<^verbatim>\<open>slice::sort_by\<close> is stable.\<close>

primrec insert_by :: "('a \<Rightarrow> 'a \<Rightarrow> ordering) \<Rightarrow> 'a \<Rightarrow> 'a list \<Rightarrow> 'a list" where
  "insert_by c x [] = [x]"
| "insert_by c x (y # ys) = (if c x y = OrdGreater then y # insert_by c x ys else x # y # ys)"

primrec sort_by :: "('a \<Rightarrow> 'a \<Rightarrow> ordering) \<Rightarrow> 'a list \<Rightarrow> 'a list" where
  "sort_by c [] = []"
| "sort_by c (x # xs) = insert_by c x (sort_by c xs)"

definition order_cmp :: "exec_env \<Rightarrow> string \<Rightarrow> bool \<Rightarrow> grain_result \<Rightarrow> grain_result \<Rightarrow> ordering" where
  "order_cmp E f desc a b =
     (let c = compare_json_values E (json_field (cg_fields a) f) (json_field (cg_fields b) f)
      in if desc then ord_reverse c else c)"

section \<open>Groups\<close>

definition group_key :: "exec_env \<Rightarrow> string \<Rightarrow> grain_result \<Rightarrow> string" where
  "group_key E f g =
     (case json_field (cg_fields g) f of
        None \<Rightarrow> []
      | Some v \<Rightarrow> (case v of JStr s \<Rightarrow> s | _ \<Rightarrow> xe_json E v))"

fun opt_partial_cmp :: "f64 option \<Rightarrow> f64 option \<Rightarrow> ordering option" where
  "opt_partial_cmp None None = Some OrdEqual"
| "opt_partial_cmp None (Some _) = Some OrdLess"
| "opt_partial_cmp (Some _) None = Some OrdGreater"
| "opt_partial_cmp (Some a) (Some b) = f64_partial_cmp a b"

definition created_of :: "exec_env \<Rightarrow> grain_result \<Rightarrow> f64 option" where
  "created_of E g = Option.bind (json_field (cg_fields g) ''created_at_sec'') (as_f64 (xe_rnd E))"

definition by_created :: "exec_env \<Rightarrow> grain_result \<Rightarrow> grain_result \<Rightarrow> ordering" where
  "by_created E a b = cmp_or_equal (opt_partial_cmp (created_of E a) (created_of E b))"

definition by_earliest :: "exec_env \<Rightarrow> string \<times> grain_result list \<Rightarrow> string \<times> grain_result list \<Rightarrow> ordering" where
  "by_earliest E a b = cmp_or_equal (opt_partial_cmp
     (case snd a of [] \<Rightarrow> None | g # _ \<Rightarrow> created_of E g) (case snd b of [] \<Rightarrow> None | g # _ \<Rightarrow> created_of E g))"

fun push_groups :: "exec_env \<Rightarrow> string \<Rightarrow> grain_result list \<Rightarrow> (string \<times> grain_result list) list
    \<Rightarrow> (string \<times> grain_result list) list" where
  "push_groups E f [] m = m"
| "push_groups E f (g # gs) m =
     (let k = group_key E f g
      in push_groups E f gs (bt_insert k ((case map_of m k of None \<Rightarrow> [] | Some ms \<Rightarrow> ms) @ [g]) m))"

text \<open>The group of the grains without a key goes to the end.\<close>

definition empty_last :: "(string \<times> 'a) list \<Rightarrow> (string \<times> 'a) list" where
  "empty_last gs = filter (\<lambda>(k, _). k \<noteq> []) gs @ filter (\<lambda>(k, _). k = []) gs"

definition group_grains_by_field :: "exec_env \<Rightarrow> grain_result list \<Rightarrow> string \<Rightarrow> grain_result list" where
  "group_grains_by_field E gs f =
     (let groups = map (\<lambda>(k, ms). (k, sort_by (by_created E) ms)) (push_groups E f gs [])
      in concat (map snd (empty_last (sort_by (by_earliest E) groups))))"

text \<open>The runs of grains with one key, as the renderers read them back.\<close>

fun collect_groups_into :: "exec_env \<Rightarrow> string \<Rightarrow> grain_result list \<Rightarrow> (string \<times> grain_result list) list
    \<Rightarrow> (string \<times> grain_result list) list" where
  "collect_groups_into E f [] acc = acc"
| "collect_groups_into E f (g # gs) acc =
     (let k = group_key E f g
      in collect_groups_into E f gs
        (if acc \<noteq> [] \<and> fst (last acc) = k then butlast acc @ [(k, snd (last acc) @ [g])] else acc @ [(k, [g])]))"

definition collect_groups :: "exec_env \<Rightarrow> grain_result list \<Rightarrow> string \<Rightarrow> (string \<times> grain_result list) list" where
  "collect_groups E gs f = collect_groups_into E f gs []"

section \<open>Set operations\<close>

definition hashes_of :: "grain_result list \<Rightarrow> string set" where
  "hashes_of gs = set (map cg_hash gs)"

definition union_grains :: "grain_result list \<Rightarrow> grain_result list \<Rightarrow> grain_result list" where
  "union_grains l r = l @ filter (\<lambda>g. cg_hash g \<notin> hashes_of l) r"

definition intersect_grains :: "grain_result list \<Rightarrow> grain_result list \<Rightarrow> grain_result list" where
  "intersect_grains l r = filter (\<lambda>g. cg_hash g \<in> hashes_of r) l"

definition except_grains :: "grain_result list \<Rightarrow> grain_result list \<Rightarrow> grain_result list" where
  "except_grains l r = filter (\<lambda>g. cg_hash g \<notin> hashes_of r) l"

fun apply_set_op :: "set_op \<Rightarrow> grain_result list \<Rightarrow> grain_result list \<Rightarrow> grain_result list" where
  "apply_set_op SoUnion l r = union_grains l r"
| "apply_set_op SoIntersect l r = intersect_grains l r"
| "apply_set_op SoExcept l r = except_grains l r"

section \<open>Conditions on a grain\<close>

fun has_infix :: "'a list \<Rightarrow> 'a list \<Rightarrow> bool" where
  "has_infix p [] = (p = [])"
| "has_infix p (x # xs) = (starts_with (x # xs) p \<or> has_infix p xs)"

fun f64_sub :: "(rat \<Rightarrow> f64) \<Rightarrow> f64 \<Rightarrow> f64 \<Rightarrow> f64" where
  "f64_sub rnd (Finite a) (Finite b) = rnd (a - b)"
| "f64_sub rnd (Finite _) PosInf = NegInf"
| "f64_sub rnd (Finite _) NegInf = PosInf"
| "f64_sub rnd PosInf (Finite _) = PosInf"
| "f64_sub rnd PosInf NegInf = PosInf"
| "f64_sub rnd NegInf (Finite _) = NegInf"
| "f64_sub rnd NegInf PosInf = NegInf"
| "f64_sub rnd _ _ = NaN"

fun f64_abs :: "f64 \<Rightarrow> f64" where
  "f64_abs (Finite a) = Finite \<bar>a\<bar>"
| "f64_abs NaN = NaN"
| "f64_abs _ = PosInf"

definition F64_EPSILON :: f64 where "F64_EPSILON = Finite (1 / 4503599627370496)"

definition strip_sha256 :: "string \<Rightarrow> string" where
  "strip_sha256 s = (if starts_with s ''sha256:'' then drop 7 s else s)"

text \<open>\<^verbatim>\<open>hash\<close> and \<^verbatim>\<open>grain_type\<close> stand on the grain, not among its fields.\<close>

definition grain_value :: "grain_result \<Rightarrow> string \<Rightarrow> json option" where
  "grain_value g f =
     (if f = ''hash'' then Some (JStr (cg_hash g))
      else if f = ''grain_type'' then Some (JStr (cg_type g))
      else json_field (cg_fields g) f)"

fun hash_value :: "string \<Rightarrow> cval \<Rightarrow> cval" where
  "hash_value f (CvString v) = CvString (if f = ''hash'' then strip_sha256 v else v)"
| "hash_value f v = v"

definition opt_test :: "('a \<Rightarrow> bool) \<Rightarrow> 'a option \<Rightarrow> bool" where
  "opt_test P o' = (case o' of None \<Rightarrow> False | Some x \<Rightarrow> P x)"

fun eq_arm :: "exec_env \<Rightarrow> json option \<Rightarrow> cval \<Rightarrow> bool" where
  "eq_arm E j (CvString t) = opt_test (\<lambda>s. s = t) (Option.bind j as_str)"
| "eq_arm E j (CvNumber t) = opt_test (\<lambda>n. f64_less (f64_abs (f64_sub (ce_round (xe_cal E)) n t)) F64_EPSILON)
     (Option.bind j (as_f64 (xe_rnd E)))"
| "eq_arm E j (CvBoolean t) = opt_test (\<lambda>b. b = t) (Option.bind j as_bool)"
| "eq_arm E j _ = False"

fun number_arm :: "exec_env \<Rightarrow> (f64 \<Rightarrow> f64 \<Rightarrow> bool) \<Rightarrow> json option \<Rightarrow> cval \<Rightarrow> bool" where
  "number_arm E rel j (CvNumber t) = opt_test (\<lambda>n. rel n t) (Option.bind j (as_f64 (xe_rnd E)))"
| "number_arm E rel j _ = False"

definition matches_eq :: "exec_env \<Rightarrow> grain_result \<Rightarrow> string \<Rightarrow> cval \<Rightarrow> bool" where
  "matches_eq E g f v = eq_arm E (grain_value g f) (hash_value f v)"

text \<open>\<^verbatim>\<open>!=\<close> calls the whole test for \<^verbatim>\<open>=\<close> on the value that is already stripped of its prefix.\<close>

fun grain_matches_condition :: "exec_env \<Rightarrow> grain_result \<Rightarrow> string \<Rightarrow> comparator \<Rightarrow> cval \<Rightarrow> bool" where
  "grain_matches_condition E g f CmpEq v = matches_eq E g f v"
| "grain_matches_condition E g f CmpNotEq v = (\<not> matches_eq E g f (hash_value f v))"
| "grain_matches_condition E g f CmpGte v = number_arm E f64_ge (grain_value g f) (hash_value f v)"
| "grain_matches_condition E g f CmpGt v = number_arm E (\<lambda>n t. f64_less t n) (grain_value g f) (hash_value f v)"
| "grain_matches_condition E g f CmpLte v = number_arm E (\<lambda>n t. f64_ge t n) (grain_value g f) (hash_value f v)"
| "grain_matches_condition E g f CmpLt v = number_arm E f64_less (grain_value g f) (hash_value f v)"

definition str_test :: "(string \<Rightarrow> bool) \<Rightarrow> grain_result \<Rightarrow> string \<Rightarrow> bool" where
  "str_test P g f = opt_test P (str_field g f)"

fun grain_matches_condition_tree :: "exec_env \<Rightarrow> grain_result \<Rightarrow> condition \<Rightarrow> bool" where
  "grain_matches_condition_tree E g (Comparison f c v _) = grain_matches_condition E g f c v"
| "grain_matches_condition_tree E g (CondAnd a b _) =
     (grain_matches_condition_tree E g a \<and> grain_matches_condition_tree E g b)"
| "grain_matches_condition_tree E g (CondOr a b _) =
     (grain_matches_condition_tree E g a \<or> grain_matches_condition_tree E g b)"
| "grain_matches_condition_tree E g (CondNot a _) = (\<not> grain_matches_condition_tree E g a)"
| "grain_matches_condition_tree E g (CondIn f vs _) = list_ex (\<lambda>v. grain_matches_condition E g f CmpEq v) vs"
| "grain_matches_condition_tree E g (CondNotIn f vs _) = (\<not> list_ex (\<lambda>v. grain_matches_condition E g f CmpEq v) vs)"
| "grain_matches_condition_tree E g (CondIsNull f _) =
     (case json_field (cg_fields g) f of None \<Rightarrow> True | Some v \<Rightarrow> v = JNull)"
| "grain_matches_condition_tree E g (CondIsNotNull f _) =
     (case json_field (cg_fields g) f of None \<Rightarrow> False | Some v \<Rightarrow> v \<noteq> JNull)"
| "grain_matches_condition_tree E g (CondContains f v _) = str_test (has_infix v) g f"
| "grain_matches_condition_tree E g (CondStartsWith f v _) = str_test (\<lambda>s. starts_with s v) g f"
| "grain_matches_condition_tree E g (CondIsCategory f c _) = str_test (\<lambda>s. eq_ignore_ascii_case s c) g f"

section \<open>Which conditions are tested after the recall\<close>

definition COMMON_FIELDS :: "string list" where
  "COMMON_FIELDS = [''subject'', ''relation'', ''object'', ''namespace'', ''user_id'', ''confidence'', ''importance'',
     ''score'', ''tags'', ''type'', ''time'', ''hash'', ''contradicted'', ''verification_status'', ''source_type'',
     ''recall_priority'', ''epistemic_status'', ''query'', ''created_at'', ''content'', ''summary'', ''grain_type'',
     ''scope'', ''scope_path'', ''priority'', ''status'']"

fun plural_grain_type :: "gplural \<Rightarrow> grain_type option" where
  "plural_grain_type Facts = Some GFact"
| "plural_grain_type Events = Some GEvent"
| "plural_grain_type States = Some GState"
| "plural_grain_type Workflows = Some GWorkflow"
| "plural_grain_type Tools = Some GTool"
| "plural_grain_type Observations = Some GObservation"
| "plural_grain_type Goals = Some GGoal"
| "plural_grain_type Reasonings = Some GReasoning"
| "plural_grain_type Consensuses = Some GConsensus"
| "plural_grain_type Consents = Some GConsent"
| "plural_grain_type Skills = Some GSkill"
| "plural_grain_type Recommendations = Some GRecommendation"
| "plural_grain_type AllGrains = None"

definition type_specific_fields :: "gplural \<Rightarrow> string list" where
  "type_specific_fields g = (case plural_grain_type g of Some t \<Rightarrow> queryable_fields (meta t) | None \<Rightarrow> [])"

definition is_known_type_specific_field :: "string \<Rightarrow> bool" where
  "is_known_type_specific_field f = list_ex (\<lambda>m. f \<in> set (queryable_fields m)) GRAIN_TYPES"

definition suggest_field :: "string \<Rightarrow> gplural \<Rightarrow> string option" where
  "suggest_field f g =
     (case find (\<lambda>k. has_infix f k \<or> has_infix k f) (type_specific_fields g) of
        Some k \<Rightarrow> Some k
      | None \<Rightarrow>
          if is_known_type_specific_field f
          then Some (sq f @ '' exists on a different grain type, not on '' @ plural_str g) else None)"

fun type_conditions :: "condition \<Rightarrow> (string \<times> comparator \<times> cval) list" where
  "type_conditions (Comparison f c v _) = (if f \<notin> set COMMON_FIELDS \<or> f = ''hash'' then [(f, c, v)] else [])"
| "type_conditions (CondAnd a b _) = type_conditions a @ type_conditions b"
| "type_conditions (CondOr a b _) = type_conditions a @ type_conditions b"
| "type_conditions (CondNot a _) = type_conditions a"
| "type_conditions _ = []"

definition ENGINE_SETS :: "string list" where
  "ENGINE_SETS = [''subject'', ''relation'', ''object'', ''tags'', ''namespace'']"

text \<open>A field, the values, and whether the set is excluded.\<close>

fun set_conditions :: "condition \<Rightarrow> (string \<times> cval list \<times> bool) list" where
  "set_conditions (CondIn f vs _) = (if f \<notin> set ENGINE_SETS then [(f, vs, False)] else [])"
| "set_conditions (CondNotIn f vs _) = (if f \<noteq> ''tags'' then [(f, vs, True)] else [])"
| "set_conditions (CondAnd a b _) = set_conditions a @ set_conditions b"
| "set_conditions (CondOr a b _) = set_conditions a @ set_conditions b"
| "set_conditions (CondNot a _) = set_conditions a"
| "set_conditions _ = []"

fun grain_matches_set_condition :: "exec_env \<Rightarrow> grain_result \<Rightarrow> string \<times> cval list \<times> bool \<Rightarrow> bool" where
  "grain_matches_set_condition E g (f, vs, negated) =
     (let any = list_ex (\<lambda>v. grain_matches_condition E g f CmpEq v) vs in if negated then \<not> any else any)"

text \<open>The test of \<^verbatim>\<open>execute_recall\<close>: every condition found anywhere in the tree.\<close>

definition post_filter :: "exec_env \<Rightarrow> condition \<Rightarrow> grain_result \<Rightarrow> bool" where
  "post_filter E c g =
     (list_all (\<lambda>(f, k, v). grain_matches_condition E g f k v) (type_conditions c)
      \<and> list_all (grain_matches_set_condition E g) (set_conditions c))"

fun collect_common_conditions :: "condition \<Rightarrow> (string \<times> comparator \<times> cval) list" where
  "collect_common_conditions (Comparison f c v _) = (if f \<in> set COMMON_FIELDS then [(f, c, v)] else [])"
| "collect_common_conditions (CondAnd a b _) = collect_common_conditions a @ collect_common_conditions b"
| "collect_common_conditions _ = []"

definition value_dedup_key :: "exec_env \<Rightarrow> json \<Rightarrow> string" where
  "value_dedup_key E v = (case v of JStr s \<Rightarrow> s | _ \<Rightarrow> xe_json E v)"

fun dedup_by :: "exec_env \<Rightarrow> string \<Rightarrow> string list \<Rightarrow> grain_result list \<Rightarrow> grain_result list" where
  "dedup_by E f seen [] = []"
| "dedup_by E f seen (g # gs) =
     (case json_field (cg_fields g) f of
        None \<Rightarrow> g # dedup_by E f seen gs
      | Some v \<Rightarrow>
          (let k = value_dedup_key E v
           in if k \<in> set seen then dedup_by E f seen gs else g # dedup_by E f (k # seen) gs))"

end
