(* ===== verification/Cal_Facade.thy ===== *)
theory Cal_Facade
  imports Cal_Grains
begin

text \<open>
  The interface between the executor of CAL and the store (\<^verbatim>\<open>facade.rs\<close>, \<^verbatim>\<open>governance.rs\<close>,
  \<^verbatim>\<open>store_types.rs\<close> of \<^verbatim>\<open>dejadb-cal\<close>), its configuration, its results, and the steps it is
  made of. A facade is a record of operations on a state \<open>'s\<close>; which store stands behind it
  is left open, as it is for the trait.
\<close>

section \<open>Parameters of a recall\<close>

record exhaustive_config =
  ec_max_rounds :: nat
  ec_candidate_multiplier :: nat
  ec_use_entity_lookup :: bool
  ec_min_score :: f64
  ec_max_grains_per_round :: nat

record session_census_config =
  sc_min_per_session :: nat
  sc_min_score :: f64
  sc_max_additional_queries :: nat

record rerank_config =
  rk_candidate_k :: nat
  rk_return_n :: "nat option"
  rk_min_score :: "f64 option"
  rk_model :: "string option"

text \<open>The filters of a recall; the fields that the executor never sets are not listed.\<close>

record recall_filters =
  pm_query :: "string option"
  pm_subject :: "string option"
  pm_relation :: "string option"
  pm_object :: "string option"
  pm_subject_in :: "string list option"
  pm_relation_in :: "string list option"
  pm_object_in :: "string list option"
  pm_namespace :: "string option"
  pm_scope_path :: "string option"
  pm_namespaces :: "string list option"
  pm_user_id :: "string option"
  pm_grain_type :: "grain_type option"
  pm_confidence_threshold :: "f64 option"
  pm_limit :: "nat option"
  pm_temporal_expr :: "string option"
  pm_tags :: "string list option"
  pm_exclude_tags :: "string list option"
  pm_importance_threshold :: "f64 option"
  pm_include_contradicted :: "bool option"
  pm_subject_contains :: "string option"
  pm_object_contains :: "string option"
  pm_entity :: "string option"

text \<open>What the \<^verbatim>\<open>WITH\<close> options set.\<close>

record recall_params = recall_filters +
  pm_exclude_superseded :: "bool option"
  pm_detect_contradictions :: "bool option"
  pm_min_score :: "f64 option"
  pm_score_breakdown :: "bool option"
  pm_diversity :: "f64 option"
  pm_rerank :: "rerank_config option"
  pm_record_provenance :: "bool option"
  pm_explanation :: "bool option"
  pm_recency_weight :: "f64 option"
  pm_conflict_resolution :: "bool option"
  pm_query_expansion :: "bool option"
  pm_min_per_namespace :: "nat option"
  pm_max_namespaces :: "nat option"
  pm_deduplicate :: "bool option"
  pm_include_sources :: "bool option"
  pm_annotate_relative_time :: "bool option"
  pm_session_affinity_boost :: "f64 option"
  pm_subject_affinity_boost :: "f64 option"
  pm_multi_hop :: "nat option"
  pm_query_decompose :: "bool option"
  pm_aggregation_intent :: "bool option"
  pm_preference_enrichment :: "bool option"
  pm_exhaustive :: "exhaustive_config option"
  pm_session_census :: "session_census_config option"

definition params_default :: recall_params where
  "params_default =
     \<lparr>pm_query = None, pm_subject = None, pm_relation = None, pm_object = None, pm_subject_in = None,
      pm_relation_in = None, pm_object_in = None, pm_namespace = None, pm_scope_path = None,
      pm_namespaces = None, pm_user_id = None, pm_grain_type = None, pm_confidence_threshold = None,
      pm_limit = None, pm_temporal_expr = None, pm_tags = None, pm_exclude_tags = None,
      pm_importance_threshold = None, pm_include_contradicted = None, pm_subject_contains = None,
      pm_object_contains = None, pm_entity = None, pm_exclude_superseded = None,
      pm_detect_contradictions = None, pm_min_score = None, pm_score_breakdown = None,
      pm_diversity = None, pm_rerank = None, pm_record_provenance = None, pm_explanation = None,
      pm_recency_weight = None, pm_conflict_resolution = None, pm_query_expansion = None,
      pm_min_per_namespace = None, pm_max_namespaces = None, pm_deduplicate = None,
      pm_include_sources = None, pm_annotate_relative_time = None, pm_session_affinity_boost = None,
      pm_subject_affinity_boost = None, pm_multi_hop = None, pm_query_decompose = None,
      pm_aggregation_intent = None, pm_preference_enrichment = None, pm_exhaustive = None,
      pm_session_census = None\<rparr>"

section \<open>What the store answers\<close>

record search_hit =
  sh_grain :: deserialized_grain
  sh_score :: f64
  sh_hash :: hash
  sh_breakdown :: "json option"
  sh_explanation :: "string option"
  sh_relative_time :: "string option"
  sh_superseded_by :: "hash option"

record version_entry =
  ve_hash :: hash
  ve_object :: string
  ve_created_at :: int
  ve_confidence :: f64
  ve_superseded_by :: "hash option"

record fork_group =
  fk_namespace :: string
  fk_subject :: string
  fk_relation :: string
  fk_heads :: "string list"

record add_options =
  ao_extract_event_date :: "bool option"
  ao_auto_relate :: "bool option"
  ao_sync :: "bool option"

record add_result =
  ar_hash :: hash
  ar_extracted_count :: nat
  ar_warnings :: "string list"

record accumulate_result =
  al_old_hash :: hash
  al_new_hash :: hash
  al_deltas :: "(string \<times> f64 \<times> f64) list"

record subject_report =
  sj_identity_names :: "string list"
  sj_grains :: "json list"

record grant_row =
  gw_principal :: string
  gw_object :: string
  gw_hash :: string

text \<open>Saved queries and templates, as far as the executor looks at them.\<close>

record query_entry =
  qe_body :: utext
  qe_params :: "query_param list"

record listed =
  li_name :: string
  li_builtin :: bool

text \<open>The record of one assembly: digests, addresses and counts, and never the statement itself.\<close>

record assembly_manifest =
  am_query_sha256 :: string
  am_included_hashes :: "string list"
  am_rendered_sha256 :: string
  am_budget :: json
  am_dropped_hashes :: "string list"
  am_sources :: json

section \<open>The facade\<close>

type_synonym ('s, 'a) fop = "'s \<Rightarrow> (deja_error + 'a) \<times> 's"

record 's facade =
  fc_recall :: "recall_params \<Rightarrow> ('s, search_hit list) fop"
  fc_exists :: "hash \<Rightarrow> ('s, bool) fop"
  fc_get :: "hash \<Rightarrow> ('s, deserialized_grain) fop"
  fc_get_history :: "string \<Rightarrow> string \<Rightarrow> string \<Rightarrow> ('s, version_entry list) fop"
  fc_default_namespace :: "'s \<Rightarrow> string option"
  fc_active_user :: "'s \<Rightarrow> string option"
  fc_open_forks :: "('s, fork_group list) fop"
  fc_add :: "string \<Rightarrow> (string \<times> json) list \<Rightarrow> add_options \<Rightarrow> ('s, add_result) fop"
  fc_supersede :: "hash \<Rightarrow> string \<Rightarrow> (string \<times> json) list \<Rightarrow> ('s, hash) fop"
  fc_accumulate :: "string \<Rightarrow> accumulate_target \<Rightarrow> (string \<times> f64) list \<Rightarrow> (string \<times> json) list \<Rightarrow> string
    \<Rightarrow> ('s, accumulate_result) fop"
  fc_remember :: "string \<Rightarrow> string option \<Rightarrow> string option \<Rightarrow> string option \<Rightarrow> ('s, hash) fop"
  fc_merge :: "string \<Rightarrow> string \<Rightarrow> string \<Rightarrow> f64 \<Rightarrow> string \<Rightarrow> ('s, hash) fop"
  fc_delete :: "hash \<Rightarrow> string option \<Rightarrow> ('s, unit) fop"
  fc_forget_user :: "string \<Rightarrow> bool \<Rightarrow> string \<Rightarrow> ('s, nat) fop"
  fc_forget_scope :: "string \<Rightarrow> ('s, nat) fop"
  fc_purge_stale :: "f64 \<Rightarrow> string option \<Rightarrow> nat \<Rightarrow> string option \<Rightarrow> string \<Rightarrow> ('s, nat) fop"
  fc_subject_report :: "string \<Rightarrow> bool \<Rightarrow> ('s, subject_report) fop"
  fc_entity_at :: "string \<Rightarrow> string \<Rightarrow> int \<Rightarrow> string \<Rightarrow> ('s, json option) fop"
  fc_run_trace :: "string \<Rightarrow> nat \<Rightarrow> ('s, json) fop"
  fc_runs_touching :: "hash \<Rightarrow> nat \<Rightarrow> ('s, string list) fop"
  fc_derived_from :: "hash \<Rightarrow> ('s, json list) fop"
  fc_related :: "string \<Rightarrow> string list \<Rightarrow> string \<Rightarrow> nat \<Rightarrow> nat \<Rightarrow> ('s, string list) fop"
  fc_novelty :: "string \<Rightarrow> string option \<Rightarrow> string option \<Rightarrow> nat \<Rightarrow> ('s, (string \<times> f64) list) fop"
  fc_grant :: "string \<Rightarrow> string list \<Rightarrow> string list \<Rightarrow> string option \<Rightarrow> ('s, hash) fop"
  fc_revoke :: "string \<Rightarrow> string list \<Rightarrow> string list \<Rightarrow> string option \<Rightarrow> ('s, nat) fop"
  fc_show_grants :: "string option \<Rightarrow> ('s, grant_row list) fop"
  fc_list_templates :: "'s \<Rightarrow> listed list"
  fc_define_template :: "string \<Rightarrow> string \<Rightarrow> string option \<Rightarrow> string option \<Rightarrow> string list \<Rightarrow> ('s, unit) fop"
  fc_drop_template :: "string \<Rightarrow> ('s, unit) fop"
  fc_list_queries :: "'s \<Rightarrow> listed list"
  fc_get_query :: "string \<Rightarrow> 's \<Rightarrow> query_entry option"
  fc_define_query :: "string \<Rightarrow> utext \<Rightarrow> string option \<Rightarrow> query_param list \<Rightarrow> ('s, unit) fop"
  fc_drop_query :: "string \<Rightarrow> ('s, unit) fop"
  fc_update_query_last_run :: "string \<Rightarrow> ('s, unit) fop"
  fc_note_assembly_budget :: "bool \<Rightarrow> 's \<Rightarrow> 's"
  fc_note_assembly_manifest :: "assembly_manifest \<Rightarrow> 's \<Rightarrow> 's"

record 's governance_host =
  gh_run_loop :: "bool \<Rightarrow> nat option \<Rightarrow> int option \<Rightarrow> ('s, json) fop"
  gh_review :: "string \<Rightarrow> bool \<Rightarrow> string \<Rightarrow> ('s, unit) fop"
  gh_apply :: "string \<Rightarrow> string \<Rightarrow> bool \<Rightarrow> ('s, bool) fop"
  gh_rollback :: "string \<Rightarrow> string \<Rightarrow> ('s, unit) fop"

section \<open>Configuration\<close>

record exec_config =
  xc_max_limit :: nat
  xc_default_limit :: nat
  xc_tier1_enabled :: bool
  xc_namespace_override :: "string option"
  xc_user_id_override :: "string option"
  xc_allow_destructive_ops :: bool
  xc_manifest_sample_rate :: f64
  xc_caller_scopes :: "string list"
  xc_max_cal_queries :: "int option"
  xc_max_cal_templates :: "int option"

definition config_default :: exec_config where
  "config_default = \<lparr>xc_max_limit = 1000, xc_default_limit = 50, xc_tier1_enabled = True,
     xc_namespace_override = None, xc_user_id_override = None, xc_allow_destructive_ops = True,
     xc_manifest_sample_rate = Finite 0, xc_caller_scopes = [], xc_max_cal_queries = None, xc_max_cal_templates = None\<rparr>"

section \<open>Payloads\<close>

record version_result =
  vr_hash :: string
  vr_object :: string
  vr_created_at :: int
  vr_confidence :: f64
  vr_superseded_by :: "string option"

datatype field_diff =
    DiffAdded string json
  | DiffRemoved string json
  | DiffChanged string json json

text \<open>The plan that \<^verbatim>\<open>EXPLAIN\<close> answers with.\<close>

record query_plan =
  pl_statement_type :: string
  pl_grain_type :: "string option"
  pl_query_routing :: string
  pl_index_usage :: "string list"
  pl_estimated_cost :: string
  pl_filters :: "string list"
  pl_pipeline :: "string list"

text \<open>What an assembly says of one of its sources; the omitted grains are kept for the renderers.\<close>

record source_meta =
  sm_label :: string
  sm_tokens_allocated :: nat
  sm_tokens_used :: nat
  sm_grain_count :: nat
  sm_omitted :: "grain_result list"

datatype (plugins only: size code) payload =
    PGrains "grain_result list" "nat option"
  | PExists bool string
  | PCount nat
  | PGranted string string string
  | PRevoked string nat
  | PGrantList "json list"
  | PLoopRan json
  | PReviewed string string
  | PRecApplied string bool
  | PRecRolledBack string
  | PRemembered string
  | PEntityAt "json option" string int
  | PRunTrace string json
  | PRunsTouching string "string list"
  | PDerivedFrom string "json list"
  | PForks "json list"
  | PMerged string string string string
  | PRelatedEntities string "string list"
  | PNoveltyMatches "json list"
  | PHistory "version_result list"
  | PDescribe json
  | PExplain query_plan
  | PBatch "(string \<times> payload) list"
  | PAssembled "grain_result list" "source_meta list" nat "nat option" "nat option"
  | PDiff string string "field_diff list"
  | PFormatted string string nat "grain_result list"
  | PMultiFormatted "(string \<times> string) list" nat "grain_result list"
  | PAdded string string "nat option" "string list"
  | PSuperseded string string
  | PAccumulated string string "(string \<times> f64 \<times> f64) list"
  | PTemplateDefined string
  | PTemplateDropped string
  | PQueryDefined string
  | PQueryDropped string
  | PStreamAssemble "statement assemble_stmt" "with_option list"
  | PForgotten string nat
  | PPurged nat
  | PSubjectReport string "string list" "json list"
  | PUnsupported string string

section \<open>Steps of execution\<close>

text \<open>A step works on the state of the store and the warnings so far; it answers or fails.\<close>

type_synonym ('s, 'a) ex = "'s \<times> string list \<Rightarrow> (cal_error + 'a) \<times> 's \<times> string list"

definition xret :: "'a \<Rightarrow> ('s, 'a) ex" where
  "xret x st = (Inr x, st)"

definition xfail :: "cal_error \<Rightarrow> ('s, 'a) ex" where
  "xfail e st = (Inl e, st)"

definition xbind :: "('s, 'a) ex \<Rightarrow> ('a \<Rightarrow> ('s, 'b) ex) \<Rightarrow> ('s, 'b) ex" where
  "xbind m f st = (case m st of (Inl e, st') \<Rightarrow> (Inl e, st') | (Inr x, st') \<Rightarrow> f x st')"

definition xwarn :: "string \<Rightarrow> ('s, unit) ex" where
  "xwarn w st = (Inr (), fst st, snd st @ [w])"

definition xget :: "('s \<Rightarrow> 'a) \<Rightarrow> ('s, 'a) ex" where
  "xget g st = (Inr (g (fst st)), st)"

definition xlift :: "cal_error + 'a \<Rightarrow> ('s, 'a) ex" where
  "xlift r st = (r, st)"

definition xput :: "('s \<Rightarrow> 's) \<Rightarrow> ('s, unit) ex" where
  "xput f st = (Inr (), f (fst st), snd st)"

text \<open>A call of the facade, with its result as a value, and one whose error is mapped.\<close>

definition xcall :: "('s, 'a) fop \<Rightarrow> ('s, deja_error + 'a) ex" where
  "xcall op st = (case op (fst st) of (r, s') \<Rightarrow> (Inr r, s', snd st))"

definition xcall_map :: "(deja_error \<Rightarrow> cal_error) \<Rightarrow> ('s, 'a) fop \<Rightarrow> ('s, 'a) ex" where
  "xcall_map h op = xbind (xcall op) (\<lambda>r. case r of Inl e \<Rightarrow> xfail (h e) | Inr x \<Rightarrow> xret x)"

fun xwarns :: "string list \<Rightarrow> ('s, unit) ex" where
  "xwarns [] = xret ()"
| "xwarns (w # ws) = xbind (xwarn w) (\<lambda>_. xwarns ws)"

definition deja_text :: "exec_env \<Rightarrow> deja_error \<Rightarrow> string" where
  "deja_text E e = error_display (xe_hex E) e"

definition map_store_err :: "exec_env \<Rightarrow> span option \<Rightarrow> deja_error \<Rightarrow> cal_error" where
  "map_store_err E sp e = (case e of
      CryptoError _ \<Rightarrow> CeRun (XeCryptoError (deja_text E e) sp)
    | Validation _ \<Rightarrow> CeRun (XeInvalidQuery (deja_text E e) sp)
    | _ \<Rightarrow> CeRun (XeBudgetExceeded (deja_text E e) sp))"

section \<open>Grains from hits\<close>

definition grain_of_hit :: "exec_env \<Rightarrow> search_hit \<Rightarrow> grain_result" where
  "grain_of_hit E h =
     (let fs = bt_fill (dg_fields (sh_grain h)) [];
          fs' = (case sh_superseded_by h of
                   None \<Rightarrow> fs
                 | Some s \<Rightarrow> (if bt_has fs ''superseded_by'' then fs
                              else bt_insert ''superseded_by'' (JStr (hash_to_hex (xe_hex E) s)) fs))
      in \<lparr>cg_hash = hash_to_hex (xe_hex E) (sh_hash h), cg_type = grain_as_str (dg_type (sh_grain h)),
          cg_score = sh_score h, cg_fields = JObj fs', cg_breakdown = sh_breakdown h,
          cg_explanation = sh_explanation h, cg_relative_time = sh_relative_time h,
          cg_deterministic = False, cg_contested = None\<rparr>)"

definition extract_grains :: "payload \<Rightarrow> grain_result list" where
  "extract_grains p = (case p of PGrains gs _ \<Rightarrow> gs | PAssembled gs _ _ _ _ \<Rightarrow> gs | _ \<Rightarrow> [])"

definition count_payload_results :: "payload \<Rightarrow> nat" where
  "count_payload_results p = (case p of
      PGrains gs _ \<Rightarrow> length gs
    | PHistory vs \<Rightarrow> length vs
    | PBatch rs \<Rightarrow> length rs
    | PAssembled gs _ _ _ _ \<Rightarrow> length gs
    | PDiff _ _ cs \<Rightarrow> length cs
    | PFormatted _ _ n _ \<Rightarrow> n
    | PMultiFormatted _ n _ \<Rightarrow> n
    | PGrantList gs \<Rightarrow> length gs
    | PEntityAt g _ _ \<Rightarrow> (case g of None \<Rightarrow> 0 | Some _ \<Rightarrow> 1)
    | PRunsTouching _ rs \<Rightarrow> length rs
    | PDerivedFrom _ gs \<Rightarrow> length gs
    | PForks fs \<Rightarrow> length fs
    | PRelatedEntities _ es \<Rightarrow> length es
    | PNoveltyMatches ms \<Rightarrow> length ms
    | PPurged n \<Rightarrow> n
    | PSubjectReport _ _ gs \<Rightarrow> length gs
    | PUnsupported _ _ \<Rightarrow> 0
    | PStreamAssemble _ _ \<Rightarrow> 0
    | _ \<Rightarrow> 1)"

end
