(* ===== verification/Cal_Exec_Read.thy ===== *)
theory Cal_Exec_Read
  imports Cal_Facade
begin

text \<open>
  The reads of the executor (\<^verbatim>\<open>executor.rs\<close> of \<^verbatim>\<open>dejadb-cal\<close>): how \<^verbatim>\<open>WHERE\<close> and \<^verbatim>\<open>WITH\<close> become
  the parameters of a recall, \<^verbatim>\<open>RECALL\<close> with its filters after the recall, \<^verbatim>\<open>EXISTS\<close>,
  \<^verbatim>\<open>HISTORY\<close> and \<^verbatim>\<open>EXPLAIN\<close>.
\<close>

section \<open>Values\<close>

fun value_to_string :: "exec_env \<Rightarrow> cval \<Rightarrow> cal_error + string" where
  "value_to_string E (CvString v) = Inr v"
| "value_to_string E (CvHash v) = Inr v"
| "value_to_string E (CvParameter n) = Inl (CeRun (XeUnboundParameter n None))"
| "value_to_string E v =
     Inl (CeRun (XeIncompatibleTypes ''string'' (xe_debug E v) None (Some ''expected a quoted string value'')))"

fun value_to_f64 :: "exec_env \<Rightarrow> cval \<Rightarrow> cal_error + f64" where
  "value_to_f64 E (CvNumber v) = Inr v"
| "value_to_f64 E v =
     Inl (CeRun (XeIncompatibleTypes ''number'' (xe_debug E v) None (Some ''expected a numeric value'')))"

definition bool_str :: "bool \<Rightarrow> string" where
  "bool_str b = (if b then ''true'' else ''false'')"

definition string_of_value :: "cval \<Rightarrow> string option" where
  "string_of_value v = (case v of CvString s \<Rightarrow> Some s | _ \<Rightarrow> None)"

text \<open>The strings an \<^verbatim>\<open>IN\<close> set stands for; a parameter stands for its \<^verbatim>\<open>LET\<close> binding.\<close>

fun in_value :: "exec_env \<Rightarrow> (string \<times> string list) list \<Rightarrow> span option \<Rightarrow> cval \<Rightarrow> cal_error + string list" where
  "in_value E lv sp (CvString v) = Inr [v]"
| "in_value E lv sp (CvHash v) = Inr [v]"
| "in_value E lv sp (CvNumber v) = Inr [ce_show (xe_cal E) v]"
| "in_value E lv sp (CvParameter n) =
     (case map_of lv n of Some bound \<Rightarrow> Inr bound | None \<Rightarrow> Inl (CeRun (XeUnboundParameter n sp)))"
| "in_value E lv sp (CvArray vs) = Inr (List.map_filter string_of_value vs)"
| "in_value E lv sp (CvBoolean b) = Inr [bool_str b]"

definition in_strings :: "exec_env \<Rightarrow> (string \<times> string list) list \<Rightarrow> span option \<Rightarrow> cval list \<Rightarrow> cal_error + string list" where
  "in_strings E lv sp vs = and_then (map_res (in_value E lv sp) vs) (\<lambda>ss. Inr (concat ss))"

section \<open>WHERE\<close>

definition set_str :: "exec_env \<Rightarrow> cval \<Rightarrow> (string \<Rightarrow> recall_params) \<Rightarrow> ('s, recall_params) ex" where
  "set_str E v upd = xbind (xlift (value_to_string E v)) (\<lambda>s. xret (upd s))"

definition set_num :: "exec_env \<Rightarrow> cval \<Rightarrow> (f64 \<Rightarrow> recall_params) \<Rightarrow> ('s, recall_params) ex" where
  "set_num E v upd = xbind (xlift (value_to_f64 E v)) (\<lambda>n. xret (upd n))"

text \<open>A condition that is not applied, with a warning.\<close>

definition ignored :: "string \<Rightarrow> recall_params \<Rightarrow> ('s, recall_params) ex" where
  "ignored w p = xbind (xwarn w) (\<lambda>_. xret p)"

definition not_recognized :: "string \<Rightarrow> string" where
  "not_recognized f =
     ''CAL-W010: WHERE field '' @ sq f @ '' is not a recognized filter field. Check field name.''"

definition or_warning :: string where
  "or_warning = ''OR conditions are partially supported in Phase 1: only the left branch is applied. Use separate queries with UNION for full OR semantics.''"

text \<open>The arms of a comparison, tried in this order.\<close>

definition where_comparison :: "exec_env \<Rightarrow> exec_config \<Rightarrow> string \<Rightarrow> comparator \<Rightarrow> cval \<Rightarrow> recall_params
    \<Rightarrow> ('s, recall_params) ex" where
  "where_comparison E C f c v p =
    (if f = ''subject'' \<and> c = CmpEq then set_str E v (\<lambda>s. p\<lparr>pm_subject := Some s\<rparr>)
     else if f = ''relation'' \<and> c = CmpEq then set_str E v (\<lambda>s. p\<lparr>pm_relation := Some s\<rparr>)
     else if f = ''object'' \<and> c = CmpEq then set_str E v (\<lambda>s. p\<lparr>pm_object := Some s\<rparr>)
     else if f = ''namespace'' \<and> c = CmpEq
     then (if xc_namespace_override C = None then set_str E v (\<lambda>s. p\<lparr>pm_namespace := Some s\<rparr>) else xret p)
     else if f = ''user_id'' \<and> c = CmpEq
     then (if xc_user_id_override C = None then set_str E v (\<lambda>s. p\<lparr>pm_user_id := Some s\<rparr>) else xret p)
     else if f = ''confidence'' \<and> (c = CmpGte \<or> c = CmpGt)
     then set_num E v (\<lambda>n. p\<lparr>pm_confidence_threshold := Some n\<rparr>)
     else if f = ''importance'' \<and> (c = CmpGte \<or> c = CmpGt)
     then set_num E v (\<lambda>n. p\<lparr>pm_importance_threshold := Some n\<rparr>)
     else if f = ''query'' \<and> c = CmpEq then set_str E v (\<lambda>s. p\<lparr>pm_query := Some s\<rparr>)
     else if f = ''time'' \<and> c = CmpEq then set_str E v (\<lambda>s. p\<lparr>pm_temporal_expr := Some s\<rparr>)
     else if f = ''contradicted'' \<and> c = CmpEq
     then xret (case v of CvBoolean b \<Rightarrow> p\<lparr>pm_include_contradicted := Some b\<rparr> | _ \<Rightarrow> p)
     else if f = ''entity'' \<and> c = CmpEq then set_str E v (\<lambda>s. p\<lparr>pm_entity := Some s\<rparr>)
     else if f = ''hash'' \<and> (c = CmpEq \<or> c = CmpNotEq) then xret p
     else if (f = ''scope_path'' \<or> f = ''scope'') \<and> c = CmpEq
     then set_str E v (\<lambda>s. p\<lparr>pm_scope_path := Some s\<rparr>)
     else if is_known_type_specific_field f then xret p
     else ignored (not_recognized f) p)"

definition where_in :: "string \<Rightarrow> string list \<Rightarrow> recall_params \<Rightarrow> recall_params" where
  "where_in f ss p =
     (if f = ''subject'' then p\<lparr>pm_subject_in := Some ss\<rparr>
      else if f = ''relation'' then p\<lparr>pm_relation_in := Some ss\<rparr>
      else if f = ''object'' then p\<lparr>pm_object_in := Some ss\<rparr>
      else if f = ''tags'' then p\<lparr>pm_tags := Some ss\<rparr>
      else if f = ''namespace''
      then (case ss of [] \<Rightarrow> p | s # _ \<Rightarrow> p\<lparr>pm_namespace := Some s\<rparr>)\<lparr>pm_namespaces := Some ss\<rparr>
      else p)"

definition where_contains :: "string \<Rightarrow> string \<Rightarrow> recall_params \<Rightarrow> recall_params" where
  "where_contains f v p =
     (if f = ''subject'' then p\<lparr>pm_subject_contains := Some v\<rparr>
      else if f = ''object'' then p\<lparr>pm_object_contains := Some v\<rparr>
      else if (f = ''content'' \<or> f = ''summary'') \<and> pm_query p = None then p\<lparr>pm_query := Some v\<rparr>
      else p)"

definition where_category :: "string \<Rightarrow> string \<Rightarrow> recall_params \<Rightarrow> ('s, recall_params) ex" where
  "where_category f c p =
    (if f = ''relation''
     then (if expand_category c = []
           then ignored (''Unknown relation category '' @ sq c @ ''; no relations expanded.'') p
           else xret (p\<lparr>pm_relation_in := Some (expand_category c)\<rparr>))
     else ignored (''CAL-W008: IS '' @ c @ '' used on field '' @ sq f
             @ '' -- IS CATEGORY is only meaningful on the '' @ sq ''relation'' @ '' field; this condition was ignored.'') p)"

fun apply_where_clause :: "exec_env \<Rightarrow> exec_config \<Rightarrow> (string \<times> string list) list \<Rightarrow> condition \<Rightarrow> recall_params
    \<Rightarrow> ('s, recall_params) ex" where
  "apply_where_clause E C lv (Comparison f c v _) p = where_comparison E C f c v p"
| "apply_where_clause E C lv (CondAnd a b _) p =
     xbind (apply_where_clause E C lv a p) (apply_where_clause E C lv b)"
| "apply_where_clause E C lv (CondIn f vs sp) p =
     xbind (xlift (in_strings E lv sp vs)) (\<lambda>ss. xret (where_in f ss p))"
| "apply_where_clause E C lv (CondNotIn f vs _) p =
     xret (if f = ''tags'' then p\<lparr>pm_exclude_tags := Some (List.map_filter string_of_value vs)\<rparr> else p)"
| "apply_where_clause E C lv (CondContains f v _) p = xret (where_contains f v p)"
| "apply_where_clause E C lv (CondOr a b _) p =
     xbind (apply_where_clause E C lv a p) (ignored or_warning)"
| "apply_where_clause E C lv (CondIsCategory f c _) p = where_category f c p"
| "apply_where_clause E C lv _ p = xret p"

section \<open>WITH\<close>

definition f64_clamp :: "f64 \<Rightarrow> f64 \<Rightarrow> f64 \<Rightarrow> f64" where
  "f64_clamp lo hi x = (if f64_less x lo then lo else if f64_less hi x then hi else x)"

definition f64_unit :: "f64 \<Rightarrow> f64" where
  "f64_unit = f64_clamp (Finite 0) (Finite 1)"

definition nat_clamp :: "nat \<Rightarrow> nat \<Rightarrow> nat \<Rightarrow> nat" where
  "nat_clamp lo hi n = max lo (min hi n)"

text \<open>A \<^verbatim>\<open>u64\<close> is first truncated to its low byte where the parameter is a \<^verbatim>\<open>u8\<close>.\<close>

definition as_u8 :: "nat \<Rightarrow> nat" where
  "as_u8 n = n mod 256"

definition exhaustive_default :: "exec_env \<Rightarrow> exhaustive_config" where
  "exhaustive_default E = \<lparr>ec_max_rounds = 3, ec_candidate_multiplier = 10, ec_use_entity_lookup = True,
     ec_min_score = ce_round (xe_cal E) (3 / 5), ec_max_grains_per_round = 20\<rparr>"

definition exhaustive_validate :: "exhaustive_config \<Rightarrow> exhaustive_config" where
  "exhaustive_validate x = x\<lparr>ec_max_rounds := nat_clamp 1 5 (ec_max_rounds x),
     ec_candidate_multiplier := nat_clamp 5 50 (ec_candidate_multiplier x),
     ec_min_score := f64_unit (ec_min_score x),
     ec_max_grains_per_round := nat_clamp 1 100 (ec_max_grains_per_round x)\<rparr>"

definition census_default :: "exec_env \<Rightarrow> session_census_config" where
  "census_default E = \<lparr>sc_min_per_session = 2, sc_min_score = ce_round (xe_cal E) (7 / 20),
     sc_max_additional_queries = 10\<rparr>"

definition census_validate :: "session_census_config \<Rightarrow> session_census_config" where
  "census_validate x = x\<lparr>sc_min_per_session := nat_clamp 1 10 (sc_min_per_session x),
     sc_min_score := f64_unit (sc_min_score x),
     sc_max_additional_queries := nat_clamp 1 50 (sc_max_additional_queries x)\<rparr>"

definition rerank_default :: rerank_config where
  "rerank_default = \<lparr>rk_candidate_k = 30, rk_return_n = None, rk_min_score = None, rk_model = None\<rparr>"

definition llm_unavailable :: "string \<Rightarrow> cal_error" where
  "llm_unavailable f = CeRun (XeLlmFeatureUnavailable f)"

fun apply_with_option :: "exec_env \<Rightarrow> with_option \<Rightarrow> recall_params \<Rightarrow> cal_error + recall_params" where
  "apply_with_option E WoSuperseded p = Inr (p\<lparr>pm_exclude_superseded := Some False\<rparr>)"
| "apply_with_option E WoScoreBreakdown p = Inr (p\<lparr>pm_score_breakdown := Some True\<rparr>)"
| "apply_with_option E WoExplanation p = Inr (p\<lparr>pm_explanation := Some True\<rparr>)"
| "apply_with_option E WoContradictionDetection p = Inr (p\<lparr>pm_detect_contradictions := Some True\<rparr>)"
| "apply_with_option E (WoDiversity l) p =
     Inr (p\<lparr>pm_diversity := Some (case l of Some x \<Rightarrow> f64_unit (xe_f32 E x) | None \<Rightarrow> Finite (1 / 2))\<rparr>)"
| "apply_with_option E WoProvenance p = Inr (p\<lparr>pm_record_provenance := Some True\<rparr>)"
| "apply_with_option E (WoDedup _) p = Inr (p\<lparr>pm_deduplicate := Some True\<rparr>)"
| "apply_with_option E (WoRerank m) p =
     Inr (p\<lparr>pm_rerank := Some (case m of Some _ \<Rightarrow> rerank_default\<lparr>rk_model := m\<rparr> | None \<Rightarrow> rerank_default)\<rparr>)"
| "apply_with_option E (WoLlmRerank _) p = Inl (llm_unavailable ''llm_rerank'')"
| "apply_with_option E WoHyde p = Inl (llm_unavailable ''hyde'')"
| "apply_with_option E WoQueryExpansion p = Inr (p\<lparr>pm_query_expansion := Some True\<rparr>)"
| "apply_with_option E WoQueryDecompose p = Inr (p\<lparr>pm_query_decompose := Some True\<rparr>)"
| "apply_with_option E WoConflictResolution p = Inr (p\<lparr>pm_conflict_resolution := Some True\<rparr>)"
| "apply_with_option E WoIncludeSources p = Inr (p\<lparr>pm_include_sources := Some True\<rparr>)"
| "apply_with_option E WoAnnotateRelativeTime p = Inr (p\<lparr>pm_annotate_relative_time := Some True\<rparr>)"
| "apply_with_option E (WoRecencyWeight w) p = Inr (p\<lparr>pm_recency_weight := Some w\<rparr>)"
| "apply_with_option E (WoMinScore s) p = Inr (p\<lparr>pm_min_score := Some s\<rparr>)"
| "apply_with_option E (WoMultiHop n) p = Inr (p\<lparr>pm_multi_hop := Some (nat_clamp 1 3 (as_u8 n))\<rparr>)"
| "apply_with_option E (WoSessionAffinity b) p = Inr (p\<lparr>pm_session_affinity_boost := Some (f64_unit b)\<rparr>)"
| "apply_with_option E (WoSubjectAffinity b) p = Inr (p\<lparr>pm_subject_affinity_boost := Some (f64_unit b)\<rparr>)"
| "apply_with_option E (WoSessionCoverage n) p = Inr (p\<lparr>pm_min_per_namespace := Some (nat_clamp 1 10 n)\<rparr>)"
| "apply_with_option E (WoMaxNamespaces n) p = Inr (p\<lparr>pm_max_namespaces := Some (nat_clamp 1 100 n)\<rparr>)"
| "apply_with_option E (WoExhaustive r) p =
     (let x = exhaustive_default E;
          x' = (case r of Some n \<Rightarrow> x\<lparr>ec_max_rounds := nat_clamp 1 5 (as_u8 n)\<rparr> | None \<Rightarrow> x)
      in Inr (p\<lparr>pm_exhaustive := Some (exhaustive_validate x')\<rparr>))"
| "apply_with_option E (WoSessionCensus m s) p =
     (let x = census_default E;
          x1 = (case m of Some n \<Rightarrow> x\<lparr>sc_min_per_session := nat_clamp 1 10 (as_u8 n)\<rparr> | None \<Rightarrow> x);
          x2 = (case s of Some q \<Rightarrow> x1\<lparr>sc_min_score := f64_unit q\<rparr> | None \<Rightarrow> x1)
      in Inr (p\<lparr>pm_session_census := Some (census_validate x2)\<rparr>))"
| "apply_with_option E WoAggregationIntent p = Inr (p\<lparr>pm_aggregation_intent := Some True\<rparr>)"
| "apply_with_option E WoPreferenceEnrichment p = Inr (p\<lparr>pm_preference_enrichment := Some True\<rparr>)"
| "apply_with_option E (WoProgressiveDisclosure _) p = Inr p"
| "apply_with_option E (WoConsistency _) p = Inr p"
| "apply_with_option E (WoLocale _) p = Inr p"
| "apply_with_option E (WoCache _) p = Inr p"

fun apply_with_options :: "exec_env \<Rightarrow> with_option list \<Rightarrow> recall_params \<Rightarrow> cal_error + recall_params" where
  "apply_with_options E [] p = Inr p"
| "apply_with_options E (w # ws) p = and_then (apply_with_option E w p) (apply_with_options E ws)"

section \<open>Fork status\<close>

text \<open>Each open tip with the other tips of its fork; a later fork overwrites an earlier one.\<close>

definition others :: "'a list \<Rightarrow> nat \<Rightarrow> 'a list" where
  "others hs i = map snd (filter (\<lambda>(j, _). j \<noteq> i) (zip [0..<length hs] hs))"

definition fork_key :: "fork_group \<Rightarrow> string \<times> string \<times> string" where
  "fork_key f = (fk_namespace f, fk_subject f, fk_relation f)"

definition in_scope :: "(string \<times> string \<times> string) list option \<Rightarrow> fork_group \<Rightarrow> bool" where
  "in_scope restrict f = (case restrict of None \<Rightarrow> True | Some ks \<Rightarrow> fork_key f \<in> set ks)"

definition fork_peers :: "(string \<times> string \<times> string) list option \<Rightarrow> fork_group list \<Rightarrow> (string \<times> string list) list" where
  "fork_peers restrict fs =
     concat (map (\<lambda>f. map (\<lambda>i. (fk_heads f ! i, others (fk_heads f) i)) [0..<length (fk_heads f)])
       (filter (in_scope restrict) fs))"

definition peers_of :: "(string \<times> string list) list \<Rightarrow> string \<Rightarrow> string list option" where
  "peers_of ps h = map_of (rev ps) h"

definition mark_contested :: "(string \<times> string list) list \<Rightarrow> grain_result \<Rightarrow> grain_result" where
  "mark_contested ps g = (case peers_of ps (cg_hash g) of None \<Rightarrow> g | Some hs \<Rightarrow> g\<lparr>cg_contested := Some hs\<rparr>)"

definition apply_fork_status ::
  "exec_env \<Rightarrow> 's facade \<Rightarrow> bool \<Rightarrow> (string \<times> string \<times> string) list option \<Rightarrow> grain_result list
    \<Rightarrow> ('s, grain_result list) ex" where
  "apply_fork_status E F only restrict gs = xbind (xcall (fc_open_forks F)) (\<lambda>r. case r of
      Inl e \<Rightarrow> xbind (xwarn (''contradiction detection unavailable ('' @ deja_text E e @ ''); fork status not applied''))
        (\<lambda>_. xret (if only then [] else gs))
    | Inr fs \<Rightarrow>
        (let ps = fork_peers restrict fs;
             kept = (if only then filter (\<lambda>g. peers_of ps (cg_hash g) \<noteq> None) gs else gs)
         in xret (map (mark_contested ps) kept)))"

definition scope_key :: "string option \<Rightarrow> grain_result \<Rightarrow> (string \<times> string \<times> string) option" where
  "scope_key ns g =
     (case (str_field g ''subject'', str_field g ''relation'') of
        (Some s, Some r) \<Rightarrow>
          Some (case str_field g ''namespace'' of Some n \<Rightarrow> n | None \<Rightarrow> (case ns of Some n \<Rightarrow> n | None \<Rightarrow> []), s, r)
      | _ \<Rightarrow> None)"

definition contradiction_scope_keys :: "grain_result list \<Rightarrow> string option \<Rightarrow> (string \<times> string \<times> string) list" where
  "contradiction_scope_keys gs ns = List.map_filter (scope_key ns) gs"

section \<open>RECALL\<close>

text \<open>
  What a renderer is told of an assembly: its name and intent, its budget, and its sources with
  the grains that were left out. An assembly concatenates the grains of its sources, so the
  counts of the sources give their boundaries back.
\<close>

record assembly_context =
  ac_name :: string
  ac_intent :: string
  ac_source_count :: nat
  ac_grain_count :: nat
  ac_budget_total :: nat
  ac_budget_used :: nat
  ac_budget_unit :: string

record render_source =
  rr_label :: string
  rr_grains :: "grain_result list"
  rr_omitted :: "grain_result list"
  rr_priority :: nat
  rr_tokens_used :: nat
  rr_truncated :: bool

record render_plan =
  rp_assembly :: "assembly_context option"
  rp_sources :: "render_source list option"

definition no_plan :: render_plan where
  "no_plan = \<lparr>rp_assembly = None, rp_sources = None\<rparr>"

fun render_sources :: "nat \<Rightarrow> grain_result list \<Rightarrow> source_meta list \<Rightarrow> render_source list" where
  "render_sources i gs [] = []"
| "render_sources i gs (m # ms) =
     \<lparr>rr_label = sm_label m, rr_grains = take (sm_grain_count m) gs, rr_omitted = sm_omitted m, rr_priority = Suc i,
      rr_tokens_used = sm_tokens_used m, rr_truncated = (sm_omitted m \<noteq> [])\<rparr>
     # render_sources (Suc i) (drop (sm_grain_count m) gs) ms"

definition assembled_plan :: "(string \<times> string) option \<Rightarrow> grain_result list \<Rightarrow> source_meta list \<Rightarrow> nat \<Rightarrow> nat option \<Rightarrow> render_plan" where
  "assembled_plan ident gs ms tot budget =
     \<lparr>rp_assembly = Some \<lparr>ac_name = (case ident of None \<Rightarrow> [] | Some (n, _) \<Rightarrow> n),
        ac_intent = (case ident of None \<Rightarrow> [] | Some (_, i) \<Rightarrow> i), ac_source_count = length ms,
        ac_grain_count = length gs, ac_budget_total = (case budget of None \<Rightarrow> 0 | Some b \<Rightarrow> b), ac_budget_used = tot,
        ac_budget_unit = ''tokens''\<rparr>,
      rp_sources = (if ms = [] then None else Some (render_sources 0 gs ms))\<rparr>"

text \<open>
  Parts of the executor that are arguments here: \<^verbatim>\<open>DESCRIBE\<close>, the renderers of \<^verbatim>\<open>FORMAT\<close>, which
  answer a text and the name of the format, the JSON text of a payload and of an \<^verbatim>\<open>ASSEMBLE\<close>
  statement, a clock in milliseconds and the counter behind the sampling of manifests.
\<close>

record 's exec_parts =
  px_describe :: "describe_stmt \<Rightarrow> ('s, payload) ex"
  px_render :: "grain_result list \<Rightarrow> render_plan \<Rightarrow> format_spec \<Rightarrow> string option \<Rightarrow> (string \<times> string) list
    \<Rightarrow> ('s, string \<times> string) ex"
  px_payload_json :: "payload \<Rightarrow> string"
  px_assemble_json :: "statement assemble_stmt \<Rightarrow> string"
  px_now :: "'s \<Rightarrow> nat"
  px_next_sample :: "'s \<Rightarrow> nat \<times> 's"

text \<open>A single \<^verbatim>\<open>FORMAT json\<close> without groups leaves the grains as they are.\<close>

fun render_all :: "'s exec_parts \<Rightarrow> grain_result list \<Rightarrow> render_plan \<Rightarrow> string option \<Rightarrow> (string \<times> string) list
    \<Rightarrow> aliased_format list \<Rightarrow> (string \<times> string) list \<Rightarrow> ('s, (string \<times> string) list) ex" where
  "render_all X gs plan grouped vars [] m = xret m"
| "render_all X gs plan grouped vars (e # es) m =
     xbind (px_render X gs plan (af_spec e) grouped vars) (\<lambda>(t, n).
       render_all X gs plan grouped vars es (bt_insert (case af_alias e of Some a \<Rightarrow> a | None \<Rightarrow> n) t m))"

definition format_grains :: "'s exec_parts \<Rightarrow> grain_result list \<Rightarrow> render_plan \<Rightarrow> format_clause \<Rightarrow> string option
    \<Rightarrow> (string \<times> string) list \<Rightarrow> ('s, payload) ex" where
  "format_grains X gs plan fmt grouped vars = (case fmt of
      FmtSingle spec \<Rightarrow>
        if spec = FsJson \<and> grouped = None then xret (PGrains gs (Some (length gs)))
        else xbind (px_render X gs plan spec grouped vars) (\<lambda>(t, n). xret (PFormatted t n (length gs) gs))
    | FmtMulti es \<Rightarrow> xbind (render_all X gs plan grouped vars es []) (\<lambda>m. xret (PMultiFormatted m (length gs) gs)))"

definition apply_format_clause :: "'s exec_parts \<Rightarrow> (string \<times> string) option \<Rightarrow> format_clause option \<Rightarrow> string option
    \<Rightarrow> (string \<times> string) list \<Rightarrow> payload \<Rightarrow> ('s, payload) ex" where
  "apply_format_clause X ident f grouped vars p = (case f of
      None \<Rightarrow> xret p
    | Some fmt \<Rightarrow> (case p of
        PGrains gs _ \<Rightarrow> format_grains X gs no_plan fmt grouped vars
      | PAssembled gs ms tot budget _ \<Rightarrow> format_grains X gs (assembled_plan ident gs ms tot budget) fmt grouped vars
      | _ \<Rightarrow> xret p))"

text \<open>A statement without the rest of a query, for the statements inside a statement.\<close>

definition surrogate :: "cal_query \<Rightarrow> statement \<Rightarrow> cal_query" where
  "surrogate q s = q\<lparr>cq_statement := s, cq_pipeline := [], cq_format := None, cq_let := [], cq_user_vars := [],
     cq_warnings := []\<rparr>"

definition expand_did :: "string \<Rightarrow> string list" where
  "expand_did v = (if starts_with v ''did:'' then [v] else [v, ''did:'' @ v])"

fun distinct_first :: "'a list \<Rightarrow> 'a list \<Rightarrow> 'a list" where
  "distinct_first seen [] = []"
| "distinct_first seen (x # xs) = (if x \<in> set seen then distinct_first seen xs else x # distinct_first (x # seen) xs)"

text \<open>Consents are searched under the plain name and under its DID.\<close>

definition expand_consents :: "recall_params \<Rightarrow> recall_params" where
  "expand_consents p =
     (let p1 = (case pm_subject p of
                  None \<Rightarrow> p
                | Some s \<Rightarrow> p\<lparr>pm_subject := None,
                    pm_subject_in := Some ((case pm_subject_in p of None \<Rightarrow> [] | Some ss \<Rightarrow> ss) @ expand_did s)\<rparr>)
      in case pm_subject_in p1 of
           None \<Rightarrow> p1
         | Some ss \<Rightarrow> p1\<lparr>pm_subject_in := Some (distinct_first [] (concat (map expand_did ss)))\<rparr>)"

definition temporal_of :: "'a recall_stmt \<Rightarrow> string option \<Rightarrow> string option" where
  "temporal_of r before =
     (case rs_between r of
        Some b \<Rightarrow> Some (''between '' @ bw_start b @ '' and '' @ bw_end b)
      | None \<Rightarrow> (case (rs_since r, rs_until r) of
          (Some s, Some u) \<Rightarrow> Some (''between '' @ si_expression s @ '' and '' @ un_expression u)
        | (Some s, None) \<Rightarrow> Some (si_expression s)
        | (None, Some u) \<Rightarrow> Some (''before '' @ un_expression u)
        | (None, None) \<Rightarrow> before))"

definition recall_limit_of :: "exec_config \<Rightarrow> 'a recall_stmt \<Rightarrow> nat" where
  "recall_limit_of C r =
     (case rs_limit r of
        Some l \<Rightarrow> min l (xc_max_limit C)
      | None \<Rightarrow> (case rs_recent r of Some n \<Rightarrow> min (rn_count n) (xc_max_limit C) | None \<Rightarrow> xc_default_limit C))"

text \<open>The free text and the grain type, then \<^verbatim>\<open>WHERE\<close>, then what the other clauses set.\<close>

definition recall_start :: "'a recall_stmt \<Rightarrow> recall_params" where
  "recall_start r = params_default\<lparr>pm_grain_type := plural_grain_type (rs_grain_type r),
     pm_query := (case rs_about r of Some a \<Rightarrow> Some (ab_text a)
                  | None \<Rightarrow> map_option lk_text (rs_like r))\<rparr>"

definition recall_rest :: "exec_config \<Rightarrow> 'a recall_stmt \<Rightarrow> recall_params \<Rightarrow> recall_params" where
  "recall_rest C r p =
     (let p1 = (if rs_grain_type r = Consents then expand_consents p else p)
      in p1\<lparr>pm_temporal_expr := temporal_of r (pm_temporal_expr p1),
            pm_limit := Some (if rs_contradictions r = None then recall_limit_of C r else xc_max_limit C)\<rparr>)"

definition scope_params :: "exec_config \<Rightarrow> string option \<Rightarrow> recall_params \<Rightarrow> recall_params" where
  "scope_params C dns p =
     (let p1 = (case xc_namespace_override C of
                  Some ns \<Rightarrow> p\<lparr>pm_namespace := Some ns\<rparr>
                | None \<Rightarrow> (if pm_namespace p = None
                           then (case dns of Some ns \<Rightarrow> p\<lparr>pm_namespace := Some ns\<rparr> | None \<Rightarrow> p) else p))
      in case xc_user_id_override C of Some u \<Rightarrow> p1\<lparr>pm_user_id := Some u\<rparr> | None \<Rightarrow> p1)"

definition where_step :: "exec_env \<Rightarrow> exec_config \<Rightarrow> (string \<times> string list) list \<Rightarrow> where_clause option \<Rightarrow> recall_params
    \<Rightarrow> ('s, recall_params) ex" where
  "where_step E C lv w p = (case w of None \<Rightarrow> xret p | Some wc \<Rightarrow> apply_where_clause E C lv (wh_condition wc) p)"

definition exhaustive_needs_about :: "span option \<Rightarrow> cal_error" where
  "exhaustive_needs_about sp = CeUnexpectedToken
     ''ABOUT clause (WITH exhaustive requires a semantic search query)'' ''no ABOUT clause'' sp
     (Some (''Add an ABOUT clause: RECALL facts ABOUT '' @ dq ''...'' @ '' WITH exhaustive''))"

definition recall_params_of :: "exec_env \<Rightarrow> exec_config \<Rightarrow> 's facade \<Rightarrow> statement recall_stmt \<Rightarrow> cal_query
    \<Rightarrow> ('s, recall_params) ex" where
  "recall_params_of E C F r q =
     xbind (where_step E C (cq_let_values q) (rs_where r) (recall_start r)) (\<lambda>p.
     xbind (xlift (apply_with_options E (cq_with q) (recall_rest C r p))) (\<lambda>p.
     if pm_exhaustive p \<noteq> None \<and> rs_about r = None then xfail (exhaustive_needs_about (rs_span r))
     else xbind (xget (fc_default_namespace F)) (\<lambda>ns. xret (scope_params C ns p))))"

text \<open>The conditions that are tested after the recall may only name fields of the grain type.\<close>

definition field_error :: "string \<Rightarrow> gplural \<Rightarrow> span option \<Rightarrow> cal_error" where
  "field_error f g sp = CeFieldNotOnGrainType f (plural_str g) sp (suggest_field f g)"

definition referenced_fields :: "condition \<Rightarrow> string list" where
  "referenced_fields c = map fst (type_conditions c) @ map fst (set_conditions c)"

definition recall_field_ok :: "gplural \<Rightarrow> string \<Rightarrow> bool" where
  "recall_field_ok g f = (g = AllGrains \<or> f \<in> set (type_specific_fields g) \<or> f \<in> set COMMON_FIELDS)"

definition post_where :: "exec_env \<Rightarrow> statement recall_stmt \<Rightarrow> grain_result list \<Rightarrow> cal_error + grain_result list" where
  "post_where E r gs =
     (case rs_where r of
        None \<Rightarrow> Inr gs
      | Some wc \<Rightarrow>
          (case find (\<lambda>f. \<not> recall_field_ok (rs_grain_type r) f) (referenced_fields (wh_condition wc)) of
             Some f \<Rightarrow> Inl (field_error f (rs_grain_type r) (rs_span r))
           | None \<Rightarrow> Inr (filter (post_filter E (wh_condition wc)) gs)))"

fun dedup_options :: "exec_env \<Rightarrow> with_option list \<Rightarrow> grain_result list \<Rightarrow> grain_result list" where
  "dedup_options E [] gs = gs"
| "dedup_options E (w # ws) gs =
     dedup_options E ws (case w of WoDedup (Some f) \<Rightarrow> dedup_by E f [] gs | _ \<Rightarrow> gs)"

definition inert_breakdown :: cal_warning where
  "inert_breakdown = CwWithOptionInert ''score_breakdown'' ''RECALL''
     ''this recall path returns fused grains, not per-leg scores, so structural hits all carry the sentinel score 1.0''"

text \<open>\<^verbatim>\<open>CONTRADICTIONS OF (...)\<close>: the keys that the inner statement selects.\<close>

definition contradiction_scope :: "(statement \<Rightarrow> cal_query \<Rightarrow> ('s, payload) ex) \<Rightarrow> cal_query \<Rightarrow> string option
    \<Rightarrow> statement contradictions_clause \<Rightarrow> ('s, (string \<times> string \<times> string) list option) ex" where
  "contradiction_scope rec q ns cl = (case cc_inner cl of
      None \<Rightarrow> xret None
    | Some inner \<Rightarrow> xbind (rec inner (q\<lparr>cq_statement := inner, cq_pipeline := [], cq_format := None\<rparr>)) (\<lambda>p. case p of
          PGrains gs _ \<Rightarrow> xret (Some (contradiction_scope_keys gs ns))
        | _ \<Rightarrow> xbind (xwarn ''CONTRADICTIONS OF (...) sub-query returned no grains; no keys to scope by'')
            (\<lambda>_. xret (Some []))))"

definition recall_contradictions :: "exec_env \<Rightarrow> exec_config \<Rightarrow> 's facade \<Rightarrow> (statement \<Rightarrow> cal_query \<Rightarrow> ('s, payload) ex)
    \<Rightarrow> statement recall_stmt \<Rightarrow> cal_query \<Rightarrow> recall_params \<Rightarrow> bool \<Rightarrow> grain_result list \<Rightarrow> ('s, grain_result list) ex" where
  "recall_contradictions E C F rec r q p bounded gs =
     (case rs_contradictions r of
        Some cl \<Rightarrow>
          xbind (contradiction_scope rec q (pm_namespace p) cl) (\<lambda>scope.
          xbind (apply_fork_status E F True scope gs) (\<lambda>gs'.
          xbind (if bounded then xwarn (warning_display (CwContradictionScanBounded (xc_max_limit C))) else xret ()) (\<lambda>_.
          xret (take (recall_limit_of C r) gs'))))
      | None \<Rightarrow>
          if pm_detect_contradictions p = Some True then apply_fork_status E F False None gs else xret gs)"

definition execute_recall :: "exec_env \<Rightarrow> exec_config \<Rightarrow> 's facade \<Rightarrow> 's exec_parts
    \<Rightarrow> (statement \<Rightarrow> cal_query \<Rightarrow> ('s, payload) ex) \<Rightarrow> statement recall_stmt \<Rightarrow> cal_query \<Rightarrow> ('s, payload) ex" where
  "execute_recall E C F X rec r q =
     xbind (recall_params_of E C F r q) (\<lambda>p.
     xbind (xcall_map (map_store_err E (rs_span r)) (fc_recall F p)) (\<lambda>hits.
     let bounded = (case pm_limit p of None \<Rightarrow> False | Some l \<Rightarrow> l \<le> length hits);
         gs = map (\<lambda>h. (grain_of_hit E h)\<lparr>cg_deterministic := (rs_about r = None)\<rparr>) hits
     in xbind (xlift (post_where E r gs)) (\<lambda>gs.
     let gs = dedup_options E (cq_with q) gs
     in xbind (if pm_score_breakdown p = Some True then xwarn (warning_display inert_breakdown) else xret ()) (\<lambda>_.
     xbind (recall_contradictions E C F rec r q p bounded gs) (\<lambda>gs.
     case cq_format q of
       Some fmt \<Rightarrow> if cq_pipeline q = [] then format_grains X gs no_plan fmt None (cq_user_vars q)
                    else xret (PGrains gs (Some (length gs)))
     | None \<Rightarrow> xret (PGrains gs (Some (length gs))))))))"

section \<open>EXISTS and HISTORY\<close>

definition parse_hash :: "exec_env \<Rightarrow> span option \<Rightarrow> string \<Rightarrow> cal_error + hash" where
  "parse_hash E sp h = (case hash_from_hex (hex_decode (xe_core E)) h of Inl _ \<Rightarrow> Inl (CeRun (XeInvalidHash h sp)) | Inr x \<Rightarrow> Inr x)"

fun extract_hash_from_condition :: "condition \<Rightarrow> string option" where
  "extract_hash_from_condition (Comparison f CmpEq (CvHash v) _) = (if f = ''hash'' then Some v else None)"
| "extract_hash_from_condition _ = None"

definition override_params :: "exec_config \<Rightarrow> recall_params \<Rightarrow> recall_params" where
  "override_params C p =
     (let p1 = (case xc_namespace_override C of Some ns \<Rightarrow> p\<lparr>pm_namespace := Some ns\<rparr> | None \<Rightarrow> p)
      in case xc_user_id_override C of Some u \<Rightarrow> p1\<lparr>pm_user_id := Some u\<rparr> | None \<Rightarrow> p1)"

definition execute_exists :: "exec_env \<Rightarrow> exec_config \<Rightarrow> 's facade \<Rightarrow> exists_stmt \<Rightarrow> (string \<times> string list) list
    \<Rightarrow> ('s, payload) ex" where
  "execute_exists E C F x lv =
     (let p = params_default\<lparr>pm_grain_type := plural_grain_type (ex_grain_type x),
                pm_query := map_option ab_text (ex_about x)\<rparr>
      in xbind (where_step E C lv (ex_where x) p) (\<lambda>p.
      case Option.bind (ex_where x) (\<lambda>w. extract_hash_from_condition (wh_condition w)) of
        Some hs \<Rightarrow>
          xbind (xlift (parse_hash E (ex_span x) hs)) (\<lambda>h.
          xbind (xcall_map (map_store_err E (ex_span x)) (fc_exists F h)) (\<lambda>found. xret (PExists found hs)))
      | None \<Rightarrow>
          xbind (xcall_map (map_store_err E (ex_span x)) (fc_recall F (override_params C (p\<lparr>pm_limit := Some 1\<rparr>)))) (\<lambda>hits.
          xret (PExists (hits \<noteq> []) (case hits of [] \<Rightarrow> [] | h # _ \<Rightarrow> hash_to_hex (xe_hex E) (sh_hash h))))))"

definition grain_str :: "deserialized_grain \<Rightarrow> string \<Rightarrow> string option" where
  "grain_str g k = Option.bind (map_of (dg_fields g) k) as_str"

definition str_or_empty :: "deserialized_grain \<Rightarrow> string \<Rightarrow> string" where
  "str_or_empty g k = (case grain_str g k of None \<Rightarrow> [] | Some s \<Rightarrow> s)"

definition version_result_of :: "exec_env \<Rightarrow> version_entry \<Rightarrow> version_result" where
  "version_result_of E v = \<lparr>vr_hash = hash_to_hex (xe_hex E) (ve_hash v), vr_object = ve_object v,
     vr_created_at = ve_created_at v, vr_confidence = ve_confidence v,
     vr_superseded_by = map_option (hash_to_hex (xe_hex E)) (ve_superseded_by v)\<rparr>"

text \<open>Keys in their order: those added, those removed, those with another value.\<close>

definition sorted_fields :: "deserialized_grain \<Rightarrow> (string \<times> json) list" where
  "sorted_fields g = bt_fill (dg_fields g) []"

definition diff_grains :: "deserialized_grain \<Rightarrow> deserialized_grain \<Rightarrow> field_diff list" where
  "diff_grains a b =
     (let fa = sorted_fields a; fb = sorted_fields b
      in map (\<lambda>(k, v). DiffAdded k v) (filter (\<lambda>(k, _). map_of fa k = None) fb)
         @ map (\<lambda>(k, v). DiffRemoved k v) (filter (\<lambda>(k, _). map_of fb k = None) fa)
         @ concat (map (\<lambda>(k, v). case map_of fb k of
               None \<Rightarrow> [] | Some w \<Rightarrow> if v = w then [] else [DiffChanged k v w]) fa))"

definition diff_store_err :: "exec_env \<Rightarrow> string \<Rightarrow> string \<Rightarrow> span option \<Rightarrow> deja_error \<Rightarrow> cal_error" where
  "diff_store_err E side h sp e = CeRun (case e of
      NotFound _ \<Rightarrow> XeHashNotFound h sp
    | CryptoError _ \<Rightarrow> XeCryptoError (''DIFF '' @ side @ '' grain decrypt failed: '' @ deja_text E e) sp
    | _ \<Rightarrow> XeBudgetExceeded (''DIFF '' @ side @ '' grain error: '' @ deja_text E e) sp)"

definition history_diff :: "exec_env \<Rightarrow> 's facade \<Rightarrow> history_stmt \<Rightarrow> string \<Rightarrow> ('s, payload) ex" where
  "history_diff E F y target =
     xbind (xlift (parse_hash E (hy_span y) (hy_hash y))) (\<lambda>ha.
     xbind (xlift (parse_hash E (hy_span y) target)) (\<lambda>hb.
     xbind (xcall_map (diff_store_err E ''source'' (hy_hash y) (hy_span y)) (fc_get F ha)) (\<lambda>a.
     xbind (xcall_map (diff_store_err E ''target'' target (hy_span y)) (fc_get F hb)) (\<lambda>b.
     xbind (if str_or_empty a ''subject'' \<noteq> str_or_empty b ''subject'' \<or> str_or_empty a ''relation'' \<noteq> str_or_empty b ''relation''
            then xwarn ''CAL-W005: DIFF targets have different subject/relation -- diff may not be meaningful''
            else xret ()) (\<lambda>_.
     xret (PDiff (hy_hash y) target (diff_grains a b)))))))"

definition add_version :: "version_result list \<Rightarrow> version_result \<Rightarrow> version_result list" where
  "add_version vs v = (if vr_hash v \<in> set (map vr_hash vs) then vs else vs @ [v])"

text \<open>The chains of all hits; a chain that cannot be read is left out.\<close>

fun collect_versions :: "exec_env \<Rightarrow> 's facade \<Rightarrow> search_hit list \<Rightarrow> version_result list \<Rightarrow> ('s, version_result list) ex" where
  "collect_versions E F [] vs = xret vs"
| "collect_versions E F (h # hs) vs =
     (let g = sh_grain h
      in xbind (xcall (fc_get_history F (str_or_empty g ''namespace'') (str_or_empty g ''subject'') (str_or_empty g ''relation''))) (\<lambda>r.
      collect_versions E F hs (case r of Inl _ \<Rightarrow> vs | Inr es \<Rightarrow> fold (\<lambda>v acc. add_version acc (version_result_of E v)) es vs)))"

definition history_where :: "exec_env \<Rightarrow> exec_config \<Rightarrow> 's facade \<Rightarrow> history_stmt \<Rightarrow> where_clause
    \<Rightarrow> (string \<times> string list) list \<Rightarrow> ('s, payload) ex" where
  "history_where E C F y w lv =
     xbind (where_step E C lv (Some w) params_default) (\<lambda>p.
     xbind (xcall_map (map_store_err E (hy_span y)) (fc_recall F ((override_params C p)\<lparr>pm_limit := Some 10\<rparr>))) (\<lambda>hits.
     xbind (collect_versions E F hits []) (\<lambda>vs. xret (PHistory vs))))"

definition execute_history :: "exec_env \<Rightarrow> exec_config \<Rightarrow> 's facade \<Rightarrow> history_stmt \<Rightarrow> (string \<times> string list) list
    \<Rightarrow> ('s, payload) ex" where
  "execute_history E C F y lv =
     (case hy_diff y of
        Some target \<Rightarrow> history_diff E F y target
      | None \<Rightarrow>
          if hy_hash y = []
          then (case hy_where y of
                  Some w \<Rightarrow> history_where E C F y w lv
                | None \<Rightarrow> xfail (CeRun (XeInvalidHash [] (hy_span y))))
          else xbind (xlift (parse_hash E (hy_span y) (hy_hash y))) (\<lambda>h.
               xbind (xcall (fc_get F h)) (\<lambda>r. case r of
                 Inl (NotFound _) \<Rightarrow> xret (PUnsupported ''history'' (''grain not found: '' @ hy_hash y))
               | Inl e \<Rightarrow> xfail (map_store_err E (hy_span y) e)
               | Inr g \<Rightarrow>
                   xbind (xcall_map (map_store_err E (hy_span y)) (fc_get_history F (str_or_empty g ''namespace'')
                       (str_or_empty g ''subject'') (str_or_empty g ''relation''))) (\<lambda>es.
                   xret (PHistory (map (version_result_of E) es))))))"

section \<open>EXPLAIN\<close>

text \<open>Names of the fields of a condition, each once; never a value.\<close>

fun condition_fields :: "condition \<Rightarrow> string list" where
  "condition_fields (Comparison f _ _ _) = [f]"
| "condition_fields (CondIn f _ _) = [f]"
| "condition_fields (CondNotIn f _ _) = [f]"
| "condition_fields (CondIsNull f _) = [f]"
| "condition_fields (CondIsNotNull f _) = [f]"
| "condition_fields (CondContains f _ _) = [f]"
| "condition_fields (CondStartsWith f _ _) = [f]"
| "condition_fields (CondIsCategory f _ _) = [f]"
| "condition_fields (CondAnd a b _) = condition_fields a @ condition_fields b"
| "condition_fields (CondOr a b _) = condition_fields a @ condition_fields b"
| "condition_fields (CondNot a _) = condition_fields a"

definition collect_filter_names :: "condition \<Rightarrow> string list" where
  "collect_filter_names c = distinct_first [] (condition_fields c)"

definition where_names :: "where_clause option \<Rightarrow> string list" where
  "where_names w = (case w of None \<Rightarrow> [] | Some wc \<Rightarrow> collect_filter_names (wh_condition wc))"

fun statement_type_name :: "statement \<Rightarrow> string" where
  "statement_type_name (SRecall _) = ''recall''"
| "statement_type_name (SSetOp _ _ _) = ''set_op''"
| "statement_type_name (SExists _) = ''exists''"
| "statement_type_name (SAssemble _) = ''assemble''"
| "statement_type_name (SHistory _) = ''history''"
| "statement_type_name (SExplain _ _) = ''explain''"
| "statement_type_name (SDescribe _) = ''describe''"
| "statement_type_name (SBatch _) = ''batch''"
| "statement_type_name (SCoalesce _) = ''coalesce''"
| "statement_type_name (SAdd _) = ''add''"
| "statement_type_name (SAddWorkflow _) = ''add_workflow''"
| "statement_type_name (SSupersede _) = ''supersede''"
| "statement_type_name (SSupersedeWorkflow _) = ''supersede_workflow''"
| "statement_type_name (SAccumulate _) = ''accumulate''"
| "statement_type_name (SRevert _) = ''revert''"
| "statement_type_name (SForget _) = ''forget''"
| "statement_type_name (SPurge _) = ''purge''"
| "statement_type_name (SReportSubject _) = ''report_subject''"
| "statement_type_name (SDefineTemplate _) = ''define_template''"
| "statement_type_name (SDropTemplate _) = ''drop_template''"
| "statement_type_name (SDefineQuery _) = ''define_query''"
| "statement_type_name (SDropQuery _) = ''drop_query''"
| "statement_type_name (SRunQuery _) = ''run_query''"
| "statement_type_name (SGrant _) = ''grant''"
| "statement_type_name (SRevoke _) = ''revoke''"
| "statement_type_name (SShowGrants _) = ''show_grants''"
| "statement_type_name (SApprove _) = ''approve''"
| "statement_type_name (SReject _) = ''reject''"
| "statement_type_name (SApplyRec _) = ''apply''"
| "statement_type_name (SRollbackRec _) = ''rollback''"
| "statement_type_name (SRunLoop _) = ''run_loop''"
| "statement_type_name (SRemember _) = ''remember''"
| "statement_type_name (SEntityAt _) = ''entity_at''"
| "statement_type_name (SRunTrace _) = ''run_trace''"
| "statement_type_name (SRunsTouching _) = ''runs_touching''"
| "statement_type_name (SDerivedFrom _) = ''derived_from''"
| "statement_type_name (SShowForks _) = ''show_forks''"
| "statement_type_name (SMerge _) = ''merge''"
| "statement_type_name (SRelated _) = ''related''"
| "statement_type_name (SNovelty _) = ''novelty''"

fun pipeline_stage_name :: "pipeline_stage \<Rightarrow> string" where
  "pipeline_stage_name (StSelect _ _) = ''SELECT''"
| "pipeline_stage_name (StOrderBy f d _) = ''ORDER BY '' @ f @ (if d then '' DESC'' else '' ASC'')"
| "pipeline_stage_name (StLimit n _) = ''LIMIT '' @ nat_str n"
| "pipeline_stage_name (StOffset n _) = ''OFFSET '' @ nat_str n"
| "pipeline_stage_name (StCount _) = ''COUNT''"
| "pipeline_stage_name (StFirst _) = ''FIRST''"
| "pipeline_stage_name (StSubjects _) = ''SUBJECTS''"
| "pipeline_stage_name (StObjects _) = ''OBJECTS''"
| "pipeline_stage_name (StHashes _) = ''HASHES''"
| "pipeline_stage_name (StGroupBy f _) = ''GROUP BY '' @ f"
| "pipeline_stage_name (StProject _ _) = ''PROJECT''"
| "pipeline_stage_name (StFilter _ _) = ''WHERE (post-pipeline)''"

text \<open>The grain type, the routing, the indexes and the filters of a statement.\<close>

type_synonym plan_parts = "string option \<times> string \<times> string list \<times> string list"

definition plural_type_str :: "gplural \<Rightarrow> string option" where
  "plural_type_str g = map_option grain_as_str (plural_grain_type g)"

definition explain_recall :: "'a recall_stmt \<Rightarrow> plan_parts" where
  "explain_recall r =
     (let free = (rs_about r \<noteq> None \<or> rs_like r \<noteq> None);
          names = where_names (rs_where r);
          structural = list_ex (\<lambda>f. f = ''subject'' \<or> f = ''relation'' \<or> f = ''object'') names;
          temporal = (rs_since r \<noteq> None \<or> rs_until r \<noteq> None \<or> rs_between r \<noteq> None)
      in (plural_type_str (rs_grain_type r),
          if free \<and> \<not> structural then ''bm25'' else if free then ''hybrid_rrf'' else ''structural'',
          (if free then [''bm25_fts''] else []) @ (if structural then [''hexastore''] else []),
          names @ (if temporal then [''temporal''] else [])))"

definition explain_history :: "history_stmt \<Rightarrow> plan_parts" where
  "explain_history y =
     (None, if hy_diff y \<noteq> None then ''diff_comparison'' else ''entity_latest'',
      [''entity_latest'', ''supersession_chain''],
      [''hash''] @ (if hy_diff y \<noteq> None then [''diff_target''] else [])
        @ (if hy_where y \<noteq> None then [''where_clause''] else []))"

definition explain_assemble :: "'a assemble_stmt \<Rightarrow> plan_parts" where
  "explain_assemble a =
     (let n = (case as_sources a of None \<Rightarrow> 1 | Some ss \<Rightarrow> length ss)
      in (None, ''multi_source_assemble('' @ nat_str n @ ''_sources)'', [''bm25_fts'', ''hexastore''],
          [''sources: '' @ nat_str n] @ (if as_budget a \<noteq> None then [''budget_allocation''] else [])
            @ map (\<lambda>_. ''dedup'') (as_assemble_with a)))"

definition explain_coalesce :: "'a coalesce_stmt \<Rightarrow> plan_parts" where
  "explain_coalesce c =
     (let n = (if cs_branches c = [] then 1 else length (cs_branches c))
      in (plural_type_str (cs_grain_type c), ''coalesce_fallback'', [''bm25_fts'', ''hexastore''],
          [''fallback_chain: '' @ nat_str n @ '' branches'']
            @ (case cs_else c of Some _ \<Rightarrow> [''else_fallback''] | None \<Rightarrow> [])))"

definition explain_batch :: "'a batch_stmt \<Rightarrow> plan_parts" where
  "explain_batch b =
     (None, ''parallel_batch'', [],
      [''parallel_execution: '' @ nat_str (length (bs_statements b)) @ '' statements'']
        @ (case bs_labeled b of Some _ \<Rightarrow> [''labeled_results''] | None \<Rightarrow> [])
        @ (if list_ex (\<lambda>e. be_format e \<noteq> None) (bs_statements b) then [''per_entry_format''] else [])
        @ (if list_ex (\<lambda>e. be_pipeline e \<noteq> []) (bs_statements b) then [''per_entry_pipeline''] else []))"

definition explain_purge :: "exec_env \<Rightarrow> purge_stmt \<Rightarrow> plan_parts" where
  "explain_purge E p =
     (None, ''destructive_purge_stale'', [''blobs_partition'', ''decay_engine''],
      (case pg_min_age_days p of Some a \<Rightarrow> [''min_age_days: '' @ ce_show (xe_cal E) a] | None \<Rightarrow> [])
        @ (case pg_namespace p of Some n \<Rightarrow> [''namespace: '' @ n] | None \<Rightarrow> [])
        @ (case pg_limit p of Some l \<Rightarrow> [''batch_limit: '' @ nat_str l] | None \<Rightarrow> []))"

definition explain_forget :: "forget_stmt \<Rightarrow> plan_parts" where
  "explain_forget f =
     (None, ''destructive_forget'',
      case fg_target f of FgHash _ \<Rightarrow> [''blobs_partition''] | _ \<Rightarrow> [''blobs_partition'', ''key_store''],
      [case fg_target f of FgHash h \<Rightarrow> ''hash: '' @ h | FgUser u \<Rightarrow> ''user: '' @ u | FgScope s \<Rightarrow> ''scope: '' @ s])"

definition explain_registry :: "string \<Rightarrow> string \<Rightarrow> plan_parts" where
  "explain_registry routing name = (None, routing, [''meta_partition''], [name])"

definition explain_parts :: "exec_env \<Rightarrow> statement \<Rightarrow> plan_parts" where
  "explain_parts E s = (case s of
      SRecall r \<Rightarrow> explain_recall r
    | SExists x \<Rightarrow> (plural_type_str (ex_grain_type x), ''structural'', [''hexastore''], where_names (ex_where x))
    | SHistory y \<Rightarrow> explain_history y
    | SAssemble a \<Rightarrow> explain_assemble a
    | SCoalesce c \<Rightarrow> explain_coalesce c
    | SBatch b \<Rightarrow> explain_batch b
    | SDescribe _ \<Rightarrow> (None, ''introspection'', [], [])
    | SReportSubject r \<Rightarrow> (None, ''subject_report'', [''terms_dictionary'', ''fts_postings''],
        [''subject: '' @ rj_subject_id r] @ (if rj_text_mentions r then [''text_mentions''] else []))
    | SPurge p \<Rightarrow> explain_purge E p
    | SForget f \<Rightarrow> explain_forget f
    | SDefineTemplate d \<Rightarrow> explain_registry ''template_registry_write'' (''template_name: '' @ dt_name d)
    | SDropTemplate d \<Rightarrow> explain_registry ''template_registry_delete'' (''template_name: '' @ dp_name d)
    | SDefineQuery d \<Rightarrow> explain_registry ''query_registry_write'' (''query_name: '' @ dq_name d)
    | SDropQuery d \<Rightarrow> explain_registry ''query_registry_delete'' (''query_name: '' @ dp_name d)
    | SRunQuery r \<Rightarrow> explain_registry ''saved_query_execute'' (''query_name: '' @ rq_name r)
    | _ \<Rightarrow> (None, ''unknown'', [], []))"

definition policy_filters :: "exec_config \<Rightarrow> string option \<Rightarrow> string option \<Rightarrow> string list" where
  "policy_filters C ns user =
     (if xc_namespace_override C \<noteq> None then [''namespace_override (capability token)'']
      else if ns \<noteq> None then [''namespace_scope (session)''] else [])
     @ (if xc_user_id_override C \<noteq> None then [''user_id_override (capability token)'']
        else if user \<noteq> None then [''user_id_scope (session)''] else [])
     @ (if xc_tier1_enabled C then [] else [''tier1_disabled (read-only mode)''])"

definition ns_context :: "exec_config \<Rightarrow> string option \<Rightarrow> string" where
  "ns_context C ns =
     (if xc_namespace_override C \<noteq> None then ''(namespace: from capability token)''
      else if ns \<noteq> None then ''(namespace: from session)'' else ''(namespace: not set)'')"

definition plan_cost :: "string list \<Rightarrow> string" where
  "plan_cost ix = (if ix = [] then ''O(n) full scan'' else if length ix = 1 then ''O(log n) index lookup''
     else ''O(log n) hybrid with RRF fusion'')"

definition execute_explain :: "exec_env \<Rightarrow> exec_config \<Rightarrow> 's facade \<Rightarrow> statement \<Rightarrow> cal_query \<Rightarrow> ('s, payload) ex" where
  "execute_explain E C F inner q =
     xbind (xget (fc_default_namespace F)) (\<lambda>ns. xbind (xget (fc_active_user F)) (\<lambda>user.
     case explain_parts E inner of (gt, routing, ix, filters) \<Rightarrow>
       xret (PExplain
         \<lparr>pl_statement_type = statement_type_name inner, pl_grain_type = gt, pl_query_routing = routing,
          pl_index_usage = ix, pl_estimated_cost = plan_cost ix @ '' '' @ ns_context C ns,
          pl_filters = filters @ policy_filters C ns user,
          pl_pipeline = (''execute_'' @ statement_type_name inner) # map pipeline_stage_name (cq_pipeline q)\<rparr>)))"

end
