(* ===== verification/Cal_Pipeline.thy ===== *)
theory Cal_Pipeline
  imports Cal_Facade
begin

text \<open>
  The pipeline after a statement (\<^verbatim>\<open>executor.rs\<close> of \<^verbatim>\<open>dejadb-cal\<close>): the check of the fields its
  stages name, and the stages on the grains of a result.
\<close>

section \<open>Fields of stages\<close>

definition check_stage_field :: "gplural \<Rightarrow> span option \<Rightarrow> string \<Rightarrow> cal_error + unit" where
  "check_stage_field g sp f =
     (if f \<in> set COMMON_FIELDS \<or> CHR '':'' \<in> set f \<or> f \<in> set (type_specific_fields g) then Inr ()
      else Inl (CeFieldNotOnGrainType f (plural_str g) sp (suggest_field f g)))"

fun stage_fields :: "pipeline_stage \<Rightarrow> string list \<times> span option" where
  "stage_fields (StSelect fs sp) = (fs, sp)"
| "stage_fields (StOrderBy f _ sp) = ([f], sp)"
| "stage_fields (StGroupBy f sp) = ([f], sp)"
| "stage_fields (StProject ps sp) = (map pf_field ps, sp)"
| "stage_fields _ = ([], None)"

definition validate_stage :: "gplural \<Rightarrow> pipeline_stage \<Rightarrow> cal_error + unit" where
  "validate_stage g s = (case stage_fields s of (fs, sp) \<Rightarrow>
     and_then (map_res (check_stage_field g sp) fs) (\<lambda>_. Inr ()))"

definition validate_pipeline_fields :: "pipeline_stage list \<Rightarrow> gplural \<Rightarrow> cal_error + unit" where
  "validate_pipeline_fields ss g = and_then (map_res (validate_stage g) ss) (\<lambda>_. Inr ())"

section \<open>Stages\<close>

text \<open>A value on its own, as the extractors give it.\<close>

definition extracted :: "json \<Rightarrow> grain_result" where
  "extracted v = \<lparr>cg_hash = [], cg_type = ''extracted'', cg_score = Finite 0, cg_fields = JObj [(''value'', v)],
     cg_breakdown = None, cg_explanation = None, cg_relative_time = None, cg_deterministic = True, cg_contested = None\<rparr>"

definition extract_field :: "string \<Rightarrow> grain_result list \<Rightarrow> grain_result list" where
  "extract_field f gs = List.map_filter (\<lambda>g. map_option extracted (json_field (cg_fields g) f)) gs"

text \<open>The grains after a stage, or their number.\<close>

fun stage_grains :: "exec_env \<Rightarrow> exec_config \<Rightarrow> pipeline_stage \<Rightarrow> grain_result list \<Rightarrow> grain_result list" where
  "stage_grains E C (StLimit n _) gs = take (min n (xc_max_limit C)) gs"
| "stage_grains E C (StOffset n _) gs = drop n gs"
| "stage_grains E C (StFirst _) gs = take 1 gs"
| "stage_grains E C (StOrderBy f desc _) gs = sort_by (order_cmp E f desc) gs"
| "stage_grains E C (StSelect fs _) gs = map (\<lambda>g. g\<lparr>cg_fields := project_fields (cg_fields g) fs\<rparr>) gs"
| "stage_grains E C (StProject ps _) gs = map (\<lambda>g. g\<lparr>cg_fields := JObj (project_alias [] (cg_fields g) ps)\<rparr>) gs"
| "stage_grains E C (StSubjects _) gs = extract_field ''subject'' gs"
| "stage_grains E C (StObjects _) gs = extract_field ''object'' gs"
| "stage_grains E C (StHashes _) gs = map (\<lambda>g. extracted (JStr (cg_hash g))) gs"
| "stage_grains E C (StGroupBy f _) gs = group_grains_by_field E gs f"
| "stage_grains E C (StFilter c _) gs = filter (\<lambda>g. grain_matches_condition_tree E g c) gs"
| "stage_grains E C (StCount _) gs = gs"

text \<open>
  The number of available grains is that of the stage, but \<^verbatim>\<open>FIRST\<close> always says one and
  \<^verbatim>\<open>GROUP BY\<close> keeps what was there. A payload without grains passes every stage unchanged.
\<close>

definition stage_total :: "pipeline_stage \<Rightarrow> nat option \<Rightarrow> grain_result list \<Rightarrow> nat option" where
  "stage_total s tot gs' = (case s of StFirst _ \<Rightarrow> Some 1 | StGroupBy _ _ \<Rightarrow> tot | _ \<Rightarrow> Some (length gs'))"

definition apply_stage :: "exec_env \<Rightarrow> exec_config \<Rightarrow> payload \<times> string option \<Rightarrow> pipeline_stage \<Rightarrow> payload \<times> string option" where
  "apply_stage E C st s = (case st of (p, grouped) \<Rightarrow> (case p of
      PGrains gs tot \<Rightarrow>
        (case s of
           StCount _ \<Rightarrow> (PCount (length gs), grouped)
         | _ \<Rightarrow> (let gs' = stage_grains E C s gs
                 in (PGrains gs' (stage_total s tot gs'), case s of StGroupBy f _ \<Rightarrow> Some f | _ \<Rightarrow> grouped)))
    | _ \<Rightarrow> (p, grouped)))"

definition apply_pipeline :: "exec_env \<Rightarrow> exec_config \<Rightarrow> payload \<Rightarrow> pipeline_stage list \<Rightarrow> payload \<times> string option" where
  "apply_pipeline E C p ss = fold (\<lambda>s st. apply_stage E C st s) ss (p, None)"

end
