(* ===== verification/Cal_Assemble.thy ===== *)
theory Cal_Assemble
  imports Cal_Exec_Read
begin

text \<open>
  \<^verbatim>\<open>ASSEMBLE\<close> (\<^verbatim>\<open>assemble.rs\<close> and \<^verbatim>\<open>executor.rs\<close> of \<^verbatim>\<open>dejadb-cal\<close>): the shares of the token budget,
  the removal of duplicates across sources, the cap on grains, the trimming of each source to
  its share, the options that apply to the merged grains, and the record of an assembly.
\<close>

section \<open>Arithmetic of doubles\<close>

text \<open>The exact result is rounded by \<open>rnd\<close>. There is one zero, so a quotient by it has the sign of the dividend.\<close>

definition f64_sign :: "f64 \<Rightarrow> int" where
  "f64_sign x = (case x of Finite a \<Rightarrow> (if 0 < a then 1 else if a < 0 then -1 else 0) | PosInf \<Rightarrow> 1 | NegInf \<Rightarrow> -1 | NaN \<Rightarrow> 0)"

definition f64_inf :: "int \<Rightarrow> f64" where
  "f64_inf s = (if 0 < s then PosInf else if s < 0 then NegInf else NaN)"

definition f64_plus :: "(rat \<Rightarrow> f64) \<Rightarrow> f64 \<Rightarrow> f64 \<Rightarrow> f64" where
  "f64_plus rnd x y = (case (x, y) of
      (Finite a, Finite b) \<Rightarrow> rnd (a + b)
    | (Finite _, _) \<Rightarrow> y
    | (_, Finite _) \<Rightarrow> x
    | _ \<Rightarrow> if x = y then x else NaN)"

definition f64_mul :: "(rat \<Rightarrow> f64) \<Rightarrow> f64 \<Rightarrow> f64 \<Rightarrow> f64" where
  "f64_mul rnd x y = (case (x, y) of
      (Finite a, Finite b) \<Rightarrow> rnd (a * b)
    | _ \<Rightarrow> f64_inf (f64_sign x * f64_sign y))"

definition f64_div :: "(rat \<Rightarrow> f64) \<Rightarrow> f64 \<Rightarrow> f64 \<Rightarrow> f64" where
  "f64_div rnd x y = (case (x, y) of
      (Finite a, Finite b) \<Rightarrow> if b = 0 then f64_inf (f64_sign x) else rnd (a / b)
    | (Finite _, NaN) \<Rightarrow> NaN
    | (Finite _, _) \<Rightarrow> Finite 0
    | (_, Finite b) \<Rightarrow> f64_inf (f64_sign x * (if b < 0 then -1 else 1))
    | _ \<Rightarrow> NaN)"

definition f64_sum :: "(rat \<Rightarrow> f64) \<Rightarrow> f64 list \<Rightarrow> f64" where
  "f64_sum rnd xs = foldl (f64_plus rnd) (Finite 0) xs"

text \<open>\<^verbatim>\<open>round\<close> takes halves away from zero; a cast to an unsigned integer truncates and saturates.\<close>

definition f64_round :: "f64 \<Rightarrow> f64" where
  "f64_round x = (case x of
      Finite a \<Rightarrow> Finite (of_int (if a < 0 then - \<lfloor>- a + 1 / 2\<rfloor> else \<lfloor>a + 1 / 2\<rfloor>)) | _ \<Rightarrow> x)"

definition f64_ceil :: "f64 \<Rightarrow> f64" where
  "f64_ceil x = (case x of Finite a \<Rightarrow> Finite (of_int \<lceil>a\<rceil>) | _ \<Rightarrow> x)"

definition f64_as_unsigned :: "nat \<Rightarrow> f64 \<Rightarrow> nat" where
  "f64_as_unsigned bits x = (case x of
      Finite a \<Rightarrow> min (nat \<lfloor>a\<rfloor>) (2 ^ bits - 1) | PosInf \<Rightarrow> 2 ^ bits - 1 | _ \<Rightarrow> 0)"

text \<open>Sums of tokens are \<^verbatim>\<open>u32\<close>; without overflow checks they wrap.\<close>

definition u32_add :: "nat \<Rightarrow> nat \<Rightarrow> nat" where
  "u32_add a b = (a + b) mod 2 ^ 32"

section \<open>Shares of the budget\<close>

definition ASSEMBLE_TIMEOUT_MS :: nat where "ASSEMBLE_TIMEOUT_MS = 10000"
definition MAX_PER_SOURCE_MS :: nat where "MAX_PER_SOURCE_MS = 5000"
definition MAX_GRAINS_POST_DEDUP :: nat where "MAX_GRAINS_POST_DEDUP = 2000"
definition DEFAULT_BUDGET_TOKENS :: nat where "DEFAULT_BUDGET_TOKENS = 4000"

abbreviation xe_round :: "exec_env \<Rightarrow> rat \<Rightarrow> f64" where
  "xe_round E \<equiv> ce_round (xe_cal E)"

definition normalized :: "exec_env \<Rightarrow> f64 list \<Rightarrow> f64 list" where
  "normalized E ws = map (\<lambda>w. f64_div (xe_round E) w (f64_sum (xe_round E) ws)) ws"

definition default_weights :: "exec_env \<Rightarrow> nat \<Rightarrow> f64 list" where
  "default_weights E n =
     (if n = 0 then []
      else if n = 1 then [Finite 1]
      else if n = 2 then map (xe_round E) [65 / 100, 35 / 100]
      else if n = 3 then map (xe_round E) [50 / 100, 30 / 100, 20 / 100]
      else if n = 4 then map (xe_round E) [40 / 100, 28 / 100, 20 / 100, 12 / 100]
      else normalized E (map (xe_powi E (xe_round E (6 / 10))) [0..<n]))"

definition label_weight :: "priority_spec list \<Rightarrow> string \<Rightarrow> f64" where
  "label_weight specs l = (case find (\<lambda>s. pr_label s = l) specs of None \<Rightarrow> Finite 0 | Some s \<Rightarrow> pr_weight s)"

definition source_weights :: "exec_env \<Rightarrow> string list \<Rightarrow> priority_spec list option \<Rightarrow> f64 list" where
  "source_weights E labels prio = (case prio of
      None \<Rightarrow> default_weights E (length labels)
    | Some specs \<Rightarrow>
        (let ws = map (label_weight specs) labels
         in if f64_less (Finite 0) (f64_sum (xe_round E) ws) then normalized E ws else default_weights E (length labels)))"

text \<open>Later sources overwrite the share of an earlier one with the same label.\<close>

definition share :: "exec_env \<Rightarrow> nat \<Rightarrow> f64 \<Rightarrow> nat" where
  "share E tot w = f64_as_unsigned 32 (f64_round (f64_mul (xe_round E) w (Finite (of_nat tot))))"

definition allocate_budget :: "exec_env \<Rightarrow> string list \<Rightarrow> nat \<Rightarrow> priority_spec list option \<Rightarrow> (string \<times> nat) list" where
  "allocate_budget E labels tot prio =
     fold (\<lambda>(l, w) m. bt_insert l (share E tot w) m) (zip labels (source_weights E labels prio)) []"

section \<open>Trimming\<close>

definition estimate_grain_tokens :: "exec_env \<Rightarrow> grain_result \<Rightarrow> nat" where
  "estimate_grain_tokens E g = max (length (utf8 (xe_json E (cg_fields g))) div 4) 1 mod 2 ^ 32"

text \<open>The first grain is always kept.\<close>

fun budget_prefix :: "exec_env \<Rightarrow> nat \<Rightarrow> nat \<Rightarrow> nat \<Rightarrow> grain_result list \<Rightarrow> nat \<times> nat" where
  "budget_prefix E budget kept used [] = (kept, used)"
| "budget_prefix E budget kept used (g # gs) =
     (let used' = u32_add used (estimate_grain_tokens E g)
      in if budget < used' \<and> 0 < kept then (kept, used) else budget_prefix E budget (Suc kept) used' gs)"

text \<open>Sources with their labels; \<open>n\<close> is their number, \<open>rem\<close> the budget that is left, \<open>tails\<close> what the cap cut off.\<close>

type_synonym sourced = "(string \<times> grain_result list) list"

fun trim_sources :: "exec_env \<Rightarrow> (string \<times> nat) list \<Rightarrow> nat \<Rightarrow> nat \<Rightarrow> sourced \<Rightarrow> sourced
    \<Rightarrow> (grain_result list \<times> source_meta) list" where
  "trim_sources E allocs n rem tails [] = []"
| "trim_sources E allocs n rem tails ((l, gs) # rest) =
     (let eff = min (case map_of allocs l of Some a \<Rightarrow> a | None \<Rightarrow> rem div max n 1) rem
      in case budget_prefix E eff 0 0 gs of (keep, used) \<Rightarrow>
        (take keep gs,
         \<lparr>sm_label = l, sm_tokens_allocated = eff, sm_tokens_used = used, sm_grain_count = length (take keep gs),
          sm_omitted = drop keep gs @ (case map_of tails l of None \<Rightarrow> [] | Some t \<Rightarrow> t)\<rparr>)
        # trim_sources E allocs n (rem - used) (bt_remove l tails) rest)"

section \<open>Duplicates and the cap\<close>

fun fresh :: "('a \<Rightarrow> 'b) \<Rightarrow> 'b list \<Rightarrow> 'a list \<Rightarrow> 'a list" where
  "fresh key seen [] = []"
| "fresh key seen (x # xs) =
     (if key x \<in> set seen then fresh key seen xs else x # fresh key (key x # seen) xs)"

fun dedup_by_hash :: "string list \<Rightarrow> sourced \<Rightarrow> sourced" where
  "dedup_by_hash seen [] = []"
| "dedup_by_hash seen ((l, gs) # rest) = (l, fresh cg_hash seen gs) # dedup_by_hash (map cg_hash gs @ seen) rest"

definition extract_dedup_field :: "assemble_with list \<Rightarrow> string option" where
  "extract_dedup_field ws = (case ws of
      [] \<Rightarrow> None
    | w # _ \<Rightarrow> Some (case aw_dedup w of Some f \<Rightarrow> f | None \<Rightarrow> ''_hash''))"

definition usize_max :: nat where "usize_max = 18446744073709551615"

text \<open>Rank 0 comes first; a label that \<^verbatim>\<open>PRIORITY\<close> does not name comes last.\<close>

definition source_order :: "sourced \<Rightarrow> priority_spec list option \<Rightarrow> string list" where
  "source_order srcs prio = (case prio of
      None \<Rightarrow> map fst srcs
    | Some specs \<Rightarrow> map pr_label (sort_by (\<lambda>a b. cmp_or_equal (f64_partial_cmp (pr_weight b) (pr_weight a))) specs))"

definition rank_of :: "string list \<Rightarrow> string \<Rightarrow> nat" where
  "rank_of ls l = (case map_of (rev (zip ls [0..<length ls])) l of None \<Rightarrow> usize_max | Some i \<Rightarrow> i)"

definition dedup_value :: "string \<Rightarrow> grain_result \<Rightarrow> string" where
  "dedup_value f g =
     (if f = ''_hash'' then cg_hash g else (case str_field g f of None \<Rightarrow> [] | Some s \<Rightarrow> s))"

text \<open>The first source with a label takes all grains that were kept under it.\<close>

fun regroup :: "string list \<Rightarrow> sourced \<Rightarrow> (nat \<times> string \<times> grain_result) list \<Rightarrow> sourced" where
  "regroup used [] kept = []"
| "regroup used ((l, _) # rest) kept =
     (l, if l \<in> set used then [] else map (snd \<circ> snd) (filter (\<lambda>(_, l', _). l' = l) kept)) # regroup (l # used) rest kept"

definition dedup_across_sources :: "sourced \<Rightarrow> string \<Rightarrow> priority_spec list option \<Rightarrow> sourced" where
  "dedup_across_sources srcs f prio =
     (let ranked = concat (map (\<lambda>(l, gs). map (\<lambda>g. (rank_of (source_order srcs prio) l, l, g)) gs) srcs)
      in regroup [] srcs (fresh (\<lambda>(_, _, g). dedup_value f g) [] (sort_key fst ranked)))"

definition source_total :: "sourced \<Rightarrow> nat" where
  "source_total srcs = sum_list (map (length \<circ> snd) srcs)"

text \<open>Every source keeps its part of the cap, rounded up, and at least one grain.\<close>

definition source_cap :: "exec_env \<Rightarrow> nat \<Rightarrow> nat \<Rightarrow> nat \<Rightarrow> nat" where
  "source_cap E most tot n =
     min (max (f64_as_unsigned 64 (f64_ceil (f64_mul (xe_round E)
       (f64_div (xe_round E) (Finite (xe_rnd E (int n))) (Finite (xe_rnd E (int tot)))) (Finite (xe_rnd E (int most)))))) 1) n"

fun cap_sources :: "(nat \<Rightarrow> nat) \<Rightarrow> sourced \<Rightarrow> sourced \<Rightarrow> sourced \<times> sourced" where
  "cap_sources cap [] tails = ([], tails)"
| "cap_sources cap ((l, gs) # rest) tails =
     (let k = cap (length gs); t = drop k gs
      in case cap_sources cap rest (if t = [] then tails else bt_insert l t tails) of
           (srcs, tails') \<Rightarrow> ((l, take k gs) # srcs, tails'))"

definition cap_grains_total :: "exec_env \<Rightarrow> nat \<Rightarrow> sourced \<Rightarrow> sourced \<times> sourced" where
  "cap_grains_total E most srcs =
     (if source_total srcs \<le> most then (srcs, [])
      else cap_sources (source_cap E most (source_total srcs)) srcs [])"

section \<open>The engine\<close>

fun condition_references_subject :: "condition \<Rightarrow> bool" where
  "condition_references_subject (Comparison f _ _ _) = (f = ''subject'')"
| "condition_references_subject (CondIn f _ _) = (f = ''subject'')"
| "condition_references_subject (CondAnd l r _) = (condition_references_subject l \<or> condition_references_subject r)"
| "condition_references_subject (CondOr l r _) = (condition_references_subject l \<or> condition_references_subject r)"
| "condition_references_subject _ = False"

definition has_subject_filter :: "statement \<Rightarrow> bool" where
  "has_subject_filter s = (case s of
      SRecall r \<Rightarrow> (case rs_where r of Some wc \<Rightarrow> condition_references_subject (wh_condition wc) | None \<Rightarrow> False)
    | _ \<Rightarrow> False)"

definition unscoped_warning :: "statement named_source list \<Rightarrow> string option" where
  "unscoped_warning srcs =
     (if list_ex (has_subject_filter \<circ> ns_query) srcs \<and> \<not> list_all (has_subject_filter \<circ> ns_query) srcs
      then Some (''CAL-W009: ASSEMBLE source(s) ['' @ join '', '' (map ns_label (filter (\<lambda>s. \<not> has_subject_filter (ns_query s)) srcs))
        @ ''] have no subject filter while other sources do -- results may include data from unrelated subjects.'')
      else None)"

text \<open>The grains of a source; here an assembly inside an assembly yields none.\<close>

definition source_grains :: "payload \<Rightarrow> grain_result list" where
  "source_grains p = (case p of PGrains gs _ \<Rightarrow> gs | _ \<Rightarrow> [])"

definition execute_source :: "(statement \<Rightarrow> cal_query \<Rightarrow> ('s, payload) ex) \<Rightarrow> cal_query \<Rightarrow> statement named_source
    \<Rightarrow> ('s, grain_result list) ex" where
  "execute_source rec q s =
     xbind (rec (ns_query s) ((surrogate q (ns_query s))\<lparr>cq_with := if ns_with s = [] then cq_with q else ns_with s\<rparr>))
       (\<lambda>p. xret (source_grains p))"

definition slow_source :: "string \<Rightarrow> nat \<Rightarrow> nat \<Rightarrow> string" where
  "slow_source l t limit = ''Source '' @ dq l @ '' took '' @ nat_str t @ ''ms (limit: '' @ nat_str limit @ ''ms)''"

fun run_sources :: "'s exec_parts \<Rightarrow> (statement \<Rightarrow> cal_query \<Rightarrow> ('s, payload) ex) \<Rightarrow> cal_query \<Rightarrow> span option \<Rightarrow> nat \<Rightarrow> nat
    \<Rightarrow> statement named_source list \<Rightarrow> ('s, sourced) ex" where
  "run_sources X rec q sp' start limit [] = xret []"
| "run_sources X rec q sp' start limit (s # ss) =
     xbind (xget (px_now X)) (\<lambda>now.
     if ASSEMBLE_TIMEOUT_MS < now - start then xfail (CeRun (XeQueryTimeout (now - start) ASSEMBLE_TIMEOUT_MS sp'))
     else xbind (execute_source rec q s) (\<lambda>gs.
     xbind (xget (px_now X)) (\<lambda>later.
     xbind (if limit < later - now then xwarn (slow_source (ns_label s) (later - now) limit) else xret ()) (\<lambda>_.
     xbind (run_sources X rec q sp' start limit ss) (\<lambda>rest. xret ((ns_label s, gs) # rest))))))"

definition budget_of :: "'s assemble_stmt \<Rightarrow> nat" where
  "budget_of a = (case as_budget a of None \<Rightarrow> DEFAULT_BUDGET_TOKENS | Some b \<Rightarrow> bg_tokens b)"

definition dedup_sources :: "'s assemble_stmt \<Rightarrow> sourced \<Rightarrow> sourced" where
  "dedup_sources a srcs = (case extract_dedup_field (as_assemble_with a) of
      Some f \<Rightarrow> dedup_across_sources srcs f (as_priority a)
    | None \<Rightarrow> dedup_by_hash [] srcs)"

definition budget_sources :: "exec_env \<Rightarrow> 's assemble_stmt \<Rightarrow> sourced \<times> sourced \<Rightarrow> (grain_result list \<times> source_meta) list" where
  "budget_sources E a st = (case st of (srcs, tails) \<Rightarrow>
     trim_sources E (allocate_budget E (map fst srcs) (budget_of a) (as_priority a)) (length srcs) (budget_of a) tails srcs)"

definition assembled :: "'s assemble_stmt \<Rightarrow> (grain_result list \<times> source_meta) list \<Rightarrow> payload" where
  "assembled a parts =
     (let gs = concat (map fst parts)
      in PAssembled gs (map snd parts) (foldl u32_add 0 (map (sm_tokens_used \<circ> snd) parts)) (Some (budget_of a)) (Some (length gs)))"

definition cap_warning :: "nat \<Rightarrow> string" where
  "cap_warning n = ''Post-dedup grain count ('' @ nat_str n @ '') exceeds cap ('' @ nat_str MAX_GRAINS_POST_DEDUP @ ''); truncating''"

definition merge_sources :: "exec_env \<Rightarrow> 's facade \<Rightarrow> 'b assemble_stmt \<Rightarrow> sourced \<Rightarrow> ('s, payload) ex" where
  "merge_sources E F a results =
     (let srcs = dedup_sources a results; parts = budget_sources E a (cap_grains_total E MAX_GRAINS_POST_DEDUP srcs)
      in xbind (if MAX_GRAINS_POST_DEDUP < source_total srcs then xwarn (cap_warning (source_total srcs)) else xret ()) (\<lambda>_.
         xbind (xput (fc_note_assembly_budget F (list_ex (\<lambda>(_, m). sm_omitted m \<noteq> []) parts))) (\<lambda>_.
         xret (assembled a parts))))"

definition assemble_engine :: "exec_env \<Rightarrow> 's facade \<Rightarrow> 's exec_parts \<Rightarrow> (statement \<Rightarrow> cal_query \<Rightarrow> ('s, payload) ex)
    \<Rightarrow> statement assemble_stmt \<Rightarrow> cal_query \<Rightarrow> ('s, payload) ex" where
  "assemble_engine E F X rec a q = (case as_sources a of
      None \<Rightarrow> xfail (CeRun (XeBudgetExceeded ''ASSEMBLE engine requires multi-source syntax'' (as_span a)))
    | Some srcs \<Rightarrow>
        if srcs = [] then xret (PGrains [] (Some 0))
        else xbind (xget (px_now X)) (\<lambda>start.
             xbind (case unscoped_warning srcs of None \<Rightarrow> xret () | Some w \<Rightarrow> xwarn w) (\<lambda>_.
             xbind (run_sources X rec q (as_span a) start (min (ASSEMBLE_TIMEOUT_MS div length srcs) MAX_PER_SOURCE_MS) srcs) (\<lambda>results.
             merge_sources E F a results))))"

section \<open>Options on the merged grains\<close>

text \<open>Subject and relation, creation time, position and object of the grains that have a key.\<close>

definition conflict_row :: "nat \<times> grain_result \<Rightarrow> ((string \<times> string) \<times> int \<times> nat \<times> string) option" where
  "conflict_row ig = (case ig of (i, g) \<Rightarrow>
     (let s = (case str_field g ''subject'' of None \<Rightarrow> [] | Some x \<Rightarrow> x);
          r = (case str_field g ''relation'' of None \<Rightarrow> [] | Some x \<Rightarrow> x);
          ob = (case str_field g ''object'' of None \<Rightarrow> [] | Some x \<Rightarrow> x);
          c = (case Option.bind (json_field (cg_fields g) ''created_at'') as_i64 of None \<Rightarrow> 0 | Some t \<Rightarrow> t)
      in if s = [] \<and> r = [] then None else Some ((s, r), c, i, ob)))"

text \<open>\<^verbatim>\<open>max_by_key\<close> takes the last of several greatest elements.\<close>

fun newest :: "int \<times> nat \<Rightarrow> (int \<times> nat) list \<Rightarrow> nat" where
  "newest b [] = snd b"
| "newest b (m # ms) = newest (if fst b \<le> fst m then m else b) ms"

fun losers :: "(int \<times> nat \<times> string) list \<Rightarrow> nat list" where
  "losers [] = []"
| "losers (m # ms) =
     (if list_all (\<lambda>(_, _, ob). ob = snd (snd m)) ms then []
      else (let best = newest (fst m, fst (snd m)) (map (\<lambda>(c, i, _). (c, i)) ms)
            in filter (\<lambda>i. i \<noteq> best) (map (fst \<circ> snd) (m # ms))))"

definition conflict_losers :: "grain_result list \<Rightarrow> nat list" where
  "conflict_losers gs =
     (let rows = List.map_filter conflict_row (zip [0..<length gs] gs)
      in concat (map (\<lambda>k. losers (map snd (filter (\<lambda>r. fst r = k) rows))) (remdups (map fst rows))))"

definition resolve_conflicts :: "grain_result list \<Rightarrow> grain_result list" where
  "resolve_conflicts gs =
     (let out = conflict_losers gs in map snd (filter (\<lambda>(i, _). i \<notin> set out) (zip [0..<length gs] gs)))"

definition TEXT_FIELDS :: "string list" where
  "TEXT_FIELDS = [''content'', ''description'', ''title'', ''goal'', ''query'', ''result'', ''output'']"

definition grain_result_text :: "grain_result \<Rightarrow> string" where
  "grain_result_text g =
     (if cg_type g = ''fact''
      then (let s = (\<lambda>f. case str_field g f of None \<Rightarrow> [] | Some x \<Rightarrow> x)
            in trim (s ''subject'' @ '' '' @ s ''relation'' @ '' '' @ s ''object''))
      else (case find (\<lambda>v. trim v \<noteq> []) (List.map_filter (str_field g) TEXT_FIELDS) of
              Some v \<Rightarrow> v | None \<Rightarrow> cg_type g))"

fun bigrams :: "string list \<Rightarrow> (string \<times> string) list" where
  "bigrams [] = []"
| "bigrams [w] = [(to_lowercase w, [])]"
| "bigrams [w, v] = [(to_lowercase w, to_lowercase v)]"
| "bigrams (w # v # u # ws) = (to_lowercase w, to_lowercase v) # bigrams (v # u # ws)"

definition text_similarity :: "exec_env \<Rightarrow> string \<Rightarrow> string \<Rightarrow> f64" where
  "text_similarity E a b =
     (let wa = words_ws a; wb = words_ws b; A = set (bigrams wa); B = set (bigrams wb)
      in if a = b \<or> wa = [] \<and> wb = [] then Finite 1
         else if wa = [] \<or> wb = [] then Finite 0
         else f64_div (xe_round E) (Finite (of_nat (card (A \<inter> B)))) (Finite (of_nat (card (A \<union> B)))))"

fun drop_similar :: "exec_env \<Rightarrow> string list \<Rightarrow> grain_result list \<Rightarrow> grain_result list" where
  "drop_similar E seen [] = []"
| "drop_similar E seen (g # gs) =
     (let t = grain_result_text g
      in if list_ex (\<lambda>p. f64_ge (text_similarity E t p) (xe_round E (85 / 100))) seen then drop_similar E seen gs
         else g # drop_similar E (seen @ [t]) gs)"

fun post_merge :: "exec_env \<Rightarrow> with_option \<Rightarrow> grain_result list \<Rightarrow> grain_result list" where
  "post_merge E WoConflictResolution gs = resolve_conflicts gs"
| "post_merge E (WoDedup (Some f)) gs = dedup_by E f [] gs"
| "post_merge E (WoDedup None) gs = drop_similar E [] gs"
| "post_merge E (WoMinScore s) gs = filter (\<lambda>g. cg_deterministic g \<or> f64_ge (cg_score g) s) gs"
| "post_merge E (WoDiversity _) gs = sort_by (\<lambda>a b. cmp_or_equal (f64_partial_cmp (cg_score b) (cg_score a))) gs"
| "post_merge E _ gs = gs"

definition apply_post_merge :: "exec_env \<Rightarrow> with_option list \<Rightarrow> payload \<Rightarrow> payload" where
  "apply_post_merge E ws p = (case p of
      PAssembled gs ms tot budget _ \<Rightarrow>
        (let gs' = fold (post_merge E) ws gs in PAssembled gs' ms tot budget (Some (length gs')))
    | _ \<Rightarrow> p)"

section \<open>The record of an assembly\<close>

definition sample_assembly_manifest :: "exec_env \<Rightarrow> exec_config \<Rightarrow> 's exec_parts \<Rightarrow> ('s, bool) ex" where
  "sample_assembly_manifest E C X =
     (let rate = f64_unit (xc_manifest_sample_rate C)
      in if f64_ge (Finite 0) rate then xret False
         else if f64_ge rate (Finite 1) then xret True
         else xbind (xget (\<lambda>s. fst (px_next_sample X s))) (\<lambda>n.
              xbind (xput (\<lambda>s. snd (px_next_sample X s))) (\<lambda>_.
              xret (n * 0x9e3779b97f4a7c15 mod 2 ^ 64 mod 1000000 < f64_as_unsigned 64 (f64_mul (xe_round E) rate (Finite 1000000))))))"

definition sha_hex :: "exec_env \<Rightarrow> string \<Rightarrow> string" where
  "sha_hex E t = xe_hex E (sha256 (xe_core E) (utf8 t))"

definition rendered_text :: "exec_env \<Rightarrow> 's exec_parts \<Rightarrow> payload \<Rightarrow> string" where
  "rendered_text E X p = (case p of
      PFormatted t _ _ _ \<Rightarrow> t
    | PMultiFormatted m _ _ \<Rightarrow> xe_json E (JObj (map (\<lambda>(k, v). (k, JStr v)) (bt_fill m [])))
    | _ \<Rightarrow> px_payload_json X p)"

definition record_assembly_manifest :: "exec_env \<Rightarrow> exec_config \<Rightarrow> 's facade \<Rightarrow> 's exec_parts \<Rightarrow> statement assemble_stmt
    \<Rightarrow> string list \<Rightarrow> string list \<Rightarrow> payload \<Rightarrow> json \<Rightarrow> json \<Rightarrow> ('s, unit) ex" where
  "record_assembly_manifest E C F X a candidates included p budget sources =
     xbind (sample_assembly_manifest E C X) (\<lambda>sampled.
       if sampled
       then xput (fc_note_assembly_manifest F \<lparr>am_query_sha256 = sha_hex E (px_assemble_json X a),
              am_included_hashes = included, am_rendered_sha256 = sha_hex E (rendered_text E X p), am_budget = budget,
              am_dropped_hashes = filter (\<lambda>h. h \<notin> set included) candidates, am_sources = sources\<rparr>)
       else xret ())"

definition source_json :: "source_meta \<Rightarrow> json" where
  "source_json m = JObj [(''grain_count'', JInt (int (sm_grain_count m))), (''label'', JStr (sm_label m)),
     (''tokens_allocated'', JInt (int (sm_tokens_allocated m))), (''tokens_used'', JInt (int (sm_tokens_used m)))]"

definition opt_nat_json :: "nat option \<Rightarrow> json" where
  "opt_nat_json x = (case x of None \<Rightarrow> JNull | Some n \<Rightarrow> JInt (int n))"

definition budget_json :: "nat option \<Rightarrow> string \<Rightarrow> nat \<Rightarrow> json" where
  "budget_json limit unit used =
     JObj [(''limit'', opt_nat_json limit), (''unit'', JStr unit), (''used'', JInt (int used))]"

text \<open>All addresses of the sources, the kept ones before the omitted ones.\<close>

fun candidate_hashes :: "grain_result list \<Rightarrow> source_meta list \<Rightarrow> string list" where
  "candidate_hashes gs [] = []"
| "candidate_hashes gs (m # ms) =
     map cg_hash (take (sm_grain_count m) gs) @ map cg_hash (sm_omitted m) @ candidate_hashes (drop (sm_grain_count m) gs) ms"

definition assembly_snapshot :: "payload \<Rightarrow> string list \<times> json \<times> json" where
  "assembly_snapshot p = (case p of
      PAssembled gs ms tot budget _ \<Rightarrow>
        (candidate_hashes gs ms, JArr (map source_json ms), budget_json budget ''tokens'' tot)
    | _ \<Rightarrow> ([], JNull, JNull))"

section \<open>ASSEMBLE\<close>

definition assemble_ident :: "'s assemble_stmt \<Rightarrow> string \<times> string" where
  "assemble_ident a = (case as_context_name a of Some n \<Rightarrow> n | None \<Rightarrow> as_topic a,
     case as_for_whom a of Some w \<Rightarrow> w | None \<Rightarrow> [])"

definition assemble_multi :: "exec_env \<Rightarrow> exec_config \<Rightarrow> 's facade \<Rightarrow> 's exec_parts \<Rightarrow> (statement \<Rightarrow> cal_query \<Rightarrow> ('s, payload) ex)
    \<Rightarrow> statement assemble_stmt \<Rightarrow> cal_query \<Rightarrow> ('s, payload) ex" where
  "assemble_multi E C F X rec a q =
     xbind (assemble_engine E F X rec a q) (\<lambda>p0.
     case assembly_snapshot p0 of (candidates, sources, budget) \<Rightarrow>
       (let p1 = apply_post_merge E (cq_with q) p0;
            included = (case p1 of PAssembled gs _ _ _ _ \<Rightarrow> map cg_hash gs | _ \<Rightarrow> [])
        in xbind (apply_format_clause X (Some (assemble_ident a)) (as_format a) None (cq_user_vars q) p1) (\<lambda>p2.
           xbind (record_assembly_manifest E C F X a candidates included p2 budget sources) (\<lambda>_. xret p2))))"

text \<open>A single source: the results of one recall, or grains by address; those that are missing are skipped.\<close>

definition grain_by_hash :: "exec_env \<Rightarrow> string \<Rightarrow> deserialized_grain \<Rightarrow> grain_result" where
  "grain_by_hash E h d = \<lparr>cg_hash = h, cg_type = grain_as_str (dg_type d), cg_score = Finite 1,
     cg_fields = JObj (bt_fill (dg_fields d) []), cg_breakdown = None, cg_explanation = None, cg_relative_time = None,
     cg_deterministic = True, cg_contested = None\<rparr>"

fun fetch_hashes :: "exec_env \<Rightarrow> 's facade \<Rightarrow> string list \<Rightarrow> ('s, grain_result list) ex" where
  "fetch_hashes E F [] = xret []"
| "fetch_hashes E F (h # hs) = (case hash_from_hex (hex_decode (xe_core E)) h of
      Inl _ \<Rightarrow> fetch_hashes E F hs
    | Inr k \<Rightarrow> xbind (xcall (fc_get F k)) (\<lambda>r. xbind (fetch_hashes E F hs) (\<lambda>gs.
        xret (case r of Inl _ \<Rightarrow> gs | Inr d \<Rightarrow> grain_by_hash E h d # gs))))"

definition assemble_filter :: "exec_env \<Rightarrow> where_clause option \<Rightarrow> grain_result list \<Rightarrow> grain_result list" where
  "assemble_filter E w gs = (case w of
      None \<Rightarrow> gs
    | Some wc \<Rightarrow> filter (\<lambda>g. list_all (\<lambda>(f, k, v). grain_matches_condition E g f k v)
        (type_conditions (wh_condition wc) @ collect_common_conditions (wh_condition wc))) gs)"

definition single_plan :: "'s assemble_stmt \<Rightarrow> grain_result list \<Rightarrow> grain_result list \<Rightarrow> render_plan" where
  "single_plan a gs omitted =
     \<lparr>rp_assembly = Some \<lparr>ac_name = fst (assemble_ident a), ac_intent = snd (assemble_ident a), ac_source_count = 1,
        ac_grain_count = length gs, ac_budget_total = (case as_budget a of None \<Rightarrow> 0 | Some b \<Rightarrow> bg_tokens b),
        ac_budget_used = length gs, ac_budget_unit = ''grains''\<rparr>,
      rp_sources = Some [\<lparr>rr_label = [], rr_grains = gs, rr_omitted = omitted, rr_priority = 1, rr_tokens_used = length gs,
        rr_truncated = (omitted \<noteq> [])\<rparr>]\<rparr>"

text \<open>With one source the budget counts grains.\<close>

definition assemble_single :: "exec_env \<Rightarrow> exec_config \<Rightarrow> 's facade \<Rightarrow> 's exec_parts \<Rightarrow> statement assemble_stmt \<Rightarrow> cal_query
    \<Rightarrow> grain_result list \<Rightarrow> ('s, payload) ex" where
  "assemble_single E C F X a q base =
     (let all = assemble_filter E (as_where a) base;
          limit = map_option bg_tokens (as_budget a);
          gs = (case limit of None \<Rightarrow> all | Some n \<Rightarrow> take n all);
          omitted = (case limit of None \<Rightarrow> [] | Some n \<Rightarrow> drop n all)
      in xbind (xput (fc_note_assembly_budget F (omitted \<noteq> []))) (\<lambda>_.
         xbind (case as_format a of
             None \<Rightarrow> xret (PGrains gs (Some (length gs)))
           | Some fmt \<Rightarrow> format_grains X gs (single_plan a gs omitted) fmt None (cq_user_vars q)) (\<lambda>p.
         xbind (record_assembly_manifest E C F X a (map cg_hash all) (map cg_hash gs) p (budget_json limit ''grains'' (length gs))
           (JArr [JObj [(''dropped_count'', JInt (int (length omitted))), (''grain_count'', JInt (int (length gs))),
             (''label'', JStr [])]])) (\<lambda>_. xret p))))"

definition parameter_source :: "string \<Rightarrow> payload" where
  "parameter_source n = PUnsupported ''assemble''
     (''Parameter source $'' @ n @ '' is not yet supported in single-source ASSEMBLE. Use a RECALL subquery instead.'')"

definition execute_assemble :: "exec_env \<Rightarrow> exec_config \<Rightarrow> 's facade \<Rightarrow> 's exec_parts \<Rightarrow> (statement \<Rightarrow> cal_query \<Rightarrow> ('s, payload) ex)
    \<Rightarrow> statement assemble_stmt \<Rightarrow> cal_query \<Rightarrow> ('s, payload) ex" where
  "execute_assemble E C F X rec a q0 =
     (let q = q0\<lparr>cq_with := cq_with q0 @ as_with_options a\<rparr>
      in if as_streaming a then xret (PStreamAssemble a (cq_with q))
         else if as_sources a \<noteq> None then assemble_multi E C F X rec a q
         else (case as_from a of
             SrcQuery r \<Rightarrow> xbind (rec (SRecall r) (surrogate q (SRecall r))) (\<lambda>p. assemble_single E C F X a q (extract_grains p))
           | SrcHashes hs \<Rightarrow> xbind (fetch_hashes E F hs) (\<lambda>gs. assemble_single E C F X a q gs)
           | SrcParameter n \<Rightarrow> xret (parameter_source n)))"

end
