(* ===== verification/Cal_Exec.thy ===== *)
theory Cal_Exec
  imports Cal_Exec_Read Cal_Pipeline Authz
begin

text \<open>
  The executor of CAL (\<^verbatim>\<open>executor.rs\<close> of \<^verbatim>\<open>dejadb-cal\<close>): the scope of the caller, the caps of the
  session, and the handlers of the statements that write, erase, grant and govern. The
  statements that hold statements, and the dispatch over all of them, are in \<^verbatim>\<open>Cal_Run\<close>.
\<close>

section \<open>Scopes and caps\<close>

definition check_caller_scope :: "exec_config \<Rightarrow> statement \<Rightarrow> cal_error + unit" where
  "check_caller_scope C s =
     (let scopes = set (xc_caller_scopes C); required = required_scope_for_statement s
      in if scopes = {} \<or> ''admin'' \<in> scopes \<or> required \<in> scopes \<or> (required = ''read'' \<and> ''write'' \<in> scopes)
         then Inr () else Inl (CeRun (XeInsufficientScope required (statement_type_name s))))"

definition need_tier1 :: "exec_config \<Rightarrow> string \<Rightarrow> span option \<Rightarrow> ('s, payload) ex \<Rightarrow> ('s, payload) ex" where
  "need_tier1 C name sp m = (if xc_tier1_enabled C then m else xfail (CeRun (XeTier1NotEnabled name sp)))"

definition destructive_disabled :: string where
  "destructive_disabled = ''Destructive operations are disabled for this session (started with --no-destructive-ops).''"

definition need_destructive :: "exec_config \<Rightarrow> string \<Rightarrow> ('s, payload) ex \<Rightarrow> ('s, payload) ex" where
  "need_destructive C name m =
     (if xc_allow_destructive_ops C then m else xret (PUnsupported name destructive_disabled))"

text \<open>A call of the facade; its failure is an answer, not an error.\<close>

definition attempt :: "exec_env \<Rightarrow> string \<Rightarrow> string \<Rightarrow> ('s, 'a) fop \<Rightarrow> ('a \<Rightarrow> payload) \<Rightarrow> ('s, payload) ex" where
  "attempt E name what op ok = xbind (xcall op) (\<lambda>r. xret (case r of
      Inl e \<Rightarrow> PUnsupported name (what @ '' failed: '' @ deja_text E e) | Inr x \<Rightarrow> ok x))"

section \<open>Values as JSON\<close>

fun cal_value_to_json :: "cval \<Rightarrow> json" where
  "cal_value_to_json (CvString v) = JStr v"
| "cal_value_to_json (CvNumber v) =
     (case v of
        Finite q \<Rightarrow> if is_integral v \<and> \<bar>q\<bar> < 9007199254740992 then JInt \<lfloor>q\<rfloor> else JFloat v
      | _ \<Rightarrow> JNull)"
| "cal_value_to_json (CvBoolean v) = JBool v"
| "cal_value_to_json (CvArray vs) = JArr (map cal_value_to_json vs)"
| "cal_value_to_json (CvHash v) = JStr v"
| "cal_value_to_json (CvParameter n) = JStr (''$'' @ n)"

definition overlay :: "field_assignment list \<Rightarrow> (string \<times> json) list \<Rightarrow> (string \<times> json) list" where
  "overlay fas m = fold (\<lambda>fa. bt_insert (fa_field fa) (cal_value_to_json (fa_value fa))) fas m"

definition put_nonempty :: "string \<Rightarrow> string \<Rightarrow> (string \<times> json) list \<Rightarrow> (string \<times> json) list" where
  "put_nonempty k v m = (if v = [] then m else bt_insert k (JStr v) m)"

definition inject_write_namespace :: "exec_config \<Rightarrow> string option \<Rightarrow> (string \<times> json) list \<Rightarrow> (string \<times> json) list" where
  "inject_write_namespace C dns m =
     (case xc_namespace_override C of
        Some ns \<Rightarrow> bt_insert ''namespace'' (JStr ns) m
      | None \<Rightarrow> (if bt_has m ''namespace'' then m
                 else (case dns of Some ns \<Rightarrow> bt_insert ''namespace'' (JStr ns) m | None \<Rightarrow> m)))"

definition auto_relate_warning :: string where
  "auto_relate_warning = ''CAL-W013: WITH auto_relate is accepted but not implemented -- no relations are inferred. Link grains explicitly with related_to, or use WITH multi_hop(n) on recall to widen through the entity graph.''"

fun add_option :: "add_with_option \<Rightarrow> add_options \<times> string list \<Rightarrow> add_options \<times> string list" where
  "add_option AwExtractEventDate (x, ws) = (x\<lparr>ao_extract_event_date := Some True\<rparr>, ws)"
| "add_option AwAutoRelate (x, ws) = (x\<lparr>ao_auto_relate := Some True\<rparr>, ws @ [auto_relate_warning])"
| "add_option AwExtractMemories st = st"
| "add_option AwSync (x, ws) = (x\<lparr>ao_sync := Some True\<rparr>, ws)"
| "add_option AwOccurrence st = st"

definition build_add_options :: "add_with_option list \<Rightarrow> add_options \<times> string list" where
  "build_add_options ops = fold add_option ops (\<lparr>ao_extract_event_date = None, ao_auto_relate = None, ao_sync = None\<rparr>, [])"

section \<open>ADD, SUPERSEDE, ACCUMULATE\<close>

definition ADD_VIA_SET :: "string list" where
  "ADD_VIA_SET = map grain_as_str (map ty (filter add_via_set GRAIN_TYPES))"

definition first_parameter :: "field_assignment list \<Rightarrow> string option" where
  "first_parameter fas = (case List.map_filter (\<lambda>fa. case fa_value fa of CvParameter n \<Rightarrow> Some n | _ \<Rightarrow> None) fas of
      [] \<Rightarrow> None | n # _ \<Rightarrow> Some n)"

definition occurrence_warning :: string where
  "occurrence_warning = ''CAL-W014: WITH occurrence is inert here -- tool occurrences are recorded via record_tool_call (every binding), which stamps the per-call identity that keeps retries distinct.''"

definition added :: "exec_env \<Rightarrow> string \<Rightarrow> add_result \<Rightarrow> payload" where
  "added E t x = PAdded (hash_to_hex (xe_hex E) (ar_hash x)) t
     (if 0 < ar_extracted_count x then Some (ar_extracted_count x) else None) (ar_warnings x)"

definition execute_add :: "exec_env \<Rightarrow> exec_config \<Rightarrow> 's facade \<Rightarrow> add_stmt \<Rightarrow> ('s, payload) ex" where
  "execute_add E C F a = need_tier1 C ''ADD'' (ad_span a)
     (let t = singular_str (ad_grain_type a) in
      if t \<notin> set ADD_VIA_SET
      then xret (PUnsupported ''add'' (''Grain type '' @ sq t @ '' cannot be created via ADD. Addable types: ''
             @ join '', '' ADD_VIA_SET @ ''.''))
      else (case first_parameter (ad_fields a) of
        Some n \<Rightarrow> xret (PUnsupported ''add'' (''Unresolved parameter $'' @ n @ '' in SET clause. Parameters must be bound via LET.''))
      | None \<Rightarrow>
          xbind (if AwOccurrence \<in> set (ad_with a) then xwarn occurrence_warning else xret ()) (\<lambda>_.
          xbind (xget (fc_default_namespace F)) (\<lambda>dns.
          let fs = inject_write_namespace C dns (put_nonempty ''add_reason'' (ad_reason a) (overlay (ad_fields a) []));
              (ops, ws) = build_add_options (ad_with a)
          in xbind (xwarns ws) (\<lambda>_. attempt E ''add'' ''ADD'' (fc_add F t fs ops) (added E t))))))"

definition execute_supersede :: "exec_env \<Rightarrow> exec_config \<Rightarrow> 's facade \<Rightarrow> supersede_stmt \<Rightarrow> ('s, payload) ex" where
  "execute_supersede E C F u = need_tier1 C ''SUPERSEDE'' (su_span u)
     (case hash_from_hex (hex_decode (xe_core E)) (strip_sha256 (su_hash u)) of
        Inl e \<Rightarrow> xret (PUnsupported ''supersede'' (''invalid hash: '' @ deja_text E e))
      | Inr h \<Rightarrow> xbind (xcall (fc_get F h)) (\<lambda>r. case r of
          Inl e \<Rightarrow> xret (PUnsupported ''supersede'' (''cannot retrieve grain for SUPERSEDE: '' @ deja_text E e))
        | Inr g \<Rightarrow>
            (let fs = put_nonempty ''supersede_reason'' (su_reason u) (overlay (su_set u) (bt_fill (dg_fields g) []))
             in attempt E ''supersede'' ''SUPERSEDE'' (fc_supersede F h (grain_as_str (dg_type g)) fs)
                  (\<lambda>n. PSuperseded (hash_to_hex (xe_hex E) h) (hash_to_hex (xe_hex E) n)))))"

definition edge_json :: "graph_edge \<Rightarrow> json" where
  "edge_json e = JObj ((case ge_cond e of Some c \<Rightarrow> bt_insert ''cond'' (JStr c) | None \<Rightarrow> id)
     [(''dst'', JStr (ge_dst e)), (''src'', JStr (ge_src e))])"

text \<open>Of several bounds on the retries of one node, the largest holds.\<close>

fun retries_of :: "graph_edge list \<Rightarrow> (string \<times> json) list \<Rightarrow> (string \<times> json) list" where
  "retries_of [] m = m"
| "retries_of (e # es) m = retries_of es (case ge_repeat e of
      None \<Rightarrow> m
    | Some n \<Rightarrow>
        (let n' = (case Option.bind (map_of m (ge_dst e)) as_u64 of None \<Rightarrow> n | Some k \<Rightarrow> max (nat k mod 2 ^ 32) n)
         in bt_insert (ge_dst e) (JInt (int n')) m))"

definition put_object :: "string \<Rightarrow> (string \<times> json) list \<Rightarrow> (string \<times> json) list \<Rightarrow> (string \<times> json) list" where
  "put_object k x m = (if x = [] then m else bt_insert k (JObj x) m)"

definition put_opt :: "string \<Rightarrow> string option \<Rightarrow> (string \<times> json) list \<Rightarrow> (string \<times> json) list" where
  "put_opt k v m = (case v of None \<Rightarrow> m | Some s \<Rightarrow> bt_insert k (JStr s) m)"

definition workflow_fields :: "string option \<Rightarrow> string list \<Rightarrow> graph_edge list \<Rightarrow> bind_clause list \<Rightarrow> (string \<times> json) list
    \<Rightarrow> (string \<times> json) list" where
  "workflow_fields trigger nodes edges binds m =
     put_object ''retries'' (retries_of edges [])
       (put_object ''bindings'' (bt_fill (map (\<lambda>b. (bc_node b, JStr (''sha256:'' @ bc_hash b))) binds) [])
         (bt_insert ''edges'' (JArr (map edge_json edges))
           (bt_insert ''nodes'' (JArr (map JStr nodes)) (put_opt ''trigger'' trigger m))))"

definition execute_add_workflow :: "exec_env \<Rightarrow> exec_config \<Rightarrow> 's facade \<Rightarrow> add_workflow_stmt \<Rightarrow> ('s, payload) ex" where
  "execute_add_workflow E C F w = need_tier1 C ''ADD WORKFLOW'' (ak_span w)
     (xbind (xget (fc_default_namespace F)) (\<lambda>dns.
      let fs = inject_write_namespace C dns (workflow_fields (ak_trigger w) (ak_nodes w) (ak_edges w) (ak_bindings w)
                 [(''name'', JStr (ak_name w))]);
          (ops, ws) = build_add_options (ak_with w)
      in xbind (xwarns ws) (\<lambda>_. attempt E ''add workflow'' ''ADD workflow'' (fc_add F ''workflow'' fs ops)
           (\<lambda>x. PAdded (hash_to_hex (xe_hex E) (ar_hash x)) ''workflow'' None []))))"

definition execute_supersede_workflow :: "exec_env \<Rightarrow> exec_config \<Rightarrow> 's facade \<Rightarrow> supersede_workflow_stmt
    \<Rightarrow> ('s, payload) ex" where
  "execute_supersede_workflow E C F w = need_tier1 C ''SUPERSEDE WORKFLOW'' (sk_span w)
     (case hash_from_hex (hex_decode (xe_core E)) (strip_sha256 (sk_hash w)) of
        Inl e \<Rightarrow> xret (PUnsupported ''supersede workflow'' (''invalid hash: '' @ deja_text E e))
      | Inr h \<Rightarrow>
          (let fs = put_nonempty ''supersede_reason'' (sk_reason w)
                 (workflow_fields (sk_trigger w) (sk_nodes w) (sk_edges w) (sk_bindings w) [])
           in attempt E ''supersede workflow'' ''SUPERSEDE workflow'' (fc_supersede F h ''workflow'' fs)
                (\<lambda>n. PSuperseded (hash_to_hex (xe_hex E) h) (hash_to_hex (xe_hex E) n))))"

fun target_names :: "accumulate_target \<Rightarrow> string \<times> string" where
  "target_names (TipResolved s r _) = (s, r)"
| "target_names (TargetHash _) = ([], [])"

definition execute_accumulate :: "exec_env \<Rightarrow> exec_config \<Rightarrow> 's facade \<Rightarrow> accumulate_stmt \<Rightarrow> ('s, payload) ex" where
  "execute_accumulate E C F a = need_tier1 C ''ACCUMULATE'' (ac_span a)
     (let adds = map (\<lambda>d. (dl_field d, dl_delta d)) (ac_add_ops a);
          sets = put_nonempty ''supersede_reason'' (ac_reason a) (overlay (ac_set_ops a) []);
          (s, r) = target_names (ac_target a)
      in xbind (xcall (fc_accumulate F (singular_str (ac_grain_type a)) (ac_target a) adds sets (ac_reason a))) (\<lambda>x. case x of
           Inr y \<Rightarrow> xret (PAccumulated (hash_to_hex (xe_hex E) (al_old_hash y)) (hash_to_hex (xe_hex E) (al_new_hash y)) (al_deltas y))
         | Inl AccumulateRetryExhausted \<Rightarrow> xfail (CeRun (XeAccumulateRetryExhausted s r (ac_span a)))
         | Inl (AccumulateInternal _) \<Rightarrow> xfail (CeRun (XeAccumulateInternal (ac_span a)))
         | Inl AccumulateBackpressureRejected \<Rightarrow> xfail (CeRun (XeAccumulateBackpressureRejected s r (ac_span a)))
         | Inl e \<Rightarrow> xret (PUnsupported ''accumulate'' (''ACCUMULATE failed: '' @ deja_text E e))))"

definition execute_merge :: "exec_env \<Rightarrow> exec_config \<Rightarrow> 's facade \<Rightarrow> merge_stmt \<Rightarrow> ('s, payload) ex" where
  "execute_merge E C F m = need_tier1 C ''MERGE'' (mr_span m)
     (attempt E ''merge'' ''MERGE''
       (fc_merge F (mr_subject m) (mr_relation m) (mr_object m)
         (case mr_confidence m of Some c \<Rightarrow> c | None \<Rightarrow> ce_round (xe_cal E) (9 / 10)) (mr_reason m))
       (\<lambda>h. PMerged (hash_to_hex (xe_hex E) h) (mr_subject m) (mr_relation m) (mr_object m)))"

definition execute_remember :: "exec_env \<Rightarrow> exec_config \<Rightarrow> 's facade \<Rightarrow> remember_stmt \<Rightarrow> ('s, payload) ex" where
  "execute_remember E C F r = need_tier1 C ''REMEMBER'' (rm_span r)
     (attempt E ''remember'' ''REMEMBER'' (fc_remember F (rm_content r) (rm_session_id r) (rm_role r) (rm_run_id r))
       (\<lambda>h. PRemembered (hash_to_hex (xe_hex E) h)))"

section \<open>FORGET and PURGE\<close>

text \<open>A reason is required; one of white space only counts as missing.\<close>

definition given_reason :: "string option \<Rightarrow> string option" where
  "given_reason r = (case r of Some s \<Rightarrow> if trim s = [] then None else Some s | None \<Rightarrow> None)"

definition execute_forget :: "exec_env \<Rightarrow> exec_config \<Rightarrow> 's facade \<Rightarrow> forget_stmt \<Rightarrow> ('s, payload) ex" where
  "execute_forget E C F f = need_destructive C ''forget'' (case fg_target f of
      FgHash h \<Rightarrow> xbind (xlift (parse_hash E (fg_span f) h)) (\<lambda>x.
        attempt E ''forget'' ''FORGET'' (fc_delete F x (fg_reason f)) (\<lambda>_. PForgotten (''hash:'' @ h) 1))
    | FgUser u \<Rightarrow> (case given_reason (fg_reason f) of
          None \<Rightarrow> xfail (CeMissingReason (fg_span f))
        | Some because \<Rightarrow> attempt E ''forget'' ''FORGET SUBJECT'' (fc_forget_user F u (fg_text_mentions f) because)
            (\<lambda>n. PForgotten (''subject:'' @ u) n))
    | FgScope s \<Rightarrow> attempt E ''forget'' ''FORGET SCOPE'' (fc_forget_scope F s) (\<lambda>n. PForgotten (''scope:'' @ s) n))"

definition execute_purge :: "exec_env \<Rightarrow> exec_config \<Rightarrow> 's facade \<Rightarrow> purge_stmt \<Rightarrow> ('s, payload) ex" where
  "execute_purge E C F p = need_destructive C ''purge'' (case given_reason (pg_reason p) of
      None \<Rightarrow> xfail (CeMissingReason (pg_span p))
    | Some because \<Rightarrow> attempt E ''purge'' ''PURGE''
        (fc_purge_stale F (case pg_min_age_days p of Some a \<Rightarrow> a | None \<Rightarrow> Finite 30) (pg_namespace p)
          (case pg_limit p of Some l \<Rightarrow> l | None \<Rightarrow> 1000) (pg_grain_type p) because) PPurged)"

section \<open>Templates and saved queries\<close>

definition over_cap :: "int option \<Rightarrow> string \<Rightarrow> listed list \<Rightarrow> cal_error option" where
  "over_cap cap name ls = (case cap of
      None \<Rightarrow> None
    | Some c \<Rightarrow>
        (let n = length (filter (\<lambda>l. \<not> li_builtin l \<and> li_name l \<noteq> name) ls)
         in if c \<le> int n then Some (CeLimitExceeded (n + 1) (nat (max c 0)) None) else None))"

definition under_cap :: "int option \<Rightarrow> string \<Rightarrow> ('s \<Rightarrow> listed list) \<Rightarrow> ('s, payload) ex \<Rightarrow> ('s, payload) ex" where
  "under_cap cap name ls m = xbind (xget ls) (\<lambda>l. case over_cap cap name l of Some e \<Rightarrow> xfail e | None \<Rightarrow> m)"

definition template_error :: "exec_env \<Rightarrow> string \<Rightarrow> deja_error \<Rightarrow> cal_error" where
  "template_error E name e =
     (let s = deja_text E e in
      if has_infix ''AUT-E'' s then CeRun (XeNotAuthorized s None)
      else if list_ex (\<lambda>k. has_infix k s) [''CAL-E04'', ''CAL-E11'', ''Unknown template'', ''Invalid template'', ''syntax'']
      then CeTemplateSyntaxError s None
      else CeTemplateInvalidName name None)"

definition query_error :: "exec_env \<Rightarrow> deja_error \<Rightarrow> cal_error" where
  "query_error E e =
     (let s = deja_text E e in if has_infix ''AUT-E'' s then CeRun (XeNotAuthorized s None) else CeInvalidQueryBody s None)"

definition execute_define_template :: "exec_env \<Rightarrow> exec_config \<Rightarrow> 's facade \<Rightarrow> define_template_stmt \<Rightarrow> ('s, payload) ex" where
  "execute_define_template E C F d = under_cap (xc_max_cal_templates C) (dt_name d) (fc_list_templates F)
     (xbind (xcall_map (template_error E (dt_name d))
        (fc_define_template F (dt_name d) (dt_source d) (dt_description d) (dt_parent d) (dt_grain_types d)))
        (\<lambda>_. xret (PTemplateDefined (dt_name d))))"

definition execute_define_query :: "exec_env \<Rightarrow> exec_config \<Rightarrow> 's facade \<Rightarrow> define_query_stmt \<Rightarrow> ('s, payload) ex" where
  "execute_define_query E C F d = under_cap (xc_max_cal_queries C) (dq_name d) (fc_list_queries F)
     (xbind (xcall_map (query_error E) (fc_define_query F (dq_name d) (dq_body d) (dq_description d) (dq_params d)))
        (\<lambda>_. xret (PQueryDefined (dq_name d))))"

section \<open>Grants and governance\<close>

definition verbs_of :: "string list \<Rightarrow> verb list" where
  "verbs_of vs = List.map_filter (\<lambda>v. case verb_parse v of Inr x \<Rightarrow> Some x | Inl _ \<Rightarrow> None) vs"

definition execute_grant :: "exec_env \<Rightarrow> exec_config \<Rightarrow> 's facade \<Rightarrow> dcl_stmt \<Rightarrow> ('s, payload) ex" where
  "execute_grant E C F g = need_tier1 C ''GRANT'' (dc_span g)
     (attempt E ''grant'' ''GRANT'' (fc_grant F (dc_principal g) (dc_verbs g) (dc_namespaces g) (dc_reason g))
       (\<lambda>h. PGranted (dc_principal g)
          (to_object_string \<lparr>g_verbs = verbs_of (dc_verbs g), g_namespaces = dc_namespaces g\<rparr>) (hash_to_hex (xe_hex E) h)))"

definition execute_revoke :: "exec_env \<Rightarrow> exec_config \<Rightarrow> 's facade \<Rightarrow> dcl_stmt \<Rightarrow> ('s, payload) ex" where
  "execute_revoke E C F g = need_tier1 C ''REVOKE'' (dc_span g)
     (attempt E ''revoke'' ''REVOKE'' (fc_revoke F (dc_principal g) (dc_verbs g) (dc_namespaces g) (dc_reason g))
       (\<lambda>n. PRevoked (dc_principal g) n))"

definition opt_json :: "('a \<Rightarrow> json) \<Rightarrow> 'a option \<Rightarrow> json" where
  "opt_json f o' = (case o' of None \<Rightarrow> JNull | Some x \<Rightarrow> f x)"

definition grant_row_json :: "grant_row \<Rightarrow> json" where
  "grant_row_json r =
     (let parsed = (case from_object_string (gw_object r) of Inr g \<Rightarrow> Some g | Inl _ \<Rightarrow> None)
      in JObj [(''hash'', JStr (gw_hash r)),
               (''namespaces'', opt_json (\<lambda>g. JArr (map JStr (g_namespaces g))) parsed),
               (''object'', JStr (gw_object r)), (''principal'', JStr (gw_principal r)),
               (''verbs'', opt_json (\<lambda>g. JArr (map (\<lambda>v. JStr (verb_as_str v)) (g_verbs g))) parsed)])"

definition governance_unwired :: "string \<Rightarrow> payload" where
  "governance_unwired name = PUnsupported name
     ''governance is not wired on this surface -- the host attaches a GovernanceHost (CalExecutor::with_governance) to back RUN LOOP, APPROVE, REJECT, APPLY, ROLLBACK, and the loop DESCRIBE reads''"

definition with_host :: "'s governance_host option \<Rightarrow> string \<Rightarrow> ('s governance_host \<Rightarrow> ('s, payload) ex) \<Rightarrow> ('s, payload) ex" where
  "with_host G name f = (case G of None \<Rightarrow> xret (governance_unwired name) | Some g \<Rightarrow> f g)"

definition execute_review :: "exec_env \<Rightarrow> 's governance_host option \<Rightarrow> bool \<Rightarrow> governance_stmt \<Rightarrow> ('s, payload) ex" where
  "execute_review E G approve g =
     (let name = (if approve then ''approve'' else ''reject'')
      in with_host G name (\<lambda>h. attempt E name (to_ascii_uppercase name) (gh_review h (gv_hash g) approve (gv_reason g))
           (\<lambda>_. PReviewed (gv_hash g) name)))"

definition execute_apply :: "exec_env \<Rightarrow> exec_config \<Rightarrow> 's governance_host option \<Rightarrow> governance_stmt \<Rightarrow> ('s, payload) ex" where
  "execute_apply E C G g = with_host G ''apply'' (\<lambda>h.
     attempt E ''apply'' ''APPLY'' (gh_apply h (gv_hash g) (gv_reason g) (xc_allow_destructive_ops C))
       (\<lambda>b. PRecApplied (gv_hash g) b))"

definition execute_rollback :: "exec_env \<Rightarrow> 's governance_host option \<Rightarrow> governance_stmt \<Rightarrow> ('s, payload) ex" where
  "execute_rollback E G g = with_host G ''rollback'' (\<lambda>h.
     attempt E ''rollback'' ''ROLLBACK'' (gh_rollback h (gv_hash g) (gv_reason g)) (\<lambda>_. PRecRolledBack (gv_hash g)))"

definition execute_run_loop :: "exec_env \<Rightarrow> 's governance_host option \<Rightarrow> run_loop_stmt \<Rightarrow> ('s, payload) ex" where
  "execute_run_loop E G r = with_host G ''run_loop'' (\<lambda>h.
     attempt E ''run_loop'' ''RUN LOOP'' (gh_run_loop h (rp_full_sweep r) (rp_min_new r) (rp_if_stale_ms r)) PLoopRan)"

section \<open>The smaller reads\<close>

definition execute_report_subject :: "exec_env \<Rightarrow> 's facade \<Rightarrow> report_subject_stmt \<Rightarrow> ('s, payload) ex" where
  "execute_report_subject E F r = attempt E ''report_subject'' ''REPORT SUBJECT''
     (fc_subject_report F (rj_subject_id r) (rj_text_mentions r))
     (\<lambda>x. PSubjectReport (rj_subject_id r) (sj_identity_names x) (sj_grains x))"

definition execute_entity_at :: "exec_env \<Rightarrow> 's facade \<Rightarrow> entity_at_stmt \<Rightarrow> ('s, payload) ex" where
  "execute_entity_at E F a =
     (let axis = (case ea_axis a of Some x \<Rightarrow> x | None \<Rightarrow> ''world'')
      in attempt E ''entity_at'' ''ENTITY AT'' (fc_entity_at F (ea_subject a) (ea_relation a) (ea_at_ms a) axis)
           (\<lambda>g. PEntityAt g axis (ea_at_ms a)))"

definition execute_run_trace :: "exec_env \<Rightarrow> 's facade \<Rightarrow> run_trace_stmt \<Rightarrow> ('s, payload) ex" where
  "execute_run_trace E F r = attempt E ''run_trace'' ''RUN TRACE''
     (fc_run_trace F (rt_run_id r) (min (case rt_limit r of Some n \<Rightarrow> n | None \<Rightarrow> 64) 1024)) (PRunTrace (rt_run_id r))"

definition execute_runs_touching :: "exec_env \<Rightarrow> 's facade \<Rightarrow> runs_touching_stmt \<Rightarrow> ('s, payload) ex" where
  "execute_runs_touching E F r = xbind (xlift (parse_hash E (ru_span r) (ru_hash r))) (\<lambda>h.
     attempt E ''runs_touching'' ''RUNS TOUCHING''
       (fc_runs_touching F h (min (case ru_depth r of Some n \<Rightarrow> n | None \<Rightarrow> 4) 8)) (PRunsTouching (ru_hash r)))"

definition execute_derived_from :: "exec_env \<Rightarrow> 's facade \<Rightarrow> derived_from_stmt \<Rightarrow> ('s, payload) ex" where
  "execute_derived_from E F d = xbind (xlift (parse_hash E (df_span d) (df_hash d))) (\<lambda>h.
     attempt E ''derived_from'' ''DERIVED FROM'' (fc_derived_from F h) (PDerivedFrom (df_hash d)))"

definition execute_related :: "exec_env \<Rightarrow> 's facade \<Rightarrow> related_stmt \<Rightarrow> ('s, payload) ex" where
  "execute_related E F r = attempt E ''related'' ''RELATED''
     (fc_related F (rl_start r) (filter (\<lambda>x. x \<noteq> []) (map trim (split_on (\<lambda>c. c = CHR '','') (rl_relations r))))
       (case rl_direction r of Some d \<Rightarrow> d | None \<Rightarrow> ''out'') (case rl_depth r of Some n \<Rightarrow> n | None \<Rightarrow> 2)
       (case rl_limit r of Some n \<Rightarrow> n | None \<Rightarrow> 64))
     (PRelatedEntities (rl_start r))"

definition execute_novelty :: "exec_env \<Rightarrow> 's facade \<Rightarrow> novelty_stmt \<Rightarrow> ('s, payload) ex" where
  "execute_novelty E F v = attempt E ''novelty'' ''NOVELTY''
     (fc_novelty F (nv_text v) (nv_subject v) (nv_relation v) (case nv_limit v of Some n \<Rightarrow> n | None \<Rightarrow> 5))
     (\<lambda>rows. PNoveltyMatches (map (\<lambda>(h, s). JObj [(''hash'', JStr h), (''similarity'', f64_json s)]) rows))"

definition fork_json :: "fork_group \<Rightarrow> json" where
  "fork_json f = JObj [(''heads'', JArr (map JStr (fk_heads f))), (''namespace'', JStr (fk_namespace f)),
     (''relation'', JStr (fk_relation f)), (''subject'', JStr (fk_subject f))]"

definition execute_show_forks :: "exec_env \<Rightarrow> 's facade \<Rightarrow> ('s, payload) ex" where
  "execute_show_forks E F = attempt E ''show_forks'' ''SHOW FORKS'' (fc_open_forks F) (\<lambda>fs. PForks (map fork_json fs))"

definition execute_show_grants :: "exec_env \<Rightarrow> 's facade \<Rightarrow> show_grants_stmt \<Rightarrow> ('s, payload) ex" where
  "execute_show_grants E F g = attempt E ''show_grants'' ''SHOW GRANTS'' (fc_show_grants F (sg_principal g))
     (\<lambda>rows. PGrantList (map grant_row_json rows))"

end
