(* ===== verification/Cal_Run.thy ===== *)
theory Cal_Run
  imports Cal_Exec Cal_Assemble Cal_Lex_Props
begin

text \<open>
  Statements that hold statements, saved queries, \<^verbatim>\<open>LET\<close>, and a query from its text to its
  result (\<^verbatim>\<open>executor.rs\<close> of \<^verbatim>\<open>dejadb-cal\<close>). The recursion over statements and saved queries is
  bounded by a number of levels; \<open>CeStuck\<close> says that it was not enough, and no handler turns
  it into an answer.
\<close>

section \<open>BATCH\<close>

definition entry_query :: "statement batch_entry \<Rightarrow> cal_query" where
  "entry_query e = \<lparr>cq_version = 1, cq_statement = be_statement e, cq_pipeline = be_pipeline e,
     cq_with = be_with e, cq_format = be_format e, cq_let = [], cq_user_vars = be_user_vars e,
     cq_let_values = [], cq_warnings = []\<rparr>"

text \<open>A panic is no error value, and neither is a recursion without end.\<close>

fun is_abort :: "cal_error \<Rightarrow> bool" where
  "is_abort (CePanic _) = True"
| "is_abort CeStuck = True"
| "is_abort _ = False"

text \<open>The failure of one entry is its answer; the rest of the batch goes on.\<close>

definition entry_payload :: "statement \<Rightarrow> ('s, payload) ex \<Rightarrow> ('s, payload) ex" where
  "entry_payload s m st = (case m st of
      (Inl e, st') \<Rightarrow> if is_abort e then (Inl e, st') else (Inr (PUnsupported (statement_type_name s) (cal_display e)), st')
    | (Inr p, st') \<Rightarrow> (Inr p, st'))"

definition execute_batch_entry :: "exec_env \<Rightarrow> exec_config \<Rightarrow> 's exec_parts \<Rightarrow> (statement \<Rightarrow> cal_query \<Rightarrow> ('s, payload) ex)
    \<Rightarrow> statement batch_entry \<Rightarrow> ('s, payload) ex" where
  "execute_batch_entry E C X rec e =
     xbind (entry_payload (be_statement e) (rec (be_statement e) (entry_query e))) (\<lambda>p.
     case apply_pipeline E C p (be_pipeline e) of (p', grouped) \<Rightarrow>
       apply_format_clause X None (be_format e) grouped (be_user_vars e) p')"

fun batch_labeled :: "exec_env \<Rightarrow> exec_config \<Rightarrow> 's exec_parts \<Rightarrow> (statement \<Rightarrow> cal_query \<Rightarrow> ('s, payload) ex)
    \<Rightarrow> span option \<Rightarrow> (string \<times> statement batch_entry) list \<Rightarrow> (string \<times> payload) list
    \<Rightarrow> ('s, (string \<times> payload) list) ex" where
  "batch_labeled E C X rec sp' [] m = xret m"
| "batch_labeled E C X rec sp' ((l, e) # es) m =
     (if bt_has m l then xfail (CeAssembleDuplicateLabel l sp')
      else xbind (execute_batch_entry E C X rec e) (\<lambda>p. batch_labeled E C X rec sp' es (bt_insert l p m)))"

fun batch_positional :: "exec_env \<Rightarrow> exec_config \<Rightarrow> 's exec_parts \<Rightarrow> (statement \<Rightarrow> cal_query \<Rightarrow> ('s, payload) ex)
    \<Rightarrow> nat \<Rightarrow> statement batch_entry list \<Rightarrow> (string \<times> payload) list \<Rightarrow> ('s, (string \<times> payload) list) ex" where
  "batch_positional E C X rec i [] m = xret m"
| "batch_positional E C X rec i (e # es) m =
     xbind (execute_batch_entry E C X rec e) (\<lambda>p.
       batch_positional E C X rec (Suc i) es (bt_insert (nat_str i) p m))"

definition execute_batch :: "exec_env \<Rightarrow> exec_config \<Rightarrow> 's exec_parts \<Rightarrow> (statement \<Rightarrow> cal_query \<Rightarrow> ('s, payload) ex)
    \<Rightarrow> statement batch_stmt \<Rightarrow> ('s, payload) ex" where
  "execute_batch E C X rec b =
     xbind (case bs_labeled b of
         Some es \<Rightarrow> batch_labeled E C X rec (bs_span b) es []
       | None \<Rightarrow> batch_positional E C X rec 0 (bs_statements b) []) (\<lambda>m. xret (PBatch m))"

section \<open>COALESCE and the set operations\<close>

definition payload_non_empty :: "payload \<Rightarrow> bool" where
  "payload_non_empty p = (case p of
      PGrains gs _ \<Rightarrow> gs \<noteq> [] | PExists b _ \<Rightarrow> b | PHistory vs \<Rightarrow> vs \<noteq> [] | PCount n \<Rightarrow> 0 < n | _ \<Rightarrow> True)"

definition coalesce_warning :: "nat \<Rightarrow> nat \<Rightarrow> string" where
  "coalesce_warning i left = ''COALESCE: branch '' @ nat_str i @ '' returned results; short-circuited ''
     @ nat_str left @ '' remaining branch(es)''"

fun coalesce_branches :: "(statement \<Rightarrow> cal_query \<Rightarrow> ('s, payload) ex) \<Rightarrow> cal_query \<Rightarrow> statement option
    \<Rightarrow> nat \<Rightarrow> statement coalesce_branch list \<Rightarrow> ('s, payload) ex" where
  "coalesce_branches rec q els i [] =
     (case els of Some s \<Rightarrow> rec s (surrogate q s) | None \<Rightarrow> xret (PGrains [] (Some 0)))"
| "coalesce_branches rec q els i (b # bs) =
     xbind (rec (cb_query b) (surrogate q (cb_query b))) (\<lambda>p.
       if payload_non_empty p
       then xbind (xwarn (coalesce_warning (Suc i) (length bs + (if els = None then 0 else 1)))) (\<lambda>_. xret p)
       else coalesce_branches rec q els (Suc i) bs)"

definition coalesce_recall :: "statement coalesce_stmt \<Rightarrow> statement recall_stmt" where
  "coalesce_recall c = RecallStmt (cs_grain_type c) None (cs_where c) None None None None None None None None (cs_span c)"

definition first_grain :: "payload \<Rightarrow> payload" where
  "first_grain p = (case p of PGrains gs _ \<Rightarrow> PGrains (take 1 gs) (Some (length (take 1 gs))) | _ \<Rightarrow> p)"

definition execute_coalesce :: "exec_env \<Rightarrow> exec_config \<Rightarrow> 's facade \<Rightarrow> 's exec_parts \<Rightarrow> (statement \<Rightarrow> cal_query \<Rightarrow> ('s, payload) ex)
    \<Rightarrow> statement coalesce_stmt \<Rightarrow> cal_query \<Rightarrow> ('s, payload) ex" where
  "execute_coalesce E C F X rec c q =
     (if cs_branches c \<noteq> [] then coalesce_branches rec q (cs_else c) 0 (cs_branches c)
      else xbind (execute_recall E C F X rec (coalesce_recall c) q) (\<lambda>p. xret (first_grain p)))"

fun operand_grains :: "(statement \<Rightarrow> cal_query \<Rightarrow> ('s, payload) ex) \<Rightarrow> cal_query \<Rightarrow> statement list
    \<Rightarrow> ('s, grain_result list list) ex" where
  "operand_grains rec q [] = xret []"
| "operand_grains rec q (s # ss) =
     xbind (rec s (surrogate q s)) (\<lambda>p. xbind (operand_grains rec q ss) (\<lambda>gss. xret (extract_grains p # gss)))"

definition combine_operands :: "set_op \<Rightarrow> grain_result list list \<Rightarrow> payload" where
  "combine_operands k gss = (case gss of
      [] \<Rightarrow> PGrains [] (Some 0)
    | gs # rest \<Rightarrow> (let r = foldl (apply_set_op k) gs rest in PGrains r (Some (length r))))"

definition execute_set_op :: "(statement \<Rightarrow> cal_query \<Rightarrow> ('s, payload) ex) \<Rightarrow> set_op \<Rightarrow> statement list \<Rightarrow> cal_query
    \<Rightarrow> ('s, payload) ex" where
  "execute_set_op rec k ss q = xbind (operand_grains rec q ss) (\<lambda>gss. xret (combine_operands k gss))"

section \<open>Saved queries\<close>

definition escape_literal :: "string \<Rightarrow> string" where
  "escape_literal s = concat (map (\<lambda>c. if c = CHR 0x5C \<or> c = CHR 0x22 then [CHR 0x5C, c] else [c]) s)"

fun value_to_cal_literal :: "exec_env \<Rightarrow> cval \<Rightarrow> string" where
  "value_to_cal_literal E (CvString v) = dq (escape_literal v)"
| "value_to_cal_literal E (CvNumber v) = ce_show (xe_cal E) v"
| "value_to_cal_literal E (CvBoolean b) = bool_str b"
| "value_to_cal_literal E (CvHash v) = ''#'' @ v"
| "value_to_cal_literal E (CvParameter n) = ''$'' @ n"
| "value_to_cal_literal E (CvArray vs) = ''['' @ join '', '' (map (value_to_cal_literal E) vs) @ '']''"

text \<open>\<^verbatim>\<open>str::replace\<close>: the matches from left to right, none overlapping another.\<close>

fun replace_all :: "'a list \<Rightarrow> 'a list \<Rightarrow> 'a list \<Rightarrow> 'a list" where
  "replace_all p r [] = []"
| "replace_all p r (x # xs) =
     (if p \<noteq> [] \<and> starts_with (x # xs) p then r @ replace_all p r (drop (length p - 1) xs)
      else x # replace_all p r xs)"

definition param_values :: "exec_env \<Rightarrow> query_param list \<Rightarrow> (string \<times> cval) list \<Rightarrow> (string \<times> string) list" where
  "param_values E ps bs =
     fold (\<lambda>(n, v). bt_insert n (value_to_cal_literal E v)) bs
       (fold (\<lambda>p m. case qp_default p of None \<Rightarrow> m | Some v \<Rightarrow> bt_insert (qp_name p) (value_to_cal_literal E v) m) ps [])"

definition missing_param :: "query_param list \<Rightarrow> (string \<times> string) list \<Rightarrow> string option" where
  "missing_param ps vals =
     map_option qp_name (find (\<lambda>p. qp_default p = None \<and> \<not> bt_has vals (qp_name p)) ps)"

definition unused_warnings :: "string \<Rightarrow> query_param list \<Rightarrow> (string \<times> cval) list \<Rightarrow> string list" where
  "unused_warnings name ps bs =
     map (\<lambda>(n, _). ''CAL-W006: Parameter '' @ dq (''$'' @ n) @ '' supplied but not used in query '' @ dq name)
       (filter (\<lambda>(n, _). n \<notin> set (map qp_name ps)) bs)"

definition substitute_params :: "exec_env \<Rightarrow> (string \<times> string) list \<Rightarrow> utext \<Rightarrow> utext" where
  "substitute_params E vals body =
     fold (\<lambda>(n, lit). replace_all (utext_of (''$'' @ n)) (utext_of lit)) (xe_iter E vals) body"

text \<open>\<^verbatim>\<open>mem::discriminant\<close>.\<close>

primrec with_discriminant :: "with_option \<Rightarrow> nat" where
  "with_discriminant WoSuperseded = 0"
| "with_discriminant WoScoreBreakdown = 1"
| "with_discriminant WoExplanation = 2"
| "with_discriminant WoProvenance = 3"
| "with_discriminant WoContradictionDetection = 4"
| "with_discriminant (WoDiversity _) = 5"
| "with_discriminant (WoDedup _) = 6"
| "with_discriminant (WoProgressiveDisclosure _) = 7"
| "with_discriminant (WoConsistency _) = 8"
| "with_discriminant (WoLocale _) = 9"
| "with_discriminant (WoCache _) = 10"
| "with_discriminant (WoRerank _) = 11"
| "with_discriminant (WoLlmRerank _) = 12"
| "with_discriminant WoQueryExpansion = 13"
| "with_discriminant WoQueryDecompose = 14"
| "with_discriminant WoHyde = 15"
| "with_discriminant WoConflictResolution = 16"
| "with_discriminant WoIncludeSources = 17"
| "with_discriminant WoAnnotateRelativeTime = 18"
| "with_discriminant (WoRecencyWeight _) = 19"
| "with_discriminant (WoMinScore _) = 20"
| "with_discriminant (WoMultiHop _) = 21"
| "with_discriminant (WoSessionAffinity _) = 22"
| "with_discriminant (WoSubjectAffinity _) = 23"
| "with_discriminant (WoSessionCoverage _) = 24"
| "with_discriminant (WoMaxNamespaces _) = 25"
| "with_discriminant (WoExhaustive _) = 26"
| "with_discriminant (WoSessionCensus _ _) = 27"
| "with_discriminant WoAggregationIntent = 28"
| "with_discriminant WoPreferenceEnrichment = 29"

fun merge_with :: "with_option \<Rightarrow> with_option list \<Rightarrow> with_option list" where
  "merge_with w [] = [w]"
| "merge_with w (x # xs) = (if with_discriminant x = with_discriminant w then w # xs else x # merge_with w xs)"

definition or_insert :: "string \<times> 'a \<Rightarrow> (string \<times> 'a) list \<Rightarrow> (string \<times> 'a) list" where
  "or_insert kv m = (if bt_has m (fst kv) then m else bt_insert (fst kv) (snd kv) m)"

definition merge_queries :: "cal_query \<Rightarrow> cal_query \<Rightarrow> cal_query" where
  "merge_queries outer q =
     q\<lparr>cq_with := fold merge_with (cq_with outer) (cq_with q),
       cq_format := (if cq_format outer = None then cq_format q else cq_format outer),
       cq_pipeline := cq_pipeline q @ cq_pipeline outer,
       cq_user_vars := fold or_insert (cq_user_vars outer) (cq_user_vars q)\<rparr>"

text \<open>The saved text with its parameters, parsed, and checked again to be read-only.\<close>

definition saved_query :: "exec_env \<Rightarrow> query_entry \<Rightarrow> (string \<times> string) list \<Rightarrow> span option \<Rightarrow> cal_error + cal_query" where
  "saved_query E entry vals sp' =
     (case cal_parse (xe_cal E) (substitute_params E vals (qe_body entry)) of
        Inl e \<Rightarrow> Inl (if is_abort e then e else CeInvalidQueryBody (cal_display e) sp')
      | Inr q \<Rightarrow> and_then (check_read_only_statement (case sp' of Some s \<Rightarrow> s | None \<Rightarrow> span_zero) (cq_statement q))
          (\<lambda>_. Inr q))"

text \<open>The time of the last run is recorded at best.\<close>

definition execute_run_query :: "exec_env \<Rightarrow> 's facade \<Rightarrow> (statement \<Rightarrow> cal_query \<Rightarrow> ('s, payload) ex) \<Rightarrow> run_query_stmt
    \<Rightarrow> cal_query \<Rightarrow> ('s, payload) ex" where
  "execute_run_query E F rec r q =
     xbind (xget (fc_get_query F (rq_name r))) (\<lambda>found. case found of
        None \<Rightarrow> xfail (CeRun (XeQueryNotFound (rq_name r) (rq_span r)))
      | Some entry \<Rightarrow>
          (let vals = param_values E (qe_params entry) (rq_bindings r)
           in case missing_param (qe_params entry) vals of
                Some n \<Rightarrow> xfail (CeRun (XeMissingQueryParam n (rq_name r) (rq_span r)))
              | None \<Rightarrow>
                  xbind (xwarns (unused_warnings (rq_name r) (qe_params entry) (rq_bindings r))) (\<lambda>_.
                  xbind (xlift (saved_query E entry vals (rq_span r))) (\<lambda>parsed.
                  let m = merge_queries q parsed
                  in xbind (rec (cq_statement m) m) (\<lambda>p.
                  xbind (xcall (fc_update_query_last_run F (rq_name r))) (\<lambda>_. xret p))))))"

section \<open>Dispatch\<close>

definition revert_undefined :: payload where
  "revert_undefined = PUnsupported ''revert''
     ''Tier 1 REVERT semantics are not yet defined. Use EXPLAIN to preview without execution.''"

definition execute_statement :: "exec_env \<Rightarrow> exec_config \<Rightarrow> 's facade \<Rightarrow> 's governance_host option \<Rightarrow> 's exec_parts
    \<Rightarrow> (statement \<Rightarrow> cal_query \<Rightarrow> ('s, payload) ex) \<Rightarrow> statement \<Rightarrow> cal_query \<Rightarrow> ('s, payload) ex" where
  "execute_statement E C F G X rec s q = xbind (xlift (check_caller_scope C s)) (\<lambda>_. case s of
      SRecall r \<Rightarrow> execute_recall E C F X rec r q
    | SExists x \<Rightarrow> execute_exists E C F x (cq_let_values q)
    | SHistory y \<Rightarrow> execute_history E C F y (cq_let_values q)
    | SDescribe d \<Rightarrow> px_describe X d
    | SExplain inner _ \<Rightarrow> execute_explain E C F inner q
    | SBatch b \<Rightarrow> execute_batch E C X rec b
    | SCoalesce c \<Rightarrow> execute_coalesce E C F X rec c q
    | SSetOp k ss _ \<Rightarrow> execute_set_op rec k ss q
    | SAssemble a \<Rightarrow> execute_assemble E C F X rec a q
    | SAdd a \<Rightarrow> execute_add E C F a
    | SSupersede u \<Rightarrow> execute_supersede E C F u
    | SAddWorkflow w \<Rightarrow> execute_add_workflow E C F w
    | SSupersedeWorkflow w \<Rightarrow> execute_supersede_workflow E C F w
    | SAccumulate a \<Rightarrow> execute_accumulate E C F a
    | SRevert _ \<Rightarrow> xret revert_undefined
    | SForget f \<Rightarrow> execute_forget E C F f
    | SDefineTemplate d \<Rightarrow> execute_define_template E C F d
    | SDropTemplate d \<Rightarrow> need_destructive C ''drop_template'' (attempt E ''drop_template'' ''DROP TEMPLATE''
        (fc_drop_template F (dp_name d)) (\<lambda>_. PTemplateDropped (dp_name d)))
    | SDefineQuery d \<Rightarrow> execute_define_query E C F d
    | SDropQuery d \<Rightarrow> need_destructive C ''drop_query'' (attempt E ''drop_query'' ''DROP QUERY''
        (fc_drop_query F (dp_name d)) (\<lambda>_. PQueryDropped (dp_name d)))
    | SRunQuery r \<Rightarrow> execute_run_query E F rec r q
    | SPurge p \<Rightarrow> execute_purge E C F p
    | SReportSubject r \<Rightarrow> execute_report_subject E F r
    | SEntityAt a \<Rightarrow> execute_entity_at E F a
    | SRunTrace r \<Rightarrow> execute_run_trace E F r
    | SRunsTouching r \<Rightarrow> execute_runs_touching E F r
    | SDerivedFrom d \<Rightarrow> execute_derived_from E F d
    | SMerge m \<Rightarrow> execute_merge E C F m
    | SRelated r \<Rightarrow> execute_related E F r
    | SNovelty v \<Rightarrow> execute_novelty E F v
    | SShowForks _ \<Rightarrow> execute_show_forks E F
    | SRemember r \<Rightarrow> execute_remember E C F r
    | SGrant g \<Rightarrow> execute_grant E C F g
    | SRevoke g \<Rightarrow> execute_revoke E C F g
    | SApprove g \<Rightarrow> execute_review E G True g
    | SReject g \<Rightarrow> execute_review E G False g
    | SApplyRec g \<Rightarrow> execute_apply E C G g
    | SRollbackRec g \<Rightarrow> execute_rollback E G g
    | SRunLoop r \<Rightarrow> execute_run_loop E G r
    | SShowGrants g \<Rightarrow> execute_show_grants E F g)"

text \<open>At most \<open>n\<close> statements inside each other.\<close>

primrec execute_n :: "exec_env \<Rightarrow> exec_config \<Rightarrow> 's facade \<Rightarrow> 's governance_host option \<Rightarrow> 's exec_parts \<Rightarrow> nat
    \<Rightarrow> statement \<Rightarrow> cal_query \<Rightarrow> ('s, payload) ex" where
  "execute_n E C F G X 0 = (\<lambda>s q. xfail CeStuck)"
| "execute_n E C F G X (Suc n) = execute_statement E C F G X (execute_n E C F G X n)"

section \<open>LET\<close>

definition MAX_LET_BINDINGS :: nat where "MAX_LET_BINDINGS = 5"
definition MAX_GRAINS_PER_LET :: nat where "MAX_GRAINS_PER_LET = 1000"

datatype let_value = LetGrains "grain_result list" | LetExtracted "string list"

type_synonym let_scope = "(string \<times> let_value) list"

fun let_strings :: "let_value \<Rightarrow> string list" where
  "let_strings (LetExtracted ss) = ss"
| "let_strings (LetGrains gs) = map cg_hash gs"

definition to_values :: "let_scope \<Rightarrow> (string \<times> string list) list" where
  "to_values sc = map (\<lambda>(n, v). (n, let_strings v)) sc"

definition let_resolve :: "let_scope \<Rightarrow> string \<Rightarrow> cal_error + let_value" where
  "let_resolve sc n = ok_or (CeRun (XeUnboundParameter n None)) (map_of sc n)"

fun extract_values :: "extractor \<Rightarrow> grain_result list \<Rightarrow> string list" where
  "extract_values ExSubjects gs = List.map_filter (\<lambda>g. str_field g ''subject'') gs"
| "extract_values ExObjects gs = List.map_filter (\<lambda>g. str_field g ''object'') gs"
| "extract_values ExHashes gs = map cg_hash gs"

definition cap_grains :: "string \<Rightarrow> grain_result list \<Rightarrow> ('s, grain_result list) ex" where
  "cap_grains name gs =
     (if MAX_GRAINS_PER_LET < length gs
      then xbind (xwarn (''LET $'' @ name @ '' produced '' @ nat_str (length gs) @ '' grains (capped to ''
             @ nat_str MAX_GRAINS_PER_LET @ '')'')) (\<lambda>_. xret (take MAX_GRAINS_PER_LET gs))
      else xret gs)"

definition let_query :: "cal_query \<Rightarrow> let_scope \<Rightarrow> statement \<Rightarrow> cal_query" where
  "let_query q sc s = (surrogate q s)\<lparr>cq_with := [], cq_let_values := to_values sc\<rparr>"

fun evaluate_lets :: "(statement \<Rightarrow> cal_query \<Rightarrow> ('s, payload) ex) \<Rightarrow> cal_query \<Rightarrow> let_binding list \<Rightarrow> let_scope
    \<Rightarrow> ('s, let_scope) ex" where
  "evaluate_lets run q [] sc = xret sc"
| "evaluate_lets run q (b # bs) sc =
     (if bt_has sc (lb_name b) then xfail (CeRun (XeDuplicateParameter (lb_name b) (lb_span b)))
      else xbind (run (lb_source b) (let_query q sc (lb_source b))) (\<lambda>p.
           xbind (cap_grains (lb_name b) (extract_grains p)) (\<lambda>gs.
           evaluate_lets run q bs (bt_insert (lb_name b) (LetExtracted (extract_values (lb_extractor b) gs)) sc))))"

definition let_evaluate :: "(statement \<Rightarrow> cal_query \<Rightarrow> ('s, payload) ex) \<Rightarrow> cal_query \<Rightarrow> ('s, let_scope) ex" where
  "let_evaluate run q =
     (if MAX_LET_BINDINGS < length (cq_let q)
      then xfail (CeRun (XeTooManyLetBindings (length (cq_let q)) MAX_LET_BINDINGS
             (case cq_let q of [] \<Rightarrow> None | b # _ \<Rightarrow> lb_span b)))
      else evaluate_lets run q (cq_let q) [])"

definition bind_lets :: "(statement \<Rightarrow> cal_query \<Rightarrow> ('s, payload) ex) \<Rightarrow> cal_query \<Rightarrow> ('s, cal_query) ex" where
  "bind_lets run q =
     (if cq_let q = [] then xret q
      else xbind (let_evaluate run q) (\<lambda>sc. xret (q\<lparr>cq_let_values := to_values sc\<rparr>)))"

section \<open>A query from its text to its result\<close>

record exec_result =
  xr_query :: utext
  xr_query_hash :: string
  xr_result :: payload
  xr_warnings :: "string list"
  xr_version :: nat
  xr_statement_type :: string
  xr_result_count :: nat

definition compute_query_hash :: "exec_env \<Rightarrow> utext \<Rightarrow> string" where
  "compute_query_hash E input = xe_hex E (sha256 (xe_core E) (utf8 (ce_nfc (xe_cal E) (utrim input))))"

definition check_stages :: "cal_query \<Rightarrow> cal_error + unit" where
  "check_stages q = (case cq_statement q of
      SRecall r \<Rightarrow> validate_pipeline_fields (cq_pipeline q) (rs_grain_type r) | _ \<Rightarrow> Inr ())"

definition run_query :: "exec_env \<Rightarrow> exec_config \<Rightarrow> 's exec_parts \<Rightarrow> (statement \<Rightarrow> cal_query \<Rightarrow> ('s, payload) ex)
    \<Rightarrow> cal_query \<Rightarrow> ('s, payload) ex" where
  "run_query E C X run q0 =
     xbind (bind_lets run q0) (\<lambda>q.
     xbind (xlift (check_stages q)) (\<lambda>_.
     xbind (run (cq_statement q) q) (\<lambda>p.
     case apply_pipeline E C p (cq_pipeline q) of (p', grouped) \<Rightarrow>
       apply_format_clause X None (cq_format q) grouped (cq_user_vars q) p')))"

definition execute_parsed :: "exec_env \<Rightarrow> exec_config \<Rightarrow> 's facade \<Rightarrow> 's governance_host option \<Rightarrow> 's exec_parts \<Rightarrow> nat
    \<Rightarrow> cal_query \<Rightarrow> utext \<Rightarrow> 's \<Rightarrow> (cal_error + exec_result) \<times> 's" where
  "execute_parsed E C F G X n q input s =
     (case run_query E C X (execute_n E C F G X n) q (s, []) of
        (Inl e, s', _) \<Rightarrow> (Inl e, s')
      | (Inr p, s', ws) \<Rightarrow> (Inr \<lparr>xr_query = input, xr_query_hash = compute_query_hash E input, xr_result = p,
            xr_warnings = map warning_display (cq_warnings q) @ ws, xr_version = cq_version q,
            xr_statement_type = statement_type_name (cq_statement q),
            xr_result_count = count_payload_results p\<rparr>, s'))"

definition execute :: "exec_env \<Rightarrow> exec_config \<Rightarrow> 's facade \<Rightarrow> 's governance_host option \<Rightarrow> 's exec_parts \<Rightarrow> nat
    \<Rightarrow> utext \<Rightarrow> 's \<Rightarrow> (cal_error + exec_result) \<times> 's" where
  "execute E C F G X n input s =
     (case cal_parse (xe_cal E) input of
        Inl e \<Rightarrow> (Inl e, s)
      | Inr q \<Rightarrow> execute_parsed E C F G X n q input s)"

end
