(* ===== verification/Cal_Grains_Props.thy ===== *)
theory Cal_Grains_Props
  imports Cal_Pipeline Cal_Lex_Props "HOL-Library.Multiset" "HOL-Library.Sublist"
begin

text \<open>
  What the operations on recalled grains promise: \<^verbatim>\<open>ORDER BY\<close> sorts by a consistent order and
  is stable, \<^verbatim>\<open>GROUP BY\<close> makes groups without losing a grain, and the set operations are set
  operations on content addresses.
\<close>

section \<open>Sorting by a comparison function\<close>

text \<open>What \<^verbatim>\<open>sort_by\<close> asks of its comparison on the elements it is used on.\<close>

locale total_cmp =
  fixes c :: "'a \<Rightarrow> 'a \<Rightarrow> ordering" and A :: "'a set"
  assumes swap: "x \<in> A \<Longrightarrow> y \<in> A \<Longrightarrow> c y x = ord_reverse (c x y)"
    and trans: "x \<in> A \<Longrightarrow> y \<in> A \<Longrightarrow> z \<in> A \<Longrightarrow> c x y \<noteq> OrdGreater \<Longrightarrow> c y z \<noteq> OrdGreater \<Longrightarrow> c x z \<noteq> OrdGreater"

lemma set_insert_by [simp]: "set (insert_by c x ys) = insert x (set ys)"
  by (induction ys) auto

lemma mset_insert_by [simp]: "mset (insert_by c x ys) = add_mset x (mset ys)"
  by (induction ys) auto

lemma mset_sort_by [simp]: "mset (sort_by c xs) = mset xs"
  by (induction xs) auto

lemma set_sort_by [simp]: "set (sort_by c xs) = set xs"
  by (rule mset_eq_setD) simp

lemma length_sort_by [simp]: "length (sort_by c xs) = length xs"
  by (rule mset_eq_length) simp

lemma ord_reverse_iff [simp]:
  "ord_reverse a = OrdGreater \<longleftrightarrow> a = OrdLess" "ord_reverse a = OrdLess \<longleftrightarrow> a = OrdGreater"
  "ord_reverse a = OrdEqual \<longleftrightarrow> a = OrdEqual" "ord_reverse (ord_reverse a) = a"
  by (cases a; simp)+

context total_cmp
begin

abbreviation upto :: "'a \<Rightarrow> 'a \<Rightarrow> bool" where
  "upto x y \<equiv> c x y \<noteq> OrdGreater"

lemma greater_upto: "x \<in> A \<Longrightarrow> y \<in> A \<Longrightarrow> c x y = OrdGreater \<Longrightarrow> upto y x"
  using swap [of x y] by simp

lemma same_class:
  assumes "x \<in> A" "y \<in> A" "z \<in> A" "c z x = OrdEqual" "c z y = OrdEqual"
  shows "c x y = OrdEqual"
proof -
  have "upto x y" "upto y x"
    using assms swap [of z x] swap [of z y] trans [of x z y] trans [of y z x] by simp_all
  then show ?thesis using assms(1,2) swap [of x y] by (cases "c x y") simp_all
qed

lemma insert_sorted:
  "x \<in> A \<Longrightarrow> set ys \<subseteq> A \<Longrightarrow> sorted_wrt upto ys \<Longrightarrow> sorted_wrt upto (insert_by c x ys)"
proof (induction ys)
  case (Cons y ys)
  show ?case
  proof (cases "c x y = OrdGreater")
    case True
    then show ?thesis using Cons greater_upto [of x y] by auto
  next
    case False
    then have "upto x z" if "z \<in> set ys" for z
      using that Cons.prems trans [of x y z] by auto
    then show ?thesis using False Cons.prems by auto
  qed
qed simp

lemma sort_sorted: "set xs \<subseteq> A \<Longrightarrow> sorted_wrt upto (sort_by c xs)"
  by (induction xs) (simp_all add: insert_sorted)

lemma insert_stable:
  "x \<in> A \<Longrightarrow> z \<in> A \<Longrightarrow> set ys \<subseteq> A \<Longrightarrow>
    filter (\<lambda>y. c z y = OrdEqual) (insert_by c x ys) = filter (\<lambda>y. c z y = OrdEqual) (x # ys)"
  by (induction ys) (auto dest: same_class [of x _ z])

lemma sort_stable:
  assumes "set xs \<subseteq> A" "z \<in> A"
  shows "filter (\<lambda>y. c z y = OrdEqual) (sort_by c xs) = filter (\<lambda>y. c z y = OrdEqual) xs"
  using assms by (induction xs) (simp_all add: insert_stable)

end

section \<open>The order of \<^verbatim>\<open>ORDER BY\<close>\<close>

text \<open>
  Values of different kinds are compared by their JSON text, so the kind decides by the first
  character: strings, numbers, arrays, \<^verbatim>\<open>false\<close>, \<^verbatim>\<open>null\<close>, \<^verbatim>\<open>true\<close>, objects.
\<close>

fun text_rank :: "json \<Rightarrow> nat" where
  "text_rank (JStr _) = 0"
| "text_rank (JInt _) = 1"
| "text_rank (JFloat _) = 1"
| "text_rank (JArr _) = 2"
| "text_rank (JBool b) = (if b then 5 else 3)"
| "text_rank JNull = 4"
| "text_rank (JObj _) = 6"

definition char_rank :: "char \<Rightarrow> nat" where
  "char_rank c = (let n = code_of c in
     if n = 0x22 then 0 else if n = 0x2D \<or> (0x30 \<le> n \<and> n \<le> 0x39) then 1 else if n = 0x5B then 2
     else if n = 0x66 then 3 else if n = 0x6E then 4 else if n = 0x74 then 5 else if n = 0x7B then 6 else 7)"

text \<open>The text of a JSON value starts as the grammar of JSON says.\<close>

definition json_starts :: "exec_env \<Rightarrow> bool" where
  "json_starts E = (\<forall>v. xe_json E v \<noteq> [] \<and> char_rank (hd (xe_json E v)) = text_rank v)"

text \<open>JSON has no infinite numbers.\<close>

fun finite_number :: "json \<Rightarrow> bool" where
  "finite_number (JFloat x) = f64_is_finite x"
| "finite_number _ = True"

definition finite_field :: "string \<Rightarrow> grain_result \<Rightarrow> bool" where
  "finite_field f g = (case json_field (cg_fields g) f of None \<Rightarrow> True | Some v \<Rightarrow> finite_number v)"

lemma text_rank_le: "text_rank v \<le> 6"
  by (cases v) auto

lemma char_rank_less: "char_rank a < char_rank b \<Longrightarrow> char_rank b \<le> 6 \<Longrightarrow> a < b"
  by (auto simp: char_rank_def Let_def less_char_def code_of_def split: if_splits)

lemma ord_cmp_less: "a < b \<Longrightarrow> ord_cmp a b = OrdLess" "a < b \<Longrightarrow> ord_cmp b a = OrdGreater"
  by (auto simp: ord_cmp_def)

lemma text_less:
  assumes "json_starts E" "text_rank v < text_rank w"
  shows "xe_json E v < xe_json E w"
proof -
  have "xe_json E v \<noteq> []" "xe_json E w \<noteq> []" "char_rank (hd (xe_json E v)) = text_rank v"
    "char_rank (hd (xe_json E w)) = text_rank w"
    using assms(1) by (simp_all add: json_starts_def)
  moreover have "hd (xe_json E v) < hd (xe_json E w)"
    using calculation assms(2) text_rank_le [of w] by (intro char_rank_less) simp_all
  ultimately show ?thesis by (cases "xe_json E v"; cases "xe_json E w") simp_all
qed

lemma not_numbers: "text_rank v < text_rank w \<Longrightarrow> as_f64 r v = None \<or> as_f64 r w = None"
  by (cases v; cases w) simp_all

lemma not_strings: "text_rank v < text_rank w \<Longrightarrow> as_str v = None \<or> as_str w = None"
  by (cases v; cases w) simp_all

lemma not_bools:
  "text_rank v < text_rank w \<Longrightarrow> as_bool v = None \<or> as_bool w = None \<or> (v = JBool False \<and> w = JBool True)"
  by (cases v; cases w) (simp_all split: if_splits)

lemma json_cmp_rank:
  assumes "json_starts E" "text_rank v < text_rank w"
  shows "json_cmp E v w = OrdLess" "json_cmp E w v = OrdGreater"
proof -
  have "xe_json E v < xe_json E w" by (rule text_less [OF assms])
  then have t: "ord_cmp (xe_json E v) (xe_json E w) = OrdLess" "ord_cmp (xe_json E w) (xe_json E v) = OrdGreater"
    by (simp_all add: ord_cmp_less)
  show "json_cmp E v w = OrdLess" "json_cmp E w v = OrdGreater"
    using t not_numbers [OF assms(2), of "xe_rnd E"] not_strings [OF assms(2)] not_bools [OF assms(2)]
    by (auto simp: json_cmp_def ord_cmp_def [of False True] ord_cmp_def [of True False] split: option.splits)
qed

text \<open>Values of one kind: numbers by value, all others by a text.\<close>

fun text_key :: "exec_env \<Rightarrow> json \<Rightarrow> string" where
  "text_key E (JStr s) = s"
| "text_key E v = xe_json E v"

fun number_key :: "exec_env \<Rightarrow> json \<Rightarrow> rat" where
  "number_key E (JInt i) = xe_rnd E i"
| "number_key E (JFloat (Finite q)) = q"
| "number_key E _ = 0"

lemma finite_cmp: "cmp_or_equal (f64_partial_cmp (Finite a) (Finite b)) = ord_cmp a b"
  by (simp add: f64_partial_cmp_def cmp_or_equal_def ord_cmp_def)

lemma ord_cmp_refl: "ord_cmp a a = OrdEqual"
  by (simp add: ord_cmp_def)

lemma same_rank:
  assumes "text_rank v = text_rank w" "finite_number v" "finite_number w"
  shows "json_cmp E v w = (if text_rank v = 1 then ord_cmp (number_key E v) (number_key E w)
     else ord_cmp (text_key E v) (text_key E w))"
proof (cases "text_rank v = 1")
  case True
  then have "as_f64 (xe_rnd E) v = Some (Finite (number_key E v))" "as_f64 (xe_rnd E) w = Some (Finite (number_key E w))"
    using assms by (cases v; cases w; simp add: f64_is_finite_def split: if_splits f64.splits)+
  then show ?thesis using True by (simp add: json_cmp_def finite_cmp)
next
  case False
  consider a b where "v = JStr a" "w = JStr b" | a b where "v = JArr a" "w = JArr b" | a b where "v = JObj a" "w = JObj b"
    | "v = JNull" "w = JNull" | b where "v = JBool b" "w = JBool b"
    by (cases v; cases w) (use False assms(1) in \<open>simp_all split: if_splits\<close>)
  then show ?thesis by cases (simp_all add: json_cmp_def ord_cmp_refl)
qed

lemma ord_cmp_swap: "ord_cmp b a = ord_reverse (ord_cmp a b)"
  by (auto simp: ord_cmp_def)

lemma ord_cmp_upto: "ord_cmp a b \<noteq> OrdGreater \<longleftrightarrow> a \<le> b"
  by (auto simp: ord_cmp_def)

lemma json_cmp_swap:
  assumes "json_starts E" "finite_number v" "finite_number w"
  shows "json_cmp E w v = ord_reverse (json_cmp E v w)"
proof (cases "text_rank v" "text_rank w" rule: linorder_cases)
  case less
  then show ?thesis using json_cmp_rank [OF assms(1) less] by simp
next
  case equal
  show ?thesis
    unfolding same_rank [OF equal assms(2,3)] same_rank [OF equal [symmetric] assms(3,2)] equal
    using ord_cmp_swap [of "number_key E v" "number_key E w"] ord_cmp_swap [of "text_key E v" "text_key E w"] by simp
next
  case greater
  then show ?thesis using json_cmp_rank [OF assms(1) greater] by simp
qed

lemma json_cmp_upto:
  assumes "json_starts E" "json_cmp E v w \<noteq> OrdGreater" shows "text_rank v \<le> text_rank w"
  using json_cmp_rank(2) [OF assms(1), of w v] assms(2) by (rule_tac ccontr) simp

lemma json_cmp_trans:
  assumes E: "json_starts E" and fin: "finite_number u" "finite_number v" "finite_number w"
    and uv: "json_cmp E u v \<noteq> OrdGreater" and vw: "json_cmp E v w \<noteq> OrdGreater"
  shows "json_cmp E u w \<noteq> OrdGreater"
proof (cases "text_rank u < text_rank w")
  case True
  then show ?thesis using json_cmp_rank(1) [OF E True] by simp
next
  case False
  then have r: "text_rank u = text_rank v" "text_rank v = text_rank w" "text_rank u = text_rank w"
    using json_cmp_upto [OF E uv] json_cmp_upto [OF E vw] by simp_all
  note c = same_rank [OF r(1) fin(1,2), of E] same_rank [OF r(2) fin(2,3), of E] same_rank [OF r(3) fin(1,3), of E]
  show ?thesis
  proof (cases "text_rank u = 1")
    case True
    then have "text_rank v = 1" using r by simp
    with True show ?thesis using uv vw unfolding c by (simp add: ord_cmp_upto)
  next
    case False
    then have "text_rank v \<noteq> 1" using r by simp
    with False uv vw show ?thesis unfolding c by (simp add: ord_cmp_upto)
  qed
qed

definition sortable :: "exec_env \<Rightarrow> string \<Rightarrow> grain_result set" where
  "sortable E f = {g. json_starts E \<and> finite_field f g}"

definition field_cmp :: "exec_env \<Rightarrow> string \<Rightarrow> grain_result \<Rightarrow> grain_result \<Rightarrow> ordering" where
  "field_cmp E f a b = compare_json_values E (json_field (cg_fields a) f) (json_field (cg_fields b) f)"

lemma order_cmp_field: "order_cmp E f d a b = (if d then ord_reverse (field_cmp E f a b) else field_cmp E f a b)"
  by (simp add: order_cmp_def field_cmp_def Let_def)

lemma field_cmp_swap:
  "a \<in> sortable E f \<Longrightarrow> b \<in> sortable E f \<Longrightarrow> field_cmp E f b a = ord_reverse (field_cmp E f a b)"
  using json_cmp_swap [of E "the (json_field (cg_fields a) f)" "the (json_field (cg_fields b) f)"]
  by (cases "json_field (cg_fields a) f"; cases "json_field (cg_fields b) f")
     (simp_all add: sortable_def finite_field_def field_cmp_def)

lemma field_cmp_trans:
  assumes "a \<in> sortable E f" "b \<in> sortable E f" "g \<in> sortable E f"
    and "field_cmp E f a b \<noteq> OrdGreater" "field_cmp E f b g \<noteq> OrdGreater"
  shows "field_cmp E f a g \<noteq> OrdGreater"
proof -
  let ?v = "\<lambda>g. json_field (cg_fields g) f"
  have E: "json_starts E" using assms(1) by (simp add: sortable_def)
  have fin: "finite_number x" if "?v h = Some x" "h \<in> sortable E f" for x h
    using that by (simp add: sortable_def finite_field_def)
  show ?thesis
  proof (cases "?v a"; cases "?v b"; cases "?v g")
    fix x y z
    assume v: "?v a = Some x" "?v b = Some y" "?v g = Some z"
    then show ?thesis
      using json_cmp_trans [OF E fin [OF v(1) assms(1)] fin [OF v(2) assms(2)] fin [OF v(3) assms(3)]] assms(4,5)
      by (simp add: field_cmp_def)
  qed (use assms(4,5) in \<open>simp_all add: field_cmp_def\<close>)
qed

lemma order_upto:
  assumes "x \<in> sortable E f" "y \<in> sortable E f"
  shows "order_cmp E f d x y \<noteq> OrdGreater \<longleftrightarrow> (if d then field_cmp E f y x else field_cmp E f x y) \<noteq> OrdGreater"
  by (simp add: order_cmp_field field_cmp_swap [OF assms])

interpretation order_by: total_cmp "order_cmp E f d" "sortable E f" for E f d
proof
  fix x y z
  assume m: "x \<in> sortable E f" "y \<in> sortable E f"
  show "order_cmp E f d y x = ord_reverse (order_cmp E f d x y)"
    by (simp add: order_cmp_field field_cmp_swap [OF m])
  assume z: "z \<in> sortable E f" and "order_cmp E f d x y \<noteq> OrdGreater" "order_cmp E f d y z \<noteq> OrdGreater"
  then show "order_cmp E f d x z \<noteq> OrdGreater"
    using field_cmp_trans [OF m z] field_cmp_trans [OF z m(2,1)]
    unfolding order_upto [OF m] order_upto [OF m(2) z] order_upto [OF m(1) z] by (cases d) simp_all
qed

section \<open>Groups\<close>

lemma value_subset: "mset (case map_of m k of None \<Rightarrow> [] | Some w \<Rightarrow> w) \<subseteq># mset (concat (map snd m))"
  by (auto split: option.splits dest!: map_of_SomeD split_list)

lemma mset_bt_insert:
  "bt_wf m \<Longrightarrow> mset (concat (map snd (bt_insert k v m)))
     = mset v + (mset (concat (map snd m)) - mset (case map_of m k of None \<Rightarrow> [] | Some w \<Rightarrow> w))"
proof (induction k v m rule: bt_insert.induct)
  case (2 k v j w m)
  have wf: "bt_wf m" and less: "\<And>x. x \<in> set (map fst m) \<Longrightarrow> j < x" using 2(2) by (auto simp: bt_wf_def)
  consider "k < j" | "k = j" | "j < k" by force
  then show ?case
  proof cases
    case 1
    then have "map_of m k = None" using less by (fastforce simp: map_of_eq_None_iff)
    moreover have "map_of ((j, w) # m) k = None" using calculation 1 by simp
    ultimately show ?thesis using 1 by (simp del: map_of.simps)
  next
    case 3
    note sub = value_subset [of m k]
    have ne: "k \<noteq> j" "\<not> k < j" using 3 by auto
    then have get: "map_of ((j, w) # m) k = map_of m k" and ins: "bt_insert k v ((j, w) # m) = (j, w) # bt_insert k v m"
      by simp_all
    have "mset (concat (map snd (bt_insert k v m)))
       = mset v + (mset (concat (map snd m)) - mset (case map_of m k of None \<Rightarrow> [] | Some w \<Rightarrow> w))"
      using ne wf by (intro 2(1)) simp_all
    moreover obtain R where "mset (concat (map snd m)) = mset (case map_of m k of None \<Rightarrow> [] | Some w \<Rightarrow> w) + R"
      using sub by (auto simp: mset_subset_eq_exists_conv)
    ultimately show ?thesis unfolding get ins by (simp add: add.left_commute)
  qed simp
qed simp

lemma push_groups_mset:
  "bt_wf m \<Longrightarrow> mset (concat (map snd (push_groups E f gs m))) = mset gs + mset (concat (map snd m))"
proof (induction E f gs m rule: push_groups.induct)
  case (2 E f g gs m)
  let ?k = "group_key E f g"
  have "mset (case map_of m ?k of None \<Rightarrow> [] | Some w \<Rightarrow> w) \<subseteq># mset (concat (map snd m))"
    by (rule value_subset)
  with 2 show ?case by (simp add: Let_def mset_bt_insert subset_mset.add_diff_assoc)
qed simp

lemma push_groups_wf: "bt_wf m \<Longrightarrow> bt_wf (push_groups E f gs m)"
  by (induction E f gs m rule: push_groups.induct) (simp_all add: Let_def)

definition members_of :: "exec_env \<Rightarrow> string \<Rightarrow> string \<times> grain_result list \<Rightarrow> bool" where
  "members_of E f p = (snd p \<noteq> [] \<and> list_all (\<lambda>g. group_key E f g = fst p) (snd p))"

lemma push_groups_members:
  "list_all (members_of E f) m \<Longrightarrow> list_all (members_of E f) (push_groups E f gs m)"
proof (induction E f gs m rule: push_groups.induct)
  case (2 E f g gs m)
  let ?k = "group_key E f g" and ?v = "(case map_of m (group_key E f g) of None \<Rightarrow> [] | Some ms \<Rightarrow> ms) @ [g]"
  have "members_of E f (?k, ?v)"
  proof (cases "map_of m ?k")
    case (Some ms)
    then have "members_of E f (?k, ms)" using 2(2) map_of_SomeD [OF Some] by (auto simp: list_all_iff)
    then show ?thesis using Some by (simp add: members_of_def)
  qed (simp add: members_of_def)
  then have "list_all (members_of E f) (bt_insert ?k ?v m)"
    using 2(2) set_bt_insert [of ?k ?v m] by (auto simp: list_all_iff)
  then show ?case using 2(1) by (simp add: Let_def)
qed simp

lemma distinct_wf: "bt_wf m \<Longrightarrow> distinct (map fst m)"
  unfolding bt_wf_def by (simp add: strict_sorted_iff)

text \<open>The groups as they stand one after another in the result.\<close>

definition groups_of :: "exec_env \<Rightarrow> string \<Rightarrow> grain_result list \<Rightarrow> (string \<times> grain_result list) list" where
  "groups_of E f gs = empty_last (sort_by (by_earliest E)
     (map (\<lambda>(k, ms). (k, sort_by (by_created E) ms)) (push_groups E f gs [])))"

lemma group_grains_concat: "group_grains_by_field E gs f = concat (map snd (groups_of E f gs))"
  by (simp add: group_grains_by_field_def groups_of_def Let_def)

lemma mset_empty_last [simp]: "mset (empty_last ps) = mset ps"
  by (induction ps) (auto simp: empty_last_def)

lemma mset_concat_cong: "mset ps = mset qs \<Longrightarrow> mset (concat (map f ps)) = mset (concat (map f qs))"
  unfolding mset_concat map_map by (metis mset_map sum_mset_sum_list)

lemma groups_mset:
  "mset (groups_of E f gs) = mset (map (\<lambda>(k, ms). (k, sort_by (by_created E) ms)) (push_groups E f gs []))"
  by (simp add: groups_of_def)

lemma groups_distinct: "distinct (map fst (groups_of E f gs))"
proof -
  have "mset (map fst (groups_of E f gs)) = mset (map fst (push_groups E f gs []))"
    using arg_cong [OF groups_mset, of "image_mset fst" E f gs] by (simp add: image_mset.compositionality comp_def case_prod_beta)
  then show ?thesis using distinct_wf [OF push_groups_wf, of "[]"] by (metis bt_wf_Nil mset_eq_imp_distinct_iff)
qed

lemma groups_members: "list_all (members_of E f) (groups_of E f gs)"
proof -
  have "set (groups_of E f gs) = set (map (\<lambda>(k, ms). (k, sort_by (by_created E) ms)) (push_groups E f gs []))"
    by (rule mset_eq_setD [OF groups_mset])
  moreover have "list_all (members_of E f) (push_groups E f gs [])" by (rule push_groups_members) simp
  moreover have "ms = [] \<longleftrightarrow> sort_by (by_created E) ms = []" for ms
    by (metis length_0_conv length_sort_by)
  ultimately show ?thesis by (auto simp: list_all_iff members_of_def)
qed

lemma empty_group_last: "distinct (map fst ps) \<Longrightarrow> [] \<notin> set (map fst (butlast (empty_last ps)))"
proof -
  assume d: "distinct (map fst ps)"
  have "length (filter (\<lambda>(k, _). k = []) ps) \<le> 1" using d
    by (induction ps) (auto simp: filter_empty_conv image_iff split: prod.splits)
  then have "filter (\<lambda>(k, _). k = []) ps = [] \<or> (\<exists>x. filter (\<lambda>(k, _). k = []) ps = [x])"
    by (cases "filter (\<lambda>(k, _). k = []) ps") auto
  then show ?thesis
    by (auto simp: empty_last_def dest: in_set_butlastD)
qed

lemma collect_members:
  "members_of E f (k, ms) \<Longrightarrow> acc \<noteq> [] \<Longrightarrow> fst (last acc) = k \<Longrightarrow>
    collect_groups_into E f (ms @ gs) acc = collect_groups_into E f gs (butlast acc @ [(k, snd (last acc) @ ms)])"
proof (induction ms arbitrary: acc)
  case (Cons g ms)
  show ?case
  proof (cases ms)
    case Nil
    then show ?thesis using Cons.prems by (simp add: members_of_def Let_def)
  next
    case (Cons h hs)
    then show ?thesis using Cons.prems Cons.IH [of "butlast acc @ [(k, snd (last acc) @ [g])]"]
      by (simp add: members_of_def Let_def)
  qed
qed (simp add: members_of_def)

lemma collect_concat:
  "list_all (members_of E f) ps \<Longrightarrow> distinct (map fst (acc @ ps)) \<Longrightarrow>
    collect_groups_into E f (concat (map snd ps)) acc = acc @ ps"
proof (induction ps arbitrary: acc)
  case (Cons p ps)
  obtain k g ms where p: "p = (k, g # ms)" "group_key E f g = k"
    using Cons.prems(1) by (cases p; cases "snd p") (auto simp: members_of_def)
  have "acc = [] \<or> fst (last acc) \<noteq> k"
    using Cons.prems(2) p by (cases acc rule: rev_cases) auto
  then have "collect_groups_into E f (concat (map snd (p # ps))) acc
      = collect_groups_into E f (ms @ concat (map snd ps)) (acc @ [(k, [g])])"
    using p by (auto simp: Let_def)
  also have "\<dots> = collect_groups_into E f (concat (map snd ps)) (acc @ [p])"
  proof (cases ms)
    case Nil
    then show ?thesis using p by simp
  next
    case Cons
    then have "members_of E f (k, ms)" using Cons.prems(1) p by (auto simp: members_of_def)
    then show ?thesis using collect_members [of E f k ms "acc @ [(k, [g])]"] p by simp
  qed
  finally show ?case using Cons.IH [of "acc @ [p]"] Cons.prems by simp
qed simp

lemma groups_concat_mset: "mset (concat (map snd (groups_of E f gs))) = mset gs"
proof -
  have "mset (concat (map snd (groups_of E f gs)))
      = mset (concat (map snd (map (\<lambda>(k, ms). (k, sort_by (by_created E) ms)) (push_groups E f gs []))))"
    by (rule mset_concat_cong) (rule groups_mset)
  also have "\<dots> = mset (concat (map snd (push_groups E f gs [])))"
    by (simp add: mset_concat comp_def case_prod_beta)
  also have "\<dots> = mset gs"
    by (simp add: push_groups_mset)
  finally show ?thesis .
qed

lemma group_mset [simp]: "mset (group_grains_by_field E gs f) = mset gs"
  by (simp add: group_grains_concat groups_concat_mset)

text \<open>
  C23. \<^verbatim>\<open>GROUP BY\<close> permutes the grains into runs with one key each: no grain is lost or doubled,
  the groups that the renderers read back are the runs, no key has two of them, and the grains
  without the field come last.
\<close>

theorem group_by_groups:
  "let out = stage_grains E C (StGroupBy f sp') gs; ps = collect_groups E out f
   in mset out = mset gs \<and> concat (map snd ps) = out \<and> distinct (map fst ps) \<and> list_all (members_of E f) ps
      \<and> [] \<notin> set (map fst (butlast ps))"
proof -
  have ps: "collect_groups E (group_grains_by_field E gs f) f = groups_of E f gs"
    using collect_concat [of E f "groups_of E f gs" "[]"] groups_members groups_distinct
    by (simp add: collect_groups_def group_grains_concat)
  have "[] \<notin> set (map fst (butlast (groups_of E f gs)))"
  proof -
    let ?qs = "sort_by (by_earliest E) (map (\<lambda>(k, ms). (k, sort_by (by_created E) ms)) (push_groups E f gs []))"
    have "mset (map fst ?qs) = mset (map fst (push_groups E f gs []))"
      by (simp add: image_mset.compositionality comp_def case_prod_beta)
    then have "distinct (map fst ?qs)"
      using distinct_wf [OF push_groups_wf, of "[]"] by (metis bt_wf_Nil mset_eq_imp_distinct_iff)
    then show ?thesis unfolding groups_of_def by (rule empty_group_last)
  qed
  then show ?thesis
    by (simp add: ps groups_members groups_distinct group_grains_concat [symmetric] Let_def)
qed

text \<open>
  C22. \<^verbatim>\<open>ORDER BY\<close> on a field, ascending or descending, returns the same grains in an order in which
  no two are inverted, whatever kinds of values the field has, and grains that compare equal
  keep their order. This is for finite numbers and a JSON printer that follows the grammar.
\<close>

theorem order_by_sorts:
  assumes "json_starts E" and "list_all (finite_field f) gs"
  shows "mset (stage_grains E C (StOrderBy f d sp') gs) = mset gs
    \<and> sorted_wrt (\<lambda>a b. order_cmp E f d a b \<noteq> OrdGreater) (stage_grains E C (StOrderBy f d sp') gs)
    \<and> list_all (\<lambda>g. filter (\<lambda>h. order_cmp E f d g h = OrdEqual) (stage_grains E C (StOrderBy f d sp') gs)
        = filter (\<lambda>h. order_cmp E f d g h = OrdEqual) gs) gs"
proof -
  have "set gs \<subseteq> sortable E f" using assms by (auto simp: sortable_def list_all_iff)
  then show ?thesis
    by (auto simp: list_all_iff intro!: order_by.sort_sorted order_by.sort_stable)
qed

text \<open>A printer that prints no content, but whose texts start as they must.\<close>

fun json_start0 :: "json \<Rightarrow> string" where
  "json_start0 (JStr _) = [CHR 0x22]"
| "json_start0 (JInt _) = ''0''"
| "json_start0 (JFloat _) = ''0''"
| "json_start0 (JArr _) = ''[''"
| "json_start0 (JBool b) = (if b then ''true'' else ''false'')"
| "json_start0 JNull = ''null''"
| "json_start0 (JObj _) = ''{''"

definition exec_env0 :: exec_env where
  "exec_env0 = \<lparr>xe_core = tiny_env, xe_cal = cal_env0, xe_rnd = of_int, xe_f32 = id, xe_powi = (\<lambda>_ _. Finite 1), xe_json = json_start0,
     xe_debug = (\<lambda>_. []), xe_iter = id\<rparr>"

definition grain0 :: "string \<Rightarrow> (string \<times> json) list \<Rightarrow> grain_result" where
  "grain0 h m = \<lparr>cg_hash = h, cg_type = ''fact'', cg_score = Finite 1, cg_fields = JObj m, cg_breakdown = None,
     cg_explanation = None, cg_relative_time = None, cg_deterministic = True, cg_contested = None\<rparr>"

lemma starts0: "json_starts exec_env0"
proof -
  have "char_rank (hd (json_start0 v)) = text_rank v \<and> json_start0 v \<noteq> []" for v
    by (cases v) (simp_all add: char_rank_def Let_def code_of_def)
  then show ?thesis by (simp add: json_starts_def exec_env0_def)
qed

theorem order_by_sorts_witness:
  "map cg_hash (stage_grains exec_env0 config_default (StOrderBy ''confidence'' False None)
     [grain0 ''a'' [(''confidence'', JInt 2)], grain0 ''b'' [(''confidence'', JNull)],
      grain0 ''c'' [(''confidence'', JFloat (Finite (1 / 2)))], grain0 ''d'' []]) = [''d'', ''c'', ''a'', ''b'']
   \<and> mset (stage_grains exec_env0 config_default (StOrderBy ''confidence'' False None)
       [grain0 ''a'' [(''confidence'', JInt 2)], grain0 ''b'' []]) = {#grain0 ''a'' [(''confidence'', JInt 2)], grain0 ''b'' []#}"
proof
  show "map cg_hash (stage_grains exec_env0 config_default (StOrderBy ''confidence'' False None)
     [grain0 ''a'' [(''confidence'', JInt 2)], grain0 ''b'' [(''confidence'', JNull)],
      grain0 ''c'' [(''confidence'', JFloat (Finite (1 / 2)))], grain0 ''d'' []]) = [''d'', ''c'', ''a'', ''b'']"
    by (simp add: grain0_def exec_env0_def order_cmp_def json_field_def json_cmp_def ord_cmp_def f64_partial_cmp_def
        cmp_or_equal_def Let_def less_char_def)
  have "list_all (finite_field ''confidence'') [grain0 ''a'' [(''confidence'', JInt 2)], grain0 ''b'' []]"
    by (simp add: finite_field_def grain0_def json_field_def)
  from order_by_sorts [OF starts0 this, of config_default False None]
  show "mset (stage_grains exec_env0 config_default (StOrderBy ''confidence'' False None)
     [grain0 ''a'' [(''confidence'', JInt 2)], grain0 ''b'' []]) = {#grain0 ''a'' [(''confidence'', JInt 2)], grain0 ''b'' []#}"
    by simp
qed

section \<open>Set operations\<close>

lemma hashes_of_simps [simp]:
  "hashes_of [] = {}" "hashes_of (g # gs) = insert (cg_hash g) (hashes_of gs)" "hashes_of (gs @ hs) = hashes_of gs \<union> hashes_of hs"
  by (auto simp: hashes_of_def)

lemma set_op_hashes:
  "hashes_of (union_grains l r) = hashes_of l \<union> hashes_of r"
  "hashes_of (intersect_grains l r) = hashes_of l \<inter> hashes_of r"
  "hashes_of (except_grains l r) = hashes_of l - hashes_of r"
  by (auto simp: union_grains_def intersect_grains_def except_grains_def hashes_of_def)

lemma set_op_fold_hashes:
  "hashes_of (foldl (apply_set_op k) gs rest) = (case k of
      SoUnion \<Rightarrow> hashes_of gs \<union> \<Union> (hashes_of ` set rest)
    | SoIntersect \<Rightarrow> {h \<in> hashes_of gs. list_all (\<lambda>r. h \<in> hashes_of r) rest}
    | SoExcept \<Rightarrow> hashes_of gs - \<Union> (hashes_of ` set rest))"
  by (induction rest arbitrary: gs) (cases k; auto simp: set_op_hashes)+

lemma set_op_fold_order:
  "case k of SoUnion \<Rightarrow> prefix gs (foldl (apply_set_op k) gs rest) | _ \<Rightarrow> subseq (foldl (apply_set_op k) gs rest) gs"
proof (induction rest arbitrary: gs)
  case (Cons r rest)
  have "prefix gs (union_grains gs r)" "subseq (intersect_grains gs r) gs" "subseq (except_grains gs r) gs"
    by (simp_all add: union_grains_def intersect_grains_def except_grains_def)
  with Cons [of "apply_set_op k gs r"] show ?case
    by (cases k) (auto intro: prefix_order.trans subseq_order.trans)
qed (cases k; simp)

end
