(* ===== verification/Cal_Confine.thy ===== *)
theory Cal_Confine
  imports Cal_Run
begin

text \<open>
  What a caller cannot do. \<open>keeps P m\<close> says that a step preserves a property \<open>P\<close> of the store,
  whether it answers or fails; the handlers are shown to preserve whatever the operations they
  may call preserve, so a theorem about \<^verbatim>\<open>execute\<close> need only look at the operations that the
  scope, the caps and the host leave open.
\<close>

section \<open>Steps that keep a property of the store\<close>

definition keeps :: "('s \<Rightarrow> bool) \<Rightarrow> ('s, 'a) ex \<Rightarrow> bool" where
  "keeps P m = (\<forall>st. P (fst st) \<longrightarrow> P (fst (snd (m st))))"

definition op_keeps :: "('s \<Rightarrow> bool) \<Rightarrow> ('s, 'a) fop \<Rightarrow> bool" where
  "op_keeps P op = (\<forall>s. P s \<longrightarrow> P (snd (op s)))"

named_theorems keeping "steps that keep a property"

lemma keeps_simple [keeping]:
  "keeps P (xret x)" "keeps P (xfail e)" "keeps P (xwarn w)" "keeps P (xget g)" "keeps P (xlift r)"
  by (simp_all add: keeps_def xret_def xfail_def xwarn_def xget_def xlift_def)

lemma keeps_xbind [keeping]: "keeps P m \<Longrightarrow> (\<And>x. keeps P (f x)) \<Longrightarrow> keeps P (xbind m f)"
  by (auto simp: keeps_def xbind_def split: prod.splits sum.splits; metis fst_conv snd_conv)

lemma keeps_xwarns [keeping]: "keeps P (xwarns ws)"
  by (induction ws) (auto intro!: keeping)

lemma keeps_call [keeping]: "op_keeps P op \<Longrightarrow> keeps P (xcall op)"
  by (auto simp: keeps_def op_keeps_def xcall_def split: prod.splits; metis snd_conv)

lemma keeps_call_map [keeping]: "op_keeps P op \<Longrightarrow> keeps P (xcall_map h op)"
  unfolding xcall_map_def by (intro keeping) (auto intro!: keeping split: sum.splits)

lemma keeps_attempt [keeping]: "op_keeps P op \<Longrightarrow> keeps P (attempt E name what op ok)"
  unfolding attempt_def by (intro keeping)

lemma keeps_if [keeping]: "(b \<Longrightarrow> keeps P m) \<Longrightarrow> (\<not> b \<Longrightarrow> keeps P m') \<Longrightarrow> keeps P (if b then m else m')"
  by simp

lemma keeps_option [keeping]:
  "(x = None \<Longrightarrow> keeps P m) \<Longrightarrow> (\<And>y. x = Some y \<Longrightarrow> keeps P (f y)) \<Longrightarrow> keeps P (case x of None \<Rightarrow> m | Some y \<Rightarrow> f y)"
  by (cases x) auto

lemma keeps_sum [keeping]:
  "(\<And>e. x = Inl e \<Longrightarrow> keeps P (f e)) \<Longrightarrow> (\<And>y. x = Inr y \<Longrightarrow> keeps P (g y)) \<Longrightarrow> keeps P (case x of Inl e \<Rightarrow> f e | Inr y \<Rightarrow> g y)"
  by (cases x) auto

lemma keeps_prod [keeping]: "(\<And>a b. x = (a, b) \<Longrightarrow> keeps P (f a b)) \<Longrightarrow> keeps P (case x of (a, b) \<Rightarrow> f a b)"
  by (cases x) auto

lemma keeps_list [keeping]:
  "(xs = [] \<Longrightarrow> keeps P m) \<Longrightarrow> (\<And>y ys. xs = y # ys \<Longrightarrow> keeps P (f y ys)) \<Longrightarrow> keeps P (case xs of [] \<Rightarrow> m | y # ys \<Rightarrow> f y ys)"
  by (cases xs) auto

lemma keeps_where [keeping]: "keeps P (apply_where_clause E C lv c p)"
proof (induction c arbitrary: p)
  case (Comparison f k v sp')
  show ?case
    unfolding apply_where_clause.simps where_comparison_def set_str_def set_num_def ignored_def by (intro keeping)
next
  case (CondIsCategory f k sp')
  show ?case unfolding apply_where_clause.simps where_category_def ignored_def by (intro keeping)
qed (auto simp: ignored_def intro!: keeping)

lemma keeps_where_step [keeping]: "keeps P (where_step E C lv w p)"
  unfolding where_step_def by (intro keeping)

section \<open>The operations of the store, by what they may change\<close>

definition reads_keep :: "('s \<Rightarrow> bool) \<Rightarrow> 's facade \<Rightarrow> bool" where
  "reads_keep P F =
     ((\<forall>p. op_keeps P (fc_recall F p)) \<and> (\<forall>h. op_keeps P (fc_exists F h)) \<and> (\<forall>h. op_keeps P (fc_get F h))
      \<and> (\<forall>a b c. op_keeps P (fc_get_history F a b c)) \<and> op_keeps P (fc_open_forks F)
      \<and> (\<forall>a b. op_keeps P (fc_subject_report F a b)) \<and> (\<forall>a b c d. op_keeps P (fc_entity_at F a b c d))
      \<and> (\<forall>a b. op_keeps P (fc_run_trace F a b)) \<and> (\<forall>a b. op_keeps P (fc_runs_touching F a b))
      \<and> (\<forall>a. op_keeps P (fc_derived_from F a)) \<and> (\<forall>a b c d e. op_keeps P (fc_related F a b c d e))
      \<and> (\<forall>a b c d. op_keeps P (fc_novelty F a b c d)) \<and> (\<forall>a. op_keeps P (fc_show_grants F a)))"

text \<open>
  What a statement that counts as a read may write: the time of the last run of a saved query
  (\<^verbatim>\<open>RUN\<close>), the budget telemetry of \<^verbatim>\<open>ASSEMBLE\<close> and, if the session samples them, the manifest
  of an assembly, which \<^verbatim>\<open>dejadb_facade.rs\<close> stores as a grain.
\<close>

definition manifests_off :: "exec_config \<Rightarrow> bool" where
  "manifests_off C = f64_ge (Finite 0) (f64_unit (xc_manifest_sample_rate C))"

definition traces_keep :: "('s \<Rightarrow> bool) \<Rightarrow> exec_config \<Rightarrow> 's facade \<Rightarrow> bool" where
  "traces_keep P C F =
     ((\<forall>a. op_keeps P (fc_update_query_last_run F a)) \<and> (\<forall>b s. P s \<longrightarrow> P (fc_note_assembly_budget F b s))
      \<and> (manifests_off C \<or> (\<forall>m s. P s \<longrightarrow> P (fc_note_assembly_manifest F m s))))"

definition writes_keep :: "('s \<Rightarrow> bool) \<Rightarrow> 's facade \<Rightarrow> bool" where
  "writes_keep P F =
     ((\<forall>a b c. op_keeps P (fc_add F a b c)) \<and> (\<forall>a b c. op_keeps P (fc_supersede F a b c))
      \<and> (\<forall>a b c d e. op_keeps P (fc_accumulate F a b c d e)) \<and> (\<forall>a b c d. op_keeps P (fc_remember F a b c d))
      \<and> (\<forall>a b c d e. op_keeps P (fc_merge F a b c d e)))"

definition grants_keep :: "('s \<Rightarrow> bool) \<Rightarrow> 's facade \<Rightarrow> bool" where
  "grants_keep P F = ((\<forall>a b c d. op_keeps P (fc_grant F a b c d)) \<and> (\<forall>a b c d. op_keeps P (fc_revoke F a b c d)))"

definition registry_keep :: "('s \<Rightarrow> bool) \<Rightarrow> 's facade \<Rightarrow> bool" where
  "registry_keep P F =
     ((\<forall>a b c d e. op_keeps P (fc_define_template F a b c d e)) \<and> (\<forall>a b c d. op_keeps P (fc_define_query F a b c d)))"

definition erasures_keep :: "('s \<Rightarrow> bool) \<Rightarrow> 's facade \<Rightarrow> bool" where
  "erasures_keep P F =
     ((\<forall>a b. op_keeps P (fc_delete F a b)) \<and> (\<forall>a b c. op_keeps P (fc_forget_user F a b c))
      \<and> (\<forall>a. op_keeps P (fc_forget_scope F a)) \<and> (\<forall>a b c d e. op_keeps P (fc_purge_stale F a b c d e))
      \<and> (\<forall>a. op_keeps P (fc_drop_template F a)) \<and> (\<forall>a. op_keeps P (fc_drop_query F a)))"

definition host_keeps :: "('s \<Rightarrow> bool) \<Rightarrow> 's governance_host \<Rightarrow> bool" where
  "host_keeps P h =
     ((\<forall>a b c. op_keeps P (gh_run_loop h a b c)) \<and> (\<forall>a b c. op_keeps P (gh_review h a b c))
      \<and> (\<forall>a b c. op_keeps P (gh_apply h a b c)) \<and> (\<forall>a b. op_keeps P (gh_rollback h a b)))"

definition parts_keep :: "('s \<Rightarrow> bool) \<Rightarrow> 's exec_parts \<Rightarrow> bool" where
  "parts_keep P X =
     ((\<forall>d. keeps P (px_describe X d)) \<and> (\<forall>a b c d e. keeps P (px_render X a b c d e))
      \<and> (\<forall>s. P s \<longrightarrow> P (snd (px_next_sample X s))))"

section \<open>The reads\<close>

lemma keeps_render_all: "parts_keep P X \<Longrightarrow> keeps P (render_all X gs src g vs es m)"
  by (induction es arbitrary: m) (auto simp: parts_keep_def intro!: keeping)

lemma keeps_format_grains [keeping]: "parts_keep P X \<Longrightarrow> keeps P (format_grains X gs src fmt g vs)"
  unfolding format_grains_def
  by (cases fmt) (auto simp: parts_keep_def intro!: keeping keeps_render_all [unfolded parts_keep_def])

lemma keeps_format_clause [keeping]: "parts_keep P X \<Longrightarrow> keeps P (apply_format_clause X ident f g vs p)"
  unfolding apply_format_clause_def by (cases f; cases p; auto intro!: keeping)

lemma keeps_fork_status [keeping]: "reads_keep P F \<Longrightarrow> keeps P (apply_fork_status E F only restrict gs)"
  unfolding apply_fork_status_def Let_def by (intro keeping) (simp add: reads_keep_def)

lemma keeps_contradictions [keeping]:
  assumes "reads_keep P F" "\<And>s q. keeps P (rec s q)"
  shows "keeps P (recall_contradictions E C F rec r q p b gs)"
  using assms unfolding recall_contradictions_def contradiction_scope_def
  by (intro keeping) (auto intro!: keeping split: payload.splits)

lemma keeps_recall [keeping]:
  assumes "reads_keep P F" "parts_keep P X" "\<And>s q. keeps P (rec s q)"
  shows "keeps P (execute_recall E C F X rec r q)"
  using assms unfolding execute_recall_def recall_params_of_def Let_def
  by (intro keeping) (simp add: reads_keep_def)

lemma keeps_put [keeping]: "(\<And>s. P s \<Longrightarrow> P (f s)) \<Longrightarrow> keeps P (xput f)"
  by (simp add: keeps_def xput_def)

lemma keeps_sample: "parts_keep P X \<Longrightarrow> keeps P (sample_assembly_manifest E C X)"
  unfolding sample_assembly_manifest_def Let_def by (intro keeping; simp add: parts_keep_def)

lemma keeps_manifest [keeping]:
  assumes "traces_keep P C F" and "parts_keep P X"
  shows "keeps P (record_assembly_manifest E C F X a cs us p b ss)"
proof (cases "manifests_off C")
  case True
  then have "sample_assembly_manifest E C X = xret False"
    by (simp add: sample_assembly_manifest_def manifests_off_def Let_def)
  then show ?thesis by (simp add: record_assembly_manifest_def keeps_def xbind_def xret_def)
next
  case False
  then show ?thesis
    using assms unfolding record_assembly_manifest_def
    by (intro keeping keeps_sample) (simp_all add: traces_keep_def)
qed

lemma keeps_assemble [keeping]:
  assumes F: "reads_keep P F" and T: "traces_keep P C F" and X: "parts_keep P X" and rec: "\<And>s q. keeps P (rec s q)"
  shows "keeps P (execute_assemble E C F X rec a q)"
proof -
  note calls = F T X rec
  have "keeps P (run_sources X rec q' sp' start limit ss)" for q' sp' start limit ss
    by (induction ss) (auto simp: execute_source_def intro!: keeping rec)
  then have "keeps P (assemble_multi E C F X rec a q')" for q'
    unfolding assemble_multi_def assemble_engine_def merge_sources_def Let_def
    by (intro keeping calls) (auto intro!: keeping simp: T [unfolded traces_keep_def])
  moreover have "keeps P (fetch_hashes E F hs)" for hs
    using F by (induction hs) (auto simp: reads_keep_def intro!: keeping split: sum.splits)
  moreover have "keeps P (assemble_single E C F X a q' gs)" for q' gs
    unfolding assemble_single_def Let_def
    by (intro keeping calls) (simp add: T [unfolded traces_keep_def])
  ultimately show ?thesis
    unfolding execute_assemble_def Let_def by (intro keeping rec) (auto intro!: keeping rec split: asm_source.splits)
qed

lemma keeps_exists [keeping]: "reads_keep P F \<Longrightarrow> keeps P (execute_exists E C F x lv)"
  unfolding execute_exists_def Let_def by (intro keeping) (simp_all add: reads_keep_def)

lemma keeps_collect [keeping]: "reads_keep P F \<Longrightarrow> keeps P (collect_versions E F hs vs)"
  by (induction hs arbitrary: vs) (auto simp: Let_def reads_keep_def intro!: keeping)

lemma keeps_history [keeping]: "reads_keep P F \<Longrightarrow> keeps P (execute_history E C F y lv)"
  unfolding execute_history_def history_diff_def history_where_def
  by (intro keeping) (auto simp: reads_keep_def intro!: keeping split: deja_error.splits)

lemma keeps_explain [keeping]: "keeps P (execute_explain E C F s q)"
  unfolding execute_explain_def by (intro keeping)

lemma keeps_small_reads [keeping]:
  assumes "reads_keep P F"
  shows "keeps P (execute_report_subject E F a1)" "keeps P (execute_entity_at E F a2)" "keeps P (execute_run_trace E F a3)"
    "keeps P (execute_runs_touching E F a4)" "keeps P (execute_derived_from E F a5)" "keeps P (execute_related E F a6)"
    "keeps P (execute_novelty E F a7)" "keeps P (execute_show_forks E F)" "keeps P (execute_show_grants E F a8)"
  unfolding execute_report_subject_def execute_entity_at_def execute_run_trace_def execute_runs_touching_def
    execute_derived_from_def execute_related_def execute_novelty_def execute_show_forks_def execute_show_grants_def Let_def
  using assms by (intro keeping; simp add: reads_keep_def)+

section \<open>Statements of statements\<close>

lemma keeps_entry [keeping]: "keeps P m \<Longrightarrow> keeps P (entry_payload s m)"
  by (auto simp: keeps_def entry_payload_def split: prod.splits sum.splits) (metis fst_conv snd_conv)+

lemma keeps_batch_entry [keeping]:
  assumes "parts_keep P X" "\<And>s q. keeps P (rec s q)"
  shows "keeps P (execute_batch_entry E C X rec e)"
  using assms unfolding execute_batch_entry_def by (intro keeping)

lemma keeps_batch [keeping]:
  assumes "parts_keep P X" "\<And>s q. keeps P (rec s q)"
  shows "keeps P (execute_batch E C X rec b)"
proof -
  have "keeps P (batch_labeled E C X rec sp' es m)" for sp' es m
    by (induction es arbitrary: m) (auto intro!: keeping assms)
  moreover have "keeps P (batch_positional E C X rec i es m)" for i es m
    by (induction es arbitrary: i m) (auto intro!: keeping assms)
  ultimately show ?thesis unfolding execute_batch_def by (intro keeping)
qed

lemma keeps_coalesce [keeping]:
  assumes "reads_keep P F" "parts_keep P X" "\<And>s q. keeps P (rec s q)"
  shows "keeps P (execute_coalesce E C F X rec c q)"
proof -
  have "keeps P (coalesce_branches rec q els i bs)" for els i bs
    by (induction bs arbitrary: i) (auto intro!: keeping assms)
  then show ?thesis unfolding execute_coalesce_def by (intro keeping assms)
qed

lemma keeps_set_op [keeping]:
  assumes "\<And>s q. keeps P (rec s q)" shows "keeps P (execute_set_op rec k ss q)"
proof -
  have "keeps P (operand_grains rec q ss)" by (induction ss) (auto intro!: keeping assms)
  then show ?thesis unfolding execute_set_op_def by (intro keeping)
qed

lemma keeps_run_query [keeping]:
  assumes "traces_keep P C F" "\<And>s q. keeps P (rec s q)"
  shows "keeps P (execute_run_query E F rec r q)"
  unfolding execute_run_query_def Let_def using assms by (intro keeping) (auto simp: traces_keep_def)

section \<open>The writes\<close>

lemma keeps_tier1: "(xc_tier1_enabled C \<Longrightarrow> keeps P m) \<Longrightarrow> keeps P (need_tier1 C n sp' m)"
  by (auto simp: need_tier1_def intro!: keeping)

lemma keeps_destructive: "(xc_allow_destructive_ops C \<Longrightarrow> keeps P m) \<Longrightarrow> keeps P (need_destructive C n m)"
  by (auto simp: need_destructive_def intro!: keeping)

lemma keeps_writes:
  assumes "reads_keep P F" "xc_tier1_enabled C \<Longrightarrow> writes_keep P F"
  shows "keeps P (execute_add E C F a1)" "keeps P (execute_supersede E C F a2)" "keeps P (execute_add_workflow E C F a3)"
    "keeps P (execute_supersede_workflow E C F a4)" "keeps P (execute_accumulate E C F a5)" "keeps P (execute_merge E C F a6)"
    "keeps P (execute_remember E C F a7)"
proof -
  have get: "op_keeps P (fc_get F h)" for h using assms(1) by (simp add: reads_keep_def)
  note w = assms(2) [unfolded writes_keep_def]
  show "keeps P (execute_add E C F a1)" "keeps P (execute_add_workflow E C F a3)"
    unfolding execute_add_def execute_add_workflow_def Let_def
    by (intro keeps_tier1 keeping; use w in simp)+
  show "keeps P (execute_supersede E C F a2)" "keeps P (execute_supersede_workflow E C F a4)"
    unfolding execute_supersede_def execute_supersede_workflow_def Let_def
    by (intro keeps_tier1 keeping get; use w in simp)+
  show "keeps P (execute_accumulate E C F a5)"
    unfolding execute_accumulate_def Let_def
    by (intro keeps_tier1 keeping) (use w in \<open>auto intro!: keeping split: deja_error.splits\<close>)
  show "keeps P (execute_merge E C F a6)" "keeps P (execute_remember E C F a7)"
    unfolding execute_merge_def execute_remember_def
    by (intro keeps_tier1 keeping; use w in simp)+
qed

lemma keeps_admin:
  assumes "xc_tier1_enabled C \<Longrightarrow> grants_keep P F" "registry_keep P F"
    "xc_allow_destructive_ops C \<Longrightarrow> erasures_keep P F" "\<And>h. G = Some h \<Longrightarrow> host_keeps P h"
  shows "keeps P (execute_grant E C F a1)" "keeps P (execute_revoke E C F a2)" "keeps P (execute_define_template E C F a3)"
    "keeps P (execute_define_query E C F a4)" "keeps P (execute_forget E C F a5)" "keeps P (execute_purge E C F a6)"
    "keeps P (execute_review E G b a7)" "keeps P (execute_apply E C G a8)" "keeps P (execute_rollback E G a9)"
    "keeps P (execute_run_loop E G a10)"
proof -
  note g = assms(1) [unfolded grants_keep_def] and d = assms(3) [unfolded erasures_keep_def]
    and h = assms(4) [unfolded host_keeps_def]
  show "keeps P (execute_grant E C F a1)" "keeps P (execute_revoke E C F a2)"
    unfolding execute_grant_def execute_revoke_def by (intro keeps_tier1 keeping; use g in simp)+
  show "keeps P (execute_define_template E C F a3)" "keeps P (execute_define_query E C F a4)"
    unfolding execute_define_template_def execute_define_query_def under_cap_def
    by (intro keeping; use assms(2) in \<open>simp add: registry_keep_def\<close>)+
  show "keeps P (execute_forget E C F a5)"
    unfolding execute_forget_def
    by (intro keeps_destructive) (use d in \<open>auto intro!: keeping split: forget_target.splits\<close>)
  show "keeps P (execute_purge E C F a6)"
    unfolding execute_purge_def by (intro keeps_destructive keeping; use d in simp)
  show "keeps P (execute_review E G b a7)" "keeps P (execute_apply E C G a8)" "keeps P (execute_rollback E G a9)"
    "keeps P (execute_run_loop E G a10)"
    unfolding execute_review_def execute_apply_def execute_rollback_def execute_run_loop_def with_host_def Let_def
    by (intro keeping; use h in simp)+
qed

section \<open>One statement, and a query\<close>

definition admin_keeps :: "('s \<Rightarrow> bool) \<Rightarrow> exec_config \<Rightarrow> 's facade \<Rightarrow> 's governance_host option \<Rightarrow> bool" where
  "admin_keeps P C F G =
     ((xc_tier1_enabled C \<longrightarrow> grants_keep P F) \<and> registry_keep P F
      \<and> (xc_allow_destructive_ops C \<longrightarrow> erasures_keep P F) \<and> (\<forall>h. G = Some h \<longrightarrow> host_keeps P h))"

lemma required_scopes:
  obtains "required_scope_for_statement s = ''read''" | "required_scope_for_statement s = ''write''"
    | "required_scope_for_statement s = ''admin''"
  by (cases s) simp_all

lemma keeps_statement:
  assumes F: "reads_keep P F" and T: "traces_keep P C F" and X: "parts_keep P X" and rec: "\<And>s q. keeps P (rec s q)"
    and w: "required_scope_for_statement s = ''write'' \<Longrightarrow> check_caller_scope C s = Inr () \<Longrightarrow> xc_tier1_enabled C \<Longrightarrow> writes_keep P F"
    and a: "required_scope_for_statement s = ''admin'' \<Longrightarrow> check_caller_scope C s = Inr () \<Longrightarrow> admin_keeps P C F G"
  shows "keeps P (execute_statement E C F G X rec s q)"
proof (cases "check_caller_scope C s")
  case (Inl e)
  then show ?thesis by (simp add: execute_statement_def keeps_def xbind_def xlift_def)
next
  case (Inr u)
  then have scope: "check_caller_scope C s = Inr ()" by simp
  have start: "keeps P (xbind (xlift (check_caller_scope C s)) (\<lambda>_. m))" if "keeps P m" for m :: "('a, payload) ex"
    using that by (intro keeping)
  show ?thesis
  proof (cases rule: required_scopes [of s])
    case 1
    have "keeps P (px_describe X d)" for d
      using X by (simp add: parts_keep_def)
    note reads = this keeps_assemble [OF F T X rec] keeps_recall [OF F X rec] keeps_exists [OF F] keeps_history [OF F] keeps_explain keeps_batch [OF X rec]
      keeps_coalesce [OF F X rec] keeps_set_op [OF rec] keeps_run_query [OF T rec] keeps_small_reads [OF F]
    show ?thesis
      unfolding execute_statement_def by (rule start) (use 1 in \<open>cases s; simp add: reads\<close>)
  next
    case 2
    note writes = keeps_writes [OF F w [OF 2 scope]] keeps_simple(1)
    show ?thesis
      unfolding execute_statement_def by (rule start) (use 2 in \<open>cases s; simp add: writes\<close>)
  next
    case 3
    have adm: "admin_keeps P C F G" by (rule a [OF 3 scope])
    have drops: "keeps P (need_destructive C n (attempt E n t (fc_drop_template F x) ok))"
      "keeps P (need_destructive C n (attempt E n t (fc_drop_query F x) ok'))" for n t x ok ok'
      using adm by (intro keeps_destructive keeping; simp add: admin_keeps_def erasures_keep_def)+
    have "xc_tier1_enabled C \<Longrightarrow> grants_keep P F" "registry_keep P F" "xc_allow_destructive_ops C \<Longrightarrow> erasures_keep P F"
      "\<And>h. G = Some h \<Longrightarrow> host_keeps P h"
      using adm by (simp_all add: admin_keeps_def)
    note admins = keeps_admin [OF this] drops
    show ?thesis
      unfolding execute_statement_def by (rule start) (use 3 in \<open>cases s; simp add: admins\<close>)
  qed
qed

end
