(* ===== verification/Cal_Exec_Props.thy ===== *)
theory Cal_Exec_Props
  imports Cal_Confine Cal_Grains_Props Cal_Limits
begin

text \<open>
  The executor as a whole: what a scope and the caps leave untouched, and which recalls reach
  the store.
\<close>

section \<open>A store that counts\<close>

text \<open>A facade for examples: every operation that writes adds one, and there are no grains.\<close>

definition counts :: "'a \<Rightarrow> (nat, 'a) fop" where
  "counts x s = (Inr x, Suc s)"

definition answers :: "'a \<Rightarrow> (nat, 'a) fop" where
  "answers x s = (Inr x, s)"

definition no_hash :: hash where "no_hash = Hash []"

definition counting :: "nat facade" where
  "counting = \<lparr>fc_recall = \<lambda>_. answers [], fc_exists = \<lambda>_. answers False, fc_get = \<lambda>_. (\<lambda>s. (Inl (NotFound no_hash), s)),
     fc_get_history = \<lambda>_ _ _. answers [], fc_default_namespace = \<lambda>_. None, fc_active_user = \<lambda>_. None,
     fc_open_forks = answers [], fc_add = \<lambda>_ _ _. counts \<lparr>ar_hash = no_hash, ar_extracted_count = 0, ar_warnings = []\<rparr>,
     fc_supersede = \<lambda>_ _ _. counts no_hash,
     fc_accumulate = \<lambda>_ _ _ _ _. counts \<lparr>al_old_hash = no_hash, al_new_hash = no_hash, al_deltas = []\<rparr>,
     fc_remember = \<lambda>_ _ _ _. counts no_hash, fc_merge = \<lambda>_ _ _ _ _. counts no_hash, fc_delete = \<lambda>_ _. counts (),
     fc_forget_user = \<lambda>_ _ _. counts 1, fc_forget_scope = \<lambda>_. counts 1, fc_purge_stale = \<lambda>_ _ _ _ _. counts 1,
     fc_subject_report = \<lambda>_ _. answers \<lparr>sj_identity_names = [], sj_grains = []\<rparr>,
     fc_entity_at = \<lambda>_ _ _ _. answers None, fc_run_trace = \<lambda>_ _. answers JNull, fc_runs_touching = \<lambda>_ _. answers [],
     fc_derived_from = \<lambda>_. answers [], fc_related = \<lambda>_ _ _ _ _. answers [], fc_novelty = \<lambda>_ _ _ _. answers [],
     fc_grant = \<lambda>_ _ _ _. counts no_hash, fc_revoke = \<lambda>_ _ _ _. counts 1, fc_show_grants = \<lambda>_. answers [],
     fc_list_templates = \<lambda>_. [], fc_define_template = \<lambda>_ _ _ _ _. counts (), fc_drop_template = \<lambda>_. counts (),
     fc_list_queries = \<lambda>_. [], fc_get_query = \<lambda>_ _. None, fc_define_query = \<lambda>_ _ _ _. counts (),
     fc_drop_query = \<lambda>_. counts (), fc_update_query_last_run = \<lambda>_. answers (),
     fc_note_assembly_budget = \<lambda>_. id, fc_note_assembly_manifest = \<lambda>_. id\<rparr>"

definition no_parts :: "'s exec_parts" where
  "no_parts = \<lparr>px_describe = \<lambda>_. xret (PDescribe JNull), px_render = \<lambda>_ _ _ _ _. xret ([], []),
     px_payload_json = \<lambda>_. [], px_assemble_json = \<lambda>_. [], px_now = \<lambda>_. 0, px_next_sample = Pair 0\<rparr>"

lemma counting_reads: "reads_keep (\<lambda>s. s = 0) counting"
  by (simp add: reads_keep_def counting_def op_keeps_def answers_def)

lemma counting_traces: "traces_keep (\<lambda>s. s = 0) C counting"
  by (simp add: traces_keep_def counting_def op_keeps_def answers_def)

lemma no_parts_keep: "parts_keep P no_parts"
  by (simp add: parts_keep_def no_parts_def keeping)

section \<open>Scopes and caps\<close>

lemma keeps_n:
  assumes "\<And>rec s q. (\<And>s q. keeps P (rec s q)) \<Longrightarrow> keeps P (execute_statement E C F G X rec s q)"
  shows "keeps P (execute_n E C F G X n s q)"
proof (induction n arbitrary: s q)
  case (Suc n)
  then show ?case by (simp add: assms)
qed (simp add: keeping)

lemma keeps_lets: "(\<And>s q. keeps P (run s q)) \<Longrightarrow> keeps P (bind_lets run q)"
proof -
  assume run: "\<And>s q. keeps P (run s q)"
  have "keeps P (evaluate_lets run q bs sc)" for bs sc
    by (induction bs arbitrary: sc) (auto simp: cap_grains_def intro!: keeping run)
  then show ?thesis unfolding bind_lets_def let_evaluate_def by (intro keeping)
qed

lemma keeps_execute:
  assumes "parts_keep P X" "\<And>s q. keeps P (execute_n E C F G X n s q)" "P s"
  shows "P (snd (execute E C F G X n input s))"
proof (cases "cal_parse (xe_cal E) input")
  case (Inr q)
  have "keeps P (run_query E C X (execute_n E C F G X n) q)"
    unfolding run_query_def by (intro keeping keeps_lets assms)
  then have "P (fst (snd (run_query E C X (execute_n E C F G X n) q (s, []))))"
    using assms(3) by (simp add: keeps_def)
  then show ?thesis by (auto simp: execute_def Inr execute_parsed_def split: prod.splits sum.splits)
qed (simp add: execute_def assms(3))

text \<open>
  C16. A caller whose scopes grant neither writing nor administration changes nothing: whatever
  the query, also inside batches, branches, set operands, saved queries and \<^verbatim>\<open>LET\<close>, a property
  of the store that the reads and the traces they leave preserve is preserved, although nothing
  is known about the operations that write, erase, grant, define or govern. The traces are the
  time of the last run of a saved query, the telemetry of budgets and, only in a session that
  samples them, the manifests of assemblies.
\<close>

theorem read_scope_confined:
  assumes "xc_caller_scopes C \<noteq> []" "''write'' \<notin> set (xc_caller_scopes C)" "''admin'' \<notin> set (xc_caller_scopes C)"
    and "reads_keep P F" "traces_keep P C F" "parts_keep P X" "P s"
  shows "P (snd (execute E C F G X n input s))"
proof -
  have no_write: "required_scope_for_statement t = ''write'' \<Longrightarrow> check_caller_scope C t \<noteq> Inr ()"
    and no_admin: "required_scope_for_statement t = ''admin'' \<Longrightarrow> check_caller_scope C t \<noteq> Inr ()" for t
    using assms(1-3) by (simp_all add: check_caller_scope_def Let_def)
  have st: "keeps P (execute_statement E C F G X rec t q)" if "\<And>s q. keeps P (rec s q)" for rec t q
    by (rule keeps_statement [OF assms(4-6) that]) (use no_write [of t] no_admin [of t] in simp_all)
  have "keeps P (execute_n E C F G X n t q)" for t q
    by (rule keeps_n) (rule st)
  then show ?thesis by (rule keeps_execute [OF assms(6) _ assms(7)])
qed

theorem read_scope_confined_witness:
  "snd (execute exec_env0 (config_default\<lparr>xc_caller_scopes := [''read'']\<rparr>) counting None no_parts 5
     (utext_of ''FORGET sha256:aaaaaaaa'') 0) = 0"
  by (rule read_scope_confined [where P = "\<lambda>s. s = 0", OF _ _ _ counting_reads counting_traces no_parts_keep])
     (simp_all add: config_default_def)

text \<open>
  C21. A session that is started without writes and without destructive operations, and has no
  governance host, adds, supersedes, grants, revokes, merges, erases and drops nothing, whatever
  the scopes of the caller: a property is preserved if three groups of operations preserve it
  that these caps do not guard. They are the reads; the definition of templates and of saved
  queries; and the traces of reads, the time of the last run of a saved query, the telemetry of
  budgets and, in a session that samples them, the manifests of assemblies, which are grains.
\<close>

theorem caps_confined:
  assumes "\<not> xc_tier1_enabled C" "\<not> xc_allow_destructive_ops C"
    and "reads_keep P F" "traces_keep P C F" "registry_keep P F" "parts_keep P X" "P s"
  shows "P (snd (execute E C F None X n input s))"
proof -
  have st: "keeps P (execute_statement E C F None X rec t q)" if "\<And>s q. keeps P (rec s q)" for rec t q
    by (rule keeps_statement [OF assms(3,4,6) that]) (simp_all add: admin_keeps_def assms)
  have "keeps P (execute_n E C F None X n t q)" for t q
    by (rule keeps_n) (rule st)
  then show ?thesis by (rule keeps_execute [OF assms(6) _ assms(7)])
qed

theorem caps_confined_witness:
  "snd (execute exec_env0 (config_default\<lparr>xc_tier1_enabled := False, xc_allow_destructive_ops := False\<rparr>)
     (counting\<lparr>fc_define_template := \<lambda>_ _ _ _ _. answers (), fc_define_query := \<lambda>_ _ _ _. answers ()\<rparr>) None no_parts 5
     (utext_of ''FORGET sha256:aaaaaaaa'') 0) = 0"
  by (rule caps_confined [where P = "\<lambda>s. s = 0", OF _ _ _ _ _ no_parts_keep])
     (simp_all add: config_default_def reads_keep_def traces_keep_def registry_keep_def counting_def op_keeps_def answers_def)

section \<open>The recalls that reach the store\<close>

definition confined :: "exec_config \<Rightarrow> recall_params \<Rightarrow> bool" where
  "confined C p =
     ((case xc_namespace_override C of None \<Rightarrow> True | Some ns \<Rightarrow> pm_namespace p = Some ns)
      \<and> (case xc_user_id_override C of None \<Rightarrow> True | Some u \<Rightarrow> pm_user_id p = Some u)
      \<and> (pm_limit p \<in> {Some 1, Some 10}
         \<or> (case pm_limit p of None \<Rightarrow> False | Some l \<Rightarrow> l \<le> max (xc_max_limit C) (xc_default_limit C))))"

definition only_confined :: "exec_config \<Rightarrow> (recall_params \<Rightarrow> ('s, search_hit list) fop)
    \<Rightarrow> (recall_params \<Rightarrow> ('s, search_hit list) fop) \<Rightarrow> recall_params \<Rightarrow> ('s, search_hit list) fop" where
  "only_confined C inner outer p = (if confined C p then inner p else outer p)"

lemma xbind_cong:
  assumes "m st = m' st" "\<And>x st'. m st = (Inr x, st') \<Longrightarrow> f x st' = g x st'"
  shows "xbind m f st = xbind m' g st"
  using assms by (auto simp: xbind_def split: prod.splits sum.splits)

lemma xbind_results: "xbind m f st = (Inr y, st') \<longleftrightarrow> (\<exists>x st1. m st = (Inr x, st1) \<and> f x st1 = (Inr y, st'))"
  by (auto simp: xbind_def split: prod.splits sum.splits)

lemma with_option_limit: "apply_with_option E w p = Inr p' \<Longrightarrow> pm_limit p' = pm_limit p"
  by (cases w) (auto simp: Let_def split: option.splits)

lemma with_options_limit: "apply_with_options E ws p = Inr p' \<Longrightarrow> pm_limit p' = pm_limit p"
  by (induction ws arbitrary: p) (auto simp: and_then_def with_option_limit split: sum.splits)

lemma recall_params_confined: "recall_params_of E C F r q st = (Inr p, st') \<Longrightarrow> confined C p"
proof -
  assume a: "recall_params_of E C F r q st = (Inr p, st')"
  obtain p0 p1 ns where p1: "apply_with_options E (cq_with q) (recall_rest C r p0) = Inr p1" and p: "p = scope_params C ns p1"
    using a by (auto simp: recall_params_of_def xbind_results xlift_def xget_def xret_def xfail_def split: if_splits)
  have "pm_limit (recall_rest C r p0) \<in> Some ` {..max (xc_max_limit C) (xc_default_limit C)}"
    by (auto simp: recall_rest_def recall_limit_of_def Let_def split: option.splits)
  moreover have "pm_limit p = pm_limit p1"
    by (auto simp: p scope_params_def Let_def split: option.splits)
  ultimately show ?thesis
    using with_options_limit [OF p1]
    by (auto simp: confined_def p scope_params_def Let_def split: option.splits)
qed

lemma override_confined: "confined C (override_params C (p\<lparr>pm_limit := Some 1\<rparr>))"
  "confined C ((override_params C p)\<lparr>pm_limit := Some 10\<rparr>)"
  by (auto simp: confined_def override_params_def Let_def split: option.splits)

text \<open>The facade that is asked the confined recalls only; all others go to another store.\<close>

abbreviation diverted :: "exec_config \<Rightarrow> (recall_params \<Rightarrow> ('s, search_hit list) fop) \<Rightarrow> 's facade \<Rightarrow> 's facade" where
  "diverted C other F \<equiv> F\<lparr>fc_recall := only_confined C (fc_recall F) other\<rparr>"

lemma diverted_recall: "confined C p \<Longrightarrow> fc_recall (diverted C other F) p = fc_recall F p"
  by (simp add: only_confined_def)

lemma diverted_fields:
  "fc_exists (diverted C other F) = fc_exists F" "fc_get (diverted C other F) = fc_get F"
  "fc_get_history (diverted C other F) = fc_get_history F" "fc_default_namespace (diverted C other F) = fc_default_namespace F"
  "fc_active_user (diverted C other F) = fc_active_user F" "fc_open_forks (diverted C other F) = fc_open_forks F"
  "fc_add (diverted C other F) = fc_add F" "fc_supersede (diverted C other F) = fc_supersede F"
  "fc_accumulate (diverted C other F) = fc_accumulate F" "fc_remember (diverted C other F) = fc_remember F"
  "fc_merge (diverted C other F) = fc_merge F" "fc_delete (diverted C other F) = fc_delete F"
  "fc_forget_user (diverted C other F) = fc_forget_user F" "fc_forget_scope (diverted C other F) = fc_forget_scope F"
  "fc_purge_stale (diverted C other F) = fc_purge_stale F" "fc_subject_report (diverted C other F) = fc_subject_report F"
  "fc_entity_at (diverted C other F) = fc_entity_at F" "fc_run_trace (diverted C other F) = fc_run_trace F"
  "fc_runs_touching (diverted C other F) = fc_runs_touching F" "fc_derived_from (diverted C other F) = fc_derived_from F"
  "fc_related (diverted C other F) = fc_related F" "fc_novelty (diverted C other F) = fc_novelty F"
  "fc_grant (diverted C other F) = fc_grant F" "fc_revoke (diverted C other F) = fc_revoke F"
  "fc_show_grants (diverted C other F) = fc_show_grants F" "fc_list_templates (diverted C other F) = fc_list_templates F"
  "fc_define_template (diverted C other F) = fc_define_template F" "fc_drop_template (diverted C other F) = fc_drop_template F"
  "fc_list_queries (diverted C other F) = fc_list_queries F" "fc_get_query (diverted C other F) = fc_get_query F"
  "fc_define_query (diverted C other F) = fc_define_query F" "fc_drop_query (diverted C other F) = fc_drop_query F"
  "fc_update_query_last_run (diverted C other F) = fc_update_query_last_run F"
  "fc_note_assembly_budget (diverted C other F) = fc_note_assembly_budget F"
  "fc_note_assembly_manifest (diverted C other F) = fc_note_assembly_manifest F"
  by simp_all

lemma diverted_params: "recall_params_of E C (diverted C other F) r q = recall_params_of E C F r q"
  unfolding recall_params_of_def diverted_fields by (rule refl)

lemma diverted_contradictions:
  "recall_contradictions E C (diverted C other F) rec r q p b gs = recall_contradictions E C F rec r q p b gs"
  unfolding recall_contradictions_def apply_fork_status_def diverted_fields by (rule refl)

lemma diverted_execute_recall:
  "execute_recall E C (diverted C other F) X rec r q = execute_recall E C F X rec r q"
  unfolding execute_recall_def diverted_params diverted_contradictions
  by (intro ext xbind_cong refl) (drule recall_params_confined, simp only: diverted_recall)

lemma diverted_execute_exists: "execute_exists E C (diverted C other F) x lv = execute_exists E C F x lv"
  unfolding execute_exists_def Let_def diverted_recall [OF override_confined(1)] diverted_fields by (rule refl)

lemma diverted_collect: "collect_versions E (diverted C other F) hs vs = collect_versions E F hs vs"
  by (induction hs arbitrary: vs) (simp_all only: collect_versions.simps diverted_fields)

lemma diverted_execute_history: "execute_history E C (diverted C other F) y lv = execute_history E C F y lv"
  unfolding execute_history_def history_where_def diverted_collect diverted_recall [OF override_confined(2)] history_diff_def
    diverted_fields by (rule refl)

lemma diverted_fetch: "fetch_hashes E (diverted C other F) hs = fetch_hashes E F hs"
  by (induction hs) (simp_all only: fetch_hashes.simps diverted_fields)

lemma diverted_execute_assemble: "execute_assemble E C (diverted C other F) X rec a q = execute_assemble E C F X rec a q"
  unfolding execute_assemble_def assemble_multi_def assemble_single_def assemble_engine_def merge_sources_def
    record_assembly_manifest_def diverted_fetch diverted_fields by (rule refl)

lemmas diverted_others =
  execute_explain_def execute_add_def execute_supersede_def execute_add_workflow_def execute_supersede_workflow_def
  execute_accumulate_def execute_merge_def execute_remember_def execute_forget_def execute_purge_def
  execute_define_template_def execute_define_query_def execute_grant_def execute_revoke_def
  execute_report_subject_def execute_entity_at_def execute_run_trace_def execute_runs_touching_def
  execute_derived_from_def execute_related_def execute_novelty_def execute_show_forks_def execute_show_grants_def
  execute_run_query_def

lemma diverted_statement:
  "execute_statement E C (diverted C other F) G X rec s q = execute_statement E C F G X rec s q"
proof -
  have "execute_coalesce E C (diverted C other F) X rec c q = execute_coalesce E C F X rec c q" for c
    by (simp add: execute_coalesce_def diverted_execute_recall)
  then show ?thesis
    unfolding execute_statement_def diverted_execute_recall diverted_execute_exists diverted_execute_history diverted_execute_assemble
      diverted_others diverted_fields by (simp only:)
qed

text \<open>A recall whose \<^verbatim>\<open>WHERE\<close> lists a foreign namespace.\<close>

definition foreign_recall :: "statement recall_stmt" where
  "foreign_recall = RecallStmt AllGrains None
     (Some \<lparr>wh_condition = CondIn ''namespace'' [CvString ''theirs''] None, wh_span = None\<rparr>)
     None None None None None None None None None"

definition empty_query :: cal_query where
  "empty_query = \<lparr>cq_version = 1, cq_statement = SShowForks \<lparr>sf_span = None\<rparr>, cq_pipeline = [], cq_with = [],
     cq_format = None, cq_let = [], cq_user_vars = [], cq_let_values = [], cq_warnings = []\<rparr>"

definition foreign_params :: "cal_error + recall_params" where
  "foreign_params = fst (recall_params_of exec_env0 (config_default\<lparr>xc_namespace_override := Some ''mine''\<rparr>) counting
     foreign_recall empty_query (0, []))"

text \<open>
  C17. Every recall that the executor asks of the store, in whatever statement and however deep,
  carries the namespace and the user of the capability token, and a limit that is at most the
  larger one of \<^verbatim>\<open>max_limit\<close> and \<^verbatim>\<open>default_limit\<close>, or the fixed 1 of \<^verbatim>\<open>EXISTS\<close> or 10 of
  \<^verbatim>\<open>HISTORY WHERE\<close>: replacing the store for all other recalls makes no difference to any query.
  The list of namespaces beside the single one is not confined: under a token for one namespace,
  \<^verbatim>\<open>namespace IN ("theirs")\<close> asks with the token's namespace and the foreign list.
\<close>

theorem recalls_confined:
  "execute E C (F\<lparr>fc_recall := only_confined C (fc_recall F) other\<rparr>) G X n input s = execute E C F G X n input s
   \<and> map_sum id (\<lambda>p. (pm_namespace p, pm_namespaces p)) foreign_params = Inr (Some ''mine'', Some [''theirs''])"
proof (rule conjI)
  show "map_sum id (\<lambda>p. (pm_namespace p, pm_namespaces p)) foreign_params = Inr (Some ''mine'', Some [''theirs''])"
    by code_simp
  have "execute_n E C (diverted C other F) G X n = execute_n E C F G X n" for n
  proof (induction n)
    case (Suc n)
    have "execute_statement E C (diverted C other F) G X rec = execute_statement E C F G X rec" for rec
      by (intro ext) (simp only: diverted_statement)
    with Suc show ?case by (simp only: execute_n.simps)
  qed (simp only: execute_n.simps)
  then show "execute E C (F\<lparr>fc_recall := only_confined C (fc_recall F) other\<rparr>) G X n input s = execute E C F G X n input s"
    by (simp only: execute_def execute_parsed_def)
qed

end
