(* ===== verification/Cal_Exec_Ends.thy ===== *)
theory Cal_Exec_Ends
  imports Cal_Exec_Props Cal_Read_Only
begin

text \<open>
  When execution ends: without saved queries it needs as many levels as the statement is deep,
  and a saved query that runs itself in a branch of \<^verbatim>\<open>COALESCE\<close> never ends. Then what \<^verbatim>\<open>EXPLAIN\<close>,
  set operations, batches and \<^verbatim>\<open>LET\<close> promise.
\<close>

section \<open>Steps that do not run out of levels\<close>

definition unstuck :: "('s, 'a) ex \<Rightarrow> bool" where
  "unstuck m = (\<forall>st. fst (m st) \<noteq> Inl CeStuck)"

named_theorems unsticking "steps that do not run out of levels"

lemma unstuck_simple [unsticking]:
  "unstuck (xret x)" "unstuck (xwarn w)" "unstuck (xget g)" "e \<noteq> CeStuck \<Longrightarrow> unstuck (xfail e)"
  "r \<noteq> Inl CeStuck \<Longrightarrow> unstuck (xlift r)"
  by (simp_all add: unstuck_def xret_def xfail_def xwarn_def xget_def xlift_def)

lemma unstuck_bind [unsticking]: "unstuck m \<Longrightarrow> (\<And>x. unstuck (f x)) \<Longrightarrow> unstuck (xbind m f)"
  by (auto simp: unstuck_def xbind_def split: prod.splits sum.splits; metis fst_conv)

lemma unstuck_put [unsticking]: "unstuck (xput f)"
  by (simp add: unstuck_def xput_def)

lemma unstuck_xwarns [unsticking]: "unstuck (xwarns ws)"
  by (induction ws) (auto intro!: unsticking)

lemma unstuck_call [unsticking]: "unstuck (xcall op)"
  by (auto simp: unstuck_def xcall_def split: prod.splits)

lemma unstuck_call_map [unsticking]: "(\<And>e. h e \<noteq> CeStuck) \<Longrightarrow> unstuck (xcall_map h op)"
  unfolding xcall_map_def by (intro unsticking) (auto intro!: unsticking split: sum.splits)

lemma unstuck_attempt [unsticking]: "unstuck (attempt E name what op ok)"
  unfolding attempt_def by (intro unsticking)

lemma unstuck_if [unsticking]: "(b \<Longrightarrow> unstuck m) \<Longrightarrow> (\<not> b \<Longrightarrow> unstuck m') \<Longrightarrow> unstuck (if b then m else m')"
  by simp

lemma unstuck_option [unsticking]:
  "(x = None \<Longrightarrow> unstuck m) \<Longrightarrow> (\<And>y. x = Some y \<Longrightarrow> unstuck (f y)) \<Longrightarrow> unstuck (case x of None \<Rightarrow> m | Some y \<Rightarrow> f y)"
  by (cases x) auto

lemma unstuck_sum [unsticking]:
  "(\<And>e. x = Inl e \<Longrightarrow> unstuck (f e)) \<Longrightarrow> (\<And>y. x = Inr y \<Longrightarrow> unstuck (g y)) \<Longrightarrow> unstuck (case x of Inl e \<Rightarrow> f e | Inr y \<Rightarrow> g y)"
  by (cases x) auto

lemma unstuck_prod [unsticking]: "(\<And>a b. x = (a, b) \<Longrightarrow> unstuck (f a b)) \<Longrightarrow> unstuck (case x of (a, b) \<Rightarrow> f a b)"
  by (cases x) auto

lemma unstuck_list [unsticking]:
  "(xs = [] \<Longrightarrow> unstuck m) \<Longrightarrow> (\<And>y ys. xs = y # ys \<Longrightarrow> unstuck (f y ys)) \<Longrightarrow> unstuck (case xs of [] \<Rightarrow> m | y # ys \<Rightarrow> f y ys)"
  by (cases xs) auto

section \<open>Errors of the pure parts\<close>

text \<open>No pure part of the executor answers \<open>CeStuck\<close>.\<close>

named_theorems no_stuck "results other than stuck"

lemma and_then_stuck [no_stuck]: "r \<noteq> Inl e \<Longrightarrow> (\<And>x. f x \<noteq> Inl e) \<Longrightarrow> and_then r f \<noteq> Inl e"
  by (auto simp: and_then_def split: sum.splits)

lemma map_res_stuck [no_stuck]: "(\<And>x. f x \<noteq> Inl e) \<Longrightarrow> map_res f xs \<noteq> Inl e"
  by (induction xs) (auto simp: and_then_def split: sum.splits)

lemma value_stuck [no_stuck]: "value_to_string E v \<noteq> Inl CeStuck" "value_to_f64 E v \<noteq> Inl CeStuck"
  "in_value E lv sp' v \<noteq> Inl CeStuck"
  by (cases v; simp split: option.splits)+

lemma in_strings_stuck [no_stuck]: "in_strings E lv sp' vs \<noteq> Inl CeStuck"
  unfolding in_strings_def by (intro no_stuck) simp

lemma with_stuck [no_stuck]: "apply_with_options E ws p \<noteq> Inl CeStuck"
proof -
  have "apply_with_option E w p \<noteq> Inl CeStuck" for w p
    by (cases w) (simp_all add: Let_def llm_unavailable_def)
  then show ?thesis by (induction ws arbitrary: p) (auto simp: and_then_def split: sum.splits)
qed

lemma hash_stuck [no_stuck]: "parse_hash E sp' h \<noteq> Inl CeStuck"
  by (simp add: parse_hash_def split: sum.splits)

lemma post_where_stuck [no_stuck]: "post_where E r gs \<noteq> Inl CeStuck"
  by (simp add: post_where_def field_error_def split: option.splits)

lemma scope_stuck [no_stuck]: "check_caller_scope C s \<noteq> Inl CeStuck"
  by (simp add: check_caller_scope_def Let_def)

lemma stages_stuck [no_stuck]: "check_stages q \<noteq> Inl CeStuck"
proof -
  have "check_stage_field g sp' f \<noteq> Inl CeStuck" for g sp' f by (simp add: check_stage_field_def)
  then have "validate_stage g s \<noteq> Inl CeStuck" for g s
    unfolding validate_stage_def prod.case_eq_if by (intro and_then_stuck map_res_stuck) simp_all
  then have "validate_pipeline_fields ss g \<noteq> Inl CeStuck" for ss g
    unfolding validate_pipeline_fields_def by (intro and_then_stuck map_res_stuck) simp_all
  then show ?thesis by (auto simp: check_stages_def split: statement.splits)
qed

lemma store_err_stuck [no_stuck]: "map_store_err E sp' e \<noteq> CeStuck" "diff_store_err E w h sp' e \<noteq> CeStuck"
  "template_error E n e \<noteq> CeStuck" "query_error E e \<noteq> CeStuck"
  by (auto simp: map_store_err_def diff_store_err_def template_error_def query_error_def Let_def split: deja_error.splits)

lemma unstuck_where [unsticking]: "unstuck (apply_where_clause E C lv c p)"
proof (induction c arbitrary: p)
  case (Comparison f k v sp')
  show ?case
    unfolding apply_where_clause.simps where_comparison_def set_str_def set_num_def ignored_def
    by (intro unsticking no_stuck)
next
  case (CondIsCategory f k sp')
  show ?case unfolding apply_where_clause.simps where_category_def ignored_def by (intro unsticking)
qed (auto simp: ignored_def intro!: unsticking in_strings_stuck)

lemma unstuck_where_step [unsticking]: "unstuck (where_step E C lv w p)"
  unfolding where_step_def by (intro unsticking)

section \<open>The handlers\<close>

definition parts_unstuck :: "'s exec_parts \<Rightarrow> bool" where
  "parts_unstuck X = ((\<forall>d. unstuck (px_describe X d)) \<and> (\<forall>a b c d e. unstuck (px_render X a b c d e)))"

lemma unstuck_format_grains [unsticking]: "parts_unstuck X \<Longrightarrow> unstuck (format_grains X gs plan fmt g vs)"
proof -
  assume X: "parts_unstuck X"
  have "unstuck (render_all X gs plan g vs es m)" for es m
    using X by (induction es arbitrary: m) (auto simp: parts_unstuck_def intro!: unsticking)
  then show ?thesis
    using X unfolding format_grains_def by (cases fmt) (auto simp: parts_unstuck_def intro!: unsticking)
qed

lemma unstuck_format [unsticking]: "parts_unstuck X \<Longrightarrow> unstuck (apply_format_clause X ident f g vs p)"
  unfolding apply_format_clause_def by (cases f; cases p; auto intro!: unsticking)


lemma unstuck_recall:
  assumes X: "parts_unstuck X" and rec: "\<And>t q. t \<in> set (recall_subs r) \<Longrightarrow> unstuck (rec t q)"
  shows "unstuck (execute_recall E C F X rec r q)"
proof -
  have "unstuck (contradiction_scope rec q ns cl)" if "rs_contradictions r = Some cl" for ns cl
    using that rec unfolding contradiction_scope_def
    by (intro unsticking) (auto simp: recall_subs_def contradictions_subs_def intro!: unsticking split: payload.splits)
  then have "unstuck (recall_contradictions E C F rec r q p b gs)" for p b gs
    unfolding recall_contradictions_def apply_fork_status_def Let_def by (intro unsticking)
  then show ?thesis
    using X unfolding execute_recall_def recall_params_of_def Let_def
    by (intro unsticking no_stuck) (simp_all add: exhaustive_needs_about_def)
qed

lemma unstuck_exists: "unstuck (execute_exists E C F x lv)"
  unfolding execute_exists_def Let_def by (intro unsticking no_stuck)

lemma unstuck_history: "unstuck (execute_history E C F y lv)"
proof -
  have "unstuck (collect_versions E F hs vs)" for hs vs
    by (induction hs arbitrary: vs) (auto simp: Let_def intro!: unsticking)
  then show ?thesis unfolding execute_history_def history_diff_def history_where_def
    by (intro unsticking no_stuck) (auto intro!: unsticking no_stuck split: deja_error.splits)
qed

lemma unstuck_tier1: "unstuck m \<Longrightarrow> unstuck (need_tier1 C n sp' m)"
  by (auto simp: need_tier1_def intro!: unsticking)

lemma unstuck_destructive: "unstuck m \<Longrightarrow> unstuck (need_destructive C n m)"
  by (auto simp: need_destructive_def intro!: unsticking)

lemma unstuck_leaves:
  "unstuck (execute_explain E C F s q)" "unstuck (execute_add E C F a1)" "unstuck (execute_supersede E C F a2)"
  "unstuck (execute_add_workflow E C F a3)" "unstuck (execute_supersede_workflow E C F a4)" "unstuck (execute_merge E C F a6)"
  "unstuck (execute_remember E C F a7)" "unstuck (execute_grant E C F a8)" "unstuck (execute_revoke E C F a9)"
  "unstuck (execute_purge E C F a10)" "unstuck (execute_report_subject E F a11)" "unstuck (execute_entity_at E F a12)"
  "unstuck (execute_run_trace E F a13)" "unstuck (execute_runs_touching E F a14)" "unstuck (execute_derived_from E F a15)"
  "unstuck (execute_related E F a16)" "unstuck (execute_novelty E F a17)" "unstuck (execute_show_forks E F)"
  "unstuck (execute_show_grants E F a18)" "unstuck (execute_review E G b a19)" "unstuck (execute_apply E C G a20)"
  "unstuck (execute_rollback E G a21)" "unstuck (execute_run_loop E G a22)"
  unfolding execute_explain_def execute_add_def execute_supersede_def execute_add_workflow_def
    execute_supersede_workflow_def execute_merge_def execute_remember_def execute_grant_def execute_revoke_def
    execute_purge_def execute_report_subject_def execute_entity_at_def execute_run_trace_def execute_runs_touching_def
    execute_derived_from_def execute_related_def execute_novelty_def execute_show_forks_def execute_show_grants_def
    execute_review_def execute_apply_def execute_rollback_def execute_run_loop_def with_host_def Let_def
  by (intro unstuck_tier1 unstuck_destructive unsticking no_stuck; simp)+

lemma unstuck_accumulate: "unstuck (execute_accumulate E C F a)"
  unfolding execute_accumulate_def Let_def
  by (intro unstuck_tier1 unsticking) (auto intro!: unsticking split: deja_error.splits)

lemma unstuck_forget: "unstuck (execute_forget E C F f)"
  unfolding execute_forget_def
  by (intro unstuck_destructive) (auto intro!: unsticking no_stuck split: forget_target.splits)

lemma unstuck_define: "unstuck (execute_define_template E C F d)" "unstuck (execute_define_query E C F e)"
  unfolding execute_define_template_def execute_define_query_def under_cap_def
  by (intro unsticking no_stuck; auto simp: over_cap_def Let_def split: option.splits if_splits)+

section \<open>Statements of statements\<close>

lemma unstuck_batch:
  assumes X: "parts_unstuck X" and rec: "\<And>t q. t \<in> set (batch_statements b) \<Longrightarrow> unstuck (rec t q)"
  shows "unstuck (execute_batch E C X rec b)"
proof -
  have entry: "unstuck (execute_batch_entry E C X rec e)" if "be_statement e \<in> set (batch_statements b)" for e
  proof -
    have "unstuck (entry_payload (be_statement e) (rec (be_statement e) (entry_query e)))"
      using rec [OF that, of "entry_query e"]
      by (auto simp: unstuck_def entry_payload_def split: prod.splits sum.splits) (metis fst_conv is_abort.simps(2))
    then show ?thesis unfolding execute_batch_entry_def using X by (intro unsticking)
  qed
  have "unstuck (batch_labeled E C X rec sp' es m)" if "(\<lambda>(_, e). be_statement e) ` set es \<subseteq> set (batch_statements b)" for sp' es m
    using that by (induction es arbitrary: m) (auto intro!: unsticking entry)
  moreover have "unstuck (batch_positional E C X rec i es m)" if "be_statement ` set es \<subseteq> set (batch_statements b)" for i es m
    using that by (induction es arbitrary: i m) (auto intro!: unsticking entry)
  ultimately show ?thesis unfolding execute_batch_def
    by (intro unsticking) (auto simp: batch_statements_def)
qed

lemma unstuck_coalesce:
  assumes X: "parts_unstuck X" and rec: "\<And>t q. t \<in> set (coalesce_subs c) \<Longrightarrow> unstuck (rec t q)"
  shows "unstuck (execute_coalesce E C F X rec c q)"
proof -
  have "unstuck (coalesce_branches rec q els i bs)"
    if "cb_query ` set bs \<subseteq> set (coalesce_subs c)" "\<And>s. els = Some s \<Longrightarrow> s \<in> set (coalesce_subs c)" for els i bs
    using that by (induction bs arbitrary: i) (auto intro!: unsticking rec)
  moreover have "unstuck (execute_recall E C F X rec (coalesce_recall c) q)"
    by (rule unstuck_recall [OF X]) (simp add: recall_subs_def coalesce_recall_def)
  ultimately show ?thesis unfolding execute_coalesce_def
    by (intro unsticking) (auto simp: coalesce_subs_def)
qed

lemma unstuck_set_op:
  assumes rec: "\<And>t q. t \<in> set ss \<Longrightarrow> unstuck (rec t q)" shows "unstuck (execute_set_op rec k ss q)"
proof -
  have "unstuck (operand_grains rec q ts)" if "set ts \<subseteq> set ss" for ts
    using that by (induction ts) (auto intro!: unsticking rec)
  then show ?thesis unfolding execute_set_op_def by (intro unsticking) auto
qed

text \<open>The statements that an assembly executes: the recall of its single source, or its sources.\<close>

definition assemble_calls :: "statement assemble_stmt \<Rightarrow> statement list" where
  "assemble_calls a = (case as_from a of SrcQuery r \<Rightarrow> [SRecall r] | _ \<Rightarrow> [])
     @ (case as_sources a of None \<Rightarrow> [] | Some ns \<Rightarrow> map ns_query ns)"

lemma unstuck_assemble:
  assumes X: "parts_unstuck X" and rec: "\<And>t q. t \<in> set (assemble_calls a) \<Longrightarrow> unstuck (rec t q)"
  shows "unstuck (execute_assemble E C F X rec a q)"
proof -
  have "unstuck (run_sources X rec q' sp' start limit ss)" if "ns_query ` set ss \<subseteq> set (assemble_calls a)" for q' sp' start limit ss
    using that by (induction ss) (auto simp: execute_source_def intro!: unsticking rec)
  then have srcs: "unstuck (run_sources X rec q' sp' start limit ss)" if "as_sources a = Some ss" for q' sp' start limit ss
    using that by (simp add: assemble_calls_def)
  have logged: "unstuck (record_assembly_manifest E C F X a cs us p b ss)" for cs us p b ss
    unfolding record_assembly_manifest_def sample_assembly_manifest_def Let_def by (intro unsticking)
  have "unstuck (assemble_multi E C F X rec a q')" for q'
    unfolding assemble_multi_def assemble_engine_def merge_sources_def Let_def
    by (intro unsticking logged srcs X) (auto intro!: unsticking)
  moreover have "unstuck (fetch_hashes E F hs)" for hs
    by (induction hs) (auto intro!: unsticking split: sum.splits)
  moreover have "unstuck (assemble_single E C F X a q' gs)" for q' gs
    unfolding assemble_single_def Let_def by (intro unsticking logged X)
  ultimately show ?thesis
    unfolding execute_assemble_def Let_def
    by (intro unsticking) (auto simp: assemble_calls_def intro!: unsticking rec split: asm_source.splits)
qed

text \<open>Statements whose execution does not call a saved query.\<close>

fun self_contained :: "statement \<Rightarrow> bool" where
  "self_contained (SRunQuery _) = False"
| "self_contained _ = True"

fun calls :: "statement \<Rightarrow> statement list" where
  "calls (SAssemble a) = assemble_calls a"
| "calls s = sub_statements s"

lemma calls_size: "t \<in> set (calls s) \<Longrightarrow> size t < size s"
proof (cases s)
  case (SAssemble a)
  assume t: "t \<in> set (calls s)"
  show ?thesis
  proof (cases "t \<in> set (assemble_subs a)")
    case True
    then show ?thesis using sub_statements_size [of t s] by (simp add: SAssemble)
  next
    case False
    then obtain r where "as_from a = SrcQuery r" "t = SRecall r"
      using t by (cases "as_from a") (auto simp: SAssemble assemble_calls_def assemble_subs_def)
    then show ?thesis by (cases a) (simp add: SAssemble)
  qed
qed (use sub_statements_size [of t s] in simp_all)

lemma calls_self_contained: "every self_contained s \<Longrightarrow> t \<in> set (calls s) \<Longrightarrow> every self_contained t"
proof -
  assume s: "every self_contained s" and t: "t \<in> set (calls s)"
  have subs: "u \<in> set (sub_statements s) \<Longrightarrow> every self_contained u" for u
    using s by (subst (asm) every.simps) (auto simp: list_all_iff)
  show ?thesis
  proof (cases "t \<in> set (sub_statements s)")
    case False
    then obtain a where a: "s = SAssemble a"
      using t by (cases s) simp_all
    with False t obtain r where "as_from a = SrcQuery r" "t = SRecall r"
      by (cases "as_from a") (auto simp: assemble_calls_def assemble_subs_def)
    with a show ?thesis
      using subs by (subst every.simps) (auto simp: list_all_iff assemble_subs_def source_subs_def)
  qed (rule subs)
qed

lemma unstuck_statement:
  assumes X: "parts_unstuck X" and s: "self_contained s" and rec: "\<And>t q. t \<in> set (calls s) \<Longrightarrow> unstuck (rec t q)"
  shows "unstuck (execute_statement E C F G X rec s q)"
proof -
  have start: "unstuck (xbind (xlift (check_caller_scope C s)) (\<lambda>_. m))" if "unstuck m" for m :: "('a, payload) ex"
    using that by (intro unsticking no_stuck)
  have drops: "unstuck (need_destructive C n (attempt E n t op ok))" for n t ok and op :: "('a, unit) fop"
    by (intro unstuck_destructive unsticking)
  have d: "unstuck (px_describe X d)" for d using X by (simp add: parts_unstuck_def)
  note leaves = unstuck_leaves unstuck_accumulate unstuck_forget unstuck_define unstuck_exists unstuck_history drops d
    unstuck_simple(1)
  note nested = unstuck_recall [OF X] unstuck_assemble [OF X] unstuck_batch [OF X] unstuck_coalesce [OF X] unstuck_set_op
  show ?thesis
    unfolding execute_statement_def by (rule start) (use s rec in \<open>cases s; simp add: leaves nested\<close>)
qed

lemma unstuck_n:
  assumes X: "parts_unstuck X"
  shows "every self_contained s \<Longrightarrow> size s < n \<Longrightarrow> unstuck (execute_n E C F G X n s q)"
proof (induction n arbitrary: s q)
  case (Suc n)
  have "self_contained s" using Suc.prems(1) by (subst (asm) every.simps) simp
  moreover have "unstuck (execute_n E C F G X n t q)" if "t \<in> set (calls s)" for t q
    using Suc.IH [OF calls_self_contained [OF Suc.prems(1) that]] calls_size [OF that] Suc.prems(2) by simp
  ultimately show ?case using unstuck_statement [OF X] by simp
qed simp

lemma unstuck_lets:
  assumes "\<And>b q. b \<in> set (cq_let q0) \<Longrightarrow> unstuck (run (lb_source b) q)"
  shows "unstuck (bind_lets run q0)"
proof -
  have "unstuck (evaluate_lets run q bs sc)" if "set bs \<subseteq> set (cq_let q0)" for q bs sc
    using that by (induction bs arbitrary: sc) (auto simp: cap_grains_def intro!: unsticking assms)
  then show ?thesis unfolding bind_lets_def let_evaluate_def by (intro unsticking) auto
qed

lemma bind_lets_statement: "bind_lets run q0 st = (Inr q, st') \<Longrightarrow> cq_statement q = cq_statement q0"
  by (auto simp: bind_lets_def xbind_results xret_def split: if_splits)

text \<open>
  C18. A query that runs no saved query, in its statement and its \<^verbatim>\<open>LET\<close> bindings, is
  executed to the end, in an answer or an error, within as many levels as its largest statement
  has size.
\<close>

theorem query_terminates:
  assumes "parts_unstuck X"
    and "list_all (\<lambda>s. every self_contained s \<and> size s < n) (cq_statement q # map lb_source (cq_let q))"
  shows "fst (execute_parsed E C F G X n q input s) \<noteq> Inl CeStuck"
proof -
  let ?run = "execute_n E C F G X n"
  have run: "unstuck (?run (cq_statement q) q')" "b \<in> set (cq_let q) \<Longrightarrow> unstuck (?run (lb_source b) q')" for b q'
    using assms by (auto simp: list_all_iff intro!: unstuck_n)
  have "fst (run_query E C X ?run q st) \<noteq> Inl CeStuck" for st
  proof -
    obtain r st' where Pair: "bind_lets ?run q st = (r, st')" by (cases "bind_lets ?run q st")
    show ?thesis
    proof (cases r)
      case (Inl e)
      have "fst (bind_lets ?run q st) \<noteq> Inl CeStuck"
        using unstuck_lets [of q ?run, OF run(2)] unfolding unstuck_def by blast
      then show ?thesis by (simp add: run_query_def xbind_def Pair Inl)
    next
      case (Inr q')
      have "unstuck (?run (cq_statement q') q')"
        using bind_lets_statement [OF Pair [unfolded Inr]] run(1) by simp
      then have "unstuck (xbind (xlift (check_stages q')) (\<lambda>_. xbind (?run (cq_statement q') q') (\<lambda>p.
          case apply_pipeline E C p (cq_pipeline q') of (p', grouped) \<Rightarrow>
            apply_format_clause X None (cq_format q') grouped (cq_user_vars q') p')))"
        using assms(1) by (intro unsticking no_stuck)
      then show ?thesis using Pair Inr by (cases st') (simp add: run_query_def xbind_def [of "bind_lets ?run q"] unstuck_def)
    qed
  qed
  then show ?thesis
    by (auto simp: execute_parsed_def split: prod.splits sum.splits) (metis fst_conv)
qed

theorem query_terminates_witness:
  "fst (execute_parsed exec_env0 config_default counting None no_parts 2
     \<lparr>cq_version = 1, cq_statement = SShowForks \<lparr>sf_span = None\<rparr>, cq_pipeline = [], cq_with = [], cq_format = None, cq_let = [],
      cq_user_vars = [], cq_let_values = [], cq_warnings = []\<rparr> [] 0) \<noteq> Inl CeStuck"
  by (rule query_terminates) (simp_all add: parts_unstuck_def no_parts_def unsticking every_leaf)

section \<open>A saved query that runs itself\<close>

lemma bind_steps:
  "xbind (xget g) f st = f (g (fst st)) st" "xbind (xret x) f st = f x st" "xbind (xlift (Inr x)) f st = f x st"
  "xbind (xfail e) f st = (Inl e, st)"
  by (simp_all add: xbind_def xget_def xret_def xlift_def xfail_def)

lemma branch_tokens:
  assumes "map st_token us =
    [Kw ''COALESCE'', Sym ''('', Kw ''RUN'', StringLiteral x, Sym '','', Kw ''RUN'', StringLiteral y, Sym '')'']"
  shows "\<exists>q p c s s' r r'. parse_query sub E (parser_new us input) = Inr (q, p) \<and> cq_statement q = SCoalesce c
    \<and> cs_branches c = [CoalesceBranch (SRunQuery \<lparr>rq_name = x, rq_bindings = [], rq_span = s\<rparr>) r,
        CoalesceBranch (SRunQuery \<lparr>rq_name = y, rq_bindings = [], rq_span = s'\<rparr>) r']"
proof -
  obtain t1 t2 t3 t4 t5 t6 t7 t8 where us: "us = [t1, t2, t3, t4, t5, t6, t7, t8]"
    and t: "st_token t1 = Kw ''COALESCE''" "st_token t2 = Sym ''(''" "st_token t3 = Kw ''RUN''" "st_token t4 = StringLiteral x"
     "st_token t5 = Sym '',''" "st_token t6 = Kw ''RUN''" "st_token t7 = StringLiteral y" "st_token t8 = Sym '')''"
    using assms by auto
  show ?thesis
    by (simp add: us t parser_new_def run run_parsers run_data parse_run_query_def [THEN applied] is_word.simps
        parse_string_literal_def [THEN applied] del: parse_statement_n.simps loop.simps)
qed

definition run_twice :: utext where
  "run_twice = utext_of (CHR '' '' # unlex [''COALESCE'', ''('', ''RUN'', [CHR 0x22, CHR ''x'', CHR 0x22], '','',
     ''RUN'', [CHR 0x22, CHR ''x'', CHR 0x22], '')''])"

lemma run_twice_tokens:
  "\<exists>us. cal_tokenize cal_env0 run_twice = Inr us \<and> map st_token us = [Kw ''COALESCE'', Sym ''('', Kw ''RUN'',
     StringLiteral ''x'', Sym '','', Kw ''RUN'', StringLiteral ''x'', Sym '')'']"
proof -
  let ?ts = "[Kw ''COALESCE'', Sym ''('', Kw ''RUN'', StringLiteral ''x'', Sym '','', Kw ''RUN'', StringLiteral ''x'', Sym '')'']"
  have "wf_token (Kw ''COALESCE'')" "wf_token (Sym ''('')" "wf_token (Kw ''RUN'')" "wf_token (Sym '','')" "wf_token (Sym '')'')"
    by code_simp+
  then have "list_all2 (\<lambda>t s. wf_token t \<and> prints cal_env0 t s) ?ts [''COALESCE'', ''('', ''RUN'', [CHR 0x22, CHR ''x'', CHR 0x22],
     '','', ''RUN'', [CHR 0x22, CHR ''x'', CHR 0x22], '')'']" by (simp add: escape_def)
  from unlex_tokens [OF this, of "(1, 0, 0)"] show ?thesis
    by (auto simp: lexed_def cal_tokenize_def lexer_new_def run_twice_def result_simps)
qed

lemma run_twice_parses:
  obtains q c s bs r where "cal_parse cal_env0 run_twice = Inr q" "cq_statement q = SCoalesce c"
    "cs_branches c = CoalesceBranch (SRunQuery \<lparr>rq_name = ''x'', rq_bindings = [], rq_span = s\<rparr>) r # bs"
proof -
  obtain us where us: "cal_tokenize cal_env0 run_twice = Inr us" "map st_token us = [Kw ''COALESCE'', Sym ''('', Kw ''RUN'',
     StringLiteral ''x'', Sym '','', Kw ''RUN'', StringLiteral ''x'', Sym '')'']"
    using run_twice_tokens by (elim exE conjE) (rule that)
  have short: "utext_len run_twice \<le> MAX_QUERY_LENGTH" "utrim run_twice \<noteq> []"
    by (simp_all add: run_twice_def utext_of_def unlex_def utext_len_def scalar_len_def MAX_QUERY_LENGTH_def utrim_def is_white_def)
  let ?sub = "\<lambda>E' body. if utext_len body < utext_len run_twice then cal_parse E' body else Inl (CePanic ''unreachable'')"
  obtain q p c s s' r r' where q: "parse_query ?sub cal_env0 (parser_new us run_twice) = Inr (q, p)" "cq_statement q = SCoalesce c"
    "cs_branches c = [CoalesceBranch (SRunQuery \<lparr>rq_name = ''x'', rq_bindings = [], rq_span = s\<rparr>) r,
        CoalesceBranch (SRunQuery \<lparr>rq_name = ''x'', rq_bindings = [], rq_span = s'\<rparr>) r']"
    using branch_tokens [OF us(2), of ?sub cal_env0 run_twice] by (elim exE conjE) (rule that)
  have "cal_parse cal_env0 run_twice = parse_with ?sub cal_env0 run_twice"
    by (rule cal_parse.simps)
  also have "\<dots> = Inr q"
    using short us q(1) by (auto simp: parse_with_def)
  finally show thesis using q(2,3) by (rule that)
qed

text \<open>A store with one saved query, \<^verbatim>\<open>DEFINE QUERY "x" AS { COALESCE ( RUN "x" , RUN "x" ) }\<close>.\<close>

definition self_running :: "nat facade" where
  "self_running = counting\<lparr>fc_get_query := \<lambda>n s. if n = ''x'' then Some \<lparr>qe_body = run_twice, qe_params = []\<rparr> else None\<rparr>"

text \<open>
  C19. Running a saved query can go on forever: the check that a saved body is read-only accepts
  \<^verbatim>\<open>COALESCE(RUN "x", RUN "x")\<close> as the body of \<^verbatim>\<open>"x"\<close>, and \<^verbatim>\<open>RUN "x"\<close> then needs more levels than any
  number of them.
\<close>

theorem run_never_ends:
  "query_is_read_only cal_env0 run_twice
   \<and> fst (execute_n exec_env0 config_default self_running G X n (SRunQuery \<lparr>rq_name = ''x'', rq_bindings = [], rq_span = sp'\<rparr>) q st)
       = Inl CeStuck"
proof
  obtain q1 c s bs r where q1: "cal_parse cal_env0 run_twice = Inr q1" "cq_statement q1 = SCoalesce c"
    "cs_branches c = CoalesceBranch (SRunQuery \<lparr>rq_name = ''x'', rq_bindings = [], rq_span = s\<rparr>) r # bs"
    by (rule run_twice_parses)
  show "query_is_read_only cal_env0 run_twice"
    using q1 by (simp add: query_is_read_only_def)
  let ?x = "\<lambda>s. SRunQuery \<lparr>rq_name = ''x'', rq_bindings = [], rq_span = s\<rparr>" and ?C = config_default
  have scope: "check_caller_scope ?C t = Inr ()" for t by (simp add: check_caller_scope_def config_default_def)
  have saved: "saved_query exec_env0 \<lparr>qe_body = run_twice, qe_params = []\<rparr> [] s1 = Inr q1" for s1
    using q1 by (simp add: saved_query_def exec_env0_def substitute_params_def result_simps)
  have run: "execute_statement exec_env0 ?C self_running G X rec (?x s1) q' st1
      = xbind (rec (SCoalesce c) (merge_queries q' q1)) (\<lambda>p. xbind (xcall (fc_update_query_last_run self_running ''x'')) (\<lambda>_. xret p)) st1"
    for rec s1 q' st1
    by (simp add: execute_statement_def scope bind_steps execute_run_query_def self_running_def param_values_def
        missing_param_def unused_warnings_def saved Let_def merge_queries_def q1(2))
  have coalesce: "execute_statement exec_env0 ?C self_running G X rec (SCoalesce c) q' st1 = (Inl CeStuck, st')"
    if "rec (?x s) (surrogate q' (?x s)) st1 = (Inl CeStuck, st')" for rec q' st1 st'
  proof -
    have "xbind (rec (?x s) (surrogate q' (?x s))) f st1 = (Inl CeStuck, st')" for f :: "payload \<Rightarrow> (nat, payload) ex"
      using that by (simp add: xbind_def)
    then show ?thesis by (simp add: execute_statement_def scope bind_steps execute_coalesce_def q1(3))
  qed
  have "fst (execute_n exec_env0 ?C self_running G X n (?x s1) q' st1) = Inl CeStuck" for s1 q' st1
  proof (induction n arbitrary: s1 q' st1 rule: less_induct)
    case (less n)
    show ?case
    proof (cases n)
      case 0
      then show ?thesis by (simp add: xfail_def)
    next
      case (Suc m)
      have "fst (execute_n exec_env0 ?C self_running G X m (SCoalesce c) q2 st1) = Inl CeStuck" for q2
      proof (cases m)
        case 0
        then show ?thesis by (simp add: xfail_def)
      next
        case (Suc k)
        have "fst (execute_n exec_env0 ?C self_running G X k (?x s) (surrogate q2 (?x s)) st1) = Inl CeStuck"
          using \<open>n = Suc m\<close> Suc by (intro less.IH) simp
        then obtain st' where "execute_n exec_env0 ?C self_running G X k (?x s) (surrogate q2 (?x s)) st1 = (Inl CeStuck, st')"
          by (metis prod.collapse)
        from coalesce [of "execute_n exec_env0 ?C self_running G X k" q2 st1 st', OF this] show ?thesis by (simp add: Suc)
      qed
      then obtain st' where "execute_n exec_env0 ?C self_running G X m (SCoalesce c) (merge_queries q' q1) st1 = (Inl CeStuck, st')"
        by (metis prod.collapse)
      then show ?thesis by (simp add: Suc run xbind_def)
    qed
  qed
  then show "fst (execute_n exec_env0 ?C self_running G X n (?x sp') q st) = Inl CeStuck" .
qed

section \<open>EXPLAIN\<close>

text \<open>
  C26. \<^verbatim>\<open>EXPLAIN\<close> runs nothing: whatever the statement, store and warnings are left as they are, and
  the plan is the same with every other store that has the same namespace and user, with any
  governance host, and with any text, bindings and options around it but the pipeline.
\<close>

theorem explain_inert:
  "snd (execute_n E C F G X (Suc n) (SExplain s sp') q st) = st
   \<and> execute_n E C (F'\<lparr>fc_default_namespace := fc_default_namespace F, fc_active_user := fc_active_user F\<rparr>) G' X' (Suc m)
       (SExplain s sp') (q'\<lparr>cq_pipeline := cq_pipeline q\<rparr>) st = execute_n E C F G X (Suc n) (SExplain s sp') q st"
proof -
  obtain gt routing ix filters where p: "explain_parts E s = (gt, routing, ix, filters)"
    by (cases "explain_parts E s") auto
  show ?thesis
    by (cases "check_caller_scope C (SExplain s sp')")
       (simp_all add: execute_statement_def execute_explain_def p bind_steps xbind_def [of "xlift (Inl _)"] xlift_def xret_def)
qed

section \<open>Set operations, batches and LET\<close>

text \<open>
  C24. \<^verbatim>\<open>UNION\<close>, \<^verbatim>\<open>INTERSECT\<close> and \<^verbatim>\<open>EXCEPT\<close> of any number of operands are the set operations on content
  addresses, taken from the left; the first operand keeps its order, and the count is that of
  the grains.
\<close>

theorem set_operations_exact:
  "case combine_operands k (gs # rest) of
     PGrains r t \<Rightarrow>
       hashes_of r = (case k of
           SoUnion \<Rightarrow> \<Union> (hashes_of ` set (gs # rest))
         | SoIntersect \<Rightarrow> \<Inter> (hashes_of ` set (gs # rest))
         | SoExcept \<Rightarrow> hashes_of gs - \<Union> (hashes_of ` set rest))
       \<and> (case k of SoUnion \<Rightarrow> prefix gs r | _ \<Rightarrow> subseq r gs) \<and> t = Some (length r)
   | _ \<Rightarrow> False"
  using set_op_fold_order [where k = k and gs = gs and rest = rest]
  by (cases k) (auto simp: combine_operands_def Let_def set_op_fold_hashes list_all_iff)

text \<open>A step whose value satisfies \<open>Q\<close>, and whose errors satisfy \<open>B\<close>.\<close>

definition sure :: "(cal_error \<Rightarrow> bool) \<Rightarrow> ('a \<Rightarrow> bool) \<Rightarrow> ('s, 'a) ex \<Rightarrow> bool" where
  "sure B Q m = (\<forall>st. case fst (m st) of Inl e \<Rightarrow> B e | Inr x \<Rightarrow> Q x)"

lemma sure_xret: "Q x \<Longrightarrow> sure B Q (xret x)"
  by (simp add: sure_def xret_def)

lemma sure_xfail: "B e \<Longrightarrow> sure B Q (xfail e)"
  by (simp add: sure_def xfail_def)

lemma sure_xbind: "sure B R m \<Longrightarrow> (\<And>x. R x \<Longrightarrow> sure B Q (f x)) \<Longrightarrow> sure B Q (xbind m f)"
  unfolding sure_def
proof
  fix st
  assume m: "\<forall>st. case fst (m st) of Inl e \<Rightarrow> B e | Inr x \<Rightarrow> R x"
    and f: "\<And>x. R x \<Longrightarrow> \<forall>st. case fst (f x st) of Inl e \<Rightarrow> B e | Inr x \<Rightarrow> Q x"
  obtain r st' where r: "m st = (r, st')" by (cases "m st") auto
  show "case fst (xbind m f st) of Inl e \<Rightarrow> B e | Inr x \<Rightarrow> Q x"
    using m [rule_format, of st] f [rule_format, of "projr r" st'] by (cases r) (simp_all add: xbind_def r)
qed

text \<open>The errors of the renderers on a format clause.\<close>

definition clause_specs :: "format_clause \<Rightarrow> format_spec list" where
  "clause_specs f = (case f of FmtSingle spec \<Rightarrow> [spec] | FmtMulti es \<Rightarrow> map af_spec es)"

definition render_fails :: "'s exec_parts \<Rightarrow> format_spec list \<Rightarrow> cal_error \<Rightarrow> bool" where
  "render_fails X specs e \<longleftrightarrow>
     (\<exists>spec \<in> set specs. \<exists>gs plan grouped vs st. fst (px_render X gs plan spec grouped vs st) = Inl e)"

lemma sure_render: "spec \<in> set specs \<Longrightarrow> render_fails X specs \<le> B \<Longrightarrow> sure B (\<lambda>_. True) (px_render X gs plan spec grouped vs)"
  unfolding sure_def render_fails_def le_fun_def by (force split: sum.split)

lemma sure_render_all:
  "af_spec ` set es \<subseteq> set specs \<Longrightarrow> render_fails X specs \<le> B \<Longrightarrow> sure B (\<lambda>_. True) (render_all X gs plan g vs es m)"
proof (induction es arbitrary: m)
  case (Cons e es)
  then show ?case by (auto intro!: sure_xbind [OF sure_render] split: prod.split)
qed (simp add: sure_xret)

lemma sure_format:
  assumes "\<And>fmt. f = Some fmt \<Longrightarrow> render_fails X (clause_specs fmt) \<le> B"
  shows "sure B (\<lambda>_. True) (apply_format_clause X ident f g vs p)"
proof -
  have "sure B (\<lambda>_. True) (format_grains X gs plan fmt g vs)" if "f = Some fmt" for gs plan fmt
  proof (cases fmt)
    case (FmtSingle spec)
    have "sure B (\<lambda>_. True) (px_render X gs plan spec g vs)"
      by (rule sure_render [OF _ assms [OF that]]) (simp add: clause_specs_def FmtSingle)
    then show ?thesis unfolding format_grains_def FmtSingle
      by (auto intro!: sure_xret sure_xbind split: prod.split)
  next
    case (FmtMulti es)
    have "sure B (\<lambda>_. True) (render_all X gs plan g vs es [])"
      by (rule sure_render_all [OF _ assms [OF that]]) (simp add: clause_specs_def FmtMulti)
    then show ?thesis unfolding format_grains_def FmtMulti by (auto intro!: sure_xret sure_xbind)
  qed
  then show ?thesis unfolding apply_format_clause_def by (cases f; cases p; simp add: sure_xret)
qed

definition entries_of_batch :: "'s batch_stmt \<Rightarrow> 's batch_entry list" where
  "entries_of_batch b = (case bs_labeled b of Some es \<Rightarrow> map snd es | None \<Rightarrow> bs_statements b)"

definition batch_labels :: "'s batch_stmt \<Rightarrow> string list" where
  "batch_labels b = (case bs_labeled b of Some es \<Rightarrow> map fst es | None \<Rightarrow> [])"

text \<open>A format clause of an entry is refused.\<close>

definition entry_unrendered :: "'s exec_parts \<Rightarrow> 't batch_stmt \<Rightarrow> cal_error \<Rightarrow> bool" where
  "entry_unrendered X b e \<longleftrightarrow> (\<exists>x \<in> set (entries_of_batch b). \<exists>fmt. be_format x = Some fmt \<and> render_fails X (clause_specs fmt) e)"

text \<open>A label stands on two entries.\<close>

definition label_repeated :: "'s batch_stmt \<Rightarrow> cal_error \<Rightarrow> bool" where
  "label_repeated b e \<longleftrightarrow> (\<exists>l. e = CeAssembleDuplicateLabel l (bs_span b) \<and> 1 < count_list (batch_labels b) l)"

definition batch_error :: "'s exec_parts \<Rightarrow> 't batch_stmt \<Rightarrow> cal_error \<Rightarrow> bool" where
  "batch_error X b e \<longleftrightarrow> is_abort e \<or> entry_unrendered X b e \<or> label_repeated b e"

lemma entry_sure:
  assumes "x \<in> set (entries_of_batch b)"
  shows "sure (batch_error X b) (\<lambda>_. True) (execute_batch_entry E C X rec x)"
proof -
  have entry: "sure (batch_error X b) (\<lambda>_. True) (entry_payload s m)" for s and m :: "('a, payload) ex"
    by (auto simp: sure_def entry_payload_def batch_error_def split: prod.splits sum.splits)
  have "render_fails X (clause_specs fmt) \<le> batch_error X b" if "be_format x = Some fmt" for fmt
    using assms that by (auto simp: batch_error_def entry_unrendered_def le_fun_def)
  then show ?thesis
    unfolding execute_batch_entry_def prod.case_eq_if
    by (intro sure_xbind [OF entry] sure_format) blast
qed

definition digits_value :: "string \<Rightarrow> nat" where
  "digits_value s = fold (\<lambda>c n. 10 * n + (code_of c - 48)) s 0"

lemma digits_nat_str: "digits_value (nat_str n) = n"
proof (induction n rule: nat_str.induct)
  case (1 n)
  have d: "code_of (digit_char k) = 48 + k" if "k < 10" for k
    using that by (simp add: digit_char_def code_of_def)
  show ?case
  proof (cases "n < 10")
    case True
    then show ?thesis by (subst nat_str.simps) (simp add: digits_value_def d)
  next
    case False
    then show ?thesis using 1 by (subst nat_str.simps) (simp add: digits_value_def d)
  qed
qed

lemma nat_str_inj: "nat_str m = nat_str n \<longleftrightarrow> m = n"
  by (metis digits_nat_str)

lemma length_bt_insert: "map_of m k = None \<Longrightarrow> length (bt_insert k v m) = Suc (length m)"
  by (induction k v m rule: bt_insert.induct) (auto split: if_splits)

lemma labeled_sure:
  "set (map snd es) \<subseteq> set (entries_of_batch b) \<Longrightarrow> pre @ map fst es = batch_labels b \<Longrightarrow> fst ` set m = set pre \<Longrightarrow>
    sure (batch_error X b) (\<lambda>r. length r = length m + length es) (batch_labeled E C X rec (bs_span b) es m)"
proof (induction es arbitrary: m pre)
  case (Cons e es)
  obtain l x where e: "e = (l, x)" by (cases e)
  have x: "x \<in> set (entries_of_batch b)" using Cons.prems(1) e by simp
  show ?case
  proof (cases "map_of m l")
    case None
    have "sure (batch_error X b) (\<lambda>r. length r = length m + length (e # es)) (batch_labeled E C X rec (bs_span b) es (bt_insert l p m))" for p
    proof -
      have "fst ` set (bt_insert l p m) = set (pre @ [l])" using Cons.prems(3) by (simp add: bt_insert_keys)
      moreover have "(pre @ [l]) @ map fst es = batch_labels b" using Cons.prems(2) e by simp
      ultimately show ?thesis using Cons.IH [of "pre @ [l]" "bt_insert l p m"] Cons.prems(1) None
        by (simp add: length_bt_insert)
    qed
    then show ?thesis by (auto simp: e bt_has_def None intro!: sure_xbind [OF entry_sure [OF x]])
  next
    case (Some p)
    then have "l \<in> set pre" using Cons.prems(3) by (metis domI dom_map_of_conv_image_fst)
    then have "1 \<le> count_list pre l" by (metis One_nat_def Suc_leI count_list_0_iff not_gr_zero)
    moreover have "count_list (batch_labels b) l = count_list pre l + Suc (count_list (map fst es) l)"
      using Cons.prems(2) e by (metis count_list_append count_list.simps(2) fst_conv list.simps(9) add_Suc_right Suc_eq_plus1)
    ultimately have "label_repeated b (CeAssembleDuplicateLabel l (bs_span b))" by (auto simp: label_repeated_def)
    then show ?thesis by (simp add: e bt_has_def Some sure_xfail batch_error_def)
  qed
qed (simp add: sure_xret)

lemma positional_sure:
  "set es \<subseteq> set (entries_of_batch b) \<Longrightarrow> (\<And>j. i \<le> j \<Longrightarrow> map_of m (nat_str j) = None) \<Longrightarrow>
    sure (batch_error X b) (\<lambda>r. length r = length m + length es) (batch_positional E C X rec i es m)"
proof (induction es arbitrary: i m)
  case (Cons e es)
  have "sure (batch_error X b) (\<lambda>r. length r = length m + length (e # es)) (batch_positional E C X rec (Suc i) es (bt_insert (nat_str i) p m))" for p
    using Cons.IH [of "Suc i" "bt_insert (nat_str i) p m"] Cons.prems
    by (simp add: length_bt_insert nat_str_inj)
  then show ?case
    using Cons.prems(1) by (auto intro!: sure_xbind [OF entry_sure])
qed (simp add: sure_xret)

text \<open>
  C20. The entries of a batch are isolated from each other: whatever goes wrong in the statement or
  the pipeline of one of them, the batch answers with one payload for every entry. Only three
  things stop it: a panic or a recursion without end, a label that stands on two entries, and
  an error of a renderer in the \<^verbatim>\<open>FORMAT\<close> clause of an entry.
\<close>

theorem batch_isolates:
  "case fst (execute_batch E C X rec b st) of
      Inl e \<Rightarrow> is_abort e \<or> entry_unrendered X b e \<or> label_repeated b e
    | Inr p \<Rightarrow> count_payload_results p = length (entries_of_batch b)"
proof -
  have "sure (batch_error X b) (\<lambda>r. length r = length (entries_of_batch b)) (case bs_labeled b of
         Some es \<Rightarrow> batch_labeled E C X rec (bs_span b) es []
       | None \<Rightarrow> batch_positional E C X rec 0 (bs_statements b) [])"
  proof (cases "bs_labeled b")
    case None
    then show ?thesis
      using positional_sure [of "bs_statements b" b 0 "[]"] by (simp add: entries_of_batch_def)
  next
    case (Some es)
    then show ?thesis
      using labeled_sure [of es b "[]" "[]"] by (simp add: entries_of_batch_def batch_labels_def)
  qed
  then have "sure (batch_error X b) (\<lambda>p. count_payload_results p = length (entries_of_batch b)) (execute_batch E C X rec b)"
    unfolding execute_batch_def by (rule sure_xbind) (simp add: sure_xret count_payload_results_def)
  then show ?thesis unfolding sure_def batch_error_def by (rule spec)
qed

lemma cap_bound: "cap_grains name gs st = (Inr hs, st') \<Longrightarrow> length hs \<le> MAX_GRAINS_PER_LET"
  by (auto simp: cap_grains_def xbind_def xwarn_def xret_def split: if_splits)

lemma extract_values_length: "length (extract_values x gs) \<le> length gs"
  by (cases x) (simp_all add: map_filter_def)

lemma evaluate_bound:
  "evaluate_lets run q bs sc st = (Inr sc', st') \<Longrightarrow> list_all (\<lambda>(_, v). length (let_strings v) \<le> MAX_GRAINS_PER_LET) sc \<Longrightarrow>
    length sc' = length sc + length bs \<and> list_all (\<lambda>(_, v). length (let_strings v) \<le> MAX_GRAINS_PER_LET) sc'"
proof (induction bs arbitrary: sc st)
  case (Cons b bs)
  obtain p st1 gs st2 where new: "map_of sc (lb_name b) = None" and gs: "cap_grains (lb_name b) (extract_grains p) st1 = (Inr gs, st2)"
    and rest: "evaluate_lets run q bs (bt_insert (lb_name b) (LetExtracted (extract_values (lb_extractor b) gs)) sc) st2 = (Inr sc', st')"
    using Cons.prems(1) by (auto simp: xbind_results xfail_def bt_has_def split: if_splits)
  have "length (extract_values (lb_extractor b) gs) \<le> MAX_GRAINS_PER_LET"
    using cap_bound [OF gs] extract_values_length [of "lb_extractor b" gs] by simp
  then have "list_all (\<lambda>(_, v). length (let_strings v) \<le> MAX_GRAINS_PER_LET)
      (bt_insert (lb_name b) (LetExtracted (extract_values (lb_extractor b) gs)) sc)"
    using Cons.prems(2) set_bt_insert [of "lb_name b" "LetExtracted (extract_values (lb_extractor b) gs)" sc]
    by (fastforce simp: list_all_iff)
  from Cons.IH [OF rest this] show ?case using new by (simp add: length_bt_insert)
qed (simp add: xret_def)

text \<open>
  C25. \<^verbatim>\<open>LET\<close> is bounded: when the bindings are evaluated, each of them has a name of its own, there
  are at most five, and each stands for at most a thousand strings.
\<close>

theorem let_bounded:
  "case fst (let_evaluate run q st) of
     Inl _ \<Rightarrow> True
   | Inr sc \<Rightarrow> length sc = length (cq_let q) \<and> length sc \<le> 5 \<and> list_all (\<lambda>(_, ss). length ss \<le> 1000) (to_values sc)"
proof -
  obtain r st' where Pair: "let_evaluate run q st = (r, st')" by (cases "let_evaluate run q st")
  show ?thesis
  proof (cases r)
    case (Inr sc)
    then have "length (cq_let q) \<le> 5" "evaluate_lets run q (cq_let q) [] st = (Inr sc, st')"
      using Pair by (auto simp: let_evaluate_def xfail_def MAX_LET_BINDINGS_def split: if_splits)
    with evaluate_bound [of run q "cq_let q" "[]" st sc st'] show ?thesis
      by (auto simp: Pair Inr to_values_def list_all_iff MAX_GRAINS_PER_LET_def)
  qed (simp add: Pair)
qed

end
