(* ===== verification/Cal_Where_Props.thy ===== *)
theory Cal_Where_Props
  imports Cal_Exec_Props
begin

text \<open>
  What \<^verbatim>\<open>RECALL ... WHERE\<close> answers, end to end: the hits of the store that the test after the
  recall lets through.
\<close>

section \<open>A recall with nothing but a condition\<close>

definition plain_recall :: "gplural \<Rightarrow> condition \<Rightarrow> statement recall_stmt" where
  "plain_recall g c = RecallStmt g None (Some \<lparr>wh_condition = c, wh_span = None\<rparr>) None None None None None None None None None"

definition plain_query :: "cal_query \<Rightarrow> cal_query" where
  "plain_query q = q\<lparr>cq_with := [], cq_format := None\<rparr>"

text \<open>The grains the store answers to the recall, before the test.\<close>

definition recalled :: "exec_env \<Rightarrow> exec_config \<Rightarrow> 's facade \<Rightarrow> statement recall_stmt \<Rightarrow> cal_query
    \<Rightarrow> ('s, grain_result list) ex" where
  "recalled E C F r q =
     xbind (recall_params_of E C F r q) (\<lambda>p.
     xbind (xcall_map (map_store_err E (rs_span r)) (fc_recall F p)) (\<lambda>hits.
     xret (map (\<lambda>h. (grain_of_hit E h)\<lparr>cg_deterministic := (rs_about r = None)\<rparr>) hits)))"

definition grains_payload :: "grain_result list \<Rightarrow> payload" where
  "grains_payload gs = PGrains gs (Some (length gs))"

text \<open>No condition asks for the warnings and the check of contradictions that \<^verbatim>\<open>WITH\<close> can ask for.\<close>

definition unasked :: "recall_params \<Rightarrow> bool" where
  "unasked p \<longleftrightarrow> pm_detect_contradictions p = None \<and> pm_score_breakdown p = None"

definition unasking :: "('s, recall_params) ex \<Rightarrow> bool" where
  "unasking m \<longleftrightarrow> (\<forall>st p st'. m st = (Inr p, st') \<longrightarrow> unasked p)"

lemma unaskingD: "unasking m \<Longrightarrow> fst (m st) = Inr p \<Longrightarrow> unasked p"
  unfolding unasking_def by (metis prod.collapse)

lemma unasking_xret: "unasked p \<Longrightarrow> unasking (xret p)"
  by (simp add: unasking_def xret_def)

lemma unasking_ignored: "unasked p \<Longrightarrow> unasking (ignored w p)"
  by (simp add: unasking_def ignored_def xbind_def xwarn_def xret_def)

lemma unasking_set_str: "(\<And>s. unasked (upd s)) \<Longrightarrow> unasking (set_str E v upd)"
  by (auto simp: unasking_def set_str_def xbind_def xlift_def xret_def split: sum.splits)

lemma unasking_set_num: "(\<And>s. unasked (upd s)) \<Longrightarrow> unasking (set_num E v upd)"
  by (auto simp: unasking_def set_num_def xbind_def xlift_def xret_def split: sum.splits)

lemma unasking_if: "unasking m \<Longrightarrow> unasking n \<Longrightarrow> unasking (if b then m else n)"
  by simp

lemma unasking_bind:
  assumes "unasking m" and "\<And>p. unasked p \<Longrightarrow> unasking (f p)"
  shows "unasking (xbind m f)"
  unfolding unasking_def
proof (intro allI impI)
  fix st p st' assume "xbind m f st = (Inr p, st')"
  then obtain x st1 where m: "m st = (Inr x, st1)" and f: "f x st1 = (Inr p, st')"
    by (auto simp: xbind_def split: prod.splits sum.splits)
  have "unasked x" by (rule unaskingD [OF assms(1), of st]) (simp add: m)
  from unaskingD [OF assms(2) [OF this], of st1] f show "unasked p" by simp
qed

lemma unasking_bind_any: "(\<And>x. unasking (f x)) \<Longrightarrow> unasking (xbind m f)"
  unfolding unasking_def xbind_def by (auto split: prod.splits sum.splits)

lemmas unasking_intros = unasking_if unasking_xret unasking_ignored unasking_set_str unasking_set_num

lemma unasking_comparison: "unasked p \<Longrightarrow> unasking (where_comparison E C f k v p)"
  unfolding where_comparison_def
  by (intro unasking_intros) (auto simp: unasked_def split: cval.split)

lemma unasking_where: "unasked p \<Longrightarrow> unasking (apply_where_clause E C lv c p)"
proof (induction c arbitrary: p)
  case (Comparison f k v sp)
  then show ?case by (simp add: unasking_comparison)
next
  case (CondAnd a b sp)
  then show ?case by (auto intro: unasking_bind)
next
  case (CondOr a b sp)
  then show ?case by (auto intro: unasking_bind unasking_ignored)
next
  case (CondIn f vs sp)
  then have "unasked (where_in f ss p)" for ss
    by (auto simp: where_in_def unasked_def split: list.split)
  then show ?case by (auto intro: unasking_bind_any unasking_xret)
next
  case (CondIsCategory f k sp)
  then show ?case
    by (auto simp: where_category_def unasked_def intro!: unasking_intros)
next
  case (CondContains f v sp)
  then have "unasked (where_contains f v p)" by (simp add: where_contains_def unasked_def)
  then show ?case by (simp add: unasking_xret)
next
  case (CondNotIn f vs sp)
  then have "unasked (if f = ''tags'' then p\<lparr>pm_exclude_tags := Some (List.map_filter string_of_value vs)\<rparr> else p)"
    by (simp add: unasked_def)
  then show ?case by (simp only: apply_where_clause.simps unasking_xret)
qed (simp_all add: unasking_xret)

lemma recall_params_unasked:
  "recall_params_of E C F (plain_recall g c) (plain_query q) st = (Inr p, st') \<Longrightarrow> unasked p"
proof -
  assume a: "recall_params_of E C F (plain_recall g c) (plain_query q) st = (Inr p, st')"
  let ?r = "plain_recall g c"
  obtain p0 ns where w: "fst (apply_where_clause E C (cq_let_values q) c (recall_start ?r) st) = Inr p0"
    and p: "p = scope_params C ns (recall_rest C ?r p0)"
    using a by (auto simp: recall_params_of_def where_step_def plain_recall_def plain_query_def xbind_def xlift_def
        xget_def xret_def xfail_def split: if_splits prod.splits sum.splits)
  have "unasked (recall_start ?r)" by (simp add: recall_start_def unasked_def params_default_def)
  then have "unasked p0" by (rule unaskingD [OF unasking_where w])
  then show ?thesis
    by (auto simp: p unasked_def scope_params_def recall_rest_def expand_consents_def Let_def split: option.splits)
qed

lemma execute_plain_recall:
  assumes "list_all (recall_field_ok g) (referenced_fields c)"
  shows "fst (execute_recall E C F X rec (plain_recall g c) (plain_query q) st)
    = map_sum id (\<lambda>gs. grains_payload (filter (post_filter E c) gs)) (fst (recalled E C F (plain_recall g c) (plain_query q) st))"
proof -
  let ?r = "plain_recall g c" and ?q = "plain_query q"
  have find: "find (\<lambda>f. \<not> recall_field_ok g f) (referenced_fields c) = None"
    using assms by (simp add: find_None_iff list_all_iff)
  obtain x st1 where x: "recall_params_of E C F ?r ?q st = (x, st1)"
    by (rule prod.exhaust)
  show ?thesis
  proof (cases x)
    case (Inr p)
    then have u: "unasked p" using x recall_params_unasked by blast
    obtain y st2 where y: "xcall_map (map_store_err E (rs_span ?r)) (fc_recall F p) st1 = (y, st2)"
      by (rule prod.exhaust)
    have "rs_where ?r = Some \<lparr>wh_condition = c, wh_span = None\<rparr>" "rs_grain_type ?r = g" "rs_contradictions ?r = None"
      by (simp_all add: plain_recall_def)
    moreover have "cq_with ?q = []" "cq_format ?q = None" by (simp_all add: plain_query_def)
    ultimately show ?thesis
      using find u
      by (cases y) (simp_all add: execute_recall_def recalled_def xbind_def x Inr y Let_def post_where_def xlift_def xret_def
          recall_contradictions_def unasked_def grains_payload_def)
  qed (simp add: execute_recall_def recalled_def xbind_def x)
qed

section \<open>Comparisons on the fields of a grain type\<close>

text \<open>
  The queryable fields of a type that are among the common fields: no test after the recall
  looks at them.
\<close>

fun untested_fields :: "gplural \<Rightarrow> string list" where
  "untested_fields Facts = [''subject'', ''relation'', ''object'', ''confidence'']"
| "untested_fields Events = [''content'', ''created_at'']"
| "untested_fields _ = []"

lemma untested_common:
  "list_all (\<lambda>f. f \<in> set COMMON_FIELDS \<longleftrightarrow> f \<in> set (untested_fields g)) (type_specific_fields g)"
  by (induction g) code_simp+

lemma no_hash_field: "''hash'' \<notin> set (type_specific_fields g)"
  by (induction g) code_simp+

lemma queryable_ok: "f \<in> set (type_specific_fields g) \<Longrightarrow> recall_field_ok g f"
  by (simp add: recall_field_ok_def)

text \<open>
  C28. \<^verbatim>\<open>RECALL <type> WHERE f op v\<close> on a queryable field of the type answers exactly the grains that
  the store recalls and that satisfy the comparison, in the store's order. The exceptions are
  computed: \<^verbatim>\<open>subject\<close>, \<^verbatim>\<open>relation\<close>, \<^verbatim>\<open>object\<close> and \<^verbatim>\<open>confidence\<close> of facts, \<^verbatim>\<open>content\<close> and
  \<^verbatim>\<open>created_at\<close> of events are not tested at all, all that the store recalls is answered.
\<close>

theorem recall_field_exact:
  assumes "f \<in> set (type_specific_fields g)"
  shows "fst (execute_recall E C F X rec (plain_recall g (Comparison f k v s)) (plain_query q) st)
    = map_sum id (\<lambda>gs. grains_payload (filter (\<lambda>x. f \<in> set (untested_fields g) \<or> grain_matches_condition E x f k v) gs))
        (fst (recalled E C F (plain_recall g (Comparison f k v s)) (plain_query q) st))"
proof -
  have f: "f \<in> set COMMON_FIELDS \<longleftrightarrow> f \<in> set (untested_fields g)"
    using untested_common [of g] assms by (simp add: list_all_iff)
  have h: "f \<noteq> ''hash''" using assms by (auto simp: no_hash_field)
  have ok: "list_all (recall_field_ok g) (referenced_fields (Comparison f k v s))"
    using queryable_ok [OF assms] by (simp add: referenced_fields_def)
  have "post_filter E (Comparison f k v s) = (\<lambda>x. f \<in> set (untested_fields g) \<or> grain_matches_condition E x f k v)"
    by (rule ext) (use f h in \<open>auto simp: post_filter_def\<close>)
  then show ?thesis using execute_plain_recall [OF ok, of E C F X rec q st] by simp
qed

text \<open>A store that recalls two goals, an open one and a done one.\<close>

definition goal_hit :: "string \<Rightarrow> search_hit" where
  "goal_hit x = \<lparr>sh_grain = \<lparr>dg_header = \<lparr>version = 1, flags = 0, hdr_grain_type = 7, ns_hash = 0, created_at_sec = 0\<rparr>,
       dg_type = GGoal, dg_fields = [(''goal_state'', JStr x)], dg_hash = no_hash\<rparr>,
     sh_score = Finite 1, sh_hash = no_hash, sh_breakdown = None, sh_explanation = None, sh_relative_time = None,
     sh_superseded_by = None\<rparr>"

definition two_goals :: "nat facade" where
  "two_goals = counting\<lparr>fc_recall := \<lambda>_. answers [goal_hit ''open'', goal_hit ''done'']\<rparr>"

lemma recall_field_exact_witness:
  "map_sum id (\<lambda>p. map cg_fields (extract_grains p)) (fst (execute_recall exec_env0 config_default two_goals no_parts
      (\<lambda>_ _. xfail CeStuck) (plain_recall Goals (Comparison ''goal_state'' CmpEq (CvString ''open'') None))
      (plain_query empty_query) (0, [])))
    = Inr [JObj [(''goal_state'', JStr ''open'')]]"
proof -
  have f: "''goal_state'' \<in> set (type_specific_fields Goals)" by code_simp
  have "map_sum id (map cg_fields \<circ> filter (\<lambda>x. ''goal_state'' \<in> set (untested_fields Goals)
        \<or> grain_matches_condition exec_env0 x ''goal_state'' CmpEq (CvString ''open'')))
      (fst (recalled exec_env0 config_default two_goals (plain_recall Goals (Comparison ''goal_state'' CmpEq (CvString ''open'') None))
      (plain_query empty_query) (0, []))) = Inr [JObj [(''goal_state'', JStr ''open'')]]"
    by code_simp
  then show ?thesis
    by (subst recall_field_exact [OF f]) (simp add: sum.map_comp grains_payload_def extract_grains_def comp_def id_def)
qed

text \<open>
  C29. \<^verbatim>\<open>RECALL\<close> does not see \<^verbatim>\<open>NOT\<close> and takes \<^verbatim>\<open>OR\<close> for \<^verbatim>\<open>AND\<close>: of the tool calls the store recalls,
  \<^verbatim>\<open>WHERE NOT (is_error = true)\<close> answers exactly the failed ones, and
  \<^verbatim>\<open>WHERE is_error = true OR tool_name = t\<close> exactly the failed ones of this tool.
\<close>

theorem recall_negation_inverted:
  "fst (execute_recall E C F X rec (plain_recall Tools (CondNot (Comparison ''is_error'' CmpEq (CvBoolean True) s) s')) (plain_query q) st)
     = map_sum id (\<lambda>gs. grains_payload (filter (\<lambda>x. Option.bind (json_field (cg_fields x) ''is_error'') as_bool = Some True) gs))
         (fst (recalled E C F (plain_recall Tools (CondNot (Comparison ''is_error'' CmpEq (CvBoolean True) s) s')) (plain_query q) st))
   \<and> fst (execute_recall E C F X rec (plain_recall Tools (CondOr (Comparison ''is_error'' CmpEq (CvBoolean True) s)
         (Comparison ''tool_name'' CmpEq (CvString t) u) s')) (plain_query q) st)
     = map_sum id (\<lambda>gs. grains_payload (filter (\<lambda>x. Option.bind (json_field (cg_fields x) ''is_error'') as_bool = Some True
           \<and> Option.bind (json_field (cg_fields x) ''tool_name'') as_str = Some t) gs))
         (fst (recalled E C F (plain_recall Tools (CondOr (Comparison ''is_error'' CmpEq (CvBoolean True) s)
           (Comparison ''tool_name'' CmpEq (CvString t) u) s')) (plain_query q) st))"
proof -
  have ok: "recall_field_ok Tools ''is_error''" "recall_field_ok Tools ''tool_name''" by code_simp+
  have common: "''is_error'' \<notin> set COMMON_FIELDS" "''tool_name'' \<notin> set COMMON_FIELDS" by code_simp+
  have test: "opt_test (\<lambda>b. b = y) z \<longleftrightarrow> z = Some y" for y and z :: "'z option"
    by (cases z) (simp_all add: opt_test_def)
  have test_id: "opt_test (\<lambda>b. b) z \<longleftrightarrow> z = Some True" for z
    by (cases z) (simp_all add: opt_test_def)
  let ?a = "CondNot (Comparison ''is_error'' CmpEq (CvBoolean True) s) s'"
    and ?b = "CondOr (Comparison ''is_error'' CmpEq (CvBoolean True) s) (Comparison ''tool_name'' CmpEq (CvString t) u) s'"
  have a: "post_filter E ?a = (\<lambda>x. Option.bind (json_field (cg_fields x) ''is_error'') as_bool = Some True)"
    and b: "post_filter E ?b = (\<lambda>x. Option.bind (json_field (cg_fields x) ''is_error'') as_bool = Some True
      \<and> Option.bind (json_field (cg_fields x) ''tool_name'') as_str = Some t)"
    by (rule ext; simp add: post_filter_def common matches_eq_def grain_value_def test test_id)+
  have "list_all (recall_field_ok Tools) (referenced_fields ?a)" "list_all (recall_field_ok Tools) (referenced_fields ?b)"
    by (simp_all add: referenced_fields_def ok common)
  from this [THEN execute_plain_recall [of _ _ E C F X rec q st]] show ?thesis unfolding a b by (rule conjI)
qed

end
