(* ===== verification/Cal_Assemble_Props.thy ===== *)
theory Cal_Assemble_Props
  imports Cal_Exec_Props
begin

text \<open>
  What the engine of \<^verbatim>\<open>ASSEMBLE\<close> promises: it accounts for every address that its sources found,
  and it exceeds the budget by single grains only.
\<close>

section \<open>Duplicates\<close>

lemma fresh_keys: "key ` set (fresh key seen xs) = key ` set xs - set seen"
  by (induction key seen xs rule: fresh.induct) auto

lemma fresh_unseen: "x \<in> set (fresh key seen xs) \<Longrightarrow> key x \<notin> set seen"
  by (induction key seen xs rule: fresh.induct) (auto split: if_splits)

lemma fresh_distinct: "distinct (map key (fresh key seen xs))"
  by (induction key seen xs rule: fresh.induct) (auto dest: fresh_unseen)

lemma fresh_subseq: "subseq (fresh key seen xs) xs"
  by (induction key seen xs rule: fresh.induct) auto

definition source_hashes :: "sourced \<Rightarrow> string list" where
  "source_hashes srcs = map cg_hash (concat (map snd srcs))"

lemma source_hashes_simps [simp]:
  "source_hashes [] = []" "source_hashes ((l, gs) # rest) = map cg_hash gs @ source_hashes rest"
  by (simp_all add: source_hashes_def)

lemma dedup_hashes: "set (source_hashes (dedup_by_hash seen srcs)) = set (source_hashes srcs) - set seen"
  by (induction seen srcs rule: dedup_by_hash.induct) (auto simp: fresh_keys)

lemma dedup_distinct: "distinct (source_hashes (dedup_by_hash seen srcs))"
  by (induction seen srcs rule: dedup_by_hash.induct)
    (auto simp: fresh_distinct dedup_hashes fresh_keys)

lemma dedup_sources_of:
  "list_all2 (\<lambda>(l, gs) (l', gs'). l' = l \<and> subseq gs' gs) srcs (dedup_by_hash seen srcs)"
  by (induction seen srcs rule: dedup_by_hash.induct) (auto simp: fresh_subseq)

section \<open>The cap and the trimming\<close>

text \<open>What the cap keeps of a source and what it cuts off make up the source.\<close>

definition tail_of :: "sourced \<Rightarrow> string \<Rightarrow> grain_result list" where
  "tail_of tails l = (case map_of tails l of None \<Rightarrow> [] | Some t \<Rightarrow> t)"

lemma cap_sources_split:
  "distinct (map fst srcs) \<Longrightarrow> fst ` set srcs \<inter> fst ` set tails = {} \<Longrightarrow> cap_sources cap srcs tails = (srcs', tails') \<Longrightarrow>
    list_all2 (\<lambda>(l, gs) (l', gs'). l' = l \<and> gs' @ tail_of tails' l = gs) srcs srcs'
    \<and> (\<forall>l. l \<notin> fst ` set srcs \<longrightarrow> map_of tails' l = map_of tails l)"
proof (induction cap srcs tails arbitrary: srcs' rule: cap_sources.induct)
  case (2 cap l gs rest tails)
  let ?k = "cap (length gs)"
  let ?tails = "if drop ?k gs = [] then tails else bt_insert l (drop ?k gs) tails"
  obtain rest' where rest: "cap_sources cap rest ?tails = (rest', tails')" and srcs': "srcs' = (l, take ?k gs) # rest'"
    using 2(4) by (auto simp: Let_def split: prod.splits)
  have "fst ` set rest \<inter> fst ` set ?tails = {}" using 2(2,3) by auto
  from 2(1) [OF refl refl _ this rest] 2(2)
  have IH: "list_all2 (\<lambda>(l, gs) (l', gs'). l' = l \<and> gs' @ tail_of tails' l = gs) rest rest'"
    "\<And>x. x \<notin> fst ` set rest \<Longrightarrow> map_of tails' x = map_of ?tails x" by auto
  have "map_of tails l = None" using 2(3) by (simp add: map_of_eq_None_iff)
  then have "take ?k gs @ tail_of tails' l = gs"
    using IH(2) [of l] 2(2) append_take_drop_id [of ?k gs] by (auto simp: tail_of_def)
  moreover have "map_of tails' x = map_of tails x" if "x \<notin> fst ` set ((l, gs) # rest)" for x
    using IH(2) [of x] that by auto
  ultimately show ?case using IH(1) by (simp add: srcs')
qed auto

lemma cap_total_split:
  assumes "distinct (map fst srcs)" "cap_grains_total E most srcs = (srcs', tails)"
  shows "list_all2 (\<lambda>(l, gs) (l', gs'). l' = l \<and> gs' @ tail_of tails l = gs) srcs srcs'"
proof (cases "source_total srcs \<le> most")
  case True
  then have "srcs' = srcs" "tails = []" using assms(2) by (auto simp: cap_grains_total_def)
  then show ?thesis by (auto simp: list_all2_same tail_of_def)
next
  case False
  then show ?thesis
    using cap_sources_split [OF assms(1), of "[]"] assms(2) by (auto simp: cap_grains_total_def)
qed

definition tokens_of :: "exec_env \<Rightarrow> grain_result list \<Rightarrow> nat" where
  "tokens_of E gs = sum_list (map (estimate_grain_tokens E) gs)"

lemma tokens_take: "k < length gs \<Longrightarrow> tokens_of E (take (Suc k) gs) = tokens_of E (take k gs) + estimate_grain_tokens E (gs ! k)"
  by (simp add: tokens_of_def take_Suc_conv_app_nth)

text \<open>The prefix the budget allows: its tokens are counted modulo 2 ^ 32, and they fit or it is one grain.\<close>

lemma budget_prefix_ok:
  assumes "budget_prefix E b k u gs = (k', u')" and "u = tokens_of E pre mod 2 ^ 32" and "length pre = k"
    and "u \<le> b \<or> k = 1"
  shows "k \<le> k' \<and> k' \<le> k + length gs \<and> u' = tokens_of E (pre @ take (k' - k) gs) mod 2 ^ 32 \<and> (u' \<le> b \<or> k' = 1)"
  using assms
proof (induction E b k u gs arbitrary: pre rule: budget_prefix.induct)
  case (2 E b k u g gs)
  let ?u = "u32_add u (estimate_grain_tokens E g)"
  show ?case
  proof (cases "b < ?u \<and> 0 < k")
    case True
    then show ?thesis using 2(2-5) by (auto simp: Let_def)
  next
    case False
    have run: "budget_prefix E b (Suc k) ?u gs = (k', u')" using False 2(2) by (auto simp: Let_def)
    have sum: "?u = tokens_of E (pre @ [g]) mod 2 ^ 32"
      using 2(3) by (simp add: u32_add_def tokens_of_def mod_simps)
    have "?u \<le> b \<or> Suc k = 1" using False by auto
    from 2(1) [OF refl False run sum _ this] 2(4)
    have IH: "Suc k \<le> k'" "k' \<le> Suc k + length gs" "u' \<le> b \<or> k' = 1"
      "u' = tokens_of E ((pre @ [g]) @ take (k' - Suc k) gs) mod 2 ^ 32" by auto
    obtain d where "k' = Suc k + d" using IH(1) le_Suc_ex by blast
    then have "take (k' - k) (g # gs) = g # take (k' - Suc k) gs" by simp
    then show ?thesis using IH by auto
  qed
qed auto

text \<open>What is kept of a source and reported about it.\<close>

definition part_ok :: "exec_env \<Rightarrow> grain_result list \<times> source_meta \<Rightarrow> bool" where
  "part_ok E part \<longleftrightarrow> (case part of (ks, m) \<Rightarrow>
     sm_grain_count m = length ks \<and> sm_tokens_used m = tokens_of E ks mod 2 ^ 32
     \<and> (sm_tokens_used m \<le> sm_tokens_allocated m \<or> length ks = 1))"

lemma trim_split:
  "distinct (map fst srcs) \<Longrightarrow>
    list_all2 (\<lambda>(l, gs) (ks, m). sm_label m = l \<and> part_ok E (ks, m) \<and> ks @ sm_omitted m = gs @ tail_of tails l)
      srcs (trim_sources E allocs n rem tails srcs)"
proof (induction srcs arbitrary: rem tails)
  case (Cons s rest)
  obtain l gs where s: "s = (l, gs)" by (cases s)
  let ?eff = "min (case map_of allocs l of Some a \<Rightarrow> a | None \<Rightarrow> rem div max n 1) rem"
  obtain keep used where b: "budget_prefix E ?eff 0 0 gs = (keep, used)" by (cases "budget_prefix E ?eff 0 0 gs")
  have ok: "keep \<le> length gs" "used = tokens_of E (take keep gs) mod 2 ^ 32" "used \<le> ?eff \<or> keep = 1"
    using budget_prefix_ok [OF b, of "[]"] by (auto simp: tokens_of_def)
  let ?t = "bt_remove l tails"
  let ?parts = "trim_sources E allocs n (rem - used) ?t rest"
  have "list_all2 (\<lambda>(l, gs) (ks, m). sm_label m = l \<and> part_ok E (ks, m) \<and> ks @ sm_omitted m = gs @ tail_of ?t l) rest ?parts"
    using Cons.prems by (intro Cons.IH) simp
  moreover have "tail_of ?t x = tail_of tails x" if "x \<in> fst ` set rest" for x
    using that Cons.prems by (auto simp: s tail_of_def)
  ultimately have "list_all2 (\<lambda>(l, gs) (ks, m). sm_label m = l \<and> part_ok E (ks, m) \<and> ks @ sm_omitted m = gs @ tail_of tails l)
      rest ?parts"
    by (auto simp: list_all2_conv_all_nth split: prod.splits) (metis (no_types, lifting) fst_conv image_eqI nth_mem)+
  then show ?case using b ok by (simp add: s Let_def tail_of_def part_ok_def)
qed simp

section \<open>The budget\<close>

definition overrun :: "source_meta \<Rightarrow> nat" where
  "overrun m = sm_tokens_used m - sm_tokens_allocated m"

lemma trim_total:
  "sum_list (map (sm_tokens_used \<circ> snd) (trim_sources E allocs n rem tails srcs))
     \<le> rem + sum_list (map (overrun \<circ> snd) (trim_sources E allocs n rem tails srcs))"
proof (induction srcs arbitrary: rem tails)
  case (Cons s rest)
  obtain l gs where s: "s = (l, gs)" by (cases s)
  let ?eff = "min (case map_of allocs l of Some a \<Rightarrow> a | None \<Rightarrow> rem div max n 1) rem"
  obtain keep used where b: "budget_prefix E ?eff 0 0 gs = (keep, used)" by (cases "budget_prefix E ?eff 0 0 gs")
  have "used + x \<le> rem + (used - eff + y)" if "x \<le> rem - used + y" "eff \<le> rem" for x y eff
    using that by arith
  from this [OF Cons.IH [of "rem - used" "bt_remove l tails"], of ?eff] b
  show ?case by (simp add: s Let_def overrun_def)
qed simp

section \<open>The merge\<close>

definition part_grains :: "grain_result list \<times> source_meta \<Rightarrow> grain_result list" where
  "part_grains part = fst part @ sm_omitted (snd part)"

lemma part_grains_pair [simp]: "part_grains (ks, m) = ks @ sm_omitted m"
  by (simp add: part_grains_def)

lemma list_all2_maps: "list_all2 P xs ys \<Longrightarrow> (\<And>x y. P x y \<Longrightarrow> f x = g y) \<Longrightarrow> map f xs = map g ys"
  by (induction rule: list_all2_induct) auto

lemma dedup_take: "dedup_by_hash seen (take i srcs) = take i (dedup_by_hash seen srcs)"
proof (induction seen srcs arbitrary: i rule: dedup_by_hash.induct)
  case (2 seen l gs rest)
  then show ?case by (cases i) simp_all
qed simp

lemma dedup_labels: "map fst (dedup_by_hash seen srcs) = map fst srcs"
  by (induction seen srcs rule: dedup_by_hash.induct) simp_all

lemma budget_parts:
  assumes "distinct (map fst srcs)"
  shows "list_all2 (\<lambda>(l, gs) part. sm_label (snd part) = l \<and> part_ok E part \<and> part_grains part = gs)
    srcs (budget_sources E a (cap_grains_total E most srcs))"
proof -
  obtain capped tails where c: "cap_grains_total E most srcs = (capped, tails)" by (cases "cap_grains_total E most srcs")
  have 1: "list_all2 (\<lambda>(l, gs) (l', gs'). l' = l \<and> gs' @ tail_of tails l = gs) srcs capped"
    by (rule cap_total_split [OF assms c])
  then have "map fst srcs = map fst capped" by (rule list_all2_maps) auto
  then have "distinct (map fst capped)" using assms by simp
  from trim_split [OF this] have
    2: "list_all2 (\<lambda>(l, gs) (ks, m). sm_label m = l \<and> part_ok E (ks, m) \<and> ks @ sm_omitted m = gs @ tail_of tails l)
      capped (budget_sources E a (capped, tails))"
    unfolding budget_sources_def prod.case by blast
  show ?thesis
    unfolding c by (rule list_all2_trans [OF _ 1 2]) auto
qed

text \<open>
  The budget is used: what is left out of a source comes after a grain that is kept, and the
  next grain would not have fit, unless \<open>capped\<close>, the number of grains was above the cap.
\<close>

definition part_full :: "exec_env \<Rightarrow> bool \<Rightarrow> grain_result list \<times> source_meta \<Rightarrow> bool" where
  "part_full E capped part \<longleftrightarrow> (case part of (ks, m) \<Rightarrow> case sm_omitted m of
      [] \<Rightarrow> True
    | g # _ \<Rightarrow> ks \<noteq> [] \<and> (capped \<or> sm_tokens_allocated m < u32_add (sm_tokens_used m) (estimate_grain_tokens E g)))"

lemma budget_prefix_grows: "budget_prefix E b k u gs = (k', u') \<Longrightarrow> k \<le> k' \<and> (gs \<noteq> [] \<longrightarrow> 0 < k')"
  by (induction E b k u gs rule: budget_prefix.induct) (auto simp: Let_def split: if_splits)

lemma budget_prefix_full:
  "budget_prefix E b k u gs = (k', u') \<Longrightarrow>
    (case drop (k' - k) gs of [] \<Rightarrow> True | g # _ \<Rightarrow> b < u32_add u' (estimate_grain_tokens E g))"
proof (induction E b k u gs rule: budget_prefix.induct)
  case (2 E b k u g gs)
  show ?case
  proof (cases "b < u32_add u (estimate_grain_tokens E g) \<and> 0 < k")
    case False
    then have run: "budget_prefix E b (Suc k) (u32_add u (estimate_grain_tokens E g)) gs = (k', u')"
      using 2(2) by (auto simp: Let_def)
    obtain d where "k' = Suc k + d" using budget_prefix_grows [OF run] le_Suc_ex by blast
    then show ?thesis using 2(1) [OF refl False run] by simp
  qed (use 2(2) in \<open>auto simp: Let_def\<close>)
qed simp

lemma part_full_capped: "part_grains part = gs \<Longrightarrow> gs \<noteq> [] \<longrightarrow> fst part \<noteq> [] \<Longrightarrow> part_full E True part"
  by (cases part) (auto simp: part_full_def split: list.splits)

lemma trim_full: "list_all (part_full E False) (trim_sources E allocs n rem [] srcs)"
proof (induction srcs arbitrary: rem)
  case (Cons s rest)
  obtain l gs where s: "s = (l, gs)" by (cases s)
  let ?eff = "min (case map_of allocs l of Some a \<Rightarrow> a | None \<Rightarrow> rem div max n 1) rem"
  obtain keep used where b: "budget_prefix E ?eff 0 0 gs = (keep, used)" by (cases "budget_prefix E ?eff 0 0 gs")
  have "part_full E False (take keep gs, \<lparr>sm_label = l, sm_tokens_allocated = ?eff, sm_tokens_used = used,
      sm_grain_count = length (take keep gs), sm_omitted = drop keep gs\<rparr>)"
    using budget_prefix_full [OF b] budget_prefix_grows [OF b] by (auto simp: part_full_def split: list.splits)
  then show ?case
    using Cons.IH [of "rem - used"] by (simp add: s b Let_def bt_remove_def)
qed simp

lemma trim_nonempty: "list_all2 (\<lambda>(l, gs) part. gs \<noteq> [] \<longrightarrow> fst part \<noteq> []) srcs (trim_sources E allocs n rem tails srcs)"
proof (induction srcs arbitrary: rem tails)
  case (Cons s rest)
  obtain l gs where s: "s = (l, gs)" by (cases s)
  let ?eff = "min (case map_of allocs l of Some a \<Rightarrow> a | None \<Rightarrow> rem div max n 1) rem"
  obtain keep used where b: "budget_prefix E ?eff 0 0 gs = (keep, used)" by (cases "budget_prefix E ?eff 0 0 gs")
  show ?case
    using Cons.IH [of "rem - used" "bt_remove l tails"] budget_prefix_grows [OF b]
    by (auto simp: s b Let_def)
qed simp

lemma cap_sources_nonempty:
  "(\<And>n. 0 < n \<Longrightarrow> 0 < cap n) \<Longrightarrow> cap_sources cap srcs ts = (srcs', tails) \<Longrightarrow>
    list_all2 (\<lambda>(l, gs) (l', gs'). gs \<noteq> [] \<longrightarrow> gs' \<noteq> []) srcs srcs'"
proof (induction cap srcs ts arbitrary: srcs' rule: cap_sources.induct)
  case (2 cap l gs rest ts)
  let ?ts = "if drop (cap (length gs)) gs = [] then ts else bt_insert l (drop (cap (length gs)) gs) ts"
  obtain rest' where rest: "cap_sources cap rest ?ts = (rest', tails)" and srcs': "srcs' = (l, take (cap (length gs)) gs) # rest'"
    using 2(3) by (auto simp: Let_def split: prod.splits)
  have "take (cap (length gs)) gs \<noteq> []" if "gs \<noteq> []"
    using 2(2) [of "length gs"] that by simp
  then show ?case using 2(1) [OF refl refl 2(2) rest] by (simp add: srcs')
qed auto

lemma cap_nonempty:
  assumes "cap_grains_total E most srcs = (srcs', tails)"
  shows "list_all2 (\<lambda>(l, gs) (l', gs'). gs \<noteq> [] \<longrightarrow> gs' \<noteq> []) srcs srcs'"
proof (cases "source_total srcs \<le> most")
  case False
  have "0 < source_cap E most (source_total srcs) n" if "0 < n" for n
    using that by (simp add: source_cap_def)
  from cap_sources_nonempty [OF this] show ?thesis
    using False assms by (auto simp: cap_grains_total_def)
qed (use assms in \<open>auto simp: cap_grains_total_def list_all2_same\<close>)

lemma budget_full:
  assumes "distinct (map fst srcs)"
  shows "list_all (part_full E (most < source_total srcs)) (budget_sources E a (cap_grains_total E most srcs))"
proof (cases "source_total srcs \<le> most")
  case True
  then show ?thesis by (simp add: cap_grains_total_def budget_sources_def trim_full)
next
  case False
  obtain capped tails where c: "cap_grains_total E most srcs = (capped, tails)" by (cases "cap_grains_total E most srcs")
  let ?parts = "budget_sources E a (cap_grains_total E most srcs)"
  have "list_all2 (\<lambda>(l, gs) part. gs \<noteq> [] \<longrightarrow> fst part \<noteq> []) capped ?parts"
    unfolding c budget_sources_def prod.case by (rule trim_nonempty)
  from list_all2_trans [OF _ cap_nonempty [OF c] this]
  have kept: "list_all2 (\<lambda>(l, gs) part. gs \<noteq> [] \<longrightarrow> fst part \<noteq> []) srcs ?parts" by fastforce
  have found: "list_all2 (\<lambda>(l, gs) part. part_grains part = gs) srcs ?parts"
    using budget_parts [OF assms, of E a most] by (rule list_all2_mono) auto
  have "part_full E True (?parts ! i)" if "i < length ?parts" for i
  proof -
    have i: "i < length srcs" using that list_all2_lengthD [OF kept] by simp
    show ?thesis
      by (rule part_full_capped [of _ "snd (srcs ! i)"])
        (use list_all2_nthD [OF found i] list_all2_nthD [OF kept i] in \<open>auto simp: case_prod_beta\<close>)
  qed
  then show ?thesis using False by (simp add: list_all_length)
qed

text \<open>
  C27. The engine of \<^verbatim>\<open>ASSEMBLE\<close> accounts for everything that its sources found. Without \<^verbatim>\<open>WITH\<close>
  and with distinct labels there is one part for every source, in order; what is kept of a
  source, followed by what is reported as omitted, is a subsequence of what it found; over all
  parts no address occurs twice, and those of the first sources are exactly the addresses these
  sources found, so a grain stays with the first source that found it. A source stays within
  its allocation or keeps a single grain; what it leaves out comes after a kept grain, and the
  next grain would not have fit, unless the sources found more than 2000 grains; and the total exceeds the budget by no more than
  these single grains exceed their allocations.
\<close>

theorem assemble_accounts:
  assumes "extract_dedup_field (as_assemble_with a) = None" and "distinct (map fst results)"
  shows "\<exists>parts. fst (merge_sources E F a results st) = Inr (assembled a parts)
    \<and> list_all2 (\<lambda>(l, gs) part. sm_label (snd part) = l \<and> part_ok E part \<and> subseq (part_grains part) gs) results parts
    \<and> distinct (map cg_hash (concat (map part_grains parts)))
    \<and> (\<forall>i. cg_hash ` set (concat (map part_grains (take i parts))) = set (source_hashes (take i results)))
    \<and> list_all (part_full E (MAX_GRAINS_POST_DEDUP < length (concat (map part_grains parts)))) parts
    \<and> sum_list (map (sm_tokens_used \<circ> snd) parts) \<le> budget_of a + sum_list (map (overrun \<circ> snd) parts)"
proof -
  let ?srcs = "dedup_by_hash [] results"
  define parts where "parts = budget_sources E a (cap_grains_total E MAX_GRAINS_POST_DEDUP ?srcs)"
  have run: "fst (merge_sources E F a results st) = Inr (assembled a parts)"
    by (simp add: merge_sources_def dedup_sources_def assms(1) Let_def xbind_def xret_def xwarn_def xput_def parts_def)
  have d: "distinct (map fst ?srcs)" using assms(2) by (simp add: dedup_labels)
  then have p: "list_all2 (\<lambda>(l, gs) part. sm_label (snd part) = l \<and> part_ok E part \<and> part_grains part = gs) ?srcs parts"
    unfolding parts_def by (rule budget_parts)
  then have "map snd ?srcs = map part_grains parts" by (rule list_all2_maps) auto
  note grains = this [symmetric]
  have 1: "list_all2 (\<lambda>(l, gs) part. sm_label (snd part) = l \<and> part_ok E part \<and> subseq (part_grains part) gs) results parts"
    by (rule list_all2_trans [OF _ dedup_sources_of [of results "[]"] p]) auto
  have 2: "distinct (map cg_hash (concat (map part_grains parts)))"
    using dedup_distinct [of "[]" results] by (simp add: grains source_hashes_def)
  have 3: "cg_hash ` set (concat (map part_grains (take i parts))) = set (source_hashes (take i results))" for i
  proof -
    have "map part_grains (take i parts) = map snd (dedup_by_hash [] (take i results))"
      by (simp add: take_map [symmetric] grains dedup_take)
    then show ?thesis using dedup_hashes [of "[]" "take i results"] by (simp add: source_hashes_def)
  qed
  have 4: "sum_list (map (sm_tokens_used \<circ> snd) parts) \<le> budget_of a + sum_list (map (overrun \<circ> snd) parts)"
    unfolding parts_def budget_sources_def by (cases "cap_grains_total E MAX_GRAINS_POST_DEDUP ?srcs") (simp add: trim_total)
  have "source_total ?srcs = length (concat (map part_grains parts))"
    by (simp add: grains source_total_def length_concat comp_def)
  with budget_full [OF d, of E MAX_GRAINS_POST_DEDUP a]
  have 5: "list_all (part_full E (MAX_GRAINS_POST_DEDUP < length (concat (map part_grains parts)))) parts"
    by (simp add: parts_def)
  show ?thesis using run 1 2 3 4 5 by blast
qed

text \<open>Two sources that share a grain, and a budget for one of them.\<close>

definition demo_assemble :: "statement assemble_stmt" where
  "demo_assemble = AssembleStmt ''t'' (SrcHashes []) None None None (Some \<lparr>bg_tokens = 1, bg_unit = BuTokens, bg_span = None\<rparr>) None None None [] [] False None"

definition demo_found :: sourced where
  "demo_found = [(''a'', [grain0 ''x'' [], grain0 ''y'' []]), (''b'', [grain0 ''x'' [], grain0 ''z'' []])]"

lemma assemble_accounts_witness:
  "\<exists>parts. fst (merge_sources exec_env0 counting demo_assemble demo_found (0, [])) = Inr (assembled demo_assemble parts)
    \<and> cg_hash ` set (concat (map part_grains (take 1 parts))) = {''x'', ''y''}
    \<and> cg_hash ` set (concat (map part_grains (take 2 parts))) = {''x'', ''y'', ''z''}"
proof -
  have a: "extract_dedup_field (as_assemble_with demo_assemble) = None" and d: "distinct (map fst demo_found)"
    by (simp_all add: extract_dedup_field_def demo_assemble_def demo_found_def)
  have "set (source_hashes (take 1 demo_found)) = {''x'', ''y''}" "set (source_hashes (take 2 demo_found)) = {''x'', ''y'', ''z''}"
    by (auto simp: demo_found_def grain0_def)
  moreover obtain parts where "fst (merge_sources exec_env0 counting demo_assemble demo_found (0, [])) = Inr (assembled demo_assemble parts)"
    and "\<forall>i. cg_hash ` set (concat (map part_grains (take i parts))) = set (source_hashes (take i demo_found))"
    using assemble_accounts [OF a d, of exec_env0 counting "(0, [])"] by blast
  ultimately show ?thesis by (intro exI [of _ parts]) simp
qed

end
