(* ===== verification/Spec2Isabelle.thy ===== *)
theory Spec2Isabelle
  imports Core_Error Grain_Registry Mg_Header Field_Map Msgpack_Guard Json Wire_Value
    Store_Db Store_Prep Store_Write Store_Import Store_Inv Store_Frame Store_Ok Store_Demo
    Store_Props Store_Replica Store_Diverge Authz
    Loop_Model Loop_Rec Loop_Policy Loop_Config Loop_Substrate Loop_Cal Loop_Queue Loop_Llm
    Loop_Engine Loop_Life Loop_History Loop_Cooldown Loop_Demo Loop_Props
    Cal_Error Cal_Lexer Cal_Lex_Props Cal_Ast Cal_Parse Cal_Cond Cal_Clauses Cal_Recall
    Cal_Writes Cal_Classify Cal_Query Cal_Query_Props Cal_Limits Cal_Read_Only
    Cal_Grains Cal_Facade Cal_Exec_Read Cal_Pipeline Cal_Assemble Cal_Exec Cal_Run Cal_Grains_Props
    Cal_Confine Cal_Exec_Props Cal_Exec_Ends
    Cal_Where_Props Cal_Assemble_Props
begin

text \<open>
  DejaDB, a content-addressed, append-only memory database for agents, written in Rust
  (\<^verbatim>\<open>src/crates\<close>). A grain is a typed record (fact, event, goal, ...) that is written once as a
  \<^verbatim>\<open>.mg\<close> blob and named by its SHA-256 digest. This library models the format of the blobs, the
  store that keeps them, the query language CAL from its text to its result, and the governed
  self-improvement loop that proposes changes to a memory; file names below are relative to
  \<^verbatim>\<open>src/crates\<close>.

  How the parts interact. The store prepares a grain with the value layer and the header,
  and changes its tables in transactions. The executor of CAL parses a query, checks the scope
  of the caller and the caps of the session, and calls the store through a facade. The loop
  reads a memory and changes it through a substrate, which may run CAL. The facade and the
  substrate are interfaces in the program (traits) and in the model: records of operations on
  a state of any type, so that what is proved of the executor and of the loop holds for every
  store behind them. Where a proof needs laws of the substrate they are the locales
  \<open>state_store\<close> and \<open>grain_store\<close>, discharged on \<^verbatim>\<open>deja-loop/src/reference.rs\<close>.

  Formats and authorization (\<^verbatim>\<open>dejadb-core/src\<close>):
  \<^item> \<^verbatim>\<open>Prelude\<close>: results, Rust's string operations, \<^verbatim>\<open>BTreeMap\<close> as sorted association lists.
  \<^item> \<^verbatim>\<open>Core_Error\<close>, \<^verbatim>\<open>Grain_Registry\<close>, \<^verbatim>\<open>Mg_Header\<close>, \<^verbatim>\<open>Field_Map\<close>: \<^verbatim>\<open>error.rs\<close>, \<^verbatim>\<open>types/registry.rs\<close>
    and \<^verbatim>\<open>types/grain.rs\<close>, \<^verbatim>\<open>format/header.rs\<close>, \<^verbatim>\<open>format/field_map.rs\<close>.
  \<^item> \<^verbatim>\<open>Json\<close>, \<^verbatim>\<open>Wire_Value\<close>, \<^verbatim>\<open>Msgpack_Guard\<close>: JSON values, \<^verbatim>\<open>format/serialize.rs\<close> and
    \<^verbatim>\<open>format/deserialize.rs\<close>: the round trip through a blob, and the guard against deep or
    truncated framing, equal to an inductive grammar of framing (\<open>guard_iff_framed\<close>).
  \<^item> \<^verbatim>\<open>Authz\<close>: \<^verbatim>\<open>authz.rs\<close>, with the resolution of bearer tokens (\<open>resolve_iff_authenticated\<close>).

  The store (\<^verbatim>\<open>dejadb-store/src/lib.rs\<close>, \<^verbatim>\<open>db.rs\<close>):
  \<^item> \<^verbatim>\<open>Store_Db\<close>, \<^verbatim>\<open>Store_Prep\<close>, \<^verbatim>\<open>Store_Write\<close>, \<^verbatim>\<open>Store_Import\<close>: tables and statements, the
    preparation of a grain, the local operations (add, supersede, forget, merge), replication.
    An operation takes the handle to a result and a handle; a transaction that fails leaves
    the tables as they were.
  \<^item> \<^verbatim>\<open>Store_Inv\<close>, \<^verbatim>\<open>Store_Frame\<close>, \<^verbatim>\<open>Store_Ok\<close>: the invariant of a store and its preservation by
    every local operation, successful or not, as an invariant of the reachable states.
  \<^item> \<^verbatim>\<open>Store_Props\<close>, \<^verbatim>\<open>Store_Replica\<close>, \<^verbatim>\<open>Store_Diverge\<close>: what each operation promises, on all
    tables; that the value of a cell is its best tip; and a replica for which it is not.
    \<^verbatim>\<open>Store_Demo\<close> is a concrete codec with four grains.

  The self-improvement loop (\<^verbatim>\<open>deja-loop/src\<close>):
  \<^item> \<^verbatim>\<open>Loop_Model\<close>, \<^verbatim>\<open>Loop_Rec\<close>, \<^verbatim>\<open>Loop_Policy\<close>, \<^verbatim>\<open>Loop_Config\<close>: \<^verbatim>\<open>model.rs\<close> and \<^verbatim>\<open>error.rs\<close>;
    \<^verbatim>\<open>recommendation.rs\<close>; \<^verbatim>\<open>manifest.rs\<close> and \<^verbatim>\<open>policy.rs\<close>; \<^verbatim>\<open>config.rs\<close>.
  \<^item> \<^verbatim>\<open>Loop_Substrate\<close>, \<^verbatim>\<open>Loop_Cal\<close>: \<^verbatim>\<open>substrate.rs\<close> and \<^verbatim>\<open>reference.rs\<close>; \<^verbatim>\<open>cal.rs\<close>.
  \<^item> \<^verbatim>\<open>Loop_Queue\<close>, \<^verbatim>\<open>Loop_Llm\<close>, \<^verbatim>\<open>Loop_Engine\<close>: \<^verbatim>\<open>engine.rs\<close>, \<^verbatim>\<open>analyzer.rs\<close> and \<^verbatim>\<open>llm.rs\<close>: the runs
    and their model stages, and review, apply, rollback, outcomes and configuration. Analyzers,
    models and the memory are arguments.
  \<^item> \<^verbatim>\<open>Loop_Life\<close>, \<^verbatim>\<open>Loop_History\<close>, \<^verbatim>\<open>Loop_Cooldown\<close>: lemmas about the stored state over any
    sequence of operations, histories with their grants, and what may happen after a
    rejection. \<^verbatim>\<open>Loop_Demo\<close>, \<^verbatim>\<open>Loop_Props\<close>: the properties, instantiated on a small loop.

  The query language (\<^verbatim>\<open>dejadb-cal/src\<close>):
  \<^item> \<^verbatim>\<open>Cal_Error\<close>, \<^verbatim>\<open>Cal_Lexer\<close>, \<^verbatim>\<open>Cal_Ast\<close>: \<^verbatim>\<open>errors.rs\<close>, \<^verbatim>\<open>lexer.rs\<close>, \<^verbatim>\<open>ast.rs\<close>. \<^verbatim>\<open>Cal_Lex_Props\<close>:
    tokens are well formed, stand where their spans say, and survive printing.
  \<^item> \<^verbatim>\<open>Cal_Parse\<close>, \<^verbatim>\<open>Cal_Cond\<close>, \<^verbatim>\<open>Cal_Clauses\<close>, \<^verbatim>\<open>Cal_Recall\<close>, \<^verbatim>\<open>Cal_Writes\<close>, \<^verbatim>\<open>Cal_Query\<close>:
    \<^verbatim>\<open>parser.rs\<close> and \<^verbatim>\<open>relations.rs\<close>, one definition per function. Beside each group stand the
    lemmas that it consumes input; \<^verbatim>\<open>Cal_Query_Props\<close> closes the recursion (parsing ends),
    \<^verbatim>\<open>Cal_Limits\<close> is a second logic over the same parsers (what parses is within the limits).
  \<^item> \<^verbatim>\<open>Cal_Classify\<close>, \<^verbatim>\<open>Cal_Read_Only\<close>: \<^verbatim>\<open>classify.rs\<close>, the read-only check of saved queries and
    the scope table; how they relate, and what all of them miss.
  \<^item> \<^verbatim>\<open>Cal_Grains\<close>, \<^verbatim>\<open>Cal_Pipeline\<close>, \<^verbatim>\<open>Cal_Grains_Props\<close>: recalled grains: conditions, order,
    groups, projections, set operations (\<^verbatim>\<open>executor.rs\<close>).
  \<^item> \<^verbatim>\<open>Cal_Facade\<close>, \<^verbatim>\<open>Cal_Exec_Read\<close>, \<^verbatim>\<open>Cal_Exec\<close>, \<^verbatim>\<open>Cal_Run\<close>: \<^verbatim>\<open>facade.rs\<close>, \<^verbatim>\<open>governance.rs\<close>,
    \<^verbatim>\<open>store_types.rs\<close>, \<^verbatim>\<open>queries.rs\<close> and \<^verbatim>\<open>executor.rs\<close>: the reads, the writes, and the statements
    that hold statements, up to \<^verbatim>\<open>execute\<close>. \<^verbatim>\<open>Cal_Assemble\<close>: the engine of \<^verbatim>\<open>assemble.rs\<close> and the
    handler of \<^verbatim>\<open>ASSEMBLE\<close>.
  \<^item> \<^verbatim>\<open>Cal_Confine\<close>, \<^verbatim>\<open>Cal_Exec_Props\<close>: a logic of steps that keep a property of the store, and
    what scopes, caps and tokens confine. \<^verbatim>\<open>Cal_Exec_Ends\<close>: when execution ends, and what
    batches, set operations, \<^verbatim>\<open>LET\<close> and \<^verbatim>\<open>EXPLAIN\<close> promise. \<^verbatim>\<open>Cal_Where_Props\<close>: which of the
    recalled grains \<^verbatim>\<open>RECALL ... WHERE\<close> answers. \<^verbatim>\<open>Cal_Assemble_Props\<close>: an assembly accounts for
    every address and exceeds its budget by single grains only.

  Conventions. Errors are values (\<open>Inl\<close>), and a panic of the code is an error of its own. A
  Rust string is a list of characters U+0000 to U+00FF; the raw text of a query is a list of
  scalar values without that restriction, and \<^verbatim>\<open>ce_nfc\<close> takes it to a string. Machine words
  have their width where the code computes on bits; 64-bit integers are \<open>int\<close> and counts are
  \<open>nat\<close>, with the wrap-around and the saturation of the code written out; a 64-bit float is a
  rational or one of the three non-finite values. Symbols outside Latin-1 in messages are
  written in ASCII.

  Bounds. The recursion of the parser is unrolled by the number of tokens, and each loop by
  the tokens left and once more; \<open>parse_terminates\<close> shows that this always suffices, so that
  \<open>CeStuck\<close> is the answer to no text. \<open>execute\<close> has a number of levels for the recursion over
  statements and saved queries; \<open>query_terminates\<close> shows that the size of the largest statement
  suffices without \<^verbatim>\<open>RUN\<close>, and \<open>run_never_ends\<close> that no number suffices for a saved query that
  runs itself. All other functions are total with proved termination.

  Parameters. What is not under \<^verbatim>\<open>src\<close> or is the host's: SHA-256, the hex and COSE crates, the
  msgpack encoder and decoder, Unicode normalization (\<open>core_env\<close>, \<open>cal_env\<close>); the rounding of
  decimal literals and of conversions to 64-bit floats, \<^verbatim>\<open>f64::powi\<close> and the texts of floats; \<^verbatim>\<open>serde_json\<close>'s texts and
  parsing (\<open>loop_env\<close>, \<open>exec_env\<close>); the order of a \<^verbatim>\<open>HashMap\<close> and the extent of an unrecognised
  token; the host's embedder (\<open>store_env\<close>); the clock and the counter behind the sampling of
  manifests, the renderers of \<^verbatim>\<open>FORMAT\<close>, and \<^verbatim>\<open>DESCRIBE\<close> (\<open>exec_parts\<close>); the store behind the
  facade, the governance host, analyzers and models. Theorems assume of them at most documented
  behaviour, such as that the msgpack decoder reads what the encoder wrote, and a witness
  instantiates each assumption.

  Not modelled: of \<^verbatim>\<open>dejadb-store\<close>, opening a file and its lock, recall and search, subject
  erasure and retention, the blob sidecar, telemetry and the export of bundles (I/O and ranking
  around the write path), and the PostgreSQL backend, migration and services; the typed builders
  of grains (\<^verbatim>\<open>types/*.rs\<close>) and tool schemas, which produce the field maps the model starts from;
  of \<^verbatim>\<open>dejadb-cal\<close>, the template engine and JSON builders, the adapter \<^verbatim>\<open>dejadb_facade.rs\<close>, and
  the reranking behind cargo features; the built-in analyzers and the child processes of the
  loop, and its adapter to the store (\<^verbatim>\<open>dejadb-loop\<close>); \<^verbatim>\<open>dejadb-context\<close>; and the command line,
  servers, bindings, model clients and benchmarks, which are input and output.
\<close>

end
